(* ===== verification/Prelude.thy ===== *)
theory Prelude
  imports Main "HOL-Library.Sublist"
begin

text \<open>
  Prelude of the development: what the TypeScript sources use of the language's
  strings, arrays and nullable values, as executable HOL functions, with the
  generic lemmas the component theories share.

  A JavaScript string is a HOL string; a character outside ASCII is the bytes of its UTF-8
  encoding (the abbreviations below), so case conversion and trimming act on the ASCII
  range only.  A value of type \<open>T | undefined\<close> or \<open>T | null\<close> is an option.
  A failing operation returns \<open>Inl\<close> of its error, a normal return is \<open>Inr\<close>.
\<close>

named_theorems js_simps "defining equations of the string and array helpers"
named_theorems guard_simps "the guards and error branches of the handlers"

section \<open>UTF-8 punctuation used by the string literals of the sources\<close>

abbreviation em_dash :: string where "em_dash \<equiv> [CHR 0xE2, CHR 0x80, CHR 0x94]"
abbreviation en_dash :: string where "en_dash \<equiv> [CHR 0xE2, CHR 0x80, CHR 0x93]"
abbreviation mid_dot :: string where "mid_dot \<equiv> [CHR 0xC2, CHR 0xB7]"
abbreviation bullet :: string where "bullet \<equiv> [CHR 0xE2, CHR 0x80, CHR 0xA2]"
abbreviation minus_sign :: string where "minus_sign \<equiv> [CHR 0xE2, CHR 0x88, CHR 0x92]"
abbreviation arrow_sign :: string where "arrow_sign \<equiv> [CHR 0xE2, CHR 0x86, CHR 0x92]"
abbreviation ldquo :: string where "ldquo \<equiv> [CHR 0xE2, CHR 0x80, CHR 0x9C]"
abbreviation rdquo :: string where "rdquo \<equiv> [CHR 0xE2, CHR 0x80, CHR 0x9D]"
abbreviation ge_sign :: string where "ge_sign \<equiv> [CHR 0xE2, CHR 0x89, CHR 0xA5]"

section \<open>Characters and strings\<close>

definition char_lower :: "char \<Rightarrow> char" where
  "char_lower c =
     (if 65 \<le> (of_char c :: nat) \<and> (of_char c :: nat) \<le> 90
      then char_of (of_char c + 32 :: nat) else c)"

definition char_upper :: "char \<Rightarrow> char" where
  "char_upper c =
     (if 97 \<le> (of_char c :: nat) \<and> (of_char c :: nat) \<le> 122
      then char_of (of_char c - 32 :: nat) else c)"

text \<open>\<open>s.toLowerCase()\<close> and \<open>s.toUpperCase()\<close>.\<close>

definition str_lower :: "string \<Rightarrow> string" where
  "str_lower s = map char_lower s"

definition str_upper :: "string \<Rightarrow> string" where
  "str_upper s = map char_upper s"

definition is_space :: "char \<Rightarrow> bool" where
  "is_space c \<longleftrightarrow> (of_char c :: nat) \<in> {9, 10, 11, 12, 13, 32}"

text \<open>\<open>s.trim()\<close>.\<close>

definition str_trim :: "string \<Rightarrow> string" where
  "str_trim s = rev (dropWhile is_space (rev (dropWhile is_space s)))"

text \<open>\<open>s.startsWith(p)\<close>, \<open>s.endsWith(p)\<close> and \<open>s.includes(p)\<close>.\<close>

definition starts_with :: "string \<Rightarrow> string \<Rightarrow> bool" where
  "starts_with s p \<longleftrightarrow> take (length p) s = p"

definition ends_with :: "string \<Rightarrow> string \<Rightarrow> bool" where
  "ends_with s p \<longleftrightarrow> starts_with (rev s) (rev p)"

fun str_includes :: "string \<Rightarrow> string \<Rightarrow> bool" where
  "str_includes [] p = (p = [])"
| "str_includes (c # s) p = (starts_with (c # s) p \<or> str_includes s p)"

text \<open>\<open>a || b\<close> on strings (the empty string is falsy), and on nullable strings.\<close>

definition or_str :: "string \<Rightarrow> string \<Rightarrow> string" where
  "or_str a b = (if a = [] then b else a)"

definition or_opt :: "string option \<Rightarrow> string \<Rightarrow> string" where
  "or_opt a b = (case a of None \<Rightarrow> b | Some s \<Rightarrow> or_str s b)"

text \<open>\<open>Boolean(a)\<close> of a nullable string, and \<open>a ?? b\<close>.\<close>

definition truthy_opt :: "string option \<Rightarrow> bool" where
  "truthy_opt a \<longleftrightarrow> (\<exists>s. a = Some s \<and> s \<noteq> [])"

definition nullish :: "'a option \<Rightarrow> 'a \<Rightarrow> 'a" where
  "nullish a b = (case a of None \<Rightarrow> b | Some x \<Rightarrow> x)"

lemma truthy_opt_code [code]:
  "truthy_opt a = (case a of None \<Rightarrow> False | Some s \<Rightarrow> s \<noteq> [])"
  by (auto simp: truthy_opt_def split: option.splits)

text \<open>\<open>s.replace(/c+$/, '')\<close>: drops the trailing run of one character.\<close>

definition strip_end :: "char \<Rightarrow> string \<Rightarrow> string" where
  "strip_end c s = rev (dropWhile (\<lambda>d. d = c) (rev s))"

text \<open>\<open>s.split(c)\<close> for one separating character.\<close>

fun split_on :: "char \<Rightarrow> string \<Rightarrow> string list" where
  "split_on c [] = [[]]"
| "split_on c (d # s) =
     (if d = c then [] # split_on c s
      else (case split_on c s of [] \<Rightarrow> [[d]] | w # ws \<Rightarrow> (d # w) # ws))"

text \<open>\<open>ws.join(sep)\<close>.\<close>

fun str_join :: "string \<Rightarrow> string list \<Rightarrow> string" where
  "str_join sep [] = []"
| "str_join sep [w] = w"
| "str_join sep (w # ws) = w @ sep @ str_join sep ws"

definition is_digit :: "char \<Rightarrow> bool" where
  "is_digit c \<longleftrightarrow> 48 \<le> (of_char c :: nat) \<and> (of_char c :: nat) \<le> 57"

definition is_lower_alnum :: "char \<Rightarrow> bool" where
  "is_lower_alnum c \<longleftrightarrow> is_digit c \<or> (97 \<le> (of_char c :: nat) \<and> (of_char c :: nat) \<le> 122)"

section \<open>Numerals in template literals\<close>

text \<open>The digit of a value below 36, as \<open>n.toString(36)\<close> writes it.\<close>

definition digit_char :: "nat \<Rightarrow> char" where
  "digit_char d = (if d < 10 then char_of (48 + d) else char_of (87 + d))"

text \<open>\<open>n.toString(b)\<close> of a natural number, for a base from 2 to 36.\<close>

fun nat_str_base :: "nat \<Rightarrow> nat \<Rightarrow> string" where
  "nat_str_base b n =
     (if b < 2 \<or> n < b then [digit_char n]
      else nat_str_base b (n div b) @ [digit_char (n mod b)])"

declare nat_str_base.simps [simp del]

definition nat_str :: "nat \<Rightarrow> string" where
  "nat_str n = nat_str_base 10 n"

text \<open>\<open>s.padStart(w, '0')\<close>.\<close>

definition pad_zero :: "nat \<Rightarrow> string \<Rightarrow> string" where
  "pad_zero w s = replicate (w - length s) (CHR ''0'') @ s"

section \<open>Arrays and dictionaries\<close>

text \<open>\<open>xs.findIndex(p)\<close>, with \<open>-1\<close> when no element satisfies \<open>p\<close>.\<close>

fun find_index_from :: "nat \<Rightarrow> (nat \<Rightarrow> 'a \<Rightarrow> bool) \<Rightarrow> 'a list \<Rightarrow> int" where
  "find_index_from i p [] = - 1"
| "find_index_from i p (x # xs) = (if p i x then int i else find_index_from (Suc i) p xs)"

text \<open>\<open>xs.filter(p).length\<close>.\<close>

definition count_if :: "('a \<Rightarrow> bool) \<Rightarrow> 'a list \<Rightarrow> nat" where
  "count_if p xs = length (filter p xs)"

text \<open>The members an object literal inherits from \<open>Object.prototype\<close> whose names
  are lower case: \<open>o[k]\<close> is truthy for them although \<open>o\<close> has no such key.\<close>

definition proto_keys :: "string list" where
  "proto_keys = [''constructor'', ''__proto__'']"

text \<open>All the names an object literal inherits from \<open>Object.prototype\<close>.\<close>

definition inherited_members :: "string list" where
  "inherited_members =
     [''constructor'', ''__proto__'', ''hasOwnProperty'', ''isPrototypeOf'', ''propertyIsEnumerable'',
      ''toLocaleString'', ''toString'', ''valueOf'', ''__defineGetter__'', ''__defineSetter__'',
      ''__lookupGetter__'', ''__lookupSetter__'']"

section \<open>Lemmas\<close>

lemma of_char_lt [simp]: "(of_char c :: nat) < 256"
  using of_char_mod_256 [of c, where 'a = nat] by (metis mod_less_divisor zero_less_numeral)

lemma of_char_char_of [simp]: "n < 256 \<Longrightarrow> (of_char (char_of (n :: nat)) :: nat) = n"
  by simp

lemma char_lower_idem [simp]: "char_lower (char_lower c) = char_lower c"
  by (auto simp: char_lower_def)

lemma str_lower_idem [simp]: "str_lower (str_lower s) = str_lower s"
  by (simp add: str_lower_def)

lemma str_lower_Nil [simp]: "str_lower [] = []"
  by (simp add: str_lower_def)

lemma str_lower_eq_Nil [simp]: "str_lower s = [] \<longleftrightarrow> s = []"
  by (simp add: str_lower_def)

lemma starts_with_append [simp]: "starts_with (p @ s) p"
  by (simp add: starts_with_def)

lemma starts_with_iff: "starts_with s p \<longleftrightarrow> (\<exists>t. s = p @ t)"
  by (metis append_eq_conv_conj append_take_drop_id starts_with_def)

lemma ends_with_iff: "ends_with s p \<longleftrightarrow> (\<exists>t. s = t @ p)"
proof -
  have "ends_with s p \<longleftrightarrow> (\<exists>u. rev s = rev p @ u)"
    by (simp add: ends_with_def starts_with_iff)
  also have "\<dots> \<longleftrightarrow> (\<exists>t. s = t @ p)"
    by (metis rev_append rev_rev_ident)
  finally show ?thesis .
qed

lemma ends_with_append [simp]: "ends_with (s @ p) p"
  by (auto simp: ends_with_iff)

lemma str_includes_iff: "str_includes s p \<longleftrightarrow> (\<exists>a b. s = a @ p @ b)"
proof (induction s)
  case Nil
  then show ?case by auto
next
  case (Cons c s)
  have "(\<exists>a b. c # s = a @ p @ b) \<longleftrightarrow> (\<exists>b. c # s = p @ b) \<or> (\<exists>a b. s = a @ p @ b)"
    by (metis append_Cons append_Nil list.exhaust list.inject)
  with Cons.IH show ?case by (simp add: starts_with_iff)
qed

lemma str_includes_Nil [simp]: "str_includes s []"
  by (cases s) (simp_all add: starts_with_def)

lemma strip_end_idem [simp]: "strip_end c (strip_end c s) = strip_end c s"
proof -
  have "dropWhile P (dropWhile P xs) = dropWhile P xs" for P and xs :: string
    by (induction xs) auto
  then show ?thesis by (simp add: strip_end_def)
qed

lemma strip_end_not_ends [simp]: "\<not> ends_with (strip_end c s) [c]"
proof
  assume "ends_with (strip_end c s) [c]"
  then obtain t where t: "strip_end c s = t @ [c]" by (auto simp: ends_with_iff)
  have "dropWhile (\<lambda>d. d = c) (rev s) = rev (strip_end c s)" by (simp add: strip_end_def)
  then have d: "dropWhile (\<lambda>d. d = c) (rev s) = c # rev t" by (simp add: t)
  then show False using hd_dropWhile [of "\<lambda>d. d = c" "rev s"] by simp
qed

lemma strip_end_id: "\<not> ends_with s [c] \<Longrightarrow> strip_end c s = s"
  by (cases s rule: rev_cases) (auto simp: strip_end_def ends_with_iff)

lemma or_str_simps [simp]:
  "or_str [] b = b" "a \<noteq> [] \<Longrightarrow> or_str a b = a" "or_str a a = a"
  by (simp_all add: or_str_def)

lemma or_opt_simps [simp]:
  "or_opt None b = b" "or_opt (Some s) b = or_str s b"
  by (simp_all add: or_opt_def)

lemma nullish_simps [simp]: "nullish None b = b" "nullish (Some x) b = x"
  by (simp_all add: nullish_def)

lemma truthy_opt_simps [simp]: "\<not> truthy_opt None" "truthy_opt (Some s) \<longleftrightarrow> s \<noteq> []"
  by (simp_all add: truthy_opt_def)

lemma digit_char_values [simp]:
  "digit_char 0 = CHR ''0''"
  "digit_char (Suc 0) = CHR ''1''"
  "digit_char 2 = CHR ''2''"
  "digit_char 3 = CHR ''3''"
  "digit_char 4 = CHR ''4''"
  "digit_char 5 = CHR ''5''"
  "digit_char 6 = CHR ''6''"
  "digit_char 7 = CHR ''7''"
  "digit_char 8 = CHR ''8''"
  "digit_char 9 = CHR ''9''"
  by code_simp+

lemma digit_char_inj: "d < 36 \<Longrightarrow> e < 36 \<Longrightarrow> digit_char d = digit_char e \<Longrightarrow> d = e"
proof -
  assume d: "d < 36" and e: "e < 36" and eq: "digit_char d = digit_char e"
  have val: "(of_char (digit_char k) :: nat) = (if k < 10 then 48 + k else 87 + k)" if "k < 36" for k
    using that unfolding digit_char_def by (cases "k < 10") (simp_all only: if_True if_False, simp_all)
  from eq have "(of_char (digit_char d) :: nat) = of_char (digit_char e)" by simp
  with val [OF d] val [OF e] d e show "d = e" by (simp split: if_splits)
qed

lemma nat_str_digits [simp]:
  "nat_str 0 = ''0''"
  "nat_str (Suc 0) = ''1''"
  "nat_str 2 = ''2''"
  "nat_str 3 = ''3''"
  "nat_str 4 = ''4''"
  "nat_str 5 = ''5''"
  "nat_str 6 = ''6''"
  "nat_str 7 = ''7''"
  "nat_str 8 = ''8''"
  "nat_str 9 = ''9''"
  by (simp_all add: nat_str_def nat_str_base.simps)

lemma nat_str_base_not_Nil [simp]: "nat_str_base b n \<noteq> []"
  by (subst nat_str_base.simps) simp

lemma nat_str_base_not_Nil' [simp]: "[] \<noteq> nat_str_base b n"
  using nat_str_base_not_Nil by metis

lemma nat_str_base_inj:
  assumes b: "2 \<le> b" "b \<le> 36"
  shows "nat_str_base b n = nat_str_base b m \<Longrightarrow> n = m"
proof (induction n arbitrary: m rule: less_induct)
  case (less n)
  note unfold = nat_str_base.simps [of b n] nat_str_base.simps [of b m]
  show ?case
  proof (cases "n < b \<longleftrightarrow> m < b")
    case False
    with less.prems b show ?thesis by (auto simp: unfold not_less)
  next
    case same: True
    show ?thesis
    proof (cases "n < b")
      case True
      with same less.prems b show ?thesis by (auto simp: unfold intro: digit_char_inj)
    next
      case False
      with same less.prems b
      have pre: "nat_str_base b (n div b) = nat_str_base b (m div b)"
        and dig: "digit_char (n mod b) = digit_char (m mod b)"
        by (auto simp: unfold)
      from False b have "n div b < n" by simp
      with pre have "n div b = m div b" by (rule less.IH [rotated])
      moreover have "n mod b < b" "m mod b < b" using b by simp_all
      then have "n mod b = m mod b"
        using b by (intro digit_char_inj [OF _ _ dig]) linarith+
      ultimately show ?thesis by (metis div_mult_mod_eq)
    qed
  qed
qed

lemma nat_str_inj [simp]: "nat_str n = nat_str m \<longleftrightarrow> n = m"
  unfolding nat_str_def by (auto dest: nat_str_base_inj [rotated 2])

lemma those_total: "list_all (\<lambda>x. f x \<noteq> None) xs \<Longrightarrow> those (map f xs) = Some (map (\<lambda>x. the (f x)) xs)"
  by (induction xs) auto

lemma count_if_le: "count_if p xs \<le> length xs"
  by (simp add: count_if_def)

lemma count_if_split: "count_if p xs + count_if (\<lambda>x. \<not> p x) xs = length xs"
  by (simp add: count_if_def sum_length_filter_compl)

lemma count_if_simps [simp]:
  "count_if p [] = 0" "count_if p (x # xs) = (if p x then Suc (count_if p xs) else count_if p xs)"
  "count_if p (xs @ ys) = count_if p xs + count_if p ys"
  by (simp_all add: count_if_def)

lemma find_index_from_bounds:
  "find_index_from i p xs = k \<Longrightarrow> k = - 1 \<or> (int i \<le> k \<and> k < int i + int (length xs))"
  by (induction i p xs rule: find_index_from.induct) (auto split: if_splits)

lemma filter_map_of_Some:
  "distinct (map fst xs) \<Longrightarrow> (k, v) \<in> set xs \<longleftrightarrow> map_of xs k = Some v"
  by (rule map_of_eq_Some_iff [symmetric])

lemma split_on_none: "c \<notin> set s \<Longrightarrow> split_on c s = [s]"
  by (induction s) auto

lemma split_on_append: "c \<notin> set s \<Longrightarrow> split_on c (s @ c # r) = s # split_on c r"
  by (induction s) auto

lemmas js_defs = or_str_def or_opt_def nullish_def starts_with_def ends_with_def
  str_lower_def str_trim_def is_space_def strip_end_def

lemma find_by_key:
  assumes "distinct (map f xs)" "x \<in> set xs"
  shows "find (\<lambda>y. f y = f x) xs = Some x"
  using assms by (induction xs) force+

end
