(* ===== verification/Convex_Store.thy ===== *)
theory Convex_Store
  imports Prelude
begin

text \<open>
  The Convex database as the handlers of integrations/convex see it.  The database is a
  service outside the repository, so its operations are a parameter: a record of the five
  calls the handlers make on one table.  \<open>t_rows\<close> is \<open>ctx.db.query(table).collect()\<close>
  in creation order; \<open>filter\<close> and \<open>withIndex ... eq\<close> select rows of it, which is how the
  handlers use them.  \<open>ctx.db.patch\<close> takes the record update that the patch object denotes.
  The locale states the documented behaviour of the calls, and the table of slots at the end is
  a concrete instance of it.
\<close>

record ('s, 'i, 'd) table =
  t_get :: "'s \<Rightarrow> 'i \<Rightarrow> 'd option"
  t_insert :: "'d \<Rightarrow> 's \<Rightarrow> 'i \<times> 's"
  t_patch :: "'i \<Rightarrow> ('d \<Rightarrow> 'd) \<Rightarrow> 's \<Rightarrow> 's"
  t_delete :: "'i \<Rightarrow> 's \<Rightarrow> 's"
  t_rows :: "'s \<Rightarrow> ('i \<times> 'd) list"

text \<open>\<open>query(...).withIndex/filter(...).collect()\<close> and \<open>....first()\<close>.\<close>

definition t_query :: "('s, 'i, 'd) table \<Rightarrow> ('d \<Rightarrow> bool) \<Rightarrow> 's \<Rightarrow> ('i \<times> 'd) list" where
  "t_query tb p s = filter (\<lambda>(i, d). p d) (t_rows tb s)"

definition t_first :: "('s, 'i, 'd) table \<Rightarrow> ('d \<Rightarrow> bool) \<Rightarrow> 's \<Rightarrow> ('i \<times> 'd) option" where
  "t_first tb p s = (case t_query tb p s of [] \<Rightarrow> None | r # _ \<Rightarrow> Some r)"

section \<open>The contract of a table\<close>

locale doc_table =
  fixes tb :: "('s, 'i, 'd) table"
  assumes distinct_rows: "distinct (map fst (t_rows tb s))"
    and get_rows: "t_get tb s i = map_of (t_rows tb s) i"
    and insert_fresh: "t_insert tb d s = (i, s') \<Longrightarrow> i \<notin> fst ` set (t_rows tb s)"
    and insert_rows: "t_insert tb d s = (i, s') \<Longrightarrow> t_rows tb s' = t_rows tb s @ [(i, d)]"
    and patch_rows: "t_get tb s i \<noteq> None \<Longrightarrow>
      t_rows tb (t_patch tb i u s) = map (\<lambda>(j, d). (j, if j = i then u d else d)) (t_rows tb s)"
    and delete_rows: "t_rows tb (t_delete tb i s) = filter (\<lambda>(j, d). j \<noteq> i) (t_rows tb s)"
begin

lemma get_in_rows: "t_get tb s i = Some d \<longleftrightarrow> (i, d) \<in> set (t_rows tb s)"
  by (simp add: get_rows distinct_rows)

lemma insert_get:
  assumes "t_insert tb d s = (i, s')"
  shows "t_get tb s' j = (if j = i then Some d else t_get tb s j)" and "t_get tb s i = None"
proof -
  have n: "map_of (t_rows tb s) i = None"
    using insert_fresh [OF assms] by (simp add: map_of_eq_None_iff)
  then show "t_get tb s i = None" by (simp add: get_rows)
  show "t_get tb s' j = (if j = i then Some d else t_get tb s j)"
    using n by (simp add: get_rows insert_rows [OF assms] map_add_def split: option.splits)
qed

lemma patch_get:
  assumes "t_get tb s i \<noteq> None"
  shows "t_get tb (t_patch tb i u s) j = (if j = i then map_option u (t_get tb s i) else t_get tb s j)"
proof -
  have "map_of (map (\<lambda>(j, d). (j, if j = i then u d else d)) xs) k =
      (if k = i then map_option u (map_of xs i) else map_of xs k)" for xs :: "('i \<times> 'd) list" and k
    by (induction xs) auto
  then show ?thesis by (simp add: get_rows patch_rows [OF assms])
qed

lemma delete_get: "t_get tb (t_delete tb i s) j = (if j = i then None else t_get tb s j)"
proof -
  have "map_of (filter (\<lambda>(j, d). j \<noteq> i) xs) k = (if k = i then None else map_of xs k)"
    for xs :: "('i \<times> 'd) list" and k
    by (induction xs) auto
  then show ?thesis by (simp add: get_rows delete_rows)
qed

lemma query_insert:
  "t_insert tb d s = (i, s') \<Longrightarrow> t_query tb p s' = t_query tb p s @ (if p d then [(i, d)] else [])"
  by (simp add: t_query_def insert_rows)

lemma query_patch_other:
  assumes "t_get tb s i = Some d" and "\<not> p d" and "\<not> p (u d)"
  shows "t_query tb p (t_patch tb i u s) = t_query tb p s"
proof -
  have rows: "\<forall>e. (i, e) \<in> set (t_rows tb s) \<longrightarrow> e = d"
    using assms(1) get_in_rows by (metis option.inject)
  have "filter (\<lambda>(j, d). p d) (map (\<lambda>(j, d). (j, if j = i then u d else d)) xs) =
      filter (\<lambda>(j, d). p d) xs" if "\<forall>e. (i, e) \<in> set xs \<longrightarrow> e = d" for xs
    using that
  proof (induction xs)
    case Nil
    then show ?case by simp
  next
    case (Cons x xs)
    with assms(2,3) show ?case by (cases x) auto
  qed
  from this [OF rows] show ?thesis
    using assms(1) by (simp add: t_query_def patch_rows)
qed

lemma query_delete_other:
  assumes "t_get tb s i = Some d" and "\<not> p d"
  shows "t_query tb p (t_delete tb i s) = t_query tb p s"
proof -
  have rows: "(j, e) \<in> set (t_rows tb s) \<Longrightarrow> p e \<Longrightarrow> j \<noteq> i" for j e
    using assms get_in_rows by (metis option.inject)
  then show ?thesis by (auto simp: t_query_def delete_rows intro!: filter_cong)
qed

lemma first_in_rows: "t_first tb p s = Some (i, d) \<Longrightarrow> t_get tb s i = Some d \<and> p d"
proof -
  assume "t_first tb p s = Some (i, d)"
  then have "(i, d) \<in> set (t_query tb p s)"
    by (auto simp: t_first_def split: list.splits)
  then show ?thesis by (auto simp: t_query_def get_in_rows)
qed

end

section \<open>A concrete table\<close>

text \<open>A list of slots, indexed by document number; a deleted document leaves an empty slot.\<close>

type_synonym 'd slots = "'d option list"

definition slot_rows :: "'d slots \<Rightarrow> (nat \<times> 'd) list" where
  "slot_rows s = List.map_filter (\<lambda>(i, d). map_option (Pair i) d) (enumerate 0 s)"

definition slot_get :: "'d slots \<Rightarrow> nat \<Rightarrow> 'd option" where
  "slot_get s i = (if i < length s then s ! i else None)"

definition slot_table :: "('d slots, nat, 'd) table" where
  "slot_table =
     \<lparr>t_get = slot_get,
      t_insert = (\<lambda>d s. (length s, s @ [Some d])),
      t_patch = (\<lambda>i u s. if i < length s then s[i := map_option u (s ! i)] else s),
      t_delete = (\<lambda>i s. if i < length s then s[i := None] else s),
      t_rows = slot_rows\<rparr>"

lemma slot_rows_snoc:
  "slot_rows (s @ [x]) = slot_rows s @ (case x of None \<Rightarrow> [] | Some d \<Rightarrow> [(length s, d)])"
  by (auto simp: slot_rows_def List.map_filter_def enumerate_append_eq split: option.splits)

lemma slot_rows_Nil [simp]: "slot_rows [] = []"
  by (simp add: slot_rows_def List.map_filter_def)

lemma slot_rows_in: "(i, d) \<in> set (slot_rows s) \<longleftrightarrow> slot_get s i = Some d"
proof (induction s rule: rev_induct)
  case Nil
  then show ?case by (simp add: slot_get_def)
next
  case (snoc x s)
  then show ?case
    by (auto simp: slot_rows_snoc slot_get_def nth_append less_Suc_eq split: option.splits if_splits)
qed

lemma slot_rows_distinct: "distinct (map fst (slot_rows s))"
proof (induction s rule: rev_induct)
  case Nil
  then show ?case by simp
next
  case (snoc x s)
  have "length s \<notin> fst ` set (slot_rows s)"
    by (auto simp: slot_rows_in slot_get_def)
  with snoc show ?case by (auto simp: slot_rows_snoc split: option.splits)
qed

lemma slot_rows_update:
  "i < length s \<Longrightarrow> slot_rows (s[i := map_option u (s ! i)]) =
     map (\<lambda>(j, d). (j, if j = i then u d else d)) (slot_rows s)"
proof (induction s rule: rev_induct)
  case Nil
  then show ?case by simp
next
  case (snoc x s)
  have other: "(j, d) \<in> set (slot_rows s) \<Longrightarrow> j < length s" for j d
    by (auto simp: slot_rows_in slot_get_def split: if_splits)
  show ?case
  proof (cases "i < length s")
    case True
    with snoc.IH show ?thesis
      by (auto simp: slot_rows_snoc nth_append list_update_append split: option.splits)
  next
    case False
    with snoc.prems have "i = length s" by simp
    moreover have "map (\<lambda>(j, d). (j, if j = length s then u d else d)) (slot_rows s) = slot_rows s"
      using other by (intro map_idI) force
    ultimately show ?thesis
      by (auto simp: slot_rows_snoc split: option.splits)
  qed
qed

lemma slot_rows_delete:
  "i < length s \<Longrightarrow> slot_rows (s[i := None]) = filter (\<lambda>(j, d). j \<noteq> i) (slot_rows s)"
proof (induction s rule: rev_induct)
  case Nil
  then show ?case by simp
next
  case (snoc x s)
  have other: "(j, d) \<in> set (slot_rows s) \<Longrightarrow> j < length s" for j d
    by (auto simp: slot_rows_in slot_get_def split: if_splits)
  show ?case
  proof (cases "i < length s")
    case True
    with snoc.IH show ?thesis
      by (auto simp: slot_rows_snoc list_update_append split: option.splits)
  next
    case False
    with snoc.prems have "i = length s" by simp
    moreover have "filter (\<lambda>(j, d). j \<noteq> length s) (slot_rows s) = slot_rows s"
      using other by (intro filter_True) force
    ultimately show ?thesis
      by (auto simp: slot_rows_snoc split: option.splits)
  qed
qed

interpretation slots: doc_table "slot_table :: ('d slots, nat, 'd) table"
proof
  fix s s' :: "'d slots" and i and d and u :: "'d \<Rightarrow> 'd"
  show "distinct (map fst (t_rows slot_table s))"
    by (simp add: slot_table_def slot_rows_distinct)
  show "t_get slot_table s i = map_of (t_rows slot_table s) i"
  proof (cases "slot_get s i")
    case None
    then have "i \<notin> fst ` set (slot_rows s)" by (force simp: slot_rows_in)
    with None show ?thesis by (simp add: slot_table_def map_of_eq_None_iff [THEN iffD2])
  next
    case (Some d)
    then show ?thesis
      using slot_rows_in [of i d s] slot_rows_distinct [of s] by (simp add: slot_table_def)
  qed
  show "i \<notin> fst ` set (t_rows slot_table s)" if "t_insert slot_table d s = (i, s')"
    using that by (force simp: slot_table_def slot_rows_in slot_get_def)
  show "t_rows slot_table s' = t_rows slot_table s @ [(i, d)]" if "t_insert slot_table d s = (i, s')"
    using that by (auto simp: slot_table_def slot_rows_snoc)
  show "t_rows slot_table (t_patch slot_table i u s) =
      map (\<lambda>(j, d). (j, if j = i then u d else d)) (t_rows slot_table s)"
    if "t_get slot_table s i \<noteq> None"
    using that by (auto simp: slot_table_def slot_get_def slot_rows_update split: if_splits)
  show "t_rows slot_table (t_delete slot_table i s) = filter (\<lambda>(j, d). j \<noteq> i) (t_rows slot_table s)"
  proof (cases "i < length s")
    case True
    then show ?thesis by (simp add: slot_table_def slot_rows_delete)
  next
    case False
    then have "filter (\<lambda>(j, d). j \<noteq> i) (slot_rows s) = slot_rows s"
      by (intro filter_True) (auto simp: slot_rows_in slot_get_def)
    with False show ?thesis by (simp add: slot_table_def)
  qed
qed

lemma slot_table_contract: "doc_table slot_table"
  by (rule slots.doc_table_axioms)

end
