(* ===== verification/Convex_Users.thy ===== *)
theory Convex_Users
  imports Convex_Store
begin

text \<open>
  integrations/convex/convex/users.ts: the caller's identity and the membership handlers.
  \<open>ctx.auth.getUserIdentity()\<close> is the argument \<open>auth\<close>; a thrown \<open>ConvexError\<close> is
  \<open>Inl\<close> of its message.  A handler takes the table of members, its state and the time
  \<open>Date.now()\<close>, and returns its result with the new state.
\<close>

section \<open>Identity\<close>

text \<open>The claims of the validated token: \<open>orgId\<close>, \<open>tenantId\<close> and \<open>role\<close> may be absent.\<close>

record claims =
  cl_subject :: string
  cl_email :: "string option"
  cl_orgId :: "string option"
  cl_tenantId :: "string option"
  cl_role :: "string option"

record identity =
  userId :: string
  orgId :: "string option"
  tenantId :: "string option"
  email :: "string option"
  role :: "string option"

definition requireIdentity :: "claims option \<Rightarrow> string + identity" where
  "requireIdentity auth =
     (case auth of
        None \<Rightarrow> Inl ''not authenticated''
      | Some c \<Rightarrow> Inr \<lparr>userId = cl_subject c, orgId = cl_orgId c, tenantId = cl_tenantId c,
                       email = cl_email c, role = cl_role c\<rparr>)"

definition requireOrgId :: "claims option \<Rightarrow> string + string" where
  "requireOrgId auth =
     (case requireIdentity auth of
        Inl e \<Rightarrow> Inl e
      | Inr c \<Rightarrow>
          (if \<not> truthy_opt (orgId c) then Inl ''caller is not a member of any organization''
           else Inr (the (orgId c))))"

section \<open>Members\<close>

datatype member_role = RAdmin | ROperator | RAnalyst | RViewer

record member =
  mb_orgId :: string
  mb_userId :: string
  mb_email :: string
  mb_name :: "string option"
  mb_role :: member_role
  mb_tenantId :: string
  mb_createdAt :: int
  mb_updatedAt :: int

record member_args =
  ma_userId :: string
  ma_email :: string
  ma_name :: "string option"
  ma_role :: member_role

definition me ::
  "('s, 'i, member) table \<Rightarrow> claims option \<Rightarrow> 's \<Rightarrow> string + ('i \<times> member) option" where
  "me tb auth s =
     (case requireIdentity auth of
        Inl e \<Rightarrow> Inl e
      | Inr c \<Rightarrow>
          (case t_first tb (\<lambda>m. mb_userId m = userId c) s of
             None \<Rightarrow> Inr None
           | Some (i, m) \<Rightarrow>
               (if truthy_opt (orgId c) \<and> orgId c \<noteq> Some (mb_orgId m) then Inr None
                else Inr (Some (i, m)))))"

definition listOrgMembers ::
  "('s, 'i, member) table \<Rightarrow> claims option \<Rightarrow> 's \<Rightarrow> string + ('i \<times> member) list" where
  "listOrgMembers tb auth s =
     (case requireOrgId auth of
        Inl e \<Rightarrow> Inl e
      | Inr org \<Rightarrow> Inr (t_query tb (\<lambda>m. mb_orgId m = org) s))"

definition createOrgMember ::
  "('s, 'i, member) table \<Rightarrow> int \<Rightarrow> claims option \<Rightarrow> member_args \<Rightarrow> 's \<Rightarrow> (string + 'i) \<times> 's" where
  "createOrgMember tb now auth args s =
     (case requireIdentity auth of
        Inl e \<Rightarrow> (Inl e, s)
      | Inr caller \<Rightarrow>
          (if \<not> truthy_opt (orgId caller) then (Inl ''caller is not a member of any organization'', s)
           else if role caller \<noteq> Some ''admin'' then (Inl ''admin role required'', s)
           else
             (case t_first tb (\<lambda>m. mb_userId m = userId caller) s of
                None \<Rightarrow> (Inl ''caller membership not found'', s)
              | Some (_, callerMember) \<Rightarrow>
                  (let (i, s') = t_insert tb
                     \<lparr>mb_orgId = mb_orgId callerMember, mb_userId = ma_userId args,
                      mb_email = ma_email args, mb_name = ma_name args, mb_role = ma_role args,
                      mb_tenantId = mb_tenantId callerMember,
                      mb_createdAt = now, mb_updatedAt = now\<rparr> s
                   in (Inr i, s')))))"

section \<open>Lemmas\<close>

lemma requireIdentity_Inr:
  "requireIdentity auth = Inr c \<longleftrightarrow>
     (\<exists>k. auth = Some k \<and> userId c = cl_subject k \<and> orgId c = cl_orgId k \<and>
          tenantId c = cl_tenantId k \<and> email c = cl_email k \<and> role c = cl_role k)"
  by (cases c) (auto simp: requireIdentity_def split: option.splits)

lemma requireIdentity_Some [guard_simps]:
  "requireIdentity (Some k) = Inr \<lparr>userId = cl_subject k, orgId = cl_orgId k,
     tenantId = cl_tenantId k, email = cl_email k, role = cl_role k\<rparr>"
  "requireIdentity None = Inl ''not authenticated''"
  by (simp_all add: requireIdentity_def)

lemma createOrgMember_Inl:
  "createOrgMember tb now auth args s = (Inl e, s') \<Longrightarrow> s' = s"
  by (auto simp: createOrgMember_def split: sum.splits option.splits if_splits prod.splits)

lemma createOrgMember_Inr:
  assumes "createOrgMember tb now auth args s = (Inr i, s')"
  obtains k j m where "auth = Some k" and "cl_role k = Some ''admin''" and "truthy_opt (cl_orgId k)"
    and "t_first tb (\<lambda>m. mb_userId m = cl_subject k) s = Some (j, m)"
    and "t_insert tb \<lparr>mb_orgId = mb_orgId m, mb_userId = ma_userId args, mb_email = ma_email args,
           mb_name = ma_name args, mb_role = ma_role args, mb_tenantId = mb_tenantId m,
           mb_createdAt = now, mb_updatedAt = now\<rparr> s = (i, s')"
  using assms
  by (auto simp: createOrgMember_def requireIdentity_def
      split: sum.splits option.splits if_splits prod.splits)

section \<open>Properties\<close>

text \<open>The stored membership a handler works with: the first row of the user.\<close>

lemma hd_filter_find: "(case filter q xs of [] \<Rightarrow> None | r # _ \<Rightarrow> Some r) = find q xs"
  by (induction xs) auto

lemma first_find: "t_first tb p s = find (\<lambda>(i, d). p d) (t_rows tb s)"
  by (simp add: t_first_def t_query_def hd_filter_find)

lemma createOrgMember_cases:
  "createOrgMember tb now auth args s =
     (case auth of None \<Rightarrow> (Inl ''not authenticated'', s)
      | Some k \<Rightarrow>
          (if \<not> truthy_opt (cl_orgId k) then (Inl ''caller is not a member of any organization'', s)
           else if cl_role k \<noteq> Some ''admin'' then (Inl ''admin role required'', s)
           else (case t_first tb (\<lambda>m. mb_userId m = cl_subject k) s of
              None \<Rightarrow> (Inl ''caller membership not found'', s)
            | Some (j, m) \<Rightarrow>
                apfst Inr (t_insert tb
                  \<lparr>mb_orgId = mb_orgId m, mb_userId = ma_userId args, mb_email = ma_email args,
                   mb_name = ma_name args, mb_role = ma_role args, mb_tenantId = mb_tenantId m,
                   mb_createdAt = now, mb_updatedAt = now\<rparr> s))))"
  by (simp add: createOrgMember_def requireIdentity_def apfst_def map_prod_def split: option.splits)

text \<open>C12: a membership is added exactly when the caller is authenticated, names an organisation in
  the token, is an admin there and has a stored membership.  The new row, the last of the table,
  has the organisation and the tenant of the first stored membership of the caller and every
  other field from the arguments and the time.  Each refusal has its own message and leaves the
  table as it was.\<close>

theorem createOrgMember_effect:
  assumes tb: "doc_table tb"
    and call: "createOrgMember tb now auth args s = (r, s')"
  shows "case r of
      Inr i \<Rightarrow>
        (\<exists>k j m. auth = Some k \<and> truthy_opt (cl_orgId k) \<and> cl_role k = Some ''admin'' \<and>
           find (\<lambda>(_, d). mb_userId d = cl_subject k) (t_rows tb s) = Some (j, m) \<and>
           t_rows tb s' = t_rows tb s @ [(i,
             \<lparr>mb_orgId = mb_orgId m, mb_userId = ma_userId args, mb_email = ma_email args,
              mb_name = ma_name args, mb_role = ma_role args, mb_tenantId = mb_tenantId m,
              mb_createdAt = now, mb_updatedAt = now\<rparr>)])
    | Inl e \<Rightarrow>
        s' = s \<and>
        (case auth of
           None \<Rightarrow> e = ''not authenticated''
         | Some k \<Rightarrow>
             if \<not> truthy_opt (cl_orgId k) then e = ''caller is not a member of any organization''
             else if cl_role k \<noteq> Some ''admin'' then e = ''admin role required''
             else e = ''caller membership not found'' \<and>
               (\<forall>(_, d) \<in> set (t_rows tb s). mb_userId d \<noteq> cl_subject k))"
  using call doc_table.insert_rows [OF tb]
  by (auto simp: createOrgMember_cases first_find find_None_iff apfst_def map_prod_def
      split: option.splits if_splits prod.splits)

text \<open>Witness data: two organisations, an admin of both, and one stored membership of each.\<close>

definition ex_member :: "string \<Rightarrow> string \<Rightarrow> member" where
  "ex_member org user = \<lparr>mb_orgId = org, mb_userId = user, mb_email = ''a@x'', mb_name = None,
     mb_role = RAdmin, mb_tenantId = org, mb_createdAt = 0, mb_updatedAt = 0\<rparr>"

definition ex_claims :: "string \<Rightarrow> string \<Rightarrow> claims" where
  "ex_claims user org = \<lparr>cl_subject = user, cl_email = None, cl_orgId = Some org,
     cl_tenantId = Some org, cl_role = Some ''admin''\<rparr>"

definition ex_args :: member_args where
  "ex_args = \<lparr>ma_userId = ''u2'', ma_email = ''b@x'', ma_name = None, ma_role = RViewer\<rparr>"

lemmas ex_defs = ex_member_def ex_claims_def ex_args_def slot_table_def slot_get_def slot_rows_def
  t_first_def t_query_def List.map_filter_def

definition ex_members :: "member slots" where
  "ex_members = [Some (ex_member ''orgA'' ''u1''), Some (ex_member ''orgB'' ''u1'')]"

lemma ex_sel [simp]:
  "cl_subject (ex_claims u org) = u" "cl_orgId (ex_claims u org) = Some org"
  "cl_tenantId (ex_claims u org) = Some org" "cl_role (ex_claims u org) = Some ''admin''"
  "ma_userId ex_args = ''u2''" "ma_email ex_args = ''b@x''" "ma_name ex_args = None"
  "ma_role ex_args = RViewer" "mb_orgId (ex_member org u) = org" "mb_userId (ex_member org u) = u"
  by (simp_all add: ex_claims_def ex_args_def ex_member_def)

lemma ex_create:
  "createOrgMember slot_table 7 (Some (ex_claims ''u1'' ''orgB'')) ex_args ex_members =
   (Inr 2, ex_members @
     [Some \<lparr>mb_orgId = ''orgA'', mb_userId = ''u2'', mb_email = ''b@x'', mb_name = None,
            mb_role = RViewer, mb_tenantId = ''orgA'', mb_createdAt = 7, mb_updatedAt = 7\<rparr>])"
  by (simp add: createOrgMember_def requireIdentity_def ex_members_def ex_defs)

theorem createOrgMember_effect_witness:
  "\<exists>j m. find (\<lambda>(_, d). mb_userId d = ''u1'') (t_rows slot_table ex_members) = Some (j, m) \<and>
     t_rows slot_table (snd (createOrgMember slot_table 7 (Some (ex_claims ''u1'' ''orgB'')) ex_args
       ex_members)) = t_rows slot_table ex_members @ [(2,
         \<lparr>mb_orgId = mb_orgId m, mb_userId = ''u2'', mb_email = ''b@x'', mb_name = None,
          mb_role = RViewer, mb_tenantId = mb_tenantId m, mb_createdAt = 7, mb_updatedAt = 7\<rparr>)]"
  using createOrgMember_effect [OF slot_table_contract ex_create]
  by (simp add: ex_create)

text \<open>The organisation that is stamped is the one of the caller's first stored membership, not
  the one of the caller's token: an admin of organisation B whose first membership row belongs to
  organisation A creates the new member in A.\<close>

theorem createOrgMember_cross_org:
  assumes tb: "doc_table tb"
    and k: "cl_role k = Some ''admin''" "cl_orgId k = Some org" "org \<noteq> []"
    and first: "t_first tb (\<lambda>m. mb_userId m = cl_subject k) s = Some (j, m)"
    and other: "mb_orgId m \<noteq> org"
  shows "\<exists>i s' m'. createOrgMember tb now (Some k) args s = (Inr i, s') \<and>
    t_get tb s' i = Some m' \<and> mb_orgId m' = mb_orgId m \<and> mb_orgId m' \<noteq> org"
proof -
  let ?d = "\<lparr>mb_orgId = mb_orgId m, mb_userId = ma_userId args, mb_email = ma_email args,
    mb_name = ma_name args, mb_role = ma_role args, mb_tenantId = mb_tenantId m,
    mb_createdAt = now, mb_updatedAt = now\<rparr>"
  obtain i s' where ins: "t_insert tb ?d s = (i, s')" by fastforce
  with k first have "createOrgMember tb now (Some k) args s = (Inr i, s')"
    by (simp add: createOrgMember_def requireIdentity_def)
  with doc_table.insert_get(1) [OF tb ins] other show ?thesis by fastforce
qed

theorem createOrgMember_cross_org_witness:
  "\<exists>i s' m'. createOrgMember slot_table 7 (Some (ex_claims ''u1'' ''orgB'')) ex_args
      ex_members = (Inr i, s') \<and>
    t_get slot_table s' i = Some m' \<and> mb_orgId m' = ''orgA'' \<and> mb_orgId m' \<noteq> ''orgB''"
  using createOrgMember_cross_org [OF slot_table_contract, of "ex_claims ''u1'' ''orgB''" "''orgB''"
      ex_members 0 "ex_member ''orgA'' ''u1''" 7 ex_args]
  by (simp add: ex_members_def ex_defs)

text \<open>\<open>me\<close> answers with a stored row of the caller and of the caller's organisation.\<close>

theorem me_own_membership:
  assumes tb: "doc_table tb" and res: "me tb (Some k) s = Inr (Some (i, m))"
  shows "t_get tb s i = Some m \<and> mb_userId m = cl_subject k \<and>
    (truthy_opt (cl_orgId k) \<longrightarrow> cl_orgId k = Some (mb_orgId m))"
proof -
  from res have "t_first tb (\<lambda>m. mb_userId m = cl_subject k) s = Some (i, m)"
    and "\<not> (truthy_opt (cl_orgId k) \<and> cl_orgId k \<noteq> Some (mb_orgId m))"
    by (auto simp: me_def requireIdentity_def split: option.splits if_splits)
  with doc_table.first_in_rows [OF tb] show ?thesis by fastforce
qed

theorem me_own_membership_witness:
  "me slot_table (Some (ex_claims ''u1'' ''orgA'')) [Some (ex_member ''orgA'' ''u1'')]
     = Inr (Some (0, ex_member ''orgA'' ''u1'')) \<and>
   mb_userId (ex_member ''orgA'' ''u1'') = cl_subject (ex_claims ''u1'' ''orgA'')"
proof -
  have r: "me slot_table (Some (ex_claims ''u1'' ''orgA'')) [Some (ex_member ''orgA'' ''u1'')]
     = Inr (Some (0, ex_member ''orgA'' ''u1''))"
    by (simp add: me_def requireIdentity_def ex_defs)
  from me_own_membership [OF slot_table_contract r] r show ?thesis by blast
qed

end
