(* ===== verification/Convex_Tenants.thy ===== *)
theory Convex_Tenants
  imports Convex_Users
begin

text \<open>
  integrations/convex/convex/tenants.ts: the tenant handlers.  The tenant of a caller comes from
  the identity claim alone; no handler takes one from its arguments.  Conventions as in
  Convex_Users.
\<close>

datatype plan = Oss | Professional | Enterprise

fun plan_str :: "plan \<Rightarrow> string" where
  "plan_str Oss = ''oss''"
| "plan_str Professional = ''professional''"
| "plan_str Enterprise = ''enterprise''"

text \<open>A row of the table \<open>tenants\<close>; the schema stores the plan as a string.\<close>

record tenant =
  tn_orgId :: "string option"
  tn_externalId :: string
  tn_name :: string
  tn_plan :: string
  tn_createdAt :: int
  tn_updatedAt :: int

definition PUBLIC_TENANT_ID :: string where
  "PUBLIC_TENANT_ID = ''00000000-0000-0000-0000-000000000001''"

definition callerTenant :: "claims option \<Rightarrow> string + string" where
  "callerTenant auth =
     (case auth of
        None \<Rightarrow> Inr PUBLIC_TENANT_ID
      | Some _ \<Rightarrow>
          (case requireIdentity auth of
             Inl e \<Rightarrow> Inl e
           | Inr c \<Rightarrow> Inr (nullish (tenantId c) PUBLIC_TENANT_ID)))"

definition listTenants ::
  "('s, 'i, tenant) table \<Rightarrow> claims option \<Rightarrow> 's \<Rightarrow> string + ('i \<times> tenant) list" where
  "listTenants tb auth s =
     (case callerTenant auth of
        Inl e \<Rightarrow> Inl e
      | Inr t \<Rightarrow> Inr (t_query tb (\<lambda>d. tn_externalId d = t) s))"

definition getTenant ::
  "('s, 'i, tenant) table \<Rightarrow> claims option \<Rightarrow> 'i \<Rightarrow> 's \<Rightarrow> string + tenant option" where
  "getTenant tb auth i s =
     (case callerTenant auth of
        Inl e \<Rightarrow> Inl e
      | Inr t \<Rightarrow>
          (case t_get tb s i of
             None \<Rightarrow> Inr None
           | Some d \<Rightarrow> (if tn_externalId d \<noteq> t then Inr None else Inr (Some d))))"

definition createTenant ::
  "('s, 'i, tenant) table \<Rightarrow> int \<Rightarrow> claims option \<Rightarrow> string \<Rightarrow> plan \<Rightarrow> 's \<Rightarrow> (string + 'i) \<times> 's" where
  "createTenant tb now auth name pl s =
     (case auth of
        None \<Rightarrow> (Inl ''not authenticated'', s)
      | Some _ \<Rightarrow>
          (case requireIdentity auth of
             Inl e \<Rightarrow> (Inl e, s)
           | Inr c \<Rightarrow>
               (if role c \<noteq> Some ''admin'' then (Inl ''admin role required'', s)
                else
                  (let (i, s') = t_insert tb
                     \<lparr>tn_orgId = orgId c,
                      tn_externalId = nullish (tenantId c) PUBLIC_TENANT_ID,
                      tn_name = name, tn_plan = plan_str pl,
                      tn_createdAt = now, tn_updatedAt = now\<rparr> s
                   in (Inr i, s')))))"

text \<open>The patch object of \<open>updateTenant\<close>: the time, and the fields that are given.\<close>

definition tenant_patch :: "int \<Rightarrow> string option \<Rightarrow> plan option \<Rightarrow> tenant \<Rightarrow> tenant" where
  "tenant_patch now name pl d =
     (let d1 = d\<lparr>tn_updatedAt := now\<rparr>;
          d2 = (case name of None \<Rightarrow> d1 | Some n \<Rightarrow> d1\<lparr>tn_name := n\<rparr>)
      in (case pl of None \<Rightarrow> d2 | Some p \<Rightarrow> d2\<lparr>tn_plan := plan_str p\<rparr>))"

text \<open>The guard \<open>updateTenant\<close> and \<open>deleteTenant\<close> share: an admin, and a tenant of the caller.\<close>

definition tenant_guard ::
  "('s, 'i, tenant) table \<Rightarrow> claims option \<Rightarrow> 'i \<Rightarrow> 's \<Rightarrow> string + tenant" where
  "tenant_guard tb auth i s =
     (case callerTenant auth of
        Inl e \<Rightarrow> Inl e
      | Inr t \<Rightarrow>
          (case requireIdentity auth of
             Inl e \<Rightarrow> Inl e
           | Inr c \<Rightarrow>
               (if role c \<noteq> Some ''admin'' then Inl ''admin role required''
                else
                  (case t_get tb s i of
                     None \<Rightarrow> Inl ''tenant not found''
                   | Some d \<Rightarrow>
                       (if tn_externalId d \<noteq> t then Inl ''tenant not found'' else Inr d)))))"

definition updateTenant ::
  "('s, 'i, tenant) table \<Rightarrow> int \<Rightarrow> claims option \<Rightarrow> 'i \<Rightarrow> string option \<Rightarrow> plan option \<Rightarrow> 's
     \<Rightarrow> (string + 'i) \<times> 's" where
  "updateTenant tb now auth i name pl s =
     (case tenant_guard tb auth i s of
        Inl e \<Rightarrow> (Inl e, s)
      | Inr _ \<Rightarrow> (Inr i, t_patch tb i (tenant_patch now name pl) s))"

definition deleteTenant ::
  "('s, 'i, tenant) table \<Rightarrow> claims option \<Rightarrow> 'i \<Rightarrow> 's \<Rightarrow> (string + 'i) \<times> 's" where
  "deleteTenant tb auth i s =
     (case tenant_guard tb auth i s of
        Inl e \<Rightarrow> (Inl e, s)
      | Inr _ \<Rightarrow> (Inr i, t_delete tb i s))"

section \<open>Lemmas\<close>

text \<open>The tenant a request acts for.\<close>

definition tenant_of :: "claims option \<Rightarrow> string" where
  "tenant_of auth = (case auth of None \<Rightarrow> PUBLIC_TENANT_ID
     | Some k \<Rightarrow> nullish (cl_tenantId k) PUBLIC_TENANT_ID)"

lemma callerTenant_eq [simp]: "callerTenant auth = Inr (tenant_of auth)"
  by (simp add: callerTenant_def tenant_of_def requireIdentity_def split: option.splits)

lemma tenant_patch_externalId [simp]: "tn_externalId (tenant_patch now n p d) = tn_externalId d"
  by (simp add: tenant_patch_def Let_def split: option.splits)

lemma tenant_guard_Inr:
  "tenant_guard tb auth i s = Inr d \<longleftrightarrow>
     (\<exists>k. auth = Some k \<and> cl_role k = Some ''admin'') \<and> t_get tb s i = Some d \<and>
     tn_externalId d = tenant_of auth"
  by (auto simp: tenant_guard_def requireIdentity_def split: option.splits)

lemma createTenant_Inr:
  "createTenant tb now auth name pl s = (Inr i, s') \<longleftrightarrow>
     (\<exists>k. auth = Some k \<and> cl_role k = Some ''admin'' \<and>
        t_insert tb \<lparr>tn_orgId = cl_orgId k, tn_externalId = tenant_of auth, tn_name = name,
          tn_plan = plan_str pl, tn_createdAt = now, tn_updatedAt = now\<rparr> s = (i, s'))"
  by (auto simp: createTenant_def requireIdentity_def tenant_of_def
      split: option.splits prod.splits)

lemma tenant_errors_keep_state:
  "createTenant tb now auth name pl s = (Inl e, s') \<Longrightarrow> s' = s"
  "updateTenant tb now auth i nm p s = (Inl e, s') \<Longrightarrow> s' = s"
  "deleteTenant tb auth i s = (Inl e, s') \<Longrightarrow> s' = s"
  by (auto simp: createTenant_def updateTenant_def deleteTenant_def
      split: option.splits sum.splits if_splits prod.splits)

text \<open>What one tenant sees of the table.\<close>

definition tenants_of :: "('s, 'i, tenant) table \<Rightarrow> string \<Rightarrow> 's \<Rightarrow> ('i \<times> tenant) list" where
  "tenants_of tb t s = t_query tb (\<lambda>d. tn_externalId d = t) s"

lemma createTenant_other:
  assumes tb: "doc_table tb" and "tenant_of auth \<noteq> t"
  shows "tenants_of tb t (snd (createTenant tb now auth name pl s)) = tenants_of tb t s"
proof (cases "createTenant tb now auth name pl s")
  case (Pair r s')
  show ?thesis
  proof (cases r)
    case (Inl e)
    with Pair show ?thesis by (auto dest: tenant_errors_keep_state)
  next
    case (Inr i)
    with Pair obtain d where "t_insert tb d s = (i, s')" and "tn_externalId d = tenant_of auth"
      by (fastforce simp: createTenant_Inr)
    with Pair assms(2) show ?thesis
      by (simp add: tenants_of_def doc_table.query_insert [OF tb])
  qed
qed

lemma updateTenant_other:
  assumes tb: "doc_table tb" and "tenant_of auth \<noteq> t"
  shows "tenants_of tb t (snd (updateTenant tb now auth i nm p s)) = tenants_of tb t s"
proof (cases "tenant_guard tb auth i s")
  case (Inl e)
  then show ?thesis by (simp add: updateTenant_def)
next
  case (Inr d)
  then have "t_get tb s i = Some d" "tn_externalId d \<noteq> t"
    using assms(2) by (simp_all add: tenant_guard_Inr)
  with Inr show ?thesis
    by (simp add: updateTenant_def tenants_of_def doc_table.query_patch_other [OF tb])
qed

lemma deleteTenant_other:
  assumes tb: "doc_table tb" and "tenant_of auth \<noteq> t"
  shows "tenants_of tb t (snd (deleteTenant tb auth i s)) = tenants_of tb t s"
proof (cases "tenant_guard tb auth i s")
  case (Inl e)
  then show ?thesis by (simp add: deleteTenant_def)
next
  case (Inr d)
  then have "t_get tb s i = Some d" "tn_externalId d \<noteq> t"
    using assms(2) by (simp_all add: tenant_guard_Inr)
  with Inr show ?thesis
    by (simp add: deleteTenant_def tenants_of_def doc_table.query_delete_other [OF tb])
qed

text \<open>What \<open>getTenant\<close> answers is a lookup in what the tenant sees.\<close>

lemma getTenant_view:
  assumes tb: "doc_table tb"
  shows "getTenant tb auth i s = Inr (map_of (tenants_of tb (tenant_of auth) s) i)"
proof -
  have "map_of (filter (\<lambda>(i, d). tn_externalId d = t) xs) i =
      (case map_of xs i of None \<Rightarrow> None | Some d \<Rightarrow> if tn_externalId d \<noteq> t then None else Some d)"
    if "distinct (map fst xs)" for xs :: "('b \<times> tenant) list" and t
    using that by (induction xs) (auto simp: map_of_eq_None_iff split: option.splits)
  from this [OF doc_table.distinct_rows [OF tb]] show ?thesis
    by (simp add: getTenant_def tenants_of_def t_query_def doc_table.get_rows [OF tb]
        split: option.splits)
qed

section \<open>Properties\<close>

text \<open>C7: an update succeeds exactly when the caller is authenticated as an admin and the row is
  one of the caller's tenant.  It then changes the fields it is given and the modification time,
  and neither the owner, the creation time nor any other row; otherwise it answers why not and
  leaves the table as it was.\<close>

theorem updateTenant_effect:
  assumes tb: "doc_table tb" and call: "updateTenant tb now auth i nm p s = (r, s')"
  shows "case r of
      Inr j \<Rightarrow>
        (\<exists>k d. auth = Some k \<and> cl_role k = Some ''admin'' \<and> t_get tb s i = Some d \<and>
           tn_externalId d = tenant_of auth \<and> j = i \<and>
           (\<forall>l. t_get tb s' l = (if l = i
              then Some (d\<lparr>tn_updatedAt := now, tn_name := nullish nm (tn_name d),
                            tn_plan := nullish (map_option plan_str p) (tn_plan d)\<rparr>)
              else t_get tb s l)))
    | Inl e \<Rightarrow>
        s' = s \<and>
        (case auth of
           None \<Rightarrow> e = ''not authenticated''
         | Some k \<Rightarrow>
             if cl_role k \<noteq> Some ''admin'' then e = ''admin role required''
             else e = ''tenant not found'' \<and>
               (\<forall>d. t_get tb s i = Some d \<longrightarrow> tn_externalId d \<noteq> tenant_of auth))"
proof (cases r)
  case (Inl e)
  with call have "tenant_guard tb auth i s = Inl e" and "s' = s"
    by (auto simp: updateTenant_def split: sum.splits)
  with Inl show ?thesis
    by (auto simp: tenant_guard_def requireIdentity_def split: option.splits if_splits)
next
  case (Inr j)
  with call obtain d where g: "tenant_guard tb auth i s = Inr d" and "j = i"
    and s': "s' = t_patch tb i (tenant_patch now nm p) s"
    by (auto simp: updateTenant_def split: sum.splits)
  from g have d: "t_get tb s i = Some d" "tn_externalId d = tenant_of auth"
    and k: "\<exists>k. auth = Some k \<and> cl_role k = Some ''admin''"
    by (simp_all add: tenant_guard_Inr)
  have "tenant_patch now nm p d = d\<lparr>tn_updatedAt := now, tn_name := nullish nm (tn_name d),
      tn_plan := nullish (map_option plan_str p) (tn_plan d)\<rparr>"
    by (cases d) (simp add: tenant_patch_def Let_def nullish_def split: option.splits)
  with d k \<open>j = i\<close> Inr doc_table.patch_get [OF tb, of s i] show ?thesis by (simp add: s')
qed

definition ex_tenant :: "string \<Rightarrow> tenant" where
  "ex_tenant t = \<lparr>tn_orgId = None, tn_externalId = t, tn_name = ''n'', tn_plan = ''oss'',
     tn_createdAt = 0, tn_updatedAt = 0\<rparr>"

lemma ex_update:
  "updateTenant slot_table 5 (Some (ex_claims ''u1'' ''t1'')) 0 (Some ''new'') None
     [Some (ex_tenant ''t1''), Some (ex_tenant ''t2'')] =
   (Inr 0, [Some ((ex_tenant ''t1'')\<lparr>tn_updatedAt := 5, tn_name := ''new''\<rparr>), Some (ex_tenant ''t2'')])"
  by (simp add: updateTenant_def tenant_guard_def requireIdentity_def tenant_of_def tenant_patch_def
      ex_tenant_def slot_table_def slot_get_def)

theorem updateTenant_effect_witness:
  "\<exists>d. t_get slot_table [Some (ex_tenant ''t1''), Some (ex_tenant ''t2'')] 0 = Some d \<and>
     tn_externalId d = ''t1'' \<and>
     t_get slot_table [Some ((ex_tenant ''t1'')\<lparr>tn_updatedAt := 5, tn_name := ''new''\<rparr>),
       Some (ex_tenant ''t2'')] 0 = Some (d\<lparr>tn_updatedAt := 5, tn_name := ''new''\<rparr>)"
  using updateTenant_effect [OF slot_table_contract ex_update]
  by (auto simp: tenant_of_def slot_table_def slot_get_def)

end
