(* ===== verification/Convex_Scans.thy ===== *)
theory Convex_Scans
  imports Convex_Tenants
begin

text \<open>
  integrations/convex/convex/scans.ts: scan jobs and their findings.  The state is the pair of the
  two tables the handlers touch; conventions as in Convex_Users.
\<close>

section \<open>Documents\<close>

datatype scan_status = Pending | Running | Completed | Failed

datatype severity = Critical | High | Medium | Low | Info

record scan =
  sc_tenantId :: string
  sc_status :: scan_status
  sc_scanType :: string
  sc_startedAt :: "int option"
  sc_completedAt :: "int option"
  sc_findingsCount :: nat
  sc_requestedBy :: "string option"
  sc_createdAt :: int

record finding_args =
  fa_assetId :: "string option"
  fa_severity :: severity
  fa_title :: string
  fa_description :: "string option"
  fa_control :: "string option"

record 'i finding =
  fd_tenantId :: string
  fd_scanId :: 'i
  fd_assetId :: "string option"
  fd_severity :: severity
  fd_title :: string
  fd_description :: "string option"
  fd_control :: "string option"
  fd_createdAt :: int

record ('p, 'q) scan_store =
  st_scans :: 'p
  st_findings :: 'q

text \<open>The statuses a worker may report.\<close>

datatype outcome = OCompleted | OFailed

fun outcome_status :: "outcome \<Rightarrow> scan_status" where
  "outcome_status OCompleted = Completed"
| "outcome_status OFailed = Failed"

section \<open>Handlers\<close>

definition createScan ::
  "('p, 'i, scan) table \<Rightarrow> int \<Rightarrow> claims option \<Rightarrow> string \<Rightarrow> ('p, 'q) scan_store
     \<Rightarrow> (string + 'i) \<times> ('p, 'q) scan_store" where
  "createScan sc now auth scanType st =
     (case callerTenant auth of
        Inl e \<Rightarrow> (Inl e, st)
      | Inr t \<Rightarrow>
          (let (i, p) = t_insert sc
             \<lparr>sc_tenantId = t, sc_status = Pending, sc_scanType = scanType, sc_startedAt = None,
              sc_completedAt = None, sc_findingsCount = 0,
              sc_requestedBy = map_option cl_subject auth, sc_createdAt = now\<rparr> (st_scans st)
           in (Inr i, st\<lparr>st_scans := p\<rparr>)))"

definition getScan ::
  "('p, 'i, scan) table \<Rightarrow> ('q, 'j, 'i finding) table \<Rightarrow> claims option \<Rightarrow> 'i
     \<Rightarrow> ('p, 'q) scan_store \<Rightarrow> string + (scan \<times> ('j \<times> 'i finding) list) option" where
  "getScan sc fi auth i st =
     (case callerTenant auth of
        Inl e \<Rightarrow> Inl e
      | Inr t \<Rightarrow>
          (case t_get sc (st_scans st) i of
             None \<Rightarrow> Inr None
           | Some d \<Rightarrow>
               (if sc_tenantId d \<noteq> t then Inr None
                else Inr (Some (d, t_query fi (\<lambda>f. fd_scanId f = i) (st_findings st))))))"

definition listScansForTenant ::
  "('p, 'i, scan) table \<Rightarrow> claims option \<Rightarrow> scan_status option \<Rightarrow> ('p, 'q) scan_store
     \<Rightarrow> string + ('i \<times> scan) list" where
  "listScansForTenant sc auth status st =
     (case callerTenant auth of
        Inl e \<Rightarrow> Inl e
      | Inr t \<Rightarrow>
          (case status of
             Some x \<Rightarrow> Inr (t_query sc (\<lambda>d. sc_tenantId d = t \<and> sc_status d = x) (st_scans st))
           | None \<Rightarrow> Inr (t_query sc (\<lambda>d. sc_tenantId d = t) (st_scans st))))"

text \<open>The loop of \<open>recordScanResults\<close> over the reported findings.\<close>

fun insert_findings ::
  "('q, 'j, 'i finding) table \<Rightarrow> int \<Rightarrow> string \<Rightarrow> 'i \<Rightarrow> finding_args list \<Rightarrow> 'q \<Rightarrow> 'q" where
  "insert_findings fi now t i [] q = q"
| "insert_findings fi now t i (f # fs) q =
     insert_findings fi now t i fs
       (snd (t_insert fi
          \<lparr>fd_tenantId = t, fd_scanId = i, fd_assetId = fa_assetId f, fd_severity = fa_severity f,
           fd_title = fa_title f, fd_description = fa_description f, fd_control = fa_control f,
           fd_createdAt = now\<rparr> q))"

definition recordScanResults ::
  "('p, 'i, scan) table \<Rightarrow> ('q, 'j, 'i finding) table \<Rightarrow> int \<Rightarrow> 'i \<Rightarrow> string \<Rightarrow> outcome
     \<Rightarrow> finding_args list \<Rightarrow> ('p, 'q) scan_store \<Rightarrow> (string + 'i \<times> nat) \<times> ('p, 'q) scan_store" where
  "recordScanResults sc fi now i t status fs st =
     (if t = [] then (Inl ''tenantId is required'', st)
      else
        (case t_get sc (st_scans st) i of
           None \<Rightarrow> (Inl ''scan not found for tenant'', st)
         | Some d \<Rightarrow>
             (if sc_tenantId d \<noteq> t then (Inl ''scan not found for tenant'', st)
              else
                (Inr (i, length fs),
                 st\<lparr>st_findings := insert_findings fi now t i fs (st_findings st),
                    st_scans := t_patch sc i
                      (\<lambda>d. d\<lparr>sc_status := outcome_status status, sc_findingsCount := length fs,
                             sc_completedAt := Some now\<rparr>) (st_scans st)\<rparr>))))"

section \<open>Lemmas\<close>

text \<open>The stored form of a reported finding.\<close>

definition stored_finding :: "int \<Rightarrow> string \<Rightarrow> 'i \<Rightarrow> finding_args \<Rightarrow> 'i finding" where
  "stored_finding now t i f =
     \<lparr>fd_tenantId = t, fd_scanId = i, fd_assetId = fa_assetId f, fd_severity = fa_severity f,
      fd_title = fa_title f, fd_description = fa_description f, fd_control = fa_control f,
      fd_createdAt = now\<rparr>"

lemma stored_finding_sel [simp]:
  "fd_tenantId (stored_finding now t i f) = t" "fd_scanId (stored_finding now t i f) = i"
  by (simp_all add: stored_finding_def)

text \<open>The loop appends one row per finding, in order.\<close>

lemma insert_findings_rows:
  assumes fi: "doc_table fi"
  shows "\<exists>js. length js = length fs \<and>
    t_rows fi (insert_findings fi now t i fs q) =
      t_rows fi q @ zip js (map (stored_finding now t i) fs)"
proof (induction fs arbitrary: q)
  case Nil
  then show ?case by simp
next
  case (Cons f fs)
  obtain j q' where ins: "t_insert fi (stored_finding now t i f) q = (j, q')" by fastforce
  from Cons.IH [of q'] obtain js where "length js = length fs"
    and "t_rows fi (insert_findings fi now t i fs q') =
      t_rows fi q' @ zip js (map (stored_finding now t i) fs)" by blast
  moreover have "insert_findings fi now t i (f # fs) q = insert_findings fi now t i fs q'"
    using ins by (simp add: stored_finding_def)
  ultimately show ?case
    using doc_table.insert_rows [OF fi ins] by (intro exI [of _ "j # js"]) simp
qed

lemma insert_findings_query:
  assumes fi: "doc_table fi"
  shows "\<exists>js. length js = length fs \<and>
    t_query fi p (insert_findings fi now t i fs q) =
      t_query fi p q @ filter (\<lambda>(j, d). p d) (zip js (map (stored_finding now t i) fs))"
  using insert_findings_rows [OF fi, of fs now t i q] by (auto simp: t_query_def)

lemma filter_zip_all:
  "length js = length xs \<Longrightarrow> (\<And>x. x \<in> set xs \<Longrightarrow> p x) \<Longrightarrow> filter (\<lambda>(j, d). p d) (zip js xs) = zip js xs"
  by (auto intro!: filter_True dest: set_zip_rightD)

lemma filter_zip_none:
  "(\<And>x. x \<in> set xs \<Longrightarrow> \<not> p x) \<Longrightarrow> filter (\<lambda>(j, d). p d) (zip js xs) = []"
  by (auto intro!: filter_False dest: set_zip_rightD)

lemma recordScanResults_Inr:
  "recordScanResults sc fi now i t status fs st = (Inr r, st') \<longleftrightarrow>
     t \<noteq> [] \<and> r = (i, length fs) \<and>
     (\<exists>d. t_get sc (st_scans st) i = Some d \<and> sc_tenantId d = t) \<and>
     st' = st\<lparr>st_findings := insert_findings fi now t i fs (st_findings st),
              st_scans := t_patch sc i
                (\<lambda>d. d\<lparr>sc_status := outcome_status status, sc_findingsCount := length fs,
                       sc_completedAt := Some now\<rparr>) (st_scans st)\<rparr>"
  by (auto simp: recordScanResults_def split: option.splits)

lemma recordScanResults_Inl:
  "recordScanResults sc fi now i t status fs st = (Inl e, st') \<Longrightarrow> st' = st"
  by (auto simp: recordScanResults_def split: option.splits if_splits)

lemma createScan_eq:
  "createScan sc now auth ty st = (r, st') \<longleftrightarrow>
     (\<exists>i p. t_insert sc \<lparr>sc_tenantId = tenant_of auth, sc_status = Pending, sc_scanType = ty,
        sc_startedAt = None, sc_completedAt = None, sc_findingsCount = 0,
        sc_requestedBy = map_option cl_subject auth, sc_createdAt = now\<rparr> (st_scans st) = (i, p) \<and>
        r = Inr i \<and> st' = st\<lparr>st_scans := p\<rparr>)"
  by (auto simp: createScan_def split: prod.splits)

section \<open>The invariant of the two tables\<close>

text \<open>Every finding belongs to a stored scan and carries the tenant of that scan.\<close>

definition findings_ok ::
  "('p, 'i, scan) table \<Rightarrow> ('q, 'j, 'i finding) table \<Rightarrow> ('p, 'q) scan_store \<Rightarrow> bool" where
  "findings_ok sc fi st \<longleftrightarrow>
     (\<forall>(j, f) \<in> set (t_rows fi (st_findings st)).
        \<exists>d. t_get sc (st_scans st) (fd_scanId f) = Some d \<and> sc_tenantId d = fd_tenantId f)"

lemma createScan_findings_ok:
  assumes sc: "doc_table sc" and inv: "findings_ok sc fi st"
  shows "findings_ok sc fi (snd (createScan sc now auth ty st))"
proof -
  obtain r st' where c: "createScan sc now auth ty st = (r, st')" by fastforce
  then obtain d i p where ins: "t_insert sc d (st_scans st) = (i, p)"
    and st': "st' = st\<lparr>st_scans := p\<rparr>"
    by (auto simp: createScan_eq)
  show ?thesis
    using inv doc_table.insert_get [OF sc ins] by (fastforce simp: findings_ok_def c st')
qed

lemma recordScanResults_findings_ok:
  assumes sc: "doc_table sc" and fi: "doc_table fi" and inv: "findings_ok sc fi st"
  shows "findings_ok sc fi (snd (recordScanResults sc fi now i t status fs st))"
proof (cases "recordScanResults sc fi now i t status fs st")
  case (Pair r st')
  show ?thesis
  proof (cases r)
    case (Inl e)
    with Pair inv show ?thesis by (auto dest: recordScanResults_Inl)
  next
    case (Inr x)
    with Pair obtain d where d: "t_get sc (st_scans st) i = Some d" "sc_tenantId d = t"
      and st': "st' = st\<lparr>st_findings := insert_findings fi now t i fs (st_findings st),
          st_scans := t_patch sc i (\<lambda>d. d\<lparr>sc_status := outcome_status status,
            sc_findingsCount := length fs, sc_completedAt := Some now\<rparr>) (st_scans st)\<rparr>"
      by (auto simp: recordScanResults_Inr)
    obtain js where rows: "t_rows fi (insert_findings fi now t i fs (st_findings st)) =
        t_rows fi (st_findings st) @ zip js (map (stored_finding now t i) fs)"
      using insert_findings_rows [OF fi] by blast
    have keep: "\<exists>e'. t_get sc (st_scans st') k = Some e' \<and> sc_tenantId e' = sc_tenantId e"
      if "t_get sc (st_scans st) k = Some e" for k e
      using that d doc_table.patch_get [OF sc, of "st_scans st" i] by (auto simp: st')
    have "\<exists>e. t_get sc (st_scans st) (fd_scanId f) = Some e \<and> sc_tenantId e = fd_tenantId f"
      if "(j, f) \<in> set (t_rows fi (st_findings st'))" for j f
    proof (cases "(j, f) \<in> set (t_rows fi (st_findings st))")
      case True
      with inv show ?thesis by (auto simp: findings_ok_def)
    next
      case False
      with that have "(j, f) \<in> set (zip js (map (stored_finding now t i) fs))"
        by (auto simp: st' rows)
      then have "f \<in> set (map (stored_finding now t i) fs)" by (rule set_zip_rightD)
      then obtain a where "f = stored_finding now t i a" by auto
      with d show ?thesis by simp
    qed
    with keep have "findings_ok sc fi st'" unfolding findings_ok_def by fastforce
    with Pair show ?thesis by simp
  qed
qed

end
