(* ===== verification/Contracts.thy ===== *)
theory Contracts
  imports Prelude
begin

text \<open>
  Contracts several components share, as locales: machines whose steps keep an invariant,
  machines that make progress, and normalising functions.  Each is interpreted in the theories
  of the components that satisfy it.
\<close>

text \<open>Running a machine over a list of events.\<close>

definition run :: "('s \<Rightarrow> 'e \<Rightarrow> 's) \<Rightarrow> 's \<Rightarrow> 'e list \<Rightarrow> 's" where
  "run step s es = foldl step s es"

lemma run_simps [simp]:
  "run step s [] = s"
  "run step s (e # es) = run step (step s e) es"
  "run step s (es @ fs) = run step (run step s es) fs"
  by (simp_all add: run_def)

section \<open>Machines that keep an invariant\<close>

locale invariant_machine =
  fixes step :: "'s \<Rightarrow> 'e \<Rightarrow> 's" and inv :: "'s \<Rightarrow> bool"
  assumes step_inv: "inv s \<Longrightarrow> inv (step s e)"
begin

lemma run_inv: "inv s \<Longrightarrow> inv (run step s es)"
  by (induction es arbitrary: s) (auto intro: step_inv)

end

section \<open>Machines some of whose steps an observer cannot see\<close>

locale unobserved_machine =
  fixes step :: "'s \<Rightarrow> 'e \<Rightarrow> 's" and hidden :: "'e \<Rightarrow> bool" and obs :: "'s \<Rightarrow> 'o"
  assumes step_obs: "hidden e \<Longrightarrow> obs (step s e) = obs s"
begin

lemma run_obs: "list_all hidden es \<Longrightarrow> obs (run step s es) = obs s"
  by (induction es arbitrary: s) (auto simp: step_obs)

end

section \<open>Machines under an environment\<close>

text \<open>\<open>ok\<close> says which events the environment may send.\<close>

locale guarded_machine =
  fixes step :: "'s \<Rightarrow> 'e \<Rightarrow> 's" and ok :: "'e \<Rightarrow> bool" and inv :: "'s \<Rightarrow> bool"
  assumes keeps: "inv s \<Longrightarrow> ok e \<Longrightarrow> inv (step s e)"
begin

lemma inv_after: "inv s \<Longrightarrow> list_all ok es \<Longrightarrow> inv (run step s es)"
  by (induction es arbitrary: s) (auto intro: keeps)

end

sublocale invariant_machine \<subseteq> any: guarded_machine step "\<lambda>_. True" inv
  by unfold_locales (rule step_inv)

section \<open>Machines that make progress\<close>

text \<open>Each counting event brings a bounded counter closer to zero, every other event leaves it as it
  is.\<close>

locale progress_machine = guarded_machine step ok inv
  for step :: "'s \<Rightarrow> 'e \<Rightarrow> 's" and ok :: "'e \<Rightarrow> bool" and inv :: "'s \<Rightarrow> bool" +
  fixes counts :: "'e \<Rightarrow> bool" and left :: "'s \<Rightarrow> nat"
  assumes progress: "inv s \<Longrightarrow> ok e \<Longrightarrow> counts e \<Longrightarrow> left (step s e) = left s - 1"
    and idle: "inv s \<Longrightarrow> ok e \<Longrightarrow> \<not> counts e \<Longrightarrow> left (step s e) = left s"
begin

lemma left_after: "inv s \<Longrightarrow> list_all ok es \<Longrightarrow> left (run step s es) = left s - count_if counts es"
proof (induction es arbitrary: s)
  case Nil
  then show ?case by simp
next
  case (Cons e es)
  then have "left (run step s (e # es)) = left (step s e) - count_if counts es"
    by (simp add: keeps)
  with Cons.prems show ?case
    using progress [of s e] idle [of s e] by (cases "counts e") auto
qed

lemma done_iff: "inv s \<Longrightarrow> list_all ok es \<Longrightarrow> left (run step s es) = 0 \<longleftrightarrow> left s \<le> count_if counts es"
  by (simp add: left_after)

end

section \<open>Normalising functions\<close>

locale normaliser =
  fixes norm :: "'a \<Rightarrow> 'a"
  assumes idem: "norm (norm x) = norm x"
begin

lemma range_fixpoint: "y \<in> range norm \<longleftrightarrow> norm y = y"
  by (metis idem rangeE rangeI)

lemma absorb: "norm x = norm y \<longleftrightarrow> norm (norm x) = norm y"
  by (simp add: idem)

lemma iterate: "0 < n \<Longrightarrow> (norm ^^ n) x = norm x"
proof (induction n)
  case 0
  then show ?case by simp
next
  case (Suc n)
  then show ?case by (cases n) (simp_all add: idem)
qed

end

end
