(* ===== verification/Convex_App.thy ===== *)
theory Convex_App
  imports Convex_Scans Contracts
begin

text \<open>
  The Convex functions of integrations/convex as one machine over their five tables: a request is
  one mutation with the identity of its caller (or, for the internal \<open>recordScanResults\<close> and
  \<open>recordStripeEvent\<close>, what the worker or the webhook supplies) and its time.  The webhook of
  http.ts is here too.  The properties are the isolation of tenants and of organisations over
  arbitrary interleavings of requests, and the functional behaviour of the scan handlers.
\<close>

section \<open>http.ts\<close>

record audit_log =
  al_tenantId :: "string option"
  al_eventType :: string
  al_actorId :: "string option"
  al_requestId :: "string option"
  al_createdAt :: int

record 'v stripe_event =
  se_eventId :: string
  se_eventType :: string
  se_tenantId :: "string option"
  se_payload :: 'v

definition recordStripeEvent ::
  "('s, 'i, audit_log \<times> 'v) table \<Rightarrow> int \<Rightarrow> 'v stripe_event \<Rightarrow> 's \<Rightarrow> 'i \<times> 's" where
  "recordStripeEvent tb now e s =
     t_insert tb
       (\<lparr>al_tenantId = se_tenantId e, al_eventType = ''stripe.'' @ se_eventType e,
         al_actorId = Some ''stripe'', al_requestId = Some (se_eventId e), al_createdAt = now\<rparr>,
        se_payload e) s"

text \<open>The body and the status of the answer to \<open>POST /stripe/webhook\<close>, given the secret in the
  environment and the signature header; no handler is called and no table is written.\<close>

definition stripe_webhook :: "string option \<Rightarrow> string option \<Rightarrow> string \<times> nat" where
  "stripe_webhook secret signature =
     (if \<not> truthy_opt secret then (''webhook not configured'', 503)
      else if \<not> truthy_opt signature then (''missing stripe-signature'', 400)
      else (''stripe webhook endpoint is inert'', 501))"

section \<open>The machine\<close>

record ('t, 'p, 'q, 'm, 'u) app =
  ap_tenants :: 't
  ap_scans :: "('p, 'q) scan_store"
  ap_members :: 'm
  ap_audit :: 'u

datatype ('i, 'v) request =
  CreateTenant int "claims option" string plan
| UpdateTenant int "claims option" 'i "string option" "plan option"
| DeleteTenant "claims option" 'i
| CreateScan int "claims option" string
| RecordScan int 'i string outcome "finding_args list"
| CreateMember int "claims option" member_args
| StripeEvent int "'v stripe_event"

fun app_step ::
  "('t, 'i, tenant) table \<Rightarrow> ('p, 'i, scan) table \<Rightarrow> ('q, 'j, 'i finding) table
     \<Rightarrow> ('m, 'k, member) table \<Rightarrow> ('u, 'l, audit_log \<times> 'v) table
     \<Rightarrow> ('t, 'p, 'q, 'm, 'u) app \<Rightarrow> ('i, 'v) request \<Rightarrow> ('t, 'p, 'q, 'm, 'u) app" where
  "app_step tn sc fi mb au a (CreateTenant now auth name pl) =
     a\<lparr>ap_tenants := snd (createTenant tn now auth name pl (ap_tenants a))\<rparr>"
| "app_step tn sc fi mb au a (UpdateTenant now auth i name pl) =
     a\<lparr>ap_tenants := snd (updateTenant tn now auth i name pl (ap_tenants a))\<rparr>"
| "app_step tn sc fi mb au a (DeleteTenant auth i) =
     a\<lparr>ap_tenants := snd (deleteTenant tn auth i (ap_tenants a))\<rparr>"
| "app_step tn sc fi mb au a (CreateScan now auth ty) =
     a\<lparr>ap_scans := snd (createScan sc now auth ty (ap_scans a))\<rparr>"
| "app_step tn sc fi mb au a (RecordScan now i t status fs) =
     a\<lparr>ap_scans := snd (recordScanResults sc fi now i t status fs (ap_scans a))\<rparr>"
| "app_step tn sc fi mb au a (CreateMember now auth args) =
     a\<lparr>ap_members := snd (createOrgMember mb now auth args (ap_members a))\<rparr>"
| "app_step tn sc fi mb au a (StripeEvent now e) =
     a\<lparr>ap_audit := snd (recordStripeEvent au now e (ap_audit a))\<rparr>"

text \<open>The tenant a request acts for.  A new membership and a billing event touch none of the tables
  the tenant handlers read.\<close>

fun request_tenant :: "('i, 'v) request \<Rightarrow> string option" where
  "request_tenant (CreateTenant _ auth _ _) = Some (tenant_of auth)"
| "request_tenant (UpdateTenant _ auth _ _ _) = Some (tenant_of auth)"
| "request_tenant (DeleteTenant auth _) = Some (tenant_of auth)"
| "request_tenant (CreateScan _ auth _) = Some (tenant_of auth)"
| "request_tenant (RecordScan _ _ t _ _) = Some t"
| "request_tenant (CreateMember _ _ _) = None"
| "request_tenant (StripeEvent _ _) = None"

text \<open>The organisation of a user as the handlers of users.ts read it: that of the first stored
  membership.  A request can add to an organisation when its caller has that one, whatever
  organisation the token names.\<close>

definition stored_org :: "('m, 'k, member) table \<Rightarrow> string \<Rightarrow> 'm \<Rightarrow> string option" where
  "stored_org mb u s = map_option (\<lambda>(i, m). mb_orgId m) (t_first mb (\<lambda>m. mb_userId m = u) s)"

fun adds_to_org :: "('m, 'k, member) table \<Rightarrow> 'm \<Rightarrow> string \<Rightarrow> ('i, 'v) request \<Rightarrow> bool" where
  "adds_to_org mb s org (CreateMember _ (Some k) _) = (stored_org mb (cl_subject k) s = Some org)"
| "adds_to_org _ _ _ _ = False"

fun adds_user :: "string \<Rightarrow> ('i, 'v) request \<Rightarrow> bool" where
  "adds_user u (CreateMember _ _ args) = (ma_userId args = u)"
| "adds_user _ _ = False"

text \<open>Everything a tenant can read: its tenant rows, its scans, and the findings of each of its
  scans.\<close>

definition visible ::
  "('t, 'i, tenant) table \<Rightarrow> ('p, 'i, scan) table \<Rightarrow> ('q, 'j, 'i finding) table \<Rightarrow> string
     \<Rightarrow> ('t, 'p, 'q, 'm, 'u) app
     \<Rightarrow> ('i \<times> tenant) list \<times> ('i \<times> scan) list \<times> ('i \<Rightarrow> (scan \<times> ('j \<times> 'i finding) list) option)" where
  "visible tn sc fi t a =
     (tenants_of tn t (ap_tenants a),
      t_query sc (\<lambda>d. sc_tenantId d = t) (st_scans (ap_scans a)),
      (\<lambda>i. case t_get sc (st_scans (ap_scans a)) i of
             None \<Rightarrow> None
           | Some d \<Rightarrow>
               (if sc_tenantId d = t
                then Some (d, t_query fi (\<lambda>f. fd_scanId f = i) (st_findings (ap_scans a)))
                else None)))"

section \<open>Isolation lemmas\<close>

text \<open>The scan part of \<open>visible\<close>, the list and the lookup.\<close>

definition scans_of ::
  "('p, 'i, scan) table \<Rightarrow> ('q, 'j, 'i finding) table \<Rightarrow> string \<Rightarrow> ('p, 'q) scan_store
     \<Rightarrow> ('i \<times> scan) list \<times> ('i \<Rightarrow> (scan \<times> ('j \<times> 'i finding) list) option)" where
  "scans_of sc fi t st =
     (t_query sc (\<lambda>d. sc_tenantId d = t) (st_scans st),
      (\<lambda>i. case t_get sc (st_scans st) i of
             None \<Rightarrow> None
           | Some d \<Rightarrow>
               (if sc_tenantId d = t
                then Some (d, t_query fi (\<lambda>f. fd_scanId f = i) (st_findings st)) else None)))"

lemma visible_split: "visible tn sc fi t a = (tenants_of tn t (ap_tenants a), scans_of sc fi t (ap_scans a))"
  by (simp add: visible_def scans_of_def)

lemma createScan_other:
  assumes sc: "doc_table sc" and "tenant_of auth \<noteq> t"
  shows "scans_of sc fi t (snd (createScan sc now auth ty st)) = scans_of sc fi t st"
proof -
  obtain r st' where c: "createScan sc now auth ty st = (r, st')" by fastforce
  then obtain d i p where ins: "t_insert sc d (st_scans st) = (i, p)"
    and d: "sc_tenantId d = tenant_of auth" and st': "st' = st\<lparr>st_scans := p\<rparr>"
    by (auto simp: createScan_eq)
  show ?thesis
    using assms(2) doc_table.insert_get [OF sc ins]
    by (auto simp: c st' d scans_of_def doc_table.query_insert [OF sc ins] split: option.splits)
qed

lemma recordScanResults_other:
  assumes sc: "doc_table sc" and fi: "doc_table fi" and "u \<noteq> t"
  shows "scans_of sc fi t (snd (recordScanResults sc fi now i u status fs st)) = scans_of sc fi t st"
proof (cases "recordScanResults sc fi now i u status fs st")
  case (Pair r st')
  show ?thesis
  proof (cases r)
    case (Inl e)
    with Pair show ?thesis by (auto dest: recordScanResults_Inl)
  next
    case (Inr x)
    let ?u = "\<lambda>d. d\<lparr>sc_status := outcome_status status, sc_findingsCount := length fs,
      sc_completedAt := Some now\<rparr>"
    from Inr Pair obtain d where d: "t_get sc (st_scans st) i = Some d" "sc_tenantId d = u"
      and st': "st' = st\<lparr>st_findings := insert_findings fi now u i fs (st_findings st),
          st_scans := t_patch sc i ?u (st_scans st)\<rparr>"
      by (auto simp: recordScanResults_Inr)
    have list: "t_query sc (\<lambda>d. sc_tenantId d = t) (t_patch sc i ?u (st_scans st)) =
        t_query sc (\<lambda>d. sc_tenantId d = t) (st_scans st)"
      using d assms(3) by (intro doc_table.query_patch_other [OF sc]) auto
    have find: "t_query fi (\<lambda>f. fd_scanId f = k) (insert_findings fi now u i fs (st_findings st)) =
        t_query fi (\<lambda>f. fd_scanId f = k) (st_findings st)" if "k \<noteq> i" for k
    proof -
      obtain js where "t_query fi (\<lambda>f. fd_scanId f = k) (insert_findings fi now u i fs (st_findings st)) =
          t_query fi (\<lambda>f. fd_scanId f = k) (st_findings st) @
            filter (\<lambda>(j, d). fd_scanId d = k) (zip js (map (stored_finding now u i) fs))"
        using insert_findings_query [OF fi] by blast
      moreover have "filter (\<lambda>(j, d). fd_scanId d = k) (zip js (map (stored_finding now u i) fs)) = []"
        using that by (intro filter_zip_none) auto
      ultimately show ?thesis by simp
    qed
    have "scans_of sc fi t st' = scans_of sc fi t st"
      using d assms(3) find doc_table.patch_get [OF sc, of "st_scans st" i]
      by (auto simp: scans_of_def st' list fun_eq_iff split: option.splits)
    with Pair show ?thesis by simp
  qed
qed

lemma app_step_other:
  assumes "doc_table tn" "doc_table sc" "doc_table fi" and "request_tenant r \<noteq> Some t"
  shows "visible tn sc fi t (app_step tn sc fi mb au a r) = visible tn sc fi t a"
  using assms
  by (cases r) (simp_all add: visible_split createTenant_other updateTenant_other
      deleteTenant_other createScan_other recordScanResults_other)

lemma app_step_findings_ok:
  assumes "doc_table sc" "doc_table fi"
  shows "findings_ok sc fi (ap_scans a) \<Longrightarrow> findings_ok sc fi (ap_scans (app_step tn sc fi mb au a r))"
  using assms
  by (cases r) (simp_all add: createScan_findings_ok recordScanResults_findings_ok)

lemma invariant_app:
  assumes "doc_table sc" "doc_table fi"
  shows "invariant_machine (app_step tn sc fi mb au) (\<lambda>a. findings_ok sc fi (ap_scans a))"
  by unfold_locales (rule app_step_findings_ok [OF assms])

lemma unobserved_app:
  assumes "doc_table tn" "doc_table sc" "doc_table fi"
  shows "unobserved_machine (app_step tn sc fi mb au) (\<lambda>r. request_tenant r \<noteq> Some t) (visible tn sc fi t)"
  by unfold_locales (rule app_step_other [OF assms])

text \<open>The memberships: a user keeps the first row, and while nobody of an organisation adds to it,
  its rows stay as they are.\<close>

lemma first_insert:
  assumes mb: "doc_table mb" and "t_insert mb d s = (i, s')"
  shows "t_first mb p s' =
    (case t_first mb p s of None \<Rightarrow> (if p d then Some (i, d) else None) | Some x \<Rightarrow> Some x)"
  by (simp add: t_first_def doc_table.query_insert [OF assms] split: list.splits)

lemma createOrgMember_stored_org:
  assumes mb: "doc_table mb"
  shows "stored_org mb u (snd (createOrgMember mb now auth args s)) =
    (case stored_org mb u s of
       Some org \<Rightarrow> Some org
     | None \<Rightarrow>
         (if ma_userId args = u \<and> (\<exists>i. fst (createOrgMember mb now auth args s) = Inr i)
          then Option.bind auth (\<lambda>k. stored_org mb (cl_subject k) s) else None))"
proof (cases "createOrgMember mb now auth args s")
  case (Pair r s')
  show ?thesis
  proof (cases r)
    case (Inl e)
    with Pair show ?thesis by (auto dest: createOrgMember_Inl split: option.splits)
  next
    case (Inr i)
    with Pair show ?thesis
      by (auto elim!: createOrgMember_Inr simp: stored_org_def first_insert [OF mb] split: option.splits)
  qed
qed

lemma createOrgMember_org_rows:
  assumes mb: "doc_table mb" and other: "\<not> adds_to_org mb s org r"
    and r: "r = CreateMember now auth args"
  shows "t_query mb (\<lambda>m. mb_orgId m = org) (snd (createOrgMember mb now auth args s)) =
    t_query mb (\<lambda>m. mb_orgId m = org) s"
proof (cases "createOrgMember mb now auth args s")
  case (Pair r s')
  show ?thesis
  proof (cases r)
    case (Inl e)
    with Pair show ?thesis by (auto dest: createOrgMember_Inl)
  next
    case (Inr i)
    with Pair other r show ?thesis
      by (auto elim!: createOrgMember_Inr simp: stored_org_def doc_table.query_insert [OF mb])
  qed
qed

lemma stored_org_step:
  assumes mb: "doc_table mb" and other: "\<not> adds_to_org mb (ap_members a) org r"
    and "stored_org mb u (ap_members a) \<noteq> Some org"
  shows "stored_org mb u (ap_members (app_step tn sc fi mb au a r)) \<noteq> Some org"
  using assms
  by (cases r) (auto simp: createOrgMember_stored_org split: option.splits bind_splits)

lemma adds_to_org_step:
  assumes mb: "doc_table mb" and other: "\<not> adds_to_org mb (ap_members a) org r"
    and r': "\<not> adds_to_org mb (ap_members a) org r'"
  shows "\<not> adds_to_org mb (ap_members (app_step tn sc fi mb au a r)) org r'"
  using r'
  by (cases "(mb, ap_members a, org, r')" rule: adds_to_org.cases)
    (simp_all add: stored_org_step [OF mb other])

lemma org_rows_run:
  assumes mb: "doc_table mb"
  shows "list_all (\<lambda>r. \<not> adds_to_org mb (ap_members a) org r) rs \<Longrightarrow>
    t_query mb (\<lambda>m. mb_orgId m = org) (ap_members (run (app_step tn sc fi mb au) a rs)) =
    t_query mb (\<lambda>m. mb_orgId m = org) (ap_members a)"
proof (induction rs arbitrary: a)
  case Nil
  then show ?case by simp
next
  case (Cons r rs)
  let ?a = "app_step tn sc fi mb au a r"
  from Cons.prems have "list_all (\<lambda>r. \<not> adds_to_org mb (ap_members ?a) org r) rs"
    by (auto simp: list_all_iff adds_to_org_step [OF mb])
  from Cons.IH [OF this] Cons.prems show ?case
    by (cases r) (auto dest: createOrgMember_org_rows [OF mb] simp del: adds_to_org.simps)
qed

lemma first_row_step:
  assumes mb: "doc_table mb"
    and "t_first mb (\<lambda>m. mb_userId m = u) (ap_members a) \<noteq> None \<or> \<not> adds_user u r"
  shows "t_first mb (\<lambda>m. mb_userId m = u) (ap_members (app_step tn sc fi mb au a r)) =
    t_first mb (\<lambda>m. mb_userId m = u) (ap_members a)"
proof (cases r)
  case (CreateMember now auth args)
  then show ?thesis
  proof (cases "createOrgMember mb now auth args (ap_members a)")
    case (Pair x s')
    with CreateMember assms(2) show ?thesis
      by (cases x) (auto dest: createOrgMember_Inl elim!: createOrgMember_Inr
        simp: first_insert [OF mb] split: option.splits)
  qed
qed simp_all

lemma first_row_run:
  assumes mb: "doc_table mb"
  shows "t_first mb (\<lambda>m. mb_userId m = u) (ap_members a) \<noteq> None \<or>
      list_all (\<lambda>r. \<not> adds_user u r) rs \<Longrightarrow>
    t_first mb (\<lambda>m. mb_userId m = u) (ap_members (run (app_step tn sc fi mb au) a rs)) =
    t_first mb (\<lambda>m. mb_userId m = u) (ap_members a)"
proof (induction rs arbitrary: a)
  case Nil
  then show ?case by simp
next
  case (Cons r rs)
  from Cons.prems have "t_first mb (\<lambda>m. mb_userId m = u) (ap_members (app_step tn sc fi mb au a r)) =
      t_first mb (\<lambda>m. mb_userId m = u) (ap_members a)"
    by (intro first_row_step [OF mb]) auto
  with Cons.IH [of "app_step tn sc fi mb au a r"] Cons.prems show ?case by auto
qed

type_synonym slot_app = "(tenant slots, scan slots, nat finding slots, member slots,
  (audit_log \<times> string) slots) app"

abbreviation slot_step :: "slot_app \<Rightarrow> (nat, string) request \<Rightarrow> slot_app" where
  "slot_step \<equiv> app_step slot_table slot_table slot_table slot_table slot_table"

interpretation slot_inv: invariant_machine slot_step
  "\<lambda>a. findings_ok slot_table slot_table (ap_scans a)"
  by (rule invariant_app [OF slot_table_contract slot_table_contract])

interpretation slot_obs: unobserved_machine slot_step
  "\<lambda>r. request_tenant r \<noteq> Some t" "visible slot_table slot_table slot_table t" for t
  by (rule unobserved_app [OF slot_table_contract slot_table_contract slot_table_contract])

text \<open>The read handlers answer from \<open>visible\<close> alone.\<close>

lemma getScan_visible:
  "getScan sc fi auth i (ap_scans a) = Inr (snd (snd (visible tn sc fi (tenant_of auth) a)) i)"
  by (simp add: getScan_def visible_def split: option.splits)

lemma listScans_visible:
  "listScansForTenant sc auth status (ap_scans a) =
     Inr (filter (\<lambda>(i, d). case status of None \<Rightarrow> True | Some x \<Rightarrow> sc_status d = x)
       (fst (snd (visible tn sc fi (tenant_of auth) a))))"
  by (auto simp: listScansForTenant_def visible_def t_query_def intro!: filter_cong
      split: option.splits)

lemma listTenants_visible:
  "listTenants tn auth (ap_tenants a) = Inr (fst (visible tn sc fi (tenant_of auth) a))"
  by (simp add: listTenants_def visible_def tenants_of_def)

lemma getTenant_visible:
  "doc_table tn \<Longrightarrow>
   getTenant tn auth i (ap_tenants a) = Inr (map_of (fst (visible tn sc fi (tenant_of auth) a)) i)"
  by (simp add: getTenant_view visible_def)

section \<open>Properties\<close>

text \<open>C1: isolation over any interleaving of mutations.  When no request acts for the tenant of a
  caller, \<open>getScan\<close>, \<open>listScansForTenant\<close>, \<open>getTenant\<close> and \<open>listTenants\<close> answer as before, whatever
  memberships and billing events are recorded in between.  Organisations are isolated by the
  stored memberships and not by the tokens: \<open>listOrgMembers\<close> answers as before when no
  \<open>createOrgMember\<close> of the run is called by a user whose first stored membership is in the
  organisation the caller's token names, and \<open>me\<close> when the caller has a membership already or no
  \<open>createOrgMember\<close> of the run is for that user.\<close>

theorem tenant_isolation:
  assumes tb: "doc_table tn" "doc_table sc" "doc_table fi" "doc_table mb"
    and run: "a' = run (app_step tn sc fi mb au) a rs"
  shows "(list_all (\<lambda>r. request_tenant r \<noteq> Some (tenant_of auth)) rs \<longrightarrow>
      getScan sc fi auth i (ap_scans a') = getScan sc fi auth i (ap_scans a) \<and>
      listScansForTenant sc auth status (ap_scans a') =
        listScansForTenant sc auth status (ap_scans a) \<and>
      getTenant tn auth i (ap_tenants a') = getTenant tn auth i (ap_tenants a) \<and>
      listTenants tn auth (ap_tenants a') = listTenants tn auth (ap_tenants a))
    \<and> ((\<forall>k org. auth = Some k \<and> cl_orgId k = Some org \<longrightarrow>
          list_all (\<lambda>r. \<not> adds_to_org mb (ap_members a) org r) rs) \<longrightarrow>
      listOrgMembers mb auth (ap_members a') = listOrgMembers mb auth (ap_members a))
    \<and> ((\<forall>k. auth = Some k \<longrightarrow> stored_org mb (cl_subject k) (ap_members a) \<noteq> None \<or>
          list_all (\<lambda>r. \<not> adds_user (cl_subject k) r) rs) \<longrightarrow>
      me mb auth (ap_members a') = me mb auth (ap_members a))"
proof (intro conjI impI)
  assume "list_all (\<lambda>r. request_tenant r \<noteq> Some (tenant_of auth)) rs"
  from unobserved_machine.run_obs [OF unobserved_app [OF tb(1-3)] this, of mb au a, folded run]
  have v: "visible tn sc fi (tenant_of auth) a' = visible tn sc fi (tenant_of auth) a" .
  show "getScan sc fi auth i (ap_scans a') = getScan sc fi auth i (ap_scans a)"
    by (simp add: v getScan_visible [of sc fi auth i _ tn])
  show "listScansForTenant sc auth status (ap_scans a') =
      listScansForTenant sc auth status (ap_scans a)"
    by (simp add: v listScans_visible [of sc auth status _ tn fi])
  show "getTenant tn auth i (ap_tenants a') = getTenant tn auth i (ap_tenants a)"
    by (simp add: v getTenant_visible [OF tb(1), of auth i _ sc fi])
  show "listTenants tn auth (ap_tenants a') = listTenants tn auth (ap_tenants a)"
    by (simp add: v listTenants_visible [of tn auth _ sc fi])
next
  assume "\<forall>k org. auth = Some k \<and> cl_orgId k = Some org \<longrightarrow>
    list_all (\<lambda>r. \<not> adds_to_org mb (ap_members a) org r) rs"
  then show "listOrgMembers mb auth (ap_members a') = listOrgMembers mb auth (ap_members a)"
    by (auto simp: listOrgMembers_def requireOrgId_def requireIdentity_def truthy_opt_def run
        org_rows_run [OF tb(4)] split: option.splits)
next
  assume "\<forall>k. auth = Some k \<longrightarrow> stored_org mb (cl_subject k) (ap_members a) \<noteq> None \<or>
    list_all (\<lambda>r. \<not> adds_user (cl_subject k) r) rs"
  then show "me mb auth (ap_members a') = me mb auth (ap_members a)"
    by (auto simp: me_def requireIdentity_def stored_org_def run first_row_run [OF tb(4)]
        split: option.splits)
qed

definition ex_app :: slot_app where
  "ex_app = \<lparr>ap_tenants = [Some (ex_tenant ''t1''), Some (ex_tenant ''t2'')],
     ap_scans = \<lparr>st_scans = [], st_findings = []\<rparr>,
     ap_members = [Some (ex_member ''t1'' ''u1''), Some (ex_member ''t2'' ''u2'')], ap_audit = []\<rparr>"

definition ex_requests :: "(nat, string) request list" where
  "ex_requests = [DeleteTenant (Some (ex_claims ''u2'' ''t2'')) 1, CreateScan 3 None ''quick'',
     RecordScan 4 0 PUBLIC_TENANT_ID OCompleted [],
     CreateMember 5 (Some (ex_claims ''u2'' ''t1'')) ex_args,
     StripeEvent 6 \<lparr>se_eventId = ''e'', se_eventType = ''paid'', se_tenantId = Some ''t1'',
       se_payload = ''p''\<rparr>]"

theorem tenant_isolation_witness:
  "listTenants slot_table (Some (ex_claims ''u1'' ''t1'')) (ap_tenants (run slot_step ex_app ex_requests))
     = Inr [(0, ex_tenant ''t1'')] \<and>
   listOrgMembers slot_table (Some (ex_claims ''u1'' ''t1''))
     (ap_members (run slot_step ex_app ex_requests)) = Inr [(0, ex_member ''t1'' ''u1'')] \<and>
   me slot_table (Some (ex_claims ''u1'' ''t1'')) (ap_members (run slot_step ex_app ex_requests)) =
     Inr (Some (0, ex_member ''t1'' ''u1''))"
proof -
  let ?c = "Some (ex_claims ''u1'' ''t1'')"
  have t: "list_all (\<lambda>r. request_tenant r \<noteq> Some (tenant_of ?c)) ex_requests"
    by (simp add: ex_requests_def tenant_of_def PUBLIC_TENANT_ID_def)
  have o: "list_all (\<lambda>r. \<not> adds_to_org slot_table (ap_members ex_app) ''t1'' r) ex_requests"
    by (simp add: ex_requests_def ex_app_def stored_org_def ex_defs)
  have u: "stored_org slot_table ''u1'' (ap_members ex_app) = Some ''t1''"
    by (simp add: ex_app_def stored_org_def ex_defs)
  note iso = tenant_isolation [OF slot_table_contract slot_table_contract slot_table_contract
    slot_table_contract refl, of ?c ex_requests 0 slot_table ex_app None]
  show ?thesis
    using iso t o u
    by (simp add: ex_app_def listTenants_def listOrgMembers_def me_def requireOrgId_def
        requireIdentity_def tenant_of_def ex_tenant_def ex_defs)
qed

text \<open>C2: no finding leaks: in every state reached from empty tables, whatever the requests, the
  findings that \<open>getScan\<close> returns all carry the tenant of the caller.\<close>

theorem getScan_findings_own_tenant:
  assumes tb: "doc_table sc" "doc_table fi"
    and init: "t_rows fi (st_findings (ap_scans a)) = []"
    and res: "getScan sc fi auth i (ap_scans (run (app_step tn sc fi mb au) a rs)) = Inr (Some (d, fs))"
  shows "sc_tenantId d = tenant_of auth \<and> (\<forall>(j, f) \<in> set fs. fd_tenantId f = tenant_of auth)"
proof -
  let ?a = "run (app_step tn sc fi mb au) a rs"
  from init have "findings_ok sc fi (ap_scans a)" by (simp add: findings_ok_def)
  then have ok: "findings_ok sc fi (ap_scans ?a)"
    by (rule invariant_machine.run_inv [OF invariant_app [OF tb]])
  from res have d: "t_get sc (st_scans (ap_scans ?a)) i = Some d" "sc_tenantId d = tenant_of auth"
    and fs: "fs = t_query fi (\<lambda>f. fd_scanId f = i) (st_findings (ap_scans ?a))"
    by (auto simp: getScan_def split: option.splits if_splits)
  from ok d show ?thesis by (fastforce simp: fs t_query_def findings_ok_def)
qed

definition ex_finding :: finding_args where
  "ex_finding = \<lparr>fa_assetId = None, fa_severity = High, fa_title = ''t'', fa_description = None,
     fa_control = None\<rparr>"

lemma ex_reported:
  "getScan slot_table slot_table None 0
     (ap_scans (run slot_step ex_app
        [CreateScan 3 None ''quick'', RecordScan 4 0 PUBLIC_TENANT_ID OCompleted [ex_finding]])) =
   Inr (Some (\<lparr>sc_tenantId = PUBLIC_TENANT_ID, sc_status = Completed, sc_scanType = ''quick'',
      sc_startedAt = None, sc_completedAt = Some 4, sc_findingsCount = 1, sc_requestedBy = None,
      sc_createdAt = 3\<rparr>, [(0, stored_finding 4 PUBLIC_TENANT_ID 0 ex_finding)]))"
  by (simp add: ex_app_def getScan_def createScan_def recordScanResults_def PUBLIC_TENANT_ID_def
      tenant_of_def t_query_def slot_table_def slot_rows_def slot_get_def List.map_filter_def
      stored_finding_def ex_finding_def)

theorem getScan_findings_own_tenant_witness:
  "tenant_of None = PUBLIC_TENANT_ID \<and>
   fd_tenantId (stored_finding 4 PUBLIC_TENANT_ID (0 :: nat) ex_finding) = tenant_of None"
proof -
  have init: "t_rows slot_table (st_findings (ap_scans ex_app)) = []"
    by (simp add: ex_app_def slot_table_def)
  from getScan_findings_own_tenant [OF slot_table_contract slot_table_contract init ex_reported]
  show ?thesis by simp
qed

text \<open>A created scan is read back by the same caller as pending, with no findings.\<close>

theorem createScan_roundtrip:
  assumes tb: "doc_table sc" "doc_table fi" and ok: "findings_ok sc fi st"
    and c: "createScan sc now auth ty st = (r, st')"
  shows "\<exists>i. r = Inr i \<and> getScan sc fi auth i st' =
    Inr (Some (\<lparr>sc_tenantId = tenant_of auth, sc_status = Pending, sc_scanType = ty,
      sc_startedAt = None, sc_completedAt = None, sc_findingsCount = 0,
      sc_requestedBy = map_option cl_subject auth, sc_createdAt = now\<rparr>, []))"
proof -
  from c obtain i p where ins: "t_insert sc \<lparr>sc_tenantId = tenant_of auth, sc_status = Pending,
      sc_scanType = ty, sc_startedAt = None, sc_completedAt = None, sc_findingsCount = 0,
      sc_requestedBy = map_option cl_subject auth, sc_createdAt = now\<rparr> (st_scans st) = (i, p)"
    and r: "r = Inr i" and st': "st' = st\<lparr>st_scans := p\<rparr>"
    by (auto simp: createScan_eq)
  have "t_query fi (\<lambda>f. fd_scanId f = i) (st_findings st) = []"
    using ok doc_table.insert_get(2) [OF tb(1) ins]
    by (fastforce simp: t_query_def findings_ok_def filter_empty_conv)
  with doc_table.insert_get(1) [OF tb(1) ins, of i] show ?thesis
    by (simp add: r st' getScan_def)
qed

lemma ex_createScan:
  "createScan slot_table 3 None ''quick'' \<lparr>st_scans = [], st_findings = [] :: nat finding slots\<rparr> =
   (Inr 0, \<lparr>st_scans = [Some \<lparr>sc_tenantId = PUBLIC_TENANT_ID, sc_status = Pending,
      sc_scanType = ''quick'', sc_startedAt = None, sc_completedAt = None, sc_findingsCount = 0,
      sc_requestedBy = None, sc_createdAt = 3\<rparr>], st_findings = []\<rparr>)"
  by (simp add: createScan_def tenant_of_def slot_table_def)

theorem createScan_roundtrip_witness:
  "\<exists>i d. fst (createScan slot_table 3 None ''quick''
       \<lparr>st_scans = [], st_findings = [] :: nat finding slots\<rparr>) = Inr i \<and> sc_status d = Pending \<and>
     getScan slot_table slot_table None i (snd (createScan slot_table 3 None ''quick''
       \<lparr>st_scans = [], st_findings = [] :: nat finding slots\<rparr>)) = Inr (Some (d :: scan, []))"
proof -
  have "findings_ok slot_table slot_table
      \<lparr>st_scans = [] :: scan slots, st_findings = [] :: nat finding slots\<rparr>"
    by (simp add: findings_ok_def slot_table_def)
  from createScan_roundtrip [OF slot_table_contract slot_table_contract this ex_createScan]
  show ?thesis by (force simp: ex_createScan)
qed

text \<open>C14: recording results appends the reported findings to those the scan already has, sets the
  status, and overwrites the stored count with the number reported: the count is the number of
  stored findings exactly when the scan had none before.\<close>

theorem recordScanResults_effect:
  assumes tb: "doc_table sc" "doc_table fi"
    and d: "t_get sc (st_scans st) i = Some d" "sc_tenantId d = t" "t \<noteq> []"
    and me: "tenant_of auth = t"
  shows "\<exists>st' d' old new. recordScanResults sc fi now i t status fs st = (Inr (i, length fs), st')
    \<and> getScan sc fi auth i st = Inr (Some (d, old))
    \<and> getScan sc fi auth i st' = Inr (Some (d', old @ new))
    \<and> map snd new = map (stored_finding now t i) fs
    \<and> d' = d\<lparr>sc_status := outcome_status status, sc_findingsCount := length fs,
             sc_completedAt := Some now\<rparr>
    \<and> (sc_findingsCount d' = length (old @ new) \<longleftrightarrow> old = [])"
proof -
  let ?u = "\<lambda>d. d\<lparr>sc_status := outcome_status status, sc_findingsCount := length fs,
      sc_completedAt := Some now\<rparr>"
  let ?q = "insert_findings fi now t i fs (st_findings st)"
  let ?old = "t_query fi (\<lambda>f. fd_scanId f = i) (st_findings st)"
  obtain js where js: "length js = length fs"
    and q: "t_query fi (\<lambda>f. fd_scanId f = i) ?q =
      ?old @ filter (\<lambda>(j, d). fd_scanId d = i) (zip js (map (stored_finding now t i) fs))"
    using insert_findings_query [OF tb(2)] by blast
  have new: "filter (\<lambda>(j, d). fd_scanId d = i) (zip js (map (stored_finding now t i) fs)) =
      zip js (map (stored_finding now t i) fs)"
    using js by (intro filter_zip_all) auto
  have rec: "recordScanResults sc fi now i t status fs st = (Inr (i, length fs),
      st\<lparr>st_findings := ?q, st_scans := t_patch sc i ?u (st_scans st)\<rparr>)"
    using d by (simp add: recordScanResults_def)
  have old: "getScan sc fi auth i st = Inr (Some (d, ?old))"
    using d me by (simp add: getScan_def)
  have "getScan sc fi auth i (st\<lparr>st_findings := ?q, st_scans := t_patch sc i ?u (st_scans st)\<rparr>) =
      Inr (Some (?u d, ?old @ zip js (map (stored_finding now t i) fs)))"
    using d me doc_table.patch_get [OF tb(1), of "st_scans st" i ?u i]
    by (simp add: getScan_def q new)
  moreover have "map snd (zip js (map (stored_finding now t i) fs)) = map (stored_finding now t i) fs"
    using js by simp
  ultimately show ?thesis using rec old js by auto
qed

definition ex_scan :: scan where
  "ex_scan = \<lparr>sc_tenantId = ''t1'', sc_status = Running, sc_scanType = ''full'', sc_startedAt = None,
     sc_completedAt = None, sc_findingsCount = 0, sc_requestedBy = None, sc_createdAt = 1\<rparr>"

theorem recordScanResults_effect_witness:
  "\<exists>st' d' old new. recordScanResults slot_table slot_table 9 0 ''t1'' OCompleted [ex_finding]
      \<lparr>st_scans = [Some ex_scan], st_findings = [] :: nat finding slots\<rparr> = (Inr (0, 1), st') \<and>
    getScan slot_table slot_table (Some (ex_claims ''u'' ''t1'')) 0 st' = Inr (Some (d', old @ new)) \<and>
    map snd new = [stored_finding 9 ''t1'' 0 ex_finding] \<and> sc_status d' = Completed"
proof -
  have h: "t_get slot_table (st_scans \<lparr>st_scans = [Some ex_scan],
      st_findings = [] :: nat finding slots\<rparr>) 0 = Some ex_scan"
    "sc_tenantId ex_scan = ''t1''" "''t1'' \<noteq> []" "tenant_of (Some (ex_claims ''u'' ''t1'')) = ''t1''"
    by (simp_all add: slot_table_def slot_get_def ex_scan_def tenant_of_def)
  from recordScanResults_effect [OF slot_table_contract slot_table_contract h, of 9 OCompleted
      "[ex_finding]"]
  show ?thesis by (simp add: h) (elim exE conjE, intro exI conjI, assumption+, simp)
qed

text \<open>The webhook answers 503 without a configured secret, 400 without a signature and 501
  otherwise: it never reports success, so no billing event is recorded through it.\<close>

lemma stripe_webhook_status:
  "snd (stripe_webhook secret sig) = (if \<not> truthy_opt secret then 503
     else if \<not> truthy_opt sig then 400 else 501)
   \<and> snd (stripe_webhook secret sig) \<ge> 400"
  by (simp add: stripe_webhook_def)

end
