(* ===== verification/Js_Number.thy ===== *)
theory Js_Number
  imports Prelude Complex_Main "HOL-Library.Log_Nat"
begin

text \<open>
  JavaScript numbers.  A value is NaN, an infinity or a finite binary64 value, which is kept as
  the rational it denotes; every arithmetic operation computes the exact rational result and
  rounds it to binary64 (round to nearest, ties to even, gradual underflow, overflow to an
  infinity), as IEEE 754 and ECMAScript prescribe.  The sign of zero is not kept: no operation
  of the modelled sources tells the two zeros apart.
\<close>

section \<open>Rounding to binary64\<close>

text \<open>The exponent of a positive rational: \<open>2 ^ e \<le> x < 2 ^ (e + 1)\<close>.\<close>

definition bexp :: "rat \<Rightarrow> int" where
  "bexp x =
     (let (n, d) = quotient_of x; k = bitlen n - bitlen d
      in if 2 powi k \<le> x then k else k - 1)"

text \<open>The exponent of the last bit that a binary64 value near \<open>x\<close> has.\<close>

definition ulp_exp :: "rat \<Rightarrow> int" where
  "ulp_exp x = (if x = 0 then - 1074 else max (bexp \<bar>x\<bar> - 52) (- 1074))"

text \<open>Rounding to an integer, ties to even.\<close>

definition round_even :: "rat \<Rightarrow> int" where
  "round_even z =
     (let f = \<lfloor>z\<rfloor>; r = z - of_int f
      in if r < 1 / 2 then f else if 1 / 2 < r then f + 1 else if even f then f else f + 1)"

definition rnd :: "rat \<Rightarrow> rat" where
  "rnd x = of_int (round_even (x / 2 powi ulp_exp x)) * 2 powi ulp_exp x"

section \<open>Number values and operations\<close>

datatype jsnum = NaN | PInf | NInf | Fin rat

text \<open>The first magnitude that overflows, \<open>2 ^ 1024\<close>.\<close>

definition num_bound :: rat where
  "num_bound = 179769313486231590772930519078902473361797697894230657273430081157732675805500963132708477322407536021120113879871393357658789768814416622492847430639474124377767893424865485276302219601246094119453082952085005768838150682342462881473913110540827237163350510684586298239947245938479716304835356329624224137216"

definition to_num :: "rat \<Rightarrow> jsnum" where
  "to_num r =
     (let q = rnd r
      in if num_bound \<le> q then PInf else if q \<le> - num_bound then NInf else Fin q)"

text \<open>An integer literal, and a decimal literal, which is rounded.\<close>

abbreviation num :: "int \<Rightarrow> jsnum" where "num n \<equiv> Fin (of_int n)"

definition lit :: "rat \<Rightarrow> jsnum" where "lit r = to_num r"

fun js_neg :: "jsnum \<Rightarrow> jsnum" where
  "js_neg NaN = NaN"
| "js_neg PInf = NInf"
| "js_neg NInf = PInf"
| "js_neg (Fin a) = Fin (- a)"

fun js_add :: "jsnum \<Rightarrow> jsnum \<Rightarrow> jsnum" where
  "js_add NaN _ = NaN"
| "js_add _ NaN = NaN"
| "js_add PInf NInf = NaN"
| "js_add NInf PInf = NaN"
| "js_add PInf _ = PInf"
| "js_add _ PInf = PInf"
| "js_add NInf _ = NInf"
| "js_add _ NInf = NInf"
| "js_add (Fin a) (Fin b) = to_num (a + b)"

definition js_sub :: "jsnum \<Rightarrow> jsnum \<Rightarrow> jsnum" where
  "js_sub a b = js_add a (js_neg b)"

text \<open>An infinity with the sign of a rational, NaN for zero.\<close>

definition inf_of :: "rat \<Rightarrow> jsnum" where
  "inf_of s = (if s = 0 then NaN else if 0 < s then PInf else NInf)"

fun js_mul :: "jsnum \<Rightarrow> jsnum \<Rightarrow> jsnum" where
  "js_mul NaN _ = NaN"
| "js_mul _ NaN = NaN"
| "js_mul (Fin a) (Fin b) = to_num (a * b)"
| "js_mul PInf (Fin b) = inf_of b"
| "js_mul NInf (Fin b) = inf_of (- b)"
| "js_mul (Fin a) PInf = inf_of a"
| "js_mul (Fin a) NInf = inf_of (- a)"
| "js_mul PInf PInf = PInf"
| "js_mul NInf NInf = PInf"
| "js_mul PInf NInf = NInf"
| "js_mul NInf PInf = NInf"

fun js_div :: "jsnum \<Rightarrow> jsnum \<Rightarrow> jsnum" where
  "js_div NaN _ = NaN"
| "js_div _ NaN = NaN"
| "js_div (Fin a) (Fin b) = (if b = 0 then inf_of a else to_num (a / b))"
| "js_div (Fin a) _ = Fin 0"
| "js_div PInf (Fin b) = (if b < 0 then NInf else PInf)"
| "js_div NInf (Fin b) = (if b < 0 then PInf else NInf)"
| "js_div _ _ = NaN"

fun js_lt :: "jsnum \<Rightarrow> jsnum \<Rightarrow> bool" where
  "js_lt NaN _ = False"
| "js_lt _ NaN = False"
| "js_lt (Fin a) (Fin b) = (a < b)"
| "js_lt _ NInf = False"
| "js_lt NInf _ = True"
| "js_lt PInf _ = False"
| "js_lt _ PInf = True"

definition js_le :: "jsnum \<Rightarrow> jsnum \<Rightarrow> bool" where
  "js_le a b \<longleftrightarrow> js_lt a b \<or> (a = b \<and> a \<noteq> NaN)"

text \<open>\<open>Math.min\<close>, \<open>Math.max\<close>, \<open>Math.round\<close> (ties upwards) and \<open>Math.floor\<close>.\<close>

definition js_min :: "jsnum \<Rightarrow> jsnum \<Rightarrow> jsnum" where
  "js_min a b = (if a = NaN \<or> b = NaN then NaN else if js_lt b a then b else a)"

definition js_max :: "jsnum \<Rightarrow> jsnum \<Rightarrow> jsnum" where
  "js_max a b = (if a = NaN \<or> b = NaN then NaN else if js_lt a b then b else a)"

fun js_round :: "jsnum \<Rightarrow> jsnum" where
  "js_round (Fin a) = Fin (of_int \<lfloor>a + 1 / 2\<rfloor>)"
| "js_round x = x"

fun js_floor :: "jsnum \<Rightarrow> jsnum" where
  "js_floor (Fin a) = Fin (of_int \<lfloor>a\<rfloor>)"
| "js_floor x = x"

text \<open>\<open>xs.reduce((s, x) => s + x, 0)\<close>.\<close>

definition js_sum :: "jsnum list \<Rightarrow> jsnum" where
  "js_sum xs = foldl js_add (num 0) xs"

text \<open>\<open>Math.round(x * 10) / 10\<close>, the one-decimal rounding the sources use throughout.\<close>

definition round1 :: "jsnum \<Rightarrow> jsnum" where
  "round1 x = js_div (js_round (js_mul x (num 10))) (num 10)"

definition truthy_num :: "jsnum \<Rightarrow> bool" where
  "truthy_num x \<longleftrightarrow> x \<noteq> NaN \<and> x \<noteq> Fin 0"

section \<open>Rounding lemmas\<close>

lemma powi_less_iff [simp]: "(2::rat) powi a < 2 powi b \<longleftrightarrow> a < b"
  by (metis linorder_not_less one_less_numeral_iff power_int_increasing power_int_strict_increasing
      semiring_norm(76) less_imp_le)

lemma powi_le_iff [simp]: "(2::rat) powi a \<le> 2 powi b \<longleftrightarrow> a \<le> b"
  by (metis linorder_not_less powi_less_iff)

lemma bexp_bounds:
  assumes "0 < x"
  shows "2 powi bexp x \<le> x" and "x < 2 powi (bexp x + 1)"
proof -
  obtain n d where nd: "quotient_of x = (n, d)" by (cases "quotient_of x") auto
  have d: "0 < d" using quotient_of_denom_pos [OF nd] .
  have x: "x = of_int n / of_int d" using quotient_of_div [OF nd] .
  with assms d have n: "0 < n" by (simp add: zero_less_divide_iff)
  have log: "(2::rat) powi (int (floorlog 2 (nat m)) - 1) \<le> of_int m \<and>
      of_int m < (2::rat) powi int (floorlog 2 (nat m))" if "0 < m" for m :: int
  proof -
    have f: "0 < floorlog 2 (nat m)" using that by (simp add: floorlog_def)
    have "2 ^ (floorlog 2 (nat m) - 1) \<le> nat m \<and> nat m < 2 ^ floorlog 2 (nat m)"
      using floorlog_bounds [of "nat m" 2] that by simp
    then have "(2::int) ^ (floorlog 2 (nat m) - 1) \<le> m \<and> m < 2 ^ floorlog 2 (nat m)"
      using that by (simp add: le_nat_iff nat_less_iff)
    then have "of_int (2 ^ (floorlog 2 (nat m) - 1)) \<le> (of_int m :: rat) \<and>
        (of_int m :: rat) < of_int (2 ^ floorlog 2 (nat m))"
      by (simp only: of_int_le_iff of_int_less_iff)
    then show ?thesis using f by (simp add: power_int_def nat_diff_distrib)
  qed
  define k where "k = int (floorlog 2 (nat n)) - int (floorlog 2 (nat d))"
  have up: "x < 2 powi (k + 1)"
  proof -
    have "x < 2 powi int (floorlog 2 (nat n)) / of_int d"
      unfolding x using log [OF n] d by (simp add: divide_strict_right_mono)
    also have "\<dots> \<le> 2 powi int (floorlog 2 (nat n)) / 2 powi (int (floorlog 2 (nat d)) - 1)"
      using log [OF d] d by (intro divide_left_mono) auto
    also have "\<dots> = 2 powi (int (floorlog 2 (nat n)) - (int (floorlog 2 (nat d)) - 1))"
      by (rule power_int_diff [symmetric]) simp
    also have "int (floorlog 2 (nat n)) - (int (floorlog 2 (nat d)) - 1) = k + 1"
      by (simp add: k_def)
    finally show ?thesis .
  qed
  have low: "2 powi (k - 1) \<le> x"
  proof -
    have "k - 1 = int (floorlog 2 (nat n)) - 1 - int (floorlog 2 (nat d))" by (simp add: k_def)
    then have "2 powi (k - 1) =
        (2::rat) powi (int (floorlog 2 (nat n)) - 1) / 2 powi int (floorlog 2 (nat d))"
      by (metis power_int_diff zero_neq_numeral)
    also have "\<dots> \<le> of_int n / 2 powi int (floorlog 2 (nat d))"
      using log [OF n] by (simp add: divide_right_mono)
    also have "\<dots> \<le> of_int n / of_int d"
      using log [OF d] n d by (intro divide_left_mono) auto
    finally show ?thesis by (simp add: x)
  qed
  have b: "bexp x = (if 2 powi k \<le> x then k else k - 1)"
    by (simp add: bexp_def nd k_def Let_def bitlen_def)
  show "2 powi bexp x \<le> x" "x < 2 powi (bexp x + 1)"
    using up low by (auto simp: b)
qed

lemma round_even_mono: "a \<le> b \<Longrightarrow> round_even a \<le> round_even b"
proof -
  assume le: "a \<le> b"
  have lo: "\<lfloor>z\<rfloor> \<le> round_even z" and hi: "round_even z \<le> \<lfloor>z\<rfloor> + 1" for z
    by (simp_all add: round_even_def Let_def)
  show ?thesis
  proof (cases "\<lfloor>a\<rfloor> = \<lfloor>b\<rfloor>")
    case True
    with le show ?thesis by (auto simp: round_even_def Let_def)
  next
    case False
    with floor_mono [OF le] have "\<lfloor>a\<rfloor> + 1 \<le> \<lfloor>b\<rfloor>" by simp
    with hi [of a] lo [of b] show ?thesis by linarith
  qed
qed

lemma round_even_of_int [simp]: "round_even (of_int n) = n"
  by (simp add: round_even_def)

lemma round_even_minus [simp]: "round_even (- z) = - round_even z"
proof (cases "z \<in> \<int>")
  case True
  then obtain n where "z = of_int n" by (auto elim: Ints_cases)
  then have "- z = of_int (- n)" by simp
  with \<open>z = of_int n\<close> show ?thesis by (simp only: round_even_of_int)
next
  case False
  then have "\<lfloor>- z\<rfloor> = - \<lfloor>z\<rfloor> - 1"
    by (simp add: floor_minus ceiling_altdef) (metis Ints_of_int)
  then show ?thesis by (auto simp: round_even_def Let_def)
qed

lemma ulp_exp_minus [simp]: "ulp_exp (- x) = ulp_exp x"
  by (simp add: ulp_exp_def)

lemma rnd_minus [simp]: "rnd (- x) = - rnd x"
  by (simp add: rnd_def)

lemma round_even_0 [simp]: "round_even 0 = 0"
  using round_even_of_int [of 0] by simp

lemma rnd_0 [simp]: "rnd 0 = 0"
  by (simp add: rnd_def)

lemma rnd_nonneg: "0 \<le> x \<Longrightarrow> 0 \<le> rnd x"
proof -
  assume "0 \<le> x"
  then have "0 \<le> round_even (x / 2 powi ulp_exp x)"
    using round_even_mono [of 0 "x / 2 powi ulp_exp x"] by simp
  then show ?thesis by (simp add: rnd_def)
qed

lemma pow52: "(2::rat) powi (k + 52) = 2 ^ 52 * 2 powi k" "(2::rat) powi (k + 53) = 2 ^ 53 * 2 powi k"
  by (simp_all add: power_int_add)

lemma rnd_mono_pos: "0 < x \<Longrightarrow> x \<le> y \<Longrightarrow> rnd x \<le> rnd y"
proof -
  assume x: "0 < x" and le: "x \<le> y"
  then have y: "0 < y" by simp
  let ?qx = "ulp_exp x" and ?qy = "ulp_exp y"
  have qx: "?qx = max (bexp x - 52) (- 1074)" and qy: "?qy = max (bexp y - 52) (- 1074)"
    using x y by (simp_all add: ulp_exp_def)
  have "(2::rat) powi bexp x < 2 powi (bexp y + 1)"
    using bexp_bounds(1) [OF x] bexp_bounds(2) [OF y] le by linarith
  then have be: "bexp x \<le> bexp y"
    by simp
  show ?thesis
  proof (cases "?qx = ?qy")
    case True
    have "round_even (x / 2 powi ?qy) \<le> round_even (y / 2 powi ?qy)"
      using le by (intro round_even_mono divide_right_mono) simp_all
    with True show ?thesis by (simp add: rnd_def mult_right_mono)
  next
    case False
    with be qx qy have lt: "?qx + 1 \<le> ?qy" and eqy: "?qy = bexp y - 52" by linarith+
    have "x < 2 powi (?qx + 53)"
    proof -
      have "x < 2 powi (bexp x + 1)" by (rule bexp_bounds(2) [OF x])
      also have "\<dots> \<le> 2 powi (?qx + 53)" using qx by (intro power_int_increasing) simp_all
      finally show ?thesis .
    qed
    then have "x / 2 powi ?qx \<le> of_int (2 ^ 53)" by (simp add: pow52 field_simps)
    then have "round_even (x / 2 powi ?qx) \<le> 2 ^ 53"
      using round_even_mono round_even_of_int by metis
    then have "(of_int (round_even (x / 2 powi ?qx)) :: rat) \<le> of_int (2 ^ 53)"
      by (simp only: of_int_le_iff)
    then have "rnd x \<le> 2 powi (?qx + 53)"
      by (simp add: rnd_def pow52)
    also have "\<dots> \<le> 2 powi (?qy + 52)" using lt by (intro power_int_increasing) simp_all
    also have "\<dots> \<le> rnd y"
    proof -
      have "2 powi (?qy + 52) \<le> y" using bexp_bounds(1) [OF y] eqy by simp
      then have "of_int (2 ^ 52) \<le> y / 2 powi ?qy" by (simp add: pow52 field_simps)
      then have "2 ^ 52 \<le> round_even (y / 2 powi ?qy)"
        using round_even_mono round_even_of_int by metis
      then have "of_int (2 ^ 52) \<le> (of_int (round_even (y / 2 powi ?qy)) :: rat)"
        by (simp only: of_int_le_iff)
      then show ?thesis by (simp add: rnd_def pow52)
    qed
    finally show ?thesis .
  qed
qed

lemma rnd_mono: "x \<le> y \<Longrightarrow> rnd x \<le> rnd y"
proof -
  assume le: "x \<le> y"
  consider "0 < x" | "x \<le> 0" "0 \<le> y" | "y < 0" by linarith
  then show ?thesis
  proof cases
    case 1
    then show ?thesis using le by (rule rnd_mono_pos)
  next
    case 2
    then have "0 \<le> rnd (- x)" "0 \<le> rnd y" by (simp_all only: rnd_nonneg neg_0_le_iff_le)
    then show ?thesis by simp
  next
    case 3
    then have "rnd (- y) \<le> rnd (- x)" using le by (intro rnd_mono_pos) simp_all
    then show ?thesis by simp
  qed
qed

text \<open>A multiple of the last bit is its own rounding, in particular every value with at
  most 53 significant bits.\<close>

lemma rnd_grid:
  assumes q: "ulp_exp x \<le> k" and x: "x = of_int m * 2 powi k"
  shows "rnd x = x"
proof -
  define q j where "q = ulp_exp x" and "j = nat (k - ulp_exp x)"
  then have "k = q + int j" using q by simp
  then have "(2::rat) powi k = 2 powi q * 2 ^ j" by (simp add: power_int_add)
  then have e: "x / 2 powi q = of_int (m * 2 ^ j)" by (simp add: x)
  have "rnd x = of_int (m * 2 ^ j) * 2 powi q"
    unfolding rnd_def q_def [symmetric] by (simp only: e round_even_of_int)
  also have "\<dots> = x" by (simp only: e [symmetric]) simp
  finally show ?thesis .
qed

lemma rnd_exact:
  assumes m: "\<bar>m\<bar> \<le> 2 ^ 53" and k: "- 1074 \<le> k"
  shows "rnd (of_int m * 2 powi k) = of_int m * 2 powi k"
proof (cases "m = 0")
  case True
  then show ?thesis by simp
next
  case False
  let ?x = "of_int m * (2::rat) powi k"
  have ax: "\<bar>?x\<bar> = of_int \<bar>m\<bar> * 2 powi k" by (simp add: abs_mult)
  have x: "0 < \<bar>?x\<bar>" using False by simp
  show ?thesis
  proof (cases "\<bar>m\<bar> = 2 ^ 53")
    case True
    then have "\<bar>?x\<bar> = 2 powi (k + 53)" using ax by (simp add: pow52)
    with bexp_bounds(1) [OF x] have "bexp \<bar>?x\<bar> \<le> k + 53" by (metis powi_le_iff)
    then have "ulp_exp ?x \<le> k + 1" using x k by (simp add: ulp_exp_def)
    moreover have "m = 2 ^ 53 \<or> m = - (2 ^ 53)" using True by linarith
    then have "?x = of_int (m div 2) * 2 powi (k + 1)" by (auto simp: power_int_add)
    ultimately show ?thesis by (rule rnd_grid)
  next
    case False
    with m have "\<bar>m\<bar> < 2 ^ 53" by simp
    then have "(of_int \<bar>m\<bar> :: rat) < of_int (2 ^ 53)" by (simp only: of_int_less_iff)
    then have "\<bar>?x\<bar> < 2 powi (k + 53)" unfolding ax by (simp add: pow52)
    with bexp_bounds(1) [OF x] have "2 powi bexp \<bar>?x\<bar> < (2::rat) powi (k + 53)" by (rule le_less_trans)
    then have "ulp_exp ?x \<le> k" using x k by (simp add: ulp_exp_def)
    then show ?thesis by (rule rnd_grid) simp
  qed
qed

lemma rnd_of_int [simp]: "\<bar>n\<bar> \<le> 2 ^ 53 \<Longrightarrow> rnd (of_int n) = of_int n"
  using rnd_exact [of n 0] by simp

lemma rnd_le_of_int: "x \<le> of_int n \<Longrightarrow> \<bar>n\<bar> \<le> 2 ^ 53 \<Longrightarrow> rnd x \<le> of_int n"
  using rnd_mono rnd_of_int by metis

lemma rnd_ge_of_int: "of_int n \<le> x \<Longrightarrow> \<bar>n\<bar> \<le> 2 ^ 53 \<Longrightarrow> of_int n \<le> rnd x"
  using rnd_mono rnd_of_int by metis

lemma num_bound_power: "num_bound = 2 ^ 1024"
  by (simp add: num_bound_def)

lemma to_num_Fin: "\<bar>x\<bar> \<le> of_int n \<Longrightarrow> n \<le> 2 ^ 53 \<Longrightarrow> to_num x = Fin (rnd x)"
proof -
  assume x: "\<bar>x\<bar> \<le> of_int n" and n: "n \<le> 2 ^ 53"
  have "0 \<le> \<bar>x\<bar>" by simp
  with x have n0: "0 \<le> n" by (metis of_int_0_le_iff order_trans)
  have "rnd x \<le> of_int n" using x n n0 by (intro rnd_le_of_int) auto
  moreover have "of_int (- n) \<le> rnd x" using x n n0 by (intro rnd_ge_of_int) auto
  moreover have "(of_int n :: rat) \<le> of_int (2 ^ 53)" using n by (simp only: of_int_le_iff)
  moreover have "(of_int (2 ^ 53) :: rat) < num_bound" by (simp add: num_bound_def)
  ultimately show ?thesis by (simp add: to_num_def Let_def)
qed

lemma to_num_of_int [simp]: "\<bar>n\<bar> \<le> 2 ^ 53 \<Longrightarrow> to_num (of_int n) = num n"
  using to_num_Fin [of "of_int n" "\<bar>n\<bar>"] by simp

lemma to_num_dyadic:
  assumes "\<bar>m\<bar> \<le> 2 ^ 53" "k \<le> 1074"
  shows "to_num (of_int m / 2 ^ k) = Fin (of_int m / 2 ^ k)"
proof -
  have e: "of_int m * (2::rat) powi (- int k) = of_int m / 2 ^ k"
    by (simp add: power_int_minus field_simps)
  have "rnd (of_int m / 2 ^ k) = of_int m / 2 ^ k"
    using rnd_exact [of m "- int k"] assms unfolding e by simp
  moreover have "\<bar>of_int m / 2 ^ k :: rat\<bar> \<le> of_int \<bar>m\<bar>"
    by (simp add: abs_mult divide_le_eq mult_le_cancel_left1)
  ultimately show ?thesis using to_num_Fin [OF _ assms(1)] by simp
qed

section \<open>Order lemmas\<close>

lemma js_lt_simps [simp]:
  "\<not> js_lt x x" "js_lt NInf (Fin a)" "js_lt (Fin a) PInf" "js_lt NInf PInf" "\<not> js_lt PInf x" "\<not> js_lt x NInf"
  "\<not> js_lt x NaN" "\<not> js_lt NaN x"
  by (cases x; simp)+

lemma js_le_refl [simp]: "js_le x x \<longleftrightarrow> x \<noteq> NaN"
  by (simp add: js_le_def)

lemma js_le_simps [simp]:
  "js_le (Fin a) (Fin b) \<longleftrightarrow> a \<le> b" "\<not> js_le NaN x" "\<not> js_le x NaN"
  "js_le PInf x \<longleftrightarrow> x = PInf" "js_le x NInf \<longleftrightarrow> x = NInf"
  by (auto simp: js_le_def)

lemma js_le_inf [simp]: "js_le NInf x \<longleftrightarrow> x \<noteq> NaN" "js_le x PInf \<longleftrightarrow> x \<noteq> NaN"
  by (cases x; simp add: js_le_def)+

lemma js_le_trans: "js_le a b \<Longrightarrow> js_le b c \<Longrightarrow> js_le a c"
  by (cases a; cases b; cases c) auto

lemma to_num_not_NaN [simp]: "to_num x \<noteq> NaN"
  by (simp add: to_num_def Let_def)

lemma num_bound_pos: "0 < num_bound"
  by (simp add: num_bound_def)

lemma to_num_mono: "x \<le> y \<Longrightarrow> js_le (to_num x) (to_num y)"
proof -
  assume "x \<le> y"
  then have "rnd x \<le> rnd y" by (rule rnd_mono)
  with num_bound_pos show ?thesis by (auto simp: to_num_def Let_def)
qed

lemma js_mul_mono: "0 < c \<Longrightarrow> js_le a b \<Longrightarrow> js_le (js_mul a (Fin c)) (js_mul b (Fin c))"
  by (cases a; cases b) (simp_all add: inf_of_def to_num_mono mult_right_mono)

lemma js_div_mono: "0 < c \<Longrightarrow> js_le a b \<Longrightarrow> js_le (js_div a (Fin c)) (js_div b (Fin c))"
  by (cases a; cases b) (simp_all add: to_num_mono divide_right_mono)

lemma js_round_mono: "js_le a b \<Longrightarrow> js_le (js_round a) (js_round b)"
  by (cases a; cases b) (auto intro: floor_mono)

lemma round1_mono: "js_le a b \<Longrightarrow> js_le (round1 a) (round1 b)"
  unfolding round1_def by (intro js_div_mono js_round_mono js_mul_mono) simp_all

lemma js_max_mono: "js_le a b \<Longrightarrow> js_le (js_max (Fin c) a) (js_max (Fin c) b)"
  by (cases a; cases b) (auto simp: js_max_def)

lemma js_min_mono: "js_le a b \<Longrightarrow> js_le (js_min (Fin c) a) (js_min (Fin c) b)"
  by (cases a; cases b) (auto simp: js_min_def)


lemma js_sub_anti: "js_le a b \<Longrightarrow> js_le (js_sub (Fin c) b) (js_sub (Fin c) a)"
  by (cases a; cases b) (simp_all add: js_sub_def to_num_mono)

lemma rnd_idem [simp]: "rnd (rnd x) = rnd x"
proof -
  have pos: "rnd (rnd x) = rnd x" if x: "0 < x" for x
  proof -
    let ?q = "ulp_exp x"
    have q: "?q = max (bexp x - 52) (- 1074)" using x by (simp add: ulp_exp_def)
    have "x < 2 powi (bexp x + 1)" by (rule bexp_bounds(2) [OF x])
    also have "\<dots> \<le> 2 powi (?q + 53)" using q by (intro power_int_increasing) simp_all
    finally have "x / 2 powi ?q \<le> of_int (2 ^ 53)" by (simp add: pow52 field_simps)
    then have up: "round_even (x / 2 powi ?q) \<le> 2 ^ 53"
      using round_even_mono round_even_of_int by metis
    have "0 \<le> round_even (x / 2 powi ?q)"
      using round_even_mono [of 0 "x / 2 powi ?q"] x by simp
    with up q show ?thesis unfolding rnd_def [of x] by (intro rnd_exact) simp_all
  qed
  consider "0 < x" | "x = 0" | "0 < - x" by linarith
  then show ?thesis
  proof cases
    case 3
    from pos [OF this] show ?thesis by simp
  qed (simp_all add: pos)
qed

lemma to_num_rnd: "to_num x = Fin y \<Longrightarrow> rnd y = y"
  by (auto simp: to_num_def Let_def split: if_splits)

lemma lit_pos:
  assumes "1 / 128 \<le> x" "x \<le> 1000"
  obtains c where "lit x = Fin c" "0 < c"
proof -
  have "rnd (1 / 128) = 1 / 128" using rnd_exact [of 1 "- 7"] by simp
  with rnd_mono [OF assms(1)] have "0 < rnd x" by simp
  moreover have "to_num x = Fin (rnd x)" using assms by (intro to_num_Fin [of x 1000]) simp_all
  ultimately show ?thesis using that by (simp add: lit_def)
qed

lemma to_num_range:
  assumes "of_int m \<le> x" "x \<le> of_int n" "- (2 ^ 53) \<le> m" "n \<le> 2 ^ 53"
  obtains y where "to_num x = Fin y" "of_int m \<le> y" "y \<le> of_int n" "rnd y = y"
proof -
  have mn: "m \<le> n" using assms(1,2) by linarith
  have "\<bar>x\<bar> \<le> of_int (max \<bar>m\<bar> \<bar>n\<bar>)" using assms(1,2) by (simp add: max_def) linarith
  moreover have "max \<bar>m\<bar> \<bar>n\<bar> \<le> 2 ^ 53" using assms mn by linarith
  ultimately have "to_num x = Fin (rnd x)" by (rule to_num_Fin)
  moreover have "of_int m \<le> rnd x" using assms mn by (intro rnd_ge_of_int) auto
  moreover have "rnd x \<le> of_int n" using assms mn by (intro rnd_le_of_int) auto
  ultimately show ?thesis using that by simp
qed

lemma round1_range:
  assumes "of_int m \<le> x" "x \<le> of_int n" "- 1000000 \<le> m" "n \<le> 1000000"
  obtains y where "round1 (Fin x) = Fin y" "of_int m \<le> y" "y \<le> of_int n" "rnd y = y"
proof -
  have "of_int (10 * m) \<le> x * 10" "x * 10 \<le> of_int (10 * n)" "- (2 ^ 53) \<le> 10 * m" "10 * n \<le> 2 ^ 53"
    using assms by simp_all
  then obtain z where z: "to_num (x * 10) = Fin z" "of_int (10 * m) \<le> z" "z \<le> of_int (10 * n)"
    by (rule to_num_range)
  let ?f = "\<lfloor>z + 1 / 2\<rfloor>"
  have "10 * m \<le> ?f" using z(2) by (simp add: le_floor_iff)
  moreover have "?f \<le> 10 * n" using z(3) by linarith
  ultimately have "of_int (10 * m) \<le> (of_int ?f :: rat)" "(of_int ?f :: rat) \<le> of_int (10 * n)"
    by (simp_all only: of_int_le_iff)
  then have "of_int m \<le> (of_int ?f / 10 :: rat)" "(of_int ?f / 10 :: rat) \<le> of_int n"
    by simp_all
  moreover have "- (2 ^ 53) \<le> m" "n \<le> 2 ^ 53" using assms(3,4) by simp_all
  ultimately obtain y where "to_num (of_int ?f / 10) = Fin y" "of_int m \<le> y" "y \<le> of_int n" "rnd y = y"
    by (rule to_num_range)
  with z(1) that show ?thesis by (simp add: round1_def)
qed

end
