(* ===== verification/Js_Value.thy ===== *)
theory Js_Value
  imports Js_Number
begin

text \<open>
  JavaScript values as the handlers receive them from JSON: null, booleans, numbers, strings,
  arrays and plain objects, with undefined for a missing property.  Conversions follow
  ECMAScript.  The decimal rendering of a non-integral number is the parameter \<open>fmt\<close>.
\<close>

datatype jval =
  JUndef
| JNull
| JBool bool
| JNum jsnum
| JStr string
| JArr "jval list"
| JObj "(string \<times> jval) list"

fun js_truthy :: "jval \<Rightarrow> bool" where
  "js_truthy JUndef = False"
| "js_truthy JNull = False"
| "js_truthy (JBool b) = b"
| "js_truthy (JNum n) = truthy_num n"
| "js_truthy (JStr s) = (s \<noteq> [])"
| "js_truthy (JArr _) = True"
| "js_truthy (JObj _) = True"

text \<open>\<open>o.k\<close> for an object \<open>o\<close>; any other defined value has no own property of the
  names the sources read.\<close>

fun js_prop :: "jval \<Rightarrow> string \<Rightarrow> jval" where
  "js_prop (JObj fs) k = (case map_of fs k of None \<Rightarrow> JUndef | Some v \<Rightarrow> v)"
| "js_prop _ k = JUndef"

text \<open>\<open>a || b\<close>, \<open>a ?? b\<close> and \<open>a != null\<close>.\<close>

definition js_or :: "jval \<Rightarrow> jval \<Rightarrow> jval" where
  "js_or a b = (if js_truthy a then a else b)"

definition js_coalesce :: "jval \<Rightarrow> jval \<Rightarrow> jval" where
  "js_coalesce a b = (if a = JUndef \<or> a = JNull then b else a)"

definition not_null :: "jval \<Rightarrow> bool" where
  "not_null a \<longleftrightarrow> a \<noteq> JUndef \<and> a \<noteq> JNull"

fun is_object :: "jval \<Rightarrow> bool" where
  "is_object (JArr _) = True"
| "is_object (JObj _) = True"
| "is_object _ = False"

section \<open>String(x)\<close>

fun num_string :: "(rat \<Rightarrow> string) \<Rightarrow> jsnum \<Rightarrow> string" where
  "num_string fmt NaN = ''NaN''"
| "num_string fmt PInf = ''Infinity''"
| "num_string fmt NInf = ''-Infinity''"
| "num_string fmt (Fin r) =
     (if r = of_int \<lfloor>r\<rfloor> \<and> \<bar>r\<bar> < 10 ^ 21
      then (if r < 0 then ''-'' @ nat_str (nat (- \<lfloor>r\<rfloor>)) else nat_str (nat \<lfloor>r\<rfloor>))
      else fmt r)"

fun js_string :: "(rat \<Rightarrow> string) \<Rightarrow> jval \<Rightarrow> string" where
  "js_string fmt JUndef = ''undefined''"
| "js_string fmt JNull = ''null''"
| "js_string fmt (JBool b) = (if b then ''true'' else ''false'')"
| "js_string fmt (JNum n) = num_string fmt n"
| "js_string fmt (JStr s) = s"
| "js_string fmt (JArr vs) =
     str_join '','' (map (\<lambda>v. if v = JUndef \<or> v = JNull then [] else js_string fmt v) vs)"
| "js_string fmt (JObj _) = ''[object Object]''"

section \<open>Number(x)\<close>

definition digit_value :: "char \<Rightarrow> nat" where
  "digit_value c =
     (let n = (of_char c :: nat)
      in if 48 \<le> n \<and> n \<le> 57 then n - 48
         else if 97 \<le> n \<and> n \<le> 122 then n - 87
         else if 65 \<le> n \<and> n \<le> 90 then n - 55 else 99)"

text \<open>The value of a digit string, and the split of a string after its leading digits.\<close>

definition digits_value :: "nat \<Rightarrow> string \<Rightarrow> int" where
  "digits_value b s = foldl (\<lambda>a c. a * int b + int (digit_value c)) 0 s"

definition all_digits :: "nat \<Rightarrow> string \<Rightarrow> bool" where
  "all_digits b s \<longleftrightarrow> s \<noteq> [] \<and> list_all (\<lambda>c. digit_value c < b) s"

text \<open>An exponent part: empty, or e, an optional sign and digits.\<close>

definition parse_exponent :: "string \<Rightarrow> int option" where
  "parse_exponent s =
     (case s of
        [] \<Rightarrow> Some 0
      | c # t \<Rightarrow>
          (if c \<noteq> CHR ''e'' \<and> c \<noteq> CHR ''E'' then None
           else (case t of
                   [] \<Rightarrow> None
                 | d # u \<Rightarrow>
                     (if d = CHR ''-'' then (if all_digits 10 u then Some (- digits_value 10 u) else None)
                      else if d = CHR ''+'' then (if all_digits 10 u then Some (digits_value 10 u) else None)
                      else if all_digits 10 t then Some (digits_value 10 t) else None))))"

definition parse_decimal :: "string \<Rightarrow> rat option" where
  "parse_decimal s =
     (let whole = takeWhile is_digit s; r = dropWhile is_digit s;
          dotted = (r \<noteq> [] \<and> hd r = CHR ''.'');
          frac = (if dotted then takeWhile is_digit (tl r) else []);
          rest = (if dotted then dropWhile is_digit (tl r) else r)
      in if whole = [] \<and> frac = [] then None
         else map_option
           (\<lambda>e. of_int (digits_value 10 (whole @ frac)) * 10 powi (e - int (length frac)))
           (parse_exponent rest))"

definition str_number :: "string \<Rightarrow> jsnum" where
  "str_number str =
     (let s = str_trim str; p = str_lower (take 2 s); r = drop 2 s
      in if s = [] then Fin 0
         else if p = ''0x'' then (if all_digits 16 r then to_num (of_int (digits_value 16 r)) else NaN)
         else if p = ''0o'' then (if all_digits 8 r then to_num (of_int (digits_value 8 r)) else NaN)
         else if p = ''0b'' then (if all_digits 2 r then to_num (of_int (digits_value 2 r)) else NaN)
         else
           (let neg = (hd s = CHR ''-''); t = (if neg \<or> hd s = CHR ''+'' then tl s else s)
            in if t = ''Infinity'' then (if neg then NInf else PInf)
               else (case parse_decimal t of
                       None \<Rightarrow> NaN
                     | Some v \<Rightarrow> to_num (if neg then - v else v))))"

fun js_number :: "(rat \<Rightarrow> string) \<Rightarrow> jval \<Rightarrow> jsnum" where
  "js_number fmt JUndef = NaN"
| "js_number fmt JNull = Fin 0"
| "js_number fmt (JBool b) = (if b then Fin 1 else Fin 0)"
| "js_number fmt (JNum n) = n"
| "js_number fmt (JStr s) = str_number s"
| "js_number fmt (JArr vs) = str_number (js_string fmt (JArr vs))"
| "js_number fmt (JObj _) = NaN"

section \<open>Members of arbitrary values\<close>

text \<open>\<open>Object.entries(v)\<close>, \<open>v.length\<close>, and the elements of an array.\<close>

fun own_entries :: "jval \<Rightarrow> (string \<times> jval) list" where
  "own_entries (JObj fs) = fs"
| "own_entries (JArr vs) = zip (map nat_str [0..<length vs]) vs"
| "own_entries (JStr s) = zip (map nat_str [0..<length s]) (map (\<lambda>c. JStr [c]) s)"
| "own_entries _ = []"

fun js_length :: "jval \<Rightarrow> jval" where
  "js_length (JArr vs) = JNum (num (int (length vs)))"
| "js_length (JStr s) = JNum (num (int (length s)))"
| "js_length v = js_prop v ''length''"

fun array_items :: "jval \<Rightarrow> jval list option" where
  "array_items (JArr vs) = Some vs"
| "array_items _ = None"

section \<open>Lemmas\<close>

lemma js_or_simps [simp]:
  "js_truthy a \<Longrightarrow> js_or a b = a" "\<not> js_truthy a \<Longrightarrow> js_or a b = b"
  by (simp_all add: js_or_def)

lemma js_coalesce_simps [simp]:
  "js_coalesce JUndef b = b" "js_coalesce JNull b = b" "not_null a \<Longrightarrow> js_coalesce a b = a"
  by (auto simp: js_coalesce_def not_null_def)

lemma str_number_digit [simp]:
  "str_number ''0'' = num 0"
  "str_number ''1'' = num 1"
  "str_number ''2'' = num 2"
  "str_number ''3'' = num 3"
  "str_number ''4'' = num 4"
  "str_number ''5'' = num 5"
  "str_number ''6'' = num 6"
  "str_number ''7'' = num 7"
  "str_number ''8'' = num 8"
  "str_number ''9'' = num 9"
  by (simp_all add: str_number_def parse_decimal_def parse_exponent_def is_digit_def digits_value_def
      digit_value_def js_defs Let_def to_num_of_int [of 0, simplified] to_num_of_int [of 1, simplified]
      to_num_of_int [of "numeral k" for k, simplified])

section \<open>The elements of a Set, in the order they were added\<close>

definition distinct_of :: "'a list \<Rightarrow> 'a list" where
  "distinct_of xs = rev (remdups (rev xs))"

lemma set_distinct_of [simp]: "set (distinct_of xs) = set xs"
  by (simp add: distinct_of_def)

lemma distinct_distinct_of [simp]: "distinct (distinct_of xs)"
  by (simp add: distinct_of_def)

end
