(* ===== verification/R2_Worker.thy ===== *)
theory R2_Worker
  imports Js_Value
begin

text \<open>
  integrations/r2/src/worker.ts: the worker that signs uploads and downloads of one bucket.  The
  request carries its method, the path of its URL, its origin header and what \<open>request.json()\<close>
  gives (\<open>Inl\<close> of the message it rejects with).  Parameters are what the worker imports or is
  bound to: \<open>sign\<close> is the signer of aws4fetch on a URL (with the URL constructor before it), \<open>del\<close>
  the delete operation of the bucket binding; both may reject with a message.
\<close>

section \<open>Environment, requests and responses\<close>

record env =
  R2_BUCKET :: string
  R2_ACCESS_KEY_ID :: string
  R2_SECRET_ACCESS_KEY :: string
  R2_ACCOUNT_ID :: string
  ALLOWED_ORIGIN :: string
  MAX_UPLOAD_BYTES :: string

datatype verb = GET | PUT | POST | DELETE | OPTIONS | OtherVerb

record http_request =
  rq_method :: verb
  rq_path :: string
  rq_origin :: "string option"
  rq_json :: "string + jval"

datatype 'u reply_body =
  NoBody
| TextBody string
| UploadBody 'u string
| UrlBody 'u

record 'u response =
  rs_status :: nat
  rs_origin :: string
  rs_body :: "'u reply_body"

type_synonym 'u signer =
  "string \<times> string \<Rightarrow> string \<Rightarrow> verb \<Rightarrow> (string \<times> string) list \<Rightarrow> string + 'u"

definition JSON_TYPES :: "string list" where
  "JSON_TYPES = [''application/json'', ''application/vnd.cyclonedx+json'', ''application/spdx+json'']"

definition TEXT_TYPES :: "string list" where
  "TEXT_TYPES = [''text/plain'', ''text/yaml'', ''text/csv'']"

definition contentTypeAllowed :: "jval \<Rightarrow> bool" where
  "contentTypeAllowed ct =
     (if \<not> js_truthy ct then False
      else ct \<in> JStr ` set JSON_TYPES \<or> ct \<in> JStr ` set TEXT_TYPES)"

definition signUrl ::
  "'u signer \<Rightarrow> env \<Rightarrow> string \<Rightarrow> verb \<Rightarrow> (string \<times> string) list \<Rightarrow> string + 'u" where
  "signUrl sign env key verb headers =
     (if R2_ACCOUNT_ID env = [] \<or> R2_ACCESS_KEY_ID env = [] \<or> R2_SECRET_ACCESS_KEY env = []
      then Inl ''missing R2 signing credentials''
      else sign (R2_ACCESS_KEY_ID env, R2_SECRET_ACCESS_KEY env)
             (''https://'' @ R2_ACCOUNT_ID env @ ''.r2.cloudflarestorage.com/'' @ R2_BUCKET env @ ''/'' @ key)
             verb headers)"

section \<open>The handler\<close>

definition reply :: "env \<Rightarrow> http_request \<Rightarrow> nat \<Rightarrow> 'u reply_body \<Rightarrow> 'u response" where
  "reply env r status body =
     \<lparr>rs_status = status, rs_origin = or_str (ALLOWED_ORIGIN env) (nullish (rq_origin r) []),
      rs_body = body\<rparr>"

text \<open>\<open>(body.key || "").trim()\<close>: a body that is null has no properties to read, and a truthy key that
  is not a string has no \<open>trim\<close>; the message of such a TypeError is the engine's.\<close>

fun body_key :: "jval \<Rightarrow> string + string" where
  "body_key JNull = Inl ''Cannot read properties of null''"
| "body_key JUndef = Inl ''Cannot read properties of undefined''"
| "body_key b =
     (case js_or (js_prop b ''key'') (JStr []) of
        JStr s \<Rightarrow> Inr (str_trim s)
      | _ \<Rightarrow> Inl ''trim is not a function'')"

fun declared_size :: "jval \<Rightarrow> jsnum" where
  "declared_size (JNum n) = n"
| "declared_size _ = Fin (- 1)"

definition upload_max :: "env \<Rightarrow> jsnum" where
  "upload_max env = str_number (or_str (MAX_UPLOAD_BYTES env) ''10485760'')"

fun str_of :: "jval \<Rightarrow> string" where
  "str_of (JStr s) = s"
| "str_of _ = []"

definition upload :: "'u signer \<Rightarrow> env \<Rightarrow> http_request \<Rightarrow> 'u response" where
  "upload sign env r =
     (case rq_json r of
        Inl e \<Rightarrow> reply env r 400 (TextBody (or_str e ''bad request''))
      | Inr body \<Rightarrow>
     (case body_key body of
        Inl e \<Rightarrow> reply env r 400 (TextBody (or_str e ''bad request''))
      | Inr key \<Rightarrow>
          (if key = [] then reply env r 400 (TextBody ''key required'')
           else if str_includes key ''..'' \<or> str_includes key [CHR 0x00]
             then reply env r 400 (TextBody ''invalid key'')
           else
             (let ct = js_or (js_prop body ''contentType'') (JStr [])
              in if \<not> contentTypeAllowed ct then reply env r 415 (TextBody ''content-type not allowed'')
                 else
                   (let size = declared_size (js_prop body ''size''); mx = upload_max env
                    in if js_lt size (Fin 0) \<or> js_lt mx size
                       then reply env r 413 (TextBody ''size not allowed'')
                       else
                         (case signUrl sign env key PUT [(''content-type'', str_of ct)] of
                            Inl e \<Rightarrow> reply env r 400 (TextBody (or_str e ''bad request''))
                          | Inr u \<Rightarrow> reply env r 200 (UploadBody u key)))))))"

text \<open>\<open>url.pathname.slice("/object/".length)\<close>.\<close>

definition object_key :: "string \<Rightarrow> string" where
  "object_key path = drop 8 path"

text \<open>The handler returns its response, or the message it rejects with, and the bucket after it.\<close>

definition fetch ::
  "'u signer \<Rightarrow> ('b \<Rightarrow> string \<Rightarrow> string + 'b) \<Rightarrow> env \<Rightarrow> http_request \<Rightarrow> 'b
     \<Rightarrow> (string + 'u response) \<times> 'b" where
  "fetch sign del env r b =
     (if rq_method r = OPTIONS then (Inr (reply env r 204 NoBody), b)
      else if rq_path r = ''/upload'' \<and> rq_method r = POST then (Inr (upload sign env r), b)
      else if starts_with (rq_path r) ''/object/'' \<and> rq_method r = GET then
        (let key = object_key (rq_path r)
         in if key = [] then (Inr (reply env r 400 (TextBody ''key required'')), b)
            else (case signUrl sign env key GET [] of
                    Inl e \<Rightarrow> (Inr (reply env r 500 (TextBody e)), b)
                  | Inr u \<Rightarrow> (Inr (reply env r 200 (UrlBody u)), b)))
      else if starts_with (rq_path r) ''/object/'' \<and> rq_method r = DELETE then
        (let key = object_key (rq_path r)
         in if key = [] then (Inr (reply env r 400 (TextBody ''key required'')), b)
            else (case del b key of
                    Inl e \<Rightarrow> (Inl e, b)
                  | Inr b' \<Rightarrow> (Inr (reply env r 204 NoBody), b')))
      else (Inr (reply env r 404 (TextBody ''not found'')), b))"

section \<open>The bucket binding\<close>

text \<open>What the worker relies on: a successful delete removes one key.\<close>

locale bucket =
  fixes look :: "'b \<Rightarrow> string \<Rightarrow> 'o option" and del :: "'b \<Rightarrow> string \<Rightarrow> string + 'b"
  assumes look_del: "del b k = Inr b' \<Longrightarrow> look b' k' = (if k' = k then None else look b k')"
begin

lemma fetch_look:
  assumes "fetch sign del env r b = (res, b')"
  shows "look b' k = look b k \<or> look b' k = None \<and>
    rq_method r = DELETE \<and> rq_path r = ''/object/'' @ k \<and> k \<noteq> []"
proof (cases "rq_method r = DELETE \<and> starts_with (rq_path r) ''/object/'' \<and> object_key (rq_path r) \<noteq> []")
  case False
  with assms show ?thesis
    by (auto simp: fetch_def Let_def split: sum.splits if_splits)
next
  case True
  then obtain k' where k': "rq_path r = ''/object/'' @ k'" by (auto simp: starts_with_iff)
  with True have ne: "object_key (rq_path r) = k'" "k' \<noteq> []" by (simp_all add: object_key_def)
  show ?thesis
  proof (cases "del b k'")
    case (Inl e)
    with assms True k' ne show ?thesis by (simp add: fetch_def starts_with_def)
  next
    case (Inr b2)
    with assms True k' ne have "b' = b2" by (simp add: fetch_def starts_with_def)
    with look_del [OF Inr] True k' ne show ?thesis by auto
  qed
qed

end

text \<open>A bucket as a map from keys to objects.\<close>

definition map_delete :: "(string \<Rightarrow> 'o option) \<Rightarrow> string \<Rightarrow> string + (string \<Rightarrow> 'o option)" where
  "map_delete b k = Inr (b(k := None))"

lemma map_bucket: "bucket (\<lambda>b. b) map_delete"
  by unfold_locales (auto simp: map_delete_def)

interpretation map_store: bucket "\<lambda>b. b" map_delete
  by (rule map_bucket)

section \<open>Lemmas\<close>

lemma reply_sel [simp]:
  "rs_status (reply env r n b) = n" "rs_body (reply env r n b) = b"
  by (simp_all add: reply_def)

lemma contentTypeAllowed_iff:
  "contentTypeAllowed ct \<longleftrightarrow> (\<exists>s. ct = JStr s \<and> s \<in> set (JSON_TYPES @ TEXT_TYPES))"
  by (cases ct) (auto simp: contentTypeAllowed_def JSON_TYPES_def TEXT_TYPES_def)

lemma declared_size_ok:
  "\<not> js_lt (declared_size v) (Fin 0) \<Longrightarrow> v = JNum (declared_size v)"
  by (cases v) simp_all

lemma upload_body_status:
  "rs_body (upload sign env r) = UploadBody u k \<longleftrightarrow>
     (\<exists>b. rq_json r = Inr b \<and> body_key b = Inr k \<and> k \<noteq> []
       \<and> \<not> str_includes k ''..'' \<and> \<not> str_includes k [CHR 0x00]
       \<and> contentTypeAllowed (js_or (js_prop b ''contentType'') (JStr []))
       \<and> \<not> js_lt (declared_size (js_prop b ''size'')) (Fin 0)
       \<and> \<not> js_lt (upload_max env) (declared_size (js_prop b ''size''))
       \<and> signUrl sign env k PUT [(''content-type'', str_of (js_or (js_prop b ''contentType'') (JStr [])))]
           = Inr u)"
  by (auto simp: upload_def Let_def split: sum.splits)

lemma js_or_str: "js_or v (JStr []) = JStr s \<Longrightarrow> s \<noteq> [] \<Longrightarrow> v = JStr s"
  by (auto simp: js_or_def split: if_splits)

lemma fetch_upload:
  "rq_method r = POST \<Longrightarrow> rq_path r = ''/upload'' \<Longrightarrow> fetch sign del env r b = (Inr (upload sign env r), b)"
  by (simp add: fetch_def)

lemma fetch_upload_body:
  assumes "fetch sign del env r b = (Inr x, b')" "rs_body x = UploadBody u k"
  shows "rq_method r = POST \<and> rq_path r = ''/upload'' \<and> x = upload sign env r"
  using assms by (auto simp: fetch_def Let_def split: if_splits sum.splits)

section \<open>Properties\<close>

text \<open>C18: an upload URL is handed out only to a POST on /upload whose JSON body has a string key that,
  trimmed, is non-empty and free of two dots in a row and of NUL, a content type on the allow list
  (which is signed into the URL) and a numeric size that is neither negative nor over the limit, and
  only when all three credentials are configured.\<close>

theorem upload_url_guarded:
  assumes call: "fetch sign del env r b = (Inr x, b')" and got: "rs_body x = UploadBody u k"
  shows "rq_method r = POST \<and> rq_path r = ''/upload'' \<and> b' = b \<and> rs_status x = 200 \<and>
    R2_ACCOUNT_ID env \<noteq> [] \<and> R2_ACCESS_KEY_ID env \<noteq> [] \<and> R2_SECRET_ACCESS_KEY env \<noteq> [] \<and>
    (\<exists>body ct n. rq_json r = Inr body \<and> js_prop body ''contentType'' = JStr ct \<and>
       ct \<in> set (JSON_TYPES @ TEXT_TYPES) \<and> js_prop body ''size'' = JNum n \<and>
       \<not> js_lt n (Fin 0) \<and> \<not> js_lt (upload_max env) n \<and>
       k \<noteq> [] \<and> (\<nexists>a c. k = a @ ''..'' @ c) \<and> CHR 0x00 \<notin> set k \<and>
       sign (R2_ACCESS_KEY_ID env, R2_SECRET_ACCESS_KEY env)
         (''https://'' @ R2_ACCOUNT_ID env @ ''.r2.cloudflarestorage.com/'' @ R2_BUCKET env @ ''/'' @ k)
         PUT [(''content-type'', ct)] = Inr u)"
proof -
  from fetch_upload_body [OF call got] have r: "rq_method r = POST" "rq_path r = ''/upload''"
    and x: "x = upload sign env r" by simp_all
  with call have b': "b' = b" by (simp add: fetch_upload)
  from got x obtain body where body: "rq_json r = Inr body" "body_key body = Inr k" "k \<noteq> []"
    and inc: "\<not> str_includes k ''..''" "\<not> str_includes k [CHR 0x00]"
    and cta: "contentTypeAllowed (js_or (js_prop body ''contentType'') (JStr []))"
    and sz: "\<not> js_lt (declared_size (js_prop body ''size'')) (Fin 0)"
      "\<not> js_lt (upload_max env) (declared_size (js_prop body ''size''))"
    and sg: "signUrl sign env k PUT [(''content-type'', str_of (js_or (js_prop body ''contentType'') (JStr [])))]
       = Inr u"
    by (auto simp: upload_body_status)
  from cta obtain ct where ct: "js_or (js_prop body ''contentType'') (JStr []) = JStr ct"
    "ct \<in> set (JSON_TYPES @ TEXT_TYPES)" by (auto simp: contentTypeAllowed_iff)
  then have ctp: "js_prop body ''contentType'' = JStr ct"
    by (auto intro: js_or_str simp: JSON_TYPES_def TEXT_TYPES_def)
  from inc have k: "\<nexists>a c. k = a @ ''..'' @ c" "CHR 0x00 \<notin> set k"
    by (auto simp: str_includes_iff in_set_conv_decomp)
  have st: "rs_status x = 200"
    using body inc cta sz sg by (simp add: x upload_def)
  from sg have cr: "R2_ACCOUNT_ID env \<noteq> []" "R2_ACCESS_KEY_ID env \<noteq> []" "R2_SECRET_ACCESS_KEY env \<noteq> []"
    and sgn: "sign (R2_ACCESS_KEY_ID env, R2_SECRET_ACCESS_KEY env)
         (''https://'' @ R2_ACCOUNT_ID env @ ''.r2.cloudflarestorage.com/'' @ R2_BUCKET env @ ''/'' @ k)
         PUT [(''content-type'', ct)] = Inr u"
    by (auto simp: signUrl_def ct split: if_splits)
  show ?thesis
    using r b' st cr body ct(2) ctp declared_size_ok [OF sz(1)] sz k sgn by metis
qed

text \<open>Witness data: a configured worker, a signer that returns the URL, and one upload request.\<close>

definition ex_env :: "string \<Rightarrow> env" where
  "ex_env mx = \<lparr>R2_BUCKET = ''bkt'', R2_ACCESS_KEY_ID = ''id'', R2_SECRET_ACCESS_KEY = ''sec'',
     R2_ACCOUNT_ID = ''acc'', ALLOWED_ORIGIN = ''https://app'', MAX_UPLOAD_BYTES = mx\<rparr>"

definition ex_sign :: "string signer" where
  "ex_sign cred url verb hs = Inr url"

definition ex_upload :: "int \<Rightarrow> http_request" where
  "ex_upload n = \<lparr>rq_method = POST, rq_path = ''/upload'', rq_origin = None,
     rq_json = Inr (JObj [(''key'', JStr '' a.json ''), (''contentType'', JStr ''application/json''),
       (''size'', JNum (num n))])\<rparr>"

lemma ex_max: "upload_max (ex_env ''1048576'') = num 1048576" "upload_max (ex_env ''10MB'') = NaN"
  unfolding upload_max_def ex_env_def by code_simp+

lemma ex_trim: "str_trim '' a.json '' = ''a.json''"
  by code_simp

lemma ex_key: "\<not> str_includes ''a.json'' ''..''" "\<not> str_includes ''a.json'' [CHR 0x00]"
  by (simp_all add: starts_with_def)

lemma ex_ct: "contentTypeAllowed (JStr ''application/json'')"
  by code_simp

lemma ex_fetch:
  "fetch ex_sign map_delete (ex_env ''1048576'') (ex_upload 5) Map.empty =
     (Inr \<lparr>rs_status = 200, rs_origin = ''https://app'',
        rs_body = UploadBody ''https://acc.r2.cloudflarestorage.com/bkt/a.json'' ''a.json''\<rparr>, Map.empty)"
  using ex_max(1) ex_trim ex_key ex_ct
  by (simp add: fetch_def upload_def ex_upload_def reply_def signUrl_def ex_sign_def)
    (simp add: ex_env_def)

theorem upload_url_guarded_witness:
  "CHR 0x00 \<notin> set ''a.json'' \<and> rs_status (upload ex_sign (ex_env ''1048576'') (ex_upload 5)) = 200"
proof -
  have "rs_body \<lparr>rs_status = 200, rs_origin = ''https://app'',
        rs_body = UploadBody ''https://acc.r2.cloudflarestorage.com/bkt/a.json'' ''a.json''\<rparr>
      = UploadBody ''https://acc.r2.cloudflarestorage.com/bkt/a.json'' ''a.json''" by simp
  from upload_url_guarded [OF ex_fetch this] ex_fetch show ?thesis
    by (simp add: fetch_upload ex_upload_def)
qed

text \<open>The size limit fails open: when \<open>MAX_UPLOAD_BYTES\<close> is not a number (\<open>Number\<close> gives NaN), an
  otherwise valid upload of any size, however large, gets its URL.\<close>

theorem upload_limit_fails_open:
  assumes nan: "upload_max env = NaN"
    and r: "rq_method r = POST" "rq_path r = ''/upload''"
    and body: "rq_json r = Inr (JObj fs)" "map_of fs ''key'' = Some (JStr key)"
      "str_trim key = k" "k \<noteq> []" "\<not> str_includes k ''..''" "\<not> str_includes k [CHR 0x00]"
      "map_of fs ''contentType'' = Some (JStr ct)" "contentTypeAllowed (JStr ct)"
      "map_of fs ''size'' = Some (JNum (Fin n))" "0 \<le> n"
    and sg: "signUrl sign env k PUT [(''content-type'', ct)] = Inr u"
  shows "fetch sign del env r b = (Inr (reply env r 200 (UploadBody u k)), b)"
proof -
  have key: "key \<noteq> []" using body(3,4) by (auto simp: str_trim_def)
  have ct: "ct \<noteq> []" using body(8) by (auto simp: contentTypeAllowed_def)
  have "\<not> js_lt (upload_max env) (Fin n)" by (simp add: nan)
  with assms key ct show ?thesis
    by (simp add: fetch_upload upload_def)
qed

theorem upload_limit_fails_open_witness:
  "rs_status (upload ex_sign (ex_env ''10MB'') (ex_upload 999999999999)) = 200"
proof -
  have "fetch ex_sign map_delete (ex_env ''10MB'') (ex_upload 999999999999) Map.empty =
     (Inr (reply (ex_env ''10MB'') (ex_upload 999999999999) 200
        (UploadBody ''https://acc.r2.cloudflarestorage.com/bkt/a.json'' ''a.json'')), Map.empty)"
    by (rule upload_limit_fails_open [OF ex_max(2), where key = "'' a.json ''"
          and ct = "''application/json''" and n = 999999999999
          and fs = "[(''key'', JStr '' a.json ''), (''contentType'', JStr ''application/json''),
            (''size'', JNum (num 999999999999))]"])
      (simp_all add: ex_upload_def ex_trim starts_with_def ex_ct signUrl_def ex_env_def ex_sign_def)
  then show ?thesis by (simp add: fetch_upload ex_upload_def)
qed

text \<open>The only request that changes the bucket is a DELETE on /object/k, and it removes k and
  nothing else.\<close>

theorem delete_confined:
  assumes bk: "bucket look del" and call: "fetch sign del env r b = (res, b')"
    and changed: "look b' k \<noteq> look b k"
  shows "rq_method r = DELETE \<and> rq_path r = ''/object/'' @ k \<and> k \<noteq> [] \<and> look b' k = None
    \<and> (\<forall>k'. k' \<noteq> k \<longrightarrow> look b' k' = look b k')"
proof -
  note one = bucket.fetch_look [OF bk call]
  from one [of k] changed have k: "rq_method r = DELETE" "rq_path r = ''/object/'' @ k" "k \<noteq> []"
      "look b' k = None" by auto
  have "look b' k' = look b k'" if "k' \<noteq> k" for k'
    using one [of k'] k that by auto
  with k show ?thesis by blast
qed

theorem delete_confined_witness:
  "snd (fetch ex_sign map_delete (ex_env [])
     \<lparr>rq_method = DELETE, rq_path = ''/object/x'', rq_origin = None, rq_json = Inl []\<rparr>
     [''x'' \<mapsto> True, ''y'' \<mapsto> False]) ''y'' = Some False"
proof -
  let ?r = "\<lparr>rq_method = DELETE, rq_path = ''/object/x'', rq_origin = None, rq_json = Inl []\<rparr>"
  let ?b = "[''x'' \<mapsto> True, ''y'' \<mapsto> False]"
  have c: "fetch ex_sign map_delete (ex_env []) ?r ?b =
      (Inr (reply (ex_env []) ?r 204 NoBody), ?b(''x'' := None))"
    by (simp add: fetch_def starts_with_def object_key_def map_delete_def)
  have "(?b(''x'' := None)) ''x'' \<noteq> ?b ''x''" by simp
  from delete_confined [where look = "\<lambda>b. b", OF map_bucket c this] show ?thesis by (simp add: c)
qed

end
