(* ===== verification/Roles.thy ===== *)
theory Roles
  imports Js_Value Contracts
begin

text \<open>
  web/src/auth/roles.ts and the route guard components/RequireRole.tsx.  Indexing the object
  literal \<open>ROLE_RANK\<close> also finds what it inherits from \<open>Object.prototype\<close>, a truthy value whose
  conversion to a number is NaN.
\<close>

section \<open>Ranks\<close>

datatype workspace_role = viewer | analyst | operator | admin

definition WORKSPACE_ROLES :: "workspace_role list" where
  "WORKSPACE_ROLES = [viewer, analyst, operator, admin]"

fun role_name :: "workspace_role \<Rightarrow> string" where
  "role_name viewer = ''viewer''"
| "role_name analyst = ''analyst''"
| "role_name operator = ''operator''"
| "role_name admin = ''admin''"

definition ROLE_RANK :: "(string \<times> int) list" where
  "ROLE_RANK = [(''viewer'', 1), (''analyst'', 2), (''operator'', 3), (''admin'', 4)]"

text \<open>\<open>ROLE_RANK[r]\<close> for a lower-case \<open>r\<close>: undefined, an own number, or an inherited member.\<close>

datatype rank_value = Undefined | Own int | Inherited

definition rank_lookup :: "string \<Rightarrow> rank_value" where
  "rank_lookup r =
     (case map_of ROLE_RANK r of
        Some n \<Rightarrow> Own n
      | None \<Rightarrow> (if r \<in> set proto_keys then Inherited else Undefined))"

fun rank_truthy :: "rank_value \<Rightarrow> bool" where
  "rank_truthy Undefined = False"
| "rank_truthy (Own n) = (n \<noteq> 0)"
| "rank_truthy Inherited = True"

text \<open>\<open>v || 0\<close>, converted to a number by the comparison.\<close>

fun rank_number :: "rank_value \<Rightarrow> jsnum" where
  "rank_number Undefined = num 0"
| "rank_number (Own n) = num n"
| "rank_number Inherited = NaN"

definition normalizeRole :: "string option \<Rightarrow> string" where
  "normalizeRole role =
     (let r = str_trim (str_lower (or_opt role []))
      in if rank_truthy (rank_lookup r) then r else ''viewer'')"

definition roleAtLeast :: "string option \<Rightarrow> workspace_role \<Rightarrow> bool" where
  "roleAtLeast have_role need =
     js_le (rank_number (rank_lookup (role_name need)))
           (rank_number (rank_lookup (normalizeRole have_role)))"

definition isAdminRole :: "string option \<Rightarrow> bool" where
  "isAdminRole role \<longleftrightarrow> normalizeRole role = ''admin''"

section \<open>The role guard of a route\<close>

datatype 'c gate = Spinner | Redirect string | Locked | Children 'c

definition RequireRole :: "bool \<Rightarrow> string option \<Rightarrow> workspace_role \<Rightarrow> 'c \<Rightarrow> 'c gate" where
  "RequireRole isAuthenticated user_role need c =
     (if \<not> isAuthenticated then Redirect ''/login''
      else if \<not> roleAtLeast user_role need then Locked
      else Children c)"

section \<open>Lemmas\<close>

lemma rank_lookup_simps [simp]:
  "rank_lookup ''viewer'' = Own 1" "rank_lookup ''analyst'' = Own 2"
  "rank_lookup ''operator'' = Own 3" "rank_lookup ''admin'' = Own 4"
  "rank_lookup ''constructor'' = Inherited" "rank_lookup ''__proto__'' = Inherited"
  by (simp_all add: rank_lookup_def ROLE_RANK_def proto_keys_def)

lemma rank_lookup_truthy:
  "rank_truthy (rank_lookup r) \<longleftrightarrow>
     r \<in> {''viewer'', ''analyst'', ''operator'', ''admin'', ''constructor'', ''__proto__''}"
  by (auto simp: rank_lookup_def ROLE_RANK_def proto_keys_def split: if_splits)

lemma normalizeRole_range:
  "normalizeRole role \<in> {''viewer'', ''analyst'', ''operator'', ''admin'', ''constructor'', ''__proto__''}"
  by (auto simp: normalizeRole_def Let_def rank_lookup_truthy)

lemma normalizeRole_fix:
  "r \<in> {''viewer'', ''analyst'', ''operator'', ''admin'', ''constructor'', ''__proto__''} \<Longrightarrow>
     normalizeRole (Some r) = r"
  by (auto simp: normalizeRole_def str_trim_def str_lower_def char_lower_def is_space_def)

interpretation role_norm: normaliser "\<lambda>r. normalizeRole (Some r)"
  by unfold_locales (rule normalizeRole_fix [OF normalizeRole_range])

lemma role_range_cases [consumes 0, case_names viewer analyst operator admin inherited]:
  obtains "normalizeRole r = ''viewer''" | "normalizeRole r = ''analyst''"
  | "normalizeRole r = ''operator''" | "normalizeRole r = ''admin''"
  | "normalizeRole r \<in> set proto_keys"
  using normalizeRole_range [of r] by (auto simp: proto_keys_def)

lemma rank_inherited: "r \<in> set proto_keys \<Longrightarrow> rank_lookup r = Inherited"
  by (auto simp: proto_keys_def)

fun rank_of :: "workspace_role \<Rightarrow> int" where
  "rank_of viewer = 1" | "rank_of analyst = 2" | "rank_of operator = 3" | "rank_of admin = 4"

lemma rank_of_lookup [simp]: "rank_lookup (role_name r) = Own (rank_of r)"
  by (cases r) simp_all

lemma role_name_inj [simp]: "role_name r = role_name s \<longleftrightarrow> r = s"
  by (cases r; cases s) simp_all

lemma role_name_eq [simp]:
  "role_name r = ''viewer'' \<longleftrightarrow> r = viewer" "''viewer'' = role_name r \<longleftrightarrow> r = viewer"
  "role_name r = ''admin'' \<longleftrightarrow> r = admin" "''admin'' = role_name r \<longleftrightarrow> r = admin"
  by (cases r; simp)+

lemma role_name_not_proto [simp]: "role_name r \<notin> set proto_keys"
  by (cases r) (simp_all add: proto_keys_def)

lemma normalizeRole_name [simp]: "normalizeRole (Some (role_name r)) = role_name r"
  by (cases r) (simp_all add: normalizeRole_fix)

lemma normalizeRole_named:
  obtains r where "normalizeRole role = role_name r" | "normalizeRole role \<in> set proto_keys"
proof (cases role rule: role_range_cases)
  case viewer then show ?thesis using that(1) [of viewer] by simp
next
  case analyst then show ?thesis using that(1) [of analyst] by simp
next
  case operator then show ?thesis using that(1) [of operator] by simp
next
  case admin then show ?thesis using that(1) [of admin] by simp
next
  case inherited then show ?thesis by (rule that(2))
qed

lemma roleAtLeast_rank:
  "roleAtLeast role need \<longleftrightarrow> (\<exists>r. normalizeRole role = role_name r \<and> rank_of need \<le> rank_of r)"
proof (cases role rule: normalizeRole_named)
  case (1 r)
  then show ?thesis by (auto simp: roleAtLeast_def js_le_def)
next
  case 2
  then show ?thesis
    by (auto simp: roleAtLeast_def rank_inherited js_le_def dest: sym)
qed

section \<open>Properties\<close>

text \<open>C21: the guard of a route decides by the order viewer < analyst < operator < admin alone: a
  caller passes exactly when signed in with a role that normalises to a workspace role of at least
  the rank required; whoever passes one guard passes every weaker one, and the admin guard is
  \<open>isAdminRole\<close>.\<close>

theorem RequireRole_rank_order:
  "(RequireRole auth role need c = Children c \<longleftrightarrow>
      auth \<and> (\<exists>r. normalizeRole role = role_name r \<and> rank_of need \<le> rank_of r))
   \<and> (RequireRole auth role need c = Children c \<and> rank_of weaker \<le> rank_of need \<longrightarrow>
        RequireRole auth role weaker c = Children c)
   \<and> (RequireRole True role admin c = Children c \<longleftrightarrow> isAdminRole role)"
proof -
  have adm: "4 \<le> rank_of r \<longleftrightarrow> r = admin" for r by (cases r) simp_all
  have "RequireRole auth role need c = Children c \<longleftrightarrow>
      auth \<and> (\<exists>r. normalizeRole role = role_name r \<and> rank_of need \<le> rank_of r)" for auth need
    by (simp add: RequireRole_def roleAtLeast_rank)
  then show ?thesis
    by (simp add: isAdminRole_def adm) (meson order_trans)
qed

theorem RequireRole_rank_order_witness:
  "RequireRole True (Some '' Admin '') operator () = Children () \<and>
   RequireRole True (Some '' Admin '') analyst () = Children () \<and>
   RequireRole True (Some ''analyst'') operator () = Locked"
proof -
  have n: "RequireRole True (Some '' Admin '') operator () = Children ()"
    by code_simp
  with RequireRole_rank_order [of True "Some '' Admin ''" operator "()" analyst]
  have "RequireRole True (Some '' Admin '') analyst () = Children ()" by simp
  moreover have "RequireRole True (Some ''analyst'') operator () = Locked" by code_simp
  ultimately show ?thesis using n by blast
qed

text \<open>The normaliser does not always return a workspace role: the names that the rank table
  inherits from \<open>Object.prototype\<close> pass through it, and such a caller is refused even what every
  viewer may see, while any other unknown name is a viewer.\<close>

theorem normalizeRole_unknown:
  assumes unknown: "str_trim (str_lower s) \<notin> role_name ` set WORKSPACE_ROLES"
  shows "normalizeRole (Some s) =
      (if str_trim (str_lower s) \<in> set proto_keys then str_trim (str_lower s) else ''viewer'') \<and>
    RequireRole True (Some s) need c =
      (if str_trim (str_lower s) \<in> set proto_keys \<or> need \<noteq> viewer then Locked else Children c)"
proof (cases "str_trim (str_lower s) \<in> set proto_keys")
  case True
  then have "normalizeRole (Some s) = str_trim (str_lower s)"
    by (simp add: normalizeRole_def or_str_def rank_inherited)
  with True show ?thesis by (simp add: RequireRole_def roleAtLeast_rank) (metis role_name_not_proto)
next
  case False
  with unknown have "\<not> rank_truthy (rank_lookup (str_trim (str_lower s)))"
    by (auto simp: rank_lookup_truthy WORKSPACE_ROLES_def proto_keys_def)
  then have n: "normalizeRole (Some s) = role_name viewer"
    by (simp add: normalizeRole_def or_str_def)
  moreover have "rank_of need \<le> 1 \<longleftrightarrow> need = viewer" by (cases need) simp_all
  ultimately show ?thesis using False by (simp add: RequireRole_def roleAtLeast_rank)
qed

theorem normalizeRole_unknown_witness:
  "normalizeRole (Some ''Constructor'') = ''constructor'' \<and>
   RequireRole True (Some ''Constructor'') viewer () = Locked"
proof -
  have t: "str_trim (str_lower ''Constructor'') = ''constructor''" by code_simp
  have "str_trim (str_lower ''Constructor'') \<notin> role_name ` set WORKSPACE_ROLES"
    by (simp add: t WORKSPACE_ROLES_def)
  from normalizeRole_unknown [OF this, of viewer "()"] show ?thesis
    by (simp add: t proto_keys_def)
qed

end
