(* ===== verification/Browser.thy ===== *)
theory Browser
  imports Js_Value
begin

text \<open>
  The browser storage the web client keeps its session in: a map from keys to strings that may
  be full (a write throws) or blocked (every access throws).  Each operation returns \<open>None\<close> when
  it throws, which the sources catch.
\<close>

datatype storage_mode = Usable | Full | Blocked

record storage =
  sg_mode :: storage_mode
  sg_items :: "string \<Rightarrow> string option"

definition get_item :: "storage \<Rightarrow> string \<Rightarrow> string option option" where
  "get_item s k = (if sg_mode s = Blocked then None else Some (sg_items s k))"

definition set_item :: "string \<Rightarrow> string \<Rightarrow> storage \<Rightarrow> storage option" where
  "set_item k v s =
     (if sg_mode s = Usable then Some (s\<lparr>sg_items := (sg_items s)(k \<mapsto> v)\<rparr>) else None)"

definition remove_item :: "string \<Rightarrow> storage \<Rightarrow> storage option" where
  "remove_item k s =
     (if sg_mode s = Blocked then None else Some (s\<lparr>sg_items := (sg_items s)(k := None)\<rparr>))"

text \<open>\<open>try { a; b; ... } catch {}\<close> around storage writes: the writes before the first that throws
  stay.\<close>

fun attempt :: "(storage \<Rightarrow> storage option) list \<Rightarrow> storage \<Rightarrow> storage" where
  "attempt [] s = s"
| "attempt (w # ws) s = (case w s of None \<Rightarrow> s | Some s' \<Rightarrow> attempt ws s')"

text \<open>\<open>try { return localStorage.getItem(k) } catch { return null }\<close>.\<close>

definition read_item :: "storage \<Rightarrow> string \<Rightarrow> string option" where
  "read_item s k = (case get_item s k of None \<Rightarrow> None | Some v \<Rightarrow> v)"

definition storage_of :: "(string \<times> string) list \<Rightarrow> storage" where
  "storage_of kvs = \<lparr>sg_mode = Usable, sg_items = map_of kvs\<rparr>"

section \<open>Lemmas\<close>

lemma get_after_set [simp]:
  "set_item k v s = Some s' \<Longrightarrow> get_item s' k' = Some (if k' = k then Some v else sg_items s k')"
  by (auto simp: set_item_def get_item_def split: if_splits)

lemma get_after_remove [simp]:
  "remove_item k s = Some s' \<Longrightarrow> get_item s' k' = Some (if k' = k then None else sg_items s k')"
  by (auto simp: remove_item_def get_item_def split: if_splits)

lemma attempt_mode [simp]:
  assumes "\<And>w s s'. w \<in> set ws \<Longrightarrow> w s = Some s' \<Longrightarrow> sg_mode s' = sg_mode s"
  shows "sg_mode (attempt ws s) = sg_mode s"
  using assms
proof (induction ws s rule: attempt.induct)
  case (1 s)
  then show ?case by simp
next
  case (2 w ws s)
  show ?case
  proof (cases "w s")
    case None
    then show ?thesis by simp
  next
    case (Some s')
    with 2(1) [OF Some] 2(2) show ?thesis by (metis attempt.simps(2) list.set_intros option.simps(5))
  qed
qed

lemma set_item_mode: "set_item k v s = Some s' \<Longrightarrow> sg_mode s' = sg_mode s"
  by (auto simp: set_item_def split: if_splits)

lemma remove_item_mode: "remove_item k s = Some s' \<Longrightarrow> sg_mode s' = sg_mode s"
  by (auto simp: remove_item_def split: if_splits)

lemma attempt_pair_mode:
  "sg_mode (attempt [set_item a b, set_item c d] s) = sg_mode s"
  "sg_mode (attempt [remove_item a, remove_item c] s) = sg_mode s"
  by (rule attempt_mode; auto simp: set_item_mode remove_item_mode)+

lemma usable_simps [simp]:
  "sg_mode s = Usable \<Longrightarrow> set_item k v s = Some (s\<lparr>sg_items := (sg_items s)(k \<mapsto> v)\<rparr>)"
  "sg_mode s = Usable \<Longrightarrow> remove_item k s = Some (s\<lparr>sg_items := (sg_items s)(k := None)\<rparr>)"
  "sg_mode s = Usable \<Longrightarrow> get_item s k = Some (sg_items s k)"
  "sg_mode s = Usable \<Longrightarrow> read_item s k = sg_items s k"
  by (simp_all add: set_item_def remove_item_def get_item_def read_item_def)

lemma storage_of_sel [simp]:
  "sg_mode (storage_of kvs) = Usable" "sg_items (storage_of kvs) = map_of kvs"
  by (simp_all add: storage_of_def)

end
