(* ===== verification/Editions.thy ===== *)
theory Editions
  imports Browser Contracts
begin

text \<open>
  web/src/config/editions.ts: the editions and their feature sets, the base URL of the API kept in
  memory and in the browser storage, and the probing of local ports for a backend.  The state is
  the module variable \<open>apiBaseURL\<close> and the local storage; the environment of the build and what a
  probe answers are arguments.
\<close>

section \<open>Editions\<close>

definition OSS_PORT :: jsnum where "OSS_PORT = num 8080"
definition ENTERPRISE_PORT :: jsnum where "ENTERPRISE_PORT = num 9090"
definition API_PREFIX :: string where "API_PREFIX = ''/api/v1''"

datatype edition = community | professional | enterprise

definition EDITIONS :: "edition list" where
  "EDITIONS = [community, professional, enterprise]"

fun edition_name :: "edition \<Rightarrow> string" where
  "edition_name community = ''community''"
| "edition_name professional = ''professional''"
| "edition_name enterprise = ''enterprise''"

definition normalizeEdition :: "string option \<Rightarrow> edition" where
  "normalizeEdition raw =
     (let r = str_lower (or_opt raw [])
      in if r = ''oss'' \<or> r = ''community'' then community
         else if r = ''professional'' \<or> r = ''pro'' then professional
         else if r = ''enterprise'' then enterprise
         else community)"

definition isPaidEdition :: "edition \<Rightarrow> bool" where
  "isPaidEdition e \<longleftrightarrow> e = professional \<or> e = enterprise"

definition isEnterpriseEdition :: "edition \<Rightarrow> bool" where
  "isEnterpriseEdition e \<longleftrightarrow> e = enterprise"

section \<open>The base URL\<close>

text \<open>\<open>/:\d+$/\<close>: the string ends with a colon and digits.\<close>

definition ends_with_port :: "string \<Rightarrow> bool" where
  "ends_with_port s \<longleftrightarrow>
     (let r = rev s; rest = dropWhile is_digit r
      in length rest < length r \<and> rest \<noteq> [] \<and> hd rest = CHR '':'')"

definition normalizeAPIBaseURL :: "string \<Rightarrow> string" where
  "normalizeAPIBaseURL url =
     (let trimmed = strip_end (CHR ''/'') url
      in if ends_with trimmed API_PREFIX then trimmed
         else if ends_with_port trimmed then trimmed @ API_PREFIX
         else trimmed)"

text \<open>The build's environment and the state of the module.\<close>

record build_env =
  REACT_APP_API_URL :: "string option"
  REACT_APP_EDITION :: "string option"

record web =
  apiBaseURL :: string
  local_storage :: storage

definition detectBaseURL :: "build_env \<Rightarrow> storage \<Rightarrow> string" where
  "detectBaseURL env s =
     (case get_item s ''api_base_url'' of
        Some (Some stored) \<Rightarrow>
          (if stored \<noteq> [] then normalizeAPIBaseURL stored
           else (case REACT_APP_API_URL env of
                   Some u \<Rightarrow> (if u \<noteq> [] then normalizeAPIBaseURL u else API_PREFIX)
                 | None \<Rightarrow> API_PREFIX))
      | _ \<Rightarrow> (case REACT_APP_API_URL env of
                Some u \<Rightarrow> (if u \<noteq> [] then normalizeAPIBaseURL u else API_PREFIX)
              | None \<Rightarrow> API_PREFIX))"

definition setAPIBaseURL :: "string \<Rightarrow> 'a web_scheme \<Rightarrow> 'a web_scheme" where
  "setAPIBaseURL url w =
     w\<lparr>apiBaseURL := normalizeAPIBaseURL url,
       local_storage := attempt [set_item ''api_base_url'' url] (local_storage w)\<rparr>"

section \<open>Feature sets\<close>

record edition_config =
  cf_edition :: string
  cf_name :: string
  cf_features :: "(string \<times> bool) list"

definition COMMUNITY_CONFIG :: edition_config where
  "COMMUNITY_CONFIG = \<lparr>cf_edition = ''community'', cf_name = ''RivicQ Community'', cf_features =
     [(''dashboard'', True), (''assetInventory'', True), (''scanner'', True), (''analytics'', True),
      (''settings'', True), (''cspm'', False), (''qbom'', False), (''eaas'', False),
      (''recovery'', False), (''integrations'', False), (''pricing'', False), (''enterprise'', False),
      (''multiCloud'', False), (''quantum'', False), (''cncf'', False), (''compliance'', False),
      (''terraform'', False), (''ibmCloud'', False), (''awsCloud'', False), (''quantumAttestation'', False),
      (''gitHubScanning'', True), (''agenticSecurity'', False), (''crosschainProtocol'', False), (''aiSecurity'', False),
      (''identity'', False), (''supplyChain'', False), (''dspm'', False), (''threatIntel'', False),
      (''vulnerability'', False), (''apiSecurity'', True), (''incidentResponse'', False), (''aibom'', False),
      (''ibom'', False), (''fiveBom'', False), (''hsmConnector'', False), (''pipeline'', True)]\<rparr>"

definition PROFESSIONAL_CONFIG :: edition_config where
  "PROFESSIONAL_CONFIG = \<lparr>cf_edition = ''professional'', cf_name = ''RivicQ Professional'', cf_features =
     [(''dashboard'', True), (''assetInventory'', True), (''scanner'', True), (''analytics'', True),
      (''settings'', True), (''cspm'', True), (''qbom'', False), (''eaas'', True),
      (''recovery'', True), (''integrations'', True), (''pricing'', False), (''enterprise'', True),
      (''multiCloud'', True), (''quantum'', False), (''cncf'', True), (''compliance'', True),
      (''terraform'', True), (''ibmCloud'', False), (''awsCloud'', True), (''quantumAttestation'', False),
      (''gitHubScanning'', True), (''agenticSecurity'', True), (''crosschainProtocol'', True), (''aiSecurity'', True),
      (''identity'', True), (''supplyChain'', True), (''dspm'', True), (''threatIntel'', True),
      (''vulnerability'', True), (''apiSecurity'', True), (''incidentResponse'', True), (''aibom'', False),
      (''ibom'', False), (''fiveBom'', False), (''hsmConnector'', False), (''pipeline'', True)]\<rparr>"

definition ENTERPRISE_CONFIG :: edition_config where
  "ENTERPRISE_CONFIG = \<lparr>cf_edition = ''enterprise'', cf_name = ''RivicQ Enterprise'', cf_features =
     [(''dashboard'', True), (''assetInventory'', True), (''scanner'', True), (''analytics'', True),
      (''settings'', True), (''cspm'', True), (''qbom'', True), (''eaas'', True),
      (''recovery'', True), (''integrations'', True), (''pricing'', False), (''enterprise'', True),
      (''multiCloud'', True), (''quantum'', True), (''cncf'', True), (''compliance'', True),
      (''terraform'', True), (''ibmCloud'', True), (''awsCloud'', True), (''quantumAttestation'', True),
      (''gitHubScanning'', True), (''agenticSecurity'', True), (''crosschainProtocol'', True), (''aiSecurity'', True),
      (''identity'', True), (''supplyChain'', True), (''dspm'', True), (''threatIntel'', True),
      (''vulnerability'', True), (''apiSecurity'', True), (''incidentResponse'', True), (''aibom'', True),
      (''ibom'', True), (''fiveBom'', True), (''hsmConnector'', True), (''pipeline'', True)]\<rparr>"

fun EDITION_CONFIGS :: "edition \<Rightarrow> edition_config" where
  "EDITION_CONFIGS community = COMMUNITY_CONFIG"
| "EDITION_CONFIGS professional = PROFESSIONAL_CONFIG"
| "EDITION_CONFIGS enterprise = ENTERPRISE_CONFIG"

definition getEditionConfig :: "build_env \<Rightarrow> storage \<Rightarrow> edition_config" where
  "getEditionConfig env s =
     (let dflt = or_opt (REACT_APP_EDITION env) ''community'';
          raw = (case get_item s ''app_edition'' of None \<Rightarrow> dflt | Some v \<Rightarrow> or_opt v dflt)
      in EDITION_CONFIGS (normalizeEdition (Some raw)))"

definition setEditionPreference :: "edition \<Rightarrow> storage \<Rightarrow> storage" where
  "setEditionPreference e s = attempt [set_item ''app_edition'' (edition_name e)] s"

section \<open>Probing for a backend\<close>

text \<open>\<open>/https?:\/\/[^/]+:(\d+)/\<close>: in the run of non-slash characters after the scheme, less its
  first, the digits after the last colon that digits follow.\<close>

fun last_port :: "string \<Rightarrow> string option" where
  "last_port [] = None"
| "last_port (c # s) =
     (case last_port s of
        Some d \<Rightarrow> Some d
      | None \<Rightarrow>
          (if c = CHR '':'' \<and> s \<noteq> [] \<and> is_digit (hd s) then Some (takeWhile is_digit s) else None))"

definition port_at :: "string \<Rightarrow> string option" where
  "port_at s =
     (let run = takeWhile (\<lambda>c. c \<noteq> CHR ''/'')
        (if starts_with s ''http://'' then drop 7 s else if starts_with s ''https://'' then drop 8 s else [])
      in last_port (tl run))"

fun url_port :: "string \<Rightarrow> string option" where
  "url_port [] = None"
| "url_port (c # s) = (case port_at (c # s) of Some d \<Rightarrow> Some d | None \<Rightarrow> url_port s)"

definition configuredAPIPort :: "build_env \<Rightarrow> jsnum option" where
  "configuredAPIPort env =
     (case REACT_APP_API_URL env of
        None \<Rightarrow> None
      | Some u \<Rightarrow> (if u = [] then None else map_option str_number (url_port u)))"

text \<open>\<open>candidates.filter((p, i) => candidates.indexOf(p) === i)\<close>: the first of equal elements.\<close>

fun first_of_equal :: "'a list \<Rightarrow> 'a list" where
  "first_of_equal [] = []"
| "first_of_equal (x # xs) = x # filter (\<lambda>y. y \<noteq> x) (first_of_equal xs)"

definition candidates :: "build_env \<Rightarrow> jsnum list" where
  "candidates env =
     first_of_equal (List.map_filter id [configuredAPIPort env, Some OSS_PORT, Some ENTERPRISE_PORT])"

record page_location =
  lc_protocol :: string
  lc_hostname :: string

definition isLocalHttp :: "page_location \<Rightarrow> bool" where
  "isLocalHttp l \<longleftrightarrow> lc_protocol l = ''http:'' \<and>
     (lc_hostname l = ''localhost'' \<or> lc_hostname l = ''127.0.0.1'' \<or>
      ends_with (lc_hostname l) ''.local'')"

text \<open>\<open>get\<close> is the HTTP client: the data of the answer of a URL, \<open>None\<close> when the request fails.  The
  template literal renders a port by \<open>num_string\<close>.\<close>

definition probe_url :: "(rat \<Rightarrow> string) \<Rightarrow> string \<Rightarrow> jsnum \<Rightarrow> string" where
  "probe_url fmt host port = ''http://'' @ host @ '':'' @ num_string fmt port"

fun probe ::
  "(rat \<Rightarrow> string) \<Rightarrow> (string \<Rightarrow> jval option) \<Rightarrow> string \<Rightarrow> jsnum list \<Rightarrow> (jval \<times> string) option" where
  "probe fmt get host [] = None"
| "probe fmt get host (port # ports) =
     (case get (probe_url fmt host port @ ''/edition'') of
        None \<Rightarrow> probe fmt get host ports
      | Some data \<Rightarrow>
          (if js_truthy data \<and> js_truthy (js_prop data ''edition'')
           then Some (data, probe_url fmt host port @ API_PREFIX)
           else probe fmt get host ports))"

definition getEditionFromBackend ::
  "(rat \<Rightarrow> string) \<Rightarrow> build_env \<Rightarrow> page_location \<Rightarrow> (string \<Rightarrow> jval option) \<Rightarrow> 'a web_scheme
     \<Rightarrow> (jval \<times> string) option \<times> 'a web_scheme" where
  "getEditionFromBackend fmt env l get w =
     (if isLocalHttp l then
        (case probe fmt get (lc_hostname l) (candidates env) of
           None \<Rightarrow> (None, w)
         | Some (data, url) \<Rightarrow> (Some (data, url), setAPIBaseURL url w))
      else (None, w))"

section \<open>Lemmas\<close>

lemma edition_name_inj [simp]: "edition_name e = edition_name f \<longleftrightarrow> e = f"
  by (cases e; cases f) simp_all

lemma edition_name_not_Nil [simp]: "edition_name e \<noteq> []"
  by (cases e) simp_all

lemma normalizeEdition_name [simp]: "normalizeEdition (Some (edition_name e)) = e"
  by (cases e) (simp_all add: normalizeEdition_def str_lower_def char_lower_def)

interpretation edition_norm: normaliser "\<lambda>s. edition_name (normalizeEdition (Some s))"
  by unfold_locales simp

lemma ends_with_suffix: "ends_with s p \<longleftrightarrow> suffix p s"
  by (auto simp: ends_with_iff suffix_def)

lemma API_PREFIX_no_slash_end: "ends_with s API_PREFIX \<Longrightarrow> \<not> ends_with s ''/''"
  by (auto simp: ends_with_iff API_PREFIX_def)

lemma normalizeAPIBaseURL_idem [simp]:
  "normalizeAPIBaseURL (normalizeAPIBaseURL u) = normalizeAPIBaseURL u"
proof -
  let ?t = "strip_end (CHR ''/'') u"
  consider "ends_with ?t API_PREFIX" | "\<not> ends_with ?t API_PREFIX" "ends_with_port ?t"
    | "\<not> ends_with ?t API_PREFIX" "\<not> ends_with_port ?t" by blast
  then show ?thesis
  proof cases
    case 2
    have "strip_end (CHR ''/'') (?t @ API_PREFIX) = ?t @ API_PREFIX"
      by (rule strip_end_id) (rule API_PREFIX_no_slash_end [OF ends_with_append])
    with 2 show ?thesis by (simp add: normalizeAPIBaseURL_def)
  qed (simp_all add: normalizeAPIBaseURL_def)
qed

interpretation base_url_norm: normaliser normalizeAPIBaseURL
  by unfold_locales (rule normalizeAPIBaseURL_idem)

lemma normalizeAPIBaseURL_prefix [simp]: "normalizeAPIBaseURL (u @ API_PREFIX) = u @ API_PREFIX"
proof -
  have "strip_end (CHR ''/'') (u @ API_PREFIX) = u @ API_PREFIX"
    by (rule strip_end_id) (rule API_PREFIX_no_slash_end [OF ends_with_append])
  then show ?thesis by (simp add: normalizeAPIBaseURL_def)
qed

lemma set_first_of_equal [simp]: "set (first_of_equal xs) = set xs"
  by (induction xs) auto

lemma distinct_first_of_equal [simp]: "distinct (first_of_equal xs)"
  by (induction xs) auto

lemma candidates_eq:
  "candidates env =
     (case configuredAPIPort env of
        None \<Rightarrow> [OSS_PORT, ENTERPRISE_PORT]
      | Some p \<Rightarrow> p # filter (\<lambda>q. q \<noteq> p) [OSS_PORT, ENTERPRISE_PORT])"
  by (simp add: candidates_def List.map_filter_def OSS_PORT_def ENTERPRISE_PORT_def split: option.split)

definition answers :: "(string \<Rightarrow> jval option) \<Rightarrow> string \<Rightarrow> jval \<Rightarrow> bool" where
  "answers get url data \<longleftrightarrow>
     get url = Some data \<and> js_truthy data \<and> js_truthy (js_prop data ''edition'')"

lemma probe_Some:
  "probe fmt get host ports = Some (data, url) \<Longrightarrow>
     \<exists>pre p post. ports = pre @ p # post \<and> url = probe_url fmt host p @ API_PREFIX
        \<and> answers get (probe_url fmt host p @ ''/edition'') data
        \<and> (\<forall>q \<in> set pre. \<forall>d. \<not> answers get (probe_url fmt host q @ ''/edition'') d)"
proof (induction ports)
  case Nil
  then show ?case by simp
next
  case (Cons p ports)
  let ?u = "probe_url fmt host p @ ''/edition''"
  show ?case
  proof (cases "answers get ?u data")
    case True
    with Cons.prems have "url = probe_url fmt host p @ API_PREFIX" by (auto simp: answers_def)
    with True show ?thesis by (intro exI [of _ "[]"] exI [of _ p] exI [of _ ports]) simp
  next
    case False
    with Cons.prems have rest: "probe fmt get host ports = Some (data, url)"
      and no: "\<forall>d. \<not> answers get ?u d"
      by (auto simp: answers_def split: option.splits if_splits)
    from Cons.IH [OF rest] obtain pre q post where "ports = pre @ q # post"
      and "url = probe_url fmt host q @ API_PREFIX"
      and "answers get (probe_url fmt host q @ ''/edition'') data"
      and "\<forall>q \<in> set pre. \<forall>d. \<not> answers get (probe_url fmt host q @ ''/edition'') d" by blast
    with no show ?thesis by (intro exI [of _ "p # pre"] exI [of _ q] exI [of _ post]) auto
  qed
qed

lemma probe_None:
  "probe fmt get host ports = None \<longleftrightarrow>
     (\<forall>p \<in> set ports. \<forall>d. \<not> answers get (probe_url fmt host p @ ''/edition'') d)"
  by (induction ports) (auto simp: answers_def split: option.splits)

text \<open>The features a configuration switches on.\<close>

definition enabled :: "edition_config \<Rightarrow> string set" where
  "enabled c = {f. map_of (cf_features c) f = Some True}"

lemma enabled_code: "enabled c = set (map fst (filter (\<lambda>(f, b). map_of (cf_features c) f = Some True) (cf_features c)))"
  by (force simp: enabled_def dest: map_of_SomeD)

lemma community_in_professional: "enabled COMMUNITY_CONFIG \<subseteq> enabled PROFESSIONAL_CONFIG"
  unfolding enabled_code COMMUNITY_CONFIG_def PROFESSIONAL_CONFIG_def by code_simp

lemma professional_in_enterprise: "enabled PROFESSIONAL_CONFIG \<subseteq> enabled ENTERPRISE_CONFIG"
  unfolding enabled_code PROFESSIONAL_CONFIG_def ENTERPRISE_CONFIG_def by code_simp

fun edition_level :: "edition \<Rightarrow> nat" where
  "edition_level community = 0" | "edition_level professional = 1" | "edition_level enterprise = 2"

lemma enabled_mono: "edition_level e \<le> edition_level f \<Longrightarrow>
    enabled (EDITION_CONFIGS e) \<subseteq> enabled (EDITION_CONFIGS f)"
  using community_in_professional professional_in_enterprise
  by (cases e; cases f) auto

lemma EDITION_CONFIGS_name [simp]: "cf_edition (EDITION_CONFIGS e) = edition_name e"
  by (cases e) (simp_all add: COMMUNITY_CONFIG_def PROFESSIONAL_CONFIG_def ENTERPRISE_CONFIG_def)

lemma getEditionConfig_stored:
  "sg_mode s = Usable \<Longrightarrow> getEditionConfig env (setEditionPreference e s) = EDITION_CONFIGS e"
  by (simp add: getEditionConfig_def setEditionPreference_def)

section \<open>Properties\<close>

text \<open>The preferred edition survives in the storage, whatever edition the build was made for, and
  moving up from community to professional to enterprise never switches a feature off.\<close>

theorem edition_preference_features:
  assumes "sg_mode s = Usable" "edition_level e \<le> edition_level f"
  shows "cf_edition (getEditionConfig env (setEditionPreference e s)) = edition_name e
    \<and> enabled (getEditionConfig env (setEditionPreference e s))
        \<subseteq> enabled (getEditionConfig env' (setEditionPreference f s))"
  using assms by (simp add: getEditionConfig_stored enabled_mono)

theorem edition_preference_features_witness:
  "cf_edition (getEditionConfig \<lparr>REACT_APP_API_URL = None, REACT_APP_EDITION = Some ''oss''\<rparr>
      (setEditionPreference professional (storage_of []))) = ''professional''"
  using edition_preference_features [of "storage_of []" professional enterprise]
  by simp

text \<open>The base URL set in one session is the one the next page load detects, whatever the build's
  own URL is: the stored text is the raw one, and normalising it again gives the same URL.\<close>

theorem setAPIBaseURL_reload:
  assumes "sg_mode (local_storage w) = Usable" "u \<noteq> []"
  shows "detectBaseURL env (local_storage (setAPIBaseURL u w)) = apiBaseURL (setAPIBaseURL u w)
    \<and> apiBaseURL (setAPIBaseURL (apiBaseURL (setAPIBaseURL u w)) w) = apiBaseURL (setAPIBaseURL u w)"
  using assms by (simp add: detectBaseURL_def setAPIBaseURL_def)

theorem setAPIBaseURL_reload_witness:
  "detectBaseURL \<lparr>REACT_APP_API_URL = Some ''http://x'', REACT_APP_EDITION = None\<rparr>
     (local_storage (setAPIBaseURL ''http://h:9090//'' \<lparr>apiBaseURL = [], local_storage = storage_of []\<rparr>))
   = ''http://h:9090/api/v1''"
proof -
  have "normalizeAPIBaseURL ''http://h:9090//'' = ''http://h:9090/api/v1''" by code_simp
  with setAPIBaseURL_reload [of "\<lparr>apiBaseURL = [], local_storage = storage_of []\<rparr>" "''http://h:9090//''"]
  show ?thesis by (simp add: setAPIBaseURL_def)
qed

text \<open>A backend is looked for on a local http page only; the one that is taken is the first of
  the configured port, 8080 and 9090 whose answer names an edition, and its URL becomes the base URL
  of the client unchanged; when no port answers the client is left as it was.\<close>

theorem backend_probe:
  "(case getEditionFromBackend fmt env l get w of
      (None, w') \<Rightarrow> w' = w \<and>
        (isLocalHttp l \<longrightarrow> (\<forall>p \<in> set (candidates env). \<forall>d.
           \<not> answers get (probe_url fmt (lc_hostname l) p @ ''/edition'') d))
    | (Some (data, url), w') \<Rightarrow> isLocalHttp l \<and> apiBaseURL w' = url \<and>
        (\<exists>pre p post. candidates env = pre @ p # post
           \<and> url = probe_url fmt (lc_hostname l) p @ API_PREFIX
           \<and> answers get (probe_url fmt (lc_hostname l) p @ ''/edition'') data
           \<and> (\<forall>q \<in> set pre. \<forall>d. \<not> answers get (probe_url fmt (lc_hostname l) q @ ''/edition'') d)))"
proof (cases "isLocalHttp l")
  case False
  then show ?thesis by (simp add: getEditionFromBackend_def)
next
  case True
  show ?thesis
  proof (cases "probe fmt get (lc_hostname l) (candidates env)")
    case None
    then have "\<forall>p \<in> set (candidates env). \<forall>d.
        \<not> answers get (probe_url fmt (lc_hostname l) p @ ''/edition'') d" by (simp add: probe_None)
    with True None show ?thesis by (simp add: getEditionFromBackend_def)
  next
    case (Some r)
    then obtain data url where r: "r = (data, url)" by fastforce
    from Some probe_Some [of fmt get "lc_hostname l" "candidates env" data url] r
    have ex: "\<exists>pre p post. candidates env = pre @ p # post
           \<and> url = probe_url fmt (lc_hostname l) p @ API_PREFIX
           \<and> answers get (probe_url fmt (lc_hostname l) p @ ''/edition'') data
           \<and> (\<forall>q \<in> set pre. \<forall>d. \<not> answers get (probe_url fmt (lc_hostname l) q @ ''/edition'') d)"
      by simp
    then have "normalizeAPIBaseURL url = url" by fastforce
    with True Some r ex show ?thesis
      by (simp add: getEditionFromBackend_def setAPIBaseURL_def)
  qed
qed

theorem backend_probe_witness:
  "isLocalHttp \<lparr>lc_protocol = ''http:'', lc_hostname = ''localhost''\<rparr> \<and>
   apiBaseURL (snd (getEditionFromBackend (\<lambda>_. []) \<lparr>REACT_APP_API_URL = None, REACT_APP_EDITION = None\<rparr>
     \<lparr>lc_protocol = ''http:'', lc_hostname = ''localhost''\<rparr>
     (\<lambda>u. if u = ''http://localhost:9090/edition'' then Some (JObj [(''edition'', JStr ''pro'')]) else None)
     \<lparr>apiBaseURL = [], local_storage = storage_of []\<rparr>)) = ''http://localhost:9090/api/v1''"
proof -
  let ?env = "\<lparr>REACT_APP_API_URL = None, REACT_APP_EDITION = None\<rparr>"
  let ?l = "\<lparr>lc_protocol = ''http:'', lc_hostname = ''localhost''\<rparr>"
  let ?get = "\<lambda>u. if u = ''http://localhost:9090/edition'' then Some (JObj [(''edition'', JStr ''pro'')]) else None"
  let ?w = "\<lparr>apiBaseURL = [], local_storage = storage_of []\<rparr>"
  have p: "probe_url (\<lambda>_. []) ''localhost'' (num 8080) = ''http://localhost:8080''"
    "probe_url (\<lambda>_. []) ''localhost'' (num 9090) = ''http://localhost:9090''"
    by (simp_all add: probe_url_def nat_str_def nat_str_base.simps)
  have "fst (getEditionFromBackend (\<lambda>_. []) ?env ?l ?get ?w) =
      Some (JObj [(''edition'', JStr ''pro'')], ''http://localhost:9090/api/v1'')"
    using p
    by (simp add: getEditionFromBackend_def isLocalHttp_def candidates_eq configuredAPIPort_def
        OSS_PORT_def ENTERPRISE_PORT_def API_PREFIX_def)
  then obtain w' where "getEditionFromBackend (\<lambda>_. []) ?env ?l ?get ?w =
      (Some (JObj [(''edition'', JStr ''pro'')], ''http://localhost:9090/api/v1''), w')"
    by (metis prod.collapse)
  with backend_probe [where fmt = "\<lambda>_. []" and env = ?env and l = ?l and get = ?get and w = ?w]
  show ?thesis by simp
qed

end
