(* ===== verification/Scoring.thy ===== *)
theory Scoring
  imports Js_Number
begin

text \<open>
  web/src/data/enterprise/scoring.ts: the posture score of an environment, the risk of an asset and
  the mean time to remediate.  The posture score is binary64 arithmetic on whatever numbers it is
  given, NaN and infinities included; the asset risk adds small integer constants, which are exact.
\<close>

section \<open>Posture\<close>

type_synonym contributor = "string \<times> jsnum"

record score_breakdown =
  sb_score :: jsnum
  sb_contributors :: "contributor list"
  sb_method :: string

definition POSTURE_METHOD :: string where
  "POSTURE_METHOD = ''posture = 100 '' @ minus_sign @
     '' min-capped penalties from open critical/high findings, internet exposure, CISA KEV presence, failed critical controls, and quantum-unsafe crypto share.''"

record posture_input =
  pi_assets :: jsnum
  pi_openCritical :: jsnum
  pi_openHigh :: jsnum
  pi_exposed :: jsnum
  pi_kevOpen :: jsnum
  pi_failedCriticalControls :: jsnum
  pi_quantumUnsafeShare :: jsnum

text \<open>The closure \<open>add\<close>: the capped points, and what it pushes onto the contributors.\<close>

definition points :: "jsnum \<Rightarrow> int \<Rightarrow> jsnum" where
  "points raw cap = js_min (num cap) (js_max (num 0) (round1 raw))"

definition add_points :: "string \<Rightarrow> jsnum \<Rightarrow> int \<Rightarrow> contributor list \<Rightarrow> contributor list" where
  "add_points label raw cap cs =
     (if js_lt (num 0) (points raw cap) then cs @ [(label, points raw cap)] else cs)"

definition per_thousand :: "jsnum \<Rightarrow> jsnum" where
  "per_thousand assets = (if js_lt (num 0) assets then js_div (num 1000) assets else num 0)"

definition posture_contributors :: "posture_input \<Rightarrow> contributor list" where
  "posture_contributors p =
     add_points ''Quantum-unsafe crypto share'' (js_mul (pi_quantumUnsafeShare p) (num 8)) 8
     (add_points ''Failed critical compliance controls''
        (js_mul (pi_failedCriticalControls p) (lit (7 / 10))) 10
     (add_points ''Open CISA KEV vulnerabilities'' (js_mul (pi_kevOpen p) (lit (45 / 100))) 8
     (add_points ''Internet-exposed assets''
        (js_mul (js_mul (pi_exposed p) (per_thousand (pi_assets p))) (lit (22 / 100))) 10
     (add_points ''Open high findings'' (js_mul (pi_openHigh p) (lit (14 / 1000))) 12
     (add_points ''Open critical findings'' (js_mul (pi_openCritical p) (lit (14 / 100))) 18 [])))))"

definition calculatePostureScore :: "posture_input \<Rightarrow> score_breakdown" where
  "calculatePostureScore p =
     (let contributors = posture_contributors p;
          totalPenalty = js_sum (map snd contributors);
          score = js_max (num 0) (js_min (num 100) (round1 (js_sub (num 100) totalPenalty)))
      in \<lparr>sb_score = score, sb_contributors = contributors, sb_method = POSTURE_METHOD\<rparr>)"

section \<open>Asset risk\<close>

datatype risk_level = RLow | RMedium | RHigh | RCritical

record risk_flags =
  rf_criticalCve :: bool
  rf_kev :: bool
  rf_internetExposed :: bool
  rf_privilegedIam :: bool
  rf_misconfig :: bool
  rf_quantumUnsafe :: bool

record asset_risk =
  ar_score :: int
  ar_level :: risk_level
  ar_contributors :: "(string \<times> int) list"

definition risk_add :: "string \<Rightarrow> int \<Rightarrow> (string \<times> int) list \<Rightarrow> (string \<times> int) list" where
  "risk_add label pts cs = (if pts \<noteq> 0 then cs @ [(label, pts)] else cs)"

definition risk_contributors :: "risk_flags \<Rightarrow> (string \<times> int) list" where
  "risk_contributors f =
     risk_add ''Quantum-unsafe cryptography'' (if rf_quantumUnsafe f then 8 else 0)
     (risk_add ''CISA KEV'' (if rf_kev f then 10 else 0)
     (risk_add ''Misconfiguration'' (if rf_misconfig f then 13 else 0)
     (risk_add ''Privileged IAM role'' (if rf_privilegedIam f then 18 else 0)
     (risk_add ''Internet exposure'' (if rf_internetExposed f then 20 else 0)
     (risk_add ''Critical CVE'' (if rf_criticalCve f then 30 else 0) [])))))"

definition risk_level_of :: "int \<Rightarrow> risk_level" where
  "risk_level_of score =
     (if 70 \<le> score then RCritical else if 45 \<le> score then RHigh
      else if 25 \<le> score then RMedium else RLow)"

definition calculateAssetRisk :: "risk_flags \<Rightarrow> asset_risk" where
  "calculateAssetRisk f =
     (let contributors = risk_contributors f;
          score = min 100 (foldl (\<lambda>s (l, p). s + p) 0 contributors)
      in \<lparr>ar_score = score, ar_level = risk_level_of score, ar_contributors = contributors\<rparr>)"

section \<open>Mean time to remediate\<close>

text \<open>\<open>parse\<close> is \<open>Date.parse\<close>; a resolved finding is the pair of its two dates.\<close>

definition meanTimeToRemediateHours :: "(string \<Rightarrow> jsnum) \<Rightarrow> (string \<times> string) list \<Rightarrow> jsnum" where
  "meanTimeToRemediateHours parse resolved =
     (if resolved = [] then num 0
      else
        (let hours = map (\<lambda>(discoveredAt, resolvedAt).
               js_div (js_sub (parse resolvedAt) (parse discoveredAt)) (num 3600000)) resolved;
             avg = js_div (js_sum hours) (num (int (length hours)))
         in round1 avg))"

section \<open>Lemmas\<close>

lemma points_range:
  assumes "0 \<le> cap" "cap \<le> 1000"
  shows "points raw cap = NaN \<or> (\<exists>p. points raw cap = Fin p \<and> 0 \<le> p \<and> p \<le> of_int cap)"
  using assms
  by (cases "round1 raw") (auto simp: points_def js_max_def js_min_def of_int_0_le_iff)

lemma points_mono: "js_le a b \<Longrightarrow> js_le (points a cap) (points b cap)"
  unfolding points_def by (intro js_min_mono js_max_mono round1_mono)

lemma js_sum_snoc: "js_sum (xs @ [x]) = js_add (js_sum xs) x"
  by (simp add: js_sum_def)

lemma js_sum_Nil [simp]: "js_sum [] = num 0"
  by (simp add: js_sum_def)

text \<open>The sum of the points pushed so far is a finite binary64 value below the sum of the caps.\<close>

definition sum_within :: "contributor list \<Rightarrow> int \<Rightarrow> bool" where
  "sum_within cs m \<longleftrightarrow> (\<exists>s. js_sum (map snd cs) = Fin s \<and> 0 \<le> s \<and> s \<le> of_int m \<and> rnd s = s)"

lemma sum_within_add:
  assumes cs: "sum_within cs m" and c: "0 \<le> m" "0 \<le> cap" "m + cap \<le> 1000"
  shows "sum_within (add_points l raw cap cs) (m + cap)"
proof -
  from cs obtain s where s: "js_sum (map snd cs) = Fin s" "0 \<le> s" "s \<le> of_int m" "rnd s = s"
    by (auto simp: sum_within_def)
  show ?thesis
  proof (cases "js_lt (num 0) (points raw cap)")
    case False
    with s c show ?thesis by (auto simp: add_points_def sum_within_def)
  next
    case True
    with points_range [of cap raw] c obtain p where p: "points raw cap = Fin p" "0 \<le> p" "p \<le> of_int cap"
      by auto
    have "of_int 0 \<le> s + p" "s + p \<le> of_int (m + cap)" using s p by simp_all
    moreover have "- (2 ^ 53) \<le> (0 :: int)" "m + cap \<le> 2 ^ 53" using c by simp_all
    ultimately obtain y where "to_num (s + p) = Fin y" "of_int 0 \<le> y" "y \<le> of_int (m + cap)" "rnd y = y"
      by (rule to_num_range)
    with s p True show ?thesis
      by (simp add: add_points_def sum_within_def js_sum_snoc)
  qed
qed

lemma sum_within_Nil: "sum_within [] 0"
  by (simp add: sum_within_def)

lemma posture_sum: "sum_within (posture_contributors p) 66"
proof -
  note step = sum_within_add
  have "sum_within (posture_contributors p) (0 + 18 + 12 + 10 + 8 + 10 + 8)"
    unfolding posture_contributors_def by (intro step sum_within_Nil) simp_all
  then show ?thesis by simp
qed

lemma add_points_all:
  assumes "\<forall>(l, x) \<in> set cs. \<exists>v. x = Fin v \<and> 0 < v \<and> v \<le> 18" "0 \<le> cap" "cap \<le> 18"
  shows "\<forall>(l, x) \<in> set (add_points l' raw cap cs). \<exists>v. x = Fin v \<and> 0 < v \<and> v \<le> 18"
proof (cases "js_lt (num 0) (points raw cap)")
  case True
  with points_range [of cap raw] assms(2,3) obtain p where "points raw cap = Fin p" "0 < p" "p \<le> of_int cap"
    by auto
  moreover have "(of_int cap :: rat) \<le> of_int 18" using assms(3) by (simp only: of_int_le_iff)
  ultimately show ?thesis using assms(1) True by (auto simp: add_points_def)
qed (use assms in \<open>simp add: add_points_def\<close>)

lemma posture_points:
  "\<forall>(l, x) \<in> set (posture_contributors p). \<exists>v. x = Fin v \<and> 0 < v \<and> v \<le> 18"
  unfolding posture_contributors_def by (intro add_points_all) simp_all

lemma score_of_sum:
  assumes "0 \<le> s" "s \<le> 66" "rnd s = s"
  obtains v where "js_max (num 0) (js_min (num 100) (round1 (js_sub (num 100) (Fin s)))) = Fin v"
    "34 \<le> v" "v \<le> 100"
proof -
  have "of_int 34 \<le> 100 + - s" "100 + - s \<le> of_int 100" "- (2 ^ 53) \<le> (34 :: int)" "(100 :: int) \<le> 2 ^ 53"
    using assms by simp_all
  then obtain d where d: "to_num (100 + - s) = Fin d" "of_int 34 \<le> d" "d \<le> of_int 100"
    by (rule to_num_range)
  have "- 1000000 \<le> (34 :: int)" "(100 :: int) \<le> 1000000" by simp_all
  with d(2,3) obtain v where v: "round1 (Fin d) = Fin v" "of_int 34 \<le> v" "v \<le> of_int 100"
    by (rule round1_range)
  have "js_max (num 0) (js_min (num 100) (round1 (js_sub (num 100) (Fin s)))) = Fin v"
    using d v by (simp add: js_sub_def js_min_def js_max_def)
  with v that show ?thesis by simp
qed

text \<open>The points of one term, zero when it pushes nothing.\<close>

definition pushed :: "jsnum \<Rightarrow> int \<Rightarrow> rat" where
  "pushed raw cap = (case points raw cap of Fin p \<Rightarrow> max 0 p | _ \<Rightarrow> 0)"

lemma pushed_mono:
  assumes "js_le a b \<or> a = b" "0 \<le> cap" "cap \<le> 1000"
  shows "pushed a cap \<le> pushed b cap"
proof (cases "a = b")
  case False
  with assms(1) points_mono [of a b cap] have "js_le (points a cap) (points b cap)" by simp
  with points_range [of cap a] points_range [of cap b] assms(2,3)
  show ?thesis by (auto simp: pushed_def)
qed simp

lemma sum_add_points:
  assumes cs: "js_sum (map snd cs) = Fin s" "0 \<le> s" "s \<le> 1000" "rnd s = s"
    and c: "0 \<le> cap" "cap \<le> 1000"
  shows "js_sum (map snd (add_points l raw cap cs)) = to_num (s + pushed raw cap)"
proof -
  have "to_num s = Fin s" using cs(2-4) to_num_Fin [of s 1000] by simp
  with cs(1) points_range [of cap raw] c show ?thesis
    by (auto simp: add_points_def pushed_def js_sum_snoc)
qed

lemma sum_mono_add:
  assumes w: "sum_within cs m" "sum_within ds m" "m \<le> 1000"
    and le: "js_le (js_sum (map snd cs)) (js_sum (map snd ds))"
    and c: "0 \<le> cap" "cap \<le> 1000" and ab: "js_le a b \<or> a = b"
  shows "js_le (js_sum (map snd (add_points l a cap cs))) (js_sum (map snd (add_points l b cap ds)))"
proof -
  have m: "(of_int m :: rat) \<le> of_int 1000" using w(3) by (simp only: of_int_le_iff)
  from w obtain s t where s: "js_sum (map snd cs) = Fin s" "0 \<le> s" "s \<le> of_int m" "rnd s = s"
    and t: "js_sum (map snd ds) = Fin t" "0 \<le> t" "t \<le> of_int m" "rnd t = t"
    by (auto simp: sum_within_def)
  from m s t have "s \<le> 1000" "t \<le> 1000" by simp_all
  moreover have "s + pushed a cap \<le> t + pushed b cap"
    using le s(1) t(1) pushed_mono [OF ab c] by simp
  ultimately show ?thesis
    using s t c by (simp add: sum_add_points to_num_mono)
qed

text \<open>Two lists of contributors whose sums are within a bound and in order.\<close>

definition sums_below :: "int \<Rightarrow> contributor list \<Rightarrow> contributor list \<Rightarrow> bool" where
  "sums_below m cs ds \<longleftrightarrow> sum_within cs m \<and> sum_within ds m
     \<and> js_le (js_sum (map snd cs)) (js_sum (map snd ds))"

lemma sums_below_Nil: "sums_below 0 [] []"
  by (simp add: sums_below_def sum_within_Nil)

lemma sums_below_add:
  assumes "sums_below m cs ds" "js_le a b \<or> a = b" "0 \<le> m" "0 \<le> cap" "m + cap \<le> 1000"
  shows "sums_below (m + cap) (add_points l a cap cs) (add_points l b cap ds)"
  using assms unfolding sums_below_def
  by (intro conjI sum_within_add sum_mono_add [where m = m]) simp_all

text \<open>The six raw terms of one input are below those of another.\<close>

lemma lit_mul_mono:
  "1 / 128 \<le> x \<Longrightarrow> x \<le> 1000 \<Longrightarrow> js_le a b \<or> a = b \<Longrightarrow>
     js_le (js_mul a (lit x)) (js_mul b (lit x)) \<or> js_mul a (lit x) = js_mul b (lit x)"
  by (metis lit_pos js_mul_mono)

lemma posture_sum_mono:
  assumes same: "pi_assets q = pi_assets p" "pi_exposed q = pi_exposed p"
    and le: "js_le (pi_openCritical p) (pi_openCritical q) \<or> pi_openCritical p = pi_openCritical q"
      "js_le (pi_openHigh p) (pi_openHigh q) \<or> pi_openHigh p = pi_openHigh q"
      "js_le (pi_kevOpen p) (pi_kevOpen q) \<or> pi_kevOpen p = pi_kevOpen q"
      "js_le (pi_failedCriticalControls p) (pi_failedCriticalControls q)
         \<or> pi_failedCriticalControls p = pi_failedCriticalControls q"
      "js_le (pi_quantumUnsafeShare p) (pi_quantumUnsafeShare q)
         \<or> pi_quantumUnsafeShare p = pi_quantumUnsafeShare q"
  shows "js_le (js_sum (map snd (posture_contributors p))) (js_sum (map snd (posture_contributors q)))"
proof -
  have q8: "js_le (js_mul (pi_quantumUnsafeShare p) (num 8)) (js_mul (pi_quantumUnsafeShare q) (num 8))
      \<or> js_mul (pi_quantumUnsafeShare p) (num 8) = js_mul (pi_quantumUnsafeShare q) (num 8)"
    using le(5) js_mul_mono [of "of_int 8"] by auto
  have "sums_below (0 + 18 + 12 + 10 + 8 + 10 + 8) (posture_contributors p) (posture_contributors q)"
    unfolding posture_contributors_def same
    by (intro sums_below_add sums_below_Nil q8 lit_mul_mono le) simp_all
  then show ?thesis by (simp add: sums_below_def)
qed

lemma risk_add_sum:
  "foldl (\<lambda>s (l, p). s + p) 0 (risk_add l q cs) = foldl (\<lambda>s (l, p). s + p) 0 cs + q"
  by (simp add: risk_add_def)

lemma risk_sum_list: "sum_list (map snd cs) = foldl (\<lambda>s (l, p). s + p) 0 cs" for cs :: "(string \<times> int) list"
proof -
  have "foldl (\<lambda>s (l, p). s + p) a cs = a + sum_list (map snd cs)" for a
    by (induction cs arbitrary: a) auto
  then show ?thesis by simp
qed

lemma posture_range:
  obtains v where "sb_score (calculatePostureScore p) = Fin v" "34 \<le> v" "v \<le> 100"
proof -
  from posture_sum obtain t where t: "js_sum (map snd (posture_contributors p)) = Fin t" "0 \<le> t" "t \<le> 66" "rnd t = t"
    by (auto simp: sum_within_def)
  from t(2-4) obtain v where
    "js_max (num 0) (js_min (num 100) (round1 (js_sub (num 100) (Fin t)))) = Fin v" "34 \<le> v" "v \<le> 100"
    by (rule score_of_sum)
  with t(1) that show ?thesis by (simp add: calculatePostureScore_def Let_def)
qed

section \<open>Properties\<close>

text \<open>C23: whatever numbers it is given, NaN and infinities included, the posture score is a number
  from 34 to 100, every contributor it reports is positive and at most 18 points, and the documented
  sum of the caps, 66, bounds the penalty.\<close>

theorem posture_score_bounds:
  "\<exists>v t. sb_score (calculatePostureScore p) = Fin v \<and> 34 \<le> v \<and> v \<le> 100
     \<and> js_sum (map snd (sb_contributors (calculatePostureScore p))) = Fin t \<and> 0 \<le> t \<and> t \<le> 66
     \<and> list_all (\<lambda>(l, x). js_lt (num 0) x \<and> js_le x (num 18))
          (sb_contributors (calculatePostureScore p))"
proof -
  from posture_sum obtain t where t: "js_sum (map snd (posture_contributors p)) = Fin t" "0 \<le> t" "t \<le> 66" "rnd t = t"
    by (auto simp: sum_within_def)
  obtain v where "sb_score (calculatePostureScore p) = Fin v" "34 \<le> v" "v \<le> 100" by (rule posture_range)
  moreover have "list_all (\<lambda>(l, x). js_lt (num 0) x \<and> js_le x (num 18)) (posture_contributors p)"
    using posture_points [of p] by (fastforce simp: list_all_iff)
  moreover have "sb_contributors (calculatePostureScore p) = posture_contributors p"
    by (simp add: calculatePostureScore_def Let_def)
  ultimately show ?thesis using t by auto
qed

text \<open>More open findings, more known exploited vulnerabilities, more failed controls or a larger
  share of quantum-unsafe cryptography never raise the posture score.\<close>

theorem posture_score_antitone:
  assumes "pi_assets q = pi_assets p" "pi_exposed q = pi_exposed p"
    and "js_le (pi_openCritical p) (pi_openCritical q) \<or> pi_openCritical p = pi_openCritical q"
      "js_le (pi_openHigh p) (pi_openHigh q) \<or> pi_openHigh p = pi_openHigh q"
      "js_le (pi_kevOpen p) (pi_kevOpen q) \<or> pi_kevOpen p = pi_kevOpen q"
      "js_le (pi_failedCriticalControls p) (pi_failedCriticalControls q)
         \<or> pi_failedCriticalControls p = pi_failedCriticalControls q"
      "js_le (pi_quantumUnsafeShare p) (pi_quantumUnsafeShare q)
         \<or> pi_quantumUnsafeShare p = pi_quantumUnsafeShare q"
  shows "js_le (sb_score (calculatePostureScore q)) (sb_score (calculatePostureScore p))"
proof -
  have "js_le (js_sub (num 100) (js_sum (map snd (posture_contributors q))))
      (js_sub (num 100) (js_sum (map snd (posture_contributors p))))"
    by (intro js_sub_anti posture_sum_mono assms)
  then show ?thesis
    unfolding calculatePostureScore_def Let_def score_breakdown.select_convs
    by (intro js_max_mono js_min_mono round1_mono)
qed

definition ex_posture :: "int \<Rightarrow> posture_input" where
  "ex_posture n = \<lparr>pi_assets = num 1000, pi_openCritical = num n, pi_openHigh = num 100,
     pi_exposed = num 20, pi_kevOpen = NaN, pi_failedCriticalControls = num 2,
     pi_quantumUnsafeShare = lit (1 / 2)\<rparr>"

theorem posture_score_antitone_witness:
  "js_le (sb_score (calculatePostureScore (ex_posture 90))) (sb_score (calculatePostureScore (ex_posture 10)))"
  by (rule posture_score_antitone) (simp_all add: ex_posture_def)

text \<open>The risk of an asset is exactly the sum of the points of the flags that hold, the cap at 100
  never binds, a flag never lowers the score, and the level is the band of the score: critical from
  70, high from 45, medium from 25.\<close>

theorem asset_risk_exact:
  "ar_score (calculateAssetRisk f) =
      (if rf_criticalCve f then 30 else 0) + (if rf_internetExposed f then 20 else 0)
      + (if rf_privilegedIam f then 18 else 0) + (if rf_misconfig f then 13 else 0)
      + (if rf_kev f then 10 else 0) + (if rf_quantumUnsafe f then 8 else 0)
   \<and> ar_score (calculateAssetRisk f) \<le> 99
   \<and> ar_level (calculateAssetRisk f) = risk_level_of (ar_score (calculateAssetRisk f))
   \<and> sum_list (map snd (ar_contributors (calculateAssetRisk f))) = ar_score (calculateAssetRisk f)"
proof -
  let ?s = "foldl (\<lambda>s (l, p). s + p) 0 (risk_contributors f)"
  have s: "?s = (if rf_criticalCve f then 30 else 0) + (if rf_internetExposed f then 20 else 0)
      + (if rf_privilegedIam f then 18 else 0) + (if rf_misconfig f then 13 else 0)
      + (if rf_kev f then 10 else 0) + (if rf_quantumUnsafe f then 8 else 0)"
    by (simp only: risk_contributors_def risk_add_sum foldl_Nil add_0 ac_simps)
  have "?s \<le> 99" unfolding s by simp
  then have "ar_score (calculateAssetRisk f) = ?s"
    and "ar_level (calculateAssetRisk f) = risk_level_of ?s"
    by (simp_all only: calculateAssetRisk_def Let_def asset_risk.select_convs min_absorb2)
  moreover have "ar_contributors (calculateAssetRisk f) = risk_contributors f"
    by (simp add: calculateAssetRisk_def Let_def)
  ultimately show ?thesis
    using s \<open>?s \<le> 99\<close> by (simp only: risk_sum_list)
qed

end
