(* ===== verification/Demo_Constants.thy ===== *)
theory Demo_Constants
  imports Browser
begin

text \<open>
  web/src/demo/constants.ts and the test of scanDemo.ts for a running demo session: the token that
  marks a session of the in-browser demo and the storage keys of the demo and of its trail.
\<close>

definition CLIENT_DEMO_TOKEN :: string where "CLIENT_DEMO_TOKEN = ''rivicq-demo-session''"
definition DEMO_STORAGE_KEY :: string where "DEMO_STORAGE_KEY = ''rivicq.demo''"
definition TRAIL_ACTIVE_KEY :: string where "TRAIL_ACTIVE_KEY = ''rivicq.trail.active''"
definition TRAIL_STEP_KEY :: string where "TRAIL_STEP_KEY = ''rivicq.trail.step''"

definition isClientDemoToken :: "string option \<Rightarrow> bool" where
  "isClientDemoToken token \<longleftrightarrow> token = Some CLIENT_DEMO_TOKEN"

text \<open>\<open>isDemoSessionActive\<close> of scanDemo.ts; a blocked storage throws, \<open>None\<close>.\<close>

definition isDemoSessionActive :: "storage option \<Rightarrow> bool option" where
  "isDemoSessionActive ls =
     (case ls of
        None \<Rightarrow> Some False
      | Some s \<Rightarrow>
          (case get_item s DEMO_STORAGE_KEY of
             None \<Rightarrow> None
           | Some v \<Rightarrow>
               (if v = Some ''1'' then Some True
                else map_option (\<lambda>t. t = Some CLIENT_DEMO_TOKEN) (get_item s ''auth_token''))))"

lemmas demo_keys = CLIENT_DEMO_TOKEN_def DEMO_STORAGE_KEY_def TRAIL_ACTIVE_KEY_def TRAIL_STEP_KEY_def

end
