(* ===== verification/Demo_Scan.thy ===== *)
theory Demo_Scan
  imports Demo_Constants Contracts "HOL-Library.AList"
begin

text \<open>
  web/src/demo/scanDemo.ts: the responder that answers the scan API inside the browser while a demo
  session is active.  Its state is the store of scans, a Map in insertion order, and the flag of the
  seeded findings.  Parameters: \<open>path_of\<close> and \<open>host_of\<close> are the path and the host name of a URL as
  the URL constructor gives them (\<open>None\<close> when it throws), \<open>isot\<close> is the ISO text of a time, \<open>fmt\<close> the
  decimal text of a fraction.
\<close>

section \<open>State\<close>

datatype demo_status = DRunning | DCompleted

fun demo_status_str :: "demo_status \<Rightarrow> string" where
  "demo_status_str DRunning = ''running''"
| "demo_status_str DCompleted = ''completed''"

record demo_scan =
  ds_id :: string
  ds_target :: string
  ds_scanType :: string
  ds_createdAt :: string
  ds_progress :: int
  ds_status :: demo_status

record demo_state =
  scanStore :: "(string \<times> demo_scan) list"
  baselineSent :: bool

definition demo_init :: demo_state where
  "demo_init = \<lparr>scanStore = [], baselineSent = False\<rparr>"

section \<open>Sample findings\<close>

abbreviation jint :: "int \<Rightarrow> jval" where "jint n \<equiv> JNum (num n)"

definition BASE_FINDINGS :: "jval list" where
  "BASE_FINDINGS =
     [
      JObj [(''severity'', JStr ''high''),
        (''title'', JStr ''RSA-2048 certificate key offered on TLS''),
        (''algorithm'', JStr ''RSA-2048''),
        (''quantum_safe'', JBool False),
        (''bsi_ref'', JStr ''BSI TR-02102-2''),
        (''protocol'', JStr ''https''),
        (''port'', JNum (num 443)),
        (''evidence'', JStr ''End-entity X.509 certificate presents an RSA-2048 signing key with a SHA-256 digest.''),
        (''remediation'', JStr ''Plan a migration to an ECC or post-quantum (ML-KEM/ML-DSA/SLH-DSA) key when the trust chain allows it.'')],
      JObj [(''severity'', JStr ''high''),
        (''title'', JStr ''SHA-1 present in certificate signature chain''),
        (''algorithm'', JStr ''SHA-1''),
        (''quantum_safe'', JBool False),
        (''bsi_ref'', JStr ''BSI TR-02102-2''),
        (''protocol'', JStr ''https''),
        (''port'', JNum (num 443)),
        (''evidence'', JStr ''An intermediate certificate in the served chain still uses the SHA-1 digest.''),
        (''remediation'', JStr ''Re-issue the chain with SHA-256 signatures and do not pin SHA-1 intermediates.'')],
      JObj [(''severity'', JStr ''medium''),
        (''title'', JStr ''TLS 1.2 is still offered with legacy ciphers''),
        (''algorithm'', JStr ''TLS 1.2''),
        (''quantum_safe'', JBool False),
        (''protocol'', JStr ''https''),
        (''port'', JNum (num 443)),
        (''evidence'', JStr ''Server accepted a TLS 1.2 handshake; enable TLS 1.3-only when device support allows.''),
        (''remediation'', JStr ''Cap the handshake at TLS 1.3 and drop CBC suites.'')],
      JObj [(''severity'', JStr ''medium''),
        (''title'', JStr ''Missing HSTS on HTTPS responses''),
        (''algorithm'', JUndef),
        (''quantum_safe'', JBool True),
        (''protocol'', JStr ''https''),
        (''port'', JNum (num 443)),
        (''evidence'', JStr ''No Strict-Transport-Security header observed on the first response.''),
        (''remediation'', JStr ''Serve Strict-Transport-Security with a long max-age over the main host.'')],
      JObj [(''severity'', JStr ''low''),
        (''title'', JStr ''AES-128-GCM symmetric traffic encryption''),
        (''algorithm'', JStr ''AES-128-GCM''),
        (''quantum_safe'', JBool True),
        (''protocol'', JStr ''tls''),
        (''port'', JNum (num 443)),
        (''evidence'', JStr ''Bulk record encryption negotiated as AES-128-GCM (minimum acceptable symmetric cipher).''),
        (''remediation'', JStr ''Consider AES-256-GCM where the device has a hardware accelerator.'')],
      JObj [(''severity'', JStr ''low''),
        (''title'', JStr ''ECDSA P-256 certificate key available''),
        (''algorithm'', JStr ''ECDSA P-256''),
        (''quantum_safe'', JBool False),
        (''bsi_ref'', JStr ''BSI TR-02102-2 / NIST SP 800-131A Rev 2''),
        (''protocol'', JStr ''https''),
        (''port'', JNum (num 443)),
        (''evidence'', JStr ''A P-256 ECDSA key is present in the trusted set; crypto-agility note for store-and-forward exposure.''),
        (''remediation'', JStr ''Track as crypto-agile: P-256 stays acceptable today but belongs on the PQC migration watch-list.'')],
      JObj [(''severity'', JStr ''low''),
        (''title'', JStr ''Public server banner exposes version detail''),
        (''algorithm'', JUndef),
        (''quantum_safe'', JBool True),
        (''protocol'', JStr ''https''),
        (''port'', JNum (num 443)),
        (''evidence'', JStr ''Server header exposes product and version in the HTTP response.''),
        (''remediation'', JStr ''Strip the Server header at the edge reverse proxy.'')]]"

definition BASELINE_COUNT :: nat where "BASELINE_COUNT = 4"

text \<open>\<open>{ ...o, k: v, ... }\<close>.\<close>

fun spread :: "jval \<Rightarrow> (string \<times> jval) list \<Rightarrow> jval" where
  "spread (JObj fs) kvs = JObj (foldl (\<lambda>o' (k, v). AList.update k v o') fs kvs)"
| "spread v kvs = JObj kvs"

definition hostOf :: "(string \<Rightarrow> string option) \<Rightarrow> string \<Rightarrow> string" where
  "hostOf host_of target =
     (case host_of (if starts_with target ''http'' then target else ''https://'' @ target) of
        Some h \<Rightarrow> h
      | None \<Rightarrow> target)"

definition scan_fields :: "string \<Rightarrow> nat \<Rightarrow> string \<Rightarrow> string \<Rightarrow> jval \<Rightarrow> string \<Rightarrow> string \<Rightarrow> (string \<times> jval) list" where
  "scan_fields scanId i host target descr sid scanType =
     [(''id'', JStr (scanId @ ''-finding-'' @ nat_str i)), (''asset'', JStr host),
      (''target_label'', JStr target), (''host'', JStr host), (''description'', descr),
      (''scan_id'', JStr sid), (''scan_type'', JStr scanType), (''status'', JStr ''open'')]"

definition makeFindingItems ::
  "(string \<Rightarrow> string option) \<Rightarrow> string \<Rightarrow> string \<Rightarrow> string \<Rightarrow> jval list" where
  "makeFindingItems host_of target scanId scanType =
     (let host = hostOf host_of target;
          rest = tl (map (\<lambda>(i, f). spread f
            (scan_fields scanId (i + 1) host target (js_prop f ''title'') scanId scanType))
            (List.enumerate 0 BASE_FINDINGS))
      in JObj ([(''severity'', JStr ''critical''),
           (''title'', JStr ''Legacy SHA-1 certificate signature detected''),
           (''algorithm'', JStr ''SHA-1''), (''quantum_safe'', JBool False),
           (''bsi_ref'', JStr ''BSI TR-02102-2''),
           (''protocol'', JStr (if scanType = ''website'' then ''https'' else ''tls'')),
           (''port'', jint 443),
           (''evidence'', JStr (''The leaf certificate on '' @ host @ '' is still signed with SHA-1.'')),
           (''remediation'', JStr ''Rotate the certificate and signature chain to SHA-256 now. This blocks under the default policy gate.'')]
           @ scan_fields scanId 0 host target
               (JStr ''Legacy SHA-1 certificate signature detected'') scanId scanType) # rest)"

section \<open>Requests\<close>

record axios_config =
  ax_method :: "string option"
  ax_url :: "string option"
  ax_baseURL :: "string option"
  ax_data :: jval

record axios_response =
  xr_data :: jval
  xr_status :: nat
  xr_statusText :: string

definition okResponse :: "jval \<Rightarrow> nat \<Rightarrow> axios_response" where
  "okResponse data status =
     \<lparr>xr_data = data, xr_status = status,
      xr_statusText = (if status = 200 then ''OK'' else ''Created'')\<rparr>"

definition is_absolute :: "string \<Rightarrow> bool" where
  "is_absolute v \<longleftrightarrow>
     starts_with (str_lower v) ''http://'' \<or> starts_with (str_lower v) ''https://''"

definition asPath :: "(string \<Rightarrow> string option) \<Rightarrow> string \<Rightarrow> string" where
  "asPath path_of value =
     (if is_absolute value
      then (case path_of value of Some p \<Rightarrow> or_str p ''/'' | None \<Rightarrow> value)
      else value)"

definition urlOf :: "(string \<Rightarrow> string option) \<Rightarrow> axios_config \<Rightarrow> string" where
  "urlOf path_of c =
     (let raw = or_opt (ax_url c) []; base = or_opt (ax_baseURL c) [];
          path0 = asPath path_of raw;
          path1 = (if \<not> is_absolute raw \<and> base \<noteq> [] then
              strip_end (CHR ''/'') (asPath path_of base) @
                (if starts_with path0 ''/'' then path0 else ''/'' @ path0)
            else path0);
          path2 = (if starts_with path1 ''/'' then path1 else ''/'' @ path1)
      in or_str (if starts_with path2 ''/api/v1'' then drop 7 path2 else path2) ''/'')"

definition isScanIdSegment :: "string \<Rightarrow> bool" where
  "isScanIdSegment seg \<longleftrightarrow>
     (starts_with (str_lower seg) ''demo-'' \<and> drop 5 seg \<noteq> [] \<and>
        list_all is_lower_alnum (drop 5 (str_lower seg)))
     \<or> starts_with seg ''scan-''
     \<or> (20 \<le> length seg \<and>
        list_all (\<lambda>c. is_digit c \<or> c \<in> set ''abcdef-'') seg)"

section \<open>Payloads\<close>

definition listScansPayload :: "(string \<Rightarrow> string option) \<Rightarrow> demo_state \<Rightarrow> jval" where
  "listScansPayload host_of st =
     JObj [(''scans'', JArr (map (\<lambda>(_, s). JObj
       [(''id'', JStr (ds_id s)), (''scan_id'', JStr (ds_id s)),
        (''status'', JStr (demo_status_str (ds_status s))), (''scan_type'', JStr (ds_scanType s)),
        (''target'', JStr (ds_target s)), (''created_at'', JStr (ds_createdAt s)),
        (''progress'', jint (if ds_status s = DCompleted then 100 else ds_progress s)),
        (''findings'', JObj [(''total'', jint
           (if ds_status s = DCompleted
            then int (length (makeFindingItems host_of (ds_target s) (ds_id s) (ds_scanType s)))
            else 0))])])
       (scanStore st)))]"

definition baseline_finding :: "nat \<Rightarrow> jval" where
  "baseline_finding i = JObj
     [(''id'', JStr (''demo-baseline-'' @ nat_str i)),
      (''severity'', JStr (if i \<le> 2 then ''high'' else ''low'')),
      (''title'', JStr (if i \<le> 2 then ''Legacy Signature Algorithm on device attestation''
         else ''Strong modern algorithm observed'')),
      (''algorithm'', JStr (if i \<le> 2 then ''SHA-1'' else ''AES-256-GCM'')),
      (''quantum_safe'', JBool (2 < i)),
      (''bsi_ref'', JStr (if i \<le> 2 then ''BSI TR-02102-2'' else ''BSI TR-02102-2 (PQC annex)'')),
      (''asset'', JStr ''riot-demo-device.local''),
      (''target_label'', JStr ''riot-demo-device.local''),
      (''host'', JStr ''riot-demo-device.local''),
      (''description'', JStr (if i \<le> 2 then ''Sample demo finding (seeded).''
         else ''Sample demo observation (seeded).'')),
      (''remediation'', JStr ''See the demo CBOM report; rotate leaf signatures in the real estate.''),
      (''scan_id'', JStr ''demo-seed''),
      (''status'', JStr ''open'')]"

definition completed_findings :: "(string \<Rightarrow> string option) \<Rightarrow> demo_state \<Rightarrow> jval list" where
  "completed_findings host_of st =
     concat (map (\<lambda>(_, s). if ds_status s = DCompleted
        then makeFindingItems host_of (ds_target s) (ds_id s) (ds_scanType s) else []) (scanStore st))"

definition findingsPayload :: "(string \<Rightarrow> string option) \<Rightarrow> demo_state \<Rightarrow> jval \<times> demo_state" where
  "findingsPayload host_of st =
     (let seeded = (if baselineSent st then [] else map baseline_finding [1..<BASELINE_COUNT + 1])
      in (JObj [(''findings'', JArr (seeded @ completed_findings host_of st))],
          st\<lparr>baselineSent := True\<rparr>))"

definition intelligencePayload :: "demo_scan \<Rightarrow> jval" where
  "intelligencePayload s = JObj
     [(''gate'', JObj [(''decision'', JStr ''demo_pass''), (''failed'', JBool False),
         (''reasons'', JArr []),
         (''warnings'', JArr [JStr (''Demo policy evaluation '' @ em_dash @ '' not a live gate.'')])]),
      (''client_architecture'', JObj
        [(''target_class'', JStr (ds_scanType s)), (''target'', JStr (ds_target s)),
         (''edition'', JStr ''oss''),
         (''resources'', JObj [(''web'', JBool True), (''network'', JBool True),
            (''kubernetes'', JBool False), (''multi_cloud'', JBool False), (''firmware'', JBool False)]),
         (''phases'', JArr
           [JObj [(''id'', JStr ''discover''), (''title'', JStr ''Discover''), (''status'', JStr ''done''),
              (''summary'', JStr (''Inventoried cryptography on '' @ ds_target s @ ''.''))],
            JObj [(''id'', JStr ''mitigate''), (''title'', JStr ''Mitigate''), (''status'', JStr ''demo''),
              (''summary'', JStr ''NIST PQC mappings computed on demo data.'')],
            JObj [(''id'', JStr ''report''), (''title'', JStr ''Report''), (''status'', JStr ''demo''),
              (''summary'', JStr ''CBOM report available below (sample data).'')]]),
         (''honesty'', JStr ''Demo client report built in-browser. No live estate was touched.'')]),
      (''pqc_readiness'', JObj
        [(''overall'', jint 68),
         (''layers'', JObj [(''endpoints'', jint 72), (''data'', jint 64), (''identities'', jint 71),
            (''supply_chain'', jint 60)]),
         (''hndl_exposure'', JNum (lit (31 / 100))),
         (''migration'', JArr
           [JObj [(''algorithm'', JStr ''RSA-2048''), (''replace_with'', JStr ''ML-DSA-44 / ML-KEM-768''),
              (''standard'', JStr ''NIST FIPS 203/204''), (''priority'', JStr ''high'')],
            JObj [(''algorithm'', JStr ''ECDSA P-256''), (''replace_with'', JStr ''ML-DSA-44 or SLH-DSA''),
              (''standard'', JStr ''NIST FIPS 204/205''), (''priority'', JStr ''medium'')]]),
         (''compliance'', JArr
           [JObj [(''framework'', JStr ''ISO 27001''), (''control'', JStr ''A.8.24''), (''status'', JStr ''partial'')],
            JObj [(''framework'', JStr ''SOC 2''), (''control'', JStr ''CC7 & CC8''), (''status'', JStr ''partial'')]]),
         (''pack_available'', JBool True),
         (''note'', JStr ''Demo readiness score derived from sample findings.'')])]"

definition qiskitPayload :: "demo_scan \<Rightarrow> jval" where
  "qiskitPayload s = JObj
     [(''qiskit'', JObj [(''estate_score'', JNum (lit (68 / 100))), (''note'', JStr ''Demo estate score.''),
         (''source'', JStr ''demo'')]),
      (''audit_score'', JObj [(''overall'', JNum (lit (72 / 100))),
         (''note'', JStr ''Demo audit overview (qiskit-style Q scores).'')]),
      (''resources'', JObj [(''qiskit'', JBool True), (''web'', JBool True), (''network'', JBool True)])]"

section \<open>The responder\<close>

definition start_scan ::
  "(rat \<Rightarrow> string) \<Rightarrow> (nat \<Rightarrow> string) \<Rightarrow> nat \<Rightarrow> jval \<Rightarrow> demo_state \<Rightarrow> axios_response \<times> demo_state" where
  "start_scan fmt isot now data st =
     (let body = js_coalesce data (JObj []);
          target = js_string fmt (js_or (js_prop body ''target'') (JStr ''https://demo.example''));
          scanType = js_string fmt (js_or (js_prop body ''scan_type'') (JStr ''cbom''));
          id = ''demo-'' @ nat_str_base 36 now;
          s = \<lparr>ds_id = id, ds_target = target, ds_scanType = scanType, ds_createdAt = isot now,
               ds_progress = 0, ds_status = DRunning\<rparr>
      in (okResponse (JObj [(''scan_id'', JStr id), (''status'', JStr ''running''), (''progress'', jint 0),
            (''target'', JStr target), (''scan_type'', JStr scanType)]) 201,
          st\<lparr>scanStore := AList.update id s (scanStore st)\<rparr>))"

definition poll_scan :: "demo_scan \<Rightarrow> demo_scan" where
  "poll_scan s =
     (let progress = (if ds_status s = DCompleted then 100 else min 100 (ds_progress s + 20))
      in s\<lparr>ds_progress := progress, ds_status := (if 100 \<le> progress then DCompleted else DRunning)\<rparr>)"

definition countBy :: "(rat \<Rightarrow> string) \<Rightarrow> jval list \<Rightarrow> string \<Rightarrow> int" where
  "countBy fmt items sev = int (count_if (\<lambda>f. js_string fmt (js_prop f ''severity'') = sev) items)"

definition scan_payload :: "(rat \<Rightarrow> string) \<Rightarrow> (string \<Rightarrow> string option) \<Rightarrow> demo_scan \<Rightarrow> jval" where
  "scan_payload fmt host_of s =
     (let completed = (ds_status s = DCompleted);
          items = (if completed then makeFindingItems host_of (ds_target s) (ds_id s) (ds_scanType s) else [])
      in JObj
        [(''id'', JStr (ds_id s)), (''scan_id'', JStr (ds_id s)),
         (''status'', JStr (demo_status_str (ds_status s))), (''progress'', jint (ds_progress s)),
         (''target'', JStr (ds_target s)), (''scan_type'', JStr (ds_scanType s)),
         (''created_at'', JStr (ds_createdAt s)),
         (''findings'', JObj [(''total'', jint (int (length items))),
            (''critical'', jint (countBy fmt items ''critical'')), (''high'', jint (countBy fmt items ''high'')),
            (''medium'', jint (countBy fmt items ''medium'')), (''low'', jint (countBy fmt items ''low''))]),
         (''finding_items'', JArr items),
         (''resources'', JObj [(''web'', JBool True), (''network'', JBool True)]),
         (''note'', if completed then JStr (''DEMO '' @ mid_dot @ '' labelled sample findings only'') else JUndef)])"

definition report_payload :: "(string \<Rightarrow> string option) \<Rightarrow> demo_scan \<Rightarrow> jval" where
  "report_payload host_of s =
     (let items = makeFindingItems host_of (ds_target s) (ds_id s) (ds_scanType s)
      in JObj [(''scan_id'', JStr (ds_id s)), (''target'', JStr (ds_target s)),
           (''scan_type'', JStr (ds_scanType s)), (''status'', JStr (demo_status_str (ds_status s))),
           (''findings'', JArr items), (''finding_items'', JArr items),
           (''note'', JStr (''Demo CBOM report '' @ em_dash @ '' labelled sample data only.''))])"

text \<open>What the module takes from its surroundings.\<close>

record platform =
  pf_fmt :: "rat \<Rightarrow> string"
  pf_iso :: "nat \<Rightarrow> string"
  pf_path :: "string \<Rightarrow> string option"
  pf_host :: "string \<Rightarrow> string option"

definition segments :: "platform \<Rightarrow> axios_config \<Rightarrow> string list" where
  "segments pf c = filter (\<lambda>w. w \<noteq> []) (split_on (CHR ''/'') (urlOf (pf_path pf) c))"

definition demoScanRespond ::
  "platform \<Rightarrow> nat \<Rightarrow> axios_config \<Rightarrow> demo_state \<Rightarrow> axios_response option \<times> demo_state" where
  "demoScanRespond pf now c st =
     (let verb = str_lower (or_opt (ax_method c) ''get''); segs = segments pf c; n = length segs;
          scan = map_of (scanStore st) (segs ! 1)
      in
      if verb = ''post'' \<and> n = 1 \<and> segs ! 0 = ''scans'' then
        (let (r, st') = start_scan (pf_fmt pf) (pf_iso pf) now (ax_data c) st in (Some r, st'))
      else if verb = ''get'' \<and> n = 1 \<and> segs ! 0 = ''scans'' then
        (Some (okResponse (listScansPayload (pf_host pf) st) 200), st)
      else if verb = ''get'' \<and> n = 2 \<and> segs ! 0 = ''scans'' \<and> segs ! 1 = ''findings'' then
        (let (p, st') = findingsPayload (pf_host pf) st in (Some (okResponse p 200), st'))
      else if verb = ''get'' \<and> n = 2 \<and> segs ! 0 = ''scans'' \<and> isScanIdSegment (segs ! 1) then
        (case scan of
           None \<Rightarrow> (None, st)
         | Some s \<Rightarrow>
             (Some (okResponse (scan_payload (pf_fmt pf) (pf_host pf) (poll_scan s)) 200),
              st\<lparr>scanStore := AList.update (segs ! 1) (poll_scan s) (scanStore st)\<rparr>))
      else if verb = ''get'' \<and> n = 3 \<and> segs ! 0 = ''scans'' \<and> isScanIdSegment (segs ! 1)
          \<and> segs ! 2 = ''intelligence'' then
        (case scan of None \<Rightarrow> (None, st) | Some s \<Rightarrow> (Some (okResponse (intelligencePayload s) 200), st))
      else if verb = ''get'' \<and> n = 3 \<and> segs ! 0 = ''scans'' \<and> isScanIdSegment (segs ! 1)
          \<and> segs ! 2 = ''report'' then
        (case scan of
           None \<Rightarrow> (None, st)
         | Some s \<Rightarrow> (Some (okResponse (report_payload (pf_host pf) s) 200), st))
      else if verb = ''get'' \<and> n = 3 \<and> segs ! 0 = ''scans'' \<and> isScanIdSegment (segs ! 1)
          \<and> segs ! 2 = ''qiskit'' then
        (case scan of None \<Rightarrow> (None, st) | Some s \<Rightarrow> (Some (okResponse (qiskitPayload s) 200), st))
      else (None, st))"

text \<open>The adapter: the answer of the demo, the promise of the real adapter, or the exception of a
  blocked storage.\<close>

datatype 'r adapter_result = FromDemo axios_response | FromNetwork 'r | Thrown

definition demoAwareAdapter ::
  "(axios_config \<Rightarrow> 'r) \<Rightarrow> platform \<Rightarrow> nat \<Rightarrow> storage option \<Rightarrow> axios_config \<Rightarrow> demo_state
     \<Rightarrow> 'r adapter_result \<times> demo_state" where
  "demoAwareAdapter realAdapter pf now ls c st =
     (case isDemoSessionActive ls of
        None \<Rightarrow> (Thrown, st)
      | Some True \<Rightarrow>
          (case demoScanRespond pf now c st of
             (Some r, st') \<Rightarrow> (FromDemo r, st')
           | (None, st') \<Rightarrow> (FromNetwork (realAdapter c), st'))
      | Some False \<Rightarrow> (FromNetwork (realAdapter c), st))"

section \<open>Lemmas\<close>

lemma is_obj_props: "js_prop (spread (JObj fs) kvs) k =
    (case map_of (rev kvs) k of Some v \<Rightarrow> v | None \<Rightarrow> js_prop (JObj fs) k)"
proof -
  have "map_of (foldl (\<lambda>o' (k, v). AList.update k v o') fs kvs) = map_of fs ++ map_of (rev kvs)"
    by (induction kvs arbitrary: fs) (auto simp: update_conv' map_add_def fun_eq_iff split: option.splits)
  then show ?thesis by (auto split: option.split)
qed

lemma BASE_shape:
  "length BASE_FINDINGS = 7" "list_all (\<lambda>f. \<exists>fs. f = JObj fs) BASE_FINDINGS"
  "map (\<lambda>f. js_prop f ''severity'') BASE_FINDINGS =
     map JStr [''high'', ''high'', ''medium'', ''medium'', ''low'', ''low'', ''low'']"
  by (simp_all add: BASE_FINDINGS_def)

lemma spread_severity:
  "list_all (\<lambda>f. \<exists>fs. f = JObj fs) [f] \<Longrightarrow>
     js_prop (spread f (scan_fields sid i h t d s ty)) ''severity'' = js_prop f ''severity''"
  by (auto simp: is_obj_props scan_fields_def simp del: spread.simps)

lemma items_severity:
  "map (\<lambda>f. js_prop f ''severity'') (makeFindingItems host_of target scanId scanType) =
     map JStr [''critical'', ''high'', ''medium'', ''medium'', ''low'', ''low'', ''low'']"
proof -
  let ?g = "\<lambda>(i, f). spread f (scan_fields scanId (i + 1) (hostOf host_of target) target
      (js_prop f ''title'') scanId scanType)"
  have "map (\<lambda>f. js_prop f ''severity'') (map ?g (List.enumerate 0 BASE_FINDINGS)) =
      map (\<lambda>f. js_prop f ''severity'') (map snd (List.enumerate 0 BASE_FINDINGS))"
    unfolding map_map
  proof (rule map_cong [OF refl])
    fix x assume "x \<in> set (List.enumerate 0 BASE_FINDINGS)"
    then have "snd x \<in> set BASE_FINDINGS"
      by (metis image_eqI list.set_map map_snd_enumerate)
    with BASE_shape(2) have "list_all (\<lambda>f. \<exists>fs. f = JObj fs) [snd x]" by (simp add: list_all_iff)
    then show "((\<lambda>f. js_prop f ''severity'') \<circ> ?g) x = ((\<lambda>f. js_prop f ''severity'') \<circ> snd) x"
      by (simp add: case_prod_beta spread_severity)
  qed
  also have "\<dots> = map JStr [''high'', ''high'', ''medium'', ''medium'', ''low'', ''low'', ''low'']"
    by (simp only: map_snd_enumerate BASE_shape(3))
  finally show ?thesis by (simp add: makeFindingItems_def Let_def map_tl)
qed

lemma items_length [simp]: "length (makeFindingItems host_of target scanId scanType) = 7"
  using arg_cong [OF items_severity, of length] by simp

lemma countBy_items:
  "countBy fmt (makeFindingItems host_of target scanId scanType) sev =
     int (count_if (\<lambda>v. v = sev) [''critical'', ''high'', ''medium'', ''medium'', ''low'', ''low'', ''low''])"
proof -
  have "countBy fmt items sev = int (count_if (\<lambda>v. js_string fmt v = sev) (map (\<lambda>f. js_prop f ''severity'') items))"
    for items by (simp add: countBy_def count_if_def filter_map comp_def)
  then show ?thesis by (simp only: items_severity) (simp add: count_if_def)
qed

lemma map_of_update [simp]: "map_of (AList.update k v xs) = (map_of xs)(k \<mapsto> v)"
  by (rule update_conv')

text \<open>One poll of a scan on the state.\<close>

definition poll_state :: "string \<Rightarrow> demo_state \<Rightarrow> demo_state" where
  "poll_state k st =
     (case map_of (scanStore st) k of
        None \<Rightarrow> st
      | Some s \<Rightarrow> st\<lparr>scanStore := AList.update k (poll_scan s) (scanStore st)\<rparr>)"

definition detail_request :: "platform \<Rightarrow> axios_config \<Rightarrow> string \<Rightarrow> bool" where
  "detail_request pf c k \<longleftrightarrow> str_lower (or_opt (ax_method c) ''get'') = ''get''
     \<and> segments pf c = [''scans'', k] \<and> k \<noteq> ''findings'' \<and> isScanIdSegment k"

lemma respond_detail:
  "detail_request pf c k \<Longrightarrow> demoScanRespond pf now c st =
     (case map_of (scanStore st) k of
        None \<Rightarrow> (None, st)
      | Some s \<Rightarrow> (Some (okResponse (scan_payload (pf_fmt pf) (pf_host pf) (poll_scan s)) 200), poll_state k st))"
  by (auto simp: demoScanRespond_def detail_request_def poll_state_def Let_def split: option.splits)

lemma respond_detail_state: "detail_request pf c k \<Longrightarrow> snd (demoScanRespond pf now c st) = poll_state k st"
  by (auto simp: respond_detail poll_state_def split: option.splits)

text \<open>The polls a scan still needs, and the states it goes through.\<close>

definition polls_left :: "string \<Rightarrow> demo_state \<Rightarrow> nat" where
  "polls_left k st =
     (case map_of (scanStore st) k of None \<Rightarrow> 0 | Some s \<Rightarrow> nat ((100 - ds_progress s) div 20))"

definition scan_inv :: "string \<Rightarrow> demo_state \<Rightarrow> bool" where
  "scan_inv k st \<longleftrightarrow> (\<exists>s. map_of (scanStore st) k = Some s
     \<and> 0 \<le> ds_progress s \<and> ds_progress s \<le> 100 \<and> ds_progress s mod 20 = 0
     \<and> (ds_status s = DCompleted \<longleftrightarrow> ds_progress s = 100))"

lemma poll_scan_progress:
  assumes "0 \<le> ds_progress s" "ds_progress s \<le> 100" "ds_progress s mod 20 = 0"
    and "ds_status s = DCompleted \<longleftrightarrow> ds_progress s = 100"
  shows "ds_progress (poll_scan s) = min 100 (ds_progress s + 20)"
    and "ds_status (poll_scan s) = DCompleted \<longleftrightarrow> ds_progress (poll_scan s) = 100"
  using assms by (auto simp: poll_scan_def Let_def)

lemma progress_cases:
  assumes "0 \<le> p" "p \<le> 100" "p mod 20 = (0 :: int)"
  shows "p \<in> {0, 20, 40, 60, 80, 100}"
proof -
  from assms(3) obtain q where q: "p = 20 * q" by (metis mod_0_imp_dvd dvdE)
  with assms(1,2) have "q \<in> {0, 1, 2, 3, 4, 5}" by auto
  with q show ?thesis by auto
qed

lemma poll_state_lookup:
  "map_of (scanStore (poll_state k st)) j =
     (if j = k then map_option poll_scan (map_of (scanStore st) k) else map_of (scanStore st) j)"
  by (auto simp: poll_state_def split: option.splits)

lemma poll_step:
  assumes "scan_inv k st"
  shows "scan_inv k (poll_state k st)" and "polls_left k (poll_state k st) = polls_left k st - 1"
proof -
  from assms obtain s where s: "map_of (scanStore st) k = Some s"
    and p: "0 \<le> ds_progress s" "ds_progress s \<le> 100" "ds_progress s mod 20 = 0"
    and st: "ds_status s = DCompleted \<longleftrightarrow> ds_progress s = 100" by (auto simp: scan_inv_def)
  note q = poll_scan_progress [OF p st]
  have c: "ds_progress s \<in> {0, 20, 40, 60, 80, 100}" using p by (rule progress_cases)
  show "scan_inv k (poll_state k st)"
    using c q by (auto simp: scan_inv_def poll_state_lookup s)
  show "polls_left k (poll_state k st) = polls_left k st - 1"
    using c q by (auto simp: polls_left_def poll_state_lookup s)
qed

lemma poll_scan_id: "ds_id (poll_scan s) = ds_id s"
  by (simp add: poll_scan_def Let_def)

section \<open>Sequences of requests\<close>

text \<open>A request with the time it is handled at, as a step on the state.\<close>

definition demo_step :: "platform \<Rightarrow> demo_state \<Rightarrow> nat \<times> axios_config \<Rightarrow> demo_state" where
  "demo_step pf st e = snd (demoScanRespond pf (fst e) (snd e) st)"

definition scan_id_at :: "nat \<Rightarrow> string" where
  "scan_id_at now = ''demo-'' @ nat_str_base 36 now"

lemma scan_id_at_inj: "scan_id_at n = scan_id_at m \<Longrightarrow> n = m"
  by (auto simp: scan_id_at_def dest: nat_str_base_inj [rotated 2])

lemma two_segs: "length xs = 2 \<Longrightarrow> xs = [xs ! 0, xs ! 1]"
  by (cases xs; cases "tl xs") auto

lemma other_lookup:
  assumes "\<not> detail_request pf c k" "k = scan_id_at t0" "t \<noteq> t0"
  shows "map_of (scanStore (snd (demoScanRespond pf t c st))) k = map_of (scanStore st) k"
proof (cases "str_lower (or_opt (ax_method c) ''get'') = ''get'' \<and> length (segments pf c) = 2
    \<and> segments pf c ! 0 = ''scans'' \<and> segments pf c ! 1 \<noteq> ''findings'' \<and> isScanIdSegment (segments pf c ! 1)")
  case True
  then have "segments pf c = [''scans'', segments pf c ! 1]" by (metis two_segs)
  with True assms(1) have "segments pf c ! 1 \<noteq> k" by (auto simp: detail_request_def)
  with True show ?thesis by (auto simp: demoScanRespond_def Let_def split: option.split)
next
  case False
  have "scan_id_at t \<noteq> k" using assms(2,3) scan_id_at_inj by blast
  then show ?thesis
    using False
    by (auto simp: demoScanRespond_def Let_def start_scan_def findingsPayload_def scan_id_at_def
        split: option.split)
qed

lemma step_facts:
  assumes "k = scan_id_at t0" "fst e \<noteq> t0"
  shows "map_of (scanStore (demo_step pf st e)) k =
    (if detail_request pf (snd e) k then map_option poll_scan (map_of (scanStore st) k)
     else map_of (scanStore st) k)"
  using other_lookup [OF _ assms(1) assms(2)] respond_detail_state [of pf "snd e" k "fst e" st]
  by (auto simp: demo_step_def poll_state_lookup)

lemma scan_inv_cong: "map_of (scanStore st') k = map_of (scanStore st) k \<Longrightarrow> scan_inv k st' = scan_inv k st"
  and polls_left_cong: "map_of (scanStore st') k = map_of (scanStore st) k \<Longrightarrow> polls_left k st' = polls_left k st"
  by (simp_all add: scan_inv_def polls_left_def)

lemma step_keeps:
  assumes inv: "scan_inv (scan_id_at t0) st" and e: "fst e \<noteq> t0"
  shows "scan_inv (scan_id_at t0) (demo_step pf st e)"
    and "polls_left (scan_id_at t0) (demo_step pf st e) =
      (if detail_request pf (snd e) (scan_id_at t0) then polls_left (scan_id_at t0) st - 1
       else polls_left (scan_id_at t0) st)"
proof -
  let ?k = "scan_id_at t0"
  note look = step_facts [OF refl e, of pf st]
  note poll = poll_state_lookup [of ?k st ?k]
  have "scan_inv ?k (demo_step pf st e) \<and> polls_left ?k (demo_step pf st e) =
      (if detail_request pf (snd e) ?k then polls_left ?k st - 1 else polls_left ?k st)"
  proof (cases "detail_request pf (snd e) ?k")
    case True
    with look poll have "map_of (scanStore (demo_step pf st e)) ?k = map_of (scanStore (poll_state ?k st)) ?k"
      by simp
    with True poll_step [OF inv] show ?thesis
      by (simp add: scan_inv_cong [of "demo_step pf st e"] polls_left_cong [of "demo_step pf st e"])
  next
    case False
    with look have "map_of (scanStore (demo_step pf st e)) ?k = map_of (scanStore st) ?k" by simp
    with False inv show ?thesis
      by (simp add: scan_inv_cong [of "demo_step pf st e"] polls_left_cong [of "demo_step pf st e"])
  qed
  then show "scan_inv ?k (demo_step pf st e)" "polls_left ?k (demo_step pf st e) =
      (if detail_request pf (snd e) ?k then polls_left ?k st - 1 else polls_left ?k st)" by blast+
qed

interpretation demo: progress_machine "demo_step pf" "\<lambda>e. fst e \<noteq> t0" "scan_inv (scan_id_at t0)"
  "\<lambda>e. detail_request pf (snd e) (scan_id_at t0)" "polls_left (scan_id_at t0)"
  for pf t0
  by unfold_locales (simp_all add: step_keeps)

text \<open>The request that starts a scan.\<close>

definition start_request :: "platform \<Rightarrow> axios_config \<Rightarrow> bool" where
  "start_request pf c \<longleftrightarrow> str_lower (or_opt (ax_method c) ''get'') = ''post'' \<and> segments pf c = [''scans'']"

lemma start_lookup:
  assumes "start_request pf c"
  obtains s where "map_of (scanStore (demo_step pf st (t, c))) (scan_id_at t) = Some s"
    "ds_progress s = 0" "ds_status s = DRunning" "ds_id s = scan_id_at t"
  using assms
  by (auto simp: start_request_def demo_step_def demoScanRespond_def start_scan_def scan_id_at_def Let_def)

lemma start_inv: "start_request pf c \<Longrightarrow> scan_inv (scan_id_at t) (demo_step pf st (t, c))"
  and start_left: "start_request pf c \<Longrightarrow> polls_left (scan_id_at t) (demo_step pf st (t, c)) = 5"
  by (auto simp: scan_inv_def polls_left_def elim!: start_lookup [where t = t and st = st])

lemma nat_str_base_alnum: "list_all is_lower_alnum (nat_str_base 36 n)"
proof (induction n rule: less_induct)
  case (less n)
  have dig: "is_lower_alnum (digit_char d)" if "d < 36" for d
    using that by (cases "d < 10")
      (simp_all add: is_lower_alnum_def is_digit_def digit_char_def)
  show ?case
  proof (cases "n < 36")
    case True
    then show ?thesis by (subst nat_str_base.simps) (simp add: dig)
  next
    case False
    with less [of "n div 36"] show ?thesis by (subst nat_str_base.simps) (simp add: dig)
  qed
qed

lemma scan_id_at_segment: "isScanIdSegment (scan_id_at t)"
proof -
  have low: "char_lower c = c" if "is_lower_alnum c" for c
    using that by (auto simp: char_lower_def is_lower_alnum_def is_digit_def)
  have "str_lower s = s" if "list_all is_lower_alnum s" for s
    using that by (induction s) (simp_all add: str_lower_def low)
  with nat_str_base_alnum have "str_lower (nat_str_base 36 t) = nat_str_base 36 t" by blast
  then show ?thesis
    by (simp add: isScanIdSegment_def scan_id_at_def nat_str_base_alnum str_lower_def starts_with_def char_lower_def)
qed

lemma run_scan:
  assumes "start_request pf c" "list_all (\<lambda>e. fst e \<noteq> t) es"
  obtains s where "map_of (scanStore (run (demo_step pf) (demo_step pf st (t, c)) es)) (scan_id_at t) = Some s"
    "ds_status s = DCompleted \<longleftrightarrow> ds_progress s = 100"
    "ds_progress s = min 100 (20 * int (count_if (\<lambda>e. detail_request pf (snd e) (scan_id_at t)) es))"
proof -
  let ?k = "scan_id_at t" and ?n = "count_if (\<lambda>e. detail_request pf (snd e) (scan_id_at t)) es"
  let ?st = "run (demo_step pf) (demo_step pf st (t, c)) es"
  have inv: "scan_inv ?k ?st" by (rule demo.inv_after [OF start_inv [OF assms(1)] assms(2)])
  have left: "polls_left ?k ?st = 5 - ?n"
    using demo.left_after [OF start_inv [OF assms(1)] assms(2)] by (simp add: start_left [OF assms(1)])
  from inv obtain s where s: "map_of (scanStore ?st) ?k = Some s"
    and p: "0 \<le> ds_progress s" "ds_progress s \<le> 100" "ds_progress s mod 20 = 0"
    and st: "ds_status s = DCompleted \<longleftrightarrow> ds_progress s = 100" by (auto simp: scan_inv_def)
  from left s have l: "nat ((100 - ds_progress s) div 20) = 5 - ?n" by (simp add: polls_left_def)
  have "ds_progress s \<in> {0, 20, 40, 60, 80, 100}" using p by (rule progress_cases)
  then have "ds_progress s = min 100 (20 * int ?n)" using l by auto
  with s st that show ?thesis by blast
qed

section \<open>Properties\<close>

text \<open>C29: a started scan runs to completion under any traffic: whatever other requests are answered in
  between (later starts at other times included), its progress is 20 per poll of its own id up to
  100, and it is completed exactly from the fifth poll on.\<close>

theorem demo_scan_progress:
  assumes "start_request pf c" "list_all (\<lambda>e. fst e \<noteq> t) es"
  shows "\<exists>s. map_of (scanStore (run (demo_step pf) (demo_step pf st (t, c)) es)) (scan_id_at t) = Some s
    \<and> ds_progress s = min 100 (20 * int (count_if (\<lambda>e. detail_request pf (snd e) (scan_id_at t)) es))
    \<and> (ds_status s = DCompleted \<longleftrightarrow>
         5 \<le> count_if (\<lambda>e. detail_request pf (snd e) (scan_id_at t)) es)"
  by (rule run_scan [OF assms, of st]) auto

text \<open>Witness data: a platform, the start of a scan at time 7, and requests about it.\<close>

definition ex_pf :: platform where
  "ex_pf = \<lparr>pf_fmt = (\<lambda>_. []), pf_iso = (\<lambda>_. ''t''), pf_path = (\<lambda>_. None), pf_host = (\<lambda>_. Some ''h'')\<rparr>"

definition ex_get :: "string \<Rightarrow> axios_config" where
  "ex_get u = \<lparr>ax_method = None, ax_url = Some u, ax_baseURL = Some ''/api/v1'', ax_data = JUndef\<rparr>"

definition ex_post :: "jval \<Rightarrow> axios_config" where
  "ex_post d = \<lparr>ax_method = Some ''POST'', ax_url = Some ''/scans'', ax_baseURL = Some ''/api/v1'', ax_data = d\<rparr>"

lemma ex_segments:
  "segments ex_pf (ex_post d) = [''scans'']"
  "segments ex_pf (ex_get ''/scans/demo-7'') = [''scans'', ''demo-7'']"
  "segments ex_pf (ex_get ''/scans/findings'') = [''scans'', ''findings'']"
  by code_simp+

lemma ex_id: "scan_id_at 7 = ''demo-7''"
  by code_simp

lemma ex_methods:
  "str_lower (or_opt (ax_method (ex_post d)) ''get'') = ''post''"
  "str_lower (or_opt (ax_method (ex_get u)) ''get'') = ''get''"
  by code_simp+

lemma ex_start: "start_request ex_pf (ex_post d)"
  by (simp add: start_request_def ex_segments ex_methods)

lemma ex_detail: "detail_request ex_pf (ex_get ''/scans/demo-7'') ''demo-7''"
  using scan_id_at_segment [of 7]
  by (simp add: detail_request_def ex_segments ex_id ex_methods)

theorem demo_scan_progress_witness:
  "\<exists>s. map_of (scanStore (run (demo_step ex_pf) (demo_step ex_pf demo_init (7, ex_post JUndef))
       (replicate 5 (8, ex_get ''/scans/demo-7'')))) ''demo-7'' = Some s \<and> ds_status s = DCompleted"
proof -
  have "list_all (\<lambda>e. fst e \<noteq> (7 :: nat)) (replicate 5 (8, ex_get ''/scans/demo-7''))"
    by (simp add: list_all_iff)
  from demo_scan_progress [OF ex_start this, of demo_init]
  show ?thesis by (auto simp: ex_id count_if_def ex_detail)
qed

text \<open>The counts of a scan's answer agree with its items: they are the numbers of its findings per
  severity, they sum to the total, and a completed scan reports 7 findings, a running one none.\<close>

theorem demo_scan_counts:
  assumes c: "detail_request pf c k" and r: "demoScanRespond pf now c st = (Some r, st')"
  shows "\<exists>s' items f. map_of (scanStore st') k = Some s' \<and> xr_status r = 200
    \<and> js_prop (xr_data r) ''finding_items'' = JArr items \<and> js_prop (xr_data r) ''findings'' = f
    \<and> js_prop (xr_data r) ''progress'' = jint (ds_progress s')
    \<and> js_prop f ''total'' = jint (int (length items))
    \<and> (\<forall>sev \<in> {''critical'', ''high'', ''medium'', ''low''}. js_prop f sev = jint (countBy (pf_fmt pf) items sev))
    \<and> (\<Sum>sev \<leftarrow> [''critical'', ''high'', ''medium'', ''low'']. countBy (pf_fmt pf) items sev) = int (length items)
    \<and> length items = (if ds_status s' = DCompleted then 7 else 0)"
proof -
  from c r obtain s where s: "map_of (scanStore st) k = Some s"
    and r': "r = okResponse (scan_payload (pf_fmt pf) (pf_host pf) (poll_scan s)) 200"
    and st': "st' = poll_state k st"
    by (auto simp: respond_detail split: option.splits)
  let ?s = "poll_scan s"
  let ?items = "if ds_status ?s = DCompleted
    then makeFindingItems (pf_host pf) (ds_target ?s) (ds_id ?s) (ds_scanType ?s) else []"
  have "js_prop (xr_data r) ''finding_items'' = JArr ?items"
    and "js_prop (xr_data r) ''progress'' = jint (ds_progress ?s)" and "xr_status r = 200"
    by (simp_all add: r' scan_payload_def okResponse_def Let_def)
  moreover have f: "js_prop (xr_data r) ''findings'' = JObj [(''total'', jint (int (length ?items))),
      (''critical'', jint (countBy (pf_fmt pf) ?items ''critical'')), (''high'', jint (countBy (pf_fmt pf) ?items ''high'')),
      (''medium'', jint (countBy (pf_fmt pf) ?items ''medium'')), (''low'', jint (countBy (pf_fmt pf) ?items ''low''))]"
    by (simp only: r' scan_payload_def okResponse_def Let_def axios_response.select_convs) simp
  moreover have "(\<Sum>sev \<leftarrow> [''critical'', ''high'', ''medium'', ''low'']. countBy (pf_fmt pf) ?items sev) = int (length ?items)"
    by (cases "ds_status ?s") (simp_all add: countBy_items, simp add: countBy_def)
  moreover have "map_of (scanStore st') k = Some ?s" by (simp add: st' poll_state_lookup s)
  ultimately show ?thesis
    by (intro exI [of _ ?s] exI [of _ ?items] exI conjI) (simp_all only: f, simp_all)
qed

theorem demo_scan_counts_witness:
  "xr_status (the (fst (demoScanRespond ex_pf 8 (ex_get ''/scans/demo-7'')
     (demo_step ex_pf demo_init (7, ex_post JUndef))))) = 200"
proof -
  obtain s where "map_of (scanStore (demo_step ex_pf demo_init (7, ex_post JUndef))) (scan_id_at 7) = Some s"
    by (rule start_lookup [OF ex_start])
  then obtain r st' where r: "demoScanRespond ex_pf 8 (ex_get ''/scans/demo-7'')
     (demo_step ex_pf demo_init (7, ex_post JUndef)) = (Some r, st')"
    using respond_detail [OF ex_detail] by (auto simp: ex_id)
  from demo_scan_counts [OF ex_detail r] show ?thesis by (auto simp: r)
qed

text \<open>In a demo session a request about a scan the demo started never reaches the network, however
  much traffic lies between: the detail, intelligence, report and qiskit reads of its id are all
  answered by the demo itself.\<close>

theorem demo_scan_stays_local:
  assumes session: "isDemoSessionActive ls = Some True"
    and start: "start_request pf c" and es: "list_all (\<lambda>e. fst e \<noteq> t) es"
    and st': "st' = run (demo_step pf) (demo_step pf st (t, c)) es"
    and d: "str_lower (or_opt (ax_method d) ''get'') = ''get''"
      "segments pf d \<in> {[''scans'', scan_id_at t], [''scans'', scan_id_at t, ''intelligence''],
         [''scans'', scan_id_at t, ''report''], [''scans'', scan_id_at t, ''qiskit'']}"
  shows "\<exists>r st2. demoAwareAdapter realAdapter pf now ls d st' = (FromDemo r, st2) \<and> xr_status r = 200"
proof -
  obtain s where s: "map_of (scanStore st') (scan_id_at t) = Some s"
    using run_scan [OF start es, of st] st' by metis
  have ne: "scan_id_at t \<noteq> ''findings''" by (simp add: scan_id_at_def)
  note resp = demoScanRespond_def d(1) Let_def s scan_id_at_segment ne okResponse_def
  consider "segments pf d = [''scans'', scan_id_at t]" | "segments pf d = [''scans'', scan_id_at t, ''intelligence'']"
    | "segments pf d = [''scans'', scan_id_at t, ''report'']" | "segments pf d = [''scans'', scan_id_at t, ''qiskit'']"
    using d(2) by blast
  then have "\<exists>r st2. demoScanRespond pf now d st' = (Some r, st2) \<and> xr_status r = 200"
    by cases (simp_all add: resp)
  then obtain r st2 where r: "demoScanRespond pf now d st' = (Some r, st2)" "xr_status r = 200" by metis
  have "demoAwareAdapter realAdapter pf now ls d st' = (FromDemo r, st2)"
    by (simp add: demoAwareAdapter_def session r)
  with r(2) show ?thesis by metis
qed

theorem demo_scan_stays_local_witness:
  "\<exists>r st2. demoAwareAdapter (\<lambda>_. ()) ex_pf 9 (Some (storage_of [(''auth_token'', ''rivicq-demo-session'')]))
      (ex_get ''/scans/demo-7'') (demo_step ex_pf demo_init (7, ex_post JUndef)) = (FromDemo r, st2)"
proof -
  have "isDemoSessionActive (Some (storage_of [(''auth_token'', ''rivicq-demo-session'')])) = Some True"
    by (simp add: isDemoSessionActive_def demo_keys)
  note sess = this
  have seg: "segments ex_pf (ex_get ''/scans/demo-7'') \<in> {[''scans'', scan_id_at 7],
      [''scans'', scan_id_at 7, ''intelligence''], [''scans'', scan_id_at 7, ''report''],
      [''scans'', scan_id_at 7, ''qiskit'']}" by (simp add: ex_id ex_segments)
  have es: "list_all (\<lambda>e. fst e \<noteq> (7 :: nat)) ([] :: (nat \<times> axios_config) list)" by simp
  have st: "demo_step ex_pf demo_init (7, ex_post JUndef) =
      run (demo_step ex_pf) (demo_step ex_pf demo_init (7, ex_post JUndef)) []" by simp
  show ?thesis
    using demo_scan_stays_local [OF sess ex_start es st ex_methods(2) seg, of "\<lambda>_. ()" 9]
    by (elim exE conjE, intro exI)
qed

text \<open>The seeded findings are served once: the first list of findings holds four of them besides
  those of the completed scans, and asking again, with nothing in between, no longer shows them.\<close>

theorem baseline_served_once:
  assumes c: "str_lower (or_opt (ax_method c) ''get'') = ''get''" "segments pf c = [''scans'', ''findings'']"
    and fresh: "\<not> baselineSent st"
    and r: "demoScanRespond pf now c st = (Some r, st')" "demoScanRespond pf now' c st' = (Some r', st'')"
  shows "\<exists>fs. js_prop (xr_data r') ''findings'' = JArr fs \<and>
    js_prop (xr_data r) ''findings'' = JArr (map baseline_finding [1, 2, 3, 4] @ fs)"
proof -
  have eq: "demoScanRespond pf n c u = (let (p, u') = findingsPayload (pf_host pf) u in (Some (okResponse p 200), u'))"
    for n u by (simp add: demoScanRespond_def c Let_def)
  have up: "[Suc 0..<Suc BASELINE_COUNT] = [Suc 0, 2, 3, 4]"
    by (simp add: BASELINE_COUNT_def upt_rec)
  from r fresh show ?thesis
    by (auto simp: eq findingsPayload_def okResponse_def Let_def completed_findings_def up simp del: upt_Suc)
qed

theorem baseline_served_once_witness:
  "\<exists>fs. js_prop (xr_data (the (fst (demoScanRespond ex_pf 1 (ex_get ''/scans/findings'') demo_init)))) ''findings'' =
     JArr (map baseline_finding [1, 2, 3, 4] @ fs)"
proof -
  have eq: "demoScanRespond ex_pf n (ex_get ''/scans/findings'') u =
      (Some (okResponse (fst (findingsPayload (pf_host ex_pf) u)) 200), snd (findingsPayload (pf_host ex_pf) u))"
    for n u by (simp add: demoScanRespond_def ex_segments ex_methods Let_def case_prod_beta)
  have "\<not> baselineSent demo_init" by (simp add: demo_init_def)
  from baseline_served_once [OF ex_methods(2) ex_segments(3) this eq [of 1] eq [of 2]]
  show ?thesis by (auto simp: eq)
qed

text \<open>The target a demo scan runs on is read off the request's data object; data that is already
  serialised to a string, which is what an HTTP client hands to its adapter, has no such property, and
  the scan then runs on the built-in target and type, whatever the user asked for.\<close>

theorem serialised_body_ignored:
  assumes "start_request pf c" "ax_data c = JStr body"
  shows "\<exists>r st'. demoScanRespond pf now c st = (Some r, st') \<and> xr_status r = 201
    \<and> js_prop (xr_data r) ''target'' = JStr ''https://demo.example''
    \<and> js_prop (xr_data r) ''scan_type'' = JStr ''cbom''
    \<and> map_option ds_target (map_of (scanStore st') (scan_id_at now)) = Some ''https://demo.example''"
  using assms
  by (simp add: start_request_def demoScanRespond_def start_scan_def scan_id_at_def okResponse_def Let_def
      js_coalesce_def)

theorem serialised_body_ignored_witness:
  "js_prop (xr_data (the (fst (demoScanRespond ex_pf 7 (ex_post (JStr ''{target:mine}'')) demo_init)))) ''target'' =
     JStr ''https://demo.example''"
  using serialised_body_ignored [OF ex_start, of "JStr ''{target:mine}''" "''{target:mine}''" 7 demo_init]
  by (auto simp: ex_post_def)

end
