(* ===== verification/Api_Services.thy ===== *)
theory Api_Services
  imports Editions Demo_Scan
begin

text \<open>
  The service objects of web/src/services/api.ts: each function as the request it hands to the HTTP
  client.  Parameters with a type the functions only pass on are JSON values, \<open>JUndef\<close> for an absent
  query or body; a default argument is passed explicitly.
\<close>

record api_request =
  aq_method :: string
  aq_url :: string
  aq_params :: jval
  aq_data :: jval

definition api_get :: "string \<Rightarrow> jval \<Rightarrow> api_request" where
  "api_get url params = \<lparr>aq_method = ''get'', aq_url = url, aq_params = params, aq_data = JUndef\<rparr>"

definition api_delete :: "string \<Rightarrow> jval \<Rightarrow> api_request" where
  "api_delete url params = \<lparr>aq_method = ''delete'', aq_url = url, aq_params = params, aq_data = JUndef\<rparr>"

definition api_post :: "string \<Rightarrow> jval \<Rightarrow> api_request" where
  "api_post url data = \<lparr>aq_method = ''post'', aq_url = url, aq_params = JUndef, aq_data = data\<rparr>"

definition api_put :: "string \<Rightarrow> jval \<Rightarrow> api_request" where
  "api_put url data = \<lparr>aq_method = ''put'', aq_url = url, aq_params = JUndef, aq_data = data\<rparr>"

definition api_patch :: "string \<Rightarrow> jval \<Rightarrow> api_request" where
  "api_patch url data = \<lparr>aq_method = ''patch'', aq_url = url, aq_params = JUndef, aq_data = data\<rparr>"

lemmas api_verbs = api_get_def api_delete_def api_post_def api_put_def api_patch_def

definition opt_str :: "string option \<Rightarrow> jval" where
  "opt_str x = (case x of None \<Rightarrow> JUndef | Some s \<Rightarrow> JStr s)"

definition opt_bool :: "bool option \<Rightarrow> jval" where
  "opt_bool x = (case x of None \<Rightarrow> JUndef | Some b \<Rightarrow> JBool b)"

text \<open>\<open>edition === 'community' ? 'oss' : edition\<close>.\<close>

definition sent_edition :: "edition option \<Rightarrow> jval" where
  "sent_edition x =
     (case x of None \<Rightarrow> JUndef
      | Some e \<Rightarrow> (if e = community then JStr ''oss'' else JStr (edition_name e)))"

fun props_of :: "jval \<Rightarrow> (string \<times> jval) list" where
  "props_of (JObj fs) = fs"
| "props_of _ = []"

section \<open>The services\<close>

subsection \<open>inventoryService\<close>

definition inventoryService_getAssets :: "jval \<Rightarrow> api_request" where
  "inventoryService_getAssets params =
     api_get ''/inventory/assets'' params"

definition inventoryService_getAsset :: "string \<Rightarrow> api_request" where
  "inventoryService_getAsset ident =
     api_get (''/inventory/assets/'' @ ident) JUndef"

definition inventoryService_createAsset :: "jval \<Rightarrow> api_request" where
  "inventoryService_createAsset data =
     api_post ''/inventory/assets'' data"

definition inventoryService_updateAsset :: "string \<Rightarrow> jval \<Rightarrow> api_request" where
  "inventoryService_updateAsset ident data =
     api_put (''/inventory/assets/'' @ ident) data"

definition inventoryService_deleteAsset :: "string \<Rightarrow> api_request" where
  "inventoryService_deleteAsset ident =
     api_delete (''/inventory/assets/'' @ ident) JUndef"

definition inventoryService_getAssetsByCategory :: "string \<Rightarrow> api_request" where
  "inventoryService_getAssetsByCategory categ =
     api_get (''/inventory/assets/category/'' @ categ) JUndef"

definition inventoryService_getAssetsByCloud :: "string \<Rightarrow> api_request" where
  "inventoryService_getAssetsByCloud prov =
     api_get (''/inventory/assets/cloud/'' @ prov) JUndef"

definition inventoryService_getCryptoAssets :: "api_request" where
  "inventoryService_getCryptoAssets =
     api_get ''/inventory/crypto'' JUndef"

definition inventoryService_scanCryptoAssets :: "string list \<Rightarrow> api_request" where
  "inventoryService_scanCryptoAssets assetIds =
     api_post ''/inventory/crypto/scan'' (JObj [(''asset_ids'', JArr (map JStr assetIds))])"

definition inventoryService_getAIAssets :: "api_request" where
  "inventoryService_getAIAssets =
     api_get ''/inventory/ai'' JUndef"

definition inventoryService_registerAIModel :: "jval \<Rightarrow> api_request" where
  "inventoryService_registerAIModel data =
     api_post ''/inventory/ai/models'' data"

definition inventoryService_getHardwareAssets :: "api_request" where
  "inventoryService_getHardwareAssets =
     api_get ''/inventory/hardware'' JUndef"

definition inventoryService_discoverHardware :: "api_request" where
  "inventoryService_discoverHardware =
     api_post ''/inventory/hardware/discover'' JUndef"

definition inventoryService_getSoftwareAssets :: "api_request" where
  "inventoryService_getSoftwareAssets =
     api_get ''/inventory/software'' JUndef"

definition inventoryService_importSBOM :: "jval \<Rightarrow> api_request" where
  "inventoryService_importSBOM data =
     api_post ''/inventory/software/sbom'' data"

definition inventoryService_getInfrastructureAssets :: "api_request" where
  "inventoryService_getInfrastructureAssets =
     api_get ''/inventory/infrastructure'' JUndef"

definition inventoryService_syncInfrastructure :: "api_request" where
  "inventoryService_syncInfrastructure =
     api_post ''/inventory/infrastructure/sync'' JUndef"

definition inventoryService_getInventorySummary :: "api_request" where
  "inventoryService_getInventorySummary =
     api_get ''/inventory/summary'' JUndef"

definition inventoryService_exportInventory :: "string \<Rightarrow> api_request" where
  "inventoryService_exportInventory fmt0 =
     api_get ''/inventory/export'' (JObj [(''format'', JStr fmt0)])"


subsection \<open>authService\<close>

definition authService_login :: "jval \<Rightarrow> api_request" where
  "authService_login data =
     api_post ''/auth/login'' data"

definition authService_register :: "jval \<Rightarrow> api_request" where
  "authService_register data =
     api_post ''/auth/register'' data"

definition authService_verifyMfa :: "jval \<Rightarrow> api_request" where
  "authService_verifyMfa data =
     api_post ''/auth/mfa/verify'' data"

definition authService_me :: "api_request" where
  "authService_me =
     api_get ''/auth/me'' JUndef"

definition authService_patchMe :: "jval \<Rightarrow> api_request" where
  "authService_patchMe data =
     api_patch ''/auth/me'' data"

definition authService_forgotPassword :: "string \<Rightarrow> api_request" where
  "authService_forgotPassword mail =
     api_post ''/auth/forgot-password'' (JObj [(''email'', JStr mail)])"

definition authService_resetPassword :: "string \<Rightarrow> string \<Rightarrow> api_request" where
  "authService_resetPassword tok password =
     api_post ''/auth/reset-password'' (JObj [(''token'', JStr tok), (''password'', JStr password)])"

definition authService_changePassword :: "string \<Rightarrow> string \<Rightarrow> api_request" where
  "authService_changePassword currentpassword newpassword =
     api_post ''/auth/change-password'' (JObj [(''current_password'', JStr currentpassword), (''new_password'', JStr newpassword)])"

definition authService_mfaSetup :: "api_request" where
  "authService_mfaSetup =
     api_post ''/auth/mfa/setup'' JUndef"

definition authService_mfaConfirm :: "jval \<Rightarrow> api_request" where
  "authService_mfaConfirm data =
     api_post ''/auth/mfa/confirm'' data"

definition authService_mfaDisable :: "string \<Rightarrow> api_request" where
  "authService_mfaDisable code =
     api_post ''/auth/mfa/disable'' (JObj [(''code'', JStr code)])"

definition authService_workspaceUsers :: "api_request" where
  "authService_workspaceUsers =
     api_get ''/auth/workspace/users'' JUndef"

definition authService_updateWorkspaceUserRole :: "string \<Rightarrow> string \<Rightarrow> api_request" where
  "authService_updateWorkspaceUserRole ident rl =
     api_patch (''/auth/workspace/users/'' @ ident @ ''/role'') (JObj [(''role'', JStr rl)])"

definition authService_editions :: "api_request" where
  "authService_editions =
     api_get ''/auth/editions'' JUndef"

definition authService_googleLogin :: "edition option \<Rightarrow> api_request" where
  "authService_googleLogin edn =
     api_get ''/auth/google/login'' (JObj [(''edition'', sent_edition edn)])"

definition authService_googleExchange :: "jval \<Rightarrow> api_request" where
  "authService_googleExchange data =
     api_post ''/auth/google/exchange'' data"

definition authService_googleStatus :: "api_request" where
  "authService_googleStatus =
     api_get ''/auth/google/status'' JUndef"

definition authService_githubLogin :: "edition option \<Rightarrow> api_request" where
  "authService_githubLogin edn =
     api_get ''/auth/github/login'' (JObj [(''edition'', sent_edition edn)])"

definition authService_githubStatus :: "api_request" where
  "authService_githubStatus =
     api_get ''/auth/github/status'' JUndef"

definition authService_providers :: "api_request" where
  "authService_providers =
     api_get ''/auth/providers'' JUndef"

definition authService_logout :: "api_request" where
  "authService_logout =
     api_post ''/auth/logout'' JUndef"

definition authService_demo :: "edition option \<Rightarrow> api_request" where
  "authService_demo edn =
     api_get ''/auth/demo'' (JObj [(''edition'', sent_edition edn)])"


subsection \<open>complianceService\<close>

definition complianceService_getFrameworks :: "api_request" where
  "complianceService_getFrameworks =
     api_get ''/compliance/frameworks'' JUndef"

definition complianceService_createFramework :: "jval \<Rightarrow> api_request" where
  "complianceService_createFramework data =
     api_post ''/compliance/frameworks'' data"

definition complianceService_getFramework :: "string \<Rightarrow> api_request" where
  "complianceService_getFramework ident =
     api_get (''/compliance/frameworks/'' @ ident) JUndef"

definition complianceService_updateFramework :: "string \<Rightarrow> jval \<Rightarrow> api_request" where
  "complianceService_updateFramework ident data =
     api_put (''/compliance/frameworks/'' @ ident) data"

definition complianceService_getControls :: "string \<Rightarrow> api_request" where
  "complianceService_getControls frameworkId =
     api_get (''/compliance/frameworks/'' @ frameworkId @ ''/controls'') JUndef"

definition complianceService_getComplianceDashboard :: "string \<Rightarrow> api_request" where
  "complianceService_getComplianceDashboard frameworkId =
     api_get (''/compliance/frameworks/'' @ frameworkId @ ''/dashboard'') JUndef"

definition complianceService_getAllDashboards :: "api_request" where
  "complianceService_getAllDashboards =
     api_get ''/compliance/dashboard'' JUndef"

definition complianceService_scanCompliance :: "string \<Rightarrow> api_request" where
  "complianceService_scanCompliance frameworkId =
     api_post (''/compliance/frameworks/'' @ frameworkId @ ''/scan'') JUndef"

definition complianceService_getRemediationPlan :: "string \<Rightarrow> api_request" where
  "complianceService_getRemediationPlan frameworkId =
     api_post (''/compliance/frameworks/'' @ frameworkId @ ''/remediate'') JUndef"

definition complianceService_getReports :: "api_request" where
  "complianceService_getReports =
     api_get ''/compliance/reports'' JUndef"

definition complianceService_generateReport :: "jval \<Rightarrow> api_request" where
  "complianceService_generateReport data =
     api_post ''/compliance/reports/generate'' data"

definition complianceService_connectDelve :: "jval \<Rightarrow> api_request" where
  "complianceService_connectDelve config =
     api_post ''/compliance/delve/connect'' config"

definition complianceService_getDelveStatus :: "api_request" where
  "complianceService_getDelveStatus =
     api_get ''/compliance/delve/status'' JUndef"

definition complianceService_syncDelveData :: "api_request" where
  "complianceService_syncDelveData =
     api_post ''/compliance/delve/sync'' JUndef"

definition complianceService_connectKertos :: "jval \<Rightarrow> api_request" where
  "complianceService_connectKertos config =
     api_post ''/compliance/kertos/connect'' config"

definition complianceService_getKertosStatus :: "api_request" where
  "complianceService_getKertosStatus =
     api_get ''/compliance/kertos/status'' JUndef"

definition complianceService_syncKertosData :: "api_request" where
  "complianceService_syncKertosData =
     api_post ''/compliance/kertos/sync'' JUndef"

definition complianceService_getRisks :: "jval \<Rightarrow> api_request" where
  "complianceService_getRisks params =
     api_get ''/compliance/risks'' params"

definition complianceService_createRisk :: "jval \<Rightarrow> api_request" where
  "complianceService_createRisk data =
     api_post ''/compliance/risks'' data"

definition complianceService_updateRisk :: "string \<Rightarrow> jval \<Rightarrow> api_request" where
  "complianceService_updateRisk ident data =
     api_put (''/compliance/risks/'' @ ident) data"

definition complianceService_mitigateRisk :: "string \<Rightarrow> api_request" where
  "complianceService_mitigateRisk ident =
     api_post (''/compliance/risks/'' @ ident @ ''/mitigate'') JUndef"


subsection \<open>quantumService\<close>

definition quantumService_getAttestations :: "jval \<Rightarrow> api_request" where
  "quantumService_getAttestations params =
     api_get ''/quantum/attestations'' params"

definition quantumService_createAttestation :: "jval \<Rightarrow> api_request" where
  "quantumService_createAttestation data =
     api_post ''/quantum/attestations'' data"

definition quantumService_getAttestation :: "string \<Rightarrow> api_request" where
  "quantumService_getAttestation ident =
     api_get (''/quantum/attestations/'' @ ident) JUndef"

definition quantumService_verifyAttestation :: "string \<Rightarrow> api_request" where
  "quantumService_verifyAttestation ident =
     api_post (''/quantum/attestations/'' @ ident @ ''/verify'') JUndef"

definition quantumService_refreshAttestation :: "string \<Rightarrow> api_request" where
  "quantumService_refreshAttestation ident =
     api_post (''/quantum/attestations/'' @ ident @ ''/refresh'') JUndef"

definition quantumService_getQuantumNetworks :: "api_request" where
  "quantumService_getQuantumNetworks =
     api_get ''/quantum/networks'' JUndef"

definition quantumService_getQuantumProviders :: "api_request" where
  "quantumService_getQuantumProviders =
     api_get ''/quantum/providers'' JUndef"

definition quantumService_getQuantumReadiness :: "api_request" where
  "quantumService_getQuantumReadiness =
     api_get ''/quantum/readiness'' JUndef"

definition quantumService_getMigrationPlan :: "api_request" where
  "quantumService_getMigrationPlan =
     api_get ''/quantum/migration'' JUndef"

definition quantumService_getPQCAlgorithms :: "api_request" where
  "quantumService_getPQCAlgorithms =
     api_get ''/quantum/algorithms'' JUndef"

definition quantumService_migrateAlgorithm :: "jval \<Rightarrow> api_request" where
  "quantumService_migrateAlgorithm data =
     api_post ''/quantum/algorithms/migrate'' data"


subsection \<open>cloudService\<close>

definition cloudService_getCloudAccounts :: "jval \<Rightarrow> api_request" where
  "cloudService_getCloudAccounts params =
     api_get ''/cloud/accounts'' params"

definition cloudService_addCloudAccount :: "jval \<Rightarrow> api_request" where
  "cloudService_addCloudAccount data =
     api_post ''/cloud/accounts'' data"

definition cloudService_updateCloudAccount :: "string \<Rightarrow> jval \<Rightarrow> api_request" where
  "cloudService_updateCloudAccount ident data =
     api_put (''/cloud/accounts/'' @ ident) data"

definition cloudService_deleteCloudAccount :: "string \<Rightarrow> api_request" where
  "cloudService_deleteCloudAccount ident =
     api_delete (''/cloud/accounts/'' @ ident) JUndef"

definition cloudService_syncCloudAccount :: "string \<Rightarrow> api_request" where
  "cloudService_syncCloudAccount ident =
     api_post (''/cloud/accounts/'' @ ident @ ''/sync'') JUndef"

definition cloudService_getCloudResources :: "string \<Rightarrow> api_request" where
  "cloudService_getCloudResources accountId =
     api_get (''/cloud/accounts/'' @ accountId @ ''/resources'') JUndef"

definition cloudService_getAWSInventory :: "api_request" where
  "cloudService_getAWSInventory =
     api_get ''/cloud/aws/inventory'' JUndef"

definition cloudService_scanAWS :: "api_request" where
  "cloudService_scanAWS =
     api_post ''/cloud/aws/scan'' JUndef"

definition cloudService_getGCPInventory :: "api_request" where
  "cloudService_getGCPInventory =
     api_get ''/cloud/gcp/inventory'' JUndef"

definition cloudService_scanGCP :: "api_request" where
  "cloudService_scanGCP =
     api_post ''/cloud/gcp/scan'' JUndef"

definition cloudService_getIBMCloudInventory :: "api_request" where
  "cloudService_getIBMCloudInventory =
     api_get ''/cloud/ibm/inventory'' JUndef"

definition cloudService_scanIBMCloud :: "api_request" where
  "cloudService_scanIBMCloud =
     api_post ''/cloud/ibm/scan'' JUndef"

definition cloudService_getResourcesSummary :: "api_request" where
  "cloudService_getResourcesSummary =
     api_get ''/cloud/resources/summary'' JUndef"


subsection \<open>cncfService\<close>

definition cncfService_getTools :: "jval \<Rightarrow> api_request" where
  "cncfService_getTools params =
     api_get ''/cncf/tools'' params"

definition cncfService_registerTool :: "jval \<Rightarrow> api_request" where
  "cncfService_registerTool data =
     api_post ''/cncf/tools'' data"

definition cncfService_updateTool :: "string \<Rightarrow> jval \<Rightarrow> api_request" where
  "cncfService_updateTool ident data =
     api_put (''/cncf/tools/'' @ ident) data"

definition cncfService_deleteTool :: "string \<Rightarrow> api_request" where
  "cncfService_deleteTool ident =
     api_delete (''/cncf/tools/'' @ ident) JUndef"

definition cncfService_getToolMetrics :: "string \<Rightarrow> api_request" where
  "cncfService_getToolMetrics ident =
     api_get (''/cncf/tools/'' @ ident @ ''/metrics'') JUndef"

definition cncfService_checkToolHealth :: "string \<Rightarrow> api_request" where
  "cncfService_checkToolHealth ident =
     api_post (''/cncf/tools/'' @ ident @ ''/health'') JUndef"

definition cncfService_getPrometheusIntegration :: "api_request" where
  "cncfService_getPrometheusIntegration =
     api_get ''/cncf/prometheus'' JUndef"

definition cncfService_getGrafanaIntegration :: "api_request" where
  "cncfService_getGrafanaIntegration =
     api_get ''/cncf/grafana'' JUndef"

definition cncfService_getArgoCDIntegration :: "api_request" where
  "cncfService_getArgoCDIntegration =
     api_get ''/cncf/argocd'' JUndef"

definition cncfService_getFluxIntegration :: "api_request" where
  "cncfService_getFluxIntegration =
     api_get ''/cncf/flux'' JUndef"

definition cncfService_getIstioIntegration :: "api_request" where
  "cncfService_getIstioIntegration =
     api_get ''/cncf/istio'' JUndef"

definition cncfService_getLinkerdIntegration :: "api_request" where
  "cncfService_getLinkerdIntegration =
     api_get ''/cncf/linkerd'' JUndef"

definition cncfService_getCiliumIntegration :: "api_request" where
  "cncfService_getCiliumIntegration =
     api_get ''/cncf/cilium'' JUndef"

definition cncfService_getK3sIntegration :: "api_request" where
  "cncfService_getK3sIntegration =
     api_get ''/cncf/k3s'' JUndef"

definition cncfService_getCNCFDashboard :: "api_request" where
  "cncfService_getCNCFDashboard =
     api_get ''/cncf/dashboard'' JUndef"


subsection \<open>terraformService\<close>

definition terraformService_getResources :: "jval \<Rightarrow> api_request" where
  "terraformService_getResources params =
     api_get ''/terraform/resources'' params"

definition terraformService_scanResources :: "jval \<Rightarrow> api_request" where
  "terraformService_scanResources data =
     api_post ''/terraform/resources/scan'' data"

definition terraformService_getResource :: "string \<Rightarrow> api_request" where
  "terraformService_getResource ident =
     api_get (''/terraform/resources/'' @ ident) JUndef"

definition terraformService_updateResource :: "string \<Rightarrow> jval \<Rightarrow> api_request" where
  "terraformService_updateResource ident data =
     api_put (''/terraform/resources/'' @ ident) data"

definition terraformService_getWorkspaces :: "api_request" where
  "terraformService_getWorkspaces =
     api_get ''/terraform/workspaces'' JUndef"

definition terraformService_createWorkspace :: "jval \<Rightarrow> api_request" where
  "terraformService_createWorkspace data =
     api_post ''/terraform/workspaces'' data"

definition terraformService_getWorkspaceState :: "string \<Rightarrow> api_request" where
  "terraformService_getWorkspaceState ident =
     api_get (''/terraform/workspaces/'' @ ident @ ''/state'') JUndef"

definition terraformService_getSecurityFindings :: "jval \<Rightarrow> api_request" where
  "terraformService_getSecurityFindings params =
     api_get ''/terraform/security-findings'' params"

definition terraformService_getComplianceViolations :: "jval \<Rightarrow> api_request" where
  "terraformService_getComplianceViolations params =
     api_get ''/terraform/compliance-violations'' params"

definition terraformService_getModules :: "api_request" where
  "terraformService_getModules =
     api_get ''/terraform/modules'' JUndef"

definition terraformService_scanModules :: "api_request" where
  "terraformService_scanModules =
     api_post ''/terraform/modules/scan'' JUndef"

definition terraformService_detectDrift :: "string option \<Rightarrow> api_request" where
  "terraformService_detectDrift workspace =
     api_get ''/terraform/drift'' (JObj [(''workspace'', opt_str workspace)])"

definition terraformService_getPlanHistory :: "string option \<Rightarrow> api_request" where
  "terraformService_getPlanHistory workspace =
     api_get ''/terraform/plan-history'' (JObj [(''workspace'', opt_str workspace)])"


subsection \<open>cbomService\<close>

definition cbomService_getReports :: "api_request" where
  "cbomService_getReports =
     api_get ''/cbom'' JUndef"

definition cbomService_createReport :: "jval \<Rightarrow> api_request" where
  "cbomService_createReport data =
     api_post ''/cbom'' data"

definition cbomService_getReport :: "string \<Rightarrow> api_request" where
  "cbomService_getReport ident =
     api_get (''/cbom/'' @ ident) JUndef"

definition cbomService_updateReport :: "string \<Rightarrow> jval \<Rightarrow> api_request" where
  "cbomService_updateReport ident data =
     api_put (''/cbom/'' @ ident) data"

definition cbomService_deleteReport :: "string \<Rightarrow> api_request" where
  "cbomService_deleteReport ident =
     api_delete (''/cbom/'' @ ident) JUndef"

definition cbomService_scanReport :: "string \<Rightarrow> api_request" where
  "cbomService_scanReport ident =
     api_post (''/cbom/'' @ ident @ ''/scan'') JUndef"

definition cbomService_attestReport :: "string \<Rightarrow> api_request" where
  "cbomService_attestReport ident =
     api_post (''/cbom/'' @ ident @ ''/attest'') JUndef"

definition cbomService_triggerScan :: "string \<Rightarrow> string \<Rightarrow> jval \<Rightarrow> api_request" where
  "cbomService_triggerScan target scanType opts =
     api_post ''/scans'' (spread (JObj [(''target'', JStr target), (''scan_type'', JStr scanType)]) (props_of opts))"

definition cbomService_getScanStatus :: "string \<Rightarrow> api_request" where
  "cbomService_getScanStatus scanId =
     api_get (''/scans/'' @ scanId) JUndef"

definition cbomService_listScans :: "api_request" where
  "cbomService_listScans =
     api_get ''/scans'' JUndef"

definition cbomService_getScanReport :: "string \<Rightarrow> api_request" where
  "cbomService_getScanReport scanId =
     api_get (''/scans/'' @ scanId @ ''/report'') JUndef"

definition cbomService_getScanFindings :: "api_request" where
  "cbomService_getScanFindings =
     api_get ''/scans/findings'' JUndef"

definition cbomService_getScanQBOM :: "string \<Rightarrow> api_request" where
  "cbomService_getScanQBOM scanId =
     api_get (''/scans/'' @ scanId @ ''/qbom'') JUndef"

definition cbomService_getScanIntelligence :: "string \<Rightarrow> api_request" where
  "cbomService_getScanIntelligence scanId =
     api_get (''/scans/'' @ scanId @ ''/intelligence'') JUndef"

definition cbomService_getScanQiskit :: "string \<Rightarrow> api_request" where
  "cbomService_getScanQiskit scanId =
     api_get (''/scans/'' @ scanId @ ''/qiskit'') JUndef"

definition cbomService_getScanCycloneDX :: "string \<Rightarrow> api_request" where
  "cbomService_getScanCycloneDX scanId =
     api_get (''/scans/'' @ scanId @ ''/cyclonedx'') JUndef"

definition cbomService_getArchitecture :: "api_request" where
  "cbomService_getArchitecture =
     api_get ''/architecture'' JUndef"

definition cbomService_getHardwareCatalog :: "api_request" where
  "cbomService_getHardwareCatalog =
     api_get ''/hardware/catalog'' JUndef"

definition cbomService_getPolicies :: "api_request" where
  "cbomService_getPolicies =
     api_get ''/policies'' JUndef"

definition cbomService_getNormalizedFindings :: "api_request" where
  "cbomService_getNormalizedFindings =
     api_get ''/findings'' JUndef"

definition cbomService_getAssetBOM :: "string \<Rightarrow> api_request" where
  "cbomService_getAssetBOM assetId =
     api_get (''/assets/'' @ assetId @ ''/bom'') JUndef"


subsection \<open>bomService\<close>

definition bomService_getFramework :: "api_request" where
  "bomService_getFramework =
     api_get ''/bom/framework'' JUndef"

definition bomService_getPipeline :: "api_request" where
  "bomService_getPipeline =
     api_get ''/bom/pipeline'' JUndef"

definition bomService_getUnified :: "string option \<Rightarrow> api_request" where
  "bomService_getUnified scanId =
     api_get ''/bom/unified'' (case scanId of None \<Rightarrow> JUndef | Some s \<Rightarrow> (if s = [] then JUndef else JObj [(''scan_id'', JStr s)]))"

definition bomService_getGovernance :: "api_request" where
  "bomService_getGovernance =
     api_get ''/governance/controls'' JUndef"

definition bomService_getChecklists :: "api_request" where
  "bomService_getChecklists =
     api_get ''/governance/checklists'' JUndef"

definition bomService_getHsm :: "api_request" where
  "bomService_getHsm =
     api_get ''/hsm/status'' JUndef"

definition bomService_getQuantum :: "api_request" where
  "bomService_getQuantum =
     api_get ''/quantum/status'' JUndef"

definition bomService_getApiSecurity :: "api_request" where
  "bomService_getApiSecurity =
     api_get ''/security/api'' JUndef"

definition bomService_getAiSecurity :: "api_request" where
  "bomService_getAiSecurity =
     api_get ''/security/ai'' JUndef"


subsection \<open>benchmarkService\<close>

definition benchmarkService_getSummary :: "api_request" where
  "benchmarkService_getSummary =
     api_get ''/benchmarks'' JUndef"


subsection \<open>securityService\<close>

definition securityService_getEvents :: "api_request" where
  "securityService_getEvents =
     api_get ''/security/events'' JUndef"

definition securityService_createEvent :: "jval \<Rightarrow> api_request" where
  "securityService_createEvent data =
     api_post ''/security/events'' data"

definition securityService_resolveEvent :: "string \<Rightarrow> api_request" where
  "securityService_resolveEvent ident =
     api_put (''/security/events/'' @ ident @ ''/resolve'') JUndef"

definition securityService_getThreatIntelligence :: "api_request" where
  "securityService_getThreatIntelligence =
     api_get ''/security/threats'' JUndef"

definition securityService_mlSecurityScan :: "jval \<Rightarrow> api_request" where
  "securityService_mlSecurityScan data =
     api_post ''/security/ml-scan'' data"


subsection \<open>cspmService\<close>

definition cspmService_getOverview :: "api_request" where
  "cspmService_getOverview =
     api_get ''/cspm/overview'' JUndef"


subsection \<open>postureService\<close>

definition postureService_getOverview :: "api_request" where
  "postureService_getOverview =
     api_get ''/cspm/overview'' JUndef"

definition postureService_getAccounts :: "jval \<Rightarrow> api_request" where
  "postureService_getAccounts params =
     api_get ''/cloud/accounts'' params"

definition postureService_getResourcesSummary :: "api_request" where
  "postureService_getResourcesSummary =
     api_get ''/cloud/resources/summary'' JUndef"

definition postureService_getSecurityEvents :: "api_request" where
  "postureService_getSecurityEvents =
     api_get ''/security/events'' JUndef"

definition postureService_getThreatIntelligence :: "api_request" where
  "postureService_getThreatIntelligence =
     api_get ''/security/threats'' JUndef"

definition postureService_getConformancePacks :: "api_request" where
  "postureService_getConformancePacks =
     api_get ''/compliance/dashboard'' JUndef"


subsection \<open>ecosystemService\<close>

definition ecosystemService_getTools :: "api_request" where
  "ecosystemService_getTools =
     api_get ''/ecosystem/tools'' JUndef"

definition ecosystemService_getTool :: "string \<Rightarrow> api_request" where
  "ecosystemService_getTool ident =
     api_get (''/ecosystem/tools/'' @ ident) JUndef"

definition ecosystemService_getCategories :: "api_request" where
  "ecosystemService_getCategories =
     api_get ''/ecosystem/categories'' JUndef"


subsection \<open>intelligenceService\<close>

definition intelligenceService_getTools :: "api_request" where
  "intelligenceService_getTools =
     api_get ''/intelligence/tools'' JUndef"


subsection \<open>coreService\<close>

definition coreService_getStatus :: "string option \<Rightarrow> api_request" where
  "coreService_getStatus edn =
     api_get ''/core/status'' (JObj [(''edition'', opt_str edn)])"

definition coreService_getServices :: "api_request" where
  "coreService_getServices =
     api_get ''/core/services'' JUndef"

definition coreService_checkIntegration :: "string \<Rightarrow> api_request" where
  "coreService_checkIntegration nm =
     api_get (''/core/integrations/'' @ nm) JUndef"


subsection \<open>analyticsService\<close>

definition analyticsService_getReports :: "api_request" where
  "analyticsService_getReports =
     api_get ''/analytics/reports'' JUndef"

definition analyticsService_getInsights :: "api_request" where
  "analyticsService_getInsights =
     api_post ''/analytics/insights'' JUndef"

definition analyticsService_getForecasts :: "api_request" where
  "analyticsService_getForecasts =
     api_get ''/analytics/forecasts'' JUndef"


subsection \<open>aiService\<close>

definition aiService_analyze :: "jval \<Rightarrow> api_request" where
  "aiService_analyze data =
     api_post ''/ai/analyze'' data"

definition aiService_status :: "api_request" where
  "aiService_status =
     api_get ''/ai/status'' JUndef"


subsection \<open>gitHubScanService\<close>

definition gitHubScanService_scanRepos :: "string list \<Rightarrow> string option \<Rightarrow> bool option \<Rightarrow> api_request" where
  "gitHubScanService_scanRepos repos scanType deepScan =
     api_post ''/github/scan'' (JObj [(''repos'', JArr (map JStr repos)), (''scan_type'', opt_str scanType), (''deep_scan'', opt_bool deepScan)])"

definition gitHubScanService_listRepos :: "string option \<Rightarrow> api_request" where
  "gitHubScanService_listRepos org =
     api_get ''/github/repos'' (JObj [(''org'', opt_str org)])"

definition gitHubScanService_listScans :: "api_request" where
  "gitHubScanService_listScans =
     api_get ''/github/scans'' JUndef"

definition gitHubScanService_getScanStatus :: "string \<Rightarrow> api_request" where
  "gitHubScanService_getScanStatus ident =
     api_get (''/github/scans/'' @ ident) JUndef"

definition gitHubScanService_compareScans :: "string \<Rightarrow> string \<Rightarrow> api_request" where
  "gitHubScanService_compareScans ident against =
     api_get (''/github/scans/'' @ ident @ ''/compare'') (JObj [(''against'', JStr against)])"


subsection \<open>ibmCloudService\<close>

definition ibmCloudService_getHPCSStatus :: "api_request" where
  "ibmCloudService_getHPCSStatus =
     api_get ''/enterprise/ibm/hpcs/status'' JUndef"

definition ibmCloudService_getKeyInventory :: "api_request" where
  "ibmCloudService_getKeyInventory =
     api_get ''/enterprise/ibm/hpcs/keys'' JUndef"

definition ibmCloudService_getObjectStorageBuckets :: "api_request" where
  "ibmCloudService_getObjectStorageBuckets =
     api_get ''/enterprise/ibm/cos/buckets'' JUndef"

definition ibmCloudService_attestKey :: "string \<Rightarrow> api_request" where
  "ibmCloudService_attestKey keyId =
     api_post (''/enterprise/ibm/hpcs/keys/'' @ keyId @ ''/attest'') JUndef"


subsection \<open>awsCloudService\<close>

definition awsCloudService_getCloudHSMStatus :: "api_request" where
  "awsCloudService_getCloudHSMStatus =
     api_get ''/enterprise/aws/cloudhsm/status'' JUndef"

definition awsCloudService_getKMSKeys :: "api_request" where
  "awsCloudService_getKMSKeys =
     api_get ''/enterprise/aws/kms/keys'' JUndef"

definition awsCloudService_getCloudTrailAudit :: "api_request" where
  "awsCloudService_getCloudTrailAudit =
     api_get ''/enterprise/aws/cloudtrail/crypto-events'' JUndef"


subsection \<open>quantumAttestationService\<close>

definition quantumAttestationService_getQuantumRiskAssessment :: "api_request" where
  "quantumAttestationService_getQuantumRiskAssessment =
     api_get ''/enterprise/quantum/assessment'' JUndef"

definition quantumAttestationService_scanForPQCAlgorithms :: "string list \<Rightarrow> api_request" where
  "quantumAttestationService_scanForPQCAlgorithms assetIds =
     api_post ''/enterprise/quantum/scan'' (JObj [(''asset_ids'', JArr (map JStr assetIds))])"

definition quantumAttestationService_getAttestationReport :: "string \<Rightarrow> api_request" where
  "quantumAttestationService_getAttestationReport assetId =
     api_get (''/enterprise/quantum/attest/'' @ assetId) JUndef"

definition quantumAttestationService_getMigrationRoadmap :: "api_request" where
  "quantumAttestationService_getMigrationRoadmap =
     api_get ''/enterprise/quantum/migration-roadmap'' JUndef"

definition quantumAttestationService_exportQuantumSafeBOM :: "string \<Rightarrow> api_request" where
  "quantumAttestationService_exportQuantumSafeBOM assetId =
     api_get (''/enterprise/quantum/bom/'' @ assetId @ ''/export'') JUndef"


subsection \<open>gcpService\<close>

definition gcpService_getCloudKMSKeys :: "api_request" where
  "gcpService_getCloudKMSKeys =
     api_get ''/enterprise/gcp/kms/keys'' JUndef"

definition gcpService_getGKEWorkloads :: "api_request" where
  "gcpService_getGKEWorkloads =
     api_get ''/enterprise/gcp/gke/workloads'' JUndef"

definition gcpService_getHSMKeyRings :: "api_request" where
  "gcpService_getHSMKeyRings =
     api_get ''/enterprise/gcp/hsm/keyrings'' JUndef"


subsection \<open>adminService\<close>

definition adminService_auditEvents :: "jval \<Rightarrow> api_request" where
  "adminService_auditEvents params =
     api_get ''/audit/events'' params"

definition adminService_apiKeys :: "api_request" where
  "adminService_apiKeys =
     api_get ''/api-keys'' JUndef"

definition adminService_createApiKey :: "jval \<Rightarrow> api_request" where
  "adminService_createApiKey data =
     api_post ''/api-keys'' data"

definition adminService_webhooks :: "api_request" where
  "adminService_webhooks =
     api_get ''/webhooks'' JUndef"

definition adminService_createWebhook :: "jval \<Rightarrow> api_request" where
  "adminService_createWebhook data =
     api_post ''/webhooks'' data"

definition adminService_ssoProviders :: "api_request" where
  "adminService_ssoProviders =
     api_get ''/sso/providers'' JUndef"

definition adminService_configureSaml :: "jval \<Rightarrow> api_request" where
  "adminService_configureSaml data =
     api_post ''/sso/saml'' data"


subsection \<open>platformService\<close>

definition platformService_status :: "api_request" where
  "platformService_status =
     api_get ''/platform/status'' JUndef"

definition platformService_plans :: "api_request" where
  "platformService_plans =
     api_get ''/platform/plans'' JUndef"

definition platformService_funnel :: "api_request" where
  "platformService_funnel =
     api_get ''/platform/funnel'' JUndef"

definition platformService_contacts :: "api_request" where
  "platformService_contacts =
     api_get ''/platform/contacts'' JUndef"

definition platformService_createLead :: "jval \<Rightarrow> api_request" where
  "platformService_createLead data =
     api_post ''/leads'' data"

definition platformService_leads :: "api_request" where
  "platformService_leads =
     api_get ''/leads'' JUndef"

definition platformService_opportunities :: "api_request" where
  "platformService_opportunities =
     api_get ''/opportunities'' JUndef"

definition platformService_ibm :: "api_request" where
  "platformService_ibm =
     api_get ''/ibm'' JUndef"

definition platformService_billingStatus :: "api_request" where
  "platformService_billingStatus =
     api_get ''/billing/status'' JUndef"

definition platformService_checkout :: "jval \<Rightarrow> api_request" where
  "platformService_checkout data =
     api_post ''/billing/checkout'' data"

section \<open>Lemmas\<close>

text \<open>The edition a login link is asked for is understood by \<open>normalizeEdition\<close>.\<close>

lemma sent_edition_understood: "sent_edition (Some e) = JStr s \<Longrightarrow> normalizeEdition (Some s) = e"
  by (cases e) (auto simp: sent_edition_def normalizeEdition_def str_lower_def char_lower_def)

lemmas scan_requests = cbomService_triggerScan_def cbomService_getScanStatus_def
  cbomService_getScanReport_def cbomService_getScanIntelligence_def cbomService_getScanQiskit_def
  cbomService_listScans_def cbomService_getScanFindings_def

end
