(* ===== verification/Api_Client.thy ===== *)
theory Api_Client
  imports Api_Services
begin

text \<open>
  The HTTP client of web/src/services/api.ts: its base URL, its interceptors and its adapter.  The
  state of a page extends the module state of editions.ts with the client's default base URL, the
  session storage and the address the page was last sent to.
\<close>

record page = web +
  default_base :: string
  session_storage :: storage
  location_href :: string

definition syncAPIBaseURL :: "'a page_scheme \<Rightarrow> 'a page_scheme" where
  "syncAPIBaseURL p =
     (if default_base p \<noteq> apiBaseURL p then p\<lparr>default_base := apiBaseURL p\<rparr> else p)"

text \<open>The Authorization header the request interceptor sets; \<open>None\<close> when reading the storage throws.\<close>

definition authorization :: "'a page_scheme \<Rightarrow> string option option" where
  "authorization p =
     (case get_item (local_storage p) ''auth_token'' of
        None \<Rightarrow> None
      | Some token \<Rightarrow>
          Some (if truthy_opt token \<and> \<not> isClientDemoToken token
                then Some (''Bearer '' @ the token) else None))"

definition auth_paths :: "string list" where
  "auth_paths = [''login'', ''register'', ''mfa'', ''refresh'', ''demo'', ''me'', ''forgot-password'',
     ''reset-password'', ''providers'', ''editions'']"

definition isAuthCall :: "string \<Rightarrow> bool" where
  "isAuthCall url \<longleftrightarrow> list_ex (\<lambda>w. str_includes url (''/auth/'' @ w)) auth_paths"

record api_error =
  ae_url :: "string option"
  ae_status :: "int option"

text \<open>The response interceptor on an error: the page after it; the error itself is always rejected
  again.  \<open>public_url\<close> is the build's PUBLIC_URL and \<open>origin\<close> the page's origin.\<close>

definition handle_error :: "string option \<Rightarrow> string \<Rightarrow> api_error \<Rightarrow> 'a page_scheme \<Rightarrow> 'a page_scheme" where
  "handle_error public_url origin err p =
     (let s = local_storage p
      in case get_item s DEMO_STORAGE_KEY of
           None \<Rightarrow> p
         | Some d \<Rightarrow>
             (let demoSession = (d = Some ''1'' \<or> isClientDemoToken (read_item s ''auth_token''))
              in if ae_status err = Some 401 \<and> \<not> isAuthCall (or_opt (ae_url err) []) \<and> \<not> demoSession
                 then p\<lparr>local_storage := attempt [remove_item ''auth_token'', remove_item ''auth_user''] s,
                        location_href := origin @ or_opt public_url ''/platform'' @ ''/login''\<rparr>
                 else p))"

text \<open>The configuration the adapter receives: the client has put its base URL in and has serialised a
  body with \<open>ser\<close> (JSON.stringify), as its default request transformation does.\<close>

definition adapter_config :: "(jval \<Rightarrow> string) \<Rightarrow> 'a page_scheme \<Rightarrow> api_request \<Rightarrow> axios_config" where
  "adapter_config ser p r =
     \<lparr>ax_method = Some (aq_method r), ax_url = Some (aq_url r), ax_baseURL = Some (default_base p),
      ax_data = (if aq_data r = JUndef then JUndef else JStr (ser (aq_data r)))\<rparr>"

definition send ::
  "(axios_config \<Rightarrow> 'r) \<Rightarrow> (jval \<Rightarrow> string) \<Rightarrow> platform \<Rightarrow> nat \<Rightarrow> 'a page_scheme \<Rightarrow> api_request
     \<Rightarrow> demo_state \<Rightarrow> 'r adapter_result \<times> demo_state" where
  "send realAdapter ser pf now p r st =
     demoAwareAdapter realAdapter pf now (Some (local_storage p)) (adapter_config ser p r) st"

section \<open>Lemmas\<close>

text \<open>A relative request path under the default prefix is routed by its own segments.\<close>

lemma segments_relative:
  assumes "ax_url c = Some (CHR ''/'' # path)" "ax_baseURL c = Some API_PREFIX"
  shows "segments pf c = filter (\<lambda>w. w \<noteq> []) (split_on (CHR ''/'') path)"
proof -
  have abs: "\<not> is_absolute (CHR ''/'' # s)" for s
    by (auto simp: is_absolute_def starts_with_iff str_lower_def char_lower_def)
  have strip: "strip_end (CHR ''/'') API_PREFIX = API_PREFIX"
    by (simp add: strip_end_def API_PREFIX_def)
  have "asPath (pf_path pf) API_PREFIX = API_PREFIX"
    using abs [of "''api/v1''"] by (simp add: asPath_def API_PREFIX_def)
  with assms strip abs have "urlOf (pf_path pf) c = CHR ''/'' # path"
    by (simp add: urlOf_def asPath_def Let_def starts_with_def API_PREFIX_def or_str_def)
  then show ?thesis by (simp add: segments_def)
qed

lemma alnum_no_slash: "list_all is_lower_alnum s \<Longrightarrow> CHR ''/'' \<notin> set s"
proof -
  have "\<not> is_lower_alnum (CHR ''/'')" by code_simp
  then show "list_all is_lower_alnum s \<Longrightarrow> CHR ''/'' \<notin> set s" by (auto simp: list_all_iff)
qed

lemma scan_id_no_slash: "CHR ''/'' \<notin> set (scan_id_at t)"
  using nat_str_base_alnum [of t] alnum_no_slash by (auto simp: scan_id_at_def)

lemma status_detail:
  assumes "default_base p = API_PREFIX"
  shows "detail_request pf (adapter_config ser p (cbomService_getScanStatus (scan_id_at t))) (scan_id_at t)"
proof -
  let ?c = "adapter_config ser p (cbomService_getScanStatus (scan_id_at t))"
  have "segments pf ?c = filter (\<lambda>w. w \<noteq> []) (split_on (CHR ''/'') (''scans'' @ CHR ''/'' # scan_id_at t))"
    by (rule segments_relative) (simp_all add: adapter_config_def scan_requests api_verbs assms)
  also have "\<dots> = [''scans'', scan_id_at t]"
    using scan_id_no_slash [of t]
    by (subst split_on_append) (auto simp: split_on_none, simp add: scan_id_at_def)
  finally show ?thesis
    using scan_id_at_segment [of t]
    by (simp add: detail_request_def adapter_config_def scan_requests api_verbs str_lower_def char_lower_def)
      (simp add: scan_id_at_def)
qed

lemma trigger_start:
  assumes "default_base p = API_PREFIX"
  shows "start_request pf (adapter_config ser p (cbomService_triggerScan target ty opts))"
proof -
  let ?c = "adapter_config ser p (cbomService_triggerScan target ty opts)"
  have "segments pf ?c = filter (\<lambda>w. w \<noteq> []) (split_on (CHR ''/'') ''scans'')"
    by (rule segments_relative) (simp_all add: adapter_config_def scan_requests api_verbs assms)
  moreover have "str_lower ''post'' = ''post''" by code_simp
  ultimately show ?thesis
    by (simp add: start_request_def) (simp add: adapter_config_def scan_requests api_verbs)
qed

lemma trigger_data: "ax_data (adapter_config ser p (cbomService_triggerScan target ty opts)) =
    JStr (ser (aq_data (cbomService_triggerScan target ty opts)))"
  by (simp add: adapter_config_def scan_requests api_verbs)

section \<open>Properties\<close>

text \<open>C31: the token of a demo session is never sent: an Authorization header carries the stored token
  and only when that is a non-empty token of a real session.\<close>

theorem authorization_real_token:
  assumes "authorization p = Some (Some h)"
  shows "\<exists>t. h = ''Bearer '' @ t \<and> t \<noteq> [] \<and> t \<noteq> CLIENT_DEMO_TOKEN
    \<and> sg_items (local_storage p) ''auth_token'' = Some t"
proof -
  from assms obtain t where "get_item (local_storage p) ''auth_token'' = Some t"
    "truthy_opt t" "\<not> isClientDemoToken t" "h = ''Bearer '' @ the t"
    by (auto simp: authorization_def split: option.splits if_splits)
  then show ?thesis
    by (auto simp: get_item_def isClientDemoToken_def truthy_opt_def split: if_splits)
qed

definition ex_page :: "(string \<times> string) list \<Rightarrow> page" where
  "ex_page kvs = \<lparr>apiBaseURL = API_PREFIX, local_storage = storage_of kvs, default_base = API_PREFIX,
     session_storage = storage_of [], location_href = ''/''\<rparr>"

theorem authorization_real_token_witness:
  "authorization (ex_page [(''auth_token'', ''jwt'')]) = Some (Some ''Bearer jwt'') \<and> ''jwt'' \<noteq> CLIENT_DEMO_TOKEN"
proof -
  have a: "authorization (ex_page [(''auth_token'', ''jwt'')]) = Some (Some ''Bearer jwt'')"
    by (simp add: authorization_def ex_page_def isClientDemoToken_def CLIENT_DEMO_TOKEN_def)
  from authorization_real_token [OF a] a show ?thesis by simp
qed

text \<open>C32: a 401 ends a real session, except on the calls of the sign-in flow: after an unauthorised
  answer to any other call no token is sent any more and the page is at the login page; an error of
  another status, of a sign-in call or in a demo session changes nothing.\<close>

theorem unauthorised_ends_session:
  assumes "sg_mode (local_storage p) = Usable"
  shows "(if ae_status err = Some 401 \<and> \<not> isAuthCall (or_opt (ae_url err) [])
        \<and> isDemoSessionActive (Some (local_storage p)) = Some False
      then authorization (handle_error public_url origin err p) = Some None
        \<and> sg_items (local_storage (handle_error public_url origin err p)) ''auth_user'' = None
        \<and> location_href (handle_error public_url origin err p) = origin @ or_opt public_url ''/platform'' @ ''/login''
        \<and> (\<forall>k. k \<notin> {''auth_token'', ''auth_user''} \<longrightarrow>
             sg_items (local_storage (handle_error public_url origin err p)) k = sg_items (local_storage p) k)
      else handle_error public_url origin err p = p)"
  using assms
  by (simp add: handle_error_def authorization_def isDemoSessionActive_def Let_def isClientDemoToken_def)

theorem unauthorised_ends_session_witness:
  "authorization (handle_error None ''https://x'' \<lparr>ae_url = Some ''/inventory/assets'', ae_status = Some 401\<rparr>
     (ex_page [(''auth_token'', ''jwt'')])) = Some None
   \<and> handle_error None ''https://x'' \<lparr>ae_url = Some ''/auth/mfa/verify'', ae_status = Some 401\<rparr>
     (ex_page [(''auth_token'', ''jwt'')]) = ex_page [(''auth_token'', ''jwt'')]"
proof -
  have "sg_mode (local_storage (ex_page [(''auth_token'', ''jwt'')])) = Usable" by (simp add: ex_page_def)
  note use = unauthorised_ends_session [OF this, where public_url = None and origin = "''https://x''"]
  have a: "\<not> isAuthCall ''/inventory/assets''" "isAuthCall ''/auth/mfa/verify''" by code_simp+
  have d: "isDemoSessionActive (Some (local_storage (ex_page [(''auth_token'', ''jwt'')]))) = Some False"
    by (simp add: isDemoSessionActive_def ex_page_def demo_keys)
  show ?thesis
    using use [of "\<lparr>ae_url = Some ''/inventory/assets'', ae_status = Some 401\<rparr>"]
      use [of "\<lparr>ae_url = Some ''/auth/mfa/verify'', ae_status = Some 401\<rparr>"] a d by simp
qed

text \<open>The calls of the sign-in flow are the ones the client exempts: login, registration, MFA,
  profile, password recovery, providers, editions and the demo; changing the password and every
  inventory, scan, compliance and cloud call are not.\<close>

theorem exempt_calls:
  "list_all (\<lambda>r. isAuthCall (aq_url r))
     [authService_login d, authService_register d, authService_verifyMfa d, authService_me,
      authService_patchMe d, authService_forgotPassword s, authService_resetPassword s s',
      authService_mfaSetup, authService_mfaConfirm d, authService_mfaDisable s, authService_editions,
      authService_providers, authService_demo e]
   \<and> list_all (\<lambda>r. \<not> isAuthCall (aq_url r))
     [authService_changePassword s s', authService_workspaceUsers, authService_logout,
      authService_googleStatus, authService_githubStatus, inventoryService_getAssets d,
      cbomService_listScans, complianceService_getFrameworks, cloudService_getCloudAccounts d]"
proof -
  have a: "isAuthCall ''/auth/login''" "isAuthCall ''/auth/register''" "isAuthCall ''/auth/mfa/verify''"
    "isAuthCall ''/auth/me''" "isAuthCall ''/auth/forgot-password''" "isAuthCall ''/auth/reset-password''"
    "isAuthCall ''/auth/mfa/setup''" "isAuthCall ''/auth/mfa/confirm''" "isAuthCall ''/auth/mfa/disable''"
    "isAuthCall ''/auth/editions''" "isAuthCall ''/auth/providers''" "isAuthCall ''/auth/demo''"
    by code_simp+
  have b: "\<not> isAuthCall ''/auth/change-password''" "\<not> isAuthCall ''/auth/workspace/users''"
    "\<not> isAuthCall ''/auth/logout''" "\<not> isAuthCall ''/auth/google/status''"
    "\<not> isAuthCall ''/auth/github/status''" "\<not> isAuthCall ''/inventory/assets''" "\<not> isAuthCall ''/scans''"
    "\<not> isAuthCall ''/compliance/frameworks''" "\<not> isAuthCall ''/cloud/accounts''"
    by code_simp+
  show ?thesis
    using a b
    by (simp add: authService_login_def authService_register_def authService_verifyMfa_def
        authService_me_def authService_patchMe_def authService_forgotPassword_def
        authService_resetPassword_def authService_mfaSetup_def authService_mfaConfirm_def
        authService_mfaDisable_def authService_editions_def authService_providers_def
        authService_demo_def authService_changePassword_def authService_workspaceUsers_def
        authService_logout_def authService_googleStatus_def authService_githubStatus_def
        inventoryService_getAssets_def cbomService_listScans_def complianceService_getFrameworks_def
        cloudService_getCloudAccounts_def api_verbs)
qed

end
