(* ===== verification/Json.thy ===== *)
theory Json
  imports Js_Value "HOL-Library.Countable"
begin

text \<open>
  JSON.stringify and JSON.parse as the sources use them to keep values in the browser storage: an
  interface with the law the language documents, that parsing gives back what was written, less what
  JSON does not carry (undefined properties are dropped, undefined elements and numbers that are not
  finite become null).
\<close>

fun json_clean :: "jval \<Rightarrow> jval" where
  "json_clean JUndef = JNull"
| "json_clean JNull = JNull"
| "json_clean (JBool b) = JBool b"
| "json_clean (JNum (Fin r)) = JNum (Fin r)"
| "json_clean (JNum _) = JNull"
| "json_clean (JStr s) = JStr s"
| "json_clean (JArr vs) = JArr (map json_clean vs)"
| "json_clean (JObj fs) = JObj (map (\<lambda>(k, v). (k, json_clean v)) (filter (\<lambda>(k, v). v \<noteq> JUndef) fs))"

locale json =
  fixes stringify :: "jval \<Rightarrow> string" and parse :: "string \<Rightarrow> jval option"
  assumes parse_stringify: "v \<noteq> JUndef \<Longrightarrow> parse (stringify v) = Some (json_clean v)"
    and stringify_not_Nil: "stringify v \<noteq> []"
begin

lemma stored_object: "parse (stringify (JObj fs)) = Some (json_clean (JObj fs))"
  by (rule parse_stringify) simp

lemma stored_strings: "parse (stringify (JArr (map JStr xs))) = Some (JArr (map JStr xs))"
  using parse_stringify [of "JArr (map JStr xs)"] by simp

end

text \<open>An instance: a numbering of the JSON values, written in unary.\<close>

instance jsnum :: countable
  by countable_datatype

instance jval :: countable
  by countable_datatype

definition unary_stringify :: "jval \<Rightarrow> string" where
  "unary_stringify v = replicate (Suc (to_nat v)) (CHR ''1'')"

definition unary_parse :: "string \<Rightarrow> jval option" where
  "unary_parse s = (if s = [] then None else Some (json_clean (from_nat (length s - 1))))"

lemma unary_json: "json unary_stringify unary_parse"
  by unfold_locales (simp_all add: unary_stringify_def unary_parse_def)

interpretation unary: json unary_stringify unary_parse
  by (rule unary_json)

section \<open>Lemmas\<close>

lemma map_of_clean: "map_of (map (\<lambda>(k, v). (k, f v)) fs) k = map_option f (map_of fs k)"
  by (induction fs) auto

lemma map_of_defined:
  "distinct (map fst fs) \<Longrightarrow> map_of (filter (\<lambda>(k, v). v \<noteq> JUndef) fs) k =
     (case map_of fs k of Some v \<Rightarrow> (if v = JUndef then None else Some v) | None \<Rightarrow> None)"
proof (induction fs)
  case Nil
  then show ?case by simp
next
  case (Cons p fs)
  obtain a b where p: "p = (a, b)" by fastforce
  show ?case
  proof (cases "a = k")
    case True
    with Cons.prems p have "k \<notin> fst ` set (filter (\<lambda>(k, v). v \<noteq> JUndef) fs)" by auto
    then have "map_of (filter (\<lambda>(k, v). v \<noteq> JUndef) fs) k = None" by (simp only: map_of_eq_None_iff not_False_eq_True)
    with True p show ?thesis by simp
  next
    case False
    with Cons p show ?thesis by simp
  qed
qed

text \<open>A defined property survives storing.\<close>

lemma clean_prop:
  assumes "distinct (map fst fs)" "js_prop (JObj fs) k \<noteq> JUndef"
  shows "js_prop (json_clean (JObj fs)) k = json_clean (js_prop (JObj fs) k)"
proof -
  from assms(2) obtain v where v: "map_of fs k = Some v" "v \<noteq> JUndef"
    by (cases "map_of fs k") simp_all
  with map_of_defined [OF assms(1), of k] have "map_of (filter (\<lambda>(k, v). v \<noteq> JUndef) fs) k = Some v" by simp
  with v show ?thesis by (simp add: map_of_clean)
qed

end
