(* ===== verification/Supabase_Auth.thy ===== *)
theory Supabase_Auth
  imports Editions
begin

text \<open>
  web/src/services/supabase.ts: the optional Supabase sign-in.  What the Supabase client answers is an
  argument: \<open>Inl\<close> of the error it reports or rejects with, or the user and session it returns.
\<close>

record sb_user =
  su_id :: string
  su_email :: "string option"
  su_name :: "string option"
  su_edition :: "string option"

record sb_session =
  ss_user :: "sb_user option"
  ss_access_token :: "string option"

definition isSupabaseConfigured :: "string option \<Rightarrow> string option \<Rightarrow> bool" where
  "isSupabaseConfigured url key \<longleftrightarrow> or_opt url [] \<noteq> [] \<and> or_opt key [] \<noteq> []"

record supabase_auth_user =
  sa_id :: string
  sa_name :: string
  sa_email :: string
  sa_edition :: edition

text \<open>\<open>s.split(/[._-]/)\<close>.\<close>

fun split_words :: "string \<Rightarrow> string list" where
  "split_words [] = [[]]"
| "split_words (c # s) =
     (if c \<in> {CHR ''.'', CHR ''_'', CHR ''-''} then [] # split_words s
      else (case split_words s of [] \<Rightarrow> [[c]] | w # ws \<Rightarrow> (c # w) # ws))"

definition capitalize :: "string \<Rightarrow> string" where
  "capitalize w = map char_upper (take 1 w) @ drop 1 w"

definition toAuthUser :: "string \<Rightarrow> edition \<Rightarrow> supabase_auth_user" where
  "toAuthUser email e =
     (let local = hd (split_on (CHR ''@'') email);
          fallback = or_str local ''Supabase User'';
          name = or_str (str_join '' '' (map capitalize (split_words local))) fallback
      in \<lparr>sa_id = ''sb-'' @ email, sa_name = name, sa_email = email, sa_edition = e\<rparr>)"

definition signIn :: "bool \<Rightarrow> string + sb_user option \<Rightarrow> string + supabase_auth_user" where
  "signIn configured answer =
     (if \<not> configured then Inl ''Supabase is not configured''
      else (case answer of
              Inl e \<Rightarrow> Inl e
            | Inr None \<Rightarrow> Inl ''Supabase session did not return a user''
            | Inr (Some u) \<Rightarrow>
                (if truthy_opt (su_email u)
                 then Inr (toAuthUser (the (su_email u)) (normalizeEdition (su_edition u)))
                 else Inl ''Supabase session did not return a user'')))"

definition signUp ::
  "bool \<Rightarrow> edition \<Rightarrow> string + (sb_user option \<times> sb_session option)
     \<Rightarrow> string + (supabase_auth_user \<times> sb_session option)" where
  "signUp configured e answer =
     (if \<not> configured then Inl ''Supabase is not configured''
      else (case answer of
              Inl err \<Rightarrow> Inl err
            | Inr (None, s) \<Rightarrow> Inl ''Supabase sign up did not return a user''
            | Inr (Some u, s) \<Rightarrow>
                (if truthy_opt (su_email u) then Inr (toAuthUser (the (su_email u)) e, s)
                 else Inl ''Supabase sign up did not return a user'')))"

definition getSession :: "bool \<Rightarrow> sb_session option \<Rightarrow> sb_session option" where
  "getSession configured s = (if configured then s else None)"

definition getSessionToken :: "bool \<Rightarrow> sb_session option \<Rightarrow> string option" where
  "getSessionToken configured s =
     (if configured then (case s of None \<Rightarrow> None | Some x \<Rightarrow> ss_access_token x) else None)"

lemma toAuthUser_sel [simp]:
  "sa_id (toAuthUser email e) = ''sb-'' @ email" "sa_email (toAuthUser email e) = email"
  "sa_edition (toAuthUser email e) = e"
  by (simp_all add: toAuthUser_def Let_def)

lemma toAuthUser_named: "sa_name (toAuthUser email e) \<noteq> []"
  by (simp add: toAuthUser_def Let_def or_str_def)

end
