(* ===== verification/Auth_Context.thy ===== *)
theory Auth_Context
  imports Api_Client Json Supabase_Auth Roles
begin

text \<open>
  web/src/context/AuthContext.tsx and the guards RequireAuth.tsx and RequireEnterprise.tsx: the
  session of the web client.  The state extends the page (storages, base URL, address) with the React
  state of the provider.  A user is the JSON object the sources keep, because part of it is spread from
  server answers and read back from the storage.  \<open>stringify\<close> and \<open>parse\<close> are JSON's; the answers of
  the servers are arguments, \<open>Inl\<close> of the message a call rejects with.  A property set on an array is
  not kept by \<open>js_set\<close>.
\<close>

section \<open>State\<close>

record auth = page +
  au_loading :: bool
  au_token :: "string option"
  au_user :: jval
  au_edition :: edition
  au_reachable :: bool

definition js_set :: "jval \<Rightarrow> string \<Rightarrow> jval \<Rightarrow> jval option" where
  "js_set v k x =
     (case v of JObj fs \<Rightarrow> Some (JObj (AList.update k x fs)) | JArr vs \<Rightarrow> Some (JArr vs) | _ \<Rightarrow> None)"

definition isAuthenticated :: "'a auth_scheme \<Rightarrow> bool" where
  "isAuthenticated a = truthy_opt (au_token a)"

definition isDemo :: "'a auth_scheme \<Rightarrow> bool" where
  "isDemo a \<longleftrightarrow> js_truthy (js_prop (au_user a) ''demo'') \<or> isClientDemoToken (au_token a)"

definition edition_json :: "edition \<Rightarrow> jval" where
  "edition_json e = JStr (edition_name e)"

text \<open>\<open>normalizeEdition(v)\<close> on any value: a truthy value that is no string has no \<open>toLowerCase\<close>.\<close>

definition normalize_any :: "jval \<Rightarrow> edition option" where
  "normalize_any v =
     (if \<not> js_truthy v then Some (normalizeEdition None)
      else (case v of JStr s \<Rightarrow> Some (normalizeEdition (Some s)) | _ \<Rightarrow> None))"

section \<open>Reading and writing the session\<close>

definition readStoredAuth :: "(string \<Rightarrow> jval option) \<Rightarrow> storage \<Rightarrow> string option \<times> jval \<times> edition" where
  "readStoredAuth parse s =
     (case get_item s ''auth_token'' of
        None \<Rightarrow> (None, JNull, community)
      | Some token \<Rightarrow>
          (let userRaw = read_item s ''auth_user'';
               e = normalizeEdition (read_item s ''app_edition'')
           in case (if truthy_opt userRaw then parse (the userRaw) else Some JNull) of
                None \<Rightarrow> (None, JNull, community)
              | Some user \<Rightarrow>
                  (let demo = (js_truthy (js_prop user ''demo'') \<or> read_item s DEMO_STORAGE_KEY = Some ''1''
                         \<or> isClientDemoToken token)
                   in if js_truthy user
                      then (case js_set user ''demo'' (JBool demo) of
                              None \<Rightarrow> (None, JNull, community)
                            | Some user' \<Rightarrow> (token, user', e))
                      else (token, user, e))))"

definition persist ::
  "(jval \<Rightarrow> string) \<Rightarrow> string option \<Rightarrow> jval \<Rightarrow> edition \<Rightarrow> 'a auth_scheme \<Rightarrow> 'a auth_scheme" where
  "persist stringify nextToken nextUser nextEdition a =
     a\<lparr>local_storage := attempt
         [(if truthy_opt nextToken then set_item ''auth_token'' (the nextToken) else remove_item ''auth_token''),
          (if js_truthy nextUser then set_item ''auth_user'' (stringify nextUser) else remove_item ''auth_user''),
          (\<lambda>s. Some (setEditionPreference nextEdition s))] (local_storage a),
       au_token := nextToken, au_user := nextUser, au_edition := nextEdition\<rparr>"

definition completeAuth ::
  "(jval \<Rightarrow> string) \<Rightarrow> (rat \<Rightarrow> string) \<Rightarrow> jval \<Rightarrow> 'a auth_scheme \<Rightarrow> string option \<times> 'a auth_scheme" where
  "completeAuth stringify fmt payload a =
     (let token = js_or (js_prop payload ''access_token'') (js_prop payload ''token'');
          user = js_prop payload ''user''
      in if \<not> js_truthy token \<or> \<not> js_truthy user
         then (Some ''Authentication service returned an invalid response'', a)
         else (case normalize_any (js_or (js_or (js_prop payload ''edition'') (js_prop user ''edition''))
                      (JStr ''community'')) of
                 None \<Rightarrow> (Some ''toLowerCase is not a function'', a)
               | Some nextEdition \<Rightarrow>
                   (let demo = js_truthy (js_or (js_prop payload ''demo_mode'') (js_prop user ''demo''));
                        nextUser = spread (JObj (props_of user))
                          [(''id'', js_or (js_prop user ''id'') (js_prop user ''user_id'')),
                           (''tenantId'', js_or (js_prop user ''tenant_id'') (js_prop user ''tenantId'')),
                           (''mfaEnabled'', JBool (js_truthy
                              (js_coalesce (js_prop user ''mfa_enabled'') (js_prop user ''mfaEnabled'')))),
                           (''edition'', edition_json nextEdition), (''demo'', JBool demo)];
                        a' = a\<lparr>local_storage := attempt
                          [if demo then set_item DEMO_STORAGE_KEY ''1'' else remove_item DEMO_STORAGE_KEY]
                          (local_storage a)\<rparr>
                    in (None, persist stringify (Some (js_string fmt token)) nextUser nextEdition a'))))"

section \<open>Initialisation\<close>

text \<open>The user a Supabase session gives.\<close>

definition session_user :: "sb_session option \<Rightarrow> (jval \<times> string option) option" where
  "session_user sess =
     (case sess of
        None \<Rightarrow> None
      | Some s \<Rightarrow>
          (case ss_user s of
             None \<Rightarrow> None
           | Some u \<Rightarrow>
               (if truthy_opt (su_email u)
                then Some (JObj [(''id'', JStr (su_id u)),
                    (''name'', JStr (or_opt (su_name u) (hd (split_on (CHR ''@'') (the (su_email u)))))),
                    (''email'', JStr (the (su_email u))),
                    (''edition'', edition_json (normalizeEdition (su_edition u)))], ss_access_token s)
                else None)))"

text \<open>The profile that \<open>/auth/me\<close> gives, with the fields of the known user as defaults.\<close>

definition str_field :: "(rat \<Rightarrow> string) \<Rightarrow> jval list \<Rightarrow> string \<Rightarrow> jval" where
  "str_field fmt vs dflt = JStr (js_string fmt (foldr js_or vs (JStr dflt)))"

definition me_user :: "(rat \<Rightarrow> string) \<Rightarrow> jval \<Rightarrow> jval \<Rightarrow> edition \<Rightarrow> bool \<Rightarrow> jval" where
  "me_user fmt data known e demo = JObj
     [(''id'', str_field fmt [js_prop data ''id'', js_prop data ''user_id'', js_prop known ''id''] []),
      (''name'', str_field fmt [js_prop data ''name'', js_prop known ''name''] []),
      (''email'', str_field fmt [js_prop data ''email'', js_prop known ''email''] []),
      (''role'', str_field fmt [js_prop data ''role'', js_prop known ''role''] ''viewer''),
      (''tenantId'', str_field fmt [js_prop data ''tenant_id'', js_prop known ''tenantId''] []),
      (''mfaEnabled'', JBool (js_truthy (js_prop data ''mfa_enabled''))),
      (''edition'', edition_json e), (''demo'', JBool demo)]"

text \<open>Without a backend, a stored absolute API host is dropped.\<close>

definition drop_stale_api :: "'a auth_scheme \<Rightarrow> 'a auth_scheme" where
  "drop_stale_api a =
     (case get_item (local_storage a) ''api_base_url'' of
        None \<Rightarrow> a
      | Some v \<Rightarrow>
          (if truthy_opt v \<and> is_absolute (the v)
           then setAPIBaseURL ''/api/v1''
             (a\<lparr>local_storage := attempt [remove_item ''api_base_url''] (local_storage a)\<rparr>)
           else a))"

definition init ::
  "(jval \<Rightarrow> string) \<Rightarrow> (string \<Rightarrow> jval option) \<Rightarrow> (rat \<Rightarrow> string) \<Rightarrow> sb_session option
     \<Rightarrow> ('a auth_scheme \<Rightarrow> (jval \<times> string) option \<times> 'a auth_scheme) \<Rightarrow> string + jval
     \<Rightarrow> 'a auth_scheme \<Rightarrow> 'a auth_scheme" where
  "init stringify parse fmt sess backend me a0 =
     (let (st_token, st_user, st_edition) = readStoredAuth parse (local_storage a0);
          sb = session_user sess;
          (remote, a1) = backend a0;
          remote_edition = (case remote of None \<Rightarrow> JUndef | Some (data, _) \<Rightarrow> js_prop data ''edition'');
          sb_edition = (case sb of None \<Rightarrow> JUndef | Some (u, _) \<Rightarrow> js_prop u ''edition'');
          detected = the (normalize_any (js_or (js_or sb_edition (edition_json st_edition)) remote_edition));
          reachable = js_truthy remote_edition;
          a2 = (if reachable
                then (let b = syncAPIBaseURL a1
                      in if \<not> js_truthy sb_edition \<and> \<not> js_truthy (edition_json st_edition)
                         then b\<lparr>local_storage := setEditionPreference detected (local_storage b)\<rparr> else b)
                else drop_stale_api a1);
          nextToken = (case sb of Some (_, Some t) \<Rightarrow> Some t | _ \<Rightarrow> st_token);
          nextUser = (case sb of Some (u, _) \<Rightarrow> u | None \<Rightarrow> st_user);
          synced = (if truthy_opt nextToken \<and> \<not> isClientDemoToken nextToken \<and> reachable
            then (case me of
                    Inl _ \<Rightarrow> None
                  | Inr d \<Rightarrow>
                      (let data = js_or d (JObj [])
                       in map_option (\<lambda>e. (me_user fmt data nextUser e False, e))
                            (normalize_any (js_or (js_prop data ''edition'') (edition_json detected)))))
            else None)
      in case synced of
           None \<Rightarrow> a2\<lparr>au_reachable := reachable, au_token := nextToken, au_user := nextUser,
                      au_edition := detected, au_loading := False\<rparr>
         | Some (u, e) \<Rightarrow>
             a2\<lparr>local_storage := attempt [set_item ''auth_user'' (stringify u),
                    (\<lambda>s. Some (setEditionPreference e s))] (local_storage a2),
                au_reachable := reachable, au_token := nextToken, au_user := u,
                au_edition := e, au_loading := False\<rparr>)"

section \<open>Operations\<close>

datatype login_result =
  SignedIn
| MfaRequired jval string
| ConfirmEmail string

definition sb_json :: "supabase_auth_user \<Rightarrow> jval" where
  "sb_json u = JObj [(''id'', JStr (sa_id u)), (''name'', JStr (sa_name u)), (''email'', JStr (sa_email u)),
     (''edition'', edition_json (sa_edition u))]"

definition supabaseLogin ::
  "(jval \<Rightarrow> string) \<Rightarrow> bool \<Rightarrow> string + sb_user option \<Rightarrow> sb_session option \<Rightarrow> 'a auth_scheme
     \<Rightarrow> (string + login_result) \<times> 'a auth_scheme" where
  "supabaseLogin stringify configured answer sess a =
     (case signIn configured answer of
        Inl e \<Rightarrow> (Inl e, a)
      | Inr u \<Rightarrow> (Inr SignedIn,
          persist stringify (getSessionToken configured sess) (sb_json u) (sa_edition u) a))"

definition supabaseRegister ::
  "(jval \<Rightarrow> string) \<Rightarrow> bool \<Rightarrow> edition \<Rightarrow> string + (sb_user option \<times> sb_session option)
     \<Rightarrow> 'a auth_scheme \<Rightarrow> (string + login_result) \<times> 'a auth_scheme" where
  "supabaseRegister stringify configured nextEdition answer a =
     (case signUp configured nextEdition answer of
        Inl e \<Rightarrow> (Inl e, a)
      | Inr (u, sess) \<Rightarrow>
          (let t = (case sess of None \<Rightarrow> None | Some s \<Rightarrow> ss_access_token s)
           in if truthy_opt t then (Inr SignedIn, persist stringify t (sb_json u) nextEdition a)
              else (Inr (ConfirmEmail (sa_email u)), a)))"

definition complete_answer ::
  "(jval \<Rightarrow> string) \<Rightarrow> (rat \<Rightarrow> string) \<Rightarrow> jval \<Rightarrow> 'a auth_scheme \<Rightarrow> (string + login_result) \<times> 'a auth_scheme" where
  "complete_answer stringify fmt data a =
     (case completeAuth stringify fmt data a of
        (Some e, a') \<Rightarrow> (Inl e, a')
      | (None, a') \<Rightarrow> (Inr SignedIn, a'))"

definition no_engine :: "string \<Rightarrow> string" where
  "no_engine what = ''No engine is connected on this Pages build, so '' @ what @
     '' cannot run here. Use Interactive Demo (labelled sample data) or request an Enterprise workspace via sales@rivicq.com.''"

definition login ::
  "(jval \<Rightarrow> string) \<Rightarrow> (rat \<Rightarrow> string) \<Rightarrow> bool \<Rightarrow> string \<Rightarrow> string + jval \<Rightarrow> string + sb_user option
     \<Rightarrow> sb_session option \<Rightarrow> 'a auth_scheme \<Rightarrow> (string + login_result) \<times> 'a auth_scheme" where
  "login stringify fmt configured email response answer sess a =
     (if au_reachable a then
        (case response of
           Inl e \<Rightarrow> (Inl e, a)
         | Inr data \<Rightarrow>
             (if js_truthy (js_prop data ''mfa_required'')
              then (Inr (MfaRequired (js_prop data ''mfa_session'') email), a)
              else complete_answer stringify fmt data a))
      else if configured then supabaseLogin stringify configured answer sess a
      else (Inl (no_engine ''password sign-in''), a))"

definition register ::
  "(jval \<Rightarrow> string) \<Rightarrow> (rat \<Rightarrow> string) \<Rightarrow> bool \<Rightarrow> string \<Rightarrow> edition \<Rightarrow> string + jval
     \<Rightarrow> string + (sb_user option \<times> sb_session option) \<Rightarrow> 'a auth_scheme
     \<Rightarrow> (string + login_result) \<times> 'a auth_scheme" where
  "register stringify fmt configured email nextEdition response answer a =
     (if au_reachable a then
        (case response of
           Inl e \<Rightarrow> (Inl e, a)
         | Inr data \<Rightarrow>
             (if js_truthy (js_prop data ''mfa_required'')
              then (Inr (MfaRequired (js_prop data ''mfa_session'') email), a)
              else complete_answer stringify fmt data a))
      else if configured then supabaseRegister stringify configured nextEdition answer a
      else (Inl (no_engine ''registration''), a))"

definition verifyMfa ::
  "(jval \<Rightarrow> string) \<Rightarrow> (rat \<Rightarrow> string) \<Rightarrow> string + jval \<Rightarrow> 'a auth_scheme
     \<Rightarrow> (string + login_result) \<times> 'a auth_scheme" where
  "verifyMfa stringify fmt response a =
     (case response of Inl e \<Rightarrow> (Inl e, a) | Inr data \<Rightarrow> complete_answer stringify fmt data a)"

definition refreshMe ::
  "(jval \<Rightarrow> string) \<Rightarrow> (rat \<Rightarrow> string) \<Rightarrow> string + jval \<Rightarrow> 'a auth_scheme \<Rightarrow> string option \<times> 'a auth_scheme" where
  "refreshMe stringify fmt me a =
     (if \<not> truthy_opt (au_token a) \<or> isClientDemoToken (au_token a) \<or> \<not> au_reachable a then (None, a)
      else (case me of
              Inl e \<Rightarrow> (Some e, a)
            | Inr d \<Rightarrow>
                (let data = js_or d (JObj [])
                 in case normalize_any (js_or (js_prop data ''edition'') (edition_json (au_edition a))) of
                      None \<Rightarrow> (Some ''toLowerCase is not a function'', a)
                    | Some e \<Rightarrow>
                        (None, persist stringify (au_token a)
                           (me_user fmt data (au_user a) e (js_truthy (js_prop (au_user a) ''demo''))) e a))))"

definition updateProfile ::
  "(jval \<Rightarrow> string) \<Rightarrow> (rat \<Rightarrow> string) \<Rightarrow> string + jval \<Rightarrow> string + jval \<Rightarrow> 'a auth_scheme
     \<Rightarrow> string option \<times> 'a auth_scheme" where
  "updateProfile stringify fmt patch me a =
     (case patch of Inl e \<Rightarrow> (Some e, a) | Inr _ \<Rightarrow> refreshMe stringify fmt me a)"

definition demo_user :: jval where
  "demo_user = JObj [(''id'', JStr ''demo-user''), (''name'', JStr ''Demo operator''),
     (''email'', JStr ''demo-ciso@demo.rivicq.local''), (''role'', JStr ''operator''),
     (''tenantId'', JStr ''tenant-demo''), (''mfaEnabled'', JBool False),
     (''edition'', edition_json community), (''demo'', JBool True)]"

definition demoLogin ::
  "(jval \<Rightarrow> string) \<Rightarrow> (rat \<Rightarrow> string) \<Rightarrow> string + jval \<Rightarrow> 'a auth_scheme \<Rightarrow> string option \<times> 'a auth_scheme" where
  "demoLogin stringify fmt response a =
     (if au_reachable a then
        (case response of
           Inl e \<Rightarrow> (Some e, a)
         | Inr data \<Rightarrow> completeAuth stringify fmt
             (spread (JObj (props_of data)) [(''demo_mode'', JBool True), (''edition'', JStr ''oss'')]) a)
      else
        (let a1 = a\<lparr>local_storage := attempt [set_item DEMO_STORAGE_KEY ''1'', remove_item ''api_base_url'']
               (local_storage a)\<rparr>
         in (None, persist stringify (Some CLIENT_DEMO_TOKEN) demo_user community
               (syncAPIBaseURL (setAPIBaseURL ''/api/v1'' a1)))))"

definition logout :: "(jval \<Rightarrow> string) \<Rightarrow> 'a auth_scheme \<Rightarrow> 'a auth_scheme" where
  "logout stringify a =
     (let cleared = (case remove_item DEMO_STORAGE_KEY (local_storage a) of
            None \<Rightarrow> a
          | Some s \<Rightarrow> a\<lparr>local_storage := s,
              session_storage := attempt [remove_item TRAIL_ACTIVE_KEY, remove_item TRAIL_STEP_KEY]
                (session_storage a)\<rparr>)
      in persist stringify None JNull (au_edition a) cleared)"

text \<open>The requests a logout sends: to the API unless the session is a demo, to Supabase when configured.\<close>

definition logout_calls :: "bool \<Rightarrow> 'a auth_scheme \<Rightarrow> bool \<times> bool" where
  "logout_calls configured a =
     (au_reachable a \<and> truthy_opt (au_token a) \<and> \<not> isClientDemoToken (au_token a), configured)"

definition setEdition :: "(jval \<Rightarrow> string) \<Rightarrow> edition \<Rightarrow> 'a auth_scheme \<Rightarrow> 'a auth_scheme" where
  "setEdition stringify nextEdition a =
     (if js_truthy (js_prop (au_user a) ''demo'') then persist stringify (au_token a) (au_user a) community a
      else persist stringify (au_token a) (au_user a) nextEdition a)"

section \<open>Guards\<close>

definition hasStoredSession :: "storage \<Rightarrow> bool" where
  "hasStoredSession s =
     (case get_item s ''auth_token'' of
        None \<Rightarrow> False
      | Some token \<Rightarrow>
          (if truthy_opt token then True
           else read_item s DEMO_STORAGE_KEY = Some ''1'' \<or> isClientDemoToken token))"

definition RequireAuth :: "'a auth_scheme \<Rightarrow> 'c \<Rightarrow> 'c gate" where
  "RequireAuth a c =
     (if au_loading a then Spinner
      else if \<not> isAuthenticated a \<and> \<not> hasStoredSession (local_storage a) then Redirect ''/login''
      else Children c)"

definition RequireEnterprise :: "bool \<Rightarrow> 'a auth_scheme \<Rightarrow> 'c \<Rightarrow> 'c gate" where
  "RequireEnterprise layers a c =
     (let allowed = (if layers then isEnterpriseEdition (au_edition a) else isPaidEdition (au_edition a))
      in if \<not> allowed then Locked else Children c)"

section \<open>Lemmas\<close>

lemma auth_keys [simp]:
  "''auth_token'' \<noteq> DEMO_STORAGE_KEY" "''auth_user'' \<noteq> DEMO_STORAGE_KEY" "''app_edition'' \<noteq> DEMO_STORAGE_KEY"
  "''api_base_url'' \<noteq> DEMO_STORAGE_KEY" "DEMO_STORAGE_KEY \<noteq> ''auth_token''" "DEMO_STORAGE_KEY \<noteq> ''auth_user''"
  "DEMO_STORAGE_KEY \<noteq> ''app_edition''" "DEMO_STORAGE_KEY \<noteq> ''api_base_url''"
  by (simp_all add: DEMO_STORAGE_KEY_def)

lemma persist_sel [simp]:
  "au_token (persist sf tk u e a) = tk" "au_user (persist sf tk u e a) = u"
  "au_edition (persist sf tk u e a) = e" "au_reachable (persist sf tk u e a) = au_reachable a"
  "au_loading (persist sf tk u e a) = au_loading a" "session_storage (persist sf tk u e a) = session_storage a"
  by (simp_all add: persist_def)

text \<open>What persisting leaves in a usable storage.\<close>

lemma persist_storage:
  assumes "sg_mode (local_storage a) = Usable"
  shows "sg_mode (local_storage (persist sf tk u e a)) = Usable"
    and "sg_items (local_storage (persist sf tk u e a)) = (sg_items (local_storage a))
      (''auth_token'' := (if truthy_opt tk then tk else None),
       ''auth_user'' := (if js_truthy u then Some (sf u) else None),
       ''app_edition'' := Some (edition_name e))"
  using assms
  by (auto simp: persist_def setEditionPreference_def truthy_opt_def fun_eq_iff)

text \<open>The React state and the storage tell the same session.\<close>

definition store_agrees :: "'a auth_scheme \<Rightarrow> bool" where
  "store_agrees a \<longleftrightarrow> sg_mode (local_storage a) = Usable
     \<and> sg_items (local_storage a) ''auth_token'' = (if truthy_opt (au_token a) then au_token a else None)
     \<and> normalizeEdition (sg_items (local_storage a) ''app_edition'') = au_edition a"

lemma persist_agrees: "sg_mode (local_storage a) = Usable \<Longrightarrow> store_agrees (persist sf tk u e a)"
  using persist_storage [of a sf tk u e] by (simp add: store_agrees_def)

text \<open>The provider has a user exactly when the storage has one, and the stored one is the JSON text of an
  object.\<close>

definition stored_user :: "(string \<Rightarrow> jval option) \<Rightarrow> storage \<Rightarrow> bool" where
  "stored_user parse s \<longleftrightarrow>
     (\<exists>raw fs. sg_items s ''auth_user'' = Some raw \<and> raw \<noteq> [] \<and> parse raw = Some (JObj fs))"

definition user_agrees :: "(string \<Rightarrow> jval option) \<Rightarrow> 'a auth_scheme \<Rightarrow> bool" where
  "user_agrees parse a \<longleftrightarrow>
     au_user a = JNull \<and> sg_items (local_storage a) ''auth_user'' = None
     \<or> (\<exists>fs. au_user a = JObj fs) \<and> stored_user parse (local_storage a)"

definition visit_ok :: "(string \<Rightarrow> jval option) \<Rightarrow> 'a auth_scheme \<Rightarrow> bool" where
  "visit_ok parse a \<longleftrightarrow> store_agrees a \<and> user_agrees parse a"

lemma persist_visit_ok:
  assumes js: "json sf parse" and s: "sg_mode (local_storage a) = Usable"
    and u: "u = JNull \<or> (\<exists>fs. u = JObj fs)"
  shows "visit_ok parse (persist sf tk u e a)"
  using u persist_storage [OF s, of sf tk u e] persist_agrees [OF s, of sf tk u e]
    json.stored_object [OF js] json.stringify_not_Nil [OF js]
  by (auto simp: visit_ok_def user_agrees_def stored_user_def)

lemma persist_same_user:
  assumes js: "json sf parse" and v: "visit_ok parse a"
  shows "visit_ok parse (persist sf tk (au_user a) e a)"
  using v by (intro persist_visit_ok [OF js]) (auto simp: visit_ok_def user_agrees_def store_agrees_def)

lemma agrees_usable: "store_agrees a \<Longrightarrow> sg_mode (local_storage a) = Usable"
  by (simp add: store_agrees_def)

lemma visit_usable: "visit_ok parse a \<Longrightarrow> sg_mode (local_storage a) = Usable"
  by (simp add: visit_ok_def agrees_usable)

lemma completeAuth_ok:
  assumes js: "json sf parse" and v: "visit_ok parse a"
  shows "visit_ok parse (snd (completeAuth sf fmt payload a))"
  using v visit_usable [OF v]
  by (auto simp: completeAuth_def Let_def intro!: persist_visit_ok [OF js] split: option.split)

lemma complete_answer_ok:
  "json sf parse \<Longrightarrow> visit_ok parse a \<Longrightarrow> visit_ok parse (snd (complete_answer sf fmt d a))"
  using completeAuth_ok [of sf parse a fmt d]
  by (auto simp: complete_answer_def split: prod.split option.split)

lemma supabaseLogin_ok:
  "json sf parse \<Longrightarrow> visit_ok parse a \<Longrightarrow> visit_ok parse (snd (supabaseLogin sf c ans sess a))"
  by (simp add: supabaseLogin_def persist_visit_ok visit_usable sb_json_def split: sum.split)

lemma supabaseRegister_ok:
  "json sf parse \<Longrightarrow> visit_ok parse a \<Longrightarrow> visit_ok parse (snd (supabaseRegister sf c e ans a))"
  by (simp add: supabaseRegister_def persist_visit_ok visit_usable sb_json_def Let_def split: sum.split prod.split)

lemma setAPIBaseURL_storage:
  "sg_mode (local_storage a) = Usable \<Longrightarrow>
     local_storage (setAPIBaseURL u a) = (local_storage a)\<lparr>sg_items := (sg_items (local_storage a))(''api_base_url'' \<mapsto> u)\<rparr>"
  by (simp add: setAPIBaseURL_def)

lemma syncAPIBaseURL_sel [simp]:
  "local_storage (syncAPIBaseURL a) = local_storage a" "apiBaseURL (syncAPIBaseURL a) = apiBaseURL a"
  "default_base (syncAPIBaseURL a) = apiBaseURL a"
  by (simp_all add: syncAPIBaseURL_def)

lemma demoLogin_offline_ok:
  assumes js: "json sf parse" and s: "sg_mode (local_storage a) = Usable" and r: "\<not> au_reachable a"
  shows "visit_ok parse (snd (demoLogin sf fmt r a))"
proof -
  have "\<exists>fs. demo_user = JObj fs" by (simp add: demo_user_def)
  with s r show ?thesis
    by (simp add: demoLogin_def Let_def) (rule persist_visit_ok [OF js], simp_all add: setAPIBaseURL_def)
qed

lemma demoLogin_ok:
  "json sf parse \<Longrightarrow> visit_ok parse a \<Longrightarrow> visit_ok parse (snd (demoLogin sf fmt r a))"
  using completeAuth_ok [of sf parse a fmt] demoLogin_offline_ok [of sf parse a fmt r]
  by (cases "au_reachable a") (auto simp: demoLogin_def visit_usable split: sum.split)

lemma refreshMe_ok:
  "json sf parse \<Longrightarrow> visit_ok parse a \<Longrightarrow> visit_ok parse (snd (refreshMe sf fmt me a))"
  by (simp add: refreshMe_def Let_def persist_visit_ok visit_usable me_user_def split: sum.split option.split)

lemma logout_ok: "json sf parse \<Longrightarrow> visit_ok parse a \<Longrightarrow> visit_ok parse (logout sf a)"
  by (simp add: logout_def Let_def persist_visit_ok visit_usable)

lemma setEdition_ok: "json sf parse \<Longrightarrow> visit_ok parse a \<Longrightarrow> visit_ok parse (setEdition sf e a)"
  by (simp add: setEdition_def persist_same_user)

section \<open>The session as a machine\<close>

datatype auth_event =
  Login string "string + jval" "string + sb_user option" "sb_session option"
| Register string edition "string + jval" "string + (sb_user option \<times> sb_session option)"
| VerifyMfa "string + jval"
| SupabaseLogin "string + sb_user option" "sb_session option"
| SupabaseRegister edition "string + (sb_user option \<times> sb_session option)"
| DemoLogin "string + jval"
| RefreshMe "string + jval"
| UpdateProfile "string + jval" "string + jval"
| Logout
| SetEdition edition

fun auth_step ::
  "(jval \<Rightarrow> string) \<Rightarrow> (rat \<Rightarrow> string) \<Rightarrow> bool \<Rightarrow> 'a auth_scheme \<Rightarrow> auth_event \<Rightarrow> 'a auth_scheme" where
  "auth_step sf fmt c a (Login m r ans s) = snd (login sf fmt c m r ans s a)"
| "auth_step sf fmt c a (Register m e r ans) = snd (register sf fmt c m e r ans a)"
| "auth_step sf fmt c a (VerifyMfa r) = snd (verifyMfa sf fmt r a)"
| "auth_step sf fmt c a (SupabaseLogin ans s) = snd (supabaseLogin sf c ans s a)"
| "auth_step sf fmt c a (SupabaseRegister e ans) = snd (supabaseRegister sf c e ans a)"
| "auth_step sf fmt c a (DemoLogin r) = snd (demoLogin sf fmt r a)"
| "auth_step sf fmt c a (RefreshMe me) = snd (refreshMe sf fmt me a)"
| "auth_step sf fmt c a (UpdateProfile p me) = snd (updateProfile sf fmt p me a)"
| "auth_step sf fmt c a Logout = logout sf a"
| "auth_step sf fmt c a (SetEdition e) = setEdition sf e a"

lemma auth_step_ok: "json sf parse \<Longrightarrow> visit_ok parse a \<Longrightarrow> visit_ok parse (auth_step sf fmt c a e)"
  by (cases e)
    (auto simp: login_def register_def verifyMfa_def updateProfile_def
      intro: complete_answer_ok supabaseLogin_ok supabaseRegister_ok demoLogin_ok
        refreshMe_ok logout_ok setEdition_ok split: sum.split)

text \<open>A demo session that no server knows, and what keeps it.\<close>

definition offline_demo :: "'a auth_scheme \<Rightarrow> bool" where
  "offline_demo a \<longleftrightarrow> au_token a = Some CLIENT_DEMO_TOKEN \<and> js_truthy (js_prop (au_user a) ''demo'')
     \<and> au_edition a = community"

fun within_session :: "auth_event \<Rightarrow> bool" where
  "within_session (RefreshMe _) = True"
| "within_session (UpdateProfile _ _) = True"
| "within_session (SetEdition _) = True"
| "within_session _ = False"

lemma offline_demo_step:
  "offline_demo a \<Longrightarrow> within_session e \<Longrightarrow> offline_demo (auth_step sf fmt c a e)"
  by (cases e) (auto simp: offline_demo_def refreshMe_def updateProfile_def setEdition_def
      isClientDemoToken_def split: sum.split)

definition demo_step_in :: "(jval \<Rightarrow> string) \<Rightarrow> (rat \<Rightarrow> string) \<Rightarrow> bool \<Rightarrow> 'a auth_scheme \<Rightarrow> auth_event \<Rightarrow> 'a auth_scheme" where
  "demo_step_in sf fmt c a e = (if within_session e then auth_step sf fmt c a e else a)"

lemma run_within: "list_all within_session es \<Longrightarrow> run (auth_step sf fmt c) a es = run (demo_step_in sf fmt c) a es"
  by (induction es arbitrary: a) (auto simp: demo_step_in_def)

interpretation offline: invariant_machine "demo_step_in sf fmt c" offline_demo for sf fmt c
  by unfold_locales (simp add: demo_step_in_def offline_demo_step)

lemma demoLogin_offline:
  "\<not> au_reachable a \<Longrightarrow> offline_demo (snd (demoLogin sf fmt r a))"
  by (simp add: demoLogin_def Let_def offline_demo_def demo_user_def)

lemma authorization_agrees:
  "store_agrees a \<Longrightarrow> authorization a =
     Some (if truthy_opt (au_token a) \<and> \<not> isClientDemoToken (au_token a)
           then Some (''Bearer '' @ the (au_token a)) else None)"
  by (auto simp: authorization_def store_agrees_def)

section \<open>Page loads\<close>

text \<open>What a page load that finds no Supabase session does: the module reads the base URL from the
  storage, the provider starts empty and \<open>init\<close> runs.  \<open>get\<close> answers the probe for a backend, \<open>me\<close>
  is the answer to \<open>/auth/me\<close>.\<close>

definition page_load ::
  "(jval \<Rightarrow> string) \<Rightarrow> (string \<Rightarrow> jval option) \<Rightarrow> (rat \<Rightarrow> string) \<Rightarrow> build_env \<Rightarrow> page_location
     \<Rightarrow> (string \<Rightarrow> jval option) \<Rightarrow> string + jval \<Rightarrow> 'a auth_scheme \<Rightarrow> 'a auth_scheme" where
  "page_load sf parse fmt env l get me a =
     init sf parse fmt None (getEditionFromBackend fmt env l get) me
       (a\<lparr>apiBaseURL := detectBaseURL env (local_storage a),
          default_base := detectBaseURL env (local_storage a),
          au_loading := True, au_token := None, au_user := JNull, au_edition := community,
          au_reachable := False\<rparr>)"

text \<open>A visit: operations of the provider, page loads, and answers of the API with an error, which
  load the login page when they end the session.\<close>

datatype visit_event =
  Act auth_event
| Load "string \<Rightarrow> jval option" "string + jval"
| Refused api_error "string \<Rightarrow> jval option" "string + jval"

definition ends_session :: "api_error \<Rightarrow> 'a auth_scheme \<Rightarrow> bool" where
  "ends_session err a \<longleftrightarrow> ae_status err = Some 401 \<and> \<not> isAuthCall (or_opt (ae_url err) [])
     \<and> isDemoSessionActive (Some (local_storage a)) = Some False"

fun visit_step ::
  "(jval \<Rightarrow> string) \<Rightarrow> (string \<Rightarrow> jval option) \<Rightarrow> (rat \<Rightarrow> string) \<Rightarrow> bool \<Rightarrow> build_env \<Rightarrow> page_location
     \<Rightarrow> string option \<Rightarrow> string \<Rightarrow> 'a auth_scheme \<Rightarrow> visit_event \<Rightarrow> 'a auth_scheme" where
  "visit_step sf parse fmt c env l pu origin a (Act e) = auth_step sf fmt c a e"
| "visit_step sf parse fmt c env l pu origin a (Load get me) = page_load sf parse fmt env l get me a"
| "visit_step sf parse fmt c env l pu origin a (Refused err get me) =
     (if ends_session err a
      then page_load sf parse fmt env l get me (handle_error pu origin err a)
      else handle_error pu origin err a)"

text \<open>What a storage must hold for a page load to find a session in it; an empty one does.\<close>

definition loadable :: "(string \<Rightarrow> jval option) \<Rightarrow> storage \<Rightarrow> bool" where
  "loadable parse s \<longleftrightarrow> sg_mode s = Usable \<and> sg_items s ''auth_token'' \<noteq> Some []
     \<and> (sg_items s ''auth_user'' = None \<or> stored_user parse s)"

lemma visit_loadable: "visit_ok parse a \<Longrightarrow> loadable parse (local_storage a)"
  by (auto simp: visit_ok_def loadable_def store_agrees_def user_agrees_def)

lemma normalize_any_edition [simp]: "normalize_any (edition_json e) = Some e"
  by (simp add: normalize_any_def edition_json_def)

lemma edition_json_truthy [simp]: "js_truthy (edition_json e)"
  by (simp add: edition_json_def)

lemma loadable_token: "t \<noteq> Some [] \<Longrightarrow> \<not> truthy_opt t \<Longrightarrow> t = None"
  by (cases t) auto

lemma readStoredAuth_loadable:
  assumes "loadable parse s"
  shows "\<exists>u. readStoredAuth parse s =
      (sg_items s ''auth_token'', u, normalizeEdition (sg_items s ''app_edition''))
    \<and> (if sg_items s ''auth_user'' = None then u = JNull
       else \<exists>fs. u = JObj fs \<and> js_prop u ''demo'' = JBool
         (js_truthy (js_prop (the (parse (the (sg_items s ''auth_user'')))) ''demo'')
          \<or> sg_items s DEMO_STORAGE_KEY = Some ''1'' \<or> isClientDemoToken (sg_items s ''auth_token'')))"
  using assms
  by (auto simp: loadable_def stored_user_def readStoredAuth_def js_set_def Let_def)

lemma backend_keeps:
  assumes "sg_mode (local_storage a) = Usable" "getEditionFromBackend fmt env l get a = (r, a')"
  shows "sg_mode (local_storage a') = Usable"
    and "k \<noteq> ''api_base_url'' \<Longrightarrow> sg_items (local_storage a') k = sg_items (local_storage a) k"
  using assms
  by (auto simp: getEditionFromBackend_def setAPIBaseURL_def split: if_splits option.splits)

lemma drop_stale_keeps:
  assumes "sg_mode (local_storage a) = Usable"
  shows "sg_mode (local_storage (drop_stale_api a)) = Usable"
    and "k \<noteq> ''api_base_url'' \<Longrightarrow>
      sg_items (local_storage (drop_stale_api a)) k = sg_items (local_storage a) k"
  using assms by (auto simp: drop_stale_api_def setAPIBaseURL_def split: option.split)

text \<open>What a page load makes of a session: the stored one, or the stored token with the profile and the
  edition the backend answers.\<close>

lemma page_load_cases:
  assumes s: "loadable parse (local_storage a)"
    and st: "readStoredAuth parse (local_storage a) = (tk, u, e)"
    and a': "a' = page_load sf parse fmt env l get me a"
  obtains "sg_mode (local_storage a') = Usable" "au_token a' = tk" "au_user a' = u" "au_edition a' = e"
      "\<And>k. k \<noteq> ''api_base_url'' \<Longrightarrow> sg_items (local_storage a') k = sg_items (local_storage a) k"
  | data e' where "sg_mode (local_storage a') = Usable" "au_token a' = tk" "truthy_opt tk"
      "\<not> isClientDemoToken tk" "au_user a' = me_user fmt data u e' False" "au_edition a' = e'"
      "sg_items (local_storage a') ''auth_token'' = sg_items (local_storage a) ''auth_token''"
      "sg_items (local_storage a') ''auth_user'' = Some (sf (me_user fmt data u e' False))"
      "sg_items (local_storage a') ''app_edition'' = Some (edition_name e')"
proof -
  let ?a = "a\<lparr>apiBaseURL := detectBaseURL env (local_storage a),
          default_base := detectBaseURL env (local_storage a),
          au_loading := True, au_token := None, au_user := JNull, au_edition := community,
          au_reachable := False\<rparr>"
  obtain remote a1 where b: "getEditionFromBackend fmt env l get ?a = (remote, a1)" by fastforce
  define re where "re = (case remote of None \<Rightarrow> JUndef | Some (data, _) \<Rightarrow> js_prop data ''edition'')"
  define a2 where "a2 = (if js_truthy re then syncAPIBaseURL a1 else drop_stale_api a1)"
  have u: "sg_mode (local_storage ?a) = Usable" using s by (simp add: loadable_def)
  note k1 = backend_keeps [OF u b]
  have k2: "sg_mode (local_storage a2) = Usable"
    "\<And>k. k \<noteq> ''api_base_url'' \<Longrightarrow> sg_items (local_storage a2) k = sg_items (local_storage a) k"
    using k1 drop_stale_keeps [OF k1(1)] by (simp_all add: a2_def)
  define synced where "synced = (if truthy_opt tk \<and> \<not> isClientDemoToken tk \<and> js_truthy re
            then (case me of
                    Inl _ \<Rightarrow> None
                  | Inr d \<Rightarrow>
                      (let data = js_or d (JObj [])
                       in map_option (\<lambda>e'. (me_user fmt data u e' False, e'))
                            (normalize_any (js_or (js_prop data ''edition'') (edition_json e)))))
            else None)"
  have a'_eq: "a' = (case synced of
           None \<Rightarrow> a2\<lparr>au_reachable := js_truthy re, au_token := tk, au_user := u,
                      au_edition := e, au_loading := False\<rparr>
         | Some (u, e) \<Rightarrow>
             a2\<lparr>local_storage := attempt [set_item ''auth_user'' (sf u),
                    (\<lambda>s. Some (setEditionPreference e s))] (local_storage a2),
                au_reachable := js_truthy re, au_token := tk, au_user := u,
                au_edition := e, au_loading := False\<rparr>)"
    unfolding a' page_load_def init_def
    by (cases me; cases remote)
      (auto simp: st b session_user_def Let_def re_def a2_def synced_def split: option.split)
  show ?thesis
  proof (cases synced)
    case None
    with k2 show ?thesis by (intro that(1)) (simp_all add: a'_eq)
  next
    case (Some ue)
    then obtain data e' where "ue = (me_user fmt data u e' False, e')"
      and "truthy_opt tk" "\<not> isClientDemoToken tk"
      by (auto simp: synced_def Let_def split: if_splits sum.splits)
    with k2 Some show ?thesis
      by (intro that(2)) (simp_all add: a'_eq setEditionPreference_def)
  qed
qed

lemma page_load_ok:
  assumes js: "json sf parse" and s: "loadable parse (local_storage a)"
  shows "visit_ok parse (page_load sf parse fmt env l get me a)"
proof -
  obtain u where st: "readStoredAuth parse (local_storage a) =
      (sg_items (local_storage a) ''auth_token'', u, normalizeEdition (sg_items (local_storage a) ''app_edition''))"
    and u: "if sg_items (local_storage a) ''auth_user'' = None then u = JNull else \<exists>fs. u = JObj fs"
    using readStoredAuth_loadable [OF s] by (auto split: if_splits)
  from s u show ?thesis
    using json.stored_object [OF js] json.stringify_not_Nil [OF js]
    by (cases rule: page_load_cases [OF s st refl, of sf fmt env l get me])
      (auto simp: visit_ok_def store_agrees_def user_agrees_def stored_user_def loadable_def me_user_def
        dest: loadable_token split: if_splits)
qed

lemma handle_error_loadable:
  "visit_ok parse a \<Longrightarrow> loadable parse (local_storage (handle_error pu origin err a))"
  using visit_loadable [of parse a]
  by (auto simp: handle_error_def loadable_def stored_user_def Let_def)

lemma handle_error_idle:
  "sg_mode (local_storage a) = Usable \<Longrightarrow> \<not> ends_session err a \<Longrightarrow> handle_error pu origin err a = a"
  by (auto simp: handle_error_def ends_session_def isDemoSessionActive_def isClientDemoToken_def Let_def)

lemma visit_step_ok:
  "json sf parse \<Longrightarrow> visit_ok parse a \<Longrightarrow> visit_ok parse (visit_step sf parse fmt c env l pu origin a e)"
  by (cases e)
    (auto simp: auth_step_ok page_load_ok visit_loadable handle_error_loadable handle_error_idle visit_usable)

lemma visit_machine:
  "json sf parse \<Longrightarrow> invariant_machine (visit_step sf parse fmt c env l pu origin) (visit_ok parse)"
  by unfold_locales (rule visit_step_ok)

interpretation session: invariant_machine
  "visit_step unary_stringify unary_parse fmt c env l pu origin" "visit_ok unary_parse"
  for fmt c env l pu origin
  by (rule visit_machine [OF unary_json])

text \<open>A demo that no server knows survives page loads.\<close>

fun in_demo :: "visit_event \<Rightarrow> bool" where
  "in_demo (Act e) = within_session e"
| "in_demo _ = True"

definition demo_visit :: "(string \<Rightarrow> jval option) \<Rightarrow> 'a auth_scheme \<Rightarrow> bool" where
  "demo_visit parse a \<longleftrightarrow> offline_demo a \<and> visit_ok parse a"

lemma demo_visit_active: "demo_visit parse a \<Longrightarrow> isDemoSessionActive (Some (local_storage a)) = Some True"
  by (auto simp: demo_visit_def offline_demo_def visit_ok_def isClientDemoToken_def isDemoSessionActive_def
      store_agrees_def CLIENT_DEMO_TOKEN_def)

lemma page_load_demo:
  assumes js: "json sf parse" and d: "demo_visit parse a"
  shows "demo_visit parse (page_load sf parse fmt env l get me a)"
proof -
  let ?s = "local_storage a"
  have v: "visit_ok parse a" using d by (simp add: demo_visit_def)
  note s = visit_loadable [OF v]
  have tk: "sg_items ?s ''auth_token'' = Some CLIENT_DEMO_TOKEN"
    and e: "normalizeEdition (sg_items ?s ''app_edition'') = community"
    and us: "sg_items ?s ''auth_user'' \<noteq> None"
    using d by (auto simp: demo_visit_def offline_demo_def visit_ok_def store_agrees_def user_agrees_def
        stored_user_def CLIENT_DEMO_TOKEN_def)
  obtain u where st: "readStoredAuth parse ?s = (Some CLIENT_DEMO_TOKEN, u, community)"
    and u: "js_prop u ''demo'' = JBool True"
    using readStoredAuth_loadable [OF s] us by (auto simp: tk e isClientDemoToken_def split: if_splits)
  have "offline_demo (page_load sf parse fmt env l get me a)"
    using u by (cases rule: page_load_cases [OF s st refl, of sf fmt env l get me])
      (auto simp: offline_demo_def isClientDemoToken_def)
  with page_load_ok [OF js s] show ?thesis by (simp add: demo_visit_def)
qed

lemma demo_visit_step:
  assumes js: "json sf parse" and d: "demo_visit parse a" and e: "in_demo e"
  shows "demo_visit parse (visit_step sf parse fmt c env l pu origin a e)"
proof (cases e)
  case (Act x)
  with assms show ?thesis by (simp add: demo_visit_def auth_step_ok offline_demo_step)
next
  case (Load get me)
  with page_load_demo [OF js d] show ?thesis by simp
next
  case (Refused err get me)
  have "\<not> ends_session err a" using demo_visit_active [OF d] by (simp add: ends_session_def)
  moreover have "sg_mode (local_storage a) = Usable"
    using d visit_usable [of parse a] by (simp add: demo_visit_def)
  ultimately show ?thesis
    using d Refused by (simp add: handle_error_idle)
qed

lemma demo_visit_machine:
  "json sf parse \<Longrightarrow> guarded_machine (visit_step sf parse fmt c env l pu origin) in_demo (demo_visit parse)"
  by unfold_locales (rule demo_visit_step)

interpretation demo_visits: guarded_machine
  "visit_step unary_stringify unary_parse fmt c env l pu origin" in_demo "demo_visit unary_parse"
  for fmt c env l pu origin
  by (rule demo_visit_machine [OF unary_json])

section \<open>Properties\<close>

text \<open>Witness data.\<close>

definition ex_auth :: "(string \<times> string) list \<Rightarrow> bool \<Rightarrow> auth" where
  "ex_auth kvs reach = \<lparr>apiBaseURL = API_PREFIX, local_storage = storage_of kvs, default_base = API_PREFIX,
     session_storage = storage_of [], location_href = ''/'', au_loading = False, au_token = None,
     au_user = JNull, au_edition = community, au_reachable = reach\<rparr>"

definition ex_answer :: jval where
  "ex_answer = JObj [(''access_token'', JStr ''jwt''), (''edition'', JStr ''pro''),
     (''user'', JObj [(''id'', JStr ''u1''), (''role'', JStr ''admin'')])]"

lemma ex_auth_usable: "sg_mode (local_storage (ex_auth kvs r)) = Usable"
  by (simp add: ex_auth_def)

definition ex_env :: build_env where
  "ex_env = \<lparr>REACT_APP_API_URL = None, REACT_APP_EDITION = None\<rparr>"

definition ex_local :: page_location where
  "ex_local = \<lparr>lc_protocol = ''http:'', lc_hostname = ''localhost''\<rparr>"

text \<open>A backend on every port.\<close>

definition ex_backend :: "string \<Rightarrow> jval option" where
  "ex_backend url = Some (JObj [(''edition'', JStr ''oss'')])"

text \<open>C3: requests carry the session of the client.  The visit starts with a page load from a usable
  browser storage, empty or left by earlier visits, and goes on with any sequence of sign-ins,
  registrations, MFA checks, demo starts, profile refreshes, edition changes, logouts, further page
  loads and refused requests, whatever the servers answer, as long as no page load finds a Supabase
  session.  Then the Authorization header is the bearer token of the provider's own state, absent
  without a session and in a demo, and the storage holds that token and that edition for the next
  page load to read.\<close>

theorem session_agrees:
  assumes js: "json sf parse"
    and s: "sg_mode (local_storage a0) = Usable" "sg_items (local_storage a0) ''auth_token'' \<noteq> Some []"
      "sg_items (local_storage a0) ''auth_user'' = None \<or> stored_user parse (local_storage a0)"
    and a': "a' = run (visit_step sf parse fmt c env l pu origin)
      (page_load sf parse fmt env l get me a0) es"
  shows "authorization a' =
      Some (if truthy_opt (au_token a') \<and> \<not> isClientDemoToken (au_token a')
            then Some (''Bearer '' @ the (au_token a')) else None)
    \<and> sg_items (local_storage a') ''auth_token'' = (if truthy_opt (au_token a') then au_token a' else None)
    \<and> (\<exists>user. readStoredAuth parse (local_storage a') =
         (if truthy_opt (au_token a') then au_token a' else None, user, au_edition a'))"
proof -
  have "loadable parse (local_storage a0)" using s by (simp add: loadable_def)
  then have v: "visit_ok parse a'"
    unfolding a' by (rule invariant_machine.run_inv [OF visit_machine [OF js] page_load_ok [OF js]])
  with readStoredAuth_loadable [OF visit_loadable [OF v]] show ?thesis
    by (auto simp: visit_ok_def authorization_agrees) (auto simp: store_agrees_def)
qed

text \<open>A first visit: the session of a sign-in is sent after a reload, with the edition chosen before.\<close>

definition ex_visit :: auth where
  "ex_visit = run (visit_step unary_stringify unary_parse (\<lambda>_. []) False ex_env ex_local None [])
     (page_load unary_stringify unary_parse (\<lambda>_. []) ex_env ex_local ex_backend (Inl []) (ex_auth [] False))
     [Act (Login ''m'' (Inr ex_answer) (Inl []) None), Act (SetEdition enterprise)]"

lemma ex_visit_token: "au_token ex_visit = Some ''jwt''"
proof -
  have pro: "normalize_any (JStr ''pro'') = Some professional"
    by (simp add: normalize_any_def normalizeEdition_def str_lower_def char_lower_def)
  have "isLocalHttp ex_local" by (simp add: isLocalHttp_def ex_local_def)
  moreover have "candidates ex_env \<noteq> []" by (simp add: candidates_eq split: option.split)
  ultimately have "au_reachable (page_load unary_stringify unary_parse (\<lambda>_. []) ex_env ex_local ex_backend (Inl [])
      (ex_auth [] False))"
    by (cases "candidates ex_env")
      (auto simp: page_load_def init_def Let_def getEditionFromBackend_def ex_backend_def split: prod.split)
  then show ?thesis
    by (simp add: ex_visit_def login_def complete_answer_def completeAuth_def ex_answer_def pro setEdition_def)
qed

theorem session_agrees_witness:
  "authorization ex_visit = Some (Some ''Bearer jwt'')"
proof -
  have s: "sg_mode (local_storage (ex_auth [] False)) = Usable"
    "sg_items (local_storage (ex_auth [] False)) ''auth_token'' \<noteq> Some []"
    "sg_items (local_storage (ex_auth [] False)) ''auth_user'' = None
      \<or> stored_user unary_parse (local_storage (ex_auth [] False))"
    by (simp_all add: ex_auth_def)
  from session_agrees [OF unary_json s ex_visit_def] show ?thesis
    by (simp add: ex_visit_token isClientDemoToken_def CLIENT_DEMO_TOKEN_def)
qed

text \<open>C4: a persisted session is read back by the next page load: the same token, the same edition, and
  every defined field of the user as JSON keeps it, the demo flag aside, which is recomputed from the
  flag, the storage and the token.\<close>

theorem session_reload:
  assumes js: "json stringify parse" and s: "sg_mode (local_storage a) = Usable"
    and u: "distinct (map fst fs)" "k \<noteq> ''demo''" "js_prop (JObj fs) k \<noteq> JUndef"
  shows "\<exists>user. readStoredAuth parse (local_storage (persist stringify (Some (c # t)) (JObj fs) e a)) =
      (Some (c # t), user, e)
    \<and> js_prop user k = json_clean (js_prop (JObj fs) k)
    \<and> js_prop user ''demo'' = JBool (js_truthy (js_prop (json_clean (JObj fs)) ''demo'')
        \<or> sg_items (local_storage a) DEMO_STORAGE_KEY = Some ''1'' \<or> c # t = CLIENT_DEMO_TOKEN)"
proof -
  let ?s = "local_storage (persist stringify (Some (c # t)) (JObj fs) e a)"
  note st = persist_storage [OF s, of stringify "Some (c # t)" "JObj fs" e]
  obtain gs where gs: "json_clean (JObj fs) = JObj gs" by simp
  have parse: "parse (stringify (JObj fs)) = Some (JObj gs)"
    using json.stored_object [OF js, of fs] gs by simp
  have "readStoredAuth parse ?s = (Some (c # t), JObj (AList.update ''demo'' (JBool
      (js_truthy (js_prop (JObj gs) ''demo'') \<or> sg_items (local_storage a) DEMO_STORAGE_KEY = Some ''1''
       \<or> c # t = CLIENT_DEMO_TOKEN)) gs), e)"
    using st(1) parse json.stringify_not_Nil [OF js]
    by (simp add: readStoredAuth_def st(2) js_set_def isClientDemoToken_def)
  moreover have "js_prop (JObj gs) k = json_clean (js_prop (JObj fs) k)"
    using clean_prop [OF u(1,3)] gs by simp
  ultimately show ?thesis using u(2) gs by simp
qed

theorem session_reload_witness:
  "\<exists>user. readStoredAuth unary_parse (local_storage (persist unary_stringify (Some ''jwt'')
      (JObj [(''name'', JStr ''Ann'')]) professional (ex_auth [] True))) = (Some ''jwt'', user, professional)
    \<and> js_prop user ''name'' = JStr ''Ann''"
  using session_reload [OF unary_json ex_auth_usable [of "[]" True], where fs = "[(''name'', JStr ''Ann'')]" and k = "''name''" and c = "CHR ''j''" and t = "''wt''" and e = professional]
  by auto

text \<open>C5: an offline demo session cannot leave the Community edition from inside the provider: after the
  demo login without a backend, no sequence of edition changes, profile refreshes, refused requests
  and page loads (with or without a backend by then, but no Supabase session) opens an Enterprise
  guard, its token is never sent, and the demo keeps answering the scan API.  The edition switcher of
  the public pages is outside these operations: it writes the preference into the storage itself,
  and a page load after it does open the guard.\<close>

theorem demo_stays_community:
  assumes js: "json sf parse" and s: "sg_mode (local_storage a) = Usable"
    and "\<not> au_reachable a" and es: "list_all in_demo es"
    and a': "a' = run (visit_step sf parse fmt c env l pu origin) (snd (demoLogin sf fmt r a)) es"
  shows "RequireEnterprise layers a' x = Locked \<and> au_edition a' = community \<and> isDemo a'
    \<and> authorization a' = Some None \<and> isDemoSessionActive (Some (local_storage a')) = Some True"
proof -
  have "demo_visit parse (snd (demoLogin sf fmt r a))"
    using assms(3) by (simp add: demo_visit_def demoLogin_offline demoLogin_offline_ok [OF js s])
  then have d: "demo_visit parse a'"
    unfolding a' by (rule guarded_machine.inv_after [OF demo_visit_machine [OF js] _ es])
  then have "authorization a' = Some None"
    by (simp add: demo_visit_def visit_ok_def authorization_agrees offline_demo_def isClientDemoToken_def)
  with d demo_visit_active [OF d] show ?thesis
    by (simp add: demo_visit_def offline_demo_def RequireEnterprise_def isPaidEdition_def
        isEnterpriseEdition_def isDemo_def)
qed

theorem demo_stays_community_witness:
  "RequireEnterprise True (run (visit_step unary_stringify unary_parse (\<lambda>_. []) False ex_env ex_local None [])
     (snd (demoLogin unary_stringify (\<lambda>_. []) (Inl []) (ex_auth [] False)))
     [Act (SetEdition enterprise), Load ex_backend (Inl []), Act (RefreshMe (Inl [])),
      Act (SetEdition enterprise)]) () = Locked"
proof -
  have "\<not> au_reachable (ex_auth [] False)"
    "list_all in_demo [Act (SetEdition enterprise), Load ex_backend (Inl []), Act (RefreshMe (Inl [])),
      Act (SetEdition enterprise)]"
    by (simp_all add: ex_auth_def)
  then show ?thesis
    by (rule demo_stays_community [OF unary_json ex_auth_usable _ _ refl, THEN conjunct1])
qed

text \<open>C6: logging out ends the session in the React state of the provider, in both storages, on the wire
  and for the guards: the token, the user and the demo mark are gone, with both marks of the guided
  tour in the session storage; only the edition is kept.\<close>

theorem logout_clears:
  assumes s: "sg_mode (local_storage a) = Usable" "sg_mode (session_storage a) = Usable"
  shows "\<not> isAuthenticated (logout stringify a) \<and> \<not> isDemo (logout stringify a)
    \<and> authorization (logout stringify a) = Some None
    \<and> isDemoSessionActive (Some (local_storage (logout stringify a))) = Some False
    \<and> readStoredAuth parse (local_storage (logout stringify a)) = (None, JNull, au_edition a)
    \<and> sg_items (session_storage (logout stringify a)) TRAIL_ACTIVE_KEY = None
    \<and> sg_items (session_storage (logout stringify a)) TRAIL_STEP_KEY = None
    \<and> (\<not> au_loading a \<longrightarrow> RequireAuth (logout stringify a) x = Redirect ''/login'')"
proof -
  let ?b = "a\<lparr>local_storage := (local_storage a)\<lparr>sg_items := (sg_items (local_storage a))(DEMO_STORAGE_KEY := None)\<rparr>,
    session_storage := (session_storage a)\<lparr>sg_items := (sg_items (session_storage a))
      (TRAIL_ACTIVE_KEY := None, TRAIL_STEP_KEY := None)\<rparr>\<rparr>"
  have l: "logout stringify a = persist stringify None JNull (au_edition a) ?b"
    using s by (simp add: logout_def)
  have u: "sg_mode (local_storage ?b) = Usable" using s by simp
  note st = persist_storage [OF u, of stringify None JNull "au_edition a"]
  show ?thesis
    unfolding l
    using st
    by (simp add: isAuthenticated_def isDemo_def authorization_def isDemoSessionActive_def readStoredAuth_def
        RequireAuth_def hasStoredSession_def isClientDemoToken_def)
qed

theorem logout_clears_witness:
  "RequireAuth (logout unary_stringify (ex_auth [(''auth_token'', ''jwt''), (''rivicq.demo'', ''1'')] True)) () =
     Redirect ''/login''"
  using logout_clears [where a = "ex_auth [(''auth_token'', ''jwt''), (''rivicq.demo'', ''1'')] True"
      and stringify = unary_stringify and x = "()"]
  by (simp add: ex_auth_def)

text \<open>A sign-in through Supabase leaves the demo mark of an earlier demo session in the storage, so
  the scan API of the signed-in user is still answered by the demo.\<close>

theorem supabase_keeps_demo:
  assumes s: "sg_mode (local_storage a) = Usable" "sg_items (local_storage a) DEMO_STORAGE_KEY = Some ''1''"
    and ok: "supabaseLogin stringify configured answer sess a = (Inr SignedIn, a')"
  shows "isDemoSessionActive (Some (local_storage a')) = Some True
    \<and> (\<forall>r st. fst (demoScanRespond pf now (adapter_config ser a' r) st) \<noteq> None \<longrightarrow>
         (\<exists>x st'. send realAdapter ser pf now a' r st = (FromDemo x, st')))"
proof -
  from ok obtain u where a': "a' = persist stringify (getSessionToken configured sess) (sb_json u) (sa_edition u) a"
    by (auto simp: supabaseLogin_def split: sum.splits)
  have d: "isDemoSessionActive (Some (local_storage a')) = Some True"
    unfolding a' using persist_storage [OF s(1)] s(2) by (simp add: isDemoSessionActive_def)
  have "\<exists>x st'. send realAdapter ser pf now a' r st = (FromDemo x, st')"
    if demo: "fst (demoScanRespond pf now (adapter_config ser a' r) st) \<noteq> None" for r st
  proof -
    obtain x st' where "demoScanRespond pf now (adapter_config ser a' r) st = (Some x, st')"
      using demo by (metis option.exhaust prod.collapse)
    with d have "send realAdapter ser pf now a' r st = (FromDemo x, st')"
      by (simp add: send_def demoAwareAdapter_def)
    then show ?thesis by blast
  qed
  with d show ?thesis by blast
qed

theorem supabase_keeps_demo_witness:
  "isDemoSessionActive (Some (local_storage (snd (supabaseLogin unary_stringify True
     (Inr (Some \<lparr>su_id = ''i'', su_email = Some ''a@b'', su_name = None, su_edition = None\<rparr>)) None
     (ex_auth [(''rivicq.demo'', ''1'')] False))))) = Some True"
proof -
  let ?ans = "Inr (Some \<lparr>su_id = ''i'', su_email = Some ''a@b'', su_name = None, su_edition = None\<rparr>)"
  obtain a' where l: "supabaseLogin unary_stringify True ?ans None (ex_auth [(''rivicq.demo'', ''1'')] False) = (Inr SignedIn, a')"
    by (simp add: supabaseLogin_def signIn_def)
  have "sg_items (local_storage (ex_auth [(''rivicq.demo'', ''1'')] False)) DEMO_STORAGE_KEY = Some ''1''"
    by (simp add: ex_auth_def DEMO_STORAGE_KEY_def)
  from conjunct1 [OF supabase_keeps_demo [OF ex_auth_usable this l]] show ?thesis by (simp add: l)
qed

lemma drop_stale_sel [simp]:
  "au_token (drop_stale_api a) = au_token a" "au_user (drop_stale_api a) = au_user a"
  "default_base (drop_stale_api a) = default_base a"
  by (simp_all add: drop_stale_api_def setAPIBaseURL_def split: option.split)

lemma init_edition:
  assumes "session_user sess = None"
  shows "au_edition (init stringify parse fmt sess backend (Inl e) a) = snd (snd (readStoredAuth parse (local_storage a)))"
proof -
  obtain tk u ed where st: "readStoredAuth parse (local_storage a) = (tk, u, ed)" by (metis prod_cases3)
  obtain remote a1 where b: "backend a = (remote, a1)" by fastforce
  show ?thesis by (simp add: init_def st b assms Let_def)
qed

text \<open>The edition a backend reports is never used: with no Supabase session and no profile, the edition
  after a page load is the stored one, which a first visit finds as Community, whatever backend was
  found and whatever edition it names.\<close>

theorem init_ignores_backend_edition:
  assumes "session_user sess = None"
  shows "au_edition (init stringify parse fmt sess backend (Inl e) a) =
      snd (snd (readStoredAuth parse (local_storage a)))
    \<and> (sg_items (local_storage a) ''app_edition'' = None \<longrightarrow>
         au_edition (init stringify parse fmt sess backend (Inl e) a) = community)"
proof -
  obtain tk u ed where st: "readStoredAuth parse (local_storage a) = (tk, u, ed)" by (metis prod_cases3)
  have "normalizeEdition None = community" by (simp add: normalizeEdition_def)
  then have "ed = community" if "sg_items (local_storage a) ''app_edition'' = None"
    using st that
    by (auto simp: readStoredAuth_def Let_def read_item_def get_item_def split: option.splits if_splits)
  with st show ?thesis by (simp add: init_edition [OF assms])
qed

theorem init_ignores_backend_edition_witness:
  "au_edition (init unary_stringify unary_parse (\<lambda>_. []) None
     (\<lambda>a. (Some (JObj [(''edition'', JStr ''enterprise'')], ''http://localhost:9090/api/v1''), a)) (Inl [])
     (ex_auth [] False)) = community"
proof -
  have "session_user None = None" by (simp add: session_user_def)
  moreover have "sg_items (local_storage (ex_auth [] False)) ''app_edition'' = None" by (simp add: ex_auth_def)
  ultimately show ?thesis using init_ignores_backend_edition by metis
qed

text \<open>Dropping a stale API host does not reach the HTTP client: without a backend the module's base
  URL becomes the relative prefix, but the client keeps sending to the base URL it was created with.\<close>

theorem stale_host_kept:
  assumes "backend a = (None, a)" "sg_mode (local_storage a) = Usable"
    and "sg_items (local_storage a) ''api_base_url'' = Some u" "is_absolute u"
  shows "apiBaseURL (init stringify parse fmt sess backend me a) = API_PREFIX
    \<and> default_base (init stringify parse fmt sess backend me a) = default_base a
    \<and> ax_baseURL (adapter_config ser (init stringify parse fmt sess backend me a) r) = Some (default_base a)"
proof -
  obtain tk us ed where st: "readStoredAuth parse (local_storage a) = (tk, us, ed)" by (metis prod_cases3)
  have n: "normalizeAPIBaseURL ''/api/v1'' = API_PREFIX"
    using normalizeAPIBaseURL_prefix [of "[]"] by (simp add: API_PREFIX_def)
  have "u \<noteq> []" using assms(4) by (auto simp: is_absolute_def starts_with_def)
  then have d: "apiBaseURL (drop_stale_api a) = API_PREFIX"
    using assms(2-4) n by (simp add: drop_stale_api_def setAPIBaseURL_def)
  show ?thesis
    by (simp add: init_def st assms(1) d adapter_config_def Let_def)
qed

theorem stale_host_kept_witness:
  "default_base (init unary_stringify unary_parse (\<lambda>_. []) None (\<lambda>a. (None, a)) (Inl [])
     ((ex_auth [(''api_base_url'', ''http://old:8080'')] False)\<lparr>default_base := ''http://old:8080/api/v1''\<rparr>))
   = ''http://old:8080/api/v1''"
proof -
  let ?a = "(ex_auth [(''api_base_url'', ''http://old:8080'')] False)\<lparr>default_base := ''http://old:8080/api/v1''\<rparr>"
  have "is_absolute ''http://old:8080''" by code_simp
  moreover have "sg_mode (local_storage ?a) = Usable"
    "sg_items (local_storage ?a) ''api_base_url'' = Some ''http://old:8080''"
    by (simp_all add: ex_auth_def)
  ultimately have "default_base (init unary_stringify unary_parse (\<lambda>_. []) None (\<lambda>a. (None, a)) (Inl []) ?a) = default_base ?a"
    using stale_host_kept [of "\<lambda>a. (None, a)" ?a] by blast
  then show ?thesis by simp
qed

text \<open>A Supabase session found at page load does not reach the wire: the provider's token becomes the
  session's, but requests keep carrying the token of the storage, which the load does not update.\<close>

theorem session_token_not_sent:
  assumes "backend a = (None, a)" "sg_mode (local_storage a) = Usable"
    and "session_user sess = Some (u, Some t)"
    and "sg_items (local_storage a) ''auth_token'' = stored"
  shows "au_token (init stringify parse fmt sess backend me a) = Some t
    \<and> authorization (init stringify parse fmt sess backend me a) =
        Some (if truthy_opt stored \<and> \<not> isClientDemoToken stored then Some (''Bearer '' @ the stored) else None)"
proof -
  obtain tk us ed where st: "readStoredAuth parse (local_storage a) = (tk, us, ed)" by (metis prod_cases3)
  have "sg_mode (local_storage (drop_stale_api a)) = Usable
      \<and> sg_items (local_storage (drop_stale_api a)) ''auth_token'' = stored"
    using assms(2,4) by (simp add: drop_stale_api_def setAPIBaseURL_def)
  then show ?thesis
    by (simp add: init_def st assms(1,3) authorization_def Let_def)
qed

theorem session_token_not_sent_witness:
  "au_token (init unary_stringify unary_parse (\<lambda>_. [])
     (Some \<lparr>ss_user = Some \<lparr>su_id = ''i'', su_email = Some ''a@b'', su_name = None, su_edition = None\<rparr>,
            ss_access_token = Some ''new''\<rparr>) (\<lambda>a. (None, a)) (Inl [])
     (ex_auth [(''auth_token'', ''old'')] False)) = Some ''new''
   \<and> authorization (init unary_stringify unary_parse (\<lambda>_. [])
     (Some \<lparr>ss_user = Some \<lparr>su_id = ''i'', su_email = Some ''a@b'', su_name = None, su_edition = None\<rparr>,
            ss_access_token = Some ''new''\<rparr>) (\<lambda>a. (None, a)) (Inl [])
     (ex_auth [(''auth_token'', ''old'')] False)) = Some (Some ''Bearer old'')"
proof -
  let ?sess = "Some \<lparr>ss_user = Some \<lparr>su_id = ''i'', su_email = Some ''a@b'', su_name = None, su_edition = None\<rparr>,
            ss_access_token = Some ''new''\<rparr>"
  obtain u where u: "session_user ?sess = Some (u, Some ''new'')" by (simp add: session_user_def)
  have st: "sg_items (local_storage (ex_auth [(''auth_token'', ''old'')] False)) ''auth_token'' = Some ''old''"
    by (simp add: ex_auth_def)
  from session_token_not_sent [where backend = "\<lambda>a. (None, a)"
      and a = "ex_auth [(''auth_token'', ''old'')] False", OF refl ex_auth_usable u st] show ?thesis
    by (simp add: isClientDemoToken_def CLIENT_DEMO_TOKEN_def)
qed

end
