(* ===== verification/Trail.thy ===== *)
theory Trail
  imports Demo_Constants Contracts
begin

text \<open>
  web/src/demo/trail.ts and context/DemoTrailContext.tsx: the guided tour.  The state is the React
  state of the provider (active, step), the session storage it is kept in, and the location: its
  path and whether its query has trail=1.  The step is a JavaScript number, because the storage may
  hold any text.  An operation that throws is \<open>None\<close>.
\<close>

section \<open>Steps\<close>

record trail_step =
  tr_id :: string
  tr_title :: string
  tr_body :: string
  tr_path :: string
  tr_hint :: "string option"

definition DEMO_TRAIL_STEPS :: "trail_step list" where
  "DEMO_TRAIL_STEPS =
     [
      \<lparr>tr_id = ''welcome'', tr_title = ''Welcome to RivicQ Community'',
       tr_body = (''This live demo is the limited Community edition: Cryptographic Security Posture Management (CBOM + SBOM), dashboard, and discover '' @ arrow_sign @ '' mitigate '' @ arrow_sign @ '' report. QBOM, HBOM, AIBOM, IBOM, HSM connectors, and the DORA pack stay on Enterprise. Sample data is labeled DEMO '' @ em_dash @ '' not customer telemetry.''),
       tr_path = ''/demo'', tr_hint = Some ''Start the tour or jump into the command center.''\<rparr>,
      \<lparr>tr_id = ''overview'', tr_title = ''Security overview'',
       tr_body = ''The command center is the operational home. Read posture first, then findings. Every figure is labeled DEMO or LIVE. Enterprise tiles stay locked until a licensed workspace is selected.'',
       tr_path = ''/dashboard'', tr_hint = Some ''Click a score or finding to open evidence.''\<rparr>,
      \<lparr>tr_id = ''cbom'', tr_title = ''Discover cryptography'',
       tr_body = (''Scan a website, host, IP, server, or declared Kubernetes pod. Hardware/QSIC is a catalog declaration, not a shipped chip. Qiskit scores are a local taxonomy '' @ em_dash @ '' not IBM Quantum hardware.''),
       tr_path = ''/scanner'', tr_hint = Some ''Try https://example.com (website) or pod://prod/api (declared inventory).''\<rparr>,
      \<lparr>tr_id = ''assets'', tr_title = (''CBOM '' @ mid_dot @ '' SBOM intelligence''),
       tr_body = (''Unified CBOM and SBOM on Community. QBOM, HBOM, AIBOM, and IBOM tiles stay locked until a licensed Enterprise workspace. RSA-2048 is classified (Shor family), not automatically '' @ ldquo @ ''vulnerable'' @ rdquo @ ''.''),
       tr_path = ''/bom'', tr_hint = Some ''Open a Community layer, then inspect locked Enterprise tiles.''\<rparr>,
      \<lparr>tr_id = ''devsecops'', tr_title = ''CLI and GitHub Action'',
       tr_body = (''Community includes `rivicq scan .` and the policy gate. The GitHub Action can fail CI on BLOCK findings. This step explains the path '' @ em_dash @ '' it does not attach to your pipeline.''),
       tr_path = ''/tools'', tr_hint = Some ''See how scanners map into the intelligence engine.''\<rparr>,
      \<lparr>tr_id = ''cspm'', tr_title = ''Limited posture view'',
       tr_body = ''Community shows cryptographic posture from scans you run. Cloud account CSPM, conformance packs, and multi-cloud inventory are Enterprise and need customer credentials.'',
       tr_path = ''/cspm'', tr_hint = Some ''This page stays honest when the API is empty.''\<rparr>,
      \<lparr>tr_id = ''editions'', tr_title = ''Enterprise is licensed'',
       tr_body = ''SSO, audit, API keys, DORA pack, live Kubernetes attach, and cloud/HSM/quantum connectors are Enterprise. Switching edition on Pages is a UI preference, not a license grant.'',
       tr_path = ''/switcher'', tr_hint = Some ''Read what Community locks before you evaluate Enterprise.''\<rparr>,
      \<lparr>tr_id = ''remediation'', tr_title = ''Mitigate and report'',
       tr_body = ''Intelligence maps findings to ML-KEM / ML-DSA / SLH-DSA and DORA RTS / NIS2 / BSI controls. Community exports JSON CBOM. Enterprise adds the evidence pack. Exit Demo when you are done.'',
       tr_path = ''/dashboard'', tr_hint = Some ''Open a finding, then Exit Demo.''\<rparr>]"

definition clampTrailStep :: "jsnum \<Rightarrow> jsnum" where
  "clampTrailStep index =
     (if js_lt index (num 0) then num 0
      else if js_le (num (int (length DEMO_TRAIL_STEPS))) index then num (int (length DEMO_TRAIL_STEPS) - 1)
      else index)"

definition trailStepByPath :: "string \<Rightarrow> int" where
  "trailStepByPath pathname =
     (let idx = find_index_from 0 (\<lambda>i s. 0 < i \<and> tr_path s = pathname) DEMO_TRAIL_STEPS
      in if 0 \<le> idx then idx else - 1)"

section \<open>The provider\<close>

record trail =
  tl_active :: bool
  tl_step :: jsnum
  tl_session :: storage
  tl_path :: string
  tl_query :: bool

definition readStep :: "storage \<Rightarrow> jsnum" where
  "readStep s =
     (case get_item s TRAIL_STEP_KEY of
        None \<Rightarrow> num 0
      | Some v \<Rightarrow> clampTrailStep (str_number (or_opt v ''0'')))"

definition readActive :: "storage \<Rightarrow> bool" where
  "readActive s = (case get_item s TRAIL_ACTIVE_KEY of None \<Rightarrow> False | Some v \<Rightarrow> v = Some ''1'')"

definition mount :: "storage \<Rightarrow> string \<Rightarrow> bool \<Rightarrow> trail" where
  "mount s path query =
     \<lparr>tl_active = readActive s, tl_step = readStep s, tl_session = s, tl_path = path, tl_query = query\<rparr>"

definition persist :: "(rat \<Rightarrow> string) \<Rightarrow> bool \<Rightarrow> jsnum \<Rightarrow> trail \<Rightarrow> trail" where
  "persist fmt nextActive nextStep t =
     (let clamped = clampTrailStep nextStep;
          s = (if nextActive
               then attempt [set_item TRAIL_ACTIVE_KEY ''1'', set_item TRAIL_STEP_KEY (num_string fmt clamped)]
               else attempt [remove_item TRAIL_ACTIVE_KEY, remove_item TRAIL_STEP_KEY]) (tl_session t)
      in t\<lparr>tl_active := nextActive, tl_step := clamped, tl_session := s\<rparr>)"

text \<open>The effect that runs after a render.\<close>

definition trail_effect :: "(rat \<Rightarrow> string) \<Rightarrow> trail \<Rightarrow> trail" where
  "trail_effect fmt t = (if tl_query t \<and> \<not> tl_active t then persist fmt True (num 1) t else t)"

text \<open>\<open>navigate(DEMO_TRAIL_STEPS[i].path)\<close>: the paths have no query; an index that is no element
  throws.\<close>

definition step_at :: "jsnum \<Rightarrow> trail_step option" where
  "step_at i =
     (case i of
        Fin r \<Rightarrow>
          (if r = of_int \<lfloor>r\<rfloor> \<and> 0 \<le> r \<and> \<lfloor>r\<rfloor> < int (length DEMO_TRAIL_STEPS)
           then Some (DEMO_TRAIL_STEPS ! nat \<lfloor>r\<rfloor>) else None)
      | _ \<Rightarrow> None)"

definition navigate_to :: "jsnum \<Rightarrow> trail \<Rightarrow> trail option" where
  "navigate_to i t =
     (case step_at i of
        None \<Rightarrow> None
      | Some st \<Rightarrow> Some (t\<lparr>tl_path := tr_path st, tl_query := False\<rparr>))"

definition start :: "(rat \<Rightarrow> string) \<Rightarrow> trail \<Rightarrow> trail option" where
  "start fmt t = navigate_to (num 1) (persist fmt True (num 1) t)"

definition go :: "(rat \<Rightarrow> string) \<Rightarrow> jsnum \<Rightarrow> trail \<Rightarrow> trail option" where
  "go fmt nextStep t =
     (let clamped = clampTrailStep nextStep in navigate_to clamped (persist fmt True clamped t))"

definition next_step :: "(rat \<Rightarrow> string) \<Rightarrow> trail \<Rightarrow> trail option" where
  "next_step fmt t =
     (if js_le (num (int (length DEMO_TRAIL_STEPS) - 1)) (tl_step t) then Some (persist fmt False (num 0) t)
      else go fmt (js_add (tl_step t) (num 1)) t)"

definition go_back :: "(rat \<Rightarrow> string) \<Rightarrow> trail \<Rightarrow> trail option" where
  "go_back fmt t = go fmt (js_max (num 0) (js_sub (tl_step t) (num 1))) t"

definition skip :: "(rat \<Rightarrow> string) \<Rightarrow> trail \<Rightarrow> trail" where
  "skip fmt t = persist fmt False (num 0) t"

section \<open>Operations as events\<close>

datatype trail_event = Start | Next | Back | Skip

definition trail_step_event :: "(rat \<Rightarrow> string) \<Rightarrow> trail \<Rightarrow> trail_event \<Rightarrow> trail option" where
  "trail_step_event fmt t e =
     map_option (trail_effect fmt)
       (case e of Start \<Rightarrow> start fmt t | Next \<Rightarrow> next_step fmt t | Back \<Rightarrow> go_back fmt t | Skip \<Rightarrow> Some (skip fmt t))"

fun trail_machine :: "(rat \<Rightarrow> string) \<Rightarrow> trail option \<Rightarrow> trail_event \<Rightarrow> trail option" where
  "trail_machine fmt None e = None"
| "trail_machine fmt (Some t) e = trail_step_event fmt t e"

section \<open>Invariant\<close>

lemma steps_length [simp]: "length DEMO_TRAIL_STEPS = 8"
  by (simp add: DEMO_TRAIL_STEPS_def)

text \<open>The step is an index of the tour, an inactive tour is at its first step, and the session storage
  says the same as the React state.\<close>

definition trail_ok :: "trail \<Rightarrow> bool" where
  "trail_ok t \<longleftrightarrow> (\<exists>n. tl_step t = num n \<and> 0 \<le> n \<and> n < 8) \<and> (\<not> tl_active t \<longrightarrow> tl_step t = num 0)
     \<and> (sg_mode (tl_session t) = Usable \<longrightarrow>
          readActive (tl_session t) = tl_active t \<and> readStep (tl_session t) = tl_step t)"

lemma clamp_index [simp]: "0 \<le> n \<Longrightarrow> n < 8 \<Longrightarrow> clampTrailStep (num n) = num n"
  by (simp add: clampTrailStep_def)

lemma step_at_index: "0 \<le> n \<Longrightarrow> n < 8 \<Longrightarrow> step_at (num n) = Some (DEMO_TRAIL_STEPS ! nat n)"
  by (simp add: step_at_def)

lemma num_string_index: "0 \<le> n \<Longrightarrow> n < 8 \<Longrightarrow> num_string fmt (num n) = nat_str (nat n)"
proof -
  assume n: "0 \<le> n" "n < 8"
  then have "(of_int 0 :: rat) \<le> of_int n" "(of_int n :: rat) < of_int 8"
    by (simp_all only: of_int_le_iff of_int_less_iff)
  then show ?thesis by simp
qed

lemma digit_number:
  assumes "0 \<le> n" "n < 8"
  shows "str_number (num_string fmt (num n)) = num n"
proof -
  consider "n = 0" | "n = 1" | "n = 2" | "n = 3" | "n = 4" | "n = 5" | "n = 6" | "n = 7"
    using assms by linarith
  then show ?thesis
    unfolding num_string_index [OF assms] by cases simp_all
qed

lemma num_string_not_Nil: "0 \<le> n \<Longrightarrow> n < 8 \<Longrightarrow> num_string fmt (num n) \<noteq> []"
  by (simp only: num_string_index nat_str_def nat_str_base_not_Nil not_False_eq_True)

lemma keys_differ [simp]: "TRAIL_ACTIVE_KEY \<noteq> TRAIL_STEP_KEY" "TRAIL_STEP_KEY \<noteq> TRAIL_ACTIVE_KEY"
  by (simp_all add: demo_keys)

lemma persist_ok:
  assumes "0 \<le> n" "n < 8" "act \<or> n = 0"
  shows "trail_ok (persist fmt act (num n) t)"
proof (cases "sg_mode (tl_session t) = Usable")
  case True
  note d = digit_number [OF assms(1,2), of fmt] num_string_not_Nil [OF assms(1,2), of fmt]
  note c = clamp_index [OF assms(1,2)]
  have "tl_step (persist fmt act (num n) t) = num n" "tl_active (persist fmt act (num n) t) = act"
    by (simp_all only: persist_def Let_def c) simp_all
  moreover have "readActive (tl_session (persist fmt act (num n) t)) = act"
    using True by (simp add: persist_def Let_def readActive_def)
  moreover have "readStep (tl_session (persist fmt act (num n) t)) = num n"
  proof (cases act)
    case act: True
    then have "tl_session (persist fmt act (num n) t) =
        (tl_session t)\<lparr>sg_items := (sg_items (tl_session t))(TRAIL_ACTIVE_KEY \<mapsto> ''1'',
           TRAIL_STEP_KEY \<mapsto> num_string fmt (num n))\<rparr>"
      using True by (simp only: persist_def Let_def c) simp
    with d c True show ?thesis by (simp only: readStep_def) (simp add: or_str_def del: num_string.simps)
  next
    case False
    with True assms show ?thesis
      by (simp add: persist_def Let_def readStep_def clampTrailStep_def)
  qed
  ultimately show ?thesis using assms unfolding trail_ok_def by auto
next
  case False
  have "sg_mode (tl_session (persist fmt act (num n) t)) = sg_mode (tl_session t)"
    by (cases act) (simp_all add: persist_def Let_def attempt_pair_mode del: attempt.simps)
  with False assms show ?thesis by (auto simp: trail_ok_def persist_def Let_def)
qed

lemma trail_ok_cong:
  "tl_active u = tl_active t \<Longrightarrow> tl_step u = tl_step t \<Longrightarrow> tl_session u = tl_session t \<Longrightarrow>
     trail_ok u \<longleftrightarrow> trail_ok t"
  by (simp add: trail_ok_def)

lemma go_index:
  assumes "0 \<le> n" "n < 8"
  obtains t' where "go fmt (num n) t = Some t'" "trail_ok t'" "tl_active t'" "tl_step t' = num n"
    "tl_path t' = tr_path (DEMO_TRAIL_STEPS ! nat n)" "\<not> tl_query t'"
proof -
  let ?p = "persist fmt True (num n) t"
  let ?t = "?p\<lparr>tl_path := tr_path (DEMO_TRAIL_STEPS ! nat n), tl_query := False\<rparr>"
  have g: "go fmt (num n) t = Some ?t"
    using assms by (simp add: go_def navigate_to_def step_at_index Let_def)
  have "trail_ok ?t"
    using persist_ok [OF assms, of True fmt t] trail_ok_cong [of ?t ?p] by simp
  moreover have "tl_active ?t" "tl_step ?t = num n"
    using assms by (simp_all add: persist_def Let_def)
  ultimately show ?thesis using that [OF g] by simp
qed

lemma start_eq_go: "start fmt t = go fmt (num 1) t"
  using clamp_index [of 1] by (simp add: start_def go_def Let_def)

lemma skip_ok: "trail_ok (skip fmt t)"
  using persist_ok [of 0 False fmt t] by (simp add: skip_def)

lemma effect_ok: "trail_ok t \<Longrightarrow> trail_ok (trail_effect fmt t)"
  using persist_ok [of 1 True fmt t] by (simp add: trail_effect_def)

lemma next_ok:
  assumes "trail_ok t"
  obtains t' where "next_step fmt t = Some t'" "trail_ok t'"
proof -
  from assms obtain n where n: "tl_step t = num n" "0 \<le> n" "n < 8" by (auto simp: trail_ok_def)
  show ?thesis
  proof (cases "7 \<le> n")
    case True
    then have "(of_int 7 :: rat) \<le> of_int n" by (simp only: of_int_le_iff)
    with n have "next_step fmt t = Some (skip fmt t)" by (simp add: next_step_def skip_def)
    with that skip_ok show ?thesis by blast
  next
    case False
    then have lt: "\<not> (of_int 7 :: rat) \<le> of_int n" unfolding of_int_le_iff .
    have "js_add (num n) (num 1) = num (n + 1)"
      using n to_num_of_int [of "n + 1"] by simp
    with n lt have "next_step fmt t = go fmt (num (n + 1)) t" by (simp add: next_step_def)
    moreover obtain t' where "go fmt (num (n + 1)) t = Some t'" "trail_ok t'"
      by (rule go_index [of "n + 1" fmt t]) (use n False in simp_all)
    ultimately show ?thesis using that by simp
  qed
qed

lemma back_ok:
  assumes "trail_ok t"
  obtains t' where "go_back fmt t = Some t'" "trail_ok t'"
proof -
  from assms obtain n where n: "tl_step t = num n" "0 \<le> n" "n < 8" by (auto simp: trail_ok_def)
  have "js_sub (num n) (num 1) = num (n - 1)"
    using n to_num_of_int [of "n - 1"] by (simp add: js_sub_def)
  moreover have "js_max (num 0) (num (n - 1)) = num (max 0 (n - 1))"
    using of_int_less_iff [of 0 "n - 1", where 'a = rat] by (auto simp: js_max_def max_def)
  ultimately have "go_back fmt t = go fmt (num (max 0 (n - 1))) t" using n by (simp add: go_back_def)
  moreover obtain t' where "go fmt (num (max 0 (n - 1))) t = Some t'" "trail_ok t'"
    by (rule go_index [of "max 0 (n - 1)" fmt t]) (use n in simp_all)
  ultimately show ?thesis using that by simp
qed

lemma event_ok:
  assumes "trail_ok t"
  shows "\<exists>t'. trail_step_event fmt t e = Some t' \<and> trail_ok t'"
proof (cases e)
  case Start
  obtain t' where "go fmt (num 1) t = Some t'" "trail_ok t'" by (rule go_index [of 1 fmt t]) simp_all
  then show ?thesis using Start by (simp add: trail_step_event_def start_eq_go effect_ok)
next
  case Next
  obtain t' where "next_step fmt t = Some t'" "trail_ok t'" by (rule next_ok [OF assms])
  then show ?thesis using Next by (simp add: trail_step_event_def effect_ok)
next
  case Back
  obtain t' where "go_back fmt t = Some t'" "trail_ok t'" by (rule back_ok [OF assms])
  then show ?thesis using Back by (simp add: trail_step_event_def effect_ok)
next
  case Skip
  then show ?thesis by (simp add: trail_step_event_def effect_ok skip_ok)
qed

interpretation tour: invariant_machine "trail_machine fmt" "\<lambda>o'. \<exists>t. o' = Some t \<and> trail_ok t" for fmt
  by unfold_locales (use event_ok in auto)

section \<open>Properties\<close>

text \<open>No sequence of Start, Next, Back and Skip ever throws or leaves the tour: from a good state every
  reached state is good, that is, its step is an index of the tour and a reload of the page reads the
  same active flag and step back from the session storage.\<close>

theorem trail_safe:
  assumes "trail_ok t"
  shows "\<exists>t'. run (trail_machine fmt) (Some t) es = Some t' \<and> trail_ok t' \<and>
    (sg_mode (tl_session t') = Usable \<longrightarrow>
      tl_active (mount (tl_session t') path q) = tl_active t' \<and> tl_step (mount (tl_session t') path q) = tl_step t')"
proof -
  from assms have "\<exists>u. Some t = Some u \<and> trail_ok u" by simp
  from tour.run_inv [OF this, of fmt es] obtain t' where
    t': "run (trail_machine fmt) (Some t) es = Some t'" "trail_ok t'" by blast
  then show ?thesis by (auto simp: mount_def trail_ok_def)
qed

lemma fresh_ok: "trail_ok (mount (storage_of []) path q)"
  by (auto simp: trail_ok_def mount_def readActive_def readStep_def clampTrailStep_def intro!: exI [of _ 0])

theorem trail_safe_witness:
  "\<exists>t'. run (trail_machine (\<lambda>_. [])) (Some (mount (storage_of []) ''/demo'' False)) [Back, Start, Next, Skip] = Some t'
     \<and> trail_ok t'"
  using trail_safe [OF fresh_ok, of "\<lambda>_. []" "''/demo''" False "[Back, Start, Next, Skip]"] by blast

lemma tour_next:
  assumes "0 \<le> n" "n < 7" "tl_step t = num n"
  shows "trail_step_event fmt t Next = go fmt (num (n + 1)) t"
proof -
  have "\<not> (of_int 7 :: rat) \<le> of_int n" unfolding of_int_le_iff using assms(2) by simp
  moreover have "js_add (num n) (num 1) = num (n + 1)" using assms to_num_of_int [of "n + 1"] by simp
  ultimately have e: "next_step fmt t = go fmt (num (n + 1)) t" using assms(3) by (simp add: next_step_def)
  obtain t' where "go fmt (num (n + 1)) t = Some t'" "tl_active t'"
    by (rule go_index [of "n + 1" fmt t]) (use assms in simp_all)
  with e show ?thesis by (simp add: trail_step_event_def trail_effect_def)
qed

lemma tour_walk_lemma:
  "k \<le> 6 \<Longrightarrow> \<exists>t'. run (trail_machine fmt) (Some t) (Start # replicate k Next) = Some t' \<and> tl_active t'
     \<and> tl_step t' = num (int k + 1) \<and> tl_path t' = tr_path (DEMO_TRAIL_STEPS ! (k + 1)) \<and> \<not> tl_query t'"
proof (induction k)
  case 0
  obtain t' where t': "go fmt (num 1) t = Some t'" "tl_active t'" "tl_step t' = num 1"
    "tl_path t' = tr_path (DEMO_TRAIL_STEPS ! nat 1)" "\<not> tl_query t'"
    by (rule go_index [of 1 fmt t]) simp_all
  then have "trail_step_event fmt t Start = Some t'"
    by (simp add: trail_step_event_def start_eq_go trail_effect_def)
  with t' show ?case by simp
next
  case (Suc k)
  then obtain u where u: "run (trail_machine fmt) (Some t) (Start # replicate k Next) = Some u"
    "tl_step u = num (int k + 1)" by auto
  obtain t' where t': "go fmt (num (int k + 1 + 1)) u = Some t'" "tl_active t'"
    "tl_step t' = num (int k + 1 + 1)" "tl_path t' = tr_path (DEMO_TRAIL_STEPS ! nat (int k + 1 + 1))" "\<not> tl_query t'"
    by (rule go_index [of "int k + 1 + 1" fmt u]) (use Suc.prems in simp_all)
  have "trail_step_event fmt u Next = Some t'"
    using tour_next [of "int k + 1" u fmt] Suc.prems u(2) t'(1) by simp
  moreover have "Start # replicate (Suc k) Next = (Start # replicate k Next) @ [Next]"
    by (simp add: replicate_append_same)
  then have "run (trail_machine fmt) (Some t) (Start # replicate (Suc k) Next) =
      trail_machine fmt (run (trail_machine fmt) (Some t) (Start # replicate k Next)) Next"
    by (simp only: run_simps)
  moreover have "nat (int k + 1 + 1) = Suc k + 1" by simp
  ultimately show ?case using t' u(1) by (simp only: trail_machine.simps) simp
qed

text \<open>The tour walks through its steps in order: k presses of Next after Start, for k up to 6, lead
  to step k + 1 and to its page, and one more press after the last step ends the tour.\<close>

theorem tour_walk:
  assumes "k \<le> 6"
  shows "(\<exists>t'. run (trail_machine fmt) (Some t) (Start # replicate k Next) = Some t' \<and> tl_active t'
      \<and> tl_step t' = num (int k + 1) \<and> tl_path t' = tr_path (DEMO_TRAIL_STEPS ! (k + 1)))
    \<and> (\<exists>t'. run (trail_machine fmt) (Some t) (Start # replicate 7 Next) = Some t' \<and> \<not> tl_active t')"
proof -
  obtain u where u: "run (trail_machine fmt) (Some t) (Start # replicate 6 Next) = Some u"
    "tl_step u = num 7" "\<not> tl_query u"
    using tour_walk_lemma [of 6 fmt t] by auto
  have "trail_step_event fmt u Next = Some (skip fmt u)"
    using u(2,3) by (simp add: trail_step_event_def next_step_def skip_def trail_effect_def persist_def Let_def)
  moreover have "\<not> tl_active (skip fmt u)" by (simp add: skip_def persist_def Let_def)
  moreover have "Start # replicate 7 Next = (Start # replicate 6 Next) @ [Next]"
    by (simp add: eval_nat_numeral)
  then have "run (trail_machine fmt) (Some t) (Start # replicate 7 Next) =
      trail_machine fmt (run (trail_machine fmt) (Some t) (Start # replicate 6 Next)) Next"
    by (simp only: run_simps)
  ultimately have "\<exists>t'. run (trail_machine fmt) (Some t) (Start # replicate 7 Next) = Some t' \<and> \<not> tl_active t'"
    using u(1) by (simp only: trail_machine.simps) simp
  with tour_walk_lemma [OF assms, of fmt t] show ?thesis by metis
qed

theorem tour_walk_witness:
  "(3 :: nat) \<le> 6 \<and> map tr_path (take 5 DEMO_TRAIL_STEPS) =
     [''/demo'', ''/dashboard'', ''/scanner'', ''/bom'', ''/tools''] \<and>
   (\<exists>t'. run (trail_machine (\<lambda>_. [])) (Some (mount (storage_of []) ''/demo'' False)) (Start # replicate 3 Next) = Some t'
      \<and> tl_path t' = ''/tools'')"
proof -
  have "map tr_path (take 5 DEMO_TRAIL_STEPS) = [''/demo'', ''/dashboard'', ''/scanner'', ''/bom'', ''/tools'']"
    by (simp add: DEMO_TRAIL_STEPS_def)
  moreover have "tr_path (DEMO_TRAIL_STEPS ! 4) = ''/tools''" by (simp add: DEMO_TRAIL_STEPS_def)
  moreover have "(3 :: nat) \<le> 6" by simp
  ultimately show ?thesis
    using tour_walk [of 3 "\<lambda>_. []" "mount (storage_of []) ''/demo'' False"] by auto
qed

text \<open>While the address still has trail=1, leaving the tour does not work: the effect of the
  provider starts it again at step 1 at once.\<close>

theorem skip_restarts:
  assumes "tl_query t"
  shows "\<exists>t'. trail_step_event fmt t Skip = Some t' \<and> tl_active t' \<and> tl_step t' = num 1"
  using assms clamp_index [of 1]
  by (simp add: trail_step_event_def trail_effect_def skip_def persist_def Let_def)

theorem skip_restarts_witness:
  "\<exists>t'. trail_step_event (\<lambda>_. []) (mount (storage_of []) ''/demo'' True) Skip = Some t' \<and> tl_active t'"
  using skip_restarts [of "mount (storage_of []) ''/demo'' True" "\<lambda>_. []"] by (auto simp: mount_def)

text \<open>A text in the session storage that is not a number passes the clamp as NaN, and the next press
  of Next, or of Back, throws.\<close>

theorem corrupt_step_throws:
  assumes "sg_mode s = Usable" "sg_items s TRAIL_STEP_KEY = Some v" "v \<noteq> []" "str_number v = NaN"
  shows "tl_step (mount s path q) = NaN \<and> trail_step_event fmt (mount s path q) Next = None
    \<and> trail_step_event fmt (mount s path q) Back = None"
proof -
  have c: "clampTrailStep NaN = NaN" by (simp add: clampTrailStep_def)
  with assms have n: "tl_step (mount s path q) = NaN" by (simp add: mount_def readStep_def)
  then show ?thesis
    by (simp add: trail_step_event_def next_step_def go_back_def go_def c navigate_to_def step_at_def
        js_sub_def js_max_def)
qed

theorem corrupt_step_throws_witness:
  "trail_step_event (\<lambda>_. []) (mount (storage_of [(''rivicq.trail.step'', ''two'')]) ''/demo'' False) Next = None"
proof -
  have "str_number ''two'' = NaN" by code_simp
  then show ?thesis
    using corrupt_step_throws [of "storage_of [(''rivicq.trail.step'', ''two'')]" "''two''" "''/demo''" False "\<lambda>_. []"]
    by (simp add: TRAIL_STEP_KEY_def)
qed

end
