(* ===== verification/Ops_Findings.thy ===== *)
theory Ops_Findings
  imports Contracts Browser Json
begin

text \<open>
  web/src/ops/findings.ts: the findings of a scan as the console shows them, read from whatever the
  API answers, and the searches and views the console keeps in the browser storage as JSON.
\<close>

section \<open>Findings\<close>

record ops_finding =
  of_id :: string
  of_severity :: string
  of_title :: string
  of_description :: string
  of_asset :: string
  of_host :: "string option"
  of_port :: "jsnum option"
  of_protocol :: "string option"
  of_algorithm :: "string option"
  of_evidence :: "string option"
  of_remediation :: "string option"
  of_quantumSafe :: "bool option"
  of_bsiRef :: "string option"
  of_scanId :: "string option"
  of_status :: string

definition normalizeSeverity :: "string option \<Rightarrow> string" where
  "normalizeSeverity raw =
     (let s = str_lower (or_opt raw [])
      in if s = ''critical'' \<or> s = ''high'' \<or> s = ''medium'' \<or> s = ''low'' then s
         else if s = ''info'' \<or> s = ''informational'' then ''info''
         else or_str s ''info'')"

text \<open>\<open>raw.k != null ? String(raw.k) : undefined\<close>, and \<open>typeof raw.k === 'number' ? raw.k : undefined\<close>.\<close>

definition opt_string :: "(rat \<Rightarrow> string) \<Rightarrow> jval \<Rightarrow> string option" where
  "opt_string fmt v = (if not_null v then Some (js_string fmt v) else None)"

fun opt_number :: "jval \<Rightarrow> jsnum option" where
  "opt_number (JNum n) = Some n"
| "opt_number _ = None"

definition normalizeFinding :: "(rat \<Rightarrow> string) \<Rightarrow> jval \<Rightarrow> nat \<Rightarrow> ops_finding" where
  "normalizeFinding fmt raw index =
     (let get = js_prop raw; str = js_string fmt
      in \<lparr>of_id = str (js_or (js_or (get ''id'') (get ''finding_id''))
                     (JStr (''finding-'' @ nat_str (index + 1)))),
          of_severity = normalizeSeverity (Some (str (js_or (get ''severity'') (JStr [])))),
          of_title = str (js_or (js_or (js_or (get ''title'') (get ''message'')) (get ''algorithm''))
                       (JStr ''Untitled finding'')),
          of_description = str (js_or (get ''description'') (JStr [])),
          of_asset = str (js_or (js_or (js_or (get ''asset'') (get ''target_label'')) (get ''host'')) (JStr [])),
          of_host = opt_string fmt (get ''host''),
          of_port = opt_number (get ''port''),
          of_protocol = opt_string fmt (get ''protocol''),
          of_algorithm = opt_string fmt (get ''algorithm''),
          of_evidence = opt_string fmt (get ''evidence''),
          of_remediation = Some (str (js_or (js_or (get ''remediation'') (get ''recommendation'')) (JStr []))),
          of_quantumSafe = Some (js_truthy (js_coalesce (get ''quantum_safe'') (get ''quantumSafe''))),
          of_bsiRef = opt_string fmt (get ''bsi_ref''),
          of_scanId = opt_string fmt (get ''scan_id''),
          of_status = ''open''\<rparr>)"

fun is_array :: "jval \<Rightarrow> bool" where
  "is_array (JArr _) = True"
| "is_array _ = False"

fun elements :: "jval \<Rightarrow> jval list" where
  "elements (JArr vs) = vs"
| "elements _ = []"

definition payload_rows :: "jval \<Rightarrow> jval list" where
  "payload_rows data =
     (if \<not> is_object data then []
      else filter is_object
        (if is_array (js_prop data ''findings'') then elements (js_prop data ''findings'')
         else if is_array data then elements data else []))"

definition parseFindingsPayload :: "(rat \<Rightarrow> string) \<Rightarrow> jval \<Rightarrow> ops_finding list" where
  "parseFindingsPayload fmt data =
     (let rows = payload_rows data
      in map (\<lambda>(row, i). normalizeFinding fmt row i) (zip rows [0..<length rows]))"

section \<open>Scan status\<close>

datatype ops_status =
  Healthy | Warning | Critical | Unknown | Running | Pending | Completed | Failed | Disabled
| Disconnected | NeedsAttention

definition scanStatus :: "string option \<Rightarrow> ops_status" where
  "scanStatus raw =
     (let s = str_lower (or_opt raw [])
      in if s = ''completed'' \<or> s = ''success'' then Completed
         else if s = ''failed'' \<or> s = ''error'' then Failed
         else if s = ''running'' \<or> s = ''in_progress'' then Running
         else if s = ''pending'' \<or> s = ''queued'' \<or> s = ''idle'' then Pending
         else Unknown)"

section \<open>Recent searches\<close>

definition RECENT_KEY :: string where "RECENT_KEY = ''rivicq.ops.recentSearch''"

definition VIEWS_KEY :: string where "VIEWS_KEY = ''rivicq.ops.savedViews''"

text \<open>\<open>const raw = localStorage.getItem(k); const parsed = raw ? JSON.parse(raw) : []\<close>, which may
  throw.\<close>

definition stored_json :: "(string \<Rightarrow> jval option) \<Rightarrow> string \<Rightarrow> storage \<Rightarrow> jval option" where
  "stored_json parse k s =
     (case get_item s k of
        None \<Rightarrow> None
      | Some raw \<Rightarrow> (case raw of None \<Rightarrow> Some (JArr [])
                    | Some t \<Rightarrow> (if t = [] then Some (JArr []) else parse t)))"

definition strings_of :: "jval list \<Rightarrow> string list" where
  "strings_of vs = concat (map (\<lambda>v. case v of JStr t \<Rightarrow> [t] | _ \<Rightarrow> []) vs)"

definition loadRecentSearches :: "(string \<Rightarrow> jval option) \<Rightarrow> storage \<Rightarrow> string list" where
  "loadRecentSearches parse s =
     (case stored_json parse RECENT_KEY s of
        None \<Rightarrow> []
      | Some parsed \<Rightarrow> (if is_array parsed then take 8 (strings_of (elements parsed)) else []))"

definition pushed_searches :: "string \<Rightarrow> string list \<Rightarrow> string list" where
  "pushed_searches q xs = take 8 (q # filter (\<lambda>x. x \<noteq> q) xs)"

definition pushRecentSearch ::
  "(jval \<Rightarrow> string) \<Rightarrow> (string \<Rightarrow> jval option) \<Rightarrow> string \<Rightarrow> storage \<Rightarrow> string list \<times> storage" where
  "pushRecentSearch stringify parse q s =
     (let nxt = pushed_searches q (loadRecentSearches parse s)
      in (nxt, attempt [set_item RECENT_KEY (stringify (JArr (map JStr nxt)))] s))"

section \<open>Saved views\<close>

text \<open>The elements of the stored array are kept as they are, so a view is any JSON value.\<close>

definition saved_view :: "string \<Rightarrow> string \<Rightarrow> string \<Rightarrow> jval" where
  "saved_view i name query = JObj [(''id'', JStr i), (''name'', JStr name), (''query'', JStr query)]"

definition loadSavedViews :: "(string \<Rightarrow> jval option) \<Rightarrow> storage \<Rightarrow> jval list" where
  "loadSavedViews parse s =
     (case stored_json parse VIEWS_KEY s of
        None \<Rightarrow> []
      | Some parsed \<Rightarrow> (if is_array parsed then elements parsed else []))"

text \<open>\<open>views.filter((v) => v.k !== x)\<close>: reading a member of null throws (\<open>None\<close>).\<close>

definition views_without :: "string \<Rightarrow> string \<Rightarrow> jval list \<Rightarrow> jval list option" where
  "views_without k x vs =
     (if list_all not_null vs then Some (filter (\<lambda>v. js_prop v k \<noteq> JStr x) vs) else None)"

definition saveView ::
  "(jval \<Rightarrow> string) \<Rightarrow> (string \<Rightarrow> jval option) \<Rightarrow> nat \<Rightarrow> string \<Rightarrow> string \<Rightarrow> storage \<Rightarrow> (jval list \<times> storage) option" where
  "saveView stringify parse now name query s =
     (case views_without ''name'' name (loadSavedViews parse s) of
        None \<Rightarrow> None
      | Some views \<Rightarrow>
          (let nxt = take 20 (saved_view (''view-'' @ nat_str now) name query # views)
           in Some (nxt, attempt [set_item VIEWS_KEY (stringify (JArr nxt))] s)))"

definition deleteView ::
  "(jval \<Rightarrow> string) \<Rightarrow> (string \<Rightarrow> jval option) \<Rightarrow> string \<Rightarrow> storage \<Rightarrow> (jval list \<times> storage) option" where
  "deleteView stringify parse i s =
     (case views_without ''id'' i (loadSavedViews parse s) of
        None \<Rightarrow> None
      | Some nxt \<Rightarrow> Some (nxt, attempt [set_item VIEWS_KEY (stringify (JArr nxt))] s))"

section \<open>Lemmas\<close>

subsection \<open>Findings\<close>

lemma normalizeSeverity_idem: "normalizeSeverity (Some (normalizeSeverity raw)) = normalizeSeverity raw"
proof -
  have lower: "str_lower ''critical'' = ''critical''" "str_lower ''high'' = ''high''"
    "str_lower ''medium'' = ''medium''" "str_lower ''low'' = ''low''" "str_lower ''info'' = ''info''"
    by code_simp+
  let ?s = "str_lower (or_opt raw [])"
  have ne: "str_lower ?s = ?s" by simp
  consider "?s \<in> {''critical'', ''high'', ''medium'', ''low'', ''info'', ''informational'', []}"
    | "?s \<notin> {''critical'', ''high'', ''medium'', ''low'', ''info'', ''informational'', []}" by blast
  then show ?thesis
  proof cases
    case 1
    then show ?thesis by (elim insertE emptyE) (simp_all add: normalizeSeverity_def Let_def lower or_str_def)
  next
    case 2
    then have "normalizeSeverity raw = ?s" by (simp add: normalizeSeverity_def or_str_def)
    with 2 ne show ?thesis by (simp add: normalizeSeverity_def or_str_def)
  qed
qed

interpretation severity_norm: normaliser "\<lambda>s. normalizeSeverity (Some s)"
  by unfold_locales (rule normalizeSeverity_idem)

lemma normalizeSeverity_not_Nil: "normalizeSeverity raw \<noteq> []"
  by (auto simp: normalizeSeverity_def Let_def or_str_def)

lemma parseFindings_length [simp]: "length (parseFindingsPayload fmt data) = length (payload_rows data)"
  by (simp add: parseFindingsPayload_def Let_def)

lemma parseFindings_nth:
  "i < length (payload_rows data) \<Longrightarrow>
     parseFindingsPayload fmt data ! i = normalizeFinding fmt (payload_rows data ! i) i"
  by (simp add: parseFindingsPayload_def Let_def)

text \<open>A row that brings no identifier.\<close>

definition unnamed :: "jval \<Rightarrow> bool" where
  "unnamed row \<longleftrightarrow> \<not> js_truthy (js_prop row ''id'') \<and> \<not> js_truthy (js_prop row ''finding_id'')"

text \<open>A truthy value that is not an array has a nonempty string.\<close>

lemma number_text_not_Nil: "(\<And>r. fmt r \<noteq> []) \<Longrightarrow> num_string fmt n \<noteq> []"
  by (cases n) (simp_all add: nat_str_def)

lemma js_string_not_Nil:
  "(\<And>r. fmt r \<noteq> []) \<Longrightarrow> js_truthy v \<Longrightarrow> \<not> is_array v \<Longrightarrow> js_string fmt v \<noteq> []"
  by (cases v) (simp_all add: number_text_not_Nil)

subsection \<open>Searches\<close>

lemma strings_of_map [simp]: "strings_of (map JStr xs) = xs"
  by (induction xs) (simp_all add: strings_of_def)

lemma pushed_length [simp]: "length (pushed_searches q xs) \<le> 8"
  by (simp add: pushed_searches_def)

lemma pushed_head: "\<exists>ys. pushed_searches q xs = q # ys \<and> q \<notin> set ys"
  by (auto simp: pushed_searches_def dest: in_set_takeD)

text \<open>What pushing one search after another leaves: the latest occurrences, latest first.\<close>

definition recent_of :: "string list \<Rightarrow> string list" where
  "recent_of qs = take 8 (rev (remdups qs))"

lemma filter_take_distinct:
  "distinct xs \<Longrightarrow> take n (filter (\<lambda>x. x \<noteq> q) (take (Suc n) xs)) = take n (filter (\<lambda>x. x \<noteq> q) xs)"
proof (induction xs arbitrary: n)
  case Nil
  then show ?case by simp
next
  case (Cons x xs)
  show ?case
  proof (cases "x = q")
    case True
    with Cons.prems have nq: "q \<notin> set xs" by simp
    then have "filter (\<lambda>x. x \<noteq> q) xs = xs" by (simp add: filter_id_conv) metis
    moreover from nq have "filter (\<lambda>x. x \<noteq> q) (take n xs) = take n xs"
      by (simp add: filter_id_conv) (metis in_set_takeD)
    ultimately show ?thesis using True by simp
  next
    case False
    with Cons show ?thesis by (cases n) simp_all
  qed
qed

lemma remdups_snoc: "remdups (xs @ [q]) = filter (\<lambda>x. x \<noteq> q) (remdups xs) @ [q]"
  by (induction xs) auto

lemma recent_of_snoc: "recent_of (qs @ [q]) = pushed_searches q (recent_of qs)"
  using filter_take_distinct [of "rev (remdups qs)" 7 q]
  by (simp add: recent_of_def pushed_searches_def remdups_snoc rev_filter [symmetric])

text \<open>The storage after the searches of a session, and what it holds.\<close>

definition push_step ::
  "(jval \<Rightarrow> string) \<Rightarrow> (string \<Rightarrow> jval option) \<Rightarrow> storage \<Rightarrow> string \<Rightarrow> storage" where
  "push_step stringify parse s q = snd (pushRecentSearch stringify parse q s)"

lemma push_mode [simp]: "sg_mode (push_step stringify parse s q) = sg_mode s"
  by (simp add: push_step_def pushRecentSearch_def Let_def set_item_mode split: option.splits)

lemma push_blocked:
  "sg_mode s \<noteq> Usable \<Longrightarrow> push_step stringify parse s q = s"
  by (simp add: push_step_def pushRecentSearch_def Let_def set_item_def)

definition strings_survive :: "(jval \<Rightarrow> string) \<Rightarrow> (string \<Rightarrow> jval option) \<Rightarrow> bool" where
  "strings_survive stringify parse \<longleftrightarrow>
     (\<forall>xs. stringify (JArr (map JStr xs)) \<noteq> [] \<and> parse (stringify (JArr (map JStr xs))) = Some (JArr (map JStr xs)))"

context json
begin

lemma survive: "strings_survive stringify parse"
  by (simp add: strings_survive_def stored_strings stringify_not_Nil)

lemma load_after_push:
  assumes "sg_mode s = Usable"
  shows "loadRecentSearches parse (push_step stringify parse s q)
    = pushed_searches q (loadRecentSearches parse s)"
proof -
  let ?xs = "pushed_searches q (loadRecentSearches parse s)"
  have "sg_items (push_step stringify parse s q) RECENT_KEY = Some (stringify (JArr (map JStr ?xs)))"
    using assms by (simp add: push_step_def pushRecentSearch_def Let_def)
  then have "stored_json parse RECENT_KEY (push_step stringify parse s q) = Some (JArr (map JStr ?xs))"
    using assms stored_strings [of ?xs] stringify_not_Nil by (simp add: stored_json_def)
  then show ?thesis by (simp add: loadRecentSearches_def)
qed

lemma load_after_pushes:
  assumes "sg_mode s = Usable" "loadRecentSearches parse s = recent_of ps"
  shows "loadRecentSearches parse (run (push_step stringify parse) s qs) = recent_of (ps @ qs)"
  using assms
proof (induction qs arbitrary: s ps)
  case Nil
  then show ?case by simp
next
  case (Cons q qs)
  then have "loadRecentSearches parse (push_step stringify parse s q) = recent_of (ps @ [q])"
    by (simp add: load_after_push recent_of_snoc)
  with Cons.IH [of "push_step stringify parse s q" "ps @ [q]"] Cons.prems show ?case by simp
qed

text \<open>Stored views come back cleaned.\<close>

lemma load_views_after:
  assumes "sg_mode s = Usable"
  shows "loadSavedViews parse (attempt [set_item VIEWS_KEY (stringify (JArr vs))] s) = map json_clean vs"
  using assms parse_stringify [of "JArr vs"] stringify_not_Nil
  by (simp add: loadSavedViews_def stored_json_def)

end

lemma clean_saved_view [simp]: "json_clean (saved_view i n q) = saved_view i n q"
  by (simp add: saved_view_def)

lemma view_props [simp]:
  "js_prop (saved_view i n q) ''name'' = JStr n" "js_prop (saved_view i n q) ''id'' = JStr i"
  "js_prop (saved_view i n q) ''query'' = JStr q" "not_null (saved_view i n q)"
  by (simp_all add: saved_view_def not_null_def)

text \<open>The views of a storage that only this module writes.\<close>

definition well_formed_views :: "jval list \<Rightarrow> bool" where
  "well_formed_views vs \<longleftrightarrow> length vs \<le> 20 \<and> distinct (map (\<lambda>v. js_prop v ''name'') vs)
     \<and> (\<forall>v \<in> set vs. \<exists>i n q. v = saved_view i n q)"

lemma well_formed_clean: "well_formed_views vs \<Longrightarrow> map json_clean vs = vs"
  unfolding well_formed_views_def by (induction vs) auto

lemma well_formed_not_null: "well_formed_views vs \<Longrightarrow> list_all not_null vs"
  by (auto simp: well_formed_views_def list_all_iff)

lemma well_formed_filter: "well_formed_views vs \<Longrightarrow> well_formed_views (filter P vs)"
  unfolding well_formed_views_def
  by (auto simp: distinct_map inj_on_def intro: order_trans [OF length_filter_le])

lemma well_formed_take: "well_formed_views vs \<Longrightarrow> well_formed_views (take n vs)"
  unfolding well_formed_views_def by (auto simp: take_map [symmetric] dest: in_set_takeD)


text \<open>A storage whose views this module wrote, and the steps that change them.\<close>

definition views_ok :: "(string \<Rightarrow> jval option) \<Rightarrow> storage \<Rightarrow> bool" where
  "views_ok parse s \<longleftrightarrow> sg_mode s = Usable \<and> well_formed_views (loadSavedViews parse s)"

datatype view_event = Save nat string string | Delete string

fun view_step ::
  "(jval \<Rightarrow> string) \<Rightarrow> (string \<Rightarrow> jval option) \<Rightarrow> storage \<Rightarrow> view_event \<Rightarrow> storage" where
  "view_step stringify parse s (Save now name query) =
     (case saveView stringify parse now name query s of None \<Rightarrow> s | Some (_, s') \<Rightarrow> s')"
| "view_step stringify parse s (Delete i) =
     (case deleteView stringify parse i s of None \<Rightarrow> s | Some (_, s') \<Rightarrow> s')"

definition saved_views :: "nat \<Rightarrow> string \<Rightarrow> string \<Rightarrow> jval list \<Rightarrow> jval list" where
  "saved_views now name query vs =
     take 20 (saved_view (''view-'' @ nat_str now) name query # filter (\<lambda>v. js_prop v ''name'' \<noteq> JStr name) vs)"

lemma well_formed_saved: "well_formed_views vs \<Longrightarrow> well_formed_views (saved_views now name query vs)"
proof -
  assume w: "well_formed_views vs"
  let ?v = "saved_view (''view-'' @ nat_str now) name query"
  let ?vs = "filter (\<lambda>v. js_prop v ''name'' \<noteq> JStr name) vs"
  have d: "distinct (map (\<lambda>v. js_prop v ''name'') (?v # ?vs))"
    using well_formed_filter [OF w] by (auto simp: well_formed_views_def)
  have a: "\<forall>v \<in> set (?v # ?vs). \<exists>i n q. v = saved_view i n q"
    using w by (auto simp: well_formed_views_def)
  from d have "distinct (map (\<lambda>v. js_prop v ''name'') (take 20 (?v # ?vs)))"
    by (simp only: take_map [symmetric] distinct_take)
  with a show ?thesis
    unfolding saved_views_def well_formed_views_def by (intro conjI ballI) (simp, simp, meson in_set_takeD)
qed

context json
begin

lemma saveView_ok:
  assumes "views_ok parse s"
  shows "\<exists>s'. saveView stringify parse now name query s =
      Some (saved_views now name query (loadSavedViews parse s), s')
    \<and> sg_mode s' = Usable \<and> loadSavedViews parse s' = saved_views now name query (loadSavedViews parse s)"
proof -
  let ?vs = "loadSavedViews parse s"
  from assms have w: "well_formed_views ?vs" and u: "sg_mode s = Usable" by (simp_all add: views_ok_def)
  have "views_without ''name'' name ?vs = Some (filter (\<lambda>v. js_prop v ''name'' \<noteq> JStr name) ?vs)"
    using w by (simp add: views_without_def well_formed_not_null)
  then have "saveView stringify parse now name query s =
      Some (saved_views now name query ?vs, attempt [set_item VIEWS_KEY (stringify (JArr (saved_views now name query ?vs)))] s)"
    by (simp add: saveView_def saved_views_def Let_def)
  moreover have "loadSavedViews parse
      (attempt [set_item VIEWS_KEY (stringify (JArr (saved_views now name query ?vs)))] s) = saved_views now name query ?vs"
    using load_views_after [OF u] well_formed_clean [OF well_formed_saved [OF w]] by simp
  ultimately show ?thesis using u by simp
qed

lemma deleteView_ok:
  assumes "views_ok parse s"
  shows "\<exists>s'. deleteView stringify parse i s =
      Some (filter (\<lambda>v. js_prop v ''id'' \<noteq> JStr i) (loadSavedViews parse s), s')
    \<and> sg_mode s' = Usable \<and> loadSavedViews parse s' = filter (\<lambda>v. js_prop v ''id'' \<noteq> JStr i) (loadSavedViews parse s)"
proof -
  let ?vs = "loadSavedViews parse s" and ?ws = "filter (\<lambda>v. js_prop v ''id'' \<noteq> JStr i) (loadSavedViews parse s)"
  from assms have w: "well_formed_views ?vs" and u: "sg_mode s = Usable" by (simp_all add: views_ok_def)
  have "deleteView stringify parse i s = Some (?ws, attempt [set_item VIEWS_KEY (stringify (JArr ?ws))] s)"
    using w by (simp add: deleteView_def views_without_def well_formed_not_null)
  moreover have "loadSavedViews parse (attempt [set_item VIEWS_KEY (stringify (JArr ?ws))] s) = ?ws"
    using load_views_after [OF u] well_formed_clean [OF well_formed_filter [OF w]] by simp
  ultimately show ?thesis using u by simp
qed

lemma view_step_ok: "views_ok parse s \<Longrightarrow> views_ok parse (view_step stringify parse s e)"
proof (cases e)
  case (Save now name query)
  assume "views_ok parse s"
  with saveView_ok [of s now name query] Save show ?thesis
    by (auto simp: views_ok_def well_formed_saved)
next
  case (Delete i)
  assume "views_ok parse s"
  with deleteView_ok [of s i] Delete show ?thesis
    by (auto simp: views_ok_def well_formed_filter)
qed

end

text \<open>The store of views is a machine that keeps its invariant, for every implementation of JSON.\<close>

sublocale json \<subseteq> views: invariant_machine "view_step stringify parse" "views_ok parse"
  by unfold_locales (rule view_step_ok)

context json
begin

lemma views_run: "views_ok parse s \<Longrightarrow> views_ok parse (run (view_step stringify parse) s es)"
  by (rule views.run_inv)

end

section \<open>Properties\<close>

text \<open>C37: however many searches are made, the list of recent searches is the eight latest distinct
  ones, the latest first, and reading it back from the storage gives it; when the storage cannot be
  written nothing changes.\<close>

theorem recent_searches:
  assumes "json stringify parse" "sg_items s RECENT_KEY = None"
  shows "loadRecentSearches parse (run (push_step stringify parse) s qs) =
     (if sg_mode s = Usable then take 8 (rev (remdups qs)) else [])"
proof (cases "sg_mode s = Usable")
  case True
  then have "loadRecentSearches parse s = recent_of []"
    using assms(2) by (simp add: loadRecentSearches_def stored_json_def recent_of_def strings_of_def)
  with True show ?thesis
    using json.load_after_pushes [OF assms(1) True] by (simp add: recent_of_def)
next
  case False
  then have "run (push_step stringify parse) s qs = s"
    by (induction qs) (simp_all add: push_blocked)
  with False assms(2) show ?thesis
    by (cases "sg_mode s")
      (simp_all add: loadRecentSearches_def stored_json_def get_item_def strings_of_def)
qed

theorem recent_searches_witness:
  "loadRecentSearches unary_parse (run (push_step unary_stringify unary_parse) (storage_of [])
      [''rsa'', ''tls'', ''rsa'']) = [''rsa'', ''tls'']"
  using recent_searches [OF unary_json, of "storage_of []" "[''rsa'', ''tls'', ''rsa'']"] by simp

text \<open>Starting from views this module wrote, after any saves and deletions every operation
  returns and stores the same list: at most twenty views, one per name, the newest first; saving
  replaces the view of that name and deleting removes exactly the views of that id.\<close>

theorem saved_views_store:
  assumes J: "json stringify parse" and s: "views_ok parse s" "s' = run (view_step stringify parse) s es"
  shows "well_formed_views (loadSavedViews parse s')
   \<and> (\<exists>t. saveView stringify parse now name query s' = Some (saved_views now name query (loadSavedViews parse s'), t)
        \<and> loadSavedViews parse t = saved_views now name query (loadSavedViews parse s'))
   \<and> (\<exists>t. deleteView stringify parse i s' =
          Some (filter (\<lambda>v. js_prop v ''id'' \<noteq> JStr i) (loadSavedViews parse s'), t)
        \<and> loadSavedViews parse t = filter (\<lambda>v. js_prop v ''id'' \<noteq> JStr i) (loadSavedViews parse s'))"
proof -
  have ok: "views_ok parse s'" unfolding s(2) by (rule json.views_run [OF J s(1)])
  show ?thesis
    using ok json.saveView_ok [OF J ok] json.deleteView_ok [OF J ok] by (meson views_ok_def)
qed

lemma empty_views_ok: "views_ok parse (storage_of [])"
  by (simp add: views_ok_def loadSavedViews_def stored_json_def well_formed_views_def)

theorem saved_views_store_witness:
  "\<exists>t. saveView unary_stringify unary_parse 9 ''tls'' ''severity=high''
     (run (view_step unary_stringify unary_parse) (storage_of []) [Save 7 ''tls'' ''port=443'', Delete ''view-1''])
   = Some (saved_views 9 ''tls'' ''severity=high''
       (loadSavedViews unary_parse
         (run (view_step unary_stringify unary_parse) (storage_of []) [Save 7 ''tls'' ''port=443'', Delete ''view-1''])), t)"
  using saved_views_store [OF unary_json empty_views_ok refl, where now = 9 and name = "''tls''" and query = "''severity=high''"
        and es = "[Save 7 ''tls'' ''port=443'', Delete ''view-1'']"] by blast

text \<open>A stored list of views with a null element, which loading accepts, makes every save and
  every deletion throw, and the list stays as it is.\<close>

theorem null_view_throws:
  assumes "JNull \<in> set (loadSavedViews parse s)"
  shows "saveView stringify parse now name query s = None \<and> deleteView stringify parse i s = None"
proof -
  from assms have "\<not> list_all not_null (loadSavedViews parse s)"
    by (auto simp: list_all_iff not_null_def)
  then show ?thesis by (simp add: saveView_def deleteView_def views_without_def)
qed

theorem null_view_throws_witness:
  "saveView (\<lambda>v. ''[]'') (\<lambda>t. Some (JArr [JNull])) 7 ''tls'' ''port=443'' (storage_of [(VIEWS_KEY, ''[null]'')]) = None"
  using null_view_throws [of "\<lambda>t. Some (JArr [JNull])" "storage_of [(VIEWS_KEY, ''[null]'')]"]
  by (simp add: loadSavedViews_def stored_json_def)

text \<open>Whatever the API answers, the console shows one finding per row that is an object, in
  order, every severity is nonempty and normalised once and for all, and rows that bring no
  identifier get identifiers that differ from each other.\<close>

theorem findings_payload:
  "length (parseFindingsPayload fmt data) = length (payload_rows data)
   \<and> (\<forall>f \<in> set (parseFindingsPayload fmt data).
        of_severity f \<noteq> [] \<and> normalizeSeverity (Some (of_severity f)) = of_severity f \<and> of_status f = ''open'')
   \<and> (\<forall>i < length (payload_rows data). \<forall>j < length (payload_rows data).
        unnamed (payload_rows data ! i) \<and> unnamed (payload_rows data ! j) \<and> i \<noteq> j \<longrightarrow>
        of_id (parseFindingsPayload fmt data ! i) \<noteq> of_id (parseFindingsPayload fmt data ! j))"
proof -
  have "of_severity (normalizeFinding fmt r k) \<noteq> []
      \<and> normalizeSeverity (Some (of_severity (normalizeFinding fmt r k))) = of_severity (normalizeFinding fmt r k)
      \<and> of_status (normalizeFinding fmt r k) = ''open''" for r k
    by (simp add: normalizeFinding_def Let_def normalizeSeverity_idem normalizeSeverity_not_Nil)
  moreover have "of_id (parseFindingsPayload fmt data ! i) = ''finding-'' @ nat_str (i + 1)"
    if "i < length (payload_rows data)" "unnamed (payload_rows data ! i)" for i
    using that by (simp add: parseFindings_nth normalizeFinding_def Let_def unnamed_def)
  ultimately show ?thesis
    by (auto simp: in_set_conv_nth parseFindings_nth)
qed

definition ex_payload :: jval where
  "ex_payload = JObj [(''findings'', JArr [JObj [(''severity'', JStr ''HIGH'')], JNull, JObj []])]"

theorem findings_payload_witness:
  "of_id (parseFindingsPayload (\<lambda>_. ''0.5'') ex_payload ! 0)
    \<noteq> of_id (parseFindingsPayload (\<lambda>_. ''0.5'') ex_payload ! 1)"
proof -
  have rows: "payload_rows ex_payload = [JObj [(''severity'', JStr ''HIGH'')], JObj []]"
    by (simp add: payload_rows_def ex_payload_def)
  show ?thesis
    using findings_payload [of "\<lambda>_. ''0.5''" ex_payload, THEN conjunct2, THEN conjunct2, rule_format, of 0 1]
    by (simp add: rows unnamed_def)
qed

end
