(* ===== verification/Ops_Nav.thy ===== *)
theory Ops_Nav
  imports Contracts Browser
begin

text \<open>
  web/src/ops/navigation.ts, helpCopy.ts and persona.ts: the routes of the operator console, the
  breadcrumbs, title and help text of a page, and the persona kept in the browser storage.
\<close>

section \<open>Routes\<close>

datatype ops_section = SOperations | SPosture | SIntegrations | SEnterprise

fun section_label :: "ops_section \<Rightarrow> string" where
  "section_label SOperations = ''Operations''"
| "section_label SPosture = ''Posture''"
| "section_label SIntegrations = ''Integrations''"
| "section_label SEnterprise = ''Enterprise''"

record ops_route =
  rt_text :: string
  rt_path :: string
  rt_section :: ops_section
  rt_keywords :: "string list"
  rt_enterpriseOnly :: "bool option"
  rt_adminOnly :: "bool option"
  rt_demoOnly :: "bool option"

definition OPS_ROUTES :: "ops_route list" where
  "OPS_ROUTES =
    [\<lparr>rt_text = ''Overview'', rt_path = ''/dashboard'', rt_section = SOperations,
      rt_keywords = [''command'', ''ciso'', ''inbox'', ''posture'', ''home''],
      rt_enterpriseOnly = None, rt_adminOnly = None, rt_demoOnly = None\<rparr>,
     \<lparr>rt_text = ''Findings'', rt_path = ''/findings'', rt_section = SOperations,
      rt_keywords = [''critical'', ''high'', ''evidence'', ''remediation'', ''queue''],
      rt_enterpriseOnly = None, rt_adminOnly = None, rt_demoOnly = None\<rparr>,
     \<lparr>rt_text = ''Assets'', rt_path = ''/assets'', rt_section = SOperations,
      rt_keywords = [''inventory'', ''crypto'', ''certificate'', ''key''],
      rt_enterpriseOnly = None, rt_adminOnly = None, rt_demoOnly = None\<rparr>,
     \<lparr>rt_text = ''Scans'', rt_path = ''/scanner'', rt_section = SOperations,
      rt_keywords = [''cbom'', ''github'', ''website'', ''history'', ''failed''],
      rt_enterpriseOnly = None, rt_adminOnly = None, rt_demoOnly = None\<rparr>,
     \<lparr>rt_text = ''CBOM'', rt_path = ''/bom'', rt_section = SOperations,
      rt_keywords = [''sbom'', ''cspm'', ''inventory'', ''explorer''],
      rt_enterpriseOnly = None, rt_adminOnly = None, rt_demoOnly = None\<rparr>,
     \<lparr>rt_text = ''PQC Migration'', rt_path = ''/migration'', rt_section = SOperations,
      rt_keywords = [''quantum'', ''readiness'', ''roadmap'', ''hybrid''],
      rt_enterpriseOnly = None, rt_adminOnly = None, rt_demoOnly = None\<rparr>,
     \<lparr>rt_text = ''Crypto Posture'', rt_path = ''/cspm'', rt_section = SPosture,
      rt_keywords = [''cspm'', ''risk'', ''score''],
      rt_enterpriseOnly = None, rt_adminOnly = None, rt_demoOnly = None\<rparr>,
     \<lparr>rt_text = ''Governance'', rt_path = ''/governance'', rt_section = SPosture,
      rt_keywords = [''compliance'', ''controls'', ''dora'', ''nis2'', ''mapping''],
      rt_enterpriseOnly = None, rt_adminOnly = None, rt_demoOnly = None\<rparr>,
     \<lparr>rt_text = ''API Security'', rt_path = ''/security/api'', rt_section = SPosture,
      rt_keywords = [''tls'', ''https''],
      rt_enterpriseOnly = None, rt_adminOnly = None, rt_demoOnly = None\<rparr>,
     \<lparr>rt_text = ''Reports'', rt_path = ''/analytics'', rt_section = SPosture,
      rt_keywords = [''trend'', ''export'', ''executive''],
      rt_enterpriseOnly = None, rt_adminOnly = None, rt_demoOnly = None\<rparr>,
     \<lparr>rt_text = ''PATH Scanners'', rt_path = ''/tools'', rt_section = SIntegrations,
      rt_keywords = [''trivy'', ''syft'', ''gitleaks'', ''osv'', ''devsecops''],
      rt_enterpriseOnly = None, rt_adminOnly = None, rt_demoOnly = None\<rparr>,
     \<lparr>rt_text = ''Ecosystem'', rt_path = ''/ecosystem'', rt_section = SIntegrations,
      rt_keywords = [''sdk'', ''cli'', ''plugin''],
      rt_enterpriseOnly = None, rt_adminOnly = None, rt_demoOnly = None\<rparr>,
     \<lparr>rt_text = ''Pipeline'', rt_path = ''/pipeline'', rt_section = SIntegrations,
      rt_keywords = [''ci'', ''github actions'', ''gate''],
      rt_enterpriseOnly = None, rt_adminOnly = None, rt_demoOnly = None\<rparr>,
     \<lparr>rt_text = ''Contact'', rt_path = ''/contact'', rt_section = SIntegrations,
      rt_keywords = [''hello'', ''support'', ''sales''],
      rt_enterpriseOnly = None, rt_adminOnly = None, rt_demoOnly = None\<rparr>,
     \<lparr>rt_text = ''IBM Partner Plus'', rt_path = ''/ibm'', rt_section = SIntegrations,
      rt_keywords = [''ibm'', ''partner'', ''marketplace'', ''cosell''],
      rt_enterpriseOnly = None, rt_adminOnly = None, rt_demoOnly = None\<rparr>,
     \<lparr>rt_text = ''CRM'', rt_path = ''/crm'', rt_section = SIntegrations,
      rt_keywords = [''leads'', ''sales'', ''funnel''],
      rt_enterpriseOnly = None, rt_adminOnly = Some True, rt_demoOnly = None\<rparr>,
     \<lparr>rt_text = ''HSM & Quantum'', rt_path = ''/connectors/hsm'', rt_section = SEnterprise,
      rt_keywords = [''pkcs11'', ''ibm'', ''hbom''],
      rt_enterpriseOnly = Some True, rt_adminOnly = None, rt_demoOnly = None\<rparr>,
     \<lparr>rt_text = ''AIBOM'', rt_path = ''/security/ai'', rt_section = SEnterprise,
      rt_keywords = [''ai'', ''model'', ''aibom''],
      rt_enterpriseOnly = Some True, rt_adminOnly = None, rt_demoOnly = None\<rparr>,
     \<lparr>rt_text = ''Cloud Posture'', rt_path = ''/enterprise/cloud-posture'', rt_section = SEnterprise,
      rt_keywords = [''aws'', ''gcp'', ''azure''],
      rt_enterpriseOnly = Some True, rt_adminOnly = None, rt_demoOnly = None\<rparr>,
     \<lparr>rt_text = ''Compliance'', rt_path = ''/enterprise/compliance'', rt_section = SEnterprise,
      rt_keywords = [''framework'', ''gap''],
      rt_enterpriseOnly = Some True, rt_adminOnly = None, rt_demoOnly = None\<rparr>,
     \<lparr>rt_text = ''Quantum'', rt_path = ''/enterprise/quantum'', rt_section = SEnterprise,
      rt_keywords = [''qiskit'', ''attestation''],
      rt_enterpriseOnly = Some True, rt_adminOnly = None, rt_demoOnly = None\<rparr>,
     \<lparr>rt_text = ''Multi-Cloud'', rt_path = ''/enterprise/multicloud'', rt_section = SEnterprise,
      rt_keywords = [''connector'', ''account''],
      rt_enterpriseOnly = Some True, rt_adminOnly = None, rt_demoOnly = None\<rparr>,
     \<lparr>rt_text = ''Inventory'', rt_path = ''/enterprise/inventory'', rt_section = SEnterprise,
      rt_keywords = [''crud''],
      rt_enterpriseOnly = Some True, rt_adminOnly = None, rt_demoOnly = None\<rparr>,
     \<lparr>rt_text = ''CSPM'', rt_path = ''/enterprise/cspm'', rt_section = SEnterprise,
      rt_keywords = [''posture''],
      rt_enterpriseOnly = Some True, rt_adminOnly = None, rt_demoOnly = None\<rparr>,
     \<lparr>rt_text = ''Conformance Packs'', rt_path = ''/enterprise/conformance-packs'', rt_section = SEnterprise,
      rt_keywords = [''cis'', ''nist''],
      rt_enterpriseOnly = Some True, rt_adminOnly = None, rt_demoOnly = None\<rparr>,
     \<lparr>rt_text = ''Terraform'', rt_path = ''/enterprise/terraform'', rt_section = SEnterprise,
      rt_keywords = [''iac''],
      rt_enterpriseOnly = Some True, rt_adminOnly = None, rt_demoOnly = None\<rparr>,
     \<lparr>rt_text = ''Modules'', rt_path = ''/modules'', rt_section = SEnterprise,
      rt_keywords = [''catalog''],
      rt_enterpriseOnly = Some True, rt_adminOnly = None, rt_demoOnly = None\<rparr>]"

record palette_action =
  pa_id :: string
  pa_label :: string
  pa_path :: string
  pa_keywords :: "string list"

definition PALETTE_ACTIONS :: "palette_action list" where
  "PALETTE_ACTIONS =
    [\<lparr>pa_id = ''scan'', pa_label = ''Run scan'', pa_path = ''/scanner'', pa_keywords = [''new'', ''website'', ''github'']\<rparr>,
     \<lparr>pa_id = ''critical'', pa_label = ''View critical findings'', pa_path = ''/findings?severity=critical'', pa_keywords = [''p0'', ''high'']\<rparr>,
     \<lparr>pa_id = ''cbom'', pa_label = ''Open CBOM'', pa_path = ''/bom'', pa_keywords = [''inventory'']\<rparr>,
     \<lparr>pa_id = ''pqc'', pa_label = ''View PQC roadmap'', pa_path = ''/migration'', pa_keywords = [''quantum'']\<rparr>,
     \<lparr>pa_id = ''tools'', pa_label = ''PATH scanner integrations'', pa_path = ''/tools'', pa_keywords = [''trivy'', ''syft'']\<rparr>,
     \<lparr>pa_id = ''admin'', pa_label = ''Manage users'', pa_path = ''/admin'', pa_keywords = [''sso'', ''roles'', ''keys'']\<rparr>,
     \<lparr>pa_id = ''report'', pa_label = ''Open reports'', pa_path = ''/analytics'', pa_keywords = [''export'']\<rparr>]"

section \<open>Breadcrumbs and titles\<close>

type_synonym crumb = "string \<times> string"

definition breadcrumbFor :: "string \<Rightarrow> crumb list" where
  "breadcrumbFor pathname =
     (let crumbs = [(''RivicQ'', ''/dashboard'')]
      in if starts_with pathname ''/assets/'' then crumbs @ [(''Assets'', ''/assets''), (''Asset'', pathname)]
         else (case find (\<lambda>r. rt_path r \<noteq> ''/dashboard''
                     \<and> (pathname = rt_path r \<or> starts_with pathname (rt_path r @ ''/''))) OPS_ROUTES of
                 Some hit \<Rightarrow> crumbs @ [(section_label (rt_section hit), rt_path hit), (rt_text hit, rt_path hit)]
               | None \<Rightarrow>
                   (if pathname = ''/dashboard'' then crumbs @ [(''Overview'', ''/dashboard'')]
                    else if pathname = ''/settings'' then crumbs @ [(''Settings'', ''/settings'')]
                    else if pathname = ''/admin'' then crumbs @ [(''Administration'', ''/admin'')]
                    else crumbs)))"

definition titleFor :: "string \<Rightarrow> string option \<Rightarrow> string" where
  "titleFor pathname fallback =
     (if starts_with pathname ''/assets/'' then ''Asset''
      else (case find (\<lambda>r. pathname = rt_path r) OPS_ROUTES of
              Some hit \<Rightarrow> rt_text hit
            | None \<Rightarrow>
                (if pathname = ''/settings'' then ''Settings''
                 else if pathname = ''/admin'' then ''Administration''
                 else if pathname = ''/demo'' then ''Demo trail''
                 else nullish fallback ''Overview'')))"

section \<open>Help\<close>

record help_entry =
  hp_title :: string
  hp_body :: string

definition HELP :: "(string \<times> help_entry) list" where
  "HELP =
    [(''/dashboard'',
      \<lparr>hp_title = ''Overview'',
       hp_body = ''This is the operator inbox. Numbers come from scans in this workspace when a backend is running. GitHub Pages is static and cannot show a live estate. Control mappings are not certifications.''\<rparr>),
     (''/findings'',
      \<lparr>hp_title = ''Findings'',
       hp_body = (''Findings are aggregated from completed CBOM scans (GET /scans/findings). Evidence is the scanner payload '' @ em_dash @ '' not marketing copy. Secret values are never rendered. Bulk assign is not available in Community; export is local.'')\<rparr>),
     (''/assets'',
      \<lparr>hp_title = ''Assets'',
       hp_body = (''Cryptographic inventory derived from scans you run. Empty means nothing has been discovered yet '' @ em_dash @ '' run a scan or the CLI.'')\<rparr>),
     (''/scanner'',
      \<lparr>hp_title = ''Scans'',
       hp_body = ''Community can scan websites, hosts, IPs, servers, declared pods, and hardware catalog entries. Progress is only a percent when the API reports one. Failed jobs include the API error when present.''\<rparr>),
     (''/bom'',
      \<lparr>hp_title = ''CBOM'',
       hp_body = ''CBOM and SBOM from GET /bom/unified. QBOM, HBOM, AIBOM, and IBOM are Enterprise layers. Counts of 0 mean that layer has no records in this workspace, not a live cloud estate.''\<rparr>),
     (''/migration'',
      \<lparr>hp_title = ''PQC migration'',
       hp_body = ''Readiness comes from scan intelligence and PQC classes on CBOM findings. RSA-2048 is classified, not automatically marked vulnerable. IBM Quantum hardware is not invoked. QBOM as a product layer is Enterprise.''\<rparr>),
     (''/governance'',
      \<lparr>hp_title = ''Governance'',
       hp_body = ''Framework rows are control mappings for operators. They are not ISO/SOC/PCI certifications.''\<rparr>),
     (''default'',
      \<lparr>hp_title = ''RivicQ workspace'',
       hp_body = ''Community is a limited scan engine. Enterprise connectors, SSO ACS, and continuous monitoring need a licensed backend with credentials. Public desks: hello@, sales@, support@, security@, privacy@ rivicq.com.''\<rparr>)]"

text \<open>\<open>None\<close> is a member that every object inherits (\<open>HELP['toString']\<close>), not an entry of the
  table.\<close>

definition helpFor :: "string \<Rightarrow> help_entry option" where
  "helpFor pathname =
     (case map_of HELP pathname of
        Some h \<Rightarrow> Some h
      | None \<Rightarrow>
          (if pathname \<in> set inherited_members then None
           else map_of HELP
             (or_opt (find (\<lambda>p. p \<noteq> ''default'' \<and> starts_with pathname p) (map fst HELP)) ''default'')))"

section \<open>Persona\<close>

datatype ops_persona = Ciso | Analyst | Engineer

fun persona_str :: "ops_persona \<Rightarrow> string" where
  "persona_str Ciso = ''ciso''"
| "persona_str Analyst = ''analyst''"
| "persona_str Engineer = ''engineer''"

definition PERSONA_KEY :: string where "PERSONA_KEY = ''rivicq.ops.persona''"

definition loadPersona :: "storage \<Rightarrow> ops_persona" where
  "loadPersona s =
     (case read_item s PERSONA_KEY of
        None \<Rightarrow> Analyst
      | Some v \<Rightarrow>
          (if v = ''ciso'' then Ciso else if v = ''analyst'' then Analyst
           else if v = ''engineer'' then Engineer else Analyst))"

definition persistPersona :: "ops_persona \<Rightarrow> storage \<Rightarrow> storage" where
  "persistPersona p s = attempt [set_item PERSONA_KEY (persona_str p)] s"

fun PERSONA_LABEL :: "ops_persona \<Rightarrow> string" where
  "PERSONA_LABEL Ciso = ''CISO''"
| "PERSONA_LABEL Analyst = ''Analyst''"
| "PERSONA_LABEL Engineer = ''Engineer''"

fun PERSONA_HELP :: "ops_persona \<Rightarrow> string" where
  "PERSONA_HELP Ciso = ''Risk, quantum readiness, compliance mappings, and reports. Scanner internals stay off this layout.''"
| "PERSONA_HELP Analyst = ''Findings, evidence, assets, and scans for investigation.''"
| "PERSONA_HELP Engineer = ''CLI/CI scanners, policy gates, pipeline, and PATH tools.''"

section \<open>Lemmas\<close>

lemma persona_roundtrip:
  "sg_mode s = Usable \<Longrightarrow> loadPersona (persistPersona p s) = p"
  by (cases p) (simp_all add: loadPersona_def persistPersona_def)

lemma persona_unwritable:
  "sg_mode s \<noteq> Usable \<Longrightarrow> persistPersona p s = s"
  by (simp add: persistPersona_def set_item_def)

text \<open>The pages of the console: what its router can show for a route.\<close>

definition page_consistent :: "ops_route \<Rightarrow> bool" where
  "page_consistent r \<longleftrightarrow>
     titleFor (rt_path r) None = rt_text r
     \<and> last (breadcrumbFor (rt_path r)) = (rt_text r, rt_path r)
     \<and> (rt_path r \<noteq> ''/dashboard'' \<longrightarrow>
          breadcrumbFor (rt_path r) =
            [(''RivicQ'', ''/dashboard''), (section_label (rt_section r), rt_path r), (rt_text r, rt_path r)])"

lemma routes_consistent: "list_all page_consistent OPS_ROUTES"
  by code_simp

lemma routes_distinct: "distinct (map rt_path OPS_ROUTES)"
  by code_simp

lemma find_in: "find p xs = Some x \<Longrightarrow> x \<in> set xs \<and> p x"
  by (metis find_Some_iff nth_mem)

lemma breadcrumb_shape:
  "hd (breadcrumbFor p) = (''RivicQ'', ''/dashboard'')"
  "length (breadcrumbFor p) \<le> 3"
  by (auto simp: breadcrumbFor_def Let_def split: option.splits)

lemma helpFor_entry:
  assumes "starts_with p ''/''"
  shows "\<exists>h. helpFor p = Some h \<and> h \<in> snd ` set HELP"
proof -
  have def: "map_of HELP ''default'' \<noteq> None" by (simp add: HELP_def)
  have in_img: "map_of HELP k = Some h \<Longrightarrow> h \<in> snd ` set HELP" for k h
    by (force dest: map_of_SomeD)
  have not_inh: "p \<notin> set inherited_members"
    using assms by (auto simp: inherited_members_def starts_with_def)
  show ?thesis
  proof (cases "map_of HELP p")
    case (Some h)
    with in_img show ?thesis by (auto simp: helpFor_def)
  next
    case None
    let ?f = "find (\<lambda>q. q \<noteq> ''default'' \<and> starts_with p q) (map fst HELP)"
    have "map_of HELP (or_opt ?f ''default'') \<noteq> None"
    proof (cases ?f)
      case None
      with def show ?thesis by simp
    next
      case (Some q)
      then have "q \<in> fst ` set HELP" using find_in by fastforce
      moreover from this have "q \<noteq> []" by (auto simp: HELP_def)
      ultimately show ?thesis using Some by (simp add: map_of_eq_None_iff)
    qed
    with None not_inh in_img show ?thesis by (auto simp: helpFor_def)
  qed
qed

section \<open>Properties\<close>

text \<open>Every route of the console has one address; its page title is the route's text and its
  breadcrumbs are the root, its section and itself; for any address the breadcrumbs start at the
  root and are at most three, and the help text is an entry of the table.\<close>

theorem console_pages:
  "distinct (map rt_path OPS_ROUTES)
   \<and> list_all page_consistent OPS_ROUTES
   \<and> hd (breadcrumbFor p) = (''RivicQ'', ''/dashboard'') \<and> length (breadcrumbFor p) \<le> 3
   \<and> (\<exists>h. helpFor (CHR ''/'' # p) = Some h \<and> h \<in> snd ` set HELP)"
  using routes_distinct routes_consistent breadcrumb_shape helpFor_entry [of "CHR ''/'' # p"]
  by (simp add: starts_with_def)

end
