(* ===== verification/Sources.thy ===== *)
theory Sources
  imports Js_Number
begin

text \<open>
  web/src/data/enterprise/sources.ts and the provenance types of types.ts: where a figure of the
  dashboard comes from, the named sources, and the published mix of initial access vectors.
\<close>

datatype data_kind = Live | Demo | Benchmark | Intel | Calculated

record provenance =
  pv_kind :: data_kind
  pv_source :: string
  pv_sourceUrl :: "string option"
  pv_publicationDate :: "string option"
  pv_retrievedAt :: string
  pv_datasetVersion :: string
  pv_metricDefinition :: string

definition RETRIEVED :: string where "RETRIEVED = ''2026-08-18''"

section \<open>PROVENANCE\<close>

definition prov_nvd :: "string \<Rightarrow> string \<Rightarrow> provenance" where
  "prov_nvd cve published =
     \<lparr>pv_kind = Intel, pv_source = ''NVD CVE API 2.0'',
      pv_sourceUrl = Some (''https://nvd.nist.gov/vuln/detail/'' @ cve),
      pv_publicationDate = Some published, pv_retrievedAt = RETRIEVED,
      pv_datasetVersion = ''nvd-2.0'',
      pv_metricDefinition = ''NVD CVSS base score and CWE for a published CVE identifier.''\<rparr>"

definition prov_cisaKev :: provenance where
  "prov_cisaKev =
     \<lparr>pv_kind = Intel, pv_source = ''CISA Known Exploited Vulnerabilities Catalog'',
      pv_sourceUrl = Some ''https://www.cisa.gov/known-exploited-vulnerabilities-catalog'',
      pv_publicationDate = Some ''2026-08-17'', pv_retrievedAt = RETRIEVED,
      pv_datasetVersion = ''2026.08.17'',
      pv_metricDefinition = ''Whether CISA has listed the CVE as known to be exploited in the wild.''\<rparr>"

definition prov_epss :: provenance where
  "prov_epss =
     \<lparr>pv_kind = Intel, pv_source = ''FIRST.org EPSS'',
      pv_sourceUrl = Some ''https://www.first.org/epss/'',
      pv_publicationDate = Some ''2026-08-17'', pv_retrievedAt = RETRIEVED,
      pv_datasetVersion = ''epss-2026-08-17'',
      pv_metricDefinition = ''Estimated probability that a CVE will be exploited in the next 30 days.''\<rparr>"

definition prov_gcthH1_2025 :: provenance where
  "prov_gcthH1_2025 =
     \<lparr>pv_kind = Benchmark, pv_source = ''Google Cloud Threat Horizons H2 2025 (H1 2025 observations)'',
      pv_sourceUrl = Some ''https://cloud.google.com/security/report/resources/cloud-threat-horizons-report-h2-2025'',
      pv_publicationDate = Some ''2025-07-01'', pv_retrievedAt = RETRIEVED,
      pv_datasetVersion = ''gcth-h2-2025-fig1'',
      pv_metricDefinition = (''Share of Google Cloud'' @ en_dash @ ''observed cloud initial-access incidents in H1 2025. Not RivicQ telemetry.'')\<rparr>"

definition prov_simulation :: provenance where
  "prov_simulation =
     \<lparr>pv_kind = Demo, pv_source = ''RivicQ enterprise simulation'',
      pv_sourceUrl = None,
      pv_publicationDate = None, pv_retrievedAt = RETRIEVED,
      pv_datasetVersion = ''enterprise-sim-v1.0'',
      pv_metricDefinition = ''Deterministic simulated multi-cloud estate used when live connectors are not attached. Counts are generated, not observed customer telemetry.''\<rparr>"

definition prov_calculated :: provenance where
  "prov_calculated =
     \<lparr>pv_kind = Calculated, pv_source = ''RivicQ scoring engine'',
      pv_sourceUrl = None,
      pv_publicationDate = None, pv_retrievedAt = RETRIEVED,
      pv_datasetVersion = ''posture-v1.0'',
      pv_metricDefinition = ''Derived from simulated or live inventory, findings, exposure, KEV presence, and control results. See score contributors.''\<rparr>"

definition prov_live :: provenance where
  "prov_live =
     \<lparr>pv_kind = Live, pv_source = ''Connected RivicQ APIs'',
      pv_sourceUrl = None,
      pv_publicationDate = None, pv_retrievedAt = RETRIEVED,
      pv_datasetVersion = ''live'',
      pv_metricDefinition = ''Values returned by inventory, CSPM, compliance, or scan APIs for this tenant.''\<rparr>"

section \<open>Initial access and labels\<close>

record initial_access =
  ia_label :: string
  ia_percent :: jsnum
  ia_provenance :: provenance

definition INDUSTRY_INITIAL_ACCESS :: "initial_access list" where
  "INDUSTRY_INITIAL_ACCESS =
    [\<lparr>ia_label = ''Weak or absent credentials'', ia_percent = lit (471 / 10), ia_provenance = prov_gcthH1_2025\<rparr>,
     \<lparr>ia_label = ''Misconfigurations'', ia_percent = lit (294 / 10), ia_provenance = prov_gcthH1_2025\<rparr>,
     \<lparr>ia_label = ''API / UI compromise'', ia_percent = lit (118 / 10), ia_provenance = prov_gcthH1_2025\<rparr>,
     \<lparr>ia_label = ''Leaked credentials'', ia_percent = lit (29 / 10), ia_provenance = prov_gcthH1_2025\<rparr>]"

fun DATA_KIND_LABEL :: "data_kind \<Rightarrow> string" where
  "DATA_KIND_LABEL Live = ''LIVE''"
| "DATA_KIND_LABEL Demo = ''DEMO''"
| "DATA_KIND_LABEL Benchmark = ''BENCHMARK''"
| "DATA_KIND_LABEL Intel = ''THREAT INTEL''"
| "DATA_KIND_LABEL Calculated = ''CALCULATED''"

end
