(* ===== verification/Cve_Catalog.thy ===== *)
theory Cve_Catalog
  imports Sources
begin

text \<open>
  web/src/data/enterprise/cves.ts: the curated catalogue of vulnerabilities, in the order of the
  source (in groups, which the catalogue concatenates), with its index and the known exploited ones.
\<close>

record cve_epss =
  ep_score :: jsnum
  ep_percentile :: jsnum
  ep_date :: string
  ep_source :: string
  ep_sourceUrl :: string

record cve_record =
  cv_id :: string
  cv_cvss :: jsnum
  cv_cvssVersion :: string
  cv_severity :: string
  cv_cwe :: "string list"
  cv_affectedProduct :: string
  cv_affectedVersion :: string
  cv_published :: string
  cv_lastModified :: string
  cv_epss :: "cve_epss option"
  cv_kev :: bool
  cv_description :: string
  cv_references :: "string list"
  cv_provenance :: provenance

definition CVES_1 :: "cve_record list" where
  "CVES_1 =
    [\<lparr>cv_id = ''CVE-2021-44228'', cv_cvss = num 10, cv_cvssVersion = ''3.1'', cv_severity = ''CRITICAL'',
      cv_cwe = [''CWE-20'', ''CWE-400'', ''CWE-502''],
      cv_affectedProduct = ''Apache Log4j2'', cv_affectedVersion = ''2.0-beta9 through 2.15.0'',
      cv_published = ''2021-12-10'', cv_lastModified = ''2026-08-11'',
      cv_epss = Some \<lparr>ep_score = lit (99999 / 100000), ep_percentile = num 1, ep_date = ''2026-08-17'',
        ep_source = ''FIRST.org EPSS API'', ep_sourceUrl = ''https://api.first.org/data/v1/epss?cve=CVE-2021-44228''\<rparr>,
      cv_kev = True,
      cv_description = ''Apache Log4j2 2.0-beta9 through 2.15.0 (excluding security releases 2.12.2, 2.12.3, and 2.3.1) JNDI features used in configuration, log messages, and parameters do not protect against attacker controlled LDAP and other JNDI related endpoints. An attacker who can control log messa'',
      cv_references = [''https://nvd.nist.gov/vuln/detail/CVE-2021-44228'', ''https://www.cisa.gov/known-exploited-vulnerabilities-catalog''],
      cv_provenance =
       \<lparr>pv_kind = Intel, pv_source = ''NVD CVE API 2.0'',
        pv_sourceUrl = Some ''https://nvd.nist.gov/vuln/detail/CVE-2021-44228'',
        pv_publicationDate = Some ''2021-12-10'', pv_retrievedAt = ''2026-08-18'',
        pv_datasetVersion = ''nvd-2.0+cisa-kev-2026.08.17+epss-2026-08-17'',
        pv_metricDefinition = ''NVD CVSS v3.1 base score; CISA KEV membership as of catalogVersion 2026.08.17; FIRST EPSS 30-day exploitation probability.''\<rparr>\<rparr>,
     \<lparr>cv_id = ''CVE-2023-44487'', cv_cvss = lit (75 / 10), cv_cvssVersion = ''3.1'', cv_severity = ''HIGH'',
      cv_cwe = [''CWE-400''],
      cv_affectedProduct = ''HTTP/2 implementations'', cv_affectedVersion = ''protocol'',
      cv_published = ''2023-10-10'', cv_lastModified = ''2026-08-11'',
      cv_epss = Some \<lparr>ep_score = lit (99999 / 100000), ep_percentile = lit (99997 / 100000), ep_date = ''2026-08-17'',
        ep_source = ''FIRST.org EPSS API'', ep_sourceUrl = ''https://api.first.org/data/v1/epss?cve=CVE-2023-44487''\<rparr>,
      cv_kev = True,
      cv_description = ''The HTTP/2 protocol allows a denial of service (server resource consumption) because request cancellation can reset many streams quickly, as exploited in the wild in August through October 2023.'',
      cv_references = [''https://nvd.nist.gov/vuln/detail/CVE-2023-44487'', ''https://www.cisa.gov/known-exploited-vulnerabilities-catalog''],
      cv_provenance =
       \<lparr>pv_kind = Intel, pv_source = ''NVD CVE API 2.0'',
        pv_sourceUrl = Some ''https://nvd.nist.gov/vuln/detail/CVE-2023-44487'',
        pv_publicationDate = Some ''2023-10-10'', pv_retrievedAt = ''2026-08-18'',
        pv_datasetVersion = ''nvd-2.0+cisa-kev-2026.08.17+epss-2026-08-17'',
        pv_metricDefinition = ''NVD CVSS v3.1 base score; CISA KEV membership as of catalogVersion 2026.08.17; FIRST EPSS 30-day exploitation probability.''\<rparr>\<rparr>,
     \<lparr>cv_id = ''CVE-2023-34362'', cv_cvss = lit (98 / 10), cv_cvssVersion = ''3.1'', cv_severity = ''CRITICAL'',
      cv_cwe = [''CWE-89''],
      cv_affectedProduct = ''Progress MOVEit Transfer'', cv_affectedVersion = ''before 2021.0.6 / 2023.0.1'',
      cv_published = ''2023-06-02'', cv_lastModified = ''2026-06-17'',
      cv_epss = Some \<lparr>ep_score = lit (99934 / 100000), ep_percentile = lit (9997 / 10000), ep_date = ''2026-08-17'',
        ep_source = ''FIRST.org EPSS API'', ep_sourceUrl = ''https://api.first.org/data/v1/epss?cve=CVE-2023-34362''\<rparr>,
      cv_kev = True,
      cv_description = ''In Progress MOVEit Transfer before 2021.0.6 (13.0.6), 2021.1.4 (13.1.4), 2022.0.4 (14.0.4), 2022.1.5 (14.1.5), and 2023.0.1 (15.0.1), a SQL injection vulnerability has been found in the MOVEit Transfer web application that could allow an unauthenticated attacker to gain access to'',
      cv_references = [''https://nvd.nist.gov/vuln/detail/CVE-2023-34362'', ''https://www.cisa.gov/known-exploited-vulnerabilities-catalog''],
      cv_provenance =
       \<lparr>pv_kind = Intel, pv_source = ''NVD CVE API 2.0'',
        pv_sourceUrl = Some ''https://nvd.nist.gov/vuln/detail/CVE-2023-34362'',
        pv_publicationDate = Some ''2023-06-02'', pv_retrievedAt = ''2026-08-18'',
        pv_datasetVersion = ''nvd-2.0+cisa-kev-2026.08.17+epss-2026-08-17'',
        pv_metricDefinition = ''NVD CVSS v3.1 base score; CISA KEV membership as of catalogVersion 2026.08.17; FIRST EPSS 30-day exploitation probability.''\<rparr>\<rparr>,
     \<lparr>cv_id = ''CVE-2024-3400'', cv_cvss = num 10, cv_cvssVersion = ''3.1'', cv_severity = ''CRITICAL'',
      cv_cwe = [''CWE-20'', ''CWE-77''],
      cv_affectedProduct = ''Palo Alto Networks PAN-OS'', cv_affectedVersion = ''GlobalProtect (specific versions)'',
      cv_published = ''2024-04-12'', cv_lastModified = ''2026-06-17'',
      cv_epss = Some \<lparr>ep_score = lit (99999 / 100000), ep_percentile = num 1, ep_date = ''2026-08-17'',
        ep_source = ''FIRST.org EPSS API'', ep_sourceUrl = ''https://api.first.org/data/v1/epss?cve=CVE-2024-3400''\<rparr>,
      cv_kev = True,
      cv_description = ''A command injection as a result of arbitrary file creation vulnerability in the GlobalProtect feature of Palo Alto Networks PAN-OS software for specific PAN-OS versions and distinct feature configurations may enable an unauthenticated attacker to execute arbitrary code with root '',
      cv_references = [''https://nvd.nist.gov/vuln/detail/CVE-2024-3400'', ''https://www.cisa.gov/known-exploited-vulnerabilities-catalog''],
      cv_provenance =
       \<lparr>pv_kind = Intel, pv_source = ''NVD CVE API 2.0'',
        pv_sourceUrl = Some ''https://nvd.nist.gov/vuln/detail/CVE-2024-3400'',
        pv_publicationDate = Some ''2024-04-12'', pv_retrievedAt = ''2026-08-18'',
        pv_datasetVersion = ''nvd-2.0+cisa-kev-2026.08.17+epss-2026-08-17'',
        pv_metricDefinition = ''NVD CVSS v3.1 base score; CISA KEV membership as of catalogVersion 2026.08.17; FIRST EPSS 30-day exploitation probability.''\<rparr>\<rparr>,
     \<lparr>cv_id = ''CVE-2023-4966'', cv_cvss = lit (94 / 10), cv_cvssVersion = ''3.1'', cv_severity = ''CRITICAL'',
      cv_cwe = [''CWE-119''],
      cv_affectedProduct = ''Citrix NetScaler ADC/Gateway'', cv_affectedVersion = ''Gateway or AAA virtual server'',
      cv_published = ''2023-10-10'', cv_lastModified = ''2026-07-31'',
      cv_epss = Some \<lparr>ep_score = lit (99999 / 100000), ep_percentile = lit (99998 / 100000), ep_date = ''2026-08-17'',
        ep_source = ''FIRST.org EPSS API'', ep_sourceUrl = ''https://api.first.org/data/v1/epss?cve=CVE-2023-4966''\<rparr>,
      cv_kev = True,
      cv_description = (''Sensitive information disclosure'' @ [CHR 0xC2, CHR 0xA0] @ ''in NetScaler ADC and NetScaler Gateway when configured as a'' @ [CHR 0xC2, CHR 0xA0] @ ''Gateway (VPN virtual server, ICA Proxy, CVPN, RDP Proxy)'' @ [CHR 0xC2, CHR 0xA0] @ ''or'' @ [CHR 0xC2, CHR 0xA0] @ ''AAA '' @ [CHR 0xE2, CHR 0x80, CHR 0xAF] @ ''virtual'' @ [CHR 0xE2, CHR 0x80, CHR 0xAF] @ ''server.''),
      cv_references = [''https://nvd.nist.gov/vuln/detail/CVE-2023-4966'', ''https://www.cisa.gov/known-exploited-vulnerabilities-catalog''],
      cv_provenance =
       \<lparr>pv_kind = Intel, pv_source = ''NVD CVE API 2.0'',
        pv_sourceUrl = Some ''https://nvd.nist.gov/vuln/detail/CVE-2023-4966'',
        pv_publicationDate = Some ''2023-10-10'', pv_retrievedAt = ''2026-08-18'',
        pv_datasetVersion = ''nvd-2.0+cisa-kev-2026.08.17+epss-2026-08-17'',
        pv_metricDefinition = ''NVD CVSS v3.1 base score; CISA KEV membership as of catalogVersion 2026.08.17; FIRST EPSS 30-day exploitation probability.''\<rparr>\<rparr>]"

definition CVES_2 :: "cve_record list" where
  "CVES_2 =
    [\<lparr>cv_id = ''CVE-2024-21887'', cv_cvss = lit (91 / 10), cv_cvssVersion = ''3.1'', cv_severity = ''CRITICAL'',
      cv_cwe = [''CWE-77''],
      cv_affectedProduct = ''Ivanti Connect Secure / Policy Secure'', cv_affectedVersion = ''9.x, 22.x'',
      cv_published = ''2024-01-12'', cv_lastModified = ''2026-08-04'',
      cv_epss = Some \<lparr>ep_score = lit (99999 / 100000), ep_percentile = lit (99999 / 100000), ep_date = ''2026-08-17'',
        ep_source = ''FIRST.org EPSS API'', ep_sourceUrl = ''https://api.first.org/data/v1/epss?cve=CVE-2024-21887''\<rparr>,
      cv_kev = True,
      cv_description = ''A command injection vulnerability in web components of Ivanti Connect Secure (9.x, 22.x) and Ivanti Policy Secure (9.x, 22.x)  allows an authenticated administrator to send specially crafted requests and execute arbitrary commands on the appliance.'',
      cv_references = [''https://nvd.nist.gov/vuln/detail/CVE-2024-21887'', ''https://www.cisa.gov/known-exploited-vulnerabilities-catalog''],
      cv_provenance =
       \<lparr>pv_kind = Intel, pv_source = ''NVD CVE API 2.0'',
        pv_sourceUrl = Some ''https://nvd.nist.gov/vuln/detail/CVE-2024-21887'',
        pv_publicationDate = Some ''2024-01-12'', pv_retrievedAt = ''2026-08-18'',
        pv_datasetVersion = ''nvd-2.0+cisa-kev-2026.08.17+epss-2026-08-17'',
        pv_metricDefinition = ''NVD CVSS v3.1 base score; CISA KEV membership as of catalogVersion 2026.08.17; FIRST EPSS 30-day exploitation probability.''\<rparr>\<rparr>,
     \<lparr>cv_id = ''CVE-2023-22515'', cv_cvss = lit (98 / 10), cv_cvssVersion = ''3.1'', cv_severity = ''CRITICAL'',
      cv_cwe = [''CWE-20''],
      cv_affectedProduct = ''Atlassian Confluence Data Center/Server'', cv_affectedVersion = ''publicly accessible instances'',
      cv_published = ''2023-10-04'', cv_lastModified = ''2026-06-17'',
      cv_epss = Some \<lparr>ep_score = lit (99156 / 100000), ep_percentile = lit (9993 / 10000), ep_date = ''2026-08-17'',
        ep_source = ''FIRST.org EPSS API'', ep_sourceUrl = ''https://api.first.org/data/v1/epss?cve=CVE-2023-22515''\<rparr>,
      cv_kev = True,
      cv_description = ''Atlassian has been made aware of an issue reported by a handful of customers where external attackers may have exploited a previously unknown vulnerability in publicly accessible Confluence Data Center and Server instances to create unauthorized Confluence administrator accounts '',
      cv_references = [''https://nvd.nist.gov/vuln/detail/CVE-2023-22515'', ''https://www.cisa.gov/known-exploited-vulnerabilities-catalog''],
      cv_provenance =
       \<lparr>pv_kind = Intel, pv_source = ''NVD CVE API 2.0'',
        pv_sourceUrl = Some ''https://nvd.nist.gov/vuln/detail/CVE-2023-22515'',
        pv_publicationDate = Some ''2023-10-04'', pv_retrievedAt = ''2026-08-18'',
        pv_datasetVersion = ''nvd-2.0+cisa-kev-2026.08.17+epss-2026-08-17'',
        pv_metricDefinition = ''NVD CVSS v3.1 base score; CISA KEV membership as of catalogVersion 2026.08.17; FIRST EPSS 30-day exploitation probability.''\<rparr>\<rparr>,
     \<lparr>cv_id = ''CVE-2021-34527'', cv_cvss = lit (88 / 10), cv_cvssVersion = ''3.1'', cv_severity = ''HIGH'',
      cv_cwe = [],
      cv_affectedProduct = ''Microsoft Windows Print Spooler'', cv_affectedVersion = ''Windows'',
      cv_published = ''2021-07-02'', cv_lastModified = ''2026-08-10'',
      cv_epss = Some \<lparr>ep_score = lit (99792 / 100000), ep_percentile = lit (99957 / 100000), ep_date = ''2026-08-17'',
        ep_source = ''FIRST.org EPSS API'', ep_sourceUrl = ''https://api.first.org/data/v1/epss?cve=CVE-2021-34527''\<rparr>,
      cv_kev = True,
      cv_description = ''A remote code execution vulnerability exists when the Windows Print Spooler service improperly performs privileged file operations. An attacker who successfully exploited this vulnerability could run arbitrary code with SYSTEM privileges. An attacker could then install programs; '',
      cv_references = [''https://nvd.nist.gov/vuln/detail/CVE-2021-34527'', ''https://www.cisa.gov/known-exploited-vulnerabilities-catalog''],
      cv_provenance =
       \<lparr>pv_kind = Intel, pv_source = ''NVD CVE API 2.0'',
        pv_sourceUrl = Some ''https://nvd.nist.gov/vuln/detail/CVE-2021-34527'',
        pv_publicationDate = Some ''2021-07-02'', pv_retrievedAt = ''2026-08-18'',
        pv_datasetVersion = ''nvd-2.0+cisa-kev-2026.08.17+epss-2026-08-17'',
        pv_metricDefinition = ''NVD CVSS v3.1 base score; CISA KEV membership as of catalogVersion 2026.08.17; FIRST EPSS 30-day exploitation probability.''\<rparr>\<rparr>,
     \<lparr>cv_id = ''CVE-2023-23397'', cv_cvss = lit (98 / 10), cv_cvssVersion = ''3.1'', cv_severity = ''CRITICAL'',
      cv_cwe = [''CWE-20'', ''CWE-294''],
      cv_affectedProduct = ''Microsoft Outlook'', cv_affectedVersion = ''Office'',
      cv_published = ''2023-03-14'', cv_lastModified = ''2026-06-17'',
      cv_epss = Some \<lparr>ep_score = lit (97408 / 100000), ep_percentile = lit (99893 / 100000), ep_date = ''2026-08-17'',
        ep_source = ''FIRST.org EPSS API'', ep_sourceUrl = ''https://api.first.org/data/v1/epss?cve=CVE-2023-23397''\<rparr>,
      cv_kev = True,
      cv_description = ''Microsoft Outlook Elevation of Privilege Vulnerability'',
      cv_references = [''https://nvd.nist.gov/vuln/detail/CVE-2023-23397'', ''https://www.cisa.gov/known-exploited-vulnerabilities-catalog''],
      cv_provenance =
       \<lparr>pv_kind = Intel, pv_source = ''NVD CVE API 2.0'',
        pv_sourceUrl = Some ''https://nvd.nist.gov/vuln/detail/CVE-2023-23397'',
        pv_publicationDate = Some ''2023-03-14'', pv_retrievedAt = ''2026-08-18'',
        pv_datasetVersion = ''nvd-2.0+cisa-kev-2026.08.17+epss-2026-08-17'',
        pv_metricDefinition = ''NVD CVSS v3.1 base score; CISA KEV membership as of catalogVersion 2026.08.17; FIRST EPSS 30-day exploitation probability.''\<rparr>\<rparr>,
     \<lparr>cv_id = ''CVE-2024-21762'', cv_cvss = lit (98 / 10), cv_cvssVersion = ''3.1'', cv_severity = ''CRITICAL'',
      cv_cwe = [''CWE-787''],
      cv_affectedProduct = ''Fortinet FortiOS / FortiProxy'', cv_affectedVersion = ''multiple versions'',
      cv_published = ''2024-02-09'', cv_lastModified = ''2026-08-04'',
      cv_epss = Some \<lparr>ep_score = lit (84285 / 100000), ep_percentile = lit (99676 / 100000), ep_date = ''2026-08-17'',
        ep_source = ''FIRST.org EPSS API'', ep_sourceUrl = ''https://api.first.org/data/v1/epss?cve=CVE-2024-21762''\<rparr>,
      cv_kev = True,
      cv_description = ''A out-of-bounds write in Fortinet FortiOS versions 7.4.0 through 7.4.2, 7.2.0 through 7.2.6, 7.0.0 through 7.0.13, 6.4.0 through 6.4.14, 6.2.0 through 6.2.15, 6.0.0 through 6.0.17, FortiProxy versions 7.4.0 through 7.4.2, 7.2.0 through 7.2.8, 7.0.0 through 7.0.14, 2.0.0 through 2'',
      cv_references = [''https://nvd.nist.gov/vuln/detail/CVE-2024-21762'', ''https://www.cisa.gov/known-exploited-vulnerabilities-catalog''],
      cv_provenance =
       \<lparr>pv_kind = Intel, pv_source = ''NVD CVE API 2.0'',
        pv_sourceUrl = Some ''https://nvd.nist.gov/vuln/detail/CVE-2024-21762'',
        pv_publicationDate = Some ''2024-02-09'', pv_retrievedAt = ''2026-08-18'',
        pv_datasetVersion = ''nvd-2.0+cisa-kev-2026.08.17+epss-2026-08-17'',
        pv_metricDefinition = ''NVD CVSS v3.1 base score; CISA KEV membership as of catalogVersion 2026.08.17; FIRST EPSS 30-day exploitation probability.''\<rparr>\<rparr>]"

definition CVES_3 :: "cve_record list" where
  "CVES_3 =
    [\<lparr>cv_id = ''CVE-2022-22965'', cv_cvss = lit (98 / 10), cv_cvssVersion = ''3.1'', cv_severity = ''CRITICAL'',
      cv_cwe = [''CWE-94''],
      cv_affectedProduct = ''VMware Spring Framework'', cv_affectedVersion = ''JDK 9+ Spring MVC/WebFlux'',
      cv_published = ''2022-04-01'', cv_lastModified = ''2026-06-17'',
      cv_epss = Some \<lparr>ep_score = lit (99677 / 100000), ep_percentile = lit (99949 / 100000), ep_date = ''2026-08-17'',
        ep_source = ''FIRST.org EPSS API'', ep_sourceUrl = ''https://api.first.org/data/v1/epss?cve=CVE-2022-22965''\<rparr>,
      cv_kev = True,
      cv_description = ''A Spring MVC or Spring WebFlux application running on JDK 9+ may be vulnerable to remote code execution (RCE) via data binding. The specific exploit requires the application to run on Tomcat as a WAR deployment. If the application is deployed as a Spring Boot executable jar, i.e.'',
      cv_references = [''https://nvd.nist.gov/vuln/detail/CVE-2022-22965'', ''https://www.cisa.gov/known-exploited-vulnerabilities-catalog''],
      cv_provenance =
       \<lparr>pv_kind = Intel, pv_source = ''NVD CVE API 2.0'',
        pv_sourceUrl = Some ''https://nvd.nist.gov/vuln/detail/CVE-2022-22965'',
        pv_publicationDate = Some ''2022-04-01'', pv_retrievedAt = ''2026-08-18'',
        pv_datasetVersion = ''nvd-2.0+cisa-kev-2026.08.17+epss-2026-08-17'',
        pv_metricDefinition = ''NVD CVSS v3.1 base score; CISA KEV membership as of catalogVersion 2026.08.17; FIRST EPSS 30-day exploitation probability.''\<rparr>\<rparr>,
     \<lparr>cv_id = ''CVE-2020-1472'', cv_cvss = lit (55 / 10), cv_cvssVersion = ''3.1'', cv_severity = ''MEDIUM'',
      cv_cwe = [],
      cv_affectedProduct = ''Microsoft Netlogon (MS-NRPC)'', cv_affectedVersion = ''Windows Server domain controllers'',
      cv_published = ''2020-08-17'', cv_lastModified = ''2026-06-17'',
      cv_epss = Some \<lparr>ep_score = lit (99512 / 100000), ep_percentile = lit (99942 / 100000), ep_date = ''2026-08-17'',
        ep_source = ''FIRST.org EPSS API'', ep_sourceUrl = ''https://api.first.org/data/v1/epss?cve=CVE-2020-1472''\<rparr>,
      cv_kev = True,
      cv_description = ''An elevation of privilege vulnerability exists when an attacker establishes a vulnerable Netlogon secure channel connection to a domain controller, using the Netlogon Remote Protocol (MS-NRPC). An attacker who successfully exploited the vulnerability could run a specially crafted'',
      cv_references = [''https://nvd.nist.gov/vuln/detail/CVE-2020-1472'', ''https://www.cisa.gov/known-exploited-vulnerabilities-catalog''],
      cv_provenance =
       \<lparr>pv_kind = Intel, pv_source = ''NVD CVE API 2.0'',
        pv_sourceUrl = Some ''https://nvd.nist.gov/vuln/detail/CVE-2020-1472'',
        pv_publicationDate = Some ''2020-08-17'', pv_retrievedAt = ''2026-08-18'',
        pv_datasetVersion = ''nvd-2.0+cisa-kev-2026.08.17+epss-2026-08-17'',
        pv_metricDefinition = ''NVD CVSS v3.1 base score; CISA KEV membership as of catalogVersion 2026.08.17; FIRST EPSS 30-day exploitation probability.''\<rparr>\<rparr>,
     \<lparr>cv_id = ''CVE-2021-26855'', cv_cvss = lit (91 / 10), cv_cvssVersion = ''3.1'', cv_severity = ''CRITICAL'',
      cv_cwe = [''CWE-918''],
      cv_affectedProduct = ''Microsoft Exchange Server'', cv_affectedVersion = ''ProxyLogon chain'',
      cv_published = ''2021-03-03'', cv_lastModified = ''2026-08-12'',
      cv_epss = Some \<lparr>ep_score = lit (99999 / 100000), ep_percentile = lit (99991 / 100000), ep_date = ''2026-08-17'',
        ep_source = ''FIRST.org EPSS API'', ep_sourceUrl = ''https://api.first.org/data/v1/epss?cve=CVE-2021-26855''\<rparr>,
      cv_kev = True,
      cv_description = ''Microsoft Exchange Server Remote Code Execution Vulnerability'',
      cv_references = [''https://nvd.nist.gov/vuln/detail/CVE-2021-26855'', ''https://www.cisa.gov/known-exploited-vulnerabilities-catalog''],
      cv_provenance =
       \<lparr>pv_kind = Intel, pv_source = ''NVD CVE API 2.0'',
        pv_sourceUrl = Some ''https://nvd.nist.gov/vuln/detail/CVE-2021-26855'',
        pv_publicationDate = Some ''2021-03-03'', pv_retrievedAt = ''2026-08-18'',
        pv_datasetVersion = ''nvd-2.0+cisa-kev-2026.08.17+epss-2026-08-17'',
        pv_metricDefinition = ''NVD CVSS v3.1 base score; CISA KEV membership as of catalogVersion 2026.08.17; FIRST EPSS 30-day exploitation probability.''\<rparr>\<rparr>,
     \<lparr>cv_id = ''CVE-2023-46604'', cv_cvss = num 10, cv_cvssVersion = ''3.1'', cv_severity = ''CRITICAL'',
      cv_cwe = [''CWE-502''],
      cv_affectedProduct = ''Apache ActiveMQ'', cv_affectedVersion = ''OpenWire protocol'',
      cv_published = ''2023-10-27'', cv_lastModified = ''2026-06-17'',
      cv_epss = Some \<lparr>ep_score = lit (99723 / 100000), ep_percentile = lit (99953 / 100000), ep_date = ''2026-08-17'',
        ep_source = ''FIRST.org EPSS API'', ep_sourceUrl = ''https://api.first.org/data/v1/epss?cve=CVE-2023-46604''\<rparr>,
      cv_kev = True,
      cv_description = ''The Java OpenWire protocol marshaller is vulnerable to Remote Code  Execution. This vulnerability may allow a remote attacker with network  access to either a Java-based OpenWire broker or client to run arbitrary  shell commands by manipulating serialized class types in the OpenW'',
      cv_references = [''https://nvd.nist.gov/vuln/detail/CVE-2023-46604'', ''https://www.cisa.gov/known-exploited-vulnerabilities-catalog''],
      cv_provenance =
       \<lparr>pv_kind = Intel, pv_source = ''NVD CVE API 2.0'',
        pv_sourceUrl = Some ''https://nvd.nist.gov/vuln/detail/CVE-2023-46604'',
        pv_publicationDate = Some ''2023-10-27'', pv_retrievedAt = ''2026-08-18'',
        pv_datasetVersion = ''nvd-2.0+cisa-kev-2026.08.17+epss-2026-08-17'',
        pv_metricDefinition = ''NVD CVSS v3.1 base score; CISA KEV membership as of catalogVersion 2026.08.17; FIRST EPSS 30-day exploitation probability.''\<rparr>\<rparr>,
     \<lparr>cv_id = ''CVE-2024-4577'', cv_cvss = lit (98 / 10), cv_cvssVersion = ''3.1'', cv_severity = ''CRITICAL'',
      cv_cwe = [''CWE-78''],
      cv_affectedProduct = ''PHP CGI on Windows'', cv_affectedVersion = ''8.1 before 8.1.29, 8.2 before 8.2.20, 8.3 before 8.3.8'',
      cv_published = ''2024-06-09'', cv_lastModified = ''2026-06-17'',
      cv_epss = Some \<lparr>ep_score = lit (99987 / 100000), ep_percentile = lit (99984 / 100000), ep_date = ''2026-08-17'',
        ep_source = ''FIRST.org EPSS API'', ep_sourceUrl = ''https://api.first.org/data/v1/epss?cve=CVE-2024-4577''\<rparr>,
      cv_kev = True,
      cv_description = (''In PHP versions'' @ [CHR 0xC2, CHR 0xA0] @ ''8.1.* before 8.1.29, 8.2.* before 8.2.20, 8.3.* before 8.3.8, when using Apache and PHP-CGI on Windows, if the system is set up to use certain code pages, Windows may use '' @ [CHR 0x22] @ ''Best-Fit'' @ [CHR 0x22] @ '' behavior to replace characters in command line given to'' @ [CHR 0xC2, CHR 0xA0] @ ''Win32 API functions. PHP C''),
      cv_references = [''https://nvd.nist.gov/vuln/detail/CVE-2024-4577'', ''https://www.cisa.gov/known-exploited-vulnerabilities-catalog''],
      cv_provenance =
       \<lparr>pv_kind = Intel, pv_source = ''NVD CVE API 2.0'',
        pv_sourceUrl = Some ''https://nvd.nist.gov/vuln/detail/CVE-2024-4577'',
        pv_publicationDate = Some ''2024-06-09'', pv_retrievedAt = ''2026-08-18'',
        pv_datasetVersion = ''nvd-2.0+cisa-kev-2026.08.17+epss-2026-08-17'',
        pv_metricDefinition = ''NVD CVSS v3.1 base score; CISA KEV membership as of catalogVersion 2026.08.17; FIRST EPSS 30-day exploitation probability.''\<rparr>\<rparr>]"

definition CVES_4 :: "cve_record list" where
  "CVES_4 =
    [\<lparr>cv_id = ''CVE-2023-3519'', cv_cvss = lit (98 / 10), cv_cvssVersion = ''3.1'', cv_severity = ''CRITICAL'',
      cv_cwe = [''CWE-94''],
      cv_affectedProduct = ''Citrix NetScaler ADC/Gateway'', cv_affectedVersion = ''unauthenticated RCE'',
      cv_published = ''2023-07-19'', cv_lastModified = ''2026-08-05'',
      cv_epss = Some \<lparr>ep_score = lit (99749 / 100000), ep_percentile = lit (99954 / 100000), ep_date = ''2026-08-17'',
        ep_source = ''FIRST.org EPSS API'', ep_sourceUrl = ''https://api.first.org/data/v1/epss?cve=CVE-2023-3519''\<rparr>,
      cv_kev = True,
      cv_description = ''Unauthenticated remote code execution'',
      cv_references = [''https://nvd.nist.gov/vuln/detail/CVE-2023-3519'', ''https://www.cisa.gov/known-exploited-vulnerabilities-catalog''],
      cv_provenance =
       \<lparr>pv_kind = Intel, pv_source = ''NVD CVE API 2.0'',
        pv_sourceUrl = Some ''https://nvd.nist.gov/vuln/detail/CVE-2023-3519'',
        pv_publicationDate = Some ''2023-07-19'', pv_retrievedAt = ''2026-08-18'',
        pv_datasetVersion = ''nvd-2.0+cisa-kev-2026.08.17+epss-2026-08-17'',
        pv_metricDefinition = ''NVD CVSS v3.1 base score; CISA KEV membership as of catalogVersion 2026.08.17; FIRST EPSS 30-day exploitation probability.''\<rparr>\<rparr>,
     \<lparr>cv_id = ''CVE-2024-1709'', cv_cvss = num 10, cv_cvssVersion = ''3.1'', cv_severity = ''CRITICAL'',
      cv_cwe = [''CWE-288''],
      cv_affectedProduct = ''ConnectWise ScreenConnect'', cv_affectedVersion = ''23.9.7 and prior'',
      cv_published = ''2024-02-21'', cv_lastModified = ''2026-06-17'',
      cv_epss = Some \<lparr>ep_score = lit (99959 / 100000), ep_percentile = lit (99976 / 100000), ep_date = ''2026-08-17'',
        ep_source = ''FIRST.org EPSS API'', ep_sourceUrl = ''https://api.first.org/data/v1/epss?cve=CVE-2024-1709''\<rparr>,
      cv_kev = True,
      cv_description = ''ConnectWise ScreenConnect 23.9.7 and prior are affected by an Authentication Bypass Using an Alternate Path or Channel   vulnerability, which may allow an attacker direct access to confidential information or   critical systems.'',
      cv_references = [''https://nvd.nist.gov/vuln/detail/CVE-2024-1709'', ''https://www.cisa.gov/known-exploited-vulnerabilities-catalog''],
      cv_provenance =
       \<lparr>pv_kind = Intel, pv_source = ''NVD CVE API 2.0'',
        pv_sourceUrl = Some ''https://nvd.nist.gov/vuln/detail/CVE-2024-1709'',
        pv_publicationDate = Some ''2024-02-21'', pv_retrievedAt = ''2026-08-18'',
        pv_datasetVersion = ''nvd-2.0+cisa-kev-2026.08.17+epss-2026-08-17'',
        pv_metricDefinition = ''NVD CVSS v3.1 base score; CISA KEV membership as of catalogVersion 2026.08.17; FIRST EPSS 30-day exploitation probability.''\<rparr>\<rparr>,
     \<lparr>cv_id = ''CVE-2021-41773'', cv_cvss = lit (98 / 10), cv_cvssVersion = ''3.1'', cv_severity = ''CRITICAL'',
      cv_cwe = [''CWE-22''],
      cv_affectedProduct = ''Apache HTTP Server'', cv_affectedVersion = ''2.4.49'',
      cv_published = ''2021-10-05'', cv_lastModified = ''2026-06-17'',
      cv_epss = Some \<lparr>ep_score = lit (99992 / 100000), ep_percentile = lit (99986 / 100000), ep_date = ''2026-08-17'',
        ep_source = ''FIRST.org EPSS API'', ep_sourceUrl = ''https://api.first.org/data/v1/epss?cve=CVE-2021-41773''\<rparr>,
      cv_kev = True,
      cv_description = ''A flaw was found in a change made to path normalization in Apache HTTP Server 2.4.49. An attacker could use a path traversal attack to map URLs to files outside the directories configured by Alias-like directives. If files outside of these directories are not protected by the usu'',
      cv_references = [''https://nvd.nist.gov/vuln/detail/CVE-2021-41773'', ''https://www.cisa.gov/known-exploited-vulnerabilities-catalog''],
      cv_provenance =
       \<lparr>pv_kind = Intel, pv_source = ''NVD CVE API 2.0'',
        pv_sourceUrl = Some ''https://nvd.nist.gov/vuln/detail/CVE-2021-41773'',
        pv_publicationDate = Some ''2021-10-05'', pv_retrievedAt = ''2026-08-18'',
        pv_datasetVersion = ''nvd-2.0+cisa-kev-2026.08.17+epss-2026-08-17'',
        pv_metricDefinition = ''NVD CVSS v3.1 base score; CISA KEV membership as of catalogVersion 2026.08.17; FIRST EPSS 30-day exploitation probability.''\<rparr>\<rparr>,
     \<lparr>cv_id = ''CVE-2024-1086'', cv_cvss = lit (78 / 10), cv_cvssVersion = ''3.1'', cv_severity = ''HIGH'',
      cv_cwe = [''CWE-416''],
      cv_affectedProduct = ''Linux kernel nf_tables'', cv_affectedVersion = ''netfilter'',
      cv_published = ''2024-01-31'', cv_lastModified = ''2026-08-07'',
      cv_epss = Some \<lparr>ep_score = lit (28058 / 100000), ep_percentile = lit (9794 / 10000), ep_date = ''2026-08-17'',
        ep_source = ''FIRST.org EPSS API'', ep_sourceUrl = ''https://api.first.org/data/v1/epss?cve=CVE-2024-1086''\<rparr>,
      cv_kev = True,
      cv_description = (''A use-after-free vulnerability in the Linux kernel'' @ [CHR 0x27] @ ''s netfilter: nf_tables component can be exploited to achieve local privilege escalation.    The nft_verdict_init() function allows positive values as drop error within the hook verdict, and hence the nf_hook_slow() function can c''),
      cv_references = [''https://nvd.nist.gov/vuln/detail/CVE-2024-1086'', ''https://www.cisa.gov/known-exploited-vulnerabilities-catalog''],
      cv_provenance =
       \<lparr>pv_kind = Intel, pv_source = ''NVD CVE API 2.0'',
        pv_sourceUrl = Some ''https://nvd.nist.gov/vuln/detail/CVE-2024-1086'',
        pv_publicationDate = Some ''2024-01-31'', pv_retrievedAt = ''2026-08-18'',
        pv_datasetVersion = ''nvd-2.0+cisa-kev-2026.08.17+epss-2026-08-17'',
        pv_metricDefinition = ''NVD CVSS v3.1 base score; CISA KEV membership as of catalogVersion 2026.08.17; FIRST EPSS 30-day exploitation probability.''\<rparr>\<rparr>,
     \<lparr>cv_id = ''CVE-2023-38831'', cv_cvss = lit (78 / 10), cv_cvssVersion = ''3.1'', cv_severity = ''HIGH'',
      cv_cwe = [''CWE-345'', ''CWE-351''],
      cv_affectedProduct = ''RARLAB WinRAR'', cv_affectedVersion = ''before 6.23'',
      cv_published = ''2023-08-23'', cv_lastModified = ''2026-08-05'',
      cv_epss = Some \<lparr>ep_score = lit (97811 / 100000), ep_percentile = lit (99901 / 100000), ep_date = ''2026-08-17'',
        ep_source = ''FIRST.org EPSS API'', ep_sourceUrl = ''https://api.first.org/data/v1/epss?cve=CVE-2023-38831''\<rparr>,
      cv_kev = True,
      cv_description = ''RARLAB WinRAR before 6.23 allows attackers to execute arbitrary code when a user attempts to view a benign file within a ZIP archive. The issue occurs because a ZIP archive may include a benign file (such as an ordinary .JPG file) and also a folder that has the same name as the b'',
      cv_references = [''https://nvd.nist.gov/vuln/detail/CVE-2023-38831'', ''https://www.cisa.gov/known-exploited-vulnerabilities-catalog''],
      cv_provenance =
       \<lparr>pv_kind = Intel, pv_source = ''NVD CVE API 2.0'',
        pv_sourceUrl = Some ''https://nvd.nist.gov/vuln/detail/CVE-2023-38831'',
        pv_publicationDate = Some ''2023-08-23'', pv_retrievedAt = ''2026-08-18'',
        pv_datasetVersion = ''nvd-2.0+cisa-kev-2026.08.17+epss-2026-08-17'',
        pv_metricDefinition = ''NVD CVSS v3.1 base score; CISA KEV membership as of catalogVersion 2026.08.17; FIRST EPSS 30-day exploitation probability.''\<rparr>\<rparr>]"

definition CVES_5 :: "cve_record list" where
  "CVES_5 =
    [\<lparr>cv_id = ''CVE-2023-20198'', cv_cvss = num 10, cv_cvssVersion = ''3.1'', cv_severity = ''CRITICAL'',
      cv_cwe = [''CWE-420''],
      cv_affectedProduct = ''Cisco IOS XE Web UI'', cv_affectedVersion = ''privilege 15 account creation'',
      cv_published = ''2023-10-16'', cv_lastModified = ''2026-06-17'',
      cv_epss = Some \<lparr>ep_score = lit (99571 / 100000), ep_percentile = lit (99944 / 100000), ep_date = ''2026-08-17'',
        ep_source = ''FIRST.org EPSS API'', ep_sourceUrl = ''https://api.first.org/data/v1/epss?cve=CVE-2023-20198''\<rparr>,
      cv_kev = True,
      cv_description = ''Cisco is providing an update for the ongoing investigation into observed exploitation of the web UI feature in Cisco IOS XE Software. We are updating the list of fixed releases and adding the Software Checker. Our investigation has determined that the actors exploited two previou'',
      cv_references = [''https://nvd.nist.gov/vuln/detail/CVE-2023-20198'', ''https://www.cisa.gov/known-exploited-vulnerabilities-catalog''],
      cv_provenance =
       \<lparr>pv_kind = Intel, pv_source = ''NVD CVE API 2.0'',
        pv_sourceUrl = Some ''https://nvd.nist.gov/vuln/detail/CVE-2023-20198'',
        pv_publicationDate = Some ''2023-10-16'', pv_retrievedAt = ''2026-08-18'',
        pv_datasetVersion = ''nvd-2.0+cisa-kev-2026.08.17+epss-2026-08-17'',
        pv_metricDefinition = ''NVD CVSS v3.1 base score; CISA KEV membership as of catalogVersion 2026.08.17; FIRST EPSS 30-day exploitation probability.''\<rparr>\<rparr>,
     \<lparr>cv_id = ''CVE-2021-21972'', cv_cvss = lit (98 / 10), cv_cvssVersion = ''3.1'', cv_severity = ''CRITICAL'',
      cv_cwe = [''CWE-22''],
      cv_affectedProduct = ''VMware vCenter Server'', cv_affectedVersion = ''vSphere Client plugin, port 443'',
      cv_published = ''2021-02-24'', cv_lastModified = ''2026-08-12'',
      cv_epss = Some \<lparr>ep_score = lit (99518 / 100000), ep_percentile = lit (99943 / 100000), ep_date = ''2026-08-17'',
        ep_source = ''FIRST.org EPSS API'', ep_sourceUrl = ''https://api.first.org/data/v1/epss?cve=CVE-2021-21972''\<rparr>,
      cv_kev = True,
      cv_description = ''The vSphere Client (HTML5) contains a remote code execution vulnerability in a vCenter Server plugin. A malicious actor with network access to port 443 may exploit this issue to execute commands with unrestricted privileges on the underlying operating system that hosts vCenter Se'',
      cv_references = [''https://nvd.nist.gov/vuln/detail/CVE-2021-21972'', ''https://www.cisa.gov/known-exploited-vulnerabilities-catalog''],
      cv_provenance =
       \<lparr>pv_kind = Intel, pv_source = ''NVD CVE API 2.0'',
        pv_sourceUrl = Some ''https://nvd.nist.gov/vuln/detail/CVE-2021-21972'',
        pv_publicationDate = Some ''2021-02-24'', pv_retrievedAt = ''2026-08-18'',
        pv_datasetVersion = ''nvd-2.0+cisa-kev-2026.08.17+epss-2026-08-17'',
        pv_metricDefinition = ''NVD CVSS v3.1 base score; CISA KEV membership as of catalogVersion 2026.08.17; FIRST EPSS 30-day exploitation probability.''\<rparr>\<rparr>,
     \<lparr>cv_id = ''CVE-2022-41040'', cv_cvss = lit (88 / 10), cv_cvssVersion = ''3.1'', cv_severity = ''HIGH'',
      cv_cwe = [''CWE-918''],
      cv_affectedProduct = ''Microsoft Exchange Server'', cv_affectedVersion = ''ProxyNotShell SSRF'',
      cv_published = ''2022-10-03'', cv_lastModified = ''2026-06-17'',
      cv_epss = Some \<lparr>ep_score = lit (99956 / 100000), ep_percentile = lit (99975 / 100000), ep_date = ''2026-08-17'',
        ep_source = ''FIRST.org EPSS API'', ep_sourceUrl = ''https://api.first.org/data/v1/epss?cve=CVE-2022-41040''\<rparr>,
      cv_kev = True,
      cv_description = ''Microsoft Exchange Server Elevation of Privilege Vulnerability'',
      cv_references = [''https://nvd.nist.gov/vuln/detail/CVE-2022-41040'', ''https://www.cisa.gov/known-exploited-vulnerabilities-catalog''],
      cv_provenance =
       \<lparr>pv_kind = Intel, pv_source = ''NVD CVE API 2.0'',
        pv_sourceUrl = Some ''https://nvd.nist.gov/vuln/detail/CVE-2022-41040'',
        pv_publicationDate = Some ''2022-10-03'', pv_retrievedAt = ''2026-08-18'',
        pv_datasetVersion = ''nvd-2.0+cisa-kev-2026.08.17+epss-2026-08-17'',
        pv_metricDefinition = ''NVD CVSS v3.1 base score; CISA KEV membership as of catalogVersion 2026.08.17; FIRST EPSS 30-day exploitation probability.''\<rparr>\<rparr>,
     \<lparr>cv_id = ''CVE-2023-38545'', cv_cvss = lit (98 / 10), cv_cvssVersion = ''3.1'', cv_severity = ''CRITICAL'',
      cv_cwe = [''CWE-787''],
      cv_affectedProduct = ''curl SOCKS5'', cv_affectedVersion = ''heap overflow in proxy handshake'',
      cv_published = ''2023-10-18'', cv_lastModified = ''2026-06-17'',
      cv_epss = Some \<lparr>ep_score = lit (78483 / 100000), ep_percentile = lit (99547 / 100000), ep_date = ''2026-08-17'',
        ep_source = ''FIRST.org EPSS API'', ep_sourceUrl = ''https://api.first.org/data/v1/epss?cve=CVE-2023-38545''\<rparr>,
      cv_kev = False,
      cv_description = ''This flaw makes curl overflow a heap based buffer in the SOCKS5 proxy handshake.  When curl is asked to pass along the host name to the SOCKS5 proxy to allow that to resolve the address instead of it getting done by curl itself, the maximum length that host name can be is 255 byt'',
      cv_references = [''https://nvd.nist.gov/vuln/detail/CVE-2023-38545''],
      cv_provenance =
       \<lparr>pv_kind = Intel, pv_source = ''NVD CVE API 2.0'',
        pv_sourceUrl = Some ''https://nvd.nist.gov/vuln/detail/CVE-2023-38545'',
        pv_publicationDate = Some ''2023-10-18'', pv_retrievedAt = ''2026-08-18'',
        pv_datasetVersion = ''nvd-2.0+cisa-kev-2026.08.17+epss-2026-08-17'',
        pv_metricDefinition = ''NVD CVSS v3.1 base score; CISA KEV membership as of catalogVersion 2026.08.17; FIRST EPSS 30-day exploitation probability.''\<rparr>\<rparr>,
     \<lparr>cv_id = ''CVE-2021-23337'', cv_cvss = lit (72 / 10), cv_cvssVersion = ''3.1'', cv_severity = ''HIGH'',
      cv_cwe = [''CWE-94''],
      cv_affectedProduct = ''lodash'', cv_affectedVersion = ''versions prior to 4.17.21'',
      cv_published = ''2021-02-15'', cv_lastModified = ''2026-06-17'',
      cv_epss = Some \<lparr>ep_score = lit (21333 / 100000), ep_percentile = lit (9739 / 10000), ep_date = ''2026-08-17'',
        ep_source = ''FIRST.org EPSS API'', ep_sourceUrl = ''https://api.first.org/data/v1/epss?cve=CVE-2021-23337''\<rparr>,
      cv_kev = False,
      cv_description = ''Lodash versions prior to 4.17.21 are vulnerable to Command Injection via the template function.'',
      cv_references = [''https://nvd.nist.gov/vuln/detail/CVE-2021-23337''],
      cv_provenance =
       \<lparr>pv_kind = Intel, pv_source = ''NVD CVE API 2.0'',
        pv_sourceUrl = Some ''https://nvd.nist.gov/vuln/detail/CVE-2021-23337'',
        pv_publicationDate = Some ''2021-02-15'', pv_retrievedAt = ''2026-08-18'',
        pv_datasetVersion = ''nvd-2.0+cisa-kev-2026.08.17+epss-2026-08-17'',
        pv_metricDefinition = ''NVD CVSS v3.1 base score; CISA KEV membership as of catalogVersion 2026.08.17; FIRST EPSS 30-day exploitation probability.''\<rparr>\<rparr>]"

definition CVES_6 :: "cve_record list" where
  "CVES_6 =
    [\<lparr>cv_id = ''CVE-2024-3094'', cv_cvss = num 10, cv_cvssVersion = ''3.1'', cv_severity = ''CRITICAL'',
      cv_cwe = [''CWE-506''],
      cv_affectedProduct = ''xz-utils / liblzma'', cv_affectedVersion = ''5.6.0 and 5.6.1 tarballs'',
      cv_published = ''2024-03-29'', cv_lastModified = ''2026-06-17'',
      cv_epss = Some \<lparr>ep_score = lit (85974 / 100000), ep_percentile = lit (99712 / 100000), ep_date = ''2026-08-17'',
        ep_source = ''FIRST.org EPSS API'', ep_sourceUrl = ''https://api.first.org/data/v1/epss?cve=CVE-2024-3094''\<rparr>,
      cv_kev = False,
      cv_description = ''Malicious code was discovered in the upstream tarballs of xz, starting with version 5.6.0.   Through a series of complex obfuscations, the liblzma build process extracts a prebuilt object file from a disguised test file existing in the source code, which is then used to modify sp'',
      cv_references = [''https://nvd.nist.gov/vuln/detail/CVE-2024-3094''],
      cv_provenance =
       \<lparr>pv_kind = Intel, pv_source = ''NVD CVE API 2.0'',
        pv_sourceUrl = Some ''https://nvd.nist.gov/vuln/detail/CVE-2024-3094'',
        pv_publicationDate = Some ''2024-03-29'', pv_retrievedAt = ''2026-08-18'',
        pv_datasetVersion = ''nvd-2.0+cisa-kev-2026.08.17+epss-2026-08-17'',
        pv_metricDefinition = ''NVD CVSS v3.1 base score; CISA KEV membership as of catalogVersion 2026.08.17; FIRST EPSS 30-day exploitation probability.''\<rparr>\<rparr>]"

definition CVE_CATALOG :: "cve_record list" where
  "CVE_CATALOG = CVES_1 @ CVES_2 @ CVES_3 @ CVES_4 @ CVES_5 @ CVES_6"

text \<open>\<open>Object.fromEntries\<close>: a later record would replace an earlier one with its identifier.\<close>

definition CVE_BY_ID :: "string \<Rightarrow> cve_record option" where
  "CVE_BY_ID i = map_of (rev (map (\<lambda>c. (cv_id c, c)) CVE_CATALOG)) i"

definition KEV_CVES :: "cve_record list" where
  "KEV_CVES = filter cv_kev CVE_CATALOG"

section \<open>Lemmas\<close>

lemmas cve_groups = CVES_1_def CVES_2_def CVES_3_def CVES_4_def CVES_5_def CVES_6_def

lemma catalog_ids: "map cv_id CVE_CATALOG =
   map cv_id CVES_1 @ map cv_id CVES_2 @ map cv_id CVES_3 @ map cv_id CVES_4 @ map cv_id CVES_5 @ map cv_id CVES_6"
  by (simp add: CVE_CATALOG_def)

lemma catalog_length: "length CVE_CATALOG = 26"
  by (simp add: CVE_CATALOG_def cve_groups)

lemma catalog_distinct: "distinct (map cv_id CVE_CATALOG)"
  unfolding catalog_ids by (simp add: cve_groups)

lemma CVE_BY_ID_Some: "CVE_BY_ID i = Some c \<longleftrightarrow> c \<in> set CVE_CATALOG \<and> cv_id c = i"
proof -
  let ?ps = "rev (map (\<lambda>c. (cv_id c, c)) CVE_CATALOG)"
  have "map fst ?ps = rev (map cv_id CVE_CATALOG)" by (simp add: rev_map comp_def)
  with catalog_distinct have "distinct (map fst ?ps)" by simp
  then show ?thesis by (auto simp: CVE_BY_ID_def)
qed


text \<open>A decimal score against an integer threshold.\<close>

lemma lit_ge:
  "numeral n \<le> x \<Longrightarrow> (numeral n :: int) \<le> 2 ^ 53 \<Longrightarrow> js_le (Fin (numeral n)) (lit x)"
  using to_num_mono [of "numeral n" x] to_num_of_int [of "numeral n"] by (simp add: lit_def)

lemma lit_lt_int:
  assumes "x \<le> of_int k - 1 / 8" "\<bar>k\<bar> \<le> 2 ^ 40"
  shows "\<not> js_le (num k) (lit x)"
proof -
  have "to_num (of_int (8 * k - 1) / 2 ^ 3) = Fin (of_int (8 * k - 1) / 2 ^ 3)"
    using assms(2) by (intro to_num_dyadic) simp_all
  then have "to_num (of_int k - 1 / 8) = Fin (of_int k - 1 / 8)" by (simp add: diff_divide_distrib)
  with to_num_mono [OF assms(1)] have "js_le (lit x) (Fin (of_int k - 1 / 8))" by (simp add: lit_def)
  then show ?thesis by (cases "lit x") auto
qed

lemma lit_lt:
  "x \<le> numeral n - 1 / 8 \<Longrightarrow> (numeral n :: int) \<le> 2 ^ 40 \<Longrightarrow> \<not> js_le (Fin (numeral n)) (lit x)"
  using lit_lt_int [of x "numeral n"] by simp

text \<open>The qualitative rating of CVSS v3.1.\<close>

definition cvss_rating :: "jsnum \<Rightarrow> string" where
  "cvss_rating x =
     (if js_le (num 9) x then ''CRITICAL'' else if js_le (num 7) x then ''HIGH''
      else if js_le (num 4) x then ''MEDIUM'' else ''LOW'')"

lemma rating_values:
  "cvss_rating (num 10) = ''CRITICAL''" "cvss_rating (lit (98 / 10)) = ''CRITICAL''"
  "cvss_rating (lit (94 / 10)) = ''CRITICAL''" "cvss_rating (lit (91 / 10)) = ''CRITICAL''"
  "cvss_rating (lit (88 / 10)) = ''HIGH''" "cvss_rating (lit (78 / 10)) = ''HIGH''"
  "cvss_rating (lit (75 / 10)) = ''HIGH''" "cvss_rating (lit (72 / 10)) = ''HIGH''"
  "cvss_rating (lit (55 / 10)) = ''MEDIUM''"
  by (simp_all add: cvss_rating_def lit_ge lit_lt)

lemma catalog_ratings: "list_all (\<lambda>c. cv_severity c = cvss_rating (cv_cvss c)) CVE_CATALOG"
proof -
  note v = rating_values [simplified]
  have "list_all (\<lambda>c. cv_severity c = cvss_rating (cv_cvss c)) CVES_1" by (simp add: CVES_1_def v)
  moreover have "list_all (\<lambda>c. cv_severity c = cvss_rating (cv_cvss c)) CVES_2" by (simp add: CVES_2_def v)
  moreover have "list_all (\<lambda>c. cv_severity c = cvss_rating (cv_cvss c)) CVES_3" by (simp add: CVES_3_def v)
  moreover have "list_all (\<lambda>c. cv_severity c = cvss_rating (cv_cvss c)) CVES_4" by (simp add: CVES_4_def v)
  moreover have "list_all (\<lambda>c. cv_severity c = cvss_rating (cv_cvss c)) CVES_5" by (simp add: CVES_5_def v)
  moreover have "list_all (\<lambda>c. cv_severity c = cvss_rating (cv_cvss c)) CVES_6" by (simp add: CVES_6_def v)
  ultimately show ?thesis by (simp add: CVE_CATALOG_def)
qed

section \<open>Properties\<close>

text \<open>The catalogue is consistent: no identifier is listed twice, so looking one up gives its
  record and nothing else, and the severity of every record is the CVSS v3.1 rating of its score.\<close>

theorem cve_catalogue:
  "distinct (map cv_id CVE_CATALOG)
   \<and> (CVE_BY_ID i = Some c \<longleftrightarrow> c \<in> set CVE_CATALOG \<and> cv_id c = i)
   \<and> list_all (\<lambda>c. cv_severity c = cvss_rating (cv_cvss c)) CVE_CATALOG"
  using catalog_distinct CVE_BY_ID_Some catalog_ratings by simp

end
