(* ===== verification/Frameworks.thy ===== *)
theory Frameworks
  imports Sources
begin

text \<open>
  web/src/data/enterprise/frameworks.ts: the catalogue of controls, the frameworks, and the
  summary of a framework's control results.
\<close>

section \<open>Catalogue\<close>

record seed_ctrl =
  sc_id :: string
  sc_framework :: string
  sc_critical :: "bool option"
  sc_title :: string

definition CONTROL_CATALOG :: "seed_ctrl list" where
  "CONTROL_CATALOG =
    [\<lparr>sc_id = ''A.5.1'', sc_framework = ''iso27001'', sc_critical = Some True,
      sc_title = ''Policies for information security''\<rparr>,
     \<lparr>sc_id = ''A.5.7'', sc_framework = ''iso27001'', sc_critical = None,
      sc_title = ''Threat intelligence''\<rparr>,
     \<lparr>sc_id = ''A.5.15'', sc_framework = ''iso27001'', sc_critical = Some True,
      sc_title = ''Access control''\<rparr>,
     \<lparr>sc_id = ''A.5.17'', sc_framework = ''iso27001'', sc_critical = Some True,
      sc_title = ''Authentication information''\<rparr>,
     \<lparr>sc_id = ''A.5.23'', sc_framework = ''iso27001'', sc_critical = Some True,
      sc_title = ''Information security for use of cloud services''\<rparr>,
     \<lparr>sc_id = ''A.8.2'', sc_framework = ''iso27001'', sc_critical = Some True,
      sc_title = ''Privileged access rights''\<rparr>,
     \<lparr>sc_id = ''A.8.3'', sc_framework = ''iso27001'', sc_critical = None,
      sc_title = ''Information access restriction''\<rparr>,
     \<lparr>sc_id = ''A.8.5'', sc_framework = ''iso27001'', sc_critical = Some True,
      sc_title = ''Secure authentication''\<rparr>,
     \<lparr>sc_id = ''A.8.8'', sc_framework = ''iso27001'', sc_critical = Some True,
      sc_title = ''Management of technical vulnerabilities''\<rparr>,
     \<lparr>sc_id = ''A.8.9'', sc_framework = ''iso27001'', sc_critical = Some True,
      sc_title = ''Configuration management''\<rparr>,
     \<lparr>sc_id = ''A.8.12'', sc_framework = ''iso27001'', sc_critical = None,
      sc_title = ''Data leakage prevention''\<rparr>,
     \<lparr>sc_id = ''A.8.20'', sc_framework = ''iso27001'', sc_critical = None,
      sc_title = ''Networks security''\<rparr>,
     \<lparr>sc_id = ''A.8.22'', sc_framework = ''iso27001'', sc_critical = None,
      sc_title = ''Segregation of networks''\<rparr>,
     \<lparr>sc_id = ''A.8.24'', sc_framework = ''iso27001'', sc_critical = Some True,
      sc_title = ''Use of cryptography''\<rparr>,
     \<lparr>sc_id = ''A.8.25'', sc_framework = ''iso27001'', sc_critical = None,
      sc_title = ''Secure development life cycle''\<rparr>,
     \<lparr>sc_id = ''A.8.26'', sc_framework = ''iso27001'', sc_critical = None,
      sc_title = ''Application security requirements''\<rparr>,
     \<lparr>sc_id = ''A.8.32'', sc_framework = ''iso27001'', sc_critical = None,
      sc_title = ''Change management''\<rparr>,
     \<lparr>sc_id = ''A.5.24'', sc_framework = ''iso27001'', sc_critical = None,
      sc_title = ''Information security incident management planning''\<rparr>,
     \<lparr>sc_id = ''A.5.25'', sc_framework = ''iso27001'', sc_critical = None,
      sc_title = ''Assessment and decision on information security events''\<rparr>,
     \<lparr>sc_id = ''A.5.26'', sc_framework = ''iso27001'', sc_critical = None,
      sc_title = ''Response to information security incidents''\<rparr>,
     \<lparr>sc_id = ''A.5.29'', sc_framework = ''iso27001'', sc_critical = None,
      sc_title = ''Information security during disruption''\<rparr>,
     \<lparr>sc_id = ''A.5.31'', sc_framework = ''iso27001'', sc_critical = None,
      sc_title = ''Legal, statutory, regulatory and contractual requirements''\<rparr>,
     \<lparr>sc_id = ''A.5.33'', sc_framework = ''iso27001'', sc_critical = None,
      sc_title = ''Protection of records''\<rparr>,
     \<lparr>sc_id = ''A.5.34'', sc_framework = ''iso27001'', sc_critical = None,
      sc_title = ''Privacy and protection of PII''\<rparr>,
     \<lparr>sc_id = ''A.6.3'', sc_framework = ''iso27001'', sc_critical = None,
      sc_title = ''Information security awareness, education and training''\<rparr>,
     \<lparr>sc_id = ''A.7.4'', sc_framework = ''iso27001'', sc_critical = None,
      sc_title = ''Physical security monitoring''\<rparr>,
     \<lparr>sc_id = ''A.8.7'', sc_framework = ''iso27001'', sc_critical = None,
      sc_title = ''Protection against malware''\<rparr>,
     \<lparr>sc_id = ''A.8.13'', sc_framework = ''iso27001'', sc_critical = None,
      sc_title = ''Information backup''\<rparr>,
     \<lparr>sc_id = ''A.8.15'', sc_framework = ''iso27001'', sc_critical = None,
      sc_title = ''Logging''\<rparr>,
     \<lparr>sc_id = ''A.8.16'', sc_framework = ''iso27001'', sc_critical = None,
      sc_title = ''Monitoring activities''\<rparr>,
     \<lparr>sc_id = ''A.8.23'', sc_framework = ''iso27001'', sc_critical = None,
      sc_title = ''Web filtering''\<rparr>,
     \<lparr>sc_id = ''A.8.34'', sc_framework = ''iso27001'', sc_critical = None,
      sc_title = ''Protection of information systems during audit testing''\<rparr>,
     \<lparr>sc_id = ''CIS-1.1'', sc_framework = ''cis'', sc_critical = Some True,
      sc_title = ''Establish and maintain detailed enterprise asset inventory''\<rparr>,
     \<lparr>sc_id = ''CIS-3.3'', sc_framework = ''cis'', sc_critical = None,
      sc_title = ''Configure data access control lists''\<rparr>,
     \<lparr>sc_id = ''CIS-5.2'', sc_framework = ''cis'', sc_critical = Some True,
      sc_title = ''Use unique passwords''\<rparr>,
     \<lparr>sc_id = ''CIS-6.1'', sc_framework = ''cis'', sc_critical = None,
      sc_title = ''Establish an access granting process''\<rparr>,
     \<lparr>sc_id = ''CIS-6.5'', sc_framework = ''cis'', sc_critical = Some True,
      sc_title = ''Require MFA for administratively-configured accounts''\<rparr>,
     \<lparr>sc_id = ''CIS-7.5'', sc_framework = ''cis'', sc_critical = Some True,
      sc_title = ''Perform automated vulnerability scans of internal enterprise assets''\<rparr>,
     \<lparr>sc_id = ''CIS-7.7'', sc_framework = ''cis'', sc_critical = None,
      sc_title = ''Remediate detected vulnerabilities''\<rparr>,
     \<lparr>sc_id = ''CIS-12.2'', sc_framework = ''cis'', sc_critical = None,
      sc_title = ''Establish and maintain a secure network architecture''\<rparr>,
     \<lparr>sc_id = ''CIS-13.1'', sc_framework = ''cis'', sc_critical = None,
      sc_title = ''Centralize security event alerting''\<rparr>,
     \<lparr>sc_id = ''CIS-16.2'', sc_framework = ''cis'', sc_critical = None,
      sc_title = ''Establish a process to accept and address software vulnerabilities''\<rparr>,
     \<lparr>sc_id = ''NIS2-Art21.2.a'', sc_framework = ''nis2'', sc_critical = Some True,
      sc_title = ''Policies on risk analysis and information system security''\<rparr>,
     \<lparr>sc_id = ''NIS2-Art21.2.c'', sc_framework = ''nis2'', sc_critical = None,
      sc_title = ''Business continuity, backup management and disaster recovery''\<rparr>,
     \<lparr>sc_id = ''NIS2-Art21.2.d'', sc_framework = ''nis2'', sc_critical = None,
      sc_title = ''Supply chain security''\<rparr>,
     \<lparr>sc_id = ''NIS2-Art21.2.e'', sc_framework = ''nis2'', sc_critical = Some True,
      sc_title = ''Security in network and information systems acquisition, development and maintenance''\<rparr>,
     \<lparr>sc_id = ''NIS2-Art21.2.g'', sc_framework = ''nis2'', sc_critical = None,
      sc_title = ''Basic cyber hygiene practices and cybersecurity training''\<rparr>,
     \<lparr>sc_id = ''NIS2-Art21.2.i'', sc_framework = ''nis2'', sc_critical = Some True,
      sc_title = ''Human resources security, access control policies and asset management''\<rparr>,
     \<lparr>sc_id = ''NIS2-Art21.2.j'', sc_framework = ''nis2'', sc_critical = Some True,
      sc_title = ''Use of multi-factor authentication or continuous authentication''\<rparr>,
     \<lparr>sc_id = ''NIS2-Art23'', sc_framework = ''nis2'', sc_critical = None,
      sc_title = ''Incident reporting obligations''\<rparr>,
     \<lparr>sc_id = ''DORA-Art5'', sc_framework = ''dora'', sc_critical = Some True,
      sc_title = ''ICT risk management framework''\<rparr>,
     \<lparr>sc_id = ''DORA-Art6'', sc_framework = ''dora'', sc_critical = None,
      sc_title = ''ICT risk management''\<rparr>,
     \<lparr>sc_id = ''DORA-Art9'', sc_framework = ''dora'', sc_critical = Some True,
      sc_title = ''Protection and prevention''\<rparr>,
     \<lparr>sc_id = ''DORA-Art10'', sc_framework = ''dora'', sc_critical = None,
      sc_title = ''Detection''\<rparr>,
     \<lparr>sc_id = ''DORA-Art11'', sc_framework = ''dora'', sc_critical = None,
      sc_title = ''Response and recovery''\<rparr>,
     \<lparr>sc_id = ''DORA-Art24'', sc_framework = ''dora'', sc_critical = None,
      sc_title = ''Testing of ICT tools and systems''\<rparr>,
     \<lparr>sc_id = ''DORA-Art28'', sc_framework = ''dora'', sc_critical = None,
      sc_title = ''ICT third-party risk''\<rparr>,
     \<lparr>sc_id = ''CC6.1'', sc_framework = ''soc2'', sc_critical = Some True,
      sc_title = ''Logical access security software, infrastructure, and architectures''\<rparr>,
     \<lparr>sc_id = ''CC6.6'', sc_framework = ''soc2'', sc_critical = None,
      sc_title = ''External access points are protected''\<rparr>,
     \<lparr>sc_id = ''CC7.1'', sc_framework = ''soc2'', sc_critical = Some True,
      sc_title = ''Detection and monitoring of configuration changes and anomalies''\<rparr>,
     \<lparr>sc_id = ''CC7.2'', sc_framework = ''soc2'', sc_critical = None,
      sc_title = ''Monitor system components for anomalies''\<rparr>,
     \<lparr>sc_id = ''CC8.1'', sc_framework = ''soc2'', sc_critical = None,
      sc_title = ''Change management process''\<rparr>,
     \<lparr>sc_id = ''GDPR-Art25'', sc_framework = ''gdpr'', sc_critical = None,
      sc_title = ''Data protection by design and by default''\<rparr>,
     \<lparr>sc_id = ''GDPR-Art32'', sc_framework = ''gdpr'', sc_critical = Some True,
      sc_title = ''Security of processing''\<rparr>,
     \<lparr>sc_id = ''GDPR-Art33'', sc_framework = ''gdpr'', sc_critical = None,
      sc_title = ''Notification of a personal data breach to the supervisory authority''\<rparr>,
     \<lparr>sc_id = ''GDPR-Art35'', sc_framework = ''gdpr'', sc_critical = None,
      sc_title = ''Data protection impact assessment''\<rparr>,
     \<lparr>sc_id = ''ID.AM-01'', sc_framework = ''nist'', sc_critical = None,
      sc_title = ''Inventories of hardware managed by the organization are maintained''\<rparr>,
     \<lparr>sc_id = ''PR.AA-01'', sc_framework = ''nist'', sc_critical = Some True,
      sc_title = ''Identities and credentials for authorized users, services, and hardware are managed''\<rparr>,
     \<lparr>sc_id = ''PR.DS-01'', sc_framework = ''nist'', sc_critical = Some True,
      sc_title = ''The confidentiality, integrity, and availability of data-at-rest are protected''\<rparr>,
     \<lparr>sc_id = ''DE.CM-09'', sc_framework = ''nist'', sc_critical = None,
      sc_title = ''Computing hardware and software, runtime environments, and their data are monitored''\<rparr>,
     \<lparr>sc_id = ''RS.MI-01'', sc_framework = ''nist'', sc_critical = None,
      sc_title = ''Incidents are contained''\<rparr>,
     \<lparr>sc_id = ''BSI-TR-02102-AES'', sc_framework = ''bsi'', sc_critical = Some True,
      sc_title = ''Symmetric encryption: AES (no 3DES / DES)''\<rparr>,
     \<lparr>sc_id = ''BSI-TR-02102-RSA'', sc_framework = ''bsi'', sc_critical = Some True,
      sc_title = (''RSA key length '' @ ge_sign @ '' 3000 bits for new systems (2048 sunset)'')\<rparr>,
     \<lparr>sc_id = ''BSI-TR-02102-TLS'', sc_framework = ''bsi'', sc_critical = Some True,
      sc_title = ''TLS 1.2+ with forward secrecy; no static RSA key exchange''\<rparr>,
     \<lparr>sc_id = ''BSI-TR-02102-PQC'', sc_framework = ''bsi'', sc_critical = Some True,
      sc_title = ''Plan migration to PQC (ML-KEM / ML-DSA) for long-lived confidentiality''\<rparr>,
     \<lparr>sc_id = ''PCI-3.5'', sc_framework = ''pci'', sc_critical = Some True,
      sc_title = ''Primary account number is secured wherever it is stored''\<rparr>,
     \<lparr>sc_id = ''PCI-4.2'', sc_framework = ''pci'', sc_critical = Some True,
      sc_title = ''Strong cryptography and security protocols protect PAN during transmission''\<rparr>,
     \<lparr>sc_id = ''PCI-6.3'', sc_framework = ''pci'', sc_critical = None,
      sc_title = ''Security vulnerabilities are identified and addressed''\<rparr>,
     \<lparr>sc_id = ''PCI-8.4'', sc_framework = ''pci'', sc_critical = Some True,
      sc_title = ''MFA is implemented to secure CDE access''\<rparr>,
     \<lparr>sc_id = ''CRA-AnnexI-1'', sc_framework = ''cra'', sc_critical = Some True,
      sc_title = ''Products with digital elements designed, developed and produced to ensure an appropriate level of cybersecurity''\<rparr>,
     \<lparr>sc_id = ''CRA-AnnexI-2'', sc_framework = ''cra'', sc_critical = None,
      sc_title = ''Vulnerabilities are handled effectively''\<rparr>]"

record framework_meta =
  fm_name :: string
  fm_note :: string

definition FRAMEWORK_META :: "(string \<times> framework_meta) list" where
  "FRAMEWORK_META =
    [(''iso27001'', \<lparr>fm_name = ''ISO 27001'',
      fm_note = (''ISO/IEC 27001:2022 Annex A sample '' @ em_dash @ '' not a certification audit.'')\<rparr>),
     (''cis'', \<lparr>fm_name = ''CIS Controls'',
      fm_note = ''CIS Controls v8 safeguard sample.''\<rparr>),
     (''nis2'', \<lparr>fm_name = ''NIS2'',
      fm_note = ''Directive (EU) 2022/2555 Article 21/23 measures.''\<rparr>),
     (''dora'', \<lparr>fm_name = ''DORA'',
      fm_note = ''Regulation (EU) 2022/2554 ICT risk articles.''\<rparr>),
     (''soc2'', \<lparr>fm_name = ''SOC 2'',
      fm_note = ''AICPA TSC sample (CC series).''\<rparr>),
     (''gdpr'', \<lparr>fm_name = ''GDPR'',
      fm_note = ''Regulation (EU) 2016/679 Articles 25/32/33/35.''\<rparr>),
     (''nist'', \<lparr>fm_name = ''NIST CSF'',
      fm_note = ''NIST CSF 2.0 subcategory sample.''\<rparr>),
     (''bsi'', \<lparr>fm_name = ''BSI TR-02102'',
      fm_note = ''BSI cryptographic recommendations mapped as controls.''\<rparr>),
     (''pci'', \<lparr>fm_name = ''PCI DSS'',
      fm_note = ''PCI DSS 4.0 requirement sample.''\<rparr>),
     (''cra'', \<lparr>fm_name = ''EU CRA'',
      fm_note = ''EU Cyber Resilience Act Annex I sample.''\<rparr>)]"

section \<open>Results\<close>

datatype control_status = Passed | Failed | Partial | Na

record control_result =
  cr_id :: string
  cr_framework :: string
  cr_title :: string
  cr_status :: control_status
  cr_critical :: bool
  cr_evidence :: string

record framework_result =
  fr_id :: string
  fr_name :: string
  fr_assessed :: nat
  fr_passed :: nat
  fr_failed :: nat
  fr_partial :: nat
  fr_na :: nat
  fr_criticalFailures :: nat
  fr_score :: jsnum
  fr_controls :: "control_result list"

text \<open>\<open>Math.round(x * 1000) / 10\<close>, a percentage with one decimal.\<close>

definition percent1 :: "jsnum \<Rightarrow> jsnum" where
  "percent1 x = js_div (js_round (js_mul x (num 1000))) (num 10)"

definition framework_score :: "nat \<Rightarrow> nat \<Rightarrow> nat \<Rightarrow> jsnum" where
  "framework_score assessed passed partial =
     (if assessed = 0 then num 0
      else percent1 (js_div (js_add (num (int passed)) (js_mul (num (int partial)) (lit (1 / 2)))) (num (int assessed))))"

definition summarizeFramework :: "string \<Rightarrow> control_result list \<Rightarrow> framework_result" where
  "summarizeFramework framework controls =
     (let assessed = count_if (\<lambda>c. cr_status c \<noteq> Na) controls;
          passed = count_if (\<lambda>c. cr_status c = Passed) controls;
          failed = count_if (\<lambda>c. cr_status c = Failed) controls;
          partial = count_if (\<lambda>c. cr_status c = Partial) controls;
          na = count_if (\<lambda>c. cr_status c = Na) controls;
          criticalFailures = count_if (\<lambda>c. cr_critical c \<and> cr_status c = Failed) controls;
          name = (case map_of FRAMEWORK_META framework of Some meta \<Rightarrow> fm_name meta | None \<Rightarrow> framework)
      in \<lparr>fr_id = framework, fr_name = name, fr_assessed = assessed, fr_passed = passed,
          fr_failed = failed, fr_partial = partial, fr_na = na, fr_criticalFailures = criticalFailures,
          fr_score = framework_score assessed passed partial, fr_controls = controls\<rparr>)"

section \<open>Lemmas\<close>

lemma half_lit [simp]: "lit (1 / 2) = Fin (1 / 2)"
  using to_num_dyadic [of 1 1] by (simp add: lit_def)

lemma status_counts:
  "count_if (\<lambda>c. cr_status c \<noteq> Na) cs
     = count_if (\<lambda>c. cr_status c = Passed) cs + count_if (\<lambda>c. cr_status c = Failed) cs
       + count_if (\<lambda>c. cr_status c = Partial) cs"
proof (induction cs)
  case (Cons c cs)
  then show ?case by (cases "cr_status c") simp_all
qed simp

lemma critical_le: "count_if (\<lambda>c. cr_critical c \<and> cr_status c = Failed) cs \<le> count_if (\<lambda>c. cr_status c = Failed) cs"
  by (induction cs) simp_all

text \<open>The sum \<open>passed + partial * 0.5\<close> is exact, and the score is at most 100.\<close>

lemma half_sum:
  assumes "passed + partial \<le> 2 ^ 50"
  shows "js_add (num (int passed)) (js_mul (num (int partial)) (lit (1 / 2))) = Fin (of_int (2 * int passed + int partial) / 2)"
proof -
  have "int passed + int partial \<le> 2 ^ 50" using assms by (metis of_nat_add of_nat_le_iff of_nat_numeral of_nat_power)
  then have "\<bar>int partial\<bar> \<le> 2 ^ 53" "\<bar>2 * int passed + int partial\<bar> \<le> 2 ^ 53" by simp_all
  then show ?thesis
    using to_num_dyadic [of "int partial" 1] to_num_dyadic [of "2 * int passed + int partial" 1]
    by (simp add: add_divide_distrib)
qed

lemma percent1_mono: "js_le a b \<Longrightarrow> js_le (percent1 a) (percent1 b)"
  unfolding percent1_def by (intro js_div_mono js_round_mono js_mul_mono) simp_all

lemma percent1_0: "percent1 (num 0) = num 0"
proof -
  have "\<lfloor>1 / 2 :: rat\<rfloor> = 0" by (simp add: floor_eq_iff)
  then show ?thesis using to_num_of_int [of 0] by (simp add: percent1_def)
qed

lemma percent1_1: "percent1 (num 1) = num 100"
proof -
  have "\<lfloor>2001 / 2 :: rat\<rfloor> = 1000" by (simp add: floor_eq_iff)
  then show ?thesis using to_num_of_int [of 1000] to_num_of_int [of 100] by (simp add: percent1_def)
qed

text \<open>The largest share of at most 512 controls below all of them.\<close>

lemma percent1_below: "percent1 (Fin (1023 / 1024)) = to_num (999 / 10)"
proof -
  have "\<lfloor>127939 / 128 :: rat\<rfloor> = 999" by (simp add: floor_eq_iff)
  then show ?thesis using to_num_dyadic [of "1023 * 1000" 10] by (simp add: percent1_def)
qed

lemma below_100: "js_lt (to_num (999 / 10)) (num 100)"
proof -
  have "rnd (999 / 10) \<le> rnd (1023 / 1024 * 100)" by (rule rnd_mono) simp
  also have "\<dots> = 1023 / 1024 * 100" using to_num_dyadic [of "1023 * 100" 10] to_num_rnd by fastforce
  finally show ?thesis using to_num_Fin [of "999 / 10" 100] by simp
qed

lemma ratio_le:
  assumes "0 < a" "a \<le> 512" "x < int a * 2"
  shows "of_int x / 2 / of_nat a \<le> (1023 / 1024 :: rat)"
proof -
  have "of_int x \<le> (of_nat a * 2 - 1 :: rat)"
  proof -
    have "x \<le> int a * 2 - 1" using assms(3) by simp
    then have "(of_int x :: rat) \<le> of_int (int a * 2 - 1)" by (simp only: of_int_le_iff)
    then show ?thesis by simp
  qed
  moreover have "(of_nat a :: rat) \<le> 512" using assms(2) by (metis of_nat_le_iff of_nat_numeral)
  ultimately have "of_int x \<le> 1023 / 512 * (of_nat a :: rat)" by simp
  then show ?thesis using assms(1) by (simp add: field_simps)
qed

lemma framework_score_range:
  assumes "passed + partial \<le> assessed" "assessed \<le> 2 ^ 50"
  shows "js_le (num 0) (framework_score assessed passed partial)
     \<and> js_le (framework_score assessed passed partial) (num 100)"
proof (cases "assessed = 0")
  case True
  then show ?thesis by (simp add: framework_score_def)
next
  case False
  let ?x = "of_int (2 * int passed + int partial) / 2 / (of_nat assessed :: rat)"
  have "(of_nat (passed + partial) :: rat) \<le> of_nat assessed" using assms(1) by (simp only: of_nat_le_iff)
  with False have "0 \<le> ?x" "?x \<le> 1" by (simp_all add: field_simps)
  then have "js_le (num 0) (to_num ?x)" "js_le (to_num ?x) (num 1)"
    using to_num_mono [of 0 ?x] to_num_mono [of ?x 1] to_num_of_int [of 0] to_num_of_int [of 1] by simp_all
  then have "js_le (percent1 (num 0)) (percent1 (to_num ?x))" "js_le (percent1 (to_num ?x)) (percent1 (num 1))"
    by (simp_all only: percent1_mono)
  moreover have "framework_score assessed passed partial = percent1 (to_num ?x)"
    using False half_sum [of passed partial] assms by (simp add: framework_score_def)
  ultimately show ?thesis by (simp only: percent1_0 percent1_1 simp_thms)
qed

lemma framework_score_full:
  assumes "passed + partial \<le> assessed" "0 < assessed" "assessed \<le> 512"
  shows "framework_score assessed passed partial = num 100 \<longleftrightarrow> passed = assessed"
proof -
  let ?x = "of_int (2 * int passed + int partial) / 2 / (of_nat assessed :: rat)"
  have s: "framework_score assessed passed partial = percent1 (to_num ?x)"
    using half_sum [of passed partial] assms by (simp add: framework_score_def)
  show ?thesis
  proof (cases "passed = assessed")
    case True
    with assms have "?x = 1" by simp
    then show ?thesis using True s percent1_1 to_num_of_int [of 1] by simp
  next
    case False
    with assms have "2 * int passed + int partial < int assessed * 2" by simp
    with assms have "?x \<le> 1023 / 1024" by (intro ratio_le) simp_all
    then have "js_le (to_num ?x) (Fin (1023 / 1024))"
      using to_num_mono [of ?x "1023 / 1024"] to_num_dyadic [of 1023 10] by simp
    then have "js_le (percent1 (to_num ?x)) (to_num (999 / 10))"
      using percent1_mono percent1_below by metis
    with below_100 have "percent1 (to_num ?x) \<noteq> num 100" by (cases "to_num (999 / 10)") auto
    with False s show ?thesis by simp
  qed
qed

section \<open>Properties\<close>

text \<open>A framework's summary adds up: every control is either not applicable or assessed, the
  assessed ones are passed, failed or partial, the critical failures are among the failed; the score
  is a number from 0 to 100, and for at most 512 assessed controls it is 100 exactly when every one
  of them passed.\<close>

theorem framework_summary:
  assumes "length controls \<le> 512"
  shows "let r = summarizeFramework framework controls in
     fr_assessed r + fr_na r = length controls
   \<and> fr_passed r + fr_failed r + fr_partial r = fr_assessed r
   \<and> fr_criticalFailures r \<le> fr_failed r
   \<and> js_le (num 0) (fr_score r) \<and> js_le (fr_score r) (num 100)
   \<and> (fr_score r = num 100 \<longleftrightarrow> 0 < fr_assessed r \<and> fr_passed r = fr_assessed r)"
proof -
  let ?n = "\<lambda>st. count_if (\<lambda>c. cr_status c = st) controls"
  let ?a = "count_if (\<lambda>c. cr_status c \<noteq> Na) controls"
  have len: "?a + ?n Na = length controls"
    using count_if_split [of "\<lambda>c. cr_status c \<noteq> Na" controls] by simp
  have parts: "?n Passed + ?n Failed + ?n Partial = ?a" using status_counts [of controls] by simp
  have a: "?a \<le> 512" using len assms by simp
  have range: "js_le (num 0) (framework_score ?a (?n Passed) (?n Partial))
      \<and> js_le (framework_score ?a (?n Passed) (?n Partial)) (num 100)"
    by (rule framework_score_range) (use parts a in simp_all)
  have full: "framework_score ?a (?n Passed) (?n Partial) = num 100 \<longleftrightarrow> 0 < ?a \<and> ?n Passed = ?a"
    using framework_score_full [of "?n Passed" "?n Partial" ?a] parts a
    by (cases "?a = 0") (simp_all add: framework_score_def)
  show ?thesis
    using len parts range full critical_le [of controls]
    by (simp add: summarizeFramework_def Let_def)
qed

definition ex_results :: "control_result list" where
  "ex_results = [\<lparr>cr_id = ''A.5.1'', cr_framework = ''iso27001'', cr_title = ''Policies'', cr_status = Passed,
     cr_critical = True, cr_evidence = []\<rparr>]"

theorem framework_summary_witness:
  "fr_score (summarizeFramework ''iso27001'' ex_results) = num 100"
  using framework_summary [of ex_results "''iso27001''"]
  by (simp add: ex_results_def Let_def summarizeFramework_def)

end
