(* ===== verification/Js_Date.thy ===== *)
theory Js_Date
  imports Js_Value
begin

text \<open>
  \<open>new Date(t).toISOString()\<close> and \<open>Date.parse\<close> of its result: the proleptic Gregorian calendar with
  millisecond time of day in UTC, for the years from 1970 on that have four digits.
\<close>

definition leap_year :: "nat \<Rightarrow> bool" where
  "leap_year y \<longleftrightarrow> y mod 4 = 0 \<and> (y mod 100 \<noteq> 0 \<or> y mod 400 = 0)"

definition year_days :: "nat \<Rightarrow> nat" where
  "year_days y = (if leap_year y then 366 else 365)"

definition month_days :: "nat \<Rightarrow> nat \<Rightarrow> nat" where
  "month_days y m =
     (if m = 2 then (if leap_year y then 29 else 28) else if m \<in> {4, 6, 9, 11} then 30 else 31)"

lemma year_days_pos [simp]: "0 < year_days y"
  by (simp add: year_days_def)

text \<open>The year and the day in it, counting days from the start of a year; likewise the month.\<close>

function year_split :: "nat \<Rightarrow> nat \<Rightarrow> nat \<times> nat" where
  "year_split y d = (if d < year_days y then (y, d) else year_split (Suc y) (d - year_days y))"
  by pat_completeness auto

termination
  by (relation "measure snd") (auto simp: year_days_def)

function month_split :: "nat \<Rightarrow> nat \<Rightarrow> nat \<Rightarrow> nat \<times> nat" where
  "month_split y m d = (if m \<ge> 12 \<or> d < month_days y m then (m, d) else month_split y (Suc m) (d - month_days y m))"
  by pat_completeness auto

termination
  by (relation "measure (\<lambda>(y, m, d). 12 - m)") auto

declare year_split.simps [simp del] month_split.simps [simp del]

definition digits :: "nat \<Rightarrow> nat \<Rightarrow> string" where
  "digits w n = pad_zero w (nat_str n)"

definition iso_time :: "nat \<Rightarrow> string" where
  "iso_time t =
     (let (y, yd) = year_split 1970 (t div 86400000);
          (m, md) = month_split y 1 yd;
          ms = t mod 86400000
      in digits 4 y @ ''-'' @ digits 2 m @ ''-'' @ digits 2 (md + 1) @ ''T''
         @ digits 2 (ms div 3600000) @ '':'' @ digits 2 (ms div 60000 mod 60) @ '':''
         @ digits 2 (ms div 1000 mod 60) @ ''.'' @ digits 3 (ms mod 1000) @ ''Z'')"

text \<open>A time value is an integer: the constructor of \<open>Date\<close> drops the fraction.\<close>

fun iso_string :: "jsnum \<Rightarrow> string" where
  "iso_string (Fin r) = iso_time (nat \<lfloor>r\<rfloor>)"
| "iso_string _ = []"

definition field :: "nat \<Rightarrow> nat \<Rightarrow> string \<Rightarrow> nat" where
  "field i w s = nat (digits_value 10 (take w (drop i s)))"

definition date_parse :: "string \<Rightarrow> jsnum" where
  "date_parse s =
     (if length s \<noteq> 24 then NaN
      else
        (let y = field 0 4 s; m = field 5 2 s; d = field 8 2 s;
             days = sum_list (map year_days [1970..<y]) + sum_list (map (month_days y) [1..<m]) + (d - 1)
         in num (int (days * 86400000 + field 11 2 s * 3600000 + field 14 2 s * 60000
                      + field 17 2 s * 1000 + field 20 3 s))))"

text \<open>The last time value the model covers, in the year 9909.\<close>

definition date_max :: int where "date_max = 250560000000000"

section \<open>Decimal fields\<close>

lemma digits_value_snoc: "digits_value b (s @ [c]) = digits_value b s * int b + int (digit_value c)"
  by (simp add: digits_value_def)

lemma digit_value_char: "d < 10 \<Longrightarrow> digit_value (digit_char d) = d"
  by (simp add: digit_value_def digit_char_def Let_def)

lemma digits_value_nat_str: "digits_value 10 (nat_str n) = int n"
proof (induction n rule: less_induct)
  case (less n)
  show ?case
  proof (cases "n < 10")
    case True
    then show ?thesis
      by (simp add: nat_str_def nat_str_base.simps [of 10 n] digits_value_def digit_value_char)
  next
    case False
    then have e: "nat_str n = nat_str (n div 10) @ [digit_char (n mod 10)]"
      by (simp add: nat_str_def nat_str_base.simps [of 10 n])
    have "digits_value 10 (nat_str (n div 10)) = int (n div 10)"
      using False by (intro less.IH) simp
    moreover have "int (n div 10) * 10 + int (n mod 10) = int n"
      by (metis div_mult_mod_eq of_nat_add of_nat_mult of_nat_numeral)
    ultimately show ?thesis by (simp add: e digits_value_snoc digit_value_char)
  qed
qed

lemma digits_value_zeros: "digits_value b (replicate k (CHR ''0'') @ s) = digits_value b s"
proof -
  have "foldl (\<lambda>a c. a * int b + int (digit_value c)) 0 (replicate k (CHR ''0'')) = 0"
    by (induction k) (simp_all add: digit_value_def)
  then show ?thesis by (simp add: digits_value_def)
qed

lemma length_nat_str: "n < 10 ^ Suc k \<Longrightarrow> length (nat_str n) \<le> Suc k"
proof (induction k arbitrary: n)
  case 0
  then show ?case by (simp add: nat_str_def nat_str_base.simps [of 10 n])
next
  case (Suc k)
  show ?case
  proof (cases "n < 10")
    case False
    have "n div 10 < 10 ^ Suc k" using Suc.prems by (simp add: div_less_iff_less_mult)
    then have "length (nat_str (n div 10)) \<le> Suc k" by (rule Suc.IH)
    with False show ?thesis by (simp add: nat_str_def nat_str_base.simps [of 10 n])
  qed (simp add: nat_str_def nat_str_base.simps [of 10 n])
qed

lemma digits_length: "n < 10 ^ w \<Longrightarrow> 0 < w \<Longrightarrow> length (digits w n) = w"
  using length_nat_str [of n "w - 1"] by (simp add: digits_def pad_zero_def)

lemma digits_read: "nat (digits_value 10 (digits w n)) = n"
  by (simp add: digits_def pad_zero_def digits_value_zeros digits_value_nat_str)

section \<open>The calendar\<close>

lemma year_split_sum:
  "year_split y d = (y', d') \<Longrightarrow>
     y \<le> y' \<and> d' < year_days y' \<and> sum_list (map year_days [y..<y']) + d' = d"
proof (induction y d rule: year_split.induct)
  case (1 y d)
  show ?case
  proof (cases "d < year_days y")
    case True
    with 1(2) show ?thesis by (simp add: year_split.simps [of y d])
  next
    case False
    with 1(2) have "year_split (Suc y) (d - year_days y) = (y', d')" by (simp add: year_split.simps [of y d])
    from 1(1) [OF False this]
    have "Suc y \<le> y'" "d' < year_days y'" "sum_list (map year_days [Suc y..<y']) + d' = d - year_days y" by simp_all
    moreover from this have "[y..<y'] = y # [Suc y..<y']" by (simp add: upt_conv_Cons)
    ultimately show ?thesis using False by simp
  qed
qed

lemma month_split_sum:
  "month_split y m d = (m', d') \<Longrightarrow> m \<le> 12 \<Longrightarrow>
     m \<le> m' \<and> m' \<le> 12 \<and> sum_list (map (month_days y) [m..<m']) + d' = d \<and> (m' < 12 \<longrightarrow> d' < month_days y m')"
proof (induction y m d rule: month_split.induct)
  case (1 y m d)
  show ?case
  proof (cases "m \<ge> 12 \<or> d < month_days y m")
    case True
    with 1(2,3) show ?thesis by (auto simp: month_split.simps [of y m d])
  next
    case False
    with 1(2) have "month_split y (Suc m) (d - month_days y m) = (m', d')" by (simp add: month_split.simps [of y m d])
    from 1(1) [OF False this] False
    have "Suc m \<le> m'" "m' \<le> 12" "m' < 12 \<longrightarrow> d' < month_days y m'"
      "sum_list (map (month_days y) [Suc m..<m']) + d' = d - month_days y m" by simp_all
    moreover from this have "[m..<m'] = m # [Suc m..<m']" by (simp add: upt_conv_Cons)
    ultimately show ?thesis using False by simp
  qed
qed

lemma months_of_year: "sum_list (map (month_days y) [1..<12]) + 31 = year_days y"
  by (simp add: month_days_def year_days_def upt_rec numeral_eq_Suc)

lemma month_day_bound:
  assumes "month_split y 1 d = (m, md)" "d < year_days y"
  shows "1 \<le> m \<and> m \<le> 12 \<and> md < 31"
proof -
  have s: "1 \<le> m" "m \<le> 12" "sum_list (map (month_days y) [1..<m]) + md = d" "m < 12 \<longrightarrow> md < month_days y m"
    using month_split_sum [OF assms(1)] by simp_all
  have "md < 31"
  proof (cases "m = 12")
    case True
    with s(3) assms(2) months_of_year [of y] show ?thesis by simp
  next
    case False
    with s(2,4) show ?thesis by (auto simp: month_days_def split: if_splits)
  qed
  with s show ?thesis by simp
qed

lemma years_at_least: "365 * k \<le> sum_list (map year_days [y..<y + k])"
proof (induction k)
  case (Suc k)
  have "365 \<le> year_days (y + k)" by (simp add: year_days_def)
  with Suc show ?case by simp
qed simp

lemma year_bound:
  assumes "year_split 1970 d = (y, yd)" "d < 2900000"
  shows "1970 \<le> y \<and> y < 9999"
proof -
  have s: "1970 \<le> y" "sum_list (map year_days [1970..<y]) + yd = d"
    using year_split_sum [OF assms(1)] by simp_all
  have "365 * (y - 1970) \<le> sum_list (map year_days [1970..<1970 + (y - 1970)])" by (rule years_at_least)
  with s assms(2) have "365 * (y - 1970) < 2900000" by simp
  with s(1) show ?thesis by simp
qed

lemma fields_of_text:
  assumes "length a = 4" "length b = 2" "length c = 2" "length d = 2" "length e = 2" "length f = 2" "length g = 3"
  shows "length (a @ ''-'' @ b @ ''-'' @ c @ ''T'' @ d @ '':'' @ e @ '':'' @ f @ ''.'' @ g @ ''Z'') = 24"
    and "field 0 4 (a @ ''-'' @ b @ ''-'' @ c @ ''T'' @ d @ '':'' @ e @ '':'' @ f @ ''.'' @ g @ ''Z'') = nat (digits_value 10 a)"
    and "field 5 2 (a @ ''-'' @ b @ ''-'' @ c @ ''T'' @ d @ '':'' @ e @ '':'' @ f @ ''.'' @ g @ ''Z'') = nat (digits_value 10 b)"
    and "field 8 2 (a @ ''-'' @ b @ ''-'' @ c @ ''T'' @ d @ '':'' @ e @ '':'' @ f @ ''.'' @ g @ ''Z'') = nat (digits_value 10 c)"
    and "field 11 2 (a @ ''-'' @ b @ ''-'' @ c @ ''T'' @ d @ '':'' @ e @ '':'' @ f @ ''.'' @ g @ ''Z'') = nat (digits_value 10 d)"
    and "field 14 2 (a @ ''-'' @ b @ ''-'' @ c @ ''T'' @ d @ '':'' @ e @ '':'' @ f @ ''.'' @ g @ ''Z'') = nat (digits_value 10 e)"
    and "field 17 2 (a @ ''-'' @ b @ ''-'' @ c @ ''T'' @ d @ '':'' @ e @ '':'' @ f @ ''.'' @ g @ ''Z'') = nat (digits_value 10 f)"
    and "field 20 3 (a @ ''-'' @ b @ ''-'' @ c @ ''T'' @ d @ '':'' @ e @ '':'' @ f @ ''.'' @ g @ ''Z'') = nat (digits_value 10 g)"
  using assms by (simp_all add: field_def)

lemma time_of_day:
  fixes ms :: nat
  shows "ms div 3600000 * 3600000 + ms div 60000 mod 60 * 60000 + ms div 1000 mod 60 * 1000 + ms mod 1000 = ms"
proof -
  have h: "ms div 3600000 = ms div 60000 div 60" and m: "ms div 60000 = ms div 1000 div 60"
    by (simp_all flip: div_mult2_eq)
  have "ms div 60000 div 60 * 60 + ms div 60000 mod 60 = ms div 60000" by simp
  moreover have "ms div 1000 div 60 * 60 + ms div 1000 mod 60 = ms div 1000" by simp
  moreover have "ms div 1000 * 1000 + ms mod 1000 = ms" by simp
  ultimately show ?thesis unfolding h m by linarith
qed

lemma date_parse_time:
  assumes "int t < date_max"
  shows "date_parse (iso_time t) = num (int t)"
proof -
  define ms where "ms = t mod 86400000"
  obtain y yd where y: "year_split 1970 (t div 86400000) = (y, yd)" by fastforce
  obtain m md where m: "month_split y 1 yd = (m, md)" by fastforce
  have d: "t div 86400000 < 2900000" using assms by (simp add: date_max_def div_less_iff_less_mult)
  have ys: "yd < year_days y" "sum_list (map year_days [1970..<y]) + yd = t div 86400000"
    using year_split_sum [OF y] by simp_all
  have yb: "y < 9999" using year_bound [OF y d] by simp
  have mb: "1 \<le> m" "m \<le> 12" "md < 31" using month_day_bound [OF m ys(1)] by simp_all
  have ms: "sum_list (map (month_days y) [1..<m]) + md = yd" using month_split_sum [OF m] by simp
  have ms_lt: "ms < 86400000" by (simp add: ms_def)
  have lens: "length (digits 4 y) = 4" "length (digits 2 m) = 2" "length (digits 2 (md + 1)) = 2"
    "length (digits 2 (ms div 3600000)) = 2" "length (digits 2 (ms div 60000 mod 60)) = 2"
    "length (digits 2 (ms div 1000 mod 60)) = 2" "length (digits 3 (ms mod 1000)) = 3"
  proof (goal_cases)
    case 1
    show ?case using yb by (intro digits_length) simp_all
  next
    case 2
    show ?case using mb by (intro digits_length) simp_all
  next
    case 3
    show ?case using mb by (intro digits_length) simp_all
  next
    case 4
    have "ms div 3600000 < 24" using ms_lt by (simp add: div_less_iff_less_mult)
    then show ?case by (intro digits_length) simp_all
  next
    case 5
    have "ms div 60000 mod 60 < 60" by simp
    then show ?case by (intro digits_length) simp_all
  next
    case 6
    have "ms div 1000 mod 60 < 60" by simp
    then show ?case by (intro digits_length) simp_all
  next
    case 7
    have "ms mod 1000 < 1000" by simp
    then show ?case by (intro digits_length) simp_all
  qed
  have "date_parse (iso_time t) = num (int ((sum_list (map year_days [1970..<y])
      + sum_list (map (month_days y) [1..<m]) + (md + 1 - 1)) * 86400000
      + ms div 3600000 * 3600000 + ms div 60000 mod 60 * 60000 + ms div 1000 mod 60 * 1000 + ms mod 1000))"
    unfolding iso_time_def Let_def y m prod.case ms_def [symmetric] date_parse_def fields_of_text [OF lens] digits_read
    by simp
  also have "\<dots> = num (int (t div 86400000 * 86400000 + ms))"
    using time_of_day [of ms] ys(2) ms by simp
  also have "t div 86400000 * 86400000 + ms = t" by (simp add: ms_def)
  finally show ?thesis .
qed

lemma date_roundtrip:
  assumes "0 \<le> r" "r < of_int date_max"
  shows "date_parse (iso_string (Fin r)) = Fin (of_int \<lfloor>r\<rfloor>)"
proof -
  have "\<lfloor>r\<rfloor> < date_max" "0 \<le> \<lfloor>r\<rfloor>" using assms by (simp_all add: floor_less_iff)
  then show ?thesis using date_parse_time [of "nat \<lfloor>r\<rfloor>"] by simp
qed

lemma date_roundtrip_int: "0 \<le> t \<Longrightarrow> t < date_max \<Longrightarrow> date_parse (iso_string (num t)) = num t"
  using date_roundtrip [of "of_int t"] by simp

end
