(* ===== verification/Random_Draws.thy ===== *)
theory Random_Draws
  imports Js_Number "HOL-Library.State_Monad" "HOL-Library.Word"
begin

text \<open>
  The seeded generator of web/src/data/enterprise/simulation.ts (mulberry32) and the draws the
  simulation makes from it, in the state monad: the state is the number \<open>a\<close> that the closure
  keeps.  The closure adds to \<open>a\<close> without wrapping, which binary64 does exactly up to \<open>2 ^ 53\<close>,
  more than four million draws; the bit operations then read its 32 low bits.
\<close>

unbundle bit_operations_syntax

type_synonym generator = nat

type_synonym 'a random = "(generator, 'a) state"

definition mulberry_seed :: "int \<Rightarrow> generator" where
  "mulberry_seed seed = unat (word_of_int seed :: 32 word)"

text \<open>\<open>Math.imul(x, y)\<close> is the product of 32-bit words.\<close>

definition mulberry_mix :: "32 word \<Rightarrow> 32 word" where
  "mulberry_mix a =
     (let t = (a XOR drop_bit 15 a) * (a OR 1);
          u = t XOR (t + (t XOR drop_bit 7 t) * (t OR 61))
      in u XOR drop_bit 14 u)"

definition draw :: "rat random" where
  "draw = State (\<lambda>a. let a' = a + 0x6d2b79f5
                      in (of_nat (unat (mulberry_mix (of_nat a'))) / 2 ^ 32, a'))"

text \<open>\<open>rng() < p\<close> for a decimal literal, and \<open>Math.floor(rng() * n)\<close>.\<close>

definition chance :: "rat \<Rightarrow> bool random" where
  "chance p = do { r \<leftarrow> draw; State_Monad.return (js_lt (Fin r) (lit p)) }"

definition draw_below :: "nat \<Rightarrow> nat random" where
  "draw_below n = do {
     r \<leftarrow> draw;
     State_Monad.return
       (case js_floor (js_mul (Fin r) (num (int n))) of Fin x \<Rightarrow> nat \<lfloor>x\<rfloor> | _ \<Rightarrow> 0)
   }"

section \<open>Lemmas\<close>

text \<open>What holds of every result, whatever the state: the rules the simulation's lemmas use.\<close>

named_theorems always_intros "rules for what every draw satisfies"

lemma always_return [always_intros]: "P x \<Longrightarrow> pred_state P (State_Monad.return x)"
  by (rule pred_stateI) simp

lemma always_bind:
  assumes "pred_state Q m" "\<And>x. Q x \<Longrightarrow> pred_state P (f x)"
  shows "pred_state P (State_Monad.bind m f)"
proof (rule pred_stateI)
  fix a s s'
  assume r: "run_state (State_Monad.bind m f) s = (a, s')"
  obtain x t where m: "run_state m s = (x, t)" by fastforce
  with assms(1) have "Q x" by (rule pred_stateD)
  moreover from r m have "run_state (f x) t = (a, s')" by simp
  ultimately show "P a" using assms(2) by (rule_tac pred_stateD)
qed

lemma always_any: "pred_state (\<lambda>_. True) m"
  by (rule pred_stateI) simp

lemma always_bind_any [always_intros]:
  "(\<And>x. pred_state P (f x)) \<Longrightarrow> pred_state P (State_Monad.bind m f)"
  by (rule always_bind [OF always_any])

lemma always_mono: "pred_state Q m \<Longrightarrow> (\<And>x. Q x \<Longrightarrow> P x) \<Longrightarrow> pred_state P m"
  by (rule pred_stateI) (blast dest: pred_stateD)

lemma always_if [always_intros]:
  "(b \<Longrightarrow> pred_state P m) \<Longrightarrow> (\<not> b \<Longrightarrow> pred_state P n) \<Longrightarrow> pred_state P (if b then m else n)"
  by simp

lemma always_traverse:
  assumes "\<And>x. x \<in> set xs \<Longrightarrow> pred_state (P x) (f x)"
  shows "pred_state (list_all2 P xs) (State_Monad.traverse_list f xs)"
  using assms
proof (induction xs)
  case Nil
  then show ?case by (simp add: always_return)
next
  case (Cons x xs)
  have "pred_state (P x) (f x)" by (rule Cons.prems) simp
  moreover have "pred_state (list_all2 P xs) (State_Monad.traverse_list f xs)"
    by (rule Cons.IH) (simp add: Cons.prems)
  ultimately show ?case
    by (auto intro!: always_bind [of "P x"] always_bind [of "list_all2 P xs"] always_return)
qed

lemma always_run: "pred_state P m \<Longrightarrow> P (fst (run_state m s))"
  by (rule pred_state_run_state)

text \<open>A draw is a multiple of \<open>2 ^ -32\<close> below one.\<close>

definition unit_fraction :: "rat \<Rightarrow> bool" where
  "unit_fraction r \<longleftrightarrow> (\<exists>k < 2 ^ 32. r = of_nat k / 2 ^ 32)"

lemma unit_fraction_bounds: "unit_fraction r \<Longrightarrow> 0 \<le> r \<and> r < 1"
proof -
  assume "unit_fraction r"
  then obtain k where k: "k < 2 ^ 32" "r = of_nat k / 2 ^ 32" by (auto simp: unit_fraction_def)
  have "(of_nat k :: rat) < of_nat (2 ^ 32)" using k(1) by (simp only: of_nat_less_iff)
  with k(2) show ?thesis by simp
qed

lemma draw_unit: "pred_state unit_fraction draw"
proof (rule pred_stateI)
  fix a :: rat and s s' :: nat
  assume "run_state draw s = (a, s')"
  then have "a = of_nat (unat (mulberry_mix (of_nat (s + 0x6d2b79f5)))) / 2 ^ 32"
    unfolding draw_def Let_def state.sel prod.inject by (elim conjE) (rule sym)
  moreover have "unat (mulberry_mix (of_nat (s + 0x6d2b79f5))) < 2 ^ 32"
    by (rule order_less_le_trans [OF unsigned_less]) simp
  ultimately show "unit_fraction a" unfolding unit_fraction_def by blast
qed

text \<open>Scaling a draw by a small integer is exact.\<close>

lemma scale_exact:
  assumes "unit_fraction r" "n \<le> 2 ^ 20"
  shows "js_mul (Fin r) (num (int n)) = Fin (r * of_nat n)"
proof -
  from assms(1) obtain k where k: "k < 2 ^ 32" "r = of_nat k / 2 ^ 32" by (auto simp: unit_fraction_def)
  have "int k * int n \<le> 2 ^ 32 * 2 ^ 20"
    using k(1) assms(2) by (intro mult_mono) simp_all
  then have "\<bar>int k * int n\<bar> \<le> 2 ^ 53" by simp
  then have "to_num (of_int (int k * int n) / 2 ^ 32) = Fin (of_int (int k * int n) / 2 ^ 32)"
    by (intro to_num_dyadic) simp_all
  moreover have "of_int (int k * int n) / 2 ^ 32 = r * of_nat n" unfolding k(2) by simp
  ultimately have "to_num (r * of_nat n) = Fin (r * of_nat n)" by (simp only:)
  then show ?thesis by simp
qed

lemma draw_below_less [always_intros]:
  assumes "0 < n" "n \<le> 2 ^ 20"
  shows "pred_state (\<lambda>k. k < n) (draw_below n)"
  unfolding draw_below_def
proof (rule always_bind [OF draw_unit], rule always_return)
  fix r
  assume r: "unit_fraction r"
  have n: "(0 :: rat) < of_nat n" using assms(1) by simp
  with unit_fraction_bounds [OF r] have "0 \<le> r * of_nat n" "r * of_nat n < of_nat n" by simp_all
  then have "0 \<le> \<lfloor>r * of_nat n\<rfloor>" "\<lfloor>r * of_nat n\<rfloor> < int n" by (simp_all add: floor_less_iff)
  then show "(case js_floor (js_mul (Fin r) (num (int n))) of Fin x \<Rightarrow> nat \<lfloor>x\<rfloor> | _ \<Rightarrow> 0) < n"
    using scale_exact [OF r assms(2)] by (simp add: nat_less_iff)
qed

text \<open>The generator is a counter: after \<open>n\<close> draws its low bits are those of \<open>n\<close> increments.\<close>

lemma draw_state: "snd (run_state draw a) = a + 0x6d2b79f5"
  by (simp add: draw_def Let_def)

end
