(* ===== verification/Simulation.thy ===== *)
theory Simulation
  imports Cve_Catalog Frameworks Scoring Js_Date Random_Draws
begin

text \<open>
  web/src/data/enterprise/simulation.ts: the estate the dashboard shows when no live connector is
  attached.  Every asset, finding and control result is drawn from one seeded generator, in the
  order the source draws them; a condition that the source evaluates lazily draws only when it is
  reached.
\<close>

section \<open>Data\<close>

datatype cloud_provider = Aws | Azure | Gcp | Kubernetes

fun provider_str :: "cloud_provider \<Rightarrow> string" where
  "provider_str Aws = ''aws''"
| "provider_str Azure = ''azure''"
| "provider_str Gcp = ''gcp''"
| "provider_str Kubernetes = ''kubernetes''"

datatype account_env = Prod | Staging | Sandbox

record sim_account =
  ac_id :: string
  ac_provider :: cloud_provider
  ac_name :: string
  ac_environment :: account_env
  ac_region :: string
  ac_resources :: nat
  ac_exposed :: nat
  ac_criticalAssets :: nat

definition ACCOUNT_DEFS :: "sim_account list" where
  "ACCOUNT_DEFS =
    [\<lparr>ac_id = ''aws-prod-core'', ac_provider = Aws, ac_name = ''AWS Production Core'', ac_environment = Prod,
      ac_region = ''us-east-1'', ac_resources = 2540, ac_exposed = 62, ac_criticalAssets = 148\<rparr>,
     \<lparr>ac_id = ''aws-prod-payments'', ac_provider = Aws, ac_name = ''AWS Payments'', ac_environment = Prod,
      ac_region = ''us-east-1'', ac_resources = 1680, ac_exposed = 18, ac_criticalAssets = 96\<rparr>,
     \<lparr>ac_id = ''aws-prod-data'', ac_provider = Aws, ac_name = ''AWS Data Platform'', ac_environment = Prod,
      ac_region = ''us-west-2'', ac_resources = 1420, ac_exposed = 22, ac_criticalAssets = 71\<rparr>,
     \<lparr>ac_id = ''aws-prod-identity'', ac_provider = Aws, ac_name = ''AWS Identity'', ac_environment = Prod,
      ac_region = ''us-east-1'', ac_resources = 980, ac_exposed = 9, ac_criticalAssets = 54\<rparr>,
     \<lparr>ac_id = ''aws-staging'', ac_provider = Aws, ac_name = ''AWS Staging'', ac_environment = Staging,
      ac_region = ''eu-west-1'', ac_resources = 760, ac_exposed = 31, ac_criticalAssets = 22\<rparr>,
     \<lparr>ac_id = ''aws-sandbox'', ac_provider = Aws, ac_name = ''AWS Sandbox'', ac_environment = Sandbox,
      ac_region = ''eu-central-1'', ac_resources = 420, ac_exposed = 44, ac_criticalAssets = 8\<rparr>,
     \<lparr>ac_id = ''aws-prod-ml'', ac_provider = Aws, ac_name = ''AWS ML Workloads'', ac_environment = Prod,
      ac_region = ''us-east-2'', ac_resources = 890, ac_exposed = 11, ac_criticalAssets = 39\<rparr>,
     \<lparr>ac_id = ''aws-prod-network'', ac_provider = Aws, ac_name = ''AWS Network Edge'', ac_environment = Prod,
      ac_region = ''us-east-1'', ac_resources = 640, ac_exposed = 28, ac_criticalAssets = 41\<rparr>,
     \<lparr>ac_id = ''aws-prod-backup'', ac_provider = Aws, ac_name = ''AWS Backup'', ac_environment = Prod,
      ac_region = ''us-west-2'', ac_resources = 510, ac_exposed = 4, ac_criticalAssets = 33\<rparr>,
     \<lparr>ac_id = ''aws-prod-logs'', ac_provider = Aws, ac_name = ''AWS Logging'', ac_environment = Prod,
      ac_region = ''eu-west-1'', ac_resources = 380, ac_exposed = 7, ac_criticalAssets = 12\<rparr>,
     \<lparr>ac_id = ''aws-dr-west'', ac_provider = Aws, ac_name = ''AWS DR West'', ac_environment = Prod,
      ac_region = ''us-west-2'', ac_resources = 720, ac_exposed = 6, ac_criticalAssets = 47\<rparr>,
     \<lparr>ac_id = ''aws-shared-services'', ac_provider = Aws, ac_name = ''AWS Shared Services'', ac_environment = Prod,
      ac_region = ''us-east-1'', ac_resources = 540, ac_exposed = 8, ac_criticalAssets = 29\<rparr>,
     \<lparr>ac_id = ''azure-prod-core'', ac_provider = Azure, ac_name = ''Azure Production'', ac_environment = Prod,
      ac_region = ''westeurope'', ac_resources = 980, ac_exposed = 14, ac_criticalAssets = 58\<rparr>,
     \<lparr>ac_id = ''azure-prod-identity'', ac_provider = Azure, ac_name = ''Azure Entra ID'', ac_environment = Prod,
      ac_region = ''northeurope'', ac_resources = 640, ac_exposed = 5, ac_criticalAssets = 44\<rparr>,
     \<lparr>ac_id = ''azure-prod-data'', ac_provider = Azure, ac_name = ''Azure Data'', ac_environment = Prod,
      ac_region = ''westeurope'', ac_resources = 520, ac_exposed = 6, ac_criticalAssets = 27\<rparr>,
     \<lparr>ac_id = ''azure-prod-apps'', ac_provider = Azure, ac_name = ''Azure Apps'', ac_environment = Prod,
      ac_region = ''eastus'', ac_resources = 710, ac_exposed = 12, ac_criticalAssets = 31\<rparr>,
     \<lparr>ac_id = ''azure-staging'', ac_provider = Azure, ac_name = ''Azure Staging'', ac_environment = Staging,
      ac_region = ''ukwest'', ac_resources = 340, ac_exposed = 9, ac_criticalAssets = 7\<rparr>,
     \<lparr>ac_id = ''azure-dr'', ac_provider = Azure, ac_name = ''Azure DR'', ac_environment = Prod,
      ac_region = ''eastus2'', ac_resources = 410, ac_exposed = 3, ac_criticalAssets = 19\<rparr>,
     \<lparr>ac_id = ''azure-shared'', ac_provider = Azure, ac_name = ''Azure Shared'', ac_environment = Prod,
      ac_region = ''westeurope'', ac_resources = 280, ac_exposed = 2, ac_criticalAssets = 11\<rparr>,
     \<lparr>ac_id = ''gcp-prod-core'', ac_provider = Gcp, ac_name = ''GCP Production'', ac_environment = Prod,
      ac_region = ''europe-west1'', ac_resources = 1120, ac_exposed = 8, ac_criticalAssets = 42\<rparr>,
     \<lparr>ac_id = ''gcp-prod-data'', ac_provider = Gcp, ac_name = ''GCP Analytics'', ac_environment = Prod,
      ac_region = ''us-central1'', ac_resources = 860, ac_exposed = 5, ac_criticalAssets = 28\<rparr>,
     \<lparr>ac_id = ''gcp-prod-ml'', ac_provider = Gcp, ac_name = ''GCP ML Platform'', ac_environment = Prod,
      ac_region = ''us-central1'', ac_resources = 740, ac_exposed = 4, ac_criticalAssets = 21\<rparr>,
     \<lparr>ac_id = ''gcp-staging'', ac_provider = Gcp, ac_name = ''GCP Staging'', ac_environment = Staging,
      ac_region = ''europe-west4'', ac_resources = 390, ac_exposed = 6, ac_criticalAssets = 6\<rparr>,
     \<lparr>ac_id = ''gcp-shared'', ac_provider = Gcp, ac_name = ''GCP Shared VPC'', ac_environment = Prod,
      ac_region = ''europe-west1'', ac_resources = 672, ac_exposed = 3, ac_criticalAssets = 8\<rparr>]"

record severity_counts =
  sv_critical :: nat
  sv_high :: nat
  sv_medium :: nat
  sv_low :: nat

record composition =
  cp_vms :: nat
  cp_containers :: nat
  cp_clusters :: nat
  cp_storage :: nat
  cp_databases :: nat
  cp_functions :: nat
  cp_network :: nat
  cp_secrets :: nat
  cp_queues :: nat
  cp_disks :: nat
  cp_identities :: nat
  cp_findingsTotal :: nat
  cp_findingsResolved :: nat
  cp_findingsOpen :: nat
  cp_findingsAll :: severity_counts
  cp_findingsOpenBySev :: severity_counts

definition COMPOSITION :: composition where
  "COMPOSITION =
    \<lparr>cp_vms = 3214,
     cp_containers = 4860,
     cp_clusters = 38,
     cp_storage = 1280,
     cp_databases = 436,
     cp_functions = 1840,
     cp_network = 2212,
     cp_secrets = 2140,
     cp_queues = 890,
     cp_disks = 1832,
     cp_identities = 12680,
     cp_findingsTotal = 8426,
     cp_findingsResolved = 6184,
     cp_findingsOpen = 2242,
     cp_findingsAll = \<lparr>sv_critical = 186, sv_high = 1047, sv_medium = 3284, sv_low = 3909\<rparr>,
     cp_findingsOpenBySev = \<lparr>sv_critical = 49, sv_high = 279, sv_medium = 874, sv_low = 1040\<rparr>\<rparr>"

definition SIM_SEED :: int where "SIM_SEED = 20250818"

record algorithm =
  al_name :: string
  al_q :: bool
  al_weight :: nat

definition ALGORITHMS :: "algorithm list" where
  "ALGORITHMS =
    [\<lparr>al_name = ''AES-256-GCM'', al_q = True, al_weight = 34\<rparr>,
     \<lparr>al_name = ''RSA-2048'', al_q = False, al_weight = 22\<rparr>,
     \<lparr>al_name = ''ECDSA P-256'', al_q = False, al_weight = 14\<rparr>,
     \<lparr>al_name = ''ML-KEM-768'', al_q = True, al_weight = 9\<rparr>,
     \<lparr>al_name = ''RSA-4096'', al_q = False, al_weight = 8\<rparr>,
     \<lparr>al_name = ''Ed25519'', al_q = False, al_weight = 7\<rparr>,
     \<lparr>al_name = ''3DES'', al_q = False, al_weight = 3\<rparr>,
     \<lparr>al_name = ''ML-DSA-65'', al_q = True, al_weight = 3\<rparr>]"

definition ASSET_TYPES :: "string list" where
  "ASSET_TYPES = [''vm'', ''container'', ''bucket'', ''database'', ''function'', ''load-balancer'', ''api'', ''secret'', ''role'']"

section \<open>Assets\<close>

text \<open>The loop of \<open>weightedAlgo\<close>: the first algorithm whose weight exhausts \<open>n\<close>.\<close>

fun pick_weighted :: "jsnum \<Rightarrow> algorithm list \<Rightarrow> algorithm option" where
  "pick_weighted n [] = None"
| "pick_weighted n (a # as) =
     (let n' = js_sub n (num (int (al_weight a)))
      in if js_le n' (num 0) then Some a else pick_weighted n' as)"

definition weightedAlgo :: "algorithm random" where
  "weightedAlgo = do {
     let total = sum_list (map al_weight ALGORITHMS);
     r \<leftarrow> draw;
     State_Monad.return
       (case pick_weighted (js_mul (Fin r) (num (int total))) ALGORITHMS of
          Some a \<Rightarrow> a | None \<Rightarrow> ALGORITHMS ! 0)
   }"

record sim_asset =
  as_id :: string
  as_name :: string
  as_type :: string
  as_provider :: cloud_provider
  as_accountId :: string
  as_region :: string
  as_network :: string
  as_identity :: "string option"
  as_internetExposed :: bool
  as_critical :: bool
  as_algorithm :: "string option"
  as_quantumSafe :: "bool option"
  as_riskScore :: int
  as_riskLevel :: risk_level
  as_riskContributors :: "(string \<times> int) list"

definition asset_of ::
  "sim_account \<Rightarrow> nat \<Rightarrow> string \<Rightarrow> algorithm option \<Rightarrow> risk_flags \<Rightarrow> sim_asset" where
  "asset_of acct i ty algo flags =
     (let risk = calculateAssetRisk flags; prov = provider_str (ac_provider acct)
      in \<lparr>as_id = ac_id acct @ ''-res-'' @ nat_str (i + 1),
          as_name = prov @ ''-'' @ ty @ ''-'' @ ac_region acct @ ''-'' @ pad_zero 2 (nat_str (i + 1)),
          as_type = ty,
          as_provider = ac_provider acct,
          as_accountId = ac_id acct,
          as_region = ac_region acct,
          as_network = prov @ ''-vpc-'' @ ac_region acct,
          as_identity = Some (if rf_privilegedIam flags then ac_id acct @ ''-admin-role''
                              else ac_id acct @ ''-workload-sa''),
          as_internetExposed = rf_internetExposed flags,
          as_critical = (ac_environment acct = Prod \<and> (rf_criticalCve flags \<or> rf_internetExposed flags)),
          as_algorithm = map_option al_name algo,
          as_quantumSafe = map_option al_q algo,
          as_riskScore = ar_score risk,
          as_riskLevel = ar_level risk,
          as_riskContributors = ar_contributors risk\<rparr>)"

definition build_asset :: "nat \<Rightarrow> sim_account \<Rightarrow> nat \<Rightarrow> sim_asset random" where
  "build_asset ai acct i = do {
     let ty = ASSET_TYPES ! ((ai + i) mod length ASSET_TYPES);
     algo \<leftarrow> (if ty = ''secret'' \<or> ty = ''api'' \<or> ty = ''load-balancer'' \<or> i = 0
              then do { a \<leftarrow> weightedAlgo; State_Monad.return (Some a) }
              else State_Monad.return None);
     internetExposed \<leftarrow> (if 10 < ac_exposed acct then chance (35 / 100) else chance (12 / 100));
     privilegedIam \<leftarrow> (if ty = ''role'' then State_Monad.return True else chance (18 / 100));
     misconfig \<leftarrow> chance (28 / 100);
     cveHit \<leftarrow> chance (22 / 100);
     kev \<leftarrow> (if cveHit then chance (55 / 100) else State_Monad.return False);
     criticalCve \<leftarrow> (if cveHit then chance (40 / 100) else State_Monad.return False);
     State_Monad.return (asset_of acct i ty algo
       \<lparr>rf_criticalCve = criticalCve, rf_kev = kev, rf_internetExposed = internetExposed,
        rf_privilegedIam = privilegedIam, rf_misconfig = misconfig,
        rf_quantumUnsafe = (case algo of Some a \<Rightarrow> \<not> al_q a | None \<Rightarrow> False)\<rparr>)
   }"

definition buildAssets :: "sim_account list \<Rightarrow> sim_asset list random" where
  "buildAssets accounts = do {
     rows \<leftarrow> State_Monad.traverse_list
       (\<lambda>(ai, acct). State_Monad.traverse_list (build_asset ai acct) [0..<3])
       (zip [0..<length accounts] accounts);
     State_Monad.return (concat rows)
   }"

section \<open>Findings\<close>

datatype finding_severity = SevCritical | SevHigh | SevMedium | SevLow

datatype finding_status = Open | Resolved

datatype finding_category =
  CatVulnerability | CatMisconfiguration | CatIdentity | CatExposure | CatCompliance

record sim_partial =
  sf_title :: string
  sf_severity :: finding_severity
  sf_status :: finding_status
  sf_category :: finding_category
  sf_assetId :: string
  sf_assetName :: string
  sf_accountId :: string
  sf_provider :: cloud_provider
  sf_region :: string
  sf_controlId :: "string option"
  sf_framework :: "string option"
  sf_cveId :: "string option"
  sf_discoveredAt :: string
  sf_resolvedAt :: "string option"
  sf_message :: string

record sim_finding = sim_partial +
  sf_id :: string
  sf_ageDays :: jsnum

text \<open>The closure \<open>push\<close>: the \<open>n\<close>-th finding gets its number and its age.\<close>

definition push_finding :: "int \<Rightarrow> nat \<Rightarrow> sim_partial \<Rightarrow> sim_finding" where
  "push_finding now n p =
     sim_partial.extend p
       \<lparr>sf_id = ''f-'' @ pad_zero 3 (nat_str n),
        sf_ageDays = js_max (num 0)
          (js_round (js_div (js_sub (num now) (date_parse (sf_discoveredAt p))) (num 86400000)))\<rparr>"

definition push_findings :: "int \<Rightarrow> sim_partial list \<Rightarrow> sim_finding list" where
  "push_findings now ps = map (\<lambda>(n, p). push_finding now n p) (zip [1..<Suc (length ps)] ps)"

definition hours_before :: "int \<Rightarrow> nat \<Rightarrow> string" where
  "hours_before now h = iso_string (js_sub (num now) (js_mul (num (int h)) (num 3600000)))"

text \<open>\<open>new Date(Date.parse(d) + (base + rng() * width) * 3600000).toISOString()\<close>.\<close>

definition resolved_after :: "string \<Rightarrow> int \<Rightarrow> int \<Rightarrow> string random" where
  "resolved_after d base width = do {
     r \<leftarrow> draw;
     State_Monad.return
       (iso_string (js_add (date_parse d)
          (js_mul (js_add (num base) (js_mul (Fin r) (num width))) (num 3600000))))
   }"

definition cve_severity :: "string \<Rightarrow> finding_severity" where
  "cve_severity s =
     (let sev = str_lower s
      in if sev = ''critical'' then SevCritical else if sev = ''high'' then SevHigh
         else if sev = ''medium'' then SevMedium else if sev = ''low'' then SevLow else SevHigh)"

definition cve_finding ::
  "(rat \<Rightarrow> string) \<Rightarrow> int \<Rightarrow> sim_asset list \<Rightarrow> nat \<Rightarrow> cve_record \<Rightarrow> nat \<Rightarrow> sim_partial random" where
  "cve_finding fmt now assets idx cve i = do {
     let asset = assets ! ((idx * 3 + i) mod length assets);
     h \<leftarrow> draw_below (if cv_kev cve then 96 else 360);
     let discoveredAt = hours_before now (2 + h);
     opened \<leftarrow> chance (if cv_kev cve then 72 / 100 else 45 / 100);
     resolvedAt \<leftarrow> (if opened then State_Monad.return None
                   else do { t \<leftarrow> resolved_after discoveredAt 18 72; State_Monad.return (Some t) });
     State_Monad.return
       \<lparr>sf_title = cv_id cve @ '' '' @ em_dash @ '' Real vulnerability'',
        sf_severity = cve_severity (cv_severity cve),
        sf_status = (if opened then Open else Resolved),
        sf_category = CatVulnerability,
        sf_assetId = as_id asset, sf_assetName = as_name asset, sf_accountId = as_accountId asset,
        sf_provider = as_provider asset, sf_region = as_region asset,
        sf_controlId = None, sf_framework = None, sf_cveId = Some (cv_id cve),
        sf_discoveredAt = discoveredAt, sf_resolvedAt = resolvedAt,
        sf_message = cv_id cve @ '' '' @ em_dash @ '' Real vulnerability. Detected on simulated asset ''
          @ as_name asset @ '' ('' @ str_upper (provider_str (as_provider asset)) @ '' '' @ as_region asset @ ''). ''
          @ cv_affectedProduct cve @ ''. CISA KEV: '' @ (if cv_kev cve then ''Yes'' else ''No'')
          @ ''. CVSS '' @ num_string fmt (cv_cvss cve) @ ''.''\<rparr>
   }"

record misconfig =
  mi_title :: string
  mi_severity :: finding_severity
  mi_category :: finding_category
  mi_control :: string
  mi_fw :: string

definition MISCONFIGS :: "misconfig list" where
  "MISCONFIGS =
    [\<lparr>mi_title = ''Storage bucket allows public write'', mi_severity = SevCritical,
      mi_category = CatMisconfiguration, mi_control = ''CIS-3.3'', mi_fw = ''cis''\<rparr>,
     \<lparr>mi_title = ''Security group exposes SSH to 0.0.0.0/0'', mi_severity = SevHigh,
      mi_category = CatExposure, mi_control = ''CIS-12.2'', mi_fw = ''cis''\<rparr>,
     \<lparr>mi_title = ''IAM policy grants Action:* on KMS'', mi_severity = SevCritical,
      mi_category = CatIdentity, mi_control = ''A.8.2'', mi_fw = ''iso27001''\<rparr>,
     \<lparr>mi_title = ''Workload identity missing MFA on break-glass role'', mi_severity = SevHigh,
      mi_category = CatIdentity, mi_control = ''CIS-6.5'', mi_fw = ''cis''\<rparr>,
     \<lparr>mi_title = ''KMS / Key Vault rotation disabled'', mi_severity = SevMedium,
      mi_category = CatMisconfiguration, mi_control = ''A.8.24'', mi_fw = ''iso27001''\<rparr>,
     \<lparr>mi_title = ''TLS endpoint allows static RSA key exchange'', mi_severity = SevHigh,
      mi_category = CatMisconfiguration, mi_control = ''BSI-TR-02102-TLS'', mi_fw = ''bsi''\<rparr>,
     \<lparr>mi_title = ''3DES still enabled on payment HSM partition'', mi_severity = SevCritical,
      mi_category = CatMisconfiguration, mi_control = ''BSI-TR-02102-AES'', mi_fw = ''bsi''\<rparr>,
     \<lparr>mi_title = ''API gateway missing request authentication'', mi_severity = SevHigh,
      mi_category = CatExposure, mi_control = ''NIS2-Art21.2.j'', mi_fw = ''nis2''\<rparr>,
     \<lparr>mi_title = ''Cloud SQL instance has public IP'', mi_severity = SevHigh,
      mi_category = CatExposure, mi_control = ''PCI-4.2'', mi_fw = ''pci''\<rparr>,
     \<lparr>mi_title = ''Uniform bucket-level access not enforced'', mi_severity = SevMedium,
      mi_category = CatMisconfiguration, mi_control = ''A.8.3'', mi_fw = ''iso27001''\<rparr>,
     \<lparr>mi_title = ''Service account keys older than 90 days'', mi_severity = SevMedium,
      mi_category = CatIdentity, mi_control = ''PR.AA-01'', mi_fw = ''nist''\<rparr>,
     \<lparr>mi_title = ''Admin audit log sink missing'', mi_severity = SevLow,
      mi_category = CatCompliance, mi_control = ''A.8.15'', mi_fw = ''iso27001''\<rparr>]"

definition misconfig_finding ::
  "int \<Rightarrow> sim_asset list \<Rightarrow> nat \<Rightarrow> misconfig \<Rightarrow> nat \<Rightarrow> sim_partial random" where
  "misconfig_finding now assets idx m i = do {
     let asset = assets ! ((idx * 2 + i + 4) mod length assets);
     h \<leftarrow> draw_below 200;
     let discoveredAt = hours_before now (1 + h);
     opened \<leftarrow> chance (55 / 100);
     resolvedAt \<leftarrow> (if opened then State_Monad.return None
                   else do { t \<leftarrow> resolved_after discoveredAt 8 40; State_Monad.return (Some t) });
     State_Monad.return
       \<lparr>sf_title = mi_title m,
        sf_severity = mi_severity m,
        sf_status = (if opened then Open else Resolved),
        sf_category = mi_category m,
        sf_assetId = as_id asset, sf_assetName = as_name asset, sf_accountId = as_accountId asset,
        sf_provider = as_provider asset, sf_region = as_region asset,
        sf_controlId = Some (mi_control m),
        sf_framework = Some (case map_of FRAMEWORK_META (mi_fw m) of
                               Some meta \<Rightarrow> or_str (fm_name meta) (mi_fw m) | None \<Rightarrow> mi_fw m),
        sf_cveId = None,
        sf_discoveredAt = discoveredAt, sf_resolvedAt = resolvedAt,
        sf_message = mi_title m @ '' on simulated '' @ as_name asset @ ''. Control '' @ mi_control m @ ''.''\<rparr>
   }"

text \<open>For each row a number of copies is drawn, then each copy.\<close>

definition copies_of :: "nat \<Rightarrow> nat \<Rightarrow> (nat \<Rightarrow> 'a random) \<Rightarrow> 'a list random" where
  "copies_of base width mk = do {
     k \<leftarrow> draw_below width;
     State_Monad.traverse_list mk [0..<base + k]
   }"

definition indexed :: "'a list \<Rightarrow> (nat \<times> 'a) list" where
  "indexed xs = zip [0..<length xs] xs"

definition cve_findings ::
  "(rat \<Rightarrow> string) \<Rightarrow> int \<Rightarrow> sim_asset list \<Rightarrow> sim_partial list random" where
  "cve_findings fmt now assets = do {
     rows \<leftarrow> State_Monad.traverse_list
       (\<lambda>(idx, cve). copies_of 1 3 (cve_finding fmt now assets idx cve))
       (indexed (filter (\<lambda>c. js_le (num 7) (cv_cvss c)) CVE_CATALOG));
     State_Monad.return (concat rows)
   }"

definition misconfig_findings :: "int \<Rightarrow> sim_asset list \<Rightarrow> sim_partial list random" where
  "misconfig_findings now assets = do {
     rows \<leftarrow> State_Monad.traverse_list
       (\<lambda>(idx, m). copies_of 2 2 (misconfig_finding now assets idx m)) (indexed MISCONFIGS);
     State_Monad.return (concat rows)
   }"

definition buildFindings ::
  "(rat \<Rightarrow> string) \<Rightarrow> int \<Rightarrow> sim_asset list \<Rightarrow> sim_finding list random" where
  "buildFindings fmt now assets = do {
     cves \<leftarrow> cve_findings fmt now assets;
     misconfigs \<leftarrow> misconfig_findings now assets;
     State_Monad.return (push_findings now (cves @ misconfigs))
   }"

section \<open>Controls\<close>

text \<open>The controls that an open critical finding names.\<close>

definition failed_controls :: "'a sim_partial_scheme list \<Rightarrow> string list" where
  "failed_controls findings =
     concat (map (\<lambda>f. if sf_status f = Open \<and> sf_severity f = SevCritical \<and> truthy_opt (sf_controlId f)
                      then [the (sf_controlId f)] else []) findings)"

definition control_status_of :: "string list \<Rightarrow> seed_ctrl \<Rightarrow> control_status random" where
  "control_status_of failed c =
     (if sc_id c \<in> set failed then State_Monad.return Failed
      else do {
        hit \<leftarrow> (if sc_critical c = Some True then chance (12 / 100) else State_Monad.return False);
        if hit then State_Monad.return Failed
        else do {
          part \<leftarrow> chance (8 / 100);
          if part then State_Monad.return Partial
          else do {
            skipped \<leftarrow> chance (3 / 100);
            State_Monad.return (if skipped then Na else Passed)
          }
        }
      })"

definition control_result_of :: "seed_ctrl \<Rightarrow> control_status \<Rightarrow> control_result" where
  "control_result_of c status =
     \<lparr>cr_id = sc_id c, cr_framework = sc_framework c, cr_title = sc_title c, cr_status = status,
      cr_critical = (sc_critical c = Some True),
      cr_evidence = (if status = Passed then ''Simulation: matching findings closed or not present.''
                     else ''Simulation: linked to open findings in '' @ sc_framework c @ ''.'')\<rparr>"

definition buildControls :: "'a sim_partial_scheme list \<Rightarrow> control_result list random" where
  "buildControls findings =
     State_Monad.traverse_list
       (\<lambda>c. do {
          status \<leftarrow> control_status_of (failed_controls findings) c;
          State_Monad.return (control_result_of c status)
        }) CONTROL_CATALOG"

section \<open>Heat map and trend\<close>

datatype time_range = Days7 | Days30

fun range_str :: "time_range \<Rightarrow> string" where
  "range_str Days7 = ''7d''"
| "range_str Days30 = ''30d''"

fun severity_rank :: "finding_severity \<Rightarrow> nat" where
  "severity_rank SevLow = 1"
| "severity_rank SevMedium = 2"
| "severity_rank SevHigh = 3"
| "severity_rank SevCritical = 4"

definition heat_cols :: "time_range \<Rightarrow> nat" where "heat_cols tr = (if tr = Days7 then 7 else 10)"

definition heat_cells :: "time_range \<Rightarrow> nat" where "heat_cells tr = (if tr = Days7 then 28 else 30)"

definition window_ms :: "time_range \<Rightarrow> int" where
  "window_ms tr = (if tr = Days7 then 7 * 86400000 else 30 * 86400000)"

definition DAYS :: "string list" where
  "DAYS = [''Mon'', ''Tue'', ''Wed'', ''Thu'', ''Fri'', ''Sat'', ''Sun'']"

record heat_bucket =
  hb_count :: nat
  hb_max :: nat

record heat_cell =
  hc_id :: string
  hc_risk :: nat
  hc_count :: nat
  hc_day :: string
  hc_label :: string

text \<open>Where a finding of time \<open>t\<close> is counted: \<open>Inr None\<close> when it is outside the window; \<open>Inl\<close>
  when there is no such bucket, where the source would throw.\<close>

definition heat_index :: "time_range \<Rightarrow> int \<Rightarrow> jsnum \<Rightarrow> unit + nat option" where
  "heat_index tr now t =
     (let age = js_sub (num now) t
      in if js_lt (num (window_ms tr)) age \<or> js_lt (num now) t then Inr None
         else (case js_min (num (int (heat_cells tr) - 1))
                      (js_floor (js_mul (js_div age (num (window_ms tr))) (num (int (heat_cells tr))))) of
                 Fin x \<Rightarrow> (if 0 \<le> x \<and> x < of_nat (heat_cells tr)
                            then Inr (Some (heat_cells tr - 1 - nat \<lfloor>x\<rfloor>)) else Inl ())
               | _ \<Rightarrow> Inl ()))"

definition heat_add :: "nat \<Rightarrow> nat \<Rightarrow> heat_bucket list \<Rightarrow> heat_bucket list" where
  "heat_add k rank bs = bs[k := \<lparr>hb_count = hb_count (bs ! k) + 1, hb_max = max (hb_max (bs ! k)) rank\<rparr>]"

fun heat_buckets ::
  "time_range \<Rightarrow> int \<Rightarrow> 'a sim_partial_scheme list \<Rightarrow> heat_bucket list \<Rightarrow> unit + heat_bucket list" where
  "heat_buckets tr now [] bs = Inr bs"
| "heat_buckets tr now (f # fs) bs =
     (case heat_index tr now (date_parse (sf_discoveredAt f)) of
        Inl e \<Rightarrow> Inl e
      | Inr None \<Rightarrow> heat_buckets tr now fs bs
      | Inr (Some k) \<Rightarrow> heat_buckets tr now fs (heat_add k (severity_rank (sf_severity f)) bs))"

definition heat_cell_of :: "time_range \<Rightarrow> nat \<Rightarrow> heat_bucket \<Rightarrow> heat_cell" where
  "heat_cell_of tr i b =
     (let col = i mod heat_cols tr; row = i div heat_cols tr
      in \<lparr>hc_id = ''hm-'' @ range_str tr @ ''-'' @ nat_str i,
          hc_risk = hb_max b, hc_count = hb_count b, hc_day = DAYS ! (col mod 7),
          hc_label = DAYS ! (col mod 7) @ '' '' @ mid_dot @ '' Week '' @ nat_str (row + 1) @ '' '' @ mid_dot
            @ '' '' @ nat_str (hb_count b) @ '' findings''\<rparr>)"

definition buildHeatmap :: "'a sim_partial_scheme list \<Rightarrow> time_range \<Rightarrow> int \<Rightarrow> unit + heat_cell list" where
  "buildHeatmap findings tr now =
     (case heat_buckets tr now findings (replicate (heat_cells tr) \<lparr>hb_count = 0, hb_max = 0\<rparr>) of
        Inl e \<Rightarrow> Inl e
      | Inr bs \<Rightarrow> Inr (map (\<lambda>(i, b). heat_cell_of tr i b) (indexed bs)))"

record trend_point =
  tp_label :: string
  tp_score :: jsnum
  tp_findings :: jsnum
  tp_scans :: nat

definition trend_labels :: "time_range \<Rightarrow> string list" where
  "trend_labels tr =
     (if tr = Days7 then DAYS
      else [''W1'', ''W2'', ''W3'', ''W4'', ''W5'', ''W6'', ''W7'', ''W8'', ''W9'', ''W10'', ''W11'', ''W12''])"

definition trend_point_of :: "jsnum \<Rightarrow> nat \<Rightarrow> time_range \<Rightarrow> nat \<Rightarrow> string \<Rightarrow> trend_point random" where
  "trend_point_of score openFindings tr i label = do {
     let points = (if tr = Days7 then 7 else 12);
     r \<leftarrow> draw;
     let drift = js_add (js_mul (num (points - 1 - int i)) (lit (9 / 10)))
                        (js_mul (js_sub (Fin r) (lit (5 / 10))) (lit (14 / 10)));
     let s = js_min (num 100) (js_max (num 52) (round1 (js_sub score drift)));
     q \<leftarrow> draw;
     let found = js_max (num 0) (js_round
           (js_add (js_sub (num (int openFindings)) (num (int i * (if tr = Days7 then 6 else 18))))
                   (js_sub (js_mul (Fin q) (num 8)) (num 4))));
     k \<leftarrow> draw_below 6;
     State_Monad.return \<lparr>tp_label = label, tp_score = s, tp_findings = found, tp_scans = 4 + k\<rparr>
   }"

definition buildTrend :: "jsnum \<Rightarrow> nat \<Rightarrow> time_range \<Rightarrow> trend_point list random" where
  "buildTrend score openFindings tr =
     State_Monad.traverse_list (\<lambda>(i, label). trend_point_of score openFindings tr i label)
       (indexed (take (if tr = Days7 then 7 else 12) (trend_labels tr)))"

end
