(* ===== verification/Simulation_Facts.thy ===== *)
theory Simulation_Facts
  imports Simulation
begin

text \<open>
  What holds of the simulated estate for every state of the generator: the shape of its assets,
  findings and control results, the dates of the findings, the heat map and the trend.
\<close>

section \<open>Assets\<close>

text \<open>The weighted choice is exact: the remaining weight is a multiple of \<open>2 ^ -32\<close>.\<close>

lemma sub_exact:
  assumes "\<bar>m\<bar> \<le> 2 ^ 45" "w \<le> 2 ^ 10"
  shows "js_sub (Fin (of_int m / 2 ^ 32)) (num (int w)) = Fin (of_int (m - int w * 2 ^ 32) / 2 ^ 32)"
proof -
  have "to_num (of_int (m - int w * 2 ^ 32) / 2 ^ 32) = Fin (of_int (m - int w * 2 ^ 32) / 2 ^ 32)"
  proof (rule to_num_dyadic)
    have "int w \<le> 2 ^ 10" using assms(2) by simp
    with assms(1) show "\<bar>m - int w * 2 ^ 32\<bar> \<le> 2 ^ 53" by simp
  qed simp
  then show ?thesis by (simp add: js_sub_def diff_divide_distrib)
qed

text \<open>The algorithms before the chosen one do not reach the drawn weight, the chosen one does.\<close>

lemma pick_exact:
  assumes "0 \<le> m" "m \<le> 2 ^ 45" "\<forall>a \<in> set as. al_weight a \<le> 2 ^ 10" "m \<le> int (sum_list (map al_weight as)) * 2 ^ 32"
    and "as \<noteq> []"
  shows "\<exists>us a vs. as = us @ a # vs \<and> pick_weighted (Fin (of_int m / 2 ^ 32)) as = Some a
    \<and> (us = [] \<or> int (sum_list (map al_weight us)) * 2 ^ 32 < m)
    \<and> m \<le> int (sum_list (map al_weight (us @ [a]))) * 2 ^ 32"
  using assms
proof (induction as arbitrary: m)
  case Nil
  then show ?case by simp
next
  case (Cons a as)
  let ?m = "m - int (al_weight a) * 2 ^ 32"
  have w: "al_weight a \<le> 2 ^ 10" using Cons.prems(3) by simp
  have step: "js_sub (Fin (of_int m / 2 ^ 32)) (num (int (al_weight a))) = Fin (of_int ?m / 2 ^ 32)"
    using Cons.prems(1,2) w by (intro sub_exact) simp_all
  have le: "js_le (Fin (of_int ?m / 2 ^ 32)) (num 0) \<longleftrightarrow> ?m \<le> 0"
    by (simp add: divide_le_0_iff) (metis (mono_tags, lifting) of_int_diff of_int_le_0_iff of_int_mult of_int_numeral of_int_of_nat_eq diff_le_0_iff_le)
  show ?case
  proof (cases "?m \<le> 0")
    case True
    then have "pick_weighted (Fin (of_int m / 2 ^ 32)) (a # as) = Some a"
      unfolding pick_weighted.simps Let_def step le by simp
    with True show ?thesis by (intro exI [of _ "[]"] exI [of _ a] exI [of _ as]) simp
  next
    case False
    then have "as \<noteq> []" using Cons.prems(4) by auto
    moreover have "?m \<le> int (sum_list (map al_weight as)) * 2 ^ 32"
      using Cons.prems(4) by (simp add: distrib_right)
    ultimately obtain us b vs where r: "as = us @ b # vs" "pick_weighted (Fin (of_int ?m / 2 ^ 32)) as = Some b"
      "us = [] \<or> int (sum_list (map al_weight us)) * 2 ^ 32 < ?m"
      "?m \<le> int (sum_list (map al_weight (us @ [b]))) * 2 ^ 32"
      using Cons.IH [of ?m] Cons.prems False by auto
    have "pick_weighted (Fin (of_int m / 2 ^ 32)) (a # as) = Some b"
      unfolding pick_weighted.simps Let_def step le using False r(2) by simp
    with r False show ?thesis
      by (intro exI [of _ "a # us"] exI [of _ b] exI [of _ vs]) (auto simp: distrib_right)
  qed
qed

lemma algorithm_weights:
  "sum_list (map al_weight ALGORITHMS) = 100" "\<forall>a \<in> set ALGORITHMS. al_weight a \<le> 2 ^ 10" "ALGORITHMS \<noteq> []"
  by (simp_all add: ALGORITHMS_def)

text \<open>The choice as the source means it: cumulative weights out of the total.\<close>

definition chosen_by :: "rat \<Rightarrow> algorithm \<Rightarrow> bool" where
  "chosen_by r a \<longleftrightarrow> (\<exists>us vs. ALGORITHMS = us @ a # vs
     \<and> (us = [] \<or> of_nat (sum_list (map al_weight us)) < 100 * r)
     \<and> 100 * r \<le> of_nat (sum_list (map al_weight (us @ [a]))))"

lemma pick_chosen:
  assumes "unit_fraction r"
  shows "\<exists>a. pick_weighted (js_mul (Fin r) (num 100)) ALGORITHMS = Some a \<and> chosen_by r a"
proof -
  from assms obtain k where k: "k < 2 ^ 32" "r = of_nat k / 2 ^ 32" by (auto simp: unit_fraction_def)
  define m where "m = int k * 100"
  have m: "0 \<le> m" "m \<le> 2 ^ 45" "m \<le> int (sum_list (map al_weight ALGORITHMS)) * 2 ^ 32"
    using k(1) by (simp_all add: m_def algorithm_weights)
  have mr: "of_int m / 2 ^ 32 = 100 * r" by (simp add: m_def k(2))
  have e: "js_mul (Fin r) (num 100) = Fin (of_int m / 2 ^ 32)"
    using scale_exact [OF assms, of 100] unfolding mr by (simp add: mult.commute)
  from pick_exact [OF m(1,2) algorithm_weights(2) m(3) algorithm_weights(3)]
  obtain us a vs where r: "ALGORITHMS = us @ a # vs" "pick_weighted (Fin (of_int m / 2 ^ 32)) ALGORITHMS = Some a"
    "us = [] \<or> int (sum_list (map al_weight us)) * 2 ^ 32 < m"
    "m \<le> int (sum_list (map al_weight (us @ [a]))) * 2 ^ 32"
    by blast
  have below: "int w * 2 ^ 32 < m \<Longrightarrow> of_nat w < 100 * r" and above: "m \<le> int w * 2 ^ 32 \<Longrightarrow> 100 * r \<le> of_nat w" for w
  proof -
    have "(of_int (int w * 2 ^ 32) :: rat) = of_nat w * 2 ^ 32" by simp
    moreover have "(of_int m :: rat) = 100 * r * 2 ^ 32" using mr by (simp add: field_simps)
    ultimately show "int w * 2 ^ 32 < m \<Longrightarrow> of_nat w < 100 * r" "m \<le> int w * 2 ^ 32 \<Longrightarrow> 100 * r \<le> of_nat w"
      by (metis of_int_less_iff mult_less_cancel_right_pos zero_less_numeral zero_less_power)
        (metis \<open>rat_of_int (int w * 2 ^ 32) = rat_of_nat w * 2 ^ 32\<close> \<open>rat_of_int m = 100 * r * 2 ^ 32\<close> of_int_le_iff mult_le_cancel_right_pos zero_less_numeral zero_less_power)
  qed
  from r below above have "chosen_by r a" unfolding chosen_by_def by blast
  with r(2) e show ?thesis by (intro exI [of _ a]) simp
qed

lemma weightedAlgo_chosen:
  "chosen_by (fst (run_state draw s)) (fst (run_state weightedAlgo s))"
proof -
  obtain r t where d: "run_state draw s = (r, t)" by fastforce
  have "unit_fraction r" using pred_stateD [OF draw_unit d] .
  from pick_chosen [OF this] obtain a where
    a: "pick_weighted (js_mul (Fin r) (num 100)) ALGORITHMS = Some a" "chosen_by r a" by blast
  then show ?thesis using d by (simp add: weightedAlgo_def algorithm_weights)
qed

lemma weightedAlgo_in: "pred_state (\<lambda>a. a \<in> set ALGORITHMS) weightedAlgo"
proof (rule pred_stateI)
  fix a s s'
  assume "run_state weightedAlgo s = (a, s')"
  with weightedAlgo_chosen [of s] obtain us vs where "ALGORITHMS = us @ a # vs" by (auto simp: chosen_by_def)
  then show "a \<in> set ALGORITHMS" by (metis in_set_conv_decomp)
qed


text \<open>Every asset is the image of its account, its position and the flags drawn for it.\<close>

definition asset_shape :: "nat \<Rightarrow> sim_account \<Rightarrow> nat \<Rightarrow> sim_asset \<Rightarrow> bool" where
  "asset_shape ai acct i a \<longleftrightarrow> (\<exists>algo flags.
     a = asset_of acct i (ASSET_TYPES ! ((ai + i) mod length ASSET_TYPES)) algo flags
     \<and> (\<forall>g. algo = Some g \<longrightarrow> g \<in> set ALGORITHMS)
     \<and> rf_quantumUnsafe flags = (case algo of Some g \<Rightarrow> \<not> al_q g | None \<Rightarrow> False))"

lemma asset_shapeI:
  "(\<forall>g. algo = Some g \<longrightarrow> g \<in> set ALGORITHMS) \<Longrightarrow>
     rf_quantumUnsafe flags = (case algo of Some g \<Rightarrow> \<not> al_q g | None \<Rightarrow> False) \<Longrightarrow>
     asset_shape ai acct i (asset_of acct i (ASSET_TYPES ! ((ai + i) mod length ASSET_TYPES)) algo flags)"
  unfolding asset_shape_def by blast

lemma build_asset_shape: "pred_state (asset_shape ai acct i) (build_asset ai acct i)"
proof -
  let ?ty = "ASSET_TYPES ! ((ai + i) mod length ASSET_TYPES)"
  have algo: "pred_state (\<lambda>algo. \<forall>g. algo = Some g \<longrightarrow> g \<in> set ALGORITHMS)
      (if ?ty = ''secret'' \<or> ?ty = ''api'' \<or> ?ty = ''load-balancer'' \<or> i = 0
       then do { a \<leftarrow> weightedAlgo; State_Monad.return (Some a) } else State_Monad.return None)"
    by (intro always_if always_bind [OF weightedAlgo_in] always_return) simp_all
  show ?thesis
    unfolding build_asset_def Let_def
    by (rule always_bind [OF algo], intro always_intros asset_shapeI) simp_all
qed

lemma traverse_concat:
  assumes "\<And>x. x \<in> set xs \<Longrightarrow> pred_state (\<lambda>ys. map f ys = g x \<and> (\<forall>y \<in> set ys. P x y)) (m x)"
  shows "pred_state (\<lambda>yss. map f (concat yss) = concat (map g xs) \<and> (\<forall>y \<in> set (concat yss). \<exists>x \<in> set xs. P x y))
    (State_Monad.traverse_list m xs)"
proof (rule always_mono [OF always_traverse [of xs "\<lambda>x ys. map f ys = g x \<and> (\<forall>y \<in> set ys. P x y)"]])
  fix yss
  assume "list_all2 (\<lambda>x ys. map f ys = g x \<and> (\<forall>y \<in> set ys. P x y)) xs yss"
  then show "map f (concat yss) = concat (map g xs) \<and> (\<forall>y \<in> set (concat yss). \<exists>x \<in> set xs. P x y)"
    by (induction rule: list_all2_induct) auto
qed (rule assms)

definition res_id :: "sim_account \<Rightarrow> nat \<Rightarrow> string" where
  "res_id acct i = ac_id acct @ ''-res-'' @ nat_str (i + 1)"

lemma account_assets:
  "pred_state (\<lambda>as. map as_id as = map (res_id acct) [0..<3] \<and> (\<forall>a \<in> set as. \<exists>i < 3. asset_shape ai acct i a))
     (State_Monad.traverse_list (build_asset ai acct) [0..<3])"
proof (rule always_mono [OF always_traverse [of "[0..<3]" "asset_shape ai acct"]])
  fix as
  assume l: "list_all2 (asset_shape ai acct) [0..<3] as"
  then have "map as_id as = map (res_id acct) [0..<3]"
    by (intro nth_equalityI) (auto simp: list_all2_conv_all_nth asset_shape_def asset_of_def Let_def res_id_def)
  moreover have "\<forall>a \<in> set as. \<exists>i < 3. asset_shape ai acct i a"
    using l by (auto simp: list_all2_conv_all_nth in_set_conv_nth) blast
  ultimately show "map as_id as = map (res_id acct) [0..<3] \<and> (\<forall>a \<in> set as. \<exists>i < 3. asset_shape ai acct i a)"
    by simp
qed (rule build_asset_shape)

definition asset_ids :: "sim_account list \<Rightarrow> string list" where
  "asset_ids accounts = concat (map (\<lambda>acct. map (res_id acct) [0..<3]) accounts)"

lemma buildAssets_shape:
  "pred_state (\<lambda>as. map as_id as = asset_ids accounts
      \<and> (\<forall>a \<in> set as. \<exists>ai < length accounts. \<exists>i < 3. asset_shape ai (accounts ! ai) i a))
     (buildAssets accounts)"
proof -
  let ?xs = "zip [0..<length accounts] accounts"
  have "pred_state (\<lambda>yss. map as_id (concat yss) = concat (map (\<lambda>(ai, acct). map (res_id acct) [0..<3]) ?xs)
      \<and> (\<forall>y \<in> set (concat yss). \<exists>x \<in> set ?xs. (\<lambda>(ai, acct) y. \<exists>i < 3. asset_shape ai acct i y) x y))
    (State_Monad.traverse_list (\<lambda>(ai, acct). State_Monad.traverse_list (build_asset ai acct) [0..<3]) ?xs)"
    by (rule traverse_concat) (auto intro: account_assets)
  moreover have "concat (map (\<lambda>(ai, acct). map (res_id acct) [0..<3]) ?xs) = asset_ids accounts"
  proof -
    have "map (\<lambda>x. map (res_id (snd x)) [0..<3]) ?xs = map (\<lambda>acct. map (res_id acct) [0..<3]) (map snd ?xs)"
      by (simp only: map_map comp_def)
    then show ?thesis by (simp add: asset_ids_def case_prod_beta')
  qed
  ultimately show ?thesis
    unfolding buildAssets_def
    by (elim always_bind, intro always_return) (fastforce simp: set_zip)
qed

lemma asset_ids_distinct: "distinct (asset_ids ACCOUNT_DEFS)"
  by code_simp

lemma asset_ids_length: "length (asset_ids accounts) = 3 * length accounts"
  by (induction accounts) (simp_all add: asset_ids_def)

lemma accounts_length: "length ACCOUNT_DEFS = 24"
  by (simp add: ACCOUNT_DEFS_def)

lemma asset_shape_facts:
  assumes "asset_shape ai acct i a"
  shows "as_accountId a = ac_id acct" "as_provider a = ac_provider acct" "as_region a = ac_region acct"
    "as_critical a \<longrightarrow> ac_environment acct = Prod"
    "0 \<le> as_riskScore a \<and> as_riskScore a \<le> 99"
    "as_riskLevel a = risk_level_of (as_riskScore a)"
    "sum_list (map snd (as_riskContributors a)) = as_riskScore a"
    "(as_algorithm a = None) = (as_quantumSafe a = None)"
    "as_quantumSafe a \<noteq> Some False \<longrightarrow> ''Quantum-unsafe cryptography'' \<notin> fst ` set (as_riskContributors a)"
proof -
  from assms obtain algo flags where
    a: "a = asset_of acct i (ASSET_TYPES ! ((ai + i) mod length ASSET_TYPES)) algo flags"
    and q: "rf_quantumUnsafe flags = (case algo of Some g \<Rightarrow> \<not> al_q g | None \<Rightarrow> False)"
    by (auto simp: asset_shape_def)
  let ?s = "foldl (\<lambda>s (l, p). s + p) 0 (risk_contributors flags)"
  have s: "0 \<le> ?s" "?s \<le> 99" by (simp_all only: risk_contributors_def risk_add_sum foldl_Nil) simp_all
  then have r: "ar_score (calculateAssetRisk flags) = ?s" "ar_contributors (calculateAssetRisk flags) = risk_contributors flags"
    "ar_level (calculateAssetRisk flags) = risk_level_of ?s"
    by (simp_all add: calculateAssetRisk_def Let_def)
  show "as_accountId a = ac_id acct" "as_provider a = ac_provider acct" "as_region a = ac_region acct"
    "as_critical a \<longrightarrow> ac_environment acct = Prod"
    "0 \<le> as_riskScore a \<and> as_riskScore a \<le> 99" "as_riskLevel a = risk_level_of (as_riskScore a)"
    "(as_algorithm a = None) = (as_quantumSafe a = None)"
    using s r by (simp_all add: a asset_of_def Let_def)
  show "sum_list (map snd (as_riskContributors a)) = as_riskScore a"
    using r by (simp add: a asset_of_def Let_def risk_sum_list)
  show "as_quantumSafe a \<noteq> Some False \<longrightarrow> ''Quantum-unsafe cryptography'' \<notin> fst ` set (as_riskContributors a)"
    using r q by (auto simp: a asset_of_def Let_def risk_contributors_def risk_add_def split: option.splits if_splits)
qed


lemma chosen_prefix:
  assumes "chosen_by r a" "chosen_by r b"
  shows "a = b"
proof -
  from assms obtain us vs us' vs' where
    u: "ALGORITHMS = us @ a # vs" "us = [] \<or> of_nat (sum_list (map al_weight us)) < 100 * r"
      "100 * r \<le> of_nat (sum_list (map al_weight (us @ [a])))"
    and v: "ALGORITHMS = us' @ b # vs'" "us' = [] \<or> of_nat (sum_list (map al_weight us')) < 100 * r"
      "100 * r \<le> of_nat (sum_list (map al_weight (us' @ [b])))"
    unfolding chosen_by_def by blast
  have no: False if "xs @ x # ys = zs @ z # ws" "length xs < length zs"
      "100 * r \<le> of_nat (sum_list (map al_weight (xs @ [x])))"
      "zs = [] \<or> of_nat (sum_list (map al_weight zs)) < 100 * r"
    for xs ys zs ws :: "algorithm list" and x z
  proof -
    from that(1,2) have "take (Suc (length xs)) zs = xs @ [x]"
      by (metis (no_types, lifting) Suc_leI append_Cons append_Nil append_assoc append_eq_conv_conj length_append_singleton take_append take_all_iff diff_is_0_eq take_0 append_Nil2)
    then obtain rest where "zs = (xs @ [x]) @ rest" by (metis append_take_drop_id)
    with that(3,4) show False by auto
  qed
  have "length us = length us'"
    using no [of us a vs us' b vs'] no [of us' b vs' us a vs] u v by (metis linorder_neqE_nat)
  with u(1) v(1) show ?thesis by (metis append_eq_append_conv list.inject)
qed

section \<open>Properties\<close>

text \<open>The loop that picks an algorithm, which subtracts the weights in floating point, is the
  choice its weights mean: it returns the one algorithm whose share of the cumulative weights contains
  the drawn number, and never reaches the fallback after the loop.\<close>

theorem weighted_choice:
  "fst (run_state weightedAlgo s) = a \<longleftrightarrow> chosen_by (fst (run_state draw s)) a"
  using weightedAlgo_chosen [of s] chosen_prefix by metis

text \<open>C36: whatever the generator's state, the estate has 72 assets with different identifiers; each
  belongs to one of the accounts and carries its provider and region; only assets of production
  accounts are critical; the risk score is the sum of its listed contributors, at most 99, and its
  level is the band of the score; an asset has a quantum-safety verdict exactly when it has an
  algorithm, and is only charged for unsafe cryptography when the verdict says so.\<close>

theorem simulated_assets:
  "let as = fst (run_state (buildAssets ACCOUNT_DEFS) s) in
     length as = 72 \<and> distinct (map as_id as)
     \<and> (\<forall>a \<in> set as. \<exists>acct \<in> set ACCOUNT_DEFS.
          as_accountId a = ac_id acct \<and> as_provider a = ac_provider acct \<and> as_region a = ac_region acct
          \<and> (as_critical a \<longrightarrow> ac_environment acct = Prod)
          \<and> 0 \<le> as_riskScore a \<and> as_riskScore a \<le> 99
          \<and> as_riskLevel a = risk_level_of (as_riskScore a)
          \<and> sum_list (map snd (as_riskContributors a)) = as_riskScore a
          \<and> (as_algorithm a = None) = (as_quantumSafe a = None)
          \<and> (as_quantumSafe a \<noteq> Some False \<longrightarrow>
               ''Quantum-unsafe cryptography'' \<notin> fst ` set (as_riskContributors a)))"
proof -
  define as where "as = fst (run_state (buildAssets ACCOUNT_DEFS) s)"
  have shape: "map as_id as = asset_ids ACCOUNT_DEFS"
    "\<forall>a \<in> set as. \<exists>ai < length ACCOUNT_DEFS. \<exists>i < 3. asset_shape ai (ACCOUNT_DEFS ! ai) i a"
    using always_run [OF buildAssets_shape, of ACCOUNT_DEFS s] by (simp_all add: as_def)
  have "length as = 72"
    using arg_cong [OF shape(1), of length] by (simp add: asset_ids_length accounts_length)
  moreover have "distinct (map as_id as)" unfolding shape(1) by (rule asset_ids_distinct)
  ultimately show ?thesis
    unfolding Let_def as_def [symmetric]
  proof (intro conjI ballI, goal_cases)
    case (3 a)
    with shape(2) obtain ai i where ai: "ai < length ACCOUNT_DEFS" "asset_shape ai (ACCOUNT_DEFS ! ai) i a" by blast
    note facts = asset_shape_facts [OF ai(2)]
    show ?case
      by (rule bexI [of _ "ACCOUNT_DEFS ! ai"]) (use facts ai(1) in \<open>auto simp only: nth_mem simp_thms\<close>)
  qed simp_all
qed

theorem simulated_assets_witness:
  "distinct (map as_id (fst (run_state (buildAssets ACCOUNT_DEFS) (mulberry_seed SIM_SEED))))"
  using simulated_assets [of "mulberry_seed SIM_SEED"] by (simp only: Let_def)

end
