(* ===== verification/Simulation_Findings.thy ===== *)
theory Simulation_Findings
  imports Simulation_Facts
begin

text \<open>
  The findings of the simulated estate, for every state of the generator: which asset each is about,
  when it was discovered and resolved, its number and its age.
\<close>

section \<open>Dates\<close>

text \<open>The clock readings the simulation is run with: late enough to look back 361 hours, and inside
  the dates the model covers.\<close>

definition clock_ok :: "int \<Rightarrow> bool" where
  "clock_ok now \<longleftrightarrow> 361 * 3600000 \<le> now \<and> now + 90 * 3600000 < date_max"

lemma hours_before_parse:
  assumes "clock_ok now" "h \<le> 361"
  shows "date_parse (hours_before now h) = num (now - int h * 3600000)"
proof -
  have h: "int h \<le> 361" using assms(2) by simp
  have b: "0 \<le> now - int h * 3600000" "now - int h * 3600000 < date_max"
    using assms(1) h by (simp_all add: clock_ok_def)
  have "\<bar>now - int h * 3600000\<bar> \<le> 2 ^ 53" using b by (simp add: date_max_def)
  then have "js_sub (num now) (js_mul (num (int h)) (num 3600000)) = num (now - int h * 3600000)"
    using to_num_of_int [of "int h * 3600000"] to_num_of_int [of "now - int h * 3600000"] h
    by (simp add: js_sub_def)
  then have "hours_before now h = iso_string (num (now - int h * 3600000))" by (simp only: hours_before_def)
  then show ?thesis using date_roundtrip_int [OF b] by (simp only:)
qed

lemma resolved_after_range:
  assumes d: "date_parse t = num d" "0 \<le> d" and b: "0 \<le> base" "0 \<le> width" "base + width \<le> 90"
    and m: "d + 90 * 3600000 < date_max"
  shows "pred_state (\<lambda>t'. \<exists>u. date_parse t' = num u \<and> d + base * 3600000 \<le> u \<and> u \<le> d + (base + width) * 3600000)
    (resolved_after t base width)"
  unfolding resolved_after_def
proof (rule always_bind [OF draw_unit], rule always_return)
  fix r
  assume "unit_fraction r"
  from unit_fraction_bounds [OF this] have r: "0 \<le> r" "r \<le> 1" by simp_all
  have w: "(0 :: rat) \<le> of_int width" using b(2) by simp
  have "of_int 0 \<le> r * of_int width" "r * of_int width \<le> of_int width"
    using r w by (simp_all add: mult_left_le_one_le)
  moreover have "- (2 ^ 53) \<le> (0 :: int)" "width \<le> 2 ^ 53" using b by simp_all
  ultimately obtain x where x: "to_num (r * of_int width) = Fin x" "of_int 0 \<le> x" "x \<le> of_int width"
    by (rule to_num_range)
  have "of_int base \<le> of_int base + x" "of_int base + x \<le> of_int (base + width)" using x(2,3) by simp_all
  moreover have "- (2 ^ 53) \<le> base" "base + width \<le> 2 ^ 53" using b by simp_all
  ultimately obtain y where y: "to_num (of_int base + x) = Fin y" "of_int base \<le> y" "y \<le> of_int (base + width)"
    by (rule to_num_range)
  have "of_int (base * 3600000) \<le> y * 3600000" "y * 3600000 \<le> of_int ((base + width) * 3600000)"
    using y(2,3) by simp_all
  moreover have "- (2 ^ 53) \<le> base * 3600000" "(base + width) * 3600000 \<le> 2 ^ 53" using b by simp_all
  ultimately obtain z where z: "to_num (y * 3600000) = Fin z" "of_int (base * 3600000) \<le> z"
    "z \<le> of_int ((base + width) * 3600000)" by (rule to_num_range)
  have "of_int (d + base * 3600000) \<le> of_int d + z" "of_int d + z \<le> of_int (d + (base + width) * 3600000)"
    using z(2,3) by simp_all
  moreover have "- (2 ^ 53) \<le> d + base * 3600000" "d + (base + width) * 3600000 \<le> 2 ^ 53"
    using b d(2) m by (simp_all add: date_max_def)
  ultimately obtain q where q: "to_num (of_int d + z) = Fin q" "of_int (d + base * 3600000) \<le> q"
    "q \<le> of_int (d + (base + width) * 3600000)" by (rule to_num_range)
  have "d + (base + width) * 3600000 < date_max" 
  proof -
    have "(base + width) * 3600000 \<le> 90 * 3600000" using b(3) by simp
    with m show ?thesis by linarith
  qed
  then have "(of_int (d + (base + width) * 3600000) :: rat) < of_int date_max" by (simp only: of_int_less_iff)
  with q(3) have "q < of_int date_max" by (rule le_less_trans)
  moreover have "(of_int 0 :: rat) \<le> of_int (d + base * 3600000)" 
    unfolding of_int_le_iff using b(1) d(2) by simp
  with q(2) have "0 \<le> q" by simp
  ultimately have "date_parse (iso_string (Fin q)) = num \<lfloor>q\<rfloor>" by (intro date_roundtrip)
  moreover have "d + base * 3600000 \<le> \<lfloor>q\<rfloor>" using q(2) by (simp add: le_floor_iff)
  moreover have "\<lfloor>q\<rfloor> \<le> d + (base + width) * 3600000" using q(3) by (simp add: floor_le_iff)
  moreover have "js_add (date_parse t) (js_mul (js_add (num base) (js_mul (Fin r) (num width))) (num 3600000)) = Fin q"
    using x(1) y(1) z(1) q(1) d(1) by simp
  ultimately show "\<exists>u. date_parse (iso_string (js_add (date_parse t)
        (js_mul (js_add (num base) (js_mul (Fin r) (num width))) (num 3600000)))) = num u
      \<and> d + base * 3600000 \<le> u \<and> u \<le> d + (base + width) * 3600000"
    by (intro exI [of _ "\<lfloor>q\<rfloor>"]) (simp only: simp_thms)
qed

section \<open>One finding\<close>

definition finding_ok :: "int \<Rightarrow> sim_asset list \<Rightarrow> 'a sim_partial_scheme \<Rightarrow> bool" where
  "finding_ok now assets f \<longleftrightarrow>
     (\<exists>a \<in> set assets. sf_assetId f = as_id a \<and> sf_assetName f = as_name a
        \<and> sf_accountId f = as_accountId a \<and> sf_provider f = as_provider a \<and> sf_region f = as_region a)
     \<and> (sf_status f = Open \<longleftrightarrow> sf_resolvedAt f = None)
     \<and> (sf_cveId f = None \<longleftrightarrow> sf_controlId f \<noteq> None)
     \<and> (\<exists>d. date_parse (sf_discoveredAt f) = num d \<and> now - 361 * 3600000 \<le> d \<and> d \<le> now - 3600000
          \<and> (\<forall>t. sf_resolvedAt f = Some t \<longrightarrow>
               (\<exists>u. date_parse t = num u \<and> d + 8 * 3600000 \<le> u \<and> u \<le> d + 90 * 3600000)))"

text \<open>Both kinds of finding resolve in the same way.\<close>

lemma resolution:
  assumes "clock_ok now" "h \<le> 361" "8 \<le> base" "0 \<le> width" "base + width \<le> 90"
  shows "pred_state (\<lambda>r. (opened \<longleftrightarrow> r = None) \<and> (\<forall>t. r = Some t \<longrightarrow>
      (\<exists>u. date_parse t = num u \<and> now - int h * 3600000 + 8 * 3600000 \<le> u \<and> u \<le> now - int h * 3600000 + 90 * 3600000)))
    (if opened then State_Monad.return None
     else do { t \<leftarrow> resolved_after (hours_before now h) base width; State_Monad.return (Some t) })"
proof -
  let ?d = "now - int h * 3600000"
  have "0 \<le> ?d" "?d + 90 * 3600000 < date_max" using assms(1,2) by (simp_all add: clock_ok_def)
  then have "pred_state (\<lambda>t. \<exists>u. date_parse t = num u \<and> ?d + base * 3600000 \<le> u \<and> u \<le> ?d + (base + width) * 3600000)
      (resolved_after (hours_before now h) base width)"
    using assms by (intro resolved_after_range) (simp_all add: hours_before_parse)
  then show ?thesis
    by (intro always_if always_return) (simp, elim always_bind, intro always_return, use assms(3-5) in fastforce)
qed

lemma nth_mod_mem: "xs \<noteq> [] \<Longrightarrow> xs ! (k mod length xs) \<in> set xs"
  by simp

lemma finding_okI:
  assumes "clock_ok now" "1 \<le> h" "h \<le> 361" "a \<in> set assets"
    and "sf_assetId f = as_id a" "sf_assetName f = as_name a" "sf_accountId f = as_accountId a"
      "sf_provider f = as_provider a" "sf_region f = as_region a"
    and "sf_status f = (if opened then Open else Resolved)" "sf_cveId f = None \<longleftrightarrow> sf_controlId f \<noteq> None"
    and "sf_discoveredAt f = hours_before now h"
    and "(opened \<longleftrightarrow> sf_resolvedAt f = None) \<and> (\<forall>t. sf_resolvedAt f = Some t \<longrightarrow>
      (\<exists>u. date_parse t = num u \<and> now - int h * 3600000 + 8 * 3600000 \<le> u \<and> u \<le> now - int h * 3600000 + 90 * 3600000))"
  shows "finding_ok now assets f"
proof -
  have "int h \<le> 361" "1 \<le> int h" using assms(2,3) by simp_all
  then have "now - 361 * 3600000 \<le> now - int h * 3600000" "now - int h * 3600000 \<le> now - 3600000" by linarith+
  moreover have "date_parse (sf_discoveredAt f) = num (now - int h * 3600000)"
    using assms(1,3,12) by (simp only: hours_before_parse)
  ultimately have "\<exists>d. date_parse (sf_discoveredAt f) = num d \<and> now - 361 * 3600000 \<le> d \<and> d \<le> now - 3600000
      \<and> (\<forall>t. sf_resolvedAt f = Some t \<longrightarrow>
           (\<exists>u. date_parse t = num u \<and> d + 8 * 3600000 \<le> u \<and> u \<le> d + 90 * 3600000))"
    using assms(13) by blast
  moreover have "sf_status f = Open \<longleftrightarrow> sf_resolvedAt f = None" using assms(10,13) by (cases opened) auto
  moreover have "\<exists>a \<in> set assets. sf_assetId f = as_id a \<and> sf_assetName f = as_name a
      \<and> sf_accountId f = as_accountId a \<and> sf_provider f = as_provider a \<and> sf_region f = as_region a"
    using assms(4-9) by blast
  ultimately show ?thesis unfolding finding_ok_def using assms(11) by blast
qed

lemma cve_finding_ok:
  assumes "clock_ok now" "assets \<noteq> []"
  shows "pred_state (finding_ok now assets) (cve_finding fmt now assets idx cve i)"
  unfolding cve_finding_def Let_def
proof (rule always_bind [where Q = "\<lambda>h. h < (if cv_kev cve then 96 else 360)"], goal_cases)
  case 1
  show ?case by (rule draw_below_less) simp_all
next
  case (2 h)
  then have h: "2 + h \<le> 361" by (simp split: if_splits)
  show ?case
    by (rule always_bind_any, rule always_bind [OF resolution [OF assms(1) h]], simp, simp, simp, rule always_return,
        rule finding_okI [OF assms(1) _ h nth_mod_mem [OF assms(2)]]) simp_all
qed

lemma misconfig_finding_ok:
  assumes "clock_ok now" "assets \<noteq> []"
  shows "pred_state (finding_ok now assets) (misconfig_finding now assets idx m i)"
  unfolding misconfig_finding_def Let_def
proof (rule always_bind [where Q = "\<lambda>h. h < 200"], goal_cases)
  case 1
  show ?case by (rule draw_below_less) simp_all
next
  case (2 h)
  then have h: "1 + h \<le> 361" by simp
  show ?case
    by (rule always_bind_any, rule always_bind [OF resolution [OF assms(1) h]], simp, simp, simp, rule always_return,
        rule finding_okI [OF assms(1) _ h nth_mod_mem [OF assms(2)]]) simp_all
qed

section \<open>All findings\<close>

lemma always_all_traverse:
  assumes "\<And>x. x \<in> set xs \<Longrightarrow> pred_state P (m x)"
  shows "pred_state (\<lambda>ys. \<forall>y \<in> set ys. P y) (State_Monad.traverse_list m xs)"
proof (rule always_mono [OF always_traverse [of xs "\<lambda>_. P"]])
  show "list_all2 (\<lambda>_. P) xs ys \<Longrightarrow> \<forall>y \<in> set ys. P y" for ys
    by (auto simp: list_all2_conv_all_nth in_set_conv_nth)
qed (rule assms)

lemma always_all_rows:
  assumes "\<And>x i. x \<in> set xs \<Longrightarrow> pred_state P (mk x i)"
  shows "pred_state (\<lambda>ys. \<forall>y \<in> set ys. P y)
    (do { rows \<leftarrow> State_Monad.traverse_list (\<lambda>x. copies_of base width (mk x)) xs; State_Monad.return (concat rows) })"
proof (rule always_bind [OF always_all_traverse])
  fix x
  assume "x \<in> set xs"
  then show "pred_state (\<lambda>ys. \<forall>y \<in> set ys. P y) (copies_of base width (mk x))"
    unfolding copies_of_def by (intro always_bind_any always_all_traverse assms)
qed (rule always_return, auto)

lemma finding_ok_push: "finding_ok now assets (push_finding now' n p) = finding_ok now assets p"
  by (simp add: finding_ok_def push_finding_def sim_partial.extend_def)

lemma push_findings_nth:
  assumes "k < length ps"
  shows "push_findings now ps ! k = push_finding now (Suc k) (ps ! k)"
proof -
  have "[1..<Suc (length ps)] ! k = Suc k" using assms nth_upt [of 1 k "Suc (length ps)"] by simp
  with assms show ?thesis by (simp add: push_findings_def del: upt_Suc)
qed

lemma push_findings_length [simp]: "length (push_findings now ps) = length ps"
  by (simp add: push_findings_def del: upt_Suc)

lemma push_findings_in:
  assumes "f \<in> set (push_findings now ps)"
  shows "\<exists>n. \<exists>p \<in> set ps. f = push_finding now n p"
proof -
  from assms obtain k where k: "k < length ps" "f = push_findings now ps ! k" by (auto simp: in_set_conv_nth)
  then have "f = push_finding now (Suc k) (ps ! k)" by (simp add: push_findings_nth)
  with k(1) show ?thesis by (intro exI [of _ "Suc k"] bexI [of _ "ps ! k"]) simp_all
qed

lemma push_findings_ids: "distinct (map sf_id (push_findings now ps))"
proof -
  have inj: "pad_zero 3 (nat_str n) = pad_zero 3 (nat_str m) \<Longrightarrow> n = m" for n m
    using digits_read [of 3 n] digits_read [of 3 m] by (simp add: digits_def)
  show ?thesis
    by (auto simp: distinct_conv_nth push_findings_nth push_finding_def sim_partial.extend_def dest: inj)
qed

lemma buildFindings_ok:
  assumes "clock_ok now" "assets \<noteq> []"
  shows "pred_state (\<lambda>fs. distinct (map sf_id fs)
      \<and> (\<forall>f \<in> set fs. \<exists>n p. f = push_finding now n p \<and> finding_ok now assets p)) (buildFindings fmt now assets)"
proof -
  have "pred_state (\<lambda>ps. \<forall>p \<in> set ps. finding_ok now assets p) (cve_findings fmt now assets)"
    unfolding cve_findings_def case_prod_beta' by (rule always_all_rows) (rule cve_finding_ok [OF assms])
  moreover have "pred_state (\<lambda>ps. \<forall>p \<in> set ps. finding_ok now assets p) (misconfig_findings now assets)"
    unfolding misconfig_findings_def case_prod_beta' by (rule always_all_rows) (rule misconfig_finding_ok [OF assms])
  ultimately show ?thesis
    unfolding buildFindings_def
    by (elim always_bind, intro always_return conjI push_findings_ids ballI)
      (drule push_findings_in, auto)
qed

text \<open>The age in days, from the discovery date.\<close>

lemma age_range:
  assumes "now - 361 * 3600000 \<le> d" "d \<le> now - 3600000"
  shows "\<exists>k :: int. js_max (num 0) (js_round (js_div (js_sub (num now) (num d)) (num 86400000))) = num k \<and> 0 \<le> k \<and> k \<le> 15"
proof -
  have a: "3600000 \<le> now - d" "now - d \<le> 361 * 3600000" using assms by linarith+
  then have s: "js_sub (num now) (num d) = num (now - d)"
    using to_num_of_int [of "now - d"] by (simp add: js_sub_def)
  have "(of_int (now - d) :: rat) \<le> of_int (361 * 3600000)" "(0 :: rat) \<le> of_int (now - d)"
    using a by (simp_all only: of_int_le_iff of_int_0_le_iff)
  then have x: "0 \<le> of_int (now - d) / (86400000 :: rat)" "of_int (now - d) / 86400000 \<le> (245 / 16 :: rat)" by simp_all
  have q: "js_div (num (now - d)) (num 86400000) = to_num (of_int (now - d) / 86400000)" by simp
  have "js_le (to_num (of_int (now - d) / 86400000)) (Fin (245 / 16))" "js_le (num 0) (to_num (of_int (now - d) / 86400000))"
    using to_num_mono [OF x(2)] to_num_mono [OF x(1)] to_num_dyadic [of 245 4] to_num_of_int [of 0] by simp_all
  then obtain y where y: "to_num (of_int (now - d) / 86400000) = Fin y" "0 \<le> y" "y \<le> 245 / 16"
    by (cases "to_num (of_int (now - d) / 86400000)") auto
  define k where "k = \<lfloor>y + 1 / 2\<rfloor>"
  have "0 \<le> k" unfolding k_def by (subst zero_le_floor) (use y(2) in linarith)
  moreover have "k \<le> 15" unfolding k_def by (subst floor_le_iff) (use y(3) in simp)
  moreover have "js_round (js_div (js_sub (num now) (num d)) (num 86400000)) = num k"
    unfolding s q y(1) k_def by (simp only: js_round.simps)
  moreover from \<open>0 \<le> k\<close> have "js_max (num 0) (num k) = num k" by (simp add: js_max_def)
  ultimately show ?thesis by (metis of_int_0)
qed

section \<open>Properties\<close>

text \<open>Whatever the generator's state, every finding of the simulation is about one of the assets,
  with that asset's account, provider and region; it was discovered between one hour and 361 hours
  before the clock and is at most fifteen days old; it has a resolution date exactly when it is
  resolved, 8 to 90 hours after the discovery; it names a vulnerability or a control, not both; and no
  two findings have the same identifier.\<close>

theorem simulated_findings:
  assumes "clock_ok now" "assets \<noteq> []" "fs = fst (run_state (buildFindings fmt now assets) s)"
  shows "distinct (map sf_id fs)
    \<and> (\<forall>f \<in> set fs. finding_ok now assets f \<and> (\<exists>k. sf_ageDays f = num k \<and> 0 \<le> k \<and> k \<le> 15))"
proof -
  have b: "distinct (map sf_id fs)" "\<forall>f \<in> set fs. \<exists>n p. f = push_finding now n p \<and> finding_ok now assets p"
    using always_run [OF buildFindings_ok [OF assms(1,2)]] unfolding assms(3) by simp_all
  have "finding_ok now assets f \<and> (\<exists>k. sf_ageDays f = num k \<and> 0 \<le> k \<and> k \<le> 15)" if "f \<in> set fs" for f
  proof -
    from b(2) that obtain n p where f: "f = push_finding now n p" "finding_ok now assets p" by blast
    then obtain d where d: "date_parse (sf_discoveredAt p) = num d" "now - 361 * 3600000 \<le> d" "d \<le> now - 3600000"
      by (auto simp: finding_ok_def)
    have "sf_ageDays f = js_max (num 0) (js_round (js_div (js_sub (num now) (num d)) (num 86400000)))"
      unfolding f(1) push_finding_def d(1) by (simp add: sim_partial.extend_def)
    with age_range [OF d(2,3)] f show ?thesis by (simp add: finding_ok_push)
  qed
  with b(1) show ?thesis by blast
qed

definition ex_asset :: sim_asset where
  "ex_asset = asset_of (ACCOUNT_DEFS ! 0) 0 ''vm'' None
     \<lparr>rf_criticalCve = False, rf_kev = False, rf_internetExposed = True, rf_privilegedIam = False,
      rf_misconfig = True, rf_quantumUnsafe = False\<rparr>"

definition ex_now :: int where "ex_now = 1787000000000"

lemma ex_clock: "clock_ok ex_now"
  by (simp add: clock_ok_def ex_now_def date_max_def)

theorem simulated_findings_witness:
  "distinct (map sf_id (fst (run_state (buildFindings (\<lambda>_. ''9.8'') ex_now [ex_asset]) (mulberry_seed SIM_SEED))))"
  using simulated_findings [OF ex_clock _ refl, of "[ex_asset]" "\<lambda>_. ''9.8''" "mulberry_seed SIM_SEED"] by simp

text \<open>A finding that is resolved although it was discovered less than eight hours ago carries a
  resolution date in the future.\<close>

theorem resolved_in_future:
  assumes "clock_ok now" "assets \<noteq> []"
    and "f = fst (run_state (misconfig_finding now assets idx m i) s)"
    and "sf_status f = Resolved" "date_parse (sf_discoveredAt f) = num d" "now < d + 8 * 3600000"
  shows "\<exists>t u. sf_resolvedAt f = Some t \<and> date_parse t = num u \<and> now < u"
proof -
  have ok: "finding_ok now assets f"
    unfolding assms(3) by (rule always_run [OF misconfig_finding_ok [OF assms(1,2)]])
  with assms(4) obtain t where t: "sf_resolvedAt f = Some t" by (auto simp: finding_ok_def)
  from ok t obtain e u where e: "date_parse (sf_discoveredAt f) = num e" "date_parse t = num u" "e + 8 * 3600000 \<le> u"
    by (auto simp: finding_ok_def)
  from e(1) assms(5) have "e = d" by simp
  with e(3) assms(6) have "now < u" by linarith
  with t e(2) show ?thesis by blast
qed

text \<open>From this state the finding is one hour old and resolved.\<close>

definition ex_state :: nat where "ex_state = 708"

lemma draw_at:
  assumes "mulberry_mix (of_nat (a + 0x6d2b79f5)) = of_nat k" "k < 2 ^ 32"
  shows "run_state draw a = (of_nat k / 2 ^ 32, a + 0x6d2b79f5)"
proof -
  have "unat (of_nat k :: 32 word) = k" using assms(2) by (simp add: unat_of_nat)
  then show ?thesis unfolding draw_def Let_def state.sel assms(1) by simp
qed

lemma ex_draws:
  "run_state draw ex_state = (of_nat 19545506 / 2 ^ 32, 1831566521)"
  "run_state draw 1831566521 = (of_nat 4173558589 / 2 ^ 32, 3663132334)"
  using draw_at [of ex_state 19545506] draw_at [of 1831566521 4173558589]
  by (simp_all add: ex_state_def mulberry_mix_def Let_def)

lemma ex_below: "run_state (draw_below 200) ex_state = (0, 1831566521)"
proof -
  have u: "unit_fraction (of_nat 19545506 / 2 ^ 32)" 
    unfolding unit_fraction_def by (intro exI [of _ 19545506] conjI refl) simp
  have "js_mul (Fin (of_nat 19545506 / 2 ^ 32)) (num (int 200)) = Fin (of_nat 19545506 / 2 ^ 32 * of_nat 200)"
    by (rule scale_exact [OF u]) simp
  moreover have "\<lfloor>of_nat 19545506 / 2 ^ 32 * of_nat 200 :: rat\<rfloor> = 0" by (simp add: floor_eq_iff)
  ultimately have "js_floor (js_mul (Fin (of_nat 19545506 / 2 ^ 32)) (num (int 200))) = num 0"
    by (simp only: js_floor.simps)
  then show ?thesis unfolding draw_below_def by (simp only: run_state_bind ex_draws prod.case run_state_return) simp
qed

lemma ex_chance: "run_state (chance (55 / 100)) 1831566521 = (False, 3663132334)"
proof -
  have "js_le (lit (55 / 100)) (Fin (3 / 4))"
    using to_num_mono [of "55 / 100" "3 / 4"] to_num_dyadic [of 3 2] by (simp add: lit_def)
  then obtain c where "lit (55 / 100) = Fin c \<or> lit (55 / 100) = NInf" "\<forall>x. lit (55 / 100) = Fin x \<longrightarrow> x \<le> 3 / 4"
    by (cases "lit (55 / 100)") auto
  then have "\<not> js_lt (Fin (of_nat 4173558589 / 2 ^ 32)) (lit (55 / 100))" by auto
  then show ?thesis by (simp add: chance_def ex_draws)
qed

theorem resolved_in_future_witness:
  "\<exists>t u. sf_resolvedAt (fst (run_state (misconfig_finding ex_now [ex_asset] 0 (MISCONFIGS ! 0) 0) ex_state)) = Some t
     \<and> date_parse t = num u \<and> ex_now < u"
proof -
  let ?f = "fst (run_state (misconfig_finding ex_now [ex_asset] 0 (MISCONFIGS ! 0) 0) ex_state)"
  have "sf_status ?f = Resolved" "sf_discoveredAt ?f = hours_before ex_now 1"
    by (simp_all add: misconfig_finding_def Let_def ex_below ex_chance [simplified] case_prod_beta')
  moreover have "date_parse (hours_before ex_now 1) = num (ex_now - 3600000)"
    using hours_before_parse [OF ex_clock, of 1] by simp
  ultimately show ?thesis
    by (intro resolved_in_future [OF ex_clock _ refl, where d = "ex_now - 3600000"]) simp_all
qed

end
