(* ===== verification/Js_Interval.thy ===== *)
theory Js_Interval
  imports Js_Number
begin

text \<open>
  Interval reasoning about JavaScript arithmetic: a value is finite and lies between two integers.
  One rule per operation, collected in \<open>interval_intros\<close>; the side conditions keep every bound
  below \<open>2 ^ 53\<close>, where rounding respects integers.
\<close>

named_theorems interval_intros "what the arithmetic operations do to integer bounds"

definition ranged :: "int \<Rightarrow> int \<Rightarrow> jsnum \<Rightarrow> bool" where
  "ranged m n x \<longleftrightarrow> (\<exists>y. x = Fin y \<and> of_int m \<le> y \<and> y \<le> of_int n)"

definition safe :: "int \<Rightarrow> bool" where
  "safe n \<longleftrightarrow> - (2 ^ 53) \<le> n \<and> n \<le> 2 ^ 53"

lemma rangedI: "x = Fin y \<Longrightarrow> of_int m \<le> y \<Longrightarrow> y \<le> of_int n \<Longrightarrow> ranged m n x"
  by (auto simp: ranged_def)

lemma rangedE:
  assumes "ranged m n x"
  obtains y where "x = Fin y" "of_int m \<le> y" "y \<le> of_int n"
  using assms by (auto simp: ranged_def)

lemma ranged_num [simp]: "ranged m n (num k) \<longleftrightarrow> m \<le> k \<and> k \<le> n"
  by (simp add: ranged_def)

lemma ranged_literals [simp]:
  "ranged m n (Fin 0) \<longleftrightarrow> m \<le> 0 \<and> 0 \<le> n" "ranged m n (Fin 1) \<longleftrightarrow> m \<le> 1 \<and> 1 \<le> n"
  "ranged m n (Fin (numeral k)) \<longleftrightarrow> m \<le> numeral k \<and> numeral k \<le> n"
  "ranged m n (Fin (of_nat j)) \<longleftrightarrow> m \<le> int j \<and> int j \<le> n"
  using ranged_num [of m n 0] ranged_num [of m n 1] ranged_num [of m n "numeral k"] ranged_num [of m n "int j"]
  by (simp_all del: ranged_num)

lemma ranged_not_NaN: "ranged m n x \<Longrightarrow> x \<noteq> NaN"
  by (auto simp: ranged_def)

lemma ranged_le: "ranged m n x \<longleftrightarrow> js_le (num m) x \<and> js_le x (num n)"
  by (cases x) (auto simp: ranged_def)

lemma ranged_weaken: "ranged m n x \<Longrightarrow> m' \<le> m \<Longrightarrow> n \<le> n' \<Longrightarrow> ranged m' n' x"
  by (force simp: ranged_def intro: order_trans [of _ "of_int m"] order_trans [of _ "of_int n"])

lemma ranged_to_num:
  assumes "of_int m \<le> x" "x \<le> of_int n" "safe m" "safe n"
  shows "ranged m n (to_num x)"
proof -
  have "- (2 ^ 53) \<le> m" "n \<le> 2 ^ 53" using assms(3,4) by (simp_all add: safe_def)
  with assms(1,2) obtain y where "to_num x = Fin y" "of_int m \<le> y" "y \<le> of_int n"
    by (rule to_num_range)
  then show ?thesis by (rule rangedI)
qed

lemma ranged_lit: "of_int m \<le> r \<Longrightarrow> r \<le> of_int n \<Longrightarrow> safe m \<Longrightarrow> safe n \<Longrightarrow> ranged m n (lit r)"
  unfolding lit_def by (rule ranged_to_num)

lemma ranged_add [interval_intros]:
  assumes "ranged m n a" "ranged p q b" "safe (m + p)" "safe (n + q)"
  shows "ranged (m + p) (n + q) (js_add a b)"
proof -
  from assms(1) obtain x where x: "a = Fin x" "of_int m \<le> x" "x \<le> of_int n" by (rule rangedE)
  from assms(2) obtain y where y: "b = Fin y" "of_int p \<le> y" "y \<le> of_int q" by (rule rangedE)
  from x y have "of_int (m + p) \<le> x + y" "x + y \<le> of_int (n + q)" by simp_all
  with x(1) y(1) assms(3,4) show ?thesis by (simp only: js_add.simps ranged_to_num)
qed

lemma ranged_neg: "ranged m n a \<Longrightarrow> ranged (- n) (- m) (js_neg a)"
  by (auto simp: ranged_def)

lemma ranged_sub [interval_intros]:
  "ranged m n a \<Longrightarrow> ranged p q b \<Longrightarrow> safe (m - q) \<Longrightarrow> safe (n - p) \<Longrightarrow> ranged (m - q) (n - p) (js_sub a b)"
  unfolding js_sub_def using ranged_add [OF _ ranged_neg, of m n a p q b] by simp

lemma ranged_mul_nonneg [interval_intros]:
  assumes "ranged m n a" "ranged p q b" "0 \<le> m" "0 \<le> p" "safe (m * p)" "safe (n * q)"
  shows "ranged (m * p) (n * q) (js_mul a b)"
proof -
  from assms(1) obtain x where x: "a = Fin x" "of_int m \<le> x" "x \<le> of_int n" by (rule rangedE)
  from assms(2) obtain y where y: "b = Fin y" "of_int p \<le> y" "y \<le> of_int q" by (rule rangedE)
  have nn: "(0 :: rat) \<le> of_int m" "(0 :: rat) \<le> of_int p" using assms(3,4) by simp_all
  have "of_int (m * p) \<le> x * y" unfolding of_int_mult using x y nn by (intro mult_mono) linarith+
  moreover have "x * y \<le> of_int (n * q)" unfolding of_int_mult using x y nn by (intro mult_mono) linarith+
  ultimately show ?thesis using x(1) y(1) assms(5,6) by (simp only: js_mul.simps ranged_to_num)
qed

lemma ranged_mul_any:
  assumes "ranged (- n) n a" "ranged 0 q b" "safe (n * q)" "safe (- (n * q))"
  shows "ranged (- (n * q)) (n * q) (js_mul a b)"
proof -
  from assms(1) obtain x where x: "a = Fin x" "of_int (- n) \<le> x" "x \<le> of_int n" by (rule rangedE)
  from assms(2) obtain y where y: "b = Fin y" "of_int 0 \<le> y" "y \<le> of_int q" by (rule rangedE)
  have "\<bar>x\<bar> \<le> of_int n" using x by simp
  then have "\<bar>x * y\<bar> \<le> of_int n * of_int q"
    unfolding abs_mult using y by (intro mult_mono) simp_all
  then have "of_int (- (n * q)) \<le> x * y" "x * y \<le> of_int (n * q)" by simp_all
  with x(1) y(1) assms(3,4) show ?thesis by (simp only: js_mul.simps ranged_to_num)
qed

lemma ranged_round [interval_intros]: "ranged m n a \<Longrightarrow> ranged m n (js_round a)"
proof -
  assume "ranged m n a"
  then obtain x where x: "a = Fin x" "of_int m \<le> x" "x \<le> of_int n" by (rule rangedE)
  have "m \<le> \<lfloor>x + 1 / 2\<rfloor>" using x(2) by (simp add: le_floor_iff)
  moreover have "\<lfloor>x + 1 / 2\<rfloor> \<le> n" using x(3) by (simp add: floor_le_iff)
  ultimately show ?thesis unfolding x(1) js_round.simps ranged_num ..
qed

lemma ranged_floor [interval_intros]: "ranged m n a \<Longrightarrow> ranged m n (js_floor a)"
proof -
  assume "ranged m n a"
  then obtain x where x: "a = Fin x" "of_int m \<le> x" "x \<le> of_int n" by (rule rangedE)
  have "m \<le> \<lfloor>x\<rfloor>" using x(2) by (simp add: le_floor_iff)
  moreover have "\<lfloor>x\<rfloor> \<le> n" using x(3) by (simp add: floor_le_iff)
  ultimately show ?thesis unfolding x(1) js_floor.simps ranged_num ..
qed

lemma ranged_round1 [interval_intros]:
  assumes "ranged m n a" "- 1000000 \<le> m" "n \<le> 1000000"
  shows "ranged m n (round1 a)"
proof -
  from assms(1) obtain x where x: "a = Fin x" "of_int m \<le> x" "x \<le> of_int n" by (rule rangedE)
  from round1_range [OF x(2,3) assms(2,3)] obtain y where "round1 (Fin x) = Fin y" "of_int m \<le> y" "y \<le> of_int n" .
  then show ?thesis unfolding x(1) by (rule rangedI)
qed

lemma ranged_max [interval_intros]: "ranged m n a \<Longrightarrow> ranged (max c m) (max c n) (js_max (num c) a)"
  by (auto simp: ranged_def js_max_def max_def not_le)

lemma ranged_min [interval_intros]: "ranged m n a \<Longrightarrow> ranged (min c m) (min c n) (js_min (num c) a)"
  by (auto simp: ranged_def js_min_def min_def not_le)

lemma ranged_div:
  assumes "ranged m n a" "0 < c" "safe m" "safe n" "0 \<le> m"
  shows "ranged 0 n (js_div a (num c))"
proof -
  from assms(1) obtain x where x: "a = Fin x" "of_int m \<le> x" "x \<le> of_int n" by (rule rangedE)
  have c: "(1 :: rat) \<le> of_int c" using assms(2) by simp
  have m: "(0 :: rat) \<le> of_int m" using assms(5) by simp
  then have x0: "0 \<le> x" using x(2) by linarith
  then have "of_int 0 \<le> x / of_int c" using c by simp
  moreover have "x / of_int c \<le> x" using x0 c by (simp add: divide_le_eq mult_le_cancel_left1)
  with x(3) have "x / of_int c \<le> of_int n" by linarith
  moreover have "safe 0" by (simp add: safe_def)
  ultimately have "ranged 0 n (to_num (x / of_int c))" using assms(4) by (rule ranged_to_num)
  with c show ?thesis unfolding x(1) by simp
qed

lemma safe_small [simp]: "\<bar>n\<bar> \<le> 2 ^ 53 \<Longrightarrow> safe n"
  by (simp add: safe_def abs_le_iff)

lemma ranged_ratio:
  assumes "0 \<le> k" "k \<le> w" "0 < w"
  shows "ranged 0 1 (js_div (num k) (num w))"
proof -
  have w: "(0 :: rat) < of_int w" using assms(3) by simp
  have "of_int 0 \<le> (of_int k / of_int w :: rat)" using assms by simp
  moreover have "(of_int k / of_int w :: rat) \<le> of_int 1" using assms w by (simp add: divide_le_eq)
  ultimately have "ranged 0 1 (to_num (of_int k / of_int w))" by (intro ranged_to_num) (simp_all add: safe_def)
  with w show ?thesis by simp
qed

end
