(* ===== verification/Simulation_Charts.thy ===== *)
theory Simulation_Charts
  imports Simulation_Findings Js_Interval
begin

text \<open>
  The control results, the heat map and the trend of the simulated estate: the map never counts into a
  bucket that does not exist and loses no finding of its window, the trend stays in its band, and
  the control results agree with the open critical findings.
\<close>

section \<open>Heat map\<close>

text \<open>The findings the map shows: discovered by the clock, inside the window.\<close>

definition in_window :: "time_range \<Rightarrow> int \<Rightarrow> 'a sim_partial_scheme \<Rightarrow> bool" where
  "in_window tr now f \<longleftrightarrow>
     js_le (num (now - window_ms tr)) (date_parse (sf_discoveredAt f))
     \<and> js_le (date_parse (sf_discoveredAt f)) (num now)"

definition dated :: "'a sim_partial_scheme \<Rightarrow> bool" where
  "dated f \<longleftrightarrow> (\<exists>d. date_parse (sf_discoveredAt f) = num d \<and> 0 \<le> d \<and> d < date_max)"

lemma heat_index_cases:
  assumes "0 \<le> now" "now < date_max" "0 \<le> d" "d < date_max"
  shows "if now - window_ms tr \<le> d \<and> d \<le> now then \<exists>k < heat_cells tr. heat_index tr now (num d) = Inr (Some k)
    else heat_index tr now (num d) = Inr None"
proof -
  have age: "js_sub (num now) (num d) = num (now - d)"
    using to_num_of_int [of "now - d"] assms by (simp add: js_sub_def date_max_def)
  have w: "0 < window_ms tr" by (simp add: window_ms_def)
  have cells: "0 < heat_cells tr" "heat_cells tr \<le> 30" by (simp_all add: heat_cells_def)
  show ?thesis
  proof (cases "now - window_ms tr \<le> d \<and> d \<le> now")
    case False
    then have "js_lt (num (window_ms tr)) (num (now - d)) \<or> js_lt (num now) (num d)"
      by (simp only: js_lt.simps of_int_less_iff) linarith
    then have "heat_index tr now (num d) = Inr None" unfolding heat_index_def Let_def age by (rule if_P)
    then show ?thesis unfolding if_not_P [OF False] .
  next
    case True
    then have out: "\<not> (js_lt (num (window_ms tr)) (num (now - d)) \<or> js_lt (num now) (num d))"
      by (simp only: js_lt.simps of_int_less_iff) linarith
    have "ranged 0 1 (js_div (num (now - d)) (num (window_ms tr)))"
      using True w by (intro ranged_ratio) simp_all
    moreover have "ranged 0 (int (heat_cells tr)) (num (int (heat_cells tr)))" by simp
    ultimately have "ranged (0 * 0) (1 * int (heat_cells tr))
        (js_mul (js_div (num (now - d)) (num (window_ms tr))) (num (int (heat_cells tr))))"
      using cells by (intro ranged_mul_nonneg) simp_all
    then have "ranged (min (int (heat_cells tr) - 1) (0 * 0)) (min (int (heat_cells tr) - 1) (1 * int (heat_cells tr)))
        (js_min (num (int (heat_cells tr) - 1))
          (js_floor (js_mul (js_div (num (now - d)) (num (window_ms tr))) (num (int (heat_cells tr))))))"
      by (intro ranged_min ranged_floor)
    then have "ranged 0 (int (heat_cells tr) - 1)
        (js_min (num (int (heat_cells tr) - 1))
          (js_floor (js_mul (js_div (num (now - d)) (num (window_ms tr))) (num (int (heat_cells tr))))))"
      by (rule ranged_weaken) (use cells in simp_all)
    then obtain x where x: "js_min (num (int (heat_cells tr) - 1))
          (js_floor (js_mul (js_div (num (now - d)) (num (window_ms tr))) (num (int (heat_cells tr))))) = Fin x"
      "of_int 0 \<le> x" "x \<le> of_int (int (heat_cells tr) - 1)" by (rule rangedE)
    have lt: "0 \<le> x \<and> x < of_nat (heat_cells tr)" using x(2,3) by simp
    have "heat_index tr now (num d) = Inr (Some (heat_cells tr - 1 - nat \<lfloor>x\<rfloor>))"
      unfolding heat_index_def Let_def age if_not_P [OF out] x(1) using lt by simp
    with True cells(1) show ?thesis by auto
  qed
qed

lemma dated_window:
  assumes "dated f"
  obtains d where "date_parse (sf_discoveredAt f) = num d" "0 \<le> d" "d < date_max"
    "in_window tr now f \<longleftrightarrow> now - window_ms tr \<le> d \<and> d \<le> now"
proof -
  from assms obtain d where d: "date_parse (sf_discoveredAt f) = num d" "0 \<le> d" "d < date_max" by (auto simp: dated_def)
  have "in_window tr now f \<longleftrightarrow> now - window_ms tr \<le> d \<and> d \<le> now"
    unfolding in_window_def d(1) js_le_simps(1) of_int_le_iff ..
  with d that show ?thesis by blast
qed

text \<open>A bucket shows a risk exactly when it counted something.\<close>

definition bucket_ok :: "heat_bucket \<Rightarrow> bool" where
  "bucket_ok b \<longleftrightarrow> hb_max b \<le> 4 \<and> (hb_max b = 0 \<longleftrightarrow> hb_count b = 0)"

lemma heat_add_facts:
  assumes "k < length bs" "list_all bucket_ok bs"
  shows "length (heat_add k (severity_rank sev) bs) = length bs"
    and "sum_list (map hb_count (heat_add k (severity_rank sev) bs)) = Suc (sum_list (map hb_count bs))"
    and "list_all bucket_ok (heat_add k (severity_rank sev) bs)"
proof -
  let ?b = "\<lparr>hb_count = hb_count (bs ! k) + 1, hb_max = max (hb_max (bs ! k)) (severity_rank sev)\<rparr>"
  have rank: "1 \<le> severity_rank sev" "severity_rank sev \<le> 4" by (cases sev; simp)+
  show "length (heat_add k (severity_rank sev) bs) = length bs" by (simp add: heat_add_def)
  have "bs = take k bs @ bs ! k # drop (Suc k) bs" using assms(1) by (rule id_take_nth_drop)
  then have "sum_list (map hb_count bs) = sum_list (map hb_count (take k bs)) + hb_count (bs ! k)
      + sum_list (map hb_count (drop (Suc k) bs))"
    by (metis (no_types, lifting) add.assoc list.simps(9) map_append sum_list.Cons sum_list_append)
  moreover have "bs[k := ?b] = take k bs @ ?b # drop (Suc k) bs"
    using assms(1) by (rule upd_conv_take_nth_drop)
  ultimately show "sum_list (map hb_count (heat_add k (severity_rank sev) bs)) = Suc (sum_list (map hb_count bs))"
    by (simp add: heat_add_def)
  have "bucket_ok (bs ! k)" using assms by (simp add: list_all_length)
  then have "bucket_ok ?b" using rank by (auto simp: bucket_ok_def max_def)
  then show "list_all bucket_ok (heat_add k (severity_rank sev) bs)"
    using assms(2) 
    by (auto simp: heat_add_def list_all_iff dest!: subsetD [OF set_update_subset_insert])
qed

lemma heat_buckets_total:
  assumes "0 \<le> now" "now < date_max" "\<forall>f \<in> set fs. dated f" "length bs = heat_cells tr" "list_all bucket_ok bs"
  shows "\<exists>bs'. heat_buckets tr now fs bs = Inr bs' \<and> length bs' = heat_cells tr \<and> list_all bucket_ok bs'
    \<and> sum_list (map hb_count bs') = sum_list (map hb_count bs) + count_if (in_window tr now) fs"
  using assms(3-5)
proof (induction fs arbitrary: bs)
  case Nil
  then show ?case by simp
next
  case (Cons f fs)
  from Cons.prems(1) have "dated f" by simp
  then obtain d where d: "date_parse (sf_discoveredAt f) = num d" "0 \<le> d" "d < date_max"
    "in_window tr now f \<longleftrightarrow> now - window_ms tr \<le> d \<and> d \<le> now" by (rule dated_window)
  note cases = heat_index_cases [OF assms(1,2) d(2,3), of tr]
  show ?case
  proof (cases "in_window tr now f")
    case False
    with cases d(4) have "heat_index tr now (date_parse (sf_discoveredAt f)) = Inr None" by (simp add: d(1))
    with Cons.IH [of bs] Cons.prems False show ?thesis by simp
  next
    case True
    with cases d(4) obtain k where k: "k < heat_cells tr" "heat_index tr now (num d) = Inr (Some k)" by auto
    let ?bs = "heat_add k (severity_rank (sf_severity f)) bs"
    have "k < length bs" using k(1) Cons.prems(2) by simp
    note facts = heat_add_facts [OF this Cons.prems(3), of "sf_severity f"]
    have "heat_buckets tr now (f # fs) bs = heat_buckets tr now fs ?bs" by (simp add: d(1) k(2))
    with Cons.IH [of ?bs] Cons.prems facts True show ?thesis by simp
  qed
qed

section \<open>Trend\<close>

definition trend_ok :: "trend_point \<Rightarrow> bool" where
  "trend_ok p \<longleftrightarrow> ranged 52 100 (tp_score p) \<and> ranged 0 2000000 (tp_findings p) \<and> 4 \<le> tp_scans p \<and> tp_scans p \<le> 9"

lemma draw_ranged: "unit_fraction r \<Longrightarrow> ranged 0 1 (Fin r)"
  using unit_fraction_bounds [of r] by (intro rangedI [OF refl]) simp_all

lemma clamped_score: "ranged (- 13) 102 x \<Longrightarrow> ranged 52 100 (js_min (num 100) (js_max (num 52) (round1 x)))"
  using ranged_min [OF ranged_max [OF ranged_round1], of "- 13" 102 x 100 52] by simp

lemma clamped_count: "ranged (- 202) 1000004 x \<Longrightarrow> ranged 0 2000000 (js_max (num 0) (js_round x))"
  using ranged_weaken [OF ranged_max [OF ranged_round], of "- 202" 1000004 x 0 0 2000000] by simp

lemma drift_ranged:
  assumes "ranged 0 1 (Fin r)" "0 \<le> k" "k \<le> 11"
  shows "ranged (- 2) 13 (js_add (js_mul (num k) (lit (9 / 10))) (js_mul (js_sub (Fin r) (lit (5 / 10))) (lit (14 / 10))))"
proof -
  have "ranged 0 1 (lit (9 / 10))" by (rule ranged_lit) simp_all
  with assms(2,3) have a: "ranged (0 * 0) (11 * 1) (js_mul (num k) (lit (9 / 10)))"
    by (intro ranged_mul_nonneg) (simp_all add: safe_def)
  have "ranged 0 1 (lit (5 / 10))" by (rule ranged_lit) simp_all
  with assms(1) have "ranged (0 - 1) (1 - 0) (js_sub (Fin r) (lit (5 / 10)))"
    by (intro ranged_sub) simp_all
  moreover have "ranged 0 2 (lit (14 / 10))" by (rule ranged_lit) simp_all
  ultimately have b: "ranged (- (1 * 2)) (1 * 2) (js_mul (js_sub (Fin r) (lit (5 / 10))) (lit (14 / 10)))"
    by (intro ranged_mul_any) simp_all
  from ranged_add [OF a b] show ?thesis by simp
qed

lemma trend_point_ok:
  assumes "ranged 0 100 score" "openFindings \<le> 1000000" "i < (if tr = Days7 then 7 else 12)"
  shows "pred_state trend_ok (trend_point_of score openFindings tr i label)"
  unfolding trend_point_of_def Let_def
proof (rule always_bind [OF draw_unit], rule always_bind [OF draw_unit],
    rule always_bind [OF draw_below_less], simp, simp, rule always_return)
  fix r q k
  assume r: "unit_fraction r" and q: "unit_fraction q" and k: "k < (6 :: nat)"
  let ?p = "if tr = Days7 then 7 else 12 :: int"
  have i: "0 \<le> ?p - 1 - int i" "?p - 1 - int i \<le> 11" using assms(3) by (auto split: if_splits)
  note drift = drift_ranged [OF draw_ranged [OF r] i]
  have s: "ranged 52 100 (js_min (num 100) (js_max (num 52) (round1 (js_sub score
      (js_add (js_mul (num (?p - 1 - int i)) (lit (9 / 10))) (js_mul (js_sub (Fin r) (lit (5 / 10))) (lit (14 / 10))))))))"
  proof (rule clamped_score)
    have "ranged (0 - 13) (100 - - 2) (js_sub score (js_add (js_mul (num (?p - 1 - int i)) (lit (9 / 10)))
        (js_mul (js_sub (Fin r) (lit (5 / 10))) (lit (14 / 10)))))"
      by (rule ranged_sub [OF assms(1) drift]) (simp_all add: safe_def)
    then show "ranged (- 13) 102 (js_sub score (js_add (js_mul (num (?p - 1 - int i)) (lit (9 / 10)))
        (js_mul (js_sub (Fin r) (lit (5 / 10))) (lit (14 / 10)))))" by (rule ranged_weaken) simp_all
  qed
  have n: "ranged (0 * 8) (1 * 8) (js_mul (Fin q) (num 8))"
    using draw_ranged [OF q] by (intro ranged_mul_nonneg) simp_all
  have n': "ranged (0 * 8 - 4) (1 * 8 - 4) (js_sub (js_mul (Fin q) (num 8)) (num 4))"
    by (rule ranged_sub [OF n]) simp_all
  have step: "int i * (if tr = Days7 then 6 else 18) \<le> 11 * 18" "0 \<le> int i * (if tr = Days7 then 6 else 18)"
    using assms(3) by (auto split: if_splits)
  then have "ranged (0 - 198) (1000000 - 0) (js_sub (num (int openFindings)) (num (int i * (if tr = Days7 then 6 else 18))))"
    using assms(2) by (intro ranged_sub) (simp_all only: ranged_num, simp_all)
  then have f: "ranged 0 2000000 (js_max (num 0) (js_round
      (js_add (js_sub (num (int openFindings)) (num (int i * (if tr = Days7 then 6 else 18))))
        (js_sub (js_mul (Fin q) (num 8)) (num 4)))))"
    by (intro clamped_count ranged_weaken [OF ranged_add [OF _ n']]) (assumption, simp_all add: safe_def)
  show "trend_ok \<lparr>tp_label = label,
       tp_score = js_min (num 100) (js_max (num 52) (round1 (js_sub score
         (js_add (js_mul (num (?p - 1 - int i)) (lit (9 / 10))) (js_mul (js_sub (Fin r) (lit (5 / 10))) (lit (14 / 10))))))),
       tp_findings = js_max (num 0) (js_round
         (js_add (js_sub (num (int openFindings)) (num (int i * (if tr = Days7 then 6 else 18))))
           (js_sub (js_mul (Fin q) (num 8)) (num 4)))),
       tp_scans = 4 + k\<rparr>"
    unfolding trend_ok_def trend_point.select_convs using s f k by (intro conjI) simp_all
qed


section \<open>Controls\<close>

lemma failed_controls_iff:
  "i \<in> set (failed_controls fs) \<longleftrightarrow>
     (\<exists>f \<in> set fs. sf_status f = Open \<and> sf_severity f = SevCritical \<and> sf_controlId f = Some i \<and> i \<noteq> [])"
  by (force simp: failed_controls_def truthy_opt_def)

definition control_ok :: "string list \<Rightarrow> seed_ctrl \<Rightarrow> control_result \<Rightarrow> bool" where
  "control_ok failed c r \<longleftrightarrow>
     cr_id r = sc_id c \<and> cr_framework r = sc_framework c \<and> cr_critical r = (sc_critical c = Some True)
     \<and> (sc_id c \<in> set failed \<longrightarrow> cr_status r = Failed)
     \<and> (cr_status r = Failed \<longrightarrow> sc_id c \<in> set failed \<or> sc_critical c = Some True)"

lemma control_status_ok:
  "pred_state (\<lambda>st. (sc_id c \<in> set failed \<longrightarrow> st = Failed)
      \<and> (st = Failed \<longrightarrow> sc_id c \<in> set failed \<or> sc_critical c = Some True)) (control_status_of failed c)"
proof (cases "sc_id c \<in> set failed")
  case True
  then show ?thesis by (simp add: control_status_of_def always_return)
next
  case False
  have "pred_state (\<lambda>hit. hit \<longrightarrow> sc_critical c = Some True)
      (if sc_critical c = Some True then chance (12 / 100) else State_Monad.return False)"
    by (intro always_if always_return always_mono [OF always_any]) simp_all
  with False show ?thesis
    unfolding control_status_of_def
    by (simp only: if_False) (erule always_bind, intro always_if always_bind_any always_return, auto)
qed

lemma buildControls_ok:
  "pred_state (list_all2 (control_ok (failed_controls fs)) CONTROL_CATALOG) (buildControls fs)"
  unfolding buildControls_def
  by (intro always_traverse always_bind [OF control_status_ok] always_return)
    (simp add: control_ok_def control_result_of_def)

text \<open>Every control of the catalogue belongs to one of the frameworks the dashboard summarises.\<close>

lemma catalogue_frameworks: "list_all (\<lambda>c. sc_framework c \<in> set (map fst FRAMEWORK_META)) CONTROL_CATALOG"
  by code_simp

lemma frameworks_distinct: "distinct (map fst FRAMEWORK_META)"
  by code_simp

lemma sum_list_one: "distinct ks \<Longrightarrow> k \<in> set ks \<Longrightarrow> sum_list (map (\<lambda>k'. if k = k' then 1 else (0 :: nat)) ks) = 1"
  by (induction ks) (auto simp: sum_list_eq_0_iff)

lemma partition_length:
  assumes "distinct ks" "\<forall>x \<in> set xs. g x \<in> set ks"
  shows "sum_list (map (\<lambda>k. length (filter (\<lambda>x. g x = k) xs)) ks) = length xs"
  using assms(2)
proof (induction xs)
  case Nil
  then show ?case by simp
next
  case (Cons x xs)
  have "sum_list (map (\<lambda>k. length (filter (\<lambda>x. g x = k) (x # xs))) ks)
      = sum_list (map (\<lambda>k. (if g x = k then 1 else 0) + length (filter (\<lambda>x. g x = k) xs)) ks)"
    by (intro arg_cong [of _ _ sum_list] map_cong) simp_all
  also have "\<dots> = sum_list (map (\<lambda>k. if g x = k then 1 else 0) ks) + length xs"
    using Cons by (simp add: sum_list_addf)
  also have "sum_list (map (\<lambda>k. if g x = k then 1 else (0 :: nat)) ks) = 1"
    using assms(1) Cons.prems [THEN bspec, of x] by (simp add: sum_list_one)
  finally show ?case by simp
qed

lemma buildHeatmap_ok:
  assumes "0 \<le> now" "now < date_max" "\<forall>f \<in> set fs. dated f"
  shows "\<exists>cells. buildHeatmap fs tr now = Inr cells \<and> length cells = heat_cells tr
    \<and> sum_list (map hc_count cells) = count_if (in_window tr now) fs
    \<and> list_all (\<lambda>c. hc_risk c \<le> 4 \<and> (hc_risk c = 0 \<longleftrightarrow> hc_count c = 0)) cells"
proof -
  let ?z = "replicate (heat_cells tr) \<lparr>hb_count = 0, hb_max = 0\<rparr>"
  have "list_all bucket_ok ?z" by (simp add: list_all_iff bucket_ok_def)
  then obtain bs where bs: "heat_buckets tr now fs ?z = Inr bs" "length bs = heat_cells tr" "list_all bucket_ok bs"
    "sum_list (map hb_count bs) = count_if (in_window tr now) fs"
    using heat_buckets_total [OF assms, of ?z] by (auto simp: map_replicate_const sum_list_replicate)
  let ?cells = "map (\<lambda>(i, b). heat_cell_of tr i b) (indexed bs)"
  have "map hc_count ?cells = map hb_count bs"
    by (rule nth_equalityI) (simp_all add: indexed_def heat_cell_of_def Let_def)
  moreover have "list_all (\<lambda>c. hc_risk c \<le> 4 \<and> (hc_risk c = 0 \<longleftrightarrow> hc_count c = 0)) ?cells"
    using bs(3) by (simp add: list_all_length indexed_def heat_cell_of_def Let_def bucket_ok_def)
  ultimately show ?thesis
    using bs by (intro exI [of _ ?cells]) (simp add: buildHeatmap_def indexed_def)
qed

section \<open>Properties\<close>

text \<open>The heat map never counts into a bucket that does not exist, whatever dates the findings
  have; it has a cell for every bucket, the counts of the cells add up to exactly the findings
  discovered inside the window, and a cell shows a risk exactly when it counts something.\<close>

theorem heatmap_total:
  assumes "0 \<le> now" "now < date_max" "\<forall>f \<in> set fs. dated f"
  shows "\<exists>cells. buildHeatmap fs tr now = Inr cells \<and> length cells = heat_cells tr
    \<and> sum_list (map hc_count cells) = count_if (in_window tr now) fs
    \<and> list_all (\<lambda>c. hc_risk c \<le> 4 \<and> (hc_risk c = 0 \<longleftrightarrow> hc_count c = 0)) cells"
  using assms by (rule buildHeatmap_ok)

lemma simulated_dated:
  assumes "clock_ok now" "finding_ok now assets f"
  shows "dated f"
proof -
  from assms(2) obtain d where "date_parse (sf_discoveredAt f) = num d" "now - 361 * 3600000 \<le> d" "d \<le> now - 3600000"
    by (auto simp: finding_ok_def)
  with assms(1) show ?thesis unfolding dated_def clock_ok_def by (intro exI [of _ d]) linarith
qed

lemma ex_findings_dated:
  "\<forall>f \<in> set (fst (run_state (buildFindings (\<lambda>_. ''9.8'') ex_now [ex_asset]) ex_state)). dated f"
proof -
  have "\<forall>f \<in> set (fst (run_state (buildFindings (\<lambda>_. ''9.8'') ex_now [ex_asset]) ex_state)).
      \<exists>n p. f = push_finding ex_now n p \<and> finding_ok ex_now [ex_asset] p"
    using always_run [OF buildFindings_ok [OF ex_clock, of "[ex_asset]" "\<lambda>_. ''9.8''"], of ex_state] by simp
  then show ?thesis by (metis finding_ok_push simulated_dated [OF ex_clock])
qed

theorem heatmap_total_witness:
  "\<exists>cells. buildHeatmap (fst (run_state (buildFindings (\<lambda>_. ''9.8'') ex_now [ex_asset]) ex_state)) Days7 ex_now = Inr cells
     \<and> length cells = 28"
proof -
  have "0 \<le> ex_now" "ex_now < date_max" by (simp_all add: ex_now_def date_max_def)
  from heatmap_total [OF this ex_findings_dated, of Days7] show ?thesis
    by (auto simp: heat_cells_def)
qed

text \<open>Every point of the posture trend has a score between 52 and 100, a finding count that is not
  negative and between 4 and 9 scans, and there is one point per label, for every state of the
  generator.\<close>

theorem trend_band:
  assumes "ranged 0 100 score" "openFindings \<le> 1000000"
  shows "list_all trend_ok (fst (run_state (buildTrend score openFindings tr) s))
    \<and> length (fst (run_state (buildTrend score openFindings tr) s)) = (if tr = Days7 then 7 else 12)"
proof -
  let ?n = "if tr = Days7 then 7 else 12 :: nat"
  let ?xs = "indexed (take ?n (trend_labels tr))"
  have len: "length ?xs = ?n" by (simp add: indexed_def trend_labels_def DAYS_def)
  have "pred_state (list_all2 (\<lambda>_. trend_ok) ?xs) (buildTrend score openFindings tr)"
    unfolding buildTrend_def
  proof (rule always_traverse)
    fix x
    assume "x \<in> set ?xs"
    then have "fst x < ?n" using len by (auto simp: indexed_def set_zip)
    then show "pred_state trend_ok (case x of (i, label) \<Rightarrow> trend_point_of score openFindings tr i label)"
      unfolding case_prod_beta' by (rule trend_point_ok [OF assms])
  qed
  from always_run [OF this, of s] have l: "list_all2 (\<lambda>_. trend_ok) ?xs (fst (run_state (buildTrend score openFindings tr) s))" .
  then have "length (fst (run_state (buildTrend score openFindings tr) s)) = ?n"
    using len by (metis list_all2_lengthD)
  moreover have "list_all trend_ok (fst (run_state (buildTrend score openFindings tr) s))"
    using l by (auto simp: list_all_length list_all2_conv_all_nth)
  ultimately show ?thesis by simp
qed

theorem trend_band_witness:
  "length (fst (run_state (buildTrend (num 71) 2242 Days30) ex_state)) = 12"
  using trend_band [of "num 71" 2242 Days30 ex_state] by simp

text \<open>The control results are those of the catalogue, in its order; a control that an open critical
  finding names has failed, any other control that failed is a critical one; and the frameworks'
  summaries cover every control exactly once.\<close>

theorem simulated_controls:
  assumes "cs = fst (run_state (buildControls fs) s)"
  shows "map cr_id cs = map sc_id CONTROL_CATALOG
    \<and> (\<forall>r \<in> set cs. (\<exists>f \<in> set fs. sf_status f = Open \<and> sf_severity f = SevCritical \<and> sf_controlId f = Some (cr_id r)
           \<and> cr_id r \<noteq> []) \<longrightarrow> cr_status r = Failed)
    \<and> (\<forall>r \<in> set cs. cr_status r = Failed \<longrightarrow> cr_critical r \<or> cr_id r \<in> set (failed_controls fs))
    \<and> sum_list (map (\<lambda>fw. length (fr_controls (summarizeFramework fw (filter (\<lambda>c. cr_framework c = fw) cs))))
         (map fst FRAMEWORK_META)) = length CONTROL_CATALOG"
proof -
  have l: "list_all2 (control_ok (failed_controls fs)) CONTROL_CATALOG cs"
    unfolding assms by (rule always_run [OF buildControls_ok])
  then have len: "length cs = length CONTROL_CATALOG" by (metis list_all2_lengthD)
  have ok: "\<exists>c \<in> set CONTROL_CATALOG. control_ok (failed_controls fs) c r" if "r \<in> set cs" for r
    using l that by (force simp: list_all2_conv_all_nth in_set_conv_nth)
  have ids: "map cr_id cs = map sc_id CONTROL_CATALOG"
    using l by (intro nth_equalityI) (auto simp: list_all2_conv_all_nth control_ok_def)
  have "\<forall>r \<in> set cs. cr_framework r \<in> set (map fst FRAMEWORK_META)"
    using ok catalogue_frameworks by (fastforce simp: control_ok_def list_all_iff)
  then have "sum_list (map (\<lambda>fw. length (filter (\<lambda>c. cr_framework c = fw) cs)) (map fst FRAMEWORK_META)) = length cs"
    by (rule partition_length [OF frameworks_distinct])
  moreover have "fr_controls (summarizeFramework fw rs) = rs" for fw rs
    by (simp add: summarizeFramework_def Let_def)
  ultimately have "sum_list (map (\<lambda>fw. length (fr_controls (summarizeFramework fw (filter (\<lambda>c. cr_framework c = fw) cs))))
      (map fst FRAMEWORK_META)) = length CONTROL_CATALOG"
    using len by simp
  moreover have "cr_status r = Failed"
    if r: "r \<in> set cs" and f: "\<exists>f \<in> set fs. sf_status f = Open \<and> sf_severity f = SevCritical
      \<and> sf_controlId f = Some (cr_id r) \<and> cr_id r \<noteq> []" for r
  proof -
    from ok [OF r] obtain c where "control_ok (failed_controls fs) c r" by blast
    with f show ?thesis unfolding control_ok_def failed_controls_iff by simp
  qed
  moreover have "cr_critical r \<or> cr_id r \<in> set (failed_controls fs)" if r: "r \<in> set cs" and f: "cr_status r = Failed" for r
    using ok [OF r] f by (auto simp: control_ok_def)
  ultimately show ?thesis using ids by blast
qed

theorem simulated_controls_witness:
  "map cr_id (fst (run_state (buildControls ([] :: sim_finding list)) ex_state)) = map sc_id CONTROL_CATALOG"
  using simulated_controls [of _ "[] :: sim_finding list" ex_state, OF refl] by blast

end
