(* ===== verification/Simulation_View.thy ===== *)
theory Simulation_View
  imports Simulation_Charts Js_Value
begin

text \<open>
  web/src/data/enterprise/simulation.ts, from the cache on: the dashboard the simulation yields, its
  cache by minute, and the inventory and cloud summaries.  A field that the live adapter may fill with
  whatever an API answers is a JavaScript value.  \<open>fmt\<close> writes a number that is not integral and
  \<open>loc\<close> is \<open>toLocaleString\<close>, which depends on the user's locale.
\<close>

section \<open>The view model\<close>

record severity_nums =
  sn_critical :: jsnum
  sn_high :: jsnum
  sn_medium :: jsnum
  sn_low :: jsnum

record pqc_totals =
  pq_quantumSafe :: jsnum
  pq_vulnerable :: jsnum
  pq_inMigration :: jsnum

record totals =
  to_accounts :: nat
  to_assets :: jsnum
  to_clusters :: nat
  to_containers :: nat
  to_vms :: nat
  to_storage :: nat
  to_databases :: nat
  to_identities :: nat
  to_criticalAssets :: nat
  to_exposed :: nat
  to_findingsTotal :: nat
  to_findingsOpen :: jsnum
  to_findingsResolved :: nat
  to_findings :: severity_nums
  to_open :: severity_nums
  to_kevOpen :: nat
  to_mttrHours :: jsnum
  to_scanCoverage :: jsnum
  to_scansToday :: jsnum
  to_avgScanSeconds :: jsnum
  to_activeScans :: nat
  to_pqc :: pqc_totals

record framework_view =
  fv_result :: framework_result
  fv_score :: jval

record trend_view =
  tv_label :: jval
  tv_score :: jval
  tv_findings :: jval
  tv_scans :: jval

record feed_entry =
  fe_time :: jval
  fe_severity :: jval
  fe_message :: jval
  fe_findingId :: jval

datatype scan_status = ScanCompleted | ScanRunning | ScanFailed

record scan_row =
  sr_id :: string
  sr_target :: string
  sr_status :: scan_status
  sr_time :: string
  sr_findings :: "nat option"

record threat_metric =
  tm_label :: string
  tm_value :: jval
  tm_trend :: "string option"
  tm_severity :: "string option"

record scan_metric =
  sm_id :: string
  sm_label :: string
  sm_value :: jval
  sm_hint :: "string option"
  sm_live :: "bool option"
  sm_accent :: "string option"

record dashboard =
  dv_dataMode :: data_kind
  dv_environmentLabel :: string
  dv_posture :: score_breakdown
  dv_complianceAvg :: jsnum
  dv_totals :: totals
  dv_accounts :: "sim_account list"
  dv_assets :: "sim_asset list"
  dv_findings :: "sim_finding list"
  dv_openFindings :: "sim_finding list"
  dv_frameworks :: "framework_view list"
  dv_postureTrend :: "trend_view list"
  dv_heatmap :: "heat_cell list"
  dv_providerData :: "(string \<times> jval) list"
  dv_algorithmData :: "(string \<times> jsnum) list"
  dv_riskData :: "(string \<times> jsnum) list"
  dv_scans :: "scan_row list"
  dv_feed :: "feed_entry list"
  dv_threatMetrics :: "threat_metric list"
  dv_liveScanMetrics :: "scan_metric list"
  dv_industryBenchmarks :: "(string \<times> string \<times> provenance) list"
  dv_provenance :: "(string \<times> provenance) list"

section \<open>The figures\<close>

definition relativeTime :: "(rat \<Rightarrow> string) \<Rightarrow> string \<Rightarrow> int \<Rightarrow> string" where
  "relativeTime fmt isodate now =
     (let delta = js_max (num 0) (js_sub (num now) (date_parse isodate));
          m = js_round (js_div delta (num 60000))
      in if js_lt m (num 1) then ''just now''
         else if js_lt m (num 60) then num_string fmt m @ ''m ago''
         else (let h = js_round (js_div m (num 60))
               in if js_lt h (num 48) then num_string fmt h @ ''h ago''
                  else num_string fmt (js_round (js_div h (num 24))) @ ''d ago''))"

text \<open>\<open>x.toFixed(1)\<close> of a number that is not negative and below \<open>10 ^ 21\<close>.\<close>

fun to_fixed1 :: "jsnum \<Rightarrow> string" where
  "to_fixed1 (Fin x) =
     (let n = nat \<lfloor>x * 10 + 1 / 2\<rfloor> in nat_str (n div 10) @ ''.'' @ nat_str (n mod 10))"
| "to_fixed1 x = num_string (\<lambda>_. []) x"

text \<open>\<open>a % b\<close> of numbers, for a finite positive \<open>b\<close>.\<close>

fun js_mod :: "jsnum \<Rightarrow> jsnum \<Rightarrow> jsnum" where
  "js_mod (Fin a) (Fin b) =
     (if b = 0 then NaN
      else if 0 \<le> a then Fin (a - \<bar>b\<bar> * of_int \<lfloor>a / \<bar>b\<bar>\<rfloor>) else Fin (- (- a - \<bar>b\<bar> * of_int \<lfloor>- a / \<bar>b\<bar>\<rfloor>)))"
| "js_mod _ _ = NaN"

definition kev_listed :: "sim_finding \<Rightarrow> bool" where
  "kev_listed f =
     (case sf_cveId f of
        None \<Rightarrow> False
      | Some i \<Rightarrow> i \<noteq> [] \<and> (case find (\<lambda>c. cv_id c = i) CVE_CATALOG of None \<Rightarrow> False | Some c \<Rightarrow> cv_kev c))"

definition unscanned_of :: "sim_account \<Rightarrow> jsnum" where
  "unscanned_of a =
     (case ac_environment a of
        Sandbox \<Rightarrow> num (int (ac_resources a))
      | Staging \<Rightarrow> js_round (js_mul (num (int (ac_resources a))) (lit (35 / 100)))
      | Prod \<Rightarrow> num 0)"

definition sum_of :: "(sim_account \<Rightarrow> nat) \<Rightarrow> nat" where
  "sum_of f = sum_list (map f ACCOUNT_DEFS)"

definition unsafe_share :: "sim_asset list \<Rightarrow> jsnum" where
  "unsafe_share assets =
     (let crypto = filter (\<lambda>a. truthy_opt (as_algorithm a)) assets;
          safe = count_if (\<lambda>a. as_quantumSafe a = Some True) crypto
      in if crypto = [] then lit (4 / 10)
         else js_div (num (int (length crypto) - int safe)) (num (int (length crypto))))"

definition sim_posture :: "sim_asset list \<Rightarrow> sim_finding list \<Rightarrow> control_result list \<Rightarrow> score_breakdown" where
  "sim_posture assets open_findings controls = calculatePostureScore
     \<lparr>pi_assets = num (int (sum_of ac_resources)),
      pi_openCritical = num (int (sv_critical (cp_findingsOpenBySev COMPOSITION))),
      pi_openHigh = num (int (sv_high (cp_findingsOpenBySev COMPOSITION))),
      pi_exposed = num (int (sum_of ac_exposed)),
      pi_kevOpen = num (int (max (count_if kev_listed open_findings) 14)),
      pi_failedCriticalControls = num (int (count_if (\<lambda>c. cr_critical c \<and> cr_status c = Failed) controls)),
      pi_quantumUnsafeShare = unsafe_share assets\<rparr>"

definition scan_coverage :: jsnum where
  "scan_coverage =
     (let tot = num (int (sum_of ac_resources));
          unscanned = js_sum (map unscanned_of ACCOUNT_DEFS)
      in percent1 (js_div (js_sub tot unscanned) tot))"

fun provider_name :: "cloud_provider \<Rightarrow> string" where
  "provider_name Aws = ''AWS''"
| "provider_name Azure = ''Azure''"
| "provider_name _ = ''GCP''"

definition provider_data :: "sim_account list \<Rightarrow> (string \<times> jval) list" where
  "provider_data accounts =
     map (\<lambda>name. (name, JNum (num (int (sum_list (map ac_resources
            (filter (\<lambda>a. provider_name (ac_provider a) = name) accounts)))))))
       [''AWS'', ''Azure'', ''GCP'']"

definition algorithm_data :: "(string \<times> jsnum) list" where
  "algorithm_data =
     (let weights = sum_list (map al_weight ALGORITHMS)
      in map (\<lambda>a. (al_name a, js_round (js_mul (js_div (num (int (al_weight a))) (num (int weights)))
           (num (int (cp_secrets COMPOSITION)))))) ALGORITHMS)"

fun risk_name :: "risk_level \<Rightarrow> string" where
  "risk_name RLow = ''LOW''"
| "risk_name RMedium = ''MEDIUM''"
| "risk_name RHigh = ''HIGH''"
| "risk_name RCritical = ''CRITICAL''"

definition risk_data :: "sim_asset list \<Rightarrow> (string \<times> jsnum) list" where
  "risk_data assets =
     (let n = (if length assets = 0 then 1 else length assets)
      in map (\<lambda>lv. (risk_name lv, js_round (js_mul
             (js_div (num (int (count_if (\<lambda>a. as_riskLevel a = lv) assets))) (num (int n)))
             (num (int (sum_of ac_resources))))))
           [RLow, RMedium, RHigh, RCritical])"

definition before :: "int \<Rightarrow> jsnum \<Rightarrow> string" where
  "before now delta = iso_string (js_sub (num now) delta)"

definition sim_scans :: "(rat \<Rightarrow> string) \<Rightarrow> int \<Rightarrow> scan_row list" where
  "sim_scans fmt now =
     (let ago = (\<lambda>d. relativeTime fmt (before now d) now); hours = (\<lambda>h. js_mul (lit h) (num 3600000))
      in [\<lparr>sr_id = ''scan-1'', sr_target = ''prod-api.payments.internal'', sr_status = ScanCompleted,
           sr_time = ago (js_mul (num 12) (num 60000)), sr_findings = Some 3\<rparr>,
          \<lparr>sr_id = ''scan-2'', sr_target = ''eks-prod-west / default'', sr_status = ScanRunning,
           sr_time = ago (js_mul (num 28) (num 60000)), sr_findings = None\<rparr>,
          \<lparr>sr_id = ''scan-3'', sr_target = ''s3://crypto-assets-prod'', sr_status = ScanCompleted,
           sr_time = ago (js_mul (num 58) (num 60000)), sr_findings = Some 7\<rparr>,
          \<lparr>sr_id = ''scan-4'', sr_target = ''github.com/org/payments-api'', sr_status = ScanCompleted,
           sr_time = ago (hours (21 / 10)), sr_findings = Some 4\<rparr>,
          \<lparr>sr_id = ''scan-5'', sr_target = ''azure-keyvault-prod'', sr_status = ScanFailed,
           sr_time = ago (hours (32 / 10)), sr_findings = None\<rparr>,
          \<lparr>sr_id = ''scan-6'', sr_target = ''gke-analytics-eu'', sr_status = ScanCompleted,
           sr_time = ago (hours (54 / 10)), sr_findings = Some 2\<rparr>])"

text \<open>The stable sort by discovery, latest first.\<close>

definition discovered :: "sim_finding \<Rightarrow> jsnum" where
  "discovered f = date_parse (sf_discoveredAt f)"

fun insert_latest :: "sim_finding \<Rightarrow> sim_finding list \<Rightarrow> sim_finding list" where
  "insert_latest f [] = [f]"
| "insert_latest f (g # gs) =
     (if js_lt (discovered f) (discovered g) then g # insert_latest f gs else f # g # gs)"

definition latest_first :: "sim_finding list \<Rightarrow> sim_finding list" where
  "latest_first fs = foldr insert_latest fs []"

fun severity_str :: "finding_severity \<Rightarrow> string" where
  "severity_str SevCritical = ''critical''"
| "severity_str SevHigh = ''high''"
| "severity_str SevMedium = ''medium''"
| "severity_str SevLow = ''low''"

definition sim_feed :: "(rat \<Rightarrow> string) \<Rightarrow> int \<Rightarrow> sim_finding list \<Rightarrow> feed_entry list" where
  "sim_feed fmt now open_findings =
     map (\<lambda>f. \<lparr>fe_time = JStr (relativeTime fmt (sf_discoveredAt f) now),
               fe_severity = JStr (severity_str (sf_severity f)),
               fe_message = JStr (sf_message f), fe_findingId = JStr (sf_id f)\<rparr>)
       (take 8 (latest_first open_findings))"

definition sim_mttr :: "sim_finding list \<Rightarrow> jsnum" where
  "sim_mttr findings =
     (let mttr = meanTimeToRemediateHours date_parse
            (concat (map (\<lambda>f. if sf_status f = Resolved \<and> truthy_opt (sf_resolvedAt f)
                              then [(sf_discoveredAt f, the (sf_resolvedAt f))] else []) findings))
      in if truthy_num mttr then mttr else lit (186 / 10))"

definition compliance_avg :: "jsnum \<Rightarrow> nat \<Rightarrow> jsnum" where
  "compliance_avg tot n = round1 (js_div tot (num (int n)))"

definition metric :: "string \<Rightarrow> string \<Rightarrow> jval \<Rightarrow> string \<Rightarrow> scan_metric" where
  "metric i label v hint =
     \<lparr>sm_id = i, sm_label = label, sm_value = v, sm_hint = Some hint, sm_live = None, sm_accent = None\<rparr>"

definition open_nums :: severity_nums where
  "open_nums =
     (let s = cp_findingsOpenBySev COMPOSITION
      in \<lparr>sn_critical = num (int (sv_critical s)), sn_high = num (int (sv_high s)),
          sn_medium = num (int (sv_medium s)), sn_low = num (int (sv_low s))\<rparr>)"

definition sim_totals :: "int \<Rightarrow> sim_account list \<Rightarrow> sim_asset list \<Rightarrow> sim_finding list \<Rightarrow> totals" where
  "sim_totals now accounts assets findings =
     (let secrets = num (int (cp_secrets COMPOSITION));
          pqcSafeEst = js_round (js_mul (js_sub (num 1) (unsafe_share assets)) secrets);
          pqcVulnEst = js_sub secrets pqcSafeEst
      in \<lparr>to_accounts = length accounts, to_assets = num (int (sum_of ac_resources)),
          to_clusters = cp_clusters COMPOSITION, to_containers = cp_containers COMPOSITION,
          to_vms = cp_vms COMPOSITION, to_storage = cp_storage COMPOSITION,
          to_databases = cp_databases COMPOSITION, to_identities = cp_identities COMPOSITION,
          to_criticalAssets = sum_of ac_criticalAssets, to_exposed = sum_of ac_exposed,
          to_findingsTotal = cp_findingsTotal COMPOSITION,
          to_findingsOpen = num (int (cp_findingsOpen COMPOSITION)),
          to_findingsResolved = cp_findingsResolved COMPOSITION,
          to_findings = open_nums, to_open = open_nums,
          to_kevOpen = max (count_if kev_listed (filter (\<lambda>f. sf_status f = Open) findings)) 14,
          to_mttrHours = sim_mttr findings, to_scanCoverage = scan_coverage,
          to_scansToday = js_add (num 11) (js_floor (js_mod (js_div (num now) (num 3600000)) (num 7))),
          to_avgScanSeconds = lit (64 / 10), to_activeScans = 1,
          to_pqc = \<lparr>pq_quantumSafe = pqcSafeEst, pq_vulnerable = pqcVulnEst,
                    pq_inMigration = js_max (num 1) (js_round (js_mul pqcVulnEst (lit (16 / 100))))\<rparr>\<rparr>)"

definition sim_threats :: "(rat \<Rightarrow> string) \<Rightarrow> totals \<Rightarrow> threat_metric list" where
  "sim_threats fmt t =
     [\<lparr>tm_label = ''CISA KEV open'', tm_value = JNum (num (int (to_kevOpen t))),
       tm_trend = Some ''down'', tm_severity = Some ''critical''\<rparr>,
      \<lparr>tm_label = ''Exposed assets'', tm_value = JNum (num (int (to_exposed t))),
       tm_trend = Some ''up'', tm_severity = Some ''high''\<rparr>,
      \<lparr>tm_label = ''MTTR'', tm_value = JStr (to_fixed1 (to_mttrHours t) @ ''h''),
       tm_trend = Some ''down'', tm_severity = Some ''low''\<rparr>,
      \<lparr>tm_label = ''Scan coverage'', tm_value = JStr (num_string fmt (to_scanCoverage t) @ ''%''),
       tm_trend = None, tm_severity = Some ''low''\<rparr>]"

definition sim_metrics :: "(rat \<Rightarrow> string) \<Rightarrow> (jsnum \<Rightarrow> string) \<Rightarrow> totals \<Rightarrow> scan_metric list" where
  "sim_metrics fmt loc t =
     [(metric ''active'' ''Active Scans'' (JNum (num 1)) (''CBOM '' @ mid_dot @ '' TLS '' @ mid_dot @ '' cloud''))
        \<lparr>sm_live := Some True\<rparr>,
      metric ''completed'' ''Completed (24h)'' (JNum (to_scansToday t)) ''Simulated estate'',
      metric ''findings'' ''Open findings'' (JNum (to_findingsOpen t))
        (num_string fmt (sn_critical (to_open t)) @ '' critical '' @ mid_dot @ '' ''
           @ num_string fmt (sn_high (to_open t)) @ '' high''),
      metric ''coverage'' ''Scan Coverage'' (JStr (num_string fmt (to_scanCoverage t) @ ''%'')) ''Assets monitored'',
      metric ''targets'' ''Cloud assets'' (JStr (loc (num (int (sum_of ac_resources))))) ''Simulated multi-cloud'',
      metric ''latency'' ''Avg Scan Time'' (JStr (num_string fmt (to_avgScanSeconds t) @ ''s'')) ''Per job (simulated)'']"

definition trend_json :: "trend_point \<Rightarrow> trend_view" where
  "trend_json p =
     \<lparr>tv_label = JStr (tp_label p), tv_score = JNum (tp_score p), tv_findings = JNum (tp_findings p),
      tv_scans = JNum (num (int (tp_scans p)))\<rparr>"

section \<open>The simulation\<close>

definition sim_frameworks :: "control_result list \<Rightarrow> framework_result list" where
  "sim_frameworks controls =
     map (\<lambda>fw. summarizeFramework fw (filter (\<lambda>c. cr_framework c = fw) controls)) (map fst FRAMEWORK_META)"

definition build_view ::
  "(rat \<Rightarrow> string) \<Rightarrow> (jsnum \<Rightarrow> string) \<Rightarrow> time_range \<Rightarrow> int \<Rightarrow> sim_asset list \<Rightarrow> sim_finding list
    \<Rightarrow> control_result list \<Rightarrow> trend_point list \<Rightarrow> heat_cell list \<Rightarrow> dashboard" where
  "build_view fmt loc tr now assets findings controls trend heat =
     (let opened = filter (\<lambda>f. sf_status f = Open) findings;
          frameworks = sim_frameworks controls;
          t = sim_totals now ACCOUNT_DEFS assets findings
      in \<lparr>dv_dataMode = Demo,
          dv_environmentLabel = ''Enterprise simulation '' @ mid_dot @ '' North Atlantic Financial Group'',
          dv_posture = sim_posture assets opened controls,
          dv_complianceAvg = compliance_avg (js_sum (map fr_score frameworks)) (length frameworks),
          dv_totals = t,
          dv_accounts = ACCOUNT_DEFS, dv_assets = assets, dv_findings = findings, dv_openFindings = opened,
          dv_frameworks = map (\<lambda>r. \<lparr>fv_result = r, fv_score = JNum (fr_score r)\<rparr>) frameworks,
          dv_postureTrend = map trend_json trend,
          dv_heatmap = heat,
          dv_providerData = provider_data ACCOUNT_DEFS,
          dv_algorithmData = algorithm_data, dv_riskData = risk_data assets,
          dv_scans = sim_scans fmt now, dv_feed = sim_feed fmt now opened,
          dv_threatMetrics = sim_threats fmt t,
          dv_liveScanMetrics = sim_metrics fmt loc t,
          dv_industryBenchmarks = map (\<lambda>b. (ia_label b, num_string fmt (ia_percent b) @ ''%'', ia_provenance b))
            INDUSTRY_INITIAL_ACCESS,
          dv_provenance = [(''environment'', prov_simulation), (''posture'', prov_calculated),
            (''findings'', prov_simulation), (''cves'', prov_cisaKev), (''benchmarks'', prov_gcthH1_2025)]\<rparr>)"

text \<open>One run of the generator, from its seed, makes everything; \<open>Inl\<close> if building it throws.\<close>

definition simulation_run ::
  "(rat \<Rightarrow> string) \<Rightarrow> (jsnum \<Rightarrow> string) \<Rightarrow> time_range \<Rightarrow> int \<Rightarrow> (unit + dashboard) random" where
  "simulation_run fmt loc tr now = do {
     assets \<leftarrow> buildAssets ACCOUNT_DEFS;
     findings \<leftarrow> buildFindings fmt now assets;
     controls \<leftarrow> buildControls findings;
     let opened = filter (\<lambda>f. sf_status f = Open) findings;
     trend \<leftarrow> buildTrend (sb_score (sim_posture assets opened controls)) (cp_findingsOpen COMPOSITION) tr;
     State_Monad.return
       (case buildHeatmap findings tr now of
          Inl e \<Rightarrow> Inl e
        | Inr heat \<Rightarrow> Inr (build_view fmt loc tr now assets findings controls trend heat))
   }"

definition simulate ::
  "(rat \<Rightarrow> string) \<Rightarrow> (jsnum \<Rightarrow> string) \<Rightarrow> time_range \<Rightarrow> int \<Rightarrow> unit + dashboard" where
  "simulate fmt loc tr now = fst (run_state (simulation_run fmt loc tr now) (mulberry_seed SIM_SEED))"

section \<open>The cache\<close>

type_synonym sim_cache = "(string \<times> dashboard) option"

definition cache_key :: "(rat \<Rightarrow> string) \<Rightarrow> time_range \<Rightarrow> int \<Rightarrow> string" where
  "cache_key fmt tr now = range_str tr @ ''|'' @ num_string fmt (js_floor (js_div (num now) (num 60000)))"

definition getEnterpriseSimulation ::
  "(rat \<Rightarrow> string) \<Rightarrow> (jsnum \<Rightarrow> string) \<Rightarrow> time_range option \<Rightarrow> int \<Rightarrow> sim_cache \<Rightarrow> (unit + dashboard) \<times> sim_cache" where
  "getEnterpriseSimulation fmt loc opts now cache =
     (let tr = nullish opts Days7; key = cache_key fmt tr now;
          fresh = (case simulate fmt loc tr now of Inl e \<Rightarrow> (Inl e, cache) | Inr vm \<Rightarrow> (Inr vm, Some (key, vm)))
      in case cache of
           Some (k, vm) \<Rightarrow> (if k = key then (Inr vm, cache) else fresh)
         | None \<Rightarrow> fresh)"

section \<open>Summaries\<close>

definition lower_providers :: "dashboard \<Rightarrow> (string \<times> jval) list" where
  "lower_providers sim = map (\<lambda>(name, v). (str_lower name, v)) (dv_providerData sim)"

definition nums_json :: "severity_nums \<Rightarrow> jval" where
  "nums_json s = JObj [(''critical'', JNum (sn_critical s)), (''high'', JNum (sn_high s)),
     (''medium'', JNum (sn_medium s)), (''low'', JNum (sn_low s))]"

definition simulationInventorySummary :: "int \<Rightarrow> dashboard \<Rightarrow> jval" where
  "simulationInventorySummary clock sim =
     (let n = (\<lambda>k. JNum (num (int k)))
      in JObj [
        (''total_assets'', JNum (to_assets (dv_totals sim))),
        (''compliance_score'', JNum (sb_score (dv_posture sim))),
        (''by_category'', JObj [
          (''cryptographic'', n (cp_secrets COMPOSITION)), (''compute'', n (cp_vms COMPOSITION)),
          (''containers'', n (cp_containers COMPOSITION)), (''storage'', n (cp_storage COMPOSITION)),
          (''databases'', n (cp_databases COMPOSITION)), (''identity'', n (cp_identities COMPOSITION))]),
        (''by_cloud_provider'', JObj (lower_providers sim)),
        (''quantum_safe_count'', JNum (pq_quantumSafe (to_pqc (dv_totals sim)))),
        (''non_quantum_safe'', JNum (pq_vulnerable (to_pqc (dv_totals sim)))),
        (''vulnerable_assets'', n (to_criticalAssets (dv_totals sim))),
        (''last_scan_time'', JStr (iso_string (num clock))),
        (''source'', JStr ''enterprise_simulation''),
        (''data_kind'', JStr ''demo'')])"

definition simulationCloudSummary :: "dashboard \<Rightarrow> jval" where
  "simulationCloudSummary sim =
     JObj [
       (''total_resources'', JNum (to_assets (dv_totals sim))),
       (''by_provider'', JObj (lower_providers sim)),
       (''security_findings'', nums_json (to_open (dv_totals sim))),
       (''scan_coverage'', JNum (to_scanCoverage (dv_totals sim))),
       (''scans_today'', JNum (to_scansToday (dv_totals sim))),
       (''active_threats'', JNum (num (int (to_kevOpen (dv_totals sim))))),
       (''data_kind'', JStr ''demo''),
       (''source'', JStr ''enterprise_simulation'')]"

end
