(* ===== verification/Dashboard_Adapter.thy ===== *)
theory Dashboard_Adapter
  imports Simulation_View Contracts
begin

text \<open>
  web/src/data/enterprise/adapter.ts: the dashboard made of what the APIs answer, or of the simulation
  when they bring no live telemetry.  Every answer is an arbitrary JavaScript value; reading a member
  of a null list element throws (\<open>Inl\<close>).  Without telemetry the accents are written into the cached
  simulation itself, which the model keeps track of.
\<close>

section \<open>API answers\<close>

record api_bundle =
  ab_summary :: jval
  ab_assets :: "jval list option"
  ab_resources :: jval
  ab_events :: jval
  ab_compliance :: jval
  ab_cspm :: jval
  ab_analytics :: jval
  ab_benchmarks :: jval
  ab_timeRange :: "time_range option"

definition bundle_assets :: "api_bundle \<Rightarrow> jval list" where
  "bundle_assets api = nullish (ab_assets api) []"

definition exceeds :: "(rat \<Rightarrow> string) \<Rightarrow> jval \<Rightarrow> int \<Rightarrow> bool" where
  "exceeds fmt v n = js_lt (num n) (js_number fmt v)"

definition telemetry_source :: "(rat \<Rightarrow> string) \<Rightarrow> api_bundle \<Rightarrow> string" where
  "telemetry_source fmt api =
     js_string fmt (js_or (js_or (js_prop (ab_summary api) ''source'') (js_prop (ab_resources api) ''source'')) (JStr []))"

definition hasLiveTelemetry :: "(rat \<Rightarrow> string) \<Rightarrow> api_bundle \<Rightarrow> bool" where
  "hasLiveTelemetry fmt api =
     (let source = telemetry_source fmt api
      in if source = ''enterprise_simulation'' \<or> source = ''demo''
            \<or> js_truthy (js_prop (ab_summary api) ''demo_mode'')
            \<or> js_truthy (js_prop (ab_resources api) ''demo_mode'') then False
         else if source = ''cbom_scans'' \<and> exceeds fmt (js_prop (ab_summary api) ''total_assets'') 0 then True
         else if 12 < length (bundle_assets api) then True
         else if exceeds fmt (js_prop (ab_resources api) ''total_resources'') 250
                 \<and> js_truthy (js_prop (ab_resources api) ''security_findings'') then True
         else if js_truthy (js_prop (ab_cspm api) ''health_score'')
                 \<and> exceeds fmt (js_prop (ab_summary api) ''total_assets'') 20 then True
         else False)"

section \<open>Accents\<close>

definition SEVERITY_HIGH :: string where "SEVERITY_HIGH = ''#f97316''"

definition CHART_LIVE :: string where "CHART_LIVE = ''#38bdf8''"

definition BLUE_TEXT_PRIMARY :: string where "BLUE_TEXT_PRIMARY = ''#ffffff''"

definition BLUE_ACCENT_LIGHT :: string where "BLUE_ACCENT_LIGHT = ''#a78bfa''"

text \<open>\<open>Number(String(v).replace(/[^\d.]/g, ''))\<close> unless \<open>v\<close> is a number.\<close>

fun metric_number :: "(rat \<Rightarrow> string) \<Rightarrow> jval \<Rightarrow> jsnum" where
  "metric_number fmt (JNum n) = n"
| "metric_number fmt v = str_number (filter (\<lambda>c. is_digit c \<or> c = CHR ''.'') (js_string fmt v))"

definition accent_of :: "(rat \<Rightarrow> string) \<Rightarrow> scan_metric \<Rightarrow> scan_metric" where
  "accent_of fmt m =
     (if sm_id m = ''active'' then m\<lparr>sm_accent := Some CHART_LIVE\<rparr>
      else if sm_id m = ''findings'' then
        m\<lparr>sm_accent := Some (if js_lt (num 20) (metric_number fmt (sm_value m)) then SEVERITY_HIGH else BLUE_TEXT_PRIMARY)\<rparr>
      else if sm_id m = ''coverage'' then m\<lparr>sm_accent := Some BLUE_ACCENT_LIGHT\<rparr>
      else m)"

definition attachScanAccents :: "(rat \<Rightarrow> string) \<Rightarrow> dashboard \<Rightarrow> dashboard" where
  "attachScanAccents fmt vm = vm\<lparr>dv_liveScanMetrics := map (accent_of fmt) (dv_liveScanMetrics vm)\<rparr>"

section \<open>The live dashboard\<close>

text \<open>\<open>a + b\<close> on values: concatenation when either side is a string or an object.\<close>

fun to_prim :: "(rat \<Rightarrow> string) \<Rightarrow> jval \<Rightarrow> jval" where
  "to_prim fmt (JArr vs) = JStr (js_string fmt (JArr vs))"
| "to_prim fmt (JObj fs) = JStr (js_string fmt (JObj fs))"
| "to_prim fmt v = v"

fun is_text :: "jval \<Rightarrow> bool" where
  "is_text (JStr _) = True"
| "is_text _ = False"

definition js_plus :: "(rat \<Rightarrow> string) \<Rightarrow> jval \<Rightarrow> jval \<Rightarrow> jval" where
  "js_plus fmt a b =
     (let p = to_prim fmt a; q = to_prim fmt b
      in if is_text p \<or> is_text q then JStr (js_string fmt p @ js_string fmt q)
         else JNum (js_add (js_number fmt p) (js_number fmt q)))"

text \<open>\<open>dashboards.find(...)\<close>: \<open>Inl\<close> when it meets null before a match.\<close>

fun find_dashboard :: "(rat \<Rightarrow> string) \<Rightarrow> string \<Rightarrow> jval list \<Rightarrow> unit + jval option" where
  "find_dashboard fmt i [] = Inr None"
| "find_dashboard fmt i (d # ds) =
     (if \<not> not_null d then Inl ()
      else if str_includes (str_lower (js_string fmt
             (js_or (js_or (js_or (js_prop d ''framework'') (js_prop d ''id'')) (js_prop d ''name'')) (JStr [])))) i
      then Inr (Some d) else find_dashboard fmt i ds)"

definition live_framework :: "(rat \<Rightarrow> string) \<Rightarrow> jval list \<Rightarrow> framework_view \<Rightarrow> framework_view" where
  "live_framework fmt ds fw =
     (case find_dashboard fmt (fr_id (fv_result fw)) ds of
        Inr (Some m) \<Rightarrow>
          fw\<lparr>fv_score := js_coalesce (js_coalesce (js_prop m ''score'') (js_prop m ''compliance_score'')) (fv_score fw)\<rparr>
      | _ \<Rightarrow> fw)"

definition live_trend :: "jsnum \<Rightarrow> jval \<Rightarrow> trend_view" where
  "live_trend findingsOpen p =
     \<lparr>tv_label = js_or (js_prop p ''label'') (js_prop p ''date''),
      tv_score = js_coalesce (js_prop p ''score'') (js_prop p ''value''),
      tv_findings = js_coalesce (js_prop p ''findings'') (JNum findingsOpen),
      tv_scans = js_coalesce (js_prop p ''scans'') (JNum (num 3))\<rparr>"

definition live_event :: "nat \<Rightarrow> jval \<Rightarrow> feed_entry" where
  "live_event i e =
     \<lparr>fe_time = js_or (js_prop e ''created_at'') (JStr ''now''),
      fe_severity = js_or (js_prop e ''severity'') (JStr ''low''),
      fe_message = js_or (js_or (js_prop e ''message'') (js_prop e ''description'')) (JStr []),
      fe_findingId = js_or (js_prop e ''id'') (JStr (''live-'' @ nat_str i))\<rparr>"

text \<open>The counts of the API, and the totals they replace.\<close>

definition live_counts :: "(rat \<Rightarrow> string) \<Rightarrow> api_bundle \<Rightarrow> dashboard \<Rightarrow> severity_nums" where
  "live_counts fmt api sim =
     (let findings = js_or (js_prop (ab_resources api) ''security_findings'') (nums_json (to_open (dv_totals sim)));
          get = (\<lambda>k. js_number fmt (js_coalesce (js_prop findings k) (JNum (num 0))))
      in \<lparr>sn_critical = get ''critical'', sn_high = get ''high'', sn_medium = get ''medium'', sn_low = get ''low''\<rparr>)"

definition live_assets :: "(rat \<Rightarrow> string) \<Rightarrow> api_bundle \<Rightarrow> jsnum" where
  "live_assets fmt api = js_number fmt
     (js_coalesce (js_coalesce (js_prop (ab_resources api) ''total_resources'') (js_prop (ab_summary api) ''total_assets''))
        (JNum (num (int (length (bundle_assets api))))))"

definition live_posture :: "(rat \<Rightarrow> string) \<Rightarrow> api_bundle \<Rightarrow> dashboard \<Rightarrow> score_breakdown" where
  "live_posture fmt api sim =
     (let assets = bundle_assets api; total_assets = live_assets fmt api; counts = live_counts fmt api sim
      in calculatePostureScore
        \<lparr>pi_assets = (if truthy_num total_assets then total_assets else num 1),
         pi_openCritical = sn_critical counts,
         pi_openHigh = sn_high counts,
         pi_exposed = js_number fmt (js_coalesce (js_prop (ab_cspm api) ''at_risk_data'')
           (JNum (js_round (js_mul total_assets (lit (2 / 100)))))),
         pi_kevOpen = js_number fmt (js_coalesce (js_prop (ab_resources api) ''active_threats'') (JNum (num 0))),
         pi_failedCriticalControls = num 0,
         pi_quantumUnsafeShare =
           (if assets \<noteq> []
            then js_div (num (int (count_if (\<lambda>a. \<not> js_truthy (js_or (js_prop a ''quantum_safe'') (js_prop a ''quantumSafe''))) assets)))
                        (num (int (length assets)))
            else lit (3 / 10))\<rparr>)"

definition live_totals :: "(rat \<Rightarrow> string) \<Rightarrow> api_bundle \<Rightarrow> dashboard \<Rightarrow> totals" where
  "live_totals fmt api sim =
     (let c = live_counts fmt api sim
      in (dv_totals sim)
        \<lparr>to_assets := live_assets fmt api, to_findings := c, to_open := c,
         to_findingsOpen := js_add (js_add (js_add (sn_critical c) (sn_high c)) (sn_medium c)) (sn_low c)\<rparr>)"

definition live_provenance :: "(string \<times> provenance) list \<Rightarrow> (string \<times> provenance) list" where
  "live_provenance ps =
     map (\<lambda>(k, p). (k, if k = ''environment'' then prov_live else if k = ''posture'' then prov_calculated else p)) ps"

definition live_providers :: "jval \<Rightarrow> dashboard \<Rightarrow> (string \<times> jval) list" where
  "live_providers by_provider sim =
     (if js_truthy by_provider \<and> own_entries by_provider \<noteq> []
      then map (\<lambda>(name, v). (if str_upper name = ''KUBERNETES'' then ''K8s'' else str_upper name, v)) (own_entries by_provider)
      else dv_providerData sim)"

definition nonempty_array :: "jval \<Rightarrow> jval list option" where
  "nonempty_array v = (case array_items v of Some (x # xs) \<Rightarrow> Some (x # xs) | _ \<Rightarrow> None)"

definition api_trend :: "api_bundle \<Rightarrow> jval" where
  "api_trend api = js_coalesce (js_prop (ab_analytics api) ''posture_trend'') (js_prop (ab_analytics api) ''trend'')"

definition api_events :: "api_bundle \<Rightarrow> jval" where
  "api_events api = js_prop (ab_events api) ''events''"

text \<open>Where building the live dashboard throws.\<close>

definition live_throws :: "(rat \<Rightarrow> string) \<Rightarrow> api_bundle \<Rightarrow> dashboard \<Rightarrow> bool" where
  "live_throws fmt api sim \<longleftrightarrow>
     \<not> list_all not_null (bundle_assets api)
     \<or> (case nonempty_array (js_prop (ab_compliance api) ''dashboards'') of
          None \<Rightarrow> False
        | Some ds \<Rightarrow> list_ex (\<lambda>fw. find_dashboard fmt (fr_id (fv_result fw)) ds = Inl ()) (dv_frameworks sim))
     \<or> (case nonempty_array (api_trend api) of None \<Rightarrow> False | Some ps \<Rightarrow> \<not> list_all not_null ps)
     \<or> (js_truthy (js_length (api_events api))
        \<and> (case array_items (api_events api) of None \<Rightarrow> True | Some es \<Rightarrow> \<not> list_all not_null (take 8 es)))"

definition live_metrics ::
  "(rat \<Rightarrow> string) \<Rightarrow> (jsnum \<Rightarrow> string) \<Rightarrow> api_bundle \<Rightarrow> totals \<Rightarrow> scan_row list \<Rightarrow> scan_metric list" where
  "live_metrics fmt loc api t scans =
     [(metric ''active'' ''Active Scans'' (JNum (num (int (count_if (\<lambda>s. sr_status s = ScanRunning) scans))))
         (''CBOM '' @ mid_dot @ '' TLS '' @ mid_dot @ '' cloud''))\<lparr>sm_live := Some True\<rparr>,
      metric ''completed'' ''Completed (24h)''
        (js_coalesce (js_prop (ab_benchmarks api) ''scans_today'') (JNum (to_scansToday t))) ''Across connected environments'',
      metric ''findings'' ''Open findings'' (JNum (to_findingsOpen t))
        (num_string fmt (sn_critical (to_open t)) @ '' critical '' @ mid_dot @ '' ''
           @ num_string fmt (sn_high (to_open t)) @ '' high''),
      metric ''coverage'' ''Scan Coverage''
        (JStr (js_string fmt (js_coalesce (js_prop (ab_cspm api) ''scan_coverage'') (JNum (to_scanCoverage t))) @ ''%''))
        ''Assets monitored'',
      metric ''targets'' ''Cloud assets'' (JStr (loc (live_assets fmt api))) ''Connected accounts'',
      metric ''latency'' ''Avg Scan Time''
        (JStr (js_string fmt (js_coalesce (js_prop (ab_benchmarks api) ''scan_time_seconds'') (JNum (to_avgScanSeconds t))) @ ''s''))
        ''Per job'']"

definition live_frameworks ::
  "(rat \<Rightarrow> string) \<Rightarrow> api_bundle \<Rightarrow> dashboard \<Rightarrow> framework_view list \<times> jsnum" where
  "live_frameworks fmt api sim =
     (case nonempty_array (js_prop (ab_compliance api) ''dashboards'') of
        None \<Rightarrow> (dv_frameworks sim, dv_complianceAvg sim)
      | Some ds \<Rightarrow>
          (let fws = map (live_framework fmt ds) (dv_frameworks sim)
           in (fws, compliance_avg (js_number fmt (foldl (js_plus fmt) (JNum (num 0)) (map fv_score fws))) (length fws))))"

definition live_view ::
  "(rat \<Rightarrow> string) \<Rightarrow> (jsnum \<Rightarrow> string) \<Rightarrow> api_bundle \<Rightarrow> dashboard \<Rightarrow> dashboard" where
  "live_view fmt loc api sim =
     (let t = live_totals fmt api sim
      in sim\<lparr>dv_dataMode := Live,
             dv_environmentLabel := ''Connected environment'',
             dv_posture := live_posture fmt api sim,
             dv_totals := t,
             dv_provenance := live_provenance (dv_provenance sim),
             dv_providerData := live_providers (js_prop (ab_resources api) ''by_provider'') sim,
             dv_frameworks := fst (live_frameworks fmt api sim),
             dv_complianceAvg := snd (live_frameworks fmt api sim),
             dv_postureTrend := (case nonempty_array (api_trend api) of
                 None \<Rightarrow> dv_postureTrend sim | Some ps \<Rightarrow> map (live_trend (to_findingsOpen t)) ps),
             dv_feed := (case array_items (api_events api) of
                 Some (e # es) \<Rightarrow> map (\<lambda>(i, e). live_event i e) (indexed (take 8 (e # es))) | _ \<Rightarrow> dv_feed sim),
             dv_liveScanMetrics := live_metrics fmt loc api t (dv_scans sim)\<rparr>)"

definition buildDashboardViewModel ::
  "(rat \<Rightarrow> string) \<Rightarrow> (jsnum \<Rightarrow> string) \<Rightarrow> api_bundle \<Rightarrow> int \<Rightarrow> sim_cache \<Rightarrow> (unit + dashboard) \<times> sim_cache" where
  "buildDashboardViewModel fmt loc api now cache =
     (let tr = nullish (ab_timeRange api) Days7
      in case getEnterpriseSimulation fmt loc (Some tr) now cache of
           (Inl e, c) \<Rightarrow> (Inl e, c)
         | (Inr sim, c) \<Rightarrow>
             (if \<not> hasLiveTelemetry fmt api then
                (let vm = attachScanAccents fmt sim in (Inr vm, map_option (\<lambda>(k, _). (k, vm)) c))
              else if live_throws fmt api sim then (Inl (), c)
              else (Inr (attachScanAccents fmt (live_view fmt loc api sim)), c)))"

section \<open>The simulation returns\<close>

lemma simulate_total:
  assumes "clock_ok now"
  obtains assets findings controls trend heat where
    "simulate fmt loc tr now = Inr (build_view fmt loc tr now assets findings controls trend heat)"
    "length assets = 3 * length ACCOUNT_DEFS"
proof -
  define s0 where "s0 = mulberry_seed SIM_SEED"
  define assets where "assets = fst (run_state (buildAssets ACCOUNT_DEFS) s0)"
  define s1 where "s1 = snd (run_state (buildAssets ACCOUNT_DEFS) s0)"
  define findings where "findings = fst (run_state (buildFindings fmt now assets) s1)"
  define s2 where "s2 = snd (run_state (buildFindings fmt now assets) s1)"
  define controls where "controls = fst (run_state (buildControls findings) s2)"
  define s3 where "s3 = snd (run_state (buildControls findings) s2)"
  have "length assets = 3 * length ACCOUNT_DEFS"
    using always_run [OF buildAssets_shape, of ACCOUNT_DEFS s0] unfolding assets_def by (metis (no_types, lifting) asset_ids_length length_map)
  note len = this
  then have "assets \<noteq> []" by (auto simp: accounts_length)
  from always_run [OF buildFindings_ok [OF assms this], of fmt s1]
  have "\<forall>f \<in> set findings. \<exists>n p. f = push_finding now n p \<and> finding_ok now assets p" by (simp add: findings_def)
  then have "\<forall>f \<in> set findings. dated f" by (metis finding_ok_push simulated_dated [OF assms])
  moreover have "0 \<le> now" "now < date_max" using assms by (simp_all add: clock_ok_def)
  ultimately obtain heat where "buildHeatmap findings tr now = Inr heat" using buildHeatmap_ok by blast
  then show ?thesis
    using that [of assets, OF _ len]
    by (simp add: simulate_def simulation_run_def s0_def [symmetric] bind_def case_prod_beta'
        assets_def [symmetric] s1_def [symmetric] findings_def [symmetric] s2_def [symmetric]
        controls_def [symmetric] s3_def [symmetric])
qed

section \<open>The cache\<close>

text \<open>The minute of a clock reading: the quotient the key is made of is exact although the division
  is rounded.\<close>

lemma minute_floor:
  assumes "clock_ok now"
  shows "js_floor (js_div (num now) (num 60000)) = num (now div 60000)"
proof -
  let ?k = "now div 60000" and ?x = "of_int now / (60000 :: rat)"
  have now: "0 \<le> now" "now < date_max" using assms by (simp_all add: clock_ok_def)
  have k: "0 \<le> ?k" "?k \<le> 5000000000" using now by (simp_all add: date_max_def)
  have "now = 60000 * ?k + now mod 60000" "0 \<le> now mod 60000" "now mod 60000 \<le> 59999" by simp_all
  then have "?k * 60000 \<le> now" "now * 65536 \<le> 60000 * ((?k + 1) * 65536 - 1)" by (simp_all only: algebra_simps)
  then have "(of_int (?k * 60000) :: rat) \<le> of_int now"
    "(of_int (now * 65536) :: rat) \<le> of_int (60000 * ((?k + 1) * 65536 - 1))" by (simp_all only: of_int_le_iff)
  then have x: "of_int ?k \<le> ?x" "?x \<le> of_int ((?k + 1) * 65536 - 1) / 2 ^ 16" by simp_all
  have "to_num (of_int ((?k + 1) * 65536 - 1) / 2 ^ 16) = Fin (of_int ((?k + 1) * 65536 - 1) / 2 ^ 16)"
    using k by (intro to_num_dyadic) simp_all
  moreover have "to_num (of_int ?k) = num ?k" using k by (intro to_num_of_int) simp
  ultimately have "js_le (num ?k) (to_num ?x)" "js_le (to_num ?x) (Fin (of_int ((?k + 1) * 65536 - 1) / 2 ^ 16))"
    using to_num_mono [OF x(1)] to_num_mono [OF x(2)] by simp_all
  then obtain y where y: "to_num ?x = Fin y" "of_int ?k \<le> y" "y \<le> of_int ((?k + 1) * 65536 - 1) / 2 ^ 16"
    by (cases "to_num ?x") auto
  have "\<lfloor>y\<rfloor> = ?k" using y(2,3) by (intro floor_unique) simp_all
  then show ?thesis using y(1) by simp
qed

lemma key_inj:
  assumes "cache_key fmt tr now = cache_key fmt tr' now'" "clock_ok now" "clock_ok now'"
  shows "tr = tr' \<and> now div 60000 = now' div 60000"
proof -
  have "0 \<le> now div 60000 \<and> now div 60000 < 10 ^ 21" if "clock_ok now" for now
  proof -
    have "0 \<le> now" "now < date_max" using that by (simp_all add: clock_ok_def)
    then have "now div 60000 \<le> now" by (simp add: int_div_less_self order_less_imp_le zdiv_mono2 [of now 1 60000, simplified])
    with \<open>0 \<le> now\<close> \<open>now < date_max\<close> show ?thesis by (simp add: date_max_def)
  qed
  note q = this
  have s: "num_string fmt (num (now div 60000)) = nat_str (nat (now div 60000))" if "clock_ok now" for now
    using q [OF that] by (simp add: of_int_less_iff [of _ "10 ^ 21", simplified])
  show ?thesis
    using assms unfolding cache_key_def minute_floor [OF assms(2)] minute_floor [OF assms(3)] s [OF assms(2)] s [OF assms(3)]
    by (cases tr; cases tr') (auto simp: clock_ok_def)
qed

lemma accent_of_idem [simp]: "accent_of fmt (accent_of fmt m) = accent_of fmt m"
  by (simp add: accent_of_def)

interpretation accents: normaliser "attachScanAccents fmt" for fmt
  by unfold_locales (simp add: attachScanAccents_def comp_def)

definition adapter_step ::
  "(rat \<Rightarrow> string) \<Rightarrow> (jsnum \<Rightarrow> string) \<Rightarrow> sim_cache \<Rightarrow> api_bundle \<times> int \<Rightarrow> sim_cache" where
  "adapter_step fmt loc c e = snd (buildDashboardViewModel fmt loc (fst e) (snd e) c)"

definition cache_ok :: "(rat \<Rightarrow> string) \<Rightarrow> (jsnum \<Rightarrow> string) \<Rightarrow> sim_cache \<Rightarrow> bool" where
  "cache_ok fmt loc c \<longleftrightarrow>
     (\<forall>k vm. c = Some (k, vm) \<longrightarrow>
       (\<exists>tr now vm0. clock_ok now \<and> k = cache_key fmt tr now \<and> simulate fmt loc tr now = Inr vm0
          \<and> (vm = vm0 \<or> vm = attachScanAccents fmt vm0)))"

text \<open>What a request finds, whatever the cache holds.\<close>

lemma simulation_found:
  assumes "cache_ok fmt loc c" "clock_ok now"
  obtains now' vm0 vm where "clock_ok now'" "now' div 60000 = now div 60000" "simulate fmt loc tr now' = Inr vm0"
    "vm = vm0 \<or> vm = attachScanAccents fmt vm0"
    "getEnterpriseSimulation fmt loc (Some tr) now c = (Inr vm, Some (cache_key fmt tr now', vm))"
proof (cases "\<exists>vm. c = Some (cache_key fmt tr now, vm)")
  case True
  then obtain vm where c: "c = Some (cache_key fmt tr now, vm)" by blast
  with assms(1) obtain tr' now' vm0 where n: "clock_ok now'" "cache_key fmt tr now = cache_key fmt tr' now'"
    "simulate fmt loc tr' now' = Inr vm0" "vm = vm0 \<or> vm = attachScanAccents fmt vm0"
    by (auto simp: cache_ok_def)
  with key_inj [OF n(2) assms(2) n(1)] c show ?thesis
    by (intro that [of now' vm0 vm]) (simp_all add: getEnterpriseSimulation_def)
next
  case False
  obtain vm where vm: "simulate fmt loc tr now = Inr vm" using simulate_total [OF assms(2)] by blast
  have "getEnterpriseSimulation fmt loc (Some tr) now c = (Inr vm, Some (cache_key fmt tr now, vm))"
    using False vm by (auto simp: getEnterpriseSimulation_def Let_def split: option.splits)
  with vm assms(2) show ?thesis by (intro that [of now vm vm]) simp_all
qed

interpretation adapter: guarded_machine "adapter_step fmt loc" "\<lambda>e. clock_ok (snd e)" "cache_ok fmt loc" for fmt loc
proof
  fix c and e :: "api_bundle \<times> int"
  assume c: "cache_ok fmt loc c" and e: "clock_ok (snd e)"
  obtain now' vm0 vm where f: "clock_ok now'" "simulate fmt loc (nullish (ab_timeRange (fst e)) Days7) now' = Inr vm0"
    "vm = vm0 \<or> vm = attachScanAccents fmt vm0"
    "getEnterpriseSimulation fmt loc (Some (nullish (ab_timeRange (fst e)) Days7)) (snd e) c
      = (Inr vm, Some (cache_key fmt (nullish (ab_timeRange (fst e)) Days7) now', vm))"
    using simulation_found [OF c e] by metis
  then have "attachScanAccents fmt vm = attachScanAccents fmt vm0" by (auto simp: accents.idem)
  with f show "cache_ok fmt loc (adapter_step fmt loc c e)"
    by (auto simp: adapter_step_def buildDashboardViewModel_def cache_ok_def Let_def)
qed

lemma reachable_cache:
  "list_all (\<lambda>e. clock_ok (snd e)) es \<Longrightarrow> cache_ok fmt loc (run (adapter_step fmt loc) None es)"
  by (rule adapter.inv_after) (simp_all add: cache_ok_def)

lemma posture_ranged: "ranged 34 100 (sb_score (calculatePostureScore p))"
  by (rule posture_range [of p]) (auto intro: rangedI)

lemma simulated_mode:
  assumes "simulate fmt loc tr now = Inr vm" "clock_ok now"
  shows "dv_dataMode vm = Demo" "ranged 34 100 (sb_score (dv_posture vm))"
    "dv_provenance vm = [(''environment'', prov_simulation), (''posture'', prov_calculated),
      (''findings'', prov_simulation), (''cves'', prov_cisaKev), (''benchmarks'', prov_gcthH1_2025)]"
proof -
  obtain assets findings controls trend heat where
    v: "vm = build_view fmt loc tr now assets findings controls trend heat"
    using simulate_total [OF assms(2), of fmt loc tr] assms(1) by (metis sum.inject(2))
  show "dv_dataMode vm = Demo" "dv_provenance vm = [(''environment'', prov_simulation), (''posture'', prov_calculated),
      (''findings'', prov_simulation), (''cves'', prov_cisaKev), (''benchmarks'', prov_gcthH1_2025)]"
    unfolding v by (simp_all add: build_view_def Let_def)
  show "ranged 34 100 (sb_score (dv_posture vm))"
    unfolding v by (simp add: build_view_def Let_def sim_posture_def posture_ranged)
qed

section \<open>Properties\<close>

definition adapter_after :: "(rat \<Rightarrow> string) \<Rightarrow> (jsnum \<Rightarrow> string) \<Rightarrow> (api_bundle \<times> int) list \<Rightarrow> sim_cache" where
  "adapter_after fmt loc es = run (adapter_step fmt loc) None es"

text \<open>C19: whatever was asked before, a dashboard without live telemetry is the simulation of the current
  minute and of the range it was asked for, with its accents, and says so: the cache, which the accents
  are written into, cannot be told from computing the simulation anew.\<close>

theorem dashboard_is_simulation:
  assumes "list_all (\<lambda>e. clock_ok (snd e)) earlier" "clock_ok now" "\<not> hasLiveTelemetry fmt api"
  shows "\<exists>now' vm. now' div 60000 = now div 60000
    \<and> simulate fmt loc (nullish (ab_timeRange api) Days7) now' = Inr vm
    \<and> fst (buildDashboardViewModel fmt loc api now (adapter_after fmt loc earlier)) = Inr (attachScanAccents fmt vm)
    \<and> dv_dataMode (attachScanAccents fmt vm) = Demo"
proof -
  obtain now' vm0 vm where f: "clock_ok now'" "now' div 60000 = now div 60000"
    "simulate fmt loc (nullish (ab_timeRange api) Days7) now' = Inr vm0" "vm = vm0 \<or> vm = attachScanAccents fmt vm0"
    "getEnterpriseSimulation fmt loc (Some (nullish (ab_timeRange api) Days7)) now (adapter_after fmt loc earlier)
      = (Inr vm, Some (cache_key fmt (nullish (ab_timeRange api) Days7) now', vm))"
    unfolding adapter_after_def by (rule simulation_found [OF reachable_cache [OF assms(1)] assms(2)])
  have "attachScanAccents fmt vm = attachScanAccents fmt vm0" using f(4) by (auto simp: accents.idem)
  with f(5) assms(3)
  have "fst (buildDashboardViewModel fmt loc api now (adapter_after fmt loc earlier)) = Inr (attachScanAccents fmt vm0)"
    by (simp add: buildDashboardViewModel_def Let_def)
  moreover have "dv_dataMode (attachScanAccents fmt vm0) = Demo"
    using simulated_mode(1) [OF f(3,1)] by (simp add: attachScanAccents_def)
  ultimately show ?thesis using f(2,3) by blast
qed

definition empty_bundle :: api_bundle where
  "empty_bundle =
     \<lparr>ab_summary = JUndef, ab_assets = None, ab_resources = JUndef, ab_events = JUndef, ab_compliance = JUndef,
      ab_cspm = JUndef, ab_analytics = JUndef, ab_benchmarks = JUndef, ab_timeRange = None\<rparr>"

lemma empty_not_live: "\<not> hasLiveTelemetry fmt empty_bundle"
  by (simp add: hasLiveTelemetry_def empty_bundle_def telemetry_source_def bundle_assets_def exceeds_def Let_def)

definition live_bundle :: api_bundle where
  "live_bundle = empty_bundle\<lparr>ab_summary := JObj [(''source'', JStr ''cbom_scans''), (''total_assets'', JNum (num 5))]\<rparr>"

lemma live_bundle_live: "hasLiveTelemetry fmt live_bundle"
  by (simp add: hasLiveTelemetry_def live_bundle_def empty_bundle_def telemetry_source_def exceeds_def Let_def js_or_def)

theorem dashboard_is_simulation_witness:
  "\<exists>now' vm. now' div 60000 = ex_now div 60000 \<and> simulate (\<lambda>_. []) (\<lambda>_. []) Days7 now' = Inr vm
    \<and> fst (buildDashboardViewModel (\<lambda>_. []) (\<lambda>_. []) empty_bundle ex_now
          (adapter_after (\<lambda>_. []) (\<lambda>_. []) [(live_bundle, ex_now)])) = Inr (attachScanAccents (\<lambda>_. []) vm)
    \<and> dv_dataMode (attachScanAccents (\<lambda>_. []) vm) = Demo"
  using dashboard_is_simulation [OF _ ex_clock empty_not_live, of "[(live_bundle, ex_now)]" "\<lambda>_. []" "\<lambda>_. []"]
  by (simp add: ex_clock empty_bundle_def)

text \<open>The dashboard is labelled live exactly when there is live telemetry, which an answer marked as
  a demo never is; building it throws only with live telemetry; and whatever the APIs answer, its
  posture score is a number from 34 to 100.\<close>

theorem dashboard_label:
  assumes "list_all (\<lambda>e. clock_ok (snd e)) earlier" "clock_ok now"
    and "r = fst (buildDashboardViewModel fmt loc api now (adapter_after fmt loc earlier))"
  shows "case r of
       Inl _ \<Rightarrow> hasLiveTelemetry fmt api
     | Inr vm \<Rightarrow> (dv_dataMode vm = Live \<longleftrightarrow> hasLiveTelemetry fmt api)
         \<and> (dv_dataMode vm = Live \<or> dv_dataMode vm = Demo)
         \<and> (js_truthy (js_prop (ab_summary api) ''demo_mode'') \<or> js_truthy (js_prop (ab_resources api) ''demo_mode'')
             \<or> telemetry_source fmt api \<in> {''enterprise_simulation'', ''demo''} \<longrightarrow> dv_dataMode vm = Demo)
         \<and> ranged 34 100 (sb_score (dv_posture vm))"
proof -
  obtain now' vm0 vm where f: "clock_ok now'" "simulate fmt loc (nullish (ab_timeRange api) Days7) now' = Inr vm0"
    "vm = vm0 \<or> vm = attachScanAccents fmt vm0"
    "getEnterpriseSimulation fmt loc (Some (nullish (ab_timeRange api) Days7)) now (adapter_after fmt loc earlier)
      = (Inr vm, Some (cache_key fmt (nullish (ab_timeRange api) Days7) now', vm))"
    unfolding adapter_after_def using simulation_found [OF reachable_cache [OF assms(1)] assms(2)] by metis
  have mode: "dv_dataMode (attachScanAccents fmt vm) = Demo"
    "ranged 34 100 (sb_score (dv_posture (attachScanAccents fmt vm)))"
    using simulated_mode(1,2) [OF f(2,1)] f(3) by (auto simp: attachScanAccents_def)
  have live: "dv_dataMode (attachScanAccents fmt (live_view fmt loc api vm)) = Live"
    "ranged 34 100 (sb_score (dv_posture (attachScanAccents fmt (live_view fmt loc api vm))))"
    by (simp_all add: attachScanAccents_def live_view_def Let_def live_posture_def posture_ranged)
  have demo: "\<not> hasLiveTelemetry fmt api"
    if "js_truthy (js_prop (ab_summary api) ''demo_mode'') \<or> js_truthy (js_prop (ab_resources api) ''demo_mode'')
      \<or> telemetry_source fmt api \<in> {''enterprise_simulation'', ''demo''}"
    using that by (auto simp: hasLiveTelemetry_def Let_def)
  have "r = (if \<not> hasLiveTelemetry fmt api then Inr (attachScanAccents fmt vm)
      else if live_throws fmt api vm then Inl () else Inr (attachScanAccents fmt (live_view fmt loc api vm)))"
    unfolding assms(3) by (simp add: buildDashboardViewModel_def Let_def f(4))
  with mode live demo show ?thesis by auto
qed

theorem dashboard_label_witness:
  "hasLiveTelemetry (\<lambda>_. []) live_bundle
   \<and> (case fst (buildDashboardViewModel (\<lambda>_. []) (\<lambda>_. []) live_bundle ex_now
         (adapter_after (\<lambda>_. []) (\<lambda>_. []) [(empty_bundle, ex_now)])) of
        Inl _ \<Rightarrow> True | Inr vm \<Rightarrow> dv_dataMode vm = Live)"
  using dashboard_label [where earlier = "[(empty_bundle, ex_now)]" and fmt = "\<lambda>_. []" and loc = "\<lambda>_. []"
      and api = live_bundle, OF _ ex_clock refl]
    live_bundle_live [of "\<lambda>_. []"]
  by (auto simp: ex_clock split: sum.splits)

text \<open>A dashboard labelled live still lists the simulated accounts, assets, findings, heat map, risk
  distribution, algorithms, scans and threat metrics, and labels its findings as simulated; only the
  figures of the header come from the APIs.\<close>

theorem live_keeps_simulation:
  assumes "list_all (\<lambda>e. clock_ok (snd e)) earlier" "clock_ok now" "hasLiveTelemetry fmt api"
    and "fst (buildDashboardViewModel fmt loc api now (adapter_after fmt loc earlier)) = Inr vm"
  shows "dv_dataMode vm = Live \<and> dv_environmentLabel vm = ''Connected environment''
    \<and> map_of (dv_provenance vm) ''environment'' = Some prov_live
    \<and> map_of (dv_provenance vm) ''findings'' = Some prov_simulation
    \<and> to_open (dv_totals vm) = to_findings (dv_totals vm)
    \<and> (\<exists>now' sim. now' div 60000 = now div 60000
         \<and> simulate fmt loc (nullish (ab_timeRange api) Days7) now' = Inr sim
         \<and> dv_accounts vm = dv_accounts sim \<and> dv_assets vm = dv_assets sim \<and> dv_findings vm = dv_findings sim
         \<and> dv_openFindings vm = dv_openFindings sim \<and> dv_heatmap vm = dv_heatmap sim
         \<and> dv_riskData vm = dv_riskData sim \<and> dv_algorithmData vm = dv_algorithmData sim
         \<and> dv_scans vm = dv_scans sim \<and> dv_threatMetrics vm = dv_threatMetrics sim)"
proof -
  obtain now' vm0 sim where f: "clock_ok now'" "now' div 60000 = now div 60000"
    "simulate fmt loc (nullish (ab_timeRange api) Days7) now' = Inr vm0" "sim = vm0 \<or> sim = attachScanAccents fmt vm0"
    "getEnterpriseSimulation fmt loc (Some (nullish (ab_timeRange api) Days7)) now (adapter_after fmt loc earlier)
      = (Inr sim, Some (cache_key fmt (nullish (ab_timeRange api) Days7) now', sim))"
    unfolding adapter_after_def by (rule simulation_found [OF reachable_cache [OF assms(1)] assms(2)])
  have vm: "vm = attachScanAccents fmt (live_view fmt loc api sim)"
    using assms(3,4) f(5) by (auto simp: buildDashboardViewModel_def Let_def split: if_splits)
  have prov: "dv_provenance vm0 = [(''environment'', prov_simulation), (''posture'', prov_calculated),
      (''findings'', prov_simulation), (''cves'', prov_cisaKev), (''benchmarks'', prov_gcthH1_2025)]"
    by (rule simulated_mode(3) [OF f(3,1)])
  have same: "dv_provenance sim = dv_provenance vm0" "dv_accounts sim = dv_accounts vm0" "dv_assets sim = dv_assets vm0"
    "dv_findings sim = dv_findings vm0" "dv_openFindings sim = dv_openFindings vm0" "dv_heatmap sim = dv_heatmap vm0"
    "dv_riskData sim = dv_riskData vm0" "dv_algorithmData sim = dv_algorithmData vm0" "dv_scans sim = dv_scans vm0"
    "dv_threatMetrics sim = dv_threatMetrics vm0"
    using f(4) by (auto simp: attachScanAccents_def)
  have "dv_provenance vm = live_provenance (dv_provenance sim)"
    unfolding vm by (simp add: attachScanAccents_def live_view_def Let_def)
  then have "map_of (dv_provenance vm) ''environment'' = Some prov_live"
    "map_of (dv_provenance vm) ''findings'' = Some prov_simulation"
    by (simp_all add: live_provenance_def same(1) prov)
  moreover have "to_open (dv_totals vm) = to_findings (dv_totals vm)"
    unfolding vm by (simp add: attachScanAccents_def live_view_def Let_def live_totals_def)
  moreover have "dv_dataMode vm = Live" "dv_environmentLabel vm = ''Connected environment''"
    "dv_accounts vm = dv_accounts vm0" "dv_assets vm = dv_assets vm0" "dv_findings vm = dv_findings vm0"
    "dv_openFindings vm = dv_openFindings vm0" "dv_heatmap vm = dv_heatmap vm0" "dv_riskData vm = dv_riskData vm0"
    "dv_algorithmData vm = dv_algorithmData vm0" "dv_scans vm = dv_scans vm0"
    "dv_threatMetrics vm = dv_threatMetrics vm0"
    unfolding vm by (simp_all add: attachScanAccents_def live_view_def Let_def same)
  ultimately show ?thesis using f(2,3) by blast
qed

lemma live_bundle_builds:
  "\<exists>vm. fst (buildDashboardViewModel (\<lambda>_. []) (\<lambda>_. []) live_bundle ex_now (adapter_after (\<lambda>_. []) (\<lambda>_. []) [])) = Inr vm"
proof -
  obtain now' vm0 sim where f: "getEnterpriseSimulation (\<lambda>_. []) (\<lambda>_. []) (Some Days7) ex_now (adapter_after (\<lambda>_. []) (\<lambda>_. []) [])
      = (Inr sim, Some (cache_key (\<lambda>_. []) Days7 now', sim))"
    unfolding adapter_after_def using simulation_found [OF reachable_cache [of "[]"] ex_clock] by (metis list.pred_inject(1))
  have "\<not> live_throws (\<lambda>_. []) live_bundle sim"
    by (simp add: live_throws_def live_bundle_def empty_bundle_def bundle_assets_def nonempty_array_def api_trend_def
        api_events_def)
  then show ?thesis
    using f live_bundle_live by (simp add: buildDashboardViewModel_def Let_def live_bundle_def empty_bundle_def)
qed

theorem live_keeps_simulation_witness:
  "\<exists>vm. fst (buildDashboardViewModel (\<lambda>_. []) (\<lambda>_. []) live_bundle ex_now (adapter_after (\<lambda>_. []) (\<lambda>_. []) [])) = Inr vm
     \<and> dv_dataMode vm = Live \<and> map_of (dv_provenance vm) ''findings'' = Some prov_simulation"
proof -
  obtain vm where vm: "fst (buildDashboardViewModel (\<lambda>_. []) (\<lambda>_. []) live_bundle ex_now
      (adapter_after (\<lambda>_. []) (\<lambda>_. []) [])) = Inr vm"
    using live_bundle_builds by blast
  from live_keeps_simulation [OF _ ex_clock live_bundle_live this] vm show ?thesis by simp
qed

text \<open>The resources the composition counts; identities and findings are not resources.\<close>

definition composition_resources :: "composition \<Rightarrow> nat" where
  "composition_resources c =
     cp_vms c + cp_containers c + cp_clusters c + cp_storage c + cp_databases c + cp_functions c
       + cp_network c + cp_secrets c + cp_queues c + cp_disks c"

text \<open>The simulated totals are those of the accounts and of the composition: the severities of the
  open findings add up to the open findings, open and resolved ones to all, and the accounts of the
  providers to the assets; the asset total is 400 more than the resources the composition lists.\<close>

theorem simulated_totals:
  assumes "clock_ok now" "simulate fmt loc tr now = Inr vm"
  shows "to_findingsOpen (dv_totals vm) = num (int (cp_findingsOpen COMPOSITION))
    \<and> sv_critical (cp_findingsOpenBySev COMPOSITION) + sv_high (cp_findingsOpenBySev COMPOSITION)
        + sv_medium (cp_findingsOpenBySev COMPOSITION) + sv_low (cp_findingsOpenBySev COMPOSITION)
        = cp_findingsOpen COMPOSITION
    \<and> cp_findingsOpen COMPOSITION + to_findingsResolved (dv_totals vm) = to_findingsTotal (dv_totals vm)
    \<and> to_open (dv_totals vm) = open_nums
    \<and> to_assets (dv_totals vm) = num 19142
    \<and> dv_providerData vm = [(''AWS'', JNum (num 11480)), (''Azure'', JNum (num 3880)), (''GCP'', JNum (num 3782))]
    \<and> composition_resources COMPOSITION = 18742
    \<and> length (dv_assets vm) = 72"
proof -
  obtain assets findings controls trend heat where
    v: "vm = build_view fmt loc tr now assets findings controls trend heat"
    "length assets = 3 * length ACCOUNT_DEFS"
    using simulate_total [OF assms(1), of fmt loc tr] assms(2) by (metis sum.inject(2))
  show ?thesis
    unfolding v(1) using v(2)
    by (simp add: build_view_def Let_def sim_totals_def COMPOSITION_def open_nums_def sum_of_def ACCOUNT_DEFS_def
        provider_data_def composition_resources_def)
qed

theorem simulated_totals_witness:
  "\<exists>vm. simulate (\<lambda>_. []) (\<lambda>_. []) Days30 ex_now = Inr vm \<and> to_assets (dv_totals vm) = num 19142"
  using simulate_total [OF ex_clock] simulated_totals [OF ex_clock] by metis

end
