(* ===== verification/Security_Modules.thy ===== *)
theory Security_Modules
  imports Prelude Js_Number
begin

text \<open>
  web/src/config/modules.ts: the security modules of the console.  The flagship modules are written out;
  the others are made from a seed, with figures derived from a hash of the module's name.
  \<open>loc\<close> is \<open>toLocaleString\<close>.  Making a module throws (\<open>None\<close>) when its seed lists no capability.
\<close>

section \<open>Types\<close>

datatype module_severity = MCritical | MHigh | MMedium | MLow

datatype module_status = MOpen | MInvestigating | MMonitoring | MMitigated

definition RIVICQ_300 :: string where "RIVICQ_300 = ''#c4b5fd''"
definition RIVICQ_400 :: string where "RIVICQ_400 = ''#a78bfa''"
definition RIVICQ_500 :: string where "RIVICQ_500 = ''#7c3aed''"
definition CRYPTO_CRITICAL :: string where "CRYPTO_CRITICAL = ''#ef4444''"
definition CRYPTO_HIGH :: string where "CRYPTO_HIGH = ''#f97316''"
definition CRYPTO_MEDIUM :: string where "CRYPTO_MEDIUM = ''#eab308''"
definition CRYPTO_LOW :: string where "CRYPTO_LOW = ''#38bdf8''"
definition CRYPTO_INFO :: string where "CRYPTO_INFO = ''#38bdf8''"
definition CRYPTO_QUANTUM :: string where "CRYPTO_QUANTUM = ''#7c3aed''"
definition CRYPTO_CLASSIC :: string where "CRYPTO_CLASSIC = ''#9ca3af''"

record module_kpi =
  kp_label :: string
  kp_value :: string
  kp_delta :: "string option"
  kp_hint :: "string option"
  kp_color :: "string option"

record module_finding =
  mf_id :: string
  mf_title :: string
  mf_ref :: string
  mf_severity :: module_severity
  mf_status :: module_status
  mf_scope :: string

section \<open>Categories\<close>

datatype category =
  CatCloudSecurity
| CatIdentitySecurity
| CatQuantumSecurity
| CatSupplyChain
| CatAISecurity
| CatAPISecurity
| CatApplicationSecurity
| CatRuntimeSecurity
| CatNetworkSecurity
| CatDataSecurity
| CatThreatIntelligence
| CatDetectionEngineering
| CatVulnerabilityManagement
| CatIncidentResponse
| CatDigitalForensics
| CatRedTeam
| CatCompliance
| CatEnterpriseAnalytics

fun category_name :: "category \<Rightarrow> string" where
  "category_name CatCloudSecurity = ''Cloud Security''"
| "category_name CatIdentitySecurity = ''Identity Security''"
| "category_name CatQuantumSecurity = ''Quantum Security''"
| "category_name CatSupplyChain = ''Supply Chain''"
| "category_name CatAISecurity = ''AI Security''"
| "category_name CatAPISecurity = ''API Security''"
| "category_name CatApplicationSecurity = ''Application Security''"
| "category_name CatRuntimeSecurity = ''Runtime Security''"
| "category_name CatNetworkSecurity = ''Network Security''"
| "category_name CatDataSecurity = ''Data Security''"
| "category_name CatThreatIntelligence = ''Threat Intelligence''"
| "category_name CatDetectionEngineering = ''Detection Engineering''"
| "category_name CatVulnerabilityManagement = ''Vulnerability Management''"
| "category_name CatIncidentResponse = ''Incident Response''"
| "category_name CatDigitalForensics = ''Digital Forensics''"
| "category_name CatRedTeam = ''Red Team''"
| "category_name CatCompliance = ''Compliance''"
| "category_name CatEnterpriseAnalytics = ''Enterprise Analytics''"

definition MODULE_CATEGORIES_ORDER :: "category list" where
  "MODULE_CATEGORIES_ORDER =
    [CatCloudSecurity,
     CatIdentitySecurity,
     CatQuantumSecurity,
     CatSupplyChain,
     CatAISecurity,
     CatAPISecurity,
     CatApplicationSecurity,
     CatRuntimeSecurity,
     CatNetworkSecurity,
     CatDataSecurity,
     CatThreatIntelligence,
     CatDetectionEngineering,
     CatVulnerabilityManagement,
     CatIncidentResponse,
     CatDigitalForensics,
     CatRedTeam,
     CatCompliance,
     CatEnterpriseAnalytics]"

text \<open>An icon is the name of its component.\<close>

fun ICON_BY_CATEGORY :: "category \<Rightarrow> string" where
  "ICON_BY_CATEGORY CatCloudSecurity = ''Cloud''"
| "ICON_BY_CATEGORY CatIdentitySecurity = ''Badge''"
| "ICON_BY_CATEGORY CatQuantumSecurity = ''Psychology''"
| "ICON_BY_CATEGORY CatSupplyChain = ''AccountTree''"
| "ICON_BY_CATEGORY CatAISecurity = ''AutoAwesome''"
| "ICON_BY_CATEGORY CatAPISecurity = ''Api''"
| "ICON_BY_CATEGORY CatApplicationSecurity = ''BugReport''"
| "ICON_BY_CATEGORY CatRuntimeSecurity = ''Monitor''"
| "ICON_BY_CATEGORY CatNetworkSecurity = ''Hub''"
| "ICON_BY_CATEGORY CatDataSecurity = ''DataObject''"
| "ICON_BY_CATEGORY CatThreatIntelligence = ''Radar''"
| "ICON_BY_CATEGORY CatDetectionEngineering = ''Rule''"
| "ICON_BY_CATEGORY CatVulnerabilityManagement = ''Shield''"
| "ICON_BY_CATEGORY CatIncidentResponse = ''Bolt''"
| "ICON_BY_CATEGORY CatDigitalForensics = ''Search''"
| "ICON_BY_CATEGORY CatRedTeam = ''GppGood''"
| "ICON_BY_CATEGORY CatCompliance = ''FactCheck''"
| "ICON_BY_CATEGORY CatEnterpriseAnalytics = ''Insights''"

fun COLOR_BY_CATEGORY :: "category \<Rightarrow> string" where
  "COLOR_BY_CATEGORY CatCloudSecurity = RIVICQ_400"
| "COLOR_BY_CATEGORY CatIdentitySecurity = RIVICQ_300"
| "COLOR_BY_CATEGORY CatQuantumSecurity = CRYPTO_QUANTUM"
| "COLOR_BY_CATEGORY CatSupplyChain = CRYPTO_INFO"
| "COLOR_BY_CATEGORY CatAISecurity = CRYPTO_QUANTUM"
| "COLOR_BY_CATEGORY CatAPISecurity = RIVICQ_300"
| "COLOR_BY_CATEGORY CatApplicationSecurity = CRYPTO_MEDIUM"
| "COLOR_BY_CATEGORY CatRuntimeSecurity = CRYPTO_HIGH"
| "COLOR_BY_CATEGORY CatNetworkSecurity = CRYPTO_INFO"
| "COLOR_BY_CATEGORY CatDataSecurity = CRYPTO_LOW"
| "COLOR_BY_CATEGORY CatThreatIntelligence = CRYPTO_HIGH"
| "COLOR_BY_CATEGORY CatDetectionEngineering = CRYPTO_INFO"
| "COLOR_BY_CATEGORY CatVulnerabilityManagement = CRYPTO_MEDIUM"
| "COLOR_BY_CATEGORY CatIncidentResponse = CRYPTO_CRITICAL"
| "COLOR_BY_CATEGORY CatDigitalForensics = CRYPTO_CLASSIC"
| "COLOR_BY_CATEGORY CatRedTeam = CRYPTO_CRITICAL"
| "COLOR_BY_CATEGORY CatCompliance = RIVICQ_500"
| "COLOR_BY_CATEGORY CatEnterpriseAnalytics = RIVICQ_400"

fun KPI_LABELS :: "category \<Rightarrow> string list" where
  "KPI_LABELS CatCloudSecurity = [''Cloud assets'', ''Misconfigurations'', ''Public exposure'', ''Risk score'']"
| "KPI_LABELS CatIdentitySecurity = [''Identities tracked'', ''Non-human identities'', ''Privilege sprawl'', ''Stale credentials'']"
| "KPI_LABELS CatQuantumSecurity = [''Crypto inventory'', ''PQC readiness'', ''Vulnerable keys'', ''Quantum risk'']"
| "KPI_LABELS CatSupplyChain = [''BOMs generated'', ''Signed artifacts'', ''High-risk deps'', ''Provenance coverage'']"
| "KPI_LABELS CatAISecurity = [''AI assets'', ''Prompt incidents'', ''Guardrail coverage'', ''Exposed model keys'']"
| "KPI_LABELS CatAPISecurity = [''APIs discovered'', ''Shadow APIs'', ''Auth failures'', ''Contract coverage'']"
| "KPI_LABELS CatApplicationSecurity = [''Apps scanned'', ''Findings open'', ''Scan coverage'', ''Mean time to fix'']"
| "KPI_LABELS CatRuntimeSecurity = [''Hosts monitored'', ''Runtime alerts'', ''Detections'', ''Policy coverage'']"
| "KPI_LABELS CatNetworkSecurity = [''Network assets'', ''Exposed ports'', ''Open paths'', ''Segmentation'']"
| "KPI_LABELS CatDataSecurity = [''Data assets'', ''PII records'', ''Exposures'', ''Classification'']"
| "KPI_LABELS CatThreatIntelligence = [''Intel feeds'', ''Active actors'', ''IOC matches'', ''Context time'']"
| "KPI_LABELS CatDetectionEngineering = [''Rules deployed'', ''Coverage'', ''False positives'', ''Detections'']"
| "KPI_LABELS CatVulnerabilityManagement = [''Open vulns'', ''Critical / high'', ''Patch coverage'', ''MTTR'']"
| "KPI_LABELS CatIncidentResponse = [''Open incidents'', ''Active cases'', ''MTTR'', ''Playbook coverage'']"
| "KPI_LABELS CatDigitalForensics = [''Active cases'', ''Evidence chains'', ''Capture time'', ''Integrity'']"
| "KPI_LABELS CatRedTeam = [''Campaigns'', ''Attack paths'', ''Validation'', ''Exposure'']"
| "KPI_LABELS CatCompliance = [''Controls'', ''Pass rate'', ''Frameworks'', ''Open gaps'']"
| "KPI_LABELS CatEnterpriseAnalytics = [''Risk score'', ''Predictions'', ''Dashboards'', ''Correlation'']"

definition SCOPES :: "string list" where
  "SCOPES = [''prod'', ''staging'', ''aws-main'', ''k8s-prod'', ''cloud-edge'', ''entra-id'']"

section \<open>Modules\<close>

record sec_module =
  md_id :: string
  md_name :: string
  md_tagline :: string
  md_description :: string
  md_category :: category
  md_icon :: string
  md_color :: string
  md_score :: nat
  md_connected :: bool
  md_umbrella :: "bool option"
  md_kpis :: "module_kpi list"
  md_capabilities :: "string list"
  md_frameworks :: "string list"
  md_integrations :: "string list"
  md_findings :: "module_finding list"

record module_seed =
  sd_id :: string
  sd_name :: string
  sd_tagline :: string
  sd_description :: string
  sd_category :: category
  sd_capabilities :: "string list"
  sd_frameworks :: "string list option"
  sd_integrations :: "string list option"
  sd_umbrella :: "bool option"
  sd_score :: "nat option"
  sd_connected :: "bool option"

definition hash :: "string \<Rightarrow> nat" where
  "hash s = foldl (\<lambda>h c. (h * 31 + of_char c) mod 997) 0 s"

text \<open>The first letter of every part of the name; an empty part contributes nothing.\<close>

definition prefixOf :: "string \<Rightarrow> string" where
  "prefixOf i = take 3 (str_upper (concat (map (take 1) (split_on CHR ''-'' i))))"

definition severityFor :: "nat \<Rightarrow> nat \<Rightarrow> module_severity" where
  "severityFor h i = [MCritical, MHigh, MHigh, MMedium, MMedium] ! ((h + i) mod 5)"

definition kpi_of :: "(jsnum \<Rightarrow> string) \<Rightarrow> nat \<Rightarrow> nat \<Rightarrow> string \<Rightarrow> module_kpi" where
  "kpi_of loc h i label =
     (if i = 0 then
        \<lparr>kp_label = label, kp_value = loc (num (int (300 + h mod 2400))),
         kp_delta = Some (''+'' @ nat_str (h mod 40) @ '' this week''), kp_hint = None, kp_color = Some RIVICQ_300\<rparr>
      else if i = 1 then
        \<lparr>kp_label = label, kp_value = nat_str (60 + h mod 35) @ ''%'', kp_delta = None, kp_hint = None,
         kp_color = Some CRYPTO_HIGH\<rparr>
      else if i = 2 then
        \<lparr>kp_label = label, kp_value = nat_str (h mod 45), kp_delta = None, kp_hint = None,
         kp_color = Some CRYPTO_MEDIUM\<rparr>
      else
        \<lparr>kp_label = label, kp_value = nat_str (55 + h mod 40), kp_delta = None, kp_hint = None,
         kp_color = Some CRYPTO_INFO\<rparr>)"

definition generateKpis :: "(jsnum \<Rightarrow> string) \<Rightarrow> module_seed \<Rightarrow> nat \<Rightarrow> module_kpi list" where
  "generateKpis loc seed h =
     (let labels = KPI_LABELS (sd_category seed)
      in map (\<lambda>(i, label). kpi_of loc h i label) (zip [0..<length labels] labels))"

definition at_or :: "'a list \<Rightarrow> nat \<Rightarrow> 'a \<Rightarrow> 'a" where
  "at_or xs n x = (if n < length xs then xs ! n else x)"

definition finding_of ::
  "string \<Rightarrow> nat \<Rightarrow> nat \<Rightarrow> string \<Rightarrow> string \<Rightarrow> nat \<Rightarrow> module_status \<Rightarrow> module_finding" where
  "finding_of px base h title ref i status =
     \<lparr>mf_id = px @ ''-'' @ nat_str (base + h mod 900), mf_title = title, mf_ref = ref,
      mf_severity = severityFor h i, mf_status = status, mf_scope = SCOPES ! ((h + i) mod length SCOPES)\<rparr>"

definition generateFindings :: "module_seed \<Rightarrow> module_finding list option" where
  "generateFindings seed =
     (case sd_capabilities seed of
        [] \<Rightarrow> None
      | cap0 # caps \<Rightarrow>
          (let h = hash (sd_id seed); px = prefixOf (sd_id seed);
               refs = (case sd_frameworks seed of Some (f # fs) \<Rightarrow> f # fs | _ \<Rightarrow> [''INTERNAL'']);
               ref0 = hd refs; picks = (\<lambda>n. at_or (cap0 # caps) n cap0)
           in Some
             [finding_of px 100 h (''Open '' @ str_lower (picks 0) @ '' gap detected in production scope'') ref0 0 MOpen,
              finding_of px 90 h (''Coverage below threshold for '' @ str_lower (picks 1)) (at_or refs 1 ref0) 1 MInvestigating,
              finding_of px 80 h (''Configuration drift observed in '' @ str_lower (picks 2)) (at_or refs 2 ref0) 2 MOpen,
              finding_of px 70 h (''Evidence gap for '' @ str_lower (picks 3) @ '' in quarterly review'') (at_or refs 3 ref0) 3 MMonitoring]))"

definition moduleFromSeed :: "(jsnum \<Rightarrow> string) \<Rightarrow> module_seed \<Rightarrow> sec_module option" where
  "moduleFromSeed loc seed =
     (let h = hash (sd_id seed)
      in map_option
        (\<lambda>findings.
          \<lparr>md_id = sd_id seed, md_name = sd_name seed, md_tagline = sd_tagline seed,
           md_description = sd_description seed, md_category = sd_category seed,
           md_icon = ICON_BY_CATEGORY (sd_category seed), md_color = COLOR_BY_CATEGORY (sd_category seed),
           md_score = nullish (sd_score seed) (55 + h mod 40), md_connected = nullish (sd_connected seed) False,
           md_umbrella = sd_umbrella seed, md_kpis = generateKpis loc seed h,
           md_capabilities = sd_capabilities seed, md_frameworks = nullish (sd_frameworks seed) [],
           md_integrations = nullish (sd_integrations seed) [], md_findings = findings\<rparr>)
        (generateFindings seed))"

section \<open>The flagship modules\<close>

definition MODULE_ai_security :: sec_module where
  "MODULE_ai_security =
    \<lparr>md_id = ''ai-security'',
     md_name = ''AI Security'',
     md_tagline = ''Govern and protect AI workloads, models, and agents.'',
     md_description = ''Discover AI assets, audit model behavior, and enforce guardrails against prompt injection, jailbreaks, and data exfiltration across LLM and agentic pipelines.'',
     md_category = CatAISecurity, md_icon = ''Psychology'', md_color = CRYPTO_QUANTUM,
     md_score = 74, md_connected = False, md_umbrella = Some True,
     md_kpis =
      [\<lparr>kp_label = ''AI assets'', kp_value = ''312'', kp_delta = Some ''+28 this week'', kp_hint = None, kp_color = Some RIVICQ_300\<rparr>,
       \<lparr>kp_label = ''Guardrail coverage'', kp_value = ''86%'', kp_delta = None, kp_hint = None, kp_color = Some CRYPTO_LOW\<rparr>,
       \<lparr>kp_label = ''Prompt incidents'', kp_value = ''41'', kp_delta = Some ''-12 this week'', kp_hint = None, kp_color = Some CRYPTO_HIGH\<rparr>,
       \<lparr>kp_label = ''Exposed model keys'', kp_value = ''3'', kp_delta = None, kp_hint = None, kp_color = Some CRYPTO_CRITICAL\<rparr>],
     md_capabilities =
      [''AI asset discovery & inventory'',
       ''Prompt injection & jailbreak detection'',
       ''Model governance & approval flows'',
       ''Data exfiltration monitoring'',
       ''Shadow AI detection'',
       ''AI supply chain vetting''],
     md_frameworks = [''OWASP LLM Top 10'', ''NIST AI RMF'', ''EU AI Act'', ''ISO/IEC 42001''],
     md_integrations = [''OpenAI'', ''Azure OpenAI'', ''Anthropic'', ''Hugging Face'', ''watsonx.ai''],
     md_findings =
      [\<lparr>mf_id = ''AI-0041'', mf_title = (''System prompt allows role override '' @ em_dash @ '' possible jailbreak vector''),
        mf_ref = ''OWASP-LLM01'', mf_severity = MCritical, mf_status = MOpen, mf_scope = ''copilot-prod''\<rparr>,
       \<lparr>mf_id = ''AI-0038'', mf_title = ''Unsanitized tool output fed into prompt context'',
        mf_ref = ''OWASP-LLM04'', mf_severity = MHigh, mf_status = MInvestigating, mf_scope = ''rag-service''\<rparr>,
       \<lparr>mf_id = ''AI-0031'', mf_title = ''API key for model provider found in CI logs'',
        mf_ref = ''MITRE-ATLAS'', mf_severity = MCritical, mf_status = MOpen, mf_scope = ''genai-cd''\<rparr>,
       \<lparr>mf_id = ''AI-0026'', mf_title = ''Model card metadata missing for 14 registered models'',
        mf_ref = ''NIST-AI-RMF'', mf_severity = MMedium, mf_status = MMonitoring, mf_scope = ''ml-registry''\<rparr>,
       \<lparr>mf_id = ''AI-0019'', mf_title = ''Unsigned model artifact deployed to production'',
        mf_ref = ''SLSA'', mf_severity = MHigh, mf_status = MOpen, mf_scope = ''inference-prod''\<rparr>]\<rparr>"

definition MODULE_identity :: sec_module where
  "MODULE_identity =
    \<lparr>md_id = ''identity'',
     md_name = ''Identity Security'',
     md_tagline = ''Map identities, entitlements, and trust across the estate.'',
     md_description = ''Build a continuous identity graph of users, service accounts, and non-human identities. Detect privilege sprawl, stale credentials, and risky access paths.'',
     md_category = CatIdentitySecurity, md_icon = ''Badge'', md_color = RIVICQ_400,
     md_score = 69, md_connected = False, md_umbrella = Some True,
     md_kpis =
      [\<lparr>kp_label = ''Identities tracked'', kp_value = ''2,481'', kp_delta = Some ''+39 this week'', kp_hint = None, kp_color = Some RIVICQ_300\<rparr>,
       \<lparr>kp_label = ''Non-human identities'', kp_value = ''487'', kp_delta = None, kp_hint = None, kp_color = Some CRYPTO_INFO\<rparr>,
       \<lparr>kp_label = ''Privilege sprawl'', kp_value = ''23%'', kp_delta = None, kp_hint = None, kp_color = Some CRYPTO_HIGH\<rparr>,
       \<lparr>kp_label = ''Stale credentials'', kp_value = ''67'', kp_delta = None, kp_hint = None, kp_color = Some CRYPTO_CRITICAL\<rparr>],
     md_capabilities =
      [''Identity graph & relationships'',
       ''Non-human identity (NHI) management'',
       ''Privileged access analysis'',
       ''Entitlement drift detection'',
       ''Credential & secret hygiene'',
       ''Zero Trust readiness scoring''],
     md_frameworks = [''NIST SP 800-207'', ''CSA Zero Trust'', ''ISO 27001 Annex A.5'', ''SOC 2 CC6''],
     md_integrations = [''Okta'', ''Microsoft Entra ID'', ''AWS IAM Identity Center'', ''Kubernetes RBAC'', ''GitHub''],
     md_findings =
      [\<lparr>mf_id = ''ID-0118'', mf_title = ''Service account has write access across 4 production clusters'',
        mf_ref = ''ZT-017'', mf_severity = MCritical, mf_status = MOpen, mf_scope = ''k8s-prod''\<rparr>,
       \<lparr>mf_id = ''ID-0104'', mf_title = ''STS credential rotation period exceeds 90 days'',
        mf_ref = ''CIS-2.5'', mf_severity = MHigh, mf_status = MInvestigating, mf_scope = ''aws-main''\<rparr>,
       \<lparr>mf_id = ''ID-0092'', mf_title = ''Ghost identity still attached to terminated engineer'',
        mf_ref = ''SOC2-CC6.1'', mf_severity = MHigh, mf_status = MOpen, mf_scope = ''entra-id''\<rparr>,
       \<lparr>mf_id = ''ID-0077'', mf_title = ''Long-lived PAT has org-wide repository access'',
        mf_ref = ''GH-018'', mf_severity = MMedium, mf_status = MMonitoring, mf_scope = ''github-org''\<rparr>,
       \<lparr>mf_id = ''ID-0061'', mf_title = ''Machine identity can reach secrets vault over network'',
        mf_ref = ''ZT-033'', mf_severity = MMedium, mf_status = MOpen, mf_scope = ''vault-prod''\<rparr>]\<rparr>"

definition MODULE_supply_chain :: sec_module where
  "MODULE_supply_chain =
    \<lparr>md_id = ''supply-chain'',
     md_name = ''Supply Chain Security'',
     md_tagline = ''Unified BOM visibility across software, crypto, and AI.'',
     md_description = ''Correlate SBOM, CBOM, AIBOM, IBOM, and QBOM into a single asset graph. Enforce provenance, signing, and version hygiene before artifacts ship.'',
     md_category = CatSupplyChain, md_icon = ''AccountTree'', md_color = CRYPTO_INFO,
     md_score = 81, md_connected = True, md_umbrella = Some True,
     md_kpis =
      [\<lparr>kp_label = ''BOMs generated'', kp_value = ''1,284'', kp_delta = None, kp_hint = None, kp_color = Some RIVICQ_300\<rparr>,
       \<lparr>kp_label = ''CBOM coverage'', kp_value = ''92%'', kp_delta = None, kp_hint = None, kp_color = Some CRYPTO_LOW\<rparr>,
       \<lparr>kp_label = ''Signed artifacts'', kp_value = ''78%'', kp_delta = None, kp_hint = None, kp_color = Some CRYPTO_MEDIUM\<rparr>,
       \<lparr>kp_label = ''High-risk deps'', kp_value = ''19'', kp_delta = None, kp_hint = None, kp_color = Some CRYPTO_CRITICAL\<rparr>],
     md_capabilities =
      [''Unified BOM correlation (SBOM/CBOM/AIBOM)'',
       ''Provenance & SLSA attestation'',
       ''Artifact signing verification'',
       ''Dependency risk scoring'',
       ''License & version hygiene'',
       ''VEX / CVE enrichment''],
     md_frameworks = [''SLSA'', ''EO 14028'', ''NIST SSDF'', ''ISO 5230'', ''CISA SBOM''],
     md_integrations = [''Syft'', ''Trivy'', ''Sigstore'', ''GitHub Actions'', ''Docker Hub''],
     md_findings =
      [\<lparr>mf_id = ''SC-0087'', mf_title = ''Unpinned base image in 23 build pipelines'',
        mf_ref = ''SSDF-4'', mf_severity = MHigh, mf_status = MOpen, mf_scope = ''build-pipelines''\<rparr>,
       \<lparr>mf_id = ''SC-0071'', mf_title = ''Artifact signed with revoked key'',
        mf_ref = ''SLSA-3'', mf_severity = MCritical, mf_status = MOpen, mf_scope = ''release-v2.4.1''\<rparr>,
       \<lparr>mf_id = ''SC-0059'', mf_title = ''CBOM missing for 8% of scanned services'',
        mf_ref = ''CBOM-1'', mf_severity = MMedium, mf_status = MMonitoring, mf_scope = ''service-mesh''\<rparr>,
       \<lparr>mf_id = ''SC-0043'', mf_title = ''Legacy dependency flagged with known CVE (EPSS > 0.9)'',
        mf_ref = ''VEX-018'', mf_severity = MHigh, mf_status = MInvestigating, mf_scope = ''billing-api''\<rparr>,
       \<lparr>mf_id = ''SC-0028'', mf_title = ''Provenance metadata missing for container runtime'',
        mf_ref = ''SLSA-2'', mf_severity = MMedium, mf_status = MOpen, mf_scope = ''worker-prod''\<rparr>]\<rparr>"

definition MODULE_dspm :: sec_module where
  "MODULE_dspm =
    \<lparr>md_id = ''dspm'',
     md_name = ''Data Security / DSPM'',
     md_tagline = ''Find, classify, and protect sensitive data everywhere.'',
     md_description = ''Continuous data discovery and classification across object stores, databases, and SaaS. Map data flows, detect exposures, and enforce retention and masking.'',
     md_category = CatDataSecurity, md_icon = ''DataObject'', md_color = CRYPTO_LOW,
     md_score = 64, md_connected = False, md_umbrella = Some True,
     md_kpis =
      [\<lparr>kp_label = ''Data assets'', kp_value = ''38,412'', kp_delta = None, kp_hint = None, kp_color = Some RIVICQ_300\<rparr>,
       \<lparr>kp_label = ''PII records'', kp_value = ''1.2M'', kp_delta = None, kp_hint = None, kp_color = Some CRYPTO_HIGH\<rparr>,
       \<lparr>kp_label = ''Exposed buckets'', kp_value = ''11'', kp_delta = None, kp_hint = None, kp_color = Some CRYPTO_CRITICAL\<rparr>,
       \<lparr>kp_label = ''Classification coverage'', kp_value = ''71%'', kp_delta = None, kp_hint = None, kp_color = Some CRYPTO_MEDIUM\<rparr>],
     md_capabilities =
      [''Data discovery & classification'',
       ''PII / PHI / PCI detection'',
       ''Public exposure monitoring'',
       ''Data flow & lineage mapping'',
       ''Retention & masking policies'',
       ''Regulatory compliance checks''],
     md_frameworks = [''GDPR'', ''CCPA'', ''HIPAA'', ''PCI DSS'', ''ISO 27701''],
     md_integrations = [''AWS S3'', ''Azure Blob'', ''GCP GCS'', ''Snowflake'', ''Databricks''],
     md_findings =
      [\<lparr>mf_id = ''DS-0102'', mf_title = ''S3 bucket with customer PII set to public-read'',
        mf_ref = ''GDPR-32'', mf_severity = MCritical, mf_status = MOpen, mf_scope = ''s3://analytics-staging''\<rparr>,
       \<lparr>mf_id = ''DS-0089'', mf_title = ''Unencrypted database backup containing PHI'',
        mf_ref = ''HIPAA-164'', mf_severity = MCritical, mf_status = MOpen, mf_scope = ''rds-backups''\<rparr>,
       \<lparr>mf_id = ''DS-0074'', mf_title = ''Cardholder data retained beyond retention window'',
        mf_ref = ''PCI-3.1'', mf_severity = MHigh, mf_status = MInvestigating, mf_scope = ''payments-dw''\<rparr>,
       \<lparr>mf_id = ''DS-0061'', mf_title = ''PII exported to shadow SaaS tool'',
        mf_ref = ''GDPR-44'', mf_severity = MHigh, mf_status = MOpen, mf_scope = ''export-bot''\<rparr>,
       \<lparr>mf_id = ''DS-0043'', mf_title = ''Classification labels missing on 29% of buckets'',
        mf_ref = ''ISO-27701'', mf_severity = MMedium, mf_status = MMonitoring, mf_scope = ''storage-org''\<rparr>]\<rparr>"

definition MODULE_threat_intel :: sec_module where
  "MODULE_threat_intel =
    \<lparr>md_id = ''threat-intel'',
     md_name = ''Threat Intelligence'',
     md_tagline = ''Operationalize MITRE ATT&CK, CVE, EPSS, and KEV intel.'',
     md_description = ''Continuously enrich findings with adversary context. Correlate events against MITRE ATT&CK, prioritize with EPSS/KEV, and track threat actors targeting your stack.'',
     md_category = CatThreatIntelligence, md_icon = ''Radar'', md_color = CRYPTO_HIGH,
     md_score = 77, md_connected = False, md_umbrella = Some True,
     md_kpis =
      [\<lparr>kp_label = ''Active threat actors'', kp_value = ''14'', kp_delta = None, kp_hint = None, kp_color = Some CRYPTO_CRITICAL\<rparr>,
       \<lparr>kp_label = ''CVE coverage'', kp_value = ''2,307'', kp_delta = None, kp_hint = None, kp_color = Some RIVICQ_300\<rparr>,
       \<lparr>kp_label = ''KEV exploited CVEs'', kp_value = ''8'', kp_delta = None, kp_hint = None, kp_color = Some CRYPTO_CRITICAL\<rparr>,
       \<lparr>kp_label = ''Mean time to context'', kp_value = ''9 min'', kp_delta = None, kp_hint = None, kp_color = Some CRYPTO_LOW\<rparr>],
     md_capabilities =
      [''MITRE ATT&CK mapping'',
       ''EPSS / KEV prioritization'',
       ''Threat actor tracking'',
       ''IOC enrichment & matching'',
       ''Dark web & leak monitoring'',
       ''Adversary simulation blueprints''],
     md_frameworks = [''MITRE ATT&CK'', ''FIRST EPSS'', ''CISA KEV'', ''STIX/TAXII''],
     md_integrations = [''VirusTotal'', ''AlienVault OTX'', ''AbuseIPDB'', ''CISA KEV'', ''MISP''],
     md_findings =
      [\<lparr>mf_id = ''TI-0061'', mf_title = ''Technique T1078 valid accounts observed against idP'',
        mf_ref = ''ATT&CK-T1078'', mf_severity = MCritical, mf_status = MInvestigating, mf_scope = ''entra-id''\<rparr>,
       \<lparr>mf_id = ''TI-0052'', mf_title = ''IOC match: C2 beacon domain seen in outbound flows'',
        mf_ref = ''STIX-004'', mf_severity = MCritical, mf_status = MOpen, mf_scope = ''edge-proxy''\<rparr>,
       \<lparr>mf_id = ''TI-0044'', mf_title = ''CVE exploited in the wild present in dependency tree'',
        mf_ref = ''KEV-2024-xxx'', mf_severity = MHigh, mf_status = MOpen, mf_scope = ''web-tier''\<rparr>,
       \<lparr>mf_id = ''TI-0037'', mf_title = ''Credential leak suggests impersonation of finance role'',
        mf_ref = ''ATT&CK-T1589'', mf_severity = MHigh, mf_status = MMonitoring, mf_scope = ''oauth-prod''\<rparr>,
       \<lparr>mf_id = ''TI-0021'', mf_title = ''Legacy malware family seen in sandbox telemetry'',
        mf_ref = ''ATT&CK-T1059'', mf_severity = MMedium, mf_status = MMonitoring, mf_scope = ''sandbox''\<rparr>]\<rparr>"

definition MODULE_vulnerability :: sec_module where
  "MODULE_vulnerability =
    \<lparr>md_id = ''vulnerability'',
     md_name = ''Vulnerability Management'',
     md_tagline = ''Prioritize and remediate risk with EPSS and KEV context.'',
     md_description = ''Aggregate findings from scanners and runtime signals, enrich with exploit intelligence, and drive SLA-based remediation across workloads and repositories.'',
     md_category = CatVulnerabilityManagement, md_icon = ''BugReport'', md_color = CRYPTO_MEDIUM,
     md_score = 71, md_connected = True, md_umbrella = Some True,
     md_kpis =
      [\<lparr>kp_label = ''Open vulnerabilities'', kp_value = ''1,847'', kp_delta = None, kp_hint = None, kp_color = Some CRYPTO_HIGH\<rparr>,
       \<lparr>kp_label = ''Critical / high'', kp_value = ''212'', kp_delta = None, kp_hint = None, kp_color = Some CRYPTO_CRITICAL\<rparr>,
       \<lparr>kp_label = ''Patch coverage'', kp_value = ''63%'', kp_delta = None, kp_hint = None, kp_color = Some CRYPTO_MEDIUM\<rparr>,
       \<lparr>kp_label = ''Mean time to remediate'', kp_value = ''11 days'', kp_delta = None, kp_hint = None, kp_color = Some CRYPTO_LOW\<rparr>],
     md_capabilities =
      [''Aggregated vulnerability inventory'',
       ''EPSS / KEV risk scoring'',
       ''SLA-based remediation tracking'',
       ''Patch validation & drift control'',
       ''Image and IaC scanning'',
       ''Executive risk reporting''],
     md_frameworks = [''CVSS 4.0'', ''FIRST EPSS'', ''CISA KEV'', ''OWASP Top 10''],
     md_integrations = [''Trivy'', ''Grype'', ''Snyk'', ''Qualys'', ''AWS Inspector''],
     md_findings =
      [\<lparr>mf_id = ''VUL-0321'', mf_title = ''Remote code execution in runtime library (EPSS 0.97)'',
        mf_ref = ''CVE-2026-xxxx'', mf_severity = MCritical, mf_status = MOpen, mf_scope = ''gateway-prod''\<rparr>,
       \<lparr>mf_id = ''VUL-0308'', mf_title = ''High-severity SQL injection in legacy API endpoint'',
        mf_ref = ''CVE-2025-yyyy'', mf_severity = MCritical, mf_status = MInvestigating, mf_scope = ''billing-api''\<rparr>,
       \<lparr>mf_id = ''VUL-0290'', mf_title = ''Outdated base image in production worker'',
        mf_ref = ''CIS-Docker'', mf_severity = MHigh, mf_status = MOpen, mf_scope = ''worker-prod''\<rparr>,
       \<lparr>mf_id = ''VUL-0276'', mf_title = ''Container runs as root in staging namespace'',
        mf_ref = ''CIS-K8S-1.5'', mf_severity = MMedium, mf_status = MMonitoring, mf_scope = ''k8s-staging''\<rparr>,
       \<lparr>mf_id = ''VUL-0251'', mf_title = ''Known vulnerable libc in scanner image'',
        mf_ref = ''CVE-2024-zzzz'', mf_severity = MHigh, mf_status = MOpen, mf_scope = ''scanner-cbom''\<rparr>]\<rparr>"

definition MODULE_api_security :: sec_module where
  "MODULE_api_security =
    \<lparr>md_id = ''api-security'',
     md_name = ''API Security'',
     md_tagline = ''Discover, test, and protect every API you expose.'',
     md_description = ''Map the full API estate including shadow and zombie APIs. Enforce OWASP API Top 10, detect abuse and credential stuffing, and validate contracts continuously.'',
     md_category = CatAPISecurity, md_icon = ''Api'', md_color = RIVICQ_300,
     md_score = 66, md_connected = False, md_umbrella = Some True,
     md_kpis =
      [\<lparr>kp_label = ''APIs discovered'', kp_value = ''1,024'', kp_delta = None, kp_hint = None, kp_color = Some RIVICQ_300\<rparr>,
       \<lparr>kp_label = ''Shadow APIs'', kp_value = ''37'', kp_delta = None, kp_hint = None, kp_color = Some CRYPTO_CRITICAL\<rparr>,
       \<lparr>kp_label = ''Auth failures'', kp_value = ''4.2k/hr'', kp_delta = None, kp_hint = None, kp_color = Some CRYPTO_HIGH\<rparr>,
       \<lparr>kp_label = ''Contract coverage'', kp_value = ''58%'', kp_delta = None, kp_hint = None, kp_color = Some CRYPTO_MEDIUM\<rparr>],
     md_capabilities =
      [''API discovery & inventory'',
       ''Shadow / zombie / orphan API detection'',
       ''OWASP API Top 10 testing'',
       ''Rate limit & abuse detection'',
       ''GraphQL / gRPC / REST coverage'',
       ''Schema & contract validation''],
     md_frameworks = [''OWASP API Top 10'', ''NIST 800-204'', ''OpenAPI/Swagger'', ''AsyncAPI''],
     md_integrations = [''Kong'', ''Apigee'', ''AWS API Gateway'', ''Cloudflare'', ''Postman''],
     md_findings =
      [\<lparr>mf_id = ''API-0072'', mf_title = ''Broken object-level authorization on /v1/users/:id'',
        mf_ref = ''OWASP-API01'', mf_severity = MCritical, mf_status = MOpen, mf_scope = ''user-service''\<rparr>,
       \<lparr>mf_id = ''API-0064'', mf_title = ''Shadow endpoint exposing internal health data'',
        mf_ref = ''OWASP-API05'', mf_severity = MHigh, mf_status = MOpen, mf_scope = ''metrics-svc''\<rparr>,
       \<lparr>mf_id = ''API-0055'', mf_title = ''No rate limiting on OTP verification endpoint'',
        mf_ref = ''OWASP-API04'', mf_severity = MHigh, mf_status = MInvestigating, mf_scope = ''auth-api''\<rparr>,
       \<lparr>mf_id = ''API-0041'', mf_title = ''GraphQL introspection enabled in production'',
        mf_ref = ''OWASP-API03'', mf_severity = MMedium, mf_status = MMonitoring, mf_scope = ''gql-gateway''\<rparr>,
       \<lparr>mf_id = ''API-0029'', mf_title = ''Zombie API still accepting legacy tokens'',
        mf_ref = ''OWASP-API02'', mf_severity = MMedium, mf_status = MOpen, mf_scope = ''payments-legacy''\<rparr>]\<rparr>"

definition MODULE_incident_response :: sec_module where
  "MODULE_incident_response =
    \<lparr>md_id = ''incident-response'',
     md_name = ''Incident Response'',
     md_tagline = ''Coordinate detection, response, and lessons learned.'',
     md_description = (''Streamline the full IR lifecycle '' @ em_dash @ '' detection, case management, playbooks, and post-incident reporting '' @ em_dash @ '' with evidence capture and stakeholder communications.''),
     md_category = CatIncidentResponse, md_icon = ''Bolt'', md_color = CRYPTO_CRITICAL,
     md_score = 83, md_connected = False, md_umbrella = Some True,
     md_kpis =
      [\<lparr>kp_label = ''Open incidents'', kp_value = ''6'', kp_delta = None, kp_hint = None, kp_color = Some CRYPTO_HIGH\<rparr>,
       \<lparr>kp_label = ''Active cases'', kp_value = ''3'', kp_delta = None, kp_hint = None, kp_color = Some CRYPTO_MEDIUM\<rparr>,
       \<lparr>kp_label = ''MTTR'', kp_value = ''42 min'', kp_delta = None, kp_hint = None, kp_color = Some CRYPTO_LOW\<rparr>,
       \<lparr>kp_label = ''Playbook coverage'', kp_value = ''91%'', kp_delta = None, kp_hint = None, kp_color = Some RIVICQ_300\<rparr>],
     md_capabilities =
      [''Incident & case management'',
       ''Automated playbooks & response'',
       ''Evidence and timeline capture'',
       ''War-room & comms templates'',
       ''Post-incident review (RCA)'',
       ''SOAR connector hub''],
     md_frameworks = [''NIST SP 800-61'', ''SANS PICERL'', ''ISO 27035'', ''MITRE D3FEND''],
     md_integrations = [''PagerDuty'', ''ServiceNow'', ''Slack'', ''Splunk'', ''Jira''],
     md_findings =
      [\<lparr>mf_id = ''IR-0023'', mf_title = ''Unauthorized access attempt under containment'',
        mf_ref = ''800-61-3'', mf_severity = MCritical, mf_status = MInvestigating, mf_scope = ''edge-prod''\<rparr>,
       \<lparr>mf_id = ''IR-0019'', mf_title = ''Playbook missing for crypto-ransomware scenario'',
        mf_ref = ''PICERL-5'', mf_severity = MHigh, mf_status = MOpen, mf_scope = ''secops''\<rparr>,
       \<lparr>mf_id = ''IR-0014'', mf_title = ''Evidence chain incomplete for quarterly drill'',
        mf_ref = ''ISO-27035'', mf_severity = MMedium, mf_status = MMonitoring, mf_scope = ''drill-q3''\<rparr>,
       \<lparr>mf_id = ''IR-0008'', mf_title = ''SIEM alert-to-ticket latency above SLA'',
        mf_ref = ''SANS-2'', mf_severity = MHigh, mf_status = MOpen, mf_scope = ''soc-pipeline''\<rparr>,
       \<lparr>mf_id = ''IR-0004'', mf_title = ''RCA report pending for June outage'',
        mf_ref = ''800-61-4'', mf_severity = MLow, mf_status = MOpen, mf_scope = ''rca-june''\<rparr>]\<rparr>"

definition MODULE_quantum_security :: sec_module where
  "MODULE_quantum_security =
    \<lparr>md_id = ''quantum-security'',
     md_name = ''Quantum Security'',
     md_tagline = ''Crypto agility, PQC readiness, and quantum risk at scale.'',
     md_description = ''The Quantum Readiness Platform: continuous cryptographic inventory, TLS and PKI discovery, harvest-now-decrypt-later detection, and ML-KEM / ML-DSA migration planning with FIPS 203/204/205 compliance.'',
     md_category = CatQuantumSecurity, md_icon = ''Psychology'', md_color = CRYPTO_QUANTUM,
     md_score = 78, md_connected = False, md_umbrella = Some True,
     md_kpis =
      [\<lparr>kp_label = ''Crypto inventory'', kp_value = ''8,412'', kp_delta = None, kp_hint = None, kp_color = Some RIVICQ_300\<rparr>,
       \<lparr>kp_label = ''PQC readiness'', kp_value = ''68%'', kp_delta = None, kp_hint = None, kp_color = Some CRYPTO_HIGH\<rparr>,
       \<lparr>kp_label = ''Vulnerable keys'', kp_value = ''214'', kp_delta = None, kp_hint = None, kp_color = Some CRYPTO_CRITICAL\<rparr>,
       \<lparr>kp_label = ''Quantum risk'', kp_value = ''34'', kp_delta = None, kp_hint = None, kp_color = Some CRYPTO_INFO\<rparr>],
     md_capabilities =
      [''CBOM scanning & QBOM generation'',
       ''Crypto, certificate & PKI inventory'',
       ''TLS analysis & crypto agility dashboard'',
       ''PQC readiness & quantum risk scores'',
       ''Harvest now, decrypt later detection'',
       ''ML-KEM / ML-DSA migration planner'',
       ''NIST PQC & FIPS 203/204/205 compliance''],
     md_frameworks = [''NIST FIPS 203'', ''NIST FIPS 204'', ''NIST FIPS 205'', ''ETSI TR 103 619'', ''CNSA 2.0''],
     md_integrations = [''Open Quantum Safe'', ''IBM Quantum'', ''AWS Braket'', ''Azure Quantum'', ''SoftHSM''],
     md_findings =
      [\<lparr>mf_id = ''QS-0211'', mf_title = ''RSA-2048 key used to protect data-at-rest with >15-year retention'',
        mf_ref = ''HNDL-001'', mf_severity = MCritical, mf_status = MOpen, mf_scope = ''payments-db''\<rparr>,
       \<lparr>mf_id = ''QS-0184'', mf_title = ''TLS 1.2 cipher suite without hybrid PQC negotiated in production'',
        mf_ref = ''CNSA-2.0'', mf_severity = MHigh, mf_status = MInvestigating, mf_scope = ''edge-proxy''\<rparr>,
       \<lparr>mf_id = ''QS-0153'', mf_title = ''Certificate chain still rooted in SHA-1 trust anchor'',
        mf_ref = ''FIPS-186-5'', mf_severity = MHigh, mf_status = MOpen, mf_scope = ''pki-root''\<rparr>,
       \<lparr>mf_id = ''QS-0118'', mf_title = ''ML-KEM migration planned for 2027 but inventory incomplete'',
        mf_ref = ''ETSI-TR-103619'', mf_severity = MMedium, mf_status = MMonitoring, mf_scope = ''crypto-inventory''\<rparr>]\<rparr>"

definition MODULE_appsec :: sec_module where
  "MODULE_appsec =
    \<lparr>md_id = ''appsec'',
     md_name = ''Application Security'',
     md_tagline = ''Secure software from source to build to runtime.'',
     md_description = ''End-to-end application security spanning SAST, DAST, SCA, secret scanning, and IaC analysis with CI/CD enforcement and runtime protection.'',
     md_category = CatApplicationSecurity, md_icon = ''BugReport'', md_color = CRYPTO_MEDIUM,
     md_score = 72, md_connected = False, md_umbrella = Some True,
     md_kpis =
      [\<lparr>kp_label = ''Apps scanned'', kp_value = ''486'', kp_delta = None, kp_hint = None, kp_color = Some RIVICQ_300\<rparr>,
       \<lparr>kp_label = ''Findings open'', kp_value = ''312'', kp_delta = None, kp_hint = None, kp_color = Some CRYPTO_HIGH\<rparr>,
       \<lparr>kp_label = ''Scan coverage'', kp_value = ''81%'', kp_delta = None, kp_hint = None, kp_color = Some CRYPTO_MEDIUM\<rparr>,
       \<lparr>kp_label = ''Mean time to fix'', kp_value = ''9 days'', kp_delta = None, kp_hint = None, kp_color = Some CRYPTO_LOW\<rparr>],
     md_capabilities =
      [''SAST / DAST / IAST / RASP'',
       ''Software composition analysis'',
       ''Secret scanning & credential exposure'',
       ''IaC / Terraform / Helm scanning'',
       ''CI/CD pipeline security'',
       ''Runtime protection & WAF''],
     md_frameworks = [''OWASP Top 10'', ''OWASP ASVS'', ''PCI DSS 4.0'', ''NIST SSDF''],
     md_integrations = [''Semgrep'', ''CodeQL'', ''Snyk'', ''Trivy'', ''GitHub Actions''],
     md_findings =
      [\<lparr>mf_id = ''AS-0117'', mf_title = ''SQL injection in legacy checkout endpoint'',
        mf_ref = ''OWASP-A03'', mf_severity = MCritical, mf_status = MOpen, mf_scope = ''checkout-api''\<rparr>,
       \<lparr>mf_id = ''AS-0102'', mf_title = ''Hardcoded database password in Terraform module'',
        mf_ref = ''Terraform-001'', mf_severity = MCritical, mf_status = MOpen, mf_scope = ''infra/terraform''\<rparr>,
       \<lparr>mf_id = ''AS-0088'', mf_title = ''Helm chart runs container as root by default'',
        mf_ref = ''CIS-K8S-1.5'', mf_severity = MHigh, mf_status = MInvestigating, mf_scope = ''helm/charts''\<rparr>,
       \<lparr>mf_id = ''AS-0074'', mf_title = ''SAST coverage missing for two payment repos'',
        mf_ref = ''OWASP-ASVS'', mf_severity = MMedium, mf_status = MMonitoring, mf_scope = ''payments''\<rparr>]\<rparr>"

definition MODULE_compliance :: sec_module where
  "MODULE_compliance =
    \<lparr>md_id = ''compliance'',
     md_name = ''Compliance'',
     md_tagline = ''Continuous compliance across global frameworks.'',
     md_description = ''Map every control to DORA, NIS2, ISO 27001, SOC 2, PCI DSS, HIPAA, GDPR, FedRAMP, CIS, NIST CSF 2.0, ISO 42001, the EU AI Act, and the Cyber Resilience Act with evidence automation.'',
     md_category = CatCompliance, md_icon = ''FactCheck'', md_color = RIVICQ_500,
     md_score = 80, md_connected = False, md_umbrella = Some True,
     md_kpis =
      [\<lparr>kp_label = ''Controls'', kp_value = ''1,204'', kp_delta = None, kp_hint = None, kp_color = Some RIVICQ_300\<rparr>,
       \<lparr>kp_label = ''Pass rate'', kp_value = ''88%'', kp_delta = None, kp_hint = None, kp_color = Some CRYPTO_LOW\<rparr>,
       \<lparr>kp_label = ''Frameworks'', kp_value = ''14'', kp_delta = None, kp_hint = None, kp_color = Some RIVICQ_400\<rparr>,
       \<lparr>kp_label = ''Open gaps'', kp_value = ''37'', kp_delta = None, kp_hint = None, kp_color = Some CRYPTO_HIGH\<rparr>],
     md_capabilities =
      [''Continuous compliance monitoring'',
       ''Control-to-evidence mapping'',
       ''Automated evidence collection'',
       ''Gap analysis & remediation plans'',
       ''Executive compliance reporting'',
       ''Regulatory horizon scanning''],
     md_frameworks = [''DORA'', ''NIS2'', ''ISO 27001'', ''SOC 2'', ''PCI DSS'', ''HIPAA'', ''GDPR'', ''FedRAMP'', ''CIS Benchmarks'', ''NIST CSF 2.0'', ''NIST 800-53'', ''ISO 42001'', ''EU AI Act'', ''CRA''],
     md_integrations = [''ServiceNow'', ''Vanta'', ''Drata'', ''Jira'', ''AWS Config''],
     md_findings =
      [\<lparr>mf_id = ''CP-0031'', mf_title = ''DORA ICT risk register not updated this quarter'',
        mf_ref = ''DORA-Art-6'', mf_severity = MHigh, mf_status = MOpen, mf_scope = ''risk-register''\<rparr>,
       \<lparr>mf_id = ''CP-0027'', mf_title = ''NIS2 incident reporting workflow not tested'',
        mf_ref = ''NIS2-Art-23'', mf_severity = MHigh, mf_status = MInvestigating, mf_scope = ''soc-process''\<rparr>,
       \<lparr>mf_id = ''CP-0019'', mf_title = ''PCI DSS 4.0 requirement 11.6 evidence pending'',
        mf_ref = ''PCI-11.6'', mf_severity = MMedium, mf_status = MMonitoring, mf_scope = ''cd-trails''\<rparr>,
       \<lparr>mf_id = ''CP-0011'', mf_title = ''EU AI Act high-risk AI inventory incomplete'',
        mf_ref = ''EU-AI-Art-9'', mf_severity = MHigh, mf_status = MOpen, mf_scope = ''ai-registry''\<rparr>]\<rparr>"

definition MODULE_analytics :: sec_module where
  "MODULE_analytics =
    \<lparr>md_id = ''analytics'',
     md_name = ''Enterprise Analytics'',
     md_tagline = ''Unified risk scores, dashboards, and predictive analytics.'',
     md_description = ''Global, cyber, quantum, AI, compliance, and identity risk scores feeding executive, SOC, CISO, and board dashboards with a real-time unified risk graph and digital twin.'',
     md_category = CatEnterpriseAnalytics, md_icon = ''Insights'', md_color = RIVICQ_400,
     md_score = 85, md_connected = False, md_umbrella = Some True,
     md_kpis =
      [\<lparr>kp_label = ''Global risk score'', kp_value = ''72'', kp_delta = None, kp_hint = None, kp_color = Some CRYPTO_HIGH\<rparr>,
       \<lparr>kp_label = ''Predictions'', kp_value = ''124'', kp_delta = None, kp_hint = None, kp_color = Some RIVICQ_300\<rparr>,
       \<lparr>kp_label = ''Dashboards'', kp_value = ''8'', kp_delta = None, kp_hint = None, kp_color = Some RIVICQ_400\<rparr>,
       \<lparr>kp_label = ''Correlation'', kp_value = ''96%'', kp_delta = None, kp_hint = None, kp_color = Some CRYPTO_LOW\<rparr>],
     md_capabilities =
      [''Global security & cyber risk scores'',
       ''Quantum readiness & AI risk scoring'',
       ''Executive, SOC, CISO & board dashboards'',
       ''Predictive risk analytics'',
       ''Real-time attack graph & digital twin'',
       ''Cross-domain asset correlation''],
     md_frameworks = [''FAIR'', ''NIST CSF 2.0'', ''ISO 31000''],
     md_integrations = [''Prometheus'', ''Grafana'', ''OpenTelemetry'', ''Snowflake'', ''Databricks''],
     md_findings =
      [\<lparr>mf_id = ''AN-0014'', mf_title = ''Board dashboard missing quantum risk exposure view'',
        mf_ref = ''FAIR-01'', mf_severity = MMedium, mf_status = MOpen, mf_scope = ''board''\<rparr>,
       \<lparr>mf_id = ''AN-0009'', mf_title = ''Predictive model drift above acceptable threshold'',
        mf_ref = ''ISO-31000'', mf_severity = MHigh, mf_status = MInvestigating, mf_scope = ''risk-engine''\<rparr>,
       \<lparr>mf_id = ''AN-0005'', mf_title = ''Risk graph lacks coverage for 3 cloud accounts'',
        mf_ref = ''NIST-CSF-2.0'', mf_severity = MMedium, mf_status = MMonitoring, mf_scope = ''risk-graph''\<rparr>]\<rparr>"

definition UMBRELLA_MODULES :: "sec_module list" where
  "UMBRELLA_MODULES = [MODULE_ai_security, MODULE_identity, MODULE_supply_chain, MODULE_dspm, MODULE_threat_intel, MODULE_vulnerability, MODULE_api_security, MODULE_incident_response, MODULE_quantum_security, MODULE_appsec, MODULE_compliance, MODULE_analytics]"

section \<open>The seeds\<close>

definition SEED_cloud_security :: module_seed where
  "SEED_cloud_security =
    \<lparr>sd_id = ''cloud-security'', sd_name = ''Cloud Security'',
     sd_tagline = ''Continuous cloud posture across every account and workload.'',
     sd_description = ''Assess cloud accounts, workloads, storage, and services against CIS, NIST, and SOC 2 baselines. Detect misconfigurations, public exposure, and drift in real time with one-click remediation.'',
     sd_category = CatCloudSecurity,
     sd_capabilities =
      [''Multi-account posture scanning'',
       ''Misconfiguration & drift detection'',
       ''Public exposure monitoring'',
       ''CSPM baseline & conformance packs'',
       ''Auto-remediation playbooks'',
       ''Cloud-native threat correlation''],
     sd_frameworks = Some [''CIS Foundations'', ''NIST 800-53'', ''SOC 2'', ''PCI DSS 4.0''],
     sd_integrations = Some [''AWS'', ''Azure'', ''GCP'', ''IBM Cloud'', ''Kubernetes''],
     sd_umbrella = None, sd_score = None, sd_connected = Some True\<rparr>"

definition SEED_runtime_security :: module_seed where
  "SEED_runtime_security =
    \<lparr>sd_id = ''runtime-security'', sd_name = ''Runtime Security'',
     sd_tagline = ''Protect workloads and containers in production at runtime.'',
     sd_description = ''Monitor hosts, containers, and serverless functions for anomalous behavior, drift, and active threats. Enforce policy at runtime and respond to detections with automated containment.'',
     sd_category = CatRuntimeSecurity,
     sd_capabilities =
      [''Container & host monitoring'',
       ''Behavioral anomaly detection'',
       ''Runtime policy enforcement'',
       ''Serverless & function protection'',
       ''Automated containment'',
       ''Process & file integrity monitoring''],
     sd_frameworks = Some [''NIST 800-190'', ''CIS Docker'', ''CIS Kubernetes'', ''OWASP''],
     sd_integrations = Some [''Falco'', ''Aqua'', ''Sysdig'', ''Lacework'', ''Wazuh''],
     sd_umbrella = None, sd_score = Some 63, sd_connected = None\<rparr>"

definition SEED_network_security :: module_seed where
  "SEED_network_security =
    \<lparr>sd_id = ''network-security'', sd_name = ''Network Security'',
     sd_tagline = ''Visualize, segment, and defend the network attack surface.'',
     sd_description = ''Discover network assets and map open paths, exposed ports, and lateral movement risk. Enforce segmentation, inspect east-west traffic, and track protocol anomalies across the estate.'',
     sd_category = CatNetworkSecurity,
     sd_capabilities =
      [''Attack-surface discovery'',
       ''Exposed port & path mapping'',
       ''Network segmentation & micro-segmentation'',
       ''East-west traffic inspection'',
       ''Firewall & security group auditing'',
       ''DNS & protocol anomaly detection''],
     sd_frameworks = Some [''NIST 800-41'', ''CIS AWS'', ''ISO 27001'', ''Zero Trust''],
     sd_integrations = Some [''AWS VPC'', ''Azure VNet'', ''Calico'', ''Istio'', ''Zeek''],
     sd_umbrella = None, sd_score = Some 58, sd_connected = None\<rparr>"

definition SEED_detection_engineering :: module_seed where
  "SEED_detection_engineering =
    \<lparr>sd_id = ''detection-engineering'', sd_name = ''Detection Engineering'',
     sd_tagline = ''Design, tune, and validate high-fidelity detections.'',
     sd_description = ''Build a detection-as-code pipeline: author Sigma and KQL rules, deploy to SIEM and XDR engines, measure coverage, and continuously reduce false positives.'',
     sd_category = CatDetectionEngineering,
     sd_capabilities =
      [''Detection-as-code authoring'',
       ''Sigma & KQL rule pipelines'',
       ''SIEM / XDR rule deployment'',
       ''MITRE ATT&CK coverage mapping'',
       ''False-positive tuning'',
       ''Detection validation & tests''],
     sd_frameworks = Some [''MITRE ATT&CK'', ''NIST 800-61'', ''Sigma''],
     sd_integrations = Some [''Splunk'', ''Sentinel'', ''Elastic'', ''CrowdStrike'', ''Sigma''],
     sd_umbrella = None, sd_score = Some 61, sd_connected = None\<rparr>"

definition SEED_digital_forensics :: module_seed where
  "SEED_digital_forensics =
    \<lparr>sd_id = ''digital-forensics'', sd_name = ''Digital Forensics'',
     sd_tagline = ''Evidence-grade capture, analysis, and chain-of-custody.'',
     sd_description = ''Perform memory, disk, and cloud forensics with tamper-proof evidence chains. Preserve artifacts, correlate timelines, and produce investigation-ready reports for incident response and eDiscovery.'',
     sd_category = CatDigitalForensics,
     sd_capabilities =
      [''Memory & disk acquisition'',
       ''Cloud & container forensics'',
       ''Tamper-proof evidence chains'',
       ''Timeline & artifact correlation'',
       ''Forensic imaging & hashing'',
       ''Investigation-ready reporting''],
     sd_frameworks = Some [''NIST SP 800-86'', ''ACPO'', ''ISO/IEC 27037''],
     sd_integrations = Some [''Velociraptor'', ''Volatility'', ''Autopsy'', ''FTK'', ''Cellebrite''],
     sd_umbrella = None, sd_score = Some 57, sd_connected = None\<rparr>"

definition SEED_red_team :: module_seed where
  "SEED_red_team =
    \<lparr>sd_id = ''red-team'', sd_name = ''Red Team'',
     sd_tagline = ''Adversary-emulation campaigns that validate your defenses.'',
     sd_description = ''Plan and execute realistic attack campaigns across the kill chain. Measure detection and response effectiveness, prioritize exposures, and prove the impact of validated attack paths.'',
     sd_category = CatRedTeam,
     sd_capabilities =
      [''Adversary emulation planning'',
       ''Attack path & kill-chain simulation'',
       ''Phishing & social engineering ops'',
       ''Detection & response validation'',
       ''Exposure quantification'',
       ''Campaign scoring & reporting''],
     sd_frameworks = Some [''MITRE ATT&CK'', ''Lockheed Kill Chain'', ''PTES''],
     sd_integrations = Some [''Cobalt Strike'', ''Caldera'', ''Atomic Red Team'', ''Impacket'', ''BloodHound''],
     sd_umbrella = None, sd_score = Some 67, sd_connected = None\<rparr>"

definition SEEDS :: "module_seed list" where
  "SEEDS =
    [SEED_cloud_security,
     SEED_runtime_security,
     SEED_network_security,
     SEED_detection_engineering,
     SEED_digital_forensics,
     SEED_red_team]"

section \<open>The catalogue\<close>

text \<open>The catalogue, if no seed throws.\<close>

definition MODULES :: "(jsnum \<Rightarrow> string) \<Rightarrow> sec_module list option" where
  "MODULES loc = map_option ((@) UMBRELLA_MODULES) (those (map (moduleFromSeed loc) SEEDS))"

definition getModuleById :: "sec_module list \<Rightarrow> string \<Rightarrow> sec_module option" where
  "getModuleById modules i = find (\<lambda>m. md_id m = i) modules"

definition MODULE_CATEGORIES :: "sec_module list \<Rightarrow> category list" where
  "MODULE_CATEGORIES modules = filter (\<lambda>c. list_ex (\<lambda>m. md_category m = c) modules) MODULE_CATEGORIES_ORDER"

fun SEVERITY_COLORS :: "module_severity \<Rightarrow> string" where
  "SEVERITY_COLORS MCritical = CRYPTO_CRITICAL"
| "SEVERITY_COLORS MHigh = CRYPTO_HIGH"
| "SEVERITY_COLORS MMedium = CRYPTO_MEDIUM"
| "SEVERITY_COLORS MLow = CRYPTO_LOW"

fun STATUS_COLORS :: "module_status \<Rightarrow> string" where
  "STATUS_COLORS MOpen = CRYPTO_CRITICAL"
| "STATUS_COLORS MInvestigating = CRYPTO_HIGH"
| "STATUS_COLORS MMonitoring = CRYPTO_INFO"
| "STATUS_COLORS MMitigated = CRYPTO_LOW"

section \<open>Lemmas\<close>

text \<open>Every seed makes a module, whose findings are numbered differently.\<close>

lemma generateFindings_ids:
  assumes "generateFindings seed = Some fs"
  shows "length fs = 4" "distinct (map mf_id fs)"
    "\<forall>f \<in> set fs. mf_scope f \<in> set SCOPES \<and> mf_severity f \<noteq> MLow \<and> mf_status f \<noteq> MMitigated"
proof -
  obtain c cs where "sd_capabilities seed = c # cs"
    using assms by (auto simp: generateFindings_def split: list.splits)
  with assms show "length fs = 4" "distinct (map mf_id fs)"
    by (auto simp: generateFindings_def Let_def finding_of_def)
  have "severityFor h i \<noteq> MLow" for h i
  proof -
    have "(h + i) mod 5 \<in> {0, 1, 2, 3, 4}" by auto
    then show ?thesis by (auto simp: severityFor_def)
  qed
  moreover have "SCOPES ! (k mod length SCOPES) \<in> set SCOPES" for k
    by (rule nth_mem) (simp add: SCOPES_def)
  ultimately show "\<forall>f \<in> set fs. mf_scope f \<in> set SCOPES \<and> mf_severity f \<noteq> MLow \<and> mf_status f \<noteq> MMitigated"
    using assms \<open>sd_capabilities seed = c # cs\<close> by (auto simp: generateFindings_def Let_def finding_of_def)
qed

lemma moduleFromSeed_facts:
  assumes "moduleFromSeed loc seed = Some m"
  shows "md_id m = sd_id seed" "md_category m = sd_category seed" "length (md_findings m) = 4"
    "distinct (map mf_id (md_findings m))"
    "map kp_label (md_kpis m) = KPI_LABELS (sd_category seed)"
    "sd_score seed = None \<Longrightarrow> 55 \<le> md_score m \<and> md_score m < 95"
proof -
  from assms obtain fs where fs: "generateFindings seed = Some fs" "md_findings m = fs"
    by (auto simp: moduleFromSeed_def Let_def)
  with generateFindings_ids [OF fs(1)] show "length (md_findings m) = 4" "distinct (map mf_id (md_findings m))" by simp_all
  have label: "kp_label (kpi_of loc h i l) = l" for h i l by (simp add: kpi_of_def)
  show "map kp_label (md_kpis m) = KPI_LABELS (sd_category seed)"
    using assms by (auto simp: moduleFromSeed_def Let_def generateKpis_def case_prod_beta' label map_nth intro!: nth_equalityI)
  have "hash (sd_id seed) mod 40 < 40" by simp
  then have "55 + hash (sd_id seed) mod 40 < 95" by linarith
  with assms show "sd_score seed = None \<Longrightarrow> 55 \<le> md_score m \<and> md_score m < 95"
    by (auto simp: moduleFromSeed_def Let_def)
  show "md_id m = sd_id seed" "md_category m = sd_category seed" using assms by (auto simp: moduleFromSeed_def Let_def)
qed

lemma seeds_load: "list_all (\<lambda>s. sd_capabilities s \<noteq> []) SEEDS"
  by (simp add: SEEDS_def SEED_cloud_security_def SEED_runtime_security_def SEED_network_security_def SEED_detection_engineering_def SEED_digital_forensics_def SEED_red_team_def)

definition modules_of :: "(jsnum \<Rightarrow> string) \<Rightarrow> sec_module list" where
  "modules_of loc = UMBRELLA_MODULES @ map (\<lambda>s. the (moduleFromSeed loc s)) SEEDS"

lemma seed_module: "s \<in> set SEEDS \<Longrightarrow> moduleFromSeed loc s = Some (the (moduleFromSeed loc s))"
  using seeds_load by (auto simp: list_all_iff moduleFromSeed_def generateFindings_def Let_def neq_Nil_conv)

lemma modules_load: "MODULES loc = Some (modules_of loc)"
proof -
  have "those (map (moduleFromSeed loc) SEEDS) = Some (map (\<lambda>x. the (moduleFromSeed loc x)) SEEDS)"
    by (rule those_total) (auto simp: list_all_iff dest: seed_module [of _ loc])
  then show ?thesis by (simp add: MODULES_def modules_of_def)
qed

lemma modules_ids: "map md_id (modules_of loc) = map md_id UMBRELLA_MODULES @ map sd_id SEEDS"
  using moduleFromSeed_facts(1) [OF seed_module] by (simp add: modules_of_def)

lemma modules_categories: "map md_category (modules_of loc) = map md_category UMBRELLA_MODULES @ map sd_category SEEDS"
  using moduleFromSeed_facts(2) [OF seed_module] by (simp add: modules_of_def)

lemma catalogue_ids: "distinct (map md_id UMBRELLA_MODULES @ map sd_id SEEDS)"
  by code_simp

lemma catalogue_complete:
  "list_all (\<lambda>c. c \<in> set (map md_category UMBRELLA_MODULES @ map sd_category SEEDS)) MODULE_CATEGORIES_ORDER"
  by code_simp

lemma flagship_findings: "list_all (\<lambda>m. distinct (map mf_id (md_findings m))) UMBRELLA_MODULES"
  by code_simp

section \<open>Properties\<close>

text \<open>The catalogue loads, whatever the locale; no two modules share an identifier, so looking a module
  up by its identifier finds it; every category has a module; no module numbers two of its findings
  alike; and a module made from a seed has the figures its category names.\<close>

theorem module_catalogue:
  "MODULES loc = Some (modules_of loc)
   \<and> distinct (map md_id (modules_of loc))
   \<and> (\<forall>m \<in> set (modules_of loc). getModuleById (modules_of loc) (md_id m) = Some m
        \<and> distinct (map mf_id (md_findings m)))
   \<and> MODULE_CATEGORIES (modules_of loc) = MODULE_CATEGORIES_ORDER
   \<and> (\<forall>s \<in> set SEEDS. map kp_label (md_kpis (the (moduleFromSeed loc s))) = KPI_LABELS (sd_category s))"
proof -
  have d: "distinct (map md_id (modules_of loc))" unfolding modules_ids by (rule catalogue_ids)
  have "\<forall>m \<in> set (modules_of loc). getModuleById (modules_of loc) (md_id m) = Some m"
    unfolding getModuleById_def using find_by_key [OF d] by blast
  moreover have "distinct (map mf_id (md_findings m))" if "m \<in> set (modules_of loc)" for m
    using that flagship_findings moduleFromSeed_facts(4) [OF seed_module]
    by (auto simp: modules_of_def list_all_iff)
  moreover have "\<exists>m \<in> set (modules_of loc). md_category m = c" if "c \<in> set MODULE_CATEGORIES_ORDER" for c
  proof -
    have "c \<in> set (map md_category (modules_of loc))"
      unfolding modules_categories using catalogue_complete that by (auto simp: list_all_iff)
    then show ?thesis by auto
  qed
  then have "MODULE_CATEGORIES (modules_of loc) = MODULE_CATEGORIES_ORDER"
    unfolding MODULE_CATEGORIES_def by (intro filter_True) (auto simp: list_ex_iff)
  moreover have "\<forall>s \<in> set SEEDS. map kp_label (md_kpis (the (moduleFromSeed loc s))) = KPI_LABELS (sd_category s)"
    using moduleFromSeed_facts(5) [OF seed_module] by blast
  ultimately show ?thesis using modules_load d by blast
qed

theorem module_catalogue_witness: "SEED_red_team \<in> set SEEDS \<and> MODULES (\<lambda>_. []) \<noteq> None"
  using module_catalogue [of "\<lambda>_. []"] by (simp add: SEEDS_def)

end
