(* ===== verification/Js_Uri.thy ===== *)
theory Js_Uri
  imports Prelude
begin

text \<open>
  \<open>encodeURIComponent\<close> and \<open>decodeURIComponent\<close>, on strings as their UTF-8 bytes.
\<close>

text \<open>\<open>encodeURIComponent\<close>, on the UTF-8 bytes of a string.\<close>

definition uri_safe :: "char \<Rightarrow> bool" where
  "uri_safe c \<longleftrightarrow>
     (let n = (of_char c :: nat)
      in (48 \<le> n \<and> n \<le> 57) \<or> (65 \<le> n \<and> n \<le> 90) \<or> (97 \<le> n \<and> n \<le> 122) \<or> c \<in> set (''-_.!~*()'' @ [CHR 0x27]))"

definition hex_digit :: "nat \<Rightarrow> char" where
  "hex_digit n = ''0123456789ABCDEF'' ! n"

definition encode_char :: "char \<Rightarrow> string" where
  "encode_char c =
     (if uri_safe c then [c]
      else let n = (of_char c :: nat) in [CHR ''%'', hex_digit (n div 16), hex_digit (n mod 16)])"

definition encodeURIComponent :: "string \<Rightarrow> string" where
  "encodeURIComponent s = concat (map encode_char s)"

definition hex_value :: "char \<Rightarrow> nat option" where
  "hex_value c =
     (let n = (of_char c :: nat)
      in if 48 \<le> n \<and> n \<le> 57 then Some (n - 48) else if 65 \<le> n \<and> n \<le> 70 then Some (n - 55)
         else if 97 \<le> n \<and> n \<le> 102 then Some (n - 87) else None)"

fun percent_bytes :: "string \<Rightarrow> string option" where
  "percent_bytes [] = Some []"
| "percent_bytes (c # s) =
     (if c \<noteq> CHR ''%'' then map_option ((#) c) (percent_bytes s)
      else case s of
             x # y # t \<Rightarrow>
               (case (hex_value x, hex_value y) of
                  (Some i, Some j) \<Rightarrow> map_option ((#) (char_of (16 * i + j))) (percent_bytes t)
                | _ \<Rightarrow> None)
           | _ \<Rightarrow> None)"

definition trail_byte :: "nat \<Rightarrow> bool" where "trail_byte b \<longleftrightarrow> 0x80 \<le> b \<and> b < 0xC0"

text \<open>Well-formed UTF-8, without overlong forms and surrogates.\<close>

fun utf8 :: "nat list \<Rightarrow> bool" where
  "utf8 [] = True"
| "utf8 (a # s) =
     (if a < 0x80 then utf8 s
      else case s of
             [] \<Rightarrow> False
           | b # s2 \<Rightarrow>
               (if \<not> trail_byte b then False
                else if 0xC2 \<le> a \<and> a < 0xE0 then utf8 s2
                else case s2 of
                       [] \<Rightarrow> False
                     | c # s3 \<Rightarrow>
                         (if \<not> trail_byte c then False
                          else if 0xE0 \<le> a \<and> a < 0xF0
                          then (a = 0xE0 \<longrightarrow> 0xA0 \<le> b) \<and> (a = 0xED \<longrightarrow> b < 0xA0) \<and> utf8 s3
                          else case s3 of
                                 [] \<Rightarrow> False
                               | d # s4 \<Rightarrow>
                                   trail_byte d \<and> 0xF0 \<le> a \<and> a < 0xF5
                                   \<and> (a = 0xF0 \<longrightarrow> 0x90 \<le> b) \<and> (a = 0xF4 \<longrightarrow> b < 0x90) \<and> utf8 s4)))"

definition well_formed :: "string \<Rightarrow> bool" where
  "well_formed s \<longleftrightarrow> utf8 (map of_char s)"

text \<open>\<open>None\<close> when it throws.\<close>

definition decodeURIComponent :: "string \<Rightarrow> string option" where
  "decodeURIComponent s =
     (case percent_bytes s of None \<Rightarrow> None | Some t \<Rightarrow> if well_formed t then Some t else None)"

section \<open>Lemmas\<close>

lemma hex_digit_plain: "n < 16 \<Longrightarrow> hex_digit n \<notin> {CHR ''/'', CHR ''?''}"
  using nth_mem [of n "''0123456789ABCDEF''"] by (auto simp: hex_digit_def)

lemma encode_char_plain: "set (encode_char c) \<inter> {CHR ''/'', CHR ''?''} = {}"
proof (cases "uri_safe c")
  case True
  moreover have "\<not> uri_safe (CHR ''/'')" "\<not> uri_safe (CHR ''?'')" by (simp_all add: uri_safe_def)
  ultimately show ?thesis by (auto simp: encode_char_def)
next
  case False
  have "(of_char c :: nat) div 16 < 16" "(of_char c :: nat) mod 16 < 16" by (simp_all add: less_mult_imp_div_less)
  then show ?thesis using False hex_digit_plain by (auto simp: encode_char_def Let_def)
qed

lemma encode_plain: "CHR ''/'' \<notin> set (encodeURIComponent s)" "CHR ''?'' \<notin> set (encodeURIComponent s)"
  using encode_char_plain by (fastforce simp: encodeURIComponent_def)+

lemma encode_Nil [simp]: "encodeURIComponent s = [] \<longleftrightarrow> s = []"
  by (cases s) (auto simp: encodeURIComponent_def encode_char_def Let_def)

lemma hex_value_digit: "n < 16 \<Longrightarrow> hex_value (hex_digit n) = Some n"
proof -
  have "list_all (\<lambda>n. hex_value (hex_digit n) = Some n) [0..<16]" by code_simp
  then show "n < 16 \<Longrightarrow> ?thesis" by (simp add: list_all_iff)
qed

lemma percent_encoded_char: "percent_bytes (encode_char c @ s) = map_option ((#) c) (percent_bytes s)"
proof (cases "uri_safe c")
  case True
  moreover have "\<not> uri_safe (CHR ''%'')" by (simp add: uri_safe_def)
  ultimately have "c \<noteq> CHR ''%''" by auto
  with True show ?thesis by (simp add: encode_char_def)
next
  case False
  have n: "(of_char c :: nat) div 16 < 16" "(of_char c :: nat) mod 16 < 16" by (simp_all add: less_mult_imp_div_less)
  have "char_of (16 * ((of_char c :: nat) div 16) + of_char c mod 16) = c" by (simp add: mult.commute)
  then show ?thesis using False n by (simp add: encode_char_def Let_def hex_value_digit)
qed

lemma percent_encoded: "percent_bytes (encodeURIComponent s) = Some s"
  by (induction s) (simp_all add: encodeURIComponent_def percent_encoded_char)

lemma decode_encode: "well_formed s \<Longrightarrow> decodeURIComponent (encodeURIComponent s) = Some s"
  by (simp add: decodeURIComponent_def percent_encoded)

end
