(* ===== verification/Console_Shell.thy ===== *)
theory Console_Shell
  imports Auth_Context Ops_Nav Ops_Findings Security_Modules Js_Uri
begin

text \<open>
  The shell of the web console: the route table of web/src/App.tsx with its guards, the side bar of
  layouts/Layout.tsx and the search of components/ops/CommandPalette.tsx.  A page is the name of its
  component; what it shows once rendered, and the icons of the side bar, are left out.
\<close>

section \<open>The route table\<close>

datatype page_guard = NeedRole workspace_role | NeedEdition bool

datatype page_element = Page string | LogoutRedirect | Goto string

record page_route =
  pg_path :: string
  pg_shell :: bool
  pg_guard :: "page_guard option"
  pg_element :: page_element

text \<open>The routes in their order; those of the shell are nested in \<open>RequireAuth\<close> and \<open>Layout\<close>, and their
  paths are written out.\<close>

definition APP_ROUTES :: "page_route list" where
  "APP_ROUTES =
    [\<lparr>pg_path = ''/'', pg_shell = False, pg_guard = None, pg_element = Page ''Home''\<rparr>,
     \<lparr>pg_path = ''/demo'', pg_shell = False, pg_guard = None, pg_element = Page ''DemoWelcome''\<rparr>,
     \<lparr>pg_path = ''/login'', pg_shell = False, pg_guard = None, pg_element = Page ''Login''\<rparr>,
     \<lparr>pg_path = ''/register'', pg_shell = False, pg_guard = None, pg_element = Page ''Register''\<rparr>,
     \<lparr>pg_path = ''/forgot-password'', pg_shell = False, pg_guard = None, pg_element = Page ''ForgotPassword''\<rparr>,
     \<lparr>pg_path = ''/reset-password'', pg_shell = False, pg_guard = None, pg_element = Page ''ResetPassword''\<rparr>,
     \<lparr>pg_path = ''/verify-email'', pg_shell = False, pg_guard = None, pg_element = Page ''VerifyEmail''\<rparr>,
     \<lparr>pg_path = ''/oauth/callback'', pg_shell = False, pg_guard = None, pg_element = Page ''OAuthCallback''\<rparr>,
     \<lparr>pg_path = ''/switcher'', pg_shell = False, pg_guard = None, pg_element = Page ''EditionSwitcher''\<rparr>,
     \<lparr>pg_path = ''/contact'', pg_shell = False, pg_guard = None, pg_element = Page ''ContactHub''\<rparr>,
     \<lparr>pg_path = ''/request-demo'', pg_shell = False, pg_guard = None, pg_element = Page ''RequestDemo''\<rparr>,
     \<lparr>pg_path = ''/pricing'', pg_shell = False, pg_guard = None, pg_element = Page ''Pricing''\<rparr>,
     \<lparr>pg_path = ''/ibm'', pg_shell = False, pg_guard = None, pg_element = Page ''IBMPartner''\<rparr>,
     \<lparr>pg_path = ''/product'', pg_shell = False, pg_guard = None, pg_element = Page ''Product''\<rparr>,
     \<lparr>pg_path = ''/product/cspm'', pg_shell = False, pg_guard = None, pg_element = Page ''CspmPublic''\<rparr>,
     \<lparr>pg_path = ''/cbom'', pg_shell = False, pg_guard = None, pg_element = Page ''CbomPublic''\<rparr>,
     \<lparr>pg_path = ''/pqc'', pg_shell = False, pg_guard = None, pg_element = Page ''PqcPublic''\<rparr>,
     \<lparr>pg_path = ''/enterprise'', pg_shell = False, pg_guard = None, pg_element = Page ''EnterprisePublic''\<rparr>,
     \<lparr>pg_path = ''/security'', pg_shell = False, pg_guard = None, pg_element = Page ''SecurityPublic''\<rparr>,
     \<lparr>pg_path = ''/maps'', pg_shell = False, pg_guard = None, pg_element = Page ''ArchifyMaps''\<rparr>,
     \<lparr>pg_path = ''/logout'', pg_shell = False, pg_guard = None, pg_element = LogoutRedirect\<rparr>,
     \<lparr>pg_path = ''/dashboard'', pg_shell = True, pg_guard = None, pg_element = Page ''Dashboard''\<rparr>,
     \<lparr>pg_path = ''/assets'', pg_shell = True, pg_guard = None, pg_element = Page ''Assets''\<rparr>,
     \<lparr>pg_path = ''/assets/:id'', pg_shell = True, pg_guard = None, pg_element = Page ''AssetDetails''\<rparr>,
     \<lparr>pg_path = ''/findings'', pg_shell = True, pg_guard = None, pg_element = Page ''Findings''\<rparr>,
     \<lparr>pg_path = ''/scanner'', pg_shell = True, pg_guard = None, pg_element = Page ''Scanner''\<rparr>,
     \<lparr>pg_path = ''/cspm'', pg_shell = True, pg_guard = None, pg_element = Page ''CSPM''\<rparr>,
     \<lparr>pg_path = ''/analytics'', pg_shell = True, pg_guard = None, pg_element = Page ''Analytics''\<rparr>,
     \<lparr>pg_path = ''/settings'', pg_shell = True, pg_guard = None, pg_element = Page ''Settings''\<rparr>,
     \<lparr>pg_path = ''/admin'', pg_shell = True, pg_guard = Some (NeedRole admin), pg_element = Page ''Admin''\<rparr>,
     \<lparr>pg_path = ''/tools'', pg_shell = True, pg_guard = None, pg_element = Page ''DevSecOpsTools''\<rparr>,
     \<lparr>pg_path = ''/ecosystem'', pg_shell = True, pg_guard = None, pg_element = Page ''RivicQEcosystem''\<rparr>,
     \<lparr>pg_path = ''/infrastructure'', pg_shell = True, pg_guard = None, pg_element = Page ''InfraDiscovery''\<rparr>,
     \<lparr>pg_path = ''/bom'', pg_shell = True, pg_guard = None, pg_element = Page ''BomIntelligence''\<rparr>,
     \<lparr>pg_path = ''/pipeline'', pg_shell = True, pg_guard = None, pg_element = Page ''DevSecOpsPipeline''\<rparr>,
     \<lparr>pg_path = ''/security/api'', pg_shell = True, pg_guard = None, pg_element = Page ''ApiSecurity''\<rparr>,
     \<lparr>pg_path = ''/security/ai'', pg_shell = True, pg_guard = Some (NeedEdition True), pg_element = Page ''AiSecurity''\<rparr>,
     \<lparr>pg_path = ''/connectors/hsm'', pg_shell = True, pg_guard = Some (NeedEdition True), pg_element = Page ''HsmQuantum''\<rparr>,
     \<lparr>pg_path = ''/governance'', pg_shell = True, pg_guard = None, pg_element = Page ''GovernanceHub''\<rparr>,
     \<lparr>pg_path = ''/migration'', pg_shell = True, pg_guard = None, pg_element = Page ''MigrationHub''\<rparr>,
     \<lparr>pg_path = ''/crm'', pg_shell = True, pg_guard = Some (NeedRole admin), pg_element = Page ''CRMLeads''\<rparr>,
     \<lparr>pg_path = ''/enterprise/inventory'', pg_shell = True, pg_guard = Some (NeedEdition False), pg_element = Page ''Inventory''\<rparr>,
     \<lparr>pg_path = ''/enterprise/compliance'', pg_shell = True, pg_guard = Some (NeedEdition False), pg_element = Page ''Compliance''\<rparr>,
     \<lparr>pg_path = ''/enterprise/quantum'', pg_shell = True, pg_guard = Some (NeedEdition True), pg_element = Page ''Quantum''\<rparr>,
     \<lparr>pg_path = ''/enterprise/multicloud'', pg_shell = True, pg_guard = Some (NeedEdition False), pg_element = Page ''MultiCloud''\<rparr>,
     \<lparr>pg_path = ''/enterprise/cncf'', pg_shell = True, pg_guard = Some (NeedEdition False), pg_element = Page ''CNCF''\<rparr>,
     \<lparr>pg_path = ''/enterprise/terraform'', pg_shell = True, pg_guard = Some (NeedEdition False), pg_element = Page ''TerraformIaC''\<rparr>,
     \<lparr>pg_path = ''/enterprise/ibmcloud'', pg_shell = True, pg_guard = Some (NeedEdition False), pg_element = Page ''IBMCloud''\<rparr>,
     \<lparr>pg_path = ''/enterprise/awscloud'', pg_shell = True, pg_guard = Some (NeedEdition False), pg_element = Page ''AWSCloud''\<rparr>,
     \<lparr>pg_path = ''/enterprise/quantum-attestation'', pg_shell = True, pg_guard = Some (NeedEdition False), pg_element = Page ''QuantumAttestation''\<rparr>,
     \<lparr>pg_path = ''/enterprise/cloud-posture'', pg_shell = True, pg_guard = Some (NeedEdition False), pg_element = Page ''CloudPosture''\<rparr>,
     \<lparr>pg_path = ''/enterprise/conformance-packs'', pg_shell = True, pg_guard = Some (NeedEdition False), pg_element = Page ''ConformancePacks''\<rparr>,
     \<lparr>pg_path = ''/enterprise/cspm'', pg_shell = True, pg_guard = Some (NeedEdition False), pg_element = Page ''CSPM''\<rparr>,
     \<lparr>pg_path = ''/modules'', pg_shell = True, pg_guard = Some (NeedEdition False), pg_element = Page ''PlatformModules''\<rparr>,
     \<lparr>pg_path = ''/modules/:moduleId'', pg_shell = True, pg_guard = Some (NeedEdition False), pg_element = Page ''SecurityModulePage''\<rparr>,
     \<lparr>pg_path = ''*'', pg_shell = False, pg_guard = None, pg_element = Goto ''/''\<rparr>]"

text \<open>\<open>user?.role\<close>: \<open>None\<close> when it is neither a string nor falsy, and normalising it throws.\<close>

definition user_role :: "jval \<Rightarrow> string option option" where
  "user_role u =
     (case js_prop u ''role'' of
        JStr s \<Rightarrow> Some (Some s)
      | v \<Rightarrow> (if js_truthy v then None else Some None))"

text \<open>What a route renders; \<open>None\<close> when rendering throws into the error boundary.\<close>

definition guarded :: "'a auth_scheme \<Rightarrow> page_guard option \<Rightarrow> 'c \<Rightarrow> 'c gate option" where
  "guarded a g el =
     (case g of
        None \<Rightarrow> Some (Children el)
      | Some (NeedEdition layers) \<Rightarrow> Some (RequireEnterprise layers a el)
      | Some (NeedRole need) \<Rightarrow>
          (if \<not> isAuthenticated a then Some (Redirect ''/login'')
           else map_option (\<lambda>role. RequireRole (isAuthenticated a) role need el) (user_role (au_user a))))"

definition render_route :: "'a auth_scheme \<Rightarrow> page_route \<Rightarrow> page_element gate option" where
  "render_route a r =
     (if \<not> pg_shell r then Some (Children (pg_element r))
      else (case RequireAuth a () of
              Children _ \<Rightarrow> guarded a (pg_guard r) (pg_element r)
            | Spinner \<Rightarrow> Some Spinner
            | Redirect p \<Rightarrow> Some (Redirect p)
            | Locked \<Rightarrow> Some Locked))"

text \<open>A path against the path of a route: a segment that starts with a colon stands for any segment that
  is not empty.  The query of a link is not part of its path.\<close>

fun segments_match :: "string list \<Rightarrow> string list \<Rightarrow> bool" where
  "segments_match [] [] = True"
| "segments_match (p # ps) (s # ss) =
     ((if starts_with p '':'' then s \<noteq> [] else p = s) \<and> segments_match ps ss)"
| "segments_match _ _ = False"

definition path_of :: "string \<Rightarrow> string" where
  "path_of link = takeWhile (\<lambda>c. c \<noteq> CHR ''?'') link"

definition routes_at :: "string \<Rightarrow> page_route list" where
  "routes_at link =
     filter (\<lambda>r. segments_match (split_on CHR ''/'' (pg_path r)) (split_on CHR ''/'' (path_of link))) APP_ROUTES"

section \<open>The side bar\<close>

record nav_item =
  nv_text :: string
  nv_path :: string
  nv_section :: "string option"
  nv_disabled :: "bool option"

definition toNav :: "string \<Rightarrow> string \<Rightarrow> string option \<Rightarrow> bool option \<Rightarrow> nav_item" where
  "toNav path label sec disabled =
     \<lparr>nv_text = label, nv_path = path, nv_section = sec, nv_disabled = disabled\<rparr>"

definition bySection :: "ops_section \<Rightarrow> ops_route list" where
  "bySection s = filter (\<lambda>r. rt_section r = s) OPS_ROUTES"

definition operationsItems :: "bool \<Rightarrow> nav_item list" where
  "operationsItems is_demo =
     map (\<lambda>r. toNav (rt_path r) (rt_text r) None None) (bySection SOperations)
     @ (if is_demo then [toNav ''/demo'' ''Demo Trail'' (Some ''Operations'') None] else [])"

definition postureItems :: "nav_item list" where
  "postureItems = map (\<lambda>r. toNav (rt_path r) (rt_text r) (Some ''Posture'') None) (bySection SPosture)"

definition integrationItems :: "bool \<Rightarrow> nav_item list" where
  "integrationItems is_admin =
     map (\<lambda>r. toNav (rt_path r) (rt_text r) (Some ''Integrations'') None)
       (filter (\<lambda>r. rt_adminOnly r \<noteq> Some True \<or> is_admin) (bySection SIntegrations))"

definition settingsItem :: nav_item where
  "settingsItem = toNav ''/settings'' ''Settings'' None None"

definition adminItem :: nav_item where
  "adminItem = toNav ''/admin'' ''Admin'' None None"

definition allWorkspaceItems :: "bool \<Rightarrow> bool \<Rightarrow> nav_item list" where
  "allWorkspaceItems is_demo is_admin =
     operationsItems is_demo @ postureItems @ integrationItems is_admin @ [settingsItem]
     @ (if is_admin then [adminItem] else [])"

definition enterpriseItems :: "bool \<Rightarrow> nav_item list" where
  "enterpriseItems paid =
     map (\<lambda>r. toNav (rt_path r) (rt_text r) (Some ''Enterprise'') (Some (\<not> paid)))
       (filter (\<lambda>r. rt_enterpriseOnly r = Some True) OPS_ROUTES)"

definition modulesNav :: "bool \<Rightarrow> sec_module list \<Rightarrow> nav_item list" where
  "modulesNav paid modules =
     map (\<lambda>it. it\<lparr>nv_disabled := Some (\<not> paid)\<rparr>)
       (toNav ''/modules'' ''All Modules'' (Some ''Security Modules'') None
        # map (\<lambda>m. toNav (''/modules/'' @ md_id m) (md_name m) (Some ''Security Modules'') None) modules)"

text \<open>The lists shown for what is typed into the search field of the side bar.\<close>

definition navMatch :: "string \<Rightarrow> nav_item \<Rightarrow> bool" where
  "navMatch q item = str_includes (str_lower (nv_text item)) (str_lower (str_trim q))"

definition matches_in :: "string \<Rightarrow> nav_item list \<Rightarrow> nav_item list" where
  "matches_in q items = (if q \<noteq> [] then filter (navMatch q) items else items)"

definition workspaceMatches :: "string \<Rightarrow> bool \<Rightarrow> bool \<Rightarrow> nav_item list" where
  "workspaceMatches q is_demo is_admin =
     matches_in q (if q \<noteq> [] then allWorkspaceItems is_demo is_admin else operationsItems is_demo)"

definition shown_items :: "string \<Rightarrow> bool \<Rightarrow> bool \<Rightarrow> bool \<Rightarrow> nav_item list" where
  "shown_items q is_demo is_admin paid =
     workspaceMatches q is_demo is_admin @ matches_in q postureItems @ matches_in q (integrationItems is_admin)
     @ matches_in q (enterpriseItems paid)"

definition isActive :: "string \<Rightarrow> string \<Rightarrow> bool" where
  "isActive pathname path \<longleftrightarrow> pathname = path \<or> (path \<noteq> ''/dashboard'' \<and> starts_with pathname (path @ ''/''))"

definition currentSection :: "string \<Rightarrow> bool \<Rightarrow> bool \<Rightarrow> string" where
  "currentSection pathname is_admin paid =
     (if list_ex (\<lambda>it. isActive pathname (nv_path it)) postureItems then ''Posture''
      else if list_ex (\<lambda>it. isActive pathname (nv_path it)) (integrationItems is_admin) then ''Integrations''
      else if list_ex (\<lambda>it. isActive pathname (nv_path it)) (enterpriseItems paid) then ''Enterprise''
      else if starts_with pathname ''/modules'' then ''Security Modules'' else ''Operations'')"

definition currentTitle :: "string \<Rightarrow> bool \<Rightarrow> bool \<Rightarrow> bool \<Rightarrow> sec_module list \<Rightarrow> string" where
  "currentTitle pathname is_demo is_admin paid modules =
     (let items = allWorkspaceItems is_demo is_admin @ enterpriseItems paid @ modulesNav paid modules;
          active = find (\<lambda>it. nv_path it \<noteq> ''/modules'' \<and> isActive pathname (nv_path it)) items
      in if starts_with pathname ''/modules/'' \<and> pathname \<noteq> ''/modules'' then
           (case split_on CHR ''/'' pathname of
              _ # _ # i # _ \<Rightarrow> (case find (\<lambda>m. md_id m = i) modules of None \<Rightarrow> ''Security Module'' | Some m \<Rightarrow> md_name m)
            | _ \<Rightarrow> ''Security Module'')
         else (case active of Some it \<Rightarrow> nv_text it | None \<Rightarrow> titleFor pathname None))"

section \<open>The command palette\<close>

record palette_scan =
  ps_id :: string
  ps_target :: string
  ps_status :: string

record palette_hit =
  ph_id :: string
  ph_group :: string
  ph_label :: string
  ph_hint :: "string option"
  ph_path :: string

definition score :: "string \<Rightarrow> string \<Rightarrow> nat" where
  "score q txt =
     (let n = str_lower q; t = str_lower txt
      in if n = [] then 1 else if starts_with t n then 3 else if str_includes t n then 2 else 0)"

definition action_hits :: "string \<Rightarrow> palette_hit list" where
  "action_hits query =
     map (\<lambda>a. \<lparr>ph_id = ''act-'' @ pa_id a, ph_group = ''Actions'', ph_label = pa_label a, ph_hint = None,
               ph_path = pa_path a\<rparr>)
       (filter (\<lambda>a. query = [] \<or> score query (pa_label a @ '' '' @ str_join '' '' (pa_keywords a)) \<noteq> 0) PALETTE_ACTIONS)"

definition route_hits :: "bool \<Rightarrow> string \<Rightarrow> palette_hit list" where
  "route_hits paid query =
     map (\<lambda>r. \<lparr>ph_id = ''nav-'' @ rt_path r, ph_group = section_label (rt_section r), ph_label = rt_text r,
               ph_hint = Some (rt_path r), ph_path = rt_path r\<rparr>)
       (filter (\<lambda>r. query = []
            \<or> score query (rt_text r @ '' '' @ rt_path r @ '' '' @ str_join '' '' (rt_keywords r)) \<noteq> 0)
         (filter (\<lambda>r. (paid \<or> rt_enterpriseOnly r \<noteq> Some True) \<and> rt_adminOnly r \<noteq> Some True) OPS_ROUTES))"

definition finding_hits :: "string \<Rightarrow> ops_finding list \<Rightarrow> palette_hit list" where
  "finding_hits query findings =
     map (\<lambda>f. \<lparr>ph_id = ''f-'' @ of_id f, ph_group = ''Findings'', ph_label = of_title f,
               ph_hint = Some (or_str (of_asset f) (of_severity f)),
               ph_path = ''/findings?id='' @ encodeURIComponent (of_id f)\<rparr>)
       (filter (\<lambda>f. query \<noteq> [] \<and> score query (of_title f @ '' '' @ of_asset f @ '' ''
            @ or_opt (of_algorithm f) [] @ '' '' @ of_id f) \<noteq> 0) (take 40 findings))"

definition scan_hits :: "string \<Rightarrow> palette_scan list \<Rightarrow> palette_hit list" where
  "scan_hits query scans =
     map (\<lambda>s. \<lparr>ph_id = ''s-'' @ ps_id s, ph_group = ''Scans'', ph_label = or_str (ps_target s) (ps_id s),
               ph_hint = Some (ps_status s), ph_path = ''/scanner?scan='' @ encodeURIComponent (ps_id s)\<rparr>)
       (filter (\<lambda>s. query \<noteq> [] \<and> score query (ps_target s @ '' '' @ ps_id s @ '' '' @ ps_status s) \<noteq> 0)
         (take 20 scans))"

definition asset_hits :: "string \<Rightarrow> (string \<times> string) list \<Rightarrow> palette_hit list" where
  "asset_hits query assets =
     map (\<lambda>(i, name). \<lparr>ph_id = ''a-'' @ i, ph_group = ''Assets'', ph_label = name, ph_hint = None,
               ph_path = ''/assets/'' @ encodeURIComponent i\<rparr>)
       (filter (\<lambda>(i, name). query \<noteq> [] \<and> score query (name @ '' '' @ i) \<noteq> 0) (take 20 assets))"

definition hits ::
  "bool \<Rightarrow> string \<Rightarrow> ops_finding list \<Rightarrow> palette_scan list \<Rightarrow> (string \<times> string) list \<Rightarrow> palette_hit list" where
  "hits paid q findings scans assets =
     (let query = str_trim q
      in take 40 (action_hits query @ route_hits paid query @ finding_hits query findings
           @ scan_hits query scans @ asset_hits query assets))"

text \<open>The highlighted row under the arrow keys.\<close>

datatype palette_key = ArrowDown | ArrowUp | OtherKey

fun move :: "nat \<Rightarrow> palette_key \<Rightarrow> nat \<Rightarrow> nat" where
  "move n ArrowDown active = min (active + 1) (n - 1)"
| "move n ArrowUp active = active - 1"
| "move n OtherKey active = active"

section \<open>Lemmas on guards\<close>

lemma user_role_str [simp]: "js_prop u ''role'' = JStr s \<Longrightarrow> user_role u = Some (Some s)"
  by (simp add: user_role_def)

text \<open>A session that the guards of the shell let through.\<close>

definition signed_in :: "'a auth_scheme \<Rightarrow> string option \<Rightarrow> bool" where
  "signed_in a role \<longleftrightarrow> isAuthenticated a \<and> \<not> au_loading a \<and> user_role (au_user a) = Some role"

definition admits :: "'a auth_scheme \<Rightarrow> string option \<Rightarrow> page_guard option \<Rightarrow> bool" where
  "admits a role g \<longleftrightarrow>
     (case g of None \<Rightarrow> True
      | Some (NeedRole need) \<Rightarrow> roleAtLeast role need
      | Some (NeedEdition layers) \<Rightarrow>
          (if layers then isEnterpriseEdition (au_edition a) else isPaidEdition (au_edition a)))"

lemma render_signed_in:
  assumes "signed_in a role"
  shows "render_route a r = Some (if \<not> pg_shell r \<or> admits a role (pg_guard r) then Children (pg_element r) else Locked)"
  using assms
  by (auto simp: render_route_def guarded_def signed_in_def RequireAuth_def RequireRole_def RequireEnterprise_def
      admits_def Let_def split: option.splits page_guard.splits)

lemma RequireRole_admin: "RequireRole True role admin c = Children c \<longleftrightarrow> isAdminRole role"
proof -
  have "4 \<le> rank_of r \<longleftrightarrow> r = admin" for r by (cases r) simp_all
  then show ?thesis by (simp add: RequireRole_def roleAtLeast_rank isAdminRole_def)
qed

lemma admits_admin: "admits a role (Some (NeedRole admin)) \<longleftrightarrow> isAdminRole role"
  using RequireRole_admin [of role "()"] by (simp add: admits_def RequireRole_def split: if_splits)

section \<open>Lemmas on links\<close>

text \<open>A link leads to one page, behind the given guard.\<close>

definition leads_to :: "string \<Rightarrow> page_guard option \<Rightarrow> bool" where
  "leads_to link g \<longleftrightarrow>
     (case routes_at link of
        [r] \<Rightarrow> pg_guard r = g \<and> (g \<noteq> None \<longrightarrow> pg_shell r) \<and> (case pg_element r of Page _ \<Rightarrow> True | _ \<Rightarrow> False)
      | _ \<Rightarrow> False)"

definition opened :: "'a auth_scheme \<Rightarrow> string \<Rightarrow> bool" where
  "opened a link \<longleftrightarrow> (\<exists>r p. routes_at link = [r] \<and> render_route a r = Some (Children (Page p)))"

definition locked :: "'a auth_scheme \<Rightarrow> string \<Rightarrow> bool" where
  "locked a link \<longleftrightarrow> (\<exists>r. routes_at link = [r] \<and> render_route a r = Some Locked)"

lemma opened_not_locked: "opened a link \<Longrightarrow> \<not> locked a link"
  by (auto simp: opened_def locked_def)

lemma leads_to_decides:
  assumes "signed_in a role" "leads_to link g"
  shows "if admits a role g then opened a link else locked a link"
proof -
  from assms(2) obtain r p where r: "routes_at link = [r]" "pg_guard r = g" "g \<noteq> None \<longrightarrow> pg_shell r" "pg_element r = Page p"
    by (auto simp: leads_to_def split: list.splits page_element.splits)
  then show ?thesis
    using render_signed_in [OF assms(1), of r]
    by (cases "g = None") (auto simp: opened_def locked_def admits_def)
qed

lemma leads_to_query: "leads_to (path_of link) g \<Longrightarrow> leads_to link g"
proof -
  have "path_of (path_of link) = path_of link" by (simp add: path_of_def takeWhile_idem)
  then show "leads_to (path_of link) g \<Longrightarrow> leads_to link g" by (simp add: leads_to_def routes_at_def)
qed

text \<open>The routes below a path: only those can match a link with one more segment.\<close>

lemma below_assets:
  "filter (\<lambda>r. let ps = split_on CHR ''/'' (pg_path r) in length ps = 3 \<and> segments_match (take 2 ps) [[], ''assets'']) APP_ROUTES
   = [\<lparr>pg_path = ''/assets/:id'', pg_shell = True, pg_guard = None, pg_element = Page ''AssetDetails''\<rparr>]"
  by code_simp

lemma below_modules:
  "filter (\<lambda>r. let ps = split_on CHR ''/'' (pg_path r) in length ps = 3 \<and> segments_match (take 2 ps) [[], ''modules'']) APP_ROUTES
   = [\<lparr>pg_path = ''/modules/:moduleId'', pg_shell = True, pg_guard = Some (NeedEdition False),
       pg_element = Page ''SecurityModulePage''\<rparr>]"
  by code_simp

lemma match_three: "segments_match ps [x, y, z] \<Longrightarrow> length ps = 3 \<and> segments_match (take 2 ps) [x, y]"
  by (auto elim!: segments_match.elims split: if_splits)

lemma routes_below:
  assumes "split_on CHR ''/'' (path_of link) = [x, y, z]"
  shows "routes_at link = filter (\<lambda>r. segments_match (split_on CHR ''/'' (pg_path r)) [x, y, z])
    (filter (\<lambda>r. let ps = split_on CHR ''/'' (pg_path r) in length ps = 3 \<and> segments_match (take 2 ps) [x, y]) APP_ROUTES)"
  unfolding routes_at_def assms filter_filter Let_def
  by (rule filter_cong [OF refl]) (auto dest: match_three)

lemma one_segment:
  assumes "i \<noteq> []" "CHR ''/'' \<notin> set i" "CHR ''?'' \<notin> set i"
  shows "leads_to (''/assets/'' @ i) None" "leads_to (''/modules/'' @ i) (Some (NeedEdition False))"
proof -
  have i: "takeWhile (\<lambda>c. c \<noteq> CHR ''?'') i = i" using assms(3) by (auto simp: takeWhile_eq_all_conv)
  have s: "split_on CHR ''/'' i = [i]" by (rule split_on_none [OF assms(2)])
  have "split_on CHR ''/'' (path_of (''/assets/'' @ i)) = [[], ''assets'', i]"
    "split_on CHR ''/'' (path_of (''/modules/'' @ i)) = [[], ''modules'', i]"
    by (simp_all add: path_of_def i s)
  from this [THEN routes_below] show "leads_to (''/assets/'' @ i) None"
    "leads_to (''/modules/'' @ i) (Some (NeedEdition False))"
    unfolding leads_to_def below_assets below_modules using assms(1) by (simp_all add: starts_with_def)
qed

text \<open>The pages that need the full Enterprise edition.\<close>

definition layer_paths :: "string list" where
  "layer_paths = [''/connectors/hsm'', ''/security/ai'', ''/enterprise/quantum'']"

definition route_guard :: "ops_route \<Rightarrow> page_guard option" where
  "route_guard r =
     (if rt_adminOnly r = Some True then Some (NeedRole admin)
      else if rt_enterpriseOnly r = Some True then Some (NeedEdition (rt_path r \<in> set layer_paths))
      else None)"

lemma console_routes: "list_all (\<lambda>r. leads_to (rt_path r) (route_guard r)) OPS_ROUTES"
  by code_simp

lemma route_flags:
  "list_all (\<lambda>r. rt_path r \<noteq> ''/admin''
     \<and> (rt_path r \<in> set layer_paths \<longrightarrow> rt_adminOnly r \<noteq> Some True \<and> rt_enterpriseOnly r = Some True)) OPS_ROUTES"
  by code_simp

lemma section_flags:
  "list_all (\<lambda>r. (rt_section r = SOperations \<or> rt_section r = SPosture \<longrightarrow>
         rt_adminOnly r \<noteq> Some True \<and> rt_enterpriseOnly r \<noteq> Some True)
     \<and> (rt_section r = SIntegrations \<longrightarrow> rt_enterpriseOnly r \<noteq> Some True)
     \<and> (rt_enterpriseOnly r = Some True \<longrightarrow> rt_adminOnly r \<noteq> Some True)) OPS_ROUTES"
  by code_simp

lemma module_ids:
  "list_all (\<lambda>i. i \<noteq> [] \<and> CHR ''/'' \<notin> set i \<and> CHR ''?'' \<notin> set i) (map md_id UMBRELLA_MODULES @ map sd_id SEEDS)"
  by code_simp

lemma palette_routes: "list_all (\<lambda>p. pa_id p = ''admin'' \<or> leads_to (pa_path p) None) PALETTE_ACTIONS"
  by code_simp

lemma fixed_links:
  "leads_to ''/findings'' None" "leads_to ''/scanner'' None" "leads_to ''/demo'' None" "leads_to ''/settings'' None"
  "leads_to ''/admin'' (Some (NeedRole admin))" "leads_to ''/modules'' (Some (NeedEdition False))"
  by code_simp+

section \<open>Lemmas on sessions\<close>

lemma access:
  assumes "signed_in a role" "leads_to link g"
  shows "opened a link \<longleftrightarrow> admits a role g" "locked a link \<longleftrightarrow> \<not> admits a role g"
  using leads_to_decides [OF assms] opened_not_locked by (auto split: if_splits)

lemma admits_layers:
  "isPaidEdition (au_edition a) \<Longrightarrow> \<not> admits a role (Some (NeedEdition layers)) \<longleftrightarrow> layers \<and> au_edition a = professional"
  by (cases "au_edition a") (auto simp: admits_def isPaidEdition_def isEnterpriseEdition_def)

text \<open>Which links a signed-in session that sees them cannot follow.\<close>

definition shut :: "'a auth_scheme \<Rightarrow> string option \<Rightarrow> string \<Rightarrow> bool" where
  "shut a role link \<longleftrightarrow> link = ''/admin'' \<and> \<not> isAdminRole role \<or> link \<in> set layer_paths \<and> au_edition a = professional"

definition link_fine :: "'a auth_scheme \<Rightarrow> string option \<Rightarrow> string \<Rightarrow> bool" where
  "link_fine a role link \<longleftrightarrow> (if shut a role link then locked a link else opened a link)"

lemma console_access:
  assumes "signed_in a role" "r \<in> set OPS_ROUTES" "rt_adminOnly r = Some True \<longrightarrow> isAdminRole role"
    and "rt_enterpriseOnly r = Some True \<longrightarrow> isPaidEdition (au_edition a)"
  shows "link_fine a role (rt_path r)"
proof -
  have l: "leads_to (rt_path r) (route_guard r)" using console_routes assms(2) by (simp add: list_all_iff)
  have f: "rt_path r \<noteq> ''/admin''"
    "rt_path r \<in> set layer_paths \<Longrightarrow> rt_adminOnly r \<noteq> Some True \<and> rt_enterpriseOnly r = Some True"
    using assms(2) route_flags by (simp_all only: list_all_iff) blast+
  have "admits a role (route_guard r) \<longleftrightarrow> \<not> shut a role (rt_path r)"
  proof (cases "rt_adminOnly r = Some True \<or> rt_enterpriseOnly r \<noteq> Some True")
    case True
    then have "rt_path r \<notin> set layer_paths" using f(2) by blast
    moreover have "admits a role (route_guard r)"
      using True assms(3) by (cases "rt_adminOnly r = Some True") (simp_all add: route_guard_def admits_admin, simp add: admits_def)
    ultimately show ?thesis using f(1) by (simp add: shut_def)
  next
    case False
    then show ?thesis
      using f(1) admits_layers [of a role "rt_path r \<in> set layer_paths"] assms(4)
      by (simp add: route_guard_def shut_def) blast
  qed
  then show ?thesis unfolding link_fine_def access [OF assms(1) l] by simp
qed

section \<open>Properties\<close>

text \<open>Every hit of the command palette leads to exactly one page, whatever is typed and whatever
  findings, scans and assets there are, at most forty are offered, and a signed-in session can open each
  of them, except the user management, which is offered to everyone but opens for administrators only,
  and the three pages of the full Enterprise edition, which a Professional session is offered.\<close>

theorem palette_links:
  assumes "signed_in a role" "paid = isPaidEdition (au_edition a)" "\<forall>(i, n) \<in> set assets. i \<noteq> []"
  shows "length (hits paid q findings scans assets) \<le> 40
    \<and> (\<forall>h \<in> set (hits paid q findings scans assets).
         link_fine a role (ph_path h))"
proof -
  have query: "\<not> shut a role l \<and> opened a l" if "leads_to (path_of l) None" "CHR ''?'' \<in> set l" for l
  proof -
    have "opened a l" using access(1) [OF assms(1) leads_to_query [OF that(1)]] by (simp add: admits_def)
    moreover have "l \<notin> {''/admin'', ''/connectors/hsm'', ''/security/ai'', ''/enterprise/quantum''}" using that(2) by auto
    ultimately show ?thesis by (auto simp: shut_def layer_paths_def)
  qed
  have actions: "link_fine a role (ph_path h)"
    if "h \<in> set (action_hits query)" for h query
  proof -
    from that obtain p where p: "p \<in> set PALETTE_ACTIONS" "ph_path h = pa_path p" by (auto simp: action_hits_def)
    show ?thesis
    proof (cases "pa_id p = ''admin''")
      case True
      then have "ph_path h = ''/admin''" using p by (auto simp: PALETTE_ACTIONS_def)
      then show ?thesis
        using access [OF assms(1) fixed_links(5)] by (simp add: link_fine_def admits_admin shut_def layer_paths_def)
    next
      case False
      then have "leads_to (pa_path p) None" "pa_path p \<notin> set (''/admin'' # layer_paths)"
        using palette_routes p(1) by (auto simp: list_all_iff PALETTE_ACTIONS_def layer_paths_def)
      then show ?thesis using access(1) [OF assms(1)] p(2) by (auto simp: link_fine_def admits_def shut_def)
    qed
  qed
  have routes: "link_fine a role (ph_path h)"
    if "h \<in> set (route_hits paid query)" for h query
    using that console_access [OF assms(1)] assms(2) by (force simp: route_hits_def)
  have found: "link_fine a role (ph_path h)"
    if "h \<in> set (finding_hits query findings) \<union> set (scan_hits query scans)" for h query
  proof -
    from that obtain i where "ph_path h = ''/findings?id='' @ i \<or> ph_path h = ''/scanner?scan='' @ i"
      by (auto simp: finding_hits_def scan_hits_def)
    then show ?thesis using query [of "ph_path h"] fixed_links(1,2) by (auto simp: link_fine_def path_of_def)
  qed
  have assets: "link_fine a role (ph_path h)"
    if "h \<in> set (asset_hits query assets)" for h query
  proof -
    from that obtain i n where "(i, n) \<in> set assets" and i: "ph_path h = ''/assets/'' @ encodeURIComponent i"
      by (auto simp: asset_hits_def dest: in_set_takeD)
    then have "i \<noteq> []" using assms(3) by auto
    then have "leads_to (ph_path h) None" unfolding i by (intro one_segment) (simp_all add: encode_plain)
    moreover have "\<not> shut a role (ph_path h)" using i(1) by (simp add: shut_def layer_paths_def)
    ultimately show ?thesis using access(1) [OF assms(1)] by (simp add: link_fine_def admits_def)
  qed
  show ?thesis
    unfolding hits_def Let_def
    by (auto dest!: in_set_takeD intro: actions routes found [OF UnI1] found [OF UnI2] assets)
qed

lemma ex_session:
  "signed_in (ex_auth [] True\<lparr>au_token := Some ''jwt'', au_user := JObj [(''role'', JStr ''analyst'')],
     au_edition := professional\<rparr>) (Some ''analyst'')"
  by (simp add: signed_in_def isAuthenticated_def ex_auth_def user_role_def)

theorem palette_links_witness:
  "length (hits True ''key'' [] [] [(''k1'', ''Key one'')]) \<le> 40
   \<and> (\<exists>h \<in> set (hits True ''users'' [] [] []). ph_path h = ''/admin''
        \<and> locked (ex_auth [] True\<lparr>au_token := Some ''jwt'', au_user := JObj [(''role'', JStr ''analyst'')],
             au_edition := professional\<rparr>) ''/admin'')"
proof -
  let ?a = "ex_auth [] True\<lparr>au_token := Some ''jwt'', au_user := JObj [(''role'', JStr ''analyst'')], au_edition := professional\<rparr>"
  have paid: "True = isPaidEdition (au_edition ?a)" by (simp add: isPaidEdition_def)
  have "length (hits True ''key'' [] [] [(''k1'', ''Key one'')]) \<le> 40"
    using palette_links [OF ex_session paid, of "[(''k1'', ''Key one'')]" "''key''" "[]" "[]"] by simp
  moreover have "list_ex (\<lambda>h. ph_path h = ''/admin'') (hits True ''users'' [] [] [])" by code_simp
  then obtain h where h: "h \<in> set (hits True ''users'' [] [] [])" "ph_path h = ''/admin''" by (auto simp: list_ex_iff)
  moreover have "\<not> isAdminRole (Some ''analyst'')" by code_simp
  then have "locked ?a (ph_path h)"
    using palette_links [OF ex_session paid, of "[]" "''users''" "[]" "[]"] h by (auto simp: link_fine_def shut_def)
  ultimately show ?thesis by auto
qed

text \<open>Every entry of the side bar that is not greyed out leads to exactly one page, which a signed-in
  session can open, except the three pages of the full Enterprise edition in a Professional session; in
  particular the administration is listed for administrators only.\<close>

theorem sidebar_links:
  assumes "signed_in a role" "paid = isPaidEdition (au_edition a)" "adm = isAdminRole role"
    and "it \<in> set (allWorkspaceItems is_demo adm @ enterpriseItems paid @ modulesNav paid (modules_of loc))"
    and "nv_disabled it \<noteq> Some True"
  shows "if shut a role (nv_path it) then locked a (nv_path it) \<and> au_edition a = professional
    else opened a (nv_path it)"
proof -
  have plain: "opened a l \<and> \<not> shut a role l" if "leads_to l None" "l \<notin> set (''/admin'' # layer_paths)" for l
    using access(1) [OF assms(1) that(1)] that(2) by (auto simp: admits_def shut_def)
  have console: "if shut a role (rt_path r) then locked a (rt_path r) \<and> au_edition a = professional else opened a (rt_path r)"
    if "r \<in> set OPS_ROUTES" "rt_adminOnly r = Some True \<longrightarrow> adm" "rt_enterpriseOnly r = Some True \<longrightarrow> paid" for r
  proof -
    have "rt_path r \<noteq> ''/admin''" using route_flags that(1) by (simp add: list_all_iff)
    then show ?thesis using console_access [OF assms(1) that(1)] that(2,3) assms(2,3) by (auto simp: link_fine_def shut_def)
  qed
  have flags: "r \<in> set OPS_ROUTES \<Longrightarrow> rt_section r \<in> {SOperations, SPosture} \<Longrightarrow>
      rt_adminOnly r \<noteq> Some True \<and> rt_enterpriseOnly r \<noteq> Some True"
    "r \<in> set OPS_ROUTES \<Longrightarrow> rt_section r = SIntegrations \<Longrightarrow> rt_enterpriseOnly r \<noteq> Some True"
    "r \<in> set OPS_ROUTES \<Longrightarrow> rt_enterpriseOnly r = Some True \<Longrightarrow> rt_adminOnly r \<noteq> Some True" for r
    using section_flags by (auto simp: list_all_iff)
  consider (route) r where "r \<in> set OPS_ROUTES" "nv_path it = rt_path r" "rt_adminOnly r = Some True \<longrightarrow> adm"
      "rt_enterpriseOnly r = Some True \<longrightarrow> paid"
    | (fixed) "nv_path it \<in> {''/demo'', ''/settings''}"
    | (admin) "nv_path it = ''/admin''" adm
    | (modules) i where "paid" "nv_path it = ''/modules'' \<or> nv_path it = ''/modules/'' @ i \<and> i \<in> set (map md_id (modules_of loc))"
    using assms(4,5) flags
    by (auto simp: allWorkspaceItems_def operationsItems_def postureItems_def integrationItems_def settingsItem_def
        adminItem_def enterpriseItems_def modulesNav_def toNav_def bySection_def split: if_splits)
  then show ?thesis
  proof cases
    case route
    then show ?thesis using console by simp
  next
    case fixed
    then show ?thesis using plain fixed_links(3,4) by (auto simp: layer_paths_def)
  next
    case admin
    then have "opened a ''/admin''" "\<not> shut a role ''/admin''"
      using access(1) [OF assms(1) fixed_links(5)] assms(3) by (auto simp: admits_admin shut_def layer_paths_def)
    then show ?thesis using admin by simp
  next
    case modules
    have "leads_to (nv_path it) (Some (NeedEdition False))"
      using modules(2) fixed_links(6) one_segment(2) module_ids unfolding modules_ids
      by (auto simp: list_all_iff)
    moreover have "\<not> shut a role (nv_path it)" using modules(2) by (auto simp: shut_def layer_paths_def)
    moreover have "admits a role (Some (NeedEdition False))" using modules(1) assms(2) by (simp add: admits_def)
    ultimately show ?thesis using access(1) [OF assms(1)] by simp
  qed
qed

theorem sidebar_links_witness:
  "opened (ex_auth [] True\<lparr>au_token := Some ''jwt'', au_user := JObj [(''role'', JStr ''analyst'')],
     au_edition := professional\<rparr>) ''/settings''"
  using sidebar_links [OF ex_session refl refl, of settingsItem False "\<lambda>_. []"]
  by (simp add: allWorkspaceItems_def settingsItem_def toNav_def shut_def layer_paths_def)

text \<open>While something is typed into the search field of the side bar, a posture or integration page
  that matches it is listed twice: the first list is searched over every workspace page, theirs
  included.\<close>

theorem sidebar_search_twice:
  assumes "q \<noteq> []" "it \<in> set postureItems \<union> set (integrationItems adm)" "navMatch q it"
  shows "2 \<le> count_list (shown_items q is_demo adm paid) it"
proof -
  have pos: "x \<in> set xs \<Longrightarrow> 1 \<le> count_list xs x" for x :: nav_item and xs
    by (metis count_list_0_iff less_one not_le)
  have "it \<in> set (workspaceMatches q is_demo adm)"
    using assms by (auto simp: workspaceMatches_def matches_in_def allWorkspaceItems_def)
  moreover have "it \<in> set (matches_in q postureItems @ matches_in q (integrationItems adm))"
    using assms by (auto simp: matches_in_def)
  ultimately show ?thesis
    using pos [of it "workspaceMatches q is_demo adm"] pos [of it "matches_in q postureItems @ matches_in q (integrationItems adm)"]
    by (simp add: shown_items_def)
qed

theorem sidebar_search_twice_witness:
  "2 \<le> count_list (shown_items ''Reports'' False False False) (toNav ''/analytics'' ''Reports'' (Some ''Posture'') None)"
proof -
  have "list_ex ((=) (toNav ''/analytics'' ''Reports'' (Some ''Posture'') None)) postureItems" by code_simp
  then have "toNav ''/analytics'' ''Reports'' (Some ''Posture'') None \<in> set postureItems" by (simp add: list_ex_iff)
  moreover have "navMatch ''Reports'' (toNav ''/analytics'' ''Reports'' (Some ''Posture'') None)" by code_simp
  ultimately show ?thesis by (intro sidebar_search_twice) simp_all
qed

end
