(* ===== verification/Console_Access.thy ===== *)
theory Console_Access
  imports Console_Shell
begin

text \<open>
  Which pages of the console a session opens: the route table of web/src/App.tsx under the sessions of
  context/AuthContext.tsx.
\<close>

section \<open>Lemmas\<close>

text \<open>An offline demo has the demo's own user, whatever happens inside the session.\<close>

definition demo_session :: "'a auth_scheme \<Rightarrow> bool" where
  "demo_session a \<longleftrightarrow> offline_demo a \<and> au_user a = demo_user \<and> \<not> au_loading a"

lemma demo_session_step: "demo_session a \<Longrightarrow> demo_session (demo_step_in sf fmt c a e)"
proof -
  assume d: "demo_session a"
  have "au_user (demo_step_in sf fmt c a e) = au_user a \<and> au_loading (demo_step_in sf fmt c a e) = au_loading a"
    using d by (cases e) (auto simp: demo_step_in_def demo_session_def offline_demo_def refreshMe_def updateProfile_def
        setEdition_def isClientDemoToken_def split: sum.split)
  moreover have "offline_demo (demo_step_in sf fmt c a e)"
    using d by (intro offline.step_inv) (simp add: demo_session_def)
  ultimately show "demo_session (demo_step_in sf fmt c a e)" using d by (simp add: demo_session_def)
qed

interpretation demo_console: invariant_machine "demo_step_in sf fmt c" demo_session for sf fmt c
  by unfold_locales (rule demo_session_step)

lemma demoLogin_session: "\<not> au_reachable a \<Longrightarrow> \<not> au_loading a \<Longrightarrow> demo_session (snd (demoLogin sf fmt r a))"
  using demoLogin_offline [of a sf fmt r]
  by (simp add: demo_session_def demoLogin_def Let_def syncAPIBaseURL_def setAPIBaseURL_def)

lemma demo_signed_in: "demo_session a \<Longrightarrow> signed_in a (Some ''operator'')"
  by (simp add: signed_in_def demo_session_def offline_demo_def isAuthenticated_def CLIENT_DEMO_TOKEN_def
      demo_user_def user_role_def)

lemma not_admin: "\<not> isAdminRole (Some ''operator'')"
  by code_simp

lemma table_roles: "list_all (\<lambda>r. case pg_guard r of Some (NeedRole need) \<Rightarrow> need = admin | _ \<Rightarrow> True) APP_ROUTES"
  by code_simp

section \<open>Properties\<close>

text \<open>The guard of a page by the group of its path.\<close>

lemma guarded_by_group:
  assumes "A \<longrightarrow> \<not> E \<and> \<not> P" "E \<longrightarrow> \<not> P"
    and g: "g = (if A then Some (NeedRole admin) else if E then Some (NeedEdition True)
      else if P then Some (NeedEdition False) else None)"
  shows "guarded a g el = Some (Children el) \<longleftrightarrow>
      (A \<longrightarrow> isAuthenticated a \<and> (\<exists>role. user_role (au_user a) = Some role \<and> isAdminRole role))
    \<and> (E \<longrightarrow> au_edition a = enterprise) \<and> (P \<longrightarrow> au_edition a \<noteq> community)"
  using assms
  by (cases "au_edition a"; cases A; cases E; cases P)
    (auto simp: guarded_def RequireRole_admin RequireEnterprise_def isPaidEdition_def isEnterpriseEdition_def)

lemma list_ex_eq: "list_ex ((=) x) xs \<longleftrightarrow> x \<in> set xs"
  by (auto simp: list_ex_iff)

text \<open>C15: which pages of the table a session opens, path by path: the public pages always; every other page
  only when the session is not still loading and is signed in or has a session in the browser storage;
  of those, the administration and the CRM only to a signed-in administrator, the three pages of the
  full Enterprise only in that edition, thirteen more pages only in a paid edition, and the rest with
  no further condition.\<close>

theorem page_guards:
  assumes "r \<in> set APP_ROUTES"
  shows "render_route a r = Some (Children (pg_element r)) \<longleftrightarrow>
    pg_path r \<in> {''/'', ''/demo'', ''/login'', ''/register'', ''/forgot-password'', ''/reset-password'',
      ''/verify-email'', ''/oauth/callback'', ''/switcher'', ''/contact'', ''/request-demo'',
      ''/pricing'', ''/ibm'', ''/product'', ''/product/cspm'', ''/cbom'', ''/pqc'',
      ''/enterprise'', ''/security'', ''/maps'', ''/logout'', ''*''}
    \<or> \<not> au_loading a \<and> (isAuthenticated a \<or> hasStoredSession (local_storage a))
      \<and> (pg_path r \<in> {''/admin'', ''/crm''} \<longrightarrow>
           isAuthenticated a \<and> (\<exists>role. user_role (au_user a) = Some role \<and> isAdminRole role))
      \<and> (pg_path r \<in> {''/security/ai'', ''/connectors/hsm'', ''/enterprise/quantum''} \<longrightarrow> au_edition a = enterprise)
      \<and> (pg_path r \<in> {''/enterprise/inventory'', ''/enterprise/compliance'', ''/enterprise/multicloud'',
        ''/enterprise/cncf'', ''/enterprise/terraform'', ''/enterprise/ibmcloud'',
        ''/enterprise/awscloud'', ''/enterprise/quantum-attestation'',
        ''/enterprise/cloud-posture'', ''/enterprise/conformance-packs'', ''/enterprise/cspm'',
        ''/modules'', ''/modules/:moduleId''} \<longrightarrow> au_edition a \<noteq> community)"
proof -
  let ?public = "[''/'', ''/demo'', ''/login'', ''/register'', ''/forgot-password'', ''/reset-password'',
      ''/verify-email'', ''/oauth/callback'', ''/switcher'', ''/contact'', ''/request-demo'',
      ''/pricing'', ''/ibm'', ''/product'', ''/product/cspm'', ''/cbom'', ''/pqc'',
      ''/enterprise'', ''/security'', ''/maps'', ''/logout'', ''*'']"
  let ?admin = "[''/admin'', ''/crm'']" and ?ent = "[''/security/ai'', ''/connectors/hsm'', ''/enterprise/quantum'']"
  let ?paid = "[''/enterprise/inventory'', ''/enterprise/compliance'', ''/enterprise/multicloud'',
      ''/enterprise/cncf'', ''/enterprise/terraform'', ''/enterprise/ibmcloud'',
      ''/enterprise/awscloud'', ''/enterprise/quantum-attestation'',
      ''/enterprise/cloud-posture'', ''/enterprise/conformance-packs'', ''/enterprise/cspm'',
      ''/modules'', ''/modules/:moduleId'']"
  let ?in = "\<lambda>xs. list_ex ((=) (pg_path r)) xs"
  have "list_all (\<lambda>r. pg_shell r = (\<not> list_ex ((=) (pg_path r)) ?public)
      \<and> pg_guard r = (if list_ex ((=) (pg_path r)) ?admin then Some (NeedRole admin)
          else if list_ex ((=) (pg_path r)) ?ent then Some (NeedEdition True)
          else if list_ex ((=) (pg_path r)) ?paid then Some (NeedEdition False) else None)) APP_ROUTES"
    by code_simp
  then have sh: "pg_shell r = (\<not> ?in ?public)"
    and g: "pg_guard r = (if ?in ?admin then Some (NeedRole admin) else if ?in ?ent then Some (NeedEdition True)
          else if ?in ?paid then Some (NeedEdition False) else None)"
    using assms by (simp_all only: list_all_iff)
  have "list_all (\<lambda>p. \<not> list_ex ((=) p) ?ent \<and> \<not> list_ex ((=) p) ?paid) ?admin"
    and "list_all (\<lambda>p. \<not> list_ex ((=) p) ?paid) ?ent"
    by code_simp+
  then have d: "?in ?admin \<longrightarrow> \<not> ?in ?ent \<and> \<not> ?in ?paid" "?in ?ent \<longrightarrow> \<not> ?in ?paid"
    by (simp_all only: list_all_iff list_ex_iff) blast+
  have "render_route a r = Some (Children (pg_element r)) \<longleftrightarrow>
       \<not> pg_shell r \<or> \<not> au_loading a \<and> (isAuthenticated a \<or> hasStoredSession (local_storage a))
       \<and> guarded a (pg_guard r) (pg_element r) = Some (Children (pg_element r))"
    by (simp add: render_route_def RequireAuth_def)
  then show ?thesis
    by (simp only: guarded_by_group [OF d g] sh not_not list_ex_eq list.set)
qed

definition admin_route :: page_route where
  "admin_route = \<lparr>pg_path = ''/admin'', pg_shell = True, pg_guard = Some (NeedRole admin), pg_element = Page ''Admin''\<rparr>"

theorem page_guards_witness:
  "admin_route \<in> set APP_ROUTES
   \<and> render_route (ex_auth [(''auth_token'', ''jwt'')] True) admin_route \<noteq> Some (Children (Page ''Admin''))"
proof -
  have "list_ex ((=) admin_route) APP_ROUTES" by code_simp
  then have m: "admin_route \<in> set APP_ROUTES" by (simp add: list_ex_iff)
  moreover have "\<not> isAuthenticated (ex_auth [(''auth_token'', ''jwt'')] True)" by (simp add: isAuthenticated_def ex_auth_def)
  ultimately show ?thesis
    using page_guards [OF m, of "ex_auth [(''auth_token'', ''jwt'')] True"] by (simp add: admin_route_def)
qed

text \<open>A demo that no server knows opens exactly the pages outside the shell and the pages of the shell
  that have no guard, whatever happens inside the session; the administration, the CRM and every
  page of a paid edition show the lock instead.\<close>

theorem demo_pages:
  assumes "\<not> au_reachable a" "\<not> au_loading a" "list_all within_session es"
    and a': "a' = run (auth_step sf fmt c) (snd (demoLogin sf fmt answer a)) es"
    and "r \<in> set APP_ROUTES"
  shows "render_route a' r =
    Some (if \<not> pg_shell r \<or> pg_guard r = None then Children (pg_element r) else Locked)"
proof -
  have d: "demo_session a'"
    unfolding a' run_within [OF assms(3)] by (rule demo_console.run_inv [OF demoLogin_session [OF assms(1,2)]])
  then have "au_edition a' = community" by (simp add: demo_session_def offline_demo_def)
  moreover have "pg_guard r = Some (NeedRole n) \<Longrightarrow> n = admin" for n
    using table_roles assms(5) by (auto simp: list_all_iff)
  ultimately have "admits a' (Some ''operator'') (pg_guard r) \<longleftrightarrow> pg_guard r = None"
    using not_admin admits_admin [of a' "Some ''operator''"]
    by (auto simp: admits_def isPaidEdition_def isEnterpriseEdition_def split: option.splits page_guard.splits)
  with render_signed_in [OF demo_signed_in [OF d], of r] show ?thesis by simp
qed

theorem demo_pages_witness:
  "render_route (run (auth_step unary_stringify (\<lambda>_. []) False)
      (snd (demoLogin unary_stringify (\<lambda>_. []) (Inl ''offline'') (ex_auth [] False))) [SetEdition enterprise]) admin_route
   = Some Locked"
proof -
  have "list_ex ((=) admin_route) APP_ROUTES" by code_simp
  then have "admin_route \<in> set APP_ROUTES" by (simp add: list_ex_iff)
  from demo_pages [OF _ _ _ refl this, of "ex_auth [] False" "[SetEdition enterprise]"] show ?thesis
    by (simp add: ex_auth_def admin_route_def)
qed

end
