(* ===== verification/Workspace_Demo.thy ===== *)
theory Workspace_Demo
  imports Dashboard_Adapter Demo_Scan
begin

text \<open>
  web/src/data/workspaceDemo.ts and demo/demoViews.ts: the payloads the pages fall back to, made of the
  simulation, and the normalisation of what the inventory APIs answer.  \<open>sim\<close> is the simulation the
  module reads when it is loaded and \<open>clock\<close> the time of loading.
\<close>

section \<open>Demo payloads\<close>

definition opt_json :: "string option \<Rightarrow> jval" where
  "opt_json v = (case v of None \<Rightarrow> JUndef | Some s \<Rightarrow> JStr s)"

definition demo_asset :: "int \<Rightarrow> sim_asset \<Rightarrow> jval" where
  "demo_asset clock a =
     JObj [(''id'', JStr (as_id a)), (''name'', JStr (as_name a)),
       (''category'', JStr (if truthy_opt (as_algorithm a) then ''cryptographic'' else as_type a)),
       (''cloud_provider'', JStr (provider_str (as_provider a))),
       (''algorithm'', opt_json (as_algorithm a)), (''crypto_algorithm'', opt_json (as_algorithm a)),
       (''risk_level'', JStr (risk_name (as_riskLevel a))),
       (''quantum_safe'', JBool (as_quantumSafe a = Some True)),
       (''discovered_at'', JStr (iso_string (num clock))), (''location'', JStr (as_region a)),
       (''owner'', opt_json (as_identity a)), (''internet_exposed'', JBool (as_internetExposed a)),
       (''data_kind'', JStr ''demo'')]"

definition DEMO_ASSETS :: "int \<Rightarrow> dashboard \<Rightarrow> jval list" where
  "DEMO_ASSETS clock sim = map (demo_asset clock) (dv_assets sim)"

definition DEMO_INVENTORY_SUMMARY :: "int \<Rightarrow> dashboard \<Rightarrow> jval" where
  "DEMO_INVENTORY_SUMMARY clock sim = simulationInventorySummary clock sim"

definition demo_scan_finding :: "sim_finding \<Rightarrow> jval" where
  "demo_scan_finding f =
     JObj [(''id'', JStr (sf_id f)), (''severity'', JStr (severity_str (sf_severity f))),
       (''title'', JStr (sf_title f)), (''asset'', JStr (sf_assetName f)),
       (''recommendation'', JStr (if truthy_opt (sf_cveId f)
          then ''Real CVE '' @ the (sf_cveId f) @ '' on a simulated asset '' @ em_dash @ '' patch or isolate ''
            @ sf_assetName f @ ''.''
          else sf_message f))]"

definition DEMO_SCAN_FINDINGS :: "dashboard \<Rightarrow> jval list" where
  "DEMO_SCAN_FINDINGS sim = map demo_scan_finding (take 8 (dv_openFindings sim))"

definition DEMO_SCAN_SCHEDULES :: "jval list" where
  "DEMO_SCAN_SCHEDULES =
    [JObj [(''id'', JStr ''sch-1''), (''name'', JStr ''Nightly full CBOM''), (''cron'', JStr ''0 2 * * *''), (''target'', JStr ''all-connected-accounts''), (''type'', JStr ''full''), (''status'', JStr ''active''), (''nextRun'', JStr ''Tonight 02:00 UTC'')],
     JObj [(''id'', JStr ''sch-2''), (''name'', JStr ''Weekly compliance''), (''cron'', JStr ''0 6 * * 1''), (''target'', JStr ''production/*''), (''type'', JStr ''compliance''), (''status'', JStr ''active''), (''nextRun'', JStr ''Mon 06:00 UTC'')],
     JObj [(''id'', JStr ''sch-3''), (''name'', JStr ''Container registry quick scan''), (''cron'', JStr ''0 */4 * * *''), (''target'', JStr ''ghcr.io/org/*''), (''type'', JStr ''quick''), (''status'', JStr ''paused''), (''nextRun'', JStr em_dash)]]"

definition DEMO_ANALYTICS_INSIGHTS :: "jval list" where
  "DEMO_ANALYTICS_INSIGHTS =
    [JObj [(''title'', JStr ''Post-quantum readiness improving''), (''description'', JStr ''PQC-ready assets increased 8% week-over-week after ML-KEM rollout in Kubernetes secrets.''), (''severity'', JStr ''medium''), (''confidence'', JNum (lit (88 / 100))), (''type'', JStr ''posture_summary'')],
     JObj [(''title'', JStr ''3DES keys require migration''), (''description'', JStr (''Two legacy HSM keys still use 3DES '' @ em_dash @ '' blocked for SOX and PCI-DSS conformance packs.'')), (''severity'', JStr ''critical''), (''confidence'', JNum (lit (92 / 100))), (''type'', JStr ''critical_algorithm'')],
     JObj [(''title'', JStr ''Cloud KMS drift detected''), (''description'', JStr ''4 AWS KMS aliases lack automatic rotation; 1 GCP key ring missing uniform access.''), (''severity'', JStr ''high''), (''confidence'', JNum (lit (81 / 100))), (''type'', JStr ''config_drift'')],
     JObj [(''title'', JStr ''Scan coverage gap in Azure''), (''description'', JStr (''Only 5 Azure resources inventoried vs 80 AWS '' @ em_dash @ '' connect Azure subscription to improve coverage.'')), (''severity'', JStr ''low''), (''confidence'', JNum (lit (76 / 100))), (''type'', JStr ''coverage'')]]"

definition DEMO_POSTURE_TREND :: "jval list" where
  "DEMO_POSTURE_TREND =
    [JObj [(''label'', JStr ''Mon''), (''score'', JNum (num 68))],
     JObj [(''label'', JStr ''Tue''), (''score'', JNum (num 70))],
     JObj [(''label'', JStr ''Wed''), (''score'', JNum (num 71))],
     JObj [(''label'', JStr ''Thu''), (''score'', JNum (num 72))],
     JObj [(''label'', JStr ''Fri''), (''score'', JNum (num 74))],
     JObj [(''label'', JStr ''Sat''), (''score'', JNum (num 74))],
     JObj [(''label'', JStr ''Sun''), (''score'', JNum (num 75))]]"

definition DEMO_REPORTS :: "int \<Rightarrow> jval list" where
  "DEMO_REPORTS clock =
    [JObj [(''id'', JStr ''rpt-1''), (''name'', JStr ''Weekly Posture Report''), (''type'', JStr ''executive''),
       (''generated_at'', JStr (iso_string (num clock))), (''pages'', JNum (num 12)), (''format'', JStr ''PDF'')],
     JObj [(''id'', JStr ''rpt-2''), (''name'', JStr ''PQC Migration Readiness''), (''type'', JStr ''technical''),
       (''generated_at'', JStr (iso_string (js_sub (num clock) (num 86400000)))), (''pages'', JNum (num 24)),
       (''format'', JStr ''PDF'')],
     JObj [(''id'', JStr ''rpt-3''), (''name'', JStr ''SOC 2 Crypto Controls''), (''type'', JStr ''compliance''),
       (''generated_at'', JStr (iso_string (js_sub (num clock) (num 172800000)))), (''pages'', JNum (num 18)),
       (''format'', JStr ''CSV'')]]"

definition DEMO_FORECAST :: "jval list" where
  "DEMO_FORECAST =
    [JObj [(''quarter'', JStr ''Q3 2026''), (''projected_score'', JNum (num 78)), (''migration_pct'', JNum (num 62)), (''note'', JStr ''Baseline with current velocity'')],
     JObj [(''quarter'', JStr ''Q4 2026''), (''projected_score'', JNum (num 84)), (''migration_pct'', JNum (num 71)), (''note'', JStr ''After HSM PQC pilot'')],
     JObj [(''quarter'', JStr ''Q1 2027''), (''projected_score'', JNum (num 91)), (''migration_pct'', JNum (num 85)), (''note'', JStr ''Target for NIST PQC cutover'')]]"

section \<open>Normalising the inventory\<close>

definition zero_json :: jval where "zero_json = JNum (num 0)"

definition EMPTY_INVENTORY_SUMMARY :: "jval \<Rightarrow> jval" where
  "EMPTY_INVENTORY_SUMMARY demo_summary =
     spread demo_summary
       [(''total_assets'', zero_json), (''quantum_safe_count'', zero_json), (''non_quantum_safe'', zero_json),
        (''vulnerable_assets'', zero_json), (''compliance_score'', zero_json),
        (''by_category'', JObj [(''cryptographic'', zero_json), (''compute'', zero_json), (''containers'', zero_json),
           (''storage'', zero_json), (''databases'', zero_json), (''identity'', zero_json)]),
        (''source'', JStr ''empty'')]"

definition isDemoSession :: "storage \<Rightarrow> bool" where
  "isDemoSession ls \<longleftrightarrow> read_item ls ''rivicq.demo'' = Some ''1''"

definition normalizeAssets :: "storage \<Rightarrow> jval list \<Rightarrow> jval \<Rightarrow> jval" where
  "normalizeAssets ls demo_assets data =
     (let items = (case array_items data of Some _ \<Rightarrow> data
            | None \<Rightarrow> js_coalesce (js_coalesce (js_prop data ''assets'') (js_prop data ''items'')) (JArr []))
      in if js_truthy (js_length items) then items
         else if js_prop data ''source'' = JStr ''cbom_scans'' then JArr []
         else if js_prop data ''demo_mode'' = JBool True \<or> isDemoSession ls then JArr demo_assets
         else JArr [])"

text \<open>\<open>Number(d.a ?? d.b ?? demo.a)\<close>.\<close>

definition figure :: "(rat \<Rightarrow> string) \<Rightarrow> jval \<Rightarrow> jval \<Rightarrow> string \<Rightarrow> string \<Rightarrow> string \<times> jval" where
  "figure fmt demo_summary d snake camel =
     (snake, JNum (js_number fmt (js_coalesce (js_coalesce (js_prop d snake) (js_prop d camel)) (js_prop demo_summary snake))))"

definition normalizeSummary :: "(rat \<Rightarrow> string) \<Rightarrow> storage \<Rightarrow> jval \<Rightarrow> jval \<Rightarrow> jval" where
  "normalizeSummary fmt ls demo_summary d =
     (if \<not> js_truthy d \<or> \<not> is_object d then
        (if isDemoSession ls then demo_summary else EMPTY_INVENTORY_SUMMARY demo_summary)
      else if \<not> isDemoSession ls \<and> js_prop d ''demo_mode'' \<noteq> JBool True \<and> js_prop d ''source'' \<noteq> JStr ''cbom_scans''
           \<and> \<not> not_null (js_prop d ''total_assets'') \<and> \<not> not_null (js_prop d ''totalAssets'') then
        EMPTY_INVENTORY_SUMMARY demo_summary
      else if js_prop d ''source'' = JStr ''cbom_scans''
           \<and> js_number fmt (js_coalesce (js_prop d ''total_assets'') zero_json) = num 0 then
        spread demo_summary
          [(''total_assets'', zero_json), (''quantum_safe_count'', zero_json), (''non_quantum_safe'', zero_json),
           (''vulnerable_assets'', zero_json), (''compliance_score'', zero_json)]
      else
        (let rawCategory = js_coalesce (js_coalesce (js_prop d ''by_category'') (js_prop d ''byCategory'')) (JObj []);
             rawCloud = js_coalesce (js_coalesce (js_prop d ''by_cloud_provider'') (js_prop d ''byCloudProvider'')) (JObj [])
         in spread demo_summary
             [figure fmt demo_summary d ''total_assets'' ''totalAssets'',
              figure fmt demo_summary d ''compliance_score'' ''complianceScore'',
              (''by_category'', spread (js_prop demo_summary ''by_category'') (own_entries rawCategory)),
              (''by_cloud_provider'', spread (js_prop demo_summary ''by_cloud_provider'') (own_entries rawCloud)),
              figure fmt demo_summary d ''quantum_safe_count'' ''quantumSafeCount'',
              figure fmt demo_summary d ''non_quantum_safe'' ''nonQuantumSafe'',
              figure fmt demo_summary d ''vulnerable_assets'' ''vulnerableAssets'']))"

section \<open>Demo views\<close>

record algo_guide =
  gd_quantum :: bool
  gd_risk :: string
  gd_migration :: string

definition ALGO_GUIDANCE :: "(string \<times> algo_guide) list" where
  "ALGO_GUIDANCE =
    [(''AES-256-GCM'', \<lparr>gd_quantum = True, gd_risk = ''low'', gd_migration = ''Monitored''\<rparr>),
     (''RSA-2048'', \<lparr>gd_quantum = False, gd_risk = ''medium'',
        gd_migration = ''Classified '' @ em_dash @ '' not auto-vulnerable''\<rparr>),
     (''ECDSA P-256'', \<lparr>gd_quantum = False, gd_risk = ''medium'', gd_migration = ''Plan hybrid PQC''\<rparr>),
     (''ML-KEM-768'', \<lparr>gd_quantum = True, gd_risk = ''low'', gd_migration = ''Preferred''\<rparr>),
     (''RSA-4096'', \<lparr>gd_quantum = False, gd_risk = ''medium'', gd_migration = ''Inventory + migrate''\<rparr>),
     (''Ed25519'', \<lparr>gd_quantum = False, gd_risk = ''medium'', gd_migration = ''Plan hybrid PQC''\<rparr>),
     (''3DES'', \<lparr>gd_quantum = False, gd_risk = ''critical'', gd_migration = ''Migrate now''\<rparr>),
     (''ML-DSA-65'', \<lparr>gd_quantum = True, gd_risk = ''low'', gd_migration = ''Preferred''\<rparr>)]"

definition DEMO_COMPLIANCE_FRAMEWORKS :: "string list" where
  "DEMO_COMPLIANCE_FRAMEWORKS = [''iso27001'', ''nis2'', ''dora'', ''gdpr'', ''bsi'']"

record risk_row =
  rr_name :: string
  rr_usage :: jsnum
  rr_risk_level :: string
  rr_quantum_safe :: bool
  rr_migration :: string

record cspm_overview =
  co_health_score :: jsnum
  co_total_assets :: jsnum
  co_outdated_algorithms :: jsnum
  co_at_risk_data :: nat
  co_quantum_safe_pct :: jsnum
  co_risk_breakdown :: "risk_row list"
  co_topology :: "(string \<times> string \<times> string) list"
  co_findings :: "sim_finding list"
  co_source :: string
  co_demo :: bool

definition guide_for :: "string \<Rightarrow> algo_guide" where
  "guide_for name =
     nullish (map_of ALGO_GUIDANCE name) \<lparr>gd_quantum = False, gd_risk = ''medium'', gd_migration = ''Review''\<rparr>"

definition buildDemoCspmOverview :: "dashboard \<Rightarrow> cspm_overview" where
  "buildDemoCspmOverview sim =
     (let pqc = to_pqc (dv_totals sim); pqcTotal = js_add (pq_quantumSafe pqc) (pq_vulnerable pqc)
      in \<lparr>co_health_score = sb_score (dv_posture sim),
          co_total_assets = to_assets (dv_totals sim),
          co_outdated_algorithms = pq_vulnerable pqc,
          co_at_risk_data = to_exposed (dv_totals sim),
          co_quantum_safe_pct = (if truthy_num pqcTotal
             then js_round (js_mul (js_div (pq_quantumSafe pqc) pqcTotal) (num 100)) else num 0),
          co_risk_breakdown = map (\<lambda>(name, v). let g = guide_for name in
             \<lparr>rr_name = name, rr_usage = v, rr_risk_level = gd_risk g, rr_quantum_safe = gd_quantum g,
              rr_migration = gd_migration g\<rparr>) (dv_algorithmData sim),
          co_topology = map (\<lambda>a. (ac_name a, ac_region a @ '' KMS'', provider_str (ac_provider a)))
             (take 6 (dv_accounts sim)),
          co_findings = take 12 (dv_openFindings sim),
          co_source = ''enterprise_simulation'', co_demo = True\<rparr>)"

record compliance_view =
  cv_framework :: string
  cv_status :: string
  cv_score :: jsnum
  cv_total_controls :: nat
  cv_passed_controls :: nat
  cv_failed_controls :: nat
  cv_pending_controls :: nat
  cv_controls :: "control_result list"
  cv_note :: string

definition demo_compliance :: "(rat \<Rightarrow> string) \<Rightarrow> framework_view \<Rightarrow> compliance_view" where
  "demo_compliance fmt fw =
     \<lparr>cv_framework = fr_id (fv_result fw), cv_status = ''demo'', cv_score = js_round (js_number fmt (fv_score fw)),
      cv_total_controls = fr_assessed (fv_result fw), cv_passed_controls = fr_passed (fv_result fw),
      cv_failed_controls = fr_failed (fv_result fw), cv_pending_controls = fr_partial (fv_result fw),
      cv_controls = fr_controls (fv_result fw),
      cv_note = ''DEMO control results '' @ em_dash @ '' not a certification claim.''\<rparr>"

definition buildDemoComplianceDashboards :: "(rat \<Rightarrow> string) \<Rightarrow> dashboard \<Rightarrow> compliance_view list" where
  "buildDemoComplianceDashboards fmt sim =
     map (demo_compliance fmt)
       (filter (\<lambda>fw. fr_id (fv_result fw) \<in> set DEMO_COMPLIANCE_FRAMEWORKS) (dv_frameworks sim))"

fun category_str :: "finding_category \<Rightarrow> string" where
  "category_str CatVulnerability = ''vulnerability''"
| "category_str CatMisconfiguration = ''misconfiguration''"
| "category_str CatIdentity = ''identity''"
| "category_str CatExposure = ''exposure''"
| "category_str CatCompliance = ''compliance''"

record demo_risk =
  dr_id :: string
  dr_risk_type :: string
  dr_severity :: string
  dr_affected_assets :: string
  dr_status :: string

definition buildDemoRisks :: "dashboard \<Rightarrow> demo_risk list" where
  "buildDemoRisks sim =
     map (\<lambda>f. \<lparr>dr_id = sf_id f, dr_risk_type = category_str (sf_category f),
               dr_severity = severity_str (sf_severity f), dr_affected_assets = sf_assetName f,
               dr_status = (if sf_status f = Resolved then ''mitigated'' else ''open'')\<rparr>)
       (take 8 (dv_openFindings sim))"

record remediation =
  re_what :: string
  re_why :: string
  re_business :: string
  re_technical :: string
  re_remediation :: string

definition remediationForFinding :: "sim_finding \<Rightarrow> remediation" where
  "remediationForFinding f =
     (let cve = truthy_opt (sf_cveId f)
      in \<lparr>re_what = or_str (sf_title f) (sf_message f),
          re_why = (if cve
             then ''Mapped to published CVE '' @ the (sf_cveId f)
               @ '' on a simulated asset. This is DEMO DATA, not customer telemetry.''
             else ''This finding is generated from the labeled RivicQ demo estate so visitors can walk a remediation workflow.''),
          re_business = (if sf_severity f = SevCritical \<or> sf_severity f = SevHigh
             then ''Elevated exposure on a simulated production-like account. Prioritize before expanding the attack surface.''
             else ''Tracked for hygiene. Schedule during the next change window.''),
          re_technical = category_str (sf_category f) @ '' on '' @ sf_assetName f @ '' ('' @ provider_str (sf_provider f)
             @ ''/'' @ sf_region f @ '').'',
          re_remediation = (if cve
             then ''Patch or isolate '' @ sf_assetName f @ '', then re-scan with `rivicq scan .` or the GitHub scanner.''
             else ''Apply the control on '' @ sf_assetName f
               @ '', capture evidence, and mark the finding resolved in a real workspace.'')\<rparr>)"

section \<open>Lemmas\<close>

lemma js_prop_spread_other:
  "k \<notin> fst ` set kvs \<Longrightarrow> js_prop (spread (JObj fs) kvs) k = js_prop (JObj fs) k"
proof (induction kvs arbitrary: fs)
  case Nil
  then show ?case by simp
next
  case (Cons kv kvs)
  obtain a b where kv: "kv = (a, b)" by fastforce
  with Cons show ?case using Cons.IH [of "AList.update a b fs"] by (auto simp: update_conv')
qed

lemma summary_shape:
  obtains fs where "DEMO_INVENTORY_SUMMARY clock sim = JObj fs"
  by (simp add: DEMO_INVENTORY_SUMMARY_def simulationInventorySummary_def Let_def)

lemma summary_marks:
  "js_prop (DEMO_INVENTORY_SUMMARY clock sim) ''source'' = JStr ''enterprise_simulation''"
  "js_prop (DEMO_INVENTORY_SUMMARY clock sim) ''data_kind'' = JStr ''demo''"
  by (simp_all add: DEMO_INVENTORY_SUMMARY_def simulationInventorySummary_def Let_def)

lemma summary_categories:
  "js_prop (js_prop (DEMO_INVENTORY_SUMMARY clock sim) ''by_category'') ''cryptographic'' = JNum (num 2140)"
  by (simp add: DEMO_INVENTORY_SUMMARY_def simulationInventorySummary_def Let_def COMPOSITION_def)

section \<open>Properties\<close>

text \<open>Outside a demo session the pages never list simulated assets: what is listed is what the answer
  brings, or nothing, unless the answer itself is marked as demo; and scans of the tenant's own never
  give way to simulated assets, in a demo session either.\<close>

theorem assets_not_simulated:
  assumes "js_prop data ''source'' = JStr ''cbom_scans'' \<or> \<not> isDemoSession ls \<and> js_prop data ''demo_mode'' \<noteq> JBool True"
  shows "normalizeAssets ls demo_assets data = data
    \<or> normalizeAssets ls demo_assets data = js_prop data ''assets''
    \<or> normalizeAssets ls demo_assets data = js_prop data ''items''
    \<or> normalizeAssets ls demo_assets data = JArr []"
  using assms
  by (auto simp: normalizeAssets_def Let_def js_coalesce_def split: option.splits)

theorem assets_not_simulated_witness:
  "normalizeAssets (storage_of [(''rivicq.demo'', ''1'')]) [JNull] (JObj [(''source'', JStr ''cbom_scans'')]) \<noteq> JArr [JNull]"
  using assets_not_simulated [of "JObj [(''source'', JStr ''cbom_scans'')]" "storage_of [(''rivicq.demo'', ''1'')]" "[JNull]"]
  by auto

text \<open>The summary of a workspace that is not a demo is still marked as simulated, whatever the API
  answered, and a connected tenant without assets is shown the 2140 cryptographic assets of the simulation
  by category, next to a total of zero.\<close>

theorem summary_marked_simulated:
  assumes "demo_summary = DEMO_INVENTORY_SUMMARY clock sim" "is_object d"
    and "not_null (js_prop d ''total_assets'')"
  shows "js_prop (normalizeSummary fmt ls demo_summary d) ''source'' = JStr ''enterprise_simulation''
    \<and> js_prop (normalizeSummary fmt ls demo_summary d) ''data_kind'' = JStr ''demo''
    \<and> (js_prop d ''source'' = JStr ''cbom_scans'' \<and> js_number fmt (js_prop d ''total_assets'') = num 0 \<longrightarrow>
         js_prop (normalizeSummary fmt ls demo_summary d) ''total_assets'' = JNum (num 0)
         \<and> js_prop (js_prop (normalizeSummary fmt ls demo_summary d) ''by_category'') ''cryptographic'' = JNum (num 2140))"
proof -
  obtain fs where fs: "demo_summary = JObj fs" using summary_shape assms(1) by metis
  have marks: "js_prop (JObj fs) ''source'' = JStr ''enterprise_simulation''" "js_prop (JObj fs) ''data_kind'' = JStr ''demo''"
    "js_prop (js_prop (JObj fs) ''by_category'') ''cryptographic'' = JNum (num 2140)"
    using summary_marks [of clock sim] summary_categories [of clock sim] assms(1) fs by simp_all
  have t: "js_truthy d" using assms(2) by (cases d) simp_all
  define zeros where "zeros = [(''total_assets'', zero_json), (''quantum_safe_count'', zero_json),
    (''non_quantum_safe'', zero_json), (''vulnerable_assets'', zero_json), (''compliance_score'', zero_json)]"
  define full where "full = [figure fmt demo_summary d ''total_assets'' ''totalAssets'',
      figure fmt demo_summary d ''compliance_score'' ''complianceScore'',
      (''by_category'', spread (js_prop demo_summary ''by_category'') (own_entries
         (js_coalesce (js_coalesce (js_prop d ''by_category'') (js_prop d ''byCategory'')) (JObj [])))),
      (''by_cloud_provider'', spread (js_prop demo_summary ''by_cloud_provider'') (own_entries
         (js_coalesce (js_coalesce (js_prop d ''by_cloud_provider'') (js_prop d ''byCloudProvider'')) (JObj [])))),
      figure fmt demo_summary d ''quantum_safe_count'' ''quantumSafeCount'',
      figure fmt demo_summary d ''non_quantum_safe'' ''nonQuantumSafe'',
      figure fmt demo_summary d ''vulnerable_assets'' ''vulnerableAssets'']"
  have n: "normalizeSummary fmt ls demo_summary d =
      (if js_prop d ''source'' = JStr ''cbom_scans'' \<and> js_number fmt (js_prop d ''total_assets'') = num 0
       then spread (JObj fs) zeros else spread (JObj fs) full)"
    using t assms(2,3) unfolding zeros_def full_def fs [symmetric] by (simp add: normalizeSummary_def Let_def)
  have other: "js_prop (spread (JObj fs) zeros) k = js_prop (JObj fs) k" "js_prop (spread (JObj fs) full) k = js_prop (JObj fs) k"
    if "k \<in> {''source'', ''data_kind''}" for k
  proof -
    have "k \<notin> fst ` set zeros" "k \<notin> fst ` set full" using that by (auto simp: zeros_def full_def figure_def)
    then show "js_prop (spread (JObj fs) zeros) k = js_prop (JObj fs) k" "js_prop (spread (JObj fs) full) k = js_prop (JObj fs) k"
      by (simp_all only: js_prop_spread_other not_False_eq_True)
  qed
  have "js_prop (spread (JObj fs) zeros) ''by_category'' = js_prop (JObj fs) ''by_category''"
    by (rule js_prop_spread_other) (simp add: zeros_def)
  moreover have "js_prop (spread (JObj fs) zeros) ''total_assets'' = JNum (num 0)"
    by (simp add: zeros_def update_conv' zero_json_def)
  ultimately show ?thesis using n other marks by simp
qed

lemma ex_sim: "\<exists>sim. simulate (\<lambda>_. []) (\<lambda>_. []) Days7 ex_now = Inr sim"
  using simulate_total [OF ex_clock, of "\<lambda>_. []" "\<lambda>_. []" Days7] by blast

theorem summary_marked_simulated_witness:
  "\<exists>sim. simulate (\<lambda>_. []) (\<lambda>_. []) Days7 ex_now = Inr sim
     \<and> js_prop (js_prop (normalizeSummary (\<lambda>_. []) (storage_of []) (DEMO_INVENTORY_SUMMARY ex_now sim)
          (JObj [(''source'', JStr ''cbom_scans''), (''total_assets'', JNum (num 0))])) ''by_category'') ''cryptographic''
       = JNum (num 2140)"
proof -
  obtain sim where s: "simulate (\<lambda>_. []) (\<lambda>_. []) Days7 ex_now = Inr sim" using ex_sim by blast
  from summary_marked_simulated [OF refl, of "JObj [(''source'', JStr ''cbom_scans''), (''total_assets'', JNum (num 0))]"
      "\<lambda>_. []" "storage_of []" ex_now sim]
  have "js_prop (js_prop (normalizeSummary (\<lambda>_. []) (storage_of []) (DEMO_INVENTORY_SUMMARY ex_now sim)
      (JObj [(''source'', JStr ''cbom_scans''), (''total_assets'', JNum (num 0))])) ''by_category'') ''cryptographic'' = JNum (num 2140)"
    by (simp add: not_null_def)
  with s show ?thesis by blast
qed

end
