(* ===== verification/Workspace_Context.thy ===== *)
theory Workspace_Context
  imports Workspace_Demo Editions
begin

text \<open>
  web/src/hooks/useWorkspaceContext.ts and services/aiAssistant.ts: the context the assistant answers from,
  gathered from seven requests that may each fail, and its answers.  An answer of the API is an arbitrary
  value; reading a member of a null element throws, \<open>Inl\<close>.
\<close>

section \<open>The workspace context\<close>

record inventory_context =
  ic_totalAssets :: jval
  ic_complianceScore :: jval
  ic_quantumSafeCount :: jval
  ic_nonQuantumSafe :: jval
  ic_vulnerableAssets :: jval
  ic_byCategory :: jval
  ic_byCloudProvider :: jval

record asset_context =
  xa_id :: jval
  xa_name :: jval
  xa_risk_level :: jval
  xa_quantum_safe :: jval
  xa_algorithm :: jval
  xa_cloud_provider :: jval

record cloud_context =
  cc_totalResources :: jval
  cc_byProvider :: jval
  cc_securityFindings :: jval
  cc_scanCoverage :: jval
  cc_scansToday :: jval

record event_context =
  xe_severity :: jval
  xe_message :: jval
  xe_title :: jval

record framework_context =
  xf_name :: jval
  xf_framework :: jval
  xf_score :: jval

record compliance_context =
  xc_overallScore :: jval
  xc_frameworks :: "framework_context list"
  xc_criticalFindings :: jval

record workspace_context =
  wc_scannedAt :: string
  wc_page :: string
  wc_edition :: string
  wc_demoMode :: bool
  wc_inventory :: inventory_context
  wc_assets :: "asset_context list"
  wc_cloud :: "cloud_context option"
  wc_events :: "event_context list"
  wc_threats :: jval
  wc_compliance :: "compliance_context option"
  wc_cspm :: jval

text \<open>How a request settled, and \<open>pick\<close> without a fallback.\<close>

datatype settled = Fulfilled jval | Rejected

fun pick :: "settled \<Rightarrow> jval" where
  "pick (Fulfilled v) = js_coalesce (js_prop v ''data'') JUndef"
| "pick Rejected = JUndef"

record workspace_answers =
  wa_summary :: settled
  wa_assets :: settled
  wa_cloud :: settled
  wa_events :: settled
  wa_compliance :: settled
  wa_cspm :: settled
  wa_insights :: settled

text \<open>The compliance and posture requests are only made for a paid edition.\<close>

definition settle :: "edition \<Rightarrow> workspace_answers \<Rightarrow> workspace_answers" where
  "settle e w = (if isPaidEdition e then w else w\<lparr>wa_compliance := Rejected, wa_cspm := Rejected\<rparr>)"

definition either_prop :: "jval \<Rightarrow> string \<Rightarrow> string \<Rightarrow> jval" where
  "either_prop v a b = js_coalesce (js_prop v a) (js_prop v b)"

text \<open>The list of a payload: its member of that name, or the payload itself.\<close>

definition listed :: "jval \<Rightarrow> string \<Rightarrow> jval list" where
  "listed payload k =
     (case array_items (js_prop payload k) of Some vs \<Rightarrow> vs
      | None \<Rightarrow> (case array_items payload of Some vs \<Rightarrow> vs | None \<Rightarrow> []))"

definition inventory_of :: "jval \<Rightarrow> inventory_context" where
  "inventory_of s =
     \<lparr>ic_totalAssets = either_prop s ''total_assets'' ''totalAssets'',
      ic_complianceScore = either_prop s ''compliance_score'' ''complianceScore'',
      ic_quantumSafeCount = either_prop s ''quantum_safe_count'' ''quantumSafeCount'',
      ic_nonQuantumSafe = either_prop s ''non_quantum_safe'' ''nonQuantumSafe'',
      ic_vulnerableAssets = either_prop s ''vulnerable_assets'' ''vulnerableAssets'',
      ic_byCategory = either_prop s ''by_category'' ''byCategory'',
      ic_byCloudProvider = either_prop s ''by_cloud_provider'' ''byCloudProvider''\<rparr>"

definition asset_of_json :: "jval \<Rightarrow> asset_context" where
  "asset_of_json a =
     \<lparr>xa_id = js_prop a ''id'', xa_name = js_prop a ''name'',
      xa_risk_level = either_prop a ''risk_level'' ''riskLevel'',
      xa_quantum_safe = either_prop a ''quantum_safe'' ''quantumSafe'',
      xa_algorithm = either_prop a ''algorithm'' ''crypto_algorithm'',
      xa_cloud_provider = either_prop a ''cloud_provider'' ''cloudProvider''\<rparr>"

definition event_of_json :: "jval \<Rightarrow> event_context" where
  "event_of_json e =
     \<lparr>xe_severity = js_prop e ''severity'',
      xe_message = js_coalesce (either_prop e ''message'' ''description'') (js_prop e ''title''),
      xe_title = js_prop e ''title''\<rparr>"

definition framework_of_json :: "jval \<Rightarrow> framework_context" where
  "framework_of_json f =
     \<lparr>xf_name = either_prop f ''name'' ''framework'', xf_framework = js_prop f ''framework'',
      xf_score = js_prop f ''score''\<rparr>"

definition cloud_of :: "bool \<Rightarrow> jval \<Rightarrow> jval \<Rightarrow> cloud_context option" where
  "cloud_of usingDemo demo_summary cloud =
     (if js_truthy cloud then
        Some \<lparr>cc_totalResources = either_prop cloud ''total_resources'' ''totalResources'',
              cc_byProvider = either_prop cloud ''by_provider'' ''byProvider'',
              cc_securityFindings = either_prop cloud ''security_findings'' ''securityFindings'',
              cc_scanCoverage = either_prop cloud ''scan_coverage'' ''scanCoverage'',
              cc_scansToday = either_prop cloud ''scans_today'' ''scansToday''\<rparr>
      else if usingDemo then
        Some \<lparr>cc_totalResources = zero_json, cc_byProvider = js_prop demo_summary ''by_cloud_provider'',
              cc_securityFindings = JObj [(''critical'', zero_json), (''high'', zero_json), (''medium'', zero_json),
                (''low'', zero_json)],
              cc_scanCoverage = zero_json, cc_scansToday = zero_json\<rparr>
      else None)"

definition compliance_of :: "jval \<Rightarrow> jval list \<Rightarrow> compliance_context option" where
  "compliance_of payload frameworks =
     (if js_truthy payload then
        Some \<lparr>xc_overallScore = js_coalesce (js_coalesce (js_prop (js_prop payload ''summary'') ''overall_score'')
                (js_prop payload ''overall_score'')) (js_prop payload ''overallScore''),
              xc_frameworks = map framework_of_json (take 8 frameworks),
              xc_criticalFindings = js_coalesce (js_prop (js_prop payload ''summary'') ''critical_findings'')
                (js_prop payload ''critical_findings'')\<rparr>
      else None)"

text \<open>The module constants the hook falls back to.\<close>

record demo_payloads =
  dp_assets :: "jval list"
  dp_summary :: jval
  dp_findings :: "jval list"

definition demo_payloads_of :: "int \<Rightarrow> dashboard \<Rightarrow> demo_payloads" where
  "demo_payloads_of clock sim =
     \<lparr>dp_assets = DEMO_ASSETS clock sim, dp_summary = DEMO_INVENTORY_SUMMARY clock sim,
      dp_findings = DEMO_SCAN_FINDINGS sim\<rparr>"

definition demo_event :: "jval \<Rightarrow> jval" where
  "demo_event f = JObj [(''severity'', js_prop f ''severity''), (''message'', js_prop f ''title''), (''title'', js_prop f ''title'')]"

definition scan_workspace ::
  "demo_payloads \<Rightarrow> int \<Rightarrow> string \<Rightarrow> edition \<Rightarrow> workspace_answers \<Rightarrow> unit + workspace_context" where
  "scan_workspace dp now page e ans =
     (let w = settle e ans; summaryRaw = pick (wa_summary w); cloud = pick (wa_cloud w);
          compliancePayload = pick (wa_compliance w);
          insights = js_coalesce (pick (wa_insights w)) (JArr DEMO_ANALYTICS_INSIGHTS);
          liveAssets = listed (pick (wa_assets w)) ''assets'';
          usingDemo = (liveAssets = []);
          assets = (if usingDemo then dp_assets dp else liveAssets);
          summary = (if js_truthy summaryRaw \<and> js_truthy (either_prop summaryRaw ''total_assets'' ''totalAssets'')
                     then summaryRaw else dp_summary dp);
          liveEvents = listed (pick (wa_events w)) ''events'';
          events = (if liveEvents \<noteq> [] then liveEvents else map demo_event (dp_findings dp));
          frameworks = listed compliancePayload ''dashboards''
      in if list_all not_null (take 12 assets) \<and> list_all not_null (take 8 events)
            \<and> (js_truthy compliancePayload \<longrightarrow> list_all not_null (take 8 frameworks)) then
           Inr \<lparr>wc_scannedAt = iso_string (num now), wc_page = page, wc_edition = edition_name e, wc_demoMode = usingDemo,
                wc_inventory = inventory_of summary, wc_assets = map asset_of_json (take 12 assets),
                wc_cloud = cloud_of usingDemo (dp_summary dp) cloud,
                wc_events = map event_of_json (take 8 events), wc_threats = insights,
                wc_compliance = compliance_of compliancePayload frameworks, wc_cspm = pick (wa_cspm w)\<rparr>
         else Inl ())"

section \<open>The assistant\<close>

definition SUGGESTED_PROMPTS :: "string list" where
  "SUGGESTED_PROMPTS =
    [''Summarize my security posture'', ''What are my critical findings?'', ''How PQC-ready is my inventory?'',
     ''Show compliance status'', ''Which assets need attention?'']"

abbreviation newline :: string where "newline \<equiv> [CHR 0x0A]"

definition bullet_item :: "string \<Rightarrow> string" where
  "bullet_item s = bullet @ '' '' @ s"

text \<open>The stable sort by value, largest first.\<close>

fun insert_desc :: "(rat \<Rightarrow> string) \<Rightarrow> string \<times> jval \<Rightarrow> (string \<times> jval) list \<Rightarrow> (string \<times> jval) list" where
  "insert_desc fmt e [] = [e]"
| "insert_desc fmt e (x # xs) =
     (if js_lt (num 0) (js_sub (js_number fmt (snd x)) (js_number fmt (snd e))) then x # insert_desc fmt e xs else e # x # xs)"

definition formatProviderBreakdown :: "(rat \<Rightarrow> string) \<Rightarrow> jval \<Rightarrow> string" where
  "formatProviderBreakdown fmt m =
     (if \<not> js_truthy m \<or> own_entries m = [] then ''No cloud breakdown available.''
      else str_join newline (map (\<lambda>(k, v). bullet_item (str_upper k @ '': '' @ js_string fmt v))
             (foldr (insert_desc fmt) (own_entries m) [])))"

definition formatFindings :: "(rat \<Rightarrow> string) \<Rightarrow> jval \<Rightarrow> string" where
  "formatFindings fmt m =
     (if \<not> js_truthy m then ''No finding counts available.''
      else str_join newline (map (\<lambda>(k, v). bullet_item (k @ '': '' @ js_string fmt v)) (own_entries m)))"

definition replace_newlines :: "string \<Rightarrow> string \<Rightarrow> string" where
  "replace_newlines by s = concat (map (\<lambda>c. if c = CHR 0x0A then by else [c]) s)"

definition readiness :: "(rat \<Rightarrow> string) \<Rightarrow> inventory_context \<Rightarrow> jsnum" where
  "readiness fmt iv =
     (let tot = js_plus fmt (ic_quantumSafeCount iv) (ic_nonQuantumSafe iv)
      in if js_truthy tot then
           js_round (js_mul (js_div (js_number fmt (ic_quantumSafeCount iv)) (js_number fmt tot)) (num 100))
         else num 0)"

definition source_label :: "workspace_context \<Rightarrow> string" where
  "source_label ctx = (if wc_demoMode ctx then ''demo dataset'' else ''live workspace scan'')"

text \<open>\<open>time_of\<close> is \<open>new Date(s).toLocaleTimeString()\<close>.\<close>

definition buildLocalSummary :: "(rat \<Rightarrow> string) \<Rightarrow> (string \<Rightarrow> string) \<Rightarrow> workspace_context \<Rightarrow> string" where
  "buildLocalSummary fmt time_of ctx =
     (let iv = wc_inventory ctx; str = js_string fmt
      in str_join newline
       ([''**Workspace snapshot**'']
        @ (if not_null (ic_totalAssets iv)
           then [bullet_item (''**'' @ str (ic_totalAssets iv) @ ''** cryptographic assets tracked'')] else [])
        @ (if not_null (ic_complianceScore iv)
           then [bullet_item (''Compliance score: **'' @ str (ic_complianceScore iv) @ ''%**'')] else [])
        @ (if not_null (ic_quantumSafeCount iv) \<and> not_null (ic_nonQuantumSafe iv)
           then [bullet_item (''PQC readiness: **'' @ num_string fmt (readiness fmt iv) @ ''%** (''
              @ str (ic_quantumSafeCount iv) @ '' quantum-safe, '' @ str (ic_nonQuantumSafe iv) @ '' legacy)'')] else [])
        @ (case wc_cloud ctx of None \<Rightarrow> [] | Some cl \<Rightarrow>
             (if js_truthy (cc_securityFindings cl)
              then [bullet_item (''Open findings '' @ em_dash @ '' ''
                 @ replace_newlines '', '' (formatFindings fmt (cc_securityFindings cl)))] else []))
        @ (case wc_compliance ctx of None \<Rightarrow> [] | Some co \<Rightarrow>
             (if not_null (xc_overallScore co)
              then [bullet_item (''Overall compliance: **'' @ str (xc_overallScore co) @ ''%** across ''
                 @ nat_str (length (xc_frameworks co)) @ '' frameworks'')] else []))
        @ [newline @ ''_Source: '' @ source_label ctx @ '' '' @ mid_dot @ '' '' @ time_of (wc_scannedAt ctx)
             @ '' '' @ mid_dot @ '' '' @ wc_edition ctx @ '' edition_'']))"

text \<open>\<open>(v || d).toLowerCase()\<close> and \<open>toUpperCase()\<close>: a truthy value that is not a string has neither.\<close>

definition text_or :: "jval \<Rightarrow> string \<Rightarrow> unit + string" where
  "text_or v d = (case js_or v (JStr d) of JStr s \<Rightarrow> Inr s | _ \<Rightarrow> Inl ())"

fun collect :: "('a \<Rightarrow> 'e + 'b) \<Rightarrow> 'a list \<Rightarrow> 'e + 'b list" where
  "collect f [] = Inr []"
| "collect f (x # xs) =
     (case f x of Inl e \<Rightarrow> Inl e
      | Inr y \<Rightarrow> (case collect f xs of Inl e \<Rightarrow> Inl e | Inr ys \<Rightarrow> Inr (y # ys)))"

definition mentions :: "string \<Rightarrow> string list \<Rightarrow> bool" where
  "mentions q words = list_ex (str_includes q) words"

definition help_reply :: string where
  "help_reply = str_join newline
     ([''I can answer questions about your RivicQ workspace using live inventory, cloud, compliance, and security data.'',
       [], ''Try asking:''] @ map bullet_item SUGGESTED_PROMPTS)"

definition findings_reply :: "(rat \<Rightarrow> string) \<Rightarrow> workspace_context \<Rightarrow> unit + string" where
  "findings_reply fmt ctx =
     (case collect (\<lambda>e. text_or (xe_severity e) []) (wc_events ctx) of
        Inl e \<Rightarrow> Inl e
      | Inr severities \<Rightarrow>
     (case collect (\<lambda>e. map_sum id (\<lambda>s. bullet_item (''['' @ str_upper s @ ''] ''
             @ js_string fmt (js_or (xe_message e) (xe_title e)))) (text_or (xe_severity e) ''info'')) (take 5 (wc_events ctx)) of
        Inl e \<Rightarrow> Inl e
      | Inr rows \<Rightarrow>
          (let critical = count_if (\<lambda>s. str_lower s = ''critical'') severities
           in Inr (str_join newline
               ([''**Security findings**'']
                @ (case wc_cloud ctx of None \<Rightarrow> [] | Some cl \<Rightarrow>
                     (if js_truthy (cc_securityFindings cl) then [formatFindings fmt (cc_securityFindings cl)] else []))
                @ (if wc_events ctx \<noteq> [] then [[], ''**Recent events:**''] @ rows
                   else [''No recent security events in the current scan.''])
                @ (if critical \<noteq> 0 then [[], [CHR 0xE2, CHR 0x9A, CHR 0xA0, CHR 0xEF, CHR 0xB8, CHR 0x8F]
                     @ '' **'' @ nat_str critical @ '' critical event(s)** require immediate review.''] else []))))))"

definition quantum_reply :: "(rat \<Rightarrow> string) \<Rightarrow> workspace_context \<Rightarrow> string" where
  "quantum_reply fmt ctx =
     (let iv = wc_inventory ctx; legacy = filter (\<lambda>a. xa_quantum_safe a = JBool False) (wc_assets ctx);
          str = js_string fmt
      in str_join newline
       ([''**Post-quantum readiness**'']
        @ (if not_null (ic_quantumSafeCount iv)
           then [bullet_item (''Quantum-safe assets: **'' @ str (ic_quantumSafeCount iv) @ ''**''),
                 bullet_item (''Legacy / vulnerable: **''
                   @ str (js_coalesce (js_coalesce (ic_nonQuantumSafe iv) (ic_vulnerableAssets iv)) (JStr em_dash)) @ ''**'')]
           else [])
        @ (if legacy \<noteq> [] then [[], ''**Priority migration targets:**'']
             @ map (\<lambda>a. bullet_item (str (xa_name a) @ '' ('' @ str (js_or (xa_algorithm a) (JStr ''unknown'')) @ '') ''
                 @ em_dash @ '' '' @ str (js_or (xa_risk_level a) (JStr ''unknown'')) @ '' risk'')) (take 5 legacy)
           else [])
        @ [[], ''Recommend migrating RSA/ECDSA/3DES to ML-KEM / ML-DSA where supported.'']))"

definition compliance_reply :: "(rat \<Rightarrow> string) \<Rightarrow> workspace_context \<Rightarrow> unit + string" where
  "compliance_reply fmt ctx =
     (let frameworks = (case wc_compliance ctx of None \<Rightarrow> [] | Some co \<Rightarrow> xc_frameworks co)
      in case collect (\<lambda>f. map_sum id (\<lambda>s. bullet_item (str_upper s @ '': **''
             @ js_string fmt (js_coalesce (xf_score f) (JStr em_dash)) @ ''%**''))
           (text_or (js_or (xf_name f) (xf_framework f)) ''Framework'')) frameworks of
           Inl e \<Rightarrow> Inl e
         | Inr rows \<Rightarrow> Inr (str_join newline
             ([''**Compliance status**'']
              @ (case wc_compliance ctx of None \<Rightarrow> [] | Some co \<Rightarrow>
                   (if not_null (xc_overallScore co)
                    then [bullet_item (''Overall score: **'' @ js_string fmt (xc_overallScore co) @ ''%**'')] else []))
              @ rows
              @ (if frameworks = [] then [''Compliance dashboards are not available on this edition or scan.''] else []))))"

definition inventory_reply :: "(rat \<Rightarrow> string) \<Rightarrow> workspace_context \<Rightarrow> string" where
  "inventory_reply fmt ctx =
     (let iv = wc_inventory ctx; str = js_string fmt
      in str_join newline
       ([''**Asset inventory**'']
        @ (if not_null (ic_totalAssets iv) then [bullet_item (''Total assets: **'' @ str (ic_totalAssets iv) @ ''**'')] else [])
        @ (if js_truthy (ic_byCategory iv) then [[], ''By category:'', formatProviderBreakdown fmt (ic_byCategory iv)] else [])
        @ (if wc_assets ctx \<noteq> [] then [[], ''**Top tracked assets:**'']
             @ map (\<lambda>a. bullet_item (str (xa_name a) @ '' '' @ em_dash @ '' ''
                 @ str (js_or (xa_cloud_provider a) (JStr ''on-prem'')) @ '' '' @ mid_dot @ '' ''
                 @ str (js_or (xa_algorithm a) (JStr ''n/a'')) @ '' '' @ mid_dot @ '' ''
                 @ str (js_or (xa_risk_level a) (JStr ''unknown'')))) (take 6 (wc_assets ctx))
           else [])))"

definition cloud_reply :: "(rat \<Rightarrow> string) \<Rightarrow> workspace_context \<Rightarrow> string" where
  "cloud_reply fmt ctx =
     str_join newline
       ([''**Cloud coverage**'']
        @ (case wc_cloud ctx of None \<Rightarrow> [] | Some cl \<Rightarrow>
             (if not_null (cc_totalResources cl)
              then [bullet_item (''Resources monitored: **'' @ js_string fmt (cc_totalResources cl) @ ''**'')] else [])
             @ (if not_null (cc_scanCoverage cl)
                then [bullet_item (''Scan coverage: **'' @ js_string fmt (cc_scanCoverage cl) @ ''%**'')] else [])
             @ (if js_truthy (cc_byProvider cl) then [[], formatProviderBreakdown fmt (cc_byProvider cl)] else [])))"

definition scan_reply :: "(rat \<Rightarrow> string) \<Rightarrow> workspace_context \<Rightarrow> string" where
  "scan_reply fmt ctx =
     str_join newline (filter (\<lambda>l. l \<noteq> [])
       ([''**Scan activity**'']
        @ (case wc_cloud ctx of None \<Rightarrow> [] | Some cl \<Rightarrow>
             [if not_null (cc_scansToday cl) then bullet_item (''Scans today: **'' @ js_string fmt (cc_scansToday cl) @ ''**'') else [],
              if not_null (cc_scanCoverage cl)
              then bullet_item (''Coverage: **'' @ js_string fmt (cc_scanCoverage cl) @ ''%** of connected resources'') else []])
        @ [''Open the **Scanner** workspace to trigger a new CBOM scan or review the latest report.'']))"

definition replyFromContext ::
  "(rat \<Rightarrow> string) \<Rightarrow> (string \<Rightarrow> string) \<Rightarrow> string \<Rightarrow> workspace_context \<Rightarrow> unit + string option" where
  "replyFromContext fmt time_of message ctx =
     (let q = str_lower message
      in if mentions q [''help'', ''what can you'', ''commands''] then Inr (Some help_reply)
         else if mentions q [''summar'', ''overview'', ''posture'', ''status'', ''snapshot''] then
           Inr (Some (buildLocalSummary fmt time_of ctx))
         else if mentions q [''critical'', ''finding'', ''alert'', ''threat'', ''incident'', ''risk''] then
           map_sum id Some (findings_reply fmt ctx)
         else if mentions q [''pqc'', ''quantum'', ''legacy'', ''algorithm''] then Inr (Some (quantum_reply fmt ctx))
         else if mentions q [''compliance'', ''framework'', ''iso'', ''gdpr'', ''soc'', ''nist'', ''dora''] then
           map_sum id Some (compliance_reply fmt ctx)
         else if mentions q [''asset'', ''inventory'', ''crypto''] then Inr (Some (inventory_reply fmt ctx))
         else if mentions q [''cloud'', ''aws'', ''gcp'', ''azure'', ''provider'', ''account''] then Inr (Some (cloud_reply fmt ctx))
         else if mentions q [''scan'', ''cbom'', ''scanner''] then Inr (Some (scan_reply fmt ctx))
         else Inr None)"

text \<open>What the analysis endpoint answered, \<open>None\<close> when the request failed; a list that is not an array
  throws, which is caught.\<close>

definition bulleted :: "(rat \<Rightarrow> string) \<Rightarrow> string \<Rightarrow> jval \<Rightarrow> unit + jval" where
  "bulleted fmt heading v =
     (if js_truthy (js_length v) then
        (case array_items v of
           None \<Rightarrow> Inl ()
         | Some vs \<Rightarrow> Inr (JStr (newline @ ''**'' @ heading @ '':**'' @ newline
             @ str_join newline (map (\<lambda>f. bullet_item (js_string fmt f)) vs))))
      else Inr (JStr []))"

definition tryBackendAI :: "(rat \<Rightarrow> string) \<Rightarrow> jval option \<Rightarrow> string option" where
  "tryBackendAI fmt response =
     (case response of
        None \<Rightarrow> None
      | Some data \<Rightarrow>
          (if \<not> js_truthy data then None
           else (case bulleted fmt ''Key findings'' (js_prop data ''key_findings'') of
                   Inl _ \<Rightarrow> None
                 | Inr kf \<Rightarrow>
                (case bulleted fmt ''Recommendations'' (js_prop data ''recommendations'') of
                   Inl _ \<Rightarrow> None
                 | Inr re \<Rightarrow>
                     (let parts = filter js_truthy [js_prop data ''summary'', kf, re]
                      in if parts \<noteq> [] then Some (str_join newline (map (js_string fmt) parts)) else None)))))"

definition askAssistant ::
  "(rat \<Rightarrow> string) \<Rightarrow> (string \<Rightarrow> string) \<Rightarrow> jval option \<Rightarrow> string \<Rightarrow> workspace_context \<Rightarrow> unit + string" where
  "askAssistant fmt time_of response message ctx =
     (let trimmed = str_trim message
      in if trimmed = [] then Inr ''Ask me anything about your posture, assets, compliance, or findings.''
         else (case tryBackendAI fmt response of
                 Some (c # cs) \<Rightarrow> Inr (c # cs)
               | _ \<Rightarrow>
                   (case replyFromContext fmt time_of trimmed ctx of
                      Inl e \<Rightarrow> Inl e
                    | Inr (Some (c # cs)) \<Rightarrow> Inr (c # cs)
                    | Inr _ \<Rightarrow> Inr (str_join newline
                        [buildLocalSummary fmt time_of ctx, [],
                         ''I matched your question against the latest workspace scan. Try a more specific prompt like **''
                           @ [CHR 0x22] @ ''critical findings'' @ [CHR 0x22] @ ''**, **'' @ [CHR 0x22] @ ''PQC readiness''
                           @ [CHR 0x22] @ ''**, or **'' @ [CHR 0x22] @ ''compliance status'' @ [CHR 0x22] @ ''**.'']))))"

section \<open>Lemmas\<close>

lemma str_join_Cons_not_Nil: "x \<noteq> [] \<Longrightarrow> str_join sep (x # xs) \<noteq> []"
  by (cases xs) simp_all

lemma simulated_summary:
  assumes "clock_ok now" "simulate fmt loc tr now = Inr sim"
  shows "js_prop (DEMO_INVENTORY_SUMMARY clock sim) ''total_assets'' = JNum (num 19142)"
    "DEMO_ASSETS clock sim \<noteq> []" "list_all not_null (DEMO_ASSETS clock sim)"
proof -
  obtain assets findings controls trend heat where
    v: "sim = build_view fmt loc tr now assets findings controls trend heat" "length assets = 3 * length ACCOUNT_DEFS"
    using simulate_total [OF assms(1), of fmt loc tr] assms(2) by (metis sum.inject(2))
  have "to_assets (dv_totals sim) = num 19142"
    unfolding v(1) by (simp add: build_view_def Let_def sim_totals_def sum_of_def ACCOUNT_DEFS_def)
  then show "js_prop (DEMO_INVENTORY_SUMMARY clock sim) ''total_assets'' = JNum (num 19142)"
    by (simp add: DEMO_INVENTORY_SUMMARY_def simulationInventorySummary_def Let_def)
  have "dv_assets sim = assets" unfolding v(1) by (simp add: build_view_def Let_def)
  then show "DEMO_ASSETS clock sim \<noteq> []" using v(2) by (auto simp: DEMO_ASSETS_def accounts_length)
  show "list_all not_null (DEMO_ASSETS clock sim)"
    by (simp add: DEMO_ASSETS_def list_all_iff demo_asset_def not_null_def)
qed

lemma demo_events_not_null: "list_all not_null (map demo_event fs)"
  by (simp add: list_all_iff demo_event_def not_null_def)

lemma summary_shape_text: "buildLocalSummary fmt time_of ctx \<noteq> []"
  by (simp add: buildLocalSummary_def Let_def str_join_Cons_not_Nil)

text \<open>A context whose severities and framework names the assistant can spell.\<close>

definition spellable :: "jval \<Rightarrow> bool" where
  "spellable v \<longleftrightarrow> \<not> js_truthy v \<or> (\<exists>s. v = JStr s)"

definition well_spelt :: "workspace_context \<Rightarrow> bool" where
  "well_spelt ctx \<longleftrightarrow> list_all (\<lambda>e. spellable (xe_severity e)) (wc_events ctx)
     \<and> (\<forall>co. wc_compliance ctx = Some co \<longrightarrow>
          list_all (\<lambda>f. spellable (js_or (xf_name f) (xf_framework f))) (xc_frameworks co))"

lemma text_or_spellable: "spellable v \<Longrightarrow> \<exists>s. text_or v d = Inr s"
  by (auto simp: spellable_def text_or_def js_or_def)

lemma collect_total: "list_all (\<lambda>x. \<exists>y. f x = Inr y) xs \<Longrightarrow> \<exists>ys. collect f xs = Inr ys"
  by (induction xs) auto

lemma collect_spelt:
  assumes "list_all (\<lambda>x. spellable (g x)) xs"
  shows "\<exists>ys. collect (\<lambda>x. text_or (g x) d) xs = Inr ys"
    and "\<exists>ys. collect (\<lambda>x. map_sum id (h x) (text_or (g x) d)) xs = Inr ys"
  by (rule collect_total; use assms in \<open>auto simp: list_all_iff dest!: bspec dest: text_or_spellable [of _ d]\<close>;
      metis (no_types, lifting) map_sum.simps(2) text_or_spellable)+

lemma reply_total:
  assumes "well_spelt ctx"
  shows "\<exists>r. replyFromContext fmt time_of message ctx = Inr r"
proof -
  have ev: "list_all (\<lambda>x. spellable (xe_severity x)) (wc_events ctx)"
    "list_all (\<lambda>x. spellable (xe_severity x)) (take 5 (wc_events ctx))"
    using assms by (auto simp: well_spelt_def list_all_iff dest: in_set_takeD)
  have fr: "list_all (\<lambda>f. spellable (js_or (xf_name f) (xf_framework f)))
      (case wc_compliance ctx of None \<Rightarrow> [] | Some co \<Rightarrow> xc_frameworks co)"
    using assms by (auto simp: well_spelt_def split: option.splits)
  obtain s1 where s1: "collect (\<lambda>e. text_or (xe_severity e) []) (wc_events ctx) = Inr s1"
    using collect_spelt(1) [OF ev(1)] by blast
  obtain s2 where s2: "collect (\<lambda>e. map_sum id (\<lambda>s. bullet_item (''['' @ str_upper s @ ''] ''
             @ js_string fmt (js_or (xe_message e) (xe_title e)))) (text_or (xe_severity e) ''info'')) (take 5 (wc_events ctx)) = Inr s2"
    using collect_spelt(2) [OF ev(2), where h = "\<lambda>e s. bullet_item (''['' @ str_upper s @ ''] ''
             @ js_string fmt (js_or (xe_message e) (xe_title e)))"] by blast
  obtain s3 where s3: "collect (\<lambda>f. map_sum id (\<lambda>s. bullet_item (str_upper s @ '': **''
             @ js_string fmt (js_coalesce (xf_score f) (JStr em_dash)) @ ''%**''))
           (text_or (js_or (xf_name f) (xf_framework f)) ''Framework''))
      (case wc_compliance ctx of None \<Rightarrow> [] | Some co \<Rightarrow> xc_frameworks co) = Inr s3"
    using collect_spelt(2) [OF fr, where h = "\<lambda>f s. bullet_item (str_upper s @ '': **''
             @ js_string fmt (js_coalesce (xf_score f) (JStr em_dash)) @ ''%**'')"] by blast
  have "\<exists>r. findings_reply fmt ctx = Inr r" by (simp only: findings_reply_def s1 s2 sum.case Let_def) blast
  moreover have "\<exists>r. compliance_reply fmt ctx = Inr r" by (simp only: compliance_reply_def s3 sum.case Let_def) blast
  ultimately show ?thesis by (auto simp: replyFromContext_def Let_def)
qed

lemma str_join_two: "\<exists>rest. str_join sep (x # y # ys) = x @ sep @ y @ rest"
  by (cases ys) auto

lemma snapshot_counts:
  assumes "ic_totalAssets (wc_inventory ctx) = JNum (num 19142)"
  shows "\<exists>rest. buildLocalSummary fmt time_of ctx =
    ''**Workspace snapshot**'' @ newline @ bullet @ '' **19142** cryptographic assets tracked'' @ rest"
proof -
  have "js_string fmt (JNum (num 19142)) = nat_str 19142" by simp
  moreover have "nat_str 19142 = ''19142''"
    by (simp add: nat_str_def nat_str_base.simps digit_char_def char_of_def bit_numeral_rec bit_0)
  ultimately have n: "js_string fmt (JNum (num 19142)) = ''19142''" by (rule trans)
  have "\<exists>ys. buildLocalSummary fmt time_of ctx =
      str_join newline (''**Workspace snapshot**'' # bullet_item ''**19142** cryptographic assets tracked'' # ys)"
    unfolding buildLocalSummary_def Let_def assms n by (rule exI) (simp add: not_null_def)
  then obtain ys where ys: "buildLocalSummary fmt time_of ctx =
      str_join newline (''**Workspace snapshot**'' # bullet_item ''**19142** cryptographic assets tracked'' # ys)" by blast
  obtain rest where "str_join newline (''**Workspace snapshot**'' # bullet_item ''**19142** cryptographic assets tracked'' # ys) =
      ''**Workspace snapshot**'' @ newline @ bullet_item ''**19142** cryptographic assets tracked'' @ rest"
    using str_join_two by blast
  then have "buildLocalSummary fmt time_of ctx =
      ''**Workspace snapshot**'' @ newline @ bullet @ '' **19142** cryptographic assets tracked'' @ rest"
    by (simp only: ys bullet_item_def append_assoc) simp
  then show ?thesis by blast
qed

section \<open>Properties\<close>

text \<open>The context is marked as demo exactly when the inventory lists no asset, and then lists the
  first twelve simulated ones; it holds at most twelve assets and eight events, and outside a paid
  edition nothing of the compliance and posture APIs, whatever they would have answered.\<close>

theorem context_demo_mode:
  assumes "scan_workspace (demo_payloads_of clock sim) now page e ans = Inr ctx"
  shows "(wc_demoMode ctx \<longleftrightarrow> listed (pick (wa_assets ans)) ''assets'' = [])
    \<and> (wc_demoMode ctx \<longrightarrow> wc_assets ctx = map asset_of_json (take 12 (DEMO_ASSETS clock sim)))
    \<and> length (wc_assets ctx) \<le> 12 \<and> length (wc_events ctx) \<le> 8
    \<and> (\<not> isPaidEdition e \<longrightarrow> wc_compliance ctx = None \<and> wc_cspm ctx = JUndef)"
  using assms
  by (auto simp: scan_workspace_def Let_def settle_def demo_payloads_of_def compliance_of_def split: if_splits)

definition offline_answers :: workspace_answers where
  "offline_answers =
     \<lparr>wa_summary = Rejected, wa_assets = Rejected, wa_cloud = Rejected, wa_events = Rejected, wa_compliance = Rejected,
      wa_cspm = Rejected, wa_insights = Rejected\<rparr>"

lemma listed_undef [simp]: "listed JUndef k = []"
  by (simp add: listed_def)

lemma offline_context:
  assumes "clock_ok t" "simulate fmt loc tr t = Inr sim"
  shows "\<exists>ctx. scan_workspace (demo_payloads_of clock sim) now page e offline_answers = Inr ctx \<and> well_spelt ctx"
proof -
  have a: "list_all not_null (take 12 (DEMO_ASSETS clock sim))"
    using simulated_summary(3) [OF assms, of clock] by (auto simp: list_all_iff dest: in_set_takeD)
  have e: "list_all not_null (take 8 (map demo_event (DEMO_SCAN_FINDINGS sim)))"
    by (auto simp: list_all_iff demo_event_def not_null_def dest!: in_set_takeD)
  have "list_all (\<lambda>x. spellable (xe_severity (event_of_json x))) (take 8 (map demo_event (DEMO_SCAN_FINDINGS sim)))"
    by (auto simp: list_all_iff spellable_def event_of_json_def demo_event_def DEMO_SCAN_FINDINGS_def demo_scan_finding_def
        dest!: in_set_takeD)
  with a e show ?thesis
    by (simp add: scan_workspace_def Let_def settle_def offline_answers_def demo_payloads_of_def compliance_of_def
        well_spelt_def list_all_iff take_map image_image)
qed

theorem context_demo_mode_witness:
  "\<exists>sim ctx. simulate (\<lambda>_. []) (\<lambda>_. []) Days7 ex_now = Inr sim
     \<and> scan_workspace (demo_payloads_of ex_now sim) ex_now ''/dashboard'' community offline_answers = Inr ctx
     \<and> wc_demoMode ctx \<and> wc_cspm ctx = JUndef"
proof -
  obtain sim where s: "simulate (\<lambda>_. []) (\<lambda>_. []) Days7 ex_now = Inr sim" using ex_sim by blast
  from offline_context [OF ex_clock s] obtain ctx where
    c: "scan_workspace (demo_payloads_of ex_now sim) ex_now ''/dashboard'' community offline_answers = Inr ctx" by blast
  from context_demo_mode [OF this] s c show ?thesis by (auto simp: offline_answers_def isPaidEdition_def)
qed

text \<open>When the inventory lists assets but its summary brings no total, the context is not marked as demo
  although its totals are those of the simulation, and the assistant tells the 19142 simulated assets as
  those of a live workspace scan.\<close>

theorem assistant_simulation_as_live:
  assumes "clock_ok t" "simulate fmt loc tr t = Inr sim"
    and "listed (pick (wa_assets ans)) ''assets'' \<noteq> []" "wa_summary ans = Rejected"
    and "scan_workspace (demo_payloads_of clock sim) now page e ans = Inr ctx"
  shows "source_label ctx = ''live workspace scan'' \<and> ic_totalAssets (wc_inventory ctx) = JNum (num 19142)
    \<and> (\<exists>rest. buildLocalSummary fmt time_of ctx =
          ''**Workspace snapshot**'' @ newline @ bullet @ '' **19142** cryptographic assets tracked'' @ rest)"
proof -
  have live: "\<not> wc_demoMode ctx" "wc_inventory ctx = inventory_of (DEMO_INVENTORY_SUMMARY clock sim)"
    using assms(3-5) by (auto simp: scan_workspace_def Let_def settle_def demo_payloads_of_def split: if_splits)
  have tot: "ic_totalAssets (wc_inventory ctx) = JNum (num 19142)"
    using simulated_summary(1) [OF assms(1,2)] live by (simp add: inventory_of_def either_prop_def not_null_def)
  with live snapshot_counts [OF this, of fmt time_of] show ?thesis by (simp add: source_label_def)
qed

text \<open>Only the totals fail to arrive: the inventory lists one asset.\<close>

definition asset_only_answers :: workspace_answers where
  "asset_only_answers =
     offline_answers\<lparr>wa_assets := Fulfilled (JObj [(''data'', JArr [JObj [(''name'', JStr ''db-prod-01'')]])])\<rparr>"

theorem assistant_simulation_as_live_witness:
  "\<exists>sim ctx rest. simulate (\<lambda>_. []) (\<lambda>_. []) Days7 ex_now = Inr sim
     \<and> scan_workspace (demo_payloads_of ex_now sim) ex_now ''/dashboard'' community asset_only_answers = Inr ctx
     \<and> source_label ctx = ''live workspace scan''
     \<and> buildLocalSummary (\<lambda>_. []) (\<lambda>_. []) ctx =
          ''**Workspace snapshot**'' @ newline @ bullet @ '' **19142** cryptographic assets tracked'' @ rest"
proof -
  obtain sim where s: "simulate (\<lambda>_. []) (\<lambda>_. []) Days7 ex_now = Inr sim" using ex_sim by blast
  have a: "listed (pick (wa_assets asset_only_answers)) ''assets'' \<noteq> []" "wa_summary asset_only_answers = Rejected"
    by (simp_all add: asset_only_answers_def offline_answers_def listed_def js_coalesce_def)
  have "list_all not_null (take 8 (map demo_event (DEMO_SCAN_FINDINGS sim)))"
    by (auto simp: list_all_iff demo_event_def not_null_def dest!: in_set_takeD)
  then obtain ctx where
    c: "scan_workspace (demo_payloads_of ex_now sim) ex_now ''/dashboard'' community asset_only_answers = Inr ctx"
    by (simp add: scan_workspace_def Let_def settle_def asset_only_answers_def offline_answers_def demo_payloads_of_def
        listed_def not_null_def js_coalesce_def)
  from assistant_simulation_as_live [OF ex_clock s a this] s c show ?thesis by blast
qed

text \<open>For a context whose severities and framework names are strings or absent, the assistant always
  returns a non-empty text, whatever is asked and whatever the analysis endpoint answered or failed to.\<close>

theorem assistant_answers:
  assumes "well_spelt ctx"
  shows "\<exists>reply. askAssistant fmt time_of response message ctx = Inr reply \<and> reply \<noteq> []"
proof -
  obtain r where "replyFromContext fmt time_of (str_trim message) ctx = Inr r"
    using reply_total [OF assms] by blast
  then show ?thesis
    by (auto simp: askAssistant_def Let_def str_join_Cons_not_Nil summary_shape_text split: option.splits list.splits)
qed

theorem assistant_answers_witness:
  "\<exists>sim ctx reply. scan_workspace (demo_payloads_of ex_now sim) ex_now ''/dashboard'' community offline_answers = Inr ctx
     \<and> askAssistant (\<lambda>_. []) (\<lambda>_. []) None ''critical findings?'' ctx = Inr reply \<and> reply \<noteq> []"
proof -
  obtain sim where s: "simulate (\<lambda>_. []) (\<lambda>_. []) Days7 ex_now = Inr sim" using ex_sim by blast
  from offline_context [OF ex_clock s] obtain ctx where
    "scan_workspace (demo_payloads_of ex_now sim) ex_now ''/dashboard'' community offline_answers = Inr ctx"
    "well_spelt ctx" by blast
  with assistant_answers [OF this(2)] show ?thesis by blast
qed

end
