(* ===== verification/Scan_Page.thy ===== *)
theory Scan_Page
  imports Contracts Api_Client
begin

text \<open>
  web/src/pages/Scanner.tsx: the state of the scanner page and everything that changes it, the controls, the
  start of a scan, the polling timer with its requests, and the answers, in whatever order they arrive.
  What an API answers is an arbitrary value.  Scan identifiers are strings or numbers.
\<close>

section \<open>Data\<close>

datatype target_class = TWebsite | THost | TIp | TServer | TPod | THardware | TFirmware

fun class_name :: "target_class \<Rightarrow> string" where
  "class_name TWebsite = ''website''"
| "class_name THost = ''host''"
| "class_name TIp = ''ip''"
| "class_name TServer = ''server''"
| "class_name TPod = ''pod''"
| "class_name THardware = ''hardware''"
| "class_name TFirmware = ''firmware''"

datatype scan_type = Quick | Full | Compliance | Cbom | OfClass target_class

fun type_name :: "scan_type \<Rightarrow> string" where
  "type_name Quick = ''quick''"
| "type_name Full = ''full''"
| "type_name Compliance = ''compliance''"
| "type_name Cbom = ''cbom''"
| "type_name (OfClass c) = class_name c"

fun class_placeholder :: "target_class \<Rightarrow> string" where
  "class_placeholder TWebsite = ''https://example.com''"
| "class_placeholder THost = ''api.internal.example''"
| "class_placeholder TIp = ''192.0.2.10''"
| "class_placeholder TServer = ''app-01.prod.local''"
| "class_placeholder TPod = ''pod://prod/api@example.com''"
| "class_placeholder THardware = ''qsic://research''"
| "class_placeholder TFirmware = ''firmware://cyclonedx''"

definition WEBSITE_PRESETS :: "string list" where
  "WEBSITE_PRESETS = [''https://example.com'', ''https://www.wikipedia.org'']"

definition MAX_POLL_ATTEMPTS :: nat where "MAX_POLL_ATTEMPTS = 40"

record scan_job =
  sj_id :: jval
  sj_scanId :: jval
  sj_status :: jval
  sj_type :: jval
  sj_target :: jval
  sj_startedAt :: jval
  sj_findings :: jval
  sj_progress :: jsnum
  sj_error :: "string option"

text \<open>Requests under way: a start, a poll with the job and scan of its timer, and the two reads that follow a
  completed scan.\<close>

datatype request = StartRequest jval | PollRequest jval jval | IntelRequest jval | QiskitRequest jval

text \<open>\<open>sc_timer\<close> is the job and scan of the interval \<open>pollTimerRef\<close> holds.\<close>

record scanner =
  sc_tab :: nat
  sc_isScanning :: bool
  sc_targetClass :: target_class
  sc_scanType :: scan_type
  sc_scanTarget :: string
  sc_scanJobs :: "scan_job list"
  sc_liveFindings :: jval
  sc_policyGate :: jval
  sc_enabledResources :: jval
  sc_qiskitEstate :: jval
  sc_auditOverall :: jval
  sc_architecture :: jval
  sc_readiness :: jval
  sc_scanProgress :: jsnum
  sc_error :: "string option"
  sc_timer :: "(jval \<times> jval) option"
  sc_attempts :: nat
  sc_autostarted :: bool
  sc_pending :: "request list"

text \<open>The session the page runs in.\<close>

record session_view =
  sv_paid :: bool
  sv_isDemo :: bool
  sv_fmt :: "rat \<Rightarrow> string"

text \<open>The page when it is opened, with the \<open>tab\<close> and \<open>target\<close> of its address.\<close>

definition scanner_init :: "string option \<Rightarrow> string option \<Rightarrow> scanner" where
  "scanner_init tab target =
     \<lparr>sc_tab = (if tab = Some ''github'' then 5 else 0), sc_isScanning = False, sc_targetClass = TWebsite,
      sc_scanType = OfClass TWebsite, sc_scanTarget = or_opt target ''https://example.com'', sc_scanJobs = [],
      sc_liveFindings = JArr [], sc_policyGate = JNull, sc_enabledResources = JObj [], sc_qiskitEstate = JNull,
      sc_auditOverall = JNull, sc_architecture = JNull, sc_readiness = JNull, sc_scanProgress = num 0,
      sc_error = None, sc_timer = None, sc_attempts = 0, sc_autostarted = False, sc_pending = []\<rparr>"

section \<open>The lists of the API\<close>

definition mapApiScan :: "(rat \<Rightarrow> string) \<Rightarrow> jval \<Rightarrow> scan_job" where
  "mapApiScan fmt s =
     \<lparr>sj_id = js_coalesce (js_prop s ''id'') (js_prop s ''scan_id''),
      sj_scanId = js_coalesce (js_prop s ''scan_id'') (js_prop s ''id''),
      sj_status = js_coalesce (js_prop s ''status'') (JStr ''pending''),
      sj_type = js_coalesce (js_prop s ''scan_type'') (JStr ''cbom''),
      sj_target = js_coalesce (js_prop s ''target'') (JStr []),
      sj_startedAt = js_prop s ''created_at'',
      sj_findings = js_coalesce (js_prop (js_prop s ''findings'') ''total'') (JNum (num 0)),
      sj_progress = (case js_prop s ''progress'' of JNum n \<Rightarrow> n
        | _ \<Rightarrow> if js_prop s ''status'' = JStr ''completed'' then num 100 else num 0),
      sj_error = (if js_truthy (js_prop s ''error'') then Some (js_string fmt (js_prop s ''error'')) else None)\<rparr>"

text \<open>The effects on a new answer of the two queries; a list that is not an array of objects throws, which
  React turns into the error page: \<open>Inl\<close>.\<close>

definition scans_listed :: "(rat \<Rightarrow> string) \<Rightarrow> jval \<Rightarrow> scanner \<Rightarrow> unit + scanner" where
  "scans_listed fmt scanList s =
     (let scans = js_prop scanList ''scans''
      in if js_truthy (js_length scans) then
           (case array_items scans of
              None \<Rightarrow> Inl ()
            | Some vs \<Rightarrow> if list_all not_null vs then Inr (s\<lparr>sc_scanJobs := map (mapApiScan fmt) vs\<rparr>) else Inl ())
         else Inr s)"

definition findings_listed :: "jval \<Rightarrow> scanner \<Rightarrow> scanner" where
  "findings_listed findingsData s =
     (let fs = js_prop findingsData ''findings''
      in if js_truthy (js_length fs) then s\<lparr>sc_liveFindings := fs\<rparr> else s)"

definition updateJob :: "jval \<Rightarrow> (scan_job \<Rightarrow> scan_job) \<Rightarrow> scanner \<Rightarrow> scanner" where
  "updateJob jobId updater s =
     s\<lparr>sc_scanJobs := map (\<lambda>job. if sj_id job = jobId then updater job else job) (sc_scanJobs s)\<rparr>"

definition clearPolling :: "scanner \<Rightarrow> scanner" where
  "clearPolling s = s\<lparr>sc_timer := None\<rparr>"

section \<open>Starting a scan\<close>

definition looksLikeWebsite :: "string \<Rightarrow> bool" where
  "looksLikeWebsite t \<longleftrightarrow> list_ex (starts_with (str_lower t)) [''http://'', ''https://'', ''www.'']"

definition looksLikeIP :: "string \<Rightarrow> bool" where
  "looksLikeIP t \<longleftrightarrow>
     (let ws = split_on (CHR ''.'') t
      in length ws = 4 \<and> list_all (\<lambda>w. list_all is_digit w \<and> 1 \<le> length w \<and> length w \<le> 3) ws)
     \<or> str_includes t '':'' \<and> str_includes t ''.''"

definition resolve_type :: "bool \<Rightarrow> target_class \<Rightarrow> scan_type \<Rightarrow> string \<Rightarrow> scan_type" where
  "resolve_type paid cls ty target =
     (let web = looksLikeWebsite target;
          r = (if cls = TWebsite \<or> web \<and> cls = THost then OfClass TWebsite
               else if cls = TIp \<or> looksLikeIP target \<and> cls = THost then OfClass TIp
               else if cls = THost \<or> cls = TServer \<or> cls = TPod \<or> cls = THardware then OfClass cls
               else if web \<and> ty = Cbom then OfClass TWebsite
               else ty)
      in if \<not> paid \<and> r = Compliance then Cbom else r)"

definition new_job :: "string \<Rightarrow> string \<Rightarrow> scan_type \<Rightarrow> string \<Rightarrow> scan_job" where
  "new_job stamp at_iso ty target =
     \<lparr>sj_id = JStr (''scan-'' @ stamp), sj_scanId = JUndef, sj_status = JStr ''running'', sj_type = JStr (type_name ty),
      sj_target = JStr target, sj_startedAt = JStr at_iso, sj_findings = JNum (num 0), sj_progress = num 0, sj_error = None\<rparr>"

text \<open>\<open>stamp\<close> is \<open>Date.now()\<close> and \<open>at_iso\<close> the same time as ISO text.\<close>

definition startScan :: "bool \<Rightarrow> string option \<Rightarrow> string \<Rightarrow> string \<Rightarrow> scanner \<Rightarrow> scanner" where
  "startScan paid overrideTarget stamp at_iso s =
     (let target = str_trim (nullish overrideTarget (sc_scanTarget s))
      in if target = [] then
           s\<lparr>sc_error := Some ''Specify a scan target (website, host, IP, server, pod://ns/name, or qsic://).''\<rparr>
         else
           (let ty = resolve_type paid (sc_targetClass s) (sc_scanType s) target; job = new_job stamp at_iso ty target
            in (clearPolling s)\<lparr>sc_isScanning := True, sc_error := None, sc_scanProgress := num 0,
                 sc_policyGate := JNull, sc_qiskitEstate := JNull, sc_auditOverall := JNull,
                 sc_enabledResources := JObj [], sc_architecture := JNull, sc_readiness := JNull,
                 sc_scanJobs := job # sc_scanJobs s, sc_tab := 1,
                 sc_pending := StartRequest (sj_id job) # sc_pending s\<rparr>))"

text \<open>The request a start sends, and its answer.\<close>

definition start_call :: "bool \<Rightarrow> string option \<Rightarrow> scanner \<Rightarrow> api_request" where
  "start_call paid overrideTarget s =
     (let target = str_trim (nullish overrideTarget (sc_scanTarget s))
      in cbomService_triggerScan target (type_name (resolve_type paid (sc_targetClass s) (sc_scanType s) target)) JUndef)"

definition pollScanStatus :: "jval \<Rightarrow> jval \<Rightarrow> scanner \<Rightarrow> scanner" where
  "pollScanStatus jobId scanId s = (clearPolling s)\<lparr>sc_attempts := 0, sc_timer := Some (jobId, scanId)\<rparr>"

text \<open>The answer to a request: its status and body, or \<open>None\<close> when it failed.\<close>

type_synonym answer = "(jsnum \<times> jval) option"

definition start_answered :: "bool \<Rightarrow> jval \<Rightarrow> answer \<Rightarrow> scanner \<Rightarrow> scanner" where
  "start_answered isDemo jobId ans s =
     (case ans of
        Some (_, body) \<Rightarrow>
          (let scanId = js_coalesce (js_coalesce (js_prop body ''scan_id'') (js_prop body ''scanId'')) jobId
           in pollScanStatus scanId scanId (updateJob jobId (\<lambda>job. job\<lparr>sj_scanId := scanId, sj_id := scanId\<rparr>) s))
      | None \<Rightarrow>
          (clearPolling s)\<lparr>sc_isScanning := False,
             sc_error := Some (if isDemo
               then ''Demo scan could not start in this browser session. Refresh and try again, or open Interactive Demo from /demo.''
               else ''Could not reach the CBOM scan API. Start the backend on :9090 or use GitHub Pages demo mode.''),
             sc_scanJobs := filter (\<lambda>j. sj_id j \<noteq> jobId) (sc_scanJobs s)\<rparr>)"

section \<open>Polling\<close>

text \<open>The timer fires: one more attempt, one more request.\<close>

definition tick :: "scanner \<Rightarrow> scanner" where
  "tick s =
     (case sc_timer s of
        None \<Rightarrow> s
      | Some (jobId, scanId) \<Rightarrow>
          s\<lparr>sc_attempts := sc_attempts s + 1, sc_pending := PollRequest jobId scanId # sc_pending s\<rparr>)"

text \<open>\<open>response.data ?? response\<close>: of the response itself the handler can only meet these two members.\<close>

definition poll_data :: "jsnum \<Rightarrow> jval \<Rightarrow> jval" where
  "poll_data http body = js_coalesce body (JObj [(''data'', body), (''status'', JNum http)])"

definition poll_status :: "jval \<Rightarrow> jval" where
  "poll_status data = js_coalesce (js_prop data ''status'') (JStr ''running'')"

definition poll_progress :: "jval \<Rightarrow> jsnum" where
  "poll_progress data =
     (case js_prop data ''progress'' of JNum n \<Rightarrow> n
      | _ \<Rightarrow> if poll_status data = JStr ''completed'' then num 100 else num 0)"

definition polled_job :: "(rat \<Rightarrow> string) \<Rightarrow> jval \<Rightarrow> scan_job \<Rightarrow> scan_job" where
  "polled_job fmt data job =
     job\<lparr>sj_status := (if poll_status data = JStr ''failed'' then JStr ''failed''
           else if poll_status data = JStr ''completed'' then JStr ''completed'' else JStr ''running''),
         sj_progress := poll_progress data,
         sj_findings := js_coalesce (js_prop (js_prop data ''findings'') ''total'') (sj_findings job),
         sj_error := (if js_truthy (js_prop data ''error'') then Some (js_string fmt (js_prop data ''error''))
           else sj_error job)\<rparr>"

definition terminal :: "jval \<Rightarrow> bool" where
  "terminal data \<longleftrightarrow> poll_status data = JStr ''completed'' \<or> poll_status data = JStr ''failed''"

text \<open>What every answer brings in, and what a final one adds.\<close>

definition progress_shown :: "(rat \<Rightarrow> string) \<Rightarrow> jval \<Rightarrow> jval \<Rightarrow> scanner \<Rightarrow> scanner" where
  "progress_shown fmt jobId data s =
     (let s1 = updateJob jobId (polled_job fmt data) (s\<lparr>sc_scanProgress := poll_progress data\<rparr>);
          items = js_prop data ''finding_items''; res = js_prop data ''resources'';
          s2 = (if js_truthy (js_length items) then s1\<lparr>sc_liveFindings := items\<rparr> else s1)
      in if js_truthy res \<and> is_object res then s2\<lparr>sc_enabledResources := res\<rparr> else s2)"

definition scan_ended :: "(rat \<Rightarrow> string) \<Rightarrow> jval \<Rightarrow> jval \<Rightarrow> scanner \<Rightarrow> scanner" where
  "scan_ended fmt scanId data s =
     (let s' = (clearPolling s)\<lparr>sc_isScanning := False\<rparr>
      in if poll_status data = JStr ''failed'' then
           s'\<lparr>sc_error := Some (if js_truthy (js_prop data ''error'') then js_string fmt (js_prop data ''error'')
                else ''Scan '' @ js_string fmt scanId @ '' failed. Inventory for this target was not updated.'')\<rparr>
         else s'\<lparr>sc_pending := IntelRequest scanId # QiskitRequest scanId # sc_pending s'\<rparr>)"

definition poll_failed :: "jval \<Rightarrow> scanner \<Rightarrow> scanner" where
  "poll_failed jobId s =
     (if MAX_POLL_ATTEMPTS \<le> sc_attempts s then
        (updateJob jobId (\<lambda>job. job\<lparr>sj_status := JStr ''failed''\<rparr>) ((clearPolling s)\<lparr>sc_isScanning := False\<rparr>))
          \<lparr>sc_error := Some ''Scan polling timed out.''\<rparr>
      else s)"

definition poll_answered :: "(rat \<Rightarrow> string) \<Rightarrow> jval \<Rightarrow> jval \<Rightarrow> answer \<Rightarrow> scanner \<Rightarrow> scanner" where
  "poll_answered fmt jobId scanId ans s =
     (case ans of
        None \<Rightarrow> poll_failed jobId s
      | Some (http, body) \<Rightarrow>
          (let data = poll_data http body; s' = progress_shown fmt jobId data s
           in if terminal data then scan_ended fmt scanId data s' else s'))"

definition intel_answered :: "answer \<Rightarrow> scanner \<Rightarrow> scanner" where
  "intel_answered ans s =
     (case ans of
        None \<Rightarrow> s
      | Some (_, body) \<Rightarrow>
          s\<lparr>sc_policyGate := js_or (js_prop body ''gate'') (sc_policyGate s),
            sc_architecture := js_or (js_prop body ''client_architecture'') (sc_architecture s),
            sc_readiness := js_or (js_prop body ''pqc_readiness'') (sc_readiness s)\<rparr>)"

fun number_or :: "jval \<Rightarrow> jval \<Rightarrow> jval" where
  "number_or (JNum n) d = JNum n"
| "number_or _ d = d"

definition qiskit_answered :: "answer \<Rightarrow> scanner \<Rightarrow> scanner" where
  "qiskit_answered ans s =
     (case ans of
        None \<Rightarrow> s
      | Some (_, body) \<Rightarrow>
          (let payload = js_coalesce body (JObj []); q = js_coalesce (js_prop payload ''qiskit'') payload;
               extra = js_or (js_or (js_prop payload ''resources'') (js_prop q ''resources'')) (JObj [])
           in s\<lparr>sc_qiskitEstate := number_or (js_prop q ''estate_score'') (sc_qiskitEstate s),
                sc_auditOverall := number_or (js_prop (js_prop payload ''audit_score'') ''overall'') (sc_auditOverall s),
                sc_enabledResources := spread (JObj []) (own_entries (sc_enabledResources s) @ own_entries extra
                  @ [(''qiskit'', JBool True)])\<rparr>))"

section \<open>The page as a machine\<close>

datatype event =
  ChooseClass target_class
| TypeTarget string
| ChoosePreset string
| ChooseLocal
| ChooseType scan_type
| PressStart string string
| Autostart string string string
| ChooseTab nat
| Tick
| Answered request answer
| ScansListed jval
| FindingsListed jval
| Unmount

text \<open>The controls a scan disables, and the settling of requests that are under way.\<close>

fun enabled :: "session_view \<Rightarrow> event \<Rightarrow> scanner \<Rightarrow> bool" where
  "enabled v (ChooseClass c) s = (\<not> sc_isScanning s)"
| "enabled v (TypeTarget t) s = (\<not> sc_isScanning s)"
| "enabled v (ChoosePreset u) s = (\<not> sc_isScanning s \<and> u \<in> set WEBSITE_PRESETS)"
| "enabled v ChooseLocal s = (\<not> sc_isScanning s)"
| "enabled v (ChooseType ty) s =
     (\<not> sc_isScanning s \<and> ty \<noteq> Cbom \<and> ty \<noteq> OfClass TFirmware \<and> (ty = Full \<or> ty = Compliance \<longrightarrow> sv_paid v))"
| "enabled v (PressStart stamp at_iso) s = (\<not> sc_isScanning s)"
| "enabled v (Autostart t stamp at_iso) s = (\<not> sc_autostarted s \<and> str_trim t = t \<and> t \<noteq> [])"
| "enabled v (ChooseTab n) s = (n < 6)"
| "enabled v Tick s = (sc_timer s \<noteq> None)"
| "enabled v (Answered r ans) s = (r \<in> set (sc_pending s))"
| "enabled v (ScansListed d) s = True"
| "enabled v (FindingsListed d) s = True"
| "enabled v Unmount s = True"

fun settled_by :: "session_view \<Rightarrow> request \<Rightarrow> answer \<Rightarrow> scanner \<Rightarrow> scanner" where
  "settled_by v (StartRequest jobId) ans s = start_answered (sv_isDemo v) jobId ans s"
| "settled_by v (PollRequest jobId scanId) ans s = poll_answered (sv_fmt v) jobId scanId ans s"
| "settled_by v (IntelRequest scanId) ans s = intel_answered ans s"
| "settled_by v (QiskitRequest scanId) ans s = qiskit_answered ans s"

fun handle :: "session_view \<Rightarrow> event \<Rightarrow> scanner \<Rightarrow> unit + scanner" where
  "handle v (ChooseClass c) s =
     Inr (s\<lparr>sc_targetClass := c, sc_scanType := OfClass c, sc_scanTarget := class_placeholder c\<rparr>)"
| "handle v (TypeTarget t) s = Inr (s\<lparr>sc_scanTarget := t\<rparr>)"
| "handle v (ChoosePreset u) s = Inr (s\<lparr>sc_scanTarget := u, sc_scanType := OfClass TWebsite\<rparr>)"
| "handle v ChooseLocal s = Inr (s\<lparr>sc_scanTarget := ''./'', sc_scanType := Cbom, sc_targetClass := THost\<rparr>)"
| "handle v (ChooseType ty) s = Inr (s\<lparr>sc_scanType := ty\<rparr>)"
| "handle v (PressStart stamp at_iso) s = Inr (startScan (sv_paid v) None stamp at_iso s)"
| "handle v (Autostart t stamp at_iso) s =
     Inr (startScan (sv_paid v) (Some t) stamp at_iso (s\<lparr>sc_autostarted := True, sc_scanTarget := t\<rparr>))"
| "handle v (ChooseTab n) s = Inr (s\<lparr>sc_tab := n\<rparr>)"
| "handle v Tick s = Inr (tick s)"
| "handle v (Answered r ans) s = Inr (settled_by v r ans (s\<lparr>sc_pending := remove1 r (sc_pending s)\<rparr>))"
| "handle v (ScansListed d) s = scans_listed (sv_fmt v) d s"
| "handle v (FindingsListed d) s = Inr (findings_listed d s)"
| "handle v Unmount s = Inr (clearPolling s)"

text \<open>The runs of the page under an environment that sends the events \<open>ok\<close> admits, none of which throws.\<close>

inductive runs :: "(event \<Rightarrow> scanner \<Rightarrow> bool) \<Rightarrow> session_view \<Rightarrow> scanner \<Rightarrow> event list \<Rightarrow> scanner \<Rightarrow> bool" for ok v where
  runs_done: "runs ok v s [] s"
| runs_event: "ok e s \<Longrightarrow> enabled v e s \<Longrightarrow> handle v e s = Inr s1 \<Longrightarrow> runs ok v s1 es s2 \<Longrightarrow> runs ok v s (e # es) s2"

inductive_simps runs_Nil [simp]: "runs ok v s [] s'"
inductive_simps runs_Cons: "runs ok v s (e # es) s'"

abbreviation any_event :: "event \<Rightarrow> scanner \<Rightarrow> bool" where "any_event \<equiv> \<lambda>_ _. True"

lemma runs_keep:
  assumes "\<And>e s s1. P s \<Longrightarrow> ok e s \<Longrightarrow> enabled v e s \<Longrightarrow> handle v e s = Inr s1 \<Longrightarrow> P s1"
  shows "runs ok v s es s' \<Longrightarrow> P s \<Longrightarrow> P s'"
  by (induction rule: runs.induct) (auto intro: assms)

section \<open>What the operations leave alone\<close>

lemma updateJob_simps [simp]:
  "sc_isScanning (updateJob j f s) = sc_isScanning s" "sc_timer (updateJob j f s) = sc_timer s"
  "sc_pending (updateJob j f s) = sc_pending s" "sc_attempts (updateJob j f s) = sc_attempts s"
  "sc_scanType (updateJob j f s) = sc_scanType s" "sc_error (updateJob j f s) = sc_error s"
  "sc_liveFindings (updateJob j f s) = sc_liveFindings s" "sc_scanProgress (updateJob j f s) = sc_scanProgress s"
  by (simp_all add: updateJob_def)

lemma clearPolling_simps [simp]:
  "sc_timer (clearPolling s) = None" "sc_isScanning (clearPolling s) = sc_isScanning s"
  "sc_pending (clearPolling s) = sc_pending s" "sc_scanJobs (clearPolling s) = sc_scanJobs s"
  "sc_scanType (clearPolling s) = sc_scanType s" "sc_attempts (clearPolling s) = sc_attempts s"
  "sc_liveFindings (clearPolling s) = sc_liveFindings s" "sc_error (clearPolling s) = sc_error s"
  by (simp_all add: clearPolling_def)

lemma length_truthy [simp]: "js_truthy (js_length (JArr vs)) \<longleftrightarrow> vs \<noteq> []"
  by (simp add: truthy_num_def)

lemma progress_shown_simps [simp]:
  "sc_isScanning (progress_shown fmt j d s) = sc_isScanning s" "sc_timer (progress_shown fmt j d s) = sc_timer s"
  "sc_pending (progress_shown fmt j d s) = sc_pending s" "sc_attempts (progress_shown fmt j d s) = sc_attempts s"
  "sc_scanType (progress_shown fmt j d s) = sc_scanType s" "sc_error (progress_shown fmt j d s) = sc_error s"
  "sc_scanJobs (progress_shown fmt j d s) = sc_scanJobs (updateJob j (polled_job fmt d) s)"
  by (simp_all add: progress_shown_def Let_def updateJob_def)

lemma scan_ended_simps [simp]:
  "sc_timer (scan_ended fmt i d s) = None" "\<not> sc_isScanning (scan_ended fmt i d s)"
  "sc_scanJobs (scan_ended fmt i d s) = sc_scanJobs s" "sc_scanType (scan_ended fmt i d s) = sc_scanType s"
  "sc_attempts (scan_ended fmt i d s) = sc_attempts s" "sc_liveFindings (scan_ended fmt i d s) = sc_liveFindings s"
  by (simp_all add: scan_ended_def Let_def)

text \<open>Whether polling goes on after an answer.\<close>

definition final_answer :: "nat \<Rightarrow> answer \<Rightarrow> bool" where
  "final_answer n ans \<longleftrightarrow> (case ans of None \<Rightarrow> MAX_POLL_ATTEMPTS \<le> n | Some (http, body) \<Rightarrow> terminal (poll_data http body))"

lemma poll_answered_simps [simp]:
  "sc_timer (poll_answered fmt j i ans s) = (if final_answer (sc_attempts s) ans then None else sc_timer s)"
  "sc_isScanning (poll_answered fmt j i ans s) = (if final_answer (sc_attempts s) ans then False else sc_isScanning s)"
  "sc_attempts (poll_answered fmt j i ans s) = sc_attempts s"
  "sc_scanType (poll_answered fmt j i ans s) = sc_scanType s"
  by (auto simp: poll_answered_def poll_failed_def final_answer_def Let_def split: option.splits)

section \<open>Rounds of polling\<close>

text \<open>A tick whose request is answered before the next tick.\<close>

definition poll_round :: "session_view \<Rightarrow> scanner \<Rightarrow> answer \<Rightarrow> scanner" where
  "poll_round v s ans =
     (case sc_timer s of
        None \<Rightarrow> s
      | Some (j, i) \<Rightarrow>
          (case handle v Tick s of
             Inl _ \<Rightarrow> s
           | Inr s1 \<Rightarrow> (case handle v (Answered (PollRequest j i) ans) s1 of Inl _ \<Rightarrow> s1 | Inr s2 \<Rightarrow> s2)))"

lemma poll_round_stopped [simp]: "sc_timer s = None \<Longrightarrow> poll_round v s ans = s"
  by (simp add: poll_round_def)

lemma poll_round_eq:
  assumes "sc_timer s = Some (j, i)"
  shows "poll_round v s ans = poll_answered (sv_fmt v) j i ans (s\<lparr>sc_attempts := sc_attempts s + 1\<rparr>)"
  by (simp add: poll_round_def assms tick_def)

lemma run_stopped: "sc_timer s = None \<Longrightarrow> run (poll_round v) s as = s"
  by (induction as) simp_all

text \<open>The answers that end the polling, counted from the number of polls already made.\<close>

fun ends_polling :: "nat \<Rightarrow> answer list \<Rightarrow> bool" where
  "ends_polling n [] = False"
| "ends_polling n (a # as) = (final_answer (n + 1) a \<or> ends_polling (n + 1) as)"

lemma ends_polling_nth: "ends_polling n as \<longleftrightarrow> (\<exists>k < length as. final_answer (n + k + 1) (as ! k))"
proof (induction as arbitrary: n)
  case Nil
  then show ?case by simp
next
  case (Cons a as)
  show ?case unfolding ends_polling.simps Cons
    by (auto simp: less_Suc_eq_0_disj nth_Cons')
qed

lemma polling_run:
  "sc_timer s \<noteq> None \<Longrightarrow>
     (sc_timer (run (poll_round v) s as) = None \<longleftrightarrow> ends_polling (sc_attempts s) as)
     \<and> (sc_isScanning (run (poll_round v) s as) \<longleftrightarrow> sc_isScanning s \<and> \<not> ends_polling (sc_attempts s) as)"
proof (induction as arbitrary: s)
  case Nil
  then show ?case by simp
next
  case (Cons a as)
  then obtain j i where t: "sc_timer s = Some (j, i)" by auto
  show ?case using Cons.IH [of "poll_round v s a"]
    by (cases "final_answer (sc_attempts s + 1) a") (simp_all add: poll_round_eq [OF t] t run_stopped)
qed

section \<open>Orderly traffic\<close>

text \<open>The next tick waits for the answer of the last poll, the automatic start does not fall into a scan, and
  the page stays open.\<close>

fun is_poll :: "request \<Rightarrow> bool" where
  "is_poll (PollRequest j i) = True"
| "is_poll _ = False"

fun orderly :: "event \<Rightarrow> scanner \<Rightarrow> bool" where
  "orderly Tick s = list_all (\<lambda>r. \<not> is_poll r) (sc_pending s)"
| "orderly (Autostart t stamp at_iso) s = (\<not> sc_isScanning s)"
| "orderly Unmount s = False"
| "orderly _ s = True"

fun drives :: "request \<Rightarrow> bool" where
  "drives (StartRequest j) = True"
| "drives (PollRequest j i) = True"
| "drives _ = False"

text \<open>The page scans exactly while one start is under way or the timer runs, with at most one poll under way,
  which is the timer's own.\<close>

definition one_scan :: "scanner \<Rightarrow> bool" where
  "one_scan s \<longleftrightarrow>
     (case filter drives (sc_pending s) of
        [] \<Rightarrow> (sc_isScanning s \<longleftrightarrow> sc_timer s \<noteq> None)
      | [StartRequest j] \<Rightarrow> sc_isScanning s \<and> sc_timer s = None
      | [PollRequest j i] \<Rightarrow> sc_isScanning s \<and> sc_timer s = Some (j, i)
      | _ \<Rightarrow> False)"

lemma filter_remove1: "filter P (remove1 x xs) = (if P x then remove1 x (filter P xs) else filter P xs)"
  by (induction xs) auto

lemma one_scan_cases:
  assumes "one_scan s"
  obtains (idle) "filter drives (sc_pending s) = []" "sc_isScanning s \<longleftrightarrow> sc_timer s \<noteq> None"
  | (starting) j where "filter drives (sc_pending s) = [StartRequest j]" "sc_isScanning s" "sc_timer s = None"
  | (polling) j i where "filter drives (sc_pending s) = [PollRequest j i]" "sc_isScanning s" "sc_timer s = Some (j, i)"
  using assms by (auto simp: one_scan_def split: list.splits request.splits)

lemma driving_iff:
  assumes "filter drives (sc_pending s) = rs"
  shows "StartRequest j \<in> set (sc_pending s) \<longleftrightarrow> StartRequest j \<in> set rs"
    and "PollRequest j i \<in> set (sc_pending s) \<longleftrightarrow> PollRequest j i \<in> set rs"
  using assms by auto

lemma one_scan_same:
  assumes "one_scan s" "sc_isScanning s' = sc_isScanning s" "sc_timer s' = sc_timer s"
    "filter drives (sc_pending s') = filter drives (sc_pending s)"
  shows "one_scan s'"
  using assms(1) unfolding one_scan_def assms(2-4) .

lemma one_scan_startScan:
  assumes "one_scan s" "\<not> sc_isScanning s"
  shows "one_scan (startScan paid ov stamp at_iso s)"
  using assms(1)
  by (cases rule: one_scan_cases) (use assms(2) in \<open>auto simp: one_scan_def startScan_def Let_def new_job_def\<close>)

lemma one_scan_tick:
  assumes "one_scan s" "sc_timer s \<noteq> None" "list_all (\<lambda>r. \<not> is_poll r) (sc_pending s)"
  shows "one_scan (tick s)"
  using assms(1)
proof (cases rule: one_scan_cases)
  case idle
  then show ?thesis using assms(2) by (auto simp: one_scan_def tick_def)
next
  case starting
  then show ?thesis using assms(2) by simp
next
  case (polling j i)
  then have "PollRequest j i \<in> set (filter drives (sc_pending s))" by simp
  then have "PollRequest j i \<in> set (sc_pending s)" unfolding set_filter by blast
  then show ?thesis using assms(3) by (auto simp: list_all_iff)
qed

lemma one_scan_answer:
  assumes "one_scan s" "r \<in> set (sc_pending s)"
  shows "one_scan (settled_by v r ans (s\<lparr>sc_pending := remove1 r (sc_pending s)\<rparr>))"
proof (cases r)
  case (StartRequest j)
  then have r: "r \<in> set (filter drives (sc_pending s))" using assms(2) by simp
  from assms(1) show ?thesis
    by (cases rule: one_scan_cases) (use r StartRequest in \<open>auto simp: one_scan_def start_answered_def
      pollScanStatus_def filter_remove1 Let_def split: option.splits\<close>)
next
  case (PollRequest j i)
  then have r: "r \<in> set (filter drives (sc_pending s))" using assms(2) by simp
  let ?s = "s\<lparr>sc_pending := remove1 r (sc_pending s)\<rparr>"
  have p: "filter drives (sc_pending (poll_answered (sv_fmt v) j i ans ?s)) = filter drives (sc_pending ?s)"
    by (auto simp: poll_answered_def poll_failed_def scan_ended_def Let_def split: option.splits)
  from assms(1) show ?thesis
    by (cases rule: one_scan_cases) (use r PollRequest p in \<open>auto simp: one_scan_def filter_remove1\<close>)
next
  case (IntelRequest i)
  show ?thesis by (rule one_scan_same [OF assms(1)])
    (simp_all add: IntelRequest intel_answered_def filter_remove1 split: option.split)
next
  case (QiskitRequest i)
  show ?thesis by (rule one_scan_same [OF assms(1)])
    (simp_all add: QiskitRequest qiskit_answered_def filter_remove1 Let_def split: option.split)
qed

lemma one_scan_step:
  assumes "one_scan s" "orderly e s" "enabled v e s" "handle v e s = Inr s1"
  shows "one_scan s1"
proof (cases e)
  case (PressStart stamp at_iso)
  then show ?thesis using assms by (auto intro: one_scan_startScan)
next
  case (Autostart t stamp at_iso)
  have "one_scan (s\<lparr>sc_autostarted := True, sc_scanTarget := t\<rparr>)" by (rule one_scan_same [OF assms(1)]) simp_all
  then show ?thesis using Autostart assms by (auto intro: one_scan_startScan)
next
  case Tick
  then show ?thesis using assms by (auto intro: one_scan_tick)
next
  case (Answered r ans)
  then show ?thesis using assms by (auto intro: one_scan_answer)
next
  case (ScansListed d)
  show ?thesis by (rule one_scan_same [OF assms(1)])
    (use assms(4) ScansListed in \<open>auto simp: scans_listed_def Let_def split: if_splits option.splits\<close>)
next
  case (FindingsListed d)
  show ?thesis by (rule one_scan_same [OF assms(1)])
    (use assms(4) FindingsListed in \<open>auto simp: findings_listed_def Let_def split: if_splits\<close>)
next
  case Unmount
  then show ?thesis using assms(2) by simp
qed (rule one_scan_same [OF assms(1)]; use assms in auto)+

lemma one_scan_init: "one_scan (scanner_init tab target)"
  by (simp add: one_scan_def scanner_init_def)

text \<open>What an unpaid edition can choose.\<close>

definition community_type :: "scanner \<Rightarrow> bool" where
  "community_type s \<longleftrightarrow> sc_scanType s \<noteq> Full \<and> sc_scanType s \<noteq> Compliance"

lemma startScan_type [simp]: "sc_scanType (startScan paid ov stamp at_iso s) = sc_scanType s"
  by (simp add: startScan_def Let_def)

lemma settled_type [simp]: "sc_scanType (settled_by v r ans s) = sc_scanType s"
  by (cases r) (auto simp: start_answered_def pollScanStatus_def intel_answered_def qiskit_answered_def Let_def
      split: option.splits)

lemma community_type_step:
  assumes "\<not> sv_paid v" "community_type s" "enabled v e s" "handle v e s = Inr s1"
  shows "community_type s1"
  by (cases e) (use assms in \<open>auto simp: community_type_def tick_def scans_listed_def findings_listed_def Let_def
      split: if_splits option.splits\<close>)

section \<open>Properties\<close>

text \<open>Unless the target class is firmware, the chosen scan type does not matter: what is asked for is a
  discovery of the target's class, never a quick, full, compliance or CBOM scan, and the preset for a local
  repository asks for a host scan.\<close>

theorem scan_type_ignored:
  assumes "cls \<noteq> TFirmware"
  shows "(\<exists>c. resolve_type paid cls ty target = OfClass c)
    \<and> resolve_type paid cls ty' target = resolve_type paid cls ty target
    \<and> handle v ChooseLocal s = Inr (s\<lparr>sc_scanTarget := ''./'', sc_scanType := Cbom, sc_targetClass := THost\<rparr>)
    \<and> resolve_type paid THost Cbom ''./'' = OfClass THost"
  using assms
  by (cases cls) (auto simp: resolve_type_def Let_def looksLikeWebsite_def looksLikeIP_def starts_with_def str_lower_def
      char_lower_def)

theorem scan_type_ignored_witness:
  "resolve_type True TWebsite Full ''https://example.com'' = resolve_type True TWebsite Compliance ''https://example.com''"
  using scan_type_ignored [of TWebsite True Compliance "''https://example.com''" Full] by simp

text \<open>However the page of an unpaid edition is used, the scan it asks the API for is neither a full nor a
  compliance scan.\<close>

theorem community_scans:
  assumes "\<not> sv_paid v" "runs any_event v (scanner_init tab target) es s"
  shows "js_prop (aq_data (start_call (sv_paid v) ov s)) ''scan_type'' \<notin> {JStr ''full'', JStr ''compliance''}"
proof -
  have "community_type (scanner_init tab target)" by (simp add: community_type_def scanner_init_def)
  with assms(2) have "community_type s"
    by (rule runs_keep [rotated, where P = community_type]) (rule community_type_step [OF assms(1)])
  moreover have "type_name ty = ''full'' \<longleftrightarrow> ty = Full" "type_name ty = ''compliance'' \<longleftrightarrow> ty = Compliance" for ty
    by (cases ty rule: type_name.cases; cases "case ty of OfClass c \<Rightarrow> c | _ \<Rightarrow> TWebsite"; simp)+
  ultimately show ?thesis using assms(1)
    by (auto simp: start_call_def Let_def cbomService_triggerScan_def api_verbs resolve_type_def community_type_def
        split: if_splits)
qed

text \<open>The state a list of events leads to, and a start and two polls of the scans of two targets.\<close>

fun play :: "(event \<Rightarrow> scanner \<Rightarrow> bool) \<Rightarrow> session_view \<Rightarrow> event list \<Rightarrow> scanner \<Rightarrow> scanner option" where
  "play ok v [] s = Some s"
| "play ok v (e # es) s =
     (if ok e s \<and> enabled v e s then (case handle v e s of Inl _ \<Rightarrow> None | Inr s1 \<Rightarrow> play ok v es s1) else None)"

lemma case_Some: "(case x of None \<Rightarrow> False | Some s \<Rightarrow> P s) \<Longrightarrow> \<exists>s. x = Some s \<and> P s"
  by (cases x) simp_all

lemma play_runs: "play ok v es s = Some s' \<Longrightarrow> runs ok v s es s'"
  by (induction es arbitrary: s) (auto simp: runs_Cons split: if_splits sum.splits)

definition ex_view :: session_view where
  "ex_view = \<lparr>sv_paid = False, sv_isDemo = False, sv_fmt = (\<lambda>_. [])\<rparr>"

definition ex_answer :: "string \<Rightarrow> answer" where
  "ex_answer status = Some (num 200, JObj [(''scan_id'', JStr ''a''), (''status'', JStr status)])"

definition ex_first_scan :: "event list" where
  "ex_first_scan =
     [PressStart ''1'' ''t'', Answered (StartRequest (JStr ''scan-1'')) (ex_answer ''running''), Tick,
      Answered (PollRequest (JStr ''a'') (JStr ''a'')) (ex_answer ''running''), Tick]"

lemma ex_first_runs: "\<exists>s. runs orderly ex_view (scanner_init None None) ex_first_scan s
    \<and> sc_timer s = Some (JStr ''a'', JStr ''a'') \<and> sc_isScanning s"
proof -
  have "(case play orderly ex_view ex_first_scan (scanner_init None None) of None \<Rightarrow> False
      | Some s \<Rightarrow> sc_timer s = Some (JStr ''a'', JStr ''a'') \<and> sc_isScanning s)"
    by code_simp
  then show ?thesis by (auto split: option.splits intro: play_runs)
qed

theorem community_scans_witness:
  "\<exists>s. runs any_event ex_view (scanner_init None None) [PressStart ''1'' ''t''] s
     \<and> js_prop (aq_data (start_call False None s)) ''scan_type'' \<noteq> JStr ''full''"
proof -
  have r: "runs any_event ex_view (scanner_init None None) [PressStart ''1'' ''t'']
      (startScan False None ''1'' ''t'' (scanner_init None None))"
    by (simp add: runs_Cons ex_view_def) (simp add: scanner_init_def)
  have v: "\<not> sv_paid ex_view" by (simp add: ex_view_def)
  from community_scans [OF v r, of None] r show ?thesis by (auto simp: ex_view_def)
qed

text \<open>C9: as long as each poll is answered before the next one is sent, the page says that it scans exactly
  while a start is under way or the timer runs; at most one start or poll is under way, and a poll under
  way is one of the running timer.\<close>

theorem scanning_flag:
  assumes "runs orderly v (scanner_init tab target) es s"
  shows "(sc_isScanning s \<longleftrightarrow> (\<exists>j. StartRequest j \<in> set (sc_pending s)) \<or> sc_timer s \<noteq> None)
    \<and> length (filter drives (sc_pending s)) \<le> 1
    \<and> (\<forall>j i. PollRequest j i \<in> set (sc_pending s) \<longrightarrow> sc_timer s = Some (j, i))"
proof -
  have "one_scan s"
    using assms by (rule runs_keep [where P = one_scan, rotated]) (auto intro: one_scan_init one_scan_step)
  then show ?thesis
  proof (cases rule: one_scan_cases)
    case idle
    then show ?thesis using driving_iff [OF idle(1)] by simp
  next
    case (starting j)
    then show ?thesis using driving_iff [OF starting(1)] by auto
  next
    case (polling j i)
    then show ?thesis using driving_iff [OF polling(1)] by auto
  qed
qed

theorem scanning_flag_witness:
  "\<exists>s. runs orderly ex_view (scanner_init None None) ex_first_scan s
     \<and> length (filter drives (sc_pending s)) \<le> 1 \<and> sc_isScanning s"
  using ex_first_runs scanning_flag [where v = ex_view and es = ex_first_scan] by blast

text \<open>With a second poll under way when a scan completes the order is lost: the late answer also ends the
  scan started since.  Its timer stops, the page is ready again, and the scan itself stays listed as
  running, with no poll to follow it.\<close>

theorem late_answer_stops_next_scan:
  assumes "sc_timer s = Some (j2, i2)" "PollRequest j1 i1 \<in> set (sc_pending s)" "j1 \<noteq> j2"
    and "job \<in> set (sc_scanJobs s)" "sj_id job = j2" "poll_status (poll_data http body) = JStr ''completed''"
  shows "enabled v (Answered (PollRequest j1 i1) (Some (http, body))) s
    \<and> (\<exists>s'. handle v (Answered (PollRequest j1 i1) (Some (http, body))) s = Inr s'
         \<and> sc_timer s' = None \<and> \<not> sc_isScanning s' \<and> job \<in> set (sc_scanJobs s'))"
proof -
  let ?s = "s\<lparr>sc_pending := remove1 (PollRequest j1 i1) (sc_pending s)\<rparr>"
  have t: "final_answer (sc_attempts ?s) (Some (http, body))" using assms(6) by (simp add: final_answer_def terminal_def)
  have "sc_scanJobs (poll_answered (sv_fmt v) j1 i1 (Some (http, body)) ?s) =
      map (\<lambda>job. if sj_id job = j1 then polled_job (sv_fmt v) (poll_data http body) job else job) (sc_scanJobs s)"
    using assms(6) by (simp add: poll_answered_def terminal_def Let_def updateJob_def)
  then have "job \<in> set (sc_scanJobs (poll_answered (sv_fmt v) j1 i1 (Some (http, body)) ?s))"
    using assms(3-5) by (auto simp: image_iff intro!: bexI [of _ job])
  then show ?thesis using assms(2) t by simp
qed

text \<open>Two polls of one scan overlap, the first answer completes it, and a second scan is started.\<close>

definition ex_second_answer :: answer where
  "ex_second_answer = Some (num 200, JObj [(''scan_id'', JStr ''b'')])"

definition ex_overlap :: "event list" where
  "ex_overlap =
     [PressStart ''1'' ''t'', Answered (StartRequest (JStr ''scan-1'')) (ex_answer ''running''), Tick, Tick,
      Answered (PollRequest (JStr ''a'') (JStr ''a'')) (ex_answer ''completed''), PressStart ''2'' ''u'',
      Answered (StartRequest (JStr ''scan-2'')) ex_second_answer]"

theorem late_answer_stops_next_scan_witness:
  "\<exists>s s'. runs any_event ex_view (scanner_init None None) ex_overlap s \<and> sc_timer s = Some (JStr ''b'', JStr ''b'')
     \<and> handle ex_view (Answered (PollRequest (JStr ''a'') (JStr ''a'')) (ex_answer ''completed'')) s = Inr s'
     \<and> sc_timer s' = None \<and> map sj_status (filter (\<lambda>j. sj_id j = JStr ''b'') (sc_scanJobs s)) = [JStr ''running'']"
proof -
  have "(case play any_event ex_view ex_overlap (scanner_init None None) of None \<Rightarrow> False
      | Some s \<Rightarrow> sc_timer s = Some (JStr ''b'', JStr ''b'') \<and> PollRequest (JStr ''a'') (JStr ''a'') \<in> set (sc_pending s)
          \<and> map sj_status (filter (\<lambda>j. sj_id j = JStr ''b'') (sc_scanJobs s)) = [JStr ''running''])"
    by code_simp
  then obtain s where s0: "play any_event ex_view ex_overlap (scanner_init None None) = Some s"
    and s: "sc_timer s = Some (JStr ''b'', JStr ''b'')" "PollRequest (JStr ''a'') (JStr ''a'') \<in> set (sc_pending s)"
    "map sj_status (filter (\<lambda>j. sj_id j = JStr ''b'') (sc_scanJobs s)) = [JStr ''running'']"
    by (elim case_Some [elim_format] exE conjE) (rule that)
  then have "filter (\<lambda>j. sj_id j = JStr ''b'') (sc_scanJobs s) \<noteq> []" by auto
  then obtain job where j: "job \<in> set (sc_scanJobs s)" "sj_id job = JStr ''b''" by (auto simp: filter_empty_conv)
  have "poll_status (poll_data (num 200) (JObj [(''scan_id'', JStr ''a''), (''status'', JStr ''completed'')])) = JStr ''completed''"
    by code_simp
  from late_answer_stops_next_scan [OF s(1,2) _ j this, of ex_view] s play_runs [OF s0] show ?thesis by (auto simp: ex_answer_def)
qed

text \<open>C8: the polling of a scan ends exactly when an answer tells that the scan has completed or failed, or
  when a poll fails that is the fortieth or later; and the page says that it scans exactly until then.  So it
  ends when the API stays away, but polls on without limit while the API keeps answering anything else.\<close>

theorem polling_ends:
  assumes "sc_timer s = Some (j, i)" "sc_attempts s = 0" "sc_isScanning s"
  shows "(sc_timer (run (poll_round v) s as) = None \<longleftrightarrow>
      (\<exists>k < length as. case as ! k of
         None \<Rightarrow> 40 \<le> k + 1
       | Some (http, body) \<Rightarrow> poll_status (poll_data http body) \<in> {JStr ''completed'', JStr ''failed''}))
    \<and> (sc_isScanning (run (poll_round v) s as) \<longleftrightarrow> sc_timer (run (poll_round v) s as) \<noteq> None)"
  using polling_run [of s v as] assms
  by (auto simp: ends_polling_nth final_answer_def terminal_def MAX_POLL_ATTEMPTS_def split: option.splits)

text \<open>A thousand polls that find the scan queued leave the timer running; forty that fail end it.\<close>

theorem polling_ends_witness:
  "\<exists>s. runs orderly ex_view (scanner_init None None) (take 2 ex_first_scan) s
     \<and> sc_isScanning (run (poll_round ex_view) s (replicate 1000 (ex_answer ''queued'')))
     \<and> sc_timer (run (poll_round ex_view) s (replicate 40 None)) = None"
proof -
  have "(case play orderly ex_view (take 2 ex_first_scan) (scanner_init None None) of None \<Rightarrow> False
      | Some s \<Rightarrow> sc_timer s = Some (JStr ''a'', JStr ''a'') \<and> sc_attempts s = 0 \<and> sc_isScanning s)"
    by code_simp
  from case_Some [OF this] obtain s where s0: "play orderly ex_view (take 2 ex_first_scan) (scanner_init None None) = Some s"
    and s: "sc_timer s = Some (JStr ''a'', JStr ''a'')" "sc_attempts s = 0" "sc_isScanning s"
    by blast
  have q: "poll_status (poll_data (num 200) (JObj [(''scan_id'', JStr ''a''), (''status'', JStr ''queued'')])) = JStr ''queued''"
    by code_simp
  have "(replicate 40 None :: answer list) ! 39 = None" by simp
  with polling_ends [OF s, of ex_view "replicate 1000 (ex_answer ''queued'')"]
    polling_ends [OF s, of ex_view "replicate 40 None"] play_runs [OF s0] q
  show ?thesis by (auto simp: ex_answer_def intro!: exI [of _ s] exI [of _ 39])
qed

text \<open>A start that fails leaves the list of scans as it was, the page ready and an error shown; one that
  succeeds gives the job the identifier of the answer, from then on polled.\<close>

theorem start_settles:
  assumes "str_trim (sc_scanTarget s) \<noteq> []" "\<forall>job \<in> set (sc_scanJobs s). sj_id job \<noteq> JStr (''scan-'' @ stamp)"
  defines "j \<equiv> JStr (''scan-'' @ stamp)"
  shows "sc_scanJobs (start_answered demo j None (startScan paid None stamp at_iso s)) = sc_scanJobs s
    \<and> \<not> sc_isScanning (start_answered demo j None (startScan paid None stamp at_iso s))
    \<and> sc_error (start_answered demo j None (startScan paid None stamp at_iso s)) \<noteq> None
    \<and> (\<forall>http body sid. js_prop body ''scan_id'' = sid \<and> not_null sid \<longrightarrow>
         map sj_id (sc_scanJobs (start_answered demo j (Some (http, body)) (startScan paid None stamp at_iso s)))
           = sid # map sj_id (sc_scanJobs s)
         \<and> sc_timer (start_answered demo j (Some (http, body)) (startScan paid None stamp at_iso s)) = Some (sid, sid))"
proof -
  have f: "filter (\<lambda>job. sj_id job \<noteq> j) (sc_scanJobs s) = sc_scanJobs s"
    using assms(2) unfolding j_def by (simp add: filter_id_conv)
  have m: "map (\<lambda>job. sj_id (if sj_id job = j then job\<lparr>sj_scanId := sid, sj_id := sid\<rparr> else job)) (sc_scanJobs s)
      = map sj_id (sc_scanJobs s)" for sid
    using assms(2) unfolding j_def by auto
  show ?thesis using assms(1) f m
    by (simp add: start_answered_def startScan_def Let_def nullish_def new_job_def pollScanStatus_def updateJob_def
        o_def j_def)
qed

theorem start_settles_witness:
  "sc_scanJobs (start_answered False (JStr ''scan-1'') None (startScan False None ''1'' ''t'' (scanner_init None None))) = []"
  using start_settles [of "scanner_init None None" "''1''" False False "''t''"]
  by (simp add: scanner_init_def or_opt_def str_trim_def is_space_def)

end
