(* ===== verification/Scan_Demo.thy ===== *)
theory Scan_Demo
  imports Scan_Page
begin

text \<open>
  The scanner page (\<open>Scan_Page\<close>) over the API client (\<open>Api_Client\<close>) and the demo responder (\<open>Demo_Scan\<close>):
  a scan started in a demo session, from the click to the findings.
\<close>

text \<open>What the page receives; \<open>net\<close> is the answer of the network to what the demo leaves to it.\<close>

fun page_answer :: "answer adapter_result \<Rightarrow> answer" where
  "page_answer (FromDemo r) = Some (num (int (xr_status r)), xr_data r)"
| "page_answer (FromNetwork a) = a"
| "page_answer Thrown = None"

text \<open>The start of a scan and one round of its polling, each with the time its request is handled at.\<close>

definition demo_start ::
  "(axios_config \<Rightarrow> answer) \<Rightarrow> (jval \<Rightarrow> string) \<Rightarrow> platform \<Rightarrow> 'a page_scheme \<Rightarrow> session_view \<Rightarrow> string \<Rightarrow> string
     \<Rightarrow> nat \<Rightarrow> scanner \<times> demo_state \<Rightarrow> scanner \<times> demo_state" where
  "demo_start net ser pf p v stamp at_iso now w =
     (let (s, st) = w;
          (r, st') = send net ser pf now p (start_call (sv_paid v) None s) st
      in (start_answered (sv_isDemo v) (JStr (''scan-'' @ stamp)) (page_answer r)
            (startScan (sv_paid v) None stamp at_iso s), st'))"

definition demo_poll ::
  "(axios_config \<Rightarrow> answer) \<Rightarrow> (jval \<Rightarrow> string) \<Rightarrow> platform \<Rightarrow> 'a page_scheme \<Rightarrow> session_view
     \<Rightarrow> scanner \<times> demo_state \<Rightarrow> nat \<Rightarrow> scanner \<times> demo_state" where
  "demo_poll net ser pf p v w now =
     (let (s, st) = w
      in case sc_timer s of
           None \<Rightarrow> (s, st)
         | Some (jobId, scanId) \<Rightarrow>
             (let (r, st') = send net ser pf now p (cbomService_getScanStatus (js_string (sv_fmt v) scanId)) st
              in (poll_round v s (page_answer r), st')))"

text \<open>After \<open>n\<close> rounds: the scan is at 20 per cent a round, and the page agrees with it.\<close>

definition after_rounds :: "string \<Rightarrow> nat \<Rightarrow> scanner \<times> demo_state \<Rightarrow> bool" where
  "after_rounds k n w \<longleftrightarrow>
     (let (s, st) = w; m = min 5 n; scan = map_of (scanStore st) k
      in scan \<noteq> None \<and> ds_progress (the scan) = 20 * int m \<and> (ds_status (the scan) = DCompleted \<longleftrightarrow> m = 5)
         \<and> sc_timer s = (if m < 5 then Some (JStr k, JStr k) else None) \<and> (sc_isScanning s \<longleftrightarrow> m < 5)
         \<and> sc_error s = None
         \<and> (\<exists>job jobs. sc_scanJobs s = job # jobs \<and> sj_id job = JStr k
              \<and> sj_status job = JStr (if m < 5 then ''running'' else ''completed'') \<and> sj_progress job = num (20 * int m))
         \<and> (m = 5 \<longrightarrow> (\<exists>items. sc_liveFindings s = JArr items \<and> length items = 7)))"

lemma page_tick_status:
  "poll_status (poll_data h (scan_payload fmt ho x)) = JStr (demo_status_str (ds_status x))"
  "poll_progress (poll_data h (scan_payload fmt ho x)) = num (ds_progress x)"
  "js_prop (poll_data h (scan_payload fmt ho x)) ''error'' = JUndef"
  by (simp_all add: poll_status_def poll_progress_def poll_data_def scan_payload_def Let_def js_coalesce_def)

lemma page_tick_items:
  "js_prop (poll_data h (scan_payload fmt ho x)) ''finding_items'' =
     JArr (if ds_status x = DCompleted then makeFindingItems ho (ds_target x) (ds_id x) (ds_scanType x) else [])"
  by (simp add: poll_data_def scan_payload_def Let_def js_coalesce_def)

lemma not_Nil_items [simp]: "makeFindingItems ho a b c \<noteq> []"
  using items_length [of ho a b c] by (metis list.size(3) zero_neq_numeral)

lemma demo_round:
  assumes "default_base p = API_PREFIX" "isDemoSessionActive (Some (local_storage p)) = Some True"
    and "after_rounds (scan_id_at t) n w"
  shows "after_rounds (scan_id_at t) (n + 1) (demo_poll net ser pf p v w now)"
proof (cases "n < 5")
  case False
  then show ?thesis using assms(3) by (cases w) (simp add: after_rounds_def demo_poll_def Let_def)
next
  case True
  obtain s st where w: "w = (s, st)" by (cases w)
  let ?k = "scan_id_at t"
  from assms(3) True obtain x job jobs where x: "map_of (scanStore st) ?k = Some x" "ds_progress x = 20 * int n"
      "ds_status x \<noteq> DCompleted"
    and s: "sc_timer s = Some (JStr ?k, JStr ?k)" "sc_isScanning s" "sc_error s = None" "sc_scanJobs s = job # jobs"
      "sj_id job = JStr ?k"
    unfolding after_rounds_def w Let_def by auto
  have r: "send net ser pf now p (cbomService_getScanStatus (js_string (sv_fmt v) (JStr ?k))) st =
      (FromDemo (okResponse (scan_payload (pf_fmt pf) (pf_host pf) (poll_scan x)) 200), poll_state ?k st)"
    using respond_detail [OF status_detail [OF assms(1)]] assms(2) x(1)
    by (simp add: send_def demoAwareAdapter_def)
  have y: "ds_progress (poll_scan x) = 20 * int (n + 1)" "ds_status (poll_scan x) = DCompleted \<longleftrightarrow> n + 1 = 5"
    using x True by (auto simp: poll_scan_def Let_def)
  let ?d = "poll_data (num 200) (scan_payload (pf_fmt pf) (pf_host pf) (poll_scan x))"
  have d: "demo_poll net ser pf p v w now =
      (poll_answered (sv_fmt v) (JStr ?k) (JStr ?k) (Some (num 200, scan_payload (pf_fmt pf) (pf_host pf) (poll_scan x)))
         (s\<lparr>sc_attempts := sc_attempts s + 1\<rparr>), poll_state ?k st)"
    unfolding w demo_poll_def using r s(1) by (simp add: poll_round_eq okResponse_def)
  have st: "poll_status ?d = JStr (if n + 1 = 5 then ''completed'' else ''running'')" "poll_progress ?d = num (20 * int (n + 1))"
    using y by (cases "ds_status (poll_scan x)"; simp add: page_tick_status)+
  show ?thesis
    unfolding d after_rounds_def Let_def
    using True s x(1) y st
    by (auto simp: poll_state_lookup poll_answered_def progress_shown_def scan_ended_def terminal_def updateJob_def
        polled_job_def page_tick_status page_tick_items Let_def simp del: js_length.simps)
qed

lemma respond_start:
  assumes "start_request pf c"
  shows "\<exists>r. demoScanRespond pf now c st = (Some r, demo_step pf st (now, c))
    \<and> js_prop (xr_data r) ''scan_id'' = JStr (scan_id_at now)"
  using assms
  by (auto simp: start_request_def demo_step_def demoScanRespond_def start_scan_def scan_id_at_def okResponse_def Let_def)

lemma demo_started:
  assumes "default_base p = API_PREFIX" "isDemoSessionActive (Some (local_storage p)) = Some True"
    and "str_trim (sc_scanTarget s) \<noteq> []"
  shows "after_rounds (scan_id_at t) 0 (demo_start net ser pf p v stamp at_iso t (s, st))"
proof -
  let ?c = "adapter_config ser p (start_call (sv_paid v) None s)"
  have c: "start_request pf ?c" unfolding start_call_def Let_def by (rule trigger_start [OF assms(1)])
  obtain r where r: "demoScanRespond pf t ?c st = (Some r, demo_step pf st (t, ?c))"
    "js_prop (xr_data r) ''scan_id'' = JStr (scan_id_at t)" using respond_start [OF c] by blast
  obtain x where x: "map_of (scanStore (demo_step pf st (t, ?c))) (scan_id_at t) = Some x" "ds_progress x = 0"
    "ds_status x = DRunning" by (rule start_lookup [OF c])
  have "demo_start net ser pf p v stamp at_iso t (s, st) =
      (start_answered (sv_isDemo v) (JStr (''scan-'' @ stamp)) (Some (num (int (xr_status r)), xr_data r))
         (startScan (sv_paid v) None stamp at_iso s), demo_step pf st (t, ?c))"
    using r(1) assms(2) by (simp add: demo_start_def send_def demoAwareAdapter_def)
  then show ?thesis using r(2) x assms(3)
    by (simp add: after_rounds_def start_answered_def pollScanStatus_def startScan_def nullish_def new_job_def
        updateJob_def js_coalesce_def Let_def)
qed

lemma demo_rounds:
  assumes "default_base p = API_PREFIX" "isDemoSessionActive (Some (local_storage p)) = Some True"
    and "after_rounds (scan_id_at t) n w"
  shows "after_rounds (scan_id_at t) (n + length ts) (run (demo_poll net ser pf p v) w ts)"
  using assms(3)
proof (induction ts arbitrary: n w)
  case (Cons now ts)
  from Cons.IH [OF demo_round [OF assms(1,2) Cons.prems]] show ?case by simp
qed simp

section \<open>Properties\<close>

text \<open>C11: a scan started in a demo session completes by itself: whatever the network does and whenever the polls
  are made, the page moves by 20 per cent a poll, and after the fifth it stops polling, without an error,
  with the scan listed as completed and its seven findings shown.\<close>

theorem scan_in_demo_completes:
  assumes "default_base p = API_PREFIX" "isDemoSessionActive (Some (local_storage p)) = Some True"
    and "str_trim (sc_scanTarget s) \<noteq> []"
    and "run (demo_poll net ser pf p v) (demo_start net ser pf p v stamp at_iso t (s, st)) ts = (s', st')"
  shows "(sc_isScanning s' \<longleftrightarrow> length ts < 5) \<and> (sc_timer s' = None \<longleftrightarrow> 5 \<le> length ts) \<and> sc_error s' = None
    \<and> (\<exists>job jobs. sc_scanJobs s' = job # jobs \<and> sj_id job = JStr (scan_id_at t)
         \<and> sj_progress job = num (20 * int (min 5 (length ts)))
         \<and> (5 \<le> length ts \<longrightarrow> sj_status job = JStr ''completed''
              \<and> (\<exists>items. sc_liveFindings s' = JArr items \<and> length items = 7)))"
proof -
  have "after_rounds (scan_id_at t) (length ts) (s', st')"
    using demo_rounds [OF assms(1,2) demo_started [OF assms(1-3)]] assms(4) by (metis add_0)
  then show ?thesis unfolding after_rounds_def Let_def prod.case
    by (cases "length ts < 5") (auto simp: min_def)
qed

theorem scan_in_demo_completes_witness:
  "\<exists>s' st'. run (demo_poll (\<lambda>_. None) (\<lambda>_. []) ex_pf (ex_page [(''rivicq.demo'', ''1'')]) ex_view)
      (demo_start (\<lambda>_. None) (\<lambda>_. []) ex_pf (ex_page [(''rivicq.demo'', ''1'')]) ex_view ''7'' ''t'' 7
        (scanner_init None None, demo_init)) [8, 9, 10, 11, 12] = (s', st')
     \<and> \<not> sc_isScanning s' \<and> sc_timer s' = None \<and> sc_error s' = None"
proof -
  obtain s' st' where r: "run (demo_poll (\<lambda>_. None) (\<lambda>_. []) ex_pf (ex_page [(''rivicq.demo'', ''1'')]) ex_view)
      (demo_start (\<lambda>_. None) (\<lambda>_. []) ex_pf (ex_page [(''rivicq.demo'', ''1'')]) ex_view ''7'' ''t'' 7
        (scanner_init None None, demo_init)) [8, 9, 10, 11, 12] = (s', st')" by (metis surj_pair)
  have a: "default_base (ex_page [(''rivicq.demo'', ''1'')]) = API_PREFIX"
    "isDemoSessionActive (Some (local_storage (ex_page [(''rivicq.demo'', ''1'')]))) = Some True"
    "str_trim (sc_scanTarget (scanner_init None None)) \<noteq> []"
    by code_simp+
  from scan_in_demo_completes [OF a r] r show ?thesis by simp
qed

end
