(* ===== verification/Github_Scan.thy ===== *)
theory Github_Scan
  imports Api_Services
begin

text \<open>
  web/src/components/GitHubRepoScanPanel.tsx: the state of the panel, the discovery of repositories, the scan of
  one with its bounded polling, and the pipeline it shows.
\<close>

section \<open>The panel\<close>

record panel =
  gp_repo :: string
  gp_org :: string
  gp_loading :: bool
  gp_error :: jval
  gp_repos :: jval
  gp_result :: jval
  gp_demo :: bool

definition panel_init :: panel where
  "panel_init =
     \<lparr>gp_repo = ''rivicq/demo-vulnerable-app'', gp_org = [], gp_loading = False, gp_error = JNull, gp_repos = JArr [],
      gp_result = JNull, gp_demo = False\<rparr>"

text \<open>The answer to a request: its body, or for a failed one the body that came with the failure.\<close>

type_synonym reply = "jval + jval"

definition TERMINAL :: "string list" where
  "TERMINAL = [''completed'', ''failed'', ''completed_with_warnings'', ''partial'', ''cancelled'']"

text \<open>\<open>v?.[0]\<close>\<close>

fun first_of :: "jval \<Rightarrow> jval" where
  "first_of (JArr (v # vs)) = v"
| "first_of (JStr (c # s)) = JStr [c]"
| "first_of v = js_prop v ''0''"

definition first_repo :: "jval \<Rightarrow> jval" where
  "first_repo payload = first_of (js_prop payload ''repos'')"

definition list_failed :: string where
  "list_failed = ''Could not list GitHub repositories. Configure GITHUB_TOKEN or DEMO_MODE.''"

definition scan_failed :: string where
  "scan_failed = ''GitHub scan failed. This is not a completed scan.''"

definition list_call :: "panel \<Rightarrow> api_request" where
  "list_call p = gitHubScanService_listRepos (if gp_org p = [] then None else Some (gp_org p))"

definition listRepos :: "reply \<Rightarrow> panel \<Rightarrow> panel" where
  "listRepos r p =
     (let p0 = p\<lparr>gp_error := JNull\<rparr>
      in case r of
           Inr data \<Rightarrow> p0\<lparr>gp_repos := js_coalesce (js_prop data ''repos'') (JArr []), gp_demo := js_truthy (js_prop data ''demo'')\<rparr>
         | Inl body \<Rightarrow> p0\<lparr>gp_error := js_or (js_prop body ''error'') (JStr list_failed)\<rparr>)"

section \<open>The scan of a repository\<close>

definition scan_call :: "panel \<Rightarrow> api_request" where
  "scan_call p = gitHubScanService_scanRepos [str_trim (gp_repo p)] (Some ''crypto'') (Some True)"

definition is_terminal :: "jval \<Rightarrow> bool" where
  "is_terminal payload \<longleftrightarrow> (case js_prop payload ''status'' of JStr s \<Rightarrow> s \<in> set TERMINAL | _ \<Rightarrow> False)"

definition shown :: "jval \<Rightarrow> panel \<Rightarrow> panel" where
  "shown payload p =
     p\<lparr>gp_result := payload,
       gp_demo := js_truthy (js_prop payload ''demo'') \<or> js_truthy (js_prop (first_repo payload) ''demo'')\<rparr>"

text \<open>The polls \<open>i, i + 1, ...\<close> of at most \<open>n\<close>: the panel and the last payload, or the body of the poll that
  failed, with the number of polls made.\<close>

fun status_loop :: "(nat \<Rightarrow> reply) \<Rightarrow> nat \<Rightarrow> nat \<Rightarrow> jval \<Rightarrow> panel \<Rightarrow> panel \<times> reply \<times> nat" where
  "status_loop polls 0 i payload p = (p, Inr payload, i)"
| "status_loop polls (Suc n) i payload p =
     (case polls i of
        Inl body \<Rightarrow> (p, Inl body, i + 1)
      | Inr data \<Rightarrow>
          (if is_terminal data then (shown data p, Inr data, i + 1) else status_loop polls n (i + 1) data (shown data p)))"

definition MAX_STATUS_POLLS :: nat where "MAX_STATUS_POLLS = 90"

text \<open>The click on Scan repository: \<open>start\<close> answers the start, \<open>polls k\<close> the poll number \<open>k\<close>.\<close>

definition runScan :: "reply \<Rightarrow> (nat \<Rightarrow> reply) \<Rightarrow> panel \<Rightarrow> panel \<times> nat" where
  "runScan start polls p =
     (if str_trim (gp_repo p) = [] then (p\<lparr>gp_error := JStr ''Enter owner/repo''\<rparr>, 0)
      else
        (let p1 = p\<lparr>gp_loading := True, gp_error := JNull, gp_result := JNull\<rparr>;
             (p2, r, n) = (case start of
                Inl body \<Rightarrow> (p1, Inl body, 0)
              | Inr data \<Rightarrow>
                  (let p' = p1\<lparr>gp_result := data, gp_demo := js_truthy (js_prop data ''demo'')\<rparr>
                   in if js_truthy (js_prop data ''scan_id'') then status_loop polls MAX_STATUS_POLLS 0 data p'
                      else (p', Inr data, 0)));
             p3 = (case r of
                Inl body \<Rightarrow> p2\<lparr>gp_error := js_or (js_prop body ''error'') (JStr scan_failed)\<rparr>
              | Inr payload \<Rightarrow>
                  (if js_prop payload ''status'' = JStr ''failed'' then
                     p2\<lparr>gp_error := js_or (js_or (js_prop payload ''error'') (js_prop (first_repo payload) ''error''))
                          (JStr scan_failed)\<rparr>
                   else p2))
         in (p3\<lparr>gp_loading := False\<rparr>, n)))"

section \<open>The pipeline shown\<close>

definition stages_of :: "jval \<Rightarrow> jval" where
  "stages_of result =
     (let own = js_prop (first_repo result) ''stages''
      in if js_truthy (js_length own) then own else js_coalesce (js_prop result ''stages'') (JArr []))"

text \<open>The statuses of the stages; \<open>None\<close> when they are no array of objects, and the panel throws.\<close>

definition stage_statuses :: "jval \<Rightarrow> jval list option" where
  "stage_statuses result =
     (case stages_of result of
        JArr vs \<Rightarrow> if list_all not_null vs then Some (map (\<lambda>s. js_prop s ''status'') vs) else None
      | _ \<Rightarrow> None)"

text \<open>\<open>findIndex\<close>\<close>

fun find_index :: "('a \<Rightarrow> bool) \<Rightarrow> 'a list \<Rightarrow> int" where
  "find_index P [] = -1"
| "find_index P (x # xs) = (if P x then 0 else (let i = find_index P xs in if i = -1 then -1 else i + 1))"

definition stepIndex :: "jval list \<Rightarrow> int" where
  "stepIndex statuses =
     (let activeStep = max 0 (find_index (\<lambda>s. s \<noteq> JStr ''completed'') statuses)
      in if activeStep = -1 \<or> list_all (\<lambda>s. s = JStr ''completed'') statuses then int (length statuses) else activeStep)"

definition failed :: "jval \<Rightarrow> bool" where
  "failed result \<longleftrightarrow> js_prop result ''status'' = JStr ''failed'' \<or> js_prop (first_repo result) ''status'' = JStr ''failed''"

section \<open>Lemmas\<close>

lemma shown_loading [simp]: "gp_loading (shown d p) = gp_loading p" "gp_error (shown d p) = gp_error p"
  "gp_result (shown d p) = d" "gp_repo (shown d p) = gp_repo p"
  by (simp_all add: shown_def)

lemma status_loop_count:
  "status_loop polls n i payload p = (p', r, m) \<Longrightarrow>
     i \<le> m \<and> m \<le> i + n
     \<and> (\<forall>k. i \<le> k \<and> k + 1 < m \<longrightarrow> (\<exists>d. polls k = Inr d \<and> \<not> is_terminal d))
     \<and> (m < i + n \<longrightarrow> (\<exists>k. m = k + 1 \<and> (case polls k of Inl _ \<Rightarrow> True | Inr d \<Rightarrow> is_terminal d)))"
proof (induction n arbitrary: i payload p)
  case (Suc n)
  show ?case
  proof (cases "polls i")
    case (Inl body)
    then have "m = i + 1" using Suc.prems by simp
    then show ?thesis by (auto simp: Inl)
  next
    case (Inr d)
    show ?thesis
    proof (cases "is_terminal d")
      case True
      then have "m = i + 1" using Suc.prems Inr by simp
      then show ?thesis by (auto simp: Inr True)
    next
      case False
      then have *: "status_loop polls n (i + 1) d (shown d p) = (p', r, m)" using Suc.prems Inr by simp
      show ?thesis using Suc.IH [OF *] Inr False
        by (auto simp: le_less Suc_le_eq) (metis Suc_leI le_antisym not_less)+
    qed
  qed
qed auto

lemma status_loop_running:
  assumes "\<forall>k. i \<le> k \<and> k < i + n \<longrightarrow> (\<exists>d. polls k = Inr d \<and> \<not> is_terminal d)" "0 < n"
  shows "\<exists>q. status_loop polls n i payload p = (q, polls (i + n - 1), i + n)
    \<and> gp_error q = gp_error p \<and> polls (i + n - 1) = Inr (gp_result q)"
  using assms
proof (induction n arbitrary: i payload p)
  case (Suc n)
  then obtain d where d: "polls i = Inr d" "\<not> is_terminal d" by force
  show ?case
  proof (cases n)
    case 0
    then show ?thesis using d by simp
  next
    case (Suc m)
    with Suc.IH [of "i + 1" d "shown d p"] Suc.prems d show ?thesis by force
  qed
qed simp

lemma find_index_takeWhile:
  "find_index P xs = (if list_ex P xs then int (length (takeWhile (\<lambda>x. \<not> P x) xs)) else -1)"
  by (induction xs) (auto simp: Let_def)

lemma runScan_unfold:
  assumes "str_trim (gp_repo p) \<noteq> []" "js_truthy (js_prop data ''scan_id'')"
  defines "p' \<equiv> p\<lparr>gp_loading := True, gp_error := JNull, gp_result := data, gp_demo := js_truthy (js_prop data ''demo'')\<rparr>"
  assumes "status_loop polls MAX_STATUS_POLLS 0 data p' = (q, r, n)"
  shows "runScan (Inr data) polls p =
    ((case r of
        Inl body \<Rightarrow> q\<lparr>gp_error := js_or (js_prop body ''error'') (JStr scan_failed)\<rparr>
      | Inr payload \<Rightarrow>
          (if js_prop payload ''status'' = JStr ''failed''
           then q\<lparr>gp_error := js_or (js_or (js_prop payload ''error'') (js_prop (first_repo payload) ''error'')) (JStr scan_failed)\<rparr>
           else q))\<lparr>gp_loading := False\<rparr>, n)"
  using assms by (simp add: runScan_def Let_def)

section \<open>Properties\<close>

text \<open>C10: a scan of a repository always comes to an end, the panel no longer loading, after at most ninety
  status requests; it makes fewer only when the last one failed or told a final status, and never another
  one after that.\<close>

theorem repository_scan_ends:
  assumes "runScan start polls p = (p', n)" "\<not> gp_loading p"
  shows "\<not> gp_loading p' \<and> n \<le> 90
    \<and> (\<forall>k. k + 1 < n \<longrightarrow> (\<exists>d. polls k = Inr d \<and> \<not> is_terminal d))
    \<and> (0 < n \<and> n < 90 \<longrightarrow> (case polls (n - 1) of Inl _ \<Rightarrow> True | Inr d \<Rightarrow> is_terminal d))"
proof (cases "str_trim (gp_repo p) \<noteq> [] \<and> (\<exists>data. start = Inr data \<and> js_truthy (js_prop data ''scan_id''))")
  case True
  then obtain data where d: "str_trim (gp_repo p) \<noteq> []" "start = Inr data" "js_truthy (js_prop data ''scan_id'')" by blast
  let ?p = "p\<lparr>gp_loading := True, gp_error := JNull, gp_result := data, gp_demo := js_truthy (js_prop data ''demo'')\<rparr>"
  obtain q r m where l: "status_loop polls MAX_STATUS_POLLS 0 data ?p = (q, r, m)" by (metis prod_cases3)
  from assms(1) runScan_unfold [OF d(1,3) l] d(2) have "n = m" "\<not> gp_loading p'" by (auto split: sum.splits)
  with status_loop_count [OF l] show ?thesis by (auto simp: MAX_STATUS_POLLS_def)
next
  case False
  then have "n = 0" "\<not> gp_loading p'" using assms by (auto simp: runScan_def Let_def split: if_splits sum.splits)
  then show ?thesis by simp
qed

text \<open>A repository scan still running after ninety polls is dropped without a word: the panel stops
  loading and shows no error, and what it shows is the last interim status.\<close>

theorem slow_scan_dropped:
  assumes "str_trim (gp_repo p) \<noteq> []" "js_truthy (js_prop data ''scan_id'')"
    and "\<forall>k < 90. \<exists>d. polls k = Inr d \<and> js_prop d ''status'' = JStr ''running''"
  shows "\<exists>p'. runScan (Inr data) polls p = (p', 90) \<and> \<not> gp_loading p' \<and> gp_error p' = JNull
    \<and> polls 89 = Inr (gp_result p')"
proof -
  let ?p = "p\<lparr>gp_loading := True, gp_error := JNull, gp_result := data, gp_demo := js_truthy (js_prop data ''demo'')\<rparr>"
  have r: "\<forall>k. 0 \<le> k \<and> k < 0 + MAX_STATUS_POLLS \<longrightarrow> (\<exists>d. polls k = Inr d \<and> \<not> is_terminal d)"
    using assms(3) by (force simp: MAX_STATUS_POLLS_def is_terminal_def TERMINAL_def)
  obtain q where q: "status_loop polls MAX_STATUS_POLLS 0 data ?p = (q, polls 89, 90)" "gp_error q = JNull"
    "polls 89 = Inr (gp_result q)"
    using status_loop_running [OF r, of data ?p] by (auto simp: MAX_STATUS_POLLS_def)
  moreover obtain d where "polls 89 = Inr d" "js_prop d ''status'' = JStr ''running''"
    using assms(3) [rule_format, of 89] by auto
  ultimately show ?thesis using runScan_unfold [OF assms(1,2) q(1)] by simp
qed

text \<open>The step the pipeline highlights is the first one that has not completed, counted by the completed ones
  before it, and past the end when all have.\<close>

theorem step_shown:
  "stepIndex statuses = int (length (takeWhile (\<lambda>s. s = JStr ''completed'') statuses))"
proof (cases "list_all (\<lambda>s. s = JStr ''completed'') statuses")
  case True
  then have e: "takeWhile (\<lambda>s. s = JStr ''completed'') statuses = statuses"
    by (simp add: takeWhile_eq_all_conv list_all_iff)
  show ?thesis unfolding e using True by (simp add: stepIndex_def)
next
  case False
  then have "list_ex (\<lambda>s. s \<noteq> JStr ''completed'') statuses" by (auto simp: list_all_iff list_ex_iff)
  then show ?thesis using False by (simp add: stepIndex_def find_index_takeWhile)
qed

text \<open>A scan that is queued for ever, and one whose third poll tells that it has failed.\<close>

definition ex_started :: jval where "ex_started = JObj [(''scan_id'', JStr ''g1''), (''status'', JStr ''running'')]"

definition ex_polls :: "nat \<Rightarrow> reply" where
  "ex_polls k = Inr (JObj [(''status'', JStr (if k < 2 then ''running'' else ''failed'')), (''error'', JStr ''no token'')])"

theorem repository_scan_ends_witness:
  "snd (runScan (Inr ex_started) ex_polls panel_init) = 3
   \<and> \<not> gp_loading (fst (runScan (Inr ex_started) ex_polls panel_init)) \<and> \<not> gp_loading panel_init"
proof -
  have n: "snd (runScan (Inr ex_started) ex_polls panel_init) = 3" by code_simp
  have l: "\<not> gp_loading panel_init" by (simp add: panel_init_def)
  from repository_scan_ends [OF surjective_pairing l] n l show ?thesis by blast
qed

theorem slow_scan_dropped_witness:
  "\<exists>p'. runScan (Inr ex_started) (\<lambda>_. Inr ex_started) panel_init = (p', 90) \<and> gp_error p' = JNull
     \<and> gp_result p' = ex_started"
proof -
  have a: "str_trim (gp_repo panel_init) \<noteq> []" "js_truthy (js_prop ex_started ''scan_id'')" by code_simp+
  have "\<forall>k < 90. \<exists>d. (\<lambda>_ :: nat. Inr ex_started :: reply) k = Inr d \<and> js_prop d ''status'' = JStr ''running''"
    by (simp add: ex_started_def)
  from slow_scan_dropped [OF a this] show ?thesis by auto
qed

end
