(* ===== verification/Data_Table.thy ===== *)
theory Data_Table
  imports Contracts Js_Value "HOL-Library.Multiset"
begin

text \<open>
  fabric/src/components/ui/DataTable.tsx: the table every page of the fabric application shows its rows with,
  its search, sorting, paging, selection and CSV export.  The comparison of strings is the one of their
  UTF-8 bytes, which orders all characters below U+E000 as the source does.
\<close>

section \<open>Sorting as a contract\<close>

text \<open>A stable sort by a relation that is total and transitive on the values of a set.\<close>

fun insert_by :: "('a \<Rightarrow> 'a \<Rightarrow> bool) \<Rightarrow> 'a \<Rightarrow> 'a list \<Rightarrow> 'a list" where
  "insert_by le x [] = [x]"
| "insert_by le x (y # ys) = (if le x y then x # y # ys else y # insert_by le x ys)"

definition sort_by :: "('a \<Rightarrow> 'a \<Rightarrow> bool) \<Rightarrow> 'a list \<Rightarrow> 'a list" where
  "sort_by le xs = foldr (insert_by le) xs []"

lemma mset_insert_by [simp]: "mset (insert_by le x xs) = {#x#} + mset xs"
  by (induction xs) auto

lemma mset_sort_by [simp]: "mset (sort_by le xs) = mset xs"
  by (induction xs) (simp_all add: sort_by_def)

lemma set_insert_by [simp]: "set (insert_by le x xs) = insert x (set xs)"
  by (induction xs) auto

lemma length_sort_by [simp]: "length (sort_by le xs) = length xs"
  by (metis mset_sort_by size_mset)

lemma set_sort_by [simp]: "set (sort_by le xs) = set xs"
  by (metis mset_sort_by set_mset_mset)

locale stable_order =
  fixes le :: "'c \<Rightarrow> 'c \<Rightarrow> bool" and D :: "'c set"
  assumes total_on: "a \<in> D \<Longrightarrow> b \<in> D \<Longrightarrow> le a b \<or> le b a"
    and trans_on: "a \<in> D \<Longrightarrow> b \<in> D \<Longrightarrow> c \<in> D \<Longrightarrow> le a b \<Longrightarrow> le b c \<Longrightarrow> le a c"
begin

lemma le_refl: "a \<in> D \<Longrightarrow> le a a"
  using total_on by blast

abbreviation leq :: "('a \<Rightarrow> 'c) \<Rightarrow> 'a \<Rightarrow> 'a \<Rightarrow> bool" where "leq f a b \<equiv> le (f a) (f b)"

lemma sorted_insert_by:
  assumes "f x \<in> D" "f ` set xs \<subseteq> D" "sorted_wrt (leq f) xs"
  shows "sorted_wrt (leq f) (insert_by (leq f) x xs)"
  using assms
proof (induction xs)
  case (Cons y ys)
  show ?case
  proof (cases "le (f x) (f y)")
    case True
    then show ?thesis using Cons.prems by (auto intro: trans_on [of "f x" "f y"])
  next
    case False
    then have "le (f y) (f x)" using Cons.prems total_on [of "f x" "f y"] by auto
    with False Cons show ?thesis by auto
  qed
qed simp

lemma sorted_sort_by: "f ` set xs \<subseteq> D \<Longrightarrow> sorted_wrt (leq f) (sort_by (leq f) xs)"
proof (induction xs)
  case (Cons x xs)
  then have "sorted_wrt (leq f) (insert_by (leq f) x (sort_by (leq f) xs))"
    by (intro sorted_insert_by) auto
  then show ?case by (simp add: sort_by_def)
qed (simp add: sort_by_def)

lemma stable_insert_by:
  assumes "f x \<in> D" "f ` set xs \<subseteq> D"
  shows "filter (\<lambda>y. f y = v) (insert_by (leq f) x xs) = filter (\<lambda>y. f y = v) (x # xs)"
  using assms(2)
proof (induction xs)
  case (Cons y ys)
  show ?case
  proof (cases "le (f x) (f y)")
    case False
    then have "f x \<noteq> f y" using le_refl [OF assms(1)] by auto
    with False Cons show ?thesis by auto
  qed simp
qed simp

lemma stable_sort_by:
  "f ` set xs \<subseteq> D \<Longrightarrow> filter (\<lambda>y. f y = v) (sort_by (leq f) xs) = filter (\<lambda>y. f y = v) xs"
proof (induction xs)
  case (Cons x xs)
  then have "filter (\<lambda>y. f y = v) (insert_by (leq f) x (sort_by (leq f) xs)) =
      filter (\<lambda>y. f y = v) (x # sort_by (leq f) xs)"
    by (intro stable_insert_by) auto
  with Cons show ?case by (simp add: sort_by_def)
qed (simp add: sort_by_def)

end

section \<open>The table\<close>

text \<open>What a column reads of a row.\<close>

datatype cell = CNum jsnum | CStr string

fun cell_string :: "(rat \<Rightarrow> string) \<Rightarrow> cell \<Rightarrow> string" where
  "cell_string fmt (CNum n) = num_string fmt n"
| "cell_string fmt (CStr s) = s"

fun cell_number :: "cell \<Rightarrow> jsnum" where
  "cell_number (CNum n) = n"
| "cell_number (CStr s) = str_number s"

fun str_lt :: "string \<Rightarrow> string \<Rightarrow> bool" where
  "str_lt s [] = False"
| "str_lt [] (d # t) = True"
| "str_lt (c # s) (d # t) = ((of_char c :: nat) < of_char d \<or> c = d \<and> str_lt s t)"

text \<open>\<open>a < b\<close>: as strings when both are, as numbers otherwise.\<close>

fun cell_lt :: "cell \<Rightarrow> cell \<Rightarrow> bool" where
  "cell_lt (CStr a) (CStr b) = str_lt a b"
| "cell_lt a b = js_lt (cell_number a) (cell_number b)"

record 'r column =
  cl_id :: string
  cl_header :: string
  cl_get :: "'r \<Rightarrow> cell"

record 'r table_props =
  tp_rows :: "'r list"
  tp_columns :: "'r column list"
  tp_key :: "'r \<Rightarrow> string"

datatype direction = Asc | Desc

datatype density = Comfortable | Compact

record table =
  tb_q :: string
  tb_sort :: string
  tb_dir :: direction
  tb_page :: int
  tb_density :: density
  tb_selected :: "string list"

definition pageSize :: nat where "pageSize = 8"

definition table_init :: "'r table_props \<Rightarrow> table" where
  "table_init tp =
     \<lparr>tb_q = [], tb_sort = (case tp_columns tp of [] \<Rightarrow> [] | c # cs \<Rightarrow> cl_id c), tb_dir = Asc, tb_page = 0,
      tb_density = Comfortable, tb_selected = []\<rparr>"

definition matches :: "(rat \<Rightarrow> string) \<Rightarrow> 'r column list \<Rightarrow> string \<Rightarrow> 'r \<Rightarrow> bool" where
  "matches fmt cols q row \<longleftrightarrow> list_ex (\<lambda>col. str_includes (str_lower (cell_string fmt (cl_get col row))) (str_lower q)) cols"

text \<open>The comparator never answers that a row comes after another: \<open>a\<close> may stay before \<open>b\<close>.\<close>

definition stays_before :: "direction \<Rightarrow> cell \<Rightarrow> cell \<Rightarrow> bool" where
  "stays_before dir a b \<longleftrightarrow>
     (if cell_lt a b then dir = Asc else if cell_lt b a then dir = Desc else True)"

definition filtered :: "(rat \<Rightarrow> string) \<Rightarrow> 'r table_props \<Rightarrow> table \<Rightarrow> 'r list" where
  "filtered fmt tp tb =
     (let matching = filter (matches fmt (tp_columns tp) (tb_q tb)) (tp_rows tp)
      in case find (\<lambda>c. cl_id c = tb_sort tb) (tp_columns tp) of
           None \<Rightarrow> matching
         | Some col \<Rightarrow> sort_by (\<lambda>a b. stays_before (tb_dir tb) (cl_get col a) (cl_get col b)) matching)"

definition pages :: "'r list \<Rightarrow> int" where
  "pages rows = max 1 (\<lceil>of_nat (length rows) / (of_nat pageSize :: rat)\<rceil>)"

text \<open>\<open>rows.slice(page * 8, page * 8 + 8)\<close>, for a page that is not negative.\<close>

definition slice_at :: "int \<Rightarrow> 'r list \<Rightarrow> 'r list" where
  "slice_at page rows = take pageSize (drop (nat page * pageSize) rows)"

definition toggleSort :: "string \<Rightarrow> table \<Rightarrow> table" where
  "toggleSort i tb =
     (if tb_sort tb = i then tb\<lparr>tb_dir := (if tb_dir tb = Asc then Desc else Asc)\<rparr>
      else tb\<lparr>tb_sort := i, tb_dir := Asc\<rparr>)"

definition all_checked :: "'r table_props \<Rightarrow> 'r list \<Rightarrow> table \<Rightarrow> bool" where
  "all_checked tp shown tb \<longleftrightarrow> shown \<noteq> [] \<and> list_all (\<lambda>r. tp_key tp r \<in> set (tb_selected tb)) shown"

text \<open>A click on the box of the header and of a row turns what the box shows.\<close>

definition select_all :: "'r table_props \<Rightarrow> 'r list \<Rightarrow> table \<Rightarrow> table" where
  "select_all tp shown tb =
     (let keys = map (tp_key tp) shown
      in if all_checked tp shown tb then tb\<lparr>tb_selected := filter (\<lambda>k. k \<notin> set keys) (tb_selected tb)\<rparr>
         else tb\<lparr>tb_selected := distinct_of (tb_selected tb @ keys)\<rparr>)"

definition select_row :: "string \<Rightarrow> table \<Rightarrow> table" where
  "select_row key tb =
     (if key \<in> set (tb_selected tb) then tb\<lparr>tb_selected := filter (\<lambda>k. k \<noteq> key) (tb_selected tb)\<rparr>
      else tb\<lparr>tb_selected := tb_selected tb @ [key]\<rparr>)"

datatype table_event =
  TSearch string
| TDensity
| TToggleSort string
| TSelectAll
| TSelectRow nat
| TPrevious
| TNext

text \<open>One event; a disabled button, a row that is not shown or a header that is no column does nothing.\<close>

definition table_step :: "(rat \<Rightarrow> string) \<Rightarrow> 'r table_props \<Rightarrow> table \<Rightarrow> table_event \<Rightarrow> table" where
  "table_step fmt tp tb e =
     (let rows = filtered fmt tp tb; shown = slice_at (tb_page tb) rows
      in case e of
           TSearch q \<Rightarrow> tb\<lparr>tb_q := q, tb_page := 0\<rparr>
         | TDensity \<Rightarrow> tb\<lparr>tb_density := (if tb_density tb = Comfortable then Compact else Comfortable)\<rparr>
         | TToggleSort i \<Rightarrow> if i \<in> cl_id ` set (tp_columns tp) then toggleSort i tb else tb
         | TSelectAll \<Rightarrow> select_all tp shown tb
         | TSelectRow k \<Rightarrow> if k < length shown then select_row (tp_key tp (shown ! k)) tb else tb
         | TPrevious \<Rightarrow> if tb_page tb = 0 then tb else tb\<lparr>tb_page := tb_page tb - 1\<rparr>
         | TNext \<Rightarrow> if tb_page tb + 1 \<ge> pages rows then tb else tb\<lparr>tb_page := tb_page tb + 1\<rparr>)"

section \<open>CSV export\<close>

definition csvEscape :: "string \<Rightarrow> string" where
  "csvEscape v = CHR 0x22 # concat (map (\<lambda>c. if c = CHR 0x22 then [CHR 0x22, CHR 0x22] else [c]) v) @ [CHR 0x22]"

definition csv_line :: "string list \<Rightarrow> string" where
  "csv_line ws = str_join '','' (map csvEscape ws)"

definition csv_text :: "(rat \<Rightarrow> string) \<Rightarrow> 'r column list \<Rightarrow> 'r list \<Rightarrow> string" where
  "csv_text fmt cols rows =
     csv_line (map cl_header cols) @ [CHR 0x0A]
     @ str_join [CHR 0x0A] (map (\<lambda>row. csv_line (map (\<lambda>c. cell_string fmt (cl_get c row)) cols)) rows) @ [CHR 0x0A]"

section \<open>The comparisons are orders on the cells of one kind\<close>

lemma str_lt_irrefl [simp]: "\<not> str_lt s s"
  by (induction s) simp_all

lemma str_lt_trans: "str_lt s t \<Longrightarrow> str_lt t u \<Longrightarrow> str_lt s u"
proof (induction s t arbitrary: u rule: str_lt.induct)
  case (2 d t)
  then show ?case by (cases u) auto
next
  case (3 c s d t)
  then show ?case by (cases u) auto
qed simp

lemma str_lt_linear: "str_lt s t \<or> s = t \<or> str_lt t s"
proof (induction s t rule: str_lt.induct)
  case (1 s)
  then show ?case by (cases s) simp_all
next
  case (3 c s d t)
  have "c = d" if "\<not> (of_char c :: nat) < of_char d" "\<not> (of_char d :: nat) < of_char c"
    using that by (metis linorder_neqE_nat of_char_eq_iff)
  with 3 show ?case by auto
qed simp

lemma str_lt_asym: "str_lt s t \<Longrightarrow> \<not> str_lt t s"
  using str_lt_trans str_lt_irrefl by blast

lemma js_lt_asym: "js_lt a b \<Longrightarrow> \<not> js_lt b a"
  by (cases a; cases b) auto

lemma js_lt_cut: "\<not> js_lt b a \<Longrightarrow> \<not> js_lt c b \<Longrightarrow> b \<noteq> NaN \<Longrightarrow> a \<noteq> NaN \<Longrightarrow> c \<noteq> NaN \<Longrightarrow> \<not> js_lt c a"
  by (cases a; cases b; cases c) auto

lemma str_lt_cut: "\<not> str_lt b a \<Longrightarrow> \<not> str_lt c b \<Longrightarrow> \<not> str_lt c a"
  using str_lt_linear str_lt_trans by blast

lemma stays_before_text:
  "stays_before dir (CStr s) (CStr t) \<longleftrightarrow> (if dir = Asc then \<not> str_lt t s else \<not> str_lt s t)"
  by (cases dir) (auto simp: stays_before_def str_lt_asym)

lemma stays_before_number:
  "stays_before dir (CNum x) (CNum y) \<longleftrightarrow> (if dir = Asc then \<not> js_lt y x else \<not> js_lt x y)"
  by (cases dir) (auto simp: stays_before_def js_lt_asym)

definition number_cells :: "cell set" where "number_cells = CNum ` {n. n \<noteq> NaN}"

interpretation texts: stable_order "stays_before dir" "range CStr" for dir
proof
  fix a b c assume m: "a \<in> range CStr" "b \<in> range CStr" "c \<in> range CStr"
  from m(1,2) show "stays_before dir a b \<or> stays_before dir b a"
    using str_lt_asym by (auto simp: stays_before_text)
  from m show "stays_before dir a b \<Longrightarrow> stays_before dir b c \<Longrightarrow> stays_before dir a c"
    by (auto simp: stays_before_text split: if_splits dest: str_lt_cut)
qed

interpretation numbers: stable_order "stays_before dir" number_cells for dir
proof
  fix a b c assume m: "a \<in> number_cells" "b \<in> number_cells" "c \<in> number_cells"
  from m(1,2) show "stays_before dir a b \<or> stays_before dir b a"
    using js_lt_asym by (auto simp: stays_before_number number_cells_def)
  from m show "stays_before dir a b \<Longrightarrow> stays_before dir b c \<Longrightarrow> stays_before dir a c"
    by (auto simp: stays_before_number number_cells_def split: if_splits dest: js_lt_cut)
qed

section \<open>Pages and selection\<close>

lemma length_filtered: "length (filtered fmt tp tb) = length (filter (matches fmt (tp_columns tp) (tb_q tb)) (tp_rows tp))"
  by (simp add: filtered_def Let_def split: option.splits)

lemma set_filtered: "set (filtered fmt tp tb) \<subseteq> set (tp_rows tp)"
  by (auto simp: filtered_def Let_def split: option.splits)

lemma pages_pos: "1 \<le> pages rows"
  by (simp add: pages_def)

lemma pages_length: "length xs = length ys \<Longrightarrow> pages xs = pages ys"
  by (simp add: pages_def)

lemma set_slice: "set (slice_at p rows) \<subseteq> set rows"
  by (auto simp: slice_at_def dest: in_set_takeD in_set_dropD)

text \<open>The page is one of the table's, and the selection names rows, each once.\<close>

definition table_inv :: "(rat \<Rightarrow> string) \<Rightarrow> 'r table_props \<Rightarrow> table \<Rightarrow> bool" where
  "table_inv fmt tp tb \<longleftrightarrow>
     0 \<le> tb_page tb \<and> tb_page tb < pages (filtered fmt tp tb)
     \<and> distinct (tb_selected tb) \<and> set (tb_selected tb) \<subseteq> tp_key tp ` set (tp_rows tp)"

lemma pages_same:
  "tb_q tb' = tb_q tb \<Longrightarrow> pages (filtered fmt tp tb') = pages (filtered fmt tp tb)"
  by (rule pages_length) (simp add: length_filtered)

lemma select_all_inv:
  assumes "table_inv fmt tp tb"
  shows "table_inv fmt tp (select_all tp (slice_at (tb_page tb) (filtered fmt tp tb)) tb)" (is "table_inv _ _ ?tb")
proof -
  have "tb_q ?tb = tb_q tb" "tb_page ?tb = tb_page tb" by (simp_all add: select_all_def Let_def)
  moreover have "set (slice_at (tb_page tb) (filtered fmt tp tb)) \<subseteq> set (tp_rows tp)"
    by (rule subset_trans [OF set_slice set_filtered])
  then have "distinct (tb_selected ?tb)" "set (tb_selected ?tb) \<subseteq> tp_key tp ` set (tp_rows tp)"
    using assms by (auto simp: table_inv_def select_all_def Let_def)
  ultimately show ?thesis using assms pages_same [of ?tb tb fmt tp] by (simp add: table_inv_def)
qed

lemma select_row_inv:
  assumes "table_inv fmt tp tb" "r \<in> set (tp_rows tp)"
  shows "table_inv fmt tp (select_row (tp_key tp r) tb)"
  using assms pages_same [of "select_row (tp_key tp r) tb" tb fmt tp]
  by (auto simp: table_inv_def select_row_def)

lemma table_step_inv:
  assumes "table_inv fmt tp tb"
  shows "table_inv fmt tp (table_step fmt tp tb e)"
proof (cases e)
  case (TSelectRow k)
  have "k < length (slice_at (tb_page tb) (filtered fmt tp tb)) \<Longrightarrow>
      slice_at (tb_page tb) (filtered fmt tp tb) ! k \<in> set (tp_rows tp)"
    using set_slice set_filtered by (meson nth_mem subsetD)
  then show ?thesis using TSelectRow assms by (auto simp: table_step_def Let_def intro: select_row_inv)
next
  case (TToggleSort i)
  then show ?thesis using assms pages_same [of "toggleSort i tb" tb fmt tp]
    by (auto simp: table_inv_def table_step_def toggleSort_def Let_def)
next
  case (TSearch q)
  then show ?thesis using assms pages_pos [of "filtered fmt tp (tb\<lparr>tb_q := q, tb_page := 0\<rparr>)"]
    by (simp add: table_inv_def table_step_def Let_def)
next
  case TDensity
  then show ?thesis using assms pages_same [of "table_step fmt tp tb e" tb fmt tp]
    by (simp add: table_inv_def table_step_def Let_def)
next
  case TSelectAll
  then show ?thesis using select_all_inv [OF assms] by (simp add: table_step_def Let_def)
next
  case TPrevious
  then show ?thesis using assms pages_same [of "tb\<lparr>tb_page := tb_page tb - 1\<rparr>" tb fmt tp]
    by (simp add: table_inv_def table_step_def Let_def)
next
  case TNext
  then show ?thesis using assms pages_same [of "tb\<lparr>tb_page := tb_page tb + 1\<rparr>" tb fmt tp]
    by (simp add: table_inv_def table_step_def Let_def)
qed

interpretation table: invariant_machine "table_step fmt tp" "table_inv fmt tp" for fmt tp
  by unfold_locales (rule table_step_inv)

lemma table_init_inv: "table_inv fmt tp (table_init tp)"
  using pages_pos [of "filtered fmt tp (table_init tp)"] by (simp add: table_inv_def) (simp add: table_init_def)

lemma concat_slices: "concat (map (\<lambda>p. slice_at (int p) rows) [0..<n]) = take (n * pageSize) rows"
  by (induction n) (simp_all add: slice_at_def take_add [symmetric] add.commute mult.commute)

lemma pages_enough: "length rows \<le> nat (pages rows) * pageSize"
proof -
  have "of_nat (length rows) / of_nat pageSize \<le> (of_int (pages rows) :: rat)"
    unfolding ceiling_le_iff [symmetric] by (simp add: pages_def)
  then have "(of_nat (length rows) :: rat) \<le> of_int (pages rows * 8)" by (simp add: pageSize_def field_simps)
  then have "int (length rows) \<le> pages rows * 8" by (metis of_int_le_iff of_int_of_nat_eq)
  then show ?thesis using pages_pos [of rows] by (simp add: pageSize_def)
qed

section \<open>Reading CSV\<close>

text \<open>A reader of records of quoted fields, as RFC 4180 describes them: the records read, the fields of the
  current one, the characters of the current field, and where it stands.\<close>

datatype csv_mode = AtField | InField | AfterQuote

fun csv_char :: "char \<Rightarrow> (string list list \<times> string list \<times> string \<times> csv_mode) option
    \<Rightarrow> (string list list \<times> string list \<times> string \<times> csv_mode) option" where
  "csv_char c None = None"
| "csv_char c (Some (rs, fs, w, AtField)) = (if c = CHR 0x22 then Some (rs, fs, [], InField) else None)"
| "csv_char c (Some (rs, fs, w, InField)) = Some (rs, fs, if c = CHR 0x22 then w else w @ [c], if c = CHR 0x22 then AfterQuote else InField)"
| "csv_char c (Some (rs, fs, w, AfterQuote)) =
     (if c = CHR 0x22 then Some (rs, fs, w @ [c], InField)
      else if c = CHR '','' then Some (rs, fs @ [w], [], AtField)
      else if c = CHR 0x0A then Some (rs @ [fs @ [w]], [], [], AtField)
      else None)"

definition read_csv :: "string \<Rightarrow> string list list option" where
  "read_csv s =
     (case fold csv_char s (Some ([], [], [], AtField)) of
        Some (rs, [], [], AtField) \<Rightarrow> Some rs
      | _ \<Rightarrow> None)"

lemma read_quoted:
  "fold csv_char (concat (map (\<lambda>c. if c = CHR 0x22 then [CHR 0x22, CHR 0x22] else [c]) v)) (Some (rs, fs, w, InField)) =
     Some (rs, fs, w @ v, InField)"
  by (induction v arbitrary: w) auto

lemma read_field: "fold csv_char (csvEscape v) (Some (rs, fs, w, AtField)) = Some (rs, fs, v, AfterQuote)"
  by (simp add: csvEscape_def read_quoted)

lemma read_line:
  "ws \<noteq> [] \<Longrightarrow> fold csv_char (csv_line ws) (Some (rs, fs, w, AtField)) =
     Some (rs, fs @ butlast ws, last ws, AfterQuote)"
proof (induction ws arbitrary: fs w)
  case (Cons v ws)
  then show ?case by (cases ws) (simp_all add: csv_line_def read_field)
qed simp

lemma read_record:
  "ws \<noteq> [] \<Longrightarrow> fold csv_char (csv_line ws @ [CHR 0x0A]) (Some (rs, [], w, AtField)) = Some (rs @ [ws], [], [], AtField)"
  by (simp add: read_line)

lemma read_records:
  assumes "list_all (\<lambda>ws. ws \<noteq> []) wss" "wss \<noteq> []"
  shows "fold csv_char (str_join [CHR 0x0A] (map csv_line wss) @ [CHR 0x0A]) (Some (rs, [], [], AtField)) =
    Some (rs @ wss, [], [], AtField)"
  using assms
proof (induction wss arbitrary: rs)
  case (Cons ws wss)
  show ?case
  proof (cases wss)
    case Nil
    then show ?thesis using Cons.prems read_record [of ws rs "[]"] by simp
  next
    case (Cons ws' wss')
    have "str_join [CHR 0x0A] (map csv_line (ws # wss)) = (csv_line ws @ [CHR 0x0A]) @ str_join [CHR 0x0A] (map csv_line wss)"
      using Cons by simp
    then have "fold csv_char (str_join [CHR 0x0A] (map csv_line (ws # wss)) @ [CHR 0x0A]) (Some (rs, [], [], AtField)) =
        fold csv_char (str_join [CHR 0x0A] (map csv_line wss) @ [CHR 0x0A])
          (fold csv_char (csv_line ws @ [CHR 0x0A]) (Some (rs, [], [], AtField)))"
      by (simp only: fold_append o_apply append_assoc)
    also have "\<dots> = Some ((rs @ [ws]) @ wss, [], [], AtField)"
      using read_record [of ws rs "[]"] Cons.IH [of "rs @ [ws]"] Cons.prems Cons by simp
    finally show ?thesis by simp
  qed
qed simp

section \<open>The order of the rows\<close>

lemma filtered_sorted:
  assumes "find (\<lambda>c. cl_id c = tb_sort tb) (tp_columns tp) = Some col"
    and "cl_get col ` set (tp_rows tp) \<subseteq> range CStr \<or> cl_get col ` set (tp_rows tp) \<subseteq> number_cells"
  shows "mset (filtered fmt tp tb) = mset (filter (matches fmt (tp_columns tp) (tb_q tb)) (tp_rows tp))
    \<and> sorted_wrt (\<lambda>a b. stays_before (tb_dir tb) (cl_get col a) (cl_get col b)) (filtered fmt tp tb)
    \<and> filter (\<lambda>r. cl_get col r = v) (filtered fmt tp tb) =
        filter (\<lambda>r. cl_get col r = v) (filter (matches fmt (tp_columns tp) (tb_q tb)) (tp_rows tp))"
proof -
  let ?m = "filter (matches fmt (tp_columns tp) (tb_q tb)) (tp_rows tp)"
  have f: "filtered fmt tp tb = sort_by (\<lambda>a b. stays_before (tb_dir tb) (cl_get col a) (cl_get col b)) ?m"
    using assms(1) by (simp add: filtered_def Let_def)
  from assms(2) have d: "cl_get col ` set ?m \<subseteq> range CStr \<or> cl_get col ` set ?m \<subseteq> number_cells" by auto
  from d have "sorted_wrt (\<lambda>a b. stays_before (tb_dir tb) (cl_get col a) (cl_get col b)) (filtered fmt tp tb)"
    unfolding f by (elim disjE) (erule texts.sorted_sort_by, erule numbers.sorted_sort_by)
  moreover from d have "filter (\<lambda>r. cl_get col r = v) (filtered fmt tp tb) = filter (\<lambda>r. cl_get col r = v) ?m"
    unfolding f by (elim disjE) (erule texts.stable_sort_by, erule numbers.stable_sort_by)
  ultimately show ?thesis by (simp add: f)
qed

section \<open>Properties\<close>

text \<open>The order of the cells of a column, apart from the comparator: texts by the codes of their characters,
  as in a dictionary, and numbers by size.\<close>

definition codes :: "string \<Rightarrow> nat list" where "codes s = map of_char s"

fun cell_le :: "cell \<Rightarrow> cell \<Rightarrow> bool" where
  "cell_le (CStr s) (CStr t) \<longleftrightarrow> lexordp_eq (codes s) (codes t)"
| "cell_le (CNum x) (CNum y) \<longleftrightarrow> x = NInf \<or> y = PInf \<or> (\<exists>p q. x = Fin p \<and> y = Fin q \<and> p \<le> q)"
| "cell_le _ _ \<longleftrightarrow> False"

lemma not_str_lt_codes: "\<not> str_lt t s \<longleftrightarrow> lexordp_eq (codes s) (codes t)"
proof (induction t s rule: str_lt.induct)
  case (3 c s d t)
  have "c = d \<longleftrightarrow> \<not> (of_char c :: nat) < of_char d \<and> \<not> (of_char d :: nat) < of_char c"
    by (metis linorder_neqE_nat of_char_eq_iff order_less_irrefl)
  with 3 show ?case by (auto simp: codes_def)
qed (simp_all add: codes_def)

lemma stays_before_le:
  assumes "a \<in> range CStr \<and> b \<in> range CStr \<or> a \<in> number_cells \<and> b \<in> number_cells"
  shows "stays_before dir a b \<longleftrightarrow> (if dir = Asc then cell_le a b else cell_le b a)"
proof -
  have n: "\<not> js_lt y x \<longleftrightarrow> cell_le (CNum x) (CNum y)" if "x \<noteq> NaN" "y \<noteq> NaN" for x y
    using that by (cases x; cases y) auto
  from assms show ?thesis
    by (auto simp: stays_before_text stays_before_number not_str_lt_codes n number_cells_def)
qed

text \<open>C24: sorted by a column of texts or of numbers, the table shows the rows that have the search text in
  some column, each as often as it occurs, with the cells of that column rising in the ascending direction
  and falling in the descending one, and rows of equal cells in the order they were given in.\<close>

theorem table_sorted:
  assumes "find (\<lambda>c. cl_id c = tb_sort tb) (tp_columns tp) = Some col"
    and "cl_get col ` set (tp_rows tp) \<subseteq> range CStr \<or> cl_get col ` set (tp_rows tp) \<subseteq> number_cells"
    and found: "found = filter (\<lambda>r. \<exists>c \<in> set (tp_columns tp).
      str_includes (str_lower (cell_string fmt (cl_get c r))) (str_lower (tb_q tb))) (tp_rows tp)"
  shows "mset (filtered fmt tp tb) = mset found
    \<and> sorted_wrt (\<lambda>a b. if tb_dir tb = Asc then cell_le (cl_get col a) (cl_get col b)
         else cell_le (cl_get col b) (cl_get col a)) (filtered fmt tp tb)
    \<and> filter (\<lambda>r. cl_get col r = v) (filtered fmt tp tb) = filter (\<lambda>r. cl_get col r = v) found"
proof -
  have f: "filter (matches fmt (tp_columns tp) (tb_q tb)) (tp_rows tp) = found"
    by (simp add: found matches_def [abs_def] list_ex_iff)
  note s = filtered_sorted [OF assms(1,2), of fmt, unfolded f]
  have "set (filtered fmt tp tb) \<subseteq> set (tp_rows tp)"
    using mset_eq_setD [OF conjunct1 [OF s]] by (simp add: found)
  then have le: "a \<in> set (filtered fmt tp tb) \<Longrightarrow> b \<in> set (filtered fmt tp tb) \<Longrightarrow>
      stays_before (tb_dir tb) (cl_get col a) (cl_get col b) \<longleftrightarrow>
      (if tb_dir tb = Asc then cell_le (cl_get col a) (cl_get col b) else cell_le (cl_get col b) (cl_get col a))" for a b
    using assms(2) by (intro stays_before_le) blast
  have "sorted_wrt (\<lambda>a b. if tb_dir tb = Asc then cell_le (cl_get col a) (cl_get col b)
         else cell_le (cl_get col b) (cl_get col a)) (filtered fmt tp tb)"
    by (rule sorted_wrt_mono_rel [OF _ conjunct1 [OF conjunct2 [OF s]]]) (simp only: le)
  with s show ?thesis by blast
qed

text \<open>C26: however the table is used, its page is one of its pages, the pages together show every row exactly
  once, and the selection names rows of the table, none twice.\<close>

theorem table_pages:
  assumes "run (table_step fmt tp) (table_init tp) es = tb"
  shows "0 \<le> tb_page tb \<and> tb_page tb < pages (filtered fmt tp tb)
    \<and> concat (map (\<lambda>p. slice_at (int p) (filtered fmt tp tb)) [0..<nat (pages (filtered fmt tp tb))]) = filtered fmt tp tb
    \<and> distinct (tb_selected tb) \<and> set (tb_selected tb) \<subseteq> tp_key tp ` set (tp_rows tp)"
  using table.run_inv [OF table_init_inv, of fmt tp es] assms pages_enough [of "filtered fmt tp tb"]
  by (simp add: table_inv_def concat_slices)

text \<open>C27: the exported text reads back as the header and the cells of every row shown, whatever quotes, commas
  and line breaks they hold.\<close>

theorem csv_round_trip:
  assumes "cols \<noteq> []" "rows \<noteq> []"
  shows "read_csv (csv_text fmt cols rows) =
    Some (map cl_header cols # map (\<lambda>row. map (\<lambda>c. cell_string fmt (cl_get c row)) cols) rows)"
proof -
  let ?wss = "map (\<lambda>row. map (\<lambda>c. cell_string fmt (cl_get c row)) cols) rows"
  have t: "csv_text fmt cols rows = (csv_line (map cl_header cols) @ [CHR 0x0A])
      @ (str_join [CHR 0x0A] (map csv_line ?wss) @ [CHR 0x0A])"
    by (simp add: csv_text_def o_def)
  have l: "list_all (\<lambda>ws. ws \<noteq> []) ?wss" "?wss \<noteq> []" using assms by (simp_all add: list_all_iff)
  have "fold csv_char (csv_text fmt cols rows) (Some ([], [], [], AtField)) = Some ([map cl_header cols] @ ?wss, [], [], AtField)"
    unfolding t fold_append o_apply
    using read_record [of "map cl_header cols" "[]" "[]"] read_records [OF l, of "[map cl_header cols]"] assms(1) by simp
  then show ?thesis by (simp add: read_csv_def)
qed

text \<open>Two columns over pairs of a name and a count.\<close>

definition ex_columns :: "(string \<times> int) column list" where
  "ex_columns = [\<lparr>cl_id = ''name'', cl_header = ''Name'', cl_get = (\<lambda>r. CStr (fst r))\<rparr>,
     \<lparr>cl_id = ''n'', cl_header = ''Findings'', cl_get = (\<lambda>r. CNum (num (snd r)))\<rparr>]"

definition ex_table :: "(string \<times> int) table_props" where
  "ex_table = \<lparr>tp_rows = [(''b'', 2), (''a'', 10), (''c'', 2)], tp_columns = ex_columns, tp_key = fst\<rparr>"

theorem table_sorted_witness:
  "filtered (\<lambda>_. []) ex_table (toggleSort ''n'' (table_init ex_table)) = [(''b'', 2), (''c'', 2), (''a'', 10)]
   \<and> filter (\<lambda>r. snd r = 2) (filtered (\<lambda>_. []) ex_table (toggleSort ''n'' (table_init ex_table))) = [(''b'', 2), (''c'', 2)]"
proof -
  have c: "find (\<lambda>c. cl_id c = tb_sort (toggleSort ''n'' (table_init ex_table))) (tp_columns ex_table) = Some (ex_columns ! 1)"
    by (simp add: ex_table_def ex_columns_def table_init_def toggleSort_def)
  have n: "cl_get (ex_columns ! 1) ` set (tp_rows ex_table) \<subseteq> range CStr
      \<or> cl_get (ex_columns ! 1) ` set (tp_rows ex_table) \<subseteq> number_cells"
    by (auto simp: ex_table_def ex_columns_def number_cells_def)
  have "filtered (\<lambda>_. []) ex_table (toggleSort ''n'' (table_init ex_table)) = [(''b'', 2), (''c'', 2), (''a'', 10)]"
    by code_simp
  with table_sorted [OF c n refl, of "\<lambda>_. []" "CNum (num 2)"] show ?thesis by (simp add: ex_columns_def)
qed

theorem table_pages_witness:
  "tb_page (run (table_step (\<lambda>_. []) ex_table) (table_init ex_table) [TNext, TSelectAll, TSearch ''a'']) = 0
   \<and> distinct (tb_selected (run (table_step (\<lambda>_. []) ex_table) (table_init ex_table) [TNext, TSelectAll, TSearch ''a'']))"
proof -
  have "tb_page (run (table_step (\<lambda>_. []) ex_table) (table_init ex_table) [TNext, TSelectAll, TSearch ''a'']) = 0" by code_simp
  with table_pages [OF refl, of "\<lambda>_. []" ex_table "[TNext, TSelectAll, TSearch ''a'']"] show ?thesis by blast
qed

theorem csv_round_trip_witness:
  "read_csv (csv_text (\<lambda>_. []) ex_columns [(''a,'' @ [CHR 0x22], 3)]) = Some [[''Name'', ''Findings''], [''a,'' @ [CHR 0x22], ''3'']]"
proof -
  have n: "ex_columns \<noteq> []" "[(''a,'' @ [CHR 0x22], 3 :: int)] \<noteq> []" by (simp_all add: ex_columns_def)
  have "map cl_header ex_columns # map (\<lambda>row. map (\<lambda>c. cell_string (\<lambda>_. []) (cl_get c row)) ex_columns) [(''a,'' @ [CHR 0x22], 3)]
      = [[''Name'', ''Findings''], [''a,'' @ [CHR 0x22], ''3'']]" by code_simp
  with csv_round_trip [OF n, of "\<lambda>_. []"] show ?thesis by metis
qed

end
