(* ===== verification/Fabric_Catalog.thy ===== *)
theory Fabric_Catalog
  imports Prelude
begin

text \<open>
  fabric/src/data/catalog.ts: the labelled synthetic estate the pages of the fabric application show.  A
  severity is its name.
\<close>

definition DEMO_NOTICE :: string where
  "DEMO_NOTICE =
    ''Labeled synthetic demo for Northbridge Exchange (fictional). No customer secrets, keys, or production credentials are stored or displayed.''"

record tenant_row =
  tnf_org :: string
  tnf_unit :: string
  tnf_env :: string
  tnf_region :: string
  tnf_cloud :: string

definition tenants :: "tenant_row list" where
  "tenants =
    [\<lparr>tnf_org = ''Northbridge Exchange'', tnf_unit = ''Payments'', tnf_env = ''Production'', tnf_region = ''eu-central-1'', tnf_cloud = ''AWS''\<rparr>,
     \<lparr>tnf_org = ''Northbridge Exchange'', tnf_unit = ''Risk'', tnf_env = ''Production'', tnf_region = ''eu-west-1'', tnf_cloud = ''Azure''\<rparr>,
     \<lparr>tnf_org = ''Northbridge Exchange'', tnf_unit = ''Compliance'', tnf_env = ''Staging'', tnf_region = ''us-east-1'', tnf_cloud = ''GCP''\<rparr>]"

record dimension =
  dmf_id :: string
  dmf_name :: string
  dmf_score :: int
  dmf_trend :: int
  dmf_critical :: int
  dmf_assets :: int
  dmf_action :: string
  dmf_href :: string

definition dimensions :: "dimension list" where
  "dimensions =
    [\<lparr>dmf_id = ''cloud'', dmf_name = ''Cloud Security'', dmf_score = 81, dmf_trend = - 2, dmf_critical = 31, dmf_assets = 18420, dmf_action = ''Close public S3 and unencrypted RDS.'', dmf_href = ''/app/cloud''\<rparr>,
     \<lparr>dmf_id = ''identity'', dmf_name = ''Identity Security'', dmf_score = 74, dmf_trend = - 4, dmf_critical = 8, dmf_assets = 612, dmf_action = ''Remove unused privileged roles.'', dmf_href = ''/app/identity''\<rparr>,
     \<lparr>dmf_id = ''app'', dmf_name = ''Application Security'', dmf_score = 79, dmf_trend = 1, dmf_critical = 6, dmf_assets = 148, dmf_action = ''Patch log4j-class findings in payments-api.'', dmf_href = ''/app/vulns''\<rparr>,
     \<lparr>dmf_id = ''data'', dmf_name = ''Data Security'', dmf_score = 83, dmf_trend = 0, dmf_critical = 5, dmf_assets = 94, dmf_action = ''Shorten retention on card-hold archives.'', dmf_href = ''/app/data''\<rparr>,
     \<lparr>dmf_id = ''crypto'', dmf_name = ''Cryptographic Security'', dmf_score = 68, dmf_trend = - 3, dmf_critical = 19, dmf_assets = 8421, dmf_action = ''Replace SHA-1 and TLS 1.0 endpoints.'', dmf_href = ''/app/cryptobom''\<rparr>,
     \<lparr>dmf_id = ''supply'', dmf_name = ''Supply Chain Security'', dmf_score = 77, dmf_trend = 2, dmf_critical = 4, dmf_assets = 2204, dmf_action = ''Pin npm crypto libraries in ledger-web.'', dmf_href = ''/app/sbom''\<rparr>,
     \<lparr>dmf_id = ''ai'', dmf_name = ''AI Security'', dmf_score = 71, dmf_trend = 0, dmf_critical = 3, dmf_assets = 18, dmf_action = ''Rotate model-endpoint service accounts.'', dmf_href = ''/app/ai''\<rparr>,
     \<lparr>dmf_id = ''compliance'', dmf_name = ''Compliance'', dmf_score = 94, dmf_trend = 1, dmf_critical = 2, dmf_assets = 41, dmf_action = ''Attach evidence to DORA TRA-04.'', dmf_href = ''/app/compliance''\<rparr>,
     \<lparr>dmf_id = ''quantum'', dmf_name = ''Quantum Readiness'', dmf_score = 61, dmf_trend = 3, dmf_critical = 128, dmf_assets = 8421, dmf_action = ''Plan ML-KEM hybrid for TLS termination.'', dmf_href = ''/app/pqc''\<rparr>]"

record change =
  chgf_when :: string
  chgf_title :: string
  chgf_area :: string

definition changes :: "change list" where
  "changes =
    [\<lparr>chgf_when = ''09:14 UTC'', chgf_title = ''New critical: public ALB still offers TLS 1.0'', chgf_area = ''Cloud + Crypto''\<rparr>,
     \<lparr>chgf_when = ''08:02 UTC'', chgf_title = (''Certificate old-settlement.nbx.example expired ('' @ minus_sign @ ''6 days)''), chgf_area = ''PKI''\<rparr>,
     \<lparr>chgf_when = ''Yesterday'', chgf_title = ''Unused PAYMENTS_DB_PASSWORD reference flagged'', chgf_area = ''Secrets''\<rparr>,
     \<lparr>chgf_when = ''Yesterday'', chgf_title = ''CIS AWS 2.1.4 failed on s3://nbx-pay-artifacts'', chgf_area = ''Compliance''\<rparr>,
     \<lparr>chgf_when = ''2 days ago'', chgf_title = ''ML-KEM hybrid canary healthy on pay-canary'', chgf_area = ''PQC''\<rparr>]"

record action =
  anf_id :: string
  anf_title :: string
  anf_owner :: string
  anf_risk :: string
  anf_approval :: string

definition actions :: "action list" where
  "actions =
    [\<lparr>anf_id = ''A-1'', anf_title = ''Disable TLS 1.0 on alb/pay-public'', anf_owner = ''payments-platform'', anf_risk = ''critical'', anf_approval = ''Required''\<rparr>,
     \<lparr>anf_id = ''A-2'', anf_title = ''Renew old-settlement certificate'', anf_owner = ''pki'', anf_risk = ''critical'', anf_approval = ''Required''\<rparr>,
     \<lparr>anf_id = ''A-3'', anf_title = ''Rotate GH_DEPLOY_TOKEN reference'', anf_owner = ''devsecops'', anf_risk = ''critical'', anf_approval = ''Required''\<rparr>,
     \<lparr>anf_id = ''A-4'', anf_title = ''Remove unused pay-admin-role bindings'', anf_owner = ''identity'', anf_risk = ''high'', anf_approval = ''Required''\<rparr>]"

record cloud_account =
  clf_account :: string
  clf_provider :: string
  clf_resources :: int
  clf_critical :: int
  clf_high :: int
  clf_publicRes :: int
  clf_unencrypted :: int
  clf_identity :: int
  clf_owner :: string
  clf_region :: string

definition clouds :: "cloud_account list" where
  "clouds =
    [\<lparr>clf_account = ''nbx-prod-core'', clf_provider = ''AWS'', clf_resources = 8420, clf_critical = 12, clf_high = 61, clf_publicRes = 28, clf_unencrypted = 9, clf_identity = 17, clf_owner = ''cloud-sec'', clf_region = ''eu-central-1''\<rparr>,
     \<lparr>clf_account = ''nbx-prod-pay'', clf_provider = ''AWS'', clf_resources = 3910, clf_critical = 8, clf_high = 33, clf_publicRes = 11, clf_unencrypted = 6, clf_identity = 9, clf_owner = ''payments-platform'', clf_region = ''eu-central-1''\<rparr>,
     \<lparr>clf_account = ''nbx-analytics'', clf_provider = ''Azure'', clf_resources = 2740, clf_critical = 6, clf_high = 28, clf_publicRes = 19, clf_unencrypted = 8, clf_identity = 11, clf_owner = ''data-eng'', clf_region = ''westeurope''\<rparr>,
     \<lparr>clf_account = ''nbx-ml'', clf_provider = ''GCP'', clf_resources = 1880, clf_critical = 3, clf_high = 14, clf_publicRes = 15, clf_unencrypted = 4, clf_identity = 4, clf_owner = ''ml-ops'', clf_region = ''europe-west3''\<rparr>,
     \<lparr>clf_account = ''nbx-edge'', clf_provider = ''OCI'', clf_resources = 620, clf_critical = 2, clf_high = 11, clf_publicRes = 10, clf_unencrypted = 2, clf_identity = 1, clf_owner = ''edge'', clf_region = ''eu-frankfurt-1''\<rparr>,
     \<lparr>clf_account = ''nbx-hybrid'', clf_provider = ''Hybrid'', clf_resources = 850, clf_critical = 0, clf_high = 0, clf_publicRes = 0, clf_unencrypted = 0, clf_identity = 0, clf_owner = ''infra'', clf_region = ''berlin-dc''\<rparr>]"

record crypto_row =
  cyf_asset :: string
  cyf_algorithm :: string
  cyf_keySize :: string
  cyf_protocol :: string
  cyf_location :: string
  cyf_application :: string
  cyf_environment :: string
  cyf_risk :: string
  cyf_quantum :: string
  cyf_compliance :: string
  cyf_lastSeen :: string
  cyf_owner :: string

definition cryptoRows :: "crypto_row list" where
  "cryptoRows =
    [\<lparr>cyf_asset = ''pay-edge-tls'', cyf_algorithm = ''RSA'', cyf_keySize = ''1024'', cyf_protocol = ''TLS 1.0'', cyf_location = ''alb/pay-public'', cyf_application = ''payments-api'', cyf_environment = ''prod'', cyf_risk = ''critical'', cyf_quantum = ''critical'', cyf_compliance = ''PCI DSS 4.2.1'', cyf_lastSeen = ''2026-09-05'', cyf_owner = ''payments-platform''\<rparr>,
     \<lparr>cyf_asset = ''legacy-hash'', cyf_algorithm = ''SHA-1'', cyf_keySize = ''160'', cyf_protocol = ''CMS'', cyf_location = ''repo/ledger-web'', cyf_application = ''ledger-web'', cyf_environment = ''prod'', cyf_risk = ''critical'', cyf_quantum = ''high'', cyf_compliance = ''BSI TR-02102'', cyf_lastSeen = ''2026-09-04'', cyf_owner = ''appsec''\<rparr>,
     \<lparr>cyf_asset = ''vpn-3des'', cyf_algorithm = ''3DES'', cyf_keySize = ''168'', cyf_protocol = ''IPsec'', cyf_location = ''fw/eu-transit'', cyf_application = ''corp-vpn'', cyf_environment = ''prod'', cyf_risk = ''high'', cyf_quantum = ''high'', cyf_compliance = ''NIS2 Art. 21'', cyf_lastSeen = ''2026-09-03'', cyf_owner = ''netsec''\<rparr>,
     \<lparr>cyf_asset = ''ssh-weak-kex'', cyf_algorithm = ''diffie-hellman-group1'', cyf_keySize = ''1024'', cyf_protocol = ''SSH'', cyf_location = ''ec2/bastion-a'', cyf_application = ''ops-bastion'', cyf_environment = ''prod'', cyf_risk = ''high'', cyf_quantum = ''high'', cyf_compliance = ''CIS 5.2'', cyf_lastSeen = ''2026-09-05'', cyf_owner = ''sre''\<rparr>,
     \<lparr>cyf_asset = ''rc4-internal'', cyf_algorithm = ''RC4'', cyf_keySize = ''128'', cyf_protocol = ''TLS 1.1'', cyf_location = ''svc/settlement-old'', cyf_application = ''settlement'', cyf_environment = ''prod'', cyf_risk = ''critical'', cyf_quantum = ''high'', cyf_compliance = ''PCI DSS 4.2.1'', cyf_lastSeen = ''2026-08-29'', cyf_owner = ''payments-platform''\<rparr>,
     \<lparr>cyf_asset = ''api-cert-exp'', cyf_algorithm = ''ECDSA'', cyf_keySize = ''256'', cyf_protocol = ''TLS 1.2'', cyf_location = ''acm/api.nbx.example'', cyf_application = ''public-api'', cyf_environment = ''prod'', cyf_risk = ''high'', cyf_quantum = ''high'', cyf_compliance = ''SOC 2 CC6.7'', cyf_lastSeen = ''2026-09-06'', cyf_owner = ''pki''\<rparr>,
     \<lparr>cyf_asset = ''pay-mlkem-pilot'', cyf_algorithm = ''ML-KEM'', cyf_keySize = ''768'', cyf_protocol = ''TLS 1.3 hybrid'', cyf_location = ''alb/pay-canary'', cyf_application = ''payments-api'', cyf_environment = ''prod-canary'', cyf_risk = ''low'', cyf_quantum = ''low'', cyf_compliance = ''NIST FIPS 203'', cyf_lastSeen = ''2026-09-06'', cyf_owner = ''crypto-eng''\<rparr>,
     \<lparr>cyf_asset = ''internal-rsa2k'', cyf_algorithm = ''RSA'', cyf_keySize = ''2048'', cyf_protocol = ''TLS 1.3'', cyf_location = ''acm/int.nbx.example'', cyf_application = ''ledger-web'', cyf_environment = ''prod'', cyf_risk = ''medium'', cyf_quantum = ''high'', cyf_compliance = ''ISO 27001 A.8.24'', cyf_lastSeen = ''2026-09-06'', cyf_owner = ''pki''\<rparr>,
     \<lparr>cyf_asset = ''ecdsa-signing'', cyf_algorithm = ''ECDSA'', cyf_keySize = ''256'', cyf_protocol = ''JWT'', cyf_location = ''svc/authz'', cyf_application = ''idp-bridge'', cyf_environment = ''prod'', cyf_risk = ''medium'', cyf_quantum = ''high'', cyf_compliance = ''NIST CSF PR.DS'', cyf_lastSeen = ''2026-09-06'', cyf_owner = ''identity''\<rparr>,
     \<lparr>cyf_asset = ''ecdh-session'', cyf_algorithm = ''ECDH'', cyf_keySize = ''256'', cyf_protocol = ''TLS 1.3'', cyf_location = ''alb/corp-int'', cyf_application = ''intranet'', cyf_environment = ''prod'', cyf_risk = ''low'', cyf_quantum = ''high'', cyf_compliance = ''ISO 27001 A.8.24'', cyf_lastSeen = ''2026-09-05'', cyf_owner = ''pki''\<rparr>]"

record secret_ref =
  sef_name :: string
  sef_status :: string
  sef_lastRotation :: string
  sef_apps :: string
  sef_owner :: string
  sef_risk :: string
  sef_vault :: string

definition secrets :: "secret_ref list" where
  "secrets =
    [\<lparr>sef_name = ''PAYMENTS_DB_PASSWORD'', sef_status = ''unused'', sef_lastRotation = ''2025-11-02'', sef_apps = ''payments-api'', sef_owner = ''payments-platform'', sef_risk = ''high'', sef_vault = ''platform-vault''\<rparr>,
     \<lparr>sef_name = ''GH_DEPLOY_TOKEN'', sef_status = ''exposed-in-ci-log-ref'', sef_lastRotation = ''2026-04-12'', sef_apps = ''ledger-web'', sef_owner = ''devsecops'', sef_risk = ''critical'', sef_vault = ''ci-vault''\<rparr>,
     \<lparr>sef_name = ''MODEL_ENDPOINT_KEY'', sef_status = ''weak-entropy'', sef_lastRotation = ''2026-01-19'', sef_apps = ''fraud-model'', sef_owner = ''ml-ops'', sef_risk = ''high'', sef_vault = ''ml-vault''\<rparr>,
     \<lparr>sef_name = ''STRIPE_WEBHOOK_SECRET'', sef_status = ''ok'', sef_lastRotation = ''2026-08-01'', sef_apps = ''billing-bridge'', sef_owner = ''finance-eng'', sef_risk = ''low'', sef_vault = ''finance-vault''\<rparr>,
     \<lparr>sef_name = ''HSM_WRAP_REF'', sef_status = ''ok'', sef_lastRotation = ''2026-07-14'', sef_apps = ''pki-service'', sef_owner = ''pki'', sef_risk = ''low'', sef_vault = ''hsm-partition''\<rparr>]"

record certificate =
  cef_name :: string
  cef_issuer :: string
  cef_algo :: string
  cef_keySize :: string
  cef_days :: int
  cef_owner :: string
  cef_env :: string
  cef_risk :: string
  cef_status :: string

definition certificates :: "certificate list" where
  "certificates =
    [\<lparr>cef_name = ''api.nbx.example'', cef_issuer = ''Internal ICA'', cef_algo = ''ECDSA P-256'', cef_keySize = ''256'', cef_days = 11, cef_owner = ''pki'', cef_env = ''prod'', cef_risk = ''high'', cef_status = ''14 days''\<rparr>,
     \<lparr>cef_name = ''pay.nbx.example'', cef_issuer = (''Let'' @ [CHR 0x27] @ ''s Encrypt''), cef_algo = ''RSA 2048'', cef_keySize = ''2048'', cef_days = 28, cef_owner = ''payments-platform'', cef_env = ''prod'', cef_risk = ''medium'', cef_status = ''30 days''\<rparr>,
     \<lparr>cef_name = ''ml.nbx.example'', cef_issuer = ''Internal ICA'', cef_algo = ''RSA 2048'', cef_keySize = ''2048'', cef_days = 74, cef_owner = ''ml-ops'', cef_env = ''prod'', cef_risk = ''medium'', cef_status = ''90 days''\<rparr>,
     \<lparr>cef_name = ''old-settlement.nbx.example'', cef_issuer = ''Legacy CA'', cef_algo = ''RSA 1024'', cef_keySize = ''1024'', cef_days = - 6, cef_owner = ''payments-platform'', cef_env = ''prod'', cef_risk = ''critical'', cef_status = ''Expired''\<rparr>,
     \<lparr>cef_name = ''int.nbx.example'', cef_issuer = ''Internal ICA'', cef_algo = ''RSA 2048'', cef_keySize = ''2048'', cef_days = 58, cef_owner = ''pki'', cef_env = ''prod'', cef_risk = ''low'', cef_status = ''60 days''\<rparr>,
     \<lparr>cef_name = ''canary.nbx.example'', cef_issuer = ''Internal ICA'', cef_algo = ''ML-KEM hybrid'', cef_keySize = ''768'', cef_days = 81, cef_owner = ''crypto-eng'', cef_env = ''prod-canary'', cef_risk = ''low'', cef_status = ''90 days''\<rparr>]"

record framework_row =
  fwf_name :: string
  fwf_score :: int
  fwf_fails :: int
  fwf_evidence :: int

definition frameworks :: "framework_row list" where
  "frameworks =
    [\<lparr>fwf_name = ''NIST CSF'', fwf_score = 91, fwf_fails = 4, fwf_evidence = 38\<rparr>,
     \<lparr>fwf_name = ''ISO 27001'', fwf_score = 88, fwf_fails = 6, fwf_evidence = 52\<rparr>,
     \<lparr>fwf_name = ''SOC 2'', fwf_score = 93, fwf_fails = 3, fwf_evidence = 29\<rparr>,
     \<lparr>fwf_name = ''PCI DSS'', fwf_score = 81, fwf_fails = 9, fwf_evidence = 44\<rparr>,
     \<lparr>fwf_name = ''GDPR'', fwf_score = 90, fwf_fails = 2, fwf_evidence = 21\<rparr>,
     \<lparr>fwf_name = ''DORA'', fwf_score = 86, fwf_fails = 5, fwf_evidence = 33\<rparr>,
     \<lparr>fwf_name = ''NIS2'', fwf_score = 87, fwf_fails = 4, fwf_evidence = 27\<rparr>,
     \<lparr>fwf_name = ''BSI'', fwf_score = 84, fwf_fails = 7, fwf_evidence = 18\<rparr>,
     \<lparr>fwf_name = ''CIS'', fwf_score = 89, fwf_fails = 8, fwf_evidence = 61\<rparr>,
     \<lparr>fwf_name = ''FIPS'', fwf_score = 72, fwf_fails = 11, fwf_evidence = 14\<rparr>]"

record control_row =
  crf_id :: string
  crf_framework :: string
  crf_title :: string
  crf_severity :: string
  crf_pass :: int
  crf_fail :: int
  crf_exceptions :: int
  crf_regulation :: string

definition controls :: "control_row list" where
  "controls =
    [\<lparr>crf_id = ''CIS-2.1.4'', crf_framework = ''CIS AWS'', crf_title = ''S3 block public access'', crf_severity = ''critical'', crf_pass = 412, crf_fail = 18, crf_exceptions = 2, crf_regulation = (''PCI DSS 1.3 '' @ mid_dot @ '' DORA Art. 9'')\<rparr>,
     \<lparr>crf_id = ''PCI-4.2.1'', crf_framework = ''PCI DSS'', crf_title = ''Strong cryptography in transit'', crf_severity = ''critical'', crf_pass = 88, crf_fail = 6, crf_exceptions = 0, crf_regulation = (''PCI DSS 4.2.1 '' @ mid_dot @ '' NIS2 Art. 21'')\<rparr>,
     \<lparr>crf_id = ''ISO-A.8.24'', crf_framework = ''ISO 27001'', crf_title = ''Use of cryptography'', crf_severity = ''high'', crf_pass = 120, crf_fail = 11, crf_exceptions = 3, crf_regulation = (''ISO 27001 A.8.24 '' @ mid_dot @ '' BSI TR-02102'')\<rparr>,
     \<lparr>crf_id = ''DORA-TRA-04'', crf_framework = ''DORA'', crf_title = ''ICT risk register completeness'', crf_severity = ''medium'', crf_pass = 19, crf_fail = 2, crf_exceptions = 1, crf_regulation = ''DORA Art. 6''\<rparr>,
     \<lparr>crf_id = ''SOC2-CC6.7'', crf_framework = ''SOC 2'', crf_title = ''Transmission encryption'', crf_severity = ''high'', crf_pass = 54, crf_fail = 3, crf_exceptions = 0, crf_regulation = ''SOC 2 CC6.7''\<rparr>]"

record finding_row =
  fif_id :: string
  fif_title :: string
  fif_sev :: string
  fif_asset :: string
  fif_owner :: string
  fif_control :: string
  fif_regulation :: string
  fif_env :: string

definition findings :: "finding_row list" where
  "findings =
    [\<lparr>fif_id = ''QSF-1042'', fif_title = ''Public ALB allows TLS 1.0'', fif_sev = ''critical'', fif_asset = ''alb/pay-public'', fif_owner = ''payments-platform'', fif_control = ''PCI-4.2.1'', fif_regulation = ''PCI DSS 4.2.1'', fif_env = ''prod''\<rparr>,
     \<lparr>fif_id = ''QSF-1048'', fif_title = ''S3 bucket publicly listable'', fif_sev = ''critical'', fif_asset = ''s3://nbx-pay-artifacts'', fif_owner = ''cloud-sec'', fif_control = ''CIS-2.1.4'', fif_regulation = ''PCI DSS 1.3'', fif_env = ''prod''\<rparr>,
     \<lparr>fif_id = ''QSF-1101'', fif_title = ''SHA-1 CMS signatures in ledger-web'', fif_sev = ''critical'', fif_asset = ''repo/ledger-web'', fif_owner = ''appsec'', fif_control = ''ISO-A.8.24'', fif_regulation = ''BSI TR-02102'', fif_env = ''prod''\<rparr>,
     \<lparr>fif_id = ''QSF-1114'', fif_title = ''Unused privileged role binding'', fif_sev = ''high'', fif_asset = ''iam/pay-admin-role'', fif_owner = ''identity'', fif_control = ''CIS-1.16'', fif_regulation = ''SOC 2 CC6.1'', fif_env = ''prod''\<rparr>,
     \<lparr>fif_id = ''QSF-1120'', fif_title = ''Expired settlement certificate'', fif_sev = ''critical'', fif_asset = ''old-settlement.nbx.example'', fif_owner = ''pki'', fif_control = ''SOC2-CC6.7'', fif_regulation = ''SOC 2 CC6.7'', fif_env = ''prod''\<rparr>,
     \<lparr>fif_id = ''QSF-1133'', fif_title = ''CVE-2022-24771 in node-forge'', fif_sev = ''high'', fif_asset = ''pkg/node-forge@0.10.0'', fif_owner = ''devsecops'', fif_control = ''ISO-A.8.25'', fif_regulation = ''NIS2 Art. 21'', fif_env = ''prod''\<rparr>]"

record asset_row =
  atf_name :: string
  atf_kind :: string
  atf_env :: string
  atf_owner :: string
  atf_criticality :: string
  atf_exposure :: string
  atf_findings :: int

definition assets :: "asset_row list" where
  "assets =
    [\<lparr>atf_name = ''nbx-prod-pay'', atf_kind = ''Cloud account'', atf_env = ''prod'', atf_owner = ''payments-platform'', atf_criticality = ''critical'', atf_exposure = ''high'', atf_findings = 8\<rparr>,
     \<lparr>atf_name = ''payments-api'', atf_kind = ''Application'', atf_env = ''prod'', atf_owner = ''payments-platform'', atf_criticality = ''critical'', atf_exposure = ''high'', atf_findings = 6\<rparr>,
     \<lparr>atf_name = ''pay-postgres'', atf_kind = ''Database'', atf_env = ''prod'', atf_owner = ''data-eng'', atf_criticality = ''critical'', atf_exposure = ''medium'', atf_findings = 3\<rparr>,
     \<lparr>atf_name = ''alb/pay-public'', atf_kind = ''Load balancer'', atf_env = ''prod'', atf_owner = ''payments-platform'', atf_criticality = ''critical'', atf_exposure = ''high'', atf_findings = 3\<rparr>,
     \<lparr>atf_name = ''prod-eks'', atf_kind = ''Kubernetes'', atf_env = ''prod'', atf_owner = ''sre'', atf_criticality = ''high'', atf_exposure = ''medium'', atf_findings = 5\<rparr>,
     \<lparr>atf_name = ''fraud-xgb'', atf_kind = ''AI model'', atf_env = ''prod'', atf_owner = ''ml-ops'', atf_criticality = ''high'', atf_exposure = ''medium'', atf_findings = 2\<rparr>,
     \<lparr>atf_name = ''hsm-eu-1'', atf_kind = ''Hardware'', atf_env = ''prod'', atf_owner = ''pki'', atf_criticality = ''critical'', atf_exposure = ''low'', atf_findings = 0\<rparr>,
     \<lparr>atf_name = ''ledger-web'', atf_kind = ''Repository'', atf_env = ''prod'', atf_owner = ''appsec'', atf_criticality = ''high'', atf_exposure = ''medium'', atf_findings = 4\<rparr>,
     \<lparr>atf_name = ''card-hold'', atf_kind = ''Sensitive data'', atf_env = ''prod'', atf_owner = ''compliance'', atf_criticality = ''critical'', atf_exposure = ''high'', atf_findings = 2\<rparr>]"

record identity_row =
  iyf_principal :: string
  iyf_type :: string
  iyf_privilege :: string
  iyf_unused :: bool
  iyf_risk :: string
  iyf_owner :: string

definition identities :: "identity_row list" where
  "identities =
    [\<lparr>iyf_principal = ''analyst.lee'', iyf_type = ''User'', iyf_privilege = ''read-only SOC'', iyf_unused = False, iyf_risk = ''low'', iyf_owner = ''soc''\<rparr>,
     \<lparr>iyf_principal = ''pay-pod-sa'', iyf_type = ''Service account'', iyf_privilege = ''rds:*, s3:*'', iyf_unused = False, iyf_risk = ''critical'', iyf_owner = ''payments-platform''\<rparr>,
     \<lparr>iyf_principal = ''pay-admin-role'', iyf_type = ''IAM role'', iyf_privilege = ''AdministratorAccess'', iyf_unused = True, iyf_risk = ''high'', iyf_owner = ''identity''\<rparr>,
     \<lparr>iyf_principal = ''fraud-infer-sa'', iyf_type = ''Service account'', iyf_privilege = ''invoke model-endpoint'', iyf_unused = False, iyf_risk = ''high'', iyf_owner = ''ml-ops''\<rparr>,
     \<lparr>iyf_principal = ''ci-deploy'', iyf_type = ''Machine user'', iyf_privilege = ''push to prod-eks'', iyf_unused = False, iyf_risk = ''medium'', iyf_owner = ''devsecops''\<rparr>]"

record workload =
  wlf_name :: string
  wlf_image :: string
  wlf_cluster :: string
  wlf_findings :: int
  wlf_public :: bool
  wlf_owner :: string

definition workloads :: "workload list" where
  "workloads =
    [\<lparr>wlf_name = ''payments-api'', wlf_image = ''pay:1.18.2'', wlf_cluster = ''prod-eks'', wlf_findings = 4, wlf_public = True, wlf_owner = ''payments-platform''\<rparr>,
     \<lparr>wlf_name = ''ledger-web'', wlf_image = ''ledger:3.4.1'', wlf_cluster = ''prod-eks'', wlf_findings = 3, wlf_public = False, wlf_owner = ''appsec''\<rparr>,
     \<lparr>wlf_name = ''settlement'', wlf_image = ''settle:0.9.8'', wlf_cluster = ''prod-eks'', wlf_findings = 5, wlf_public = False, wlf_owner = ''payments-platform''\<rparr>,
     \<lparr>wlf_name = ''fraud-infer'', wlf_image = ''fraud:2.1.0'', wlf_cluster = ''ml-gke'', wlf_findings = 2, wlf_public = False, wlf_owner = ''ml-ops''\<rparr>]"

record cluster =
  cuf_name :: string
  cuf_provider :: string
  cuf_nodes :: int
  cuf_privileged :: int
  cuf_public :: int
  cuf_findings :: int
  cuf_owner :: string

definition clusters :: "cluster list" where
  "clusters =
    [\<lparr>cuf_name = ''prod-eks'', cuf_provider = ''AWS EKS'', cuf_nodes = 12, cuf_privileged = 2, cuf_public = 1, cuf_findings = 9, cuf_owner = ''sre''\<rparr>,
     \<lparr>cuf_name = ''ml-gke'', cuf_provider = ''GKE'', cuf_nodes = 6, cuf_privileged = 0, cuf_public = 1, cuf_findings = 3, cuf_owner = ''ml-ops''\<rparr>,
     \<lparr>cuf_name = ''edge-oke'', cuf_provider = ''OCI OKE'', cuf_nodes = 3, cuf_privileged = 0, cuf_public = 1, cuf_findings = 2, cuf_owner = ''edge''\<rparr>]"

record sbom_row =
  sbf_pkg :: string
  sbf_version :: string
  sbf_license :: string
  sbf_cve :: string
  sbf_app :: string
  sbf_crypto :: string
  sbf_repo :: string

definition sbom :: "sbom_row list" where
  "sbom =
    [\<lparr>sbf_pkg = ''node-forge'', sbf_version = ''0.10.0'', sbf_license = ''BSD-3-Clause'', sbf_cve = ''CVE-2022-24771'', sbf_app = ''ledger-web'', sbf_crypto = ''RSA'', sbf_repo = ''github.com/nbx/ledger-web''\<rparr>,
     \<lparr>sbf_pkg = ''openssl'', sbf_version = ''1.1.1w'', sbf_license = ''Apache-2.0'', sbf_cve = em_dash, sbf_app = ''payments-api'', sbf_crypto = ''RSA-2048 / TLS 1.3'', sbf_repo = ''github.com/nbx/payments-api''\<rparr>,
     \<lparr>sbf_pkg = ''golang.org/x/crypto'', sbf_version = ''0.26.0'', sbf_license = ''BSD-3-Clause'', sbf_cve = em_dash, sbf_app = ''idp-bridge'', sbf_crypto = ''ECDSA P-256'', sbf_repo = ''github.com/nbx/idp-bridge''\<rparr>,
     \<lparr>sbf_pkg = ''bcrypt'', sbf_version = ''5.1.1'', sbf_license = ''MIT'', sbf_cve = em_dash, sbf_app = ''ledger-web'', sbf_crypto = ''password hash'', sbf_repo = ''github.com/nbx/ledger-web''\<rparr>,
     \<lparr>sbf_pkg = ''liboqs (pilot)'', sbf_version = ''0.10.1'', sbf_license = ''MIT'', sbf_cve = em_dash, sbf_app = ''payments-api'', sbf_crypto = ''ML-KEM-768'', sbf_repo = ''github.com/nbx/payments-api''\<rparr>]"

record hbom_row =
  hbf_asset :: string
  hbf_type :: string
  hbf_firmware :: string
  hbf_crypto :: string
  hbf_eol :: string
  hbf_owner :: string
  hbf_linked :: string

definition hbom :: "hbom_row list" where
  "hbom =
    [\<lparr>hbf_asset = ''hsm-eu-1'', hbf_type = ''CloudHSM'', hbf_firmware = ''3.2.1'', hbf_crypto = ''RSA, AES, ML-KEM pilot'', hbf_eol = ''2030'', hbf_owner = ''pki'', hbf_linked = ''TLS private key''\<rparr>,
     \<lparr>hbf_asset = ''tpm-bastion-a'', hbf_type = ''TPM 2.0'', hbf_firmware = ''1.59'', hbf_crypto = ''RSA-2048, SHA-256'', hbf_eol = ''2028'', hbf_owner = ''sre'', hbf_linked = ''ops-bastion''\<rparr>,
     \<lparr>hbf_asset = ''fw-eu-transit'', hbf_type = ''Network appliance'', hbf_firmware = ''18.4'', hbf_crypto = ''3DES, IPsec'', hbf_eol = ''2026-11'', hbf_owner = ''netsec'', hbf_linked = ''corp-vpn''\<rparr>,
     \<lparr>hbf_asset = ''dc-berlin-r12'', hbf_type = ''Server'', hbf_firmware = ''BIOS 2.11'', hbf_crypto = ''AES-NI'', hbf_eol = ''2029'', hbf_owner = ''infra'', hbf_linked = ''hybrid-k8s''\<rparr>]"

record ibom_row =
  ibf_asset :: string
  ibf_kind :: string
  ibf_cloud :: string
  ibf_owner :: string
  ibf_deps :: string

definition ibom :: "ibom_row list" where
  "ibom =
    [\<lparr>ibf_asset = ''vpc-pay'', ibf_kind = ''VPC'', ibf_cloud = ''AWS'', ibf_owner = ''cloud-sec'', ibf_deps = ''subnets, ALB, RDS''\<rparr>,
     \<lparr>ibf_asset = ''subnet-pay-a'', ibf_kind = ''Subnet'', ibf_cloud = ''AWS'', ibf_owner = ''cloud-sec'', ibf_deps = ''alb/pay-public''\<rparr>,
     \<lparr>ibf_asset = ''tf-pay-edge'', ibf_kind = ''Terraform module'', ibf_cloud = ''AWS'', ibf_owner = ''payments-platform'', ibf_deps = ''ALB + ACM + WAF''\<rparr>,
     \<lparr>ibf_asset = ''pay-postgres'', ibf_kind = ''Database'', ibf_cloud = ''AWS'', ibf_owner = ''data-eng'', ibf_deps = ''card-hold, secret ref''\<rparr>,
     \<lparr>ibf_asset = ''prod-eks'', ibf_kind = ''Cluster'', ibf_cloud = ''AWS'', ibf_owner = ''sre'', ibf_deps = ''payments-api, ledger-web''\<rparr>,
     \<lparr>ibf_asset = ''nbx-pay-artifacts'', ibf_kind = ''Storage'', ibf_cloud = ''AWS'', ibf_owner = ''cloud-sec'', ibf_deps = ''CI artifacts''\<rparr>]"

record aibom_row =
  aif_model :: string
  aif_provider :: string
  aif_dataset :: string
  aif_endpoint :: string
  aif_identity :: string
  aif_secret :: string
  aif_compliance :: string

definition aibom :: "aibom_row list" where
  "aibom =
    [\<lparr>aif_model = ''fraud-xgb'', aif_provider = ''internal'', aif_dataset = ''txn-2024 (synthetic fixture)'', aif_endpoint = ''ml.nbx.example'', aif_identity = ''fraud-infer-sa'', aif_secret = ''MODEL_ENDPOINT_KEY'', aif_compliance = ''EU AI Act mapping''\<rparr>,
     \<lparr>aif_model = ''ops-summarizer'', aif_provider = ''hosted LLM (declared)'', aif_dataset = ''ticket-notes (synthetic)'', aif_endpoint = ''analyst-proxy'', aif_identity = ''soc-bot'', aif_secret = em_dash, aif_compliance = ''SOC 2 CC7.2 mapping''\<rparr>,
     \<lparr>aif_model = ''kyc-embed'', aif_provider = ''internal'', aif_dataset = ''kyc-embeddings (synthetic)'', aif_endpoint = ''kyc-infer'', aif_identity = ''kyc-sa'', aif_secret = em_dash, aif_compliance = ''GDPR Art. 32 mapping''\<rparr>]"

record policy =
  pof_id :: string
  pof_domain :: string
  pof_control :: string
  pof_severity :: string
  pof_framework :: string
  pof_pass :: int
  pof_fail :: int
  pof_exceptions :: int
  pof_version :: string

definition policies :: "policy list" where
  "policies =
    [\<lparr>pof_id = ''NET-01'', pof_domain = ''Network Security'', pof_control = ''No public 0.0.0.0/0 on data subnets'', pof_severity = ''critical'', pof_framework = ''CIS AWS'', pof_pass = 86, pof_fail = 4, pof_exceptions = 1, pof_version = ''1.4''\<rparr>,
     \<lparr>pof_id = ''IAM-07'', pof_domain = ''Identity'', pof_control = ''No unused admin roles'', pof_severity = ''high'', pof_framework = ''SOC 2'', pof_pass = 40, pof_fail = 3, pof_exceptions = 0, pof_version = ''2.0''\<rparr>,
     \<lparr>pof_id = ''ENC-03'', pof_domain = ''Encryption'', pof_control = (''TLS '' @ ge_sign @ '' 1.2 on public listeners''), pof_severity = ''critical'', pof_framework = ''PCI DSS'', pof_pass = 21, pof_fail = 2, pof_exceptions = 0, pof_version = ''3.1''\<rparr>,
     \<lparr>pof_id = ''LOG-02'', pof_domain = ''Logging'', pof_control = ''CloudTrail / Activity Log enabled'', pof_severity = ''high'', pof_framework = ''CIS'', pof_pass = 24, pof_fail = 0, pof_exceptions = 0, pof_version = ''1.2''\<rparr>,
     \<lparr>pof_id = ''STO-04'', pof_domain = ''Storage'', pof_control = ''S3 / Blob public access blocked'', pof_severity = ''critical'', pof_framework = ''CIS'', pof_pass = 412, pof_fail = 18, pof_exceptions = 2, pof_version = ''1.8''\<rparr>,
     \<lparr>pof_id = ''K8S-11'', pof_domain = ''Kubernetes'', pof_control = ''No privileged pods in prod'', pof_severity = ''high'', pof_framework = ''CIS K8s'', pof_pass = 9, pof_fail = 2, pof_exceptions = 0, pof_version = ''1.1''\<rparr>,
     \<lparr>pof_id = ''CTR-05'', pof_domain = ''Containers'', pof_control = ''No latest tags in prod'', pof_severity = ''medium'', pof_framework = ''NIST'', pof_pass = 31, pof_fail = 6, pof_exceptions = 1, pof_version = ''1.0''\<rparr>,
     \<lparr>pof_id = ''SEC-02'', pof_domain = ''Secrets'', pof_control = ''No unused production secrets'', pof_severity = ''high'', pof_framework = ''ISO 27001'', pof_pass = 18, pof_fail = 2, pof_exceptions = 0, pof_version = ''1.3''\<rparr>,
     \<lparr>pof_id = ''DAT-09'', pof_domain = ''Data Protection'', pof_control = ''Retention aligned to purpose'', pof_severity = ''high'', pof_framework = ''GDPR'', pof_pass = 11, pof_fail = 2, pof_exceptions = 1, pof_version = ''1.0''\<rparr>,
     \<lparr>pof_id = ''CMP-01'', pof_domain = ''Compliance'', pof_control = ''Finding mapped to a control'', pof_severity = ''medium'', pof_framework = ''DORA'', pof_pass = 96, pof_fail = 4, pof_exceptions = 0, pof_version = ''2.2''\<rparr>]"

record integration =
  itf_name :: string
  itf_status :: string
  itf_note :: string

definition integrations :: "integration list" where
  "integrations =
    [\<lparr>itf_name = ''AWS organizations'', itf_status = ''Disconnected'', itf_note = ''Customer credentials required. Not used on Pages.''\<rparr>,
     \<lparr>itf_name = ''Azure subscriptions'', itf_status = ''Disconnected'', itf_note = ''Customer credentials required.''\<rparr>,
     \<lparr>itf_name = ''Google Cloud projects'', itf_status = ''Disconnected'', itf_note = ''Customer credentials required.''\<rparr>,
     \<lparr>itf_name = ''Kubernetes (kubeconfig)'', itf_status = ''Disconnected'', itf_note = ''No live cluster attach in Community Pages.''\<rparr>,
     \<lparr>itf_name = ''GitHub / GitLab'', itf_status = ''Disconnected'', itf_note = ''Public metadata only in this demo.''\<rparr>,
     \<lparr>itf_name = ''OIDC / SAML IdP'', itf_status = ''Disconnected'', itf_note = ''Enterprise SSO is licensed separately.''\<rparr>,
     \<lparr>itf_name = ''Vault / HSM'', itf_status = ''Disconnected'', itf_note = ''References only. Values never imported here.''\<rparr>]"

record rbac_row =
  rbf_role :: string
  rbf_org :: string
  rbf_tenant :: string
  rbf_module :: string
  rbf_action :: string

definition rbac :: "rbac_row list" where
  "rbac =
    [\<lparr>rbf_role = ''CISO'', rbf_org = ''read'', rbf_tenant = ''read'', rbf_module = ''all-read'', rbf_action = ''approve''\<rparr>,
     \<lparr>rbf_role = ''Security Admin'', rbf_org = ''admin'', rbf_tenant = ''admin'', rbf_module = ''all'', rbf_action = ''configure''\<rparr>,
     \<lparr>rbf_role = ''SOC Analyst'', rbf_org = ''read'', rbf_tenant = ''read'', rbf_module = ''findings'', rbf_action = ''investigate''\<rparr>,
     \<lparr>rbf_role = ''Cloud Security Engineer'', rbf_org = ''read'', rbf_tenant = ''write'', rbf_module = ''cspm'', rbf_action = ''remediate-request''\<rparr>,
     \<lparr>rbf_role = ''Auditor'', rbf_org = ''read'', rbf_tenant = ''read'', rbf_module = ''compliance'', rbf_action = ''export''\<rparr>,
     \<lparr>rbf_role = ''Viewer'', rbf_org = ''read'', rbf_tenant = ''read'', rbf_module = ''dashboards'', rbf_action = ''none''\<rparr>]"

record hndl_row =
  hnf_data :: string
  hnf_value :: string
  hnf_crypto :: string
  hnf_retention :: string
  hnf_window :: string

definition hndl :: "hndl_row list" where
  "hndl =
    [\<lparr>hnf_data = ''card-hold archive'', hnf_value = ''Critical'', hnf_crypto = ''RSA-1024 / TLS 1.0'', hnf_retention = ''7 years'', hnf_window = ''Critical''\<rparr>,
     \<lparr>hnf_data = ''settlement journal'', hnf_value = ''High'', hnf_crypto = ''RSA-2048 / TLS 1.3'', hnf_retention = ''7 years'', hnf_window = ''High''\<rparr>,
     \<lparr>hnf_data = ''session tokens'', hnf_value = ''Medium'', hnf_crypto = ''TLS 1.3 / AES-256'', hnf_retention = ''24 hours'', hnf_window = ''Watch''\<rparr>,
     \<lparr>hnf_data = ''public marketing'', hnf_value = ''Low'', hnf_crypto = ''TLS 1.3'', hnf_retention = ''90 days'', hnf_window = ''Low''\<rparr>]"

record migration =
  mgf_from :: string
  mgf_to :: string
  mgf_ready :: string
  mgf_effort :: string
  mgf_impact :: string

definition migrations :: "migration list" where
  "migrations =
    [\<lparr>mgf_from = ''RSA'', mgf_to = ''ML-KEM (FIPS 203) + ML-DSA (FIPS 204)'', mgf_ready = ''28%'', mgf_effort = ''High'', mgf_impact = ''Payments edge, VPN''\<rparr>,
     \<lparr>mgf_from = ''ECC / ECDSA / ECDH'', mgf_to = ''ML-DSA / ML-KEM hybrid'', mgf_ready = ''19%'', mgf_effort = ''High'', mgf_impact = ''JWT, internal TLS''\<rparr>,
     \<lparr>mgf_from = ''DH / weak SSH KEX'', mgf_to = ''ML-KEM or modern KEX'', mgf_ready = ''11%'', mgf_effort = ''Medium'', mgf_impact = ''Bastion estate''\<rparr>,
     \<lparr>mgf_from = ''SHA-1 / 3DES / RC4'', mgf_to = ''SHA-256+ / AES-GCM'', mgf_ready = ''64%'', mgf_effort = ''Medium'', mgf_impact = ''Legacy settlement''\<rparr>]"

record plan =
  plf_id :: string
  plf_name :: string
  plf_users :: string
  plf_accounts :: string
  plf_note :: string

definition plans :: "plan list" where
  "plans =
    [\<lparr>plf_id = ''starter'', plf_name = ''Starter'', plf_users = ''10'', plf_accounts = ''3'', plf_note = ''Community-adjacent lab use''\<rparr>,
     \<lparr>plf_id = ''pro'', plf_name = ''Professional'', plf_users = ''50'', plf_accounts = ''15'', plf_note = ''Single business unit''\<rparr>,
     \<lparr>plf_id = ''ent'', plf_name = ''Enterprise'', plf_users = ''Unlimited*'', plf_accounts = ''Custom'', plf_note = ''SSO, RBAC, connectors''\<rparr>,
     \<lparr>plf_id = ''quantum'', plf_name = ''Quantum Enterprise'', plf_users = ''Unlimited*'', plf_accounts = ''Custom'', plf_note = ''PQC planner + HSM + private deploy''\<rparr>]"

definition tenant :: tenant_row where
  "tenant = \<lparr>tnf_org = ''Northbridge Exchange'', tnf_unit = ''Payments'', tnf_env = ''Production'', tnf_region = ''eu-central-1'', tnf_cloud = ''AWS''\<rparr>"

record fabric_posture =
  pf_overall :: int
  pf_label :: string
  pf_criticalFindings :: int
  pf_highRiskAssets :: int
  pf_cloudMisconfigs :: int
  pf_cryptoVulns :: int
  pf_expiredCerts :: int
  pf_secretsAtRisk :: int
  pf_quantumVulnerable :: int
  pf_compliance :: int
  pf_pqc :: int

definition posture :: fabric_posture where
  "posture =
    \<lparr>pf_overall = 86, pf_label = ''Good'', pf_criticalFindings = 12, pf_highRiskAssets = 47, pf_cloudMisconfigs = 83, pf_cryptoVulns = 19, pf_expiredCerts = 7, pf_secretsAtRisk = 4, pf_quantumVulnerable = 128, pf_compliance = 94, pf_pqc = 61\<rparr>"

definition roles :: "string list" where
  "roles =
    [''CISO'',
     ''Security Admin'',
     ''SOC Analyst'',
     ''Cloud Security Engineer'',
     ''DevSecOps Engineer'',
     ''Compliance Officer'',
     ''Developer'',
     ''Auditor'',
     ''Finance Admin'',
     ''Viewer'']"

definition pricingDims :: "string list" where
  "pricingDims =
    [''Users'',
     ''Cloud accounts'',
     ''Assets'',
     ''Data volume'',
     ''Crypto assets'',
     ''Retention'',
     ''Compliance modules'',
     ''AI usage'',
     ''Automation'',
     ''Support'',
     ''Deployment (cloud / hybrid / on-prem / private cloud)'',
     ''HSM integration'',
     ''Enterprise SLA (contractual)'']"

end
