(* ===== verification/Fabric_Graph.thy ===== *)
theory Fabric_Graph
  imports Js_Value
begin

text \<open>
  fabric/src/data/graph.ts: the security graph of the labelled estate, the sets of nodes that belong to the rows
  of the tables, the stages of the discovery and the details of a node; fabric/src/components/graph:
  what the graph draws of it.  A record of node sets is an association list, whose missing key is None.
\<close>

section \<open>Nodes and edges\<close>

datatype node_kind =
  NCloud
| NIdentity
| NApplication
| NDatabase
| NCertificate
| NKey
| NSecret
| NAi
| NThreat
| NHardware
| NUser
| NContainer
| NKube

datatype edge_kind =
  EData
| ENetwork
| EIdentity
| EDependency
| ECrypto
| EAttack
| ECompliance

datatype risk = RCritical | RHigh | RQuantum

record gnode =
  gn_id :: string
  gn_label :: string
  gn_kind :: node_kind
  gn_x :: int
  gn_y :: int
  gn_risk :: "risk option"

record gedge =
  ge_from :: string
  ge_to :: string
  ge_kind :: edge_kind

definition nodes :: "gnode list" where
  "nodes =
    [\<lparr>gn_id = ''user'', gn_label = ''Analyst'', gn_kind = NUser, gn_x = 40, gn_y = 40, gn_risk = None\<rparr>,
     \<lparr>gn_id = ''id'', gn_label = ''IdP role'', gn_kind = NIdentity, gn_x = 160, gn_y = 40, gn_risk = None\<rparr>,
     \<lparr>gn_id = ''app'', gn_label = ''payments-api'', gn_kind = NApplication, gn_x = 300, gn_y = 40, gn_risk = Some RHigh\<rparr>,
     \<lparr>gn_id = ''ctr'', gn_label = ''pay-container'', gn_kind = NContainer, gn_x = 440, gn_y = 40, gn_risk = None\<rparr>,
     \<lparr>gn_id = ''k8s'', gn_label = ''prod-eks'', gn_kind = NKube, gn_x = 580, gn_y = 40, gn_risk = None\<rparr>,
     \<lparr>gn_id = ''acct'', gn_label = ''nbx-prod-pay'', gn_kind = NCloud, gn_x = 720, gn_y = 40, gn_risk = None\<rparr>,
     \<lparr>gn_id = ''db'', gn_label = ''pay-postgres'', gn_kind = NDatabase, gn_x = 720, gn_y = 160, gn_risk = Some RCritical\<rparr>,
     \<lparr>gn_id = ''data'', gn_label = ''card-hold'', gn_kind = NDatabase, gn_x = 720, gn_y = 280, gn_risk = None\<rparr>,
     \<lparr>gn_id = ''dep'', gn_label = ''libcrypto 1.1'', gn_kind = NApplication, gn_x = 300, gn_y = 160, gn_risk = None\<rparr>,
     \<lparr>gn_id = ''rsa'', gn_label = ''RSA-2048'', gn_kind = NKey, gn_x = 300, gn_y = 280, gn_risk = Some RQuantum\<rparr>,
     \<lparr>gn_id = ''cert'', gn_label = ''pay.nbx.example'', gn_kind = NCertificate, gn_x = 160, gn_y = 280, gn_risk = Some RHigh\<rparr>,
     \<lparr>gn_id = ''key'', gn_label = ''TLS private key'', gn_kind = NKey, gn_x = 40, gn_y = 280, gn_risk = None\<rparr>,
     \<lparr>gn_id = ''model'', gn_label = ''fraud-xgb'', gn_kind = NAi, gn_x = 440, gn_y = 160, gn_risk = None\<rparr>,
     \<lparr>gn_id = ''ep'', gn_label = ''model-endpoint'', gn_kind = NAi, gn_x = 580, gn_y = 160, gn_risk = None\<rparr>,
     \<lparr>gn_id = ''sec'', gn_label = ''DB secret ref'', gn_kind = NSecret, gn_x = 580, gn_y = 280, gn_risk = Some RCritical\<rparr>,
     \<lparr>gn_id = ''hsm'', gn_label = ''CloudHSM'', gn_kind = NHardware, gn_x = 160, gn_y = 160, gn_risk = None\<rparr>,
     \<lparr>gn_id = ''threat'', gn_label = ''Public ALB'', gn_kind = NThreat, gn_x = 440, gn_y = 280, gn_risk = Some RCritical\<rparr>]"

definition edges :: "gedge list" where
  "edges =
    [\<lparr>ge_from = ''user'', ge_to = ''id'', ge_kind = EIdentity\<rparr>,
     \<lparr>ge_from = ''id'', ge_to = ''app'', ge_kind = EIdentity\<rparr>,
     \<lparr>ge_from = ''app'', ge_to = ''ctr'', ge_kind = EDependency\<rparr>,
     \<lparr>ge_from = ''ctr'', ge_to = ''k8s'', ge_kind = ENetwork\<rparr>,
     \<lparr>ge_from = ''k8s'', ge_to = ''acct'', ge_kind = ENetwork\<rparr>,
     \<lparr>ge_from = ''acct'', ge_to = ''db'', ge_kind = EData\<rparr>,
     \<lparr>ge_from = ''db'', ge_to = ''data'', ge_kind = EData\<rparr>,
     \<lparr>ge_from = ''app'', ge_to = ''dep'', ge_kind = EDependency\<rparr>,
     \<lparr>ge_from = ''dep'', ge_to = ''rsa'', ge_kind = ECrypto\<rparr>,
     \<lparr>ge_from = ''rsa'', ge_to = ''cert'', ge_kind = ECrypto\<rparr>,
     \<lparr>ge_from = ''cert'', ge_to = ''key'', ge_kind = ECrypto\<rparr>,
     \<lparr>ge_from = ''app'', ge_to = ''model'', ge_kind = EData\<rparr>,
     \<lparr>ge_from = ''model'', ge_to = ''ep'', ge_kind = ENetwork\<rparr>,
     \<lparr>ge_from = ''ep'', ge_to = ''data'', ge_kind = EData\<rparr>,
     \<lparr>ge_from = ''db'', ge_to = ''sec'', ge_kind = EIdentity\<rparr>,
     \<lparr>ge_from = ''hsm'', ge_to = ''key'', ge_kind = ECrypto\<rparr>,
     \<lparr>ge_from = ''threat'', ge_to = ''ctr'', ge_kind = EAttack\<rparr>,
     \<lparr>ge_from = ''threat'', ge_to = ''id'', ge_kind = EAttack\<rparr>]"

definition attackPath :: "string list" where
  "attackPath = [''Internet'', ''Public load balancer'', ''Vulnerable container'', ''Service account'', ''Privileged role'', ''PostgreSQL'', ''Card-hold archive'']"

definition ATTACK_NODE_IDS :: "string list" where
  "ATTACK_NODE_IDS = [''threat'', ''ctr'', ''id'', ''app'', ''db'', ''data'', ''rsa'']"

definition CRYPTO_NODE_IDS :: "string list" where
  "CRYPTO_NODE_IDS = [''rsa'', ''cert'', ''key'', ''hsm'', ''dep'']"

section \<open>Node sets\<close>

type_synonym node_ids = "(string \<times> string list) list"

definition FINDING_NODE_IDS :: node_ids where
  "FINDING_NODE_IDS =
    [(''QSF-1042'', [''threat'', ''cert'', ''rsa'', ''app'', ''ctr'', ''id'']),
     (''QSF-1048'', [''acct'', ''data'', ''threat'']),
     (''QSF-1101'', [''dep'', ''rsa'', ''app'']),
     (''QSF-1114'', [''id'', ''user'', ''threat'', ''app'']),
     (''QSF-1120'', [''cert'', ''key'', ''hsm'']),
     (''QSF-1133'', [''dep'', ''app'', ''ctr''])]"

definition ASSET_NODE_IDS :: node_ids where
  "ASSET_NODE_IDS =
    [(''nbx-prod-pay'', [''acct'', ''db'', ''data'']),
     (''payments-api'', [''app'', ''ctr'', ''dep'', ''rsa'']),
     (''pay-postgres'', [''db'', ''sec'', ''data'']),
     (''alb/pay-public'', [''threat'', ''cert'', ''app'']),
     (''prod-eks'', [''k8s'', ''ctr'']),
     (''fraud-xgb'', [''model'', ''ep'']),
     (''hsm-eu-1'', [''hsm'', ''key'']),
     (''ledger-web'', [''dep'', ''app'']),
     (''card-hold'', [''data'', ''db''])]"

definition DOMAIN_NODE_IDS :: node_ids where
  "DOMAIN_NODE_IDS =
    [(''command'', ATTACK_NODE_IDS),
     (''cloud'', [''acct'', ''k8s'', ''threat'', ''db'', ''data'', ''ctr'']),
     (''identity'', [''user'', ''id'', ''app'', ''threat'']),
     (''crypto'', CRYPTO_NODE_IDS),
     (''certs'', [''cert'', ''key'', ''hsm'', ''rsa'']),
     (''secrets'', [''sec'', ''db'', ''app'', ''id'']),
     (''kubernetes'', [''k8s'', ''ctr'', ''app'', ''id'']),
     (''workloads'', [''app'', ''ctr'', ''k8s'', ''dep'', ''threat'']),
     (''data'', [''db'', ''data'', ''sec'', ''acct'', ''rsa'']),
     (''ai'', [''model'', ''ep'', ''data'', ''app'', ''id'']),
     (''pqc'', [''rsa'', ''cert'', ''key'', ''hsm'', ''dep'']),
     (''sbom'', [''dep'', ''app'', ''ctr'', ''rsa'']),
     (''hbom'', [''hsm'', ''key'', ''cert'']),
     (''ibom'', [''acct'', ''k8s'', ''db'', ''threat'', ''app''])]"

definition IDENTITY_NODE_IDS :: node_ids where
  "IDENTITY_NODE_IDS =
    [(''analyst.lee'', [''user'', ''id'']),
     (''pay-pod-sa'', [''id'', ''app'', ''ctr'', ''db'']),
     (''pay-admin-role'', [''id'', ''user'', ''threat'', ''app'']),
     (''fraud-infer-sa'', [''id'', ''model'', ''ep'']),
     (''ci-deploy'', [''id'', ''k8s'', ''ctr''])]"

definition SECRET_NODE_IDS :: node_ids where
  "SECRET_NODE_IDS =
    [(''PAYMENTS_DB_PASSWORD'', [''sec'', ''db'', ''app'']),
     (''GH_DEPLOY_TOKEN'', [''sec'', ''dep'', ''app'']),
     (''MODEL_ENDPOINT_KEY'', [''sec'', ''model'', ''ep'']),
     (''STRIPE_WEBHOOK_SECRET'', [''sec'', ''app'']),
     (''HSM_WRAP_REF'', [''sec'', ''hsm'', ''key''])]"

definition CERT_NODE_IDS :: node_ids where
  "CERT_NODE_IDS =
    [(''api.nbx.example'', [''cert'', ''key'', ''app'']),
     (''pay.nbx.example'', [''cert'', ''key'', ''rsa'', ''app'', ''threat'']),
     (''ml.nbx.example'', [''cert'', ''model'', ''ep'']),
     (''old-settlement.nbx.example'', [''cert'', ''key'', ''rsa'']),
     (''int.nbx.example'', [''cert'', ''key'']),
     (''canary.nbx.example'', [''cert'', ''hsm'', ''rsa''])]"

definition CRYPTO_ASSET_NODE_IDS :: node_ids where
  "CRYPTO_ASSET_NODE_IDS =
    [(''pay-edge-tls'', [''threat'', ''cert'', ''rsa'', ''app'']),
     (''legacy-hash'', [''dep'', ''app'']),
     (''vpn-3des'', [''hsm'', ''key'']),
     (''ssh-weak-kex'', [''id'', ''user'']),
     (''rc4-internal'', [''cert'', ''rsa'']),
     (''api-cert-exp'', [''cert'', ''key'', ''app'']),
     (''pay-mlkem-pilot'', [''rsa'', ''cert'', ''hsm'']),
     (''internal-rsa2k'', [''rsa'', ''cert'', ''dep'']),
     (''ecdsa-signing'', [''id'', ''key'']),
     (''ecdh-session'', [''cert'', ''key''])]"

definition WORKLOAD_NODE_IDS :: node_ids where
  "WORKLOAD_NODE_IDS =
    [(''payments-api'', [''app'', ''ctr'', ''k8s'', ''dep'', ''threat'']),
     (''ledger-web'', [''dep'', ''app'']),
     (''settlement'', [''app'', ''db'', ''data'']),
     (''fraud-infer'', [''model'', ''ep'', ''ctr''])]"

definition CLUSTER_NODE_IDS :: node_ids where
  "CLUSTER_NODE_IDS =
    [(''prod-eks'', [''k8s'', ''ctr'', ''app'']),
     (''ml-gke'', [''k8s'', ''model'', ''ep'']),
     (''edge-oke'', [''k8s'', ''threat''])]"

definition CONTROL_NODE_IDS :: node_ids where
  "CONTROL_NODE_IDS =
    [(''CIS-2.1.4'', [''acct'', ''data'']),
     (''PCI-4.2.1'', [''threat'', ''cert'', ''rsa'', ''app'']),
     (''ISO-A.8.24'', [''dep'', ''rsa'', ''app'']),
     (''DORA-TRA-04'', [''acct'', ''data'', ''id'']),
     (''SOC2-CC6.7'', [''cert'', ''key'', ''hsm''])]"

definition POLICY_NODE_IDS :: node_ids where
  "POLICY_NODE_IDS =
    [(''NET-01'', [''threat'', ''acct'', ''db'']),
     (''IAM-07'', [''id'', ''user'', ''app'']),
     (''ENC-03'', [''threat'', ''cert'', ''rsa'']),
     (''LOG-02'', [''acct'', ''user'']),
     (''STO-04'', [''acct'', ''data'']),
     (''K8S-11'', [''k8s'', ''ctr'']),
     (''CTR-05'', [''ctr'', ''app'']),
     (''SEC-02'', [''sec'', ''db'', ''app'']),
     (''DAT-09'', [''data'', ''db'', ''rsa'']),
     (''CMP-01'', [''acct'', ''id'', ''app''])]"

definition SBOM_NODE_IDS :: node_ids where
  "SBOM_NODE_IDS =
    [(''node-forge'', [''dep'', ''app'', ''ctr'']),
     (''openssl'', [''dep'', ''rsa'', ''app'']),
     (''golang.org/x/crypto'', [''dep'', ''id'']),
     (''bcrypt'', [''dep'', ''app'']),
     (''liboqs (pilot)'', [''dep'', ''rsa'', ''hsm''])]"

definition AIBOM_NODE_IDS :: node_ids where
  "AIBOM_NODE_IDS =
    [(''fraud-xgb'', [''model'', ''ep'', ''data'', ''id'']),
     (''ops-summarizer'', [''model'', ''user'']),
     (''kyc-embed'', [''model'', ''data''])]"

definition HBOM_NODE_IDS :: node_ids where
  "HBOM_NODE_IDS =
    [(''hsm-eu-1'', [''hsm'', ''key'']),
     (''tpm-bastion-a'', [''hsm'', ''user'']),
     (''fw-eu-transit'', [''threat'', ''key'']),
     (''dc-berlin-r12'', [''k8s'', ''hsm''])]"

definition IBOM_NODE_IDS :: node_ids where
  "IBOM_NODE_IDS =
    [(''vpc-pay'', [''acct'', ''threat'', ''db'']),
     (''subnet-pay-a'', [''threat'', ''acct'']),
     (''tf-pay-edge'', [''threat'', ''cert'', ''app'']),
     (''pay-postgres'', [''db'', ''sec'', ''data'']),
     (''prod-eks'', [''k8s'', ''ctr'']),
     (''nbx-pay-artifacts'', [''acct'', ''data''])]"

definition CLOUD_ACCOUNT_NODE_IDS :: node_ids where
  "CLOUD_ACCOUNT_NODE_IDS =
    [(''nbx-prod-core'', [''acct'', ''k8s'']),
     (''nbx-prod-pay'', [''acct'', ''db'', ''data'', ''threat'']),
     (''nbx-analytics'', [''acct'', ''data'']),
     (''nbx-ml'', [''acct'', ''model'', ''ep'']),
     (''nbx-edge'', [''acct'', ''threat'']),
     (''nbx-hybrid'', [''acct'', ''hsm'', ''k8s''])]"

section \<open>Discovery, topology and details\<close>

record stage =
  stg_label :: string
  stg_add :: "string list"

definition DISCOVERY_STAGES :: "stage list" where
  "DISCOVERY_STAGES =
    [\<lparr>stg_label = (''Connecting AWS (read-only, demo fixture)'' @ [CHR 0xE2, CHR 0x80, CHR 0xA6]), stg_add = [''acct'']\<rparr>,
     \<lparr>stg_label = (''Connecting GitHub (public metadata only)'' @ [CHR 0xE2, CHR 0x80, CHR 0xA6]), stg_add = [''dep'']\<rparr>,
     \<lparr>stg_label = (''Discovering Kubernetes workloads'' @ [CHR 0xE2, CHR 0x80, CHR 0xA6]), stg_add = [''k8s'', ''ctr'']\<rparr>,
     \<lparr>stg_label = (''Discovering certificates'' @ [CHR 0xE2, CHR 0x80, CHR 0xA6]), stg_add = [''cert'']\<rparr>,
     \<lparr>stg_label = (''Discovering secret references (names only)'' @ [CHR 0xE2, CHR 0x80, CHR 0xA6]), stg_add = [''sec'']\<rparr>,
     \<lparr>stg_label = (''Discovering cryptographic assets'' @ [CHR 0xE2, CHR 0x80, CHR 0xA6]), stg_add = [''rsa'', ''key'', ''hsm'']\<rparr>,
     \<lparr>stg_label = (''Building SBOM'' @ [CHR 0xE2, CHR 0x80, CHR 0xA6]), stg_add = [''app'']\<rparr>,
     \<lparr>stg_label = (''Building CryptoBOM'' @ [CHR 0xE2, CHR 0x80, CHR 0xA6]), stg_add = [''rsa'']\<rparr>,
     \<lparr>stg_label = (''Building infrastructure graph'' @ [CHR 0xE2, CHR 0x80, CHR 0xA6]), stg_add = [''user'', ''id'', ''db'']\<rparr>,
     \<lparr>stg_label = (''Mapping controls (not certifications)'' @ [CHR 0xE2, CHR 0x80, CHR 0xA6]), stg_add = [''data'', ''model'', ''ep'']\<rparr>,
     \<lparr>stg_label = (''Calculating risk'' @ [CHR 0xE2, CHR 0x80, CHR 0xA6]), stg_add = [''threat'']\<rparr>]"

record topo =
  tg_id :: string
  tg_label :: string
  tg_kind :: node_kind
  tg_note :: string

definition topology :: "topo list" where
  "topology =
    [\<lparr>tg_id = ''acct'', tg_label = ''AWS Account nbx-prod-pay'', tg_kind = NCloud, tg_note = ''Production payments''\<rparr>,
     \<lparr>tg_id = ''vpc'', tg_label = ''VPC vpc-pay'', tg_kind = NCloud, tg_note = ''10.8.0.0/16''\<rparr>,
     \<lparr>tg_id = ''subnet'', tg_label = ''Subnet subnet-pay-a'', tg_kind = NCloud, tg_note = ''public''\<rparr>,
     \<lparr>tg_id = ''alb'', tg_label = ''ALB pay-public'', tg_kind = NThreat, tg_note = ''TLS 1.0 listener''\<rparr>,
     \<lparr>tg_id = ''ec2'', tg_label = ''Node group'', tg_kind = NHardware, tg_note = ''eks-pay-a''\<rparr>,
     \<lparr>tg_id = ''ctr'', tg_label = ''Container pay-api'', tg_kind = NContainer, tg_note = ''pay:1.18.2''\<rparr>,
     \<lparr>tg_id = ''app'', tg_label = ''Application payments-api'', tg_kind = NApplication, tg_note = ''PCI scope''\<rparr>,
     \<lparr>tg_id = ''db'', tg_label = ''PostgreSQL pay-postgres'', tg_kind = NDatabase, tg_note = ''card-hold''\<rparr>]"

record node_detail =
  nd_overview :: string
  nd_risk :: string
  nd_config :: string
  nd_network :: string
  nd_identity :: string
  nd_vulns :: string
  nd_secrets :: string
  nd_data :: string
  nd_crypto :: string
  nd_compliance :: string
  nd_activity :: string

definition nodeDetails :: "(string \<times> node_detail) list" where
  "nodeDetails =
    [(''app'', \<lparr>nd_overview = (''payments-api '' @ em_dash @ '' synthetic production application in the Payments unit.''),
       nd_risk = ''High classical + quantum exposure via public TLS 1.0 and RSA-1024 edge.'',
       nd_config = ''Declared Terraform module tf-pay-edge. No live cloud attach.'',
       nd_network = ''Reached from alb/pay-public. Egress to pay-postgres and model-endpoint.'',
       nd_identity = ''Runs as pay-pod-sa (rds:*, s3:*).'',
       nd_vulns = ''QSF-1042, QSF-1101 related supply-chain hash.'',
       nd_secrets = ''Uses PAYMENTS_DB_PASSWORD reference (name only).'',
       nd_data = ''Reads card-hold through PostgreSQL.'',
       nd_crypto = ''Edge RSA-1024 / TLS 1.0. Canary ML-KEM-768 hybrid.'',
       nd_compliance = (''Mapped to PCI DSS 4.2.1 and DORA ICT risk '' @ em_dash @ '' mappings only.''),
       nd_activity = ''Last fixture refresh 2026-09-06. No customer telemetry.''\<rparr>),
     (''db'', \<lparr>nd_overview = (''pay-postgres '' @ em_dash @ '' synthetic PCI-scope database.''),
       nd_risk = ''Critical if reached from public container via privileged role.'',
       nd_config = ''Encryption at rest declared AES-256. Unencrypted replica finding in analytics account is separate.'',
       nd_network = ''Private subnet. Path exists via service account.'',
       nd_identity = ''DB secret reference PAYMENTS_DB_PASSWORD.'',
       nd_vulns = ''Privilege path QSF-1114.'',
       nd_secrets = ''Secret name only. Value never stored.'',
       nd_data = (''card-hold archive, 7-year retention '' @ em_dash @ '' HNDL hotspot.''),
       nd_crypto = ''In-transit TLS 1.3. Archive objects still wrapped with RSA-2048.'',
       nd_compliance = ''PCI DSS 3.5, GDPR storage limitation mapping.'',
       nd_activity = ''Fixture only.''\<rparr>)]"

text \<open>The first \<open>n\<close> stages; \<open>slice\<close> takes all of them when there are fewer, and a Set keeps the order of insertion.\<close>

definition discoveryNodeIds :: "int \<Rightarrow> string list" where
  "discoveryNodeIds stageCount = distinct_of (concat (map stg_add (take (nat (max 0 stageCount)) DISCOVERY_STAGES)))"

definition relatedFindingIds :: "string \<Rightarrow> string list" where
  "relatedFindingIds nodeId = map fst (filter (\<lambda>(i, ids). nodeId \<in> set ids) FINDING_NODE_IDS)"

section \<open>Drawing the graph\<close>

definition colors :: "node_kind \<Rightarrow> string" where
  "colors k =
     (case k of
        NCloud \<Rightarrow> ''#9aa3ad'' | NIdentity \<Rightarrow> ''#4aa3b8'' | NApplication \<Rightarrow> ''#8b7ec8'' | NDatabase \<Rightarrow> ''#3d9b74''
      | NCertificate \<Rightarrow> ''#d4a04a'' | NKey \<Rightarrow> ''#c45b9a'' | NSecret \<Rightarrow> ''#d46565'' | NAi \<Rightarrow> ''#8b7ec8''
      | NThreat \<Rightarrow> ''#d46565'' | NHardware \<Rightarrow> ''#9aa3ad'' | NUser \<Rightarrow> ''#4aa3b8'' | NContainer \<Rightarrow> ''#6d7680''
      | NKube \<Rightarrow> ''#6d7680'')"

datatype outline =
  Circle int int int
| Polygon "(int \<times> int) list"
| Ellipse int int int int
| Rect int int int int
| Drop int int
| RoundRect int int int int int

record mark =
  mk_outline :: outline
  mk_class :: string
  mk_stroke :: string

definition outline_of :: "gnode \<Rightarrow> outline" where
  "outline_of n =
     (let x = gn_x n; y = gn_y n; k = gn_kind n
      in if k = NIdentity \<or> k = NUser \<or> k = NAi then Circle x y 14
         else if k = NCertificate then Polygon [(x, y - 16), (x + 14, y), (x, y + 16), (x - 14, y)]
         else if k = NDatabase then Ellipse x y 16 12
         else if k = NKey then Rect (x - 8) (y - 8) 16 16
         else if k = NHardware then Rect (x - 18) (y - 10) 36 20
         else if k = NApplication then Polygon [(x - 14, y - 10), (x + 14, y - 10), (x + 18, y + 12), (x - 18, y + 12)]
         else if k = NSecret then Drop x (y - 14)
         else RoundRect (x - 16) (y - 12) 32 24 6)"

definition shape :: "gnode \<Rightarrow> bool \<Rightarrow> mark" where
  "shape n dimmed =
     \<lparr>mk_outline = outline_of n,
      mk_class = (if dimmed then [] else if gn_risk n = Some RCritical then ''pulse-threat''
        else if gn_risk n = Some RQuantum then ''pulse-quantum'' else []),
      mk_stroke = (if dimmed then ''rgba(154,163,173,0.28)'' else colors (gn_kind n))\<rparr>"

text \<open>A line of the graph with whether it is in focus, its colour and whether it is wider; a node with
  whether it is dimmed, which cannot be chosen.\<close>

record line =
  ln_edge :: gedge
  ln_focused :: bool
  ln_stroke :: string
  ln_wide :: bool

record drawing =
  dr_lines :: "line list"
  dr_nodes :: "(gnode \<times> bool) list"

definition focus_set :: "string list option \<Rightarrow> string list option" where
  "focus_set focusIds = (case focusIds of Some (i # is) \<Rightarrow> Some (i # is) | _ \<Rightarrow> None)"

definition shown_nodes :: "string list option \<Rightarrow> bool \<Rightarrow> gnode list" where
  "shown_nodes focusIds hideUnfocused =
     (case focus_set focusIds of
        Some ids \<Rightarrow> if hideUnfocused then filter (\<lambda>n. gn_id n \<in> set ids) nodes else nodes
      | None \<Rightarrow> nodes)"

definition draw_line :: "bool \<Rightarrow> gedge \<Rightarrow> line" where
  "draw_line focused e =
     (let attack = ge_kind e = EAttack; crypto = ge_kind e = ECrypto
      in \<lparr>ln_edge = e, ln_focused = focused,
          ln_stroke = (if \<not> focused then ''rgba(232,234,237,0.06)'' else if attack then ''#d46565''
            else if crypto then ''#c45b9a'' else ''rgba(232,234,237,0.16)''),
          ln_wide = (focused \<and> (attack \<or> crypto))\<rparr>)"

definition edge_line :: "string list option \<Rightarrow> bool \<Rightarrow> gedge \<Rightarrow> line option" where
  "edge_line focusIds hideUnfocused e =
     (let shownIds = map gn_id (shown_nodes focusIds hideUnfocused);
          focused = (case focus_set focusIds of None \<Rightarrow> True | Some ids \<Rightarrow> ge_from e \<in> set ids \<and> ge_to e \<in> set ids)
      in case find (\<lambda>n. gn_id n = ge_from e) nodes of
           None \<Rightarrow> None
         | Some a \<Rightarrow>
             (case find (\<lambda>n. gn_id n = ge_to e) nodes of
                None \<Rightarrow> None
              | Some b \<Rightarrow>
                  (if gn_id a \<notin> set shownIds \<or> gn_id b \<notin> set shownIds then None
                   else if hideUnfocused \<and> \<not> focused then None
                   else Some (draw_line focused e))))"

definition SecurityGraph :: "string list option \<Rightarrow> bool \<Rightarrow> drawing" where
  "SecurityGraph focusIds hideUnfocused =
     \<lparr>dr_lines = List.map_filter (edge_line focusIds hideUnfocused) edges,
      dr_nodes = map (\<lambda>n. (n, case focus_set focusIds of None \<Rightarrow> False | Some ids \<Rightarrow> gn_id n \<notin> set ids))
        (shown_nodes focusIds hideUnfocused)\<rparr>"

text \<open>A click, or Enter or the space bar on a node that is not dimmed, chooses it.\<close>

definition chosen :: "drawing \<Rightarrow> string \<Rightarrow> string option" where
  "chosen d i = (if list_ex (\<lambda>(n, dimmed). gn_id n = i \<and> \<not> dimmed) (dr_nodes d) then Some i else None)"

text \<open>A panel hides what is out of focus only when there is a focus.\<close>

definition GraphPanel :: "string list option \<Rightarrow> bool \<Rightarrow> drawing" where
  "GraphPanel focusIds hideUnfocused =
     SecurityGraph focusIds (hideUnfocused \<and> (case focusIds of None \<Rightarrow> False | Some ids \<Rightarrow> ids \<noteq> []))"

section \<open>What is drawn\<close>

lemma node_ids_distinct: "distinct (map gn_id nodes)"
  by code_simp

lemma edge_ends: "e \<in> set edges \<Longrightarrow> ge_from e \<in> gn_id ` set nodes \<and> ge_to e \<in> gn_id ` set nodes"
proof -
  have "list_all (\<lambda>e. ge_from e \<in> gn_id ` set nodes \<and> ge_to e \<in> gn_id ` set nodes) edges" by code_simp
  then show "e \<in> set edges \<Longrightarrow> ?thesis" by (simp add: list_all_iff)
qed

lemma find_node:
  assumes "i \<in> gn_id ` set nodes"
  shows "\<exists>n. find (\<lambda>n. gn_id n = i) nodes = Some n \<and> gn_id n = i"
  using assms find_by_key [OF node_ids_distinct] by auto

lemma shown_ids:
  "gn_id ` set (shown_nodes focusIds hide) =
     (case focus_set focusIds of None \<Rightarrow> gn_id ` set nodes
      | Some ids \<Rightarrow> if hide then gn_id ` set nodes \<inter> set ids else gn_id ` set nodes)"
  by (auto simp: shown_nodes_def split: option.splits)

lemma edge_line_eq:
  assumes "e \<in> set edges"
  shows "edge_line focusIds hide e =
    (case focus_set focusIds of
       None \<Rightarrow> Some (draw_line True e)
     | Some ids \<Rightarrow>
         (if ge_from e \<in> set ids \<and> ge_to e \<in> set ids then Some (draw_line True e)
          else if hide then None else Some (draw_line False e)))"
proof -
  obtain a where a: "find (\<lambda>n. gn_id n = ge_from e) nodes = Some a" "gn_id a = ge_from e"
    using find_node [OF conjunct1 [OF edge_ends [OF assms]]] by (elim exE conjE) (rule that)
  obtain b where b: "find (\<lambda>n. gn_id n = ge_to e) nodes = Some b" "gn_id b = ge_to e"
    using find_node [OF conjunct2 [OF edge_ends [OF assms]]] by (elim exE conjE) (rule that)
  show ?thesis
    using edge_ends [OF assms] by (auto simp: edge_line_def a b shown_ids Let_def split: option.splits)
qed

lemma map_filter_eq: "List.map_filter f xs = map (the \<circ> f) (filter (\<lambda>x. f x \<noteq> None) xs)"
  by (simp add: map_filter_def)

lemma focus_set_some [simp]: "ids \<noteq> [] \<Longrightarrow> focus_set (Some ids) = Some ids"
  by (cases ids) (simp_all add: focus_set_def)

lemma drawn_nodes:
  assumes "focus_set focusIds = Some ids"
  shows "dr_nodes (SecurityGraph focusIds True) = map (\<lambda>n. (n, False)) (filter (\<lambda>n. gn_id n \<in> set ids) nodes)"
  by (simp add: SecurityGraph_def shown_nodes_def assms)

lemma drawn_lines:
  assumes "focus_set focusIds = Some ids"
  shows "map ln_edge (dr_lines (SecurityGraph focusIds True)) = filter (\<lambda>e. ge_from e \<in> set ids \<and> ge_to e \<in> set ids) edges"
proof -
  have f: "edge_line focusIds True e = (if ge_from e \<in> set ids \<and> ge_to e \<in> set ids then Some (draw_line True e) else None)"
    if "e \<in> set edges" for e
    using edge_line_eq [OF that, of focusIds True] assms by simp
  have "dr_lines (SecurityGraph focusIds True) = map (draw_line True) (filter (\<lambda>e. ge_from e \<in> set ids \<and> ge_to e \<in> set ids) edges)"
    unfolding SecurityGraph_def map_filter_eq by (auto simp: f intro!: map_cong filter_cong split: if_splits)
  then show ?thesis by (simp add: draw_line_def Let_def o_def)
qed

section \<open>Every set names nodes\<close>

definition names_nodes :: "node_ids \<Rightarrow> bool" where
  "names_nodes m \<longleftrightarrow> distinct (map fst m) \<and> list_all (\<lambda>(k, ids). ids \<noteq> [] \<and> distinct ids \<and> list_all (\<lambda>i. i \<in> set (map gn_id nodes)) ids) m"

definition node_maps :: "node_ids list" where
  "node_maps =
     [FINDING_NODE_IDS, ASSET_NODE_IDS, DOMAIN_NODE_IDS, IDENTITY_NODE_IDS, SECRET_NODE_IDS, CERT_NODE_IDS,
      CRYPTO_ASSET_NODE_IDS, WORKLOAD_NODE_IDS, CLUSTER_NODE_IDS, CONTROL_NODE_IDS, POLICY_NODE_IDS, SBOM_NODE_IDS,
      AIBOM_NODE_IDS, HBOM_NODE_IDS, IBOM_NODE_IDS, CLOUD_ACCOUNT_NODE_IDS]"

lemma maps_name_nodes: "list_all names_nodes node_maps"
  by code_simp

lemma mapped_ids:
  assumes "m \<in> set node_maps" "map_of m k = Some ids"
  shows "ids \<noteq> [] \<and> distinct ids \<and> set ids \<subseteq> gn_id ` set nodes"
proof -
  have "names_nodes m" using maps_name_nodes assms(1) by (simp only: list_all_iff)
  then show ?thesis using map_of_SomeD [OF assms(2)] by (auto simp: list_all_iff names_nodes_def)
qed

section \<open>Properties\<close>

text \<open>With a focus and the rest hidden, the graph draws the nodes of the focus, none dimmed, and exactly the
  edges between two of them; each of them can be chosen, and no other node.\<close>

theorem graph_of_focus:
  assumes "ids \<noteq> []" "set ids \<subseteq> gn_id ` set nodes"
  shows "map fst (dr_nodes (SecurityGraph (Some ids) True)) = filter (\<lambda>n. gn_id n \<in> set ids) nodes
    \<and> snd ` set (dr_nodes (SecurityGraph (Some ids) True)) = {False}
    \<and> map ln_edge (dr_lines (SecurityGraph (Some ids) True)) = filter (\<lambda>e. ge_from e \<in> set ids \<and> ge_to e \<in> set ids) edges
    \<and> (chosen (SecurityGraph (Some ids) True) i = Some i \<longleftrightarrow> i \<in> set ids)"
proof -
  note f = focus_set_some [OF assms(1)]
  note n = drawn_nodes [OF f]
  obtain n where "n \<in> set nodes" "gn_id n \<in> set ids" using assms by (cases ids) auto
  then have "snd ` set (dr_nodes (SecurityGraph (Some ids) True)) = {False}" unfolding n by (auto simp: image_image image_constant_conv)
  moreover have "chosen (SecurityGraph (Some ids) True) i = Some i \<longleftrightarrow> i \<in> set ids"
    using assms(2) by (auto simp: chosen_def n list_ex_iff)
  ultimately show ?thesis by (simp add: n o_def drawn_lines [OF f])
qed

text \<open>The discovery reveals no node twice, never hides one again, and after its last stage has revealed
  every node of the graph.\<close>

theorem discovery_reveals:
  "distinct (discoveryNodeIds k)
   \<and> set (discoveryNodeIds k) \<subseteq> set (discoveryNodeIds (k + 1))
   \<and> set (discoveryNodeIds (int (length DISCOVERY_STAGES))) = gn_id ` set nodes"
proof -
  have "set (take (nat (max 0 k)) DISCOVERY_STAGES) \<subseteq> set (take (nat (max 0 (k + 1))) DISCOVERY_STAGES)"
    by (rule set_take_subset_set_take) linarith
  then have "set (discoveryNodeIds k) \<subseteq> set (discoveryNodeIds (k + 1))"
    by (auto simp: discoveryNodeIds_def)
  moreover have "set (discoveryNodeIds (int (length DISCOVERY_STAGES))) = gn_id ` set nodes" by code_simp
  ultimately show ?thesis by (simp add: discoveryNodeIds_def)
qed

theorem graph_of_focus_witness:
  "map ln_edge (dr_lines (SecurityGraph (Some [''db'', ''sec'', ''data'']) True)) =
     [\<lparr>ge_from = ''db'', ge_to = ''data'', ge_kind = EData\<rparr>, \<lparr>ge_from = ''db'', ge_to = ''sec'', ge_kind = EIdentity\<rparr>]"
proof -
  have s: "set [''db'', ''sec'', ''data''] \<subseteq> gn_id ` set nodes" by code_simp
  have "filter (\<lambda>e. ge_from e \<in> set [''db'', ''sec'', ''data''] \<and> ge_to e \<in> set [''db'', ''sec'', ''data'']) edges =
      [\<lparr>ge_from = ''db'', ge_to = ''data'', ge_kind = EData\<rparr>, \<lparr>ge_from = ''db'', ge_to = ''sec'', ge_kind = EIdentity\<rparr>]"
    by code_simp
  then show ?thesis using graph_of_focus [OF _ s] by simp
qed

end
