(* ===== verification/Fabric_Pages.thy ===== *)
theory Fabric_Pages
  imports Data_Table Fabric_Catalog Fabric_Graph
begin

text \<open>
  The pages of the fabric application (fabric/src/pages) that show a table of the estate beside the graph of
  the row that is open.  Opening a row sets the page's key; the drawers of some pages show the row's graph
  again and close with it.  The keys of the tables are never empty, so that \<open>key ? \<dots> : \<dots>\<close> and the search of the
  row by its key agree.
\<close>

section \<open>A page with a table and a graph\<close>

text \<open>The key of a row that opening sets, the node sets of the keys, the focus without a row and of a row
  without an entry, the row open at first, whether the graph hides what is out of focus, whether there is
  a drawer, and whether the graph stands beside the table; otherwise it is drawn in the drawer only.\<close>

record 'r row_page =
  rp_table :: "'r table_props"
  rp_opens :: "'r \<Rightarrow> string"
  rp_map :: node_ids
  rp_none :: "string list option"
  rp_missing :: "string list option"
  rp_first :: "string option"
  rp_hides :: "string list option \<Rightarrow> bool"
  rp_drawer :: bool
  rp_beside :: bool

record page =
  pg_table :: table
  pg_row :: "string option"

datatype page_event = PTable table_event | POpen nat | PClose

definition page_init :: "'r row_page \<Rightarrow> page" where
  "page_init rp = \<lparr>pg_table = table_init (rp_table rp), pg_row = rp_first rp\<rparr>"

text \<open>Only a row the table shows has a button that opens it, and only an open drawer can be closed.\<close>

definition page_step :: "(rat \<Rightarrow> string) \<Rightarrow> 'r row_page \<Rightarrow> page \<Rightarrow> page_event \<Rightarrow> page" where
  "page_step fmt rp p e =
     (case e of
        PTable te \<Rightarrow> p\<lparr>pg_table := table_step fmt (rp_table rp) (pg_table p) te\<rparr>
      | POpen k \<Rightarrow>
          (let shown = slice_at (tb_page (pg_table p)) (filtered fmt (rp_table rp) (pg_table p))
           in if k < length shown then p\<lparr>pg_row := Some (rp_opens rp (shown ! k))\<rparr> else p)
      | PClose \<Rightarrow> if rp_drawer rp then p\<lparr>pg_row := None\<rparr> else p)"

definition page_focus :: "'r row_page \<Rightarrow> page \<Rightarrow> string list option" where
  "page_focus rp p =
     (case pg_row p of
        None \<Rightarrow> rp_none rp
      | Some k \<Rightarrow> (case map_of (rp_map rp) k of None \<Rightarrow> rp_missing rp | Some ids \<Rightarrow> Some ids))"

definition page_graph :: "'r row_page \<Rightarrow> page \<Rightarrow> drawing option" where
  "page_graph rp p =
     (if rp_beside rp \<or> pg_row p \<noteq> None
      then Some (SecurityGraph (page_focus rp p) (rp_hides rp (page_focus rp p))) else None)"

definition hides_focus :: "string list option \<Rightarrow> bool" where
  "hides_focus f = (case f of None \<Rightarrow> False | Some ids \<Rightarrow> ids \<noteq> [])"

definition row_of :: "('r \<Rightarrow> string) \<Rightarrow> 'r list \<Rightarrow> string option" where
  "row_of f rows = (case rows of [] \<Rightarrow> None | r # rs \<Rightarrow> Some (f r))"

abbreviation domain_ids :: "string \<Rightarrow> string list option" where "domain_ids d \<equiv> map_of DOMAIN_NODE_IDS d"

section \<open>The pages\<close>

definition aibom_columns :: "aibom_row column list" where
  "aibom_columns =
    [\<lparr>cl_id = ''model'', cl_header = ''Model'', cl_get = (\<lambda>r. CStr (aif_model r))\<rparr>,
     \<lparr>cl_id = ''provider'', cl_header = ''Provider'', cl_get = (\<lambda>r. CStr (aif_provider r))\<rparr>,
     \<lparr>cl_id = ''dataset'', cl_header = ''Dataset'', cl_get = (\<lambda>r. CStr (aif_dataset r))\<rparr>,
     \<lparr>cl_id = ''endpoint'', cl_header = ''Endpoint'', cl_get = (\<lambda>r. CStr (aif_endpoint r))\<rparr>,
     \<lparr>cl_id = ''identity'', cl_header = ''AI identity'', cl_get = (\<lambda>r. CStr (aif_identity r))\<rparr>,
     \<lparr>cl_id = ''secret'', cl_header = ''Secret ref'', cl_get = (\<lambda>r. CStr (aif_secret r))\<rparr>,
     \<lparr>cl_id = ''compliance'', cl_header = ''Mapping'', cl_get = (\<lambda>r. CStr (aif_compliance r))\<rparr>]"

definition aibom_table :: "aibom_row table_props" where
  "aibom_table = \<lparr>tp_rows = aibom, tp_columns = aibom_columns, tp_key = aif_model\<rparr>"

definition ai_page :: "aibom_row row_page" where
  "ai_page =
    \<lparr>rp_table = aibom_table, rp_opens = aif_model, rp_map = AIBOM_NODE_IDS,
     rp_none = domain_ids ''ai'', rp_missing = domain_ids ''ai'',
     rp_first = row_of aif_model aibom, rp_hides = hides_focus, rp_drawer = False, rp_beside = True\<rparr>"

definition assets_columns :: "asset_row column list" where
  "assets_columns =
    [\<lparr>cl_id = ''name'', cl_header = ''Asset'', cl_get = (\<lambda>r. CStr (atf_name r))\<rparr>,
     \<lparr>cl_id = ''kind'', cl_header = ''Kind'', cl_get = (\<lambda>r. CStr (atf_kind r))\<rparr>,
     \<lparr>cl_id = ''env'', cl_header = ''Environment'', cl_get = (\<lambda>r. CStr (atf_env r))\<rparr>,
     \<lparr>cl_id = ''owner'', cl_header = ''Owner'', cl_get = (\<lambda>r. CStr (atf_owner r))\<rparr>,
     \<lparr>cl_id = ''criticality'', cl_header = ''Business criticality'', cl_get = (\<lambda>r. CStr (atf_criticality r))\<rparr>,
     \<lparr>cl_id = ''exposure'', cl_header = ''Exposure'', cl_get = (\<lambda>r. CStr (atf_exposure r))\<rparr>,
     \<lparr>cl_id = ''findings'', cl_header = ''Findings'', cl_get = (\<lambda>r. CNum (num (atf_findings r)))\<rparr>]"

definition assets_table :: "asset_row table_props" where
  "assets_table = \<lparr>tp_rows = assets, tp_columns = assets_columns, tp_key = atf_name\<rparr>"

definition assets_page :: "asset_row row_page" where
  "assets_page =
    \<lparr>rp_table = assets_table, rp_opens = atf_name, rp_map = ASSET_NODE_IDS,
     rp_none = None, rp_missing = None,
     rp_first = row_of atf_name assets, rp_hides = (\<lambda>f. f \<noteq> None), rp_drawer = False, rp_beside = True\<rparr>"

definition certificates_columns :: "certificate column list" where
  "certificates_columns =
    [\<lparr>cl_id = ''name'', cl_header = ''Certificate'', cl_get = (\<lambda>r. CStr (cef_name r))\<rparr>,
     \<lparr>cl_id = ''issuer'', cl_header = ''Issuer'', cl_get = (\<lambda>r. CStr (cef_issuer r))\<rparr>,
     \<lparr>cl_id = ''algo'', cl_header = ''Algorithm'', cl_get = (\<lambda>r. CStr (cef_algo r))\<rparr>,
     \<lparr>cl_id = ''keySize'', cl_header = ''Key size'', cl_get = (\<lambda>r. CStr (cef_keySize r))\<rparr>,
     \<lparr>cl_id = ''days'', cl_header = ''Days'', cl_get = (\<lambda>r. CNum (num (cef_days r)))\<rparr>,
     \<lparr>cl_id = ''owner'', cl_header = ''Owner'', cl_get = (\<lambda>r. CStr (cef_owner r))\<rparr>,
     \<lparr>cl_id = ''env'', cl_header = ''Environment'', cl_get = (\<lambda>r. CStr (cef_env r))\<rparr>,
     \<lparr>cl_id = ''risk'', cl_header = ''Risk'', cl_get = (\<lambda>r. CStr (cef_risk r))\<rparr>]"

definition certificates_table :: "certificate table_props" where
  "certificates_table = \<lparr>tp_rows = certificates, tp_columns = certificates_columns, tp_key = cef_name\<rparr>"

definition certs_page :: "certificate row_page" where
  "certs_page =
    \<lparr>rp_table = certificates_table, rp_opens = cef_name, rp_map = CERT_NODE_IDS,
     rp_none = domain_ids ''certs'', rp_missing = domain_ids ''certs'',
     rp_first = None, rp_hides = hides_focus, rp_drawer = True, rp_beside = True\<rparr>"

definition clouds_columns :: "cloud_account column list" where
  "clouds_columns =
    [\<lparr>cl_id = ''account'', cl_header = ''Account'', cl_get = (\<lambda>r. CStr (clf_account r))\<rparr>,
     \<lparr>cl_id = ''provider'', cl_header = ''Provider'', cl_get = (\<lambda>r. CStr (clf_provider r))\<rparr>,
     \<lparr>cl_id = ''region'', cl_header = ''Region'', cl_get = (\<lambda>r. CStr (clf_region r))\<rparr>,
     \<lparr>cl_id = ''resources'', cl_header = ''Resources'', cl_get = (\<lambda>r. CNum (num (clf_resources r)))\<rparr>,
     \<lparr>cl_id = ''critical'', cl_header = ''Critical'', cl_get = (\<lambda>r. CNum (num (clf_critical r)))\<rparr>,
     \<lparr>cl_id = ''high'', cl_header = ''High'', cl_get = (\<lambda>r. CNum (num (clf_high r)))\<rparr>,
     \<lparr>cl_id = ''publicRes'', cl_header = ''Public'', cl_get = (\<lambda>r. CNum (num (clf_publicRes r)))\<rparr>,
     \<lparr>cl_id = ''unencrypted'', cl_header = ''Unencrypted'', cl_get = (\<lambda>r. CNum (num (clf_unencrypted r)))\<rparr>,
     \<lparr>cl_id = ''identity'', cl_header = ''Identity'', cl_get = (\<lambda>r. CNum (num (clf_identity r)))\<rparr>,
     \<lparr>cl_id = ''owner'', cl_header = ''Owner'', cl_get = (\<lambda>r. CStr (clf_owner r))\<rparr>]"

definition clouds_table :: "cloud_account table_props" where
  "clouds_table = \<lparr>tp_rows = clouds, tp_columns = clouds_columns, tp_key = clf_account\<rparr>"

definition cloud_page :: "cloud_account row_page" where
  "cloud_page =
    \<lparr>rp_table = clouds_table, rp_opens = clf_account, rp_map = CLOUD_ACCOUNT_NODE_IDS,
     rp_none = domain_ids ''cloud'', rp_missing = domain_ids ''cloud'',
     rp_first = row_of clf_account clouds, rp_hides = hides_focus, rp_drawer = False, rp_beside = True\<rparr>"

definition controls_columns :: "control_row column list" where
  "controls_columns =
    [\<lparr>cl_id = ''id'', cl_header = ''Control'', cl_get = (\<lambda>r. CStr (crf_id r))\<rparr>,
     \<lparr>cl_id = ''framework'', cl_header = ''Framework'', cl_get = (\<lambda>r. CStr (crf_framework r))\<rparr>,
     \<lparr>cl_id = ''title'', cl_header = ''Title'', cl_get = (\<lambda>r. CStr (crf_title r))\<rparr>,
     \<lparr>cl_id = ''severity'', cl_header = ''Severity'', cl_get = (\<lambda>r. CStr (crf_severity r))\<rparr>,
     \<lparr>cl_id = ''pass'', cl_header = ''Pass'', cl_get = (\<lambda>r. CNum (num (crf_pass r)))\<rparr>,
     \<lparr>cl_id = ''fail'', cl_header = ''Fail'', cl_get = (\<lambda>r. CNum (num (crf_fail r)))\<rparr>,
     \<lparr>cl_id = ''exceptions'', cl_header = ''Exceptions'', cl_get = (\<lambda>r. CNum (num (crf_exceptions r)))\<rparr>,
     \<lparr>cl_id = ''regulation'', cl_header = ''Regulation'', cl_get = (\<lambda>r. CStr (crf_regulation r))\<rparr>]"

definition controls_table :: "control_row table_props" where
  "controls_table = \<lparr>tp_rows = controls, tp_columns = controls_columns, tp_key = crf_id\<rparr>"

definition compliance_page :: "control_row row_page" where
  "compliance_page =
    \<lparr>rp_table = controls_table, rp_opens = crf_id, rp_map = CONTROL_NODE_IDS,
     rp_none = map_of FINDING_NODE_IDS ''QSF-1042'', rp_missing = None,
     rp_first = None, rp_hides = hides_focus, rp_drawer = True, rp_beside = True\<rparr>"

definition hbom_columns :: "hbom_row column list" where
  "hbom_columns =
    [\<lparr>cl_id = ''asset'', cl_header = ''Asset'', cl_get = (\<lambda>r. CStr (hbf_asset r))\<rparr>,
     \<lparr>cl_id = ''type'', cl_header = ''Type'', cl_get = (\<lambda>r. CStr (hbf_type r))\<rparr>,
     \<lparr>cl_id = ''firmware'', cl_header = ''Firmware'', cl_get = (\<lambda>r. CStr (hbf_firmware r))\<rparr>,
     \<lparr>cl_id = ''crypto'', cl_header = ''Crypto capability'', cl_get = (\<lambda>r. CStr (hbf_crypto r))\<rparr>,
     \<lparr>cl_id = ''eol'', cl_header = ''End of life'', cl_get = (\<lambda>r. CStr (hbf_eol r))\<rparr>,
     \<lparr>cl_id = ''owner'', cl_header = ''Owner'', cl_get = (\<lambda>r. CStr (hbf_owner r))\<rparr>,
     \<lparr>cl_id = ''linked'', cl_header = ''Linked asset'', cl_get = (\<lambda>r. CStr (hbf_linked r))\<rparr>]"

definition hbom_table :: "hbom_row table_props" where
  "hbom_table = \<lparr>tp_rows = hbom, tp_columns = hbom_columns, tp_key = hbf_asset\<rparr>"

definition hbom_page :: "hbom_row row_page" where
  "hbom_page =
    \<lparr>rp_table = hbom_table, rp_opens = hbf_asset, rp_map = HBOM_NODE_IDS,
     rp_none = domain_ids ''hbom'', rp_missing = domain_ids ''hbom'',
     rp_first = row_of hbf_asset hbom, rp_hides = hides_focus, rp_drawer = False, rp_beside = True\<rparr>"

definition ibom_columns :: "ibom_row column list" where
  "ibom_columns =
    [\<lparr>cl_id = ''asset'', cl_header = ''Asset'', cl_get = (\<lambda>r. CStr (ibf_asset r))\<rparr>,
     \<lparr>cl_id = ''kind'', cl_header = ''Kind'', cl_get = (\<lambda>r. CStr (ibf_kind r))\<rparr>,
     \<lparr>cl_id = ''cloud'', cl_header = ''Cloud'', cl_get = (\<lambda>r. CStr (ibf_cloud r))\<rparr>,
     \<lparr>cl_id = ''owner'', cl_header = ''Owner'', cl_get = (\<lambda>r. CStr (ibf_owner r))\<rparr>,
     \<lparr>cl_id = ''deps'', cl_header = ''Dependencies'', cl_get = (\<lambda>r. CStr (ibf_deps r))\<rparr>]"

definition ibom_table :: "ibom_row table_props" where
  "ibom_table = \<lparr>tp_rows = ibom, tp_columns = ibom_columns, tp_key = ibf_asset\<rparr>"

definition ibom_page :: "ibom_row row_page" where
  "ibom_page =
    \<lparr>rp_table = ibom_table, rp_opens = ibf_asset, rp_map = IBOM_NODE_IDS,
     rp_none = domain_ids ''ibom'', rp_missing = domain_ids ''ibom'',
     rp_first = row_of ibf_asset ibom, rp_hides = hides_focus, rp_drawer = False, rp_beside = True\<rparr>"

definition identities_columns :: "identity_row column list" where
  "identities_columns =
    [\<lparr>cl_id = ''principal'', cl_header = ''Principal'', cl_get = (\<lambda>r. CStr (iyf_principal r))\<rparr>,
     \<lparr>cl_id = ''type'', cl_header = ''Type'', cl_get = (\<lambda>r. CStr (iyf_type r))\<rparr>,
     \<lparr>cl_id = ''privilege'', cl_header = ''Privilege'', cl_get = (\<lambda>r. CStr (iyf_privilege r))\<rparr>,
     \<lparr>cl_id = ''unused'', cl_header = ''Unused'', cl_get = (\<lambda>r. CStr (if iyf_unused r then ''yes'' else ''no''))\<rparr>,
     \<lparr>cl_id = ''risk'', cl_header = ''Risk'', cl_get = (\<lambda>r. CStr (iyf_risk r))\<rparr>,
     \<lparr>cl_id = ''owner'', cl_header = ''Owner'', cl_get = (\<lambda>r. CStr (iyf_owner r))\<rparr>]"

definition identities_table :: "identity_row table_props" where
  "identities_table = \<lparr>tp_rows = identities, tp_columns = identities_columns, tp_key = iyf_principal\<rparr>"

definition identity_page :: "identity_row row_page" where
  "identity_page =
    \<lparr>rp_table = identities_table, rp_opens = iyf_principal, rp_map = IDENTITY_NODE_IDS,
     rp_none = domain_ids ''identity'', rp_missing = domain_ids ''identity'',
     rp_first = row_of iyf_principal identities, rp_hides = hides_focus, rp_drawer = False, rp_beside = True\<rparr>"

definition clusters_columns :: "cluster column list" where
  "clusters_columns =
    [\<lparr>cl_id = ''name'', cl_header = ''Cluster'', cl_get = (\<lambda>r. CStr (cuf_name r))\<rparr>,
     \<lparr>cl_id = ''provider'', cl_header = ''Provider'', cl_get = (\<lambda>r. CStr (cuf_provider r))\<rparr>,
     \<lparr>cl_id = ''nodes'', cl_header = ''Nodes'', cl_get = (\<lambda>r. CNum (num (cuf_nodes r)))\<rparr>,
     \<lparr>cl_id = ''privileged'', cl_header = ''Privileged pods'', cl_get = (\<lambda>r. CNum (num (cuf_privileged r)))\<rparr>,
     \<lparr>cl_id = ''public'', cl_header = ''Public services'', cl_get = (\<lambda>r. CNum (num (cuf_public r)))\<rparr>,
     \<lparr>cl_id = ''findings'', cl_header = ''Findings'', cl_get = (\<lambda>r. CNum (num (cuf_findings r)))\<rparr>,
     \<lparr>cl_id = ''owner'', cl_header = ''Owner'', cl_get = (\<lambda>r. CStr (cuf_owner r))\<rparr>]"

definition clusters_table :: "cluster table_props" where
  "clusters_table = \<lparr>tp_rows = clusters, tp_columns = clusters_columns, tp_key = cuf_name\<rparr>"

definition kubernetes_page :: "cluster row_page" where
  "kubernetes_page =
    \<lparr>rp_table = clusters_table, rp_opens = cuf_name, rp_map = CLUSTER_NODE_IDS,
     rp_none = domain_ids ''kubernetes'', rp_missing = domain_ids ''kubernetes'',
     rp_first = row_of cuf_name clusters, rp_hides = hides_focus, rp_drawer = False, rp_beside = True\<rparr>"

definition sbom_columns :: "sbom_row column list" where
  "sbom_columns =
    [\<lparr>cl_id = ''pkg'', cl_header = ''Package'', cl_get = (\<lambda>r. CStr (sbf_pkg r))\<rparr>,
     \<lparr>cl_id = ''version'', cl_header = ''Version'', cl_get = (\<lambda>r. CStr (sbf_version r))\<rparr>,
     \<lparr>cl_id = ''license'', cl_header = ''License'', cl_get = (\<lambda>r. CStr (sbf_license r))\<rparr>,
     \<lparr>cl_id = ''cve'', cl_header = ''CVE'', cl_get = (\<lambda>r. CStr (sbf_cve r))\<rparr>,
     \<lparr>cl_id = ''app'', cl_header = ''Application'', cl_get = (\<lambda>r. CStr (sbf_app r))\<rparr>,
     \<lparr>cl_id = ''crypto'', cl_header = ''CryptoBOM link'', cl_get = (\<lambda>r. CStr (sbf_crypto r))\<rparr>,
     \<lparr>cl_id = ''repo'', cl_header = ''Repository'', cl_get = (\<lambda>r. CStr (sbf_repo r))\<rparr>]"

definition sbom_table :: "sbom_row table_props" where
  "sbom_table = \<lparr>tp_rows = sbom, tp_columns = sbom_columns, tp_key = (\<lambda>r. sbf_pkg r @ ''-'' @ sbf_app r)\<rparr>"

definition sbom_page :: "sbom_row row_page" where
  "sbom_page =
    \<lparr>rp_table = sbom_table, rp_opens = sbf_pkg, rp_map = SBOM_NODE_IDS,
     rp_none = domain_ids ''sbom'', rp_missing = domain_ids ''sbom'',
     rp_first = row_of sbf_pkg sbom, rp_hides = hides_focus, rp_drawer = False, rp_beside = True\<rparr>"

definition secrets_columns :: "secret_ref column list" where
  "secrets_columns =
    [\<lparr>cl_id = ''name'', cl_header = ''Name'', cl_get = (\<lambda>r. CStr (sef_name r))\<rparr>,
     \<lparr>cl_id = ''status'', cl_header = ''Status'', cl_get = (\<lambda>r. CStr (sef_status r))\<rparr>,
     \<lparr>cl_id = ''lastRotation'', cl_header = ''Last rotation'', cl_get = (\<lambda>r. CStr (sef_lastRotation r))\<rparr>,
     \<lparr>cl_id = ''apps'', cl_header = ''Applications'', cl_get = (\<lambda>r. CStr (sef_apps r))\<rparr>,
     \<lparr>cl_id = ''vault'', cl_header = ''Vault'', cl_get = (\<lambda>r. CStr (sef_vault r))\<rparr>,
     \<lparr>cl_id = ''owner'', cl_header = ''Owner'', cl_get = (\<lambda>r. CStr (sef_owner r))\<rparr>,
     \<lparr>cl_id = ''risk'', cl_header = ''Risk'', cl_get = (\<lambda>r. CStr (sef_risk r))\<rparr>]"

definition secrets_table :: "secret_ref table_props" where
  "secrets_table = \<lparr>tp_rows = secrets, tp_columns = secrets_columns, tp_key = sef_name\<rparr>"

definition secrets_page :: "secret_ref row_page" where
  "secrets_page =
    \<lparr>rp_table = secrets_table, rp_opens = sef_name, rp_map = SECRET_NODE_IDS,
     rp_none = domain_ids ''secrets'', rp_missing = domain_ids ''secrets'',
     rp_first = None, rp_hides = hides_focus, rp_drawer = True, rp_beside = True\<rparr>"

definition findings_columns :: "finding_row column list" where
  "findings_columns =
    [\<lparr>cl_id = ''id'', cl_header = ''Finding'', cl_get = (\<lambda>r. CStr (fif_id r))\<rparr>,
     \<lparr>cl_id = ''title'', cl_header = ''Title'', cl_get = (\<lambda>r. CStr (fif_title r))\<rparr>,
     \<lparr>cl_id = ''sev'', cl_header = ''Severity'', cl_get = (\<lambda>r. CStr (fif_sev r))\<rparr>,
     \<lparr>cl_id = ''asset'', cl_header = ''Asset'', cl_get = (\<lambda>r. CStr (fif_asset r))\<rparr>,
     \<lparr>cl_id = ''owner'', cl_header = ''Owner'', cl_get = (\<lambda>r. CStr (fif_owner r))\<rparr>,
     \<lparr>cl_id = ''control'', cl_header = ''Control'', cl_get = (\<lambda>r. CStr (fif_control r))\<rparr>,
     \<lparr>cl_id = ''regulation'', cl_header = ''Regulation'', cl_get = (\<lambda>r. CStr (fif_regulation r))\<rparr>,
     \<lparr>cl_id = ''env'', cl_header = ''Env'', cl_get = (\<lambda>r. CStr (fif_env r))\<rparr>]"

definition findings_table :: "finding_row table_props" where
  "findings_table = \<lparr>tp_rows = findings, tp_columns = findings_columns, tp_key = fif_id\<rparr>"

definition vulns_page :: "finding_row row_page" where
  "vulns_page =
    \<lparr>rp_table = findings_table, rp_opens = fif_id, rp_map = FINDING_NODE_IDS,
     rp_none = None, rp_missing = None,
     rp_first = row_of fif_id findings, rp_hides = (\<lambda>f. True), rp_drawer = True, rp_beside = True\<rparr>"

definition workloads_columns :: "workload column list" where
  "workloads_columns =
    [\<lparr>cl_id = ''name'', cl_header = ''Workload'', cl_get = (\<lambda>r. CStr (wlf_name r))\<rparr>,
     \<lparr>cl_id = ''image'', cl_header = ''Image'', cl_get = (\<lambda>r. CStr (wlf_image r))\<rparr>,
     \<lparr>cl_id = ''cluster'', cl_header = ''Cluster'', cl_get = (\<lambda>r. CStr (wlf_cluster r))\<rparr>,
     \<lparr>cl_id = ''public'', cl_header = ''Public'', cl_get = (\<lambda>r. CStr (if wlf_public r then ''yes'' else ''no''))\<rparr>,
     \<lparr>cl_id = ''findings'', cl_header = ''Findings'', cl_get = (\<lambda>r. CNum (num (wlf_findings r)))\<rparr>,
     \<lparr>cl_id = ''owner'', cl_header = ''Owner'', cl_get = (\<lambda>r. CStr (wlf_owner r))\<rparr>]"

definition workloads_table :: "workload table_props" where
  "workloads_table = \<lparr>tp_rows = workloads, tp_columns = workloads_columns, tp_key = wlf_name\<rparr>"

definition workloads_page :: "workload row_page" where
  "workloads_page =
    \<lparr>rp_table = workloads_table, rp_opens = wlf_name, rp_map = WORKLOAD_NODE_IDS,
     rp_none = domain_ids ''workloads'', rp_missing = domain_ids ''workloads'',
     rp_first = row_of wlf_name workloads, rp_hides = hides_focus, rp_drawer = False, rp_beside = True\<rparr>"

definition policies_columns :: "policy column list" where
  "policies_columns =
    [\<lparr>cl_id = ''id'', cl_header = ''Policy'', cl_get = (\<lambda>r. CStr (pof_id r))\<rparr>,
     \<lparr>cl_id = ''domain'', cl_header = ''Domain'', cl_get = (\<lambda>r. CStr (pof_domain r))\<rparr>,
     \<lparr>cl_id = ''control'', cl_header = ''Control'', cl_get = (\<lambda>r. CStr (pof_control r))\<rparr>,
     \<lparr>cl_id = ''severity'', cl_header = ''Severity'', cl_get = (\<lambda>r. CStr (pof_severity r))\<rparr>,
     \<lparr>cl_id = ''framework'', cl_header = ''Framework'', cl_get = (\<lambda>r. CStr (pof_framework r))\<rparr>,
     \<lparr>cl_id = ''pass'', cl_header = ''Pass'', cl_get = (\<lambda>r. CNum (num (pof_pass r)))\<rparr>,
     \<lparr>cl_id = ''fail'', cl_header = ''Fail'', cl_get = (\<lambda>r. CNum (num (pof_fail r)))\<rparr>,
     \<lparr>cl_id = ''exceptions'', cl_header = ''Exception'', cl_get = (\<lambda>r. CNum (num (pof_exceptions r)))\<rparr>,
     \<lparr>cl_id = ''version'', cl_header = ''Version'', cl_get = (\<lambda>r. CStr (pof_version r))\<rparr>]"

definition policies_table :: "policy table_props" where
  "policies_table = \<lparr>tp_rows = policies, tp_columns = policies_columns, tp_key = pof_id\<rparr>"

definition policy_page :: "policy row_page" where
  "policy_page =
    \<lparr>rp_table = policies_table, rp_opens = pof_id, rp_map = POLICY_NODE_IDS,
     rp_none = None, rp_missing = domain_ids ''cloud'',
     rp_first = None, rp_hides = hides_focus, rp_drawer = True, rp_beside = False\<rparr>"

definition rbac_columns :: "rbac_row column list" where
  "rbac_columns =
    [\<lparr>cl_id = ''role'', cl_header = ''Role'', cl_get = (\<lambda>r. CStr (rbf_role r))\<rparr>,
     \<lparr>cl_id = ''org'', cl_header = ''Organization'', cl_get = (\<lambda>r. CStr (rbf_org r))\<rparr>,
     \<lparr>cl_id = ''tenant'', cl_header = ''Tenant'', cl_get = (\<lambda>r. CStr (rbf_tenant r))\<rparr>,
     \<lparr>cl_id = ''module'', cl_header = ''Module'', cl_get = (\<lambda>r. CStr (rbf_module r))\<rparr>,
     \<lparr>cl_id = ''action'', cl_header = ''Action'', cl_get = (\<lambda>r. CStr (rbf_action r))\<rparr>]"

definition rbac_table :: "rbac_row table_props" where
  "rbac_table = \<lparr>tp_rows = rbac, tp_columns = rbac_columns, tp_key = rbf_role\<rparr>"

section \<open>Tables that can be sorted\<close>

text \<open>Distinct columns, distinct keys, and in every column cells of one kind.\<close>

fun is_text :: "cell \<Rightarrow> bool" where
  "is_text (CStr s) = True"
| "is_text (CNum n) = False"

fun is_number :: "cell \<Rightarrow> bool" where
  "is_number (CStr s) = False"
| "is_number (CNum n) = (n \<noteq> NaN)"

definition keyed :: "'r table_props \<Rightarrow> bool" where
  "keyed tp \<longleftrightarrow> distinct (map cl_id (tp_columns tp)) \<and> distinct (map (tp_key tp) (tp_rows tp))
     \<and> list_all (\<lambda>c. list_all (\<lambda>r. is_text (cl_get c r)) (tp_rows tp)
          \<or> list_all (\<lambda>r. is_number (cl_get c r)) (tp_rows tp)) (tp_columns tp)"

text \<open>However the table was used before, a click on the header of a column shows the matching rows in its order.\<close>

definition sortable :: "(rat \<Rightarrow> string) \<Rightarrow> 'r table_props \<Rightarrow> bool" where
  "sortable fmt tp \<longleftrightarrow>
     distinct (map (tp_key tp) (tp_rows tp))
     \<and> (\<forall>es. \<forall>c \<in> set (tp_columns tp).
          let tb = run (table_step fmt tp) (table_init tp) (es @ [TToggleSort (cl_id c)])
          in mset (filtered fmt tp tb) = mset (filter (matches fmt (tp_columns tp) (tb_q tb)) (tp_rows tp))
             \<and> sorted_wrt (\<lambda>a b. stays_before (tb_dir tb) (cl_get c a) (cl_get c b)) (filtered fmt tp tb))"

lemma is_text_range: "is_text x \<longleftrightarrow> x \<in> range CStr"
  by (cases x) auto

lemma is_number_cells: "is_number x \<longleftrightarrow> x \<in> number_cells"
  by (cases x) (auto simp: number_cells_def)

lemma sorted_after_click:
  assumes "c \<in> set (tp_columns tp)"
  shows "tb_sort (table_step fmt tp tb (TToggleSort (cl_id c))) = cl_id c"
  using assms by (simp add: table_step_def toggleSort_def Let_def)

lemma table_sortable:
  assumes "keyed tp"
  shows "sortable fmt tp"
proof -
  have "let tb = run (table_step fmt tp) (table_init tp) (es @ [TToggleSort (cl_id c)])
      in mset (filtered fmt tp tb) = mset (filter (matches fmt (tp_columns tp) (tb_q tb)) (tp_rows tp))
        \<and> sorted_wrt (\<lambda>a b. stays_before (tb_dir tb) (cl_get c a) (cl_get c b)) (filtered fmt tp tb)"
    if c: "c \<in> set (tp_columns tp)" for es c
  proof -
    let ?tb = "run (table_step fmt tp) (table_init tp) (es @ [TToggleSort (cl_id c)])"
    have "find (\<lambda>d. cl_id d = tb_sort ?tb) (tp_columns tp) = Some c"
      using assms find_by_key [OF _ c, of cl_id] by (simp add: keyed_def sorted_after_click [OF c])
    moreover have "cl_get c ` set (tp_rows tp) \<subseteq> range CStr \<or> cl_get c ` set (tp_rows tp) \<subseteq> number_cells"
      using assms c unfolding keyed_def list_all_iff is_text_range is_number_cells by blast
    ultimately show ?thesis using filtered_sorted [of ?tb tp c fmt] by (simp add: Let_def)
  qed
  then show ?thesis using assms by (simp add: sortable_def keyed_def)
qed

section \<open>Pages whose rows have graphs\<close>

definition nodes_or_none :: "string list option \<Rightarrow> bool" where
  "nodes_or_none f = (case f of None \<Rightarrow> True | Some ids \<Rightarrow> ids \<noteq> [] \<and> list_all (\<lambda>i. i \<in> set (map gn_id nodes)) ids)"

definition linked :: "'r row_page \<Rightarrow> bool" where
  "linked rp \<longleftrightarrow>
     rp_map rp \<in> set node_maps
     \<and> list_all (\<lambda>r. rp_opens rp r \<noteq> [] \<and> rp_opens rp r \<in> set (map fst (rp_map rp))) (tp_rows (rp_table rp))
     \<and> (case rp_first rp of None \<Rightarrow> True | Some k \<Rightarrow> k \<in> set (map (rp_opens rp) (tp_rows (rp_table rp))))
     \<and> nodes_or_none (rp_none rp)"

definition hiding :: "'r row_page \<Rightarrow> bool" where
  "hiding rp \<longleftrightarrow> (\<forall>i is. rp_hides rp (Some (i # is)))"

definition row_open :: "'r row_page \<Rightarrow> page \<Rightarrow> bool" where
  "row_open rp p \<longleftrightarrow> (case pg_row p of None \<Rightarrow> True | Some k \<Rightarrow> k \<in> rp_opens rp ` set (tp_rows (rp_table rp)))"

lemma page_step_inv:
  assumes "row_open rp p"
  shows "row_open rp (page_step fmt rp p e)"
proof (cases e)
  case (POpen k)
  have "k < length (slice_at (tb_page (pg_table p)) (filtered fmt (rp_table rp) (pg_table p))) \<Longrightarrow>
      slice_at (tb_page (pg_table p)) (filtered fmt (rp_table rp) (pg_table p)) ! k \<in> set (tp_rows (rp_table rp))"
    using set_slice set_filtered by (meson nth_mem subsetD)
  then show ?thesis using POpen assms by (auto simp: row_open_def page_step_def Let_def)
qed (use assms in \<open>auto simp: row_open_def page_step_def\<close>)

interpretation row_page: invariant_machine "page_step fmt rp" "row_open rp" for fmt rp
  by unfold_locales (rule page_step_inv)

text \<open>The nodes the graph of a page is about: those of the open row, else those of the page, else all.\<close>

definition page_ids :: "'r row_page \<Rightarrow> page \<Rightarrow> string list" where
  "page_ids rp p =
     (case pg_row p of
        Some k \<Rightarrow> the (map_of (rp_map rp) k)
      | None \<Rightarrow> (case rp_none rp of Some ids \<Rightarrow> ids | None \<Rightarrow> map gn_id nodes))"

text \<open>However the page is used, the open row is one of the table, a graph is drawn unless it is one of the drawer
  and no row is open, and the graph shows exactly the nodes it is about, one at least, and the edges between
  them.\<close>

definition page_ok :: "(rat \<Rightarrow> string) \<Rightarrow> bool \<Rightarrow> 'r row_page \<Rightarrow> bool" where
  "page_ok fmt beside rp \<longleftrightarrow>
     (\<forall>es.
        let p = run (page_step fmt rp) (page_init rp) es; ids = page_ids rp p
        in row_open rp p \<and> ids \<noteq> [] \<and> set ids \<subseteq> gn_id ` set nodes
           \<and> (case page_graph rp p of
                None \<Rightarrow> \<not> beside \<and> pg_row p = None
              | Some d \<Rightarrow> (beside \<or> pg_row p \<noteq> None)
                  \<and> map fst (dr_nodes d) = filter (\<lambda>n. gn_id n \<in> set ids) nodes
                  \<and> map ln_edge (dr_lines d) = filter (\<lambda>e. ge_from e \<in> set ids \<and> ge_to e \<in> set ids) edges))"

lemma drawn_all:
  "map fst (dr_nodes (SecurityGraph None hide)) = nodes \<and> map ln_edge (dr_lines (SecurityGraph None hide)) = edges"
proof -
  have f: "edge_line None hide e = Some (draw_line True e)" if "e \<in> set edges" for e
    using edge_line_eq [OF that] by (simp add: focus_set_def)
  have "dr_lines (SecurityGraph None hide) = map (draw_line True) edges"
    unfolding SecurityGraph_def map_filter_eq by (auto simp: f intro!: map_cong filter_True)
  then show ?thesis
    by (simp add: SecurityGraph_def shown_nodes_def focus_set_def draw_line_def Let_def o_def)
qed

lemma drawn_focus:
  assumes "ids \<noteq> []" "hiding rp"
  shows "map fst (dr_nodes (SecurityGraph (Some ids) (rp_hides rp (Some ids)))) = filter (\<lambda>n. gn_id n \<in> set ids) nodes
    \<and> map ln_edge (dr_lines (SecurityGraph (Some ids) (rp_hides rp (Some ids)))) =
        filter (\<lambda>e. ge_from e \<in> set ids \<and> ge_to e \<in> set ids) edges"
proof -
  have "rp_hides rp (Some ids)" using assms by (cases ids) (simp_all add: hiding_def)
  then show ?thesis using drawn_nodes [OF focus_set_some] drawn_lines [OF focus_set_some] assms(1) by (simp add: o_def)
qed

lemma all_nodes_edges:
  "filter (\<lambda>n. gn_id n \<in> set (map gn_id nodes)) nodes = nodes"
  "filter (\<lambda>e. ge_from e \<in> set (map gn_id nodes) \<and> ge_to e \<in> set (map gn_id nodes)) edges = edges"
  using edge_ends by (auto intro!: filter_True)

lemma page_drawing:
  assumes "linked rp" "hiding rp" "row_open rp p"
    and d: "d = SecurityGraph (page_focus rp p) (rp_hides rp (page_focus rp p))"
  shows "page_ids rp p \<noteq> [] \<and> set (page_ids rp p) \<subseteq> gn_id ` set nodes
    \<and> map fst (dr_nodes d) = filter (\<lambda>n. gn_id n \<in> set (page_ids rp p)) nodes
    \<and> map ln_edge (dr_lines d) =
        filter (\<lambda>e. ge_from e \<in> set (page_ids rp p) \<and> ge_to e \<in> set (page_ids rp p)) edges"
proof (cases "page_focus rp p")
  case None
  then have i: "page_ids rp p = map gn_id nodes"
    using assms(1,3)
    by (auto simp: page_focus_def page_ids_def linked_def row_open_def list_all_iff map_of_eq_None_iff split: option.splits)
  have "nodes \<noteq> []" by (simp add: nodes_def)
  then show ?thesis using drawn_all [of "rp_hides rp None"] None
    by (simp only: i all_nodes_edges d) simp
next
  case (Some ids)
  then have i: "page_ids rp p = ids"
    using assms(1,3)
    by (auto simp: page_focus_def page_ids_def linked_def row_open_def list_all_iff map_of_eq_None_iff split: option.splits)
  have "ids \<noteq> [] \<and> set ids \<subseteq> gn_id ` set nodes"
  proof (cases "pg_row p")
    case None
    then show ?thesis using Some assms(1) by (auto simp: page_focus_def linked_def nodes_or_none_def list_all_iff)
  next
    case (Some k)
    then have "map_of (rp_map rp) k = Some ids"
      using \<open>page_focus rp p = Some ids\<close> assms(1,3)
      by (auto simp: page_focus_def linked_def row_open_def list_all_iff map_of_eq_None_iff split: option.splits)
    then show ?thesis using mapped_ids [of "rp_map rp" k ids] assms(1) by (simp add: linked_def)
  qed
  then show ?thesis using drawn_focus [OF _ assms(2), of ids] Some by (simp add: i d)
qed

lemma page_linked:
  assumes "linked rp \<and> hiding rp" "rp_beside rp = beside"
  shows "page_ok fmt beside rp"
  unfolding page_ok_def Let_def
proof
  fix es
  let ?p = "run (page_step fmt rp) (page_init rp) es"
  have r: "row_open rp ?p"
    using assms by (intro row_page.run_inv) (auto simp: row_open_def page_init_def linked_def split: option.splits)
  note d = page_drawing [OF conjunct1 [OF assms(1)] conjunct2 [OF assms(1)] r refl]
  from r d show "row_open rp ?p \<and> page_ids rp ?p \<noteq> [] \<and> set (page_ids rp ?p) \<subseteq> gn_id ` set nodes
      \<and> (case page_graph rp ?p of
           None \<Rightarrow> \<not> beside \<and> pg_row ?p = None
         | Some d \<Rightarrow> (beside \<or> pg_row ?p \<noteq> None)
             \<and> map fst (dr_nodes d) = filter (\<lambda>n. gn_id n \<in> set (page_ids rp ?p)) nodes
             \<and> map ln_edge (dr_lines d) =
                 filter (\<lambda>e. ge_from e \<in> set (page_ids rp ?p) \<and> ge_to e \<in> set (page_ids rp ?p)) edges)"
    by (simp add: page_graph_def assms(2))
qed

lemma aibom_table_keyed: "keyed aibom_table"
  by code_simp

lemma assets_table_keyed: "keyed assets_table"
  by code_simp

lemma certificates_table_keyed: "keyed certificates_table"
  by code_simp

lemma clouds_table_keyed: "keyed clouds_table"
  by code_simp

lemma controls_table_keyed: "keyed controls_table"
  by code_simp

lemma hbom_table_keyed: "keyed hbom_table"
  by code_simp

lemma ibom_table_keyed: "keyed ibom_table"
  by code_simp

lemma identities_table_keyed: "keyed identities_table"
  by code_simp

lemma clusters_table_keyed: "keyed clusters_table"
  by code_simp

lemma sbom_table_keyed: "keyed sbom_table"
  by code_simp

lemma secrets_table_keyed: "keyed secrets_table"
  by code_simp

lemma findings_table_keyed: "keyed findings_table"
  by code_simp

lemma workloads_table_keyed: "keyed workloads_table"
  by code_simp

lemma policies_table_keyed: "keyed policies_table"
  by code_simp

lemma rbac_table_keyed: "keyed rbac_table"
  by code_simp

lemma ai_page_linked: "linked ai_page \<and> hiding ai_page"
  by (rule conjI) (code_simp, simp add: hiding_def hides_focus_def ai_page_def)

lemma assets_page_linked: "linked assets_page \<and> hiding assets_page"
  by (rule conjI) (code_simp, simp add: hiding_def hides_focus_def assets_page_def)

lemma certs_page_linked: "linked certs_page \<and> hiding certs_page"
  by (rule conjI) (code_simp, simp add: hiding_def hides_focus_def certs_page_def)

lemma cloud_page_linked: "linked cloud_page \<and> hiding cloud_page"
  by (rule conjI) (code_simp, simp add: hiding_def hides_focus_def cloud_page_def)

lemma compliance_page_linked: "linked compliance_page \<and> hiding compliance_page"
  by (rule conjI) (code_simp, simp add: hiding_def hides_focus_def compliance_page_def)

lemma hbom_page_linked: "linked hbom_page \<and> hiding hbom_page"
  by (rule conjI) (code_simp, simp add: hiding_def hides_focus_def hbom_page_def)

lemma ibom_page_linked: "linked ibom_page \<and> hiding ibom_page"
  by (rule conjI) (code_simp, simp add: hiding_def hides_focus_def ibom_page_def)

lemma identity_page_linked: "linked identity_page \<and> hiding identity_page"
  by (rule conjI) (code_simp, simp add: hiding_def hides_focus_def identity_page_def)

lemma kubernetes_page_linked: "linked kubernetes_page \<and> hiding kubernetes_page"
  by (rule conjI) (code_simp, simp add: hiding_def hides_focus_def kubernetes_page_def)

lemma sbom_page_linked: "linked sbom_page \<and> hiding sbom_page"
  by (rule conjI) (code_simp, simp add: hiding_def hides_focus_def sbom_page_def)

lemma secrets_page_linked: "linked secrets_page \<and> hiding secrets_page"
  by (rule conjI) (code_simp, simp add: hiding_def hides_focus_def secrets_page_def)

lemma vulns_page_linked: "linked vulns_page \<and> hiding vulns_page"
  by (rule conjI) (code_simp, simp add: hiding_def hides_focus_def vulns_page_def)

lemma workloads_page_linked: "linked workloads_page \<and> hiding workloads_page"
  by (rule conjI) (code_simp, simp add: hiding_def hides_focus_def workloads_page_def)

lemma policy_page_linked: "linked policy_page \<and> hiding policy_page"
  by (rule conjI) (code_simp, simp add: hiding_def hides_focus_def policy_page_def)

lemmas page_beside = ai_page_def
  assets_page_def
  certs_page_def
  cloud_page_def
  compliance_page_def
  hbom_page_def
  ibom_page_def
  identity_page_def
  kubernetes_page_def
  sbom_page_def
  secrets_page_def
  vulns_page_def
  workloads_page_def
  policy_page_def

section \<open>Properties\<close>

text \<open>C13: however a page with a table and a graph is used, the row that is open is one of its table, and the
  graph beside it shows exactly the nodes of that row's set, at least one, and exactly the edges of the
  estate between them; every row of every page has such a set.  The graph of the policies alone is in a drawer:
  it is drawn exactly while a policy is open.\<close>

theorem every_row_has_a_graph:
  "page_ok fmt True ai_page
   \<and> page_ok fmt True assets_page
   \<and> page_ok fmt True certs_page
   \<and> page_ok fmt True cloud_page
   \<and> page_ok fmt True compliance_page
   \<and> page_ok fmt True hbom_page
   \<and> page_ok fmt True ibom_page
   \<and> page_ok fmt True identity_page
   \<and> page_ok fmt True kubernetes_page
   \<and> page_ok fmt True sbom_page
   \<and> page_ok fmt True secrets_page
   \<and> page_ok fmt True vulns_page
   \<and> page_ok fmt True workloads_page
   \<and> page_ok fmt False policy_page"
  by (intro conjI)
    (rule page_linked [OF ai_page_linked]
      page_linked [OF assets_page_linked]
      page_linked [OF certs_page_linked]
      page_linked [OF cloud_page_linked]
      page_linked [OF compliance_page_linked]
      page_linked [OF hbom_page_linked]
      page_linked [OF ibom_page_linked]
      page_linked [OF identity_page_linked]
      page_linked [OF kubernetes_page_linked]
      page_linked [OF sbom_page_linked]
      page_linked [OF secrets_page_linked]
      page_linked [OF vulns_page_linked]
      page_linked [OF workloads_page_linked]
      page_linked [OF policy_page_linked]; simp add: page_beside)+

text \<open>Every table of the application has distinct keys and, however it was used before, a click on any of its
  headers shows the matching rows, each as often as it occurs, in the order of that column.\<close>

theorem every_column_sorts:
  "sortable fmt aibom_table
   \<and> sortable fmt assets_table
   \<and> sortable fmt certificates_table
   \<and> sortable fmt clouds_table
   \<and> sortable fmt controls_table
   \<and> sortable fmt hbom_table
   \<and> sortable fmt ibom_table
   \<and> sortable fmt identities_table
   \<and> sortable fmt clusters_table
   \<and> sortable fmt sbom_table
   \<and> sortable fmt secrets_table
   \<and> sortable fmt findings_table
   \<and> sortable fmt workloads_table
   \<and> sortable fmt policies_table
   \<and> sortable fmt rbac_table"
  by (intro conjI) (rule table_sortable [OF aibom_table_keyed] table_sortable [OF assets_table_keyed] table_sortable [OF certificates_table_keyed] table_sortable [OF clouds_table_keyed] table_sortable [OF controls_table_keyed] table_sortable [OF hbom_table_keyed] table_sortable [OF ibom_table_keyed] table_sortable [OF identities_table_keyed] table_sortable [OF clusters_table_keyed] table_sortable [OF sbom_table_keyed] table_sortable [OF secrets_table_keyed] table_sortable [OF findings_table_keyed] table_sortable [OF workloads_table_keyed] table_sortable [OF policies_table_keyed] table_sortable [OF rbac_table_keyed])+

end
