(* ===== verification/Fabric_App.thy ===== *)
theory Fabric_App
  imports Fabric_Pages Browser
begin

text \<open>
  The fabric application around its tables: the routes of App.tsx, the side bar and the command palette, the
  session of state/session.tsx, and the pages that step through stages, lenses and slices of the graph.
\<close>

section \<open>Routes\<close>

text \<open>The pages of the shell, whose index leads to the first; every other path leads to the landing page.\<close>

definition SHELL_ROUTES :: "(string \<times> string) list" where
  "SHELL_ROUTES =
    [(''/app/command'', ''Command''),
     (''/app/graph'', ''GraphPage''),
     (''/app/cryptobom'', ''CryptoBom''),
     (''/app/pqc'', ''Pqc''),
     (''/app/attack'', ''Attack''),
     (''/app/analyst'', ''Analyst''),
     (''/app/automation'', ''Automation''),
     (''/app/billing'', ''Checkout''),
     (''/app/admin'', ''Admin''),
     (''/app/posture'', ''Posture''),
     (''/app/cloud'', ''Cloud''),
     (''/app/assets'', ''Assets''),
     (''/app/vulns'', ''Vulns''),
     (''/app/identity'', ''Identity''),
     (''/app/data'', ''DataSec''),
     (''/app/workloads'', ''Workloads''),
     (''/app/kubernetes'', ''Kubernetes''),
     (''/app/sbom'', ''Sbom''),
     (''/app/certs'', ''Certs''),
     (''/app/secrets'', ''Secrets''),
     (''/app/ai'', ''AiSec''),
     (''/app/compliance'', ''Compliance''),
     (''/app/integrations'', ''Integrations''),
     (''/app/reports'', ''Reports''),
     (''/app/hbom'', ''Hbom''),
     (''/app/ibom'', ''Ibom'')]"

definition ROUTES :: "(string \<times> string) list" where
  "ROUTES =
     [(''/'', ''Landing''), (''/discover'', ''Discover''), (''/onboard'', ''Onboard''), (''/legal'', ''LegalPage'')] @ SHELL_ROUTES"

datatype route_result = Shows string | Redirects string

definition route :: "string \<Rightarrow> route_result" where
  "route path =
     (case map_of ROUTES path of
        Some page \<Rightarrow> Shows page
      | None \<Rightarrow> if path = ''/app'' then Redirects ''/app/command'' else Redirects ''/'')"

text \<open>The page a path ends at.\<close>

definition lands_on :: "string \<Rightarrow> string option" where
  "lands_on path =
     (case route path of
        Shows page \<Rightarrow> Some page
      | Redirects p \<Rightarrow> (case route p of Shows page \<Rightarrow> Some page | Redirects q \<Rightarrow> None))"

definition groups :: "(string \<times> (string \<times> string) list) list" where
  "groups =
    [(''Operations'',
      [(''Discovery'', ''/discover''),
       (''Overview'', ''/app/command''),
       (''Security graph'', ''/app/graph''),
       (''Security Posture'', ''/app/posture''),
       (''Cloud Security'', ''/app/cloud''),
       (''Assets'', ''/app/assets''),
       (''Attack Surface'', ''/app/attack''),
       (''Vulnerabilities'', ''/app/vulns''),
       (''Identity'', ''/app/identity''),
       (''Data Security'', ''/app/data''),
       (''Workloads'', ''/app/workloads''),
       (''Kubernetes'', ''/app/kubernetes'')]),
     (''Intelligence'',
      [(''Software Supply Chain'', ''/app/sbom''),
       (''CryptoBOM'', ''/app/cryptobom''),
       (''Certificates'', ''/app/certs''),
       (''Secrets'', ''/app/secrets''),
       (''PQC Readiness'', ''/app/pqc''),
       (''AI Security'', ''/app/ai''),
       (''Compliance'', ''/app/compliance''),
       (''Automation'', ''/app/automation''),
       (''AI Analyst'', ''/app/analyst'')]),
     (''Bills of materials'',
      [(''Hardware BOM'', ''/app/hbom''),
       (''Infrastructure BOM'', ''/app/ibom'')]),
     (''Enterprise'',
      [(''Integrations'', ''/app/integrations''),
       (''Reports'', ''/app/reports''),
       (''Billing'', ''/app/billing''),
       (''Administration'', ''/app/admin'')])]"

definition destinations :: "(string \<times> string) list" where
  "destinations =
    [(''Overview'', ''/app/command''),
     (''Security graph'', ''/app/graph''),
     (''Cloud security'', ''/app/cloud''),
     (''CryptoBOM'', ''/app/cryptobom''),
     (''PQC readiness'', ''/app/pqc''),
     (''Certificates'', ''/app/certs''),
     (''Secrets'', ''/app/secrets''),
     (''Compliance'', ''/app/compliance''),
     (''AI analyst'', ''/app/analyst''),
     (''Automation'', ''/app/automation''),
     (''SBOM'', ''/app/sbom''),
     (''HBOM'', ''/app/hbom''),
     (''IBOM'', ''/app/ibom''),
     (''AIBOM'', ''/app/ai''),
     (''Reports'', ''/app/reports''),
     (''Administration'', ''/app/admin'')]"

definition palette_items :: "string \<Rightarrow> (string \<times> string) list" where
  "palette_items q = filter (\<lambda>(label, to). str_includes (str_lower label) (str_lower q)) destinations"

text \<open>The buttons of the pages that lead elsewhere.\<close>

definition landing_links :: "string list" where
  "landing_links = [''/app/graph'', ''/discover'', ''/app/command'', ''/legal'']"

definition discover_links :: "string list" where
  "discover_links = [''/app/command'', ''/app/graph'', ''/app/analyst'']"

definition shell_links :: "string list" where
  "shell_links = [''/'', ''/app/graph'', ''/legal'']"

datatype mode = Ciso | Engineer | Auditor

definition command_links :: "mode \<Rightarrow> string list" where
  "command_links m =
     (if m = Ciso then [''/app/reports'', ''/app/pqc''] else map dmf_href dimensions) @ [''/app/analyst'']"

section \<open>The session\<close>

fun mode_name :: "mode \<Rightarrow> string" where
  "mode_name Ciso = ''ciso''"
| "mode_name Engineer = ''engineer''"
| "mode_name Auditor = ''auditor''"

definition readMode :: "storage \<Rightarrow> mode" where
  "readMode s =
     (case get_item s ''fabric-mode'' of
        Some (Some raw) \<Rightarrow>
          (if raw = ''ciso'' then Ciso else if raw = ''auditor'' then Auditor else Engineer)
      | _ \<Rightarrow> Engineer)"

record session =
  ss_mode :: mode
  ss_role :: string
  ss_tenant :: tenant_row
  ss_storage :: storage

definition session_init :: "storage \<Rightarrow> session" where
  "session_init s =
     \<lparr>ss_mode = readMode s, ss_role = ''Cloud Security Engineer'', ss_tenant = hd tenants, ss_storage = s\<rparr>"

definition setMode :: "mode \<Rightarrow> session \<Rightarrow> session" where
  "setMode m ss =
     ss\<lparr>ss_mode := m, ss_storage := attempt [set_item ''fabric-mode'' (mode_name m)] (ss_storage ss)\<rparr>"

definition tenant_key :: "tenant_row \<Rightarrow> string" where
  "tenant_key t = tnf_unit t @ ''-'' @ tnf_env t @ ''-'' @ tnf_cloud t"

text \<open>The select boxes of the shell and of the administration page.\<close>

definition select_tenant :: "string \<Rightarrow> session \<Rightarrow> session" where
  "select_tenant v ss = (case find (\<lambda>t. tenant_key t = v) tenants of None \<Rightarrow> ss | Some t \<Rightarrow> ss\<lparr>ss_tenant := t\<rparr>)"

definition setRole :: "string \<Rightarrow> session \<Rightarrow> session" where
  "setRole r ss = ss\<lparr>ss_role := r\<rparr>"

datatype session_event = SMode mode | STenant string | SRole string

text \<open>A select box offers its options only.\<close>

definition session_step :: "session \<Rightarrow> session_event \<Rightarrow> session" where
  "session_step ss e =
     (case e of
        SMode m \<Rightarrow> setMode m ss
      | STenant v \<Rightarrow> select_tenant v ss
      | SRole r \<Rightarrow> if r \<in> set roles then setRole r ss else ss)"

text \<open>The text of a report of Reports.tsx.\<close>

definition report :: "mode \<Rightarrow> string \<Rightarrow> string" where
  "report m kind =
     str_join [CHR 0x0A] (filter (\<lambda>l. l \<noteq> [])
       [''Fabric '' @ kind @ '' '' @ em_dash @ '' labeled Northbridge Exchange fixture'',
        ''Generated as on-screen copy. Not an audit opinion.'',
        ''Posture '' @ nat_str (nat (pf_overall posture)) @ ''/100 '' @ mid_dot @ '' Compliance mapping ''
          @ nat_str (nat (pf_compliance posture)) @ ''% '' @ mid_dot @ '' PQC '' @ nat_str (nat (pf_pqc posture)) @ [CHR 0x25],
        if m = Ciso then ''Executive: five business risks, remediation progress, board narrative.'' else [],
        if m = Auditor then ''Auditor: controls, evidence hashes, exceptions, timestamps.'' else [],
        if m = Engineer then ''Engineering: findings, Terraform modules, SBOM/CBOM links.'' else []])"

definition report_download :: "string \<Rightarrow> mode \<Rightarrow> string \<Rightarrow> string \<times> string" where
  "report_download body m ext =
     (''fabric-'' @ mode_name m @ ''-report.'' @ ext, if body = [] then ''No report generated'' else body)"

section \<open>Discovery\<close>

text \<open>A timer of 420 ms moves the discovery one stage on, until the last.\<close>

definition discovery_tick :: "nat \<Rightarrow> nat" where
  "discovery_tick i = (if i \<ge> length DISCOVERY_STAGES then i else i + 1)"

definition discovery_done :: "nat \<Rightarrow> bool" where
  "discovery_done i \<longleftrightarrow> i \<ge> length DISCOVERY_STAGES"

definition visibleIds :: "nat \<Rightarrow> string list" where
  "visibleIds i = discoveryNodeIds (min (int i + 1) (int (length DISCOVERY_STAGES)))"

section \<open>The graph page\<close>

definition lenses :: "string list" where
  "lenses = [''all'', ''discovery'', ''detection'', ''attack'', ''crypto'']"

definition detail_tabs :: "string list" where
  "detail_tabs =
     [''overview'', ''risk'', ''config'', ''network'', ''identity'', ''vulns'', ''secrets'', ''data'', ''crypto'', ''compliance'', ''activity'']"

record graph_page =
  gp_id :: string
  gp_open :: bool
  gp_tab :: string
  gp_lens :: string
  gp_finding :: string

definition graph_init :: graph_page where
  "graph_init =
     \<lparr>gp_id = ''app'', gp_open = False, gp_tab = ''overview'', gp_lens = ''all'',
      gp_finding = (case findings of [] \<Rightarrow> ''QSF-1042'' | f # fs \<Rightarrow> fif_id f)\<rparr>"

definition lens_focus :: "graph_page \<Rightarrow> string list option" where
  "lens_focus g =
     (if gp_lens g = ''discovery'' then Some (discoveryNodeIds (int (length DISCOVERY_STAGES)))
      else if gp_lens g = ''detection'' then Some (case map_of FINDING_NODE_IDS (gp_finding g) of None \<Rightarrow> [] | Some ids \<Rightarrow> ids)
      else if gp_lens g = ''attack'' then Some ATTACK_NODE_IDS
      else if gp_lens g = ''crypto'' then Some CRYPTO_NODE_IDS
      else None)"

definition graph_shown :: "graph_page \<Rightarrow> drawing" where
  "graph_shown g = SecurityGraph (lens_focus g) (gp_lens g \<noteq> ''all'')"

text \<open>The table under the graph, for those who cannot see it: the nodes with the detections that name them.\<close>

definition graph_rows :: "graph_page \<Rightarrow> (gnode \<times> string list) list" where
  "graph_rows g =
     map (\<lambda>n. (n, relatedFindingIds (gn_id n)))
       (case lens_focus g of None \<Rightarrow> nodes | Some ids \<Rightarrow> filter (\<lambda>n. gn_id n \<in> set ids) nodes)"

text \<open>The details of a node, and a tab of them.\<close>

definition detail_of :: "string \<Rightarrow> node_detail" where
  "detail_of i =
     (case (if i = [] then None else map_of nodeDetails i) of
        Some d \<Rightarrow> d
      | None \<Rightarrow> the (map_of nodeDetails ''app''))"

definition detail_text :: "string \<Rightarrow> node_detail \<Rightarrow> string" where
  "detail_text tab d =
     (let v = map_of [(''overview'', nd_overview d), (''risk'', nd_risk d), (''config'', nd_config d), (''network'', nd_network d),
        (''identity'', nd_identity d), (''vulns'', nd_vulns d), (''secrets'', nd_secrets d), (''data'', nd_data d),
        (''crypto'', nd_crypto d), (''compliance'', nd_compliance d), (''activity'', nd_activity d)] tab
      in case v of Some w \<Rightarrow> if w = [] then nd_overview d else w | None \<Rightarrow> nd_overview d)"

definition drawer_of :: "graph_page \<Rightarrow> (string \<times> string \<times> string list) option" where
  "drawer_of g =
     (if \<not> gp_open g then None
      else case find (\<lambda>n. gn_id n = gp_id g) nodes of
             None \<Rightarrow> None
           | Some n \<Rightarrow> Some (gn_label n, detail_text (gp_tab g) (detail_of (gp_id g)), relatedFindingIds (gp_id g)))"

datatype graph_event =
  GLens string
| GFinding string
| GNode string
| GRow nat
| GTab string
| GClose

definition choose_node :: "string \<Rightarrow> graph_page \<Rightarrow> graph_page" where
  "choose_node i g = g\<lparr>gp_id := i, gp_open := True\<rparr>"

definition graph_step :: "graph_page \<Rightarrow> graph_event \<Rightarrow> graph_page" where
  "graph_step g e =
     (case e of
        GLens l \<Rightarrow> if l \<in> set lenses then g\<lparr>gp_lens := l\<rparr> else g
      | GFinding f \<Rightarrow> if gp_lens g = ''detection'' \<and> f \<in> set (map fif_id findings) then g\<lparr>gp_finding := f\<rparr> else g
      | GNode i \<Rightarrow> (case chosen (graph_shown g) i of None \<Rightarrow> g | Some j \<Rightarrow> choose_node j g)
      | GRow k \<Rightarrow> if k < length (graph_rows g) then choose_node (gn_id (fst (graph_rows g ! k))) g else g
      | GTab t \<Rightarrow> if drawer_of g \<noteq> None \<and> t \<in> set detail_tabs then g\<lparr>gp_tab := t\<rparr> else g
      | GClose \<Rightarrow> g\<lparr>gp_open := False\<rparr>)"

section \<open>Attack surface and posture\<close>

record attack_stage =
  at_name :: string
  at_detail :: string
  at_nodes :: "string list"

definition attack_stages :: "attack_stage list" where
  "attack_stages =
    [\<lparr>at_name = ''Initial access'', at_detail = (''Internet '' @ arrow_sign @ '' public ALB with TLS 1.0''), at_nodes = [''threat'', ''cert'']\<rparr>,
     \<lparr>at_name = ''Privilege escalation'', at_detail = (''Vulnerable container '' @ arrow_sign @ '' pay-pod-sa''), at_nodes = [''ctr'', ''app'']\<rparr>,
     \<lparr>at_name = ''Lateral movement'', at_detail = (''Service account '' @ arrow_sign @ '' privileged role''), at_nodes = [''id'']\<rparr>,
     \<lparr>at_name = ''Data access'', at_detail = (''PostgreSQL '' @ arrow_sign @ '' card-hold archive''), at_nodes = [''db'', ''data'']\<rparr>,
     \<lparr>at_name = ''Cryptographic exposure'', at_detail = ''RSA-1024 wrap + 7-year retention'', at_nodes = [''rsa'']\<rparr>,
     \<lparr>at_name = ''Business impact'', at_detail = ''PCI-scope payments data'', at_nodes = [''data'']\<rparr>]"

record attack_page =
  ap_pulse :: bool
  ap_stage :: nat

datatype attack_event = AStage nat | APulse | AReset

definition attack_init :: attack_page where "attack_init = \<lparr>ap_pulse = False, ap_stage = 0\<rparr>"

definition attack_step :: "attack_page \<Rightarrow> attack_event \<Rightarrow> attack_page" where
  "attack_step a e =
     (case e of
        AStage i \<Rightarrow> if i < length attack_stages then a\<lparr>ap_stage := i, ap_pulse := False\<rparr> else a
      | APulse \<Rightarrow> a\<lparr>ap_pulse := True\<rparr>
      | AReset \<Rightarrow> a\<lparr>ap_pulse := False\<rparr>)"

definition attack_focus :: "attack_page \<Rightarrow> string list option" where
  "attack_focus a =
     (if ap_pulse a then Some ATTACK_NODE_IDS
      else if ap_stage a < length attack_stages then Some (at_nodes (attack_stages ! ap_stage a)) else None)"

definition drill :: "string list" where
  "drill = [''Enterprise'', ''Payments'', ''AWS'', ''nbx-prod-pay'', ''payments-api'', ''alb/pay-public'', ''QSF-1042'']"

definition drillFocus :: "nat \<Rightarrow> string list option" where
  "drillFocus depth =
     (let pay = map_of ASSET_NODE_IDS ''nbx-prod-pay'';
          focuses = [None, pay, pay, pay, map_of ASSET_NODE_IDS ''payments-api'', map_of ASSET_NODE_IDS ''alb/pay-public'',
            map_of FINDING_NODE_IDS ''QSF-1042'']
      in if depth < length focuses then focuses ! depth else None)"

definition drill_path :: "nat \<Rightarrow> string" where
  "drill_path depth = str_join '' / '' (take (depth + 1) drill)"

definition matrix_cell :: "string \<Rightarrow> string \<Rightarrow> asset_row list" where
  "matrix_cell crit expo =
     filter (\<lambda>a. str_lower (atf_criticality a) = str_lower crit \<and> atf_exposure a = expo) assets"

definition matrix_hot :: "string \<Rightarrow> string \<Rightarrow> bool" where
  "matrix_hot crit expo \<longleftrightarrow> crit = ''Critical'' \<and> expo = ''high''"

definition matrix :: "(string \<times> string \<times> asset_row list \<times> bool) list" where
  "matrix =
     concat (map (\<lambda>crit. map (\<lambda>expo. (crit, expo, matrix_cell crit expo, matrix_hot crit expo)) [''low'', ''medium'', ''high''])
       [''Low'', ''High'', ''Critical''])"

section \<open>Other pages\<close>

definition onboarding_steps :: "string list" where
  "onboarding_steps =
    [''Create organization'',
     ''Choose deployment'',
     ''Connect cloud'',
     ''Connect GitHub / GitLab'',
     ''Connect Kubernetes'',
     ''Connect identity'',
     ''Connect secrets'',
     ''Run initial discovery'',
     ''Generate security graph'',
     ''Calculate posture'',
     ''Show critical findings'',
     ''Create first remediation plan'',
     ''Invite team'']"

datatype onboard_event = OBack | OContinue

text \<open>Back is disabled on the first step; the last has a link to the discovery instead of Continue.\<close>

definition onboard_step :: "nat \<Rightarrow> onboard_event \<Rightarrow> nat" where
  "onboard_step i e =
     (case e of
        OBack \<Rightarrow> if i = 0 then i else i - 1
      | OContinue \<Rightarrow> if int i < int (length onboarding_steps) - 1 then i + 1 else i)"

definition needs_credential :: "nat \<Rightarrow> bool" where "needs_credential i \<longleftrightarrow> i < 7"

definition migration_steps :: "string list" where
  "migration_steps =
    [''RSA-2048'',
     ''Identify dependencies'',
     ''Find applications'',
     ''Find certificates'',
     ''Find services'',
     ''Assess compatibility'',
     ''Select ML-KEM / ML-DSA'',
     ''Test'',
     ''Deploy hybrid'',
     ''Monitor'',
     ''Complete'']"

definition window_tone :: "hndl_row \<Rightarrow> string" where
  "window_tone r = (if hnf_window r = ''Critical'' then ''quantum'' else if hnf_window r = ''High'' then ''warn'' else ''info'')"

definition crypto_search :: "string \<Rightarrow> crypto_row list" where
  "crypto_search q =
     filter (\<lambda>r. str_includes (str_lower (cyf_asset r @ '' '' @ cyf_algorithm r @ '' '' @ cyf_application r)) (str_lower q)) cryptoRows"

definition crypto_focus :: "string \<Rightarrow> string list option" where
  "crypto_focus asset =
     (if asset = [] then domain_ids ''crypto''
      else case map_of CRYPTO_ASSET_NODE_IDS asset of Some ids \<Rightarrow> Some ids | None \<Rightarrow> domain_ids ''crypto'')"

definition quantum_tone :: "crypto_row \<Rightarrow> string" where
  "quantum_tone r =
     (if cyf_quantum r = ''low'' then ''healthy''
      else if cyf_quantum r = ''high'' \<or> cyf_quantum r = ''critical'' then ''quantum'' else ''warn'')"

definition buckets :: "string list" where
  "buckets = [''90 days'', ''60 days'', ''30 days'', ''14 days'', ''7 days'', ''Expired'']"

definition bucket_width :: "string \<Rightarrow> nat" where
  "bucket_width b = max 8 (length (filter (\<lambda>c. cef_status c = b) certificates) * 28)"

definition control_workflow :: "mode \<Rightarrow> string list" where
  "control_workflow m =
     (if m = Auditor then [''Control'', ''Evidence'', ''Exception'', ''Owner'', ''Timestamp'']
      else [''Finding'', ''Control'', ''Regulation'', ''Evidence'', ''Remediation''])"

definition control_findings :: "string \<Rightarrow> string list" where
  "control_findings c = map fif_id (filter (\<lambda>f. fif_control f = c) findings)"

definition playbook :: "string list" where
  "playbook =
    [''WHEN critical CSPM finding'',
     ''IF production AND risk > 80'',
     ''THEN create ticket'',
     ''Notify security'',
     ''Generate evidence'',
     ''Request approval'',
     ''Apply remediation'',
     ''Validate'',
     ''Close finding'']"

definition selected_plan :: "string \<Rightarrow> string option" where
  "selected_plan i = map_option plf_name (find (\<lambda>p. plf_id p = i) plans)"

text \<open>The resource graph of the cloud page: the label and the details of the resource chosen.\<close>

definition topology_detail :: "string option \<Rightarrow> string option \<times> node_detail option" where
  "topology_detail node =
     (case node of
        None \<Rightarrow> (None, None)
      | Some i \<Rightarrow> (map_option tg_label (find (\<lambda>n. tg_id n = i) topology), if i = [] then None else Some (detail_of i)))"

section \<open>Invariants\<close>

definition session_ok :: "session \<Rightarrow> bool" where
  "session_ok ss \<longleftrightarrow>
     sg_mode (ss_storage ss) = Usable \<and> readMode (ss_storage ss) = ss_mode ss
     \<and> ss_tenant ss \<in> set tenants \<and> ss_role ss \<in> set roles"

lemma readMode_set: "sg_mode s = Usable \<Longrightarrow> readMode (s\<lparr>sg_items := (sg_items s)(''fabric-mode'' \<mapsto> mode_name m)\<rparr>) = m"
  by (cases m) (simp_all add: readMode_def)

lemma session_step_ok: "session_ok ss \<Longrightarrow> session_ok (session_step ss e)"
  by (cases e)
     (auto simp: session_ok_def session_step_def setMode_def setRole_def select_tenant_def readMode_set find_Some_iff
       split: option.splits)

interpretation session: invariant_machine session_step session_ok
  by unfold_locales (rule session_step_ok)

definition graph_ok :: "graph_page \<Rightarrow> bool" where
  "graph_ok g \<longleftrightarrow>
     gp_lens g \<in> set lenses \<and> gp_finding g \<in> set (map fif_id findings) \<and> gp_id g \<in> set (map gn_id nodes)
     \<and> gp_tab g \<in> set detail_tabs"

lemma finding_mapped: "i \<in> set (map fif_id findings) \<Longrightarrow> \<exists>ids. map_of FINDING_NODE_IDS i = Some ids"
proof -
  have "list_all (\<lambda>i. i \<in> set (map fst FINDING_NODE_IDS)) (map fif_id findings)" by code_simp
  then show "i \<in> set (map fif_id findings) \<Longrightarrow> ?thesis"
    unfolding list_all_iff using map_of_eq_None_iff [of FINDING_NODE_IDS i] by (cases "map_of FINDING_NODE_IDS i") auto
qed

lemma lens_ids:
  assumes "graph_ok g" "lens_focus g = Some ids"
  shows "ids \<noteq> [] \<and> set ids \<subseteq> gn_id ` set nodes"
proof -
  have c: "discoveryNodeIds (int (length DISCOVERY_STAGES)) \<noteq> []"
    "list_all (\<lambda>i. i \<in> set (map gn_id nodes)) (discoveryNodeIds (int (length DISCOVERY_STAGES)))"
    "ATTACK_NODE_IDS \<noteq> []" "list_all (\<lambda>i. i \<in> set (map gn_id nodes)) ATTACK_NODE_IDS"
    "CRYPTO_NODE_IDS \<noteq> []" "list_all (\<lambda>i. i \<in> set (map gn_id nodes)) CRYPTO_NODE_IDS"
    by code_simp+
  obtain fs where f: "map_of FINDING_NODE_IDS (gp_finding g) = Some fs"
    using finding_mapped assms(1) by (auto simp: graph_ok_def)
  then have "fs \<noteq> [] \<and> set fs \<subseteq> gn_id ` set nodes"
    using mapped_ids [OF _ f] by (simp add: node_maps_def)
  with c assms(2) f show ?thesis by (auto simp: lens_focus_def list_all_iff split: if_splits)
qed

lemma rows_drawn:
  assumes "graph_ok g"
  shows "map fst (graph_rows g) = map fst (dr_nodes (graph_shown g))"
proof (cases "lens_focus g")
  case None
  then show ?thesis using drawn_all by (simp add: graph_rows_def graph_shown_def o_def)
next
  case (Some ids)
  then have "gp_lens g \<noteq> ''all''" by (auto simp: lens_focus_def)
  moreover have "focus_set (Some ids) = Some ids" using lens_ids [OF assms Some] by simp
  ultimately show ?thesis using Some by (simp add: graph_rows_def graph_shown_def drawn_nodes o_def)
qed

lemma drawn_are_nodes: "set (map fst (dr_nodes (SecurityGraph f h))) \<subseteq> set nodes"
  by (auto simp: SecurityGraph_def shown_nodes_def split: option.splits if_splits)

lemma graph_step_ok:
  assumes "graph_ok g"
  shows "graph_ok (graph_step g e)"
proof (cases e)
  case (GNode i)
  then show ?thesis
    using assms drawn_are_nodes [of "lens_focus g" "gp_lens g \<noteq> ''all''"]
    by (auto simp: graph_ok_def graph_step_def choose_node_def chosen_def graph_shown_def list_ex_iff)
next
  case (GRow k)
  have "fst (graph_rows g ! k) \<in> set nodes" if "k < length (graph_rows g)"
    using that drawn_are_nodes [of "lens_focus g" "gp_lens g \<noteq> ''all''"] rows_drawn [OF assms]
    by (metis graph_shown_def length_map nth_map nth_mem subsetD)
  then show ?thesis using GRow assms by (auto simp: graph_ok_def graph_step_def choose_node_def)
qed (use assms in \<open>auto simp: graph_ok_def graph_step_def\<close>)

interpretation graph_page: invariant_machine graph_step graph_ok
  by unfold_locales (rule graph_step_ok)

lemma graph_init_ok: "graph_ok graph_init"
  by code_simp

interpretation attack_page: invariant_machine attack_step "\<lambda>a. ap_stage a < length attack_stages"
  by unfold_locales (auto simp: attack_step_def split: attack_event.splits)

interpretation onboarding: invariant_machine onboard_step "\<lambda>i. i < length onboarding_steps"
  by unfold_locales (auto simp: onboard_step_def split: onboard_event.splits)

lemma discovery_ticks: "i \<le> length DISCOVERY_STAGES \<Longrightarrow> (discovery_tick ^^ k) i = min (i + k) (length DISCOVERY_STAGES)"
  by (induction k) (auto simp: discovery_tick_def)

section \<open>Properties\<close>

text \<open>The side bar leads to every page of the shell and to the discovery, to each by one link; every other
  link of the application shows a page without a redirect; and every path at all ends at a page, the
  landing page for one the application does not know.\<close>

theorem fabric_links:
  "distinct (map snd (concat (map snd groups)))
   \<and> set (map snd (concat (map snd groups))) = insert ''/discover'' (set (map fst SHELL_ROUTES))
   \<and> list_all (\<lambda>l. l \<in> set (map fst ROUTES))
       (map snd destinations @ landing_links @ discover_links @ shell_links
        @ command_links Ciso @ command_links Engineer @ command_links Auditor)
   \<and> lands_on path = (if path = ''/app'' then Some ''Command'' else case map_of ROUTES path of Some page \<Rightarrow> Some page | None \<Rightarrow> Some ''Landing'')"
proof (intro conjI)
  have r: "route ''/'' = Shows ''Landing''" "route ''/app/command'' = Shows ''Command''" "map_of ROUTES ''/app'' = None"
    by code_simp+
  show "lands_on path = (if path = ''/app'' then Some ''Command''
      else case map_of ROUTES path of Some page \<Rightarrow> Some page | None \<Rightarrow> Some ''Landing'')"
    using r by (auto simp: lands_on_def route_def split: option.splits)
qed code_simp+

text \<open>As long as the browser stores, however the session is used, a page loaded again starts in the mode it
  was left in; its tenant and role are always among those offered, and choosing a tenant of the box gives that
  tenant.\<close>

theorem fabric_session:
  assumes "sg_mode s = Usable" "run session_step (session_init s) es = ss"
  shows "ss_mode (session_init (ss_storage ss)) = ss_mode ss \<and> ss_tenant ss \<in> set tenants \<and> ss_role ss \<in> set roles
    \<and> list_all (\<lambda>t. ss_tenant (session_step ss (STenant (tenant_key t))) = t) tenants"
proof -
  have "hd tenants \<in> set tenants \<and> ''Cloud Security Engineer'' \<in> set roles" by code_simp
  then have "session_ok (session_init s)" using assms(1) by (simp add: session_ok_def session_init_def)
  then have "session_ok ss" using session.run_inv assms(2) by blast
  moreover have "list_all (\<lambda>t. find (\<lambda>u. tenant_key u = tenant_key t) tenants = Some t) tenants" by code_simp
  then have "list_all (\<lambda>t. ss_tenant (session_step ss (STenant (tenant_key t))) = t) tenants"
    by (auto simp: list_all_iff session_step_def select_tenant_def)
  ultimately show ?thesis by (simp add: session_ok_def session_init_def)
qed

text \<open>Under every lens the table of the graph page lists the nodes the graph draws, in the same order, each
  with the detections whose sets name it.\<close>

theorem graph_table:
  "map fst (graph_rows (run graph_step graph_init es)) = map fst (dr_nodes (graph_shown (run graph_step graph_init es)))
   \<and> list_all (\<lambda>(n, ds). ds = map fst (filter (\<lambda>(f, ids). gn_id n \<in> set ids) FINDING_NODE_IDS))
       (graph_rows (run graph_step graph_init es))"
  using rows_drawn [OF graph_page.run_inv [OF graph_init_ok, of es]]
  by (simp add: graph_rows_def list_all_iff relatedFindingIds_def)

text \<open>The discovery is done after its eleven timers and not before, shows every node of the graph then, and
  sets no further timer.\<close>

theorem discovery_ends:
  "(discovery_done ((discovery_tick ^^ k) 0) \<longleftrightarrow> 11 \<le> k)
   \<and> set (visibleIds ((discovery_tick ^^ (11 + k)) 0)) = gn_id ` set nodes
   \<and> discovery_tick ((discovery_tick ^^ (11 + k)) 0) = (discovery_tick ^^ (11 + k)) 0"
proof -
  have l: "length DISCOVERY_STAGES = 11" by code_simp
  have "set (visibleIds 11) = gn_id ` set nodes" by code_simp
  then show ?thesis using discovery_ticks [of 0] by (simp add: l discovery_done_def discovery_tick_def)
qed

text \<open>Only two nodes have details of their own: the drawer of any other node of the graph shows those of
  payments-api under the node's own name.\<close>

theorem other_nodes_show_app:
  assumes "n \<in> set nodes" "gn_id n \<noteq> ''db''"
  shows "map_option fst (drawer_of (choose_node (gn_id n) g)) = Some (gn_label n)
    \<and> detail_of (gn_id n) = detail_of ''app''"
proof -
  have "map_of nodeDetails (gn_id n) = None \<or> gn_id n = ''app''"
    using assms(2) by (auto simp: nodeDetails_def)
  then have "detail_of (gn_id n) = detail_of ''app''" by (auto simp: detail_of_def nodeDetails_def)
  then show ?thesis
    using find_by_key [OF node_ids_distinct assms(1)] by (simp add: drawer_of_def choose_node_def)
qed

text \<open>The kill chain always shows nodes of the graph, and every asset is in one cell of the posture matrix.\<close>

lemma attack_focus_nodes:
  "case attack_focus (run attack_step attack_init es) of None \<Rightarrow> False | Some ids \<Rightarrow> ids \<noteq> [] \<and> set ids \<subseteq> gn_id ` set nodes"
proof -
  have "list_all (\<lambda>ids. ids \<noteq> [] \<and> list_all (\<lambda>i. i \<in> set (map gn_id nodes)) ids) (ATTACK_NODE_IDS # map at_nodes attack_stages)"
    by code_simp
  moreover have "ap_stage (run attack_step attack_init es) < length attack_stages"
    by (rule attack_page.run_inv) (simp add: attack_init_def attack_stages_def)
  ultimately show ?thesis by (auto simp: attack_focus_def list_all_iff dest: nth_mem)
qed

lemma matrix_partition:
  "list_all (\<lambda>a. length (filter (\<lambda>(crit, expo, here, hot). atf_name a \<in> set (map atf_name here)) matrix) = 1) assets"
  by code_simp

theorem fabric_session_witness:
  "ss_mode (session_init (ss_storage (run session_step (session_init (storage_of [])) [SMode Auditor, SRole ''Viewer'']))) = Auditor"
proof -
  have s: "sg_mode (storage_of []) = Usable" by simp
  have "ss_mode (run session_step (session_init (storage_of [])) [SMode Auditor, SRole ''Viewer'']) = Auditor"
    by (simp add: session_step_def setMode_def setRole_def)
  then show ?thesis using fabric_session [OF s refl, of "[SMode Auditor, SRole ''Viewer'']"] by metis
qed

theorem other_nodes_show_app_witness:
  "detail_of ''hsm'' = detail_of ''app'' \<and> map_option fst (drawer_of (choose_node ''hsm'' graph_init)) = Some ''CloudHSM''"
proof -
  have n: "nodes ! 15 \<in> set nodes" "gn_id (nodes ! 15) \<noteq> ''db''" by (simp_all add: nodes_def)
  have "gn_id (nodes ! 15) = ''hsm''" "gn_label (nodes ! 15) = ''CloudHSM''" by (simp_all add: nodes_def)
  then show ?thesis using other_nodes_show_app [OF n, of graph_init] by simp
qed

end
