(* ===== verification/Auth_Pages.thy ===== *)
theory Auth_Pages
  imports Auth_Context Js_Uri
begin

text \<open>
  The pages a session starts on: web/src/pages/AuthPage.tsx, OAuthCallback.tsx, ForgotPassword.tsx,
  ResetPassword.tsx and VerifyEmail.tsx, over the session of \<open>Auth_Context\<close>.  A request that fails gives a
  failure with the message and the code of the error and the body of the response, if there was one.
\<close>

section \<open>Errors\<close>

record failure =
  fl_message :: jval
  fl_code :: jval
  fl_data :: jval

definition thrown :: "string \<Rightarrow> failure" where
  "thrown m = \<lparr>fl_message = JStr m, fl_code = JUndef, fl_data = JUndef\<rparr>"

text \<open>\<open>err?.response?.data?.error || err?.message || fallback\<close>\<close>

definition error_text :: "failure \<Rightarrow> string \<Rightarrow> jval" where
  "error_text f fallback = js_or (js_or (js_prop (fl_data f) ''error'') (fl_message f)) (JStr fallback)"

text \<open>What a call of the session throws: the failed request itself, or an error of the session's own.\<close>

definition thrown_by :: "'a auth_scheme \<Rightarrow> failure + jval \<Rightarrow> string \<Rightarrow> failure" where
  "thrown_by a response e = (case response of Inl f \<Rightarrow> (if au_reachable a then f else thrown e) | Inr _ \<Rightarrow> thrown e)"

definition message_only :: "(rat \<Rightarrow> string) \<Rightarrow> failure + jval \<Rightarrow> string + jval" where
  "message_only fmt response = (case response of Inl f \<Rightarrow> Inl (js_string fmt (fl_message f)) | Inr d \<Rightarrow> Inr d)"

section \<open>The form\<close>

record auth_form =
  af_name :: string
  af_firstName :: string
  af_lastName :: string
  af_email :: string
  af_password :: string
  af_confirm :: string
  af_organisation :: string
  af_jobTitle :: string
  af_country :: string
  af_industry :: string
  af_orgSize :: string
  af_acceptTerms :: bool

datatype sign_mode = LoginMode | RegisterMode

text \<open>The length of a string in UTF-16 units, from its UTF-8 bytes.\<close>

definition utf16_length :: "string \<Rightarrow> nat" where
  "utf16_length s =
     length (filter (\<lambda>c. (of_char c :: nat) < 0x80 \<or> 0xC0 \<le> (of_char c :: nat)) s)
     + length (filter (\<lambda>c. 0xF0 \<le> (of_char c :: nat)) s)"

definition is_lower_letter :: "char \<Rightarrow> bool" where "is_lower_letter c \<longleftrightarrow> (of_char c :: nat) \<in> {97..122}"

definition is_upper_letter :: "char \<Rightarrow> bool" where "is_upper_letter c \<longleftrightarrow> (of_char c :: nat) \<in> {65..90}"

definition is_digit_char :: "char \<Rightarrow> bool" where "is_digit_char c \<longleftrightarrow> (of_char c :: nat) \<in> {48..57}"

definition is_symbol :: "char \<Rightarrow> bool" where
  "is_symbol c \<longleftrightarrow> \<not> is_lower_letter c \<and> \<not> is_upper_letter c \<and> \<not> is_digit_char c"

record strength =
  st_score :: nat
  st_label :: string
  st_color :: string

definition passwordStrength :: "string \<Rightarrow> strength" where
  "passwordStrength password =
     (let score = (if utf16_length password \<ge> 8 then 1 else 0)
            + (if utf16_length password \<ge> 12 then 1 else 0)
            + (if list_ex is_lower_letter password \<and> list_ex is_upper_letter password then 1 else 0)
            + (if list_ex is_digit_char password \<and> list_ex is_symbol password then 1 else 0);
          entries = [(''Weak'', ''error''), (''Fair'', ''warning''), (''Good'', ''info''), (''Strong'', ''success'')]
      in if score < length entries then \<lparr>st_score = score, st_label = fst (entries ! score), st_color = snd (entries ! score)\<rparr>
         else \<lparr>st_score = score, st_label = ''Weak'', st_color = ''error''\<rparr>)"

definition displayName :: "auth_form \<Rightarrow> string" where
  "displayName f =
     or_str (str_trim (str_join '' '' (filter (\<lambda>s. s \<noteq> []) [af_firstName f, af_lastName f]))) (str_trim (af_name f))"

text \<open>\<open>/^[^\s@]+@[^\s@]+\.[^\s@]+$/\<close>: one @ with something before it, and a dot with something on both sides after it.\<close>

definition emailValid :: "string \<Rightarrow> bool" where
  "emailValid s \<longleftrightarrow>
     \<not> list_ex is_space s
     \<and> (case split_on (CHR ''@'') s of
          [user, host] \<Rightarrow> user \<noteq> [] \<and> host \<noteq> [] \<and> CHR ''.'' \<in> set (butlast (tl host))
        | _ \<Rightarrow> False)"

definition canSubmit :: "sign_mode \<Rightarrow> auth_form \<Rightarrow> bool" where
  "canSubmit m f \<longleftrightarrow>
     emailValid (af_email f) \<and> utf16_length (af_password f) \<ge> 8
     \<and> (m = LoginMode \<or> displayName f \<noteq> [] \<and> af_password f = af_confirm f \<and> af_acceptTerms f)"

text \<open>What the fields of the page change; none of them sets \<open>name\<close>.\<close>

datatype form_event =
  FirstName string
| LastName string
| EmailField string
| PasswordField string
| ConfirmField string
| Organisation string
| JobTitle string
| CountryField string
| IndustryField string
| OrgSize string
| AcceptTerms bool

definition form_init :: auth_form where
  "form_init = \<lparr>af_name = [], af_firstName = [], af_lastName = [], af_email = [], af_password = [], af_confirm = [],
     af_organisation = [], af_jobTitle = [], af_country = [], af_industry = [], af_orgSize = [], af_acceptTerms = False\<rparr>"

fun form_step :: "auth_form \<Rightarrow> form_event \<Rightarrow> auth_form" where
  "form_step f (FirstName s) = f\<lparr>af_firstName := s\<rparr>"
| "form_step f (LastName s) = f\<lparr>af_lastName := s\<rparr>"
| "form_step f (EmailField s) = f\<lparr>af_email := s\<rparr>"
| "form_step f (PasswordField s) = f\<lparr>af_password := s\<rparr>"
| "form_step f (ConfirmField s) = f\<lparr>af_confirm := s\<rparr>"
| "form_step f (Organisation s) = f\<lparr>af_organisation := s\<rparr>"
| "form_step f (JobTitle s) = f\<lparr>af_jobTitle := s\<rparr>"
| "form_step f (CountryField s) = f\<lparr>af_country := s\<rparr>"
| "form_step f (IndustryField s) = f\<lparr>af_industry := s\<rparr>"
| "form_step f (OrgSize s) = f\<lparr>af_orgSize := s\<rparr>"
| "form_step f (AcceptTerms b) = f\<lparr>af_acceptTerms := b\<rparr>"

section \<open>The sign-in page\<close>

text \<open>\<open>sp_from\<close> is the path of the page that asked for the sign-in, \<open>sp_visits\<close> the paths navigated to.\<close>

record sign_page =
  sp_mode :: sign_mode
  sp_loading :: bool
  sp_error :: jval
  sp_confirmation :: "string option"
  sp_mfa :: "(string \<times> jval) option"
  sp_code :: string
  sp_form :: auth_form
  sp_from :: "string option"
  sp_visits :: "string list"
  sp_tour :: bool

definition PUBLIC_ENGINE_AUTH_COPY :: string where
  "PUBLIC_ENGINE_AUTH_COPY = ''This GitHub Pages build is static and hosts no RivicQ engine. Password and Enterprise sign-in need a deployed engine. Explore now with the interactive demo (labelled sample data), or request an Enterprise workspace demo.''"

definition PUBLIC_ENGINE_ENTERPRISE_AUTH_COPY :: string where
  "PUBLIC_ENGINE_ENTERPRISE_AUTH_COPY = ''Enterprise connectors, SSO, and licensed workspaces are not available on this static Pages build. Use the interactive demo to evaluate the product path, or request a licensed Enterprise demo from sales.''"

definition PASSWORD_NEEDS_ENGINE :: string where
  "PASSWORD_NEEDS_ENGINE = ''Password sign-in needs the RivicQ engine. On this Pages build, use Interactive Demo (labelled sample data) or request an Enterprise workspace via sales@rivicq.com.''"

definition landing_path :: "sign_page \<Rightarrow> string" where
  "landing_path p = (if truthy_opt (sp_from p) then the (sp_from p) else ''/dashboard'')"

definition go :: "string \<Rightarrow> sign_page \<Rightarrow> sign_page" where
  "go path p = p\<lparr>sp_visits := sp_visits p @ [path]\<rparr>"

text \<open>The page, entered with a mode; the effect of a session that is already there; another mode of the route.\<close>

definition sign_init :: "sign_mode \<Rightarrow> auth_form \<Rightarrow> string option \<Rightarrow> sign_page" where
  "sign_init m f from =
     \<lparr>sp_mode = m, sp_loading = False, sp_error = JStr [], sp_confirmation = None, sp_mfa = None, sp_code = [],
      sp_form = f, sp_from = from, sp_visits = [], sp_tour = False\<rparr>"

definition session_effect :: "'a auth_scheme \<Rightarrow> sign_page \<Rightarrow> sign_page" where
  "session_effect a p = (if isAuthenticated a then go (landing_path p) p else p)"

definition enter_mode :: "sign_mode \<Rightarrow> sign_page \<Rightarrow> sign_page" where
  "enter_mode m p = p\<lparr>sp_mode := m, sp_error := JStr [], sp_confirmation := None\<rparr>"

definition change_tab :: "sign_mode \<Rightarrow> sign_page \<Rightarrow> sign_page" where
  "change_tab m p = p\<lparr>sp_mode := m, sp_mfa := None, sp_error := JStr []\<rparr>"

definition networkish :: "(rat \<Rightarrow> string) \<Rightarrow> failure \<Rightarrow> bool" where
  "networkish fmt f =
     list_ex (str_includes (str_lower (js_string fmt (js_or (js_or (fl_message f) (fl_code f)) (JStr [])))))
       [''network'', ''failed to fetch'', ''err_network'', ''timeout'', ''econnrefused'']"

definition submit_error :: "(rat \<Rightarrow> string) \<Rightarrow> 'a auth_scheme \<Rightarrow> sign_mode \<Rightarrow> failure \<Rightarrow> jval" where
  "submit_error fmt a m f =
     (if \<not> au_reachable a \<and> networkish fmt f then JStr PUBLIC_ENGINE_AUTH_COPY
      else error_text f (if m = RegisterMode then ''Registration failed'' else ''Authentication failed''))"

definition submit_result :: "sign_mode \<Rightarrow> login_result \<Rightarrow> sign_page \<Rightarrow> sign_page" where
  "submit_result m r p =
     (case r of
        MfaRequired sess email \<Rightarrow> p\<lparr>sp_mfa := Some (af_email (sp_form p), js_or sess (JStr [])), sp_code := []\<rparr>
      | ConfirmEmail email \<Rightarrow>
          (if m = RegisterMode
           then go (''/verify-email?email='' @ encodeURIComponent (af_email (sp_form p)))
                  (p\<lparr>sp_confirmation := Some (af_email (sp_form p))\<rparr>)
           else go (landing_path p) p)
      | SignedIn \<Rightarrow> go (landing_path p) p)"

text \<open>The call of the session a submit makes: the name and the profile only go into the request.\<close>

definition submit_call ::
  "(jval \<Rightarrow> string) \<Rightarrow> (rat \<Rightarrow> string) \<Rightarrow> bool \<Rightarrow> sign_mode \<Rightarrow> string \<Rightarrow> failure + jval
     \<Rightarrow> string + sb_user option \<Rightarrow> string + (sb_user option \<times> sb_session option) \<Rightarrow> sb_session option
     \<Rightarrow> 'a auth_scheme \<Rightarrow> (string + login_result) \<times> 'a auth_scheme" where
  "submit_call stringify fmt configured m email response answer sign_up sess a =
     (if m = RegisterMode then register stringify fmt configured email (au_edition a) (message_only fmt response) sign_up a
      else login stringify fmt configured email (message_only fmt response) answer sess a)"

definition register_name :: "auth_form \<Rightarrow> string" where
  "register_name f = or_str (displayName f) (hd (split_on (CHR ''@'') (af_email f)))"

definition handleSubmit ::
  "(jval \<Rightarrow> string) \<Rightarrow> (rat \<Rightarrow> string) \<Rightarrow> bool \<Rightarrow> failure + jval \<Rightarrow> string + sb_user option
     \<Rightarrow> string + (sb_user option \<times> sb_session option) \<Rightarrow> sb_session option \<Rightarrow> 'a auth_scheme \<times> sign_page
     \<Rightarrow> 'a auth_scheme \<times> sign_page" where
  "handleSubmit stringify fmt configured response answer sign_up sess ap =
     (let (a, p) = ap; q = p\<lparr>sp_loading := True, sp_error := JStr [], sp_confirmation := None\<rparr>; m = sp_mode p
      in if \<not> au_reachable a \<and> \<not> configured
         then (a, q\<lparr>sp_error := JStr (if isPaidEdition (au_edition a) then PUBLIC_ENGINE_ENTERPRISE_AUTH_COPY
                       else PASSWORD_NEEDS_ENGINE), sp_loading := False\<rparr>)
         else (case submit_call stringify fmt configured m (af_email (sp_form p)) response answer sign_up sess a of
                 (Inl e, a') \<Rightarrow> (a', q\<lparr>sp_error := submit_error fmt a m (thrown_by a response e), sp_loading := False\<rparr>)
               | (Inr r, a') \<Rightarrow> (a', (submit_result m r q)\<lparr>sp_loading := False\<rparr>)))"

definition handleMfaSubmit ::
  "(jval \<Rightarrow> string) \<Rightarrow> (rat \<Rightarrow> string) \<Rightarrow> failure + jval \<Rightarrow> 'a auth_scheme \<times> sign_page \<Rightarrow> 'a auth_scheme \<times> sign_page" where
  "handleMfaSubmit stringify fmt response ap =
     (let (a, p) = ap
      in case sp_mfa p of
           None \<Rightarrow> (a, p)
         | Some _ \<Rightarrow>
             (case verifyMfa stringify fmt (message_only fmt response) a of
                (Inl e, a') \<Rightarrow>
                  (a', p\<lparr>sp_error := error_text (case response of Inl f \<Rightarrow> f | Inr _ \<Rightarrow> thrown e) ''MFA verification failed'',
                         sp_loading := False\<rparr>)
              | (Inr _, a') \<Rightarrow> (a', go ''/dashboard'' (p\<lparr>sp_error := JStr [], sp_loading := False\<rparr>))))"

definition mfa_back :: "sign_page \<Rightarrow> sign_page" where
  "mfa_back p = p\<lparr>sp_mfa := None, sp_error := JStr []\<rparr>"

definition handleDemo ::
  "(jval \<Rightarrow> string) \<Rightarrow> (rat \<Rightarrow> string) \<Rightarrow> bool \<Rightarrow> failure + jval \<Rightarrow> 'a auth_scheme \<times> sign_page \<Rightarrow> 'a auth_scheme \<times> sign_page" where
  "handleDemo stringify fmt withTrail response ap =
     (let (a, p) = ap; q = p\<lparr>sp_error := JStr [], sp_loading := False\<rparr>
      in case demoLogin stringify fmt (message_only fmt response) a of
           (Some e, a') \<Rightarrow> (a', q\<lparr>sp_error := error_text (thrown_by a response e) ''Demo access unavailable''\<rparr>)
         | (None, a') \<Rightarrow> (a', if withTrail then q\<lparr>sp_tour := True\<rparr> else go ''/dashboard'' q))"

text \<open>A provider that is not configured or fails is an error; otherwise the browser leaves for its page.\<close>

datatype provider = GithubProvider | GoogleProvider

fun provider_key :: "provider \<Rightarrow> string" where
  "provider_key GithubProvider = ''github_oauth_enabled''"
| "provider_key GoogleProvider = ''google_oauth_enabled''"

fun provider_name :: "provider \<Rightarrow> string" where
  "provider_name GithubProvider = ''GitHub''"
| "provider_name GoogleProvider = ''Google''"

definition social_failed :: "provider \<Rightarrow> failure \<Rightarrow> sign_page \<Rightarrow> sign_page" where
  "social_failed pr f p =
     p\<lparr>sp_error := js_or (js_prop (fl_data f) ''message'') (JStr (provider_name pr @ '' OAuth not available''))\<rparr>"

definition socialLogin ::
  "(rat \<Rightarrow> string) \<Rightarrow> provider \<Rightarrow> failure + jval \<Rightarrow> failure + jval \<Rightarrow> sign_page \<Rightarrow> string option \<times> sign_page" where
  "socialLogin fmt pr status_answer login_answer p =
     (let q = p\<lparr>sp_error := JStr []\<rparr>
      in case status_answer of
           Inl f \<Rightarrow> (None, social_failed pr f q)
         | Inr d \<Rightarrow>
             (if d \<in> {JNull, JUndef} then (None, social_failed pr (thrown ''no body'') q)
              else if \<not> js_truthy (js_prop d (provider_key pr))
              then (None, q\<lparr>sp_error := JStr (provider_name pr @ '' OAuth is not configured on this deployment.'')\<rparr>)
              else case login_answer of
                     Inl f \<Rightarrow> (None, social_failed pr f q)
                   | Inr l \<Rightarrow>
                       (if l \<in> {JNull, JUndef} then (None, social_failed pr (thrown ''no body'') q)
                        else (Some (js_string fmt (js_prop l ''auth_url'')), q))))"

text \<open>The Supabase button, shown when Supabase is configured and the backend is away.\<close>

definition supabase_name :: "auth_form \<Rightarrow> string" where
  "supabase_name f = or_str (af_name f) (hd (split_on (CHR ''@'') (af_email f)))"

definition supabaseClick ::
  "(jval \<Rightarrow> string) \<Rightarrow> bool \<Rightarrow> string + sb_user option \<Rightarrow> string + (sb_user option \<times> sb_session option)
     \<Rightarrow> sb_session option \<Rightarrow> 'a auth_scheme \<times> sign_page \<Rightarrow> 'a auth_scheme \<times> sign_page" where
  "supabaseClick stringify configured answer sign_up sess ap =
     (let (a, p) = ap; q = p\<lparr>sp_error := JStr [], sp_loading := False\<rparr>
      in case (if sp_mode p = RegisterMode then supabaseRegister stringify configured (au_edition a) sign_up a
               else supabaseLogin stringify configured answer sess a) of
           (Inl e, a') \<Rightarrow> (a', q\<lparr>sp_error := js_or (JStr e) (JStr ''Supabase authentication failed'')\<rparr>)
         | (Inr (ConfirmEmail m), a') \<Rightarrow>
             (a', if sp_mode p = RegisterMode then q\<lparr>sp_confirmation := Some (af_email (sp_form p))\<rparr> else go ''/dashboard'' q)
         | (Inr _, a') \<Rightarrow> (a', go ''/dashboard'' q))"

section \<open>Passwords forgotten and reset\<close>

record forgot_page =
  fp_email :: string
  fp_message :: jval
  fp_demoToken :: jval
  fp_error :: jval

definition NO_RESET_HERE :: string where
  "NO_RESET_HERE = ''Password reset requires the RivicQ API. On GitHub Pages this is a static demo '' @ em_dash
     @ '' ask your operator, or run the backend locally.''"

definition forgot_submit :: "bool \<Rightarrow> failure + jval \<Rightarrow> forgot_page \<Rightarrow> forgot_page" where
  "forgot_submit reachable response p =
     (let q = p\<lparr>fp_error := JStr [], fp_message := JStr [], fp_demoToken := JStr []\<rparr>
      in if \<not> reachable then q\<lparr>fp_message := JStr NO_RESET_HERE\<rparr>
         else case response of
                Inl f \<Rightarrow> q\<lparr>fp_error := error_text f ''Unable to start password reset''\<rparr>
              | Inr d \<Rightarrow>
                  q\<lparr>fp_message := js_or (js_prop d ''message'') (JStr ''If an account exists, a reset was issued.''),
                    fp_demoToken := (if js_truthy (js_prop d ''demo_mode'') \<and> js_truthy (js_prop d ''reset_token'')
                      then js_prop d ''reset_token'' else JStr [])\<rparr>)"

record reset_page =
  rs_token :: string
  rs_password :: string
  rs_confirm :: string
  rs_error :: jval
  rs_done :: bool

definition reset_init :: "string option \<Rightarrow> reset_page" where
  "reset_init token =
     \<lparr>rs_token = (case token of None \<Rightarrow> [] | Some t \<Rightarrow> t), rs_password = [], rs_confirm = [], rs_error = JStr [], rs_done = False\<rparr>"

text \<open>What keeps the form from being sent, if anything; the button is disabled without a token.\<close>

definition reset_refused :: "bool \<Rightarrow> reset_page \<Rightarrow> string option" where
  "reset_refused reachable p =
     (if utf16_length (rs_password p) < 8 then Some ''Password must be at least 8 characters.''
      else if rs_password p \<noteq> rs_confirm p then Some ''Passwords do not match.''
      else if \<not> reachable then Some ''Password reset requires the RivicQ API.''
      else None)"

text \<open>The request sent, as the token and the password, and the page once it is answered.\<close>

definition reset_submit :: "bool \<Rightarrow> failure + jval \<Rightarrow> reset_page \<Rightarrow> (string \<times> string) option \<times> reset_page" where
  "reset_submit reachable response p =
     (if rs_token p = [] then (None, p)
      else case reset_refused reachable p of
             Some e \<Rightarrow> (None, p\<lparr>rs_error := JStr e\<rparr>)
           | None \<Rightarrow>
               (Some (rs_token p, rs_password p),
                (case response of
                   Inl f \<Rightarrow> p\<lparr>rs_error := error_text f ''Reset failed''\<rparr>
                 | Inr d \<Rightarrow> p\<lparr>rs_error := JStr [], rs_done := True\<rparr>)))"

definition verify_email_notes :: "bool \<Rightarrow> bool \<Rightarrow> bool \<times> bool" where
  "verify_email_notes reachable supabase = (reachable \<and> \<not> supabase, supabase)"

section \<open>The return from a provider\<close>

text \<open>A query parameter has been decoded already; \<open>decode\<close> decodes it once more, unless that fails.\<close>

definition decode_param :: "(rat \<Rightarrow> string) \<Rightarrow> jval \<Rightarrow> jval" where
  "decode_param fmt v =
     (if \<not> js_truthy v then JStr []
      else case decodeURIComponent (js_string fmt v) of None \<Rightarrow> v | Some s \<Rightarrow> JStr s)"

definition param :: "(string \<Rightarrow> string option) \<Rightarrow> string \<Rightarrow> jval" where
  "param q k = (case q k of None \<Rightarrow> JNull | Some v \<Rightarrow> JStr v)"

record callback_page =
  cb_error :: jval
  cb_visits :: "string list"

definition finish_failed :: string where
  "finish_failed = ''Failed to complete authentication. Please try logging in manually.''"

definition token_payload :: "jval \<Rightarrow> jval \<Rightarrow> jval \<Rightarrow> jval \<Rightarrow> jval" where
  "token_payload access refresh user e =
     JObj [(''access_token'', access), (''refresh_token'', refresh), (''user'', user), (''edition'', e)]"

definition loading_user :: jval where
  "loading_user = JObj [(''id'', JStr ''loading''), (''name'', JStr ''Loading...''), (''email'', JStr []), (''role'', JStr ''viewer'')]"

definition finishWithTokens ::
  "(jval \<Rightarrow> string) \<Rightarrow> (rat \<Rightarrow> string) \<Rightarrow> failure + jval \<Rightarrow> jval \<Rightarrow> jval \<Rightarrow> edition \<Rightarrow> jval option
     \<Rightarrow> 'a auth_scheme \<times> callback_page \<Rightarrow> 'a auth_scheme \<times> callback_page" where
  "finishWithTokens stringify fmt me access refresh e user ac =
     (let (a, c) = ac;
          failed = (\<lambda>b. (b, c\<lparr>cb_error := JStr finish_failed\<rparr>));
          done = (\<lambda>b. (b, c\<lparr>cb_visits := cb_visits c @ [''/dashboard'']\<rparr>));
          known = (case user of None \<Rightarrow> False | Some u \<Rightarrow> js_truthy (js_prop u ''id'') \<and> js_truthy (js_prop u ''name''))
      in if known
         then (let u = the user;
                   shown = JObj [(''id'', js_prop u ''id''), (''name'', decode_param fmt (js_prop u ''name'')),
                     (''email'', decode_param fmt (js_prop u ''email'')), (''role'', js_prop u ''role'')]
               in case completeAuth stringify fmt (token_payload access refresh shown (edition_json e)) a of
                    (Some _, b) \<Rightarrow> failed b
                  | (None, b) \<Rightarrow> done b)
         else case completeAuth stringify fmt (token_payload access refresh loading_user (edition_json e)) a of
                (Some _, b) \<Rightarrow> failed b
              | (None, b) \<Rightarrow>
                  (case me of
                     Inl _ \<Rightarrow> failed b
                   | Inr d \<Rightarrow>
                       (if d \<in> {JNull, JUndef} then failed b
                        else (let u = JObj [(''id'', js_prop d ''user_id''), (''name'', js_or (js_prop d ''name'') (js_prop d ''email'')),
                                (''email'', js_prop d ''email''), (''role'', js_prop d ''role'')]
                              in case completeAuth stringify fmt
                                     (token_payload access refresh u (js_or (js_prop d ''edition'') (edition_json e))) b of
                                   (Some _, b') \<Rightarrow> failed b'
                                 | (None, b') \<Rightarrow> done b'))))"

definition provider_denied :: "(rat \<Rightarrow> string) \<Rightarrow> failure + jval \<Rightarrow> (string \<Rightarrow> string option) \<Rightarrow> jval" where
  "provider_denied fmt google_status q =
     (let oauth_error = param q ''error'';
          description = js_or (decode_param fmt (param q ''error_description'')) oauth_error;
          mismatch = JStr (''Google OAuth redirect URI mismatch ('' @ js_string fmt description @ '').'')
      in if oauth_error = JStr ''redirect_uri_mismatch''
         then (case google_status of
                 Inr d \<Rightarrow>
                   (if js_truthy (js_prop d ''redirect_uri'')
                    then JStr (''Google OAuth redirect URI mismatch. Add this exact URI in Google Cloud Console '' @ arrow_sign
                      @ '' Credentials '' @ arrow_sign @ '' Authorized redirect URIs:'' @ [CHR 0x0A]
                      @ js_string fmt (js_prop d ''redirect_uri''))
                    else mismatch)
               | Inl _ \<Rightarrow> mismatch)
         else description)"

definition exchanged_user :: "jval \<Rightarrow> jval option" where
  "exchanged_user data =
     (let u = js_prop data ''user''
      in if js_truthy u
         then Some (JObj [(''id'', js_prop u ''id''), (''name'', js_prop u ''name''), (''email'', js_prop u ''email''),
           (''role'', js_or (js_prop u ''role'') (JStr ''viewer''))])
         else None)"

definition text_param :: "(string \<Rightarrow> string option) \<Rightarrow> string \<Rightarrow> string \<Rightarrow> jval" where
  "text_param q k fallback = js_or (param q k) (JStr fallback)"

definition OAuthCallback ::
  "(jval \<Rightarrow> string) \<Rightarrow> (rat \<Rightarrow> string) \<Rightarrow> failure + jval \<Rightarrow> failure + jval \<Rightarrow> failure + jval
     \<Rightarrow> (string \<Rightarrow> string option) \<Rightarrow> 'a auth_scheme \<times> callback_page \<Rightarrow> 'a auth_scheme \<times> callback_page" where
  "OAuthCallback stringify fmt google_status exchange me q ac =
     (let (a, c) = ac
      in if js_truthy (param q ''error'') then (a, c\<lparr>cb_error := provider_denied fmt google_status q\<rparr>)
         else if js_truthy (param q ''code'') \<and> js_truthy (param q ''state'')
         then (case exchange of
                 Inl f \<Rightarrow> (a, c\<lparr>cb_error := error_text f ''Google sign-in failed''\<rparr>)
               | Inr data \<Rightarrow>
                   (if data \<in> {JNull, JUndef}
                    then (a, c\<lparr>cb_error := JStr (''Cannot read properties of '' @ js_string fmt data @ '' (reading '' @ [CHR 0x27] @ ''access_token''
                      @ [CHR 0x27] @ '')'')\<rparr>)
                    else case normalize_any (js_prop data ''edition'') of
                           None \<Rightarrow> (a, c\<lparr>cb_error := JStr ''toLowerCase is not a function''\<rparr>)
                         | Some e \<Rightarrow>
                             finishWithTokens stringify fmt me (js_prop data ''access_token'') (js_prop data ''refresh_token'') e
                               (exchanged_user data) ac))
         else if \<not> js_truthy (param q ''access_token'')
         then (a, c\<lparr>cb_error := JStr ''No access token received from authentication provider. Please try again.''\<rparr>)
         else finishWithTokens stringify fmt me (param q ''access_token'') (param q ''refresh_token'')
                (normalizeEdition (q ''edition''))
                (Some (JObj [(''id'', text_param q ''user_id'' []), (''name'', text_param q ''user_name'' []),
                   (''email'', text_param q ''user_email'' []), (''role'', text_param q ''user_role'' ''viewer'')])) ac)"

section \<open>Lemmas\<close>

lemma score_bound: "st_score (passwordStrength pw) \<le> 4"
  by (simp add: passwordStrength_def Let_def)

lemma handleSubmit_settled: "\<not> sp_loading (snd (handleSubmit sf fmt c resp ans su sess (a, p)))"
  by (simp add: handleSubmit_def Let_def split: sum.splits prod.splits)

lemma submit_result_visits:
  "sp_visits (submit_result m r p) = sp_visits p \<or>
   (\<exists>path. sp_visits (submit_result m r p) = sp_visits p @ [path])"
  by (cases r) (auto simp: submit_result_def go_def)

lemma completeAuth_token:
  assumes "fst (completeAuth sf fmt payload a) = None"
  shows "au_token (snd (completeAuth sf fmt payload a)) =
    Some (js_string fmt (js_or (js_prop payload ''access_token'') (js_prop payload ''token'')))"
  using assms by (auto simp: completeAuth_def persist_def Let_def split: option.splits if_splits)

lemma complete_loading:
  assumes "t \<noteq> []"
  shows "\<exists>b. completeAuth sf fmt (token_payload (JStr t) refresh loading_user (edition_json e)) a = (None, b)
    \<and> au_token b = Some t \<and> js_prop (au_user b) ''name'' = JStr ''Loading...''"
proof -
  have n: "normalize_any (edition_json e) = Some e"
    by (cases e) (simp_all add: normalize_any_def edition_json_def normalizeEdition_def str_lower_def char_lower_def)
  have "js_truthy (edition_json e)" by (cases e) (simp_all add: edition_json_def)
  then show ?thesis
    using assms n by (simp add: completeAuth_def token_payload_def loading_user_def Let_def persist_def)
qed

interpretation auth_form: invariant_machine form_step "\<lambda>f. af_name f = []"
proof
  show "af_name f = [] \<Longrightarrow> af_name (form_step f e) = []" for f e by (cases e) simp_all
qed

lemma submit_call_mfa:
  "submit_call sf fmt c m email resp ans su sess a = (Inr (MfaRequired x y), a') \<Longrightarrow> a' = a"
  by (auto simp: submit_call_def register_def login_def complete_answer_def supabaseLogin_def supabaseRegister_def Let_def
      split: if_splits sum.splits prod.splits option.splits)

lemma submit_call_confirm:
  "submit_call sf fmt c m email resp ans su sess a = (Inr (ConfirmEmail x), a') \<Longrightarrow> m = RegisterMode \<and> a' = a"
  by (auto simp: submit_call_def register_def login_def complete_answer_def supabaseLogin_def supabaseRegister_def Let_def
      split: if_splits sum.splits prod.splits option.splits)

lemma engine_copies [simp]:
  "PUBLIC_ENGINE_ENTERPRISE_AUTH_COPY \<noteq> []" "PASSWORD_NEEDS_ENGINE \<noteq> []"
  by (simp_all add: PUBLIC_ENGINE_ENTERPRISE_AUTH_COPY_def PASSWORD_NEEDS_ENGINE_def)

section \<open>Properties\<close>

text \<open>C16: what a submit does to the page and the session, for every answer.  It always settles the page.
  Without an engine and without Supabase it leaves the session as it is, explains why and stays.  An
  answer of the engine that asks for a second factor signs nobody in: the session stays, the page stays
  and asks for the code.  Otherwise the outcome of the call decides: an error is shown and the page
  stays; a registration that awaits its confirmation leaves the session as it is and goes to the page
  that says so; and only a sign-in goes to the page that asked for it, or to the dashboard.\<close>

theorem submit_settles:
  assumes "handleSubmit sf fmt c resp ans su sess (a, p) = (a', p')"
  shows "\<not> sp_loading p'
    \<and> (\<not> au_reachable a \<and> \<not> c \<longrightarrow>
        a' = a \<and> sp_error p' \<noteq> JStr [] \<and> sp_visits p' = sp_visits p \<and> sp_mfa p' = sp_mfa p)
    \<and> (\<forall>data. au_reachable a \<and> resp = Inr data \<and> js_truthy (js_prop data ''mfa_required'') \<longrightarrow>
        a' = a \<and> sp_visits p' = sp_visits p \<and> sp_error p' = JStr [] \<and> sp_code p' = [] \<and>
        sp_mfa p' = Some (af_email (sp_form p), js_or (js_prop data ''mfa_session'') (JStr [])))
    \<and> (au_reachable a \<or> c \<longrightarrow>
        (case submit_call sf fmt c (sp_mode p) (af_email (sp_form p)) resp ans su sess a of
           (Inl e, b) \<Rightarrow> a' = b \<and> sp_visits p' = sp_visits p \<and> sp_mfa p' = sp_mfa p \<and>
             sp_error p' = submit_error fmt a (sp_mode p) (thrown_by a resp e)
         | (Inr SignedIn, b) \<Rightarrow> a' = b \<and> sp_error p' = JStr [] \<and> sp_mfa p' = sp_mfa p \<and>
             sp_visits p' = sp_visits p @ [if truthy_opt (sp_from p) then the (sp_from p) else ''/dashboard'']
         | (Inr (MfaRequired s m), b) \<Rightarrow> a' = a \<and> sp_visits p' = sp_visits p \<and> sp_error p' = JStr [] \<and>
             sp_mfa p' = Some (af_email (sp_form p), js_or s (JStr []))
         | (Inr (ConfirmEmail m), b) \<Rightarrow> sp_mode p = RegisterMode \<and> a' = a \<and> sp_error p' = JStr [] \<and>
             sp_confirmation p' = Some (af_email (sp_form p)) \<and>
             sp_visits p' = sp_visits p
               @ [''/verify-email?email='' @ encodeURIComponent (af_email (sp_form p))]))"
proof (cases "\<not> au_reachable a \<and> \<not> c")
  case True
  then show ?thesis using assms by (auto simp: handleSubmit_def Let_def split: if_splits)
next
  case False
  let ?call = "submit_call sf fmt c (sp_mode p) (af_email (sp_form p)) resp ans su sess a"
  obtain r b where s: "?call = (r, b)" by (rule prod.exhaust)
  have mfa: "r = Inr (MfaRequired (js_prop data ''mfa_session'') (af_email (sp_form p))) \<and> b = a"
    if "au_reachable a" "resp = Inr data" "js_truthy (js_prop data ''mfa_required'')" for data
    using that s by (auto simp: submit_call_def login_def register_def message_only_def split: if_splits)
  show ?thesis
  proof (cases r)
    case (Inl e)
    with assms False have "a' = b \<and> p' = p\<lparr>sp_confirmation := None,
        sp_error := submit_error fmt a (sp_mode p) (thrown_by a resp e), sp_loading := False\<rparr>"
      by (auto simp: handleSubmit_def Let_def s)
    with Inl mfa False show ?thesis unfolding s by auto
  next
    case (Inr x)
    have mb: "x = MfaRequired y z \<Longrightarrow> b = a" for y z
      using s Inr submit_call_mfa [of sf fmt c] by blast
    have cb: "x = ConfirmEmail y \<Longrightarrow> sp_mode p = RegisterMode \<and> b = a" for y
      using s Inr submit_call_confirm [of sf fmt c] by blast
    from assms False Inr have "a' = b \<and> p' = (submit_result (sp_mode p) x
        (p\<lparr>sp_loading := True, sp_error := JStr [], sp_confirmation := None\<rparr>))\<lparr>sp_loading := False\<rparr>"
      by (auto simp: handleSubmit_def Let_def s)
    with Inr mb cb mfa False show ?thesis
      unfolding s by (cases x) (auto simp: submit_result_def go_def landing_path_def)
  qed
qed

text \<open>The return from a provider that refused, or that brings neither a code with its state nor a token,
  leaves the session as it was.\<close>

theorem refused_callback_keeps_session:
  assumes "js_truthy (param q ''error'')
    \<or> \<not> (js_truthy (param q ''code'') \<and> js_truthy (param q ''state'')) \<and> \<not> js_truthy (param q ''access_token'')"
  shows "fst (OAuthCallback sf fmt status exchange me q (a, c)) = a
    \<and> cb_visits (snd (OAuthCallback sf fmt status exchange me q (a, c))) = cb_visits c"
  using assms by (auto simp: OAuthCallback_def)

text \<open>When the callback brings a token but no user, and the profile cannot be read, the page says that
  the sign-in failed and stays, yet the token is a session of the client from then on, under the name
  "Loading...".\<close>

theorem failed_callback_signs_in:
  assumes "q ''error'' = None" "q ''code'' = None" "q ''access_token'' = Some t" "t \<noteq> []" "q ''user_id'' = None"
  shows "case OAuthCallback sf fmt status exchange (Inl f) q (a, c) of
      (a', c') \<Rightarrow> cb_error c' = JStr finish_failed \<and> cb_visits c' = cb_visits c
        \<and> isAuthenticated a' \<and> au_token a' = Some t \<and> js_prop (au_user a') ''name'' = JStr ''Loading...''"
proof -
  obtain b where "completeAuth sf fmt (token_payload (JStr t) (param q ''refresh_token'') loading_user
      (edition_json (normalizeEdition (q ''edition'')))) a = (None, b)"
    "au_token b = Some t" "js_prop (au_user b) ''name'' = JStr ''Loading...''"
    using complete_loading [OF assms(4), of sf fmt "param q ''refresh_token''" "normalizeEdition (q ''edition'')" a]
    by (elim exE conjE) (rule that)
  then show ?thesis
    using assms by (simp add: OAuthCallback_def param_def finishWithTokens_def Let_def text_param_def isAuthenticated_def)
qed

text \<open>A password that meets all four rules, the best there is, is called weak and coloured as an error.\<close>

theorem strongest_password_weak:
  assumes "12 \<le> utf16_length pw" "list_ex is_lower_letter pw" "list_ex is_upper_letter pw"
    "list_ex is_digit_char pw" "list_ex is_symbol pw"
  shows "passwordStrength pw = \<lparr>st_score = 4, st_label = ''Weak'', st_color = ''error''\<rparr>"
  using assms by (simp add: passwordStrength_def Let_def)

text \<open>The Supabase button registers whatever the form says: the names filled in are not sent, only the part
  of the address before the @, and neither the confirmation of the password nor the terms are asked for.\<close>

theorem supabase_registers_unchecked:
  assumes "sp_form p = run form_step form_init es" "sp_mode p = RegisterMode"
  shows "supabase_name (sp_form p) = hd (split_on (CHR ''@'') (af_email (sp_form p)))
    \<and> fst (supabaseClick sf c ans su sess (a, p)) = snd (supabaseRegister sf c (au_edition a) su a)"
proof -
  have "af_name (sp_form p) = []"
    unfolding assms(1) by (rule auth_form.run_inv) (simp add: form_init_def)
  then show ?thesis
    using assms(2) by (simp add: supabase_name_def or_str_def supabaseClick_def Let_def split: prod.splits sum.splits login_result.splits)
qed

text \<open>A new password is sent exactly when there is a token, the password has eight characters, the
  confirmation is the same and the backend is there, and the page reports success only then.\<close>

theorem reset_guard:
  "(fst (reset_submit reachable resp p) = Some (t, w) \<longleftrightarrow>
      t = rs_token p \<and> w = rs_password p \<and> rs_token p \<noteq> [] \<and> 8 \<le> utf16_length (rs_password p)
      \<and> rs_password p = rs_confirm p \<and> reachable)
   \<and> (rs_done (snd (reset_submit reachable resp p)) \<longleftrightarrow>
      rs_done p \<or> fst (reset_submit reachable resp p) \<noteq> None \<and> resp \<in> range Inr)"
  by (auto simp: reset_submit_def reset_refused_def split: sum.splits option.splits if_splits)

text \<open>Witnesses.\<close>

definition ex_page :: sign_page where
  "ex_page = sign_init LoginMode (form_init\<lparr>af_email := ''a@b.c'', af_password := ''password''\<rparr>) None"

theorem submit_settles_witness:
  "sp_error (snd (handleSubmit unary_stringify (\<lambda>_. []) False (Inr JNull) (Inl []) (Inl []) None (ex_auth [] False, ex_page))) \<noteq> JStr []"
  using submit_settles [of unary_stringify "\<lambda>_. []" False "Inr JNull" "Inl []" "Inl []" None "ex_auth [] False" ex_page]
  by (cases "handleSubmit unary_stringify (\<lambda>_. []) False (Inr JNull) (Inl []) (Inl []) None (ex_auth [] False, ex_page)")
    (simp add: ex_auth_def)

theorem refused_callback_keeps_session_witness:
  "fst (OAuthCallback unary_stringify (\<lambda>_. []) (Inr JNull) (Inr JNull) (Inr JNull) (map_of [(''error'', ''access_denied'')])
     (ex_auth [] True, \<lparr>cb_error = JStr [], cb_visits = []\<rparr>)) = ex_auth [] True"
proof -
  have e: "js_truthy (param (map_of [(''error'', ''access_denied'')]) ''error'')" by (simp add: param_def)
  show ?thesis using refused_callback_keeps_session [OF disjI1 [OF e]] by blast
qed

theorem failed_callback_signs_in_witness:
  "case OAuthCallback unary_stringify (\<lambda>_. []) (Inr JNull) (Inr JNull) (Inl (thrown ''Network Error''))
      (map_of [(''access_token'', ''jwt'')]) (ex_auth [] True, \<lparr>cb_error = JStr [], cb_visits = []\<rparr>) of
    (a', c') \<Rightarrow> isAuthenticated a' \<and> au_token a' = Some ''jwt''"
  using failed_callback_signs_in [where q = "map_of [(''access_token'', ''jwt'')]" and t = "''jwt''" and sf = unary_stringify
      and fmt = "\<lambda>_. []" and status = "Inr JNull" and exchange = "Inr JNull" and f = "thrown ''Network Error''"
      and a = "ex_auth [] True" and c = "\<lparr>cb_error = JStr [], cb_visits = []\<rparr>"]
  by (simp split: prod.splits)

theorem strongest_password_weak_witness:
  "st_label (passwordStrength ''Correct-Horse-42'') = ''Weak''"
proof -
  have "12 \<le> utf16_length ''Correct-Horse-42''" "list_ex is_lower_letter ''Correct-Horse-42''"
    "list_ex is_upper_letter ''Correct-Horse-42''" "list_ex is_digit_char ''Correct-Horse-42''" "list_ex is_symbol ''Correct-Horse-42''"
    by code_simp+
  then show ?thesis by (simp add: strongest_password_weak)
qed

theorem supabase_registers_unchecked_witness:
  "supabase_name (run form_step form_init [FirstName ''Ada'', LastName ''Byron'', EmailField ''ada@x.org'']) = ''ada''"
proof -
  let ?f = "run form_step form_init [FirstName ''Ada'', LastName ''Byron'', EmailField ''ada@x.org'']"
  have p: "sp_form (sign_init RegisterMode ?f None) = ?f" "sp_mode (sign_init RegisterMode ?f None) = RegisterMode"
    by (simp_all add: sign_init_def)
  have "hd (split_on (CHR ''@'') (af_email ?f)) = ''ada''" by simp
  then show ?thesis using supabase_registers_unchecked [OF p] p(1) by metis
qed

end
