(* ===== verification/Home_Scan.thy ===== *)
theory Home_Scan
  imports Auth_Pages Github_Scan
begin

text \<open>
  The scan of the front page, web/src/pages/Home.tsx: what a target is, the start of the scan, the polls of its
  interval and the report shown.  A poll is answered before the next one is sent; the button is disabled while
  a scan runs.
\<close>

section \<open>The report\<close>

record home_detection =
  hd_title :: jval
  hd_severity :: jval
  hd_protocol :: jval

record home_algorithm =
  ha_name :: jval
  ha_count :: jval
  ha_quantumSafe :: jval
  ha_attackClass :: jval

record home_report =
  hr_target :: string
  hr_score :: jval
  hr_critical :: jval
  hr_high :: jval
  hr_medium :: jval
  hr_low :: jval
  hr_quantumRisk :: jval
  hr_qiskitEstate :: jval
  hr_auditScore :: jval
  hr_policyGate :: jval
  hr_resources :: jval
  hr_detections :: "home_detection list"
  hr_algorithms :: "home_algorithm list"

definition detection_of :: "jval \<Rightarrow> home_detection" where
  "detection_of f =
     \<lparr>hd_title = js_or (js_or (js_or (js_prop f ''title'') (js_prop f ''algorithm'')) (js_prop f ''finding_type'')) (JStr ''Finding''),
      hd_severity = js_prop f ''severity'', hd_protocol = js_or (js_prop f ''protocol'') (js_prop f ''scanner'')\<rparr>"

definition algorithm_of :: "jval \<Rightarrow> home_algorithm" where
  "algorithm_of a =
     \<lparr>ha_name = js_or (js_prop a ''name'') (js_prop a ''algorithm''), ha_count = js_prop a ''count'',
      ha_quantumSafe = js_coalesce (js_prop a ''quantum_safe'') (js_prop a ''quantumSafe''),
      ha_attackClass = js_or (js_prop a ''attack_class'') (js_prop a ''attackClass'')\<rparr>"

text \<open>\<open>None\<close> when it throws: an element without properties, or algorithms that are no array.\<close>

definition buildReport :: "string \<Rightarrow> jval \<Rightarrow> home_report option" where
  "buildReport target data =
     (let fs = js_or (js_or (js_prop data ''findings'') (js_prop data ''summary'')) (JObj []);
          items = js_or (js_or (js_or (js_prop data ''finding_items'') (js_prop data ''detections'')) (js_prop data ''intel_findings'')) (JArr []);
          resources = js_or (js_prop data ''resources'') (JObj []);
          qiskit = js_or (js_prop data ''qiskit'') (JObj []);
          audit = js_or (js_prop data ''audit_score'') (JObj []);
          algs = js_or (js_or (js_or (js_prop data ''algorithms'') (js_prop data ''crypto_findings'')) (js_prop qiskit ''algorithms'')) (JArr []);
          detected = take 12 (case array_items items of Some vs \<Rightarrow> vs | None \<Rightarrow> [])
      in if \<not> list_all not_null detected then None
         else case array_items algs of
                None \<Rightarrow> None
              | Some vs \<Rightarrow>
                  (if \<not> list_all not_null (take 12 vs) then None
                   else Some
                     \<lparr>hr_target = target,
                      hr_score = js_coalesce (js_coalesce (js_coalesce (js_prop data ''security_score'') (js_prop data ''score''))
                        (js_prop audit ''overall'')) (js_prop fs ''score''),
                      hr_critical = js_coalesce (js_prop fs ''critical'') (js_prop data ''critical''),
                      hr_high = js_coalesce (js_prop fs ''high'') (js_prop data ''high''),
                      hr_medium = js_coalesce (js_prop fs ''medium'') (js_prop data ''medium''),
                      hr_low = js_coalesce (js_prop fs ''low'') (js_prop data ''low''),
                      hr_quantumRisk = js_coalesce (js_coalesce (js_prop data ''quantum_risk'') (js_prop data ''quantumRisk''))
                        (js_prop audit ''quantum_risk''),
                      hr_qiskitEstate = js_coalesce (js_prop qiskit ''estate_score'') (js_prop audit ''qiskit_estate''),
                      hr_auditScore = js_prop audit ''overall'',
                      hr_policyGate = js_coalesce (js_prop (js_prop data ''gate'') ''decision'') (js_prop audit ''policy_gate''),
                      hr_resources = resources, hr_detections = map detection_of detected,
                      hr_algorithms = map algorithm_of (take 12 vs)\<rparr>))"

section \<open>Targets\<close>

definition word_char :: "char \<Rightarrow> bool" where
  "word_char c \<longleftrightarrow> is_lower_letter c \<or> is_upper_letter c \<or> is_digit c \<or> c \<in> {CHR ''_'', CHR ''.'', CHR ''-''}"

text \<open>\<open>/^[\w.-]+\.[a-z]{2,}(:\d+)?(\/.*)?$/i\<close>: the host ends at the first slash, its port starts at the first
  colon, and its last label is the one after its last dot.\<close>

definition host_like :: "string \<Rightarrow> bool" where
  "host_like v =
     (let host = takeWhile (\<lambda>c. c \<noteq> CHR ''/'') v; path = dropWhile (\<lambda>c. c \<noteq> CHR ''/'') v;
          name = takeWhile (\<lambda>c. c \<noteq> CHR '':'') host; port = dropWhile (\<lambda>c. c \<noteq> CHR '':'') host;
          label = rev (takeWhile (\<lambda>c. c \<noteq> CHR ''.'') (rev name));
          stem = take (length name - length label) name
      in list_all word_char name \<and> 2 \<le> length stem \<and> 2 \<le> length label
         \<and> list_all (\<lambda>c. is_lower_letter c \<or> is_upper_letter c) label
         \<and> (port = [] \<or> tl port \<noteq> [] \<and> list_all is_digit (tl port))
         \<and> \<not> list_ex (\<lambda>c. c \<in> {CHR 0x0A, CHR 0x0D}) path)"

definition isWebsiteTarget :: "string \<Rightarrow> bool" where
  "isWebsiteTarget v \<longleftrightarrow> list_ex (starts_with (str_lower v)) [''http://'', ''https://'', ''www.''] \<or> host_like v"

text \<open>\<open>/github\.com[:/]+([^/]+)\/([^/#\s]+)/i\<close>: the separators give back characters when the rest does not match.\<close>

definition owner_repo :: "string \<Rightarrow> (string \<times> string) option" where
  "owner_repo r =
     (let owner = takeWhile (\<lambda>c. c \<noteq> CHR ''/'') r
      in case dropWhile (\<lambda>c. c \<noteq> CHR ''/'') r of
           [] \<Rightarrow> None
         | _ # u \<Rightarrow>
             (let repo = takeWhile (\<lambda>c. c \<notin> {CHR ''/'', CHR ''#''} \<and> \<not> is_space c) u
              in if owner = [] \<or> repo = [] then None else Some (owner, repo)))"

fun after_separators :: "nat \<Rightarrow> string \<Rightarrow> (string \<times> string) option" where
  "after_separators 0 s = None"
| "after_separators (Suc n) s =
     (case owner_repo (drop (Suc n) s) of Some m \<Rightarrow> Some m | None \<Rightarrow> after_separators n s)"

fun github_match :: "string \<Rightarrow> (string \<times> string) option" where
  "github_match [] = None"
| "github_match (c # s) =
     (let here = (if starts_with (str_lower (c # s)) ''github.com''
        then (let rest = drop 10 (c # s)
              in after_separators (length (takeWhile (\<lambda>c. c \<in> {CHR '':'', CHR ''/''}) rest)) rest)
        else None)
      in case here of Some m \<Rightarrow> Some m | None \<Rightarrow> github_match s)"

definition strip_git :: "string \<Rightarrow> string" where
  "strip_git r = (if ends_with r ''.git'' then take (length r - 4) r else r)"

definition githubSpec :: "string \<Rightarrow> string" where
  "githubSpec target =
     (case github_match target of
        Some (owner, repo) \<Rightarrow> owner @ ''/'' @ strip_git repo
      | None \<Rightarrow>
          (case split_on (CHR ''/'') target of
             [owner, repo] \<Rightarrow> if owner \<noteq> [] \<and> repo \<noteq> [] \<and> list_all word_char (owner @ repo) then target else []
           | _ \<Rightarrow> []))"

section \<open>The scan\<close>

datatype scan_status = IdleScan | Scanning | CompleteScan | FailedScan

datatype poll_kind = GithubPoll string | WebPoll string

text \<open>An interval: what it polls, the id of the scan and its ticks so far.\<close>

record interval =
  iv_kind :: poll_kind
  iv_scan :: jval
  iv_ticks :: nat

record home =
  hs_status :: scan_status
  hs_url :: string
  hs_progress :: jval
  hs_report :: "home_report option"
  hs_poll :: "interval option"
  hs_visits :: "string list"

definition home_init :: home where
  "home_init = \<lparr>hs_status = IdleScan, hs_url = [], hs_progress = JNum (num 0), hs_report = None, hs_poll = None, hs_visits = []\<rparr>"

definition scan_target :: "bool \<Rightarrow> string \<Rightarrow> string" where
  "scan_target reachable url = or_str (str_trim url) (if \<not> reachable then ''https://demo.example.com'' else [])"

text \<open>The request that starts a scan, and what its interval polls.\<close>

definition scan_request :: "string \<Rightarrow> api_request" where
  "scan_request target =
     (let spec = githubSpec target
      in if spec \<noteq> [] then gitHubScanService_scanRepos [spec] (Some ''full'') (Some False)
         else cbomService_triggerScan target (if isWebsiteTarget target then ''website'' else ''cbom'') (JObj []))"

definition poll_of :: "string \<Rightarrow> poll_kind" where
  "poll_of target = (let spec = githubSpec target in if spec \<noteq> [] then GithubPoll spec else WebPoll target)"

definition scan_in_demo ::
  "(jval \<Rightarrow> string) \<Rightarrow> (rat \<Rightarrow> string) \<Rightarrow> string \<Rightarrow> 'a auth_scheme \<times> home \<Rightarrow> 'a auth_scheme \<times> home" where
  "scan_in_demo stringify fmt target ah =
     (let (a, h) = ah;
          h1 = h\<lparr>hs_url := (if str_trim (hs_url h) = [] then target else hs_url h), hs_status := Scanning,
                 hs_progress := JNum (num 10), hs_report := None\<rparr>;
          (err, a') = (if isDemo a then (None, a) else demoLogin stringify fmt (Inl []) a)
      in case err of
           None \<Rightarrow> (a', h1\<lparr>hs_visits := hs_visits h1 @ [''/scanner?target='' @ encodeURIComponent target @ ''&autostart=1'']\<rparr>)
         | Some _ \<Rightarrow> (a', h1\<lparr>hs_status := FailedScan, hs_progress := JNum (num 0)\<rparr>))"

definition handleScan ::
  "(jval \<Rightarrow> string) \<Rightarrow> (rat \<Rightarrow> string) \<Rightarrow> failure + jval \<Rightarrow> 'a auth_scheme \<times> home \<Rightarrow> 'a auth_scheme \<times> home" where
  "handleScan stringify fmt response ah =
     (let (a, h) = ah; target = scan_target (au_reachable a) (hs_url h)
      in if target = [] \<or> hs_status h = Scanning then (a, h)
         else if \<not> au_reachable a then scan_in_demo stringify fmt target (a, h)
         else (let h1 = h\<lparr>hs_status := Scanning, hs_progress := JNum (num 5), hs_report := None\<rparr>
               in case response of
                    Inl _ \<Rightarrow> (a, h1\<lparr>hs_status := FailedScan\<rparr>)
                  | Inr d \<Rightarrow>
                      (if \<not> not_null d then (a, h1\<lparr>hs_status := FailedScan\<rparr>)
                       else (a, h1\<lparr>hs_poll := Some \<lparr>iv_kind = poll_of target, iv_scan = js_prop d ''scan_id'', iv_ticks = 0\<rparr>\<rparr>))))"

section \<open>The polls\<close>

definition stop_with :: "scan_status \<Rightarrow> home \<Rightarrow> home" where
  "stop_with st h = h\<lparr>hs_poll := None, hs_status := st\<rparr>"

definition DONE_STATUSES :: "string list" where
  "DONE_STATUSES = [''completed'', ''failed'', ''completed_with_warnings'', ''partial'']"

definition status_in :: "string list \<Rightarrow> jval \<Rightarrow> bool" where
  "status_in ss d \<longleftrightarrow> (case js_prop d ''status'' of JStr s \<Rightarrow> s \<in> set ss | _ \<Rightarrow> False)"

definition github_data :: "(rat \<Rightarrow> string) \<Rightarrow> jval \<Rightarrow> jval" where
  "github_data fmt status =
     (let repo = js_or (first_of (js_prop status ''repos'')) status; ready = js_prop repo ''pqc_readiness''
      in JObj [(''findings'', js_prop repo ''summary''), (''algorithms'', js_prop repo ''cbom''),
           (''quantum_risk'', if not_null ready then JNum (js_add (num 100) (js_mul (num (-1)) (js_number fmt ready))) else JUndef),
           (''score'', ready)])"

definition github_tick :: "(rat \<Rightarrow> string) \<Rightarrow> string \<Rightarrow> nat \<Rightarrow> failure + jval \<Rightarrow> home \<Rightarrow> home" where
  "github_tick fmt spec ticks answer h =
     (case answer of
        Inl _ \<Rightarrow> stop_with FailedScan h
      | Inr status \<Rightarrow>
          (let h1 = h\<lparr>hs_progress := JNum (num (min 95 (int ticks * 12)))\<rparr>
           in if \<not> not_null status then stop_with FailedScan h1
              else if status_in DONE_STATUSES status \<or> ticks > 40
              then (if js_prop status ''status'' = JStr ''failed'' then stop_with FailedScan h1
                    else case buildReport spec (github_data fmt status) of
                           None \<Rightarrow> stop_with FailedScan h1
                         | Some r \<Rightarrow> stop_with CompleteScan (h1\<lparr>hs_report := Some r, hs_progress := JNum (num 100)\<rparr>))
              else h1))"

text \<open>The three requests after a completed scan; one that fails counts as no answer.\<close>

definition body_or :: "failure + jval \<Rightarrow> jval \<Rightarrow> jval" where
  "body_or r dflt = (case r of Inl _ \<Rightarrow> dflt | Inr d \<Rightarrow> js_or d dflt)"

definition web_data :: "jval \<Rightarrow> failure + jval \<Rightarrow> failure + jval \<Rightarrow> failure + jval \<Rightarrow> jval" where
  "web_data status report intel_answer qiskit_answer =
     (let rep = body_or report status; intel = body_or intel_answer (JObj []); qk = body_or qiskit_answer (JObj []);
          qiskit = js_or (js_prop qk ''qiskit'') (js_prop intel ''qiskit'')
      in spread (spread (JObj (own_entries status)) (own_entries rep))
           [(''findings'', js_or (js_prop status ''findings'') (js_prop intel ''summary'')),
            (''finding_items'', js_or (js_prop status ''finding_items'') (js_prop rep ''findings'')),
            (''resources'', js_or (js_prop status ''resources'') (js_prop qk ''resources'')),
            (''qiskit'', qiskit),
            (''audit_score'', js_or (js_prop qk ''audit_score'') (js_prop intel ''audit_score'')),
            (''gate'', js_prop intel ''gate''),
            (''algorithms'', js_prop qiskit ''algorithms'')])"

definition web_report :: "string \<Rightarrow> jval \<Rightarrow> failure + jval \<Rightarrow> failure + jval \<Rightarrow> failure + jval \<Rightarrow> home_report option" where
  "web_report target status report intel qiskit =
     (case buildReport target (web_data status report intel qiskit) of
        Some r \<Rightarrow> Some r
      | None \<Rightarrow> buildReport target status)"

definition web_tick ::
  "string \<Rightarrow> nat \<Rightarrow> failure + jval \<Rightarrow> (failure + jval) \<times> (failure + jval) \<times> (failure + jval) \<Rightarrow> home \<Rightarrow> home" where
  "web_tick target ticks answer extra h =
     (case answer of
        Inl _ \<Rightarrow> stop_with FailedScan h
      | Inr status \<Rightarrow>
          (if \<not> not_null status then stop_with FailedScan h
           else (let h1 = h\<lparr>hs_progress := js_or (js_prop status ''progress'') (JNum (num (min 90 (int ticks * 12))))\<rparr>
                 in if js_prop status ''status'' = JStr ''completed''
                    then (case web_report target status (fst extra) (fst (snd extra)) (snd (snd extra)) of
                            None \<Rightarrow> stop_with FailedScan h1
                          | Some r \<Rightarrow> stop_with CompleteScan (h1\<lparr>hs_report := Some r\<rparr>))
                    else if js_prop status ''status'' = JStr ''failed'' then stop_with FailedScan h1
                    else h1)))"

text \<open>A tick of the interval, with the answers to the requests it makes.\<close>

type_synonym poll_answers = "(failure + jval) \<times> (failure + jval) \<times> (failure + jval) \<times> (failure + jval)"

definition home_tick :: "(rat \<Rightarrow> string) \<Rightarrow> home \<Rightarrow> poll_answers \<Rightarrow> home" where
  "home_tick fmt h ans =
     (case hs_poll h of
        None \<Rightarrow> h
      | Some iv \<Rightarrow>
          (let n = iv_ticks iv + 1; h1 = h\<lparr>hs_poll := Some (iv\<lparr>iv_ticks := n\<rparr>)\<rparr>
           in case iv_kind iv of
                GithubPoll spec \<Rightarrow> github_tick fmt spec n (fst ans) h1
              | WebPoll target \<Rightarrow> web_tick target n (fst ans) (snd ans) h1))"

section \<open>Lemmas\<close>

lemma stop_with_sel [simp]: "hs_poll (stop_with st h) = None" "hs_status (stop_with st h) = st" "hs_report (stop_with st h) = hs_report h"
  "hs_progress (stop_with st h) = hs_progress h"
  by (simp_all add: stop_with_def)

lemma home_run_stopped [simp]: "hs_poll h = None \<Longrightarrow> run (home_tick fmt) h as = h"
  by (induction as) (simp_all add: home_tick_def)

definition ended :: "home \<Rightarrow> bool" where
  "ended h \<longleftrightarrow> hs_poll h = None \<and> hs_status h \<in> {CompleteScan, FailedScan}"

lemma github_tick_cases:
  "ended (github_tick fmt spec n ans h) \<or> n \<le> 40 \<and> hs_poll (github_tick fmt spec n ans h) = hs_poll h"
  by (auto simp: github_tick_def ended_def Let_def split: sum.splits option.splits)

lemma github_run_ends:
  assumes "hs_poll h = Some \<lparr>iv_kind = GithubPoll spec, iv_scan = i, iv_ticks = n\<rparr>" "40 < n + length as"
    "n \<le> 40"
  shows "ended (run (home_tick fmt) h as)"
  using assms
proof (induction as arbitrary: h n)
  case (Cons x as)
  let ?h = "home_tick fmt h x"
  have h: "?h = github_tick fmt spec (n + 1) (fst x) (h\<lparr>hs_poll := Some \<lparr>iv_kind = GithubPoll spec, iv_scan = i, iv_ticks = n + 1\<rparr>\<rparr>)"
    using Cons.prems(1) by (simp add: home_tick_def)
  show ?case
  proof (cases "ended ?h")
    case True
    then show ?thesis by (simp add: ended_def)
  next
    case False
    then have "n + 1 \<le> 40 \<and> hs_poll ?h = Some \<lparr>iv_kind = GithubPoll spec, iv_scan = i, iv_ticks = n + 1\<rparr>"
      using github_tick_cases [of fmt spec "n + 1" "fst x"
        "h\<lparr>hs_poll := Some \<lparr>iv_kind = GithubPoll spec, iv_scan = i, iv_ticks = n + 1\<rparr>\<rparr>"] unfolding h by simp
    then show ?thesis using Cons.IH [of ?h "n + 1"] Cons.prems(2) by simp
  qed
qed simp

lemma github_running:
  assumes "hs_poll h = Some \<lparr>iv_kind = GithubPoll spec, iv_scan = i, iv_ticks = n\<rparr>" "n + k \<le> 40"
    "not_null d" "\<not> status_in DONE_STATUSES d"
  shows "hs_poll (run (home_tick fmt) h (replicate k (Inr d, extra))) =
    Some \<lparr>iv_kind = GithubPoll spec, iv_scan = i, iv_ticks = n + k\<rparr>"
  using assms
proof (induction k arbitrary: h n)
  case (Suc k)
  let ?h = "home_tick fmt h (Inr d, extra)"
  have "hs_poll ?h = Some \<lparr>iv_kind = GithubPoll spec, iv_scan = i, iv_ticks = n + 1\<rparr>"
    using Suc.prems by (simp add: home_tick_def github_tick_def Let_def)
  then show ?case using Suc.IH [of ?h "n + 1"] Suc.prems by simp
qed simp

lemma web_running:
  assumes "hs_poll h = Some \<lparr>iv_kind = WebPoll target, iv_scan = i, iv_ticks = n\<rparr>" "hs_status h = Scanning"
    "not_null d" "\<not> status_in [''completed'', ''failed''] d"
  shows "hs_poll (run (home_tick fmt) h (replicate k (Inr d, extra))) =
      Some \<lparr>iv_kind = WebPoll target, iv_scan = i, iv_ticks = n + k\<rparr>
    \<and> hs_status (run (home_tick fmt) h (replicate k (Inr d, extra))) = Scanning"
  using assms
proof (induction k arbitrary: h n)
  case (Suc k)
  let ?h = "home_tick fmt h (Inr d, extra)"
  have "js_prop d ''status'' \<noteq> JStr ''completed''" "js_prop d ''status'' \<noteq> JStr ''failed''"
    using Suc.prems(4) by (auto simp: status_in_def)
  then have "hs_poll ?h = Some \<lparr>iv_kind = WebPoll target, iv_scan = i, iv_ticks = n + 1\<rparr> \<and> hs_status ?h = Scanning"
    using Suc.prems by (simp add: home_tick_def web_tick_def Let_def)
  then show ?case using Suc.IH [of ?h "n + 1"] Suc.prems by simp
qed simp

section \<open>Properties\<close>

text \<open>C22: the scan of a repository started on the front page ends within forty-one polls, with a report or as
  failed, whatever the answers.\<close>

theorem home_github_scan_ends:
  assumes "hs_poll h = Some \<lparr>iv_kind = GithubPoll spec, iv_scan = i, iv_ticks = 0\<rparr>" "41 \<le> length as"
  shows "hs_poll (run (home_tick fmt) h as) = None
    \<and> hs_status (run (home_tick fmt) h as) \<in> {CompleteScan, FailedScan}"
  using github_run_ends [OF assms(1), of as fmt] assms(2) by (simp add: ended_def)

text \<open>A scan of a repository that is still running at its forty-first poll is shown as complete, with
  progress 100 and a report of what there was.\<close>

theorem unfinished_scan_complete:
  assumes "hs_poll h = Some \<lparr>iv_kind = GithubPoll spec, iv_scan = i, iv_ticks = 0\<rparr>" "not_null d"
    "\<not> status_in DONE_STATUSES d" "buildReport spec (github_data fmt d) = Some r"
  shows "case run (home_tick fmt) h (replicate 41 (Inr d, extra)) of
      h' \<Rightarrow> hs_status h' = CompleteScan \<and> hs_progress h' = JNum (num 100) \<and> hs_report h' = Some r"
proof -
  let ?g = "run (home_tick fmt) h (replicate 40 (Inr d, extra))"
  have g: "hs_poll ?g = Some \<lparr>iv_kind = GithubPoll spec, iv_scan = i, iv_ticks = 40\<rparr>"
    using github_running [OF assms(1), of 40 d fmt extra] assms(2,3) by simp
  have f: "js_prop d ''status'' \<noteq> JStr ''failed''" using assms(3) by (auto simp: status_in_def DONE_STATUSES_def)
  have "replicate 41 x = replicate 40 x @ [x]" for x :: poll_answers
    by (simp add: replicate_append_same [symmetric] numeral_eq_Suc)
  then have "run (home_tick fmt) h (replicate 41 (Inr d, extra)) = home_tick fmt ?g (Inr d, extra)"
    by (simp only: run_simps)
  then show ?thesis using g f assms(2,4) by (simp add: home_tick_def github_tick_def Let_def)
qed

text \<open>The scan of any other target has no such bound: while the backend says it is running it is polled
  for ever.\<close>

theorem home_web_scan_unbounded:
  assumes "hs_poll h = Some \<lparr>iv_kind = WebPoll target, iv_scan = i, iv_ticks = 0\<rparr>" "hs_status h = Scanning"
    "not_null d" "\<not> status_in [''completed'', ''failed''] d"
  shows "hs_poll (run (home_tick fmt) h (replicate k (Inr d, extra))) \<noteq> None
    \<and> hs_status (run (home_tick fmt) h (replicate k (Inr d, extra))) = Scanning"
  using web_running [OF assms, of fmt k extra] by simp

text \<open>Without a backend a scan of the front page asks no server: it leaves a demo session and opens the
  scanner with the target, and polls nothing.\<close>

theorem offline_scan_is_demo:
  assumes "\<not> au_reachable a" "hs_status h \<noteq> Scanning" "handleScan sf fmt resp (a, h) = (a', h')"
  shows "isDemo a' \<and> hs_poll h' = hs_poll h
    \<and> hs_visits h' = hs_visits h @ [''/scanner?target='' @ encodeURIComponent (scan_target False (hs_url h)) @ ''&autostart=1'']"
proof -
  have t: "scan_target False (hs_url h) \<noteq> []" by (simp add: scan_target_def or_str_def)
  have "fst (demoLogin sf fmt (Inl []) a) = None" "isDemo (snd (demoLogin sf fmt (Inl []) a))"
    using assms(1) by (simp_all add: demoLogin_def Let_def isDemo_def isClientDemoToken_def)
  then show ?thesis
    using assms t by (auto simp: handleScan_def scan_in_demo_def Let_def split: prod.splits if_splits)
qed

text \<open>Witnesses.\<close>

definition ex_running :: jval where "ex_running = JObj [(''status'', JStr ''running'')]"

definition ex_github :: home where
  "ex_github = home_init\<lparr>hs_status := Scanning,
     hs_poll := Some \<lparr>iv_kind = GithubPoll ''o/r'', iv_scan = JStr ''s1'', iv_ticks = 0\<rparr>\<rparr>"

definition ex_web :: home where
  "ex_web = home_init\<lparr>hs_status := Scanning,
     hs_poll := Some \<lparr>iv_kind = WebPoll ''x.org'', iv_scan = JStr ''s1'', iv_ticks = 0\<rparr>\<rparr>"

definition no_extra :: "(failure + jval) \<times> (failure + jval) \<times> (failure + jval)" where
  "no_extra = (Inr JNull, Inr JNull, Inr JNull)"

lemma ex_running_facts: "not_null ex_running" "\<not> status_in DONE_STATUSES ex_running" "\<not> status_in [''completed'', ''failed''] ex_running"
  by code_simp+

theorem home_github_scan_ends_witness:
  "hs_poll (run (home_tick (\<lambda>_. [])) ex_github (replicate 41 (Inr ex_running, no_extra))) = None"
proof -
  have p: "hs_poll ex_github = Some \<lparr>iv_kind = GithubPoll ''o/r'', iv_scan = JStr ''s1'', iv_ticks = 0\<rparr>" by (simp add: ex_github_def)
  show ?thesis using home_github_scan_ends [OF p, of "replicate 41 (Inr ex_running, no_extra)"] by simp
qed

theorem unfinished_scan_complete_witness:
  "hs_status (run (home_tick (\<lambda>_. [])) ex_github (replicate 41 (Inr ex_running, no_extra))) = CompleteScan"
proof -
  have p: "hs_poll ex_github = Some \<lparr>iv_kind = GithubPoll ''o/r'', iv_scan = JStr ''s1'', iv_ticks = 0\<rparr>" by (simp add: ex_github_def)
  obtain r where "buildReport ''o/r'' (github_data (\<lambda>_. []) ex_running) = Some r"
    by (simp add: buildReport_def github_data_def ex_running_def Let_def not_null_def)
  then show ?thesis using unfinished_scan_complete [OF p ex_running_facts(1,2), of "\<lambda>_. []" r no_extra] by simp
qed

theorem home_web_scan_unbounded_witness:
  "hs_status (run (home_tick (\<lambda>_. [])) ex_web (replicate 1000 (Inr ex_running, no_extra))) = Scanning"
proof -
  have p: "hs_poll ex_web = Some \<lparr>iv_kind = WebPoll ''x.org'', iv_scan = JStr ''s1'', iv_ticks = 0\<rparr>" "hs_status ex_web = Scanning"
    by (simp_all add: ex_web_def)
  show ?thesis using home_web_scan_unbounded [OF p ex_running_facts(1,3), of "\<lambda>_. []" 1000 no_extra] by blast
qed

theorem offline_scan_is_demo_witness:
  "isDemo (fst (handleScan unary_stringify (\<lambda>_. []) (Inr JNull) (ex_auth [] False, home_init)))"
proof -
  have h: "\<not> au_reachable (ex_auth [] False)" "hs_status home_init \<noteq> Scanning" by (simp_all add: ex_auth_def home_init_def)
  show ?thesis
    using offline_scan_is_demo [OF h prod.collapse [symmetric], of unary_stringify "\<lambda>_. []" "Inr JNull"] by blast
qed

end
