(* ===== verification/Account_Pages.thy ===== *)
theory Account_Pages
  imports Auth_Pages Api_Services Roles
begin

text \<open>
  web/src/pages/Settings.tsx and Admin.tsx: the profile, the second factor and the password of the user, and the
  members, keys, webhooks and SSO of a workspace.  A handler is one step with the answers to the requests it
  makes, which are recorded.
\<close>

section \<open>Settings\<close>

record account =
  ac_reachable :: bool
  ac_demo :: bool
  ac_edition :: edition

record settings =
  se_name :: string
  se_profileMsg :: string
  se_profileErr :: jval
  se_mfaEnabled :: bool
  se_mfaSecret :: jval
  se_mfaUri :: jval
  se_mfaCode :: string
  se_mfaMsg :: string
  se_mfaErr :: jval
  se_current :: string
  se_next :: string
  se_confirm :: string
  se_pwMsg :: string
  se_pwErr :: jval

type_synonym outcome = "failure + jval"

text \<open>The requests of a handler, in their order, and the page after it.\<close>

type_synonym handled = "api_request list \<times> settings"

definition settings_init :: "string \<Rightarrow> bool \<Rightarrow> settings" where
  "settings_init name mfa =
     \<lparr>se_name = name, se_profileMsg = [], se_profileErr = JStr [], se_mfaEnabled = mfa, se_mfaSecret = JStr [], se_mfaUri = JStr [],
      se_mfaCode = [], se_mfaMsg = [], se_mfaErr = JStr [], se_current = [], se_next = [], se_confirm = [], se_pwMsg = [],
      se_pwErr = JStr []\<rparr>"

text \<open>The effect that follows the profile of the session.\<close>

definition follow_profile :: "string \<Rightarrow> bool \<Rightarrow> settings \<Rightarrow> settings" where
  "follow_profile name mfa s = s\<lparr>se_name := name, se_mfaEnabled := mfa\<rparr>"

text \<open>\<open>patch\<close> is what updateProfile throws, if anything.\<close>

definition saveProfile :: "account \<Rightarrow> failure option \<Rightarrow> settings \<Rightarrow> bool \<times> settings" where
  "saveProfile v patch s =
     (let q = s\<lparr>se_profileErr := JStr [], se_profileMsg := []\<rparr>
      in if \<not> ac_reachable v \<or> ac_demo v
         then (False, q\<lparr>se_profileErr := JStr (if ac_demo v then ''Demo sessions cannot persist profile changes.''
                 else ''Profile updates require the RivicQ API.'')\<rparr>)
         else (True, case patch of
                 None \<Rightarrow> q\<lparr>se_profileMsg := ''Display name saved.''\<rparr>
               | Some f \<Rightarrow> q\<lparr>se_profileErr := error_text f ''Unable to save profile''\<rparr>))"

definition startMfa :: "account \<Rightarrow> outcome \<Rightarrow> settings \<Rightarrow> handled" where
  "startMfa v setup s =
     (let q = s\<lparr>se_mfaErr := JStr [], se_mfaMsg := []\<rparr>
      in if \<not> ac_reachable v \<or> ac_demo v
         then ([], q\<lparr>se_mfaErr := JStr ''MFA enrollment requires a live API session. Demo mode does not store TOTP secrets.''\<rparr>)
         else ([authService_mfaSetup], case setup of
                 Inl f \<Rightarrow> q\<lparr>se_mfaErr := error_text f ''Unable to start MFA setup''\<rparr>
               | Inr d \<Rightarrow> q\<lparr>se_mfaSecret := js_or (js_prop d ''secret'') (JStr []),
                   se_mfaUri := js_or (js_prop d ''provisioning_uri'') (JStr []),
                   se_mfaMsg := ''Add the secret to your authenticator, then confirm with a 6-digit code.''\<rparr>))"

text \<open>After a change of the second factor the profile is read again, which may fail on its own.\<close>

definition after_refresh :: "failure option \<Rightarrow> string \<Rightarrow> settings \<Rightarrow> settings" where
  "after_refresh refresh fallback s = (case refresh of None \<Rightarrow> s | Some f \<Rightarrow> s\<lparr>se_mfaErr := error_text f fallback\<rparr>)"

definition confirmMfa :: "outcome \<Rightarrow> failure option \<Rightarrow> settings \<Rightarrow> handled" where
  "confirmMfa confirm refresh s =
     (let q = s\<lparr>se_mfaErr := JStr []\<rparr>
      in ([authService_mfaConfirm (JObj [(''secret'', se_mfaSecret s), (''code'', JStr (str_trim (se_mfaCode s)))])],
          case confirm of
            Inl f \<Rightarrow> q\<lparr>se_mfaErr := error_text f ''Unable to confirm MFA''\<rparr>
          | Inr d \<Rightarrow> after_refresh refresh ''Unable to confirm MFA''
              (q\<lparr>se_mfaEnabled := True, se_mfaSecret := JStr [], se_mfaUri := JStr [], se_mfaCode := [],
                 se_mfaMsg := ''MFA is enabled for this account.''\<rparr>)))"

definition disableMfa :: "outcome \<Rightarrow> failure option \<Rightarrow> settings \<Rightarrow> handled" where
  "disableMfa answer refresh s =
     (let q = s\<lparr>se_mfaErr := JStr []\<rparr>; code = str_trim (se_mfaCode s)
      in if code = [] then ([], q\<lparr>se_mfaErr := JStr ''Enter a current authenticator code to disable MFA.''\<rparr>)
         else ([authService_mfaDisable code],
               case answer of
                 Inl f \<Rightarrow> q\<lparr>se_mfaErr := error_text f ''Unable to disable MFA''\<rparr>
               | Inr d \<Rightarrow> after_refresh refresh ''Unable to disable MFA''
                   (q\<lparr>se_mfaEnabled := False, se_mfaCode := [], se_mfaMsg := ''MFA is disabled.''\<rparr>)))"

definition password_refused :: "account \<Rightarrow> settings \<Rightarrow> string option" where
  "password_refused v s =
     (if utf16_length (se_next s) < 8 then Some ''New password must be at least 8 characters.''
      else if se_next s \<noteq> se_confirm s then Some ''New passwords do not match.''
      else if \<not> ac_reachable v \<or> ac_demo v
      then Some (if ac_demo v then ''Demo sessions cannot change a production password.'' else ''Password changes require the RivicQ API.'')
      else None)"

definition savePassword :: "account \<Rightarrow> outcome \<Rightarrow> settings \<Rightarrow> handled" where
  "savePassword v answer s =
     (let q = s\<lparr>se_pwErr := JStr [], se_pwMsg := []\<rparr>
      in case password_refused v s of
           Some e \<Rightarrow> ([], q\<lparr>se_pwErr := JStr e\<rparr>)
         | None \<Rightarrow>
             ([authService_changePassword (se_current s) (se_next s)],
              case answer of
                Inl f \<Rightarrow> q\<lparr>se_pwErr := error_text f ''Unable to change password''\<rparr>
              | Inr d \<Rightarrow> q\<lparr>se_current := [], se_next := [], se_confirm := [], se_pwMsg := ''Password updated.''\<rparr>))"

section \<open>The admin console\<close>

definition LABELED_DEMO_USERS :: jval where
  "LABELED_DEMO_USERS =
     JArr [JObj [(''id'', JStr ''demo-operator''), (''name'', JStr ''Demo operator''),
             (''email'', JStr ''demo-ciso@demo.rivicq.local''), (''role'', JStr ''operator'')],
           JObj [(''id'', JStr ''demo-analyst''), (''name'', JStr ''Demo Analyst''),
             (''email'', JStr ''analyst@demo.rivicq.local''), (''role'', JStr ''analyst'')],
           JObj [(''id'', JStr ''demo-viewer''), (''name'', JStr ''Demo Viewer''),
             (''email'', JStr ''viewer@demo.rivicq.local''), (''role'', JStr ''viewer'')]]"

record admin_page =
  ad_users :: jval
  ad_usersError :: jval
  ad_usersNote :: string
  ad_audit :: jval
  ad_auditNote :: jval
  ad_keys :: jval
  ad_keysNote :: jval
  ad_webhooks :: jval
  ad_hooksNote :: jval
  ad_sso :: jval
  ad_ssoNote :: jval
  ad_keyDialog :: bool
  ad_keyName :: string
  ad_newKey :: jval
  ad_hookDialog :: bool
  ad_hookName :: string
  ad_hookUrl :: string
  ad_samlEntity :: string
  ad_samlAcs :: string
  ad_actionError :: jval
  ad_sent :: "api_request list"

definition admin_init :: admin_page where
  "admin_init =
     \<lparr>ad_users = JArr [], ad_usersError = JStr [], ad_usersNote = [], ad_audit = JArr [], ad_auditNote = JStr [], ad_keys = JArr [],
      ad_keysNote = JStr [], ad_webhooks = JArr [], ad_hooksNote = JStr [], ad_sso = JArr [], ad_ssoNote = JStr [],
      ad_keyDialog = False, ad_keyName = ''CI policy gate'', ad_newKey = JStr [], ad_hookDialog = False,
      ad_hookName = ''Findings webhook'', ad_hookUrl = ''https://example.invalid/hooks/rivicq'', ad_samlEntity = [], ad_samlAcs = [],
      ad_actionError = JStr [], ad_sent = []\<rparr>"

definition sends :: "api_request list \<Rightarrow> admin_page \<Rightarrow> admin_page" where
  "sends rs p = p\<lparr>ad_sent := ad_sent p @ rs\<rparr>"

definition enterpriseApi :: "account \<Rightarrow> bool" where
  "enterpriseApi v \<longleftrightarrow> isPaidEdition (ac_edition v) \<and> ac_reachable v \<and> \<not> ac_demo v"

definition body_error :: "failure \<Rightarrow> string \<Rightarrow> jval" where
  "body_error f fallback = js_or (js_prop (fl_data f) ''error'') (JStr fallback)"

definition loadUsers :: "account \<Rightarrow> outcome \<Rightarrow> admin_page \<Rightarrow> admin_page" where
  "loadUsers v answer p =
     (let q = p\<lparr>ad_usersError := JStr []\<rparr>
      in if ac_demo v \<or> \<not> ac_reachable v
         then q\<lparr>ad_users := LABELED_DEMO_USERS,
                ad_usersNote := ''Labeled demo directory '' @ em_dash @ '' not a live tenant. Role changes are disabled here.''\<rparr>
         else sends [authService_workspaceUsers]
                (case answer of
                   Inr d \<Rightarrow> q\<lparr>ad_users := js_or (js_prop d ''users'') (JArr []), ad_usersNote := []\<rparr>
                 | Inl f \<Rightarrow> q\<lparr>ad_usersError := body_error f ''Unable to load workspace users'', ad_users := JArr []\<rparr>))"

text \<open>The note on a list that could not be loaded; \<open>status\<close> is the status of the answer, 404 on a server without it.\<close>

definition list_note :: "(failure \<Rightarrow> bool) \<Rightarrow> failure \<Rightarrow> string \<Rightarrow> string \<Rightarrow> jval" where
  "list_note not_found f missing unavailable = (if not_found f then JStr missing else body_error f unavailable)"

record control_answers =
  ca_audit :: outcome
  ca_keys :: outcome
  ca_hooks :: outcome
  ca_sso :: outcome

definition loadControlPlane :: "(failure \<Rightarrow> bool) \<Rightarrow> account \<Rightarrow> control_answers \<Rightarrow> admin_page \<Rightarrow> admin_page" where
  "loadControlPlane not_found v c p =
     (if \<not> ac_reachable v \<or> ac_demo v
      then p\<lparr>ad_audit := JArr [], ad_keys := JArr [], ad_webhooks := JArr [], ad_sso := JArr [],
             ad_auditNote := JStr ''Audit log requires a live Enterprise API and database.'',
             ad_keysNote := JStr ''API keys require the Enterprise control plane.'',
             ad_hooksNote := JStr ''Webhooks require the Enterprise control plane.'',
             ad_ssoNote := JStr (''SSO configuration is stored only '' @ em_dash @ '' live SAML/OIDC login is not enabled yet.'')\<rparr>
      else
        (let p1 = (case ca_audit c of
               Inr d \<Rightarrow> p\<lparr>ad_audit := js_or (js_prop d ''events'') (JArr []),
                 ad_auditNote := JStr (if js_truthy (js_length (js_prop d ''events'')) then []
                   else ''No audit events in this tenant yet (or Enterprise DB is unavailable).'')\<rparr>
             | Inl f \<Rightarrow> p\<lparr>ad_audit := JArr [],
                 ad_auditNote := list_note not_found f ''Audit API is not on this Community server.'' ''Audit log unavailable''\<rparr>);
             p2 = (case ca_keys c of
               Inr d \<Rightarrow> p1\<lparr>ad_keys := js_or (js_prop d ''api_keys'') (JArr []), ad_keysNote := JStr []\<rparr>
             | Inl f \<Rightarrow> p1\<lparr>ad_keys := JArr [],
                 ad_keysNote := list_note not_found f ''API keys are an Enterprise control-plane feature.'' ''API keys unavailable''\<rparr>);
             p3 = (case ca_hooks c of
               Inr d \<Rightarrow> p2\<lparr>ad_webhooks := js_or (js_prop d ''webhooks'') (JArr []), ad_hooksNote := JStr []\<rparr>
             | Inl f \<Rightarrow> p2\<lparr>ad_webhooks := JArr [],
                 ad_hooksNote := list_note not_found f ''Webhooks are an Enterprise control-plane feature.'' ''Webhooks unavailable''\<rparr>);
             p4 = (case ca_sso c of
               Inr d \<Rightarrow> p3\<lparr>ad_sso := js_or (js_prop d ''providers'') (JArr []),
                 ad_ssoNote := JStr ''Saving SAML/LDAP stores IdP metadata. It does not complete a live login handshake.''\<rparr>
             | Inl f \<Rightarrow> p3\<lparr>ad_sso := JArr [],
                 ad_ssoNote := list_note not_found f ''SSO config is an Enterprise control-plane feature.'' ''SSO unavailable''\<rparr>)
         in sends [adminService_auditEvents JUndef, adminService_apiKeys, adminService_webhooks, adminService_ssoProviders] p4))"

datatype admin_event =
  ALoad outcome control_answers
| AChangeRole string workspace_role outcome outcome
| AOpenKey
| AKeyName string
| ACreateKey outcome control_answers
| AOpenHook
| AHookName string
| AHookUrl string
| ACreateHook outcome control_answers
| ACloseDialogs
| ASaml string string
| ASaveSaml outcome control_answers

text \<open>One event: what a disabled control or a closed dialog could do does not happen.\<close>

definition admin_step :: "(failure \<Rightarrow> bool) \<Rightarrow> account \<Rightarrow> admin_page \<Rightarrow> admin_event \<Rightarrow> admin_page" where
  "admin_step nf v p e =
     (let q = p\<lparr>ad_actionError := JStr []\<rparr>
      in case e of
           ALoad us c \<Rightarrow> loadControlPlane nf v c (loadUsers v us p)
         | AChangeRole i r answer us \<Rightarrow>
             (if ac_demo v \<or> \<not> ac_reachable v then p
              else (let s = sends [authService_updateWorkspaceUserRole i (role_name r)] q
                    in case answer of
                         Inr d \<Rightarrow> loadUsers v us s
                       | Inl f \<Rightarrow> s\<lparr>ad_actionError := body_error f ''Role update failed''\<rparr>))
         | AOpenKey \<Rightarrow> if enterpriseApi v then p\<lparr>ad_keyDialog := True\<rparr> else p
         | AKeyName n \<Rightarrow> p\<lparr>ad_keyName := n\<rparr>
         | ACreateKey answer c \<Rightarrow>
             (if \<not> ad_keyDialog p \<or> ad_keyName p = [] then p
              else (let s = sends [adminService_createApiKey (JObj [(''name'', JStr (ad_keyName p)), (''role'', JStr ''viewer'')])] q
                    in case answer of
                         Inr d \<Rightarrow> loadControlPlane nf v c
                           (s\<lparr>ad_newKey := js_or (js_or (js_prop d ''key'') (js_prop d ''api_key'')) (JStr []), ad_keyDialog := False\<rparr>)
                       | Inl f \<Rightarrow> s\<lparr>ad_actionError := body_error f
                           (''Unable to create API key '' @ em_dash @ '' Enterprise database may be unavailable'')\<rparr>))
         | AOpenHook \<Rightarrow> if enterpriseApi v then p\<lparr>ad_hookDialog := True\<rparr> else p
         | AHookName n \<Rightarrow> p\<lparr>ad_hookName := n\<rparr>
         | AHookUrl u \<Rightarrow> p\<lparr>ad_hookUrl := u\<rparr>
         | ACreateHook answer c \<Rightarrow>
             (if \<not> ad_hookDialog p \<or> ad_hookName p = [] \<or> ad_hookUrl p = [] then p
              else (let s = sends [adminService_createWebhook (JObj [(''name'', JStr (ad_hookName p)), (''url'', JStr (ad_hookUrl p)),
                          (''events'', JArr [JStr ''scan.completed''])])] q
                    in case answer of
                         Inr d \<Rightarrow> loadControlPlane nf v c (s\<lparr>ad_hookDialog := False\<rparr>)
                       | Inl f \<Rightarrow> s\<lparr>ad_actionError := body_error f
                           (''Unable to create webhook '' @ em_dash @ '' Enterprise database may be unavailable'')\<rparr>))
         | ACloseDialogs \<Rightarrow> p\<lparr>ad_keyDialog := False, ad_hookDialog := False\<rparr>
         | ASaml ent acs \<Rightarrow> p\<lparr>ad_samlEntity := ent, ad_samlAcs := acs\<rparr>
         | ASaveSaml answer c \<Rightarrow>
             (if \<not> enterpriseApi v then p
              else (let s = sends [adminService_configureSaml (JObj
                          [(''entity_id'', JStr (or_str (ad_samlEntity p) ''https://rivicq.example/saml'')),
                           (''acs_url'', JStr (or_str (ad_samlAcs p) ''https://rivicq.example/api/v1/sso/saml/acs'')),
                           (''idp_metadata'', JStr ''<EntityDescriptor />''), (''enabled'', JBool True)])] q
                    in case answer of
                         Inr d \<Rightarrow> loadControlPlane nf v c s
                       | Inl f \<Rightarrow> s\<lparr>ad_actionError := body_error f ''Unable to store SAML config''\<rparr>)))"

section \<open>Requests of the console\<close>

definition only_reads :: "api_request \<Rightarrow> bool" where
  "only_reads r \<longleftrightarrow> aq_method r = ''get''"

definition changes_role :: "api_request \<Rightarrow> bool" where
  "changes_role r \<longleftrightarrow> aq_method r = ''patch'' \<and> starts_with (aq_url r) ''/auth/workspace/users/''"

definition offline :: "account \<Rightarrow> bool" where "offline v \<longleftrightarrow> ac_demo v \<or> \<not> ac_reachable v"

definition quiet :: "account \<Rightarrow> admin_page \<Rightarrow> bool" where
  "quiet v p \<longleftrightarrow>
     \<not> ad_keyDialog p \<and> \<not> ad_hookDialog p \<and> list_all (\<lambda>r. only_reads r \<or> changes_role r) (ad_sent p)
     \<and> (offline v \<longrightarrow> ad_sent p = [] \<and> ad_users p \<in> {JArr [], LABELED_DEMO_USERS})"

lemma request_kinds [simp]:
  "only_reads authService_workspaceUsers" "only_reads (adminService_auditEvents d)" "only_reads adminService_apiKeys"
  "only_reads adminService_webhooks" "only_reads adminService_ssoProviders" "changes_role (authService_updateWorkspaceUserRole i r)"
  by (simp_all add: only_reads_def changes_role_def authService_workspaceUsers_def adminService_auditEvents_def
      adminService_apiKeys_def adminService_webhooks_def adminService_ssoProviders_def authService_updateWorkspaceUserRole_def
      api_get_def api_patch_def starts_with_def)

lemma load_sel [simp]:
  "ad_keyDialog (loadUsers v us p) = ad_keyDialog p" "ad_hookDialog (loadUsers v us p) = ad_hookDialog p"
  "ad_keyDialog (loadControlPlane nf v c p) = ad_keyDialog p" "ad_hookDialog (loadControlPlane nf v c p) = ad_hookDialog p"
  "ad_users (loadControlPlane nf v c p) = ad_users p"
  by (simp_all add: loadUsers_def loadControlPlane_def sends_def Let_def split: sum.splits)

lemma load_sent:
  "ad_sent (loadUsers v us p) = ad_sent p @ (if offline v then [] else [authService_workspaceUsers])"
  "ad_sent (loadControlPlane nf v c p) = ad_sent p @ (if offline v then []
     else [adminService_auditEvents JUndef, adminService_apiKeys, adminService_webhooks, adminService_ssoProviders])"
  by (auto simp: loadUsers_def loadControlPlane_def sends_def offline_def Let_def split: sum.splits)

lemma offline_users: "offline v \<Longrightarrow> ad_users (loadUsers v us p) = LABELED_DEMO_USERS"
  by (simp add: loadUsers_def offline_def Let_def)

lemma quiet_step:
  assumes "quiet v p" "\<not> enterpriseApi v"
  shows "quiet v (admin_step nf v p e)"
proof (cases e)
  case (ALoad us c)
  then show ?thesis using assms by (auto simp: quiet_def admin_step_def load_sent offline_users Let_def)
next
  case (AChangeRole i r answer us)
  then show ?thesis
    using assms by (cases answer) (auto simp: quiet_def admin_step_def load_sent offline_users sends_def offline_def Let_def)
qed (use assms in \<open>auto simp: quiet_def admin_step_def Let_def\<close>)

interpretation console: guarded_machine "admin_step nf v" "\<lambda>_. \<not> enterpriseApi v" "quiet v" for nf v
  by unfold_locales (rule quiet_step)

lemma offline_not_enterprise: "offline v \<Longrightarrow> \<not> enterpriseApi v"
  by (auto simp: offline_def enterpriseApi_def)

lemma quiet_run:
  assumes "\<not> enterpriseApi v"
  shows "quiet v (run (admin_step nf v) admin_init es)"
proof (rule console.inv_after)
  show "quiet v admin_init" by (simp add: quiet_def admin_init_def)
  show "list_all (\<lambda>_. \<not> enterpriseApi v) es" using assms by (simp add: list_all_iff)
qed

section \<open>Properties\<close>

text \<open>C17: without a paid edition on a live backend the admin console, however it is used, sends nothing but reads
  and role changes; in a demo session or without a backend it sends nothing at all and shows no directory but
  the labelled one.\<close>

theorem admin_console_quiet:
  assumes "\<not> enterpriseApi v"
  shows "list_all (\<lambda>r. only_reads r \<or> changes_role r) (ad_sent (run (admin_step nf v) admin_init es))
    \<and> (ac_demo v \<or> \<not> ac_reachable v \<longrightarrow>
        ad_sent (run (admin_step nf v) admin_init es) = []
        \<and> ad_users (run (admin_step nf v) admin_init es) \<in> {JArr [], LABELED_DEMO_USERS})"
  using quiet_run [OF assms, of nf es] by (simp add: quiet_def offline_def)

text \<open>The settings send a new password exactly when it has eight characters, is confirmed and the session is a
  live one, and clear the fields only once it has been accepted.\<close>

theorem password_change_guarded:
  "(fst (savePassword v answer s) = [authService_changePassword (se_current s) (se_next s)] \<longleftrightarrow>
      8 \<le> utf16_length (se_next s) \<and> se_next s = se_confirm s \<and> ac_reachable v \<and> \<not> ac_demo v)
   \<and> (fst (savePassword v answer s) = [] \<or> fst (savePassword v answer s) = [authService_changePassword (se_current s) (se_next s)])
   \<and> (se_pwMsg (snd (savePassword v answer s)) = ''Password updated.'' \<longleftrightarrow>
      fst (savePassword v answer s) \<noteq> [] \<and> answer \<in> range Inr)"
  by (auto simp: savePassword_def password_refused_def Let_def split: sum.splits option.splits if_splits)

text \<open>When the second factor has been confirmed but the profile cannot be read again, the settings show the
  factor as enabled and an error that it could not be, side by side.\<close>

theorem mfa_success_and_error:
  "case snd (confirmMfa (Inr d) (Some f) s) of
    s' \<Rightarrow> se_mfaEnabled s' \<and> se_mfaMsg s' = ''MFA is enabled for this account.'' \<and> js_truthy (se_mfaErr s')"
  by (simp add: confirmMfa_def after_refresh_def error_text_def Let_def js_or_def)

text \<open>Witnesses.\<close>

definition ex_demo_account :: account where
  "ex_demo_account = \<lparr>ac_reachable = False, ac_demo = True, ac_edition = community\<rparr>"

theorem admin_console_quiet_witness:
  "ad_sent (run (admin_step (\<lambda>_. False) ex_demo_account) admin_init [AOpenKey, ACreateKey (Inr JNull) (control_answers.make (Inr JNull) (Inr JNull) (Inr JNull) (Inr JNull))]) = []"
proof -
  have v: "\<not> enterpriseApi ex_demo_account" by (simp add: enterpriseApi_def ex_demo_account_def)
  have "ac_demo ex_demo_account" by (simp add: ex_demo_account_def)
  then show ?thesis using admin_console_quiet [OF v] by blast
qed

end
