(* ===== verification/Js_Query.thy ===== *)
theory Js_Query
  imports Js_Uri
begin

text \<open>
  \<open>URLSearchParams\<close> of the web platform: the parameters of a query as the list of its pairs, their text and its
  parser.  Strings are their UTF-8 bytes; escaped bytes that are not UTF-8 are kept, where the platform puts the
  replacement character.
\<close>

type_synonym query = "(string \<times> string) list"

definition q_get :: "query \<Rightarrow> string \<Rightarrow> string option" where
  "q_get ps k = map_of ps k"

definition q_delete :: "string \<Rightarrow> query \<Rightarrow> query" where
  "q_delete k ps = filter (\<lambda>p. fst p \<noteq> k) ps"

text \<open>\<open>set\<close> writes the value into the first pair of the name and drops the others, or appends a pair.\<close>

fun q_set :: "string \<Rightarrow> string \<Rightarrow> query \<Rightarrow> query" where
  "q_set k v [] = [(k, v)]"
| "q_set k v (p # ps) = (if fst p = k then (k, v) # q_delete k ps else p # q_set k v ps)"

definition form_safe :: "char \<Rightarrow> bool" where
  "form_safe c \<longleftrightarrow>
     (let n = (of_char c :: nat)
      in (48 \<le> n \<and> n \<le> 57) \<or> (65 \<le> n \<and> n \<le> 90) \<or> (97 \<le> n \<and> n \<le> 122) \<or> c \<in> set ''*-._'')"

definition form_char :: "char \<Rightarrow> string" where
  "form_char c =
     (if form_safe c then [c] else if c = CHR '' '' then ''+''
      else let n = (of_char c :: nat) in [CHR ''%'', hex_digit (n div 16), hex_digit (n mod 16)])"

definition form_text :: "string \<Rightarrow> string" where
  "form_text s = concat (map form_char s)"

definition q_string :: "query \<Rightarrow> string" where
  "q_string ps = str_join ''&'' (map (\<lambda>(k, v). form_text k @ ''='' @ form_text v) ps)"

text \<open>Reading a name or a value: \<open>+\<close> is a space, an escape that is not one stays.\<close>

fun form_read :: "string \<Rightarrow> string" where
  "form_read [] = []"
| "form_read (c # s) =
     (if c = CHR ''+'' then CHR '' '' # form_read s
      else if c \<noteq> CHR ''%'' then c # form_read s
      else case s of
             x # y # t \<Rightarrow>
               (case (hex_value x, hex_value y) of
                  (Some i, Some j) \<Rightarrow> char_of (16 * i + j) # form_read t
                | _ \<Rightarrow> c # form_read s)
           | _ \<Rightarrow> c # form_read s)"

definition read_pair :: "string \<Rightarrow> string \<times> string" where
  "read_pair s =
     (form_read (takeWhile (\<lambda>c. c \<noteq> CHR ''='') s), form_read (tl (dropWhile (\<lambda>c. c \<noteq> CHR ''='') s)))"

definition q_parse :: "string \<Rightarrow> query" where
  "q_parse s = map read_pair (filter (\<lambda>w. w \<noteq> []) (split_on (CHR ''&'') s))"

section \<open>Lemmas\<close>

lemma map_of_others: "j \<noteq> k \<Longrightarrow> map_of (filter (\<lambda>p. fst p \<noteq> k) ps) j = map_of ps j"
  by (induction ps) auto

lemma get_set [simp]: "q_get (q_set k v ps) j = (if j = k then Some v else q_get ps j)"
  by (induction ps) (auto simp: q_get_def q_delete_def map_of_filter_in map_of_others)

lemma get_delete [simp]: "q_get (q_delete k ps) j = (if j = k then None else q_get ps j)"
  by (induction ps) (auto simp: q_get_def q_delete_def)

lemma hex_digit_plain_query: "n < 16 \<Longrightarrow> hex_digit n \<notin> {CHR ''&'', CHR ''='', CHR ''#'', CHR ''?''}"
  using nth_mem [of n "''0123456789ABCDEF''"] by (auto simp: hex_digit_def)

lemma form_char_plain: "set (form_char c) \<inter> {CHR ''&'', CHR ''='', CHR ''#'', CHR ''?''} = {}"
proof (cases "form_safe c \<or> c = CHR '' ''")
  case True
  moreover have "\<not> form_safe (CHR ''&'')" "\<not> form_safe (CHR ''='')" "\<not> form_safe (CHR ''#'')" "\<not> form_safe (CHR ''?'')"
    by (simp_all add: form_safe_def)
  ultimately show ?thesis by (auto simp: form_char_def)
next
  case False
  have "(of_char c :: nat) div 16 < 16" "(of_char c :: nat) mod 16 < 16" by (simp_all add: less_mult_imp_div_less)
  then show ?thesis using False hex_digit_plain_query by (auto simp: form_char_def Let_def)
qed

lemma form_text_plain: "c \<in> {CHR ''&'', CHR ''='', CHR ''#'', CHR ''?''} \<Longrightarrow> c \<notin> set (form_text s)"
  using form_char_plain by (fastforce simp: form_text_def)

lemma read_char: "form_read (form_char c @ s) = c # form_read s"
proof (cases "form_safe c \<or> c = CHR '' ''")
  case True
  moreover have "\<not> form_safe (CHR ''+'')" "\<not> form_safe (CHR ''%'')" by (simp_all add: form_safe_def)
  ultimately have "form_safe c \<Longrightarrow> c \<noteq> CHR ''+'' \<and> c \<noteq> CHR ''%''" by auto
  with True show ?thesis by (auto simp: form_char_def)
next
  case False
  have n: "(of_char c :: nat) div 16 < 16" "(of_char c :: nat) mod 16 < 16" by (simp_all add: less_mult_imp_div_less)
  have "char_of (16 * ((of_char c :: nat) div 16) + of_char c mod 16) = c" by (simp add: mult.commute)
  then show ?thesis using False n by (simp add: form_char_def Let_def hex_value_digit)
qed

lemma form_round_trip [simp]: "form_read (form_text s) = s"
  by (induction s) (simp_all add: form_text_def read_char)

lemma read_written_pair: "read_pair (form_text k @ CHR ''='' # form_text v) = (k, v)"
proof -
  have "takeWhile (\<lambda>c. c \<noteq> CHR ''='') (form_text k @ CHR ''='' # form_text v) = form_text k"
    by (subst takeWhile_append2) (use form_text_plain in auto)
  moreover have "dropWhile (\<lambda>c. c \<noteq> CHR ''='') (form_text k @ CHR ''='' # form_text v) = CHR ''='' # form_text v"
    by (subst dropWhile_append2) (use form_text_plain in auto)
  ultimately show ?thesis by (simp add: read_pair_def)
qed

lemma split_joined:
  assumes "list_all (\<lambda>w. CHR ''&'' \<notin> set w) ws" "ws \<noteq> []"
  shows "split_on (CHR ''&'') (str_join ''&'' ws) = ws"
  using assms
proof (induction "''&''" ws rule: str_join.induct)
  case (3 w v ws)
  then show ?case using split_on_append [of "CHR ''&''" w "str_join ''&'' (v # ws)"] by simp
qed (simp_all add: split_on_none)

text \<open>The text of the parameters reads back as they were.\<close>

lemma query_round_trip [simp]: "q_parse (q_string ps) = ps"
proof (cases "ps = []")
  case True
  then show ?thesis by (simp add: q_parse_def q_string_def)
next
  case False
  let ?ws = "map (\<lambda>(k, v). form_text k @ ''='' @ form_text v) ps"
  have "list_all (\<lambda>w. CHR ''&'' \<notin> set w) ?ws" using form_text_plain by (auto simp: list_all_iff)
  with False have "split_on (CHR ''&'') (q_string ps) = ?ws" by (simp add: q_string_def split_joined)
  moreover have "filter (\<lambda>w. w \<noteq> []) ?ws = ?ws" by (auto simp: filter_id_conv)
  ultimately show ?thesis by (simp add: q_parse_def map_idI read_written_pair split_def)
qed

lemma query_plain: "CHR ''#'' \<notin> set (q_string ps)"
proof -
  have "CHR ''#'' \<notin> set (str_join ''&'' ws)" if "list_all (\<lambda>w. CHR ''#'' \<notin> set w) ws" for ws
    using that by (induction "''&''" ws rule: str_join.induct) auto
  then show ?thesis using form_text_plain by (auto simp: q_string_def list_all_iff)
qed

end
