(* ===== verification/Findings_Page.thy ===== *)
theory Findings_Page
  imports Ops_Findings Js_Query Data_Table
begin

text \<open>
  web/src/pages/Findings.tsx: the investigation queue of the console.  Its filters live in the query of the
  address, its saved views in the browser storage; \<open>data\<close> is what the findings API answered, undefined before.
\<close>

record findings_page =
  fp_params :: query
  fp_selected :: "string list"
  fp_views :: "jval list"
  fp_saveOpen :: bool
  fp_viewName :: string
  fp_storage :: storage

definition findings_init :: "(string \<Rightarrow> jval option) \<Rightarrow> query \<Rightarrow> storage \<Rightarrow> findings_page" where
  "findings_init parse ps s =
     \<lparr>fp_params = ps, fp_selected = [], fp_views = loadSavedViews parse s, fp_saveOpen = False, fp_viewName = [],
      fp_storage = s\<rparr>"

section \<open>The queue\<close>

text \<open>\<open>SEV_ORDER[s] || 0\<close>: a name the object literal inherits gives a function, which subtracts to NaN (\<open>None\<close>).\<close>

definition SEV_ORDER :: "(string \<times> int) list" where
  "SEV_ORDER = [(''critical'', 4), (''high'', 3), (''medium'', 2), (''low'', 1), (''info'', 0)]"

definition sev_rank :: "string \<Rightarrow> int option" where
  "sev_rank s = (case map_of SEV_ORDER s of Some n \<Rightarrow> Some n | None \<Rightarrow> if s \<in> set inherited_members then None else Some 0)"

text \<open>\<open>a\<close> may stay before \<open>b\<close>: the comparator does not answer a positive number.\<close>

definition sev_le :: "string \<Rightarrow> string \<Rightarrow> bool" where
  "sev_le s t = (case (sev_rank s, sev_rank t) of (Some m, Some n) \<Rightarrow> n \<le> m | _ \<Rightarrow> True)"

definition sev_before :: "ops_finding \<Rightarrow> ops_finding \<Rightarrow> bool" where
  "sev_before a b = sev_le (of_severity a) (of_severity b)"

definition severity_param :: "query \<Rightarrow> string" where
  "severity_param ps = str_lower (or_opt (q_get ps ''severity'') ''all'')"

definition q_param :: "query \<Rightarrow> string" where "q_param ps = or_opt (q_get ps ''q'') []"

definition selectedId :: "query \<Rightarrow> string" where "selectedId ps = or_opt (q_get ps ''id'') []"

definition haystack :: "ops_finding \<Rightarrow> string" where
  "haystack f =
     of_title f @ '' '' @ of_asset f @ '' '' @ or_opt (of_algorithm f) [] @ '' '' @ or_opt (of_evidence f) [] @ '' '' @ of_id f"

definition shown_finding :: "query \<Rightarrow> ops_finding \<Rightarrow> bool" where
  "shown_finding ps f \<longleftrightarrow>
     (severity_param ps = ''all'' \<or> of_severity f = severity_param ps)
     \<and> (let needle = str_lower (str_trim (q_param ps)) in needle = [] \<or> str_includes (str_lower (haystack f)) needle)"

definition filtered_findings :: "query \<Rightarrow> ops_finding list \<Rightarrow> ops_finding list" where
  "filtered_findings ps fs = sort_by sev_before (filter (shown_finding ps) fs)"

definition open_finding :: "query \<Rightarrow> ops_finding list \<Rightarrow> ops_finding option" where
  "open_finding ps fs =
     (let rows = filtered_findings ps fs
      in case find (\<lambda>f. of_id f = selectedId ps) rows of
           Some f \<Rightarrow> Some f
         | None \<Rightarrow> (case rows of [] \<Rightarrow> None | f # _ \<Rightarrow> Some f))"

definition finding_counts :: "ops_finding list \<Rightarrow> (string \<times> nat) list" where
  "finding_counts fs =
     (''all'', length fs) # map (\<lambda>s. (s, count_if (\<lambda>f. of_severity f = s) fs)) [''critical'', ''high'', ''medium'', ''low'']"

definition findings_source :: "jval \<Rightarrow> string" where
  "findings_source data = (if js_prop data ''source'' = JStr ''cbom_scans'' then ''live'' else ''unknown'')"

definition findings_chip :: "jval \<Rightarrow> ops_finding list \<Rightarrow> string \<times> string" where
  "findings_chip data fs =
     (if findings_source data = ''live'' \<and> fs \<noteq> [] then ''live'' else ''calculated'',
      if fs \<noteq> [] then ''GET /scans/findings'' else ''NO SCAN DATA'')"

text \<open>The texts of the open finding that have a fallback.\<close>

definition finding_impact :: "(rat \<Rightarrow> string) \<Rightarrow> ops_finding \<Rightarrow> string" where
  "finding_impact fmt f =
     (if of_asset f \<noteq> [] then ''Affected asset: '' @ of_asset f else ''Asset label not provided by this scanner result.'')
     @ (if truthy_opt (of_host f)
        then '' '' @ mid_dot @ '' '' @ or_opt (of_host f) []
          @ (case of_port f of Some n \<Rightarrow> if js_truthy (JNum n) then '':'' @ num_string fmt n else [] | None \<Rightarrow> []) else [])
     @ (if truthy_opt (of_protocol f) then '' '' @ mid_dot @ '' '' @ or_opt (of_protocol f) [] else [])"

definition related_assets :: "ops_finding \<Rightarrow> string option" where
  "related_assets f = (if of_asset f \<noteq> [] then Some (''/assets?q='' @ encodeURIComponent (of_asset f)) else None)"

section \<open>The controls\<close>

definition setFilter :: "string \<Rightarrow> string \<Rightarrow> query \<Rightarrow> query" where
  "setFilter key v ps = (if v = [] \<or> v = ''all'' then q_delete key ps else q_set key v ps)"

definition toggle_id :: "string \<Rightarrow> string list \<Rightarrow> string list" where
  "toggle_id i xs = (if i \<in> set xs then filter (\<lambda>x. x \<noteq> i) xs else xs @ [i])"

text \<open>\<open>navigate(`/findings?${v.query}`)\<close>: the query ends where a fragment begins.\<close>

definition view_params :: "(rat \<Rightarrow> string) \<Rightarrow> jval \<Rightarrow> query" where
  "view_params fmt v = q_parse (takeWhile (\<lambda>c. c \<noteq> CHR ''#'') (js_string fmt (js_prop v ''query'')))"

datatype findings_event =
  FSeverity string
| FSearch string
| FOpenRow nat
| FToggle nat
| FSaveOpen
| FSaveCancel
| FViewName string
| FSave nat
| FFollow nat
| FDelete nat

text \<open>\<open>deleteView(v.id)\<close> for a stored view, whose id may be any JSON value; an object is the same as no other.\<close>

fun deleteView_any :: "(jval \<Rightarrow> string) \<Rightarrow> (string \<Rightarrow> jval option) \<Rightarrow> jval \<Rightarrow> storage \<Rightarrow> (jval list \<times> storage) option" where
  "deleteView_any stringify parse (JStr i) s = deleteView stringify parse i s"
| "deleteView_any stringify parse i s =
     (let vs = loadSavedViews parse s
      in if \<not> list_all not_null vs then None
         else let nxt = (if is_object i then vs else filter (\<lambda>v. js_prop v ''id'' \<noteq> i) vs)
              in Some (nxt, attempt [set_item VIEWS_KEY (stringify (JArr nxt))] s))"

definition findings_step ::
  "(rat \<Rightarrow> string) \<Rightarrow> (jval \<Rightarrow> string) \<Rightarrow> (string \<Rightarrow> jval option) \<Rightarrow> jval \<Rightarrow> findings_page \<Rightarrow> findings_event \<Rightarrow> findings_page" where
  "findings_step fmt stringify parse data p e =
     (let rows = filtered_findings (fp_params p) (parseFindingsPayload fmt data)
      in case e of
           FSeverity s \<Rightarrow> if s \<in> {''all'', ''critical'', ''high'', ''medium'', ''low''}
             then p\<lparr>fp_params := setFilter ''severity'' s (fp_params p)\<rparr> else p
         | FSearch s \<Rightarrow> p\<lparr>fp_params := setFilter ''q'' s (fp_params p)\<rparr>
         | FOpenRow k \<Rightarrow> if k < length rows then p\<lparr>fp_params := setFilter ''id'' (of_id (rows ! k)) (fp_params p)\<rparr> else p
         | FToggle k \<Rightarrow> if k < length rows then p\<lparr>fp_selected := toggle_id (of_id (rows ! k)) (fp_selected p)\<rparr> else p
         | FSaveOpen \<Rightarrow> p\<lparr>fp_saveOpen := True\<rparr>
         | FSaveCancel \<Rightarrow> p\<lparr>fp_saveOpen := False\<rparr>
         | FViewName s \<Rightarrow> if fp_saveOpen p then p\<lparr>fp_viewName := s\<rparr> else p
         | FSave now \<Rightarrow>
             if \<not> fp_saveOpen p \<or> str_trim (fp_viewName p) = [] then p
             else (case saveView stringify parse now (str_trim (fp_viewName p)) (q_string (fp_params p)) (fp_storage p) of
                     None \<Rightarrow> p
                   | Some (vs, s) \<Rightarrow> p\<lparr>fp_views := vs, fp_storage := s, fp_saveOpen := False, fp_viewName := []\<rparr>)
         | FFollow k \<Rightarrow> if k < length (fp_views p) then p\<lparr>fp_params := view_params fmt (fp_views p ! k)\<rparr> else p
         | FDelete k \<Rightarrow>
             if k < length (fp_views p)
             then (case deleteView_any stringify parse (js_prop (fp_views p ! k) ''id'') (fp_storage p) of
                     None \<Rightarrow> p
                   | Some (vs, s) \<Rightarrow> p\<lparr>fp_views := vs, fp_storage := s\<rparr>)
             else p)"

section \<open>The export\<close>

definition hex_lower :: "nat \<Rightarrow> char" where "hex_lower n = ''0123456789abcdef'' ! n"

definition json_escape :: "char \<Rightarrow> string" where
  "json_escape c =
     (let n = (of_char c :: nat)
      in if c = CHR 0x22 then [CHR 0x5C, CHR 0x22] else if c = CHR 0x5C then [CHR 0x5C, CHR 0x5C]
         else if n = 8 then [CHR 0x5C, CHR ''b''] else if n = 9 then [CHR 0x5C, CHR ''t'']
         else if n = 10 then [CHR 0x5C, CHR ''n''] else if n = 12 then [CHR 0x5C, CHR ''f'']
         else if n = 13 then [CHR 0x5C, CHR ''r'']
         else if n < 32 then CHR 0x5C # ''u00'' @ [hex_lower (n div 16), hex_lower (n mod 16)] else [c])"

text \<open>\<open>JSON.stringify\<close> of a string.\<close>

definition json_quote :: "string \<Rightarrow> string" where
  "json_quote s = CHR 0x22 # concat (map json_escape s) @ [CHR 0x22]"

definition export_header :: "string list" where
  "export_header = [''id'', ''severity'', ''title'', ''asset'', ''algorithm'', ''evidence'', ''remediation'']"

definition export_fields :: "ops_finding \<Rightarrow> string list" where
  "export_fields r =
     [of_id r, of_severity r, of_title r, of_asset r, nullish (of_algorithm r) [], nullish (of_evidence r) [],
      nullish (of_remediation r) []]"

definition export_line :: "ops_finding \<Rightarrow> string" where
  "export_line r = str_join '','' (map json_quote (export_fields r))"

definition exportRows :: "ops_finding list \<Rightarrow> string" where
  "exportRows rows = str_join [CHR 0x0A] (str_join '','' export_header # map export_line rows)"

definition exported_findings :: "findings_page \<Rightarrow> ops_finding list \<Rightarrow> ops_finding list" where
  "exported_findings p fs =
     (let rows = filtered_findings (fp_params p) fs
      in if fp_selected p \<noteq> [] then filter (\<lambda>f. of_id f \<in> set (fp_selected p)) rows else rows)"

section \<open>Lemmas\<close>

text \<open>The comparator is an order on the severities that are no inherited name.\<close>

definition ranked :: "string set" where "ranked = {s. s \<notin> set inherited_members}"

lemma ranked_rank: "s \<in> ranked \<Longrightarrow> sev_rank s = Some (nullish (map_of SEV_ORDER s) 0)"
  by (cases "map_of SEV_ORDER s") (auto simp: sev_rank_def ranked_def nullish_def)

interpretation severities: stable_order sev_le ranked
  by unfold_locales (auto simp: sev_le_def ranked_rank)

lemma sev_before_le: "sev_before = (\<lambda>a b. sev_le (of_severity a) (of_severity b))"
  by (simp add: fun_eq_iff sev_before_def)

lemma set_filtered_findings: "set (filtered_findings ps fs) = {f \<in> set fs. shown_finding ps f}"
  by (auto simp: filtered_findings_def)

lemma find_listed: "find P xs = Some x \<Longrightarrow> x \<in> set xs \<and> P x"
  by (induction xs) (auto split: if_splits)

lemma or_opt_get_set: "or_opt (q_get (q_set k v ps) k) d = (if v = [] then d else v)"
  by simp

text \<open>Only saving and deleting touch the views.\<close>

fun filters_only :: "findings_event \<Rightarrow> bool" where
  "filters_only (FSave _) = False"
| "filters_only (FDelete _) = False"
| "filters_only _ = True"

interpretation findings_views: unobserved_machine "findings_step fmt stringify parse data" filters_only
    "\<lambda>p. (fp_views p, fp_storage p)" for fmt stringify parse data
proof unfold_locales
  fix e p
  assume "filters_only e"
  then show "(fp_views (findings_step fmt stringify parse data p e), fp_storage (findings_step fmt stringify parse data p e))
      = (fp_views p, fp_storage p)"
    by (cases e) (simp_all add: findings_step_def Let_def)
qed

lemma view_params_saved: "view_params fmt (saved_view i n (q_string ps)) = ps"
proof -
  have "takeWhile (\<lambda>c. c \<noteq> CHR ''#'') (q_string ps) = q_string ps"
    using query_plain [of ps] by (auto simp: takeWhile_eq_all_conv)
  then show ?thesis by (simp only: view_params_def view_props js_string.simps query_round_trip)
qed

lemma saved_views_head: "\<exists>rest. saved_views now name query vs = saved_view (''view-'' @ nat_str now) name query # rest"
  by (simp add: saved_views_def)

text \<open>Text that JSON writes as CSV does.\<close>

definition csv_plain :: "string \<Rightarrow> bool" where
  "csv_plain s \<longleftrightarrow> list_all (\<lambda>c. c \<noteq> CHR 0x22 \<and> c \<noteq> CHR 0x5C \<and> 32 \<le> (of_char c :: nat)) s"

lemma json_escape_plain: "c \<noteq> CHR 0x22 \<Longrightarrow> c \<noteq> CHR 0x5C \<Longrightarrow> 32 \<le> (of_char c :: nat) \<Longrightarrow> json_escape c = [c]"
proof -
  assume c: "c \<noteq> CHR 0x22" "c \<noteq> CHR 0x5C" "32 \<le> (of_char c :: nat)"
  then have "(of_char c :: nat) \<noteq> 8" "(of_char c :: nat) \<noteq> 9" "(of_char c :: nat) \<noteq> 10" "(of_char c :: nat) \<noteq> 12"
      "(of_char c :: nat) \<noteq> 13" "\<not> (of_char c :: nat) < 32" by linarith+
  with c(1,2) show ?thesis unfolding json_escape_def Let_def by (simp only: if_False)
qed

lemma json_quote_plain: "csv_plain s \<Longrightarrow> json_quote s = csvEscape s"
proof -
  assume "csv_plain s"
  then have "map json_escape s = map (\<lambda>c. if c = CHR 0x22 then [CHR 0x22, CHR 0x22] else [c]) s"
    by (intro map_cong refl) (simp add: csv_plain_def list_all_iff json_escape_plain)
  then show ?thesis by (simp only: json_quote_def csvEscape_def)
qed

lemma export_line_plain: "list_all csv_plain (export_fields r) \<Longrightarrow> export_line r = csv_line (export_fields r)"
proof -
  assume "list_all csv_plain (export_fields r)"
  then have "map json_quote (export_fields r) = map csvEscape (export_fields r)"
    by (intro map_cong refl json_quote_plain) (auto simp: list_all_iff)
  then show ?thesis by (simp only: export_line_def csv_line_def)
qed

lemma export_split: "rows \<noteq> [] \<Longrightarrow>
  exportRows rows = str_join '','' export_header @ [CHR 0x0A] @ str_join [CHR 0x0A] (map export_line rows)"
  by (cases rows) (simp_all add: exportRows_def)

section \<open>Properties\<close>

text \<open>The severities at least as bad as one, apart from the table the comparator reads.\<close>

definition at_least :: "string \<Rightarrow> string set" where
  "at_least t =
     (if t = ''critical'' then {''critical''}
      else if t = ''high'' then {''critical'', ''high''}
      else if t = ''medium'' then {''critical'', ''high'', ''medium''}
      else if t = ''low'' then {''critical'', ''high'', ''medium'', ''low''}
      else UNIV)"

lemma sev_le_at_least: "s \<in> ranked \<Longrightarrow> t \<in> ranked \<Longrightarrow> sev_le s t \<longleftrightarrow> s \<in> at_least t"
  by (auto simp: sev_le_def ranked_rank SEV_ORDER_def nullish_def at_least_def split: option.splits)

text \<open>C33: the queue shows exactly the findings that have the severity of the address, if it names one, and the
  search text of the address, if any, in the title, asset, algorithm, evidence or identifier; critical findings come
  first, then high, medium and low ones and then all others, the findings of one severity in the order the API gave
  them; the finding shown beside the queue is the first one with the identifier of the address, and when the queue has
  none, the first of the queue.\<close>

theorem findings_queue:
  assumes "list_all (\<lambda>f. of_severity f \<notin> set inherited_members) fs"
    and sev: "sev = str_lower (or_opt (q_get ps ''severity'') ''all'')"
    and needle: "needle = str_lower (str_trim (or_opt (q_get ps ''q'') []))"
    and found: "found = filter (\<lambda>f. (sev = ''all'' \<or> of_severity f = sev) \<and>
      (needle = [] \<or> str_includes (str_lower (of_title f @ '' '' @ of_asset f @ '' '' @ or_opt (of_algorithm f) []
        @ '' '' @ or_opt (of_evidence f) [] @ '' '' @ of_id f)) needle)) fs"
    and queue: "queue = filtered_findings ps fs"
  shows "mset queue = mset found
    \<and> sorted_wrt (\<lambda>a b.
        (of_severity b = ''critical'' \<longrightarrow> of_severity a = ''critical'') \<and>
        (of_severity b = ''high'' \<longrightarrow> of_severity a \<in> {''critical'', ''high''}) \<and>
        (of_severity b = ''medium'' \<longrightarrow> of_severity a \<in> {''critical'', ''high'', ''medium''}) \<and>
        (of_severity b = ''low'' \<longrightarrow> of_severity a \<in> {''critical'', ''high'', ''medium'', ''low''})) queue
    \<and> filter (\<lambda>f. of_severity f = s) queue = filter (\<lambda>f. of_severity f = s) found
    \<and> (open_finding ps fs = None \<longleftrightarrow> queue = [])
    \<and> (open_finding ps fs = Some f \<longleftrightarrow>
        (\<exists>i < length queue. of_id (queue ! i) = or_opt (q_get ps ''id'') [] \<and> f = queue ! i
           \<and> (\<forall>j < i. of_id (queue ! j) \<noteq> or_opt (q_get ps ''id'') []))
        \<or> (\<forall>g \<in> set queue. of_id g \<noteq> or_opt (q_get ps ''id'') []) \<and> (\<exists>rest. queue = f # rest))"
proof (intro conjI)
  have f: "filter (shown_finding ps) fs = found"
    by (simp add: found sev needle shown_finding_def [abs_def] severity_param_def q_param_def haystack_def Let_def)
  have r: "of_severity ` set found \<subseteq> ranked"
    using assms(1) by (auto simp: ranked_def list_all_iff found)
  have q: "queue = sort_by (\<lambda>a b. sev_le (of_severity a) (of_severity b)) found"
    by (simp add: queue filtered_findings_def f sev_before_le)
  show "mset queue = mset found" by (simp add: q)
  show "filter (\<lambda>f. of_severity f = s) queue = filter (\<lambda>f. of_severity f = s) found"
    unfolding q by (rule severities.stable_sort_by [OF r])
  have "of_severity ` set queue \<subseteq> ranked" using r by (simp add: q)
  then have o: "a \<in> set queue \<Longrightarrow> b \<in> set queue \<Longrightarrow> sev_le (of_severity a) (of_severity b) \<Longrightarrow>
      of_severity a \<in> at_least (of_severity b)" for a b
    using sev_le_at_least by blast
  have "sorted_wrt (\<lambda>a b. sev_le (of_severity a) (of_severity b)) queue"
    unfolding q by (rule severities.sorted_sort_by [OF r])
  then have "sorted_wrt (\<lambda>a b. of_severity a \<in> at_least (of_severity b)) queue"
    by (rule sorted_wrt_mono_rel [rotated]) (rule o)
  then show "sorted_wrt (\<lambda>a b.
        (of_severity b = ''critical'' \<longrightarrow> of_severity a = ''critical'') \<and>
        (of_severity b = ''high'' \<longrightarrow> of_severity a \<in> {''critical'', ''high''}) \<and>
        (of_severity b = ''medium'' \<longrightarrow> of_severity a \<in> {''critical'', ''high'', ''medium''}) \<and>
        (of_severity b = ''low'' \<longrightarrow> of_severity a \<in> {''critical'', ''high'', ''medium'', ''low''})) queue"
    by (rule sorted_wrt_mono_rel [rotated]) (simp add: at_least_def split: if_splits)
  show "open_finding ps fs = None \<longleftrightarrow> queue = []"
    by (auto simp: open_finding_def Let_def queue split: option.splits list.splits)
  have first: "(\<exists>i < length queue. of_id (queue ! i) = or_opt (q_get ps ''id'') [] \<and> f = queue ! i
           \<and> (\<forall>j < i. of_id (queue ! j) \<noteq> or_opt (q_get ps ''id'') []))
      \<longleftrightarrow> find (\<lambda>f. of_id f = or_opt (q_get ps ''id'') []) queue = Some f"
    by (simp add: find_Some_iff)
  show "open_finding ps fs = Some f \<longleftrightarrow>
        (\<exists>i < length queue. of_id (queue ! i) = or_opt (q_get ps ''id'') [] \<and> f = queue ! i
           \<and> (\<forall>j < i. of_id (queue ! j) \<noteq> or_opt (q_get ps ''id'') []))
        \<or> (\<forall>g \<in> set queue. of_id g \<noteq> or_opt (q_get ps ''id'') []) \<and> (\<exists>rest. queue = f # rest)"
  proof (cases "find (\<lambda>f. of_id f = or_opt (q_get ps ''id'') []) queue")
    case None
    then have "\<forall>g \<in> set queue. of_id g \<noteq> or_opt (q_get ps ''id'') []" by (simp add: find_None_iff)
    moreover have "open_finding ps fs = (case queue of [] \<Rightarrow> None | f # _ \<Rightarrow> Some f)"
      using None by (simp add: open_finding_def Let_def queue selectedId_def)
    ultimately show ?thesis
      unfolding first None by (cases queue) auto
  next
    case (Some g)
    then have "\<not> (\<forall>g \<in> set queue. of_id g \<noteq> or_opt (q_get ps ''id'') [])"
      using find_listed by fastforce
    moreover have "open_finding ps fs = Some g"
      using Some by (simp add: open_finding_def Let_def queue selectedId_def)
    ultimately show ?thesis unfolding first Some by auto
  qed
qed

definition ex_findings :: "ops_finding list" where
  "ex_findings = parseFindingsPayload (\<lambda>_. []) (JObj [(''findings'', JArr
     [JObj [(''id'', JStr ''f1''), (''severity'', JStr ''low''), (''title'', JStr ''TLS'')],
      JObj [(''id'', JStr ''f2''), (''severity'', JStr ''CRITICAL''), (''title'', JStr ''RSA'')]])])"

theorem findings_queue_witness:
  "map of_id (filtered_findings [(''id'', ''f1'')] ex_findings) = [''f2'', ''f1''] \<and>
   map_option of_id (open_finding [(''id'', ''f1'')] ex_findings) = Some ''f1''"
proof
  have "list_all (\<lambda>f. of_severity f \<notin> set inherited_members) ex_findings" by code_simp
  note use = findings_queue [OF this refl refl refl refl, of "[(''id'', ''f1'')]"]
  show ids: "map of_id (filtered_findings [(''id'', ''f1'')] ex_findings) = [''f2'', ''f1'']" by code_simp
  then obtain g h where q: "filtered_findings [(''id'', ''f1'')] ex_findings = [g, h]" "of_id g = ''f2''" "of_id h = ''f1''"
    by (auto simp: map_eq_Cons_conv)
  have "or_opt (q_get [(''id'', ''f1'')] ''id'') [] = ''f1''" by code_simp
  then have "open_finding [(''id'', ''f1'')] ex_findings = Some h"
    using use [of "[]" h] q by (simp add: Ex_less_Suc)
  then show "map_option of_id (open_finding [(''id'', ''f1'')] ex_findings) = Some ''f1''" by (simp add: q)
qed

text \<open>C25: A view that is saved from a page whose stored views this console wrote heads the list of views, in the page and after a
  reload; following it after any filtering brings back the filters it was saved with.\<close>

theorem saved_view_restores:
  assumes J: "json stringify parse" and ok: "views_ok parse (fp_storage p)"
    and dialog: "fp_saveOpen p" "str_trim (fp_viewName p) \<noteq> []"
    and p': "p' = findings_step fmt stringify parse data p (FSave now)"
    and later: "q = p' \<or> q = findings_init parse ps (fp_storage p')" "list_all filters_only es"
  shows "\<exists>rest. loadSavedViews parse (fp_storage p') =
        saved_view (''view-'' @ nat_str now) (str_trim (fp_viewName p)) (q_string (fp_params p)) # rest
    \<and> fp_views p' = loadSavedViews parse (fp_storage p')
    \<and> fp_params (findings_step fmt stringify parse data (run (findings_step fmt stringify parse data) q es) (FFollow 0)) =
        fp_params p"
proof -
  let ?step = "findings_step fmt stringify parse data" and ?name = "str_trim (fp_viewName p)"
  let ?vs = "saved_views now ?name (q_string (fp_params p)) (loadSavedViews parse (fp_storage p))"
  obtain s' where s': "saveView stringify parse now ?name (q_string (fp_params p)) (fp_storage p) = Some (?vs, s')"
      "loadSavedViews parse s' = ?vs"
    using json.saveView_ok [OF J ok] by blast
  have p1: "fp_views p' = ?vs" "fp_storage p' = s'" using s' dialog by (simp_all add: p' findings_step_def Let_def)
  obtain rest where rest: "?vs = saved_view (''view-'' @ nat_str now) ?name (q_string (fp_params p)) # rest"
    using saved_views_head by blast
  have "fp_views q = ?vs" using later(1) p1 s'(2) by (auto simp: findings_init_def)
  then have "fp_views (run ?step q es) = ?vs" using findings_views.run_obs [OF later(2), of fmt stringify parse data q] by simp
  then have "fp_params (?step (run ?step q es) (FFollow 0)) = fp_params p"
    using rest by (simp add: findings_step_def Let_def view_params_saved)
  with rest p1 s'(2) show ?thesis by simp
qed

theorem saved_view_restores_witness:
  "let p = (findings_init unary_parse [(''q'', ''rsa & tls'')] (storage_of []))\<lparr>fp_saveOpen := True, fp_viewName := ''mine''\<rparr>;
       step = findings_step (\<lambda>_. []) unary_stringify unary_parse JUndef
   in fp_params (step (run step (findings_init unary_parse [] (fp_storage (step p (FSave 7)))) [FSearch ''aes'']) (FFollow 0))
      = [(''q'', ''rsa & tls'')]"
proof -
  let ?p = "(findings_init unary_parse [(''q'', ''rsa & tls'')] (storage_of []))\<lparr>fp_saveOpen := True, fp_viewName := ''mine''\<rparr>"
  have "views_ok unary_parse (fp_storage ?p)" using empty_views_ok by (simp add: findings_init_def views_ok_def loadSavedViews_def
        stored_json_def well_formed_views_def)
  moreover have "fp_saveOpen ?p" "str_trim (fp_viewName ?p) \<noteq> []" by (simp_all add: str_trim_def is_space_def)
  ultimately show ?thesis
    using saved_view_restores [OF unary_json, of ?p "findings_step (\<lambda>_. []) unary_stringify unary_parse JUndef ?p (FSave 7)"
        "\<lambda>_. []" JUndef 7 _ "[]" "[FSearch ''aes'']"] by (auto simp: Let_def findings_init_def)
qed

text \<open>A text typed into the search filters by that text and leaves the other filters alone, except the word \<open>all\<close>,
  which clears the search.\<close>

theorem search_text:
  assumes "p' = findings_step fmt stringify parse data p (FSearch s)"
  shows "q_param (fp_params p') = (if s = ''all'' then [] else s)
    \<and> severity_param (fp_params p') = severity_param (fp_params p) \<and> selectedId (fp_params p') = selectedId (fp_params p)"
  using assms by (simp add: findings_step_def setFilter_def q_param_def severity_param_def selectedId_def Let_def or_opt_def)

theorem search_text_witness:
  "q_param (fp_params (findings_step (\<lambda>_. []) (\<lambda>_. []) (\<lambda>_. None) JUndef (findings_init (\<lambda>_. None) [] (storage_of []))
     (FSearch ''all''))) = []"
  using search_text [OF refl, of "\<lambda>_. []" "\<lambda>_. []" "\<lambda>_. None" JUndef "findings_init (\<lambda>_. None) [] (storage_of [])" "''all''"] by simp

text \<open>The lines of an exported file that hold findings without quotes, backslashes and control characters read back, as
  CSV, as those findings; a finding with a quote in its title makes the file unreadable.\<close>

theorem export_round_trip:
  assumes "list_all (\<lambda>r. list_all csv_plain (export_fields r)) rows" "rows \<noteq> []"
  shows "\<exists>body. exportRows rows = str_join '','' export_header @ [CHR 0x0A] @ body
    \<and> read_csv (body @ [CHR 0x0A]) = Some (map export_fields rows)"
proof -
  let ?body = "str_join [CHR 0x0A] (map csv_line (map export_fields rows))"
  have "map export_line rows = map csv_line (map export_fields rows)"
    using assms(1) by (simp add: list_all_iff export_line_plain)
  with assms(2) have "exportRows rows = str_join '','' export_header @ [CHR 0x0A] @ ?body"
    by (metis export_split)
  moreover have "list_all (\<lambda>ws. ws \<noteq> []) (map export_fields rows)" by (simp add: list_all_iff export_fields_def)
  then have "read_csv (?body @ [CHR 0x0A]) = Some (map export_fields rows)"
    using read_records [of "map export_fields rows" "[]"] assms(2) by (simp only: read_csv_def) simp
  ultimately show ?thesis by blast
qed

theorem export_round_trip_witness:
  "\<exists>body. exportRows ex_findings = str_join '','' export_header @ [CHR 0x0A] @ body
    \<and> read_csv (body @ [CHR 0x0A]) = Some (map export_fields ex_findings)"
  by (rule export_round_trip) code_simp+

definition quoted_finding :: ops_finding where
  "quoted_finding = (hd ex_findings)\<lparr>of_title := ''Weak '' @ [CHR 0x22] @ ''RC4'' @ [CHR 0x22]\<rparr>"

theorem export_quote_unreadable:
  "\<exists>body. exportRows [quoted_finding] = str_join '','' export_header @ [CHR 0x0A] @ body \<and> read_csv (body @ [CHR 0x0A]) = None"
proof -
  have "read_csv (str_join [CHR 0x0A] (map export_line [quoted_finding]) @ [CHR 0x0A]) = None" by code_simp
  then show ?thesis using export_split [of "[quoted_finding]"] by blast
qed

end
