(* ===== verification/Report_Export.thy ===== *)
theory Report_Export
  imports Prelude
begin

text \<open>
  web/src/utils/reportExport.ts: the files and printed reports the pages export.  \<open>window.open\<close> answers as the HTML
  standard says: with the feature \<open>noopener\<close> or \<open>noreferrer\<close> the new window is not handed to the caller.
\<close>

definition replace_char :: "char \<Rightarrow> string \<Rightarrow> string \<Rightarrow> string" where
  "replace_char c w s = concat (map (\<lambda>d. if d = c then w else [d]) s)"

definition escapeHtml :: "string \<Rightarrow> string" where
  "escapeHtml value =
     replace_char (CHR 0x22) ''&quot;'' (replace_char (CHR ''>'') ''&gt;''
       (replace_char (CHR ''<'') ''&lt;'' (replace_char (CHR ''&'') ''&amp;'' value)))"

record report_options =
  ro_title :: string
  ro_subtitle :: "string option"
  ro_disclaimer :: "string option"
  ro_bodyHtml :: string

definition report_style :: string where
  "report_style =
     ''<style>'' @ [CHR 0x0A]
     @ ''  body { font-family: '' @ [CHR 0x22] @ ''Inter'' @ [CHR 0x22] @ '', '' @ [CHR 0x22] @ ''Segoe UI''
     @ [CHR 0x22] @ '', Helvetica, Arial, sans-serif; color: #000000; margin: 32px; }'' @ [CHR 0x0A]
     @ ''  h1 { color: #6d28d9; font-size: 22px; margin: 0 0 8px; }'' @ [CHR 0x0A]
     @ ''  .sub { color: #525252; margin-bottom: 16px; }'' @ [CHR 0x0A]
     @ ''  .disclaimer { background: #ffffff; border-left: 4px solid #7c3aed; padding: 12px 16px; margin: 16px 0; font-size: 13px; }''
     @ [CHR 0x0A] @ ''  table { width: 100%; border-collapse: collapse; font-size: 13px; }'' @ [CHR 0x0A]
     @ ''  th, td { text-align: left; padding: 8px 10px; border-bottom: 1px solid #e0e0e0; }'' @ [CHR 0x0A]
     @ ''  th { background: #f4f4f4; }'' @ [CHR 0x0A] @ ''  .ok { color: #22c55e; font-weight: 600; }''
     @ [CHR 0x0A] @ ''  .bad { color: #ef4444; font-weight: 600; }'' @ [CHR 0x0A] @ ''</style></head><body>''"

definition report_html :: "report_options \<Rightarrow> nat \<Rightarrow> string" where
  "report_html opts year =
     ''<!DOCTYPE html><html><head><meta charset='' @ [CHR 0x22] @ ''utf-8'' @ [CHR 0x22] @ ''/>'' @ [CHR 0x0A]
     @ ''<title>'' @ escapeHtml (ro_title opts) @ ''</title>'' @ [CHR 0x0A] @ report_style
     @ [CHR 0x0A] @ ''  <h1>'' @ escapeHtml (ro_title opts) @ ''</h1>'' @ [CHR 0x0A] @ ''  ''
     @ (if truthy_opt (ro_subtitle opts) then ''<div class='' @ [CHR 0x22] @ ''sub'' @ [CHR 0x22] @ ''>'' @ escapeHtml (or_opt (ro_subtitle opts) []) @ ''</div>'' else [])
     @ [CHR 0x0A] @ ''  <div class='' @ [CHR 0x22] @ ''disclaimer'' @ [CHR 0x22] @ ''>''
     @ escapeHtml (or_opt (ro_disclaimer opts) ''RivicQ Community report. Not a certification.'') @ ''</div>''
     @ [CHR 0x0A] @ ''  '' @ ro_bodyHtml opts @ [CHR 0x0A] @ ''  <p style='' @ [CHR 0x22]
     @ ''margin-top:32px;font-size:12px;color:#8d8d8d'' @ [CHR 0x22] @ ''>'' @ [CHR 0xC2, CHR 0xA9] @ '' ''
     @ nat_str year @ '' RivicQ GmbH '' @ [CHR 0xC2, CHR 0xB7]
     @ '' Apache-2.0 Community / commercial Enterprise license</p>'' @ [CHR 0x0A] @ ''</body></html>''"

text \<open>Whether the caller gets the window it opens; the report written into it.\<close>

definition window_features :: string where "window_features = ''noopener,noreferrer''"

definition opens_window :: "string \<Rightarrow> bool" where
  "opens_window features \<longleftrightarrow> set (split_on (CHR '','') features) \<inter> {''noopener'', ''noreferrer''} = {}"

definition printBrandedReport :: "report_options \<Rightarrow> nat \<Rightarrow> string option" where
  "printBrandedReport opts year = (if \<not> opens_window window_features then None else Some (report_html opts year))"

text \<open>A download: the name of the file, its type and its text.\<close>

record download =
  dl_name :: string
  dl_type :: string
  dl_text :: string

definition downloadJSON :: "string \<Rightarrow> string \<Rightarrow> download" where
  "downloadJSON filename json_text = \<lparr>dl_name = filename, dl_type = ''application/json'', dl_text = json_text\<rparr>"

section \<open>Lemmas\<close>

definition escape_char :: "char \<Rightarrow> string" where
  "escape_char c =
     (if c = CHR ''&'' then ''&amp;'' else if c = CHR ''<'' then ''&lt;'' else if c = CHR ''>'' then ''&gt;''
      else if c = CHR 0x22 then ''&quot;'' else [c])"

text \<open>The four replacements in their order are one replacement of every character.\<close>

lemma replace_append [simp]: "replace_char c w (s @ t) = replace_char c w s @ replace_char c w t"
  by (simp add: replace_char_def)

lemma replace_Nil [simp]: "replace_char c w [] = []"
  by (simp add: replace_char_def)

lemma escape_Cons: "escapeHtml (c # s) = escape_char c @ escapeHtml s"
proof -
  have "escapeHtml ([c] @ s) = escapeHtml [c] @ escapeHtml s" by (simp only: escapeHtml_def replace_append)
  moreover have "escapeHtml [c] = escape_char c" by (auto simp: escapeHtml_def replace_char_def escape_char_def)
  ultimately show ?thesis by simp
qed

lemma escapeHtml_chars: "escapeHtml s = concat (map escape_char s)"
  by (induction s) (simp_all add: escape_Cons, simp add: escapeHtml_def)

lemma escaped_no_markup: "count_if (\<lambda>c. c = CHR ''<'') (escapeHtml s) = 0"
  by (induction s) (auto simp: escapeHtml_chars escape_char_def count_if_def)

lemma count_if_append [simp]: "count_if p (xs @ ys) = count_if p xs + count_if p ys"
  by (simp add: count_if_def)

lemma style_markup: "count_if (\<lambda>c. c = CHR ''<'') report_style = 4"
  by code_simp

text \<open>Reading the four entities gives the text back.\<close>

fun unescape :: "string \<Rightarrow> string" where
  "unescape [] = []"
| "unescape (c # s) =
     (if c = CHR ''&'' then
        (if starts_with s ''amp;'' then CHR ''&'' # unescape (drop 4 s)
         else if starts_with s ''lt;'' then CHR ''<'' # unescape (drop 3 s)
         else if starts_with s ''gt;'' then CHR ''>'' # unescape (drop 3 s)
         else if starts_with s ''quot;'' then CHR 0x22 # unescape (drop 5 s)
         else c # unescape s)
      else c # unescape s)"

lemma unescape_char: "unescape (escape_char c @ s) = c # unescape s"
  by (simp add: escape_char_def starts_with_def)

lemma unescape_escaped: "unescape (escapeHtml s) = s"
  by (induction s) (simp_all add: escapeHtml_chars unescape_char)

section \<open>Properties\<close>

text \<open>The title, the subtitle and the disclaimer of a report cannot add an element to its document, and a reader of
  the document gets them back as they were; only the body of the caller can.\<close>

theorem report_markup:
  "count_if (\<lambda>c. c = CHR ''<'') (report_html opts year) =
     (if truthy_opt (ro_subtitle opts) then 20 else 18) + count_if (\<lambda>c. c = CHR ''<'') (ro_bodyHtml opts)
       + count_if (\<lambda>c. c = CHR ''<'') (nat_str year)
   \<and> unescape (escapeHtml s) = s"
  by (simp add: report_html_def style_markup escaped_no_markup unescape_escaped)

text \<open>No report is ever printed: the features it opens its window with keep the window from it.\<close>

theorem report_never_printed: "printBrandedReport opts year = None"
  by (simp add: printBrandedReport_def opens_window_def window_features_def)

end
