(* ===== verification/Asset_Pages.thy ===== *)
theory Asset_Pages
  imports Workspace_Demo Data_Table Js_Query Report_Export
begin

text \<open>
  web/src/pages/Assets.tsx and AssetDetails.tsx: the inventory and one asset of it.  The rows are whatever the
  API answers, so reading a member of a null row, or calling a string method on another value, throws: \<open>None\<close>.
  \<open>collate\<close> is the sign of \<open>localeCompare\<close>.  Identifiers are strings or numbers.
\<close>

section \<open>Reading a row\<close>

definition member_of :: "jval \<Rightarrow> string \<Rightarrow> jval option" where
  "member_of a k = (if not_null a then Some (js_prop a k) else None)"

text \<open>\<open>a.k || a.j || ''\<close>, of which a string method is called.\<close>

fun the_string :: "jval \<Rightarrow> string option" where
  "the_string (JStr s) = Some s"
| "the_string _ = None"

definition text_of :: "jval \<Rightarrow> string list \<Rightarrow> string option" where
  "text_of a ks =
     (if not_null a then the_string (foldr (\<lambda>k v. js_or (js_prop a k) v) ks (JStr [])) else None)"

definition or_members :: "jval \<Rightarrow> string list \<Rightarrow> string \<Rightarrow> jval" where
  "or_members a ks d = foldr (\<lambda>k v. js_or (js_prop a k) v) ks (JStr d)"

definition ready :: "jval \<Rightarrow> bool" where
  "ready a \<longleftrightarrow> js_truthy (js_or (js_prop a ''quantum_safe'') (js_prop a ''quantumSafe''))"

text \<open>\<open>xs.filter(p)\<close> with a predicate that may throw.\<close>

fun filter_opt :: "('a \<Rightarrow> bool option) \<Rightarrow> 'a list \<Rightarrow> 'a list option" where
  "filter_opt p [] = Some []"
| "filter_opt p (x # xs) =
     (case p x of None \<Rightarrow> None
      | Some b \<Rightarrow> map_option (\<lambda>ys. if b then x # ys else ys) (filter_opt p xs))"

section \<open>The list\<close>

datatype sort_key = ByName | ByRisk | ByAlgorithm

definition asset_matches :: "string \<Rightarrow> jval \<Rightarrow> bool option" where
  "asset_matches q a =
     (case text_of a [''name''] of
        None \<Rightarrow> None
      | Some n \<Rightarrow>
          if str_includes (str_lower n) (str_lower q) then Some True
          else map_option (\<lambda>t. str_includes (str_lower t) (str_lower q)) (text_of a [''algorithm'', ''crypto_algorithm'']))"

definition RISK_RANK :: "(string \<times> int) list" where
  "RISK_RANK = [(''CRITICAL'', 0), (''HIGH'', 1), (''MEDIUM'', 2), (''LOW'', 3)]"

definition risk_rank :: "(rat \<Rightarrow> string) \<Rightarrow> jval \<Rightarrow> int" where
  "risk_rank fmt a =
     nullish (map_of RISK_RANK (str_upper (js_string fmt (or_members a [''risk_level'', ''riskLevel''] [])))) 9"

definition asset_before :: "(rat \<Rightarrow> string) \<Rightarrow> (string \<Rightarrow> string \<Rightarrow> int) \<Rightarrow> sort_key \<Rightarrow> jval \<Rightarrow> jval \<Rightarrow> bool" where
  "asset_before fmt collate key a b =
     (case key of
        ByName \<Rightarrow> collate (js_string fmt (or_members a [''name''] [])) (js_string fmt (or_members b [''name''] [])) \<le> 0
      | ByAlgorithm \<Rightarrow>
          collate (js_string fmt (or_members a [''algorithm'', ''crypto_algorithm''] []))
            (js_string fmt (or_members b [''algorithm'', ''crypto_algorithm''] [])) \<le> 0
      | ByRisk \<Rightarrow> risk_rank fmt a \<le> risk_rank fmt b)"

definition filteredAssets ::
  "(rat \<Rightarrow> string) \<Rightarrow> (string \<Rightarrow> string \<Rightarrow> int) \<Rightarrow> string \<Rightarrow> sort_key \<Rightarrow> jval list \<Rightarrow> jval list option" where
  "filteredAssets fmt collate q key assets =
     map_option (sort_by (asset_before fmt collate key)) (filter_opt (asset_matches q) assets)"

definition rowsPerPage :: nat where "rowsPerPage = 25"

definition paginatedAssets :: "nat \<Rightarrow> jval list \<Rightarrow> jval list" where
  "paginatedAssets page rows = take rowsPerPage (drop ((page - 1) * rowsPerPage) rows)"

definition totalPages :: "jval list \<Rightarrow> nat" where
  "totalPages rows = max 1 (nat \<lceil>of_nat (length rows) / (of_nat rowsPerPage :: rat)\<rceil>)"

definition migrationQueue :: "jval list \<Rightarrow> jval list option" where
  "migrationQueue assets = filter_opt (\<lambda>a. if not_null a then Some (\<not> ready a) else None) assets"

definition risk_queue :: "jval list \<Rightarrow> jval list option" where
  "risk_queue assets =
     map_option (take 8)
       (filter_opt (\<lambda>a. map_option (\<lambda>t. str_upper t \<in> {''HIGH'', ''CRITICAL''}) (text_of a [''risk_level'', ''riskLevel''])) assets)"

text \<open>The table of one provider; \<open>provider.split('_')[0]\<close>.\<close>

definition provider_assets :: "string \<Rightarrow> jval list \<Rightarrow> jval list option" where
  "provider_assets provider assets =
     filter_opt (\<lambda>a. map_option (\<lambda>t. str_lower t = provider \<or> str_includes (str_lower t) (hd (split_on (CHR ''_'') provider)))
       (text_of a [''cloud_provider''])) assets"

definition category_share :: "(rat \<Rightarrow> string) \<Rightarrow> jval \<Rightarrow> jval \<Rightarrow> jsnum" where
  "category_share fmt n t =
     (if js_truthy t then js_round (js_mul (js_div (js_number fmt n) (js_number fmt t)) (num 100)) else num 0)"

datatype risk_colour = Success | Caution | Failure | Plain

text \<open>\<open>level?.toUpperCase()\<close>.\<close>

definition getRiskColor :: "jval \<Rightarrow> risk_colour option" where
  "getRiskColor level =
     (if \<not> not_null level then Some Plain
      else map_option (\<lambda>t. let u = str_upper t in
             if u = ''LOW'' then Success else if u = ''MEDIUM'' then Caution
             else if u = ''HIGH'' \<or> u = ''CRITICAL'' then Failure else Plain) (the_string level))"

definition row_colour :: "jval \<Rightarrow> risk_colour option" where
  "row_colour a = (if not_null a then getRiskColor (js_or (js_prop a ''risk_level'') (js_prop a ''riskLevel'')) else None)"

text \<open>The cells of a row after its box: name, algorithm, key size, cloud, owner, risk and readiness.\<close>

definition asset_cells :: "jval \<Rightarrow> jval list" where
  "asset_cells a =
     [js_prop a ''name'', or_members a [''algorithm'', ''crypto_algorithm''] ''N/A'',
      or_members a [''key_size'', ''keySize''] em_dash, or_members a [''cloud_provider'', ''cloudProvider''] em_dash,
      or_members a [''owner''] em_dash, or_members a [''risk_level'', ''riskLevel''] ''UNKNOWN'',
      JStr (if ready a then ''Ready'' else ''Migrate'')]"

section \<open>The page\<close>

record assets_page =
  ap_tab :: nat
  ap_search :: string
  ap_sort :: sort_key
  ap_selected :: "jval list"
  ap_page :: nat

definition assets_init :: "query \<Rightarrow> assets_page" where
  "assets_init ps = \<lparr>ap_tab = 0, ap_search = or_opt (q_get ps ''q'') [], ap_sort = ByRisk, ap_selected = [], ap_page = 1\<rparr>"

definition toggleSelect :: "jval \<Rightarrow> jval list \<Rightarrow> jval list" where
  "toggleSelect i xs = (if i \<in> set xs then filter (\<lambda>x. x \<noteq> i) xs else xs @ [i])"

datatype assets_event =
  PTab nat
| PSearch string
| PSort sort_key
| PSelect nat
| PSelectCloud string nat
| PPrevious
| PNext

definition page_bar :: "jval list \<Rightarrow> bool" where "page_bar rows \<longleftrightarrow> totalPages rows > 1"

text \<open>One event on the list the page shows; the bar of the pages is shown when there are several, and the tab of the
  clouds has a table for every provider of the summary.\<close>

definition assets_step ::
  "(rat \<Rightarrow> string) \<Rightarrow> (string \<Rightarrow> string \<Rightarrow> int) \<Rightarrow> string list \<Rightarrow> jval list \<Rightarrow> assets_page \<Rightarrow> assets_event \<Rightarrow> assets_page" where
  "assets_step fmt collate providers assets p e =
     (case filteredAssets fmt collate (ap_search p) (ap_sort p) assets of
        None \<Rightarrow> p
      | Some rows \<Rightarrow>
          let shown = paginatedAssets (ap_page p) rows
          in case e of
               PTab t \<Rightarrow> if t < 5 then p\<lparr>ap_tab := t\<rparr> else p
             | PSearch q \<Rightarrow> if ap_tab p = 0 then p\<lparr>ap_search := q\<rparr> else p
             | PSort k \<Rightarrow> if ap_tab p = 0 then p\<lparr>ap_sort := k\<rparr> else p
             | PSelect k \<Rightarrow> if ap_tab p = 0 \<and> k < length shown
                 then p\<lparr>ap_selected := toggleSelect (js_prop (shown ! k) ''id'') (ap_selected p)\<rparr> else p
             | PSelectCloud provider k \<Rightarrow>
                 (case provider_assets provider assets of
                    None \<Rightarrow> p
                  | Some mine \<Rightarrow>
                      if ap_tab p = 2 \<and> provider \<in> set providers \<and> k < length mine
                      then p\<lparr>ap_selected := toggleSelect (js_prop (mine ! k) ''id'') (ap_selected p)\<rparr> else p)
             | PPrevious \<Rightarrow> if ap_tab p = 0 \<and> page_bar rows \<and> ap_page p \<noteq> 1 then p\<lparr>ap_page := ap_page p - 1\<rparr> else p
             | PNext \<Rightarrow> if ap_tab p = 0 \<and> page_bar rows \<and> ap_page p \<noteq> totalPages rows then p\<lparr>ap_page := ap_page p + 1\<rparr> else p)"

section \<open>The export\<close>

definition exported_assets :: "assets_page \<Rightarrow> jval list \<Rightarrow> jval list \<Rightarrow> jval list" where
  "exported_assets p assets rows =
     (if ap_selected p \<noteq> [] then filter (\<lambda>a. js_prop a ''id'' \<in> set (ap_selected p)) assets else rows)"

definition inventory_file :: "string \<Rightarrow> jval list \<Rightarrow> jval" where
  "inventory_file now rows =
     JObj [(''source'', JStr ''community_inventory''), (''generated_at'', JStr now), (''assets'', JArr rows)]"

definition report_row :: "(rat \<Rightarrow> string) \<Rightarrow> jval \<Rightarrow> string" where
  "report_row fmt a =
     ''<tr><td>'' @ js_string fmt (or_members a [''name''] []) @ ''</td><td>''
     @ js_string fmt (or_members a [''algorithm'', ''crypto_algorithm''] []) @ ''</td><td>''
     @ js_string fmt (or_members a [''risk_level'', ''riskLevel''] []) @ ''</td><td>''
     @ (if ready a then ''Ready'' else ''Migrate'') @ ''</td></tr>''"

definition inventory_report :: "(rat \<Rightarrow> string) \<Rightarrow> jval list \<Rightarrow> report_options" where
  "inventory_report fmt rows =
     \<lparr>ro_title = ''RivicQ cryptographic inventory'', ro_subtitle = Some (nat_str (length rows) @ '' assets''),
      ro_disclaimer = None,
      ro_bodyHtml = ''<table><thead><tr><th>Name</th><th>Algorithm</th><th>Risk</th><th>PQC</th></tr></thead><tbody>''
        @ concat (map (report_row fmt) (take 80 rows)) @ ''</tbody></table>''\<rparr>"

definition export_inventory ::
  "(rat \<Rightarrow> string) \<Rightarrow> (jval \<Rightarrow> string) \<Rightarrow> string \<Rightarrow> nat \<Rightarrow> assets_page \<Rightarrow> jval list \<Rightarrow> jval list \<Rightarrow> download \<times> string option" where
  "export_inventory fmt stringify now year p assets rows =
     (let out = exported_assets p assets rows
      in (downloadJSON ''rivicq-inventory.json'' (stringify (inventory_file now out)),
          printBrandedReport (inventory_report fmt out) year))"

section \<open>One asset\<close>

definition detail_asset :: "jval \<Rightarrow> jval" where
  "detail_asset data = js_coalesce (js_prop data ''asset'') data"

definition size_text :: "(rat \<Rightarrow> string) \<Rightarrow> jval \<Rightarrow> string" where
  "size_text fmt v = js_string fmt v @ (case v of JNum _ \<Rightarrow> '' bits'' | _ \<Rightarrow> [])"

record detail_view =
  dt_title :: jval
  dt_subtitle :: string
  dt_risk :: jval
  dt_colour :: risk_colour
  dt_safe :: bool
  dt_facts :: "(string \<times> string) list"
  dt_score :: string
  dt_steps :: "string list"
  dt_metadata :: "(string \<times> string) list"

definition below_3072 :: "jval \<Rightarrow> bool" where
  "below_3072 v = (case v of JNum n \<Rightarrow> js_lt n (num 3072) | _ \<Rightarrow> False)"

text \<open>\<open>None\<close> when there is no asset or showing it throws.\<close>

definition asset_detail :: "(rat \<Rightarrow> string) \<Rightarrow> jval \<Rightarrow> detail_view option" where
  "asset_detail fmt data =
     (let a = detail_asset data;
          risk = or_members a [''risk_level'', ''riskLevel''] ''UNKNOWN'';
          safe = js_truthy (js_coalesce (js_prop a ''quantum_safe'') (js_prop a ''quantumSafe''));
          algorithm = or_members a [''algorithm'', ''crypto_algorithm''] ''N/A'';
          keySize = js_or (js_prop a ''key_size'') (js_prop a ''keySize'');
          score = js_coalesce (js_prop a ''compliance_score'') (js_prop a ''complianceScore'')
      in if \<not> js_truthy a then None
         else case (the_string risk, the_string algorithm) of
           (Some _, Some alg) \<Rightarrow>
             map_option (\<lambda>colour.
               \<lparr>dt_title = js_prop a ''name'', dt_subtitle = alg @ '' '' @ mid_dot @ '' '' @ size_text fmt keySize,
                dt_risk = risk, dt_colour = colour, dt_safe = safe,
                dt_facts = [(''Algorithm'', alg), (''Key Size'', size_text fmt keySize),
                  (''Cloud Provider'', js_string fmt (or_members a [''cloud_provider'', ''cloudProvider''] ''N/A'')),
                  (''Category'', js_string fmt (or_members a [''category''] ''N/A''))],
                dt_score = (case score of JNum n \<Rightarrow> num_string fmt n @ ''%'' | _ \<Rightarrow> ''Not provided''),
                dt_steps =
                  (if safe then [] else [''Migrate to post-quantum algorithm (CRYSTALS-Kyber or Dilithium)''])
                  @ (if str_includes (str_upper alg) ''RSA'' \<and> below_3072 keySize
                     then [''Upgrade RSA key size to at least 3072 bits''] else [])
                  @ [''Review key rotation policy''],
                dt_metadata = (if js_truthy (js_prop a ''metadata'')
                  then map (\<lambda>(k, v). (k, js_string fmt v)) (own_entries (js_prop a ''metadata'')) else [])\<rparr>) (getRiskColor risk)
         | _ \<Rightarrow> None)"

section \<open>Lemmas\<close>

lemma filter_opt_total: "list_all (\<lambda>x. p x \<noteq> None) xs \<Longrightarrow> filter_opt p xs = Some (filter (\<lambda>x. p x = Some True) xs)"
  by (induction xs) auto

lemma filter_opt_throws: "\<not> list_all (\<lambda>x. p x \<noteq> None) xs \<Longrightarrow> filter_opt p xs = None"
  by (induction xs) (auto split: option.split)

interpretation risks: stable_order "(\<le>) :: int \<Rightarrow> int \<Rightarrow> bool" UNIV
  by unfold_locales auto

lemma totalPages_ceil: "int (totalPages rows) = max 1 \<lceil>of_nat (length rows) / (25 :: rat)\<rceil>"
proof -
  have "0 \<le> \<lceil>of_nat (length rows) / (25 :: rat)\<rceil>" by (simp add: order_less_le_trans [of _ 0])
  then show ?thesis by (simp add: totalPages_def rowsPerPage_def)
qed

lemma totalPages_enough: "length rows \<le> totalPages rows * rowsPerPage"
proof -
  have "of_nat (length rows) / (25 :: rat) \<le> of_int (int (totalPages rows))"
    unfolding totalPages_ceil by (simp add: max_def) linarith
  then have "(of_nat (length rows) :: rat) \<le> of_nat (totalPages rows * 25)" by simp
  then show ?thesis by (simp only: rowsPerPage_def of_nat_le_iff)
qed

lemma one_page: "length rows \<le> rowsPerPage \<Longrightarrow> totalPages rows = 1"
proof -
  assume "length rows \<le> rowsPerPage"
  then have "of_nat (length rows) / (25 :: rat) \<le> 1" by (simp add: rowsPerPage_def)
  then have "\<lceil>of_nat (length rows) / (25 :: rat)\<rceil> \<le> 1" by (simp add: ceiling_le_iff)
  then have "int (totalPages rows) = 1" by (simp add: totalPages_ceil)
  then show ?thesis by simp
qed

lemma concat_pages: "concat (map (\<lambda>p. paginatedAssets (Suc p) rows) [0..<n]) = take (n * rowsPerPage) rows"
  by (induction n) (simp_all add: paginatedAssets_def take_add [symmetric] add.commute)

section \<open>Properties\<close>

text \<open>A row is read without failing, and is found, by its name and then by its algorithm.\<close>

lemma asset_matches_cases:
  "asset_matches q a =
    (case js_or (js_prop a ''name'') (JStr []) of
       JStr n \<Rightarrow>
         if \<not> not_null a then None
         else if str_includes (str_lower n) (str_lower q) then Some True
         else (case js_or (js_prop a ''algorithm'') (js_or (js_prop a ''crypto_algorithm'') (JStr [])) of
                 JStr t \<Rightarrow> Some (str_includes (str_lower t) (str_lower q)) | _ \<Rightarrow> None)
     | _ \<Rightarrow> None)"
  by (simp add: asset_matches_def text_of_def split: jval.split)

text \<open>The risk levels at least as high as one, apart from the table the comparator reads.\<close>

definition as_risky :: "string \<Rightarrow> string set" where
  "as_risky l =
     (if l = ''CRITICAL'' then {''CRITICAL''}
      else if l = ''HIGH'' then {''CRITICAL'', ''HIGH''}
      else if l = ''MEDIUM'' then {''CRITICAL'', ''HIGH'', ''MEDIUM''}
      else if l = ''LOW'' then {''CRITICAL'', ''HIGH'', ''MEDIUM'', ''LOW''}
      else UNIV)"

lemma risk_rank_as_risky:
  "risk_rank fmt a \<le> risk_rank fmt b \<longleftrightarrow>
     str_upper (js_string fmt (or_members a [''risk_level'', ''riskLevel''] [])) \<in>
       as_risky (str_upper (js_string fmt (or_members b [''risk_level'', ''riskLevel''] [])))"
  by (simp add: risk_rank_def RISK_RANK_def as_risky_def)

text \<open>C34: the inventory is listed exactly when every row can be searched: it is not null, its name is a text or
  missing, and unless the name has the search text its algorithm is a text or missing.  Sorted by risk, the list holds
  every row with the search text in its name or its algorithm once, in any letter case; critical rows come first, then
  high, medium and low ones and then all others, the rows of one level, and all those others, in the order given; and
  the pages together show all of it.\<close>

theorem assets_listed:
  assumes name: "name = (\<lambda>a. js_or (js_prop a ''name'') (JStr []))"
    and alg: "alg = (\<lambda>a. js_or (js_prop a ''algorithm'') (js_or (js_prop a ''crypto_algorithm'') (JStr [])))"
    and has: "has = (\<lambda>v. \<exists>s. v = JStr s \<and> str_includes (str_lower s) (str_lower q))"
    and level: "level = (\<lambda>a. str_upper (js_string fmt
      (js_or (js_prop a ''risk_level'') (js_or (js_prop a ''riskLevel'') (JStr [])))))"
    and found: "found = filter (\<lambda>a. has (name a) \<or> has (alg a)) assets"
  shows "(filteredAssets fmt collate q ByRisk assets \<noteq> None \<longleftrightarrow>
      (\<forall>a \<in> set assets. not_null a \<and> name a \<in> range JStr \<and> (has (name a) \<or> alg a \<in> range JStr)))
   \<and> (\<forall>rows. filteredAssets fmt collate q ByRisk assets = Some rows \<longrightarrow>
        mset rows = mset found
        \<and> sorted_wrt (\<lambda>a b.
            (level b = ''CRITICAL'' \<longrightarrow> level a = ''CRITICAL'') \<and>
            (level b = ''HIGH'' \<longrightarrow> level a \<in> {''CRITICAL'', ''HIGH''}) \<and>
            (level b = ''MEDIUM'' \<longrightarrow> level a \<in> {''CRITICAL'', ''HIGH'', ''MEDIUM''}) \<and>
            (level b = ''LOW'' \<longrightarrow> level a \<in> {''CRITICAL'', ''HIGH'', ''MEDIUM'', ''LOW''})) rows
        \<and> filter (\<lambda>a. level a = l) rows = filter (\<lambda>a. level a = l) found
        \<and> filter (\<lambda>a. level a \<notin> {''CRITICAL'', ''HIGH'', ''MEDIUM'', ''LOW''}) rows =
            filter (\<lambda>a. level a \<notin> {''CRITICAL'', ''HIGH'', ''MEDIUM'', ''LOW''}) found
        \<and> concat (map (\<lambda>p. paginatedAssets (Suc p) rows) [0..<totalPages rows]) = rows)"
proof -
  have ok: "asset_matches q a \<noteq> None \<longleftrightarrow>
      not_null a \<and> name a \<in> range JStr \<and> (has (name a) \<or> alg a \<in> range JStr)" for a
    unfolding asset_matches_cases name alg has by (auto split: jval.splits)
  have yes: "asset_matches q a \<noteq> None \<Longrightarrow> asset_matches q a = Some True \<longleftrightarrow> has (name a) \<or> has (alg a)" for a
    unfolding asset_matches_cases name alg has by (auto split: jval.splits if_splits)
  have lv: "level a = str_upper (js_string fmt (or_members a [''risk_level'', ''riskLevel''] []))" for a
    by (simp add: level or_members_def)
  show ?thesis
  proof (cases "list_all (\<lambda>a. asset_matches q a \<noteq> None) assets")
    case True
    then have m: "filter (\<lambda>a. asset_matches q a = Some True) assets = found"
      unfolding found by (intro filter_cong) (auto simp: list_all_iff yes)
    have b: "asset_before fmt collate ByRisk = (\<lambda>a b. risk_rank fmt a \<le> risk_rank fmt b)"
      by (simp add: fun_eq_iff asset_before_def)
    define rows where "rows = sort_by (\<lambda>a b. risk_rank fmt a \<le> risk_rank fmt b) found"
    have f: "filteredAssets fmt collate q ByRisk assets = Some rows"
      using True by (simp add: filteredAssets_def filter_opt_total b m rows_def)
    have "sorted_wrt (\<lambda>a b. level a \<in> as_risky (level b)) rows"
      using risks.sorted_sort_by [of "risk_rank fmt" found] by (simp add: rows_def lv risk_rank_as_risky)
    then have o: "sorted_wrt (\<lambda>a b.
            (level b = ''CRITICAL'' \<longrightarrow> level a = ''CRITICAL'') \<and>
            (level b = ''HIGH'' \<longrightarrow> level a \<in> {''CRITICAL'', ''HIGH''}) \<and>
            (level b = ''MEDIUM'' \<longrightarrow> level a \<in> {''CRITICAL'', ''HIGH'', ''MEDIUM''}) \<and>
            (level b = ''LOW'' \<longrightarrow> level a \<in> {''CRITICAL'', ''HIGH'', ''MEDIUM'', ''LOW''})) rows"
      by (rule sorted_wrt_mono_rel [rotated]) (simp add: as_risky_def split: if_splits)
    have st: "filter P rows = filter P found" if P: "\<And>a. P a \<Longrightarrow> risk_rank fmt a = k" for P k
    proof -
      have "filter P xs = filter P (filter (\<lambda>a. risk_rank fmt a = k) xs)" for xs
        using P by (auto intro: filter_cong)
      then show ?thesis
        using risks.stable_sort_by [of "risk_rank fmt" found k] by (metis rows_def subset_UNIV)
    qed
    have "filter (\<lambda>a. level a = l) rows = filter (\<lambda>a. level a = l) found"
      by (rule st [of _ "nullish (map_of RISK_RANK l) 9"]) (auto simp: lv risk_rank_def)
    moreover have "filter (\<lambda>a. level a \<notin> {''CRITICAL'', ''HIGH'', ''MEDIUM'', ''LOW''}) rows =
        filter (\<lambda>a. level a \<notin> {''CRITICAL'', ''HIGH'', ''MEDIUM'', ''LOW''}) found"
      by (rule st [of _ 9]) (simp add: lv risk_rank_def RISK_RANK_def nullish_def)
    moreover have "concat (map (\<lambda>p. paginatedAssets (Suc p) rows) [0..<totalPages rows]) = rows"
      using totalPages_enough [of rows] by (simp add: concat_pages)
    moreover have "mset rows = mset found" by (simp add: rows_def)
    moreover have "\<forall>a \<in> set assets. not_null a \<and> name a \<in> range JStr \<and> (has (name a) \<or> alg a \<in> range JStr)"
      using True ok by (simp add: list_all_iff)
    ultimately show ?thesis using o unfolding f by blast
  next
    case False
    then have none: "filteredAssets fmt collate q ByRisk assets = None" by (simp add: filteredAssets_def filter_opt_throws)
    have "\<not> (\<forall>a \<in> set assets. not_null a \<and> name a \<in> range JStr \<and> (has (name a) \<or> alg a \<in> range JStr))"
      using False by (simp only: list_all_iff ok simp_thms)
    with none show ?thesis by simp
  qed
qed

theorem assets_listed_witness:
  "filteredAssets (\<lambda>_. []) (\<lambda>_ _. 0) [] ByRisk [JNull] = None
   \<and> filteredAssets (\<lambda>_. []) (\<lambda>_ _. 0) ''rsa'' ByRisk [JObj [(''algorithm'', JStr ''RSA-2048'')]] \<noteq> None"
proof
  note use = conjunct1 [OF assets_listed [OF refl refl refl refl refl, of "\<lambda>_. []" "\<lambda>_ _. 0"]]
  show "filteredAssets (\<lambda>_. []) (\<lambda>_ _. 0) [] ByRisk [JNull] = None"
    using use [of "[]" "[JNull]"] by (simp add: not_null_def)
  show "filteredAssets (\<lambda>_. []) (\<lambda>_ _. 0) ''rsa'' ByRisk [JObj [(''algorithm'', JStr ''RSA-2048'')]] \<noteq> None"
    using use [of "''rsa''" "[JObj [(''algorithm'', JStr ''RSA-2048'')]]"] by (simp add: not_null_def)
qed

text \<open>A search does not go back to the first page: from a later page, a search whose matches fit one page shows none of
  them, and the buttons that would lead back are gone.\<close>

theorem search_keeps_stale_page:
  assumes "ap_tab p = 0" "1 < ap_page p" "p' = assets_step fmt collate providers assets p (PSearch q)"
    and "filteredAssets fmt collate (ap_search p) (ap_sort p) assets \<noteq> None"
    and "filteredAssets fmt collate q (ap_sort p) assets = Some rows" "rows \<noteq> []" "length rows \<le> rowsPerPage"
  shows "paginatedAssets (ap_page p') rows = [] \<and> \<not> page_bar rows
    \<and> assets_step fmt collate providers assets p' PPrevious = p' \<and> assets_step fmt collate providers assets p' PNext = p'"
proof -
  have p': "p' = p\<lparr>ap_search := q\<rparr>" using assms(1,3,4) by (auto simp: assets_step_def)
  have "length rows \<le> (ap_page p - 1) * rowsPerPage"
    using assms(2,7) by (cases "ap_page p - 1") (auto intro: order_trans)
  moreover have "\<not> page_bar rows" using one_page [OF assms(7)] by (simp add: page_bar_def)
  ultimately show ?thesis using assms(5) by (simp add: p' paginatedAssets_def assets_step_def)
qed

definition ex_assets :: "jval list" where
  "ex_assets = JObj [(''name'', JStr ''b'')] # replicate 25 (JObj [(''name'', JStr ''a'')])"

theorem search_keeps_stale_page_witness:
  "let step = assets_step (\<lambda>_. []) (\<lambda>_ _. 0) [] ex_assets; p = step (assets_init []) PNext
   in filteredAssets (\<lambda>_. []) (\<lambda>_ _. 0) ''b'' ByRisk ex_assets = Some [hd ex_assets]
      \<and> paginatedAssets (ap_page (step p (PSearch ''b''))) [hd ex_assets] = []"
proof -
  let ?step = "assets_step (\<lambda>_. []) (\<lambda>_ _. 0) [] ex_assets"
  let ?p = "?step (assets_init []) PNext"
  have f: "filteredAssets (\<lambda>_. []) (\<lambda>_ _. 0) [] ByRisk ex_assets = Some ex_assets"
      "filteredAssets (\<lambda>_. []) (\<lambda>_ _. 0) ''b'' ByRisk ex_assets = Some [hd ex_assets]" by code_simp+
  have "\<lceil>26 / (25 :: rat)\<rceil> = 2" by (rule ceiling_unique) simp_all
  then have "totalPages ex_assets = 2" by (simp add: totalPages_def rowsPerPage_def ex_assets_def)
  then have p: "?p = (assets_init [])\<lparr>ap_page := 2\<rparr>"
    by (simp add: assets_step_def assets_init_def q_get_def f page_bar_def)
  have "ap_tab ?p = 0" "1 < ap_page ?p" "filteredAssets (\<lambda>_. []) (\<lambda>_ _. 0) (ap_search ?p) (ap_sort ?p) ex_assets \<noteq> None"
      "filteredAssets (\<lambda>_. []) (\<lambda>_ _. 0) ''b'' (ap_sort ?p) ex_assets = Some [hd ex_assets]"
    unfolding p by (simp_all add: assets_init_def q_get_def f)
  then have "paginatedAssets (ap_page (?step ?p (PSearch ''b''))) [hd ex_assets] = []"
    using search_keeps_stale_page [OF _ _ refl, where p = ?p and fmt = "\<lambda>_. []" and collate = "\<lambda>_ _. 0" and providers = "[]"
        and assets = ex_assets and q = "''b''" and rows = "[hd ex_assets]"]
    by (simp add: rowsPerPage_def)
  with f(2) show ?thesis unfolding Let_def by (intro conjI)
qed

text \<open>An export holds assets of the inventory only, the selected ones when some are selected, the listed ones
  otherwise; its report repeats the names of the assets as they are, markup included, and is never printed.\<close>

theorem inventory_export:
  assumes "filteredAssets fmt collate q key assets = Some rows" "a \<in> set (take 80 (exported_assets p assets rows))"
    and "js_prop a ''name'' = JStr name"
  shows "set (exported_assets p assets rows) \<subseteq> set assets
    \<and> (ap_selected p \<noteq> [] \<longrightarrow>
         set (exported_assets p assets rows) = {b \<in> set assets. js_prop b ''id'' \<in> set (ap_selected p)})
    \<and> (ap_selected p = [] \<longrightarrow> exported_assets p assets rows = rows)
    \<and> (\<exists>u v. ro_bodyHtml (inventory_report fmt (exported_assets p assets rows)) = u @ name @ v)
    \<and> snd (export_inventory fmt stringify now year p assets rows) = None"
proof -
  have r: "set rows \<subseteq> set assets"
  proof (cases "list_all (\<lambda>a. asset_matches q a \<noteq> None) assets")
    case True
    with assms(1) show ?thesis by (auto simp: filteredAssets_def filter_opt_total)
  next
    case False
    with assms(1) show ?thesis by (simp add: filteredAssets_def filter_opt_throws)
  qed
  have row: "\<exists>u v. report_row fmt a = u @ name @ v"
  proof -
    have n: "js_string fmt (or_members a [''name''] []) = name" using assms(3) by (simp add: or_members_def js_or_def)
    show ?thesis unfolding report_row_def n by (rule exI [of _ "''<tr><td>''"]) (intro exI, rule refl)
  qed
  obtain xs ys where "take 80 (exported_assets p assets rows) = xs @ a # ys" using assms(2) by (meson split_list)
  then have "ro_bodyHtml (inventory_report fmt (exported_assets p assets rows)) =
      (''<table><thead><tr><th>Name</th><th>Algorithm</th><th>Risk</th><th>PQC</th></tr></thead><tbody>'' @ concat (map (report_row fmt) xs))
      @ report_row fmt a @ (concat (map (report_row fmt) ys) @ ''</tbody></table>'')"
    by (simp add: inventory_report_def)
  then have "\<exists>u v. ro_bodyHtml (inventory_report fmt (exported_assets p assets rows)) = u @ name @ v"
    using row by (metis append.assoc)
  moreover have "snd (export_inventory fmt stringify now year p assets rows) = None"
    by (simp add: export_inventory_def Let_def printBrandedReport_def opens_window_def window_features_def)
  ultimately show ?thesis using r by (auto simp: exported_assets_def)
qed

theorem inventory_export_witness:
  "\<exists>u v. ro_bodyHtml (inventory_report (\<lambda>_. []) [JObj [(''name'', JStr ''<b>key</b>'')]]) = u @ ''<b>key</b>'' @ v"
proof -
  have "filteredAssets (\<lambda>_. []) (\<lambda>_ _. 0) [] ByRisk [JObj [(''name'', JStr ''<b>key</b>'')]] = Some [JObj [(''name'', JStr ''<b>key</b>'')]]"
    by code_simp
  from inventory_export [OF this, of "JObj [(''name'', JStr ''<b>key</b>'')]" "assets_init []" "''<b>key</b>''" "\<lambda>_. []" "[]" 0]
  show ?thesis by (auto simp: exported_assets_def assets_init_def)
qed

text \<open>An asset without a key size is shown with the key size undefined.\<close>

theorem missing_key_size:
  assumes "asset_detail fmt data = Some d" "a = detail_asset data" "js_prop a ''key_size'' = JUndef" "js_prop a ''keySize'' = JUndef"
  shows "(''Key Size'', ''undefined'') \<in> set (dt_facts d)"
  using assms by (auto simp: asset_detail_def Let_def size_text_def js_or_def split: if_splits option.splits)

theorem missing_key_size_witness:
  "(''Key Size'', ''undefined'') \<in> set (dt_facts (the (asset_detail (\<lambda>_. []) (JObj [(''name'', JStr ''key'')]))))"
proof -
  have "asset_detail (\<lambda>_. []) (JObj [(''name'', JStr ''key'')]) \<noteq> None" by code_simp
  then obtain d where d: "asset_detail (\<lambda>_. []) (JObj [(''name'', JStr ''key'')]) = Some d" by blast
  then show ?thesis using missing_key_size [OF d refl] by (simp add: detail_asset_def)
qed

end
