(* ===== verification/Infra_Discovery.thy ===== *)
theory Infra_Discovery
  imports Contracts Js_Value Asset_Pages
begin

text \<open>
  web/src/pages/InfraDiscovery.tsx: the sample findings, the stream a scan prints, the scan with its fallback,
  and what the page shows of whatever findings a scan answers.  A function is \<open>None\<close> where showing the page throws.
\<close>

section \<open>Sample data\<close>

definition seeds_tls :: "jval list" where
  "seeds_tls =
     [JObj [(''id'', JStr ''f-001''), (''target_id'', JStr ''tls-1''),
        (''target_label'', JStr ''NGINX TLS 1.0 (RC4, RSA-1024, SHA-1)''), (''host'', JStr ''localhost''),
        (''port'', JNum (num 4431)), (''protocol'', JStr ''tls''), (''finding_type'', JStr ''WEAK_TLS_VERSION''),
        (''title'', JStr ''TLS 1.0 Detected''),
        (''description'', JStr ''TLS 1.0 is deprecated and contains known vulnerabilities (BEAST, POODLE). Prohibited by BSI TR-02102-2 and eIDAS 2.0.''),
        (''evidence'', JStr ''TLS version: TLS 1.0 (0x0301)''), (''severity'', JStr ''CRITICAL''),
        (''algorithm'', JStr ''TLS 1.0''), (''key_length'', JNum (num 0)),
        (''remediation'', JStr ''Upgrade to TLS 1.2 (minimum) or TLS 1.3. Disable TLS 1.0 and 1.1 in server config.''),
        (''bsi_ref'', JStr ''BSI TR-02102-2, Section 3.2''), (''dora_ref'', JStr ''DORA Art. 9(2)''),
        (''eidas_ref'', JStr ''eIDAS 2.0 ETSI TS 119 312''), (''quantum_safe'', JBool False),
        (''scanned_at'', JStr ''2026-02-26T01:00:01Z'')],
      JObj [(''id'', JStr ''f-002''), (''target_id'', JStr ''tls-1''),
        (''target_label'', JStr ''NGINX TLS 1.0 (RC4, RSA-1024, SHA-1)''), (''host'', JStr ''localhost''),
        (''port'', JNum (num 4431)), (''protocol'', JStr ''tls''), (''finding_type'', JStr ''WEAK_CIPHER_RC4''),
        (''title'', JStr ''RC4 Cipher Suite Detected''),
        (''description'', JStr ''RC4 is a broken stream cipher with multiple known vulnerabilities (BEAST, RC4 biases). Use is prohibited.''),
        (''evidence'', JStr ''Negotiated cipher: TLS_RSA_WITH_RC4_128_SHA''), (''severity'', JStr ''CRITICAL''),
        (''algorithm'', JStr ''RC4''), (''key_length'', JNum (num 128)),
        (''remediation'', JStr ''Disable RC4 cipher suites. Use ECDHE with AES-GCM or ChaCha20-Poly1305.''),
        (''bsi_ref'', JStr ''BSI TR-02102-2, Section 3.3.1''), (''dora_ref'', JStr ''DORA Art. 9(2)''),
        (''eidas_ref'', JStr ''eIDAS 2.0 ETSI TS 119 312''), (''quantum_safe'', JBool False),
        (''scanned_at'', JStr ''2026-02-26T01:00:01Z'')],
      JObj [(''id'', JStr ''f-003''), (''target_id'', JStr ''tls-4''),
        (''target_label'', JStr ''Java Legacy HTTPS (RSA-512, MD5withRSA)''), (''host'', JStr ''localhost''),
        (''port'', JNum (num 8443)), (''protocol'', JStr ''tls''), (''finding_type'', JStr ''WEAK_KEY_RSA''),
        (''title'', JStr ''RSA Key Too Short (512 bits)''),
        (''description'', JStr ''RSA-512 is cryptographically weak and can be factored with modern hardware.''),
        (''evidence'', JStr ''Certificate public key: RSA-512''), (''severity'', JStr ''CRITICAL''),
        (''algorithm'', JStr ''RSA''), (''key_length'', JNum (num 512)),
        (''remediation'', JStr ''Replace certificate with RSA-3072 or higher.''),
        (''bsi_ref'', JStr ''BSI TR-02102-1, Section 3.5''), (''dora_ref'', JStr ''DORA Art. 9(4)(b)''),
        (''eidas_ref'', JStr ''eIDAS 2.0 Annex IV''), (''quantum_safe'', JBool False),
        (''scanned_at'', JStr ''2026-02-26T01:00:05Z'')],
      JObj [(''id'', JStr ''f-004''), (''target_id'', JStr ''tls-1''),
        (''target_label'', JStr ''NGINX TLS 1.0 (RC4, RSA-1024, SHA-1)''), (''host'', JStr ''localhost''),
        (''port'', JNum (num 4431)), (''protocol'', JStr ''tls''), (''finding_type'', JStr ''WEAK_SIG_SHA1''),
        (''title'', JStr ''SHA-1 Certificate Signature''),
        (''description'', JStr ''SHA-1 is deprecated for certificate signing. Practical collision attacks demonstrated (SHAttered).''),
        (''evidence'', JStr ''Certificate signature algorithm: SHA1withRSA''), (''severity'', JStr ''HIGH''),
        (''algorithm'', JStr ''SHA1withRSA''), (''key_length'', JNum (num 0)),
        (''remediation'', JStr ''Re-issue certificate using SHA-256 or SHA-384 signature algorithm.''),
        (''bsi_ref'', JStr ''BSI TR-02102-1, Section 3.3''), (''dora_ref'', JStr ''DORA Art. 9(2)''),
        (''eidas_ref'', JStr ''eIDAS 2.0 ETSI TS 119 312''), (''quantum_safe'', JBool False),
        (''scanned_at'', JStr ''2026-02-26T01:00:01Z'')],
      JObj [(''id'', JStr ''f-005''), (''target_id'', JStr ''ssh-1''),
        (''target_label'', JStr ''SSH Weak KEX + DSA Host Key''), (''host'', JStr ''localhost''),
        (''port'', JNum (num 2222)), (''protocol'', JStr ''ssh''), (''finding_type'', JStr ''WEAK_SSH_KEX''),
        (''title'', JStr ''Oakley Group 1 (768-bit DH) KEX Detected''),
        (''description'', JStr (''diffie-hellman-group1-sha1 uses 768-bit DH (Oakley Group 1) '' @ [CHR 0xE2, CHR 0x80, CHR 0x94] @ '' trivially breakable (Logjam attack).'')),
        (''evidence'', JStr ''SSH KEX algorithm offered: diffie-hellman-group1-sha1''),
        (''severity'', JStr ''HIGH''), (''algorithm'', JStr ''diffie-hellman-group1-sha1''),
        (''key_length'', JNum (num 768)),
        (''remediation'', JStr ''Remove weak KEX algorithms. Use curve25519-sha256 or diffie-hellman-group16-sha512.''),
        (''bsi_ref'', JStr ''BSI TR-02102-4, Section 3.2''), (''dora_ref'', JStr ''DORA Art. 9(2)''),
        (''eidas_ref'', JStr ''eIDAS 2.0 ETSI TS 119 312''), (''quantum_safe'', JBool False),
        (''scanned_at'', JStr ''2026-02-26T01:00:03Z'')],
      JObj [(''id'', JStr ''f-006''), (''target_id'', JStr ''tls-2''),
        (''target_label'', JStr ''NGINX TLS 1.2 (No Forward Secrecy)''), (''host'', JStr ''localhost''),
        (''port'', JNum (num 4432)), (''protocol'', JStr ''tls''), (''finding_type'', JStr ''NO_FORWARD_SECRECY''),
        (''title'', JStr ''TLS 1.2 Without Forward Secrecy''),
        (''description'', JStr ''TLS 1.2 cipher suite does not provide forward secrecy (no ECDHE/DHE key exchange).''),
        (''evidence'', JStr ''TLS 1.2 with cipher: TLS_RSA_WITH_AES_128_CBC_SHA''), (''severity'', JStr ''HIGH''),
        (''algorithm'', JStr ''TLS_RSA_WITH_AES_128_CBC_SHA''), (''key_length'', JNum (num 0)),
        (''remediation'', JStr ''Require ECDHE or DHE key exchange. Remove non-FS cipher suites.''),
        (''bsi_ref'', JStr ''BSI TR-02102-2, Section 3.3''), (''dora_ref'', JStr ''DORA Art. 9(2)''),
        (''eidas_ref'', JStr ''eIDAS 2.0 ETSI TS 119 312''), (''quantum_safe'', JBool False),
        (''scanned_at'', JStr ''2026-02-26T01:00:02Z'')]]"

definition seeds_more :: "jval list" where
  "seeds_more =
     [JObj [(''id'', JStr ''f-007''), (''target_id'', JStr ''tls-2''),
        (''target_label'', JStr ''NGINX TLS 1.2 (No Forward Secrecy)''), (''host'', JStr ''localhost''),
        (''port'', JNum (num 4432)), (''protocol'', JStr ''tls''), (''finding_type'', JStr ''RSA_2048_SUBOPTIMAL''),
        (''title'', JStr ''RSA-2048 Key (Upgrade Recommended)''),
        (''description'', JStr ''RSA-2048 meets minimums but BSI recommends RSA-3072+ for post-2025 security.''),
        (''evidence'', JStr ''Certificate public key: RSA-2048''), (''severity'', JStr ''MEDIUM''),
        (''algorithm'', JStr ''RSA''), (''key_length'', JNum (num 2048)),
        (''remediation'', JStr ''Migrate to RSA-3072 or ECDSA-P-256/P-384.''),
        (''bsi_ref'', JStr ''BSI TR-02102-1, Section 3.5''), (''dora_ref'', JStr ''DORA Art. 9(4)(b)''),
        (''eidas_ref'', JStr ''eIDAS 2.0 Annex IV''), (''quantum_safe'', JBool False),
        (''scanned_at'', JStr ''2026-02-26T01:00:02Z'')],
      JObj [(''id'', JStr ''f-008''), (''target_id'', JStr ''tls-3''),
        (''target_label'', JStr ''NGINX TLS 1.3 (Reference - Good)''), (''host'', JStr ''localhost''),
        (''port'', JNum (num 4433)), (''protocol'', JStr ''tls''), (''finding_type'', JStr ''TLS12_BEST_PRACTICE''),
        (''title'', JStr ''TLS 1.2 Best Practice: Prefer TLS 1.3''),
        (''description'', JStr ''TLS 1.3 provides improved security and mandatory forward secrecy.''),
        (''evidence'', JStr ''TLS 1.2 negotiated''), (''severity'', JStr ''MEDIUM''),
        (''algorithm'', JStr ''TLS 1.2''), (''key_length'', JNum (num 0)),
        (''remediation'', JStr ''Configure server to prefer TLS 1.3.''),
        (''bsi_ref'', JStr ''BSI TR-02102-2, Section 3.2''), (''dora_ref'', JStr ''DORA Art. 9(2)''),
        (''eidas_ref'', JStr ''eIDAS 2.0 ETSI TS 119 312''), (''quantum_safe'', JBool False),
        (''scanned_at'', JStr ''2026-02-26T01:00:02Z'')],
      JObj [(''id'', JStr ''f-009''), (''target_id'', JStr ''http-1''), (''target_label'', JStr ''Legacy MD5 Hash API''),
        (''host'', JStr ''localhost''), (''port'', JNum (num 5001)), (''protocol'', JStr ''http''),
        (''finding_type'', JStr ''MISSING_HSTS''),
        (''title'', JStr ''Missing HTTP Strict-Transport-Security Header''),
        (''description'', JStr ''Absent HSTS header allows potential protocol downgrade attacks.''),
        (''evidence'', JStr (''HTTP response missing '' @ [CHR 0x27] @ ''Strict-Transport-Security'' @ [CHR 0x27] @ '' header'')),
        (''severity'', JStr ''MEDIUM''), (''algorithm'', JStr ''''), (''key_length'', JNum (num 0)),
        (''remediation'', JStr (''Add '' @ [CHR 0x27] @ ''Strict-Transport-Security: max-age=63072000; includeSubDomains; preload'' @ [CHR 0x27] @ ''.'')),
        (''bsi_ref'', JStr ''BSI TR-02102-2, Section 3.6''), (''dora_ref'', JStr ''DORA Art. 9(2)''),
        (''eidas_ref'', JStr ''''), (''quantum_safe'', JBool False), (''scanned_at'', JStr ''2026-02-26T01:00:04Z'')],
      JObj [(''id'', JStr ''f-010''), (''target_id'', JStr ''http-1''), (''target_label'', JStr ''Legacy MD5 Hash API''),
        (''host'', JStr ''localhost''), (''port'', JNum (num 5001)), (''protocol'', JStr ''http''),
        (''finding_type'', JStr ''MISSING_XCTO''), (''title'', JStr ''Missing X-Content-Type-Options Header''),
        (''description'', JStr ''Missing header can allow MIME-sniffing attacks.''),
        (''evidence'', JStr (''HTTP response missing '' @ [CHR 0x27] @ ''X-Content-Type-Options'' @ [CHR 0x27] @ '' header'')),
        (''severity'', JStr ''LOW''), (''algorithm'', JStr ''''), (''key_length'', JNum (num 0)),
        (''remediation'', JStr (''Add '' @ [CHR 0x27] @ ''X-Content-Type-Options: nosniff'' @ [CHR 0x27] @ ''.'')),
        (''bsi_ref'', JStr ''BSI TR-03161, Section 4.1''), (''dora_ref'', JStr ''DORA Art. 9(2)''),
        (''eidas_ref'', JStr ''''), (''quantum_safe'', JBool False), (''scanned_at'', JStr ''2026-02-26T01:00:04Z'')],
      JObj [(''id'', JStr ''f-011''), (''target_id'', JStr ''http-1''), (''target_label'', JStr ''Legacy MD5 Hash API''),
        (''host'', JStr ''localhost''), (''port'', JNum (num 5001)), (''protocol'', JStr ''http''),
        (''finding_type'', JStr ''MISSING_XFO''), (''title'', JStr ''Missing X-Frame-Options Header''),
        (''description'', JStr ''Missing header may allow clickjacking attacks.''),
        (''evidence'', JStr (''HTTP response missing '' @ [CHR 0x27] @ ''X-Frame-Options'' @ [CHR 0x27] @ '' header'')),
        (''severity'', JStr ''LOW''), (''algorithm'', JStr ''''), (''key_length'', JNum (num 0)),
        (''remediation'', JStr (''Add '' @ [CHR 0x27] @ ''X-Frame-Options: DENY'' @ [CHR 0x27] @ ''.'')),
        (''bsi_ref'', JStr ''BSI TR-03161, Section 4.1''), (''dora_ref'', JStr ''DORA Art. 9(2)''),
        (''eidas_ref'', JStr ''''), (''quantum_safe'', JBool False), (''scanned_at'', JStr ''2026-02-26T01:00:04Z'')],
      JObj [(''id'', JStr ''f-012''), (''target_id'', JStr ''ssh-1''),
        (''target_label'', JStr ''SSH Weak KEX + DSA Host Key''), (''host'', JStr ''localhost''),
        (''port'', JNum (num 2222)), (''protocol'', JStr ''ssh''), (''finding_type'', JStr ''WEAK_HOST_KEY_DSA''),
        (''title'', JStr ''DSA Host Key Detected''),
        (''description'', JStr ''DSA is limited to 1024-bit keys and is deprecated in OpenSSH.''),
        (''evidence'', JStr ''SSH host key algorithm: ssh-dss''), (''severity'', JStr ''CRITICAL''),
        (''algorithm'', JStr ''DSA''), (''key_length'', JNum (num 1024)),
        (''remediation'', JStr ''Replace DSA host keys with Ed25519 or ECDSA P-256.''),
        (''bsi_ref'', JStr ''BSI TR-02102-4, Section 3.4''), (''dora_ref'', JStr ''DORA Art. 9(2)''),
        (''eidas_ref'', JStr ''eIDAS 2.0 ETSI TS 119 312''), (''quantum_safe'', JBool False),
        (''scanned_at'', JStr ''2026-02-26T01:00:03Z'')]]"

definition SEED_FINDINGS :: "jval list" where
  "SEED_FINDINGS = seeds_tls @ seeds_more"

definition SEED_SUMMARY :: jval where
  "SEED_SUMMARY =
     JObj [(''total_targets'', JNum (num 6)), (''scanned_targets'', JNum (num 6)), (''total_findings'', JNum (num 12)),
       (''critical'', JNum (num 4)), (''high'', JNum (num 3)), (''medium'', JNum (num 3)),
       (''low'', JNum (num 2)), (''quantum_unsafe'', JNum (num 12)), (''bsi_compliant'', JNum (num 0))]"

record infra_target =
  it_id :: string
  it_label :: string
  it_port :: nat
  it_protocol :: string

definition TARGETS :: "infra_target list" where
  "TARGETS =
     [\<lparr>it_id = ''tls-1'', it_label = ''NGINX TLS 1.0'', it_port = 4431, it_protocol = ''tls''\<rparr>,
      \<lparr>it_id = ''tls-2'', it_label = ''NGINX TLS 1.2 (Weak)'', it_port = 4432, it_protocol = ''tls''\<rparr>,
      \<lparr>it_id = ''tls-3'', it_label = ''NGINX TLS 1.3 (Good)'', it_port = 4433, it_protocol = ''tls''\<rparr>,
      \<lparr>it_id = ''ssh-1'', it_label = ''SSH Weak KEX'', it_port = 2222, it_protocol = ''ssh''\<rparr>,
      \<lparr>it_id = ''http-1'', it_label = ''MD5 Hash API'', it_port = 5001, it_protocol = ''http''\<rparr>,
      \<lparr>it_id = ''tls-4'', it_label = ''Java Legacy HTTPS'', it_port = 8443, it_protocol = ''tls''\<rparr>]"

datatype scan_event =
  Connect string
| Found string string
| Good string
| Note string

definition SCAN_EVENTS :: "scan_event list" where
  "SCAN_EVENTS =
     [Connect ''Connecting to NGINX TLS 1.0 (port 4431)'',
      Found ''CRITICAL'' ''TLS 1.0 detected on port 4431'',
      Found ''CRITICAL'' ''RC4 cipher suite detected'',
      Connect ''Connecting to NGINX TLS 1.2 (port 4432)'',
      Found ''HIGH'' ''No forward secrecy on port 4432'',
      Connect ''Checking SSH server (port 2222)'',
      Found ''CRITICAL'' ''DSA host key detected'',
      Found ''HIGH'' ''Weak KEX (group1-sha1) offered'',
      Connect ''Probing MD5 Hash API (port 5001)'',
      Found ''MEDIUM'' ''Missing HSTS header'',
      Connect ''Connecting to Java Legacy HTTPS (port 8443)'',
      Found ''CRITICAL'' ''RSA-512 key detected'',
      Good (''NGINX TLS 1.3 (port 4433) '' @ [CHR 0xE2, CHR 0x80, CHR 0x94] @ '' no critical findings''),
      Note ''Aggregating findings'']"

section \<open>What the page shows\<close>

definition severity_order :: "string list" where
  "severity_order = [''CRITICAL'', ''HIGH'', ''MEDIUM'', ''LOW'', ''INFO'']"

text \<open>\<open>findings.filter(...)\<close>: the findings must be an array, and none of them null.\<close>

definition rows_of :: "jval \<Rightarrow> jval list option" where
  "rows_of findings =
     (case array_items findings of None \<Rightarrow> None | Some fs \<Rightarrow> if list_all not_null fs then Some fs else None)"

definition findings_of :: "string \<Rightarrow> jval list \<Rightarrow> jval list" where
  "findings_of t fs = filter (\<lambda>f. js_prop f ''target_id'' = JStr t) fs"

definition getWorstSeverity :: "jval list \<Rightarrow> string \<Rightarrow> string option" where
  "getWorstSeverity fs t =
     (let tf = findings_of t fs
      in if tf = [] then None
         else find (\<lambda>sev. list_ex (\<lambda>f. js_prop f ''severity'' = JStr sev) tf) severity_order)"

definition target_status :: "jval list \<Rightarrow> infra_target \<Rightarrow> string" where
  "target_status fs t =
     (case getWorstSeverity fs (it_id t) of
        None \<Rightarrow> ''NO FINDINGS''
      | Some sev \<Rightarrow>
          let n = length (findings_of (it_id t) fs)
          in sev @ '' '' @ nat_str n @ '' finding'' @ (if n \<noteq> 1 then ''s'' else []))"

record infra_filter =
  if_severity :: string
  if_protocol :: string
  if_quantum :: bool
  if_open :: "jval option"

definition filter_init :: infra_filter where
  "filter_init = \<lparr>if_severity = ''All'', if_protocol = ''All'', if_quantum = False, if_open = None\<rparr>"

definition shown_row :: "infra_filter \<Rightarrow> jval \<Rightarrow> bool" where
  "shown_row c f \<longleftrightarrow>
     \<not> (if_severity c \<noteq> ''All'' \<and> js_prop f ''severity'' \<noteq> JStr (if_severity c))
     \<and> \<not> (if_protocol c \<noteq> ''All'' \<and> js_prop f ''protocol'' \<noteq> JStr (if_protocol c))
     \<and> \<not> (if_quantum c \<and> js_truthy (js_prop f ''quantum_safe''))"

definition filtered_rows :: "infra_filter \<Rightarrow> jval list \<Rightarrow> jval list" where
  "filtered_rows c fs = filter (shown_row c) fs"

text \<open>The cells of a row: severity, target, protocol, title, algorithm, key length and the compliance marks.\<close>

definition key_text :: "(rat \<Rightarrow> string) \<Rightarrow> jval \<Rightarrow> string" where
  "key_text fmt v = (if js_lt (num 0) (js_number fmt v) then js_string fmt v @ ''b'' else em_dash)"

definition compliance_pills :: "jval \<Rightarrow> string list" where
  "compliance_pills f =
     (if js_truthy (js_prop f ''bsi_ref'') then [''BSI TR-02102''] else [])
     @ (if js_truthy (js_prop f ''dora_ref'') then [''DORA Art.9''] else [])
     @ (if js_truthy (js_prop f ''eidas_ref'') then [''eIDAS 2.0''] else [])"

definition row_cells :: "(rat \<Rightarrow> string) \<Rightarrow> jval \<Rightarrow> (jval \<times> string \<times> string \<times> jval \<times> jval \<times> string \<times> string list) option" where
  "row_cells fmt f =
     (case (the_string (js_prop f ''target_label''), the_string (js_prop f ''protocol'')) of
        (Some l, Some p) \<Rightarrow>
          Some (js_prop f ''severity'', str_trim (hd (split_on (CHR ''('') l)), str_upper p, js_prop f ''title'',
            js_or (js_prop f ''algorithm'') (JStr em_dash), key_text fmt (js_prop f ''key_length''), compliance_pills f)
      | _ \<Rightarrow> None)"

datatype filter_event = ISeverity string | IProtocol string | IQuantum bool | IRow nat

definition filter_step :: "jval list \<Rightarrow> infra_filter \<Rightarrow> filter_event \<Rightarrow> infra_filter" where
  "filter_step fs c e =
     (case e of
        ISeverity s \<Rightarrow> if s \<in> set (''All'' # severity_order) then c\<lparr>if_severity := s\<rparr> else c
      | IProtocol p \<Rightarrow> if p \<in> {''All'', ''tls'', ''ssh'', ''http''} then c\<lparr>if_protocol := p\<rparr> else c
      | IQuantum b \<Rightarrow> c\<lparr>if_quantum := b\<rparr>
      | IRow k \<Rightarrow>
          if k < length (filtered_rows c fs)
          then let i = js_prop (filtered_rows c fs ! k) ''id''
               in c\<lparr>if_open := (if if_open c = Some i then None else Some i)\<rparr>
          else c)"

definition summary_cards :: "jval \<Rightarrow> (string \<times> jval) list option" where
  "summary_cards summary =
     (if \<not> not_null summary then None
      else Some [(''Targets scanned'', js_prop summary ''scanned_targets''), (''Critical findings'', js_prop summary ''critical''),
        (''High findings'', js_prop summary ''high''), (''Quantum-unsafe assets'', js_prop summary ''quantum_unsafe'')])"

section \<open>The scan\<close>

datatype scan_phase = Waiting | Streaming nat | Fetching

record infra_page =
  ip_phase :: scan_phase
  ip_events :: "scan_event list"
  ip_findings :: jval
  ip_summary :: jval
  ip_source :: jval

definition infra_init :: infra_page where
  "infra_init =
     \<lparr>ip_phase = Waiting, ip_events = [], ip_findings = JArr SEED_FINDINGS, ip_summary = SEED_SUMMARY,
      ip_source = JStr ''demo-fixtures-v1''\<rparr>"

definition scanning :: "infra_page \<Rightarrow> bool" where "scanning p \<longleftrightarrow> ip_phase p \<noteq> Waiting"

text \<open>What \<open>fetch\<close> brings: nothing (it rejects), a response that is not ok, one whose body is no JSON, or a value.\<close>

datatype scan_answer = Unreachable | NotOk | NoJson | Answer jval

definition fallback_note :: scan_event where
  "fallback_note = Note ''Using seeded demo findings (backend not running)''"

definition handleScanComplete :: "jval \<Rightarrow> jval \<Rightarrow> jval \<Rightarrow> infra_page \<Rightarrow> infra_page" where
  "handleScanComplete findings summary i p = p\<lparr>ip_findings := findings, ip_summary := summary, ip_source := i\<rparr>"

definition use_seeds :: "infra_page \<Rightarrow> infra_page" where
  "use_seeds p =
     handleScanComplete (JArr SEED_FINDINGS) SEED_SUMMARY (JStr ''demo-local'') (p\<lparr>ip_events := ip_events p @ [fallback_note]\<rparr>)"

text \<open>An answer that is null throws in \<open>handleScanComplete\<close>, after the scan was noted complete.\<close>

definition scan_answered :: "scan_answer \<Rightarrow> infra_page \<Rightarrow> infra_page" where
  "scan_answered a p =
     (let q = (case a of
          Answer data \<Rightarrow>
            let p' = p\<lparr>ip_events := ip_events p @ [Good ''Live scan complete'']\<rparr>
            in if not_null data
               then handleScanComplete (js_prop data ''findings'') (js_prop data ''summary'') (js_prop data ''scan_id'') p'
               else use_seeds p'
        | _ \<Rightarrow> use_seeds p)
      in q\<lparr>ip_phase := Waiting\<rparr>)"

datatype infra_event = IScan | ITick | IAnswer scan_answer

text \<open>The button is disabled while a scan runs; a tick is the 340 ms between two lines of the stream.\<close>

definition infra_step :: "infra_page \<Rightarrow> infra_event \<Rightarrow> infra_page" where
  "infra_step p e =
     (case e of
        IScan \<Rightarrow> if scanning p then p else p\<lparr>ip_phase := Streaming 0, ip_events := []\<rparr>
      | ITick \<Rightarrow>
          (case ip_phase p of
             Streaming i \<Rightarrow>
               p\<lparr>ip_events := ip_events p @ [SCAN_EVENTS ! i],
                 ip_phase := (if Suc i < length SCAN_EVENTS then Streaming (Suc i) else Fetching)\<rparr>
           | _ \<Rightarrow> p)
      | IAnswer a \<Rightarrow> if ip_phase p = Fetching then scan_answered a p else p)"

text \<open>The page shows, or throws (\<open>None\<close>): the cards, the targets and the rows.\<close>

definition infra_view ::
  "(rat \<Rightarrow> string) \<Rightarrow> infra_filter \<Rightarrow> infra_page \<Rightarrow> ((string \<times> jval) list \<times> string list \<times> nat) option" where
  "infra_view fmt c p =
     (case (summary_cards (ip_summary p), rows_of (ip_findings p)) of
        (Some cards, Some fs) \<Rightarrow>
          if list_all (\<lambda>f. row_cells fmt f \<noteq> None) (filtered_rows c fs)
          then Some (cards, map (target_status fs) TARGETS, length (filtered_rows c fs)) else None
      | _ \<Rightarrow> None)"

section \<open>Lemmas\<close>

definition infra_inv :: "infra_page \<Rightarrow> bool" where
  "infra_inv p \<longleftrightarrow>
     (case ip_phase p of
        Waiting \<Rightarrow> True
      | Streaming i \<Rightarrow> i < length SCAN_EVENTS \<and> ip_events p = take i SCAN_EVENTS
      | Fetching \<Rightarrow> ip_events p = SCAN_EVENTS)"

interpretation infra: invariant_machine infra_step infra_inv
proof unfold_locales
  fix p e
  assume p: "infra_inv p"
  show "infra_inv (infra_step p e)"
  proof (cases e)
    case IScan
    have "0 < length SCAN_EVENTS" by (simp add: SCAN_EVENTS_def)
    with IScan p show ?thesis by (simp add: infra_step_def infra_inv_def)
  next
    case ITick
    have "take i SCAN_EVENTS @ [SCAN_EVENTS ! i] = take (Suc i) SCAN_EVENTS" if "i < length SCAN_EVENTS" for i
      using that by (simp add: take_Suc_conv_app_nth)
    with ITick p show ?thesis by (auto simp: infra_step_def infra_inv_def split: scan_phase.splits)
  next
    case (IAnswer a)
    with p show ?thesis
      by (cases a) (simp_all add: infra_step_def infra_inv_def scan_answered_def use_seeds_def handleScanComplete_def Let_def)
  qed
qed

lemma init_infra_inv: "infra_inv infra_init"
  by (simp add: infra_inv_def infra_init_def)

lemma stream_after:
  "infra_inv p \<Longrightarrow> ip_phase p = Streaming i \<Longrightarrow> i + n < length SCAN_EVENTS \<Longrightarrow>
     ip_phase (run infra_step p (replicate n ITick)) = Streaming (i + n)"
proof (induction n arbitrary: p i)
  case (Suc n)
  then have "ip_phase (infra_step p ITick) = Streaming (Suc i)" by (simp add: infra_step_def)
  with Suc show ?case using infra.step_inv [OF Suc.prems(1), of ITick] by simp
qed simp

lemma stream_end:
  assumes "infra_inv p" "\<not> scanning p"
  shows "ip_phase (run infra_step p (IScan # replicate (length SCAN_EVENTS) ITick)) = Fetching"
proof -
  have n: "length SCAN_EVENTS = Suc 13" by (simp add: SCAN_EVENTS_def)
  let ?q = "infra_step p IScan"
  have q: "infra_inv ?q" "ip_phase ?q = Streaming 0"
    using infra.step_inv [OF assms(1), of IScan] assms(2) by (simp_all add: infra_step_def)
  have "ip_phase (run infra_step ?q (replicate 13 ITick)) = Streaming 13"
    using stream_after [OF q, of 13] by (simp add: n)
  then have "ip_phase (infra_step (run infra_step ?q (replicate 13 ITick)) ITick) = Fetching"
    by (simp add: infra_step_def n)
  then show ?thesis unfolding n replicate_append_same [symmetric] replicate_Suc by (simp add: run_def)
qed

lemma answered:
  assumes "ip_events r = SCAN_EVENTS"
  shows "\<not> scanning (scan_answered a r) \<and> take 14 (ip_events (scan_answered a r)) = SCAN_EVENTS
    \<and> (\<forall>data. a = Answer data \<and> not_null data \<longrightarrow>
          ip_findings (scan_answered a r) = js_prop data ''findings'' \<and> ip_summary (scan_answered a r) = js_prop data ''summary''
          \<and> ip_source (scan_answered a r) = js_prop data ''scan_id''
          \<and> ip_events (scan_answered a r) = SCAN_EVENTS @ [Good ''Live scan complete''])
    \<and> (\<not> (\<exists>data. a = Answer data \<and> not_null data) \<longrightarrow>
          ip_findings (scan_answered a r) = JArr SEED_FINDINGS \<and> ip_summary (scan_answered a r) = SEED_SUMMARY
          \<and> ip_source (scan_answered a r) = JStr ''demo-local'')"
proof -
  have n: "length SCAN_EVENTS = 14" by (simp add: SCAN_EVENTS_def)
  show ?thesis
    by (cases a) (simp_all add: scan_answered_def use_seeds_def handleScanComplete_def scanning_def assms n Let_def)
qed

lemma find_severity:
  "find P xs = Some x \<Longrightarrow> \<exists>ys zs. xs = ys @ x # zs \<and> P x \<and> (\<forall>y \<in> set ys. \<not> P y)"
proof (induction xs)
  case (Cons a xs)
  show ?case
  proof (cases "P a")
    case True
    with Cons.prems have "a # xs = [] @ x # xs" "P x" by simp_all
    then show ?thesis by (metis empty_iff empty_set)
  next
    case False
    with Cons obtain ys zs where "xs = ys @ x # zs" "P x" "\<forall>y \<in> set ys. \<not> P y" by auto
    with False have "a # xs = (a # ys) @ x # zs" "P x" "\<forall>y \<in> set (a # ys). \<not> P y" by simp_all
    then show ?thesis by blast
  qed
qed simp

section \<open>Properties\<close>

text \<open>A scan started while none runs ends with the answer to its request, and shows the findings of an answered object, or
  the sample findings in every other case.  The lines of its stream are the same fourteen whatever is answered, the
  detections among them included.\<close>

theorem scan_shows_answer:
  assumes "p = run infra_step infra_init es" "\<not> scanning p"
    and "q = run infra_step p (IScan # replicate 14 ITick @ [IAnswer a])"
  shows "\<not> scanning q \<and> take 14 (ip_events q) = SCAN_EVENTS
    \<and> (\<forall>data. a = Answer data \<and> not_null data \<longrightarrow>
          ip_findings q = js_prop data ''findings'' \<and> ip_summary q = js_prop data ''summary'' \<and> ip_source q = js_prop data ''scan_id''
          \<and> ip_events q = SCAN_EVENTS @ [Good ''Live scan complete''])
    \<and> (\<not> (\<exists>data. a = Answer data \<and> not_null data) \<longrightarrow>
          ip_findings q = JArr SEED_FINDINGS \<and> ip_summary q = SEED_SUMMARY \<and> ip_source q = JStr ''demo-local'')"
proof -
  have n: "length SCAN_EVENTS = 14" by (simp add: SCAN_EVENTS_def)
  have p: "infra_inv p" using infra.run_inv [OF init_infra_inv] assms(1) by simp
  let ?r = "run infra_step p (IScan # replicate 14 ITick)"
  have r: "ip_phase ?r = Fetching" using stream_end [OF p assms(2)] by (simp only: n)
  then have e: "ip_events ?r = SCAN_EVENTS"
    using infra.run_inv [OF p, of "IScan # replicate 14 ITick"] by (simp add: infra_inv_def)
  have q: "q = scan_answered a ?r" using assms(3) r by (simp add: infra_step_def)
  show ?thesis unfolding q by (rule answered [OF e])
qed

theorem scan_shows_answer_witness:
  "ip_events (run infra_step infra_init
     (IScan # replicate 14 ITick @ [IAnswer (Answer (JObj [(''findings'', JArr [])]))])) = SCAN_EVENTS @ [Good ''Live scan complete'']"
proof -
  have "\<not> scanning infra_init" by (simp add: scanning_def infra_init_def)
  then show ?thesis
    using scan_shows_answer [of infra_init "[]" _ "Answer (JObj [(''findings'', JArr [])])", OF _ _ refl]
    by (simp add: not_null_def)
qed

text \<open>The sample summary counts the sample findings, every one of which is of a known target and severity.\<close>

theorem seeds_consistent:
  "js_prop SEED_SUMMARY ''total_findings'' = JNum (num (int (length SEED_FINDINGS)))
   \<and> js_prop SEED_SUMMARY ''total_targets'' = JNum (num (int (length TARGETS)))
   \<and> list_all (\<lambda>(k, sev). js_prop SEED_SUMMARY k =
        JNum (num (int (length (filter (\<lambda>f. js_prop f ''severity'' = JStr sev) SEED_FINDINGS)))))
        [(''critical'', ''CRITICAL''), (''high'', ''HIGH''), (''medium'', ''MEDIUM''), (''low'', ''LOW'')]
   \<and> js_prop SEED_SUMMARY ''quantum_unsafe'' =
        JNum (num (int (length (filter (\<lambda>f. \<not> js_truthy (js_prop f ''quantum_safe'')) SEED_FINDINGS))))
   \<and> list_all (\<lambda>f. js_prop f ''target_id'' \<in> JStr ` it_id ` set TARGETS \<and> js_prop f ''severity'' \<in> JStr ` set severity_order) SEED_FINDINGS"
proof -
  have n: "length SEED_FINDINGS = 12" "length TARGETS = 6" by code_simp+
  have sev: "map (\<lambda>sev. length (filter (\<lambda>f. js_prop f ''severity'' = JStr sev) SEED_FINDINGS)) [''CRITICAL'', ''HIGH'', ''MEDIUM'', ''LOW'']
      = [4, 3, 3, 2]" by code_simp
  have q: "length (filter (\<lambda>f. \<not> js_truthy (js_prop f ''quantum_safe'')) SEED_FINDINGS) = 12" by code_simp
  have "list_all (\<lambda>f. js_prop f ''target_id'' \<in> JStr ` it_id ` set TARGETS \<and> js_prop f ''severity'' \<in> JStr ` set severity_order)
      SEED_FINDINGS" by code_simp
  with sev show ?thesis unfolding n q by (simp add: SEED_SUMMARY_def)
qed

text \<open>The status of a target is the worst severity among its findings.\<close>

theorem worst_severity:
  assumes "getWorstSeverity fs t = Some sev"
  shows "\<exists>ys zs. severity_order = ys @ sev # zs
    \<and> (\<exists>f \<in> set fs. js_prop f ''target_id'' = JStr t \<and> js_prop f ''severity'' = JStr sev)
    \<and> (\<forall>f \<in> set fs. js_prop f ''target_id'' = JStr t \<longrightarrow> js_prop f ''severity'' \<notin> JStr ` set ys)"
proof -
  from assms have "find (\<lambda>sev. list_ex (\<lambda>f. js_prop f ''severity'' = JStr sev) (findings_of t fs)) severity_order = Some sev"
    by (auto simp: getWorstSeverity_def Let_def split: if_splits)
  from find_severity [OF this] show ?thesis by (fastforce simp: list_ex_iff findings_of_def)
qed

theorem worst_severity_witness:
  "\<exists>f \<in> set SEED_FINDINGS. js_prop f ''target_id'' = JStr ''tls-2'' \<and> js_prop f ''severity'' = JStr ''HIGH''"
proof -
  have "getWorstSeverity SEED_FINDINGS ''tls-2'' = Some ''HIGH''" by code_simp
  from worst_severity [OF this] show ?thesis by blast
qed

end
