(* ===== verification/Assistant_Panel.thy ===== *)
theory Assistant_Panel
  imports Workspace_Context Contracts
begin

text \<open>
  web/src/components/assistant/RivicQAssistant.tsx over the workspace scans of useWorkspaceContext.ts, and the two
  smaller assistants AIAssistantPanel.tsx and ContextualAIAssistant.tsx.  A request is settled by an event of its
  own, so scans of the workspace may settle in any order.
\<close>

section \<open>Marked text\<close>

definition bold_at :: "string \<Rightarrow> (string \<times> string) option" where
  "bold_at s =
     (if starts_with s ''**'' then
        let body = takeWhile (\<lambda>c. c \<noteq> CHR ''*'') (drop 2 s); after = dropWhile (\<lambda>c. c \<noteq> CHR ''*'') (drop 2 s)
        in if body \<noteq> [] \<and> starts_with after ''**'' then Some (''**'' @ body @ ''**'', drop 2 after) else None
      else None)"

lemma bold_at_whole: "bold_at s = Some (m, r) \<Longrightarrow> m @ r = s \<and> length r < length s"
proof -
  assume b: "bold_at s = Some (m, r)"
  then have s: "starts_with s ''**''" by (simp add: bold_at_def split: if_splits)
  then obtain t where t: "s = ''**'' @ t" by (auto simp: starts_with_iff)
  let ?a = "dropWhile (\<lambda>c. c \<noteq> CHR ''*'') t"
  from b t have "starts_with ?a ''**''" "m = ''**'' @ takeWhile (\<lambda>c. c \<noteq> CHR ''*'') t @ ''**''" "r = drop 2 ?a"
    by (auto simp: bold_at_def Let_def split: if_splits)
  then obtain u where "?a = ''**'' @ u" "m = ''**'' @ takeWhile (\<lambda>c. c \<noteq> CHR ''*'') t @ ''**''" "r = u"
    by (auto simp: starts_with_iff)
  moreover have "t = takeWhile (\<lambda>c. c \<noteq> CHR ''*'') t @ ?a" by simp
  ultimately have "m @ r = s" "m \<noteq> []" using t by (auto simp: append.assoc)
  then show ?thesis by (cases m) auto
qed

text \<open>\<open>line.split(/(\*\*[^*]+\*\*)/g)\<close>: the texts around the matches, and the matches.\<close>

function md_split :: "string \<Rightarrow> string \<Rightarrow> string list" where
  "md_split acc s =
     (case bold_at s of
        Some (m, r) \<Rightarrow> rev acc # m # md_split [] r
      | None \<Rightarrow> (case s of [] \<Rightarrow> [rev acc] | c # t \<Rightarrow> md_split (c # acc) t))"
  by pat_completeness auto
termination
  by (relation "measure (length \<circ> snd)") (auto dest: bold_at_whole)

declare md_split.simps [simp del]

datatype md_part = Bold string | Italic string | Plain_Text string

definition md_part :: "string \<Rightarrow> md_part" where
  "md_part p =
     (if starts_with p ''**'' \<and> ends_with p ''**'' then Bold (take (length p - 4) (drop 2 p))
      else if starts_with p ''_'' \<and> ends_with p ''_'' then Italic (take (length p - 2) (drop 1 p))
      else Plain_Text p)"

definition render_line :: "string \<Rightarrow> md_part list" where
  "render_line line = map md_part (md_split [] line)"

definition renderMarkdownLite :: "string \<Rightarrow> md_part list list" where
  "renderMarkdownLite t = map render_line (split_on (CHR 0x0A) t)"

section \<open>The conversation\<close>

datatype speaker = User | Assistant | System

record message =
  mg_id :: string
  mg_role :: speaker
  mg_content :: string
  mg_time :: nat

record assistant =
  as_open :: bool
  as_input :: string
  as_thinking :: bool
  as_messages :: "message list"
  as_context :: "workspace_context option"
  as_scanning :: bool
  as_error :: "string option"
  as_scans :: "(string \<times> edition) list"

definition welcome_message :: "nat \<Rightarrow> message" where
  "welcome_message now =
     \<lparr>mg_id = ''welcome'', mg_role = Assistant,
      mg_content = ''Hi '' @ em_dash @ '' I'' @ [CHR 0x27] @ ''m **RivicQ AI**. I scan your inventory, cloud posture, compliance, and security events to answer questions in real time.'',
      mg_time = now\<rparr>"

text \<open>The hook scans the page it is mounted on.\<close>

definition assistant_init :: "nat \<Rightarrow> string \<Rightarrow> edition \<Rightarrow> assistant" where
  "assistant_init now page e =
     \<lparr>as_open = False, as_input = [], as_thinking = False, as_messages = [welcome_message now], as_context = None,
      as_scanning = True, as_error = None, as_scans = [(page, e)]\<rparr>"

definition optional_text :: "(rat \<Rightarrow> string) \<Rightarrow> jval \<Rightarrow> string" where
  "optional_text fmt v = js_string fmt (js_coalesce v (JStr em_dash))"

definition scan_ready :: "(rat \<Rightarrow> string) \<Rightarrow> nat \<Rightarrow> workspace_context \<Rightarrow> message" where
  "scan_ready fmt now ctx =
     \<lparr>mg_id = ''scan-ready'', mg_role = System,
      mg_content = (if wc_demoMode ctx then ''Demo dataset loaded'' else ''Workspace scanned'') @ '' '' @ mid_dot @ '' ''
        @ optional_text fmt (ic_totalAssets (wc_inventory ctx)) @ '' assets '' @ mid_dot @ '' ''
        @ optional_text fmt (case wc_cloud ctx of Some c \<Rightarrow> cc_totalResources c | None \<Rightarrow> JUndef) @ '' cloud resources'',
      mg_time = now\<rparr>"

text \<open>The effect after every change of the context or of \<open>scanning\<close>.\<close>

definition announce :: "(rat \<Rightarrow> string) \<Rightarrow> nat \<Rightarrow> assistant \<Rightarrow> assistant" where
  "announce fmt now a =
     (case as_context a of
        Some ctx \<Rightarrow>
          if \<not> as_scanning a \<and> \<not> list_ex (\<lambda>m. mg_id m = ''scan-ready'') (as_messages a)
          then a\<lparr>as_messages := as_messages a @ [scan_ready fmt now ctx]\<rparr> else a
      | None \<Rightarrow> a)"

definition start_scan :: "string \<Rightarrow> edition \<Rightarrow> assistant \<Rightarrow> assistant" where
  "start_scan page e a = a\<lparr>as_scanning := True, as_error := None, as_scans := as_scans a @ [(page, e)]\<rparr>"

definition drop_nth :: "nat \<Rightarrow> 'a list \<Rightarrow> 'a list" where
  "drop_nth k xs = take k xs @ drop (Suc k) xs"

definition scan_settled ::
  "(rat \<Rightarrow> string) \<Rightarrow> demo_payloads \<Rightarrow> nat \<Rightarrow> nat \<Rightarrow> workspace_answers \<Rightarrow> string \<Rightarrow> assistant \<Rightarrow> assistant" where
  "scan_settled fmt dp now k ans err a =
     (if k < length (as_scans a) then
        (let (page, e) = as_scans a ! k;
             b = a\<lparr>as_scans := drop_nth k (as_scans a), as_scanning := False\<rparr>
         in announce fmt now (case scan_workspace dp (int now) page e ans of
              Inr ctx \<Rightarrow> b\<lparr>as_context := Some ctx\<rparr>
            | Inl _ \<Rightarrow> b\<lparr>as_error := Some (or_str err ''Workspace scan failed'')\<rparr>))
      else a)"

definition sendMessage :: "nat \<Rightarrow> string \<Rightarrow> assistant \<Rightarrow> assistant" where
  "sendMessage now t a =
     (let trimmed = str_trim t
      in if trimmed = [] \<or> as_thinking a then a
         else a\<lparr>as_messages := as_messages a @
                  [\<lparr>mg_id = ''u-'' @ nat_str now, mg_role = User, mg_content = trimmed, mg_time = now\<rparr>],
                as_input := [], as_thinking := True\<rparr>)"

text \<open>What \<open>askAssistant\<close> returned, or that it threw.\<close>

definition reply_message :: "nat \<Rightarrow> unit + string \<Rightarrow> message" where
  "reply_message now r =
     (case r of
        Inr reply \<Rightarrow> \<lparr>mg_id = ''a-'' @ nat_str now, mg_role = Assistant, mg_content = reply, mg_time = now\<rparr>
      | Inl _ \<Rightarrow> \<lparr>mg_id = ''e-'' @ nat_str now, mg_role = Assistant,
          mg_content = ''Sorry '' @ em_dash @ '' I couldn'' @ [CHR 0x27] @ ''t process that request. Try refreshing the workspace scan.'', mg_time = now\<rparr>)"

definition replied :: "nat \<Rightarrow> unit + string \<Rightarrow> assistant \<Rightarrow> assistant" where
  "replied now r a =
     (if as_thinking a then a\<lparr>as_messages := as_messages a @ [reply_message now r], as_thinking := False\<rparr> else a)"

datatype assistant_event =
  AToggle
| AClose
| AInput string
| ASubmit nat
| APrompt nat nat
| AReply nat "unit + string"
| ARescan string edition
| AMove string edition
| AScanned nat nat workspace_answers string

text \<open>The panel offers the first three suggested prompts; moving to another page or edition scans again.\<close>

definition assistant_step :: "(rat \<Rightarrow> string) \<Rightarrow> demo_payloads \<Rightarrow> assistant \<Rightarrow> assistant_event \<Rightarrow> assistant" where
  "assistant_step fmt dp a e =
     (case e of
        AToggle \<Rightarrow> a\<lparr>as_open := \<not> as_open a\<rparr>
      | AClose \<Rightarrow> a\<lparr>as_open := False\<rparr>
      | AInput s \<Rightarrow> if as_open a \<and> \<not> as_thinking a then a\<lparr>as_input := s\<rparr> else a
      | ASubmit now \<Rightarrow> if as_open a then sendMessage now (as_input a) a else a
      | APrompt now k \<Rightarrow> if as_open a \<and> k < 3 then sendMessage now (SUGGESTED_PROMPTS ! k) a else a
      | AReply now r \<Rightarrow> replied now r a
      | ARescan page ed \<Rightarrow> if as_open a \<and> \<not> as_scanning a then start_scan page ed a else a
      | AMove page ed \<Rightarrow> start_scan page ed a
      | AScanned now k ans err \<Rightarrow> scan_settled fmt dp now k ans err a)"

section \<open>The smaller assistants\<close>

record benchmark =
  bm_throughput :: jsnum
  bm_p95 :: jsnum
  bm_scan_time :: jsnum

definition mentions_any :: "string list \<Rightarrow> string \<Rightarrow> bool" where
  "mentions_any ws q \<longleftrightarrow> list_ex (\<lambda>w. str_includes (str_lower q) w) ws"

definition panel_answer ::
  "(rat \<Rightarrow> string) \<Rightarrow> (jsnum \<Rightarrow> string) \<Rightarrow> edition \<Rightarrow> jsnum \<Rightarrow> jsnum \<Rightarrow> jsnum \<Rightarrow> benchmark option \<Rightarrow> string \<Rightarrow> string" where
  "panel_answer fmt loc e totalAssets complianceScore pqcReadiness bm question =
     str_join '' ''
       ([case e of
           community \<Rightarrow> ''You are in Community mode. Core CBOM scanning, auth, assets, and analytics are available.''
         | professional \<Rightarrow> ''You are in Professional mode. Cloud posture, conformance packs, and the full security module suite are unlocked.''
         | enterprise \<Rightarrow> ''You are in Enterprise mode. CISO, CSPM, multi-cloud, PQC, and HSM controls are unlocked.'',
         ''Current scale: '' @ loc totalAssets @ '' assets'', ''Compliance posture: '' @ num_string fmt complianceScore @ ''%'',
         ''PQC readiness: '' @ num_string fmt pqcReadiness @ ''%'']
        @ (case bm of None \<Rightarrow> [] | Some b \<Rightarrow>
             [''Benchmark snapshot: '' @ num_string fmt (bm_throughput b) @ '' req/sec, '' @ num_string fmt (bm_p95 b)
              @ '' ms p95, '' @ num_string fmt (bm_scan_time b) @ ''s scan time''])
        @ [if mentions_any [''enterprise'', ''unlock'', ''upgrade''] question then
             ''To unlock Professional or Enterprise, switch the edition on the login/register screen and log in with a paid workspace account.''
           else if mentions_any [''benchmark'', ''performance'', ''speed''] question then
             ''Benchmark recommendation: keep p95 latency under 250 ms and scan latency under 10 s for the demo environment.''
           else ''Use the dashboard action cards to move into compliance, scanner, or PQC routes.''])"

datatype assistant_place = At_dashboard | At_tools | At_auth | At_enterprise | At_scanner

fun BACKEND_CONTEXT :: "assistant_place \<Rightarrow> string" where
  "BACKEND_CONTEXT At_dashboard = ''dashboard''"
| "BACKEND_CONTEXT At_tools = ''dashboard''"
| "BACKEND_CONTEXT At_auth = ''dashboard''"
| "BACKEND_CONTEXT At_enterprise = ''posture''"
| "BACKEND_CONTEXT At_scanner = ''scan''"

fun CONTEXT_PROMPTS :: "assistant_place \<Rightarrow> string list" where
  "CONTEXT_PROMPTS At_dashboard =
     [''Explain the CISO, CSPM, CBOM, and PQC cards in plain language.'',
      ''What should I do first if I see high risk findings?'',
      ''How do I interpret the benchmark numbers on RivicQ?'']"
| "CONTEXT_PROMPTS At_tools =
     [''Which DevSecOps tools are used for CI/CD and supply chain security?'',
      ''How do GitHub Actions, Trivy, CodeQL, and Syft work together?'',
      ''What tools are locked to Enterprise in this workspace?'']"
| "CONTEXT_PROMPTS At_auth =
     [''How do I switch between Community and Enterprise?'',
      ''What features are limited in Community?'',
      ''What demo credentials should I use?'']"
| "CONTEXT_PROMPTS At_enterprise =
     [''Explain the enterprise-only controls and why they matter.'',
      ''How do I read the compliance and cloud posture metrics?'',
      ''What is required to unlock IBM Quantum and HSM data?'']"
| "CONTEXT_PROMPTS At_scanner =
     [''How do I run a CBOM scan and what outputs should I expect?'',
      ''What does the benchmark data mean for scan performance?'',
      ''How do I reduce scan time and improve coverage?'']"

fun ASSISTANT_RESPONSES :: "(rat \<Rightarrow> string) \<Rightarrow> assistant_place \<Rightarrow> edition \<Rightarrow> benchmark option \<Rightarrow> string" where
  "ASSISTANT_RESPONSES fmt At_dashboard e bm =
     (if isPaidEdition e then ''Your paid edition unlocks executive compliance, cloud posture, and PQC migration analytics.''
      else ''Community keeps core CBOM, auth, scanning, and public dashboards available while locking paid module views.'')
     @ (case bm of None \<Rightarrow> [] | Some b \<Rightarrow>
          '' Benchmark snapshot: '' @ num_string fmt (bm_throughput b) @ '' req/sec, p95 '' @ num_string fmt (bm_p95 b)
          @ '' ms, scan time '' @ num_string fmt (bm_scan_time b) @ ''s.'')"
| "ASSISTANT_RESPONSES fmt At_tools e bm =
     (if isPaidEdition e then ''Use GitHub Actions for CI, Terraform for infra, Kubernetes for runtime, and Prometheus/Grafana for observability. Trivy, CodeQL, and Syft provide supply-chain and security coverage.''
      else ''Community can use the core DevSecOps toolchain view, but some paid automation cards remain locked.'')
     @ (case bm of None \<Rightarrow> [] | Some b \<Rightarrow>
          '' Current benchmark: '' @ num_string fmt (bm_throughput b) @ '' req/sec and '' @ num_string fmt (bm_p95 b) @ '' ms p95.'')"
| "ASSISTANT_RESPONSES fmt At_auth e bm =
     (if isPaidEdition e then ''Paid access unlocks compliance, multi-cloud, quantum, and advanced reporting.''
      else ''Community access includes CBOM scanning and local demos, while paid routes stay locked.'')"
| "ASSISTANT_RESPONSES fmt At_enterprise e bm =
     (if isPaidEdition e then ''Your edition enables CISO, CSPM, PQC, multi-cloud HSM, and compliance workflows.''
      else ''The module surface is locked in Community and will redirect you to the dashboard.'')"
| "ASSISTANT_RESPONSES fmt At_scanner e bm =
     (if isPaidEdition e then ''The scanner can be extended with compliance checks and cloud integrations.''
      else ''Community scanning focuses on CBOM generation, asset discovery, and local demo workflows.'')
     @ (case bm of None \<Rightarrow> [] | Some b \<Rightarrow>
          '' Demo benchmark scan time is '' @ num_string fmt (bm_scan_time b) @ ''s for a 10k asset reference set.'')"

definition first_words :: "string \<Rightarrow> string" where
  "first_words s = str_join '' '' (take 3 (split_on (CHR '' '') (str_lower s)))"

definition selected_hint :: "assistant_place \<Rightarrow> string \<Rightarrow> string" where
  "selected_hint place question =
     (let hints = CONTEXT_PROMPTS place
      in nullish (find (\<lambda>h. str_includes (str_lower question) (first_words h)) hints) (hd hints))"

text \<open>The answer to a question: what the analysis endpoint brought, \<open>None\<close> when the request failed.\<close>

definition contextual_answer ::
  "(rat \<Rightarrow> string) \<Rightarrow> assistant_place \<Rightarrow> edition \<Rightarrow> benchmark option \<Rightarrow> string \<Rightarrow> jval option \<Rightarrow> jval" where
  "contextual_answer fmt place e bm question response =
     (case response of
        Some body \<Rightarrow>
          foldr (\<lambda>k v. js_or (js_prop body k) v) [''summary'', ''analysis'', ''response'', ''suggestion'', ''message'']
            (JStr ''Analysis complete.'')
      | None \<Rightarrow> JStr (ASSISTANT_RESPONSES fmt place e bm @ '' Suggested next action: '' @ selected_hint place question))"

section \<open>Lemmas\<close>

lemma md_split_whole: "concat (md_split acc s) = rev acc @ s"
proof (induction acc s rule: md_split.induct)
  case (1 acc s)
  note IH = "1.IH"
  show ?case
  proof (cases "bold_at s")
    case None
    show ?thesis
    proof (cases s)
      case Nil
      with None show ?thesis by (simp add: md_split.simps [of acc "[]"])
    next
      case (Cons c t)
      from IH(1) [OF None Cons] None Cons show ?thesis by (simp add: md_split.simps [of acc "c # t"])
    qed
  next
    case (Some mr)
    then obtain m r where b: "bold_at s = Some (m, r)" by (cases mr) simp
    then have "concat (md_split [] r) = r" using IH(2) [OF b refl] by simp
    with b bold_at_whole [OF b] show ?thesis by (simp add: md_split.simps [of acc s])
  qed
qed

fun unmarked :: "md_part \<Rightarrow> string" where
  "unmarked (Bold s) = ''**'' @ s @ ''**''"
| "unmarked (Italic s) = ''_'' @ s @ ''_''"
| "unmarked (Plain_Text s) = s"

lemma wrapped:
  assumes "starts_with p u" "ends_with p u" "2 * length u \<le> length p"
  shows "u @ take (length p - 2 * length u) (drop (length u) p) @ u = p"
proof -
  obtain t where t: "p = u @ t" using assms(1) by (auto simp: starts_with_iff)
  obtain v where v: "p = v @ u" using assms(2) by (auto simp: ends_with_iff)
  have "length u \<le> length v" using assms(3) v by simp
  with t v obtain w where "v = u @ w" by (metis append_eq_append_conv_if append_take_drop_id)
  with v show ?thesis by simp
qed

lemma unmarked_part: "p \<notin> {''**'', ''***'', ''_''} \<Longrightarrow> unmarked (md_part p) = p"
proof -
  assume p: "p \<notin> {''**'', ''***'', ''_''}"
  show ?thesis
  proof (cases "starts_with p ''**'' \<and> ends_with p ''**''")
    case True
    then obtain t where t: "p = ''**'' @ t" by (auto simp: starts_with_iff)
    have "4 \<le> length p"
    proof (rule ccontr)
      assume "\<not> 4 \<le> length p"
      with t have "length t \<le> 1" by simp
      then have "t = [] \<or> (\<exists>c. t = [c])" by (cases t) auto
      with t True p show False by (auto simp: ends_with_iff)
    qed
    with True wrapped [of p "''**''"] have "''**'' @ take (length p - 4) (drop 2 p) @ ''**'' = p" by (simp add: numeral_eq_Suc)
    with True show ?thesis by (simp add: md_part_def)
  next
    case F: False
    show ?thesis
    proof (cases "starts_with p ''_'' \<and> ends_with p ''_''")
      case True
      then obtain t where t: "p = ''_'' @ t" by (auto simp: starts_with_iff)
      with p have "2 \<le> length p" by (cases t) auto
      then show ?thesis using True F wrapped [of p "''_''"] by (auto simp: md_part_def)
    next
      case False
      with F show ?thesis by (auto simp: md_part_def)
    qed
  qed
qed

text \<open>The turns of a conversation: what the user and the assistant said, one after the other.\<close>

definition turns :: "assistant \<Rightarrow> speaker list" where
  "turns a = filter (\<lambda>r. r \<noteq> System) (map mg_role (as_messages a))"

fun alternating :: "speaker \<Rightarrow> speaker list \<Rightarrow> bool" where
  "alternating r [] = True"
| "alternating r (x # xs) = (x = r \<and> alternating (if r = User then Assistant else User) xs)"

lemma alternating_snoc:
  "alternating r (xs @ [x]) \<longleftrightarrow> alternating r xs \<and> x = (if even (length xs) then r else if r = User then Assistant else User)"
  if "r \<noteq> System"
  using that
proof (induction xs arbitrary: r)
  case Nil
  then show ?case by simp
next
  case (Cons y ys)
  then show ?case using Cons.IH [of User] Cons.IH [of Assistant] by (cases r) auto
qed

definition announcements :: "assistant \<Rightarrow> nat" where
  "announcements a = count_if (\<lambda>m. mg_id m = ''scan-ready'') (as_messages a)"

definition conversation_inv :: "assistant \<Rightarrow> bool" where
  "conversation_inv a \<longleftrightarrow>
     turns a \<noteq> [] \<and> alternating Assistant (turns a) \<and> (as_thinking a \<longleftrightarrow> even (length (turns a))) \<and> announcements a \<le> 1"

lemma appended:
  assumes "as_messages b = as_messages a @ [m]"
  shows "turns b = turns a @ (if mg_role m = System then [] else [mg_role m])"
    "announcements b = announcements a + (if mg_id m = ''scan-ready'' then 1 else 0)"
  using assms by (simp_all add: turns_def announcements_def count_if_def)

lemma quiet_inv:
  "as_messages b = as_messages a \<Longrightarrow> as_thinking b = as_thinking a \<Longrightarrow> conversation_inv a \<Longrightarrow> conversation_inv b"
  by (simp add: conversation_inv_def turns_def announcements_def)

lemma announce_inv: "conversation_inv a \<Longrightarrow> conversation_inv (announce fmt now a)"
proof (cases "as_context a")
  case (Some ctx)
  assume a: "conversation_inv a"
  show ?thesis
  proof (cases "\<not> as_scanning a \<and> \<not> list_ex (\<lambda>m. mg_id m = ''scan-ready'') (as_messages a)")
    case True
    let ?b = "a\<lparr>as_messages := as_messages a @ [scan_ready fmt now ctx]\<rparr>"
    have "announcements a = 0" using True by (simp add: announcements_def count_if_def filter_empty_conv list_ex_iff)
    moreover have "announce fmt now a = ?b" using True Some by (simp add: announce_def)
    ultimately show ?thesis
      using a appended [of ?b a "scan_ready fmt now ctx"] by (simp add: conversation_inv_def scan_ready_def)
  next
    case False
    then have "announce fmt now a = a" using Some by (simp only: announce_def option.case if_False)
    with a show ?thesis by simp
  qed
qed (simp add: announce_def)

lemma said_inv:
  assumes "conversation_inv a" "as_messages b = as_messages a @ [m]" "mg_id m \<noteq> ''scan-ready''"
    "mg_role m = (if as_thinking a then Assistant else User)" "as_thinking b = (\<not> as_thinking a)"
  shows "conversation_inv b"
  using assms appended [OF assms(2)] by (auto simp: conversation_inv_def alternating_snoc)

lemma sendMessage_inv: "conversation_inv a \<Longrightarrow> conversation_inv (sendMessage now t a)"
proof (cases "str_trim t = [] \<or> as_thinking a")
  case False
  assume "conversation_inv a"
  then show ?thesis
    by (rule said_inv [of a _ "\<lparr>mg_id = ''u-'' @ nat_str now, mg_role = User, mg_content = str_trim t, mg_time = now\<rparr>"])
      (use False in \<open>simp_all add: sendMessage_def Let_def\<close>)
qed (simp add: sendMessage_def)

lemma replied_inv: "conversation_inv a \<Longrightarrow> conversation_inv (replied now r a)"
proof (cases "as_thinking a")
  case True
  assume "conversation_inv a"
  then show ?thesis
    by (rule said_inv [of a _ "reply_message now r"]) (use True in \<open>simp_all add: replied_def reply_message_def split: sum.split\<close>)
qed (simp add: replied_def)

lemma scan_settled_inv: "conversation_inv a \<Longrightarrow> conversation_inv (scan_settled fmt dp now k ans err a)"
proof (cases "k < length (as_scans a)")
  case True
  assume a: "conversation_inv a"
  obtain page e where "as_scans a ! k = (page, e)" by fastforce
  with True a show ?thesis
    by (simp add: scan_settled_def Let_def, intro announce_inv)
      (cases "scan_workspace dp (int now) page e ans", auto intro: quiet_inv [of _ a])
qed (simp add: scan_settled_def)

interpretation conversation: invariant_machine "assistant_step fmt dp" conversation_inv for fmt dp
proof unfold_locales
  fix a e
  assume "conversation_inv a"
  then show "conversation_inv (assistant_step fmt dp a e)"
    by (cases e)
      (auto simp: assistant_step_def start_scan_def sendMessage_inv replied_inv scan_settled_inv intro: quiet_inv [of _ a])
qed

lemma init_conversation: "conversation_inv (assistant_init now page e)"
  by (simp add: conversation_inv_def turns_def announcements_def assistant_init_def welcome_message_def count_if_def)

section \<open>Properties\<close>

text \<open>C28: Whatever happens, the assistant and the user speak in turns, beginning with the welcome; the user has the last word
  exactly while the assistant thinks, and a finished scan of the workspace is announced at most once.\<close>

theorem conversation_turns:
  "let a = run (assistant_step fmt dp) (assistant_init now page e) es
   in alternating Assistant (turns a) \<and> (as_thinking a \<longleftrightarrow> last (turns a) = User) \<and> announcements a \<le> 1"
proof -
  define a where "a = run (assistant_step fmt dp) (assistant_init now page e) es"
  have i: "conversation_inv a" using conversation.run_inv [OF init_conversation] by (simp add: a_def)
  then obtain xs x where "turns a = xs @ [x]" by (cases "turns a" rule: rev_cases) (simp_all add: conversation_inv_def)
  with i have "as_thinking a \<longleftrightarrow> last (turns a) = User" by (auto simp: conversation_inv_def alternating_snoc)
  with i show ?thesis by (simp add: conversation_inv_def Let_def flip: a_def)
qed

text \<open>Text is shown in full: putting the marks back around the bold and italic parts of a line gives the line, unless a
  part of it consists of marks only.\<close>

theorem marked_text_whole:
  assumes "list_all (\<lambda>p. p \<notin> {''**'', ''***'', ''_''}) (md_split [] line)"
  shows "concat (map unmarked (render_line line)) = line"
proof -
  have "map unmarked (render_line line) = md_split [] line"
    using assms by (simp add: render_line_def map_idI list_all_iff unmarked_part)
  then show ?thesis by (simp add: md_split_whole)
qed

theorem marked_text_whole_witness:
  "concat (map unmarked (render_line ''a **b** c'')) = ''a **b** c''"
  by (rule marked_text_whole) code_simp

text \<open>The scans of two pages are not told apart: when the scan of the page that was left settles last, the assistant
  answers from that page, and after the first of them settles it no longer shows that it scans.\<close>

theorem left_page_wins:
  assumes "scan_workspace dp (int t) page e ans = Inr ctx" "scan_workspace dp (int u) page' e' ans' = Inr ctx'"
    and "a = run (assistant_step fmt dp) (assistant_init now page e) [AMove page' e', AScanned u 1 ans' err]"
  shows "as_context a = Some ctx' \<and> \<not> as_scanning a \<and> as_scans a = [(page, e)]
    \<and> as_context (assistant_step fmt dp a (AScanned t 0 ans err)) = Some ctx \<and> wc_page ctx = page"
proof -
  have p: "wc_page ctx = page" using assms(1) by (auto simp: scan_workspace_def Let_def split: if_splits)
  have c: "as_context (announce fmt n b) = as_context b" "as_scanning (announce fmt n b) = as_scanning b"
      "as_scans (announce fmt n b) = as_scans b" for n b
    by (simp_all add: announce_def split: option.split)
  have "as_context a = Some ctx' \<and> \<not> as_scanning a \<and> as_scans a = [(page, e)]"
    using assms(2) by (simp add: assms(3) assistant_step_def start_scan_def assistant_init_def scan_settled_def drop_nth_def c)
  with assms(1) p show ?thesis by (simp add: assistant_step_def scan_settled_def c)
qed

theorem left_page_wins_witness:
  "\<exists>sim ctx. scan_workspace (demo_payloads_of ex_now sim) ex_now ''/assets'' community offline_answers = Inr ctx
     \<and> as_context (run (assistant_step (\<lambda>_. []) (demo_payloads_of ex_now sim)) (assistant_init 0 ''/assets'' community)
          [AMove ''/dashboard'' community, AScanned (nat ex_now) 1 offline_answers [], AScanned (nat ex_now) 0 offline_answers []])
        = Some ctx"
proof -
  obtain sim where s: "simulate (\<lambda>_. []) (\<lambda>_. []) Days7 ex_now = Inr sim" using ex_sim by blast
  have n: "int (nat ex_now) = ex_now" by (simp add: ex_now_def)
  obtain ctx ctx' where c: "scan_workspace (demo_payloads_of ex_now sim) ex_now ''/assets'' community offline_answers = Inr ctx"
      "scan_workspace (demo_payloads_of ex_now sim) ex_now ''/dashboard'' community offline_answers = Inr ctx'"
    using offline_context [OF ex_clock s] by blast
  have "scan_workspace (demo_payloads_of ex_now sim) (int (nat ex_now)) ''/assets'' community offline_answers = Inr ctx"
      "scan_workspace (demo_payloads_of ex_now sim) (int (nat ex_now)) ''/dashboard'' community offline_answers = Inr ctx'"
    using c by (simp_all only: n)
  note w = left_page_wins [OF this refl, of "\<lambda>_. []" 0 "[]"]
  from w have "as_context (run (assistant_step (\<lambda>_. []) (demo_payloads_of ex_now sim)) (assistant_init 0 ''/assets'' community)
          [AMove ''/dashboard'' community, AScanned (nat ex_now) 1 offline_answers [], AScanned (nat ex_now) 0 offline_answers []])
        = Some ctx" unfolding run_simps by (elim conjE)
  with c(1) show ?thesis by (intro exI conjI)
qed

end
