(* ===== verification/Compliance_Page.thy ===== *)
theory Compliance_Page
  imports Asset_Pages Api_Services
begin

text \<open>
  web/src/pages/enterprise/Compliance.tsx, ConformancePacks.tsx and pages/CSPM.tsx: three pages that show what the
  backend answers and fall back to other data, the first and the last to the simulation in a demo session only.
  An answer is the body of the response, or \<open>None\<close> when the request failed; a body that breaks the handler is
  caught with the failures.  The simulation of the moment is an argument of the events that may show it.
\<close>

section \<open>The compliance page\<close>

definition FRAMEWORKS :: "(string \<times> string) list" where
  "FRAMEWORKS =
     [(''iso27001'', ''ISO 27001''), (''nis2'', ''NIS2''), (''dora'', ''DORA''), (''gdpr'', ''GDPR''),
      (''bsi'', ''BSI TR-02102''), (''eu_ai_act'', ''EU AI Act''), (''soc2'', ''SOC 2''), (''nist'', ''NIST''),
      (''pqc'', ''PQC'')]"

fun control_status_str :: "control_status \<Rightarrow> string" where
  "control_status_str Passed = ''passed''"
| "control_status_str Failed = ''failed''"
| "control_status_str Partial = ''partial''"
| "control_status_str Na = ''na''"

definition control_json :: "control_result \<Rightarrow> jval" where
  "control_json c =
     JObj [(''id'', JStr (cr_id c)), (''title'', JStr (cr_title c)), (''status'', JStr (control_status_str (cr_status c))),
           (''critical'', JBool (cr_critical c)), (''evidence'', JStr (cr_evidence c))]"

definition compliance_json :: "compliance_view \<Rightarrow> jval" where
  "compliance_json v =
     JObj [(''framework'', JStr (cv_framework v)), (''status'', JStr (cv_status v)), (''score'', JNum (cv_score v)),
           (''total_controls'', JNum (num (int (cv_total_controls v)))),
           (''passed_controls'', JNum (num (int (cv_passed_controls v)))),
           (''failed_controls'', JNum (num (int (cv_failed_controls v)))),
           (''pending_controls'', JNum (num (int (cv_pending_controls v)))),
           (''controls'', JArr (map control_json (cv_controls v))), (''note'', JStr (cv_note v))]"

definition risk_json :: "demo_risk \<Rightarrow> jval" where
  "risk_json r =
     JObj [(''id'', JStr (dr_id r)), (''risk_type'', JStr (dr_risk_type r)), (''severity'', JStr (dr_severity r)),
           (''affected_assets'', JStr (dr_affected_assets r)), (''status'', JStr (dr_status r))]"

definition demo_dashboards :: "(rat \<Rightarrow> string) \<Rightarrow> dashboard \<Rightarrow> jval" where
  "demo_dashboards fmt sim = JArr (map compliance_json (buildDemoComplianceDashboards fmt sim))"

definition demo_risks :: "dashboard \<Rightarrow> jval" where
  "demo_risks sim = JArr (map risk_json (buildDemoRisks sim))"

text \<open>What a scan is doing: nothing, waiting for its answer, or waiting for the reload that follows it; and which of
  the two integrations is being asked.\<close>

datatype scan_phase = NoScan | ScanSent | ScanReload
datatype integration_phase = AskDelve | AskKertos | Asked

record compliance_page =
  cp_dashboards :: jval
  cp_loading :: bool
  cp_loadError :: string
  cp_delve :: jval
  cp_kertos :: jval
  cp_risks :: jval
  cp_scanDialog :: bool
  cp_selected :: string
  cp_scanning :: bool
  cp_open :: "jval option"
  cp_loads :: nat
  cp_phase :: scan_phase
  cp_integration :: integration_phase
  cp_risks_asked :: bool
  cp_broken :: bool
  cp_sent :: "api_request list"

definition LOAD_ERROR :: string where
  "LOAD_ERROR = ''Unable to retrieve compliance results. Please retry or check the API connection.''"

text \<open>\<open>loadDashboards\<close> up to its request, and after the answer.\<close>

definition load_sent :: "compliance_page \<Rightarrow> compliance_page" where
  "load_sent p =
     p\<lparr>cp_loading := True, cp_loadError := [], cp_sent := cp_sent p @ [complianceService_getAllDashboards]\<rparr>"

definition answered_rows :: "string \<Rightarrow> jval option \<Rightarrow> jval option" where
  "answered_rows k ans = map_option (\<lambda>v. js_or v (JArr [])) (Option.bind ans (\<lambda>d. member_of d k))"

definition dashboards_settled ::
  "(rat \<Rightarrow> string) \<Rightarrow> bool \<Rightarrow> dashboard \<Rightarrow> jval option \<Rightarrow> compliance_page \<Rightarrow> compliance_page" where
  "dashboards_settled fmt demo sim ans p =
     (case answered_rows ''dashboards'' ans of
        Some rows \<Rightarrow>
          p\<lparr>cp_dashboards := (if js_truthy (js_length rows) then rows else if demo then demo_dashboards fmt sim else JArr []),
            cp_loading := False\<rparr>
      | None \<Rightarrow>
          if demo then p\<lparr>cp_dashboards := demo_dashboards fmt sim, cp_loading := False\<rparr>
          else p\<lparr>cp_dashboards := JArr [], cp_loadError := LOAD_ERROR, cp_loading := False\<rparr>)"

definition disconnected :: "string \<Rightarrow> jval" where
  "disconnected provider =
     JObj [(''status'', JStr ''disconnected''), (''provider'', JStr provider), (''version'', JNull)]"

definition delve_settled :: "jval option \<Rightarrow> compliance_page \<Rightarrow> compliance_page" where
  "delve_settled ans p =
     p\<lparr>cp_delve := (case ans of None \<Rightarrow> disconnected ''delve'' | Some d \<Rightarrow> d),
       cp_integration := AskKertos, cp_sent := cp_sent p @ [complianceService_getKertosStatus]\<rparr>"

definition kertos_settled :: "jval option \<Rightarrow> compliance_page \<Rightarrow> compliance_page" where
  "kertos_settled ans p =
     p\<lparr>cp_kertos := (case ans of None \<Rightarrow> disconnected ''kertos'' | Some d \<Rightarrow> d), cp_integration := Asked\<rparr>"

definition risks_settled :: "bool \<Rightarrow> dashboard \<Rightarrow> jval option \<Rightarrow> compliance_page \<Rightarrow> compliance_page" where
  "risks_settled demo sim ans p =
     (let fallback = (if demo then demo_risks sim else JArr [])
      in p\<lparr>cp_risks := (case answered_rows ''risks'' ans of
             Some rows \<Rightarrow> if js_truthy (js_length rows) then rows else fallback
           | None \<Rightarrow> fallback),
          cp_risks_asked := False\<rparr>)"

text \<open>The page once its effect has run.\<close>

definition compliance_init :: compliance_page where
  "compliance_init =
     \<lparr>cp_dashboards = JArr [], cp_loading = True, cp_loadError = [], cp_delve = JNull, cp_kertos = JNull,
      cp_risks = JArr [], cp_scanDialog = False, cp_selected = [], cp_scanning = False, cp_open = None,
      cp_loads = 1, cp_phase = NoScan, cp_integration = AskDelve, cp_risks_asked = True, cp_broken = False,
      cp_sent = [complianceService_getAllDashboards, complianceService_getDelveStatus, complianceService_getRisks JUndef]\<rparr>"

definition scan_over :: "compliance_page \<Rightarrow> compliance_page" where
  "scan_over p = p\<lparr>cp_scanning := False, cp_scanDialog := False, cp_phase := NoScan\<rparr>"

definition handleScan :: "(rat \<Rightarrow> string) \<Rightarrow> bool \<Rightarrow> dashboard \<Rightarrow> compliance_page \<Rightarrow> compliance_page" where
  "handleScan fmt demo sim p =
     (if demo then scan_over (p\<lparr>cp_dashboards := demo_dashboards fmt sim\<rparr>)
      else p\<lparr>cp_scanning := True, cp_phase := ScanSent,
             cp_sent := cp_sent p @ [complianceService_scanCompliance (cp_selected p)]\<rparr>)"

datatype compliance_event =
  CRefresh
| CLoaded "jval option" dashboard
| CDelve "jval option"
| CKertos "jval option"
| CRisks "jval option" dashboard
| COpenScan
| CCloseScan
| CSelect string
| CStart dashboard
| CScanned bool
| CReloaded "jval option" dashboard
| COpenCard nat
| CCloseCard

text \<open>The cards call \<open>framework.toUpperCase()\<close> and the rows of the risks \<open>severity.toUpperCase()\<close>; a page that cannot
  be drawn is taken down, and its requests go on without it.\<close>

definition drawable :: "string \<Rightarrow> jval \<Rightarrow> bool" where
  "drawable k v =
     (case v of JArr ds \<Rightarrow> list_all (\<lambda>d. not_null d \<and> the_string (js_prop d k) \<noteq> None) ds | _ \<Rightarrow> False)"

definition page_drawable :: "compliance_page \<Rightarrow> bool" where
  "page_drawable p \<longleftrightarrow> drawable ''framework'' (cp_dashboards p) \<and> drawable ''severity'' (cp_risks p)"

definition user_event :: "compliance_event \<Rightarrow> bool" where
  "user_event e =
     (case e of CLoaded _ _ \<Rightarrow> False | CDelve _ \<Rightarrow> False | CKertos _ \<Rightarrow> False | CRisks _ _ \<Rightarrow> False
      | CScanned _ \<Rightarrow> False | CReloaded _ _ \<Rightarrow> False | _ \<Rightarrow> True)"

definition compliance_do ::
  "(rat \<Rightarrow> string) \<Rightarrow> bool \<Rightarrow> compliance_page \<Rightarrow> compliance_event \<Rightarrow> compliance_page" where
  "compliance_do fmt demo p e =
     (case e of
        CRefresh \<Rightarrow> (load_sent p)\<lparr>cp_loads := cp_loads p + 1\<rparr>
      | CLoaded ans sim \<Rightarrow>
          if cp_loads p = 0 then p else (dashboards_settled fmt demo sim ans p)\<lparr>cp_loads := cp_loads p - 1\<rparr>
      | CDelve ans \<Rightarrow> if cp_integration p = AskDelve then delve_settled ans p else p
      | CKertos ans \<Rightarrow> if cp_integration p = AskKertos then kertos_settled ans p else p
      | CRisks ans sim \<Rightarrow> if cp_risks_asked p then risks_settled demo sim ans p else p
      | COpenScan \<Rightarrow> p\<lparr>cp_scanDialog := True\<rparr>
      | CCloseScan \<Rightarrow> p\<lparr>cp_scanDialog := False\<rparr>
      | CSelect f \<Rightarrow> if cp_scanDialog p \<and> f \<in> fst ` set FRAMEWORKS then p\<lparr>cp_selected := f\<rparr> else p
      | CStart sim \<Rightarrow>
          if cp_scanDialog p \<and> cp_selected p \<noteq> [] \<and> \<not> cp_scanning p then handleScan fmt demo sim p else p
      | CScanned ok \<Rightarrow>
          if cp_phase p \<noteq> ScanSent then p
          else if ok then (load_sent p)\<lparr>cp_phase := ScanReload\<rparr> else scan_over p
      | CReloaded ans sim \<Rightarrow>
          if cp_phase p \<noteq> ScanReload then p else scan_over (dashboards_settled fmt demo sim ans p)
      | COpenCard k \<Rightarrow>
          (case cp_dashboards p of JArr ds \<Rightarrow> if k < length ds then p\<lparr>cp_open := Some (ds ! k)\<rparr> else p | _ \<Rightarrow> p)
      | CCloseCard \<Rightarrow> p\<lparr>cp_open := None\<rparr>)"

definition compliance_step ::
  "(rat \<Rightarrow> string) \<Rightarrow> bool \<Rightarrow> compliance_page \<Rightarrow> compliance_event \<Rightarrow> compliance_page" where
  "compliance_step fmt demo p e =
     (if cp_broken p \<and> user_event e then p
      else let q = compliance_do fmt demo p e in q\<lparr>cp_broken := cp_broken p \<or> \<not> page_drawable q\<rparr>)"

section \<open>What the compliance page shows\<close>

definition row_list :: "jval \<Rightarrow> jval list" where
  "row_list v = (case v of JArr ds \<Rightarrow> ds | _ \<Rightarrow> [])"

text \<open>\<open>Math.round(dashboards.reduce((sum, d) => sum + d.score, 0) / dashboards.length)\<close>.\<close>

definition overallScore :: "(rat \<Rightarrow> string) \<Rightarrow> jval list \<Rightarrow> jsnum" where
  "overallScore fmt ds =
     (if 0 < length ds
      then js_round (js_div (js_number fmt (foldl (js_plus fmt) (JNum (num 0)) (map (\<lambda>d. js_prop d ''score'') ds)))
             (num (int (length ds))))
      else num 0)"

datatype score_colour = ScoreSuccess | ScoreWarning | ScoreError

definition getScoreColor :: "jsnum \<Rightarrow> score_colour" where
  "getScoreColor score =
     (if js_le (num 80) score then ScoreSuccess else if js_le (num 60) score then ScoreWarning else ScoreError)"

definition criticalFindings :: "jval list \<Rightarrow> nat" where
  "criticalFindings rs = length (filter (\<lambda>r. js_prop r ''severity'' = JStr ''critical'') rs)"

text \<open>The empty state: none, the one of a failed load or the one of a page without mappings.\<close>

datatype compliance_notice = NoNotice | LoadFailed string | NoMappings

definition compliance_notice_of :: "compliance_page \<Rightarrow> compliance_notice" where
  "compliance_notice_of p =
     (if row_list (cp_dashboards p) \<noteq> [] then NoNotice
      else if cp_loadError p \<noteq> [] then LoadFailed (cp_loadError p)
      else if \<not> cp_loading p then NoMappings
      else NoNotice)"

definition framework_title :: "(rat \<Rightarrow> string) \<Rightarrow> jval \<Rightarrow> string" where
  "framework_title fmt d =
     (case find (\<lambda>f. JStr (fst f) = js_prop d ''framework'') FRAMEWORKS of
        Some f \<Rightarrow> snd f
      | None \<Rightarrow> js_string fmt (js_prop d ''framework''))"

definition connected :: "jval \<Rightarrow> bool" where
  "connected s \<longleftrightarrow> js_prop s ''status'' = JStr ''connected''"

text \<open>A control of the open card: its title, its status, whether it is critical, its evidence and its action.\<close>

definition control_lines :: "(rat \<Rightarrow> string) \<Rightarrow> jval \<Rightarrow> string list" where
  "control_lines fmt c =
     [js_string fmt (js_prop c ''id'') @ '' '' @ em_dash @ '' '' @ js_string fmt (js_prop c ''title''),
      js_string fmt (js_prop c ''status'')]
     @ (if js_truthy (js_prop c ''critical'') then [''critical''] else [])
     @ (if js_truthy (js_prop c ''evidence'') then [''Evidence: '' @ js_string fmt (js_prop c ''evidence'')] else [])
     @ (if js_prop c ''status'' = JStr ''failed''
        then [''Recommended action: remediate '' @ js_string fmt (js_prop c ''id'') @ '', attach evidence, and re-evaluate.'']
        else [])"

definition open_controls :: "jval \<Rightarrow> jval list" where
  "open_controls d = take 12 (row_list (js_or (js_prop d ''controls'') (JArr [])))"

section \<open>The conformance packs\<close>

record pack =
  pk_id :: string
  pk_name :: string
  pk_scope :: string
  pk_score :: jval
  pk_total :: int
  pk_passed :: jval
  pk_failed :: jval
  pk_pending :: jval

definition seed_pack :: "string \<Rightarrow> string \<Rightarrow> string \<Rightarrow> int \<Rightarrow> int \<Rightarrow> int \<Rightarrow> int \<Rightarrow> int \<Rightarrow> pack" where
  "seed_pack i n sc score t p f w =
     \<lparr>pk_id = i, pk_name = n, pk_scope = sc, pk_score = JNum (num score), pk_total = t,
      pk_passed = JNum (num p), pk_failed = JNum (num f), pk_pending = JNum (num w)\<rparr>"

definition PACKS :: "pack list" where
  "PACKS =
     [seed_pack ''cis-aws'' ''CIS AWS Foundations v1.5'' (''AWS Production '' @ mid_dot @ '' Development'') 72 92 66 18 8,
      seed_pack ''nist-800-53'' ''NIST SP 800-53 Rev 5'' (''GCP Core '' @ mid_dot @ '' Hybrid workloads'') 81 148 120 16 12,
      seed_pack ''soc2'' ''SOC 2 Type II'' ''All in-scope accounts'' 68 105 71 21 13,
      seed_pack ''pci-dss'' ''PCI DSS 4.0'' ''Cardholder data environments'' 57 96 55 29 12,
      seed_pack ''cis-azure'' ''CIS Azure v2.0'' ''Azure East US'' 84 88 74 6 8,
      seed_pack ''iso-27001'' ''ISO 27001:2022'' ''Enterprise-wide'' 75 114 86 12 16]"

text \<open>\<open>livePacks?.find((d) => p.id.startsWith(d.framework))\<close>, which throws on a null row.\<close>

fun find_opt :: "('a \<Rightarrow> bool option) \<Rightarrow> 'a list \<Rightarrow> 'a option option" where
  "find_opt p [] = Some None"
| "find_opt p (x # xs) = (case p x of None \<Rightarrow> None | Some b \<Rightarrow> if b then Some (Some x) else find_opt p xs)"

definition pack_matches :: "(rat \<Rightarrow> string) \<Rightarrow> string \<Rightarrow> jval \<Rightarrow> bool option" where
  "pack_matches fmt i d =
     (if not_null d then Some (starts_with i (js_string fmt (js_prop d ''framework''))) else None)"

definition live_pack :: "(rat \<Rightarrow> string) \<Rightarrow> jval list \<Rightarrow> pack \<Rightarrow> pack option" where
  "live_pack fmt ds p =
     map_option (\<lambda>live. case live of
         Some d \<Rightarrow> p\<lparr>pk_score := js_coalesce (js_prop d ''score'') (pk_score p),
                     pk_passed := js_coalesce (js_prop d ''passed_controls'') (pk_passed p),
                     pk_failed := js_coalesce (js_prop d ''failed_controls'') (pk_failed p),
                     pk_pending := js_coalesce (js_prop d ''pending_controls'') (pk_pending p)\<rparr>
       | None \<Rightarrow> p)
       (find_opt (pack_matches fmt (pk_id p)) ds)"

text \<open>\<open>None\<close> when drawing the page throws.\<close>

definition packs_of :: "(rat \<Rightarrow> string) \<Rightarrow> jval \<Rightarrow> pack list option" where
  "packs_of fmt data =
     (let livePacks = js_prop data ''dashboards''
      in if \<not> not_null livePacks then Some PACKS
         else case livePacks of JArr ds \<Rightarrow> those (map (live_pack fmt ds) PACKS) | _ \<Rightarrow> None)"

definition run_assessment :: "pack \<Rightarrow> string" where
  "run_assessment p = ''/scanner?framework='' @ encodeURIComponent (pk_id p)"

section \<open>The posture page\<close>

datatype cspm_view = CspmLive jval | CspmDemo cspm_overview

definition cspm_view_of :: "bool \<Rightarrow> dashboard \<Rightarrow> jval \<Rightarrow> cspm_view option" where
  "cspm_view_of demo sim data =
     (if not_null data then (if js_truthy data then Some (CspmLive data) else None)
      else if demo then Some (CspmDemo (buildDemoCspmOverview sim)) else None)"

datatype cspm_screen = CspmLoading | CspmEmpty string | CspmShown cspm_view

definition cspm_screen_of :: "bool \<Rightarrow> bool \<Rightarrow> bool \<Rightarrow> dashboard \<Rightarrow> jval \<Rightarrow> cspm_screen" where
  "cspm_screen_of isLoading isError demo sim data =
     (case cspm_view_of demo sim data of
        Some v \<Rightarrow> CspmShown v
      | None \<Rightarrow> if isLoading then CspmLoading
                else CspmEmpty (if isError then ''Unable to retrieve CSPM results'' else ''No CSPM snapshot yet''))"

definition cspm_health :: "cspm_view \<Rightarrow> jval" where
  "cspm_health v = (case v of CspmLive d \<Rightarrow> js_prop d ''health_score'' | CspmDemo x \<Rightarrow> JNum (co_health_score x))"

definition cspm_badge :: "(rat \<Rightarrow> string) \<Rightarrow> bool \<Rightarrow> cspm_view \<Rightarrow> string option" where
  "cspm_badge fmt demo v =
     (if not_null (cspm_health v)
      then Some ((if demo then ''Demo score '' else ''Score '') @ js_string fmt (cspm_health v)) else None)"

definition cspm_chip :: "bool \<Rightarrow> string option" where
  "cspm_chip demo = (if demo then Some ''DEMO ENVIRONMENT'' else None)"

text \<open>The finding the action of an algorithm opens, of the titles and messages of the findings.\<close>

definition cspm_action :: "string \<Rightarrow> (string \<times> string) list \<Rightarrow> nat option" where
  "cspm_action name fs =
     (let k = find_index_from 0 (\<lambda>_ f. str_includes (fst f) name \<or> str_includes (snd f) name) fs
      in if 0 \<le> k then Some (nat k) else if fs \<noteq> [] then Some 0 else None)"

section \<open>Lemmas\<close>

text \<open>The rows an event brings, if its answer can be read.\<close>

definition dashboard_answer :: "compliance_event \<Rightarrow> jval set" where
  "dashboard_answer e =
     (case e of CLoaded ans _ \<Rightarrow> set_option (answered_rows ''dashboards'' ans)
      | CReloaded ans _ \<Rightarrow> set_option (answered_rows ''dashboards'' ans) | _ \<Rightarrow> {})"

definition risk_answer :: "compliance_event \<Rightarrow> jval set" where
  "risk_answer e = (case e of CRisks ans _ \<Rightarrow> set_option (answered_rows ''risks'' ans) | _ \<Rightarrow> {})"

definition shown_from :: "jval set \<Rightarrow> jval set \<Rightarrow> compliance_page \<Rightarrow> bool" where
  "shown_from ds rs p \<longleftrightarrow> cp_dashboards p \<in> insert (JArr []) ds \<and> cp_risks p \<in> insert (JArr []) rs"

lemmas compliance_defs =
  load_sent_def dashboards_settled_def delve_settled_def kertos_settled_def risks_settled_def handleScan_def scan_over_def Let_def

lemma live_step:
  assumes "shown_from ds rs p" "dashboard_answer e \<subseteq> ds" "risk_answer e \<subseteq> rs"
  shows "shown_from ds rs (compliance_step fmt False p e)"
proof -
  have "shown_from ds rs (compliance_do fmt False p e)"
    using assms
    by (cases e) (auto simp: compliance_do_def shown_from_def compliance_defs dashboard_answer_def risk_answer_def
        split: option.splits jval.splits)
  then show ?thesis using assms by (simp add: compliance_step_def Let_def shown_from_def)
qed

interpretation live_page: guarded_machine "compliance_step fmt False"
  "\<lambda>e. dashboard_answer e \<subseteq> ds \<and> risk_answer e \<subseteq> rs" "shown_from ds rs" for fmt ds rs
  by unfold_locales (simp add: live_step)

text \<open>In a demo session the page only reads; the scanning flag is the state of the scan.\<close>

definition page_quiet :: "bool \<Rightarrow> compliance_page \<Rightarrow> bool" where
  "page_quiet demo p \<longleftrightarrow>
     (cp_scanning p \<longleftrightarrow> cp_phase p \<noteq> NoScan)
     \<and> (demo \<longrightarrow> cp_phase p = NoScan \<and> list_all (\<lambda>r. aq_method r = ''get'') (cp_sent p))"

lemma page_quiet_step: "page_quiet demo p \<Longrightarrow> page_quiet demo (compliance_step fmt demo p e)"
proof -
  assume q: "page_quiet demo p"
  have "page_quiet demo (compliance_do fmt demo p e)"
    using q
    by (cases e) (auto simp: compliance_do_def page_quiet_def compliance_defs api_verbs
        complianceService_getAllDashboards_def complianceService_getKertosStatus_def
        split: option.splits jval.splits)
  with q show ?thesis by (simp add: compliance_step_def Let_def page_quiet_def)
qed

interpretation quiet_page: invariant_machine "compliance_step fmt demo" "page_quiet demo" for fmt demo
  by unfold_locales (rule page_quiet_step)

lemma shown_init: "shown_from ds rs compliance_init" "page_quiet demo compliance_init"
  by (simp_all add: shown_from_def page_quiet_def compliance_init_def api_verbs complianceService_getAllDashboards_def
      complianceService_getDelveStatus_def complianceService_getRisks_def)

text \<open>A score of a row that the page can average: a number from 0 to 100.\<close>

definition percent_row :: "jval \<Rightarrow> bool" where
  "percent_row d \<longleftrightarrow> (case js_prop d ''score'' of JNum (Fin s) \<Rightarrow> 0 \<le> s \<and> s \<le> 100 | _ \<Rightarrow> False)"

lemma percent_row_score: "percent_row d \<Longrightarrow> \<exists>s. js_prop d ''score'' = JNum (Fin s) \<and> 0 \<le> s \<and> s \<le> 100"
  by (simp add: percent_row_def split: jval.splits jsnum.splits)

lemma score_fold:
  assumes "list_all percent_row ds" "0 \<le> a" "a \<le> of_int (100 * k)" "0 \<le> k" "k + int (length ds) \<le> 2 ^ 46"
  shows "\<exists>t. foldl (js_plus fmt) (JNum (Fin a)) (map (\<lambda>d. js_prop d ''score'') ds) = JNum (Fin t)
             \<and> 0 \<le> t \<and> t \<le> of_int (100 * (k + int (length ds)))"
  using assms
proof (induction ds arbitrary: a k)
  case Nil
  then show ?case by auto
next
  case (Cons d ds)
  from Cons.prems obtain s where s: "js_prop d ''score'' = JNum (Fin s)" "0 \<le> s" "s \<le> 100"
    using percent_row_score by auto
  have "of_int 0 \<le> a + s" "a + s \<le> of_int (100 * (k + 1))" using Cons.prems s by simp_all
  moreover have "- (2 ^ 53) \<le> (0 :: int)" "100 * (k + 1) \<le> 2 ^ 53" using Cons.prems by simp_all
  ultimately obtain y where y: "to_num (a + s) = Fin y" "of_int 0 \<le> y" "y \<le> of_int (100 * (k + 1))"
    by (rule to_num_range)
  then have "js_plus fmt (JNum (Fin a)) (js_prop d ''score'') = JNum (Fin y)"
    using s by (simp add: js_plus_def Let_def)
  then show ?case using Cons.IH [of y "k + 1"] Cons.prems y by (simp add: algebra_simps)
qed

lemma average_range:
  assumes "0 \<le> t" "t \<le> of_int (100 * n)" "0 < n" "n \<le> 2 ^ 53"
  shows "\<exists>k. js_round (js_div (Fin t) (num n)) = num k \<and> 0 \<le> k \<and> k \<le> 100"
proof -
  have "of_int 0 \<le> t / of_int n" "t / of_int n \<le> of_int 100" using assms by (simp_all add: divide_le_eq)
  then obtain y where y: "to_num (t / of_int n) = Fin y" "of_int 0 \<le> y" "y \<le> of_int 100"
    by (rule to_num_range) simp_all
  have "0 \<le> \<lfloor>y + 1 / 2\<rfloor>" "\<lfloor>y + 1 / 2\<rfloor> \<le> 100" using y by (simp_all add: floor_le_iff)
  then show ?thesis using assms y by simp
qed

text \<open>The identifiers the backend gives to its frameworks begin the identifier of two packs only.\<close>

lemma framework_packs:
  "\<forall>f \<in> fst ` set FRAMEWORKS. \<forall>p \<in> set PACKS. starts_with (pk_id p) f \<longrightarrow> pk_id p \<in> {''nist-800-53'', ''soc2''}"
  by code_simp

lemma find_opt_none: "\<forall>x \<in> set xs. p x = Some False \<Longrightarrow> find_opt p xs = Some None"
  by (induction xs) auto

lemma find_opt_total: "\<forall>x \<in> set xs. p x \<noteq> None \<Longrightarrow> find_opt p xs \<noteq> None"
  by (induction xs) (auto split: option.splits)

lemma those_map: "\<forall>x \<in> set xs. f x \<noteq> None \<Longrightarrow> those (map f xs) = Some (map (the \<circ> f) xs)"
  by (induction xs) auto

section \<open>Properties\<close>

text \<open>C20: Whatever a user does and in whatever order the answers arrive, a live session shows compliance results and risks
  that the backend answered, or none: never the sample ones.  A demo session asks for no scan, and the page says
  that it scans exactly while a scan is under way.\<close>

theorem compliance_provenance:
  "let s = run (compliance_step fmt demo) compliance_init es
   in (\<not> demo \<longrightarrow> cp_dashboards s \<in> insert (JArr []) (\<Union>e \<in> set es. dashboard_answer e)
          \<and> cp_risks s \<in> insert (JArr []) (\<Union>e \<in> set es. risk_answer e))
      \<and> (demo \<longrightarrow> list_all (\<lambda>r. aq_method r = ''get'') (cp_sent s))
      \<and> (cp_scanning s \<longleftrightarrow> cp_phase s \<noteq> NoScan)"
proof -
  let ?D = "\<Union>e \<in> set es. dashboard_answer e" and ?R = "\<Union>e \<in> set es. risk_answer e"
  have "list_all (\<lambda>e. dashboard_answer e \<subseteq> ?D \<and> risk_answer e \<subseteq> ?R) es" by (auto simp: list_all_iff)
  then have "shown_from ?D ?R (run (compliance_step fmt False) compliance_init es)"
    by (rule live_page.inv_after [OF shown_init(1)])
  moreover have "page_quiet demo (run (compliance_step fmt demo) compliance_init es)"
    by (rule quiet_page.run_inv [OF shown_init(2)])
  ultimately show ?thesis by (cases demo) (simp_all add: Let_def shown_from_def page_quiet_def)
qed

theorem compliance_provenance_witness:
  "\<forall>sim. cp_dashboards (run (compliance_step (\<lambda>_. []) False) compliance_init [CRefresh, CLoaded None sim]) = JArr []"
proof
  fix sim
  have "answered_rows ''dashboards'' None = None" by (simp add: answered_rows_def)
  then show "cp_dashboards (run (compliance_step (\<lambda>_. []) False) compliance_init [CRefresh, CLoaded None sim]) = JArr []"
    using compliance_provenance [of "\<lambda>_. []" False "[CRefresh, CLoaded None sim]"]
    by (simp add: Let_def dashboard_answer_def)
qed

text \<open>When every row has a score from 0 to 100, the overall score is a whole number from 0 to 100, whatever the
  rounding of the sum and of the average.\<close>

theorem overall_score_bounds:
  assumes "list_all percent_row ds" "length ds \<le> 2 ^ 46"
  shows "\<exists>k. overallScore fmt ds = num k \<and> 0 \<le> k \<and> k \<le> 100"
proof (cases "ds = []")
  case True
  then show ?thesis by (auto simp: overallScore_def)
next
  case False
  obtain t where t: "foldl (js_plus fmt) (JNum (Fin 0)) (map (\<lambda>d. js_prop d ''score'') ds) = JNum (Fin t)"
    "0 \<le> t" "t \<le> of_int (100 * int (length ds))"
    using score_fold [OF assms(1), of 0 0 fmt] assms(2) by auto
  with average_range [OF t(2,3)] False assms(2) show ?thesis by (simp add: overallScore_def)
qed

theorem overall_score_bounds_witness:
  "\<exists>k. overallScore (\<lambda>_. []) [JObj [(''score'', JNum (Fin (85 / 2)))], JObj [(''score'', JNum (Fin 100))]] = num k
       \<and> 0 \<le> k \<and> k \<le> 100"
  by (rule overall_score_bounds) (simp_all add: percent_row_def)

text \<open>Of the frameworks the backend knows, only NIST and SOC 2 can bring live numbers to a conformance pack: every other
  pack, ISO 27001 among them, keeps its fixed score whatever the backend answers.\<close>

theorem packs_keep_sample:
  assumes "js_prop data ''dashboards'' = JArr ds"
    and "\<forall>d \<in> set ds. not_null d \<and> (\<exists>f \<in> fst ` set FRAMEWORKS. js_prop d ''framework'' = JStr f)"
  shows "\<exists>ps. packs_of fmt data = Some ps \<and> map pk_id ps = map pk_id PACKS
         \<and> (\<forall>i < 6. pk_id (PACKS ! i) \<notin> {''nist-800-53'', ''soc2''} \<longrightarrow> ps ! i = PACKS ! i)"
proof -
  let ?f = "live_pack fmt ds"
  have "\<forall>p \<in> set PACKS. ?f p \<noteq> None"
    using assms(2) find_opt_total [of ds "pack_matches fmt i" for i] by (simp add: live_pack_def pack_matches_def)
  then have ps: "packs_of fmt data = Some (map (the \<circ> ?f) PACKS)"
    using assms(1) by (simp add: packs_of_def those_map not_null_def Let_def)
  have keep: "pk_id (the (?f p)) = pk_id p" if "p \<in> set PACKS" for p
    using \<open>\<forall>p \<in> set PACKS. ?f p \<noteq> None\<close> that by (auto simp: live_pack_def split: option.splits)
  have same: "the (?f p) = p" if "p \<in> set PACKS" "pk_id p \<notin> {''nist-800-53'', ''soc2''}" for p
  proof -
    have "\<forall>d \<in> set ds. pack_matches fmt (pk_id p) d = Some False"
      using assms(2) framework_packs that by (fastforce simp: pack_matches_def)
    then show ?thesis by (simp add: live_pack_def find_opt_none)
  qed
  have "length PACKS = 6" by (simp add: PACKS_def)
  then show ?thesis using ps keep same by (intro exI [of _ "map (the \<circ> ?f) PACKS"]) simp
qed

theorem packs_keep_sample_witness:
  "\<exists>ps. packs_of (\<lambda>_. []) (JObj [(''dashboards'', JArr [JObj [(''framework'', JStr ''iso27001''), (''score'', JNum (num 9))]])]) = Some ps
        \<and> ps ! 5 = PACKS ! 5"
proof -
  let ?ds = "[JObj [(''framework'', JStr ''iso27001''), (''score'', JNum (num 9))]]"
  obtain ps where "packs_of (\<lambda>_. []) (JObj [(''dashboards'', JArr ?ds)]) = Some ps"
    "\<forall>i < 6. pk_id (PACKS ! i) \<notin> {''nist-800-53'', ''soc2''} \<longrightarrow> ps ! i = PACKS ! i"
    using packs_keep_sample [of "JObj [(''dashboards'', JArr ?ds)]" ?ds "\<lambda>_. []"]
    by (auto simp: not_null_def FRAMEWORKS_def)
  then show ?thesis by (simp add: PACKS_def seed_pack_def)
qed

text \<open>A scan that fails closes the dialog and says nothing: whatever the page showed stays, and no error is set.\<close>

theorem failed_scan_silent:
  assumes "cp_phase p = ScanSent"
  shows "let q = compliance_step fmt demo p (CScanned False)
         in cp_dashboards q = cp_dashboards p \<and> cp_loadError q = cp_loadError p \<and> \<not> cp_scanDialog q
            \<and> compliance_notice_of q = compliance_notice_of p"
  using assms by (simp add: compliance_step_def compliance_do_def scan_over_def Let_def compliance_notice_of_def user_event_def)

end
