(* ===== verification/Enterprise_Pages.thy ===== *)
theory Enterprise_Pages
  imports Compliance_Page
begin

text \<open>
  The pages of web/src/pages/enterprise that show one estate each: Terraform.tsx, MultiCloud.tsx, CNCF.tsx, Quantum.tsx,
  Inventory.tsx, AWSCloud.tsx, IBMCloud.tsx and CloudPosture.tsx.  They load what the backend answers; the first three put
  fixed figures where an answer is missing or zero, the others show zero.  An answer is the body of a response, or
  \<open>None\<close> for a failed request; what is drawn is \<open>None\<close> when drawing throws.
\<close>

section \<open>Loading and showing\<close>

text \<open>\<open>n || d\<close> on a length, and \<open>v || d\<close> on a member of an answer.\<close>

definition nat_or :: "nat \<Rightarrow> nat \<Rightarrow> nat" where "nat_or n d = (if n = 0 then d else n)"

definition with_severity :: "string \<Rightarrow> jval list \<Rightarrow> nat" where
  "with_severity s fs = length (filter (\<lambda>f. js_prop f ''severity'' = JStr s) fs)"

text \<open>Rows of which the members \<open>ks\<close> are asked for \<open>?.toUpperCase()\<close>.\<close>

definition drawn_rows :: "string list \<Rightarrow> jval \<Rightarrow> jval list option" where
  "drawn_rows ks v =
     (case v of
        JArr fs \<Rightarrow>
          if list_all (\<lambda>f. not_null f \<and> list_all (\<lambda>k. \<not> not_null (js_prop f k) \<or> the_string (js_prop f k) \<noteq> None) ks) fs
          then Some fs else None
      | _ \<Rightarrow> None)"

text \<open>\<open>Object.entries(v)\<close> for a value that is not null.\<close>

definition entries_or :: "jval \<Rightarrow> (string \<times> jval) list \<Rightarrow> (string \<times> jval) list" where
  "entries_or v d = (if js_truthy v then own_entries v else d)"

definition ints :: "(string \<times> int) list \<Rightarrow> (string \<times> jval) list" where
  "ints xs = map (\<lambda>(k, n). (k, JNum (num n))) xs"

definition texts :: "(string \<times> string) list \<Rightarrow> jval" where
  "texts xs = JObj (map (\<lambda>(k, s). (k, JStr s)) xs)"

section \<open>Terraform\<close>

definition tf_finding :: "string \<Rightarrow> string \<Rightarrow> string \<Rightarrow> string \<Rightarrow> string \<Rightarrow> jval" where
  "tf_finding rule sev title res prov =
     texts [(''rule_id'', rule), (''severity'', sev), (''title'', title), (''resource'', res), (''provider'', prov)]"

definition tf_violation :: "string \<Rightarrow> string \<Rightarrow> string \<Rightarrow> string \<Rightarrow> string \<Rightarrow> jval" where
  "tf_violation control fw sev res msg =
     texts [(''control_id'', control), (''framework'', fw), (''severity'', sev), (''resource'', res), (''message'', msg)]"

definition TF_FINDINGS :: "jval list" where
  "TF_FINDINGS =
     [tf_finding ''AVD-AWS-0001'' ''HIGH'' ''S3 Bucket Public Access'' ''aws_s3_bucket.public_data'' ''aws'',
      tf_finding ''AVD-AWS-0002'' ''CRITICAL'' ''IAM Policy Wildcards'' ''aws_iam_policy.admin'' ''aws'',
      tf_finding ''AVD-GCP-0001'' ''HIGH'' ''GCS Bucket Public Access'' ''google_storage_bucket.public'' ''gcp'']"

definition TF_VIOLATIONS :: "jval list" where
  "TF_VIOLATIONS =
     [tf_violation ''ISO27001-A.9.1'' ''iso27001'' ''HIGH'' ''aws_security_group.allow_all'' ''Unrestricted inbound access'',
      tf_violation ''NIST-AC-3'' ''nist'' ''MEDIUM'' ''aws_iam_role.admin'' ''Overly permissive role'']"

record terraform_page =
  tf_findings :: jval
  tf_violations :: jval
  tf_loading :: bool
  tf_scanning :: bool
  tf_loads :: nat
  tf_phase :: scan_phase
  tf_sent :: "api_request list"

definition tf_requests :: "api_request list" where
  "tf_requests =
     [terraformService_getResources JUndef, terraformService_getSecurityFindings JUndef,
      terraformService_getComplianceViolations JUndef]"

definition tf_load_sent :: "terraform_page \<Rightarrow> terraform_page" where
  "tf_load_sent p = p\<lparr>tf_loading := True, tf_sent := tf_sent p @ tf_requests\<rparr>"

text \<open>The three answers together; one failure, or one body that cannot be read, shows the fixed rows.\<close>

definition tf_settled :: "jval option \<Rightarrow> jval option \<Rightarrow> jval option \<Rightarrow> terraform_page \<Rightarrow> terraform_page" where
  "tf_settled resources findings violations p =
     (case (answered_rows ''resources'' resources, answered_rows ''findings'' findings, answered_rows ''violations'' violations) of
        (Some _, Some fs, Some vs) \<Rightarrow> p\<lparr>tf_findings := fs, tf_violations := vs, tf_loading := False\<rparr>
      | _ \<Rightarrow> p\<lparr>tf_findings := JArr TF_FINDINGS, tf_violations := JArr TF_VIOLATIONS, tf_loading := False\<rparr>)"

definition tf_init :: terraform_page where
  "tf_init =
     \<lparr>tf_findings = JArr [], tf_violations = JArr [], tf_loading = True, tf_scanning = False, tf_loads = 1,
      tf_phase = NoScan, tf_sent = tf_requests\<rparr>"

datatype terraform_event =
  TfRefresh
| TfLoaded "jval option" "jval option" "jval option"
| TfScan
| TfScanned bool
| TfReloaded "jval option" "jval option" "jval option"

definition tf_step :: "terraform_page \<Rightarrow> terraform_event \<Rightarrow> terraform_page" where
  "tf_step p e =
     (case e of
        TfRefresh \<Rightarrow> if tf_loading p then p else (tf_load_sent p)\<lparr>tf_loads := tf_loads p + 1\<rparr>
      | TfLoaded a b c \<Rightarrow> if tf_loads p = 0 then p else (tf_settled a b c p)\<lparr>tf_loads := tf_loads p - 1\<rparr>
      | TfScan \<Rightarrow>
          if tf_scanning p then p
          else p\<lparr>tf_scanning := True, tf_phase := ScanSent,
                 tf_sent := tf_sent p @ [terraformService_scanResources (JObj [])]\<rparr>
      | TfScanned ok \<Rightarrow>
          if tf_phase p \<noteq> ScanSent then p
          else if ok then (tf_load_sent p)\<lparr>tf_phase := ScanReload\<rparr>
          else p\<lparr>tf_scanning := False, tf_phase := NoScan\<rparr>
      | TfReloaded a b c \<Rightarrow>
          if tf_phase p \<noteq> ScanReload then p
          else (tf_settled a b c p)\<lparr>tf_scanning := False, tf_phase := NoScan\<rparr>)"

record terraform_view =
  tv_bars :: "(string \<times> nat) list"
  tv_total :: nat
  tv_alert :: "(nat \<times> nat) option"
  tv_violations :: nat
  tv_finding_rows :: "jval list"
  tv_violation_rows :: "jval list"

definition tf_view :: "terraform_page \<Rightarrow> terraform_view option" where
  "tf_view p =
     (case (drawn_rows [''severity'', ''provider''] (tf_findings p), drawn_rows [''severity'', ''framework''] (tf_violations p)) of
        (Some fs, Some vs) \<Rightarrow>
          let c = nat_or (with_severity ''CRITICAL'' fs) 1; h = nat_or (with_severity ''HIGH'' fs) 2
          in Some \<lparr>tv_bars = [(''Critical'', c), (''High'', h), (''Medium'', nat_or (with_severity ''MEDIUM'' fs) 1),
                              (''Low'', nat_or (with_severity ''LOW'' fs) 0)],
                   tv_total = nat_or (length fs) 5,
                   tv_alert = (if 0 < c \<or> 0 < h then Some (c, h) else None),
                   tv_violations = nat_or (length vs) 5,
                   tv_finding_rows = (if fs = [] then TF_FINDINGS else fs),
                   tv_violation_rows = (if vs = [] then TF_VIOLATIONS else vs)\<rparr>
      | _ \<Rightarrow> None)"

section \<open>The clouds\<close>

definition CLOUD_SUMMARY :: jval where
  "CLOUD_SUMMARY =
     JObj [(''total_resources'', JNum (num 1604)),
           (''by_provider'', JObj (ints [(''aws'', 847), (''gcp'', 523), (''ibm_cloud'', 234)])),
           (''by_service'', JObj (ints [(''ec2'', 120), (''s3'', 85), (''compute'', 95), (''storage'', 65), (''vsi'', 45)])),
           (''security_findings'', JObj (ints [(''critical'', 2), (''high'', 8), (''medium'', 15), (''low'', 22)])),
           (''compliance'', texts [(''iso27001'', ''85%''), (''nist'', ''78%''), (''pqc'', ''65%'')])]"

record new_account =
  na_provider :: string
  na_account_id :: string
  na_account_name :: string

definition account_json :: "new_account \<Rightarrow> jval" where
  "account_json a =
     JObj [(''provider'', JStr (na_provider a)), (''account_id'', JStr (na_account_id a)),
           (''account_name'', JStr (na_account_name a)), (''regions'', JArr [])]"

record clouds_page =
  mc_summary :: jval
  mc_loading :: bool
  mc_tab :: nat
  mc_dialog :: bool
  mc_account :: new_account
  mc_loads :: nat
  mc_adding :: nat
  mc_sent :: "api_request list"

definition mc_requests :: "api_request list" where
  "mc_requests = [cloudService_getCloudAccounts JUndef, cloudService_getResourcesSummary]"

definition mc_load_sent :: "clouds_page \<Rightarrow> clouds_page" where
  "mc_load_sent p = p\<lparr>mc_loading := True, mc_loads := mc_loads p + 1, mc_sent := mc_sent p @ mc_requests\<rparr>"

definition mc_settled :: "jval option \<Rightarrow> jval option \<Rightarrow> clouds_page \<Rightarrow> clouds_page" where
  "mc_settled accounts summary p =
     p\<lparr>mc_summary := (case (accounts, summary) of (Some _, Some s) \<Rightarrow> s | _ \<Rightarrow> CLOUD_SUMMARY), mc_loading := False\<rparr>"

definition mc_init :: clouds_page where
  "mc_init =
     \<lparr>mc_summary = JNull, mc_loading = True, mc_tab = 0, mc_dialog = False,
      mc_account = \<lparr>na_provider = ''aws'', na_account_id = [], na_account_name = []\<rparr>, mc_loads = 1, mc_adding = 0,
      mc_sent = mc_requests\<rparr>"

datatype clouds_event =
  McRefresh
| McLoaded "jval option" "jval option"
| McTab nat
| McDialog bool
| McProvider string
| McAccountId string
| McAccountName string
| McAdd
| McAdded bool

definition CLOUD_CHOICES :: "string list" where "CLOUD_CHOICES = [''aws'', ''gcp'', ''ibm_cloud'', ''azure'']"

definition mc_step :: "clouds_page \<Rightarrow> clouds_event \<Rightarrow> clouds_page" where
  "mc_step p e =
     (case e of
        McRefresh \<Rightarrow> mc_load_sent p
      | McLoaded a s \<Rightarrow> if mc_loads p = 0 then p else (mc_settled a s p)\<lparr>mc_loads := mc_loads p - 1\<rparr>
      | McTab t \<Rightarrow> if t < 3 then p\<lparr>mc_tab := t\<rparr> else p
      | McDialog b \<Rightarrow> p\<lparr>mc_dialog := b\<rparr>
      | McProvider x \<Rightarrow> if mc_dialog p \<and> x \<in> set CLOUD_CHOICES then p\<lparr>mc_account := (mc_account p)\<lparr>na_provider := x\<rparr>\<rparr> else p
      | McAccountId x \<Rightarrow> if mc_dialog p then p\<lparr>mc_account := (mc_account p)\<lparr>na_account_id := x\<rparr>\<rparr> else p
      | McAccountName x \<Rightarrow> if mc_dialog p then p\<lparr>mc_account := (mc_account p)\<lparr>na_account_name := x\<rparr>\<rparr> else p
      | McAdd \<Rightarrow>
          if mc_dialog p
          then p\<lparr>mc_adding := mc_adding p + 1, mc_sent := mc_sent p @ [cloudService_addCloudAccount (account_json (mc_account p))]\<rparr>
          else p
      | McAdded ok \<Rightarrow>
          if mc_adding p = 0 then p
          else let q = p\<lparr>mc_adding := mc_adding p - 1\<rparr>
               in if ok then mc_load_sent (q\<lparr>mc_dialog := False\<rparr>) else q)"

text \<open>The four figures.\<close>

definition mc_cards :: "jval \<Rightarrow> jval list" where
  "mc_cards s =
     [js_or (js_prop s ''total_resources'') (JStr ''1,604''),
      js_or (js_prop (js_prop s ''by_provider'') ''aws'') (JStr ''847''),
      js_or (js_prop (js_prop s ''by_provider'') ''gcp'') (JStr ''523''),
      js_or (js_prop (js_prop s ''security_findings'') ''critical'') (JStr ''2'')]"

definition mc_bars :: "jval \<Rightarrow> (string \<times> jval) list" where
  "mc_bars s =
     (let b = js_prop s ''by_provider''
      in if js_truthy b then map (\<lambda>(k, v). (str_upper k, v)) (own_entries b)
         else ints [(''AWS'', 847), (''GCP'', 523), (''IBM'', 234)])"

definition mc_services :: "jval \<Rightarrow> (string \<times> jval) list" where
  "mc_services s =
     entries_or (js_prop s ''by_service'')
       (ints [(''EC2'', 120), (''S3'', 85), (''RDS'', 45), (''Compute'', 95), (''Storage'', 65), (''VSI'', 45)])"

definition mc_tiles :: "nat \<Rightarrow> (string \<times> int) list" where
  "mc_tiles t =
     (if t = 0 then [(''EC2'', 120), (''S3 Buckets'', 85), (''RDS'', 45), (''EKS Clusters'', 8), (''Security Groups'', 120)]
      else if t = 1 then [(''Compute Instances'', 95), (''Storage Buckets'', 65), (''Cloud SQL'', 30), (''GKE Clusters'', 6),
                          (''Firewall Rules'', 85)]
      else if t = 2 then [(''VSI Instances'', 45), (''COS Buckets'', 25), (''DB2'', 15), (''IKS Clusters'', 4),
                          (''Quantum Instances'', 3)]
      else [])"

definition mc_compliance :: "jval \<Rightarrow> (string \<times> jval) list" where
  "mc_compliance s =
     map (\<lambda>(k, v). (str_upper k, v))
       (entries_or (js_prop s ''compliance'') [(''iso27001'', JStr ''85%''), (''nist'', JStr ''78%''), (''pqc'', JStr ''65%'')])"

section \<open>The tools of the CNCF\<close>

definition TOOLS :: "(string \<times> string) list" where
  "TOOLS =
     [(''Prometheus'', ''monitoring''), (''Grafana'', ''visualization''), (''ArgoCD'', ''gitops''), (''Flux'', ''gitops''),
      (''Istio'', ''service_mesh''), (''Linkerd'', ''service_mesh''), (''Cilium'', ''networking''), (''K3s'', ''kubernetes'')]"

definition TOOL_CATEGORIES :: "(string \<times> jval) list" where
  "TOOL_CATEGORIES =
     map (\<lambda>(k, xs). (k, JArr (map JStr xs)))
       [(''monitoring'', [''Prometheus'', ''Grafana'']), (''gitops'', [''ArgoCD'', ''Flux'']),
        (''service_mesh'', [''Istio'', ''Linkerd'']), (''networking'', [''Cilium'']), (''kubernetes'', [''K3s''])]"

definition TOOL_SUMMARY :: jval where
  "TOOL_SUMMARY =
     JObj [(''tools_summary'', JObj (ints [(''total'', 10), (''healthy'', 9), (''unhealthy'', 1), (''pending'', 0)])),
           (''by_category'', JObj TOOL_CATEGORIES),
           (''security'', JObj (ints [(''network_policies'', 50), (''cnps'', 25), (''cilium_agents'', 10)])),
           (''observability'', texts [(''metrics'', ''enabled''), (''tracing'', ''enabled''), (''logging'', ''enabled'')])]"

definition tools_settled :: "jval option \<Rightarrow> jval option \<Rightarrow> jval" where
  "tools_settled tools dash = (case (tools, dash) of (Some _, Some d) \<Rightarrow> d | _ \<Rightarrow> TOOL_SUMMARY)"

record tools_page =
  tp_dashboard :: jval
  tp_loading :: bool
  tp_loads :: nat
  tp_checks :: nat
  tp_sent :: "api_request list"

definition tp_requests :: "api_request list" where
  "tp_requests = [cncfService_getTools JUndef, cncfService_getCNCFDashboard]"

definition tp_load_sent :: "tools_page \<Rightarrow> tools_page" where
  "tp_load_sent p = p\<lparr>tp_loading := True, tp_loads := tp_loads p + 1, tp_sent := tp_sent p @ tp_requests\<rparr>"

definition tp_init :: tools_page where
  "tp_init = tp_load_sent \<lparr>tp_dashboard = JNull, tp_loading = False, tp_loads = 0, tp_checks = 0, tp_sent = []\<rparr>"

datatype tools_event =
  TpRefresh
| TpLoaded "jval option" "jval option"
| TpCheck string
| TpChecked bool

text \<open>A health check that succeeds loads again; one that fails is only logged.\<close>

definition tp_step :: "tools_page \<Rightarrow> tools_event \<Rightarrow> tools_page" where
  "tp_step p e =
     (case e of
        TpRefresh \<Rightarrow> tp_load_sent p
      | TpLoaded a b \<Rightarrow>
          if tp_loads p = 0 then p
          else p\<lparr>tp_dashboard := tools_settled a b, tp_loading := False, tp_loads := tp_loads p - 1\<rparr>
      | TpCheck n \<Rightarrow>
          if n \<in> fst ` set TOOLS
          then p\<lparr>tp_checks := tp_checks p + 1, tp_sent := tp_sent p @ [cncfService_checkToolHealth n]\<rparr> else p
      | TpChecked ok \<Rightarrow>
          if tp_checks p = 0 then p
          else let q = p\<lparr>tp_checks := tp_checks p - 1\<rparr> in if ok then tp_load_sent q else q)"

definition healthy_tools :: "jval \<Rightarrow> jval" where
  "healthy_tools d = js_or (js_prop (js_prop d ''tools_summary'') ''healthy'') (JNum (num 9))"

text \<open>\<open>getToolStatus\<close>, which does not look at the tool.\<close>

definition getToolStatus :: "(rat \<Rightarrow> string) \<Rightarrow> jval \<Rightarrow> string \<Rightarrow> string" where
  "getToolStatus fmt d toolName =
     (if js_le (num 8) (js_number fmt (healthy_tools d)) then ''healthy'' else ''unhealthy'')"

definition tool_cards :: "jval \<Rightarrow> jval list" where
  "tool_cards d =
     [js_or (js_prop (js_prop d ''tools_summary'') ''total'') (JNum (num 10)), healthy_tools d,
      js_or (js_prop (js_prop d ''tools_summary'') ''unhealthy'') (JNum (num 1)),
      js_or (js_prop (js_prop d ''security'') ''network_policies'') (JNum (num 50))]"

text \<open>A category with the chips of its tools; \<open>None\<close> when one of them is no list.\<close>

definition category_chips :: "(rat \<Rightarrow> string) \<Rightarrow> jval \<Rightarrow> (string \<times> (string \<times> string) list) list option" where
  "category_chips fmt d =
     those (map (\<lambda>(k, v). map_option (\<lambda>ts. (k, map (\<lambda>t. (js_string fmt t, getToolStatus fmt d (js_string fmt t))) ts)) (array_items v))
       (entries_or (js_prop d ''by_category'') TOOL_CATEGORIES))"

definition tool_version :: "string \<Rightarrow> string" where
  "tool_version name =
     ''v'' @ (if name = ''Prometheus'' then ''2.45'' else if name = ''Grafana'' then ''10.0''
             else if name = ''ArgoCD'' then ''2.8'' else ''latest'')"

text \<open>The rows of the table below: name, type, version, status and last check.\<close>

definition tool_rows :: "(string \<times> string \<times> string \<times> string \<times> string) list" where
  "tool_rows = map (\<lambda>(n, k). (n, k, tool_version n, ''Healthy'', ''2 minutes ago'')) TOOLS"

section \<open>Quantum readiness\<close>

definition ALGORITHMS :: "jval list" where
  "ALGORITHMS =
     map (\<lambda>(n, k). JObj [(''name'', JStr n), (''type'', JStr k), (''status'', JStr ''NIST standard''), (''security_level'', JNum (num 5))])
       [(''ML-KEM (FIPS 203)'', ''KEM''), (''ML-DSA (FIPS 204)'', ''Signature''), (''SLH-DSA (FIPS 205)'', ''Signature'')]"

definition NO_READINESS :: jval where
  "NO_READINESS =
     JObj (ints [(''overall_score'', 0), (''quantum_safe_assets'', 0), (''at_risk_assets'', 0), (''migration_progress'', 0)]
       @ [(''recommendations'', JArr []), (''by_category'', JObj []), (''by_algorithm'', JObj [])])"

record quantum_page =
  qp_readiness :: jval
  qp_networks :: jval
  qp_algorithms :: jval
  qp_loading :: bool
  qp_dialog :: bool
  qp_source :: string
  qp_target :: string
  qp_selectedAsset :: string
  qp_loads :: nat
  qp_sent :: "api_request list"

definition qp_requests :: "api_request list" where
  "qp_requests =
     [quantumService_getQuantumReadiness, quantumService_getQuantumNetworks, quantumService_getPQCAlgorithms,
      quantumService_getAttestations JUndef]"

definition qp_init :: quantum_page where
  "qp_init =
     \<lparr>qp_readiness = JNull, qp_networks = JArr [], qp_algorithms = JArr [], qp_loading = True, qp_dialog = False,
      qp_source = ''RSA-2048'', qp_target = ''CRYSTALS-Kyber'', qp_selectedAsset = [], qp_loads = 1, qp_sent = qp_requests\<rparr>"

definition qp_settled ::
  "jval option \<Rightarrow> jval option \<Rightarrow> jval option \<Rightarrow> jval option \<Rightarrow> quantum_page \<Rightarrow> quantum_page" where
  "qp_settled readiness networks algorithms attestations p =
     (case (readiness, answered_rows ''networks'' networks, answered_rows ''algorithms'' algorithms, attestations) of
        (Some r, Some ns, Some as, Some _) \<Rightarrow> p\<lparr>qp_readiness := r, qp_networks := ns, qp_algorithms := as, qp_loading := False\<rparr>
      | _ \<Rightarrow> p\<lparr>qp_readiness := NO_READINESS, qp_networks := JArr [], qp_algorithms := JArr ALGORITHMS, qp_loading := False\<rparr>)"

definition migration_json :: "quantum_page \<Rightarrow> jval" where
  "migration_json p =
     texts [(''asset_id'', qp_selectedAsset p), (''source_algorithm'', qp_source p), (''target_algorithm'', qp_target p)]"

datatype quantum_event =
  QpRefresh
| QpLoaded "jval option" "jval option" "jval option" "jval option"
| QpDialog bool
| QpSource string
| QpTarget string
| QpMigrate
| QpMigrated bool

definition SOURCE_CHOICES :: "string list" where
  "SOURCE_CHOICES = [''RSA-2048'', ''RSA-4096'', ''ECDSA P-256'', ''ECDSA P-384'']"

definition TARGET_CHOICES :: "string list" where
  "TARGET_CHOICES = [''CRYSTALS-Kyber'', ''CRYSTALS-Dilithium'', ''FALCON'', ''SPHINCS+'']"

definition qp_step :: "quantum_page \<Rightarrow> quantum_event \<Rightarrow> quantum_page" where
  "qp_step p e =
     (case e of
        QpRefresh \<Rightarrow> p\<lparr>qp_loading := True, qp_loads := qp_loads p + 1, qp_sent := qp_sent p @ qp_requests\<rparr>
      | QpLoaded a b c d \<Rightarrow> if qp_loads p = 0 then p else (qp_settled a b c d p)\<lparr>qp_loads := qp_loads p - 1\<rparr>
      | QpDialog b \<Rightarrow> p\<lparr>qp_dialog := b\<rparr>
      | QpSource x \<Rightarrow> if qp_dialog p \<and> x \<in> set SOURCE_CHOICES then p\<lparr>qp_source := x\<rparr> else p
      | QpTarget x \<Rightarrow> if qp_dialog p \<and> x \<in> set TARGET_CHOICES then p\<lparr>qp_target := x\<rparr> else p
      | QpMigrate \<Rightarrow>
          if qp_dialog p then p\<lparr>qp_sent := qp_sent p @ [quantumService_migrateAlgorithm (migration_json p)]\<rparr> else p
      | QpMigrated ok \<Rightarrow> if ok then p\<lparr>qp_dialog := False\<rparr> else p)"

definition readiness_cards :: "jval \<Rightarrow> jval list" where
  "readiness_cards r =
     map (\<lambda>k. js_coalesce (js_prop r k) (JNum (num 0)))
       [''overall_score'', ''quantum_safe_assets'', ''at_risk_assets'', ''migration_progress'']"

definition readiness_good :: "(rat \<Rightarrow> string) \<Rightarrow> jval \<Rightarrow> bool" where
  "readiness_good fmt r \<longleftrightarrow> js_le (num 70) (js_number fmt (js_prop r ''overall_score''))"

definition exposure_alert :: "(rat \<Rightarrow> string) \<Rightarrow> jval \<Rightarrow> bool" where
  "exposure_alert fmt r \<longleftrightarrow> js_lt (num 0) (js_number fmt (js_coalesce (js_prop r ''at_risk_assets'') (JNum (num 0))))"

text \<open>The recommendations; an empty list is truthy and hides the fixed ones.\<close>

definition recommendations :: "jval \<Rightarrow> jval list option" where
  "recommendations r =
     (let v = js_prop r ''recommendations''
      in if not_null v then array_items v
         else Some (map JStr [''Migrate RSA-2048 to CRYSTALS-Kyber'', ''Migrate ECDSA to CRYSTALS-Dilithium'',
                             ''Implement hybrid classical-quantum key exchange'']))"

definition readiness_categories :: "jval \<Rightarrow> (string \<times> jval) list" where
  "readiness_categories r = entries_or (js_prop r ''by_category'') []"

section \<open>The enterprise inventory\<close>

record new_asset =
  nw_name :: string
  nw_category :: string
  nw_cloud_provider :: string
  nw_region :: string

definition asset_json :: "new_asset \<Rightarrow> jval" where
  "asset_json a =
     texts [(''name'', nw_name a), (''category'', nw_category a), (''cloud_provider'', nw_cloud_provider a),
            (''region'', nw_region a)]"

record inventory_page =
  iv_tab :: nat
  iv_assets :: jval
  iv_loading :: bool
  iv_search :: string
  iv_category :: string
  iv_summary :: jval
  iv_dialog :: bool
  iv_asset :: new_asset
  iv_loads :: nat
  iv_summaries :: nat
  iv_creating :: nat
  iv_sent :: "api_request list"

text \<open>\<open>categoryFilter || undefined\<close>.\<close>

definition category_param :: "string \<Rightarrow> jval" where
  "category_param c = JObj [(''category'', if c = [] then JUndef else JStr c)]"

definition loadAssets :: "inventory_page \<Rightarrow> inventory_page" where
  "loadAssets p =
     p\<lparr>iv_loading := True, iv_loads := iv_loads p + 1,
       iv_sent := iv_sent p @ [inventoryService_getAssets (category_param (iv_category p))]\<rparr>"

definition loadSummary :: "inventory_page \<Rightarrow> inventory_page" where
  "loadSummary p =
     p\<lparr>iv_summaries := iv_summaries p + 1, iv_sent := iv_sent p @ [inventoryService_getInventorySummary]\<rparr>"

definition inventory_init :: inventory_page where
  "inventory_init =
     loadSummary (loadAssets
       \<lparr>iv_tab = 0, iv_assets = JArr [], iv_loading = False, iv_search = [], iv_category = [], iv_summary = JNull,
        iv_dialog = False,
        iv_asset = \<lparr>nw_name = [], nw_category = ''cryptographic'', nw_cloud_provider = [], nw_region = []\<rparr>,
        iv_loads = 0, iv_summaries = 0, iv_creating = 0, iv_sent = []\<rparr>)"

definition assets_settled :: "jval option \<Rightarrow> inventory_page \<Rightarrow> inventory_page" where
  "assets_settled ans p = p\<lparr>iv_assets := nullish (answered_rows ''assets'' ans) (JArr []), iv_loading := False\<rparr>"

datatype inventory_event =
  IvRefresh
| IvLoaded "jval option"
| IvSummary "jval option"
| IvTab nat
| IvSearch string
| IvCategory string
| IvDialog bool
| IvAsset new_asset
| IvCreate
| IvCreated bool

definition CATEGORY_CHOICES :: "string list" where
  "CATEGORY_CHOICES = [''cryptographic'', ''ai'', ''hardware'', ''software'', ''infrastructure'']"

definition inventory_step :: "inventory_page \<Rightarrow> inventory_event \<Rightarrow> inventory_page" where
  "inventory_step p e =
     (case e of
        IvRefresh \<Rightarrow> loadAssets p
      | IvLoaded ans \<Rightarrow> if iv_loads p = 0 then p else (assets_settled ans p)\<lparr>iv_loads := iv_loads p - 1\<rparr>
      | IvSummary ans \<Rightarrow>
          if iv_summaries p = 0 then p
          else p\<lparr>iv_summaries := iv_summaries p - 1, iv_summary := nullish ans JNull\<rparr>
      | IvTab t \<Rightarrow> if t < 6 then p\<lparr>iv_tab := t\<rparr> else p
      | IvSearch q \<Rightarrow> p\<lparr>iv_search := q\<rparr>
      | IvCategory c \<Rightarrow> if c \<in> set ([] # CATEGORY_CHOICES) then p\<lparr>iv_category := c\<rparr> else p
      | IvDialog b \<Rightarrow> p\<lparr>iv_dialog := b\<rparr>
      | IvAsset a \<Rightarrow>
          if iv_dialog p \<and> nw_category a \<in> set CATEGORY_CHOICES \<and> nw_cloud_provider a \<in> set ([] # CLOUD_CHOICES)
          then p\<lparr>iv_asset := a\<rparr> else p
      | IvCreate \<Rightarrow>
          if iv_dialog p
          then p\<lparr>iv_creating := iv_creating p + 1, iv_sent := iv_sent p @ [inventoryService_createAsset (asset_json (iv_asset p))]\<rparr>
          else p
      | IvCreated ok \<Rightarrow>
          if iv_creating p = 0 then p
          else let q = p\<lparr>iv_creating := iv_creating p - 1\<rparr>
               in if ok then loadSummary (loadAssets (q\<lparr>iv_dialog := False\<rparr>)) else q)"

text \<open>The rows under the search: a row without a name throws, and so does one without an identifier whose name does not
  match.\<close>

definition row_matches :: "string \<Rightarrow> jval \<Rightarrow> bool option" where
  "row_matches q a =
     (if not_null a
      then case the_string (js_prop a ''name'') of
             None \<Rightarrow> None
           | Some n \<Rightarrow>
               if str_includes (str_lower n) (str_lower q) then Some True
               else map_option (\<lambda>i. str_includes (str_lower i) (str_lower q)) (the_string (js_prop a ''asset_id''))
      else None)"

definition inventory_rows :: "inventory_page \<Rightarrow> jval list option" where
  "inventory_rows p = Option.bind (array_items (iv_assets p)) (filter_opt (row_matches (iv_search p)))"

text \<open>The cells of a row up to its status.\<close>

definition inventory_cells :: "jval \<Rightarrow> jval list" where
  "inventory_cells a =
     [js_prop a ''asset_id'', js_prop a ''name'', js_prop a ''category'', js_or (js_prop a ''cloud_provider'') (JStr ''-''),
      js_or (js_prop a ''region'') (JStr ''-'')]"

definition getQuantumBadge :: "jval \<Rightarrow> string option" where
  "getQuantumBadge v =
     (if v = JUndef then None else if js_truthy v then Some ''Quantum Safe'' else Some ''At Risk'')"

definition inventory_cards :: "(rat \<Rightarrow> string) \<Rightarrow> jval \<Rightarrow> string list" where
  "inventory_cards fmt s =
     (let c = (\<lambda>k. js_string fmt (js_coalesce (js_prop s k) (JNum (num 0))))
      in [c ''total_assets'', c ''quantum_safe_count'' @ ''%'', c ''vulnerable_assets'', ''4''])"

definition inventory_categories :: "jval \<Rightarrow> (string \<times> jval) list" where
  "inventory_categories s =
     entries_or (js_prop s ''by_category'')
       (ints [(''Cryptographic'', 0), (''AI'', 0), (''Hardware'', 0), (''Software'', 0), (''Infrastructure'', 0)])"

definition inventory_clouds :: "jval \<Rightarrow> (string \<times> jval) list" where
  "inventory_clouds s =
     map (\<lambda>(n, k). (n, js_or (js_prop (js_prop s ''by_cloud_provider'') k) (JNum (num 0))))
       [(''AWS'', ''aws''), (''GCP'', ''gcp''), (''IBM Cloud'', ''ibm_cloud''), (''Azure'', ''azure'')]"

section \<open>The two clouds with keys\<close>

text \<open>\<open>Array.isArray(data) ? data : (data?.key ?? [])\<close>, of which the page maps the rows; a query without an answer has
  no data.\<close>

definition cloud_list :: "string \<Rightarrow> jval \<Rightarrow> jval" where
  "cloud_list k data = (case data of JArr vs \<Rightarrow> data | _ \<Rightarrow> js_coalesce (js_prop data k) (JArr []))"

definition row_texts :: "(rat \<Rightarrow> string) \<Rightarrow> (jval \<Rightarrow> jval list) \<Rightarrow> jval list \<Rightarrow> string list list option" where
  "row_texts fmt cells rows = (if list_all not_null rows then Some (map (map (js_string fmt) \<circ> cells) rows) else None)"

definition aws_key_cells :: "jval \<Rightarrow> jval list" where
  "aws_key_cells k =
     [js_or (js_prop k ''KeyId'') (js_prop k ''id''), js_or (js_prop k ''Description'') (js_prop k ''alias''),
      js_or (js_prop k ''KeyState'') (JStr ''Enabled'')]"

definition aws_event_cells :: "jval \<Rightarrow> jval list" where
  "aws_event_cells e =
     [js_or (js_prop e ''eventName'') (js_prop e ''name''), js_or (js_prop e ''eventTime'') (js_prop e ''time'')]"

definition aws_view ::
  "(rat \<Rightarrow> string) \<Rightarrow> jval \<Rightarrow> jval \<Rightarrow> jval \<Rightarrow> (jval \<times> nat \<times> nat \<times> string list list \<times> string list list) option" where
  "aws_view fmt hsm kms audit =
     (case (array_items (cloud_list ''keys'' kms), array_items (cloud_list ''events'' audit)) of
        (Some ks, Some es) \<Rightarrow>
          (case (row_texts fmt aws_key_cells ks, row_texts fmt aws_event_cells (take 10 es)) of
             (Some a, Some b) \<Rightarrow> Some (js_coalesce (js_prop hsm ''cluster_count'') (JNum (num 0)), length ks, length es, a, b)
           | _ \<Rightarrow> None)
      | _ \<Rightarrow> None)"

definition ibm_status :: "jval \<Rightarrow> bool \<Rightarrow> jval" where
  "ibm_status data failed =
     js_or (js_prop data ''status'') (JStr (if failed then ''Not connected'' else ''Unknown''))"

definition ibm_key_cells :: "jval \<Rightarrow> jval list" where
  "ibm_key_cells k =
     [js_or (js_prop k ''name'') (js_prop k ''id''), js_or (js_prop k ''state'') (JStr ''Active''),
      js_or (js_prop k ''algorithm'') (JStr ''AES-256'')]"

definition ibm_bucket_cells :: "jval \<Rightarrow> jval list" where
  "ibm_bucket_cells b =
     [js_prop b ''name'', js_or (js_prop b ''region'') (JStr ''us-south''),
      JStr (if js_truthy (js_prop b ''encrypted'') then ''Encrypted'' else ''Unencrypted'')]"

definition ibm_view ::
  "(rat \<Rightarrow> string) \<Rightarrow> bool \<Rightarrow> jval \<Rightarrow> jval \<Rightarrow> jval \<Rightarrow> (jval \<times> nat \<times> nat \<times> string list list \<times> string list list) option" where
  "ibm_view fmt failed status keys buckets =
     (case (array_items (cloud_list ''keys'' keys), array_items (cloud_list ''buckets'' buckets)) of
        (Some ks, Some bs) \<Rightarrow>
          (case (row_texts fmt ibm_key_cells ks, row_texts fmt ibm_bucket_cells bs) of
             (Some a, Some b) \<Rightarrow> Some (ibm_status status failed, length ks, length bs, a, b)
           | _ \<Rightarrow> None)
      | _ \<Rightarrow> None)"

section \<open>Cloud posture\<close>

definition posture_findings :: "jval \<Rightarrow> jval" where
  "posture_findings s =
     js_coalesce (js_prop s ''security_findings'')
       (JObj (ints [(''critical'', 0), (''high'', 0), (''medium'', 0), (''low'', 0)]))"

text \<open>\<open>Object.values(findings).reduce((a, b) => a + b, 0)\<close>.\<close>

definition totalFindings :: "(rat \<Rightarrow> string) \<Rightarrow> jval \<Rightarrow> jval" where
  "totalFindings fmt s = foldl (js_plus fmt) (JNum (num 0)) (map snd (own_entries (posture_findings s)))"

definition finding_slices :: "jval \<Rightarrow> (string \<times> jval) list" where
  "finding_slices s =
     map (\<lambda>(n, k). (n, js_coalesce (js_prop (posture_findings s) k) (JNum (num 0))))
       [(''Critical'', ''critical''), (''High'', ''high''), (''Medium'', ''medium''), (''Low'', ''low'')]"

text \<open>The line under the total, which shows the members as they are.\<close>

definition findings_sub :: "(rat \<Rightarrow> string) \<Rightarrow> jval \<Rightarrow> string" where
  "findings_sub fmt s =
     js_string fmt (js_prop (posture_findings s) ''critical'') @ '' critical '' @ mid_dot @ '' ''
     @ js_string fmt (js_prop (posture_findings s) ''high'') @ '' high''"

record posture_account =
  pa_id :: jval
  pa_name :: jval
  pa_provider :: jval
  pa_account_id :: jval
  pa_score :: jval
  pa_resources :: jval
  pa_findings :: jval
  pa_healthy :: bool

definition posture_account_of :: "jval \<Rightarrow> posture_account" where
  "posture_account_of a =
     (let z = (\<lambda>k. js_coalesce (js_prop a k) (JNum (num 0)))
      in \<lparr>pa_id = js_prop a ''id'',
          pa_name = js_or (js_prop a ''account_name'') (js_or (js_prop a ''account_id'') (js_prop a ''provider'')),
          pa_provider = js_prop a ''provider'', pa_account_id = js_prop a ''account_id'',
          pa_score = z ''score'', pa_resources = z ''resources'', pa_findings = z ''findings'',
          pa_healthy = (js_prop a ''status'' = JStr ''active'')\<rparr>)"

text \<open>The colour of an account calls \<open>provider.toLowerCase()\<close>.\<close>

definition posture_accounts :: "jval \<Rightarrow> posture_account list option" where
  "posture_accounts data =
     (case js_coalesce (js_prop data ''accounts'') (JArr []) of
        JArr vs \<Rightarrow>
          if list_all (\<lambda>a. not_null a \<and> the_string (js_prop a ''provider'') \<noteq> None) vs
          then Some (map posture_account_of vs) else None
      | _ \<Rightarrow> None)"

text \<open>The feed: severity, message and source of an event; the chip calls \<open>severity.toUpperCase()\<close>.\<close>

definition posture_feed :: "jval \<Rightarrow> (string \<times> jval \<times> jval) list option" where
  "posture_feed data =
     (case js_coalesce (js_prop data ''events'') (JArr []) of
        JArr vs \<Rightarrow>
          those (map (\<lambda>e. if not_null e
            then map_option (\<lambda>s. (str_upper s, js_or (js_prop e ''description'') (js_prop e ''event_type''),
                                  js_or (js_prop e ''source'') (JStr ''platform'')))
                   (the_string (js_or (js_prop e ''severity'') (JStr ''low'')))
            else None) vs)
      | _ \<Rightarrow> None)"

section \<open>Lemmas\<close>

lemma nat_or_pos: "0 < d \<Longrightarrow> 0 < nat_or n d"
  by (simp add: nat_or_def)

lemma answered_rows_list [simp]: "answered_rows k (Some (JObj [(k, JArr vs)])) = Some (JArr vs)"
  by (simp add: answered_rows_def member_of_def not_null_def)

lemma answered_rows_failed [simp]: "answered_rows k None = None"
  by (simp add: answered_rows_def)

lemma drawn_rows_Nil [simp]: "drawn_rows ks (JArr []) = Some []"
  by (simp add: drawn_rows_def)

lemma drawn_samples:
  "drawn_rows [''severity'', ''provider''] (JArr TF_FINDINGS) = Some TF_FINDINGS"
  "drawn_rows [''severity'', ''framework''] (JArr TF_VIOLATIONS) = Some TF_VIOLATIONS"
  by code_simp+

lemma sample_severities:
  "with_severity ''CRITICAL'' TF_FINDINGS = 1" "with_severity ''HIGH'' TF_FINDINGS = 2"
  by code_simp+

lemma with_severity_Nil [simp]: "with_severity s [] = 0"
  by (simp add: with_severity_def)

lemma tf_view_failed:
  assumes "a = None \<or> b = None \<or> c = None"
  shows "\<exists>w. tf_view (tf_settled a b c p) = Some w \<and> tv_alert w = Some (1, 2)
       \<and> tv_finding_rows w = TF_FINDINGS \<and> tv_violation_rows w = TF_VIOLATIONS"
proof -
  have "TF_FINDINGS \<noteq> []" "TF_VIOLATIONS \<noteq> []" by (simp_all add: TF_FINDINGS_def TF_VIOLATIONS_def)
  moreover have "tf_settled a b c p = p\<lparr>tf_findings := JArr TF_FINDINGS, tf_violations := JArr TF_VIOLATIONS, tf_loading := False\<rparr>"
    using assms by (auto simp: tf_settled_def answered_rows_def split: option.split)
  ultimately show ?thesis
    by (simp add: tf_view_def drawn_samples sample_severities nat_or_def Let_def)
qed

text \<open>The requests of the page of quantum readiness.\<close>

definition quantum_inv :: "quantum_page \<Rightarrow> bool" where
  "quantum_inv p \<longleftrightarrow>
     qp_selectedAsset p = [] \<and> qp_source p \<in> set SOURCE_CHOICES \<and> qp_target p \<in> set TARGET_CHOICES
     \<and> set (qp_sent p) \<subseteq> set qp_requests \<union>
         {quantumService_migrateAlgorithm (texts [(''asset_id'', []), (''source_algorithm'', s), (''target_algorithm'', t)])
          | s t. s \<in> set SOURCE_CHOICES \<and> t \<in> set TARGET_CHOICES}"

lemma qp_settled_sel [simp]:
  "qp_selectedAsset (qp_settled a b c d p) = qp_selectedAsset p" "qp_source (qp_settled a b c d p) = qp_source p"
  "qp_target (qp_settled a b c d p) = qp_target p" "qp_sent (qp_settled a b c d p) = qp_sent p"
  by (simp_all add: qp_settled_def split: option.split)

lemma quantum_step_inv: "quantum_inv p \<Longrightarrow> quantum_inv (qp_step p e)"
  by (cases e) (auto simp: quantum_inv_def qp_step_def migration_json_def)

interpretation quantum: invariant_machine qp_step quantum_inv
  by unfold_locales (rule quantum_step_inv)

lemma quantum_init_inv: "quantum_inv qp_init"
  by (simp add: quantum_inv_def qp_init_def SOURCE_CHOICES_def TARGET_CHOICES_def)

text \<open>The controls that look like filters of the inventory.\<close>

definition filter_control :: "inventory_event \<Rightarrow> bool" where
  "filter_control e = (case e of IvTab _ \<Rightarrow> True | IvCategory _ \<Rightarrow> True | _ \<Rightarrow> False)"

interpretation inventory_controls: unobserved_machine inventory_step filter_control "\<lambda>p. (inventory_rows p, iv_sent p)"
  by unfold_locales (auto simp: filter_control_def inventory_step_def inventory_rows_def split: inventory_event.splits)

lemma plus_ints:
  assumes "list_all (\<lambda>(k, n). 0 \<le> n) xs" "0 \<le> a" "a + sum_list (map snd xs) \<le> 2 ^ 53"
  shows "foldl (js_plus fmt) (JNum (num a)) (map snd (ints xs)) = JNum (num (a + sum_list (map snd xs)))"
  using assms
proof (induction xs arbitrary: a)
  case Nil
  then show ?case by (simp add: ints_def)
next
  case (Cons x xs)
  obtain k n where x: "x = (k, n)" by force
  have "0 \<le> sum_list (map snd xs)" using Cons.prems by (intro sum_list_nonneg) (auto simp: list_all_iff)
  then have "a + n \<le> 2 ^ 53" "0 \<le> a + n" using Cons.prems x by simp_all
  then have "js_plus fmt (JNum (num a)) (JNum (num n)) = JNum (num (a + n))"
    using to_num_of_int [of "a + n"] by (simp add: js_plus_def Let_def)
  then show ?case using Cons.IH [of "a + n"] Cons.prems x \<open>0 \<le> a + n\<close> by (simp add: ints_def add.assoc)
qed

section \<open>Properties\<close>

text \<open>C39: zero is shown as trouble.  Whatever the Terraform page has loaded and shows, it alerts: of as many
  critical and high findings as there are, but of one critical finding when there is none and of two high ones when
  there is none, over the fixed rows when there are no findings, and over the same rows when any of its requests fails.
  For every count of healthy tools the CNCF page calls its tools healthy from eight on and for none; and for every count
  of critical findings the cloud page shows that count, but two for none.\<close>

theorem clean_shown_as_sample:
  assumes healthy: "js_prop (js_prop d ''tools_summary'') ''healthy'' = JNum (num n)"
    and critical: "js_prop (js_prop s ''security_findings'') ''critical'' = JNum (num k)"
    and shown: "tf_view p = Some v" "tf_findings p = JArr fs" "tf_violations p = JArr vs"
    and failed: "a = None \<or> b = None \<or> c = None"
  shows "tv_alert v =
      Some (if \<exists>f \<in> set fs. js_prop f ''severity'' = JStr ''CRITICAL''
              then count_if (\<lambda>f. js_prop f ''severity'' = JStr ''CRITICAL'') fs else 1,
            if \<exists>f \<in> set fs. js_prop f ''severity'' = JStr ''HIGH''
              then count_if (\<lambda>f. js_prop f ''severity'' = JStr ''HIGH'') fs else 2)
    \<and> tv_finding_rows v = (if fs = [] then TF_FINDINGS else fs)
    \<and> tv_violation_rows v = (if vs = [] then TF_VIOLATIONS else vs)
    \<and> (\<exists>w. tf_view (tf_settled a b c q) = Some w \<and> tv_alert w = Some (1, 2)
         \<and> tv_finding_rows w = TF_FINDINGS \<and> tv_violation_rows w = TF_VIOLATIONS)
    \<and> (getToolStatus fmt d tool = ''healthy'' \<longleftrightarrow> n = 0 \<or> 8 \<le> n)
    \<and> mc_cards s ! 3 = (if k = 0 then JStr ''2'' else JNum (num k))"
proof (intro conjI)
  have v: "drawn_rows [''severity'', ''provider''] (JArr fs) = Some fs" "drawn_rows [''severity'', ''framework''] (JArr vs) = Some vs"
    using shown by (auto simp: tf_view_def drawn_rows_def split: if_splits)
  have n: "nat_or (with_severity l fs) d =
      (if \<exists>f \<in> set fs. js_prop f ''severity'' = JStr l then count_if (\<lambda>f. js_prop f ''severity'' = JStr l) fs else d)" for l d
    by (auto simp: nat_or_def with_severity_def count_if_def filter_empty_conv)
  from shown(1) show "tv_alert v =
      Some (if \<exists>f \<in> set fs. js_prop f ''severity'' = JStr ''CRITICAL''
              then count_if (\<lambda>f. js_prop f ''severity'' = JStr ''CRITICAL'') fs else 1,
            if \<exists>f \<in> set fs. js_prop f ''severity'' = JStr ''HIGH''
              then count_if (\<lambda>f. js_prop f ''severity'' = JStr ''HIGH'') fs else 2)"
    by (auto simp: tf_view_def shown(2,3) v Let_def n [symmetric]) (auto simp: nat_or_def split: if_splits)
  from shown(1) show "tv_finding_rows v = (if fs = [] then TF_FINDINGS else fs)"
    "tv_violation_rows v = (if vs = [] then TF_VIOLATIONS else vs)"
    by (auto simp: tf_view_def shown(2,3) v Let_def)
  show "\<exists>w. tf_view (tf_settled a b c q) = Some w \<and> tv_alert w = Some (1, 2)
      \<and> tv_finding_rows w = TF_FINDINGS \<and> tv_violation_rows w = TF_VIOLATIONS"
    by (rule tf_view_failed [OF failed])
  show "getToolStatus fmt d tool = ''healthy'' \<longleftrightarrow> n = 0 \<or> 8 \<le> n"
    by (auto simp: getToolStatus_def healthy_tools_def healthy js_or_def truthy_num_def js_le_def)
  show "mc_cards s ! 3 = (if k = 0 then JStr ''2'' else JNum (num k))"
    by (simp add: mc_cards_def critical js_or_def truthy_num_def)
qed

theorem clean_shown_as_sample_witness:
  "\<exists>v. tf_view tf_init = Some v \<and> tv_alert v = Some (1, 2) \<and>
     mc_cards (JObj [(''security_findings'', JObj [(''critical'', JNum (num 0))])]) ! 3 = JStr ''2''"
proof -
  have h: "js_prop (js_prop (JObj [(''tools_summary'', JObj [(''healthy'', JNum (num 0))])]) ''tools_summary'') ''healthy'' = JNum (num 0)"
    "js_prop (js_prop (JObj [(''security_findings'', JObj [(''critical'', JNum (num 0))])]) ''security_findings'') ''critical'' = JNum (num 0)"
    by simp_all
  obtain v where v: "tf_view tf_init = Some v"
    by (simp add: tf_view_def tf_init_def drawn_rows_def Let_def)
  have f: "tf_findings tf_init = JArr []" "tf_violations tf_init = JArr []" by (simp_all add: tf_init_def)
  from clean_shown_as_sample [OF h v f disjI1 [OF refl]] v show ?thesis by simp
qed

text \<open>Whatever a user does, every migration that is asked for names no asset: the page only reads the readiness or asks to
  migrate the asset with the empty identifier.\<close>

theorem migrations_name_no_asset:
  "set (qp_sent (run qp_step qp_init es)) \<subseteq> set qp_requests \<union>
     {quantumService_migrateAlgorithm (texts [(''asset_id'', []), (''source_algorithm'', s), (''target_algorithm'', t)])
      | s t. s \<in> set SOURCE_CHOICES \<and> t \<in> set TARGET_CHOICES}"
  using quantum.run_inv [OF quantum_init_inv, of es] by (simp add: quantum_inv_def)

text \<open>The tabs and the category of the inventory filter nothing and load nothing.\<close>

theorem category_never_filters:
  assumes "list_all filter_control es"
  shows "inventory_rows (run inventory_step p es) = inventory_rows p \<and> iv_sent (run inventory_step p es) = iv_sent p"
  using inventory_controls.run_obs [OF assms, of p] by simp

theorem category_never_filters_witness:
  "iv_sent (run inventory_step inventory_init [IvTab 2, IvCategory ''ai'']) = iv_sent inventory_init"
  using category_never_filters [of "[IvTab 2, IvCategory ''ai'']" inventory_init] by (simp add: filter_control_def)

text \<open>When the backend counts the findings of every severity, the total of the posture page is their sum.\<close>

theorem posture_total:
  assumes "js_prop s ''security_findings'' = JObj (ints xs)" "list_all (\<lambda>(k, n). 0 \<le> n) xs" "sum_list (map snd xs) \<le> 2 ^ 53"
  shows "totalFindings fmt s = JNum (num (sum_list (map snd xs)))"
  using plus_ints [OF assms(2), of 0 fmt] assms by (simp add: totalFindings_def posture_findings_def not_null_def)

theorem posture_total_witness:
  "totalFindings (\<lambda>_. []) (JObj [(''security_findings'', JObj (ints [(''critical'', 2), (''low'', 3)]))]) = JNum (num 5)"
  using posture_total [of "JObj [(''security_findings'', JObj (ints [(''critical'', 2), (''low'', 3)]))]" "[(''critical'', 2), (''low'', 3)]"]
  by simp

end
