(* ===== verification/Analytics_Page.thy ===== *)
theory Analytics_Page
  imports Enterprise_Pages Findings_Page
begin

text \<open>
  web/src/pages/Analytics.tsx: trends, insights, reports and figures.  A query that fails answers null, so every
  answer here is a JSON value; a missing one is replaced by the demo rows of workspaceDemo.ts.  What is shown is
  \<open>None\<close> when drawing throws.
\<close>

section \<open>What is shown\<close>

text \<open>\<open>p.label ?? p.name\<close> and \<open>p.score ?? p.value ?? 0\<close>.\<close>

definition trend_of :: "jval \<Rightarrow> (jval \<times> jval) option" where
  "trend_of p =
     (if not_null p
      then Some (js_coalesce (js_prop p ''label'') (js_prop p ''name''),
                 js_coalesce (js_coalesce (js_prop p ''score'') (js_prop p ''value'')) (JNum (num 0)))
      else None)"

definition trendData :: "jval \<Rightarrow> (jval \<times> jval) list option" where
  "trendData insights =
     (let raw = js_coalesce (js_coalesce (js_prop insights ''posture_trend'') (js_prop insights ''trend'')) (JArr DEMO_POSTURE_TREND)
      in those (map trend_of (case raw of JArr ps \<Rightarrow> ps | _ \<Rightarrow> DEMO_POSTURE_TREND)))"

text \<open>An insight laid over a demo one, whose description stands in for a missing one; reading a null row throws.\<close>

definition insight_of :: "nat \<Rightarrow> jval \<Rightarrow> jval option" where
  "insight_of idx i =
     (let d = DEMO_ANALYTICS_INSIGHTS ! (idx mod length DEMO_ANALYTICS_INSIGHTS)
      in if not_null i
         then Some (spread (spread d (own_entries i))
                [(''description'', js_coalesce (js_prop i ''description'') (js_prop d ''description''))])
         else None)"

definition insights_of :: "jval \<Rightarrow> jval list option" where
  "insights_of data =
     (let v = js_prop data ''insights''
      in if js_truthy (js_length v)
         then Option.bind (array_items v) (\<lambda>is. those (map (\<lambda>(k, i). insight_of k i) (zip [0..<length is] is)))
         else Some DEMO_ANALYTICS_INSIGHTS)"

definition confidence :: "(rat \<Rightarrow> string) \<Rightarrow> jval \<Rightarrow> string" where
  "confidence fmt i =
     ''Confidence '' @ num_string fmt (js_round (js_mul (js_number fmt (js_coalesce (js_prop i ''confidence'') (JNum (lit (85 / 100))))) (num 100))) @ ''%''"

definition reports_of :: "int \<Rightarrow> jval \<Rightarrow> jval" where
  "reports_of clock data =
     (let v = js_prop data ''reports'' in if js_truthy (js_length v) then v else JArr (DEMO_REPORTS clock))"

definition pqcPct :: "(rat \<Rightarrow> string) \<Rightarrow> jval \<Rightarrow> jsnum" where
  "pqcPct fmt summary =
     (let total = js_prop summary ''total_assets''
      in if js_truthy total
         then js_round (js_mul (js_div (js_number fmt (js_prop summary ''quantum_safe_count'')) (js_number fmt total)) (num 100))
         else num 62)"

definition share_of_total :: "(rat \<Rightarrow> string) \<Rightarrow> jval \<Rightarrow> jval \<Rightarrow> jsnum" where
  "share_of_total fmt summary n =
     (let total = js_prop summary ''total_assets''
      in if js_truthy total then js_round (js_mul (js_div (js_number fmt n) (js_number fmt total)) (num 100)) else num 0)"

definition analytics_badge :: "bool \<Rightarrow> string" where
  "analytics_badge demo = (if demo then ''Demo data'' else ''Live'')"

text \<open>The provider as its row names it: \<open>replace\<close> with a string replaces the first occurrence.\<close>

fun first_underscore :: "string \<Rightarrow> string" where
  "first_underscore [] = []"
| "first_underscore (c # cs) = (if c = CHR ''_'' then CHR '' '' # cs else c # first_underscore cs)"

record analytics_view =
  av_badge :: string
  av_figures :: "string list"
  av_categories :: "(string \<times> jval) list"
  av_clouds :: "(string \<times> jval \<times> jsnum) list"
  av_trend :: "(jval \<times> jval) list"
  av_insights :: "jval list"
  av_reports :: jval

text \<open>The page of a session with its storage, the simulated inventory and the four answers.\<close>

definition analytics_view_of ::
  "(rat \<Rightarrow> string) \<Rightarrow> int \<Rightarrow> bool \<Rightarrow> storage \<Rightarrow> jval \<Rightarrow> jval \<Rightarrow> jval \<Rightarrow> jval \<Rightarrow> analytics_view option" where
  "analytics_view_of fmt clock demo ls demo_summary inventory insights reports =
     (let s = normalizeSummary fmt ls demo_summary inventory
      in case (trendData insights, insights_of insights) of
           (Some ts, Some is) \<Rightarrow>
             Some \<lparr>av_badge = analytics_badge demo,
                   av_figures = [js_string fmt (js_prop s ''total_assets''), num_string fmt (pqcPct fmt s) @ ''%'',
                     js_string fmt (js_prop s ''vulnerable_assets''), js_string fmt (js_prop s ''compliance_score'') @ ''%''],
                   av_categories = own_entries (js_prop s ''by_category''),
                   av_clouds = map (\<lambda>(k, n). (first_underscore k, n, share_of_total fmt s n)) (own_entries (js_prop s ''by_cloud_provider'')),
                   av_trend = ts, av_insights = is, av_reports = reports_of clock reports\<rparr>
         | _ \<Rightarrow> None)"

section \<open>A report downloaded and shared\<close>

definition report_row_texts :: "(rat \<Rightarrow> string) \<Rightarrow> jval \<Rightarrow> string list" where
  "report_row_texts fmt r =
     map (\<lambda>v. js_string fmt (js_coalesce v (JStr [])))
       [js_prop r ''name'', js_prop r ''type'', js_or (js_prop r ''format'') (JStr ''PDF''),
        js_coalesce (js_prop r ''pages'') (JStr []), js_prop r ''generated_at'']"

definition report_csv :: "(rat \<Rightarrow> string) \<Rightarrow> jval \<Rightarrow> string" where
  "report_csv fmt r =
     str_join '','' [''name'', ''type'', ''format'', ''pages'', ''generated_at''] @ [CHR 0x0A]
     @ str_join '','' (map json_quote (report_row_texts fmt r))"

definition report_file :: "nat \<Rightarrow> string" where
  "report_file index = ''rivicq-report-'' @ nat_str (index + 1) @ ''.csv''"

text \<open>The label of the button: the report last shared and the timers that will clear it.  \<open>sh_timer\<close> is the reference the
  page keeps, a timer that has fired stays in it.\<close>

record sharing =
  sh_copied :: jval
  sh_timer :: "nat option"
  sh_pending :: "nat list"
  sh_next :: nat

definition sharing_init :: sharing where
  "sharing_init = \<lparr>sh_copied = JNull, sh_timer = None, sh_pending = [], sh_next = 1\<rparr>"

text \<open>Sharing copies a link, sets the label whatever becomes of the copy, and restarts the timer.\<close>

definition shareReport :: "jval \<Rightarrow> sharing \<Rightarrow> sharing" where
  "shareReport ident s =
     \<lparr>sh_copied = ident, sh_timer = Some (sh_next s),
      sh_pending = (case sh_timer s of Some t \<Rightarrow> filter (\<lambda>u. u \<noteq> t) (sh_pending s) | None \<Rightarrow> sh_pending s) @ [sh_next s],
      sh_next = sh_next s + 1\<rparr>"

definition timer_fired :: "nat \<Rightarrow> sharing \<Rightarrow> sharing" where
  "timer_fired t s =
     (if t \<in> set (sh_pending s) then s\<lparr>sh_copied := JNull, sh_pending := filter (\<lambda>u. u \<noteq> t) (sh_pending s)\<rparr> else s)"

datatype share_event = Shared jval | Fired nat

definition share_step :: "sharing \<Rightarrow> share_event \<Rightarrow> sharing" where
  "share_step s e = (case e of Shared i \<Rightarrow> shareReport i s | Fired t \<Rightarrow> timer_fired t s)"

definition share_label :: "sharing \<Rightarrow> jval \<Rightarrow> string" where
  "share_label s r = (if sh_copied s = js_prop r ''id'' then ''Link copied'' else ''Share'')"

section \<open>Lemmas\<close>

definition sharing_inv :: "sharing \<Rightarrow> bool" where
  "sharing_inv s \<longleftrightarrow>
     (sh_pending s = [] \<and> sh_copied s = JNull \<or> (\<exists>t. sh_pending s = [t] \<and> sh_timer s = Some t)) \<and> 0 < sh_next s"

lemma sharing_step_inv: "sharing_inv s \<Longrightarrow> sharing_inv (share_step s e)"
  by (cases e) (auto simp: sharing_inv_def share_step_def shareReport_def timer_fired_def split: option.split)

interpretation sharing: invariant_machine share_step sharing_inv
  by unfold_locales (rule sharing_step_inv)

lemma demo_trend: "those (map trend_of DEMO_POSTURE_TREND) = Some (map (the \<circ> trend_of) DEMO_POSTURE_TREND)"
  by (rule those_map) (simp add: DEMO_POSTURE_TREND_def trend_of_def not_null_def)

section \<open>Properties\<close>

text \<open>Without an answer of any query a live session shows the demo trend, insights and reports and the fixed readiness of 62
  per cent, under the badge that says the page is live.\<close>

theorem outage_shown_live:
  assumes "\<not> isDemoSession ls"
  shows "\<exists>v. analytics_view_of fmt clock False ls (JObj demo) JNull JNull JNull = Some v
         \<and> av_badge v = ''Live'' \<and> av_figures v ! 1 = ''62%'' \<and> map Some (av_trend v) = map trend_of DEMO_POSTURE_TREND
         \<and> av_insights v = DEMO_ANALYTICS_INSIGHTS \<and> av_reports v = JArr (DEMO_REPORTS clock)"
proof -
  let ?s = "EMPTY_INVENTORY_SUMMARY (JObj demo)"
  have s: "normalizeSummary fmt ls (JObj demo) JNull = ?s"
    using assms by (simp add: normalizeSummary_def)
  have "js_prop ?s ''total_assets'' = JNum (num 0)"
    unfolding EMPTY_INVENTORY_SUMMARY_def zero_json_def by (simp add: is_obj_props del: spread.simps)
  then have "pqcPct fmt ?s = num 62" by (simp add: pqcPct_def truthy_num_def)
  moreover have "num_string fmt (num 62) = ''62''"
  proof -
    have "nat_str 62 = ''62''" by code_simp
    then show ?thesis by simp
  qed
  ultimately have p: "num_string fmt (pqcPct fmt ?s) @ ''%'' = ''62%''" by simp
  have t: "trendData JNull = Some (map (the \<circ> trend_of) DEMO_POSTURE_TREND)"
    by (simp add: trendData_def demo_trend not_null_def)
  have "map Some (map (the \<circ> trend_of) DEMO_POSTURE_TREND) = map trend_of DEMO_POSTURE_TREND"
    by (simp add: DEMO_POSTURE_TREND_def trend_of_def not_null_def)
  then show ?thesis
    by (simp add: analytics_view_of_def s t p insights_of_def reports_of_def analytics_badge_def Let_def o_def)
qed

theorem outage_shown_live_witness:
  "\<exists>v. analytics_view_of (\<lambda>_. []) 0 False (storage_of []) (JObj []) JNull JNull JNull = Some v \<and> av_badge v = ''Live''"
proof -
  have "\<not> isDemoSession (storage_of [])" by (simp add: isDemoSession_def read_item_def get_item_def)
  from outage_shown_live [OF this, of "\<lambda>_. []" 0 "[]"] show ?thesis by blast
qed

text \<open>At most one timer is waiting, it is the one the page would cancel, and while a label says that a link was copied such
  a timer is waiting: the label of the latest report shared is always taken back by its own timer.\<close>

theorem share_label_cleared:
  "let s = run share_step sharing_init es
   in (case sh_pending s of
         [] \<Rightarrow> sh_copied s = JNull
       | [t] \<Rightarrow> sh_timer s = Some t \<and> sh_copied (share_step s (Fired t)) = JNull
       | _ \<Rightarrow> False)"
proof -
  have "sharing_inv (run share_step sharing_init es)"
    by (rule sharing.run_inv) (simp add: sharing_inv_def sharing_init_def)
  then show ?thesis by (auto simp: sharing_inv_def share_step_def timer_fired_def Let_def)
qed

end
