(* ===== verification/Dashboard_Page.thy ===== *)
theory Dashboard_Page
  imports Dashboard_Adapter Editions Ops_Nav Data_Table
begin

text \<open>
  web/src/pages/Dashboard.tsx with the widgets of components/dashboard that compute: DashboardDrilldown.tsx,
  RiskHeatmap.tsx, PQCReadinessPanel.tsx, FindingsSeverityBar.tsx, CloudProviderBreakdown.tsx, PostureTrendChart.tsx,
  QuickActionsGrid.tsx and ThreatIntelStrip.tsx.  The page shows the view that \<open>Dashboard_Adapter\<close> builds.
\<close>

section \<open>Quick actions\<close>

record quick_action =
  qk_label :: string
  qk_description :: string
  qk_path :: string

definition quick :: "string \<Rightarrow> string \<Rightarrow> string \<Rightarrow> quick_action" where
  "quick l d p = \<lparr>qk_label = l, qk_description = d, qk_path = p\<rparr>"

definition DEFAULT_QUICK_ACTIONS :: "quick_action list" where
  "DEFAULT_QUICK_ACTIONS =
     [quick ''Critical findings'' ''Investigation queue'' ''/findings?severity=critical'',
      quick ''GitHub Scan'' ''Real repo analysis'' ''/scanner?tab=github'',
      quick ''Run Scan'' ''CBOM discovery'' ''/scanner'',
      quick ''CBOM'' ''Cryptographic Security Posture Management'' ''/bom'',
      quick ''Assets'' ''Crypto inventory'' ''/assets'',
      quick ''Analytics'' ''Trends & reports'' ''/analytics'',
      quick ''CSPM'' ''Crypto posture'' ''/enterprise/cspm'',
      quick ''Compliance'' ''Framework scores'' ''/enterprise/compliance'',
      quick ''Cloud'' ''Multi-cloud posture'' ''/enterprise/cloud-posture'']"

definition quickActions :: "edition \<Rightarrow> ops_persona \<Rightarrow> quick_action list" where
  "quickActions ed persona =
     (let xs = (if isPaidEdition ed then DEFAULT_QUICK_ACTIONS
                else filter (\<lambda>a. \<not> starts_with (qk_path a) ''/enterprise'') DEFAULT_QUICK_ACTIONS);
          ys = (if persona = Ciso then filter (\<lambda>a. qk_label a \<notin> {''GitHub Scan'', ''Run Scan''}) xs else xs)
      in if persona = Engineer
         then filter (\<lambda>a. qk_label a \<in> {''Run Scan'', ''GitHub Scan'', ''Critical findings'', ''CBOM''}
                \<or> starts_with (qk_path a) ''/scanner'' \<or> qk_path a = ''/tools'') ys
         else ys)"

section \<open>The page and its drawer\<close>

datatype drilldown_kind =
  DPosture | DResources | DFindings | DExposed | DProvider | DSeverity | DCompliance | DCve | DFeed | DScans | DRisk

record drilldown =
  dd_kind :: drilldown_kind
  dd_title :: string
  dd_subtitle :: "string option"
  dd_severity :: "string option"
  dd_provider :: "string option"
  dd_frameworkId :: "string option"
  dd_cveId :: "string option"

definition openDrill :: "drilldown_kind \<Rightarrow> string \<Rightarrow> drilldown" where
  "openDrill k t =
     \<lparr>dd_kind = k, dd_title = t, dd_subtitle = None, dd_severity = None, dd_provider = None, dd_frameworkId = None,
      dd_cveId = None\<rparr>"

record dashboard_page =
  db_timeRange :: string
  db_trendActive :: "nat option"
  db_provider :: "string option"
  db_algorithm :: "string option"
  db_heatCell :: "string option"
  db_drilldown :: "drilldown option"
  db_persona :: ops_persona

definition dashboard_init :: "storage \<Rightarrow> dashboard_page" where
  "dashboard_init ls =
     \<lparr>db_timeRange = ''7d'', db_trendActive = None, db_provider = None, db_algorithm = None, db_heatCell = None,
      db_drilldown = None, db_persona = loadPersona ls\<rparr>"

definition asked_range :: "dashboard_page \<Rightarrow> time_range" where
  "asked_range p = (if db_timeRange p = ''30d'' then Days30 else Days7)"

text \<open>\<open>String(message).match(/CVE-\d{4}-\d+/)?.[0]\<close>.\<close>

definition cve_at :: "string \<Rightarrow> string option" where
  "cve_at s =
     (let year = take 4 (drop 4 s); serial = takeWhile is_digit (drop 9 s)
      in if take 4 s = ''CVE-'' \<and> length year = 4 \<and> list_all is_digit year \<and> take 1 (drop 8 s) = ''-'' \<and> serial \<noteq> []
         then Some (take 9 s @ serial) else None)"

fun find_cve :: "string \<Rightarrow> string option" where
  "find_cve [] = None"
| "find_cve (c # cs) = (case cve_at (c # cs) of Some m \<Rightarrow> Some m | None \<Rightarrow> find_cve cs)"

definition feed_drill :: "string \<Rightarrow> drilldown" where
  "feed_drill message =
     (case find_cve message of
        Some c \<Rightarrow> (openDrill DCve c)\<lparr>dd_cveId := Some c, dd_subtitle := Some message\<rparr>
      | None \<Rightarrow> (openDrill DFeed ''Finding'')\<lparr>dd_subtitle := Some message\<rparr>)"

text \<open>A finding of the drawer, and one of the priority list; an empty CVE is no CVE.\<close>

definition finding_drill :: "sim_finding \<Rightarrow> drilldown" where
  "finding_drill f =
     (let cve = (if truthy_opt (sf_cveId f) then sf_cveId f else None)
      in (openDrill (if cve \<noteq> None then DCve else DFindings) (or_opt cve (sf_title f)))
           \<lparr>dd_subtitle := Some (sf_message f), dd_cveId := sf_cveId f\<rparr>)"

definition priority_drill :: "dashboard \<Rightarrow> string \<Rightarrow> drilldown" where
  "priority_drill model ident =
     (case find (\<lambda>f. sf_id f = ident) (dv_openFindings model) of
        Some f \<Rightarrow> (finding_drill f)\<lparr>dd_title := or_str (or_opt (sf_cveId f) []) (or_str (sf_title f) ''Finding'')\<rparr>
      | None \<Rightarrow> openDrill DFindings ''Finding'')"

definition framework_drill :: "dashboard \<Rightarrow> string \<Rightarrow> drilldown" where
  "framework_drill model ident =
     (case find (\<lambda>f. fr_id (fv_result f) = ident) (dv_frameworks model) of
        Some f \<Rightarrow>
          (let r = fv_result f
           in (openDrill DCompliance (or_str (fr_name r) ident))
                \<lparr>dd_frameworkId := Some ident,
                 dd_subtitle := Some (''Assessed '' @ nat_str (fr_assessed r) @ '' '' @ mid_dot @ '' passed '' @ nat_str (fr_passed r)
                   @ '' '' @ mid_dot @ '' failed '' @ nat_str (fr_failed r) @ '' '' @ mid_dot @ '' partial '' @ nat_str (fr_partial r))\<rparr>)
      | None \<Rightarrow> (openDrill DCompliance ident)\<lparr>dd_frameworkId := Some ident\<rparr>)"

datatype dashboard_event =
  DbPersona string
| DbRange "string option"
| DbHeatRange "string option"
| DbTrend "nat option"
| DbPosture
| DbResources
| DbExposed
| DbProviderBar string
| DbHeatCell heat_cell
| DbAlgorithmBar string
| DbRiskSlice string
| DbFeed string
| DbFramework string
| DbPriority string
| DbScans
| DbSeverity string
| DbThreat string
| DbDrawerFinding sim_finding
| DbClose

text \<open>A bar, a slice or a cell selected twice is no longer selected.\<close>

definition toggled :: "string option \<Rightarrow> string \<Rightarrow> string option" where
  "toggled sel name = (if sel = Some name then None else Some name)"

definition dashboard_step :: "dashboard \<Rightarrow> dashboard_page \<Rightarrow> dashboard_event \<Rightarrow> dashboard_page" where
  "dashboard_step model p e =
     (case e of
        DbPersona d \<Rightarrow>
          if d = ''ciso'' then p\<lparr>db_persona := Ciso\<rparr> else if d = ''analyst'' then p\<lparr>db_persona := Analyst\<rparr>
          else if d = ''engineer'' then p\<lparr>db_persona := Engineer\<rparr> else p
      | DbRange v \<Rightarrow> (case v of Some r \<Rightarrow> p\<lparr>db_timeRange := r\<rparr> | None \<Rightarrow> p)
      | DbHeatRange v \<Rightarrow> (case v of Some r \<Rightarrow> p\<lparr>db_timeRange := r, db_heatCell := None\<rparr> | None \<Rightarrow> p)
      | DbTrend i \<Rightarrow> p\<lparr>db_trendActive := i\<rparr>
      | DbPosture \<Rightarrow> p\<lparr>db_drilldown := Some ((openDrill DPosture ''Posture score'')\<lparr>dd_subtitle := Some (sb_method (dv_posture model))\<rparr>)\<rparr>
      | DbResources \<Rightarrow> p\<lparr>db_drilldown := Some ((openDrill DResources ''Cloud accounts'')\<lparr>dd_subtitle := Some (dv_environmentLabel model)\<rparr>)\<rparr>
      | DbExposed \<Rightarrow>
          p\<lparr>db_drilldown := Some ((openDrill DExposed ''Internet-exposed assets'')
              \<lparr>dd_subtitle := Some (''Simulated public reachability '' @ em_dash @ '' not claimed as RivicQ-observed internet scan data'')\<rparr>)\<rparr>
      | DbProviderBar n \<Rightarrow>
          (let q = p\<lparr>db_provider := toggled (db_provider p) n\<rparr>
           in if truthy_opt (db_provider q)
              then q\<lparr>db_drilldown := Some ((openDrill DProvider (n @ '' posture''))
                      \<lparr>dd_provider := Some n, dd_subtitle := Some ''Findings on simulated assets in this provider''\<rparr>)\<rparr>
              else q)
      | DbHeatCell c \<Rightarrow>
          (let q = p\<lparr>db_heatCell := toggled (db_heatCell p) (hc_id c)\<rparr>
           in if db_heatCell q \<noteq> None \<and> 0 < hc_count c
              then q\<lparr>db_drilldown := Some ((openDrill DFindings (hc_label c))
                      \<lparr>dd_subtitle := Some ''Finding density for the selected period (simulated timestamps)''\<rparr>)\<rparr>
              else q)
      | DbAlgorithmBar n \<Rightarrow> p\<lparr>db_algorithm := toggled (db_algorithm p) n\<rparr>
      | DbRiskSlice n \<Rightarrow>
          p\<lparr>db_drilldown := Some ((openDrill DRisk (or_str n ''Risk'' @ '' assets''))
              \<lparr>dd_subtitle := Some ''Asset risk scores are calculated from CVE, exposure, IAM, misconfig, and KEV flags.''\<rparr>)\<rparr>
      | DbFeed m \<Rightarrow> p\<lparr>db_drilldown := Some (feed_drill m)\<rparr>
      | DbFramework i \<Rightarrow> p\<lparr>db_drilldown := Some (framework_drill model i)\<rparr>
      | DbPriority i \<Rightarrow> p\<lparr>db_drilldown := Some (priority_drill model i)\<rparr>
      | DbScans \<Rightarrow> p\<lparr>db_drilldown := Some (openDrill DScans ''Recent scans'')\<rparr>
      | DbSeverity s \<Rightarrow>
          p\<lparr>db_drilldown := Some ((openDrill DSeverity (s @ '' findings''))
              \<lparr>dd_severity := Some s, dd_subtitle := Some ''Open findings in this severity band''\<rparr>)\<rparr>
      | DbThreat l \<Rightarrow>
          p\<lparr>db_drilldown := Some (openDrill (if str_includes (str_lower l) ''exposed'' then DExposed else DFindings) l)\<rparr>
      | DbDrawerFinding f \<Rightarrow> p\<lparr>db_drilldown := Some (finding_drill f)\<rparr>
      | DbClose \<Rightarrow> p\<lparr>db_drilldown := None\<rparr>)"

text \<open>The findings the drawer works on, and the lists it shows.\<close>

definition provider_matches :: "string \<Rightarrow> sim_finding \<Rightarrow> bool" where
  "provider_matches prov f \<longleftrightarrow>
     (let p = str_lower prov; q = provider_str (sf_provider f) in q = p \<or> p = ''k8s'' \<and> q = ''kubernetes'')"

definition is_exposed :: "dashboard \<Rightarrow> sim_finding \<Rightarrow> bool" where
  "is_exposed model f \<longleftrightarrow>
     sf_category f = CatExposure
     \<or> (case find (\<lambda>a. as_id a = sf_assetId f) (dv_assets model) of Some a \<Rightarrow> as_internetExposed a | None \<Rightarrow> False)"

definition drill_findings :: "dashboard \<Rightarrow> drilldown \<Rightarrow> sim_finding list" where
  "drill_findings model d =
     (let fs = dv_openFindings model;
          fs = (if truthy_opt (dd_severity d) then filter (\<lambda>f. Some (severity_str (sf_severity f)) = dd_severity d) fs else fs);
          fs = (if truthy_opt (dd_provider d) then filter (provider_matches (the (dd_provider d))) fs else fs);
          fs = (if truthy_opt (dd_cveId d) then filter (\<lambda>f. sf_cveId f = dd_cveId d) (dv_findings model) else fs)
      in if dd_kind d = DExposed then filter (is_exposed model) fs else fs)"

definition shows_findings :: "drilldown_kind \<Rightarrow> bool" where
  "shows_findings k \<longleftrightarrow> k \<in> {DFindings, DSeverity, DExposed, DProvider, DCve, DFeed}"

definition drawer_findings :: "dashboard \<Rightarrow> drilldown \<Rightarrow> sim_finding list" where
  "drawer_findings model d = (if shows_findings (dd_kind d) then take 40 (drill_findings model d) else [])"

definition drawer_caption :: "dashboard \<Rightarrow> drilldown \<Rightarrow> string" where
  "drawer_caption model d =
     ''Showing '' @ nat_str (length (drill_findings model d)) @ '' representative records from the ''
     @ (if dv_dataMode model = Demo then ''simulated'' else ''live'') @ '' estate.''"

text \<open>The assets of a slice of the risk distribution: the riskiest of all.\<close>

definition drawer_assets :: "dashboard \<Rightarrow> sim_asset list" where
  "drawer_assets model = take 24 (sort_by (\<lambda>a b. as_riskScore b \<le> as_riskScore a) (dv_assets model))"

definition drawer_cve :: "drilldown \<Rightarrow> cve_record option" where
  "drawer_cve d = (if truthy_opt (dd_cveId d) then CVE_BY_ID (the (dd_cveId d)) else None)"

section \<open>What the page shows\<close>

text \<open>Loading, the inbox of a community workspace without scans, or the dashboard.\<close>

datatype dashboard_screen = DashLoading | DashOnboarding | DashShown dashboard

definition dashboard_screen_of :: "bool \<Rightarrow> edition \<Rightarrow> bool \<Rightarrow> dashboard \<Rightarrow> dashboard_screen" where
  "dashboard_screen_of loading ed demo model =
     (if loading then DashLoading
      else if \<not> isPaidEdition ed \<and> \<not> demo \<and> dv_dataMode model = Demo then DashOnboarding
      else DashShown model)"

definition right_quote :: string where "right_quote = map char_of [0xE2 :: nat, 0x80, 0x99]"

record inbox_hero =
  ih_title :: string
  ih_openCount :: jsnum
  ih_criticalCount :: jsnum
  ih_posture :: jsnum
  ih_items :: "sim_finding list"

definition topFindings :: "dashboard \<Rightarrow> sim_finding list" where
  "topFindings model = take 6 (dv_openFindings model)"

definition inbox_of :: "dashboard_screen \<Rightarrow> inbox_hero option" where
  "inbox_of s =
     (case s of
        DashLoading \<Rightarrow> None
      | DashOnboarding \<Rightarrow>
          Some \<lparr>ih_title = ''Your workspace inbox'', ih_openCount = num 0, ih_criticalCount = num 0, ih_posture = num 0, ih_items = []\<rparr>
      | DashShown m \<Rightarrow>
          Some \<lparr>ih_title = ''Inbox '' @ mid_dot @ '' today'' @ right_quote @ ''s work'', ih_openCount = to_findingsOpen (dv_totals m),
                ih_criticalCount = sn_critical (to_open (dv_totals m)), ih_posture = sb_score (dv_posture m),
                ih_items = take 4 (topFindings m)\<rparr>)"

definition dashboard_chip :: "dashboard \<Rightarrow> string" where
  "dashboard_chip model = (if dv_dataMode model = Demo then ''DEMO ENVIRONMENT'' else ''LIVE'')"

definition dash_pqcPct :: "dashboard \<Rightarrow> jsnum" where
  "dash_pqcPct model =
     (let p = to_pqc (dv_totals model); n = js_add (pq_quantumSafe p) (pq_vulnerable p)
      in if truthy_num n then js_round (js_mul (js_div (pq_quantumSafe p) n) (num 100)) else num 0)"

section \<open>The widgets\<close>

text \<open>RiskHeatmap: the palette has a colour for each of the four severities, the lowest first, and the legend shows them in that
  order; a cell is coloured by its risk as an index, the theme's divider when there is none.\<close>

definition LEGEND :: "string list" where "LEGEND = [''Low'', ''Medium'', ''High'', ''Critical'']"

datatype cell_colour = CellEmpty | CellSeverity nat | CellDivider

definition cell_colour_of :: "heat_cell \<Rightarrow> cell_colour" where
  "cell_colour_of c =
     (if hc_risk c = 0 then CellEmpty
      else if hc_risk c < length LEGEND then CellSeverity (hc_risk c) else CellDivider)"

definition RISK_LABELS :: "string list" where
  "RISK_LABELS = [''None'', ''Low'', ''Medium'', ''High'', ''Critical'']"

definition risk_label :: "heat_cell \<Rightarrow> string" where
  "risk_label c = (if hc_risk c < length RISK_LABELS then RISK_LABELS ! hc_risk c else ''None'')"

text \<open>The name the legend gives to the colour of a cell.\<close>

definition legend_label :: "heat_cell \<Rightarrow> string option" where
  "legend_label c = (case cell_colour_of c of CellSeverity k \<Rightarrow> Some (LEGEND ! k) | _ \<Rightarrow> None)"

record heat_totals =
  ht_events :: nat
  ht_high :: nat
  ht_critical :: nat

definition heat_totals_of :: "heat_cell list \<Rightarrow> heat_totals" where
  "heat_totals_of cs =
     foldl (\<lambda>a c. \<lparr>ht_events = ht_events a + (if 0 < hc_risk c then hc_count c else 0),
                   ht_high = ht_high a + (if 3 \<le> hc_risk c then hc_count c else 0),
                   ht_critical = ht_critical a + (if 3 \<le> hc_risk c then hc_count c else 0)\<rparr>)
       \<lparr>ht_events = 0, ht_high = 0, ht_critical = 0\<rparr> cs"

definition heat_rows :: "nat \<Rightarrow> heat_cell list \<Rightarrow> heat_cell list list" where
  "heat_rows columns cs =
     map (\<lambda>r. take columns (drop (r * columns) cs)) [0..<(length cs + columns - 1) div columns]"

definition day_headers :: "nat \<Rightarrow> string list" where
  "day_headers columns = take (min columns 7) [''Mon'', ''Tue'', ''Wed'', ''Thu'', ''Fri'', ''Sat'', ''Sun'']"

text \<open>PQCReadinessPanel: the shares of the safe, the migrating and the vulnerable; the last is what the others leave.\<close>

definition pqc_shares :: "jsnum \<Rightarrow> jsnum \<Rightarrow> jsnum \<Rightarrow> jsnum \<times> jsnum \<times> jsnum" where
  "pqc_shares qs vulnerable migrating =
     (let s = js_add (js_add qs vulnerable) migrating; n = (if truthy_num s then s else num 1);
          a = js_round (js_mul (js_div qs n) (num 100)); m = js_round (js_mul (js_div migrating n) (num 100))
      in (a, m, js_sub (js_sub (num 100) a) m))"

text \<open>FindingsSeverityBar: the segments drawn, with their share of the bar.\<close>

definition severity_segments :: "severity_nums \<Rightarrow> (string \<times> jsnum) list" where
  "severity_segments s =
     (let t = js_add (js_add (js_add (sn_critical s) (sn_high s)) (sn_medium s)) (sn_low s);
          n = (if truthy_num t then t else num 1)
      in map (\<lambda>(k, v). (k, js_mul (js_div v n) (num 100)))
           (filter (\<lambda>(k, v). js_lt (num 0) v)
             [(''critical'', sn_critical s), (''high'', sn_high s), (''medium'', sn_medium s), (''low'', sn_low s)]))"

text \<open>CloudProviderBreakdown: the bars, largest first.\<close>

definition provider_bars :: "(string \<times> jsnum) list \<Rightarrow> (string \<times> jsnum) list" where
  "provider_bars ps = sort_by (\<lambda>a b. \<not> js_lt (snd a) (snd b)) ps"

definition provider_share :: "jsnum \<Rightarrow> jsnum \<Rightarrow> jsnum" where
  "provider_share tot v = (if truthy_num tot then js_round (js_mul (js_div v tot) (num 100)) else num 0)"

text \<open>PostureTrendChart: the point under the pointer, which a shorter range may lack, or the last.\<close>

definition active_point :: "nat option \<Rightarrow> 'a list \<Rightarrow> 'a option" where
  "active_point act ps =
     (case act of
        Some i \<Rightarrow> if i < length ps then Some (ps ! i) else None
      | None \<Rightarrow> if ps = [] then None else Some (last ps))"

section \<open>Lemmas\<close>

text \<open>What of a drawer decides its findings.\<close>

lemma drill_plain:
  assumes "dd_severity d = None" "dd_provider d = None" "dd_cveId d = None" "dd_kind d \<noteq> DExposed"
  shows "drill_findings model d = dv_openFindings model"
  using assms by (simp add: drill_findings_def)

lemma openDrill_sel [simp]:
  "dd_kind (openDrill k t) = k" "dd_title (openDrill k t) = t" "dd_severity (openDrill k t) = None"
  "dd_provider (openDrill k t) = None" "dd_cveId (openDrill k t) = None" "dd_frameworkId (openDrill k t) = None"
  "dd_subtitle (openDrill k t) = None"
  by (simp_all add: openDrill_def)

lemma heat_totals_acc:
  "foldl (\<lambda>a c. \<lparr>ht_events = ht_events a + (if 0 < hc_risk c then hc_count c else 0),
                 ht_high = ht_high a + (if 3 \<le> hc_risk c then hc_count c else 0),
                 ht_critical = ht_critical a + (if 3 \<le> hc_risk c then hc_count c else 0)\<rparr>) a cs
   = \<lparr>ht_events = ht_events a + sum_list (map hc_count (filter (\<lambda>c. 0 < hc_risk c) cs)),
      ht_high = ht_high a + sum_list (map hc_count (filter (\<lambda>c. 3 \<le> hc_risk c) cs)),
      ht_critical = ht_critical a + sum_list (map hc_count (filter (\<lambda>c. 3 \<le> hc_risk c) cs))\<rparr>"
  by (induction cs arbitrary: a) simp_all

lemma heat_totals_eq:
  "heat_totals_of cs =
     \<lparr>ht_events = sum_list (map hc_count (filter (\<lambda>c. 0 < hc_risk c) cs)),
      ht_high = sum_list (map hc_count (filter (\<lambda>c. 3 \<le> hc_risk c) cs)),
      ht_critical = sum_list (map hc_count (filter (\<lambda>c. 3 \<le> hc_risk c) cs))\<rparr>"
  by (simp add: heat_totals_of_def heat_totals_acc)

lemma severity_str_inj: "severity_str a = severity_str b \<longleftrightarrow> a = b"
  by (cases a; cases b) simp_all

lemma severity_str_not_Nil: "severity_str a \<noteq> []"
  by (cases a) simp_all

lemma four_risks: "0 < r \<Longrightarrow> r \<le> 4 \<Longrightarrow> r = 1 \<or> r = 2 \<or> r = 3 \<or> r = (4 :: nat)"
  by linarith

section \<open>Properties\<close>

text \<open>C30: Whatever was asked before, a community workspace outside a demo that has no telemetry is shown its empty inbox and
  no figure of the simulation, although the view behind the page is the simulation.\<close>

theorem community_sees_no_simulation:
  assumes "list_all (\<lambda>e. clock_ok (snd e)) earlier" "clock_ok now" "\<not> hasLiveTelemetry fmt api"
  shows "\<exists>m. fst (buildDashboardViewModel fmt loc api now (adapter_after fmt loc earlier)) = Inr m
         \<and> dv_dataMode m = Demo
         \<and> dashboard_screen_of False community False m = DashOnboarding
         \<and> inbox_of DashOnboarding = Some \<lparr>ih_title = ''Your workspace inbox'', ih_openCount = num 0,
              ih_criticalCount = num 0, ih_posture = num 0, ih_items = []\<rparr>"
proof -
  obtain now' vm0 vm where f: "clock_ok now'" "simulate fmt loc (nullish (ab_timeRange api) Days7) now' = Inr vm0"
    "vm = vm0 \<or> vm = attachScanAccents fmt vm0"
    "getEnterpriseSimulation fmt loc (Some (nullish (ab_timeRange api) Days7)) now (adapter_after fmt loc earlier)
      = (Inr vm, Some (cache_key fmt (nullish (ab_timeRange api) Days7) now', vm))"
    unfolding adapter_after_def by (rule simulation_found [OF reachable_cache [OF assms(1)] assms(2)])
  have "dv_dataMode (attachScanAccents fmt vm) = Demo"
    using simulated_mode(1) [OF f(2,1)] f(3) by (auto simp: attachScanAccents_def)
  with f(4) assms(3) show ?thesis
    by (simp add: buildDashboardViewModel_def Let_def dashboard_screen_of_def isPaidEdition_def inbox_of_def)
qed

theorem community_sees_no_simulation_witness:
  "\<exists>m. fst (buildDashboardViewModel (\<lambda>_. []) (\<lambda>_. []) empty_bundle 1700000000000 (adapter_after (\<lambda>_. []) (\<lambda>_. []) [])) = Inr m
       \<and> dashboard_screen_of False community False m = DashOnboarding"
proof -
  have "\<not> hasLiveTelemetry (\<lambda>_. []) empty_bundle" by code_simp
  moreover have "clock_ok 1700000000000" by (simp add: clock_ok_def date_max_def)
  ultimately show ?thesis
    using community_sees_no_simulation [of "[]" 1700000000000 "\<lambda>_. []" empty_bundle "\<lambda>_. []"] by auto
qed

text \<open>C40: The heat map misleads in three ways: the legend names the colour of a cell one severity above the finding, and the
  colour of a critical one not at all; the number it calls critical counts the high ones too; and the cells of any two
  days open the same list, all open findings.\<close>

theorem heat_map_misleads:
  assumes "0 < hc_risk c" "hc_risk c \<le> 4"
  shows "risk_label c = LEGEND ! (hc_risk c - 1)
         \<and> legend_label c = (if hc_risk c = 4 then None else Some (LEGEND ! hc_risk c))
         \<and> ht_critical (heat_totals_of cs) = sum_list (map hc_count (filter (\<lambda>c. 3 \<le> hc_risk c) cs))
         \<and> (0 < hc_count c \<and> db_heatCell p \<noteq> Some (hc_id c) \<longrightarrow>
             (\<exists>d. db_drilldown (dashboard_step model p (DbHeatCell c)) = Some d \<and> drill_findings model d = dv_openFindings model))"
proof -
  have l: "risk_label c = LEGEND ! (hc_risk c - 1)"
    "legend_label c = (if hc_risk c = 4 then None else Some (LEGEND ! hc_risk c))"
    using four_risks [OF assms] by (auto simp: risk_label_def RISK_LABELS_def LEGEND_def legend_label_def cell_colour_of_def)
  then show ?thesis by (auto simp: heat_totals_eq dashboard_step_def toggled_def drill_plain Let_def)
qed

theorem heat_map_misleads_witness:
  "legend_label \<lparr>hc_id = ''hm-7d-0'', hc_risk = 4, hc_count = 2, hc_day = ''Mon'', hc_label = ''Mon''\<rparr> = None
   \<and> legend_label \<lparr>hc_id = ''hm-7d-1'', hc_risk = 3, hc_count = 1, hc_day = ''Tue'', hc_label = ''Tue''\<rparr> = Some ''Critical''"
  using heat_map_misleads [of "\<lparr>hc_id = ''hm-7d-0'', hc_risk = 4, hc_count = 2, hc_day = ''Mon'', hc_label = ''Mon''\<rparr>"]
    heat_map_misleads [of "\<lparr>hc_id = ''hm-7d-1'', hc_risk = 3, hc_count = 1, hc_day = ''Tue'', hc_label = ''Tue''\<rparr>"]
  by (simp add: LEGEND_def)

text \<open>The drawer of a severity lists exactly the open findings of that severity, the one of a provider those of the provider,
  the one of the exposed assets the open findings on exposed assets or about exposure; a finding with a CVE leads to all
  findings with that CVE, the resolved ones included.\<close>

theorem drawer_lists:
  "drill_findings model (the (db_drilldown (dashboard_step model p (DbSeverity (severity_str sev)))))
     = filter (\<lambda>f. sf_severity f = sev) (dv_openFindings model)
   \<and> drill_findings model (the (db_drilldown (dashboard_step model (p\<lparr>db_provider := None\<rparr>) (DbProviderBar (x # xs)))))
     = filter (provider_matches (x # xs)) (dv_openFindings model)
   \<and> drill_findings model (the (db_drilldown (dashboard_step model p DbExposed)))
     = filter (is_exposed model) (dv_openFindings model)
   \<and> drill_findings model (the (db_drilldown (dashboard_step model p (DbDrawerFinding (f\<lparr>sf_cveId := Some (x # xs)\<rparr>)))))
     = filter (\<lambda>g. sf_cveId g = Some (x # xs)) (dv_findings model)"
  by (simp add: dashboard_step_def drill_findings_def finding_drill_def toggled_def severity_str_inj severity_str_not_Nil Let_def)

text \<open>A community workspace is offered no page of the enterprise, an executive no scan, and an engineer these four.\<close>

theorem quick_actions_offered:
  "list_all (\<lambda>a. \<not> starts_with (qk_path a) ''/enterprise'') (quickActions community persona)
   \<and> list_all (\<lambda>a. qk_label a \<notin> {''Run Scan'', ''GitHub Scan''}) (quickActions ed Ciso)
   \<and> map qk_label (quickActions ed Engineer) = [''Critical findings'', ''GitHub Scan'', ''Run Scan'', ''CBOM'']"
proof (intro conjI)
  show "list_all (\<lambda>a. \<not> starts_with (qk_path a) ''/enterprise'') (quickActions community persona)"
    by (simp add: quickActions_def isPaidEdition_def list_all_iff Let_def)
  show "list_all (\<lambda>a. qk_label a \<notin> {''Run Scan'', ''GitHub Scan''}) (quickActions ed Ciso)"
    by (simp add: quickActions_def list_all_iff Let_def)
  show "map qk_label (quickActions ed Engineer) = [''Critical findings'', ''GitHub Scan'', ''Run Scan'', ''CBOM'']"
    by (cases ed; hypsubst; code_simp)
qed

text \<open>The shares of the readiness panel add up to 100 by construction, so the vulnerable share can be negative, and it is 100
  when there is no asset at all.\<close>

theorem readiness_shares_off:
  "pqc_shares (num 1) (num 0) (num 7) = (num 13, num 88, num (- 1)) \<and> pqc_shares (num 0) (num 0) (num 0) = (num 0, num 0, num 100)"
proof -
  have d: "to_num (1 / 8) = Fin (1 / 8)" "to_num (7 / 8) = Fin (7 / 8)" "to_num (25 / 2) = Fin (25 / 2)"
    "to_num (175 / 2) = Fin (175 / 2)"
    using to_num_dyadic [of 1 3] to_num_dyadic [of 7 3] to_num_dyadic [of 25 1] to_num_dyadic [of 175 1] by simp_all
  have n: "to_num 8 = num 8" "to_num 1 = num 1" "to_num 0 = num 0" "to_num 100 = num 100" "to_num 87 = num 87"
    "to_num (- 1) = num (- 1)" "to_num 12 = num 12"
    using to_num_of_int [of 8] to_num_of_int [of 1] to_num_of_int [of 0] to_num_of_int [of 100] to_num_of_int [of 87]
      to_num_of_int [of "- 1"] to_num_of_int [of 12] by simp_all
  have "\<lfloor>1 / 2 :: rat\<rfloor> = 0" by (simp add: floor_eq_iff)
  then show ?thesis by (simp add: pqc_shares_def js_sub_def truthy_num_def Let_def d n)
qed

end
