(* ===== verification/Layout_Shell.thy ===== *)
theory Layout_Shell
  imports Console_Shell Findings_Page Dashboard_Page
begin

text \<open>
  The frame around every page of the console, layouts/Layout.tsx, as a machine over the session: what it keeps in
  the browser storage, its keys, menus and drawers, the notifications, the tabs of a phone, and the banner of
  components/demo/DemoEnvironmentBanner.tsx.  The lists of the side bar are those of \<open>Console_Shell\<close>.
\<close>

section \<open>State\<close>

record frame = auth +
  ly_drawer :: bool
  ly_collapsed :: bool
  ly_notices :: bool
  ly_palette :: bool
  ly_help :: bool
  ly_persona :: ops_persona
  ly_menu :: bool
  ly_modules :: bool
  ly_query :: string
  ly_time :: string
  ly_went :: "string list"

text \<open>\<open>ly_went\<close> lists the addresses navigated to.  What an earlier visit left is read when the frame is mounted.\<close>

definition COLLAPSED_KEY :: string where "COLLAPSED_KEY = ''rivicq.sidebar.collapsed''"
definition TIME_KEY :: string where "TIME_KEY = ''rivicq.timeRange''"

definition stored_collapsed :: "storage \<Rightarrow> bool" where
  "stored_collapsed s = (read_item s COLLAPSED_KEY = Some ''1'')"

definition stored_time :: "storage \<Rightarrow> string" where
  "stored_time s = or_str (or_opt (read_item s TIME_KEY) []) ''24h''"

definition save_collapsed :: "frame \<Rightarrow> frame" where
  "save_collapsed w =
     w\<lparr>local_storage := attempt [set_item COLLAPSED_KEY (if ly_collapsed w then ''1'' else ''0'')] (local_storage w)\<rparr>"

definition save_time :: "frame \<Rightarrow> frame" where
  "save_time w = w\<lparr>session_storage := attempt [set_item TIME_KEY (ly_time w)] (session_storage w)\<rparr>"

definition save_persona :: "frame \<Rightarrow> frame" where
  "save_persona w = w\<lparr>local_storage := persistPersona (ly_persona w) (local_storage w)\<rparr>"

definition mount_frame :: "frame \<Rightarrow> frame" where
  "mount_frame w =
     save_persona (save_time (save_collapsed
       (w\<lparr>ly_drawer := False, ly_collapsed := stored_collapsed (local_storage w), ly_notices := False, ly_palette := False,
          ly_help := False, ly_persona := loadPersona (local_storage w), ly_menu := False, ly_modules := False, ly_query := [],
          ly_time := stored_time (session_storage w)\<rparr>)))"

text \<open>The effects run after a render in which the value they name changed.\<close>

definition saved_changes :: "frame \<Rightarrow> frame \<Rightarrow> frame" where
  "saved_changes was w =
     (let w = (if ly_collapsed w = ly_collapsed was then w else save_collapsed w);
          w = (if ly_time w = ly_time was then w else save_time w)
      in if ly_persona w = ly_persona was then w else save_persona w)"

section \<open>What the workspace reports\<close>

text \<open>\<open>list.map(...)\<close> over the rows of an answer; a row without a property to read, null or undefined, throws (\<open>None\<close>).\<close>

definition scan_row :: "(rat \<Rightarrow> string) \<Rightarrow> jval \<Rightarrow> (palette_scan \<times> string) option" where
  "scan_row fmt s =
     (if not_null s
      then Some (\<lparr>ps_id = js_string fmt (js_coalesce (js_coalesce (js_prop s ''id'') (js_prop s ''scan_id'')) (JStr [])),
                  ps_target = js_string fmt (js_coalesce (js_prop s ''target'') (JStr [])),
                  ps_status = js_string fmt (js_coalesce (js_prop s ''status'') (JStr []))\<rparr>,
                 if js_truthy (js_prop s ''error'') then js_string fmt (js_prop s ''error'') else [])
      else None)"

definition opsScans :: "(rat \<Rightarrow> string) \<Rightarrow> jval \<Rightarrow> (palette_scan \<times> string) list option" where
  "opsScans fmt payload =
     (case js_prop payload ''scans'' of
        JArr rows \<Rightarrow> map_option (filter (\<lambda>s. ps_id (fst s) \<noteq> [])) (those (map (scan_row fmt) rows))
      | _ \<Rightarrow> Some [])"

definition asset_row :: "(rat \<Rightarrow> string) \<Rightarrow> jval \<Rightarrow> (string \<times> string) option" where
  "asset_row fmt a =
     (if not_null a
      then Some (js_string fmt (js_prop a ''id''), js_string fmt (js_or (js_prop a ''name'') (js_prop a ''id'')))
      else None)"

definition opsAssets :: "(rat \<Rightarrow> string) \<Rightarrow> jval \<Rightarrow> (string \<times> string) list option" where
  "opsAssets fmt payload =
     (let rows = (case js_prop payload ''assets'' of JArr vs \<Rightarrow> vs | _ \<Rightarrow> (case payload of JArr vs \<Rightarrow> vs | _ \<Rightarrow> []))
      in those (map (asset_row fmt) (take 40 rows)))"

definition failedScans :: "(palette_scan \<times> string) list \<Rightarrow> palette_scan list" where
  "failedScans scans = filter (\<lambda>s. scanStatus (Some (ps_status s)) = ops_status.Failed) (map fst scans)"

definition criticalFindings :: "ops_finding list \<Rightarrow> ops_finding list" where
  "criticalFindings fs = filter (\<lambda>f. of_severity f = ''critical'' \<or> of_severity f = ''high'') fs"

definition noticeCount :: "(palette_scan \<times> string) list \<Rightarrow> ops_finding list \<Rightarrow> nat" where
  "noticeCount scans fs = length (failedScans scans) + (if criticalFindings fs \<noteq> [] then 1 else 0)"

text \<open>The entries of the menu: a label, and the address it leads to.\<close>

definition notices :: "(palette_scan \<times> string) list \<Rightarrow> ops_finding list \<Rightarrow> (string \<times> string option) list" where
  "notices scans fs =
     (if failedScans scans = [] \<and> criticalFindings fs = []
      then [(''No scan failures or critical findings in this workspace.'', None)] else [])
     @ map (\<lambda>s. (''Scan failed '' @ mid_dot @ '' '' @ or_str (ps_target s) (ps_id s),
                  Some (''/scanner?scan='' @ encodeURIComponent (ps_id s))))
         (take 5 (failedScans scans))
     @ (if criticalFindings fs \<noteq> []
        then [(nat_str (length (criticalFindings fs)) @ '' critical/high findings'', Some ''/findings?severity=critical'')] else [])"

section \<open>The tabs of a phone\<close>

definition mobileNav :: "bool \<Rightarrow> nav_item list" where
  "mobileNav is_demo = map (\<lambda>i. operationsItems is_demo ! i) [0, 1, 3, 2]"

definition tab_shown :: "string \<Rightarrow> bool \<Rightarrow> int" where
  "tab_shown pathname is_demo = max 0 (find_index_from 0 (\<lambda>_ it. isActive pathname (nv_path it)) (mobileNav is_demo))"

definition tab_label :: "nav_item \<Rightarrow> string" where "tab_label it = hd (split_on CHR '' '' (nv_text it))"

section \<open>The controls\<close>

datatype time_choice = Last24h | Last7d | Last30d

fun time_value :: "time_choice \<Rightarrow> string" where
  "time_value Last24h = ''24h''" | "time_value Last7d = ''7d''" | "time_value Last30d = ''30d''"

datatype frame_event =
  LyKey bool string bool
| LyPalette bool
| LyHelp bool
| LyDrawer bool
| LyNotices bool
| LyMenu bool
| LyCollapse
| LyModules
| LyQuery string
| LyPersona ops_persona
| LyTime time_choice
| LyItem nav_item
| LyTab nat
| LyEdition
| LyProfile
| LyAdmin
| LyNotice string
| LyLogout
| LyBannerTrail
| LyBannerExit

definition go_to :: "string \<Rightarrow> frame \<Rightarrow> frame" where "go_to path w = w\<lparr>ly_went := ly_went w @ [path]\<rparr>"

definition handleNavigation :: "string \<Rightarrow> frame \<Rightarrow> frame" where
  "handleNavigation path w = (go_to path w)\<lparr>ly_drawer := False, ly_query := []\<rparr>"

text \<open>A key with the meta or control key held, and whether a text field has it.\<close>

definition on_key :: "bool \<Rightarrow> string \<Rightarrow> bool \<Rightarrow> frame \<Rightarrow> frame" where
  "on_key modified key in_field w =
     (let w = (if modified \<and> str_lower key = ''k'' then w\<lparr>ly_palette := True\<rparr> else w)
      in if key = ''?'' \<and> \<not> in_field then w\<lparr>ly_help := True\<rparr> else w)"

text \<open>The entry of the menu an administrator alone has.\<close>

definition shows_admin :: "'a auth_scheme \<Rightarrow> bool" where
  "shows_admin a = (case user_role (au_user a) of Some role \<Rightarrow> isAdminRole role | None \<Rightarrow> False)"

definition frame_handler :: "(jval \<Rightarrow> string) \<Rightarrow> frame \<Rightarrow> frame_event \<Rightarrow> frame" where
  "frame_handler stringify w e =
     (case e of
        LyKey m k f \<Rightarrow> on_key m k f w
      | LyPalette b \<Rightarrow> w\<lparr>ly_palette := b\<rparr>
      | LyHelp b \<Rightarrow> w\<lparr>ly_help := b\<rparr>
      | LyDrawer b \<Rightarrow> w\<lparr>ly_drawer := b\<rparr>
      | LyNotices b \<Rightarrow> w\<lparr>ly_notices := b\<rparr>
      | LyMenu b \<Rightarrow> w\<lparr>ly_menu := b\<rparr>
      | LyCollapse \<Rightarrow> w\<lparr>ly_collapsed := \<not> ly_collapsed w\<rparr>
      | LyModules \<Rightarrow> if isPaidEdition (au_edition w) then w\<lparr>ly_modules := \<not> ly_modules w\<rparr> else w
      | LyQuery q \<Rightarrow> w\<lparr>ly_query := q\<rparr>
      | LyPersona p \<Rightarrow> w\<lparr>ly_persona := p\<rparr>
      | LyTime t \<Rightarrow> w\<lparr>ly_time := time_value t\<rparr>
      | LyItem it \<Rightarrow> if nv_disabled it = Some True then w else handleNavigation (nv_path it) w
      | LyTab i \<Rightarrow>
          (let tabs = mobileNav (isDemo w) in if i < length tabs then handleNavigation (nv_path (tabs ! i)) w else w)
      | LyEdition \<Rightarrow> go_to ''/switcher'' w
      | LyProfile \<Rightarrow> go_to ''/settings'' (w\<lparr>ly_menu := False\<rparr>)
      | LyAdmin \<Rightarrow> if shows_admin w then go_to ''/admin'' (w\<lparr>ly_menu := False\<rparr>) else w
      | LyNotice link \<Rightarrow> go_to link (w\<lparr>ly_notices := False\<rparr>)
      | LyLogout \<Rightarrow> go_to ''/login'' (logout stringify (w\<lparr>ly_menu := False\<rparr>))
      | LyBannerTrail \<Rightarrow> if isDemo w then go_to ''/demo'' w else w
      | LyBannerExit \<Rightarrow> if isDemo w then go_to ''/'' (logout stringify w) else w)"

definition frame_step :: "(jval \<Rightarrow> string) \<Rightarrow> frame \<Rightarrow> frame_event \<Rightarrow> frame" where
  "frame_step stringify w e = saved_changes w (frame_handler stringify w e)"

text \<open>The state of the connection at the foot of the side bar.\<close>

definition connection_shown :: "'a auth_scheme \<Rightarrow> ops_status \<times> string" where
  "connection_shown a =
     (if au_reachable a then (ops_status.Healthy, ''API reachable'')
      else if isDemo a then (ops_status.Warning, ''Demo session '' @ mid_dot @ '' no live estate'') else (ops_status.Disconnected, ''API disconnected''))"

fun edition_chip :: "edition \<Rightarrow> string" where
  "edition_chip community = ''Community''"
| "edition_chip professional = ''Professional''"
| "edition_chip enterprise = ''Enterprise''"

section \<open>Lemmas\<close>

lemmas frame_ops = go_to_def handleNavigation_def on_key_def Let_def

text \<open>Leaving a session touches its own keys only.\<close>

lemma logout_items:
  assumes "sg_mode (local_storage a) = Usable" "sg_mode (session_storage a) = Usable"
  shows "sg_mode (local_storage (logout sf a)) = Usable" "sg_mode (session_storage (logout sf a)) = Usable"
    and "k \<notin> {''auth_token'', ''auth_user'', ''app_edition'', DEMO_STORAGE_KEY} \<Longrightarrow>
      sg_items (local_storage (logout sf a)) k = sg_items (local_storage a) k"
    and "k \<notin> {TRAIL_ACTIVE_KEY, TRAIL_STEP_KEY} \<Longrightarrow>
      sg_items (session_storage (logout sf a)) k = sg_items (session_storage a) k"
  using assms by (auto simp: logout_def persist_def setEditionPreference_def truthy_opt_def)

lemma frame_keys:
  "COLLAPSED_KEY \<notin> {''auth_token'', ''auth_user'', ''app_edition'', DEMO_STORAGE_KEY, PERSONA_KEY}"
  "PERSONA_KEY \<notin> {''auth_token'', ''auth_user'', ''app_edition'', DEMO_STORAGE_KEY, COLLAPSED_KEY}"
  "TIME_KEY \<notin> {TRAIL_ACTIVE_KEY, TRAIL_STEP_KEY}"
  by (simp_all add: COLLAPSED_KEY_def PERSONA_KEY_def TIME_KEY_def DEMO_STORAGE_KEY_def TRAIL_ACTIVE_KEY_def TRAIL_STEP_KEY_def)

text \<open>The storage and the frame agree.\<close>

definition prefs_saved :: "frame \<Rightarrow> bool" where
  "prefs_saved w \<longleftrightarrow>
     sg_mode (local_storage w) = Usable \<and> sg_mode (session_storage w) = Usable
     \<and> sg_items (local_storage w) COLLAPSED_KEY = Some (if ly_collapsed w then ''1'' else ''0'')
     \<and> sg_items (local_storage w) PERSONA_KEY = Some (persona_str (ly_persona w))
     \<and> sg_items (session_storage w) TIME_KEY = Some (ly_time w) \<and> ly_time w \<noteq> []"

lemma save_items:
  assumes "sg_mode (local_storage w) = Usable" "sg_mode (session_storage w) = Usable"
  shows "save_collapsed w = w\<lparr>local_storage := (local_storage w)\<lparr>sg_items := (sg_items (local_storage w))
      (COLLAPSED_KEY \<mapsto> (if ly_collapsed w then ''1'' else ''0''))\<rparr>\<rparr>"
    and "save_time w = w\<lparr>session_storage := (session_storage w)\<lparr>sg_items := (sg_items (session_storage w))(TIME_KEY \<mapsto> ly_time w)\<rparr>\<rparr>"
    and "save_persona w = w\<lparr>local_storage := (local_storage w)\<lparr>sg_items := (sg_items (local_storage w))
      (PERSONA_KEY \<mapsto> persona_str (ly_persona w))\<rparr>\<rparr>"
  using assms by (simp_all add: save_collapsed_def save_time_def save_persona_def persistPersona_def)

lemma mounted_saved:
  assumes "sg_mode (local_storage w) = Usable" "sg_mode (session_storage w) = Usable"
  shows "prefs_saved (mount_frame w)"
proof -
  have "stored_time (session_storage w) \<noteq> []" by (simp add: stored_time_def or_str_def)
  then show ?thesis
    using assms frame_keys by (auto simp: mount_frame_def save_items prefs_saved_def)
qed

lemma changes_saved:
  assumes "prefs_saved w" "sg_mode (local_storage v) = Usable" "sg_mode (session_storage v) = Usable" "ly_time v \<noteq> []"
    "\<And>k. k \<in> {COLLAPSED_KEY, PERSONA_KEY} \<Longrightarrow> sg_items (local_storage v) k = sg_items (local_storage w) k"
    "sg_items (session_storage v) TIME_KEY = sg_items (session_storage w) TIME_KEY"
  shows "prefs_saved (saved_changes w v)"
  using assms frame_keys by (auto simp: prefs_saved_def saved_changes_def save_items Let_def)

lemma frame_step_saved:
  assumes "prefs_saved w"
  shows "prefs_saved (frame_step sf w e)"
proof -
  have u: "sg_mode (local_storage w) = Usable" "sg_mode (session_storage w) = Usable"
    using assms by (simp_all add: prefs_saved_def)
  have t: "time_value c \<noteq> []" for c by (cases c) simp_all
  have n: "ly_time w \<noteq> []" using assms by (simp add: prefs_saved_def)
  have l: "ly_time (logout sf v) = ly_time v" for v :: frame
    by (simp add: logout_def persist_def Let_def split: option.split)
  note o = logout_items [where 'a = "\<lparr>ly_drawer :: bool, ly_collapsed :: bool, ly_notices :: bool, ly_palette :: bool,
    ly_help :: bool, ly_persona :: ops_persona, ly_menu :: bool, ly_modules :: bool, ly_query :: string, ly_time :: string,
    ly_went :: string list\<rparr>" and sf = sf]
  show ?thesis
    unfolding frame_step_def
    using u n frame_keys
    by (intro changes_saved [OF assms])
      (cases e; auto simp: frame_handler_def frame_ops t l o)+
qed

lemma run_saved: "prefs_saved w \<Longrightarrow> prefs_saved (foldl (frame_step sf) w es)"
  by (induction es arbitrary: w) (simp_all add: frame_step_saved)

lemma persona_read: "sg_mode s = Usable \<Longrightarrow> sg_items s PERSONA_KEY = Some (persona_str p) \<Longrightarrow> loadPersona s = p"
  by (cases p) (simp_all add: loadPersona_def)

lemma remounted:
  assumes "prefs_saved w"
  shows "ly_collapsed (mount_frame w) = ly_collapsed w" "ly_time (mount_frame w) = ly_time w" "ly_persona (mount_frame w) = ly_persona w"
  using assms persona_read
  by (auto simp: mount_frame_def save_items prefs_saved_def stored_collapsed_def stored_time_def or_str_def)

text \<open>The events that end the session.\<close>

fun leaves :: "frame_event \<Rightarrow> bool" where
  "leaves LyLogout = True" | "leaves LyBannerExit = True" | "leaves _ = False"

definition same_session :: "frame \<Rightarrow> frame \<Rightarrow> bool" where
  "same_session v w \<longleftrightarrow> au_token v = au_token w \<and> au_user v = au_user w \<and> au_edition v = au_edition w
     \<and> sg_mode (local_storage v) = sg_mode (local_storage w)
     \<and> (\<forall>k \<in> {''auth_token'', ''auth_user'', ''app_edition'', DEMO_STORAGE_KEY}.
          sg_items (local_storage v) k = sg_items (local_storage w) k)"

lemma saved_session:
  "same_session (save_collapsed w) w" "same_session (save_time w) w" "same_session (save_persona w) w"
  using frame_keys
  by (auto simp: same_session_def save_collapsed_def save_time_def save_persona_def persistPersona_def set_item_def)

lemma same_session_trans: "same_session u v \<Longrightarrow> same_session v w \<Longrightarrow> same_session u w"
  by (simp add: same_session_def)

lemma changes_session: "same_session v w \<Longrightarrow> same_session (saved_changes u v) w"
  by (simp add: saved_changes_def Let_def same_session_trans [OF saved_session(1)] same_session_trans [OF saved_session(2)]
      same_session_trans [OF saved_session(3)])

lemma step_session: "\<not> leaves e \<Longrightarrow> same_session (frame_step sf w e) w"
  unfolding frame_step_def by (rule changes_session) (cases e; auto simp: frame_handler_def frame_ops same_session_def)

lemma mount_session: "same_session (mount_frame w) w"
proof -
  have "same_session (w\<lparr>ly_drawer := False, ly_collapsed := c, ly_notices := False, ly_palette := False, ly_help := False,
      ly_persona := p, ly_menu := False, ly_modules := False, ly_query := [], ly_time := t\<rparr>) w" for c p t
    by (simp add: same_session_def)
  then show ?thesis unfolding mount_frame_def by (meson saved_session same_session_trans)
qed

lemma run_session: "list_all (\<lambda>e. \<not> leaves e) es \<Longrightarrow> same_session (foldl (frame_step sf) w es) w"
proof (induction es rule: rev_induct)
  case Nil
  show ?case by (simp add: same_session_def)
next
  case (snoc e es)
  then have "same_session (foldl (frame_step sf) w es) w" "\<not> leaves e" by simp_all
  then show ?case using same_session_trans [OF step_session] by simp
qed

lemma same_stored:
  assumes "same_session v w" "sg_mode (local_storage w) = Usable"
  shows "readStoredAuth parse (local_storage v) = readStoredAuth parse (local_storage w)"
proof -
  have u: "sg_mode (local_storage v) = Usable" using assms by (simp add: same_session_def)
  have r: "get_item (local_storage v) ''auth_token'' = get_item (local_storage w) ''auth_token''"
    "read_item (local_storage v) ''auth_user'' = read_item (local_storage w) ''auth_user''"
    "read_item (local_storage v) ''app_edition'' = read_item (local_storage w) ''app_edition''"
    "read_item (local_storage v) DEMO_STORAGE_KEY = read_item (local_storage w) DEMO_STORAGE_KEY"
    using assms u by (simp_all add: same_session_def)
  show ?thesis unfolding readStoredAuth_def r ..
qed

lemma filter_count: "length (filter p xs) = count_if p xs"
  by (simp add: count_if_def)

lemma critical_link: "q_parse ''severity=critical'' = [(''severity'', ''critical'')]"
  by code_simp

lemma critical_lower: "str_lower ''critical'' = ''critical''"
  by code_simp

lemma critical_or_high:
  "length (criticalFindings fs) = count_if (\<lambda>f. of_severity f = ''critical'') fs + count_if (\<lambda>f. of_severity f = ''high'') fs"
  by (induction fs) (auto simp: criticalFindings_def)

definition ex_frame :: frame where
  "ex_frame = auth.extend (ex_auth [(''auth_token'', ''jwt''), (COLLAPSED_KEY, ''1'')] True)
     (frame.fields False False False False False Analyst False False [] [] [])"

lemma ex_frame_usable: "sg_mode (local_storage ex_frame) = Usable" "sg_mode (session_storage ex_frame) = Usable"
  by (simp_all add: ex_frame_def ex_auth_def auth.defs frame.defs)

section \<open>Properties\<close>

text \<open>C38: Whatever is done in the frame, logging out included, it comes back with the side bar, the operator view and the time
  range it was left with, and the dashboard opened beside it starts in the same view; only the two ways out of the session
  change the session.\<close>

theorem frame_comes_back:
  assumes "sg_mode (local_storage w) = Usable" "sg_mode (session_storage w) = Usable"
  shows "let v = foldl (frame_step sf) (mount_frame w) es in
     ly_collapsed (mount_frame v) = ly_collapsed v \<and> ly_time (mount_frame v) = ly_time v
     \<and> ly_persona (mount_frame v) = ly_persona v \<and> db_persona (dashboard_init (local_storage v)) = ly_persona v
     \<and> (list_all (\<lambda>e. \<not> leaves e) es \<longrightarrow> au_token v = au_token w
          \<and> readStoredAuth parse (local_storage v) = readStoredAuth parse (local_storage w))"
proof -
  define v where "v = foldl (frame_step sf) (mount_frame w) es"
  have s: "prefs_saved v" unfolding v_def by (rule run_saved [OF mounted_saved [OF assms]])
  have "same_session v w" if "list_all (\<lambda>e. \<not> leaves e) es"
    unfolding v_def using run_session [OF that] mount_session same_session_trans by blast
  then have "list_all (\<lambda>e. \<not> leaves e) es \<longrightarrow> au_token v = au_token w
      \<and> readStoredAuth parse (local_storage v) = readStoredAuth parse (local_storage w)"
    using assms same_stored same_session_def by blast
  moreover have "db_persona (dashboard_init (local_storage v)) = ly_persona v"
    using s persona_read by (simp add: dashboard_init_def prefs_saved_def)
  ultimately show ?thesis using remounted [OF s] by (simp add: v_def [symmetric] Let_def)
qed

theorem frame_comes_back_witness:
  "let v = foldl (frame_step unary_stringify) (mount_frame ex_frame) [LyPersona Ciso, LyCollapse, LyLogout] in
     ly_persona (mount_frame v) = ly_persona v \<and> ly_collapsed (mount_frame v) = ly_collapsed v"
  using frame_comes_back [of ex_frame unary_stringify "[LyPersona Ciso, LyCollapse, LyLogout]" "\<lambda>_. None"] ex_frame_usable
  by (simp add: Let_def)

text \<open>The notification counts the critical findings and the high ones, and the queue it opens lists the critical ones alone;
  the menu lists at most six entries whatever its badge says.\<close>

theorem notice_short_of_queue:
  "(criticalFindings fs \<noteq> [] \<longrightarrow>
      (nat_str (count_if (\<lambda>f. of_severity f = ''critical'') fs + count_if (\<lambda>f. of_severity f = ''high'') fs) @ '' critical/high findings'',
       Some ''/findings?severity=critical'') \<in> set (notices scans fs))
   \<and> length (filtered_findings (q_parse ''severity=critical'') fs) = count_if (\<lambda>f. of_severity f = ''critical'') fs
   \<and> length (notices scans fs) \<le> 6"
proof -
  have "shown_finding (q_parse ''severity=critical'') f \<longleftrightarrow> of_severity f = ''critical''" for f
    by (simp add: shown_finding_def critical_link severity_param_def q_param_def q_get_def critical_lower str_trim_def Let_def)
  then have "shown_finding (q_parse ''severity=critical'') = (\<lambda>f. of_severity f = ''critical'')" by (rule ext)
  then show ?thesis
    by (simp add: min_def notices_def critical_or_high [symmetric] filtered_findings_def length_sort_by filter_count)
qed

end
