(* ===== verification/Hub_Pages.thy ===== *)
theory Hub_Pages
  imports Console_Shell
begin

text \<open>
  The pages of the console about bills of materials: web/src/data/bomFramework.ts and securityChecklists.ts, and of
  web/src/pages BomIntelligence.tsx, GovernanceHub.tsx, DevSecOpsPipeline.tsx, ApiSecurity.tsx, AiSecurity.tsx,
  MigrationHub.tsx, HsmQuantum.tsx and CRMLeads.tsx.  \<open>data\<close> is what the API answered, null after a failure and undefined
  before; a page that throws while it renders is \<open>None\<close>.
\<close>

section \<open>The framework\<close>

datatype bom_id = CBOM | SBOM | QBOM | HBOM | AIBOM | IBOM

fun bom_key :: "bom_id \<Rightarrow> string" where
  "bom_key CBOM = ''cbom''" | "bom_key SBOM = ''sbom''" | "bom_key QBOM = ''qbom''"
| "bom_key HBOM = ''hbom''" | "bom_key AIBOM = ''aibom''" | "bom_key IBOM = ''ibom''"

record bom_layer =
  bl_id :: bom_id
  bl_name :: string
  bl_role :: string
  bl_community :: bool
  bl_enabled :: bool
  bl_regulations :: "string list"
  bl_honesty :: string

record pipeline_stage =
  stg_no :: nat
  stg_name :: string
  stg_boms :: "bom_id list"
  stg_action :: string
  stg_artifact :: string
  stg_oss :: bool

record governance_control =
  gc_framework :: string
  gc_control :: string
  gc_bom :: bom_id
  gc_community :: bool

definition BOM_LAYERS :: "bom_layer list" where
  "BOM_LAYERS =
    [
     \<lparr>bl_id = CBOM, bl_name = ''CBOM'',
      bl_role = (''Cryptographic inventory '' @ em_dash @ '' algorithms, keys, certs, libraries''),
      bl_community = True, bl_enabled = True, bl_regulations = [''DORA RTS Art. 9'', ''NIS2 Art. 21'', ''FIPS 140-3''],
      bl_honesty = ''Primary Apache-2.0 product. Shared engine for both editions.''\<rparr>,
     \<lparr>bl_id = QBOM, bl_name = ''QBOM'',
      bl_role = ''Quantum vulnerability, CRQC urgency, PQC replacement'',
      bl_community = False, bl_enabled = False, bl_regulations = [''NIST IR 8105'', ''FIPS 203/204/205''],
      bl_honesty = ''Enterprise layer. Community still classifies algorithms on CBOM findings. Not IBM Quantum hardware.''\<rparr>,
     \<lparr>bl_id = SBOM, bl_name = ''SBOM'',
      bl_role = ''Software components with a crypto-library flag'',
      bl_community = True, bl_enabled = True, bl_regulations = [''US EO 14028'', ''EU CRA'', ''DORA RTS Art. 9(4)''],
      bl_honesty = ''From lockfiles / local path. Optional Syft/Trivy when installed.''\<rparr>,
     \<lparr>bl_id = HBOM, bl_name = ''HBOM'',
      bl_role = ''Hardware / HSM / TPM / QSIC declared inventory'',
      bl_community = False, bl_enabled = False, bl_regulations = [''FIPS 140-3'', ''BSI TR-02102''],
      bl_honesty = ''Enterprise connector. Not firmware reverse-engineering.''\<rparr>,
     \<lparr>bl_id = AIBOM, bl_name = ''AIBOM'',
      bl_role = ''AI/ML provenance, EU AI Act risk tier, serving crypto'',
      bl_community = False, bl_enabled = False, bl_regulations = [''EU AI Act Art. 6'', ''NIST AI RMF''],
      bl_honesty = ''Enterprise declared inventory. Not a live model-weight scanner.''\<rparr>,
     \<lparr>bl_id = IBOM, bl_name = ''IBOM'',
      bl_role = ''Human, machine, and service identities bound to crypto assets'',
      bl_community = False, bl_enabled = False, bl_regulations = [''NIST SP 800-207'', ''Zero Trust''],
      bl_honesty = ''Enterprise directory / NHI connector. Community still scans secrets into CBOM.''\<rparr>]"

definition PIPELINE_STAGES :: "pipeline_stage list" where
  "PIPELINE_STAGES =
    [
     \<lparr>stg_no = 1, stg_name = ''Developer IDE'', stg_boms = [CBOM, SBOM], stg_action = ''Crypto API lint + secrets scan'',
      stg_artifact = ''Pre-commit violations'', stg_oss = True\<rparr>,
     \<lparr>stg_no = 2, stg_name = ''Source commit'', stg_boms = [SBOM], stg_action = ''cdxgen / syft from lock files'',
      stg_artifact = ''SBOM JSON'', stg_oss = True\<rparr>,
     \<lparr>stg_no = 3, stg_name = ''CI/CD build'', stg_boms = [CBOM, SBOM], stg_action = (''rivicq scan . '' @ em_dash @ '' CBOM + SBOM merge''),
      stg_artifact = ''unified-bom.cdx.json'', stg_oss = True\<rparr>,
     \<lparr>stg_no = 4, stg_name = ''Container scan'', stg_boms = [CBOM, SBOM], stg_action = ''Optional Trivy/Grype + crypto libs'',
      stg_artifact = ''Container CBOM patch'', stg_oss = True\<rparr>,
     \<lparr>stg_no = 5, stg_name = ''Staging deploy'', stg_boms = [CBOM], stg_action = ''TLS/HTTPS + PQC classification on CBOM'',
      stg_artifact = ''CBOM report JSON'', stg_oss = True\<rparr>,
     \<lparr>stg_no = 6, stg_name = ''Security gate'', stg_boms = [CBOM, SBOM], stg_action = ''Policy gate BLOCK / WARN / ALLOW'',
      stg_artifact = ''Pass / block'', stg_oss = True\<rparr>,
     \<lparr>stg_no = 7, stg_name = ''Production'', stg_boms = [CBOM, IBOM, HBOM], stg_action = ''Continuous CSPM monitoring'',
      stg_artifact = ''Live dashboard'', stg_oss = False\<rparr>,
     \<lparr>stg_no = 8, stg_name = ''Compliance report'', stg_boms = [CBOM, SBOM, QBOM, AIBOM, IBOM, HBOM], stg_action = ''DORA / NIS2 / SOC 2 mappings'',
      stg_artifact = ''JSON or Enterprise pack'', stg_oss = True\<rparr>]"

definition GOVERNANCE_CONTROLS :: "governance_control list" where
  "GOVERNANCE_CONTROLS =
    [
     \<lparr>gc_framework = ''DORA RTS'', gc_control = ''Art. 9 ICT + crypto inventory'', gc_bom = CBOM, gc_community = True\<rparr>,
     \<lparr>gc_framework = ''NIS2'', gc_control = ''Art. 21 cryptographic measures'', gc_bom = CBOM, gc_community = True\<rparr>,
     \<lparr>gc_framework = ''EU AI Act'', gc_control = ''Art. 6 / Annex IV documentation'', gc_bom = AIBOM, gc_community = False\<rparr>,
     \<lparr>gc_framework = ''EU CRA'', gc_control = ''Software component transparency'', gc_bom = SBOM, gc_community = True\<rparr>,
     \<lparr>gc_framework = ''NIST SP 800-207'', gc_control = ''Zero Trust identity inventory'', gc_bom = IBOM, gc_community = False\<rparr>,
     \<lparr>gc_framework = ''FIPS 203/204/205'', gc_control = ''PQC migration mapping'', gc_bom = CBOM, gc_community = True\<rparr>,
     \<lparr>gc_framework = ''BSI TR-02102'', gc_control = ''Algorithm strength'', gc_bom = CBOM, gc_community = True\<rparr>,
     \<lparr>gc_framework = ''FIPS 140-3'', gc_control = ''Module inventory (declared HSM/QSIC)'', gc_bom = CBOM, gc_community = True\<rparr>]"

definition layersForEdition :: "bool \<Rightarrow> bom_layer list" where
  "layersForEdition licensed = map (\<lambda>l. l\<lparr>bl_enabled := bl_community l \<or> licensed\<rparr>) BOM_LAYERS"

definition enabled_layers :: "edition \<Rightarrow> bom_id list" where
  "enabled_layers e = map bl_id (filter bl_enabled (layersForEdition (isEnterpriseEdition e)))"

record checklist_item =
  ci_id :: string
  ci_title :: string
  ci_rivicq :: string

definition item :: "string \<Rightarrow> string \<Rightarrow> string \<Rightarrow> checklist_item" where
  "item i t r = \<lparr>ci_id = i, ci_title = t, ci_rivicq = r\<rparr>"

record security_checklist =
  cl_id :: string
  cl_name :: string
  cl_source :: string
  cl_sourceUrl :: string
  cl_honesty :: string
  cl_items :: "checklist_item list"

definition SECURITY_CHECKLISTS :: "security_checklist list" where
  "SECURITY_CHECKLISTS =
    [
     \<lparr>cl_id = ''owasp-api-2023'', cl_name = ''OWASP API Security Top 10'', cl_source = ''OWASP API Security Top 10:2023'',
      cl_sourceUrl = ''https://owasp.org/API-Security/editions/2023/en/0x11-t10/'',
      cl_honesty = (''Published OWASP awareness list. RivicQ maps TLS/HTTPS scan evidence and inventory '' @ em_dash @ '' it does not certify APIs.''),
      cl_items =
       [item ''API1:2023'' ''Broken Object Level Authorization''
          ''Enterprise identity inventory (IBOM). Community flags unauthenticated TLS surfaces.'',
        item ''API2:2023'' ''Broken Authentication''
          ''JWT RBAC, MFA, demo-token refuse in production.'',
        item ''API3:2023'' ''Broken Object Property Level Authorization''
          ''API responses omit emails/secrets on public lead create.'',
        item ''API4:2023'' ''Unrestricted Resource Consumption''
          ''Public /leads rate limit. Scan jobs are tenant-scoped.'',
        item ''API5:2023'' ''Broken Function Level Authorization''
          ''RequireRole on admin, CRM, API keys, webhooks.'',
        item ''API6:2023'' ''Unrestricted Access to Sensitive Business Flows''
          (''Checkout stub '' @ em_dash @ '' no live charge without a PSP adapter.''),
        item ''API7:2023'' ''Server-Side Request Forgery''
          ''Scans target operator-supplied hosts; GitHub uses Contents API only.'',
        item ''API8:2023'' ''Security Misconfiguration''
          ''Website scan: HSTS, CSP, protocol, certificate hygiene.'',
        item ''API9:2023'' ''Improper Inventory Management''
          ''CBOM / SBOM / declared k8s and hardware inventory.'',
        item ''API10:2023'' ''Unsafe Consumption of APIs''
          ''Partner connectors stay disconnected without customer credentials.'']\<rparr>,
     \<lparr>cl_id = ''owasp-top10-2021'', cl_name = ''OWASP Top 10 (application publication)'', cl_source = ''OWASP Top 10:2021'',
      cl_sourceUrl = ''https://owasp.org/Top10/'',
      cl_honesty = ''Release/publication mapping for software we ship. Not a pentest report.'',
      cl_items =
       [item ''A01:2021'' ''Broken Access Control''
          ''Tenant isolation on Community scans; admin routes RequireRole.'',
        item ''A02:2021'' ''Cryptographic Failures''
          ''CBOM algorithm inventory and PQC replacement map.'',
        item ''A03:2021'' ''Injection''
          ''Parameterized SQL; Gitleaks never stores secret values.'',
        item ''A04:2021'' ''Insecure Design''
          ''Edition flags are server-side; UI switcher is not a license.'',
        item ''A05:2021'' ''Security Misconfiguration''
          ''Production refuses default JWT secret and bootstrap password.'',
        item ''A06:2021'' ''Vulnerable and Outdated Components''
          ''Optional Syft / Trivy / Grype / OSV when installed on PATH.'',
        item ''A07:2021'' ''Identification and Authentication Failures''
          ''Password + JWT; demo session is Community operator only.'',
        item ''A08:2021'' ''Software and Data Integrity Failures''
          ''CycloneDX CBOM/SBOM export; Cosign is PATH-probed, not assumed.'',
        item ''A09:2021'' ''Security Logging and Monitoring Failures''
          ''Scan jobs and findings queue; Pages has no API telemetry.'',
        item ''A10:2021'' ''Server-Side Request Forgery''
          ''No operator-controlled URL fetch into the control plane except scan targets.'']\<rparr>,
     \<lparr>cl_id = ''owasp-wstg-network'', cl_name = ''OWASP WSTG network hygiene'', cl_source = (''OWASP Web Security Testing Guide '' @ em_dash @ '' network & configuration chapters''),
      cl_sourceUrl = ''https://owasp.org/www-project-web-security-testing-guide/'',
      cl_honesty = (''WSTG is a testing guide. RivicQ records TLS/SSH/HTTP discovery '' @ em_dash @ '' it is not a packet capture or eBPF sensor.''),
      cl_items =
       [item ''WSTG-INFO'' ''Information gathering''
          ''Website / host / IP target classes and certificate inventory.'',
        item ''WSTG-CONF'' ''Configuration management''
          ''HTTPS header and cookie findings on website scans.'',
        item ''WSTG-IDNT'' ''Identity management''
          (''IBOM is Enterprise declared directory '' @ em_dash @ '' Community still scans secrets into CBOM.''),
        item ''WSTG-ATHN'' ''Authentication testing''
          ''Login, MFA, demo token disabled in production runtime.'',
        item ''WSTG-ATHZ'' ''Authorization testing''
          ''RBAC viewer < analyst < operator < admin.'',
        item ''WSTG-CRYP'' ''Cryptography''
          ''TLS protocol, cipher, key length, PQC taxonomy (local, not IBM Quantum hardware).'',
        item ''WSTG-APIT'' ''API testing''
          ''See OWASP API Top 10 mapping above.'']\<rparr>,
     \<lparr>cl_id = ''rivicq-quantum'', cl_name = ''RivicQ quantum cryptography checklist'', cl_source = (''NIST FIPS 203/204/205 '' @ mid_dot @ '' NIST IR 8547-aligned operator list''),
      cl_sourceUrl = ''https://csrc.nist.gov/projects/post-quantum-cryptography'',
      cl_honesty = (''Not an OWASP publication. Local Shor/Grover/PQC taxonomy. Qiskit scores are classical profile math '' @ em_dash @ '' not IBM Quantum jobs.''),
      cl_items =
       [item ''Q-INV'' ''Cryptographic inventory''
          ''CBOM of algorithms, certs, libraries from scans and optional PATH tools.'',
        item ''Q-SHOR'' ''Shor-class public-key exposure''
          ''RSA/ECDSA/ECDH flagged for ML-KEM / ML-DSA replacement.'',
        item ''Q-GROV'' ''Grover-class symmetric length''
          ''AES-128 vs AES-256 notes; not an automatic vulnerability on AES-256.'',
        item ''Q-HYB'' ''Hybrid cut-over''
          ''PQC migration hub recommends hybrid classical + PQC. Engine does not rotate keys.'',
        item ''Q-HNDL'' ''Harvest-now-decrypt-later''
          ''HNDL exposure field on scan intelligence when a scan exists.'',
        item ''Q-HSM'' ''Hardware modules''
          ''Declared HSM/TPM/QSIC inventory. QSIC is a research ASIC, not shipped silicon.'',
        item ''Q-FW'' ''Firmware / semiconductor components''
          ''Declared CycloneDX / hash inventory. No binary reverse-engineering or die inspection.'']\<rparr>]"

section \<open>BomIntelligence\<close>

text \<open>\<open>data?.cbom?.length ?? 0\<close>, and what the chip of a layer says.\<close>

definition bom_count :: "jval \<Rightarrow> bom_id \<Rightarrow> jval" where
  "bom_count data k = js_coalesce (js_length (js_prop data (bom_key k))) (JNum (num 0))"

definition bom_chip :: "(rat \<Rightarrow> string) \<Rightarrow> jval \<Rightarrow> bom_layer \<Rightarrow> string \<times> string" where
  "bom_chip fmt data l =
     (if bl_enabled l then ''On'' else ''Enterprise'',
      js_string fmt (js_or (bom_count data (bl_id l)) (JNum (num 0))) @ '' assets'')"

datatype explorer = ExplorerEmpty | ExplorerRows "(jval \<times> string) list" | ExplorerNothing

definition explorer_row :: "(rat \<Rightarrow> string) \<Rightarrow> jval \<Rightarrow> nat \<Rightarrow> (jval \<times> string) option" where
  "explorer_row fmt row i =
     (if not_null row
      then Some (js_or (js_or (js_or (js_prop row ''name'') (js_prop row ''component'')) (js_prop row ''algorithm''))
                   (JStr (''Component '' @ nat_str (i + 1))),
                 or_str (str_join ('' '' @ mid_dot @ '' '') (map (js_string fmt)
                     (filter js_truthy (map (js_prop row) [''algorithm'', ''version'', ''purl'', ''risk'']))))
                   ''No extra fields on this record'')
      else None)"

definition cbom_explorer :: "(rat \<Rightarrow> string) \<Rightarrow> jval \<Rightarrow> explorer option" where
  "cbom_explorer fmt data =
     (let c = js_prop data ''cbom''
      in if \<not> js_truthy c \<or> js_length c = JNum (num 0) then Some ExplorerEmpty
         else (case c of
                 JArr rows \<Rightarrow> map_option ExplorerRows (those (map (\<lambda>(r, i). explorer_row fmt r i)
                     (zip (take 40 rows) [0..<length (take 40 rows)])))
               | _ \<Rightarrow> Some ExplorerNothing))"

section \<open>GovernanceHub\<close>

definition governance_default :: "bool \<Rightarrow> governance_control \<Rightarrow> jval" where
  "governance_default paid c =
     JObj [(''framework'', JStr (gc_framework c)), (''control'', JStr (gc_control c)), (''bom'', JStr (bom_key (gc_bom c))),
           (''status'', JStr (if gc_community c \<or> paid then ''mapped'' else ''locked'')), (''pack'', JBool paid)]"

definition governance_rows :: "bool \<Rightarrow> jval \<Rightarrow> jval" where
  "governance_rows paid data =
     (let cs = js_prop data ''controls''
      in if js_truthy (js_length cs) then cs else JArr (map (governance_default paid) GOVERNANCE_CONTROLS))"

definition control_mapped :: "jval \<Rightarrow> bool" where
  "control_mapped c \<longleftrightarrow> js_prop c ''status'' = JStr ''mapped'' \<or> js_truthy (js_prop c ''community'') \<or> js_truthy (js_prop c ''pack'')"

text \<open>\<open>rows.filter\<close> throws on a value that is no array, and its callback on a row that is null.\<close>

definition governance_badge :: "jval \<Rightarrow> (nat \<times> nat) option" where
  "governance_badge rows =
     (case rows of
        JArr cs \<Rightarrow>
          if list_all not_null cs
          then (let mapped = count_if control_mapped cs in Some (mapped, length cs - mapped)) else None
      | _ \<Rightarrow> None)"

definition control_chip :: "jval \<Rightarrow> jval" where
  "control_chip c =
     js_or (js_prop c ''status'') (JStr (if js_truthy (js_prop c ''pack'') then ''pack_enabled'' else ''json_only''))"

section \<open>DevSecOpsPipeline\<close>

definition stage_locked :: "bool \<Rightarrow> pipeline_stage \<Rightarrow> bool" where
  "stage_locked paid s \<longleftrightarrow> \<not> stg_oss s \<and> \<not> paid"

definition stage_chip :: "bool \<Rightarrow> pipeline_stage \<Rightarrow> string" where
  "stage_chip paid s = (if stage_locked paid s then ''Enterprise'' else if stg_oss s then ''OSS'' else ''Ent'')"

section \<open>ApiSecurity and AiSecurity\<close>

definition api_findings :: "jval \<Rightarrow> jval" where
  "api_findings data = js_coalesce (js_prop data ''findings'') (JArr [])"

definition api_badge :: "(rat \<Rightarrow> string) \<Rightarrow> jval \<Rightarrow> string" where
  "api_badge fmt data =
     (let n = js_length (api_findings data) in if js_truthy n then js_string fmt n @ '' findings'' else ''No scan yet'')"

definition api_rows :: "jval \<Rightarrow> jval list option" where
  "api_rows data =
     (let fs = api_findings data
      in if js_length fs = JNum (num 0) then Some []
         else (case fs of JArr rows \<Rightarrow> if list_all not_null (take 40 rows) then Some (take 40 rows) else None | _ \<Rightarrow> None))"

definition api_severity :: "jval \<Rightarrow> jval" where
  "api_severity f = js_or (js_prop f ''severity'') (JStr ''INFO'')"

definition api_checklists :: "security_checklist list" where
  "api_checklists = filter (\<lambda>l. cl_id l = ''owasp-api-2023'') SECURITY_CHECKLISTS"

definition ai_enabled :: "bool \<Rightarrow> jval \<Rightarrow> bool" where
  "ai_enabled paid data = js_truthy (js_coalesce (js_prop data ''enabled'') (JBool paid))"

definition ai_rows :: "jval \<Rightarrow> jval" where
  "ai_rows data = js_coalesce (js_prop data ''aibom'') (JArr [])"

definition ai_notes :: "bool \<Rightarrow> jval \<Rightarrow> bool \<times> bool" where
  "ai_notes paid data =
     (\<not> ai_enabled paid data, ai_enabled paid data \<and> js_length (ai_rows data) = JNum (num 0))"

section \<open>MigrationHub\<close>

text \<open>\<open>list?.scans?.[0]\<close>, its id, and the report asked for it.\<close>

definition first_scan :: "jval \<Rightarrow> jval" where
  "first_scan answer = (case js_prop answer ''scans'' of JArr (s # _) \<Rightarrow> s | _ \<Rightarrow> JUndef)"

definition latest_scan_id :: "jval \<Rightarrow> jval" where
  "latest_scan_id answer = js_or (js_prop (first_scan answer) ''id'') (js_prop (first_scan answer) ''scan_id'')"

definition intel_request :: "(rat \<Rightarrow> string) \<Rightarrow> jval \<Rightarrow> api_request option" where
  "intel_request fmt answer =
     (if js_truthy (latest_scan_id answer)
      then Some (cbomService_getScanIntelligence (js_string fmt (latest_scan_id answer))) else None)"

definition migration_rows :: "jval \<Rightarrow> jval \<Rightarrow> jval" where
  "migration_rows intel unified =
     js_or (js_or (js_prop (js_prop intel ''pqc_readiness'') ''migration'') (js_prop unified ''qbom'')) (JArr [])"

definition migration_empty :: "jval \<Rightarrow> jval \<Rightarrow> bool" where
  "migration_empty intel unified \<longleftrightarrow> js_length (migration_rows intel unified) = JNum (num 0)"

definition migration_texts :: "jval \<Rightarrow> jval list" where
  "migration_texts m =
     [js_or (js_prop m ''algorithm'') (js_prop m ''name''), js_or (js_prop m ''replace_with'') (js_prop m ''replacement''),
      js_prop m ''standard'', js_or (js_prop m ''priority'') (js_prop m ''attack_class'')]"

section \<open>HsmQuantum and CRMLeads\<close>

definition hsm_chip :: "jval \<Rightarrow> string" where
  "hsm_chip data = (if js_truthy (js_prop data ''connected'') then ''Connected'' else ''Disconnected'')"

definition quantum_lines :: "jval \<Rightarrow> string \<times> string" where
  "quantum_lines data =
     (if js_truthy (js_prop (js_prop data ''runtime'') ''connected'') then ''API key present'' else ''Not connected'',
      if js_truthy (js_prop (js_prop data ''migration'') ''connected'') then ''Partner key present'' else ''Local mapper only'')"

record crm_page =
  cr_leads :: jval
  cr_stages :: jval
  cr_error :: string

definition crm_init :: crm_page where
  "crm_init = \<lparr>cr_leads = JArr [], cr_stages = JArr [], cr_error = []\<rparr>"

text \<open>Both requests are made when a backend was found; the first that fails gives the message.\<close>

definition crm_requests :: "bool \<Rightarrow> api_request list" where
  "crm_requests reachable = (if reachable then [platformService_leads, platformService_funnel] else [])"

definition crm_loaded :: "string + jval \<times> jval \<Rightarrow> crm_page \<Rightarrow> crm_page" where
  "crm_loaded answer p =
     (case answer of
        Inl e \<Rightarrow> p\<lparr>cr_error := or_str e ''CRM requires an admin session''\<rparr>
      | Inr (leads, funnel) \<Rightarrow>
          p\<lparr>cr_leads := js_or (js_prop leads ''leads'') (JArr []), cr_stages := js_or (js_prop funnel ''stages'') (JArr [])\<rparr>)"

section \<open>Properties\<close>

lemma edition_layers:
  "enabled_layers community = [CBOM, SBOM]" "enabled_layers professional = [CBOM, SBOM]"
  "enabled_layers enterprise = map bl_id BOM_LAYERS"
  by code_simp+

text \<open>A community workspace is shown seven of the eight stages as its own, and one of them works on layers it does not have;
  in a professional workspace the governance page maps every control, those of layers locked there included.\<close>

theorem editions_disagree:
  "map stg_no (filter (\<lambda>s. \<not> stage_locked (isPaidEdition community) s) PIPELINE_STAGES) = [1, 2, 3, 4, 5, 6, 8]"
  "map stg_no (filter (\<lambda>s. set (stg_boms s) \<subseteq> set (enabled_layers community)) PIPELINE_STAGES) = [1, 2, 3, 4, 5, 6]"
  "governance_badge (governance_rows (isPaidEdition community) JNull) = Some (6, 2)"
  "governance_badge (governance_rows (isPaidEdition professional) JNull) = Some (8, 0)"
  "list_ex (\<lambda>c. gc_bom c \<notin> set (enabled_layers professional)) GOVERNANCE_CONTROLS"
  by code_simp+

text \<open>The migration page shows the rows of the latest report even when there are none, and the unified inventory only when the
  report has no list: an empty list hides the inventory.\<close>

theorem empty_migration_hides_inventory:
  assumes "js_prop (js_prop intel ''pqc_readiness'') ''migration'' = JArr []"
  shows "migration_rows intel unified = JArr [] \<and> migration_empty intel unified"
  using assms by (simp add: migration_empty_def migration_rows_def js_or_def)

text \<open>For a list of components, the chip counts them, the explorer is empty exactly when there are none, and a component that
  is not null breaks no page.\<close>

theorem explorer_counts:
  assumes "js_prop data ''cbom'' = JArr rows"
  shows "bom_count data CBOM = JNum (num (int (length rows)))
     \<and> (cbom_explorer fmt data = Some ExplorerEmpty \<longleftrightarrow> rows = [])
     \<and> (list_all not_null rows \<longrightarrow> cbom_explorer fmt data \<noteq> None)"
proof -
  have "those (map (\<lambda>(r, i). explorer_row fmt r i) (zip (take 40 rows) [0..<length (take 40 rows)])) \<noteq> None"
    if "list_all not_null rows"
    using that
    by (subst those_total) (auto simp: list_all_iff explorer_row_def dest!: set_zip_leftD in_set_takeD)
  then show ?thesis
    using assms by (auto simp: bom_count_def cbom_explorer_def js_coalesce_def Let_def)
qed

end
