(* ===== verification/Public_Pages.thy ===== *)
theory Public_Pages
  imports Auth_Context Trail Js_Uri
begin

text \<open>
  The public pages that do something: web/src/data/contacts.ts with pages/ContactHub.tsx, and pages/DemoWelcome.tsx,
  EditionSwitcher.tsx and RequestDemo.tsx, as machines over the session and the guided tour.
\<close>

section \<open>Contacts\<close>

datatype contact_area = Company | Product | Research | Innovation | Partnerships

datatype contact_kind = Leadership | Inbox | Alias | Private | Automated

record contact =
  ct_email :: string
  ct_label :: string
  ct_area :: contact_area
  ct_purpose :: string
  ct_priority :: bool
  ct_publish :: bool
  ct_kind :: contact_kind
  ct_access :: "string option"

definition desk ::
  "string \<Rightarrow> string \<Rightarrow> contact_area \<Rightarrow> string \<Rightarrow> bool \<Rightarrow> bool \<Rightarrow> contact_kind \<Rightarrow> string option \<Rightarrow> contact" where
  "desk e l a p pr pb k acc =
     \<lparr>ct_email = e, ct_label = l, ct_area = a, ct_purpose = p, ct_priority = pr, ct_publish = pb, ct_kind = k, ct_access = acc\<rparr>"

definition ECOSYSTEM_AREAS :: "(contact_area \<times> string \<times> string) list" where
  "ECOSYSTEM_AREAS =
    [(Company, ''Company'',
       ''Formal enquiries, contracts, finance, fundraising, and founder accountability. RivicQ GmbH, Berlin.''),
     (Product, ''Product platform'',
       ''Cryptographic Security Posture Management SaaS, customer support, security disclosures, sales, and automated notifications.''),
     (Research, ''Research & funding'',
       ''University MoUs, R&D proposals, and grant programmes. Addresses are not certifications.''),
     (Innovation, ''Innovation Hub'',
       ''Community programmes, workshops, mentors, and open-source engagement.''),
     (Partnerships, ''Partnerships & expansion'',
       (''Strategic partners, government, media, hiring, and regional aliases '' @ em_dash @ '' not separate mailboxes.''))]"

definition CONTACTS :: "contact list" where
  "CONTACTS =
    [
     desk ''revansai.ande@rivicq.com'' ''Founder & CEO'' Company (''Leadership '' @ em_dash @ '' unpublished on public Pages'')
       True False Leadership None,
     desk ''hello@rivicq.com'' ''General enquiries'' Company ''Main public contact on the website and decks''
       True True Inbox None,
     desk ''info@rivicq.com'' ''Company information'' Company ''Formal introductions''
       False False Alias (Some ''Alias of hello@''),
     desk ''contact@rivicq.com'' ''Website forms'' Company ''Generic prospect entry point''
       False False Alias (Some ''Alias of sales@ or hello@''),
     desk ''investors@rivicq.com'' ''Fundraising'' Company ''Investor outreach and data-room requests''
       True False Inbox (Some ''Founder''),
     desk ''finance@rivicq.com'' ''Finance'' Company ''Invoices, expenses, tax advisor, Zoho Books''
       True False Inbox (Some ''Founder and accountant only''),
     desk ''billing@rivicq.com'' ''Customer invoicing'' Company ''Payments, subscriptions, purchase orders''
       False False Alias (Some ''Alias of finance@''),
     desk ''legal@rivicq.com'' ''Legal & conduct'' Company ''NDAs, terms, IP, and Code of Conduct reports''
       False False Alias (Some ''Founder; conduct@ aliases here''),
     desk ''operations@rivicq.com'' ''Operations'' Company ''Vendors, procurement, administration''
       False False Alias None,
     desk ''sales@rivicq.com'' ''Sales'' Product ''Demos, paid assessments, enterprise pipeline''
       True True Inbox None,
     desk ''support@rivicq.com'' ''Customer support'' Product ''Community and Enterprise technical support''
       True True Inbox None,
     desk ''security@rivicq.com'' ''Security reporting'' Product ''Vulnerability disclosures and incidents''
       True True Inbox (Some ''Security leadership only''),
     desk ''privacy@rivicq.com'' ''Privacy / GDPR'' Product ''Data-subject requests''
       True True Alias (Some ''Alias of legal@ / security@ as needed''),
     desk ''product@rivicq.com'' ''Product'' Product ''CryptoBOM / QBOM platform product questions''
       False False Alias (Some ''Alias of support@''),
     desk ''success@rivicq.com'' ''Customer success'' Product ''Onboarding and account follow-up''
       False False Alias (Some ''Alias of support@''),
     desk ''demo@rivicq.com'' ''Product demos'' Product ''Demo requests''
       False False Alias (Some ''Alias of sales@''),
     desk ''enterprise@rivicq.com'' ''Enterprise'' Product ''Enterprise pipeline and paid assessments''
       False False Alias (Some ''Alias of sales@''),
     desk ''solutions@rivicq.com'' ''Solutions'' Product ''Migration projects and solution design''
       False False Alias (Some ''Alias of sales@''),
     desk ''pqc@rivicq.com'' ''Post-quantum'' Product ''PQC, CBOM, and cryptographic migration questions''
       False False Alias (Some ''Alias of security@ or research@''),
     desk ''cryptography@rivicq.com'' ''Cryptography'' Product ''Cryptographic inventory and migration questions''
       False False Alias (Some ''Alias of security@''),
     desk ''compliance@rivicq.com'' ''Compliance mappings'' Product (''DORA / NIS2 / CRA / BSI mapping questions '' @ em_dash @ '' not a certification desk'')
       False False Alias (Some ''Alias of security@''),
     desk ''trust@rivicq.com'' ''Trust'' Product ''Security trust and disclosure coordination''
       False False Alias (Some ''Alias of security@''),
     desk ''engineering@rivicq.com'' ''Engineering'' Product (''Development coordination '' @ em_dash @ '' not a public support desk'')
       False False Alias None,
     desk ''research@rivicq.com'' ''Research'' Research ''R&D proposals and academic partners''
       True False Inbox None,
     desk ''grants@rivicq.com'' ''Grants'' Research ''BSS, EXIST, ZIM, EU, startup programmes''
       True False Inbox (Some ''Founder and operations''),
     desk ''rnd@rivicq.com'' ''R&D'' Research ''Research and development coordination''
       False False Alias (Some ''Alias of research@''),
     desk ''academia@rivicq.com'' ''Academia'' Research ''University MoUs and academic introductions''
       False False Alias (Some ''Alias of research@''),
     desk ''innovationhub@rivicq.com'' ''Innovation Hub'' Innovation ''Deep-tech programmes and founder ecosystem''
       True False Inbox None,
     desk ''community@rivicq.com'' ''Community'' Innovation ''Open-source and student engagement''
       False False Alias (Some ''Alias of innovationhub@''),
     desk ''events@rivicq.com'' ''Events'' Innovation ''Conferences, workshops, registrations''
       False False Alias (Some ''Alias of innovationhub@''),
     desk ''programs@rivicq.com'' ''Programmes'' Innovation ''Hub programmes and workshops''
       False False Alias (Some ''Alias of innovationhub@''),
     desk ''mentors@rivicq.com'' ''Mentors'' Innovation ''Mentor network coordination''
       False False Alias (Some ''Alias of innovationhub@''),
     desk ''opensource@rivicq.com'' ''Open source'' Innovation ''CryptoBOM open source and GitHub contributors''
       False False Alias (Some ''Alias of community@''),
     desk ''developers@rivicq.com'' ''Developers'' Innovation ''Technical community''
       False False Alias (Some ''Alias of community@''),
     desk ''maintainers@rivicq.com'' ''Maintainers'' Innovation ''Maintainer coordination''
       False False Alias None,
     desk ''contributors@rivicq.com'' ''Contributors'' Innovation ''Contributor coordination''
       False False Alias None,
     desk ''partnerships@rivicq.com'' ''Partnerships'' Partnerships ''Cloud, quantum, university, and public-sector partners''
       True False Inbox None,
     desk ''alliances@rivicq.com'' ''Alliances'' Partnerships ''Alliance and channel coordination''
       False False Alias (Some ''Alias of partnerships@''),
     desk ''government@rivicq.com'' ''Government'' Partnerships (''Public-sector introductions '' @ em_dash @ '' not a hotline'')
       False False Alias (Some ''Alias of partnerships@''),
     desk ''publicsector@rivicq.com'' ''Public sector'' Partnerships ''Critical-infrastructure partner introductions''
       False False Alias (Some ''Alias of partnerships@''),
     desk ''europe@rivicq.com'' ''Europe'' Partnerships ''Regional coordination alias''
       False False Alias (Some ''Alias of partnerships@''),
     desk ''india@rivicq.com'' ''India'' Partnerships ''Regional coordination alias''
       False False Alias (Some ''Alias of partnerships@''),
     desk ''usa@rivicq.com'' ''United States'' Partnerships ''Regional coordination alias''
       False False Alias (Some ''Alias of partnerships@''),
     desk ''asia@rivicq.com'' ''Asia'' Partnerships ''Regional coordination alias''
       False False Alias (Some ''Alias of partnerships@''),
     desk ''estonia@rivicq.com'' ''Estonia'' Partnerships ''Regional coordination alias''
       False False Alias (Some ''Alias of partnerships@''),
     desk ''press@rivicq.com'' ''Press'' Partnerships ''PR, podcasts, speaking invitations''
       False False Alias None,
     desk ''marketing@rivicq.com'' ''Marketing'' Partnerships ''Marketing collaborations''
       False False Alias (Some ''Alias of press@''),
     desk ''brand@rivicq.com'' ''Brand'' Partnerships ''Brand assets and trademark questions''
       False False Alias (Some ''Alias of legal@ or press@''),
     desk ''social@rivicq.com'' ''Social'' Partnerships ''Social and community collaborations''
       False False Alias (Some ''Alias of press@ or community@''),
     desk ''careers@rivicq.com'' ''Careers'' Partnerships ''Candidates, internships, advisors''
       False False Alias None,
     desk ''talent@rivicq.com'' ''Talent'' Partnerships ''Hiring coordination''
       False False Alias (Some ''Alias of careers@''),
     desk ''advisors@rivicq.com'' ''Advisors'' Partnerships ''Advisor introductions''
       False False Alias (Some ''Alias of careers@ or hello@''),
     desk ''team@rivicq.com'' ''Team'' Partnerships (''Internal team coordination '' @ em_dash @ '' not a public desk'')
       False False Alias None,
     desk ''admin@rivicq.com'' ''Domain administration'' Company ''Critical tool and account ownership only''
       True False Private (Some (''RivicQ-controlled MFA and recovery '' @ em_dash @ '' never a personal account alone'')),
     desk ''noreply@rivicq.com'' ''Automated mail'' Product ''Product notifications, alerts, and verification''
       False False Automated None,
     desk ''alerts@rivicq.com'' ''Platform alerts'' Product ''Security and product alerts''
       False False Automated None,
     desk ''status@rivicq.com'' ''Status updates'' Product ''Service status notifications''
       False False Automated None]"

definition publishedContacts :: "contact list" where
  "publishedContacts = filter ct_publish CONTACTS"

definition priorityContacts :: "contact list" where
  "priorityContacts = filter (\<lambda>c. ct_priority c \<and> (ct_publish c \<or> ct_kind c = Private)) CONTACTS"

definition publishedPriorityContacts :: "contact list" where
  "publishedPriorityContacts = filter ct_priority publishedContacts"

definition contactsByArea :: "contact_area \<Rightarrow> contact list" where
  "contactsByArea a = filter (\<lambda>c. ct_area c = a) publishedContacts"

definition mailto :: "string \<Rightarrow> string" where "mailto e = ''mailto:'' @ e"

section \<open>The edition switcher\<close>

definition chooseEdition :: "edition \<Rightarrow> 'a auth_scheme \<Rightarrow> string \<times> 'a auth_scheme" where
  "chooseEdition e a = (''/login'', a\<lparr>local_storage := setEditionPreference e (local_storage a)\<rparr>)"

section \<open>The way into the demo\<close>

text \<open>The page over the session and the tour; both use the session storage, the tour last.\<close>

record welcome_page =
  wl_loading :: bool
  wl_error :: string
  wl_copied :: bool

definition welcome_init :: welcome_page where
  "welcome_init = \<lparr>wl_loading = False, wl_error = [], wl_copied = False\<rparr>"

text \<open>What \<open>enterDemo\<close> does once the demo session was answered: the tour starts, or is skipped for the dashboard.\<close>

definition toured :: "(rat \<Rightarrow> string) \<Rightarrow> bool \<Rightarrow> trail \<Rightarrow> trail option" where
  "toured fmt withTrail t = (if withTrail then start fmt t else Some ((skip fmt t)\<lparr>tl_path := ''/dashboard'', tl_query := False\<rparr>))"

definition enterDemo ::
  "(jval \<Rightarrow> string) \<Rightarrow> (rat \<Rightarrow> string) \<Rightarrow> string + jval \<Rightarrow> bool \<Rightarrow> welcome_page \<times> 'a auth_scheme \<times> trail
     \<Rightarrow> welcome_page \<times> 'a auth_scheme \<times> trail" where
  "enterDemo stringify fmt response withTrail w =
     (case w of (p, a, t) \<Rightarrow>
        (let (failed, a1) = (if \<not> isAuthenticated a \<or> \<not> isDemo a then demoLogin stringify fmt response a else (None, a))
         in case failed of
              Some e \<Rightarrow> (p\<lparr>wl_loading := False, wl_error := or_str e ''Demo access is unavailable on this deployment.''\<rparr>, a1, t)
            | None \<Rightarrow>
                (case toured fmt withTrail t of
                   Some t1 \<Rightarrow> (p\<lparr>wl_loading := False, wl_error := []\<rparr>, a1, t1)
                 | None \<Rightarrow> (p\<lparr>wl_loading := False, wl_error := ''Demo access is unavailable on this deployment.''\<rparr>, a1, t))))"

definition skipTour :: "(rat \<Rightarrow> string) \<Rightarrow> 'a auth_scheme \<Rightarrow> trail \<Rightarrow> trail" where
  "skipTour fmt a t = (skip fmt t)\<lparr>tl_path := (if isAuthenticated a then ''/dashboard'' else ''/login''), tl_query := False\<rparr>"

definition copied_scan :: "bool \<Rightarrow> welcome_page \<Rightarrow> welcome_page" where
  "copied_scan taken p = (if taken then p\<lparr>wl_copied := True\<rparr> else p)"

section \<open>Asking for a demo\<close>

record lead_form =
  lf_name :: string
  lf_email :: string
  lf_company :: string
  lf_intent :: string

record request_page =
  rq_form :: lead_form
  rq_loading :: bool
  rq_done :: bool
  rq_error :: string

definition INTENTS :: "(string \<times> string) list" where
  "INTENTS = [(''demo'', ''Enterprise demo''), (''poc'', ''Book a PoC''), (''pilot'', ''CBOM pilot''),
     (''ibm'', ''IBM Partner Plus conversation'')]"

definition request_init :: request_page where
  "request_init =
     \<lparr>rq_form = \<lparr>lf_name = [], lf_email = [], lf_company = [], lf_intent = ''demo''\<rparr>, rq_loading = False, rq_done = False,
      rq_error = []\<rparr>"

definition lead_json :: "lead_form \<Rightarrow> jval" where
  "lead_json f =
     JObj [(''name'', JStr (lf_name f)), (''email'', JStr (lf_email f)), (''company'', JStr (lf_company f)),
           (''intent'', JStr (lf_intent f)), (''source'', JStr ''request-demo'')]"

definition newline :: string where "newline = [CHR 10]"

definition lead_mail :: "lead_form \<Rightarrow> string" where
  "lead_mail f =
     ''mailto:sales@rivicq.com?subject='' @ encodeURIComponent (''RivicQ '' @ lf_intent f) @ ''&body=''
     @ encodeURIComponent (''Name: '' @ lf_name f @ newline @ ''Company: '' @ lf_company f @ newline @ ''Intent: '' @ lf_intent f
         @ newline)"

text \<open>What a submission does: it opens a mail, or sends the lead and shows how it was answered.\<close>

datatype submission = MailOpened string | LeadSent api_request

definition submit_lead :: "bool \<Rightarrow> string + jval \<Rightarrow> request_page \<Rightarrow> submission \<times> request_page" where
  "submit_lead reachable answer p =
     (if \<not> reachable then (MailOpened (lead_mail (rq_form p)), p\<lparr>rq_error := []\<rparr>)
      else (LeadSent (platformService_createLead (lead_json (rq_form p))),
            (case answer of
               Inr _ \<Rightarrow> p\<lparr>rq_error := [], rq_done := True, rq_loading := False\<rparr>
             | Inl e \<Rightarrow> p\<lparr>rq_error := or_str e ''Unable to record the request. Email sales@rivicq.com.'', rq_loading := False\<rparr>)))"

definition submit_label :: "bool \<Rightarrow> request_page \<Rightarrow> string" where
  "submit_label reachable p =
     (if rq_loading p then ''Sending'' @ [CHR 0xE2, CHR 0x80, CHR 0xA6] else if reachable then ''Submit request'' else ''Email sales@'')"

section \<open>Properties\<close>

lemma contact_emails_distinct: "distinct (map ct_email CONTACTS)"
  by code_simp

text \<open>The five public desks; no address of finance, of a founder or of the domain's administration is published, and a
  mailbox that is not a desk is not published.\<close>

theorem published_desks:
  "map ct_email publishedContacts =
     [''hello@rivicq.com'', ''sales@rivicq.com'', ''support@rivicq.com'', ''security@rivicq.com'', ''privacy@rivicq.com'']
   \<and> list_all (\<lambda>c. ct_kind c \<in> {Inbox, Alias}) publishedContacts
   \<and> publishedPriorityContacts = publishedContacts
   \<and> concat (map contactsByArea [Company, Product, Research, Innovation, Partnerships]) = publishedContacts"
  by code_simp

lemma tour_from_start:
  "\<exists>t'. toured fmt withTrail t = Some t' \<and> tl_active t' = withTrail \<and> tl_path t' = ''/dashboard''"
proof (cases withTrail)
  case True
  have "tr_path (DEMO_TRAIL_STEPS ! 1) = ''/dashboard''" by (simp add: DEMO_TRAIL_STEPS_def)
  with True step_at_index [of 1] show ?thesis
    by (simp add: toured_def start_def navigate_to_def Trail.persist_def Let_def)
next
  case False
  then show ?thesis by (simp add: toured_def skip_def Trail.persist_def Let_def)
qed

lemma offline_login:
  assumes "\<not> au_reachable a"
  shows "\<exists>b. demoLogin sf fmt r a = (None, b) \<and> au_token b = Some CLIENT_DEMO_TOKEN \<and> au_edition b = community"
  using assms by (simp add: demoLogin_def Auth_Context.persist_def Let_def)

lemma demoLogin_refused: "au_reachable a \<Longrightarrow> demoLogin sf fmt (Inl e) a = (Some e, a)"
  by (simp add: demoLogin_def)

text \<open>Without a backend the demo always opens, on the dashboard, with the tour or without, and a session that is no demo is
  replaced by the demo's, whosoever's it was; a backend that refuses leaves the session and the tour as they were and its
  message on the page.\<close>

theorem demo_entered:
  assumes "enterDemo sf fmt r withTrail (p, a, t) = (p', a', t')"
  shows "(\<not> au_reachable a \<longrightarrow>
           wl_error p' = [] \<and> isAuthenticated a' \<and> isDemo a' \<and> tl_path t' = ''/dashboard'' \<and> tl_active t' = withTrail
           \<and> (\<not> isDemo a \<longrightarrow> au_token a' = Some CLIENT_DEMO_TOKEN \<and> au_edition a' = community))
       \<and> (au_reachable a \<and> \<not> isDemo a \<and> r = Inl e \<longrightarrow> a' = a \<and> t' = t \<and> wl_error p' \<noteq> [])
       \<and> \<not> wl_loading p'"
proof -
  obtain u where u: "toured fmt withTrail t = Some u" "tl_active u = withTrail" "tl_path u = ''/dashboard''"
    using tour_from_start by blast
  have k: "CLIENT_DEMO_TOKEN \<noteq> []" by (simp add: CLIENT_DEMO_TOKEN_def)
  show ?thesis
  proof (cases "isAuthenticated a \<and> isDemo a")
    case True
    with assms u show ?thesis by (auto simp: enterDemo_def)
  next
    case False
    show ?thesis
    proof (cases "au_reachable a")
      case True
      then show ?thesis
        using assms u False by (auto simp: enterDemo_def demoLogin_refused or_str_def split: prod.splits option.splits if_splits)
    next
      case unreached: False
      obtain b where b: "demoLogin sf fmt r a = (None, b)" "au_token b = Some CLIENT_DEMO_TOKEN" "au_edition b = community"
        using offline_login [OF unreached] by blast
      have "isAuthenticated b" "isDemo b" using b k by (simp_all add: isAuthenticated_def isDemo_def isClientDemoToken_def truthy_opt_def)
      then show ?thesis using assms u False unreached b by (auto simp: enterDemo_def)
    qed
  qed
qed

lemma stored_after_choice:
  assumes "sg_mode s = Usable" "readStoredAuth parse s = (tk, u, ed)" "tk \<noteq> None"
  shows "readStoredAuth parse (setEditionPreference e s) = (tk, u, e)"
  using assms
  by (auto simp: readStoredAuth_def setEditionPreference_def normalizeEdition_name Let_def split: option.splits if_splits)

text \<open>C35: The edition picked on the public switcher is stored, not the session's until the next load; then, unless the backend
  answers for the profile, a stored session has it and the guards of the paid pages let it through.\<close>

theorem switcher_opens_paid_pages:
  assumes "sg_mode (local_storage a) = Usable" "fst (readStoredAuth parse (local_storage a)) \<noteq> None" "session_user sess = None"
  shows "au_edition (snd (chooseEdition enterprise a)) = au_edition a
    \<and> RequireEnterprise layers (init stringify parse fmt sess backend (Inl e) (snd (chooseEdition enterprise a))) x = Children x"
proof -
  obtain tk u ed where st: "readStoredAuth parse (local_storage a) = (tk, u, ed)" by (metis prod_cases3)
  have "snd (snd (readStoredAuth parse (local_storage (snd (chooseEdition enterprise a))))) = enterprise"
    using stored_after_choice [OF assms(1) st] assms(2) st by (simp add: chooseEdition_def)
  then have "au_edition (init stringify parse fmt sess backend (Inl e) (snd (chooseEdition enterprise a))) = enterprise"
    using init_edition [OF assms(3)] by metis
  then show ?thesis by (simp add: RequireEnterprise_def isEnterpriseEdition_def isPaidEdition_def chooseEdition_def)
qed

theorem switcher_opens_paid_pages_witness:
  "RequireEnterprise True (init unary_stringify unary_parse (\<lambda>_. []) None (\<lambda>a. (None, a)) (Inl [])
     (snd (chooseEdition enterprise (ex_auth [(''auth_token'', ''jwt'')] False)))) () = Children ()"
proof -
  have "fst (readStoredAuth unary_parse (local_storage (ex_auth [(''auth_token'', ''jwt'')] False))) \<noteq> None"
    by (simp add: ex_auth_def readStoredAuth_def Let_def truthy_opt_def)
  then show ?thesis
    using switcher_opens_paid_pages [of "ex_auth [(''auth_token'', ''jwt'')] False" unary_parse None True unary_stringify "\<lambda>_. []"
        "\<lambda>a. (None, a)" "[]" "()"]
    by (simp add: session_user_def ex_auth_def)
qed

text \<open>Without a backend a request for a demo opens a mail, never sends a lead and never reports one recorded.\<close>

theorem lead_without_backend:
  "fst (submit_lead False answer p) = MailOpened (lead_mail (rq_form p))
   \<and> rq_done (snd (submit_lead False answer p)) = rq_done p
   \<and> (\<exists>r. fst (submit_lead True answer p) = LeadSent r \<and> aq_data r = lead_json (rq_form p))
   \<and> (rq_done (snd (submit_lead True answer p)) = rq_done p \<or> (\<exists>d. answer = Inr d))"
  by (cases answer) (simp_all add: submit_lead_def platformService_createLead_def api_post_def)

end
