(* ===== verification/Spec2Isabelle.thy ===== *)
theory Spec2Isabelle
  imports Convex_App R2_Worker Roles Editions Scoring Auth_Context Trail Ops_Findings Ops_Nav Dashboard_Adapter Console_Access Workspace_Context Scan_Demo Github_Scan Fabric_App Home_Scan Account_Pages Findings_Page Infra_Discovery Assistant_Panel Analytics_Page Layout_Shell Hub_Pages Public_Pages
begin

text \<open>
  A model of the TypeScript sources of RivicQ CSPM, a console for cloud and cryptographic posture management, with
  the theorems that make it correct.

  \<^bold>\<open>The program.\<close>  Its TypeScript has four parts.  integrations/convex is the multi-tenant backend: users, tenants,
  memberships, scans and findings, with an HTTP action through which a scan worker delivers its results.
  integrations/r2 is a worker that signs uploads and downloads of one bucket.  web is the console, a React
  application: editions and API discovery (config), a session (context), an HTTP client (services), a demo that
  answers the scan API inside the browser (demo), a seeded simulation of an estate with its scoring and dashboard
  (data/enterprise), the operator console (ops, layouts, components/ops) and the pages.  fabric is a second React
  application, tables of a labelled synthetic estate beside a security graph.  The parts meet in
  these places: a page sends its requests through the client, whose interceptors read the session and whose adapter
  hands them to the demo responder while the session is a demo; every page is reached through the route table and
  its guards, which read the session and the edition; the dashboard and the workspace fall back to the simulation
  when the API brings nothing; the worker's results reach the console through the tenant of the scan.

  \<^bold>\<open>The language.\<close>
  \<^item> \<open>Prelude\<close>: strings and arrays, association lists for object literals, the shared lemmas and collections.
  \<^item> \<open>Js_Number\<close>, \<open>Js_Interval\<close>: binary64 arithmetic with its rounding, and interval rules for it.
  \<^item> \<open>Js_Value\<close>, \<open>Json\<close>, \<open>Js_Date\<close>, \<open>Js_Uri\<close>: JSON values and their conversions, JSON as an interface
    whose law is what the language documents, ISO dates with a proved round trip, URI components with one.
  \<^item> \<open>Js_Query\<close>: the query of an address (URLSearchParams), with the form encoding and its round trip.
  \<^item> \<open>Browser\<close>: a browser storage that may be full or blocked, so that every access may throw.
  \<^item> \<open>Contracts\<close>: locales for machines whose steps keep an invariant, machines that make progress and functions that
    normalise, interpreted by the components below; \<open>Convex_Store\<close>: the database of the backend, whose five calls are a
    record, with the laws of a well-behaved table as a locale, interpreted on an executable table.

  \<^bold>\<open>The backend.\<close>
  \<^item> \<open>Convex_Users\<close>, \<open>Convex_Tenants\<close>, \<open>Convex_Scans\<close>: users.ts, tenants.ts and scans.ts, one definition per handler, a
    thrown error as \<open>Inl\<close>.  \<open>Convex_App\<close>: http.ts and the seven mutations (tenants, scans, results of the
    worker, memberships, billing events) as one machine over requests; an invariant relates a finding to the tenant of its
    scan, and what each query answers a caller does not change under requests of other tenants.  Organisations are
    isolated by the adder's stored membership and not by the adder's token, which is what createOrgMember reads.
  \<^item> \<open>R2_Worker\<close>: worker.ts, every branch of its answer; no URL is signed for a request that fails a guard.

  \<^bold>\<open>The session of the console.\<close>
  \<^item> \<open>Editions\<close>, \<open>Roles\<close>: config/editions.ts and auth/roles.ts with RequireRole.tsx.
  \<^item> \<open>Api_Services\<close>, \<open>Api_Client\<close>: services/api.ts, the requests of every service object and the client's base URL,
    interceptors and adapter.
  \<^item> \<open>Supabase_Auth\<close>, \<open>Auth_Context\<close>: services/supabase.ts and context/AuthContext.tsx, the provider's state and operations as
    a machine over the loads of a page and its operations; from the first load on, whatever the storage held, the React
    state and the storage tell the same session, as long as the events are those the theorem names.
  \<^item> \<open>Auth_Pages\<close>, \<open>Account_Pages\<close>: sign-in, callback, password and verification pages, settings and the admin page.
  \<^item> \<open>Console_Shell\<close>, \<open>Console_Access\<close>: App.tsx, Layout.tsx and CommandPalette.tsx; which pages a session opens, path by path
    over the whole route table.

  \<^bold>\<open>Scanning.\<close>
  \<^item> \<open>Demo_Constants\<close>, \<open>Demo_Scan\<close>, \<open>Trail\<close>: demo/constants.ts, scanDemo.ts, trail.ts and DemoTrailContext.tsx.
  \<^item> \<open>Scan_Page\<close>: pages/Scanner.tsx as a machine whose events are the controls, the ticks of the polling timer and the
    answers in whatever order they arrive.  \<open>Scan_Demo\<close> composes it with the client and the responder: in a demo session
    every scan the page starts completes.
  \<^item> \<open>Github_Scan\<close>, \<open>Home_Scan\<close>: GitHubRepoScanPanel.tsx and the scan of the front page (Home.tsx).

  \<^bold>\<open>Posture and workspace.\<close>
  \<^item> \<open>Sources\<close>, \<open>Cve_Catalog\<close>, \<open>Frameworks\<close>, \<open>Scoring\<close>: the catalogues of data/enterprise and the scores.
  \<^item> \<open>Random_Draws\<close>, \<open>Simulation\<close>, \<open>Simulation_Facts\<close>, \<open>Simulation_Findings\<close>, \<open>Simulation_Charts\<close>, \<open>Simulation_View\<close>:
    simulation.ts; the generator is mulberry32 on 32-bit words, a draw is a step of the state monad, and what is proved
    of the estate holds for every state of the generator.  \<open>Dashboard_Adapter\<close>: adapter.ts.
  \<^item> \<open>Security_Modules\<close>: config/modules.ts.  \<open>Workspace_Demo\<close>, \<open>Workspace_Context\<close>: workspaceDemo.ts, demoViews.ts,
    useWorkspaceContext.ts and aiAssistant.ts.
  \<^item> \<open>Ops_Findings\<close>, \<open>Ops_Nav\<close>: ops/findings.ts, navigation.ts, helpCopy.ts, persona.ts.

  \<^bold>\<open>The operator's pages.\<close>
  \<^item> \<open>Findings_Page\<close>: pages/Findings.tsx, the queue with its filters kept in the address, its saved views and the exported CSV.
  \<^item> \<open>Asset_Pages\<close>: pages/Assets.tsx and AssetDetails.tsx; \<open>Report_Export\<close>: utils/reportExport.ts, whose text is escaped
    in one place and not in another.
  \<^item> \<open>Infra_Discovery\<close>: pages/InfraDiscovery.tsx, the four scans of an estate, their canned progress and what the page shows
    of the answer.
  \<^item> \<open>Assistant_Panel\<close>: the three assistants (components/assistant, AIAssistantPanel, ContextualAIAssistant) as a machine
    over the conversation.
  \<^item> \<open>Compliance_Page\<close>: pages/enterprise/Compliance.tsx as a machine whose answers arrive in any order, ConformancePacks.tsx and
    CSPM.tsx; \<open>Enterprise_Pages\<close>: Terraform.tsx, MultiCloud.tsx, CNCF.tsx, Quantum.tsx, Inventory.tsx, AWSCloud.tsx, IBMCloud.tsx
    and CloudPosture.tsx of the same directory; \<open>Analytics_Page\<close>: pages/Analytics.tsx.  The lemmas say what of an answer is shown
    and what stands in for a missing one: the sample only in a demo on the compliance page, everywhere on others.
  \<^item> \<open>Dashboard_Page\<close>: pages/Dashboard.tsx over the view of the adapter, its drawer and what the widgets of components/dashboard
    compute.  \<open>Layout_Shell\<close>: layouts/Layout.tsx as a machine over the session; what it stores comes back after a reload.
  \<^item> \<open>Hub_Pages\<close>: data/bomFramework.ts and securityChecklists.ts with the pages about bills of materials, governance, migration,
    connectors and leads.  \<open>Public_Pages\<close>: data/contacts.ts, DemoWelcome.tsx, EditionSwitcher.tsx and RequestDemo.tsx, which act
    on the session and the tour.

  \<^bold>\<open>The fabric application.\<close>
  \<^item> \<open>Data_Table\<close>: DataTable.tsx, a machine over its search, order, page and selection; the order is compared with that of
    numbers and of strings, and the CSV it exports with a parser that reads it back.
  \<^item> \<open>Fabric_Catalog\<close>, \<open>Fabric_Graph\<close>, \<open>Fabric_Pages\<close>, \<open>Fabric_App\<close>: the estate, the graph, the pages with a table (the graph beside it,
    or, for the policies, in the drawer of the open row), and the shell with its routes, palette, session and the pages that step through stages and lenses.

  \<^bold>\<open>Conventions.\<close>  A string is its UTF-8 bytes; case conversion, trimming and character classes act on ASCII.  An object whose
  shape the sources fix is a record; one they only pass on, or receive from an API, is a JSON value.  A thrown
  exception, a rejected promise and a failed request are values (\<open>Inl\<close>, \<open>None\<close> or an outcome type).  A React component is its state
  variables, its handlers and the decisions of what it shows; what an asynchronous handler waits for is an argument or an event.
  A time is a number of milliseconds.

  \<^bold>\<open>Parameters.\<close>  The decimal text of a number that is not integral (\<open>fmt\<close>), \<open>toLocaleString\<close> (\<open>loc\<close>), JSON's pair of
  functions, the parts of a parsed URL, the database, the clock, and every answer of a server.  Theorems assume of
  them at most what is documented (the law of the locale \<open>json\<close>, the laws of the table, a clock within the range of dates), and
  a witness instantiates each such assumption with concrete functions.

  \<^bold>\<open>Bounds.\<close>  No definition runs on fuel that the source does not have.  The loops that wait for an answer have the attempts of
  the source: 40 polls of the scanner page, 90 of the GitHub panel, 41 ticks of the front page's scan, and each is
  proved to stop after them whatever the answers are; the discovery of the fabric has its 11 stages, a table shows
  8 rows by default, the asset list 25, the recent searches keep 8, the progress of a discovery scan has 14 lines.  The generator's arithmetic is exact below \<open>2 ^ 53\<close>; dates are
  those of ECMAScript, \<open>8.64e15\<close> milliseconds either side of 1970.

  \<^bold>\<open>Not modelled.\<close>
  \<^item> The Go backend, the deployment files and the workflows: another language, or configuration.  What the console relies on of the
    backend's answers is an argument of the definitions that read them.
  \<^item> The markup, colours, motion and charts of the components (theme, components/brand and the drawing half of every
    page and of components/dashboard): layout, for which the sources state no contract beyond what the handlers and the selection of contents above carry.
  \<^item> The marketing and reference pages (RivicQEcosystem, IBMPartner, Pricing, ArchifyMaps, SitePage and the like): fixed text.
  \<^item> integrations/posthog, stripe and better-auth, and the hooks nothing calls (useApi, useQuantumScan, useHSMStatus,
    useCloudConnection): configuration of libraries, or dead code.
\<close>

end
